(* ===== verification/HZ_Prelude.thy ===== *)
theory HZ_Prelude
  imports Main "HOL-Library.Word" "HOL-Library.Sublist" "HOL-Library.Monad_Syntax"
begin

text \<open>
  Shared vocabulary of the development: the Go integer types as words, the type of
  computations that may panic, the functions of the Go standard library the sources call
  (packages \<^verbatim>\<open>strings\<close> and \<^verbatim>\<open>strconv\<close>), the theorem collections used across the
  components and the generic list lemmas they share.

  Strings are Go strings: sequences of bytes. The white space of \<^verbatim>\<open>strings.TrimSpace\<close> is
  the ASCII white space (the multi-byte Unicode spaces are left alone).
\<close>

unbundle bit_operations_syntax

subsection \<open>Integers, pointers, panics\<close>

type_synonym int32 = "32 word"
type_synonym int64 = "64 word"
type_synonym uint32 = "32 word"
type_synonym uint64 = "64 word"
type_synonym uint = "64 word"
type_synonym byte = "8 word"

text \<open>
  \<open>'a go\<close> is the result of a Go call that may panic (nil dereference, index out of
  range): \<open>None\<close> is the panic. A Go pointer \<^verbatim>\<open>*T\<close> is \<open>'a option\<close>, \<open>None\<close> being nil.
\<close>

type_synonym 'a go = "'a option"

text \<open>Theorem collections: unfolding rules of a component's operations, and facts that an
  operation keeps.\<close>

named_theorems op_defs "defining equations of operations, unfolded together"
named_theorems kept "what an operation leaves unchanged"

subsection \<open>The functions of package strings\<close>

definition HasPrefix :: "string \<Rightarrow> string \<Rightarrow> bool" where
  "HasPrefix s p = prefix p s"

definition HasSuffix :: "string \<Rightarrow> string \<Rightarrow> bool" where
  "HasSuffix s p = suffix p s"

definition Contains :: "string \<Rightarrow> string \<Rightarrow> bool" where
  "Contains s t = sublist t s"

definition TrimSuffix :: "string \<Rightarrow> string \<Rightarrow> string" where
  "TrimSuffix s p = (if suffix p s then take (length s - length p) s else s)"

definition is_space :: "char \<Rightarrow> bool" where
  "is_space c = (c \<in> {CHR '' '', CHR 0x09, CHR 0x0A, CHR 0x0B, CHR 0x0C, CHR 0x0D})"

definition TrimSpace :: "string \<Rightarrow> string" where
  "TrimSpace s = rev (dropWhile is_space (rev (dropWhile is_space s)))"

text \<open>\<^verbatim>\<open>strings.Split\<close>: cut at every non-overlapping occurrence of the separator, from
  the left. An empty separator cuts between all bytes.\<close>

function splitAt :: "string \<Rightarrow> string \<Rightarrow> string \<Rightarrow> string list" where
  "splitAt sep acc s =
     (if sep \<noteq> [] \<and> prefix sep s then rev acc # splitAt sep [] (drop (length sep) s)
      else case s of [] \<Rightarrow> [rev acc] | c # cs \<Rightarrow> splitAt sep (c # acc) cs)"
  by pat_completeness auto
termination
proof (relation "measure (\<lambda>(sep, acc, s). length s)", goal_cases)
  case 1
  show ?case by simp
next
  case (2 sep acc s)
  then show ?case by (cases s) (auto simp: prefix_def)
next
  case (3 sep acc s c cs)
  then show ?case by simp
qed

declare splitAt.simps [simp del]

definition Split :: "string \<Rightarrow> string \<Rightarrow> string list" where
  "Split s sep = (if sep = [] then map (\<lambda>c. [c]) s else splitAt sep [] s)"

fun Join :: "string list \<Rightarrow> string \<Rightarrow> string" where
  "Join [] sep = []"
| "Join [s] sep = s"
| "Join (s # t # ss) sep = s @ sep @ Join (t # ss) sep"

subsection \<open>Decimal numerals (package strconv, and the verb d of package fmt)\<close>

definition digit_char :: "nat \<Rightarrow> char" where
  "digit_char d = char_of (48 + d)"

fun showNat :: "nat \<Rightarrow> string" where
  "showNat n = (if n < 10 then [digit_char n] else showNat (n div 10) @ [digit_char (n mod 10)])"

declare showNat.simps [simp del]

definition Itoa :: "int \<Rightarrow> string" where
  "Itoa i = (if i < 0 then CHR ''-'' # showNat (nat (- i)) else showNat (nat i))"

subsection \<open>Splitting and joining\<close>

lemma splitAt_nonempty [simp]: "splitAt sep acc s \<noteq> []"
proof (induction sep acc s rule: splitAt.induct)
  case (1 sep acc s)
  show ?case
  proof (cases s)
    case Nil
    then show ?thesis by (simp add: splitAt.simps [of sep acc "[]"])
  next
    case (Cons c t)
    with 1 show ?thesis by (auto simp: splitAt.simps [of sep acc "c # t"])
  qed
qed

lemma splitAt_sep [simp]:
  "sep \<noteq> [] \<Longrightarrow> splitAt sep acc (sep @ s) = rev acc # splitAt sep [] s"
  by (subst splitAt.simps) simp

lemma splitAt_char:
  "\<not> prefix sep (c # s) \<Longrightarrow> splitAt sep acc (c # s) = splitAt sep (c # acc) s"
  by (subst splitAt.simps) simp

lemma splitAt_Nil [simp]: "splitAt sep acc [] = [rev acc]"
  by (subst splitAt.simps) (simp add: prefix_def)

text \<open>The first cut is at the first occurrence of the separator; without one there is
  no cut.\<close>

lemma splitAt_first:
  assumes "sep \<noteq> []" and "\<forall>k < length u. \<not> prefix sep (drop k (u @ sep @ v))"
  shows "splitAt sep acc (u @ sep @ v) = (rev acc @ u) # splitAt sep [] v"
  using assms(2)
proof (induction u arbitrary: acc)
  case Nil
  with assms(1) show ?case by simp
next
  case (Cons c u)
  have "\<not> prefix sep (c # u @ sep @ v)" using Cons.prems by force
  moreover have "\<forall>k < length u. \<not> prefix sep (drop k (u @ sep @ v))"
    using Cons.prems by (metis Suc_less_eq append_Cons drop_Suc_Cons length_Cons)
  ultimately show ?case using Cons.IH by (simp add: splitAt_char)
qed

lemma splitAt_none:
  assumes "sep \<noteq> []" and "\<forall>k < length u. \<not> prefix sep (drop k u)"
  shows "splitAt sep acc u = [rev acc @ u]"
  using assms(2)
proof (induction u arbitrary: acc)
  case Nil
  show ?case by simp
next
  case (Cons c u)
  have "\<not> prefix sep (c # u)" using Cons.prems by force
  moreover have "\<forall>k < length u. \<not> prefix sep (drop k u)"
    using Cons.prems by (metis Suc_less_eq drop_Suc_Cons length_Cons)
  ultimately show ?case using Cons.IH by (simp add: splitAt_char)
qed

lemma Join_Cons: "ss \<noteq> [] \<Longrightarrow> Join (s # ss) sep = s @ sep @ Join ss sep"
  by (cases ss) simp_all

lemma Join_splitAt: "sep \<noteq> [] \<Longrightarrow> Join (splitAt sep acc s) sep = rev acc @ s"
proof (induction sep acc s rule: splitAt.induct)
  case (1 sep acc s)
  show ?case
  proof (cases "prefix sep s")
    case True
    then obtain t where "s = sep @ t" by (auto simp: prefix_def)
    with 1 True show ?thesis by (simp add: Join_Cons)
  next
    case False
    with 1 show ?thesis by (cases s) (simp_all add: splitAt_char)
  qed
qed

lemma Join_Split: "sep \<noteq> [] \<Longrightarrow> Join (Split s sep) sep = s"
  by (simp add: Split_def Join_splitAt)

lemma Split_Join_char:
  assumes "us \<noteq> []" and "\<forall>u \<in> set us. c \<notin> set u"
  shows "Split (Join us [c]) [c] = us"
proof -
  have cut: "splitAt [c] acc (u @ [c] @ v) = (rev acc @ u) # splitAt [c] [] v"
    if "c \<notin> set u" for acc u v
    using that by (intro splitAt_first) (auto simp: nth_append Cons_nth_drop_Suc [symmetric])
  have none: "splitAt [c] acc u = [rev acc @ u]" if "c \<notin> set u" for acc u
    using that by (intro splitAt_none) (auto simp: Cons_nth_drop_Suc [symmetric])
  from assms show ?thesis
    unfolding Split_def
    by (induction us "[c]" rule: Join.induct) (auto simp: cut none simp del: append_Cons)
qed

lemma Split_char_parts:
  assumes "p \<in> set (Split s [c])"
  shows "c \<notin> set p"
proof -
  have "c \<notin> set acc \<Longrightarrow> p \<in> set (splitAt [c] acc s) \<Longrightarrow> c \<notin> set p" for acc
  proof (induction s arbitrary: acc)
    case (Cons d s)
    show ?case
    proof (cases "d = c")
      case True
      then have "splitAt [c] acc (d # s) = rev acc # splitAt [c] [] s"
        using splitAt_sep [of "[c]" acc s] by simp
      with Cons.prems Cons.IH [of "[]"] show ?thesis by auto
    next
      case False
      with Cons.prems Cons.IH [of "d # acc"] show ?thesis by (auto simp: splitAt_char)
    qed
  qed simp
  from this [of "[]"] assms show ?thesis by (simp add: Split_def)
qed

lemma Split_nonempty [simp]: "sep \<noteq> [] \<Longrightarrow> Split s sep \<noteq> []"
  by (simp add: Split_def)

end
