(* ===== verification/Api_Types.thy ===== *)
theory Api_Types
  imports HZ_Prelude
begin

text \<open>
  The data model of \<^verbatim>\<open>api/v1alpha1\<close>: the custom resources as records, field by field.
  A field \<^verbatim>\<open>F\<close> of a struct carries a short prefix of the struct's name, since record
  fields share one name space. Pointers are options. A slice whose nil value the sources
  tell from the empty slice is an option of a list, any other slice a list. String types
  with a closed set of constants are datatypes; their zero value (the empty string of an
  omitted field) is the constructor ending in \<^verbatim>\<open>Unset\<close> where a source can meet it.

  Values of Kubernetes API types that the operator only stores, copies or compares are
  kept in their serialised form (\<open>k8s_raw\<close>). A \<^verbatim>\<open>resource.Quantity\<close> is known to the
  sources only by comparison with its zero value and by \<^verbatim>\<open>Value()\<close>, which is a parameter
  of the definitions that call it.
\<close>

type_synonym k8s_raw = string

datatype Quantity = QuantityZero | QuantityOf string

type_synonym ServiceType = string

record NamespacedName =
  nn_Name :: string
  nn_Namespace :: string

record OwnerReference =
  or_Kind :: string
  or_Name :: string
  or_UID :: string

record ObjectMeta =
  om_Name :: string
  om_Namespace :: string
  om_UID :: string
  om_Annotations :: "string \<rightharpoonup> string"
  om_Finalizers :: "string list"
  om_OwnerReferences :: "OwnerReference list"
  om_DeletionTimestamp :: "int option"
  om_CreationTimestamp :: int

text \<open>Constants of \<^verbatim>\<open>internal/naming\<close>.\<close>

definition Finalizer :: string where
  "Finalizer = ''hazelcast.com/finalizer''"

definition WanRepMapFinalizer :: string where
  "WanRepMapFinalizer = ''hazelcast.com/wan-replicated-map''"

definition LastSuccessfulSpecAnnotation :: string where
  "LastSuccessfulSpecAnnotation = ''hazelcast.com/last-successful-spec''"

definition HazelcastCustomConfigKey :: string where
  "HazelcastCustomConfigKey = ''hazelcast''"

definition ClusterSizeLimit :: int32 where
  "ClusterSizeLimit = 300"

definition MemberServerSocketPort :: uint where
  "MemberServerSocketPort = 5702"

definition ClientServerSocketPort :: uint where
  "ClientServerSocketPort = 5701"

definition RestServerSocketPort :: uint where
  "RestServerSocketPort = 8081"

definition WanDefaultPort :: int where
  "WanDefaultPort = 5710"

definition HazelcastNodeDiscoveryEnabledEnv :: string where
  "HazelcastNodeDiscoveryEnabledEnv = ''HAZELCAST_NODE_DISCOVERY_ENABLED''"

subsection \<open>Hazelcast (hazelcast\_types.go)\<close>

datatype Phase = PhaseUnset | Running | Failed | Pending | Terminating

datatype LoggingLevel = LoggingLevelUnset | LoggingLevelOff | LoggingLevelFatal
  | LoggingLevelError | LoggingLevelWarn | LoggingLevelInfo | LoggingLevelDebug
  | LoggingLevelTrace | LoggingLevelAll

datatype ByteOrder = ByteOrderUnset | NativeByteOrder | BigEndian | LittleEndian

datatype HighAvailabilityMode = HighAvailabilityUnset | HighAvailabilityNodeMode
  | HighAvailabilityZoneMode

datatype DataRecoveryPolicyType = DataRecoveryUnset | FullRecovery | MostRecent | MostComplete

datatype PersistenceStartupAction = StartupActionUnset | ForceStart | PartialStart

datatype ExposeExternallyType = ExposeExternallyTypeUnset | ExposeExternallyTypeSmart
  | ExposeExternallyTypeUnisocket

datatype MemberAccess = MemberAccessUnset | MemberAccessNodePortExternalIP
  | MemberAccessNodePortNodeName | MemberAccessLoadBalancer

datatype GCType = GCTypeUnset | GCTypeSerial | GCTypeParallel | GCTypeG1

datatype NativeMemoryAllocatorType = NativeMemoryUnset | NativeMemoryStandard
  | NativeMemoryPooled

datatype MutualAuthentication = MutualAuthenticationUnset | MutualAuthenticationNone
  | MutualAuthenticationRequired | MutualAuthenticationOptional

record SerializationFilterList =
  sfl_Classes :: "string list"
  sfl_Packages :: "string list"
  sfl_Prefixes :: "string list"

record JavaFilterConfig =
  jf_Blacklist :: "SerializationFilterList option"
  jf_Whitelist :: "SerializationFilterList option"

record UserCodeNamespacesConfig =
  ucnc_ClassFilter :: "JavaFilterConfig option"

record PvcConfiguration =
  pvc_AccessModes :: "string list option"
  pvc_RequestStorage :: "Quantity option"
  pvc_StorageClassName :: "string option"

record CPSubsystem =
  cp_SessionTTLSeconds :: "int32 option"
  cp_SessionHeartbeatIntervalSeconds :: "int32 option"
  cp_MissingCpMemberAutoRemovalSeconds :: "int32 option"
  cp_FailOnIndeterminateOperationState :: "bool option"
  cp_DataLoadTimeoutSeconds :: "int32 option"
  cp_PVC :: "PvcConfiguration option"

record CompactSerializationConfig =
  csc_Serializers :: "string list"
  csc_Classes :: "string list"

record Serializer =
  ser_TypeClass :: string
  ser_ClassName :: string

record GlobalSerializer =
  gs_OverrideJavaSerialization :: "bool option"
  gs_ClassName :: string

record SerializationConfig =
  sc_ByteOrder :: ByteOrder
  sc_OverrideDefaultSerializers :: bool
  sc_EnableCompression :: bool
  sc_EnableSharedObject :: bool
  sc_AllowUnsafe :: bool
  sc_DataSerializableFactories :: "string list"
  sc_PortableFactories :: "string list"
  sc_GlobalSerializer :: "GlobalSerializer option"
  sc_Serializers :: "Serializer list"
  sc_CompactSerialization :: "CompactSerializationConfig option"
  sc_JavaSerializationFilter :: "JavaFilterConfig option"

record ManagementCenterConfig =
  mcc_ScriptingEnabled :: bool
  mcc_ConsoleEnabled :: bool
  mcc_DataAccessEnabled :: bool

record BucketConfiguration =
  bc_DeprecatedSecret :: string
  bc_SecretName :: string
  bc_BucketURI :: string

definition BucketConfiguration_GetSecretName :: "BucketConfiguration \<Rightarrow> string" where
  "BucketConfiguration_GetSecretName b =
     (if bc_SecretName b = [] then bc_DeprecatedSecret b else bc_SecretName b)"

record RemoteFileConfiguration =
  rfc_BucketConfiguration :: "BucketConfiguration option"
  rfc_ConfigMaps :: "string list"
  rfc_RemoteURLs :: "string list"

record JetInstance =
  ji_CooperativeThreadCount :: "int32 option"
  ji_FlowControlPeriodMillis :: int32
  ji_BackupCount :: int32
  ji_ScaleUpDelayMillis :: int32
  ji_LosslessRestartEnabled :: bool
  ji_MaxProcessorAccumulatedRecords :: "int64 option"

definition JetInstanceZero :: JetInstance where
  "JetInstanceZero = \<lparr> ji_CooperativeThreadCount = None, ji_FlowControlPeriodMillis = 0,
     ji_BackupCount = 0, ji_ScaleUpDelayMillis = 0, ji_LosslessRestartEnabled = False,
     ji_MaxProcessorAccumulatedRecords = None \<rparr>"

definition JetInstance_IsConfigured :: "JetInstance option \<Rightarrow> bool" where
  "JetInstance_IsConfigured j = (case j of None \<Rightarrow> False | Some x \<Rightarrow> \<not> (x = JetInstanceZero))"

record JetEdgeDefaults =
  jed_QueueSize :: "int32 option"
  jed_PacketSizeLimit :: "int32 option"
  jed_ReceiveWindowMultiplier :: "8 word option"

definition JetEdgeDefaults_IsConfigured :: "JetEdgeDefaults option \<Rightarrow> bool" where
  "JetEdgeDefaults_IsConfigured j =
     (case j of None \<Rightarrow> False
      | Some x \<Rightarrow> \<not> (x = \<lparr> jed_QueueSize = None, jed_PacketSizeLimit = None,
                          jed_ReceiveWindowMultiplier = None \<rparr>))"

record JetEngineConfiguration =
  je_Enabled :: "bool option"
  je_ResourceUploadEnabled :: bool
  je_RemoteFileConfiguration :: RemoteFileConfiguration
  je_Instance :: "JetInstance option"
  je_EdgeDefaults :: "JetEdgeDefaults option"

definition Jet_IsConfigured :: "JetEngineConfiguration option \<Rightarrow> bool" where
  "Jet_IsConfigured j = (j \<noteq> None)"

definition Jet_IsEnabled :: "JetEngineConfiguration option \<Rightarrow> bool" where
  "Jet_IsEnabled j =
     (case j of None \<Rightarrow> False
      | Some x \<Rightarrow> (case je_Enabled x of None \<Rightarrow> False | Some b \<Rightarrow> b))"

definition Jet_IsBucketEnabled :: "JetEngineConfiguration option \<Rightarrow> bool" where
  "Jet_IsBucketEnabled j =
     (case j of None \<Rightarrow> False
      | Some x \<Rightarrow> rfc_BucketConfiguration (je_RemoteFileConfiguration x) \<noteq> None)"

definition Jet_IsConfigMapEnabled :: "JetEngineConfiguration option \<Rightarrow> bool" where
  "Jet_IsConfigMapEnabled j =
     (case j of None \<Rightarrow> False
      | Some x \<Rightarrow> length (rfc_ConfigMaps (je_RemoteFileConfiguration x)) \<noteq> 0)"

definition Jet_IsRemoteURLsEnabled :: "JetEngineConfiguration option \<Rightarrow> bool" where
  "Jet_IsRemoteURLsEnabled j =
     (case j of None \<Rightarrow> False
      | Some x \<Rightarrow> length (rfc_RemoteURLs (je_RemoteFileConfiguration x)) \<noteq> 0)"

record ExecutorServiceConfiguration =
  es_Name :: string
  es_PoolSize :: int32
  es_QueueCapacity :: int32
  es_UserCodeNamespace :: string

record DurableExecutorServiceConfiguration =
  des_Name :: string
  des_PoolSize :: int32
  des_Durability :: int32
  des_Capacity :: int32
  des_UserCodeNamespace :: string

record ScheduledExecutorServiceConfiguration =
  ses_Name :: string
  ses_PoolSize :: int32
  ses_Durability :: int32
  ses_Capacity :: int32
  ses_CapacityPolicy :: string
  ses_UserCodeNamespace :: string

record UserCodeDeploymentConfig =
  ucd_ClientEnabled :: "bool option"
  ucd_TriggerSequence :: string
  ucd_RemoteFileConfiguration :: RemoteFileConfiguration

record AgentConfiguration =
  ag_Repository :: string
  ag_Version :: string
  ag_Resources :: "k8s_raw option"

record RestoreFromLocalConfiguration =
  rl_PVCNamePrefix :: string
  rl_BaseDir :: string
  rl_BackupDir :: string
  rl_BackupFolder :: string

record RestoreConfiguration =
  rc_BucketConfiguration :: "BucketConfiguration option"
  rc_HotBackupResourceName :: string
  rc_LocalConfiguration :: "RestoreFromLocalConfiguration option"

definition RestoreConfigurationZero :: RestoreConfiguration where
  "RestoreConfigurationZero = \<lparr> rc_BucketConfiguration = None, rc_HotBackupResourceName = [],
     rc_LocalConfiguration = None \<rparr>"

record HazelcastPersistenceConfiguration =
  hp_DeprecatedBaseDir :: string
  hp_ClusterDataRecoveryPolicy :: DataRecoveryPolicyType
  hp_StartupAction :: PersistenceStartupAction
  hp_DataRecoveryTimeout :: int32
  hp_PVC :: "PvcConfiguration option"
  hp_Restore :: RestoreConfiguration

definition Persistence_AutoRemoveStaleData :: "HazelcastPersistenceConfiguration \<Rightarrow> bool" where
  "Persistence_AutoRemoveStaleData p = (hp_ClusterDataRecoveryPolicy p \<noteq> FullRecovery)"

definition Persistence_IsEnabled :: "HazelcastPersistenceConfiguration option \<Rightarrow> bool" where
  "Persistence_IsEnabled p = (p \<noteq> None)"

definition CP_IsEnabled :: "CPSubsystem option \<Rightarrow> bool" where
  "CP_IsEnabled p = (p \<noteq> None)"

definition CP_IsPVC :: "CPSubsystem option \<Rightarrow> bool" where
  "CP_IsPVC p = (case p of None \<Rightarrow> False | Some x \<Rightarrow> cp_PVC x \<noteq> None)"

definition Persistence_IsRestoreEnabled :: "HazelcastPersistenceConfiguration option \<Rightarrow> bool" where
  "Persistence_IsRestoreEnabled p =
     (case p of None \<Rightarrow> False | Some x \<Rightarrow> \<not> (hp_Restore x = RestoreConfigurationZero))"

definition Persistence_RestoreFromHotBackupResourceName ::
    "HazelcastPersistenceConfiguration option \<Rightarrow> bool" where
  "Persistence_RestoreFromHotBackupResourceName p =
     (Persistence_IsRestoreEnabled p \<and>
      (case p of None \<Rightarrow> False | Some x \<Rightarrow> rc_HotBackupResourceName (hp_Restore x) \<noteq> []))"

definition Persistence_RestoreFromLocalBackup ::
    "HazelcastPersistenceConfiguration option \<Rightarrow> bool" where
  "Persistence_RestoreFromLocalBackup p =
     (Persistence_IsRestoreEnabled p \<and>
      (case p of None \<Rightarrow> False | Some x \<Rightarrow> rc_LocalConfiguration (hp_Restore x) \<noteq> None))"

record SchedulingConfiguration =
  sch_Affinity :: "k8s_raw option"
  sch_Tolerations :: "k8s_raw list"
  sch_NodeSelector :: "string \<rightharpoonup> string"
  sch_TopologySpreadConstraints :: "k8s_raw list"

record ExposeExternallyConfiguration =
  ee_Type :: ExposeExternallyType
  ee_DiscoveryServiceType :: ServiceType
  ee_MemberAccess :: MemberAccess

definition ExposeExternallyZero :: ExposeExternallyConfiguration where
  "ExposeExternallyZero = \<lparr> ee_Type = ExposeExternallyTypeUnset, ee_DiscoveryServiceType = [],
     ee_MemberAccess = MemberAccessUnset \<rparr>"

definition ServiceTypeClusterIP :: ServiceType where "ServiceTypeClusterIP = ''ClusterIP''"

definition ServiceTypeNodePort :: ServiceType where "ServiceTypeNodePort = ''NodePort''"

definition ServiceTypeLoadBalancer :: ServiceType where
  "ServiceTypeLoadBalancer = ''LoadBalancer''"

definition ServiceTypeExternalName :: ServiceType where
  "ServiceTypeExternalName = ''ExternalName''"

definition Expose_IsEnabled :: "ExposeExternallyConfiguration option \<Rightarrow> bool" where
  "Expose_IsEnabled c = (case c of None \<Rightarrow> False | Some x \<Rightarrow> \<not> (x = ExposeExternallyZero))"

definition Expose_IsSmart :: "ExposeExternallyConfiguration option \<Rightarrow> bool" where
  "Expose_IsSmart c = (case c of None \<Rightarrow> False | Some x \<Rightarrow> ee_Type x = ExposeExternallyTypeSmart)"

definition Expose_UsesNodeName :: "ExposeExternallyConfiguration option \<Rightarrow> bool" where
  "Expose_UsesNodeName c =
     (case c of None \<Rightarrow> False | Some x \<Rightarrow> ee_MemberAccess x = MemberAccessNodePortNodeName)"

definition Expose_DiscoveryK8ServiceType :: "ExposeExternallyConfiguration option \<Rightarrow> ServiceType" where
  "Expose_DiscoveryK8ServiceType c =
     (case c of None \<Rightarrow> ServiceTypeLoadBalancer
      | Some x \<Rightarrow> if ee_DiscoveryServiceType x = ServiceTypeNodePort then ServiceTypeNodePort
                  else ServiceTypeLoadBalancer)"

definition Expose_MemberAccessType :: "ExposeExternallyConfiguration option \<Rightarrow> MemberAccess" where
  "Expose_MemberAccessType c =
     (case c of None \<Rightarrow> MemberAccessNodePortExternalIP
      | Some x \<Rightarrow> if ee_MemberAccess x \<noteq> MemberAccessUnset then ee_MemberAccess x
                  else MemberAccessNodePortExternalIP)"

definition Expose_MemberAccessServiceType ::
    "ExposeExternallyConfiguration option \<Rightarrow> ServiceType" where
  "Expose_MemberAccessServiceType c =
     (case c of None \<Rightarrow> ServiceTypeNodePort
      | Some x \<Rightarrow> (case ee_MemberAccess x of
                     MemberAccessLoadBalancer \<Rightarrow> ServiceTypeLoadBalancer
                   | _ \<Rightarrow> ServiceTypeNodePort))"

record JVMMemoryConfiguration =
  jm_InitialRAMPercentage :: "string option"
  jm_MinRAMPercentage :: "string option"
  jm_MaxRAMPercentage :: "string option"

record JVMGCConfiguration =
  jg_Logging :: "bool option"
  jg_Collector :: "GCType option"

record JVMConfiguration =
  jvm_Memory :: "JVMMemoryConfiguration option"
  jvm_GC :: "JVMGCConfiguration option"
  jvm_Args :: "string list"

definition JVM_GetMemory :: "JVMConfiguration option \<Rightarrow> JVMMemoryConfiguration option" where
  "JVM_GetMemory c = (case c of None \<Rightarrow> None | Some x \<Rightarrow> jvm_Memory x)"

definition JVM_GCConfig :: "JVMConfiguration option \<Rightarrow> JVMGCConfiguration option" where
  "JVM_GCConfig c = (case c of None \<Rightarrow> None | Some x \<Rightarrow> jvm_GC x)"

definition JVM_GetArgs :: "JVMConfiguration option \<Rightarrow> string list" where
  "JVM_GetArgs c = (case c of None \<Rightarrow> [] | Some x \<Rightarrow> jvm_Args x)"

definition JVMMemory_GetInitialRAMPercentage :: "JVMMemoryConfiguration option \<Rightarrow> string" where
  "JVMMemory_GetInitialRAMPercentage c =
     (case c of None \<Rightarrow> []
      | Some x \<Rightarrow> (case jm_InitialRAMPercentage x of None \<Rightarrow> [] | Some p \<Rightarrow> p))"

definition JVMMemory_GetMinRAMPercentage :: "JVMMemoryConfiguration option \<Rightarrow> string" where
  "JVMMemory_GetMinRAMPercentage c =
     (case c of None \<Rightarrow> []
      | Some x \<Rightarrow> (case jm_MinRAMPercentage x of None \<Rightarrow> [] | Some p \<Rightarrow> p))"

definition JVMMemory_GetMaxRAMPercentage :: "JVMMemoryConfiguration option \<Rightarrow> string" where
  "JVMMemory_GetMaxRAMPercentage c =
     (case c of None \<Rightarrow> []
      | Some x \<Rightarrow> (case jm_MaxRAMPercentage x of None \<Rightarrow> [] | Some p \<Rightarrow> p))"

definition JVMGC_IsLoggingEnabled :: "JVMGCConfiguration option \<Rightarrow> bool" where
  "JVMGC_IsLoggingEnabled j =
     (case j of None \<Rightarrow> False
      | Some x \<Rightarrow> (case jg_Logging x of None \<Rightarrow> False | Some b \<Rightarrow> b))"

definition JVMGC_GetCollector :: "JVMGCConfiguration option \<Rightarrow> GCType" where
  "JVMGC_GetCollector j =
     (case j of None \<Rightarrow> GCTypeUnset
      | Some x \<Rightarrow> (case jg_Collector x of None \<Rightarrow> GCTypeUnset | Some c \<Rightarrow> c))"

record NativeMemoryConfiguration =
  nm_AllocatorType :: NativeMemoryAllocatorType
  nm_Size :: Quantity
  nm_MinBlockSize :: int32
  nm_PageSize :: int32
  nm_MetadataSpacePercentage :: int32

definition NativeMemoryZero :: NativeMemoryConfiguration where
  "NativeMemoryZero = \<lparr> nm_AllocatorType = NativeMemoryUnset, nm_Size = QuantityZero,
     nm_MinBlockSize = 0, nm_PageSize = 0, nm_MetadataSpacePercentage = 0 \<rparr>"

definition NativeMemory_IsEnabled :: "NativeMemoryConfiguration option \<Rightarrow> bool" where
  "NativeMemory_IsEnabled c = (case c of None \<Rightarrow> False | Some x \<Rightarrow> \<not> (x = NativeMemoryZero))"

record WANConfig =
  wc_Port :: uint
  wc_PortCount :: uint
  wc_ServiceType :: ServiceType
  wc_Name :: string

record ServerSocketEndpointConfig =
  sse_Interfaces :: "string list"

record AdvancedNetwork =
  an_MemberServerSocketEndpointConfig :: ServerSocketEndpointConfig
  an_ClientServerSocketEndpointConfig :: ServerSocketEndpointConfig
  an_WAN :: "WANConfig list"

record TLS =
  tls_SecretName :: string
  tls_MutualAuthentication :: MutualAuthentication

definition TLSZero :: TLS where
  "TLSZero = \<lparr> tls_SecretName = [], tls_MutualAuthentication = MutualAuthenticationUnset \<rparr>"

record SQL =
  sql_StatementTimeout :: int32
  sql_CatalogPersistenceEnabled :: bool

record LocalDeviceConfig =
  ld_Name :: string
  ld_BlockSize :: "int32 option"
  ld_ReadIOThreadCount :: "int32 option"
  ld_WriteIOThreadCount :: "int32 option"
  ld_PVC :: "PvcConfiguration option"

record HazelcastSpec =
  hs_ClusterSize :: "int32 option"
  hs_Repository :: string
  hs_Version :: string
  hs_ImagePullPolicy :: string
  hs_ImagePullSecrets :: "string list"
  hs_DeprecatedLicenseKeySecret :: string
  hs_LicenseKeySecretName :: string
  hs_ExposeExternally :: "ExposeExternallyConfiguration option"
  hs_ClusterName :: string
  hs_Scheduling :: "SchedulingConfiguration option"
  hs_Resources :: "k8s_raw option"
  hs_Persistence :: "HazelcastPersistenceConfiguration option"
  hs_Agent :: AgentConfiguration
  hs_JetEngineConfiguration :: "JetEngineConfiguration option"
  hs_DeprecatedUserCodeDeployment :: "UserCodeDeploymentConfig option"
  hs_ExecutorServices :: "ExecutorServiceConfiguration list"
  hs_DurableExecutorServices :: "DurableExecutorServiceConfiguration list"
  hs_ScheduledExecutorServices :: "ScheduledExecutorServiceConfiguration list"
  hs_Properties :: "string \<rightharpoonup> string"
  hs_LoggingLevel :: LoggingLevel
  hs_HighAvailabilityMode :: HighAvailabilityMode
  hs_JVM :: "JVMConfiguration option"
  hs_NativeMemory :: "NativeMemoryConfiguration option"
  hs_AdvancedNetwork :: "AdvancedNetwork option"
  hs_ManagementCenterConfig :: "ManagementCenterConfig option"
  hs_TLS :: "TLS option"
  hs_Serialization :: "SerializationConfig option"
  hs_CustomConfigCmName :: string
  hs_SQL :: "SQL option"
  hs_LocalDevices :: "LocalDeviceConfig list"
  hs_Annotations :: "string \<rightharpoonup> string"
  hs_Labels :: "string \<rightharpoonup> string"
  hs_ServiceAccountName :: string
  hs_CPSubsystem :: "CPSubsystem option"
  hs_UserCodeNamespaces :: "UserCodeNamespacesConfig option"
  hs_Env :: "k8s_raw list"

definition HazelcastSpec_GetLicenseKeySecretName :: "HazelcastSpec \<Rightarrow> string" where
  "HazelcastSpec_GetLicenseKeySecretName s =
     (if hs_LicenseKeySecretName s = [] then hs_DeprecatedLicenseKeySecret s
      else hs_LicenseKeySecretName s)"

definition HazelcastSpec_IsTieredStorageEnabled :: "HazelcastSpec \<Rightarrow> bool" where
  "HazelcastSpec_IsTieredStorageEnabled s = (length (hs_LocalDevices s) \<noteq> 0)"

end
