(* ===== verification/Api_Resources.thy ===== *)
theory Api_Resources
  imports Api_Types
begin

text \<open>
  The custom resources themselves and their status: Hazelcast, Map, the data structures,
  WanReplication, WanSync, HotBackup, CronHotBackup and JetJob
  (\<^verbatim>\<open>api/v1alpha1/*_types.go\<close>). A map from strings whose iteration the sources observe is
  an association list, in the order in which \<^verbatim>\<open>range\<close> visits it; the others are partial
  functions.
\<close>

subsection \<open>Hazelcast\<close>

datatype RestoreState = RestoreStateUnset | RestoreUnknown | RestoreFailed
  | RestoreInProgress | RestoreSucceeded

record RestoreStatus =
  rs_State :: RestoreState
  rs_RemainingValidationTime :: int64
  rs_RemainingDataLoadTime :: int64

record HazelcastMemberStatus =
  hm_PodName :: string
  hm_Uid :: string
  hm_Ip :: string
  hm_Version :: string
  hm_State :: string
  hm_Master :: bool
  hm_Lite :: bool
  hm_OwnedPartitions :: int32
  hm_Ready :: bool
  hm_Message :: string
  hm_Reason :: string
  hm_RestartCount :: int32

record HazelcastClusterStatus =
  hcs_ReadyMembers :: string

record HazelcastStatus =
  hst_ClusterSize :: int32
  hst_Selector :: string
  hst_Phase :: Phase
  hst_Cluster :: HazelcastClusterStatus
  hst_Message :: string
  hst_Members :: "HazelcastMemberStatus list"
  hst_Restore :: RestoreStatus

record Hazelcast =
  h_Meta :: ObjectMeta
  h_Spec :: HazelcastSpec
  h_Status :: HazelcastStatus

definition Hazelcast_DockerImage :: "Hazelcast \<Rightarrow> string" where
  "Hazelcast_DockerImage h = hs_Repository (h_Spec h) @ '':'' @ hs_Version (h_Spec h)"

definition Hazelcast_AgentDockerImage :: "Hazelcast \<Rightarrow> string" where
  "Hazelcast_AgentDockerImage h =
     ag_Repository (hs_Agent (h_Spec h)) @ '':'' @ ag_Version (hs_Agent (h_Spec h))"

text \<open>\<^verbatim>\<open>DiscoveryServiceType\<close> is read only when the pointer is not nil.\<close>

definition Hazelcast_ExternalAddressEnabled :: "Hazelcast \<Rightarrow> bool" where
  "Hazelcast_ExternalAddressEnabled h =
     (Expose_IsEnabled (hs_ExposeExternally (h_Spec h)) \<and>
      (case hs_ExposeExternally (h_Spec h) of None \<Rightarrow> False
       | Some c \<Rightarrow> ee_DiscoveryServiceType c = ServiceTypeLoadBalancer))"

text \<open>\<^verbatim>\<open>hash/fnv\<close>, the 32-bit FNV-1a hash: for every byte, xor and multiply, from the offset
  basis.\<close>

definition FNV32a :: "string \<Rightarrow> uint32" where
  "FNV32a txt = foldl (\<lambda>h c. (h XOR word_of_nat (of_char c)) * 16777619) 2166136261 txt"

definition Hazelcast_ClusterScopedName :: "Hazelcast \<Rightarrow> string" where
  "Hazelcast_ClusterScopedName h =
     om_Name (h_Meta h) @ ''-'' @ Itoa (uint (FNV32a (om_Namespace (h_Meta h))))"

subsection \<open>Data structures (data\_structure.go) and Map (map\_types.go)\<close>

datatype DataStructureConfigState = DataStructureUnset | DataStructureFailed
  | DataStructureSuccess | DataStructurePending | DataStructurePersisting
  | DataStructureTerminating

record DataStructureSpec =
  ds_Name :: string
  ds_HazelcastResourceName :: string
  ds_BackupCount :: "int32 option"
  ds_AsyncBackupCount :: int32
  ds_UserCodeNamespace :: string

record DataStructureStatus =
  dss_State :: DataStructureConfigState
  dss_Message :: string
  dss_MemberStatuses :: "string \<rightharpoonup> DataStructureConfigState"

datatype InMemoryFormatType = InMemoryFormatUnset | InMemoryFormatBinary
  | InMemoryFormatObject | InMemoryFormatNative

datatype EvictionPolicyType = EvictionPolicyUnset | EvictionPolicyLRU | EvictionPolicyLFU
  | EvictionPolicyNone | EvictionPolicyRandom

datatype MaxSizePolicyType = MaxSizePolicyUnset | MaxSizePolicyPerNode
  | MaxSizePolicyPerPartition | MaxSizePolicyUsedHeapPercentage | MaxSizePolicyUsedHeapSize
  | MaxSizePolicyFreeHeapPercentage | MaxSizePolicyFreeHeapSize
  | MaxSizePolicyUsedNativeMemorySize | MaxSizePolicyUsedNativeMemoryPercentage
  | MaxSizePolicyFreeNativeMemorySize | MaxSizePolicyFreeNativeMemoryPercentage
  | MaxSizePolicyEntryCount

datatype IndexType = IndexTypeUnset | IndexTypeSorted | IndexTypeHash | IndexTypeBitmap

datatype UniqueKeyTransition = UniqueKeyTransitionUnset | UniqueKeyTransitionObject
  | UniqueKeyTransitionLong | UniqueKeyTransitionRAW

datatype InitialModeType = InitialModeUnset | InitialModeLazy | InitialModeEager

datatype MapConfigState = MapStateUnset | MapFailed | MapSuccess | MapPending
  | MapPersisting | MapTerminating

record EvictionConfig =
  ev_EvictionPolicy :: EvictionPolicyType
  ev_MaxSize :: int32
  ev_MaxSizePolicy :: MaxSizePolicyType

record BitmapIndexOptionsConfig =
  bio_UniqueKey :: string
  bio_UniqueKeyTransition :: UniqueKeyTransition

text \<open>A slice that is compared with \<^verbatim>\<open>reflect.DeepEqual\<close> or with nil is an option, \<open>None\<close> being nil; \<open>elems\<close> is what
  \<^verbatim>\<open>range\<close> visits.\<close>

definition elems :: "'a list option \<Rightarrow> 'a list" where
  "elems s = (case s of None \<Rightarrow> [] | Some xs \<Rightarrow> xs)"

lemma elems_simps [simp]: "elems None = []" "elems (Some xs) = xs"
  by (simp_all add: elems_def)

record IndexConfig =
  ix_Name :: string
  ix_Type :: IndexType
  ix_Attributes :: "string list option"
  ix_BitmapIndexOptions :: "BitmapIndexOptionsConfig option"

record AttributeConfig =
  at_Name :: string
  at_ExtractorClassName :: string

record MapStoreConfig =
  mst_InitialMode :: InitialModeType
  mst_ClassName :: string
  mst_WriteDelaySeconds :: int32
  mst_WriteBatchSize :: int32
  mst_WriteCoealescing :: "bool option"
  mst_PropertiesSecretName :: string

record EntryListenerConfiguration =
  el_ClassName :: string
  el_IncludeValues :: "bool option"
  el_Local :: bool

definition EntryListener_GetIncludedValue :: "EntryListenerConfiguration \<Rightarrow> bool" where
  "EntryListener_GetIncludedValue e = (case el_IncludeValues e of None \<Rightarrow> True | Some b \<Rightarrow> b)"

record NearCacheEviction =
  nce_EvictionPolicy :: EvictionPolicyType
  nce_MaxSizePolicy :: MaxSizePolicyType
  nce_Size :: uint32

record NearCache =
  nc_Name :: string
  nc_InMemoryFormat :: InMemoryFormatType
  nc_InvalidateOnChange :: "bool option"
  nc_TimeToLiveSeconds :: uint
  nc_MaxIdleSeconds :: uint
  nc_NearCacheEviction :: NearCacheEviction
  nc_CacheLocalEntries :: "bool option"

record EventJournal =
  ej_Capacity :: int32
  ej_TimeToLiveSeconds :: int32

record TieredStore =
  ts_MemoryCapacity :: "Quantity option"
  ts_DiskDeviceName :: string

record MerkleTreeConfig =
  mt_Depth :: int32

record MapSpec =
  ms_DataStructureSpec :: DataStructureSpec
  ms_TimeToLiveSeconds :: int32
  ms_MaxIdleSeconds :: int32
  ms_Eviction :: EvictionConfig
  ms_Indexes :: "IndexConfig list option"
  ms_Attributes :: "AttributeConfig list"
  ms_PersistenceEnabled :: bool
  ms_MapStore :: "MapStoreConfig option"
  ms_InMemoryFormat :: InMemoryFormatType
  ms_EntryListeners :: "EntryListenerConfiguration list"
  ms_NearCache :: "NearCache option"
  ms_EventJournal :: "EventJournal option"
  ms_TieredStore :: "TieredStore option"
  ms_MerkleTree :: "MerkleTreeConfig option"

record MapStatus =
  mss_State :: MapConfigState
  mss_Message :: string
  mss_MemberStatuses :: "string \<rightharpoonup> MapConfigState"

record Map =
  m_Meta :: ObjectMeta
  m_Spec :: MapSpec
  m_Status :: MapStatus

definition MapName :: "Map \<Rightarrow> string" where
  "MapName m = (if ds_Name (ms_DataStructureSpec (m_Spec m)) \<noteq> []
     then ds_Name (ms_DataStructureSpec (m_Spec m)) else om_Name (m_Meta m))"

abbreviation m_HazelcastResourceName :: "Map \<Rightarrow> string" where
  "m_HazelcastResourceName m \<equiv> ds_HazelcastResourceName (ms_DataStructureSpec (m_Spec m))"

text \<open>The encodings of the enumerations in the client protocol. A Go map answers the zero
  value for a key it does not hold.\<close>

fun EncodeMaxSizePolicy :: "MaxSizePolicyType \<Rightarrow> int32" where
  "EncodeMaxSizePolicy MaxSizePolicyPerNode = 0"
| "EncodeMaxSizePolicy MaxSizePolicyPerPartition = 1"
| "EncodeMaxSizePolicy MaxSizePolicyUsedHeapPercentage = 2"
| "EncodeMaxSizePolicy MaxSizePolicyUsedHeapSize = 3"
| "EncodeMaxSizePolicy MaxSizePolicyFreeHeapPercentage = 4"
| "EncodeMaxSizePolicy MaxSizePolicyFreeHeapSize = 5"
| "EncodeMaxSizePolicy MaxSizePolicyUsedNativeMemorySize = 6"
| "EncodeMaxSizePolicy MaxSizePolicyUsedNativeMemoryPercentage = 7"
| "EncodeMaxSizePolicy MaxSizePolicyFreeNativeMemorySize = 8"
| "EncodeMaxSizePolicy MaxSizePolicyFreeNativeMemoryPercentage = 9"
| "EncodeMaxSizePolicy MaxSizePolicyEntryCount = 10"
| "EncodeMaxSizePolicy MaxSizePolicyUnset = 0"

fun EncodeEvictionPolicyType :: "EvictionPolicyType \<Rightarrow> int32" where
  "EncodeEvictionPolicyType EvictionPolicyLRU = 0"
| "EncodeEvictionPolicyType EvictionPolicyLFU = 1"
| "EncodeEvictionPolicyType EvictionPolicyNone = 2"
| "EncodeEvictionPolicyType EvictionPolicyRandom = 3"
| "EncodeEvictionPolicyType EvictionPolicyUnset = 0"

fun EncodeIndexType :: "IndexType \<Rightarrow> int32" where
  "EncodeIndexType IndexTypeSorted = 0"
| "EncodeIndexType IndexTypeHash = 1"
| "EncodeIndexType IndexTypeBitmap = 2"
| "EncodeIndexType IndexTypeUnset = 0"

fun EncodeUniqueKeyTransition :: "UniqueKeyTransition \<Rightarrow> int32" where
  "EncodeUniqueKeyTransition UniqueKeyTransitionObject = 0"
| "EncodeUniqueKeyTransition UniqueKeyTransitionLong = 1"
| "EncodeUniqueKeyTransition UniqueKeyTransitionRAW = 2"
| "EncodeUniqueKeyTransition UniqueKeyTransitionUnset = 0"

fun EncodeInMemoryFormat :: "InMemoryFormatType \<Rightarrow> int32" where
  "EncodeInMemoryFormat InMemoryFormatBinary = 0"
| "EncodeInMemoryFormat InMemoryFormatObject = 1"
| "EncodeInMemoryFormat InMemoryFormatNative = 2"
| "EncodeInMemoryFormat InMemoryFormatUnset = 0"

subsection \<open>WanReplication and WanSync\<close>

datatype ResourceKind = ResourceKindUnset | ResourceKindMap | ResourceKindHZ

record ResourceSpec =
  wr_Name :: string
  wr_Kind :: ResourceKind

datatype FullBehaviorSetting = FullBehaviorUnset | DiscardAfterMutation | ThrowException
  | ThrowExceptionOnlyIfReplicationActive

record QueueSetting =
  qs_Capacity :: int32
  qs_FullBehavior :: FullBehaviorSetting

record BatchSetting =
  bs_Size :: int32
  bs_MaximumDelay :: int32

datatype AcknowledgementType = AckUnset | AckOnReceipt | AckOnOperationComplete

record AcknowledgementSetting =
  ack_Type :: AcknowledgementType
  ack_Timeout :: int32

record WanReplicationSpec =
  wrs_Resources :: "ResourceSpec list"
  wrs_TargetClusterName :: string
  wrs_Endpoints :: string
  wrs_Queue :: QueueSetting
  wrs_Batch :: BatchSetting
  wrs_Acknowledgement :: AcknowledgementSetting
  wrs_SyncConsistencyCheckStrategy :: string

datatype WanStatus = WanStatusUnset | WanStatusFailed | WanStatusPending | WanStatusSuccess
  | WanStatusPersisting | WanStatusTerminating

record WanReplicationMapStatus =
  wms_ResourceName :: string
  wms_PublisherId :: string
  wms_Status :: WanStatus
  wms_Message :: string

definition WanReplicationMapStatusZero :: WanReplicationMapStatus where
  "WanReplicationMapStatusZero = \<lparr> wms_ResourceName = [], wms_PublisherId = [],
     wms_Status = WanStatusUnset, wms_Message = [] \<rparr>"

record WanReplicationStatus =
  wst_Status :: WanStatus
  wst_Message :: string
  wst_MapsStatus :: "(string \<times> WanReplicationMapStatus) list option"

text \<open>Reading a nil map is reading an empty one.\<close>

definition MapsStatus :: "WanReplicationStatus \<Rightarrow> (string \<times> WanReplicationMapStatus) list" where
  "MapsStatus st = (case wst_MapsStatus st of None \<Rightarrow> [] | Some l \<Rightarrow> l)"

record WanReplication =
  w_Meta :: ObjectMeta
  w_Kind :: string
  w_Spec :: WanReplicationSpec
  w_Status :: WanReplicationStatus

definition WanReplication_PublisherId :: "WanReplication \<Rightarrow> string \<Rightarrow> string" where
  "WanReplication_PublisherId w mapName =
     (case find (\<lambda>(k, ms). wms_ResourceName ms = mapName) (MapsStatus (w_Status w)) of
        None \<Rightarrow> [] | Some (k, ms) \<Rightarrow> wms_PublisherId ms)"

datatype WanSyncPhase = WanSyncUnset | WanSyncNotStarted | WanSyncFailed | WanSyncPending
  | WanSyncCompleted

record WanSyncMapStatus =
  wsm_ResourceName :: string
  wsm_PublisherId :: string
  wsm_Phase :: WanSyncPhase
  wsm_Message :: string

record WanSyncStatus =
  wss_Status :: WanSyncPhase
  wss_Message :: string
  wss_MapsStatus :: "(string \<times> WanSyncMapStatus) list"

subsection \<open>HotBackup and CronHotBackup\<close>

datatype HotBackupState = HotBackupStateUnset | HotBackupUnknown | HotBackupPending
  | HotBackupNotStarted | HotBackupInProgress | HotBackupFailure | HotBackupSuccess

definition HotBackupState_IsFinished :: "HotBackupState \<Rightarrow> bool" where
  "HotBackupState_IsFinished s = (s = HotBackupFailure \<or> s = HotBackupSuccess)"

definition HotBackupState_IsRunning :: "HotBackupState \<Rightarrow> bool" where
  "HotBackupState_IsRunning s = (s = HotBackupInProgress \<or> s = HotBackupNotStarted)"

record HotBackupStatus =
  hbs_State :: HotBackupState
  hbs_Message :: string
  hbs_BackupUUIDs :: "string list"

record HotBackupSpec =
  hbsp_HazelcastResourceName :: string
  hbsp_BucketURI :: string
  hbsp_DeprecatedSecret :: string
  hbsp_SecretName :: string

definition HotBackupSpec_GetSecretName :: "HotBackupSpec \<Rightarrow> string" where
  "HotBackupSpec_GetSecretName s =
     (if hbsp_SecretName s = [] then hbsp_DeprecatedSecret s else hbsp_SecretName s)"

definition HotBackupSpec_IsExternal :: "HotBackupSpec \<Rightarrow> bool" where
  "HotBackupSpec_IsExternal s = (hbsp_BucketURI s \<noteq> [])"

record HotBackup =
  hb_Meta :: ObjectMeta
  hb_Spec :: HotBackupSpec
  hb_Status :: HotBackupStatus

record CronHotBackupSpec =
  chb_Schedule :: string
  chb_TemplateAnnotations :: "string \<rightharpoonup> string"
  chb_TemplateLabels :: "string \<rightharpoonup> string"
  chb_TemplateSpec :: HotBackupSpec
  chb_SuccessfulHotBackupsHistoryLimit :: "int32 option"
  chb_FailedHotBackupsHistoryLimit :: "int32 option"
  chb_Suspend :: bool

record CronHotBackup =
  cb_Meta :: ObjectMeta
  cb_Spec :: CronHotBackupSpec

subsection \<open>JetJob\<close>

datatype JetJobStatusPhase = JetJobPhaseUnset | JetJobFailed | JetJobNotRunning
  | JetJobStarting | JetJobRunning | JetJobSuspended | JetJobSuspendedExportingSnapshot
  | JetJobCompleting | JetJobExecutionFailed | JetJobCompleted

datatype JetJobState = JetJobStateUnset | RunningJobState | SuspendedJobState
  | CanceledJobState | RestartedJobState

record JetRemoteFileConfiguration =
  jrf_BucketConfiguration :: "BucketConfiguration option"
  jrf_RemoteURL :: string

record JetJobSpec =
  jj_Name :: string
  jj_HazelcastResourceName :: string
  jj_State :: JetJobState
  jj_JarName :: string
  jj_MainClass :: string
  jj_InitialSnapshotResourceName :: string
  jj_RemoteFile :: JetRemoteFileConfiguration

definition JetJobSpec_IsBucketEnabled :: "JetJobSpec \<Rightarrow> bool" where
  "JetJobSpec_IsBucketEnabled j = (jrf_BucketConfiguration (jj_RemoteFile j) \<noteq> None)"

definition JetJobSpec_IsRemoteURLsEnabled :: "JetJobSpec \<Rightarrow> bool" where
  "JetJobSpec_IsRemoteURLsEnabled j = (jrf_RemoteURL (jj_RemoteFile j) \<noteq> [])"

definition JetJobSpec_IsDownloadEnabled :: "JetJobSpec \<Rightarrow> bool" where
  "JetJobSpec_IsDownloadEnabled j =
     (JetJobSpec_IsBucketEnabled j \<or> JetJobSpec_IsRemoteURLsEnabled j)"

record JetJobStatus =
  jjs_Id :: int64
  jjs_Phase :: JetJobStatusPhase
  jjs_SubmissionTime :: "int option"
  jjs_CompletionTime :: "int option"
  jjs_FailureText :: string
  jjs_SuspensionCause :: string

definition JetPhase_IsRunning :: "JetJobStatusPhase \<Rightarrow> bool" where
  "JetPhase_IsRunning p = (p = JetJobRunning \<or> p = JetJobStarting)"

definition JetPhase_IsFinished :: "JetJobStatusPhase \<Rightarrow> bool" where
  "JetPhase_IsFinished p = (p = JetJobExecutionFailed \<or> p = JetJobCompleted)"

definition JetPhase_IsSuspended :: "JetJobStatusPhase \<Rightarrow> bool" where
  "JetPhase_IsSuspended p = (p = JetJobSuspended \<or> p = JetJobSuspendedExportingSnapshot)"

record JetJob =
  jo_Meta :: ObjectMeta
  jo_Spec :: JetJobSpec
  jo_Status :: JetJobStatus

definition JobName :: "JetJob \<Rightarrow> string" where
  "JobName j = (if jj_Name (jo_Spec j) \<noteq> [] then jj_Name (jo_Spec j) else om_Name (jo_Meta j))"

end
