(* ===== verification/Field_Validation.thy ===== *)
theory Field_Validation
  imports Api_Resources "HOL-Library.Multiset"
begin

text \<open>
  The error collector of the validators (\<^verbatim>\<open>api/v1alpha1/field_validation.go\<close>) and what
  the validators see of the world around them.

  A validator of the sources is a method that may call \<^verbatim>\<open>Invalid\<close>, \<^verbatim>\<open>Forbidden\<close> and so on
  and never reads or removes the errors collected so far. The locale \<open>validation_step\<close> is
  that contract; its consequences (collected errors only grow, a sequence of validators
  accepts exactly when each of them accepts) are proved once and used by every validator.
\<close>

datatype bad_value =
    BVString string
  | BVBool bool
  | BVInt int
  | BVIntPtr "int option"
  | BVServiceType ServiceType
  | BVMemberAccess MemberAccess
  | BVInMemoryFormat InMemoryFormatType
  | BVEvictionPolicy EvictionPolicyType
  | BVQuantityPtr "Quantity option"
  | BVJetJobState JetJobState

type_synonym path = "string list"

datatype field_error =
    FieldForbidden path string
  | FieldInvalid path bad_value string
  | FieldNotFound path string
  | FieldRequired path string
  | FieldDuplicate path string
  | FieldInternal path string

text \<open>The object is known by its kind and name, which is what \<^verbatim>\<open>Err\<close> reports.\<close>

record validated_object =
  vo_Kind :: string
  vo_Name :: string

record fieldValidator =
  fv_errs :: "field_error list"
  fv_object :: validated_object

datatype validation_error = StatusInvalid string string "field_error list"

definition NewFieldValidator :: "validated_object \<Rightarrow> fieldValidator" where
  "NewFieldValidator ob = \<lparr> fv_errs = [], fv_object = ob \<rparr>"

definition Err :: "fieldValidator \<Rightarrow> validation_error option" where
  "Err v = (if length (fv_errs v) \<noteq> 0
     then Some (StatusInvalid (vo_Kind (fv_object v)) (vo_Name (fv_object v)) (fv_errs v))
     else None)"

definition addErr :: "field_error list \<Rightarrow> fieldValidator \<Rightarrow> fieldValidator" where
  "addErr es v = v\<lparr> fv_errs := fv_errs v @ es \<rparr>"

definition Forbidden :: "path \<Rightarrow> string \<Rightarrow> fieldValidator \<Rightarrow> fieldValidator" where
  "Forbidden p detail v = addErr [FieldForbidden p detail] v"

definition Invalid :: "path \<Rightarrow> bad_value \<Rightarrow> string \<Rightarrow> fieldValidator \<Rightarrow> fieldValidator" where
  "Invalid p value detail v = addErr [FieldInvalid p value detail] v"

definition NotFound :: "path \<Rightarrow> string \<Rightarrow> fieldValidator \<Rightarrow> fieldValidator" where
  "NotFound p value v = addErr [FieldNotFound p value] v"

definition Required :: "path \<Rightarrow> string \<Rightarrow> fieldValidator \<Rightarrow> fieldValidator" where
  "Required p detail v = addErr [FieldRequired p detail] v"

definition Duplicate :: "path \<Rightarrow> string \<Rightarrow> fieldValidator \<Rightarrow> fieldValidator" where
  "Duplicate p value v = addErr [FieldDuplicate p value] v"

definition InternalError :: "path \<Rightarrow> string \<Rightarrow> fieldValidator \<Rightarrow> fieldValidator" where
  "InternalError p err v = addErr [FieldInternal p err] v"

lemmas report_defs = Forbidden_def Invalid_def NotFound_def Required_def Duplicate_def
  InternalError_def

text \<open>
  The parameters: what \<^verbatim>\<open>kubeclient.Get\<close> and \<^verbatim>\<open>List\<close> answer, the environment variables, the
  JSON and YAML decoders (\<open>Inl\<close> their error text), \<^verbatim>\<open>Quantity.Value\<close> on a pointer, and \<^verbatim>\<open>sort.Slice\<close> on
  port ranges by their lower end. The last is a parameter because \<^verbatim>\<open>sort.Slice\<close> does not fix
  the order of equal elements; what it promises is \<open>sorts_by_min\<close>.
\<close>

datatype 'a get_result = GetOk 'a | GetNotFound | GetFailed string

definition IsNotFound :: "'a get_result \<Rightarrow> bool" where
  "IsNotFound r = (case r of GetNotFound \<Rightarrow> True | _ \<Rightarrow> False)"

record validation_env =
  env_GetSecret :: "NamespacedName \<Rightarrow> unit get_result"
  env_GetConfigMap :: "NamespacedName \<Rightarrow> (string \<rightharpoonup> string) get_result"
  env_GetHotBackup :: "NamespacedName \<Rightarrow> unit get_result"
  env_ListHazelcast :: "string \<Rightarrow> string + Hazelcast list"
  env_LookupEnv :: "string \<Rightarrow> string option"
  env_YamlUnmarshal :: "string \<Rightarrow> string option"
  env_UnmarshalHazelcastSpec :: "string \<Rightarrow> string + HazelcastSpec"
  env_UnmarshalMapSpec :: "string \<Rightarrow> string + MapSpec"
  env_UnmarshalWanReplicationSpec :: "string \<Rightarrow> string + WanReplicationSpec"
  env_UnmarshalJetJobSpec :: "string \<Rightarrow> string + JetJobSpec"
  env_QuantityValue :: "Quantity option \<Rightarrow> int64 go"
  env_SortSlice :: "(uint \<times> uint) list \<Rightarrow> (uint \<times> uint) list"

definition sorts_by_min :: "((uint \<times> uint) list \<Rightarrow> (uint \<times> uint) list) \<Rightarrow> bool" where
  "sorts_by_min srt = (\<forall>xs. mset (srt xs) = mset xs \<and> sorted (map fst (srt xs)))"

definition Int32Deref :: "int32 option \<Rightarrow> int32 \<Rightarrow> int32" where
  "Int32Deref p d = (case p of None \<Rightarrow> d | Some x \<Rightarrow> x)"

subsection \<open>Steps\<close>

text \<open>A validation step may panic, hence the \<open>go\<close>. \<open>reported f ob\<close> are the errors \<open>f\<close>
  collects on its own; \<open>runAll\<close> calls validators one after the other.\<close>

type_synonym vstep = "fieldValidator \<Rightarrow> fieldValidator go"

definition reported :: "vstep \<Rightarrow> validated_object \<Rightarrow> field_error list go" where
  "reported f ob = map_option fv_errs (f (NewFieldValidator ob))"

definition accepts :: "vstep \<Rightarrow> bool" where
  "accepts f = (\<forall>ob. reported f ob = Some [])"

fun runAll :: "vstep list \<Rightarrow> vstep" where
  "runAll [] v = Some v"
| "runAll (f # fs) v = f v \<bind> runAll fs"

lemma addErr_simps [simp]:
  "addErr [] v = v" "addErr es (addErr fs v) = addErr (fs @ es) v"
  "fv_errs (addErr es v) = fv_errs v @ es" "fv_object (addErr es v) = fv_object v"
  "fv_errs (NewFieldValidator ob) = []" "fv_object (NewFieldValidator ob) = ob"
  by (simp_all add: addErr_def NewFieldValidator_def)

lemma Err_None_iff [simp]: "Err v = None \<longleftrightarrow> fv_errs v = []"
  by (simp add: Err_def)

locale validation_step =
  fixes step :: vstep
  assumes uniform: "step v = map_option (\<lambda>es. addErr es v) (reported step ob)"
begin

lemma step_cases:
  obtains (panic) "\<And>v. step v = None" | (report) es where "\<And>v. step v = Some (addErr es v)"
proof (cases "reported step undefined")
  case None
  with uniform [where ob = undefined] show ?thesis by (intro panic) simp
next
  case (Some es)
  with uniform [where ob = undefined] show ?thesis by (intro report [of es]) simp
qed

lemma accepts_iff: "accepts step \<longleftrightarrow> step v = Some v"
proof (cases rule: step_cases)
  case panic
  then show ?thesis by (simp add: accepts_def reported_def)
next
  case (report es)
  have "addErr es v = v \<longleftrightarrow> es = []" by (auto simp: addErr_def dest: arg_cong [of _ _ fv_errs])
  with report show ?thesis by (simp add: accepts_def reported_def)
qed

lemma errs_grow:
  "step v = Some w \<Longrightarrow> \<exists>es. fv_errs w = fv_errs v @ es \<and> fv_object w = fv_object v"
  by (cases rule: step_cases) auto

lemma clean_iff: "step v = Some w \<Longrightarrow> fv_errs w = [] \<longleftrightarrow> fv_errs v = [] \<and> accepts step"
  by (cases rule: step_cases) (auto simp: accepts_def reported_def)

end

lemma validation_stepI:
  assumes "\<And>v. step v = map_option (\<lambda>es. addErr es v) r"
  shows "validation_step step"
  by unfold_locales (cases r; simp add: assms reported_def)

lemma validation_step_addErr: "validation_step (\<lambda>v. Some (addErr es v))"
  by (rule validation_stepI [of _ "Some es"]) simp

lemma validation_step_bind:
  assumes f: "validation_step f" and g: "validation_step g"
  shows "validation_step (\<lambda>v. f v \<bind> g)"
  by (cases rule: validation_step.step_cases [OF f]; cases rule: validation_step.step_cases [OF g])
     (auto intro: validation_stepI [of _ None] validation_step_addErr)

lemma accepts_bind:
  assumes f: "validation_step f" and g: "validation_step g"
  shows "accepts (\<lambda>v. f v \<bind> g) \<longleftrightarrow> accepts f \<and> accepts g"
  by (cases rule: validation_step.step_cases [OF f]; cases rule: validation_step.step_cases [OF g])
     (auto simp: accepts_def reported_def)

lemma validation_step_runAll:
  "\<forall>f \<in> set fs. validation_step f \<Longrightarrow> validation_step (runAll fs)"
proof (induction fs)
  case Nil
  show ?case using validation_step_addErr [of "[]"] by (simp add: runAll.simps(1) [abs_def])
next
  case (Cons f fs)
  then show ?case
    using validation_step_bind [of f "runAll fs"] by (simp add: runAll.simps(2) [abs_def])
qed

lemma accepts_runAll:
  "\<forall>f \<in> set fs. validation_step f \<Longrightarrow> accepts (runAll fs) \<longleftrightarrow> (\<forall>f \<in> set fs. accepts f)"
proof (induction fs)
  case Nil
  show ?case by (simp add: accepts_def reported_def)
next
  case (Cons f fs)
  then show ?case
    using accepts_bind [of f "runAll fs"]
    by (simp add: runAll.simps(2) [abs_def] validation_step_runAll)
qed

text \<open>
  \<open>check c report\<close> is \<^verbatim>\<open>if c { v.report(...) }\<close>. The simp rules below turn \<open>accepts\<close> of a
  validator written with \<open>check\<close>, \<open>runAll\<close> and branches into the conditions themselves.
\<close>

definition check :: "bool \<Rightarrow> (fieldValidator \<Rightarrow> fieldValidator) \<Rightarrow> vstep" where
  "check c report v = Some (if c then report v else v)"

definition panic :: vstep where
  "panic v = None"

definition is_report :: "(fieldValidator \<Rightarrow> fieldValidator) \<Rightarrow> bool" where
  "is_report f = (\<exists>e. \<forall>v. f v = addErr [e] v)"

lemma is_report_simps [simp]:
  "is_report (Forbidden p d)" "is_report (Invalid p x d)" "is_report (NotFound p d)"
  "is_report (Required p d)" "is_report (Duplicate p d)" "is_report (InternalError p d)"
  by (auto simp: is_report_def report_defs)

lemma check_cases:
  assumes "is_report f"
  obtains e where "check c f = (\<lambda>v. Some (addErr (if c then [e] else []) v))"
proof -
  from assms obtain e where "\<forall>v. f v = addErr [e] v" by (auto simp: is_report_def)
  then show thesis by (intro that [of e]) (simp add: check_def fun_eq_iff)
qed

lemma step_simps [simp]:
  "validation_step Some"
  "validation_step panic"
  "is_report r \<Longrightarrow> validation_step (check c r)"
  "validation_step (runAll [])"
  "validation_step f \<Longrightarrow> validation_step (runAll fs) \<Longrightarrow> validation_step (runAll (f # fs))"
  "(\<And>x. x \<in> set xs \<Longrightarrow> validation_step (g x)) \<Longrightarrow> validation_step (runAll (map g xs))"
proof -
  show "validation_step Some" using validation_step_addErr [of "[]"] by simp
  show "validation_step panic" by (rule validation_stepI [of _ None]) (simp add: panic_def)
  show "validation_step (check c r)" if "is_report r"
    by (rule check_cases [OF that, of c]) (simp add: validation_step_addErr)
  show "validation_step (runAll [])" by (rule validation_step_runAll) simp
  show "validation_step (runAll (f # fs))" if "validation_step f" "validation_step (runAll fs)"
    using validation_step_bind [OF that] by (simp add: runAll.simps(2) [abs_def])
  show "validation_step (runAll (map g xs))" if "\<And>x. x \<in> set xs \<Longrightarrow> validation_step (g x)"
    using that by (intro validation_step_runAll) auto
qed

lemma step_if [simp]:
  "(c \<Longrightarrow> validation_step f) \<Longrightarrow> (\<not> c \<Longrightarrow> validation_step g) \<Longrightarrow>
   validation_step (if c then f else g)"
  by simp

lemma accepts_simps [simp]:
  "accepts Some"
  "\<not> accepts panic"
  "is_report r \<Longrightarrow> accepts (check c r) \<longleftrightarrow> \<not> c"
  "accepts (runAll [])"
  "validation_step f \<Longrightarrow> validation_step (runAll fs) \<Longrightarrow>
     accepts (runAll (f # fs)) \<longleftrightarrow> accepts f \<and> accepts (runAll fs)"
  "(\<And>x. x \<in> set xs \<Longrightarrow> validation_step (g x)) \<Longrightarrow>
     accepts (runAll (map g xs)) \<longleftrightarrow> (\<forall>x \<in> set xs. accepts (g x))"
proof -
  show "accepts (check c r) \<longleftrightarrow> \<not> c" if "is_report r"
    by (rule check_cases [OF that, of c]) (simp add: accepts_def reported_def)
  show "accepts (runAll (f # fs)) \<longleftrightarrow> accepts f \<and> accepts (runAll fs)"
    if "validation_step f" "validation_step (runAll fs)"
    using accepts_bind [OF that] by (simp add: runAll.simps(2) [abs_def])
  show "accepts (runAll (map g xs)) \<longleftrightarrow> (\<forall>x \<in> set xs. accepts (g x))"
    if "\<And>x. x \<in> set xs \<Longrightarrow> validation_step (g x)"
    using that by (subst accepts_runAll) auto
qed (auto simp: accepts_def reported_def panic_def)

lemma accepts_if [simp]: "accepts (if c then f else g) \<longleftrightarrow> (if c then accepts f else accepts g)"
  by simp

text \<open>The outcome of a validation function: \<open>f\<close> applied to a new validator, then \<^verbatim>\<open>Err\<close>.\<close>

definition outcome :: "vstep \<Rightarrow> validated_object \<Rightarrow> validation_error option go" where
  "outcome f ob = map_option Err (f (NewFieldValidator ob))"

lemma outcome_None_iff:
  assumes "validation_step f"
  shows "outcome f ob = Some None \<longleftrightarrow> accepts f"
  by (cases rule: validation_step.step_cases [OF assms])
     (auto simp: outcome_def accepts_def reported_def)

text \<open>A step that answers does so whatever it is given; a sequence answers when its members do.\<close>

definition answers :: "vstep \<Rightarrow> bool" where
  "answers f = (\<forall>v. f v \<noteq> None)"

lemma answers_runAll:
  "\<forall>f \<in> set fs. validation_step f \<Longrightarrow> answers (runAll fs) \<longleftrightarrow> (\<forall>f \<in> set fs. answers f)"
proof (induction fs)
  case Nil
  show ?case by (simp add: answers_def)
next
  case (Cons f fs)
  then have f: "validation_step f" and fs: "validation_step (runAll fs)"
    by (simp_all add: validation_step_runAll)
  have "answers (runAll (f # fs)) \<longleftrightarrow> answers f \<and> answers (runAll fs)"
    by (cases rule: validation_step.step_cases [OF f]; cases rule: validation_step.step_cases [OF fs])
       (simp_all add: answers_def)
  with Cons show ?case by (simp del: runAll.simps)
qed

lemma answers_simps [simp]:
  "answers Some"
  "\<not> answers panic"
  "answers (check c r)"
  by (simp_all add: answers_def panic_def check_def)

lemma outcome_panic_iff:
  assumes "validation_step f"
  shows "outcome f ob = None \<longleftrightarrow> \<not> answers f"
  by (cases rule: validation_step.step_cases [OF assms]) (auto simp: outcome_def answers_def)

text \<open>A sequence of steps reports what its members report, one after the other: no step hides
  the errors of a later one.\<close>

lemma runAll_reported:
  assumes "\<forall>f \<in> set fs. validation_step f"
  shows "runAll fs v =
    map_option (\<lambda>ess. addErr (concat ess) v) (those (map (\<lambda>f. reported f ob) fs))"
  using assms
proof (induction fs arbitrary: v)
  case (Cons f fs)
  then have "validation_step f" by simp
  from validation_step.uniform [OF this, of v ob] Cons show ?case
    by (cases "reported f ob"; cases "those (map (\<lambda>f. reported f ob) fs)") simp_all
qed simp

text \<open>The contract holds of the building blocks.\<close>

interpretation check_forbidden: validation_step "check c (Forbidden p d)" for c p d
  by simp

interpretation check_invalid: validation_step "check c (Invalid p x d)" for c p x d
  by simp

end
