(* ===== verification/Go_Regexp.thy ===== *)
theory Go_Regexp
  imports HZ_Prelude
begin

text \<open>
  The fragment of package \<^verbatim>\<open>regexp\<close> the validators use: character classes, sequence,
  optional parts and repetition, matched against a whole string (the patterns of the
  sources are anchored at both ends). The matcher computes by derivatives; its meaning is
  the language of the expression, and \<open>matches_iff\<close> says that both agree.
\<close>

datatype regexp =
    REmpty
  | REps
  | RClass "char \<Rightarrow> bool"
  | RSeq regexp regexp
  | RAlt regexp regexp
  | RStar regexp

definition ROpt :: "regexp \<Rightarrow> regexp" where
  "ROpt r = RAlt r REps"

fun nullable :: "regexp \<Rightarrow> bool" where
  "nullable REmpty = False"
| "nullable REps = True"
| "nullable (RClass p) = False"
| "nullable (RSeq r s) = (nullable r \<and> nullable s)"
| "nullable (RAlt r s) = (nullable r \<or> nullable s)"
| "nullable (RStar r) = True"

fun deriv :: "char \<Rightarrow> regexp \<Rightarrow> regexp" where
  "deriv c REmpty = REmpty"
| "deriv c REps = REmpty"
| "deriv c (RClass p) = (if p c then REps else REmpty)"
| "deriv c (RSeq r s) =
     (if nullable r then RAlt (RSeq (deriv c r) s) (deriv c s) else RSeq (deriv c r) s)"
| "deriv c (RAlt r s) = RAlt (deriv c r) (deriv c s)"
| "deriv c (RStar r) = RSeq (deriv c r) (RStar r)"

fun matches :: "regexp \<Rightarrow> string \<Rightarrow> bool" where
  "matches r [] = nullable r"
| "matches r (c # cs) = matches (deriv c r) cs"

inductive in_lang :: "regexp \<Rightarrow> string \<Rightarrow> bool" where
  eps: "in_lang REps []"
| cls: "p c \<Longrightarrow> in_lang (RClass p) [c]"
| seq: "in_lang r u \<Longrightarrow> in_lang s v \<Longrightarrow> in_lang (RSeq r s) (u @ v)"
| altl: "in_lang r u \<Longrightarrow> in_lang (RAlt r s) u"
| altr: "in_lang s u \<Longrightarrow> in_lang (RAlt r s) u"
| star_nil: "in_lang (RStar r) []"
| star_cons: "in_lang r u \<Longrightarrow> in_lang (RStar r) v \<Longrightarrow> in_lang (RStar r) (u @ v)"

inductive_simps in_lang_simps [simp]:
  "in_lang REmpty u" "in_lang REps u" "in_lang (RClass p) u" "in_lang (RAlt r s) u"
  "in_lang (RSeq r s) u"

inductive_cases in_lang_StarE: "in_lang (RStar r) u"

lemma nullable_iff: "nullable r \<longleftrightarrow> in_lang r []"
  by (induction r) (auto intro: in_lang.intros)

text \<open>A non-empty word of a repetition starts with a non-empty word of the body.\<close>

lemma in_lang_Star_Cons:
  assumes "in_lang (RStar r) (c # w)"
  shows "\<exists>u v. w = u @ v \<and> in_lang r (c # u) \<and> in_lang (RStar r) v"
proof -
  have "in_lang q x \<Longrightarrow> q = RStar r \<Longrightarrow> x = c # w \<Longrightarrow>
      \<exists>u v. w = u @ v \<and> in_lang r (c # u) \<and> in_lang (RStar r) v" for q x
    by (induction arbitrary: w rule: in_lang.induct) (auto simp: append_eq_Cons_conv)
  with assms show ?thesis by blast
qed

lemma in_lang_deriv: "in_lang (deriv c r) w \<longleftrightarrow> in_lang r (c # w)"
proof (induction r arbitrary: w)
  case (RSeq r s)
  then show ?case by (auto simp: nullable_iff Cons_eq_append_conv)
next
  case (RStar r)
  show ?case
  proof
    assume "in_lang (deriv c (RStar r)) w"
    then obtain u v where "w = u @ v" "in_lang r (c # u)" "in_lang (RStar r) v"
      using RStar.IH by auto
    then show "in_lang (RStar r) (c # w)"
      using in_lang.star_cons by fastforce
  next
    assume "in_lang (RStar r) (c # w)"
    from in_lang_Star_Cons [OF this] show "in_lang (deriv c (RStar r)) w"
      using RStar.IH by auto
  qed
qed (auto simp: append_eq_Cons_conv)

theorem matches_iff: "matches r w \<longleftrightarrow> in_lang r w"
  by (induction w arbitrary: r) (auto simp: nullable_iff in_lang_deriv)

lemma in_lang_Class_Seq:
  "in_lang (RSeq (RClass p) r) w \<longleftrightarrow> (\<exists>c u. w = c # u \<and> p c \<and> in_lang r u)"
  by simp (metis append_Cons append_Nil)

lemma in_lang_Seq_Class:
  "in_lang (RSeq r (RClass p)) w \<longleftrightarrow> (\<exists>u c. w = u @ [c] \<and> in_lang r u \<and> p c)"
  by auto

text \<open>Repetition of a class, and of an expression, as plain list facts.\<close>

lemma in_lang_Star_Class: "in_lang (RStar (RClass p)) w \<longleftrightarrow> (\<forall>c \<in> set w. p c)"
proof
  have "in_lang q w \<Longrightarrow> q = RStar (RClass p) \<Longrightarrow> (\<forall>c \<in> set w. p c)" for q
    by (induction rule: in_lang.induct) auto
  then show "in_lang (RStar (RClass p)) w \<Longrightarrow> \<forall>c \<in> set w. p c" by blast
next
  show "\<forall>c \<in> set w. p c \<Longrightarrow> in_lang (RStar (RClass p)) w"
  proof (induction w)
    case Nil
    show ?case by (rule in_lang.star_nil)
  next
    case (Cons c w)
    then have "in_lang (RClass p) [c]" "in_lang (RStar (RClass p)) w" by auto
    from in_lang.star_cons [OF this] show ?case by simp
  qed
qed

lemma in_lang_Star: "in_lang (RStar r) w \<longleftrightarrow> (\<exists>us. w = concat us \<and> (\<forall>u \<in> set us. in_lang r u))"
proof
  have "in_lang q w \<Longrightarrow> q = RStar r \<Longrightarrow> \<exists>us. w = concat us \<and> (\<forall>u \<in> set us. in_lang r u)" for q
  proof (induction rule: in_lang.induct)
    case (star_cons r u v)
    then obtain us where "v = concat us" "\<forall>x \<in> set us. in_lang r x" by blast
    with star_cons show ?case by (intro exI [of _ "u # us"]) auto
  qed (auto intro: exI [of _ "[]"])
  then show "in_lang (RStar r) w \<Longrightarrow> \<exists>us. w = concat us \<and> (\<forall>u \<in> set us. in_lang r u)" by blast
next
  have "\<forall>u \<in> set us. in_lang r u \<Longrightarrow> in_lang (RStar r) (concat us)" for us
    by (induction us) (auto intro: in_lang.intros)
  then show "\<exists>us. w = concat us \<and> (\<forall>u \<in> set us. in_lang r u) \<Longrightarrow> in_lang (RStar r) w" by blast
qed

end
