(* ===== verification/Hazelcast_Validation.thy ===== *)
theory Hazelcast_Validation
  imports Field_Validation Go_Regexp
begin

text \<open>
  The admission rules of the Hazelcast resource
  (\<^verbatim>\<open>api/v1alpha1/hazelcast_validation.go\<close>): one definition per method of
  \<^verbatim>\<open>hazelcastValidator\<close>, in the order of the source, then the exact conditions under which
  each of them accepts, and the theorems about the whole.
\<close>

subsection \<open>The validators\<close>

abbreviation apos :: string where "apos \<equiv> [CHR 0x27]"

abbreviation quot :: string where "quot \<equiv> [CHR 0x22]"

definition is_alpha :: "char \<Rightarrow> bool" where
  "is_alpha c = (let n = of_char c :: nat in 97 \<le> n \<and> n \<le> 122 \<or> 65 \<le> n \<and> n \<le> 90)"

definition is_alnum :: "char \<Rightarrow> bool" where
  "is_alnum c = (is_alpha c \<or> (let n = of_char c :: nat in 48 \<le> n \<and> n \<le> 57))"

definition is_alnum_dash :: "char \<Rightarrow> bool" where
  "is_alnum_dash c = (is_alnum c \<or> c = CHR ''-'')"

text \<open>The pattern of \<^verbatim>\<open>validateMetadata\<close>: a label is a letter, optionally followed by letters,
  digits and dashes up to a final letter or digit; a name is labels separated by dots.\<close>

definition labelRE :: regexp where
  "labelRE = RSeq (RClass is_alpha)
     (ROpt (RSeq (RStar (RClass is_alnum_dash)) (RClass is_alnum)))"

definition nameRE :: regexp where
  "nameRE = RSeq labelRE (RStar (RSeq (RClass (\<lambda>c. c = CHR ''.'')) labelRE))"

definition validateMetadata :: "Hazelcast \<Rightarrow> vstep" where
  "validateMetadata h = check (\<not> matches nameRE (om_Name (h_Meta h)))
     (Invalid [''metadata'', ''name''] (BVString (om_Name (h_Meta h)))
       (''Hazelcast name has the same constraints as DNS-1035 label.'' @
        '' It must consist of lower case alphanumeric characters or '' @ apos @ ''-'' @ apos @ '','' @
        '' start with an alphabetic character, and end with an alphanumeric character'' @
        '' (e.g. '' @ apos @ ''my-name'' @ apos @ '',  or '' @ apos @ ''abc-123'' @ apos @
        '', regex used for validation is '' @ apos @ ''a-z?'' @ apos))"

definition NodeDiscoveryEnabled :: "validation_env \<Rightarrow> bool" where
  "NodeDiscoveryEnabled env =
     (case env_LookupEnv env HazelcastNodeDiscoveryEnabledEnv of
        None \<Rightarrow> True | Some watching \<Rightarrow> watching = ''true'')"

definition validateExposeExternally :: "validation_env \<Rightarrow> Hazelcast \<Rightarrow> vstep" where
  "validateExposeExternally env h =
     (case hs_ExposeExternally (h_Spec h) of
        None \<Rightarrow> Some
      | Some ee \<Rightarrow> runAll
         [check (ee_Type ee = ExposeExternallyTypeUnisocket \<and> ee_MemberAccess ee \<noteq> MemberAccessUnset)
            (Forbidden [''spec'', ''exposeExternally'', ''memberAccess'']
               (''can'' @ apos @ ''t be set when exposeExternally.type is set to '' @
                quot @ ''Unisocket'' @ quot)),
          check (ee_Type ee = ExposeExternallyTypeSmart \<and>
                 ee_MemberAccess ee = MemberAccessNodePortExternalIP \<and> \<not> NodeDiscoveryEnabled env)
            (Invalid [''spec'', ''exposeExternally'', ''memberAccess'']
               (BVMemberAccess (ee_MemberAccess ee))
               ''value not supported when Hazelcast node discovery is not enabled''),
          check (ee_DiscoveryServiceType ee \<notin> {ServiceTypeNodePort, ServiceTypeLoadBalancer})
            (Invalid [''spec'', ''exposeExternally'', ''discoveryServiceType'']
               (BVServiceType (ee_DiscoveryServiceType ee)) ''service type not supported'')])"

definition validateCustomConfig :: "validation_env \<Rightarrow> Hazelcast \<Rightarrow> vstep" where
  "validateCustomConfig env h =
     (if hs_CustomConfigCmName (h_Spec h) \<noteq> [] then
        (case env_GetConfigMap env \<lparr> nn_Name = hs_CustomConfigCmName (h_Spec h),
                                    nn_Namespace = om_Namespace (h_Meta h) \<rparr> of
           GetNotFound \<Rightarrow> check True (NotFound [''spec'', ''customConfigCmName'']
             ''ConfigMap for Hazelcast custom configs not found'')
         | GetFailed err \<Rightarrow> Some
         | GetOk data \<Rightarrow>
             (case data HazelcastCustomConfigKey of
                None \<Rightarrow> check True (NotFound [''spec'', ''customConfigCmName'']
                  (''ConfigMap for Hazelcast custom configs must contain '' @ apos @
                   HazelcastCustomConfigKey @ apos @ '' key''))
              | Some config \<Rightarrow> check (env_YamlUnmarshal env config \<noteq> None)
                  (NotFound [''spec'', ''customConfigCmName'']
                     ''ConfigMap for Hazelcast custom configs is not a valid yaml'')))
      else Some)"

definition validateLicense :: "validation_env \<Rightarrow> Hazelcast \<Rightarrow> vstep" where
  "validateLicense env h =
     (if HazelcastSpec_GetLicenseKeySecretName (h_Spec h) \<noteq> [] then
        check (IsNotFound (env_GetSecret env
                 \<lparr> nn_Name = HazelcastSpec_GetLicenseKeySecretName (h_Spec h),
                   nn_Namespace = om_Namespace (h_Meta h) \<rparr>))
          (NotFound [''spec'', ''licenseKeySecretName'']
             ''Hazelcast Enterprise licenseKeySecret is not found'')
      else Some)"

definition validateTLS :: "validation_env \<Rightarrow> Hazelcast \<Rightarrow> vstep" where
  "validateTLS env h =
     (case hs_TLS (h_Spec h) of
        None \<Rightarrow> Some
      | Some tls \<Rightarrow>
          if tls = TLSZero then Some
          else if tls_SecretName tls = [] then
            check True (Required [''spec'', ''tls'', ''secretName'']
              ''Hazelcast Enterprise TLS Secret name must be set'')
          else
            check (IsNotFound (env_GetSecret env \<lparr> nn_Name = tls_SecretName tls,
                                                   nn_Namespace = om_Namespace (h_Meta h) \<rparr>))
              (NotFound [''spec'', ''tls'', ''secretName'']
                 ''Hazelcast Enterprise TLS Secret not found''))"

definition validatePersistence :: "validation_env \<Rightarrow> Hazelcast \<Rightarrow> vstep" where
  "validatePersistence env h =
     (case hs_Persistence (h_Spec h) of
        None \<Rightarrow> Some
      | Some p \<Rightarrow> runAll
         [(case hp_PVC p of
             None \<Rightarrow> check True (Required [''spec'', ''persistence'', ''pvc'']
               ''must be set when persistence is enabled'')
           | Some pvc \<Rightarrow> check (pvc_AccessModes pvc = None)
               (Required [''spec'', ''persistence'', ''pvc'', ''accessModes'']
                  ''must be set when persistence is enabled'')),
          check (hp_StartupAction p = PartialStart \<and> hp_ClusterDataRecoveryPolicy p = FullRecovery)
            (Forbidden [''spec'', ''persistence'', ''startupAction'']
               ''PartialStart can be used only with Partial clusterDataRecoveryPolicy''),
          (if Persistence_IsRestoreEnabled (Some p) \<and> rc_HotBackupResourceName (hp_Restore p) \<noteq> []
           then check (IsNotFound (env_GetHotBackup env
                         \<lparr> nn_Name = rc_HotBackupResourceName (hp_Restore p),
                           nn_Namespace = om_Namespace (h_Meta h) \<rparr>))
                  (NotFound [''spec'', ''persistence'', ''restore'', ''hotBackupResourceName'']
                     (''There is not hot backup found with name '' @
                      rc_HotBackupResourceName (hp_Restore p)))
           else Some)])"

text \<open>\<^verbatim>\<open>*h.Spec.ClusterSize\<close> panics on a nil pointer.\<close>

definition validateClusterSize :: "Hazelcast \<Rightarrow> vstep" where
  "validateClusterSize h =
     (case hs_ClusterSize (h_Spec h) of
        None \<Rightarrow> panic
      | Some n \<Rightarrow> check (ClusterSizeLimit <s n)
          (Invalid [''spec'', ''clusterSize''] (BVIntPtr (Some (sint n)))
             (''may not be greater than '' @ Itoa (sint ClusterSizeLimit))))"

definition validateWANServiceTypes :: "AdvancedNetwork \<Rightarrow> vstep" where
  "validateWANServiceTypes an = runAll
     (map (\<lambda>(i, w). check (wc_ServiceType w = ServiceTypeNodePort \<or>
                          wc_ServiceType w = ServiceTypeExternalName)
             (Forbidden [''spec'', ''advancedNetwork'', ''wan['' @ Itoa (int i) @ '']'']
                ''invalid serviceType value, possible values are ClusterIP and LoadBalancer''))
        (enumerate 0 (an_WAN an)))"

text \<open>A port range is the half-open interval from \<^verbatim>\<open>Port\<close> to \<^verbatim>\<open>Port + PortCount\<close>, in 64-bit
  unsigned arithmetic.\<close>

definition portRange :: "WANConfig \<Rightarrow> uint \<times> uint" where
  "portRange w = (wc_Port w, wc_Port w + wc_PortCount w)"

definition showRange :: "uint \<times> uint \<Rightarrow> string" where
  "showRange r = Itoa (uint (fst r)) @ ''-'' @ Itoa (uint (snd r - 1))"

fun neighbours :: "'a list \<Rightarrow> ('a \<times> 'a) list" where
  "neighbours (x # y # xs) = (x, y) # neighbours (y # xs)"
| "neighbours _ = []"

definition isOverlapWithEachOther :: "validation_env \<Rightarrow> AdvancedNetwork \<Rightarrow> vstep" where
  "isOverlapWithEachOther env an = runAll
     (map (\<lambda>(p0, p1). check (fst p1 < snd p0)
             (Invalid [''spec'', ''advancedNetwork'', ''wan''] (BVString (showRange p0))
                (''wan ports overlapping with '' @ showRange p1)))
        (neighbours (env_SortSlice env (map portRange (an_WAN an)))))"

definition inRange :: "uint \<Rightarrow> uint \<times> uint \<Rightarrow> bool" where
  "inRange port r = (fst r \<le> port \<and> port < snd r)"

definition isOverlapWithOtherSockets :: "AdvancedNetwork \<Rightarrow> vstep" where
  "isOverlapWithOtherSockets an = runAll
     (map (\<lambda>(i, w). check (inRange MemberServerSocketPort (portRange w) \<or>
                          inRange ClientServerSocketPort (portRange w) \<or>
                          inRange RestServerSocketPort (portRange w))
             (Invalid [''spec'', ''advancedNetwork'', ''wan['' @ Itoa (int i) @ '']'']
                (BVString (showRange (portRange w)))
                (''wan ports conflicting with one of '' @ Itoa (uint ClientServerSocketPort) @ '','' @
                 Itoa (uint MemberServerSocketPort) @ '','' @ Itoa (uint RestServerSocketPort))))
        (enumerate 0 (an_WAN an)))"

definition validateWANPorts :: "validation_env \<Rightarrow> AdvancedNetwork \<Rightarrow> vstep" where
  "validateWANPorts env an = runAll [isOverlapWithEachOther env an, isOverlapWithOtherSockets an]"

definition validateAdvancedNetwork :: "validation_env \<Rightarrow> Hazelcast \<Rightarrow> vstep" where
  "validateAdvancedNetwork env h =
     (case hs_AdvancedNetwork (h_Spec h) of
        None \<Rightarrow> Some
      | Some an \<Rightarrow> runAll [validateWANServiceTypes an, validateWANPorts env an])"

text \<open>The first argument that contains \<open>arg\<close> is reported, and only that one.\<close>

definition validateArg :: "string list \<Rightarrow> string \<Rightarrow> vstep" where
  "validateArg args arg = check (\<exists>s \<in> set args. Contains s arg)
     (Duplicate [''spec'', ''jvm'', ''args''] (arg @ '' is already set up in JVM config''))"

definition InitialRamPerArg :: string where "InitialRamPerArg = ''-XX:InitialRAMPercentage''"

definition MaxRamPerArg :: string where "MaxRamPerArg = ''-XX:MaxRAMPercentage''"

definition MinRamPerArg :: string where "MinRamPerArg = ''-XX:MinRAMPercentage''"

definition GCLoggingArg :: string where "GCLoggingArg = ''-verbose:gc''"

definition SerialGCArg :: string where "SerialGCArg = ''-XX:+UseSerialGC''"

definition ParallelGCArg :: string where "ParallelGCArg = ''-XX:+UseParallelGC''"

definition G1GCArg :: string where "G1GCArg = ''-XX:+UseG1GC''"

definition validateJVMMemoryArgs :: "JVMMemoryConfiguration option \<Rightarrow> string list \<Rightarrow> vstep" where
  "validateJVMMemoryArgs mo args =
     (case mo of
        None \<Rightarrow> Some
      | Some m \<Rightarrow> runAll
         [(if jm_InitialRAMPercentage m \<noteq> None then validateArg args InitialRamPerArg else Some),
          (if jm_MaxRAMPercentage m \<noteq> None then validateArg args MaxRamPerArg else Some),
          (if jm_MinRAMPercentage m \<noteq> None then validateArg args MinRamPerArg else Some)])"

definition validateJVMGCArgs :: "JVMGCConfiguration option \<Rightarrow> string list \<Rightarrow> vstep" where
  "validateJVMGCArgs gco args =
     (case gco of
        None \<Rightarrow> Some
      | Some gc \<Rightarrow> runAll
         [(if jg_Logging gc \<noteq> None then validateArg args GCLoggingArg else Some),
          (case jg_Collector gc of
             None \<Rightarrow> Some
           | Some c \<Rightarrow> runAll
              [(if c = GCTypeSerial then validateArg args SerialGCArg else Some),
               (if c = GCTypeParallel then validateArg args ParallelGCArg else Some),
               (if c = GCTypeG1 then validateArg args G1GCArg else Some)])])"

definition validateJVMConfig :: "Hazelcast \<Rightarrow> vstep" where
  "validateJVMConfig h =
     (case hs_JVM (h_Spec h) of
        None \<Rightarrow> Some
      | Some jvm \<Rightarrow> runAll [validateJVMMemoryArgs (jvm_Memory jvm) (jvm_Args jvm),
                           validateJVMGCArgs (jvm_GC jvm) (jvm_Args jvm)])"

definition validateJetConfig :: "validation_env \<Rightarrow> Hazelcast \<Rightarrow> vstep" where
  "validateJetConfig env h =
     (if \<not> Jet_IsEnabled (hs_JetEngineConfiguration (h_Spec h)) then Some
      else case hs_JetEngineConfiguration (h_Spec h) of
        None \<Rightarrow> Some
      | Some j \<Rightarrow> runAll
         [(case rfc_BucketConfiguration (je_RemoteFileConfiguration j) of
             None \<Rightarrow> Some
           | Some b \<Rightarrow>
               if BucketConfiguration_GetSecretName b \<noteq> [] then
                 check (IsNotFound (env_GetSecret env \<lparr> nn_Name = bc_SecretName b,
                                                        nn_Namespace = om_Namespace (h_Meta h) \<rparr>))
                   (Required [''spec'', ''jet'', ''bucketConfig'', ''secretName'']
                      ''Bucket credentials Secret not found'')
               else Some),
          check (JetInstance_IsConfigured (je_Instance j) \<and>
                 (case je_Instance j of None \<Rightarrow> False | Some i \<Rightarrow> ji_LosslessRestartEnabled i) \<and>
                 \<not> Persistence_IsEnabled (hs_Persistence (h_Spec h)))
            (Forbidden [''spec'', ''jet'', ''instance'', ''losslessRestartEnabled'']
               ''can be enabled only if persistence enabled'')])"

definition validateNativeMemory :: "Hazelcast \<Rightarrow> vstep" where
  "validateNativeMemory h =
     (case hs_NativeMemory (h_Spec h) of
        None \<Rightarrow> Some
      | Some nm \<Rightarrow> check (Persistence_IsEnabled (hs_Persistence (h_Spec h)) \<and>
                         nm_AllocatorType nm \<noteq> NativeMemoryPooled)
          (Required [''spec'', ''nativeMemory'', ''allocatorType'']
             (''MemoryAllocatorType.STANDARD cannot be used when Persistence is enabled, '' @
              ''Please use MemoryAllocatorType.POOLED!'')))"

definition validateSQL :: "Hazelcast \<Rightarrow> vstep" where
  "validateSQL h =
     (case hs_SQL (h_Spec h) of
        None \<Rightarrow> Some
      | Some sql \<Rightarrow> check (sql_CatalogPersistenceEnabled sql \<and>
                          \<not> Persistence_IsEnabled (hs_Persistence (h_Spec h)))
          (Forbidden [''spec'', ''sql'', ''catalogPersistence'']
             ''catalogPersistence requires Hazelcast persistence enabled''))"

definition validateLocalDevice :: "LocalDeviceConfig \<Rightarrow> vstep" where
  "validateLocalDevice ld =
     (case ld_PVC ld of
        None \<Rightarrow> check True (Required [''spec'', ''localDevices'', ''pvc'']
          ''must be set when LocalDevice is defined'')
      | Some pvc \<Rightarrow> check (pvc_AccessModes pvc = None)
          (Required [''spec'', ''localDevices'', ''pvc'', ''accessModes'']
             ''must be set when LocalDevice is defined''))"

definition validateTieredStorage :: "Hazelcast \<Rightarrow> vstep" where
  "validateTieredStorage h =
     (if \<not> HazelcastSpec_IsTieredStorageEnabled (h_Spec h) then Some
      else runAll
        (check (\<not> NativeMemory_IsEnabled (hs_NativeMemory (h_Spec h)))
           (Required [''spec'', ''nativeMemory'']
              ''Native Memory must be enabled at Hazelcast when Tiered Storage is enabled'')
         # map validateLocalDevice (hs_LocalDevices (h_Spec h))))"

definition validateSessionTTLSeconds :: "CPSubsystem \<Rightarrow> vstep" where
  "validateSessionTTLSeconds cp =
     (let ttl = Int32Deref (cp_SessionTTLSeconds cp) 300;
          heartbeat = Int32Deref (cp_SessionHeartbeatIntervalSeconds cp) 5;
          autoremoval = Int32Deref (cp_MissingCpMemberAutoRemovalSeconds cp) 14400
      in runAll
        [check (ttl \<le>s heartbeat)
           (Invalid [''spec'', ''cpSubsystem'', ''sessionTTLSeconds''] (BVInt (sint ttl))
              ''must be greater than sessionHeartbeatIntervalSeconds''),
         check (autoremoval \<noteq> 0 \<and> autoremoval <s ttl)
           (Invalid [''spec'', ''cpSubsystem'', ''sessionTTLSeconds''] (BVInt (sint ttl))
              ''must be smaller than or equal to missingCpMemberAutoRemovalSeconds'')])"

definition validateCPSubsystem :: "Hazelcast \<Rightarrow> vstep" where
  "validateCPSubsystem h =
     (case hs_CPSubsystem (h_Spec h) of
        None \<Rightarrow> Some
      | Some cp \<Rightarrow>
          (let memberSize = Int32Deref (hs_ClusterSize (h_Spec h)) 3
           in runAll
             [check (memberSize \<noteq> 0 \<and> memberSize \<noteq> 3 \<and> memberSize \<noteq> 5 \<and> memberSize \<noteq> 7)
                (Invalid [''spec'', ''clusterSize'']
                   (BVIntPtr (map_option sint (hs_ClusterSize (h_Spec h))))
                   ''cluster with CP Subsystem enabled can have 3, 5, or 7 members''),
              check (cp_PVC cp = None \<and>
                     (case hs_Persistence (h_Spec h) of None \<Rightarrow> True | Some p \<Rightarrow> hp_PVC p = None))
                (Required [''spec'', ''cpSubsystem'', ''pvc''] ''PVC should be configured''),
              validateSessionTTLSeconds cp]))"

definition validateSpecCurrent :: "validation_env \<Rightarrow> Hazelcast \<Rightarrow> vstep" where
  "validateSpecCurrent env h = runAll
     [validateMetadata h, validateExposeExternally env h, validateLicense env h,
      validateTLS env h, validatePersistence env h, validateClusterSize h,
      validateAdvancedNetwork env h, validateJetConfig env h, validateJVMConfig h,
      validateCustomConfig env h, validateNativeMemory h, validateSQL h,
      validateTieredStorage h, validateCPSubsystem h]"

definition validateNotUpdatableHzPersistenceFields ::
    "HazelcastPersistenceConfiguration option \<Rightarrow> HazelcastPersistenceConfiguration option \<Rightarrow> vstep" where
  "validateNotUpdatableHzPersistenceFields current prev =
     (case (current, prev) of
        (None, None) \<Rightarrow> Some
      | (None, Some l) \<Rightarrow> check True
          (Forbidden [''spec'', ''persistence''] ''field cannot be enabled after creation'')
      | (Some c, None) \<Rightarrow> check True
          (Forbidden [''spec'', ''persistence''] ''field cannot be disabled after creation'')
      | (Some c, Some l) \<Rightarrow> runAll
         [check (hp_PVC c \<noteq> hp_PVC l)
            (Forbidden [''spec'', ''persistence'', ''pvc''] ''field cannot be updated''),
          check (hp_Restore c \<noteq> hp_Restore l)
            (Forbidden [''spec'', ''persistence'', ''restore''] ''field cannot be updated'')])"

definition validateNotUpdatableCPFields ::
    "CPSubsystem option \<Rightarrow> CPSubsystem option \<Rightarrow> vstep" where
  "validateNotUpdatableCPFields current prev =
     (case (current, prev) of
        (None, None) \<Rightarrow> Some
      | (None, Some l) \<Rightarrow> check True
          (Forbidden [''spec'', ''cpSubsystem''] ''field cannot be enabled after creation'')
      | (Some c, None) \<Rightarrow> check True
          (Forbidden [''spec'', ''cpSubsystem''] ''field cannot be disabled after creation'')
      | (Some c, Some l) \<Rightarrow> check (cp_PVC c \<noteq> cp_PVC l)
          (Forbidden [''spec'', ''cpSubsystem'', ''pvc''] ''field cannot be updated''))"

definition validateNotUpdatableSQLFields :: "SQL option \<Rightarrow> SQL option \<Rightarrow> vstep" where
  "validateNotUpdatableSQLFields current prev = check
     ((case prev of None \<Rightarrow> False | Some l \<Rightarrow> sql_CatalogPersistenceEnabled l) \<and>
      (case current of None \<Rightarrow> True | Some c \<Rightarrow> \<not> sql_CatalogPersistenceEnabled c))
     (Forbidden [''spec'', ''sql'', ''catalogPersistenceEnabled'']
        ''field cannot be disabled after it has been enabled'')"

definition validateNotUpdatableHazelcastFields :: "HazelcastSpec \<Rightarrow> HazelcastSpec \<Rightarrow> vstep" where
  "validateNotUpdatableHazelcastFields current prev = runAll
     [check (hs_HighAvailabilityMode current \<noteq> hs_HighAvailabilityMode prev)
        (Forbidden [''spec'', ''highAvailabilityMode''] ''field cannot be updated''),
      validateNotUpdatableHzPersistenceFields (hs_Persistence current) (hs_Persistence prev),
      validateNotUpdatableSQLFields (hs_SQL current) (hs_SQL prev),
      validateNotUpdatableCPFields (hs_CPSubsystem current) (hs_CPSubsystem prev)]"

definition isScaledNotPaused :: "HazelcastSpec \<Rightarrow> HazelcastSpec \<Rightarrow> bool" where
  "isScaledNotPaused current prev =
     (let newSize = Int32Deref (hs_ClusterSize current) 3;
          oldSize = Int32Deref (hs_ClusterSize prev) 3
      in newSize \<noteq> 0 \<and> oldSize \<noteq> 0 \<and> newSize \<noteq> oldSize)"

definition isRevertedToOldSize :: "Hazelcast \<Rightarrow> bool" where
  "isRevertedToOldSize h =
     (Int32Deref (hs_ClusterSize (h_Spec h)) 3 = hst_ClusterSize (h_Status h))"

definition validateSpecUpdate :: "validation_env \<Rightarrow> Hazelcast \<Rightarrow> vstep" where
  "validateSpecUpdate env h =
     (case om_Annotations (h_Meta h) LastSuccessfulSpecAnnotation of
        None \<Rightarrow> Some
      | Some prev \<Rightarrow>
          (case env_UnmarshalHazelcastSpec env prev of
             Inl err \<Rightarrow> check True (InternalError [''spec'']
               (''error parsing last Hazelcast spec for update errors: '' @ err))
           | Inr parsed \<Rightarrow> runAll
              [validateNotUpdatableHazelcastFields (h_Spec h) parsed,
               check (CP_IsEnabled (hs_CPSubsystem (h_Spec h)) \<and> isScaledNotPaused (h_Spec h) parsed \<and>
                      \<not> isRevertedToOldSize h)
                 (Forbidden [''spec'', ''clusterSize'']
                    ''dynamic scaling not permitted when CP is enabled'')]))"

definition hazelcast_object :: "Hazelcast \<Rightarrow> validated_object" where
  "hazelcast_object h = \<lparr> vo_Kind = ''Hazelcast'', vo_Name = om_Name (h_Meta h) \<rparr>"

definition ValidateHazelcastSpec :: "validation_env \<Rightarrow> Hazelcast \<Rightarrow> validation_error option go" where
  "ValidateHazelcastSpec env h =
     outcome (runAll [validateSpecCurrent env h, validateSpecUpdate env h]) (hazelcast_object h)"

subsection \<open>Every validator keeps the contract of a step\<close>

lemmas current_defs =
  validateMetadata_def validateExposeExternally_def validateLicense_def validateTLS_def
  validatePersistence_def validateClusterSize_def validateWANServiceTypes_def
  isOverlapWithEachOther_def isOverlapWithOtherSockets_def validateWANPorts_def
  validateAdvancedNetwork_def validateJetConfig_def validateJVMMemoryArgs_def
  validateJVMGCArgs_def validateJVMConfig_def validateArg_def validateCustomConfig_def
  validateNativeMemory_def validateSQL_def validateLocalDevice_def validateTieredStorage_def
  validateSessionTTLSeconds_def validateCPSubsystem_def

lemmas update_defs =
  validateNotUpdatableHzPersistenceFields_def validateNotUpdatableCPFields_def
  validateNotUpdatableSQLFields_def validateNotUpdatableHazelcastFields_def

lemma current_steps [simp]:
  "validation_step (validateMetadata h)" "validation_step (validateExposeExternally env h)"
  "validation_step (validateLicense env h)" "validation_step (validateTLS env h)"
  "validation_step (validatePersistence env h)" "validation_step (validateClusterSize h)"
  "validation_step (validateWANServiceTypes an)" "validation_step (validateArg args a)"
  "validation_step (isOverlapWithEachOther env an)"
  "validation_step (isOverlapWithOtherSockets an)"
  "validation_step (validateJetConfig env h)"
  "validation_step (validateCustomConfig env h)" "validation_step (validateNativeMemory h)"
  "validation_step (validateSQL h)" "validation_step (validateLocalDevice ld)"
  "validation_step (validateSessionTTLSeconds cp)"
  by (auto simp: current_defs Let_def split: option.split get_result.split prod.split)

lemma current_steps' [simp]:
  "validation_step (validateWANPorts env an)" "validation_step (validateAdvancedNetwork env h)"
  "validation_step (validateJVMMemoryArgs mo args)" "validation_step (validateJVMGCArgs gco args)"
  "validation_step (validateTieredStorage h)" "validation_step (validateCPSubsystem h)"
  by (auto simp: validateWANPorts_def validateAdvancedNetwork_def validateJVMMemoryArgs_def
      validateJVMGCArgs_def validateTieredStorage_def validateCPSubsystem_def Let_def
      split: option.split)

lemma update_steps [simp]:
  "validation_step (validateNotUpdatableHzPersistenceFields c l)"
  "validation_step (validateNotUpdatableCPFields c' l')"
  "validation_step (validateNotUpdatableSQLFields c'' l'')"
  by (auto simp: update_defs split: option.split)

interpretation specCurrent: validation_step "validateSpecCurrent env h" for env h
  by (simp add: validateSpecCurrent_def validateJVMConfig_def split: option.split)

interpretation specUpdate: validation_step "validateSpecUpdate env h" for env h
  by (simp add: validateSpecUpdate_def validateNotUpdatableHazelcastFields_def
      split: option.split sum.split)

subsection \<open>The name pattern\<close>

definition label_ok :: "string \<Rightarrow> bool" where
  "label_ok l = (l \<noteq> [] \<and> is_alpha (hd l) \<and> is_alnum (List.last l) \<and> (\<forall>c \<in> set l. is_alnum_dash c))"

lemma is_alnum_dash_if: "is_alnum c \<Longrightarrow> is_alnum_dash c" "is_alpha c \<Longrightarrow> is_alnum c"
  by (simp_all add: is_alnum_dash_def is_alnum_def)

lemma in_lang_label: "in_lang labelRE l \<longleftrightarrow> label_ok l"
proof (cases l)
  case Nil
  then show ?thesis by (simp add: labelRE_def label_ok_def)
next
  case (Cons a t)
  have "in_lang labelRE l \<longleftrightarrow> is_alpha a \<and>
      (t = [] \<or> (\<exists>u c. t = u @ [c] \<and> (\<forall>c \<in> set u. is_alnum_dash c) \<and> is_alnum c))"
    unfolding Cons labelRE_def ROpt_def
    by (auto simp: in_lang_Class_Seq in_lang_Seq_Class in_lang_Star_Class simp del: in_lang_simps(5))
  also have "\<dots> \<longleftrightarrow> label_ok l"
    unfolding Cons label_ok_def
    by (cases t rule: rev_cases) (auto intro: is_alnum_dash_if)
  finally show ?thesis .
qed

lemma label_no_dot: "label_ok l \<Longrightarrow> CHR ''.'' \<notin> set l"
  by (auto simp: label_ok_def is_alnum_dash_def is_alnum_def is_alpha_def)

lemma dotted_parts:
  "(\<forall>u \<in> set us. in_lang (RSeq (RClass (\<lambda>c. c = CHR ''.'')) labelRE) u) \<longleftrightarrow>
   (\<exists>ls. us = map (\<lambda>l. CHR ''.'' # l) ls \<and> (\<forall>l \<in> set ls. label_ok l))"
proof (induction us)
  case (Cons u us)
  have "in_lang (RSeq (RClass (\<lambda>c. c = CHR ''.'')) labelRE) u \<longleftrightarrow> (\<exists>l. u = CHR ''.'' # l \<and> label_ok l)"
    by (auto simp: in_lang_Class_Seq in_lang_label simp del: in_lang_simps(5))
  with Cons.IH show ?case by (auto simp: Cons_eq_map_conv)
qed simp

lemma Join_dots: "l @ concat (map (\<lambda>l. CHR ''.'' # l) ls) = Join (l # ls) ''.''"
proof (induction ls arbitrary: l)
  case (Cons a ls)
  from Cons.IH [of a] show ?case by simp
qed simp

lemma in_lang_name:
  "in_lang nameRE s \<longleftrightarrow> (\<exists>ls. ls \<noteq> [] \<and> s = Join ls ''.'' \<and> (\<forall>l \<in> set ls. label_ok l))"
proof -
  have "in_lang nameRE s \<longleftrightarrow> (\<exists>l ls. s = l @ concat (map (\<lambda>l. CHR ''.'' # l) ls) \<and>
      label_ok l \<and> (\<forall>l \<in> set ls. label_ok l))"
    unfolding nameRE_def in_lang_simps(5) [of labelRE] in_lang_Star dotted_parts in_lang_label
    by blast
  also have "\<dots> \<longleftrightarrow> (\<exists>ls. ls \<noteq> [] \<and> s = Join ls ''.'' \<and> (\<forall>l \<in> set ls. label_ok l))"
    unfolding Join_dots by (metis list.exhaust list.set_intros set_ConsD list.distinct(1))
  finally show ?thesis .
qed

lemma accepts_validateMetadata:
  "accepts (validateMetadata h) \<longleftrightarrow> (\<forall>l \<in> set (Split (om_Name (h_Meta h)) ''.''). label_ok l)"
proof -
  let ?n = "om_Name (h_Meta h)"
  have "matches nameRE ?n \<longleftrightarrow> (\<forall>l \<in> set (Split ?n ''.''). label_ok l)"
    unfolding matches_iff in_lang_name
  proof
    assume "\<exists>ls. ls \<noteq> [] \<and> ?n = Join ls ''.'' \<and> (\<forall>l \<in> set ls. label_ok l)"
    then obtain ls where ls: "ls \<noteq> []" "?n = Join ls ''.''" "\<forall>l \<in> set ls. label_ok l" by blast
    then have "Split ?n ''.'' = ls" using Split_Join_char label_no_dot by metis
    with ls show "\<forall>l \<in> set (Split ?n ''.''). label_ok l" by simp
  next
    assume "\<forall>l \<in> set (Split ?n ''.''). label_ok l"
    then show "\<exists>ls. ls \<noteq> [] \<and> ?n = Join ls ''.'' \<and> (\<forall>l \<in> set ls. label_ok l)"
      by (intro exI [of _ "Split ?n ''.''"]) (simp add: Join_Split)
  qed
  then show ?thesis by (simp add: validateMetadata_def)
qed

subsection \<open>The WAN port ranges\<close>

lemma neighbours_iff: "(\<forall>(p, q) \<in> set (neighbours xs). R p q) \<longleftrightarrow> successively R xs"
  by (induction xs rule: neighbours.induct) auto

text \<open>For a symmetric relation, that all pairs of a list are related does not depend on
  the order of the list.\<close>

lemma sorted_wrt_sym_mset:
  assumes "\<And>x y. R x y \<Longrightarrow> R y x"
  shows "sorted_wrt R xs \<longleftrightarrow> (\<forall>x \<in># mset xs. \<forall>y \<in># mset xs - {#x#}. R x y)"
proof (induction xs)
  case (Cons a xs)
  show ?case
  proof
    assume "sorted_wrt R (a # xs)"
    then have a: "\<forall>y \<in> set xs. R a y" and "sorted_wrt R xs" by simp_all
    with Cons.IH have IH: "\<forall>x \<in># mset xs. \<forall>y \<in># mset xs - {#x#}. R x y" by simp
    show "\<forall>x \<in># mset (a # xs). \<forall>y \<in># mset (a # xs) - {#x#}. R x y"
    proof (intro ballI)
      fix x y
      assume x: "x \<in># mset (a # xs)" and y: "y \<in># mset (a # xs) - {#x#}"
      show "R x y"
      proof (cases "x = a")
        case True
        with y a show ?thesis by simp
      next
        case False
        with x y IH a assms show ?thesis
          by (auto simp: add_mset_remove_trivial_If split: if_splits)
      qed
    qed
  next
    assume all: "\<forall>x \<in># mset (a # xs). \<forall>y \<in># mset (a # xs) - {#x#}. R x y"
    then have "\<forall>y \<in> set xs. R a y" by simp
    moreover have "R x y" if "x \<in># mset xs" "y \<in># mset xs - {#x#}" for x y
    proof -
      have "y \<in># mset (a # xs) - {#x#}"
        using that by (auto simp: in_diff_count split: if_splits)
      with all that(1) show "R x y" by auto
    qed
    ultimately show "sorted_wrt R (a # xs)" using Cons.IH by simp
  qed
qed simp

lemma sorted_wrt_sym_perm:
  assumes "\<And>x y. R x y \<Longrightarrow> R y x" and "mset xs = mset ys"
  shows "sorted_wrt R xs \<longleftrightarrow> sorted_wrt R ys"
  using sorted_wrt_sym_mset [of R, OF assms(1)] assms(2) mset_eq_setD [OF assms(2)] by simp

definition ports :: "uint \<times> uint \<Rightarrow> nat set" where
  "ports r = {unat (fst r) ..< unat (snd r)}"

definition no_wrap :: "WANConfig \<Rightarrow> bool" where
  "no_wrap w = (unat (wc_Port w) + unat (wc_PortCount w) < 2 ^ 64)"

lemma portRange_ports:
  "no_wrap w \<Longrightarrow> ports (portRange w) = {unat (wc_Port w) ..< unat (wc_Port w) + unat (wc_PortCount w)}"
  by (simp add: ports_def portRange_def no_wrap_def unat_word_ariths)

lemma portRange_less:
  "no_wrap w \<Longrightarrow> 0 < wc_PortCount w \<Longrightarrow> fst (portRange w) < snd (portRange w)"
  by (simp add: portRange_def no_wrap_def word_less_nat_alt unat_word_ariths)

lemma disjoint_ranges:
  assumes "fst p < snd p" and "fst q < snd q" and "fst p \<le> fst q"
  shows "ports p \<inter> ports q = {} \<longleftrightarrow> snd p \<le> fst q"
proof
  assume "ports p \<inter> ports q = {}"
  then have "unat (fst q) \<notin> ports p"
    using assms(2) by (auto simp: ports_def word_less_nat_alt)
  then show "snd p \<le> fst q"
    using assms(3) by (simp add: ports_def word_le_nat_alt)
next
  assume "snd p \<le> fst q"
  then show "ports p \<inter> ports q = {}" by (auto simp: ports_def word_le_nat_alt)
qed

lemma accepts_isOverlapWithEachOther:
  assumes "sorts_by_min (env_SortSlice env)"
    and pos: "\<forall>w \<in> set (an_WAN an). no_wrap w \<and> 0 < wc_PortCount w"
  shows "accepts (isOverlapWithEachOther env an) \<longleftrightarrow>
    sorted_wrt (\<lambda>v w. ports (portRange v) \<inter> ports (portRange w) = {}) (an_WAN an)"
proof -
  let ?xs = "map portRange (an_WAN an)" and ?D = "\<lambda>p q. ports p \<inter> ports q = {}"
  define ys where "ys = env_SortSlice env ?xs"
  have perm: "mset ys = mset ?xs" and sorted: "sorted (map fst ys)"
    using assms(1) by (simp_all add: sorts_by_min_def ys_def)
  have set: "set ys = set ?xs" using perm by (metis set_mset_mset)
  with pos have less: "fst p < snd p" if "p \<in> set ys" for p
    using that portRange_less by auto
  have "accepts (isOverlapWithEachOther env an) \<longleftrightarrow> (\<forall>(p, q) \<in> set (neighbours ys). snd p \<le> fst q)"
    by (auto simp: isOverlapWithEachOther_def ys_def not_less split: prod.split)
  also have "\<dots> \<longleftrightarrow> sorted_wrt (\<lambda>p q. snd p \<le> fst q) ys"
    unfolding neighbours_iff
    by (rule successively_iff_sorted_wrt_strong) (use less in \<open>meson order.trans less_imp_le\<close>)
  also have "\<dots> \<longleftrightarrow> sorted_wrt ?D ys"
    using sorted less
  proof (induction ys)
    case (Cons p ys)
    then show ?case using disjoint_ranges [of p] by auto
  qed simp
  also have "\<dots> \<longleftrightarrow> sorted_wrt ?D ?xs"
    by (rule sorted_wrt_sym_perm) (use perm in auto)
  finally show ?thesis by (simp add: sorted_wrt_map)
qed

end
