(* ===== verification/Reconcile.thy ===== *)
theory Reconcile
  imports Api_Resources
begin

text \<open>
  What the controllers share (\<^verbatim>\<open>internal/controller\<close>): the errors of the API server, the result
  of a reconciliation, the options of a status update, and computations that call the
  outside world and stop at the first error.
\<close>

subsection \<open>Errors and results\<close>

text \<open>\<open>ErrPanic\<close> is a run-time panic: it unwinds the reconciliation, and no code of the operator
  catches it.\<close>

datatype go_error = ErrNotFound string | ErrConflict string | ErrAlreadyExists string | ErrInvalid string
  | ErrOther string | ErrPanic string

fun error_text :: "go_error \<Rightarrow> string" where
  "error_text (ErrNotFound t) = t"
| "error_text (ErrConflict t) = t"
| "error_text (ErrAlreadyExists t) = t"
| "error_text (ErrInvalid t) = t"
| "error_text (ErrOther t) = t"
| "error_text (ErrPanic t) = t"

text \<open>\<^verbatim>\<open>fmt.Errorf\<close> with \<^verbatim>\<open>%w\<close> keeps the reason, which \<^verbatim>\<open>IsNotFound\<close> and \<^verbatim>\<open>IsConflict\<close> look for in the
  wrapped error.\<close>

fun wrapErr :: "string \<Rightarrow> go_error \<Rightarrow> go_error" where
  "wrapErr p (ErrNotFound t) = ErrNotFound (p @ t)"
| "wrapErr p (ErrConflict t) = ErrConflict (p @ t)"
| "wrapErr p (ErrAlreadyExists t) = ErrAlreadyExists (p @ t)"
| "wrapErr p (ErrInvalid t) = ErrInvalid (p @ t)"
| "wrapErr p (ErrOther t) = ErrOther (p @ t)"
| "wrapErr p (ErrPanic t) = ErrPanic t"

definition ErrIsNotFound :: "go_error \<Rightarrow> bool" where
  "ErrIsNotFound e = (case e of ErrNotFound _ \<Rightarrow> True | _ \<Rightarrow> False)"

definition ErrIsConflict :: "go_error \<Rightarrow> bool" where
  "ErrIsConflict e = (case e of ErrConflict _ \<Rightarrow> True | _ \<Rightarrow> False)"

definition ErrIsAlreadyExists :: "go_error \<Rightarrow> bool" where
  "ErrIsAlreadyExists e = (case e of ErrAlreadyExists _ \<Rightarrow> True | _ \<Rightarrow> False)"

definition ErrIsInvalid :: "go_error \<Rightarrow> bool" where
  "ErrIsInvalid e = (case e of ErrInvalid _ \<Rightarrow> True | _ \<Rightarrow> False)"

record Result =
  res_Requeue :: bool
  res_RequeueAfter :: int64

definition ResultZero :: Result where
  "ResultZero = \<lparr> res_Requeue = False, res_RequeueAfter = 0 \<rparr>"

definition requeued :: "Result \<Rightarrow> bool" where
  "requeued r = (res_Requeue r \<or> 0 <s res_RequeueAfter r)"

record ReconcilerOption =
  ro_RetryAfter :: int64
  ro_Err :: "go_error option"

definition ro_retryAfter :: "int64 \<Rightarrow> ReconcilerOption" where
  "ro_retryAfter dur = \<lparr> ro_RetryAfter = dur, ro_Err = None \<rparr>"

definition ro_error :: "go_error \<Rightarrow> ReconcilerOption" where
  "ro_error err = \<lparr> ro_RetryAfter = 0, ro_Err = Some err \<rparr>"

definition ro_empty :: ReconcilerOption where
  "ro_empty = \<lparr> ro_RetryAfter = 0, ro_Err = None \<rparr>"

subsection \<open>Annotations (annotation.go)\<close>

text \<open>\<open>marshal\<close> stands for \<^verbatim>\<open>json.Marshal\<close>.\<close>

definition insertSpec :: "('s \<Rightarrow> string) \<Rightarrow> 's \<Rightarrow> string \<Rightarrow> ObjectMeta \<Rightarrow> ObjectMeta" where
  "insertSpec marshal spec annotation ob =
     ob\<lparr> om_Annotations := (om_Annotations ob)(annotation \<mapsto> marshal spec) \<rparr>"

definition InsertLastSuccessfullyAppliedSpec :: "('s \<Rightarrow> string) \<Rightarrow> 's \<Rightarrow> ObjectMeta \<Rightarrow> ObjectMeta" where
  "InsertLastSuccessfullyAppliedSpec marshal spec ob =
     insertSpec marshal spec LastSuccessfulSpecAnnotation ob"

definition IsSuccessfullyApplied :: "ObjectMeta \<Rightarrow> bool" where
  "IsSuccessfullyApplied ob = (om_Annotations ob LastSuccessfulSpecAnnotation \<noteq> None)"

subsection \<open>Finalizers (controllerutil)\<close>

definition ContainsFinalizer :: "ObjectMeta \<Rightarrow> string \<Rightarrow> bool" where
  "ContainsFinalizer ob f = (f \<in> set (om_Finalizers ob))"

definition AddFinalizer :: "ObjectMeta \<Rightarrow> string \<Rightarrow> ObjectMeta" where
  "AddFinalizer ob f =
     (if f \<in> set (om_Finalizers ob) then ob
      else ob\<lparr> om_Finalizers := om_Finalizers ob @ [f] \<rparr>)"

definition RemoveFinalizer :: "ObjectMeta \<Rightarrow> string \<Rightarrow> ObjectMeta" where
  "RemoveFinalizer ob f = ob\<lparr> om_Finalizers := filter (\<lambda>g. g \<noteq> f) (om_Finalizers ob) \<rparr>"

lemma finalizer_simps [simp]:
  "ContainsFinalizer (AddFinalizer ob f) g \<longleftrightarrow> g = f \<or> ContainsFinalizer ob g"
  "ContainsFinalizer (RemoveFinalizer ob f) g \<longleftrightarrow> g \<noteq> f \<and> ContainsFinalizer ob g"
  "om_Name (AddFinalizer ob f) = om_Name ob" "om_Name (RemoveFinalizer ob f) = om_Name ob"
  by (auto simp: ContainsFinalizer_def AddFinalizer_def RemoveFinalizer_def)

subsection \<open>Computations\<close>

text \<open>A computation reads and writes a state and ends in an error (\<open>Inl\<close>) or a value. A loop
  over a list ends at the first error, as \<^verbatim>\<open>for ... { if err != nil { return err } }\<close>.\<close>

type_synonym ('w, 'a) action = "'w \<Rightarrow> (go_error + 'a) \<times> 'w"

definition returnA :: "'a \<Rightarrow> ('w, 'a) action" where
  "returnA x w = (Inr x, w)"

definition throwA :: "go_error \<Rightarrow> ('w, 'a) action" where
  "throwA e w = (Inl e, w)"

definition bindA :: "('w, 'a) action \<Rightarrow> ('a \<Rightarrow> ('w, 'b) action) \<Rightarrow> ('w, 'b) action" where
  "bindA m f w = (case m w of (Inl e, w') \<Rightarrow> (Inl e, w') | (Inr x, w') \<Rightarrow> f x w')"

definition tryA :: "('w, 'a) action \<Rightarrow> (go_error + 'a \<Rightarrow> ('w, 'b) action) \<Rightarrow> ('w, 'b) action" where
  "tryA m f w = (case m w of (r, w') \<Rightarrow> f r w')"

definition getA :: "('w, 'w) action" where
  "getA w = (Inr w, w)"

definition modifyA :: "('w \<Rightarrow> 'w) \<Rightarrow> ('w, unit) action" where
  "modifyA f w = (Inr (), f w)"

fun forA :: "'a list \<Rightarrow> ('a \<Rightarrow> ('w, unit) action) \<Rightarrow> ('w, unit) action" where
  "forA [] f w = (Inr (), w)"
| "forA (x # xs) f w = bindA (f x) (\<lambda>_. forA xs f) w"

lemma bindA_simps [simp]:
  "m w = (Inl e, w') \<Longrightarrow> bindA m f w = (Inl e, w')"
  "m w = (Inr x, w') \<Longrightarrow> bindA m f w = f x w'"
  by (simp_all add: bindA_def)

lemma action_simps:
  "returnA x w = (Inr x, w)" "throwA e w = (Inl e, w)" "getA w = (Inr w, w)"
  "modifyA g w = (Inr (), g w)" "tryA m k w = (case m w of (r, w') \<Rightarrow> k r w')"
  by (simp_all add: returnA_def throwA_def getA_def modifyA_def tryA_def)

lemma bindA_split:
  "P (bindA m f w) \<longleftrightarrow>
     (\<forall>e w'. m w = (Inl e, w') \<longrightarrow> P (Inl e, w')) \<and> (\<forall>x w'. m w = (Inr x, w') \<longrightarrow> P (f x w'))"
  by (auto simp: bindA_def split: prod.splits sum.splits)

lemma bindA_Inr_iff:
  "bindA m f w = (Inr y, w'') \<longleftrightarrow> (\<exists>x w'. m w = (Inr x, w') \<and> f x w' = (Inr y, w''))"
  by (auto simp: bindA_def split: prod.splits sum.splits)

text \<open>An invariant of the state that every outcome keeps.\<close>

definition preserves :: "('w \<Rightarrow> bool) \<Rightarrow> ('w, 'a) action \<Rightarrow> bool" where
  "preserves I m = (\<forall>w. I w \<longrightarrow> I (snd (m w)))"

lemma preserves_returnA [kept]: "preserves I (returnA x)" "preserves I (throwA e)" "preserves I getA"
  by (simp_all add: preserves_def action_simps)

lemma preserves_bindA [kept]:
  "preserves I m \<Longrightarrow> (\<And>x. preserves I (f x)) \<Longrightarrow> preserves I (bindA m f)"
  unfolding preserves_def by (auto split: bindA_split)

lemma preserves_tryA [kept]:
  "preserves I m \<Longrightarrow> (\<And>r. preserves I (k r)) \<Longrightarrow> preserves I (tryA m k)"
  unfolding preserves_def by (auto simp: action_simps split: prod.split)

lemma preserves_forA [kept]:
  "(\<And>x. x \<in> set xs \<Longrightarrow> preserves I (f x)) \<Longrightarrow> preserves I (forA xs f)"
proof (induction xs)
  case Nil
  then show ?case by (simp add: preserves_def)
next
  case (Cons x xs)
  have "preserves I (bindA (f x) (\<lambda>_. forA xs f))"
    by (rule preserves_bindA) (use Cons in simp_all)
  then show ?case by (simp add: preserves_def)
qed

end
