(* ===== verification/Samples.thy ===== *)
theory Samples
  imports Field_Validation
begin

text \<open>
  Concrete resources and a concrete environment, on which the witnesses of the theorems
  evaluate the definitions: a three-member cluster with the defaults of the API server, a
  map on it, and a cluster in which every referenced object exists.
\<close>

definition sample_meta :: ObjectMeta where
  "sample_meta = \<lparr> om_Name = ''hz'', om_Namespace = ''default'', om_UID = ''uid'',
     om_Annotations = Map.empty, om_Finalizers = [], om_OwnerReferences = [],
     om_DeletionTimestamp = None, om_CreationTimestamp = 0 \<rparr>"

definition sample_hazelcast_spec :: HazelcastSpec where
  "sample_hazelcast_spec = \<lparr> hs_ClusterSize = Some 3, hs_Repository = ''hazelcast'',
     hs_Version = ''5.5'', hs_ImagePullPolicy = ''IfNotPresent'', hs_ImagePullSecrets = [],
     hs_DeprecatedLicenseKeySecret = [], hs_LicenseKeySecretName = ''license'',
     hs_ExposeExternally = None, hs_ClusterName = ''dev'', hs_Scheduling = None,
     hs_Resources = None, hs_Persistence = None,
     hs_Agent = \<lparr> ag_Repository = ''agent'', ag_Version = ''0.1'', ag_Resources = None \<rparr>,
     hs_JetEngineConfiguration = None, hs_DeprecatedUserCodeDeployment = None,
     hs_ExecutorServices = [], hs_DurableExecutorServices = [], hs_ScheduledExecutorServices = [],
     hs_Properties = Map.empty, hs_LoggingLevel = LoggingLevelInfo,
     hs_HighAvailabilityMode = HighAvailabilityUnset, hs_JVM = None, hs_NativeMemory = None,
     hs_AdvancedNetwork = None, hs_ManagementCenterConfig = None, hs_TLS = None,
     hs_Serialization = None, hs_CustomConfigCmName = [], hs_SQL = None, hs_LocalDevices = [],
     hs_Annotations = Map.empty, hs_Labels = Map.empty, hs_ServiceAccountName = [],
     hs_CPSubsystem = None, hs_UserCodeNamespaces = None, hs_Env = [] \<rparr>"

definition sample_hazelcast_status :: HazelcastStatus where
  "sample_hazelcast_status = \<lparr> hst_ClusterSize = 3, hst_Selector = [], hst_Phase = Running,
     hst_Cluster = \<lparr> hcs_ReadyMembers = ''3/3'' \<rparr>, hst_Message = [], hst_Members = [],
     hst_Restore = \<lparr> rs_State = RestoreStateUnset, rs_RemainingValidationTime = 0,
       rs_RemainingDataLoadTime = 0 \<rparr> \<rparr>"

definition sample_hazelcast :: Hazelcast where
  "sample_hazelcast = \<lparr> h_Meta = sample_meta, h_Spec = sample_hazelcast_spec,
     h_Status = sample_hazelcast_status \<rparr>"

definition sample_map_spec :: MapSpec where
  "sample_map_spec = \<lparr> ms_DataStructureSpec = \<lparr> ds_Name = [], ds_HazelcastResourceName = ''hz'',
       ds_BackupCount = Some 1, ds_AsyncBackupCount = 0, ds_UserCodeNamespace = [] \<rparr>,
     ms_TimeToLiveSeconds = 0, ms_MaxIdleSeconds = 0,
     ms_Eviction = \<lparr> ev_EvictionPolicy = EvictionPolicyNone, ev_MaxSize = 0,
       ev_MaxSizePolicy = MaxSizePolicyPerNode \<rparr>,
     ms_Indexes = None, ms_Attributes = [], ms_PersistenceEnabled = False, ms_MapStore = None,
     ms_InMemoryFormat = InMemoryFormatBinary, ms_EntryListeners = [], ms_NearCache = None,
     ms_EventJournal = None, ms_TieredStore = None, ms_MerkleTree = None \<rparr>"

definition sample_map :: Map where
  "sample_map = \<lparr> m_Meta = sample_meta\<lparr> om_Name := ''map'' \<rparr>, m_Spec = sample_map_spec,
     m_Status = \<lparr> mss_State = MapSuccess, mss_Message = [], mss_MemberStatuses = Map.empty \<rparr> \<rparr>"

definition sample_wan_spec :: WanReplicationSpec where
  "sample_wan_spec = \<lparr> wrs_Resources = [\<lparr> wr_Name = ''map'', wr_Kind = ResourceKindMap \<rparr>],
     wrs_TargetClusterName = ''dev'', wrs_Endpoints = ''10.0.0.1'',
     wrs_Queue = \<lparr> qs_Capacity = 10000, qs_FullBehavior = DiscardAfterMutation \<rparr>,
     wrs_Batch = \<lparr> bs_Size = 500, bs_MaximumDelay = 1000 \<rparr>,
     wrs_Acknowledgement = \<lparr> ack_Type = AckOnOperationComplete, ack_Timeout = 60000 \<rparr>,
     wrs_SyncConsistencyCheckStrategy = ''NONE'' \<rparr>"

definition sample_jet_job_spec :: JetJobSpec where
  "sample_jet_job_spec = \<lparr> jj_Name = [], jj_HazelcastResourceName = ''hz'',
     jj_State = RunningJobState, jj_JarName = ''job.jar'', jj_MainClass = [],
     jj_InitialSnapshotResourceName = [],
     jj_RemoteFile = \<lparr> jrf_BucketConfiguration = None, jrf_RemoteURL = [] \<rparr> \<rparr>"

definition sample_env :: validation_env where
  "sample_env = \<lparr> env_GetSecret = (\<lambda>n. if nn_Name n = [] then GetNotFound else GetOk ()),
     env_GetConfigMap = (\<lambda>_. GetOk Map.empty), env_GetHotBackup = (\<lambda>_. GetOk ()),
     env_ListHazelcast = (\<lambda>_. Inr [sample_hazelcast]), env_LookupEnv = (\<lambda>_. None),
     env_YamlUnmarshal = (\<lambda>_. None),
     env_UnmarshalHazelcastSpec = (\<lambda>_. Inr sample_hazelcast_spec),
     env_UnmarshalMapSpec = (\<lambda>_. Inr sample_map_spec),
     env_UnmarshalWanReplicationSpec = (\<lambda>_. Inr sample_wan_spec),
     env_UnmarshalJetJobSpec = (\<lambda>_. Inr sample_jet_job_spec),
     env_QuantityValue = map_option (\<lambda>q. if q = QuantityZero then 0 else 1), env_SortSlice = sort_key fst \<rparr>"

lemmas sample_defs = sample_meta_def sample_hazelcast_spec_def sample_hazelcast_status_def
  sample_hazelcast_def sample_map_spec_def sample_map_def sample_wan_spec_def
  sample_jet_job_spec_def sample_env_def

lemma sample_sorts: "sorts_by_min (env_SortSlice sample_env)"
  by (simp add: sorts_by_min_def sample_env_def)

end
