(* ===== verification/Hazelcast_Admission.thy ===== *)
theory Hazelcast_Admission
  imports Hazelcast_Validation Reconcile Samples
begin

text \<open>
  What the webhook of the Hazelcast resource promises: the exact set of specifications it
  admits, that it collects every violation, when it panics, which fields an admitted update
  cannot have changed, and the port ranges it keeps apart.
\<close>

subsection \<open>The admitted specifications\<close>

definition exists_secret :: "validation_env \<Rightarrow> Hazelcast \<Rightarrow> string \<Rightarrow> bool" where
  "exists_secret env h s \<longleftrightarrow>
     env_GetSecret env \<lparr> nn_Name = s, nn_Namespace = om_Namespace (h_Meta h) \<rparr> \<noteq> GetNotFound"

definition secrets_admissible :: "validation_env \<Rightarrow> Hazelcast \<Rightarrow> bool" where
  "secrets_admissible env h \<longleftrightarrow>
     (let key = HazelcastSpec_GetLicenseKeySecretName (h_Spec h) in key = [] \<or> exists_secret env h key) \<and>
     (\<forall>tls. hs_TLS (h_Spec h) = Some tls \<and> tls \<noteq> TLSZero \<longrightarrow>
        tls_SecretName tls \<noteq> [] \<and> exists_secret env h (tls_SecretName tls))"

definition expose_admissible :: "validation_env \<Rightarrow> Hazelcast \<Rightarrow> bool" where
  "expose_admissible env h \<longleftrightarrow> (\<forall>ee. hs_ExposeExternally (h_Spec h) = Some ee \<longrightarrow>
     (ee_Type ee = ExposeExternallyTypeUnisocket \<longrightarrow> ee_MemberAccess ee = MemberAccessUnset) \<and>
     (ee_Type ee = ExposeExternallyTypeSmart \<longrightarrow>
        ee_MemberAccess ee = MemberAccessNodePortExternalIP \<longrightarrow> NodeDiscoveryEnabled env) \<and>
     ee_DiscoveryServiceType ee \<in> {ServiceTypeNodePort, ServiceTypeLoadBalancer})"

definition config_admissible :: "validation_env \<Rightarrow> Hazelcast \<Rightarrow> bool" where
  "config_admissible env h \<longleftrightarrow> hs_CustomConfigCmName (h_Spec h) = [] \<or>
     (case env_GetConfigMap env \<lparr> nn_Name = hs_CustomConfigCmName (h_Spec h),
                                  nn_Namespace = om_Namespace (h_Meta h) \<rparr> of
        GetNotFound \<Rightarrow> False
      | GetFailed _ \<Rightarrow> True
      | GetOk data \<Rightarrow> \<exists>config. data HazelcastCustomConfigKey = Some config \<and>
                              env_YamlUnmarshal env config = None)"

text \<open>Persistence, and the features that need it.\<close>

definition persistence_admissible :: "validation_env \<Rightarrow> Hazelcast \<Rightarrow> bool" where
  "persistence_admissible env h \<longleftrightarrow>
     (case hs_Persistence (h_Spec h) of
        None \<Rightarrow>
          (\<forall>sql. hs_SQL (h_Spec h) = Some sql \<longrightarrow> \<not> sql_CatalogPersistenceEnabled sql) \<and>
          (\<forall>j i. hs_JetEngineConfiguration (h_Spec h) = Some j \<and> je_Enabled j = Some True \<and>
             je_Instance j = Some i \<longrightarrow> \<not> ji_LosslessRestartEnabled i)
      | Some p \<Rightarrow>
          (\<exists>pvc. hp_PVC p = Some pvc \<and> pvc_AccessModes pvc \<noteq> None) \<and>
          \<not> (hp_StartupAction p = PartialStart \<and> hp_ClusterDataRecoveryPolicy p = FullRecovery) \<and>
          (rc_HotBackupResourceName (hp_Restore p) \<noteq> [] \<longrightarrow>
             env_GetHotBackup env \<lparr> nn_Name = rc_HotBackupResourceName (hp_Restore p),
                                    nn_Namespace = om_Namespace (h_Meta h) \<rparr> \<noteq> GetNotFound) \<and>
          (\<forall>nm. hs_NativeMemory (h_Spec h) = Some nm \<longrightarrow> nm_AllocatorType nm = NativeMemoryPooled))"

definition jet_bucket_admissible :: "validation_env \<Rightarrow> Hazelcast \<Rightarrow> bool" where
  "jet_bucket_admissible env h \<longleftrightarrow> (\<forall>j b. hs_JetEngineConfiguration (h_Spec h) = Some j \<and>
     je_Enabled j = Some True \<and> rfc_BucketConfiguration (je_RemoteFileConfiguration j) = Some b \<and>
     BucketConfiguration_GetSecretName b \<noteq> [] \<longrightarrow> exists_secret env h (bc_SecretName b))"

definition wan_admissible :: "validation_env \<Rightarrow> Hazelcast \<Rightarrow> bool" where
  "wan_admissible env h \<longleftrightarrow> (\<forall>an. hs_AdvancedNetwork (h_Spec h) = Some an \<longrightarrow>
     (\<forall>w \<in> set (an_WAN an).
        wc_ServiceType w \<notin> {ServiceTypeNodePort, ServiceTypeExternalName} \<and>
        \<not> inRange MemberServerSocketPort (portRange w) \<and>
        \<not> inRange ClientServerSocketPort (portRange w) \<and>
        \<not> inRange RestServerSocketPort (portRange w)) \<and>
     successively (\<lambda>p q. snd p \<le> fst q) (env_SortSlice env (map portRange (an_WAN an))))"

definition jvm_sets :: "JVMConfiguration \<Rightarrow> string \<Rightarrow> bool" where
  "jvm_sets jvm arg \<longleftrightarrow>
     (\<exists>m. jvm_Memory jvm = Some m \<and>
        (arg = InitialRamPerArg \<and> jm_InitialRAMPercentage m \<noteq> None \<or>
         arg = MaxRamPerArg \<and> jm_MaxRAMPercentage m \<noteq> None \<or>
         arg = MinRamPerArg \<and> jm_MinRAMPercentage m \<noteq> None)) \<or>
     (\<exists>gc. jvm_GC jvm = Some gc \<and>
        (arg = GCLoggingArg \<and> jg_Logging gc \<noteq> None \<or>
         arg = SerialGCArg \<and> jg_Collector gc = Some GCTypeSerial \<or>
         arg = ParallelGCArg \<and> jg_Collector gc = Some GCTypeParallel \<or>
         arg = G1GCArg \<and> jg_Collector gc = Some GCTypeG1))"

definition jvm_admissible :: "Hazelcast \<Rightarrow> bool" where
  "jvm_admissible h \<longleftrightarrow> (\<forall>jvm arg. hs_JVM (h_Spec h) = Some jvm \<and> jvm_sets jvm arg \<longrightarrow>
     \<not> (\<exists>s \<in> set (jvm_Args jvm). Contains s arg))"

definition tiered_admissible :: "Hazelcast \<Rightarrow> bool" where
  "tiered_admissible h \<longleftrightarrow> hs_LocalDevices (h_Spec h) = [] \<or>
     NativeMemory_IsEnabled (hs_NativeMemory (h_Spec h)) \<and>
     (\<forall>ld \<in> set (hs_LocalDevices (h_Spec h)).
        \<exists>pvc. ld_PVC ld = Some pvc \<and> pvc_AccessModes pvc \<noteq> None)"

definition size_admissible :: "Hazelcast \<Rightarrow> bool" where
  "size_admissible h \<longleftrightarrow> (\<exists>n. hs_ClusterSize (h_Spec h) = Some n \<and> sint n \<le> sint ClusterSizeLimit)"

text \<open>A CP group needs an odd quorum, a volume, and sessions that outlive their heartbeat but
  not the removal of a missing member.\<close>

definition cp_admissible :: "Hazelcast \<Rightarrow> bool" where
  "cp_admissible h \<longleftrightarrow> (\<forall>cp. hs_CPSubsystem (h_Spec h) = Some cp \<longrightarrow>
     (\<exists>n \<in> {0, 3, 5, 7}. hs_ClusterSize (h_Spec h) = Some n) \<and>
     (cp_PVC cp \<noteq> None \<or> (\<exists>p. hs_Persistence (h_Spec h) = Some p \<and> hp_PVC p \<noteq> None)) \<and>
     (let ttl = sint (Int32Deref (cp_SessionTTLSeconds cp) 300);
          removal = sint (Int32Deref (cp_MissingCpMemberAutoRemovalSeconds cp) 14400)
      in sint (Int32Deref (cp_SessionHeartbeatIntervalSeconds cp) 5) < ttl \<and>
         (removal = 0 \<or> ttl \<le> removal)))"

definition current_admissible :: "validation_env \<Rightarrow> Hazelcast \<Rightarrow> bool" where
  "current_admissible env h \<longleftrightarrow>
     (\<forall>l \<in> set (Split (om_Name (h_Meta h)) ''.''). label_ok l) \<and>
     secrets_admissible env h \<and> expose_admissible env h \<and> config_admissible env h \<and>
     persistence_admissible env h \<and> jet_bucket_admissible env h \<and> wan_admissible env h \<and>
     jvm_admissible h \<and> tiered_admissible h \<and> size_admissible h \<and> cp_admissible h"

definition update_admissible :: "HazelcastSpec \<Rightarrow> HazelcastSpec \<Rightarrow> int32 \<Rightarrow> bool" where
  "update_admissible cur prev running \<longleftrightarrow>
     hs_HighAvailabilityMode cur = hs_HighAvailabilityMode prev \<and>
     map_option (\<lambda>p. (hp_PVC p, hp_Restore p)) (hs_Persistence cur) =
       map_option (\<lambda>p. (hp_PVC p, hp_Restore p)) (hs_Persistence prev) \<and>
     map_option cp_PVC (hs_CPSubsystem cur) = map_option cp_PVC (hs_CPSubsystem prev) \<and>
     ((\<exists>s. hs_SQL prev = Some s \<and> sql_CatalogPersistenceEnabled s) \<longrightarrow>
        (\<exists>s. hs_SQL cur = Some s \<and> sql_CatalogPersistenceEnabled s)) \<and>
     (hs_CPSubsystem cur \<noteq> None \<longrightarrow>
        (let new = Int32Deref (hs_ClusterSize cur) 3; old = Int32Deref (hs_ClusterSize prev) 3
         in new \<in> {0, old, running} \<or> old = 0))"

definition hazelcast_admissible :: "validation_env \<Rightarrow> Hazelcast \<Rightarrow> bool" where
  "hazelcast_admissible env h \<longleftrightarrow> current_admissible env h \<and>
     (case om_Annotations (h_Meta h) LastSuccessfulSpecAnnotation of
        None \<Rightarrow> True
      | Some text \<Rightarrow> \<exists>prev. env_UnmarshalHazelcastSpec env text = Inr prev \<and>
                           update_admissible (h_Spec h) prev (hst_ClusterSize (h_Status h)))"

subsection \<open>Each validator accepts the specifications of its rule\<close>

lemma IsNotFound_iff: "IsNotFound r \<longleftrightarrow> r = GetNotFound"
  by (simp add: IsNotFound_def split: get_result.split)

lemma accepts_secrets:
  "accepts (validateLicense env h) \<and> accepts (validateTLS env h) \<longleftrightarrow> secrets_admissible env h"
  by (auto simp: validateLicense_def validateTLS_def secrets_admissible_def exists_secret_def
      IsNotFound_iff Let_def split: option.split)

lemma accepts_validateExposeExternally:
  "accepts (validateExposeExternally env h) \<longleftrightarrow> expose_admissible env h"
  by (auto simp: validateExposeExternally_def expose_admissible_def split: option.split)

lemma accepts_validateCustomConfig:
  "accepts (validateCustomConfig env h) \<longleftrightarrow> config_admissible env h"
  by (auto simp: validateCustomConfig_def config_admissible_def
      split: option.split get_result.split)

lemma accepts_persistence:
  "accepts (validatePersistence env h) \<and> accepts (validateJetConfig env h) \<and>
   accepts (validateNativeMemory h) \<and> accepts (validateSQL h) \<longleftrightarrow>
   persistence_admissible env h \<and> jet_bucket_admissible env h"
proof -
  have jet: "accepts (validateJetConfig env h) \<longleftrightarrow> jet_bucket_admissible env h \<and>
      (hs_Persistence (h_Spec h) = None \<longrightarrow> (\<forall>j i. hs_JetEngineConfiguration (h_Spec h) = Some j \<and>
         je_Enabled j = Some True \<and> je_Instance j = Some i \<longrightarrow> \<not> ji_LosslessRestartEnabled i))"
    by (auto simp: validateJetConfig_def jet_bucket_admissible_def Jet_IsEnabled_def
        JetInstance_IsConfigured_def JetInstanceZero_def Persistence_IsEnabled_def
        IsNotFound_iff exists_secret_def split: option.splits)
  show ?thesis
    unfolding jet
    by (auto simp: validatePersistence_def validateNativeMemory_def validateSQL_def
        persistence_admissible_def Persistence_IsEnabled_def Persistence_IsRestoreEnabled_def
        RestoreConfigurationZero_def IsNotFound_iff split: option.split)
qed

lemma all_enumerate: "(\<forall>x \<in> set xs. P x) \<longleftrightarrow> (\<forall>p \<in> set (enumerate n xs). P (snd p))"
  by (metis (mono_tags, lifting) list.set_map map_snd_enumerate image_iff)

lemma accepts_sockets:
  "accepts (validateWANServiceTypes an) \<longleftrightarrow> (\<forall>w \<in> set (an_WAN an).
     wc_ServiceType w \<notin> {ServiceTypeNodePort, ServiceTypeExternalName})"
  "accepts (isOverlapWithOtherSockets an) \<longleftrightarrow> (\<forall>w \<in> set (an_WAN an).
     \<not> inRange MemberServerSocketPort (portRange w) \<and>
     \<not> inRange ClientServerSocketPort (portRange w) \<and>
     \<not> inRange RestServerSocketPort (portRange w))"
  unfolding all_enumerate [where xs = "an_WAN an" and n = 0]
  by (simp_all add: validateWANServiceTypes_def isOverlapWithOtherSockets_def split_beta)

lemma accepts_validateAdvancedNetwork:
  "accepts (validateAdvancedNetwork env h) \<longleftrightarrow> wan_admissible env h"
proof -
  have "accepts (isOverlapWithEachOther env an) \<longleftrightarrow>
      successively (\<lambda>p q. snd p \<le> fst q) (env_SortSlice env (map portRange (an_WAN an)))" for an
    unfolding neighbours_iff [symmetric]
    by (auto simp: isOverlapWithEachOther_def not_less split: prod.split)
  then show ?thesis
    by (auto simp: validateAdvancedNetwork_def validateWANPorts_def accepts_sockets
        wan_admissible_def split: option.split)
qed

lemma accepts_JVMArgs:
  assumes "D = (\<lambda>arg. \<exists>s \<in> set args. Contains s arg)"
  shows "accepts (validateJVMMemoryArgs mo args) \<longleftrightarrow> (\<forall>m. mo = Some m \<longrightarrow>
      (jm_InitialRAMPercentage m \<noteq> None \<longrightarrow> \<not> D InitialRamPerArg) \<and>
      (jm_MaxRAMPercentage m \<noteq> None \<longrightarrow> \<not> D MaxRamPerArg) \<and>
      (jm_MinRAMPercentage m \<noteq> None \<longrightarrow> \<not> D MinRamPerArg))"
    and "accepts (validateJVMGCArgs gco args) \<longleftrightarrow> (\<forall>gc. gco = Some gc \<longrightarrow>
      (jg_Logging gc \<noteq> None \<longrightarrow> \<not> D GCLoggingArg) \<and>
      (jg_Collector gc = Some GCTypeSerial \<longrightarrow> \<not> D SerialGCArg) \<and>
      (jg_Collector gc = Some GCTypeParallel \<longrightarrow> \<not> D ParallelGCArg) \<and>
      (jg_Collector gc = Some GCTypeG1 \<longrightarrow> \<not> D G1GCArg))"
proof -
  have arg: "accepts (validateArg args a) \<longleftrightarrow> \<not> D a" for a
    by (simp add: assms validateArg_def)
  show "accepts (validateJVMMemoryArgs mo args) \<longleftrightarrow> (\<forall>m. mo = Some m \<longrightarrow>
      (jm_InitialRAMPercentage m \<noteq> None \<longrightarrow> \<not> D InitialRamPerArg) \<and>
      (jm_MaxRAMPercentage m \<noteq> None \<longrightarrow> \<not> D MaxRamPerArg) \<and>
      (jm_MinRAMPercentage m \<noteq> None \<longrightarrow> \<not> D MinRamPerArg))"
    by (cases mo) (simp_all add: validateJVMMemoryArgs_def arg)
  show "accepts (validateJVMGCArgs gco args) \<longleftrightarrow> (\<forall>gc. gco = Some gc \<longrightarrow>
      (jg_Logging gc \<noteq> None \<longrightarrow> \<not> D GCLoggingArg) \<and>
      (jg_Collector gc = Some GCTypeSerial \<longrightarrow> \<not> D SerialGCArg) \<and>
      (jg_Collector gc = Some GCTypeParallel \<longrightarrow> \<not> D ParallelGCArg) \<and>
      (jg_Collector gc = Some GCTypeG1 \<longrightarrow> \<not> D G1GCArg))"
    by (cases gco) (simp_all add: validateJVMGCArgs_def arg split: option.split)
qed

lemma accepts_validateJVMConfig: "accepts (validateJVMConfig h) \<longleftrightarrow> jvm_admissible h"
proof (cases "hs_JVM (h_Spec h)")
  case None
  then show ?thesis by (simp add: validateJVMConfig_def jvm_admissible_def)
next
  case (Some jvm)
  define D where "D = (\<lambda>arg. \<exists>s \<in> set (jvm_Args jvm). Contains s arg)"
  have "jvm_admissible h \<longleftrightarrow> (\<forall>arg. jvm_sets jvm arg \<longrightarrow> \<not> D arg)"
    by (simp add: jvm_admissible_def D_def Some)
  also have "\<dots> \<longleftrightarrow> accepts (validateJVMConfig h)"
    unfolding jvm_sets_def by (simp add: validateJVMConfig_def Some accepts_JVMArgs [OF D_def]) blast
  finally show ?thesis by simp
qed

lemma accepts_validateTieredStorage: "accepts (validateTieredStorage h) \<longleftrightarrow> tiered_admissible h"
  by (auto simp: validateTieredStorage_def validateLocalDevice_def tiered_admissible_def
      HazelcastSpec_IsTieredStorageEnabled_def split: option.splits)

lemma accepts_size_cp:
  "accepts (validateClusterSize h) \<and> accepts (validateCPSubsystem h) \<longleftrightarrow>
   size_admissible h \<and> cp_admissible h"
proof (cases "hs_ClusterSize (h_Spec h)")
  case None
  then show ?thesis by (simp add: validateClusterSize_def size_admissible_def)
next
  case (Some n)
  have ttl: "accepts (validateSessionTTLSeconds cp) \<longleftrightarrow>
     (let ttl = sint (Int32Deref (cp_SessionTTLSeconds cp) 300);
          removal = sint (Int32Deref (cp_MissingCpMemberAutoRemovalSeconds cp) 14400)
      in sint (Int32Deref (cp_SessionHeartbeatIntervalSeconds cp) 5) < ttl \<and>
         (removal = 0 \<or> ttl \<le> removal))" for cp
    by (simp add: validateSessionTTLSeconds_def Let_def word_sless_alt word_sle_eq not_less not_le)
       (metis order.refl signed_0 signed_word_eqI)
  have "accepts (validateClusterSize h) \<longleftrightarrow> size_admissible h"
    by (simp add: validateClusterSize_def size_admissible_def Some word_sless_alt not_less)
  moreover have "accepts (validateCPSubsystem h) \<longleftrightarrow> cp_admissible h"
    by (cases "hs_Persistence (h_Spec h)"; cases "hs_CPSubsystem (h_Spec h)")
       (auto simp: validateCPSubsystem_def cp_admissible_def Some ttl Int32Deref_def [of "Some n"])
  ultimately show ?thesis by simp
qed

lemma accepts_validateSpecUpdate:
  "accepts (validateSpecUpdate env h) \<longleftrightarrow>
     (case om_Annotations (h_Meta h) LastSuccessfulSpecAnnotation of
        None \<Rightarrow> True
      | Some text \<Rightarrow> \<exists>prev. env_UnmarshalHazelcastSpec env text = Inr prev \<and>
                           update_admissible (h_Spec h) prev (hst_ClusterSize (h_Status h)))"
proof -
  have persistence: "accepts (validateNotUpdatableHzPersistenceFields c l) \<longleftrightarrow>
      map_option (\<lambda>p. (hp_PVC p, hp_Restore p)) c = map_option (\<lambda>p. (hp_PVC p, hp_Restore p)) l" for c l
    by (cases c; cases l) (simp_all add: validateNotUpdatableHzPersistenceFields_def)
  have cp: "accepts (validateNotUpdatableCPFields c l) \<longleftrightarrow> map_option cp_PVC c = map_option cp_PVC l" for c l
    by (cases c; cases l) (simp_all add: validateNotUpdatableCPFields_def)
  have sql: "accepts (validateNotUpdatableSQLFields c l) \<longleftrightarrow>
      ((\<exists>s. l = Some s \<and> sql_CatalogPersistenceEnabled s) \<longrightarrow>
        (\<exists>s. c = Some s \<and> sql_CatalogPersistenceEnabled s))" for c l
    by (cases c; cases l) (simp_all add: validateNotUpdatableSQLFields_def)
  show ?thesis
    by (auto simp: validateSpecUpdate_def validateNotUpdatableHazelcastFields_def persistence cp sql
        update_admissible_def CP_IsEnabled_def isScaledNotPaused_def isRevertedToOldSize_def Let_def
        split: option.split sum.split)
qed

lemma accepts_validateSpecCurrent: "accepts (validateSpecCurrent env h) \<longleftrightarrow> current_admissible env h"
proof -
  have "validation_step (validateJVMConfig h)"
    by (simp add: validateJVMConfig_def split: option.split)
  then have "accepts (validateSpecCurrent env h) \<longleftrightarrow>
     accepts (validateMetadata h) \<and> accepts (validateExposeExternally env h) \<and>
     (accepts (validateLicense env h) \<and> accepts (validateTLS env h)) \<and>
     (accepts (validatePersistence env h) \<and> accepts (validateJetConfig env h) \<and>
      accepts (validateNativeMemory h) \<and> accepts (validateSQL h)) \<and>
     (accepts (validateClusterSize h) \<and> accepts (validateCPSubsystem h)) \<and>
     accepts (validateAdvancedNetwork env h) \<and> accepts (validateJVMConfig h) \<and>
     accepts (validateCustomConfig env h) \<and> accepts (validateTieredStorage h)"
    unfolding validateSpecCurrent_def by (simp only: accepts_simps step_simps current_steps current_steps') blast
  then show ?thesis
    unfolding accepts_validateMetadata accepts_validateExposeExternally accepts_secrets
      accepts_persistence accepts_size_cp accepts_validateAdvancedNetwork accepts_validateJVMConfig
      accepts_validateCustomConfig accepts_validateTieredStorage current_admissible_def
    by blast
qed

lemma admits_iff:
  "ValidateHazelcastSpec env h = Some None \<longleftrightarrow> hazelcast_admissible env h"
proof -
  have "validation_step (runAll [validateSpecCurrent env h, validateSpecUpdate env h])"
    by (simp add: specCurrent.validation_step_axioms specUpdate.validation_step_axioms)
  then show ?thesis
    by (simp add: ValidateHazelcastSpec_def outcome_None_iff hazelcast_admissible_def
        accepts_validateSpecCurrent accepts_validateSpecUpdate
        specCurrent.validation_step_axioms specUpdate.validation_step_axioms)
qed

subsection \<open>Properties\<close>

text \<open>C1: the webhook admits exactly the admissible resources: \<^verbatim>\<open>ValidateHazelcastSpec\<close> returns
  no error if and only if the name, the secrets, the exposed services, the custom
  configuration, persistence and the features that need it, the WAN ports, the JVM
  arguments, tiered storage, the cluster size, the CP subsystem and, when the resource has
  a last successful specification, the update all obey their rules.\<close>

theorem ValidateHazelcastSpec_admits_iff:
  "ValidateHazelcastSpec env h = Some None \<longleftrightarrow> hazelcast_admissible env h"
  by (rule admits_iff)

text \<open>The validators of one run, in the order of the source.\<close>

definition hazelcast_validators :: "validation_env \<Rightarrow> Hazelcast \<Rightarrow> vstep list" where
  "hazelcast_validators env h =
     [validateMetadata h, validateExposeExternally env h, validateLicense env h,
      validateTLS env h, validatePersistence env h, validateClusterSize h,
      validateAdvancedNetwork env h, validateJetConfig env h, validateJVMConfig h,
      validateCustomConfig env h, validateNativeMemory h, validateSQL h,
      validateTieredStorage h, validateCPSubsystem h, validateSpecUpdate env h]"

lemma hazelcast_validators_steps: "\<forall>f \<in> set (hazelcast_validators env h). validation_step f"
  by (simp add: hazelcast_validators_def specUpdate.validation_step_axioms validateJVMConfig_def
      split: option.split)

lemma runAll_append: "runAll (fs @ gs) v = runAll fs v \<bind> runAll gs"
  by (induction fs arbitrary: v) (auto split: Option.bind_split)

lemma ValidateHazelcastSpec_outcome:
  "ValidateHazelcastSpec env h = outcome (runAll (hazelcast_validators env h)) (hazelcast_object h)"
proof -
  have split: "hazelcast_validators env h =
      [validateMetadata h, validateExposeExternally env h, validateLicense env h,
      validateTLS env h, validatePersistence env h, validateClusterSize h,
      validateAdvancedNetwork env h, validateJetConfig env h, validateJVMConfig h,
      validateCustomConfig env h, validateNativeMemory h, validateSQL h,
      validateTieredStorage h, validateCPSubsystem h] @ [validateSpecUpdate env h]"
    by (simp add: hazelcast_validators_def)
  have "runAll (hazelcast_validators env h) =
      (\<lambda>v. runAll [validateSpecCurrent env h, validateSpecUpdate env h] v)"
    unfolding split runAll_append [abs_def]
    by (simp only: runAll.simps(2) [of "validateSpecCurrent env h"] validateSpecCurrent_def [symmetric])
  then show ?thesis by (simp add: ValidateHazelcastSpec_def outcome_def)
qed

text \<open>One run of the webhook reports every violation: the error lists of the fourteen
  validators of the current specification and of the update check are concatenated in the
  order of the source, none stops the ones after it, and the result is an error exactly
  when the list is not empty.\<close>

theorem ValidateHazelcastSpec_collects:
  "ValidateHazelcastSpec env h =
     map_option (\<lambda>ess. if concat ess = [] then None
         else Some (StatusInvalid ''Hazelcast'' (om_Name (h_Meta h)) (concat ess)))
       (those (map (\<lambda>f. reported f (hazelcast_object h)) (hazelcast_validators env h)))"
  unfolding ValidateHazelcastSpec_outcome outcome_def
    runAll_reported [OF hazelcast_validators_steps, where ob = "hazelcast_object h"]
  by (auto simp: option.map_comp Err_def hazelcast_object_def intro!: option.map_cong)

lemma answers_nested:
  "answers (validateArg args a)" "answers (validateWANServiceTypes an)"
  "answers (isOverlapWithEachOther env an)" "answers (isOverlapWithOtherSockets an)"
  "answers (validateLocalDevice ld)" "answers (validateSessionTTLSeconds cp)"
  "answers (validateNotUpdatableHzPersistenceFields c l)"
  "answers (validateNotUpdatableCPFields c' l')" "answers (validateNotUpdatableSQLFields c'' l'')"
  by (auto simp: answers_runAll validateArg_def validateWANServiceTypes_def isOverlapWithEachOther_def
      isOverlapWithOtherSockets_def validateLocalDevice_def validateSessionTTLSeconds_def Let_def
      Hazelcast_Validation.update_defs split_beta split: option.split)

lemma answers_branches:
  "answers (validateJVMMemoryArgs mo args)" "answers (validateJVMGCArgs gco args)"
  "answers (validateWANPorts env an)" "answers (validateNotUpdatableHazelcastFields c l)"
  by (simp_all add: answers_runAll answers_nested validateJVMMemoryArgs_def validateJVMGCArgs_def
      validateWANPorts_def validateNotUpdatableHazelcastFields_def split: option.split)

lemma answers_others:
  "answers (validateMetadata h)" "answers (validateExposeExternally env h)"
  "answers (validateLicense env h)" "answers (validateTLS env h)"
  "answers (validatePersistence env h)" "answers (validateAdvancedNetwork env h)"
  "answers (validateJetConfig env h)" "answers (validateJVMConfig h)"
  "answers (validateCustomConfig env h)" "answers (validateNativeMemory h)"
  "answers (validateSQL h)" "answers (validateTieredStorage h)"
  "answers (validateCPSubsystem h)" "answers (validateSpecUpdate env h)"
  by (simp_all add: answers_runAll answers_nested answers_branches validateMetadata_def
      validateExposeExternally_def validateLicense_def validateTLS_def validatePersistence_def
      validateAdvancedNetwork_def validateJetConfig_def validateJVMConfig_def
      validateCustomConfig_def validateNativeMemory_def validateSQL_def validateTieredStorage_def
      validateCPSubsystem_def validateSpecUpdate_def validateNotUpdatableHazelcastFields_def Let_def
      split: option.split get_result.split sum.split)

lemma answers_validateClusterSize:
  "answers (validateClusterSize h) \<longleftrightarrow> hs_ClusterSize (h_Spec h) \<noteq> None"
  by (simp add: validateClusterSize_def split: option.split)

text \<open>The webhook panics exactly when the cluster size is a nil pointer; a specification
  whose default was filled in by the API server is always answered.\<close>

theorem ValidateHazelcastSpec_panics_iff:
  "ValidateHazelcastSpec env h = None \<longleftrightarrow> hs_ClusterSize (h_Spec h) = None"
  unfolding ValidateHazelcastSpec_outcome
  by (simp add: outcome_panic_iff validation_step_runAll answers_runAll hazelcast_validators_steps)
     (simp add: hazelcast_validators_def answers_others answers_validateClusterSize)

text \<open>C2: the WAN port ranges of an admitted advanced network are pairwise disjoint and hold
  none of the member, client and REST ports, and conversely such ranges are accepted. The
  ranges are non-empty and do not wrap around; \<^verbatim>\<open>sort.Slice\<close> may order equal lower ends as it
  likes.\<close>

theorem validateWANPorts_disjoint:
  assumes "sorts_by_min (env_SortSlice env)"
    and "\<forall>w \<in> set (an_WAN an). no_wrap w \<and> 0 < wc_PortCount w"
  shows "accepts (validateWANPorts env an) \<longleftrightarrow>
    (\<forall>i j. i < j \<longrightarrow> j < length (an_WAN an) \<longrightarrow>
       ports (portRange (an_WAN an ! i)) \<inter> ports (portRange (an_WAN an ! j)) = {}) \<and>
    (\<forall>w \<in> set (an_WAN an). ports (portRange w) \<inter> {5701, 5702, 8081} = {})"
proof -
  have "(\<not> inRange MemberServerSocketPort r \<and> \<not> inRange ClientServerSocketPort r \<and>
      \<not> inRange RestServerSocketPort r) \<longleftrightarrow> ports r \<inter> {5701, 5702, 8081} = {}" for r
    by (auto simp: inRange_def ports_def MemberServerSocketPort_def ClientServerSocketPort_def
        RestServerSocketPort_def word_le_nat_alt word_less_nat_alt)
  then show ?thesis
    using accepts_isOverlapWithEachOther [OF assms]
    by (simp add: validateWANPorts_def accepts_sockets sorted_wrt_iff_nth_less)
qed

definition sample_network :: AdvancedNetwork where
  "sample_network = \<lparr> an_MemberServerSocketEndpointConfig = \<lparr> sse_Interfaces = [] \<rparr>,
     an_ClientServerSocketEndpointConfig = \<lparr> sse_Interfaces = [] \<rparr>,
     an_WAN = [\<lparr> wc_Port = 5720, wc_PortCount = 5, wc_ServiceType = ServiceTypeLoadBalancer, wc_Name = ''b'' \<rparr>,
               \<lparr> wc_Port = 5710, wc_PortCount = 10, wc_ServiceType = ServiceTypeLoadBalancer, wc_Name = ''a'' \<rparr>] \<rparr>"

theorem validateWANPorts_disjoint_witness:
  "accepts (validateWANPorts sample_env sample_network)"
proof -
  have "\<forall>w \<in> set (an_WAN sample_network). no_wrap w \<and> 0 < wc_PortCount w"
    by (simp add: sample_network_def no_wrap_def)
  note iff = validateWANPorts_disjoint [OF sample_sorts this]
  show ?thesis
    unfolding iff
    by (auto simp: sample_network_def ports_def portRange_def less_Suc_eq)
qed

text \<open>
  The life of a resource. An edit replaces the resource by one that admission accepts, in any state
  of the cluster around it; the annotation with the specification applied last is left as it is.
  When the controller has applied the specification, it stores it in that annotation
  (\<^verbatim>\<open>InsertLastSuccessfullyAppliedSpec\<close>); \<open>unmarshal\<close> reads the text back. The status changes at any time.
\<close>

inductive hz_applied :: "(string \<Rightarrow> string + HazelcastSpec) \<Rightarrow> Hazelcast \<Rightarrow> Hazelcast \<Rightarrow> bool" for unmarshal where
  "unmarshal text = Inr (h_Spec h) \<Longrightarrow>
   hz_applied unmarshal h (h\<lparr> h_Meta := InsertLastSuccessfullyAppliedSpec (\<lambda>_. text) (h_Spec h) (h_Meta h) \<rparr>)"

inductive hz_step :: "(string \<Rightarrow> string + HazelcastSpec) \<Rightarrow> Hazelcast \<Rightarrow> Hazelcast \<Rightarrow> bool" for unmarshal where
  edit: "\<lbrakk>ValidateHazelcastSpec env h' = Some None; env_UnmarshalHazelcastSpec env = unmarshal;
    om_Annotations (h_Meta h') LastSuccessfulSpecAnnotation = om_Annotations (h_Meta h) LastSuccessfulSpecAnnotation\<rbrakk> \<Longrightarrow>
   hz_step unmarshal h h'"
| applied: "hz_applied unmarshal h h' \<Longrightarrow> hz_step unmarshal h h'"
| status: "hz_step unmarshal h (h\<lparr> h_Status := st \<rparr>)"

inductive_cases hz_appliedE: "hz_applied unmarshal h h'"

definition storage :: "HazelcastSpec \<Rightarrow> HighAvailabilityMode \<times>
    (PvcConfiguration option \<times> RestoreConfiguration) option \<times> PvcConfiguration option option" where
  "storage s = (hs_HighAvailabilityMode s,
     map_option (\<lambda>p. (hp_PVC p, hp_Restore p)) (hs_Persistence s),
     map_option cp_PVC (hs_CPSubsystem s))"

definition catalog_persisted :: "HazelcastSpec \<Rightarrow> bool" where
  "catalog_persisted s = (\<exists>q. hs_SQL s = Some q \<and> sql_CatalogPersistenceEnabled q)"

definition spec_sound :: "HazelcastSpec \<Rightarrow> bool" where
  "spec_sound s \<longleftrightarrow> (catalog_persisted s \<longrightarrow> hs_Persistence s \<noteq> None) \<and>
     (hs_CPSubsystem s \<noteq> None \<longrightarrow> hs_ClusterSize s \<in> Some ` {0, 3, 5, 7})"

lemma admitted_sound: "ValidateHazelcastSpec env h = Some None \<Longrightarrow> spec_sound (h_Spec h)"
  by (auto simp: admits_iff hazelcast_admissible_def current_admissible_def catalog_persisted_def spec_sound_def
      persistence_admissible_def cp_admissible_def split: option.splits)

lemma admitted_keeps:
  assumes "ValidateHazelcastSpec env h = Some None"
    and "om_Annotations (h_Meta h) LastSuccessfulSpecAnnotation = Some text" and "env_UnmarshalHazelcastSpec env text = Inr prev"
  shows "storage (h_Spec h) = storage prev" and "catalog_persisted prev \<Longrightarrow> catalog_persisted (h_Spec h)"
  using assms
  by (auto simp: admits_iff hazelcast_admissible_def update_admissible_def storage_def catalog_persisted_def split: option.splits)

text \<open>The invariant after \<open>s0\<close> was applied: the annotation and the resource both keep what \<open>s0\<close> stores.\<close>

definition keeps_storage :: "(string \<Rightarrow> string + HazelcastSpec) \<Rightarrow> HazelcastSpec \<Rightarrow> Hazelcast \<Rightarrow> bool" where
  "keeps_storage unmarshal s0 h \<longleftrightarrow> spec_sound (h_Spec h) \<and> (\<exists>text prev.
     om_Annotations (h_Meta h) LastSuccessfulSpecAnnotation = Some text \<and> unmarshal text = Inr prev \<and>
     (\<forall>s \<in> {prev, h_Spec h}. storage s = storage s0 \<and> (catalog_persisted s0 \<longrightarrow> catalog_persisted s)))"

lemma keeps_storage_applied:
  assumes "hz_applied unmarshal h h'" and "spec_sound (h_Spec h)"
    and "storage (h_Spec h) = storage s0" "catalog_persisted s0 \<longrightarrow> catalog_persisted (h_Spec h)"
  shows "keeps_storage unmarshal s0 h'"
  using assms by (auto elim!: hz_appliedE simp: keeps_storage_def InsertLastSuccessfullyAppliedSpec_def insertSpec_def)

lemma keeps_storage_step:
  assumes "hz_step unmarshal h h'" and "keeps_storage unmarshal s0 h"
  shows "keeps_storage unmarshal s0 h'"
  using assms
proof (induction rule: hz_step.induct)
  case (edit env h' h)
  then show ?case using admitted_sound [OF edit(1)] admitted_keeps [OF edit(1)] unfolding keeps_storage_def by fastforce
next
  case (applied h h')
  then show ?case using keeps_storage_applied [OF applied(1)] unfolding keeps_storage_def [of _ _ h] by blast
qed (simp add: keeps_storage_def)

lemma keeps_storage_steps:
  "(hz_step unmarshal)\<^sup>*\<^sup>* h h' \<Longrightarrow> keeps_storage unmarshal s0 h \<Longrightarrow> keeps_storage unmarshal s0 h'"
  by (induction rule: rtranclp_induct) (auto intro: keeps_storage_step)


definition sample_pvc :: PvcConfiguration where
  "sample_pvc = \<lparr> pvc_AccessModes = Some [''ReadWriteOnce''], pvc_RequestStorage = None,
     pvc_StorageClassName = None \<rparr>"

definition sample_persistent_spec :: HazelcastSpec where
  "sample_persistent_spec = sample_hazelcast_spec\<lparr>
     hs_Persistence := Some \<lparr> hp_DeprecatedBaseDir = [], hp_ClusterDataRecoveryPolicy = FullRecovery,
       hp_StartupAction = StartupActionUnset, hp_DataRecoveryTimeout = 0,
       hp_PVC = Some sample_pvc, hp_Restore = RestoreConfigurationZero \<rparr>,
     hs_SQL := Some \<lparr> sql_StatementTimeout = 0, sql_CatalogPersistenceEnabled = True \<rparr> \<rparr>"

text \<open>The resource as created, after it was applied, and resized by the user.\<close>

definition sample_created :: Hazelcast where
  "sample_created = \<lparr> h_Meta = sample_meta, h_Spec = sample_persistent_spec, h_Status = sample_hazelcast_status \<rparr>"

definition sample_recorded :: Hazelcast where
  "sample_recorded = sample_created\<lparr> h_Meta :=
     InsertLastSuccessfullyAppliedSpec (\<lambda>_. ''spec'') sample_persistent_spec (h_Meta sample_created) \<rparr>"

definition sample_resized :: Hazelcast where
  "sample_resized = sample_recorded\<lparr> h_Spec := sample_persistent_spec\<lparr> hs_ClusterSize := Some 5 \<rparr> \<rparr>"

definition sample_update_env :: validation_env where
  "sample_update_env = sample_env\<lparr> env_UnmarshalHazelcastSpec := \<lambda>_. Inr sample_persistent_spec \<rparr>"

lemmas sample_life = sample_created_def sample_recorded_def sample_resized_def sample_update_env_def InsertLastSuccessfullyAppliedSpec_def insertSpec_def

lemma sample_life_admitted:
  "ValidateHazelcastSpec sample_update_env sample_created = Some None" "ValidateHazelcastSpec sample_update_env sample_resized = Some None"
proof -
  have "label_ok ''hz''" by (simp add: label_ok_def is_alpha_def is_alnum_dash_def is_alnum_def)
  moreover have "Split ''hz'' ''.'' = [''hz'']" by code_simp
  ultimately show "ValidateHazelcastSpec sample_update_env sample_created = Some None"
      "ValidateHazelcastSpec sample_update_env sample_resized = Some None"
    unfolding admits_iff
    by (simp_all add: hazelcast_admissible_def current_admissible_def update_admissible_def
        secrets_admissible_def expose_admissible_def config_admissible_def persistence_admissible_def
        jet_bucket_admissible_def wan_admissible_def jvm_admissible_def tiered_admissible_def
        size_admissible_def cp_admissible_def exists_secret_def sample_life
        sample_persistent_spec_def sample_defs sample_pvc_def
        HazelcastSpec_GetLicenseKeySecretName_def RestoreConfigurationZero_def ClusterSizeLimit_def Let_def)
qed


text \<open>A Jet bucket configured with the deprecated \<^verbatim>\<open>secret\<close> field only is refused even though
  the secret it names exists: the guard reads \<^verbatim>\<open>GetSecretName\<close>, which falls back to the
  deprecated field, but the lookup uses \<^verbatim>\<open>SecretName\<close>, which is empty, and no object has the
  empty name.\<close>

theorem deprecated_jet_secret_refused:
  assumes "hs_JetEngineConfiguration (h_Spec h) = Some j" and "je_Enabled j = Some True"
    and "rfc_BucketConfiguration (je_RemoteFileConfiguration j) = Some b"
    and "bc_SecretName b = []" and "bc_DeprecatedSecret b \<noteq> []"
    and "\<forall>ns. env_GetSecret env \<lparr> nn_Name = [], nn_Namespace = ns \<rparr> = GetNotFound"
  shows "ValidateHazelcastSpec env h \<noteq> Some None"
  using assms
  by (auto simp: admits_iff hazelcast_admissible_def current_admissible_def
      jet_bucket_admissible_def exists_secret_def BucketConfiguration_GetSecretName_def)

definition sample_jet :: JetEngineConfiguration where
  "sample_jet = \<lparr> je_Enabled = Some True, je_ResourceUploadEnabled = False,
     je_RemoteFileConfiguration = \<lparr> rfc_BucketConfiguration = Some \<lparr> bc_DeprecatedSecret = ''creds'',
       bc_SecretName = [], bc_BucketURI = ''gs://jars'' \<rparr>, rfc_ConfigMaps = [], rfc_RemoteURLs = [] \<rparr>,
     je_Instance = None, je_EdgeDefaults = None \<rparr>"

definition sample_jet_hazelcast :: Hazelcast where
  "sample_jet_hazelcast = sample_hazelcast\<lparr> h_Spec := sample_hazelcast_spec\<lparr>
     hs_JetEngineConfiguration := Some sample_jet \<rparr> \<rparr>"

theorem deprecated_jet_secret_refused_witness:
  "exists_secret sample_env sample_jet_hazelcast ''creds'' \<and>
   ValidateHazelcastSpec sample_env sample_jet_hazelcast \<noteq> Some None"
  using deprecated_jet_secret_refused [of sample_jet_hazelcast sample_jet _ sample_env]
  by (simp add: sample_jet_hazelcast_def sample_jet_def sample_env_def exists_secret_def)

end
