(* ===== verification/Resource_Validation.thy ===== *)
theory Resource_Validation
  imports Field_Validation Samples
begin

text \<open>
  The admission rules of the resources that live on a Hazelcast cluster: the data structures
  (\<^verbatim>\<open>data_structure_validation.go\<close>, \<^verbatim>\<open>map_validation.go\<close>, \<^verbatim>\<open>cache_validation.go\<close>,
  \<^verbatim>\<open>topic_validation.go\<close>, \<^verbatim>\<open>queue_validation.go\<close>, \<^verbatim>\<open>multimap_validation.go\<close>,
  \<^verbatim>\<open>replicatedmap_validation.go\<close>), \<^verbatim>\<open>jetjob_validation.go\<close>, \<^verbatim>\<open>wanreplication_validation.go\<close>,
  \<^verbatim>\<open>wansync_validation.go\<close> and \<^verbatim>\<open>hotbackup_validation.go\<close>, all under \<^verbatim>\<open>api/v1alpha1\<close>.
\<close>

subsection \<open>Data structures\<close>

text \<open>Cache, Topic, Queue, MultiMap and ReplicatedMap have the same shape: metadata, a
  specification and a \<^verbatim>\<open>DataStructureStatus\<close>.\<close>

record 's data_structure =
  do_Kind :: string
  do_Meta :: ObjectMeta
  do_Spec :: 's
  do_Status :: DataStructureStatus

record CacheSpec =
  cs_DataStructureSpec :: DataStructureSpec
  cs_KeyType :: string
  cs_ValueType :: string
  cs_PersistenceEnabled :: bool
  cs_InMemoryFormat :: InMemoryFormatType
  cs_EventJournal :: "EventJournal option"

record TopicSpec =
  tp_Name :: string
  tp_GlobalOrderingEnabled :: bool
  tp_MultiThreadingEnabled :: bool
  tp_HazelcastResourceName :: string
  tp_UserCodeNamespace :: string

record QueueSpec =
  qu_DataStructureSpec :: DataStructureSpec
  qu_MaxSize :: int32
  qu_EmptyQueueTtlSeconds :: "int32 option"
  qu_PriorityComparatorClassName :: string

datatype CollectionType = CollectionTypeUnset | CollectionTypeSet | CollectionTypeList

record MultiMapSpec =
  mm_DataStructureSpec :: DataStructureSpec
  mm_Binary :: bool
  mm_CollectionType :: CollectionType

datatype RMInMemoryFormatType = RMInMemoryFormatUnset | RMInMemoryFormatBinary | RMInMemoryFormatObject

record ReplicatedMapSpec =
  rm_Name :: string
  rm_AsyncFillup :: "bool option"
  rm_InMemoryFormat :: RMInMemoryFormatType
  rm_HazelcastResourceName :: string
  rm_UserCodeNamespace :: string

type_synonym Cache = "CacheSpec data_structure"
type_synonym Topic = "TopicSpec data_structure"
type_synonym Queue = "QueueSpec data_structure"
type_synonym MultiMap = "MultiMapSpec data_structure"
type_synonym ReplicatedMap = "ReplicatedMapSpec data_structure"

definition do_object :: "'s data_structure \<Rightarrow> validated_object" where
  "do_object ob = \<lparr> vo_Kind = do_Kind ob, vo_Name = om_Name (do_Meta ob) \<rparr>"

text \<open>The sum is taken in 32-bit arithmetic, as in the source.\<close>

definition validateDataStructureSpec :: "DataStructureSpec \<Rightarrow> vstep" where
  "validateDataStructureSpec ds =
     (let detail = ''the sum of backupCount and asyncBackupCount can'' @ [CHR 0x27] @
                   ''t be larger than than 6''
      in if 6 <s Int32Deref (ds_BackupCount ds) 0 + ds_AsyncBackupCount ds then runAll
           [check True (Invalid [''spec'', ''backupCount'']
              (BVIntPtr (map_option sint (ds_BackupCount ds))) detail),
            check True (Invalid [''spec'', ''asyncBackupCount'']
              (BVInt (sint (ds_AsyncBackupCount ds))) detail)]
         else Some)"

text \<open>\<open>GetSpec\<close> is the JSON of the specification, or the encoder's error.\<close>

definition isDSSpecUnchanged :: "('s \<Rightarrow> string + string) \<Rightarrow> 's data_structure \<Rightarrow> string + bool" where
  "isDSSpecUnchanged GetSpec ob =
     (case om_Annotations (do_Meta ob) LastSuccessfulSpecAnnotation of
        None \<Rightarrow> Inr True
      | Some lastSpec \<Rightarrow>
          (case GetSpec (do_Spec ob) of
             Inl err \<Rightarrow> Inl ''Could not get spec of the data structure''
           | Inr newSpec \<Rightarrow> Inr (newSpec = lastSpec)))"

definition validateDSSpecUnchanged :: "('s \<Rightarrow> string + string) \<Rightarrow> 's data_structure \<Rightarrow> vstep" where
  "validateDSSpecUnchanged GetSpec ob =
     (case isDSSpecUnchanged GetSpec ob of
        Inl err \<Rightarrow> check True (InternalError [''spec''] err)
      | Inr ok \<Rightarrow> check (\<not> ok) (Forbidden [''spec''] ''cannot be updated''))"

subsection \<open>Reading the cluster's last specification\<close>

text \<open>\<open>withHzSpec prefix env h f\<close>: the steps repeated at the head of the validators that
  depend on the cluster: report and stop when the cluster has no usable specification,
  otherwise continue with it. \<^verbatim>\<open>getHzSpec\<close> of the map validator is this function with its own
  error text.\<close>

definition withHzSpec :: "string \<Rightarrow> validation_env \<Rightarrow> Hazelcast \<Rightarrow> (HazelcastSpec \<Rightarrow> vstep) \<Rightarrow> vstep" where
  "withHzSpec parsing env h f =
     (case om_Annotations (h_Meta h) LastSuccessfulSpecAnnotation of
        None \<Rightarrow> check True (InternalError [''spec'']
          (''hazelcast resource '' @ om_Name (h_Meta h) @ '' is not successfully started yet''))
      | Some s \<Rightarrow>
          (case env_UnmarshalHazelcastSpec env s of
             Inl err \<Rightarrow> check True (InternalError [''spec''] (parsing @ err))
           | Inr lastSpec \<Rightarrow> f lastSpec))"

definition getHzSpec :: "validation_env \<Rightarrow> Hazelcast \<Rightarrow> (HazelcastSpec \<Rightarrow> vstep) \<Rightarrow> vstep" where
  "getHzSpec = withHzSpec ''error parsing last Hazelcast spec: ''"

subsection \<open>Map\<close>

definition map_object :: "Map \<Rightarrow> validated_object" where
  "map_object m = \<lparr> vo_Kind = ''Map'', vo_Name = om_Name (m_Meta m) \<rparr>"

definition validateMapPersistence :: "validation_env \<Rightarrow> Map \<Rightarrow> Hazelcast \<Rightarrow> vstep" where
  "validateMapPersistence env m h =
     (if \<not> ms_PersistenceEnabled (m_Spec m) then Some
      else getHzSpec env h (\<lambda>lastSpec.
        check (\<not> Persistence_IsEnabled (hs_Persistence lastSpec))
          (Invalid [''spec'', ''persistenceEnabled'']
             (BVBool (Persistence_IsEnabled (hs_Persistence lastSpec)))
             ''Persistence must be enabled at Hazelcast'')))"

definition native_required :: "HazelcastSpec \<Rightarrow> vstep" where
  "native_required lastSpec = check (\<not> NativeMemory_IsEnabled (hs_NativeMemory lastSpec))
     (Invalid [''spec'', ''inMemoryFormat'']
        (BVBool (NativeMemory_IsEnabled (hs_NativeMemory lastSpec)))
        ''Native Memory must be enabled at Hazelcast'')"

definition validateNearCacheMemory :: "validation_env \<Rightarrow> Map \<Rightarrow> Hazelcast \<Rightarrow> vstep" where
  "validateNearCacheMemory env m h =
     (case ms_NearCache (m_Spec m) of
        None \<Rightarrow> Some
      | Some nc \<Rightarrow> if nc_InMemoryFormat nc \<noteq> InMemoryFormatNative then Some
                  else getHzSpec env h native_required)"

definition validateMapNativeMemory :: "validation_env \<Rightarrow> Map \<Rightarrow> Hazelcast \<Rightarrow> vstep" where
  "validateMapNativeMemory env m h =
     (if ms_InMemoryFormat (m_Spec m) \<noteq> InMemoryFormatNative then Some
      else getHzSpec env h native_required)"

text \<open>\<^verbatim>\<open>localDevice.PVC.RequestStorage.Value()\<close> panics when the device has no volume claim.\<close>

fun deviceSize :: "validation_env \<Rightarrow> LocalDeviceConfig list \<Rightarrow> string \<Rightarrow> int64 go" where
  "deviceSize env [] deviceName = Some 0"
| "deviceSize env (d # ds) deviceName =
     (if ld_Name d = deviceName
      then (case ld_PVC d of None \<Rightarrow> None | Some pvc \<Rightarrow> env_QuantityValue env (pvc_RequestStorage pvc))
      else deviceSize env ds deviceName)"

definition validateTSMemory :: "validation_env \<Rightarrow> TieredStore \<Rightarrow> Hazelcast \<Rightarrow> vstep" where
  "validateTSMemory env ts h =
     (case env_QuantityValue env (ts_MemoryCapacity ts) of
        None \<Rightarrow> panic
      | Some mapMemoryCapacity \<Rightarrow>
          (case hs_NativeMemory (h_Spec h) of
             None \<Rightarrow> panic
           | Some nm \<Rightarrow>
               (case env_QuantityValue env (Some (nm_Size nm)) of
                  None \<Rightarrow> panic
                | Some nativeMemorySize \<Rightarrow>
                    check (nativeMemorySize <s mapMemoryCapacity)
                      (Invalid [''spec'', ''tieredStore'', ''memoryCapacity'']
                         (BVQuantityPtr (ts_MemoryCapacity ts))
                         (''Memory capacity must be less than Native Memory size. Map memoryCapacity is '' @
                          Itoa (sint mapMemoryCapacity) @ '' and Native Memory size is '' @
                          Itoa (sint nativeMemorySize))))))"

definition validateMapTieredStore :: "validation_env \<Rightarrow> Map \<Rightarrow> Hazelcast \<Rightarrow> vstep" where
  "validateMapTieredStore env m h =
     (case ms_TieredStore (m_Spec m) of
        None \<Rightarrow> Some
      | Some ts \<Rightarrow> runAll
         [check (ms_PersistenceEnabled (m_Spec m))
            (Invalid [''spec'', ''persistenceEnabled''] (BVBool (ms_PersistenceEnabled (m_Spec m)))
               (''Tiered store and data persistence are mutually exclusive features. '' @
                ''Persistence must be disabled to enable the Tiered Storage'')),
          check (ms_InMemoryFormat (m_Spec m) \<noteq> InMemoryFormatNative)
            (Invalid [''spec'', ''inMemoryFormat''] (BVInMemoryFormat (ms_InMemoryFormat (m_Spec m)))
               ''In-memory format of the map must be NATIVE to enable the Tiered Storage''),
          check (\<not> (ev_EvictionPolicy (ms_Eviction (m_Spec m)) = EvictionPolicyUnset \<or>
                    ev_EvictionPolicy (ms_Eviction (m_Spec m)) = EvictionPolicyNone))
            (Invalid [''spec'', ''eviction'', ''evictionPolicy'']
               (BVEvictionPolicy (ev_EvictionPolicy (ms_Eviction (m_Spec m))))
               ''Eviction is not supported for Tiered-Store map''),
          check (ms_TimeToLiveSeconds (m_Spec m) \<noteq> 0)
            (Invalid [''spec'', ''timeToLiveSeconds''] (BVInt (sint (ms_TimeToLiveSeconds (m_Spec m))))
               ''TTL expiry is not supported for Tiered-Store map''),
          check (ms_MaxIdleSeconds (m_Spec m) \<noteq> 0)
            (Invalid [''spec'', ''maxIdleSeconds''] (BVInt (sint (ms_MaxIdleSeconds (m_Spec m))))
               ''MaxIdle expiry is not supported for Tiered-Store map''),
          getHzSpec env h (\<lambda>lastSpec.
            case deviceSize env (hs_LocalDevices lastSpec) (ts_DiskDeviceName ts) of
              None \<Rightarrow> panic
            | Some devSize \<Rightarrow> runAll
               [check (devSize = 0)
                  (Invalid [''spec'', ''tieredStore'', ''diskDeviceName''] (BVString (ts_DiskDeviceName ts))
                     (''device with the name '' @ ts_DiskDeviceName ts @ '' does not exist'')),
                (case env_QuantityValue env (ts_MemoryCapacity ts) of
                   None \<Rightarrow> panic
                 | Some capacity \<Rightarrow> check (devSize <s capacity)
                     (Invalid [''spec'', ''tieredStore'', ''memoryCapacity'']
                        (BVQuantityPtr (ts_MemoryCapacity ts))
                        (''Tiered Storage in-memory tier must be smaller than the disk tier. '' @
                         ''Map memoryCapacity is '' @ Itoa (sint capacity) @
                         '' and local device size is '' @ Itoa (sint devSize)))),
                validateTSMemory env ts h])])"

definition validateMapSpecCurrent :: "validation_env \<Rightarrow> Map \<Rightarrow> Hazelcast \<Rightarrow> vstep" where
  "validateMapSpecCurrent env m h = runAll
     [validateMapPersistence env m h, validateMapNativeMemory env m h,
      validateNearCacheMemory env m h, validateMapTieredStore env m h]"

definition stringSliceEquals :: "string list \<Rightarrow> string list \<Rightarrow> bool" where
  "stringSliceEquals a b =
     (if length a \<noteq> length b then False else list_all (\<lambda>(v, w). v = w) (zip a b))"

definition indexConfigEquals :: "IndexConfig \<Rightarrow> IndexConfig \<Rightarrow> bool" where
  "indexConfigEquals a b =
     (if ix_Name a \<noteq> ix_Name b then False
      else if ix_Type a \<noteq> ix_Type b then False
      else if \<not> stringSliceEquals (elems (ix_Attributes a)) (elems (ix_Attributes b)) then False
      else (case (ix_BitmapIndexOptions a, ix_BitmapIndexOptions b) of
              (Some x, Some y) \<Rightarrow> x = y
            | (None, None) \<Rightarrow> True
            | _ \<Rightarrow> False))"

definition indexConfigSliceEquals :: "IndexConfig list \<Rightarrow> IndexConfig list \<Rightarrow> bool" where
  "indexConfigSliceEquals a b =
     (if length a \<noteq> length b then False else list_all (\<lambda>(v, w). indexConfigEquals v w) (zip a b))"

text \<open>\<^verbatim>\<open>*current.BackupCount != *last.BackupCount\<close> panics when one of the pointers is nil.\<close>

definition validateNotUpdatableMapFields :: "MapSpec \<Rightarrow> MapSpec \<Rightarrow> vstep" where
  "validateNotUpdatableMapFields current prev =
     (let c = ms_DataStructureSpec current; l = ms_DataStructureSpec prev in runAll
        [check (ds_Name c \<noteq> ds_Name l) (Forbidden [''spec'', ''name''] ''field cannot be updated''),
         (case (ds_BackupCount c, ds_BackupCount l) of
            (Some b, Some b') \<Rightarrow> check (b \<noteq> b')
              (Forbidden [''spec'', ''backupCount''] ''field cannot be updated'')
          | _ \<Rightarrow> panic),
         check (ds_AsyncBackupCount c \<noteq> ds_AsyncBackupCount l)
           (Forbidden [''spec'', ''asyncBackupCount''] ''field cannot be updated''),
         check (\<not> indexConfigSliceEquals (elems (ms_Indexes current)) (elems (ms_Indexes prev)))
           (Forbidden [''spec'', ''indexes''] ''field cannot be updated''),
         check (ms_PersistenceEnabled current \<noteq> ms_PersistenceEnabled prev)
           (Forbidden [''spec'', ''persistenceEnabled''] ''field cannot be updated''),
         check (ds_HazelcastResourceName c \<noteq> ds_HazelcastResourceName l)
           (Forbidden [''spec'', ''hazelcastResourceName''] ''field cannot be updated''),
         check (ms_InMemoryFormat current \<noteq> ms_InMemoryFormat prev)
           (Forbidden [''spec'', ''inMemoryFormat''] ''field cannot be updated''),
         check (ms_EventJournal current \<noteq> ms_EventJournal prev)
           (Forbidden [''spec'', ''eventJournal''] ''field cannot be updated''),
         check (ms_NearCache current \<noteq> ms_NearCache prev)
           (Forbidden [''spec'', ''nearCache''] ''field cannot be updated''),
         check (ms_TieredStore current \<noteq> ms_TieredStore prev)
           (Forbidden [''spec'', ''tieredStore''] ''field cannot be updated'')])"

definition validateMapSpecUpdate :: "validation_env \<Rightarrow> Map \<Rightarrow> vstep" where
  "validateMapSpecUpdate env m =
     (case om_Annotations (m_Meta m) LastSuccessfulSpecAnnotation of
        None \<Rightarrow> Some
      | Some prev \<Rightarrow>
          (case env_UnmarshalMapSpec env prev of
             Inl err \<Rightarrow> check True (InternalError [''spec'']
               (''error parsing last Map spec for update errors: '' @ err))
           | Inr parsed \<Rightarrow> validateNotUpdatableMapFields (m_Spec m) parsed))"

definition ValidateMapSpecCreate :: "Map \<Rightarrow> validation_error option go" where
  "ValidateMapSpecCreate m =
     outcome (validateDataStructureSpec (ms_DataStructureSpec (m_Spec m))) (map_object m)"

definition ValidateMapSpecUpdate :: "validation_env \<Rightarrow> Map \<Rightarrow> validation_error option go" where
  "ValidateMapSpecUpdate env m = outcome (runAll
     [validateMapSpecUpdate env m, validateDataStructureSpec (ms_DataStructureSpec (m_Spec m))])
     (map_object m)"

definition ValidateMapSpec :: "validation_env \<Rightarrow> Map \<Rightarrow> Hazelcast \<Rightarrow> validation_error option go" where
  "ValidateMapSpec env m h = outcome (runAll
     [validateMapSpecCurrent env m h, validateMapSpecUpdate env m,
      validateDataStructureSpec (ms_DataStructureSpec (m_Spec m))]) (map_object m)"

subsection \<open>Cache, Topic, Queue, MultiMap, ReplicatedMap\<close>

definition cache_parse_error :: string where
  "cache_parse_error = ''error parsing last Hazelcast spec for update errors: ''"

definition validateCachePersistence :: "validation_env \<Rightarrow> Cache \<Rightarrow> Hazelcast \<Rightarrow> vstep" where
  "validateCachePersistence env c h =
     (if \<not> cs_PersistenceEnabled (do_Spec c) then Some
      else withHzSpec cache_parse_error env h (\<lambda>lastSpec.
        check (\<not> Persistence_IsEnabled (hs_Persistence lastSpec))
          (Invalid [''spec'', ''persistenceEnabled'']
             (BVBool (Persistence_IsEnabled (hs_Persistence lastSpec)))
             ''Persistence must be enabled at Hazelcast'')))"

definition validateCacheNativeMemory :: "validation_env \<Rightarrow> Cache \<Rightarrow> Hazelcast \<Rightarrow> vstep" where
  "validateCacheNativeMemory env c h =
     (if cs_InMemoryFormat (do_Spec c) \<noteq> InMemoryFormatNative then Some
      else withHzSpec cache_parse_error env h native_required)"

definition validateCacheSpecCreate :: "Cache \<Rightarrow> validation_error option go" where
  "validateCacheSpecCreate c =
     outcome (validateDataStructureSpec (cs_DataStructureSpec (do_Spec c))) (do_object c)"

definition validateCacheSpecUpdate :: "(CacheSpec \<Rightarrow> string + string) \<Rightarrow> Cache \<Rightarrow> validation_error option go" where
  "validateCacheSpecUpdate GetSpec c = outcome (runAll
     [validateDSSpecUnchanged GetSpec c,
      validateDataStructureSpec (cs_DataStructureSpec (do_Spec c))]) (do_object c)"

definition ValidateCacheSpecCurrent :: "validation_env \<Rightarrow> Cache \<Rightarrow> Hazelcast \<Rightarrow> validation_error option go" where
  "ValidateCacheSpecCurrent env c h = outcome (runAll
     [validateCachePersistence env c h, validateCacheNativeMemory env c h]) (do_object c)"

definition validateTopicSpecCurrent :: "Topic \<Rightarrow> validation_error option go" where
  "validateTopicSpecCurrent t = outcome
     (check (tp_GlobalOrderingEnabled (do_Spec t) \<and> tp_MultiThreadingEnabled (do_Spec t))
        (Invalid [''spec'', ''multiThreadingEnabled''] (BVBool (tp_MultiThreadingEnabled (do_Spec t)))
           ''multi threading can not be enabled when global ordering is used.'')) (do_object t)"

definition validateTopicSpecUpdate :: "(TopicSpec \<Rightarrow> string + string) \<Rightarrow> Topic \<Rightarrow> validation_error option go" where
  "validateTopicSpecUpdate GetSpec t = outcome (validateDSSpecUnchanged GetSpec t) (do_object t)"

definition validateQueueSpecCreate :: "Queue \<Rightarrow> validation_error option go" where
  "validateQueueSpecCreate q =
     outcome (validateDataStructureSpec (qu_DataStructureSpec (do_Spec q))) (do_object q)"

definition validateQueueSpecUpdate :: "(QueueSpec \<Rightarrow> string + string) \<Rightarrow> Queue \<Rightarrow> validation_error option go" where
  "validateQueueSpecUpdate GetSpec q = outcome (runAll
     [validateDSSpecUnchanged GetSpec q,
      validateDataStructureSpec (qu_DataStructureSpec (do_Spec q))]) (do_object q)"

definition validateMultiMapSpecCreate :: "MultiMap \<Rightarrow> validation_error option go" where
  "validateMultiMapSpecCreate mm =
     outcome (validateDataStructureSpec (mm_DataStructureSpec (do_Spec mm))) (do_object mm)"

definition validateMultiMapSpecUpdate :: "(MultiMapSpec \<Rightarrow> string + string) \<Rightarrow> MultiMap \<Rightarrow> validation_error option go" where
  "validateMultiMapSpecUpdate GetSpec mm = outcome (runAll
     [validateDSSpecUnchanged GetSpec mm,
      validateDataStructureSpec (mm_DataStructureSpec (do_Spec mm))]) (do_object mm)"

definition validateReplicatedMapSpecUpdate ::
    "(ReplicatedMapSpec \<Rightarrow> string + string) \<Rightarrow> ReplicatedMap \<Rightarrow> validation_error option go" where
  "validateReplicatedMapSpecUpdate GetSpec rm = outcome (validateDSSpecUnchanged GetSpec rm) (do_object rm)"

subsection \<open>JetJob\<close>

definition jetjob_object :: "JetJob \<Rightarrow> validated_object" where
  "jetjob_object jj = \<lparr> vo_Kind = ''JetJob'', vo_Name = om_Name (jo_Meta jj) \<rparr>"

definition ValidateJetJobCreateSpec :: "validation_env \<Rightarrow> JetJob \<Rightarrow> validation_error option go" where
  "ValidateJetJobCreateSpec env jj = outcome (runAll
     [check (jj_State (jo_Spec jj) \<noteq> RunningJobState)
        (Invalid [''spec'', ''state''] (BVJetJobState (jj_State (jo_Spec jj)))
           ''should be set to Running on creation''),
      (case jrf_BucketConfiguration (jj_RemoteFile (jo_Spec jj)) of
         None \<Rightarrow> Some
       | Some b \<Rightarrow>
           if BucketConfiguration_GetSecretName b \<noteq> [] then
             check (IsNotFound (env_GetSecret env \<lparr> nn_Name = bc_SecretName b,
                                                    nn_Namespace = om_Namespace (jo_Meta jj) \<rparr>))
               (Required [''spec'', ''bucketConfig'', ''secretName''] ''Bucket credentials Secret not found'')
           else Some)]) (jetjob_object jj)"

datatype conflict = Conflict string string string

text \<open>The conflict names the resource and the job name it clashes with.\<close>

fun ValidateExistingJobName :: "JetJob \<Rightarrow> JetJob list \<Rightarrow> conflict option" where
  "ValidateExistingJobName jj [] = None"
| "ValidateExistingJobName jj (job # jobs) =
     (if om_Name (jo_Meta job) = om_Name (jo_Meta jj) then ValidateExistingJobName jj jobs
      else if JobName job = JobName jj \<and>
              jj_HazelcastResourceName (jo_Spec job) = jj_HazelcastResourceName (jo_Spec jj)
      then Some (Conflict (om_Name (jo_Meta jj)) (JobName job)
             (''JetJob '' @ om_Name (jo_Meta job) @ '' already uses the same name''))
      else ValidateExistingJobName jj jobs)"

text \<open>The second test dereferences the configuration, which may be nil.\<close>

definition ValidateJetConfiguration :: "Hazelcast \<Rightarrow> validation_error option go" where
  "ValidateJetConfiguration h = outcome (runAll
     [check (\<not> Jet_IsEnabled (hs_JetEngineConfiguration (h_Spec h)))
        (Required [''spec'', ''jet'', ''enabled''] ''jet engine must be enabled''),
      (case hs_JetEngineConfiguration (h_Spec h) of
         None \<Rightarrow> panic
       | Some j \<Rightarrow> check (\<not> je_ResourceUploadEnabled j)
           (Invalid [''spec'', ''jet'', ''resourceUploadEnabled''] (BVBool (je_ResourceUploadEnabled j))
              ''jet engine resource upload must be enabled''))])
     \<lparr> vo_Kind = ''Hazelcast'', vo_Name = om_Name (h_Meta h) \<rparr>"

definition validateJetStateChange :: "JetJobState \<Rightarrow> JetJobState \<Rightarrow> JetJobStatusPhase \<Rightarrow> vstep" where
  "validateJetStateChange newState oldState oldStatus =
     (if newState = oldState \<or> oldStatus = JetJobPhaseUnset then Some
      else if JetPhase_IsFinished oldStatus \<or> oldStatus = JetJobCompleting then
        check True (Forbidden [''spec'', ''state'']
          ''job execution is finished or being finished, state change is not allowed'')
      else check (oldStatus \<noteq> JetJobRunning \<and> newState \<noteq> RunningJobState)
        (Invalid [''spec'', ''state''] (BVJetJobState newState)
           ''can be set only for JetJob with Running status''))"

definition validateBucketFields :: "BucketConfiguration \<Rightarrow> BucketConfiguration \<Rightarrow> vstep" where
  "validateBucketFields jjbc old = runAll
     [check (bc_BucketURI jjbc \<noteq> bc_BucketURI old)
        (Forbidden [''spec'', ''bucketConfiguration'', ''bucketURI''] ''field cannot be updated''),
      check (BucketConfiguration_GetSecretName jjbc \<noteq> BucketConfiguration_GetSecretName old)
        (Forbidden [''spec'', ''bucketConfiguration'', ''secret''] ''field cannot be updated'')]"

definition ValidateJetJobNonUpdatableFields :: "JetJobSpec \<Rightarrow> JetJobSpec \<Rightarrow> vstep" where
  "ValidateJetJobNonUpdatableFields jj oldJj = runAll
     [check (jj_Name jj \<noteq> jj_Name oldJj) (Forbidden [''spec'', ''name''] ''field cannot be updated''),
      check (jj_HazelcastResourceName jj \<noteq> jj_HazelcastResourceName oldJj)
        (Forbidden [''spec'', ''hazelcastResourceName''] ''field cannot be updated''),
      check (jj_JarName jj \<noteq> jj_JarName oldJj)
        (Forbidden [''spec'', ''jarName''] ''field cannot be updated''),
      check (jj_MainClass jj \<noteq> jj_MainClass oldJj)
        (Forbidden [''spec'', ''mainClass''] ''field cannot be updated''),
      check (jj_InitialSnapshotResourceName jj \<noteq> jj_InitialSnapshotResourceName oldJj)
        (Forbidden [''spec'', ''initialSnapshotResourceName''] ''field cannot be updated''),
      check (JetJobSpec_IsBucketEnabled jj \<noteq> JetJobSpec_IsBucketEnabled oldJj)
        (Forbidden [''spec'', ''bucketConfiguration''] ''field cannot be added or removed''),
      (case (jrf_BucketConfiguration (jj_RemoteFile jj), jrf_BucketConfiguration (jj_RemoteFile oldJj)) of
         (Some b, Some b') \<Rightarrow> validateBucketFields b b' | _ \<Rightarrow> Some),
      check (JetJobSpec_IsRemoteURLsEnabled jj \<noteq> JetJobSpec_IsRemoteURLsEnabled oldJj)
        (Forbidden [''spec'', ''remoteURL''] ''field cannot be updated'')]"

definition validateJetJobUpdateSpec :: "validation_env \<Rightarrow> JetJob \<Rightarrow> vstep" where
  "validateJetJobUpdateSpec env jj =
     (case om_Annotations (jo_Meta jj) LastSuccessfulSpecAnnotation of
        None \<Rightarrow> Some
      | Some prev \<Rightarrow>
          (case env_UnmarshalJetJobSpec env prev of
             Inl err \<Rightarrow> check True (InternalError [''spec'']
               (''error parsing last JetJob spec for update errors: '' @ err))
           | Inr parsed \<Rightarrow> ValidateJetJobNonUpdatableFields (jo_Spec jj) parsed))"

definition ValidateJetJobUpdateStateSpec :: "validation_env \<Rightarrow> JetJob \<Rightarrow> JetJob \<Rightarrow> validation_error option go" where
  "ValidateJetJobUpdateStateSpec env jj oldJj = outcome (runAll
     [validateJetJobUpdateSpec env jj,
      validateJetStateChange (jj_State (jo_Spec jj)) (jj_State (jo_Spec oldJj)) (jjs_Phase (jo_Status oldJj))])
     (jetjob_object jj)"

definition ValidateJetJobUpdateSpec :: "validation_env \<Rightarrow> JetJob \<Rightarrow> validation_error option go" where
  "ValidateJetJobUpdateSpec env jj = outcome (validateJetJobUpdateSpec env jj) (jetjob_object jj)"

subsection \<open>WanReplication, WanSync, HotBackup\<close>

definition validateNonUpdatableWanFields :: "validation_env \<Rightarrow> WanReplication \<Rightarrow> vstep" where
  "validateNonUpdatableWanFields env w =
     (case om_Annotations (w_Meta w) LastSuccessfulSpecAnnotation of
        None \<Rightarrow> Some
      | Some prev \<Rightarrow>
          (case env_UnmarshalWanReplicationSpec env prev of
             Inl err \<Rightarrow> check True (InternalError [''spec'']
               (''error parsing last WanReplication spec for update errors: '' @ err))
           | Inr lastSpec \<Rightarrow> runAll
              [check (wrs_TargetClusterName (w_Spec w) \<noteq> wrs_TargetClusterName lastSpec)
                 (Forbidden [''spec'', ''targetClusterName''] ''field cannot be updated''),
               check (wrs_Endpoints (w_Spec w) \<noteq> wrs_Endpoints lastSpec)
                 (Forbidden [''spec'', ''endpoints''] ''field cannot be updated''),
               check (wrs_Queue (w_Spec w) \<noteq> wrs_Queue lastSpec)
                 (Forbidden [''spec'', ''queue''] ''field cannot be updated''),
               check (wrs_Batch (w_Spec w) \<noteq> wrs_Batch lastSpec)
                 (Forbidden [''spec'', ''batch''] ''field cannot be updated''),
               check (wrs_Acknowledgement (w_Spec w) \<noteq> wrs_Acknowledgement lastSpec)
                 (Forbidden [''spec'', ''acknowledgement''] ''field cannot be updated'')]))"

definition ValidateWanReplicationSpec :: "validation_env \<Rightarrow> WanReplication \<Rightarrow> validation_error option go" where
  "ValidateWanReplicationSpec env w = outcome (validateNonUpdatableWanFields env w)
     \<lparr> vo_Kind = ''WanReplication'', vo_Name = om_Name (w_Meta w) \<rparr>"

definition validateHotBackupPersistence :: "validation_env \<Rightarrow> Hazelcast \<Rightarrow> vstep" where
  "validateHotBackupPersistence env h =
     withHzSpec cache_parse_error env h (\<lambda>lastSpec.
       check (\<not> Persistence_IsEnabled (hs_Persistence lastSpec))
         (Invalid [''spec'', ''persistenceEnabled'']
            (BVBool (Persistence_IsEnabled (hs_Persistence lastSpec)))
            (''Hazelcast '' @ [CHR 0x27] @ om_Name (h_Meta h) @ [CHR 0x27] @ '' must enable persistence'')))"

definition hotbackup_object :: "HotBackup \<Rightarrow> validated_object" where
  "hotbackup_object hb = \<lparr> vo_Kind = ''HotBackup'', vo_Name = om_Name (hb_Meta hb) \<rparr>"

definition ValidateHotBackupPersistence ::
    "validation_env \<Rightarrow> HotBackup \<Rightarrow> Hazelcast \<Rightarrow> validation_error option go" where
  "ValidateHotBackupPersistence env hb h =
     outcome (validateHotBackupPersistence env h) (hotbackup_object hb)"

definition validateHotBackupRestoreReference :: "Hazelcast \<Rightarrow> HotBackup \<Rightarrow> vstep" where
  "validateHotBackupRestoreReference h hb =
     (case hs_Persistence (h_Spec h) of
        None \<Rightarrow> Some
      | Some p \<Rightarrow>
          if Persistence_IsRestoreEnabled (Some p) then
            check (rc_HotBackupResourceName (hp_Restore p) = om_Name (hb_Meta hb) \<and>
                   om_DeletionTimestamp (h_Meta h) = None)
              (Forbidden [''spec'', ''persistence'', ''restore'', ''hotBackupResourceName'']
                 (''Hazelcast '' @ [CHR 0x27] @ om_Name (h_Meta h) @ [CHR 0x27] @
                  '' has a restore reference to the Hotbackup''))
          else Some)"

text \<open>A failing list call is logged and lets the deletion through.\<close>

definition ValidateHotBackupIsNotReferencedByHazelcast ::
    "validation_env \<Rightarrow> HotBackup \<Rightarrow> validation_error option go" where
  "ValidateHotBackupIsNotReferencedByHazelcast env hb =
     (case env_ListHazelcast env (om_Namespace (hb_Meta hb)) of
        Inl err \<Rightarrow> Some None
      | Inr hzs \<Rightarrow> outcome (runAll (map (\<lambda>h. validateHotBackupRestoreReference h hb) hzs))
          (hotbackup_object hb))"

end
