(* ===== verification/Resource_Admission.thy ===== *)
theory Resource_Admission
  imports Resource_Validation
begin

text \<open>
  What the webhooks of the data structures, JetJob, WanReplication and HotBackup promise.
\<close>

subsection \<open>Steps\<close>

lemma resource_steps [simp]:
  "validation_step (validateDataStructureSpec ds)"
  "validation_step (validateDSSpecUnchanged GetSpec ob)"
  "validation_step (validateNotUpdatableMapFields c l)"
  "validation_step (validateJetStateChange newState oldState oldStatus)"
  "validation_step (validateBucketFields b b')"
  "validation_step (validateHotBackupRestoreReference h hb)"
  "validation_step (native_required lastSpec)"
  by (auto simp: validateDataStructureSpec_def validateDSSpecUnchanged_def
      validateNotUpdatableMapFields_def validateJetStateChange_def validateBucketFields_def
      validateHotBackupRestoreReference_def native_required_def Let_def
      split: sum.split option.split)

lemma step_withHzSpec [simp]:
  "(\<And>s. validation_step (f s)) \<Longrightarrow> validation_step (withHzSpec parsing env h f)"
  by (simp add: withHzSpec_def split: option.split sum.split)

interpretation mapUpdate: validation_step "validateMapSpecUpdate env m" for env m
  by (simp add: validateMapSpecUpdate_def split: option.split sum.split)

lemma step_ValidateJetJobNonUpdatableFields [simp]:
  "validation_step (ValidateJetJobNonUpdatableFields jj old)"
  by (simp add: ValidateJetJobNonUpdatableFields_def split: option.split)

interpretation jetUpdate: validation_step "validateJetJobUpdateSpec env jj" for env jj
  by (simp add: validateJetJobUpdateSpec_def split: option.split sum.split)

interpretation wanUpdate: validation_step "validateNonUpdatableWanFields env w" for env w
  by (simp add: validateNonUpdatableWanFields_def split: option.split sum.split)

subsection \<open>Data structures\<close>

lemma backup_sum:
  fixes a b :: int32
  assumes "0 \<le> sint a" and "0 \<le> sint b"
  shows "6 <s a + b \<longleftrightarrow> 6 < sint a + sint b \<and> sint a + sint b < 2 ^ 31"
proof -
  have a: "sint a < 2 ^ 31" and b: "sint b < 2 ^ 31"
    using sint_lt [of a] sint_lt [of b] by simp_all
  have sum: "sint (a + b) = (sint a + sint b + 2 ^ 31) mod 2 ^ 32 - 2 ^ 31"
    by (simp add: sint_word_ariths signed_take_bit_eq_take_bit_shift take_bit_eq_mod)
  show ?thesis
  proof (cases "sint a + sint b < 2 ^ 31")
    case True
    with assms have "sint (a + b) = sint a + sint b" unfolding sum by simp
    with True show ?thesis by (simp add: word_sless_alt)
  next
    case False
    have "(sint a + sint b + 2 ^ 31) mod 2 ^ 32 = (sint a + sint b + 2 ^ 31 - 2 ^ 32) mod 2 ^ 32"
      by (rule minus_mod_self2 [symmetric])
    also have "\<dots> = sint a + sint b + 2 ^ 31 - 2 ^ 32"
      using a b False by (intro mod_pos_pos_trivial) simp_all
    finally have "sint (a + b) < 0" using a b unfolding sum by simp
    with False show ?thesis by (simp add: word_sless_alt)
  qed
qed

lemma accepts_validateDataStructureSpec:
  "accepts (validateDataStructureSpec ds) \<longleftrightarrow>
     \<not> 6 <s Int32Deref (ds_BackupCount ds) 0 + ds_AsyncBackupCount ds"
  by (simp add: validateDataStructureSpec_def Let_def)

text \<open>With counts that are not negative, a data structure is admitted exactly when the sum
  of its synchronous and asynchronous backups is at most six, or is so large that the 32-bit
  addition wraps around. Within the bounds of the schema (each count at most six) only the
  first case is possible.\<close>

theorem backup_counts_admitted_iff:
  assumes "ds_BackupCount ds = Some b" and "0 \<le> sint b" and "0 \<le> sint (ds_AsyncBackupCount ds)"
  shows "outcome (validateDataStructureSpec ds) ob = Some None \<longleftrightarrow>
     sint b + sint (ds_AsyncBackupCount ds) \<le> 6 \<or> 2 ^ 31 \<le> sint b + sint (ds_AsyncBackupCount ds)"
  using backup_sum [OF assms(2,3)]
  by (auto simp: outcome_None_iff accepts_validateDataStructureSpec assms(1) Int32Deref_def)

theorem backup_counts_admitted_iff_witness:
  "outcome (validateDataStructureSpec (ms_DataStructureSpec sample_map_spec)) (map_object sample_map) = Some None \<longleftrightarrow>
     sint (1 :: int32) + sint (0 :: int32) \<le> 6 \<or> 2 ^ 31 \<le> sint (1 :: int32) + sint (0 :: int32)"
  using backup_counts_admitted_iff [of "ms_DataStructureSpec sample_map_spec" 1 "map_object sample_map"]
  by (simp add: sample_map_spec_def)

subsection \<open>Map\<close>

lemma stringSliceEquals_iff: "stringSliceEquals a b \<longleftrightarrow> a = b"
  by (auto simp: stringSliceEquals_def list_all_iff list_eq_iff_zip_eq)

text \<open>An index with nil attributes is one with no attributes.\<close>

definition plainIndex :: "IndexConfig \<Rightarrow> IndexConfig" where
  "plainIndex ix = ix\<lparr> ix_Attributes := Some (elems (ix_Attributes ix)) \<rparr>"

lemma indexConfigEquals_iff: "indexConfigEquals a b \<longleftrightarrow> plainIndex a = plainIndex b"
  by (cases a; cases b) (auto simp: indexConfigEquals_def plainIndex_def stringSliceEquals_iff split: option.split)

lemma indexConfigSliceEquals_iff: "indexConfigSliceEquals a b \<longleftrightarrow> map plainIndex a = map plainIndex b"
  by (auto simp: indexConfigSliceEquals_def indexConfigEquals_iff list_all_length list_eq_iff_nth_eq)

text \<open>What an update of a map may not change.\<close>

definition map_fixed_part ::
    "MapSpec \<Rightarrow> string \<times> int32 option \<times> int32 \<times> IndexConfig list \<times> bool \<times> string \<times>
      InMemoryFormatType \<times> EventJournal option \<times> NearCache option \<times> TieredStore option" where
  "map_fixed_part s = (ds_Name (ms_DataStructureSpec s), ds_BackupCount (ms_DataStructureSpec s),
     ds_AsyncBackupCount (ms_DataStructureSpec s), map plainIndex (elems (ms_Indexes s)), ms_PersistenceEnabled s,
     ds_HazelcastResourceName (ms_DataStructureSpec s), ms_InMemoryFormat s, ms_EventJournal s,
     ms_NearCache s, ms_TieredStore s)"

lemma accepts_validateNotUpdatableMapFields:
  "accepts (validateNotUpdatableMapFields cur prev) \<longleftrightarrow>
     map_fixed_part cur = map_fixed_part prev \<and> ds_BackupCount (ms_DataStructureSpec prev) \<noteq> None"
  by (auto simp: validateNotUpdatableMapFields_def map_fixed_part_def indexConfigSliceEquals_iff Let_def
      split: option.splits)

lemma answers_validateNotUpdatableMapFields:
  "answers (validateNotUpdatableMapFields cur prev) \<longleftrightarrow>
     ds_BackupCount (ms_DataStructureSpec cur) \<noteq> None \<and> ds_BackupCount (ms_DataStructureSpec prev) \<noteq> None"
  by (auto simp: validateNotUpdatableMapFields_def answers_runAll Let_def split: option.splits)

text \<open>C15: for a map with an applied specification, the update webhook panics exactly when one of
  the two backup counts is nil, and otherwise admits exactly the updates that leave the name,
  the backup counts, the indexes, persistence, the cluster, the in-memory format, the event
  journal, the near cache and the tiered store as they were and respect the backup limit.\<close>

theorem ValidateMapSpecUpdate_iff:
  assumes "om_Annotations (m_Meta m) LastSuccessfulSpecAnnotation = Some text"
    and "env_UnmarshalMapSpec env text = Inr prev"
  shows "(ValidateMapSpecUpdate env m = None \<longleftrightarrow>
      ds_BackupCount (ms_DataStructureSpec (m_Spec m)) = None \<or>
      ds_BackupCount (ms_DataStructureSpec prev) = None) \<and>
    (ValidateMapSpecUpdate env m = Some None \<longleftrightarrow>
      ds_BackupCount (ms_DataStructureSpec prev) \<noteq> None \<and>
      map_fixed_part (m_Spec m) = map_fixed_part prev \<and>
      \<not> 6 <s Int32Deref (ds_BackupCount (ms_DataStructureSpec prev)) 0 +
              ds_AsyncBackupCount (ms_DataStructureSpec prev))"
proof -
  have step: "validation_step (runAll [validateMapSpecUpdate env m,
      validateDataStructureSpec (ms_DataStructureSpec (m_Spec m))])"
    by (simp add: mapUpdate.validation_step_axioms)
  have "answers (validateDataStructureSpec ds)" for ds
    by (simp add: validateDataStructureSpec_def Let_def answers_runAll)
  then show ?thesis
    unfolding ValidateMapSpecUpdate_def outcome_None_iff [OF step] outcome_panic_iff [OF step]
    by (auto simp: answers_runAll mapUpdate.validation_step_axioms validateMapSpecUpdate_def assms
        accepts_validateNotUpdatableMapFields answers_validateNotUpdatableMapFields
        accepts_validateDataStructureSpec map_fixed_part_def)
qed

definition sample_applied_map :: Map where
  "sample_applied_map = sample_map\<lparr> m_Meta := sample_meta\<lparr>
     om_Annotations := [LastSuccessfulSpecAnnotation \<mapsto> ''spec''] \<rparr> \<rparr>"

theorem ValidateMapSpecUpdate_iff_witness:
  "ValidateMapSpecUpdate sample_env sample_applied_map = Some None"
  using ValidateMapSpecUpdate_iff [of sample_applied_map "''spec''" sample_env sample_map_spec]
  by (simp add: sample_applied_map_def sample_env_def sample_map_def sample_map_spec_def Int32Deref_def
      word_sless_alt)

subsection \<open>JetJob\<close>

lemma ValidateExistingJobName_None_iff:
  "ValidateExistingJobName jj jobs = None \<longleftrightarrow>
     (\<forall>job \<in> set jobs. om_Name (jo_Meta job) = om_Name (jo_Meta jj) \<or> JobName job \<noteq> JobName jj \<or>
        jj_HazelcastResourceName (jo_Spec job) \<noteq> jj_HazelcastResourceName (jo_Spec jj))"
  by (induction jobs) auto

text \<open>The jobs of a namespace: every resource name once, and on one cluster no two jobs share
  a job name.\<close>

definition jobs_unique :: "JetJob list \<Rightarrow> bool" where
  "jobs_unique jobs \<longleftrightarrow> distinct (map (\<lambda>j. om_Name (jo_Meta j)) jobs) \<and>
     distinct (map (\<lambda>j. (JobName j, jj_HazelcastResourceName (jo_Spec j))) jobs)"

text \<open>C16: the name check keeps the job names of every cluster unique, and refuses no job without
  cause: a new resource can join a namespace of uniquely named jobs without breaking
  uniqueness exactly when \<^verbatim>\<open>ValidateExistingJobName\<close> reports no conflict.\<close>

theorem job_names_stay_unique:
  assumes "jobs_unique jobs" and "om_Name (jo_Meta jj) \<notin> (\<lambda>j. om_Name (jo_Meta j)) ` set jobs"
  shows "jobs_unique (jj # jobs) \<longleftrightarrow> ValidateExistingJobName jj jobs = None"
  using assms unfolding ValidateExistingJobName_None_iff jobs_unique_def by (simp add: image_iff) metis

definition sample_jet_job :: JetJob where
  "sample_jet_job = \<lparr> jo_Meta = sample_meta\<lparr> om_Name := ''job'' \<rparr>, jo_Spec = sample_jet_job_spec,
     jo_Status = \<lparr> jjs_Id = 1, jjs_Phase = JetJobRunning, jjs_SubmissionTime = None,
       jjs_CompletionTime = None, jjs_FailureText = [], jjs_SuspensionCause = [] \<rparr> \<rparr>"

theorem job_names_stay_unique_witness:
  "jobs_unique [sample_jet_job] \<and>
   (jobs_unique (sample_jet_job\<lparr> jo_Meta := sample_meta \<rparr> # [sample_jet_job]) \<longleftrightarrow>
    ValidateExistingJobName (sample_jet_job\<lparr> jo_Meta := sample_meta \<rparr>) [sample_jet_job] = None)"
proof -
  have "jobs_unique [sample_jet_job]" by (simp add: jobs_unique_def)
  moreover have "om_Name (jo_Meta (sample_jet_job\<lparr> jo_Meta := sample_meta \<rparr>)) \<notin>
      (\<lambda>j. om_Name (jo_Meta j)) ` set [sample_jet_job]"
    by (simp add: sample_jet_job_def sample_meta_def)
  ultimately show ?thesis using job_names_stay_unique by blast
qed

text \<open>What an update of a started job may not change; of the remote URL only whether one is set.\<close>

definition jet_fixed_part ::
    "JetJobSpec \<Rightarrow> string \<times> string \<times> string \<times> string \<times> string \<times> (string \<times> string) option \<times> bool" where
  "jet_fixed_part j = (jj_Name j, jj_HazelcastResourceName j, jj_JarName j, jj_MainClass j,
     jj_InitialSnapshotResourceName j,
     map_option (\<lambda>b. (bc_BucketURI b, BucketConfiguration_GetSecretName b))
       (jrf_BucketConfiguration (jj_RemoteFile j)),
     jrf_RemoteURL (jj_RemoteFile j) = [])"

lemma accepts_ValidateJetJobNonUpdatableFields:
  "accepts (ValidateJetJobNonUpdatableFields jj old) \<longleftrightarrow> jet_fixed_part jj = jet_fixed_part old"
  by (auto simp: ValidateJetJobNonUpdatableFields_def validateBucketFields_def jet_fixed_part_def
      JetJobSpec_IsBucketEnabled_def JetJobSpec_IsRemoteURLsEnabled_def split: option.splits)

lemma accepts_validateJetStateChange:
  "accepts (validateJetStateChange newState oldState phase) \<longleftrightarrow>
     newState = oldState \<or> phase = JetJobPhaseUnset \<or> phase = JetJobRunning \<or>
     newState = RunningJobState \<and>
       phase \<notin> {JetJobCompleting, JetJobCompleted, JetJobExecutionFailed}"
  by (auto simp: validateJetStateChange_def JetPhase_IsFinished_def)

text \<open>An update of a started job is admitted exactly when it keeps the name, the cluster,
  the jar, the main class, the initial snapshot, the bucket and the presence of a remote URL,
  and changes the desired state only while the job can act on it: not once the job is
  completing, completed or failed, and to anything but Running only while it is running (or
  has not reported a status yet).\<close>

theorem ValidateJetJobUpdateStateSpec_iff:
  assumes "om_Annotations (jo_Meta jj) LastSuccessfulSpecAnnotation = Some text"
    and "env_UnmarshalJetJobSpec env text = Inr prev"
  shows "ValidateJetJobUpdateStateSpec env jj old = Some None \<longleftrightarrow>
    jet_fixed_part (jo_Spec jj) = jet_fixed_part prev \<and>
    (jj_State (jo_Spec jj) = jj_State (jo_Spec old) \<or>
     jjs_Phase (jo_Status old) \<in> {JetJobPhaseUnset, JetJobRunning} \<or>
     jj_State (jo_Spec jj) = RunningJobState \<and>
       jjs_Phase (jo_Status old) \<notin> {JetJobCompleting, JetJobCompleted, JetJobExecutionFailed})"
  unfolding ValidateJetJobUpdateStateSpec_def
  by (simp add: outcome_None_iff jetUpdate.validation_step_axioms accepts_validateJetStateChange
      validateJetJobUpdateSpec_def assms accepts_ValidateJetJobNonUpdatableFields)

definition sample_suspended_job :: JetJob where
  "sample_suspended_job = sample_jet_job\<lparr> jo_Meta := sample_meta\<lparr> om_Name := ''job'',
       om_Annotations := [LastSuccessfulSpecAnnotation \<mapsto> ''spec''] \<rparr>,
     jo_Spec := sample_jet_job_spec\<lparr> jj_State := SuspendedJobState \<rparr> \<rparr>"

theorem ValidateJetJobUpdateStateSpec_iff_witness:
  "ValidateJetJobUpdateStateSpec sample_env sample_suspended_job sample_jet_job = Some None"
  using ValidateJetJobUpdateStateSpec_iff
    [of sample_suspended_job "''spec''" sample_env sample_jet_job_spec sample_jet_job]
  by (simp add: sample_suspended_job_def sample_env_def sample_jet_job_def jet_fixed_part_def)

subsection \<open>Data structures whose whole specification is fixed\<close>

text \<open>Once a Cache, Topic, Queue, MultiMap or ReplicatedMap was applied, the unchanged check
  admits its specification exactly when it is the applied one, provided that decoding the
  JSON of a specification gives it back.\<close>

theorem ds_spec_frozen:
  assumes roundtrip: "\<forall>s t. GetSpec s = Inr t \<longrightarrow> unmarshal t = Inr s"
    and applied: "GetSpec applied = Inr text"
    and "om_Annotations (do_Meta ob) LastSuccessfulSpecAnnotation = Some text"
  shows "accepts (validateDSSpecUnchanged GetSpec ob) \<longleftrightarrow> do_Spec ob = applied"
proof -
  have "accepts (validateDSSpecUnchanged GetSpec ob) \<longleftrightarrow> GetSpec (do_Spec ob) = Inr text"
    by (simp add: validateDSSpecUnchanged_def isDSSpecUnchanged_def assms(3) split: sum.split)
  also have "\<dots> \<longleftrightarrow> do_Spec ob = applied"
    using roundtrip applied by (metis Inr_inject)
  finally show ?thesis .
qed

definition sample_topic :: Topic where
  "sample_topic = \<lparr> do_Kind = ''Topic'', do_Meta = sample_meta\<lparr> om_Name := ''topic'',
       om_Annotations := [LastSuccessfulSpecAnnotation \<mapsto> ''{}''] \<rparr>,
     do_Spec = \<lparr> tp_Name = [], tp_GlobalOrderingEnabled = False, tp_MultiThreadingEnabled = False,
       tp_HazelcastResourceName = ''hz'', tp_UserCodeNamespace = [] \<rparr>,
     do_Status = \<lparr> dss_State = DataStructureSuccess, dss_Message = [], dss_MemberStatuses = Map.empty \<rparr> \<rparr>"

definition sample_GetSpec :: "TopicSpec \<Rightarrow> string + string" where
  "sample_GetSpec s = (if s = do_Spec sample_topic then Inr ''{}'' else Inl ''unsupported value'')"

theorem ds_spec_frozen_witness: "accepts (validateDSSpecUnchanged sample_GetSpec sample_topic)"
  using ds_spec_frozen [of sample_GetSpec "\<lambda>_. Inr (do_Spec sample_topic) :: string + _"
      "do_Spec sample_topic" "''{}''" sample_topic]
  by (simp add: sample_GetSpec_def) (simp add: sample_topic_def)

subsection \<open>WanReplication\<close>

lemma accepts_validateNonUpdatableWanFields:
  "accepts (validateNonUpdatableWanFields env w) \<longleftrightarrow>
     (case om_Annotations (w_Meta w) LastSuccessfulSpecAnnotation of
        None \<Rightarrow> True
      | Some text \<Rightarrow> \<exists>rs sc lastSpec. env_UnmarshalWanReplicationSpec env text = Inr lastSpec \<and>
          w_Spec w = lastSpec\<lparr> wrs_Resources := rs, wrs_SyncConsistencyCheckStrategy := sc \<rparr>)"
proof -
  have eq: "(\<exists>rs sc. s = l\<lparr> wrs_Resources := rs, wrs_SyncConsistencyCheckStrategy := sc \<rparr>) \<longleftrightarrow>
      wrs_TargetClusterName s = wrs_TargetClusterName l \<and> wrs_Endpoints s = wrs_Endpoints l \<and>
      wrs_Queue s = wrs_Queue l \<and> wrs_Batch s = wrs_Batch l \<and>
      wrs_Acknowledgement s = wrs_Acknowledgement l" for s l :: WanReplicationSpec
    by (cases s; cases l) auto
  show ?thesis
    by (auto simp: validateNonUpdatableWanFields_def eq split: option.split sum.split)
qed

text \<open>An update of an applied WanReplication is admitted exactly when it changes nothing but
  the replicated resources and the consistency check strategy.\<close>

theorem ValidateWanReplicationSpec_iff:
  assumes "om_Annotations (w_Meta w) LastSuccessfulSpecAnnotation = Some text"
  shows "ValidateWanReplicationSpec env w = Some None \<longleftrightarrow>
    (\<exists>rs sc lastSpec. env_UnmarshalWanReplicationSpec env text = Inr lastSpec \<and>
       w_Spec w = lastSpec\<lparr> wrs_Resources := rs, wrs_SyncConsistencyCheckStrategy := sc \<rparr>)"
  by (simp add: ValidateWanReplicationSpec_def outcome_None_iff wanUpdate.validation_step_axioms
      accepts_validateNonUpdatableWanFields assms)

definition sample_wan :: WanReplication where
  "sample_wan = \<lparr> w_Meta = sample_meta\<lparr> om_Annotations := [LastSuccessfulSpecAnnotation \<mapsto> ''spec''] \<rparr>,
     w_Kind = ''WanReplication'',
     w_Spec = sample_wan_spec\<lparr> wrs_Resources := [\<lparr> wr_Name = ''hz'', wr_Kind = ResourceKindHZ \<rparr>] \<rparr>,
     w_Status = \<lparr> wst_Status = WanStatusSuccess, wst_Message = [], wst_MapsStatus = None \<rparr> \<rparr>"

theorem ValidateWanReplicationSpec_iff_witness:
  "ValidateWanReplicationSpec sample_env sample_wan = Some None"
  using ValidateWanReplicationSpec_iff [of sample_wan "''spec''" sample_env]
  by (simp add: sample_wan_def sample_env_def) (metis WanReplicationSpec.surjective WanReplicationSpec.update_convs)

subsection \<open>HotBackup\<close>

text \<open>A cluster that is not being deleted and restores from the backup.\<close>

definition restores_from :: "Hazelcast \<Rightarrow> HotBackup \<Rightarrow> bool" where
  "restores_from h hb \<longleftrightarrow> om_DeletionTimestamp (h_Meta h) = None \<and>
     (\<exists>p. hs_Persistence (h_Spec h) = Some p \<and>
        rc_HotBackupResourceName (hp_Restore p) = om_Name (hb_Meta hb))"

text \<open>The deletion of a hot backup is admitted exactly when no live Hazelcast cluster of its
  namespace names it as its restore source; when the clusters cannot be listed it is
  admitted too.\<close>

theorem hot_backup_deletion_admitted_iff:
  assumes "om_Name (hb_Meta hb) \<noteq> []"
  shows "ValidateHotBackupIsNotReferencedByHazelcast env hb = Some None \<longleftrightarrow>
    (case env_ListHazelcast env (om_Namespace (hb_Meta hb)) of
       Inl _ \<Rightarrow> True | Inr hzs \<Rightarrow> \<not> (\<exists>h \<in> set hzs. restores_from h hb))"
proof -
  have "accepts (validateHotBackupRestoreReference h hb) \<longleftrightarrow> \<not> restores_from h hb" for h
    using assms
    by (auto simp: validateHotBackupRestoreReference_def restores_from_def
        Persistence_IsRestoreEnabled_def RestoreConfigurationZero_def split: option.split)
  then show ?thesis
    by (simp add: ValidateHotBackupIsNotReferencedByHazelcast_def outcome_None_iff split: sum.split)
qed

definition sample_hot_backup :: HotBackup where
  "sample_hot_backup = \<lparr> hb_Meta = sample_meta\<lparr> om_Name := ''backup'' \<rparr>,
     hb_Spec = \<lparr> hbsp_HazelcastResourceName = ''hz'', hbsp_BucketURI = [], hbsp_DeprecatedSecret = [],
       hbsp_SecretName = [] \<rparr>,
     hb_Status = \<lparr> hbs_State = HotBackupSuccess, hbs_Message = [], hbs_BackupUUIDs = [] \<rparr> \<rparr>"

theorem hot_backup_deletion_admitted_iff_witness:
  "ValidateHotBackupIsNotReferencedByHazelcast sample_env sample_hot_backup = Some None"
  using hot_backup_deletion_admitted_iff [of sample_hot_backup sample_env]
  by (simp add: sample_hot_backup_def restores_from_def sample_defs)

end
