(* ===== verification/Status.thy ===== *)
theory Status
  imports Reconcile "HOL-Library.Signed_Division" "HOL-Library.Multiset"
begin

text \<open>
  The status writers of the controllers (\<^verbatim>\<open>map_status.go\<close>, \<^verbatim>\<open>data_structure_status.go\<close>,
  \<^verbatim>\<open>wanreplication_status.go\<close>, \<^verbatim>\<open>hazelcast_status.go\<close> under \<^verbatim>\<open>internal/controller/hazelcast\<close>), and the
  computation of the member list of a cluster.
\<close>

subsection \<open>Map and the data structures\<close>

datatype MapStatusApplier =
    withMapState MapConfigState
  | withMapFailedState string
  | withMapMessage string
  | withMapMemberStatuses "string \<rightharpoonup> MapConfigState"

fun MapStatusApply :: "MapStatusApplier \<Rightarrow> MapStatus \<Rightarrow> MapStatus" where
  "MapStatusApply (withMapState s) ms =
     (let ms' = ms\<lparr> mss_State := s \<rparr> in if s = MapSuccess then ms'\<lparr> mss_Message := [] \<rparr> else ms')"
| "MapStatusApply (withMapFailedState t) ms = ms\<lparr> mss_State := MapFailed, mss_Message := t \<rparr>"
| "MapStatusApply (withMapMessage t) ms = ms\<lparr> mss_Message := t \<rparr>"
| "MapStatusApply (withMapMemberStatuses w) ms = ms\<lparr> mss_MemberStatuses := w \<rparr>"

definition updateMapStatus ::
    "(Map \<Rightarrow> go_error option) \<Rightarrow> Map \<Rightarrow> ReconcilerOption \<Rightarrow> MapStatusApplier list \<Rightarrow>
      (Result \<times> go_error option) \<times> Map" where
  "updateMapStatus answer m recOption options =
     (let m' = m\<lparr> m_Status := fold MapStatusApply options (m_Status m) \<rparr>
      in ((case answer m' of
             Some err \<Rightarrow> if ErrIsConflict err then (ResultZero, None) else (ResultZero, Some err)
           | None \<Rightarrow>
               (case ro_Err recOption of
                  Some err \<Rightarrow> (ResultZero, Some err)
                | None \<Rightarrow>
                    if mss_State (m_Status m') = MapPending \<or> mss_State (m_Status m') = MapPersisting
                    then (\<lparr> res_Requeue = True, res_RequeueAfter = ro_RetryAfter recOption \<rparr>, None)
                    else (ResultZero, None))), m'))"

datatype DSStatusApplier =
    withDSState DataStructureConfigState
  | withDSFailedState string
  | withDSMessage string
  | withDSMemberStatuses "string \<rightharpoonup> DataStructureConfigState"

fun DSStatusApply :: "DSStatusApplier \<Rightarrow> DataStructureStatus \<Rightarrow> DataStructureStatus" where
  "DSStatusApply (withDSState s) ds =
     (let ds' = ds\<lparr> dss_State := s \<rparr>
      in if s = DataStructureSuccess then ds'\<lparr> dss_Message := [] \<rparr> else ds')"
| "DSStatusApply (withDSFailedState t) ds = ds\<lparr> dss_State := DataStructureFailed, dss_Message := t \<rparr>"
| "DSStatusApply (withDSMessage t) ds = ds\<lparr> dss_Message := t \<rparr>"
| "DSStatusApply (withDSMemberStatuses w) ds = ds\<lparr> dss_MemberStatuses := w \<rparr>"

text \<open>The object is any of the data structures; only its status, which \<^verbatim>\<open>GetStatus\<close> points to,
  matters here.\<close>

definition updateDSStatus ::
    "(DataStructureStatus \<Rightarrow> go_error option) \<Rightarrow> DataStructureStatus \<Rightarrow> ReconcilerOption \<Rightarrow>
      DSStatusApplier list \<Rightarrow> (Result \<times> go_error option) \<times> DataStructureStatus" where
  "updateDSStatus answer status recOption options =
     (let status' = fold DSStatusApply options status
      in ((case answer status' of
             Some err \<Rightarrow> if ErrIsConflict err then (ResultZero, None) else (ResultZero, Some err)
           | None \<Rightarrow>
               (case ro_Err recOption of
                  Some err \<Rightarrow> (ResultZero, Some err)
                | None \<Rightarrow>
                    if dss_State status' = DataStructurePending \<or> dss_State status' = DataStructurePersisting
                    then (\<lparr> res_Requeue = True, res_RequeueAfter = ro_RetryAfter recOption \<rparr>, None)
                    else (ResultZero, None))), status'))"

subsection \<open>WanReplication\<close>

datatype WanRepStatusApplier =
    withWanRepState WanStatus
  | withWanRepFailedState string
  | withWanRepMessage string

fun WanRepStatusApply :: "WanRepStatusApplier \<Rightarrow> WanReplicationStatus \<Rightarrow> WanReplicationStatus" where
  "WanRepStatusApply (withWanRepState s) ms = ms\<lparr> wst_Status := s \<rparr>"
| "WanRepStatusApply (withWanRepFailedState t) ms = ms\<lparr> wst_Status := WanStatusFailed, wst_Message := t \<rparr>"
| "WanRepStatusApply (withWanRepMessage t) ms = ms\<lparr> wst_Message := t \<rparr>"

definition updateWanStatus ::
    "(WanReplication \<Rightarrow> go_error option) \<Rightarrow> WanReplication \<Rightarrow> ReconcilerOption \<Rightarrow>
      WanRepStatusApplier list \<Rightarrow> (Result \<times> go_error option) \<times> WanReplication" where
  "updateWanStatus answer wan recOption options =
     (let wan' = wan\<lparr> w_Status := fold WanRepStatusApply options (w_Status wan) \<rparr>
      in ((case answer wan' of
             Some err \<Rightarrow> if ErrIsConflict err then (ResultZero, None) else (ResultZero, Some err)
           | None \<Rightarrow>
               (case ro_Err recOption of
                  Some err \<Rightarrow> (ResultZero, Some err)
                | None \<Rightarrow>
                    if wst_Status (w_Status wan') = WanStatusPending \<or>
                       wst_Status (w_Status wan') = WanStatusPersisting
                    then (\<lparr> res_Requeue = True, res_RequeueAfter = ro_RetryAfter recOption \<rparr>, None)
                    else (ResultZero, None))), wan'))"

subsection \<open>Hazelcast\<close>

record ClusterHotRestartStatus =
  chr_HotRestartStatus :: string
  chr_RemainingValidationTimeMillis :: int64
  chr_RemainingDataLoadTimeMillis :: int64

definition ClusterHotRestartStatusZero :: ClusterHotRestartStatus where
  "ClusterHotRestartStatusZero = \<lparr> chr_HotRestartStatus = [], chr_RemainingValidationTimeMillis = 0,
     chr_RemainingDataLoadTimeMillis = 0 \<rparr>"

text \<open>\<^verbatim>\<open>int64((time.Duration(ms) * time.Millisecond).Seconds())\<close>: the product wraps around; the
  seconds are a \<^verbatim>\<open>float64\<close> whose fraction is cut off. A 64-bit count of nanoseconds has fewer than
  34 bits of seconds, so the sum of seconds and fraction never rounds up to the next second,
  and the cut is the truncated quotient.\<close>

definition duration_seconds :: "int64 \<Rightarrow> int64" where
  "duration_seconds ms = word_of_int (sint (ms * 1000000) sdiv 1000000000)"

definition ClusterHotRestartStatus_RemainingValidationTimeSec :: "ClusterHotRestartStatus \<Rightarrow> int64" where
  "ClusterHotRestartStatus_RemainingValidationTimeSec c =
     duration_seconds (chr_RemainingValidationTimeMillis c)"

definition ClusterHotRestartStatus_RemainingDataLoadTimeSec :: "ClusterHotRestartStatus \<Rightarrow> int64" where
  "ClusterHotRestartStatus_RemainingDataLoadTimeSec c =
     duration_seconds (chr_RemainingDataLoadTimeMillis c)"

definition ClusterHotRestartStatus_RestoreState :: "ClusterHotRestartStatus \<Rightarrow> RestoreState" where
  "ClusterHotRestartStatus_RestoreState c =
     (if chr_HotRestartStatus c = ''SUCCEEDED'' then RestoreSucceeded
      else if chr_HotRestartStatus c = ''IN_PROGRESS'' then RestoreInProgress
      else if chr_HotRestartStatus c = ''FAILED'' then RestoreFailed
      else RestoreUnknown)"

record MemberData =
  md_Address :: string
  md_UUID :: string
  md_Version :: string
  md_LiteMember :: bool
  md_MemberState :: string
  md_Master :: bool
  md_Partitions :: int32
  md_Name :: string

record Pod =
  pod_Name :: string
  pod_PodIP :: string
  pod_Message :: string
  pod_Reason :: string

record PodError =
  pe_Name :: string
  pe_Namespace :: string
  pe_Message :: string
  pe_Reason :: string
  pe_PodIp :: string
  pe_RestartCount :: int32

record memberStatuses =
  mbs_readyMembers :: string
  mbs_readyMembersMap :: "(string \<times> MemberData) list"
  mbs_restoreState :: ClusterHotRestartStatus
  mbs_memberPods :: "Pod list"
  mbs_podErrors :: "PodError list"

text \<open>A later pod with the same address overwrites an earlier one in the name table.\<close>

definition readyMemberStatuses :: "(string \<times> MemberData) list \<Rightarrow> Pod list \<Rightarrow> HazelcastMemberStatus list" where
  "readyMemberStatuses m memberPods =
     (let names = fold (\<lambda>pod t. t(pod_PodIP pod \<mapsto> pod_Name pod)) memberPods Map.empty
      in map (\<lambda>(uid, member).
           (let ip = Split (md_Address member) '':'' ! 0
            in \<lparr> hm_PodName = (case names ip of None \<Rightarrow> [] | Some nm \<Rightarrow> nm), hm_Uid = uid, hm_Ip = ip,
                 hm_Version = md_Version member, hm_State = md_MemberState member,
                 hm_Master = md_Master member, hm_Lite = md_LiteMember member,
                 hm_OwnedPartitions = md_Partitions member, hm_Ready = True, hm_Message = [],
                 hm_Reason = [], hm_RestartCount = 0 \<rparr>)) m)"

definition failedMemberStatuses :: "PodError list \<Rightarrow> HazelcastMemberStatus list" where
  "failedMemberStatuses podErrs =
     map (\<lambda>pErr. \<lparr> hm_PodName = pe_Name pErr, hm_Uid = [], hm_Ip = pe_PodIp pErr, hm_Version = [],
            hm_State = [], hm_Master = False, hm_Lite = False, hm_OwnedPartitions = 0,
            hm_Ready = False, hm_Message = pe_Message pErr, hm_Reason = pe_Reason pErr,
            hm_RestartCount = pe_RestartCount pErr \<rparr>) podErrs"

definition pendingMemberPods :: "Pod list \<Rightarrow> HazelcastMemberStatus list \<Rightarrow> Pod list" where
  "pendingMemberPods pods currentMembers =
     (let memberIps = set (map hm_Ip currentMembers)
      in filter (\<lambda>pod. pod_PodIP pod \<notin> memberIps) pods)"

definition pendingMemberStatuses :: "Pod list \<Rightarrow> HazelcastMemberStatus list" where
  "pendingMemberStatuses pods =
     map (\<lambda>pod. \<lparr> hm_PodName = pod_Name pod, hm_Uid = [], hm_Ip = pod_PodIP pod, hm_Version = [],
            hm_State = [], hm_Master = False, hm_Lite = False, hm_OwnedPartitions = 0,
            hm_Ready = False, hm_Message = pod_Message pod, hm_Reason = pod_Reason pod,
            hm_RestartCount = 0 \<rparr>) pods"

definition memberStatuses_HzStatusApply :: "memberStatuses \<Rightarrow> HazelcastStatus \<Rightarrow> HazelcastStatus" where
  "memberStatuses_HzStatusApply m hs =
     (let readyMembers = readyMemberStatuses (mbs_readyMembersMap m) (mbs_memberPods m);
          failedMembers = failedMemberStatuses (mbs_podErrors m);
          readyFailedMembers = readyMembers @ failedMembers;
          pendingMembers = pendingMemberStatuses (pendingMemberPods (mbs_memberPods m) readyFailedMembers);
          hs' = hs\<lparr> hst_Cluster := (hst_Cluster hs)\<lparr> hcs_ReadyMembers := mbs_readyMembers m \<rparr>,
                    hst_Members := readyFailedMembers @ pendingMembers \<rparr>
      in if mbs_restoreState m \<noteq> ClusterHotRestartStatusZero
         then hs'\<lparr> hst_Restore := \<lparr>
             rs_State = ClusterHotRestartStatus_RestoreState (mbs_restoreState m),
             rs_RemainingValidationTime =
               ClusterHotRestartStatus_RemainingValidationTimeSec (mbs_restoreState m),
             rs_RemainingDataLoadTime =
               ClusterHotRestartStatus_RemainingDataLoadTimeSec (mbs_restoreState m) \<rparr> \<rparr>
         else hs')"

text \<open>\<open>withHzStatefulSet\<close> carries the replicas and the printed selector, or no selector when it
  does not convert.\<close>

datatype HzStatusApplier =
    withHzPhase Phase
  | withHzFailedPhase string
  | withHzMessage string
  | withHzStatefulSet int32 "string option"
  | withMemberStatuses memberStatuses

fun HzStatusApply :: "HzStatusApplier \<Rightarrow> HazelcastStatus \<Rightarrow> HazelcastStatus" where
  "HzStatusApply (withHzPhase p) hs =
     (let hs' = hs\<lparr> hst_Phase := p \<rparr> in if p = Running then hs'\<lparr> hst_Message := [] \<rparr> else hs')"
| "HzStatusApply (withHzFailedPhase t) hs = hs\<lparr> hst_Phase := Failed, hst_Message := t \<rparr>"
| "HzStatusApply (withHzMessage t) hs = hs\<lparr> hst_Message := t \<rparr>"
| "HzStatusApply (withHzStatefulSet replicas sel) hs =
     (let hs' = hs\<lparr> hst_ClusterSize := replicas \<rparr>
      in case sel of None \<Rightarrow> hs' | Some str \<Rightarrow> hs'\<lparr> hst_Selector := str \<rparr>)"
| "HzStatusApply (withMemberStatuses m) hs = memberStatuses_HzStatusApply m hs"

definition HazelcastReconciler_update ::
    "(Hazelcast \<Rightarrow> go_error option) \<Rightarrow> Hazelcast \<Rightarrow> ReconcilerOption \<Rightarrow> HzStatusApplier list \<Rightarrow>
      (Result \<times> go_error option) \<times> Hazelcast" where
  "HazelcastReconciler_update answer h recOption options =
     (let h' = h\<lparr> h_Status := fold HzStatusApply options (h_Status h) \<rparr>
      in ((case answer h' of
             Some err \<Rightarrow> if ErrIsConflict err then (ResultZero, None) else (ResultZero, Some err)
           | None \<Rightarrow>
               (case ro_Err recOption of
                  Some err \<Rightarrow> (ResultZero, Some err)
                | None \<Rightarrow>
                    if hst_Phase (h_Status h') = Pending
                    then (\<lparr> res_Requeue = True, res_RequeueAfter = ro_RetryAfter recOption \<rparr>, None)
                    else (ResultZero, None))), h'))"

subsection \<open>Properties\<close>

lemma ready_failed_ips:
  "map hm_Ip (readyMemberStatuses m pods) = map (\<lambda>(u, d). Split (md_Address d) '':'' ! 0) m"
  "map hm_Ip (failedMemberStatuses es) = map pe_PodIp es"
  "map hm_Ip (pendingMemberStatuses ps) = map pod_PodIP ps"
  by (simp_all add: readyMemberStatuses_def failedMemberStatuses_def pendingMemberStatuses_def Let_def
      split_def)

lemma members_after:
  "hst_Members (memberStatuses_HzStatusApply m hs) =
     (let rf = readyMemberStatuses (mbs_readyMembersMap m) (mbs_memberPods m) @
               failedMemberStatuses (mbs_podErrors m)
      in rf @ pendingMemberStatuses (pendingMemberPods (mbs_memberPods m) rf))"
  by (simp add: memberStatuses_HzStatusApply_def Let_def)

text \<open>The member list of the status accounts for every pod: the addresses in it are those of
  the ready members, of the failed pods and of the member pods, none of them lost, and the
  not yet known pods, those whose address belongs to no ready or failed member, come last, in
  their order, each exactly once.\<close>

theorem members_account_for_pods:
  "set (map hm_Ip (hst_Members (memberStatuses_HzStatusApply m hs))) =
     (\<lambda>(u, d). Split (md_Address d) '':'' ! 0) ` set (mbs_readyMembersMap m) \<union>
     pe_PodIp ` set (mbs_podErrors m) \<union> pod_PodIP ` set (mbs_memberPods m) \<and>
   map hm_PodName (drop (length (mbs_readyMembersMap m) + length (mbs_podErrors m))
       (hst_Members (memberStatuses_HzStatusApply m hs))) =
     map pod_Name (filter (\<lambda>p. pod_PodIP p \<notin>
       (\<lambda>(u, d). Split (md_Address d) '':'' ! 0) ` set (mbs_readyMembersMap m) \<union>
       pe_PodIp ` set (mbs_podErrors m)) (mbs_memberPods m))"
proof -
  let ?rf = "readyMemberStatuses (mbs_readyMembersMap m) (mbs_memberPods m) @
      failedMemberStatuses (mbs_podErrors m)"
  let ?ips = "(\<lambda>(u, d). Split (md_Address d) '':'' ! 0) ` set (mbs_readyMembersMap m) \<union>
      pe_PodIp ` set (mbs_podErrors m)"
  have ips: "hm_Ip ` set ?rf = ?ips"
    using arg_cong [OF ready_failed_ips(1), of set] arg_cong [OF ready_failed_ips(2), of set]
    by (simp add: image_Un)
  have len: "length ?rf = length (mbs_readyMembersMap m) + length (mbs_podErrors m)"
    by (simp add: readyMemberStatuses_def failedMemberStatuses_def Let_def)
  have pend: "pendingMemberPods (mbs_memberPods m) ?rf = filter (\<lambda>p. pod_PodIP p \<notin> ?ips) (mbs_memberPods m)"
    unfolding pendingMemberPods_def Let_def set_map ips ..
  have all: "hst_Members (memberStatuses_HzStatusApply m hs) =
      ?rf @ pendingMemberStatuses (filter (\<lambda>p. pod_PodIP p \<notin> ?ips) (mbs_memberPods m))"
    by (simp add: members_after Let_def pend)
  have pips: "hm_Ip ` set (pendingMemberStatuses ps) = pod_PodIP ` set ps" for ps
    using arg_cong [OF ready_failed_ips(3), of set] by simp
  have "hm_Ip ` set (hst_Members (memberStatuses_HzStatusApply m hs)) =
      ?ips \<union> pod_PodIP ` {p \<in> set (mbs_memberPods m). pod_PodIP p \<notin> ?ips}"
    unfolding all set_append image_Un ips [unfolded set_append image_Un] pips by simp
  also have "\<dots> = ?ips \<union> pod_PodIP ` set (mbs_memberPods m)" by blast
  finally have first: "hm_Ip ` set (hst_Members (memberStatuses_HzStatusApply m hs)) =
      ?ips \<union> pod_PodIP ` set (mbs_memberPods m)" .
  have "drop (length (mbs_readyMembersMap m) + length (mbs_podErrors m))
      (hst_Members (memberStatuses_HzStatusApply m hs)) =
      pendingMemberStatuses (filter (\<lambda>p. pod_PodIP p \<notin> ?ips) (mbs_memberPods m))"
    unfolding all len [symmetric] by simp
  with first show ?thesis by (simp add: pendingMemberStatuses_def comp_def)
qed

text \<open>The remaining restore time is the number of whole seconds in the milliseconds the
  member reports, as long as the nanoseconds fit into 64 bits.\<close>

theorem duration_seconds_exact:
  assumes "\<bar>sint ms\<bar> \<le> 9223372036854"
  shows "sint (duration_seconds ms) = sint ms sdiv 1000"
proof -
  have "sint (ms * 1000000) = sint ms * 1000000"
    using assms
    by (simp add: sint_word_ariths signed_take_bit_int_eq_self_iff abs_le_iff)
  moreover have "(sint ms * 1000000) sdiv 1000000000 = sint ms sdiv 1000"
    by (simp add: signed_divide_int_def abs_mult sgn_mult)
  ultimately have "duration_seconds ms = word_of_int (sint ms sdiv 1000)"
    by (simp only: duration_seconds_def)
  moreover have "\<bar>sint ms sdiv 1000\<bar> \<le> \<bar>sint ms\<bar>"
    by (auto simp: signed_divide_int_def abs_mult intro: order.trans [OF zdiv_mono2 [of _ 1]])
  ultimately show ?thesis
    using assms by (simp add: sint_sbintrunc' signed_take_bit_int_eq_self_iff) arith
qed

theorem duration_seconds_exact_witness: "sint (duration_seconds 61500) = 61"
  using duration_seconds_exact [of 61500] by (simp add: signed_divide_int_def)

end
