(* ===== verification/Wan_Names.thy ===== *)
theory Wan_Names
  imports Api_Resources
begin

text \<open>
  The names and addresses the WAN controller computes with
  (\<^verbatim>\<open>wan_resources.go\<close>, \<^verbatim>\<open>wanreplication_controller.go\<close> under \<^verbatim>\<open>internal/controller/hazelcast\<close>): the keys of the
  status map, the names of the WAN configurations, and the endpoint list, with
  \<^verbatim>\<open>net.SplitHostPort\<close> and \<^verbatim>\<open>net.JoinHostPort\<close> of the standard library.
\<close>

subsection \<open>Keys and names\<close>

definition wanMapKey :: "string \<Rightarrow> string \<Rightarrow> string" where
  "wanMapKey hzName mapName = hzName @ ''__'' @ mapName"

text \<open>\<^verbatim>\<open>list[1]\<close> panics when the key has no separator.\<close>

definition splitWanMapKey :: "string \<Rightarrow> (string \<times> string) go" where
  "splitWanMapKey key =
     (let parts = Split key ''__''
      in if length parts < 2 then None else Some (parts ! 0, parts ! 1))"

definition wanName :: "string \<Rightarrow> string" where
  "wanName mapName = mapName @ ''-default''"

definition splitWanName :: "string \<Rightarrow> string" where
  "splitWanName nm = TrimSuffix nm ''-default''"

subsection \<open>Endpoints\<close>

definition splitEndpoints :: "string \<Rightarrow> string list" where
  "splitEndpoints endpointsStr = filter (\<lambda>e. length e \<noteq> 0) (map TrimSpace (Split endpointsStr '',''))"

definition joinEndpoints :: "string list \<Rightarrow> string" where
  "joinEndpoints endpoints = Join endpoints '',''"

definition indexByte :: "string \<Rightarrow> char \<Rightarrow> nat option" where
  "indexByte s c = (if c \<in> set s then Some (length (takeWhile (\<lambda>x. x \<noteq> c) s)) else None)"

definition lastIndexByte :: "string \<Rightarrow> char \<Rightarrow> nat option" where
  "lastIndexByte s c =
     (if c \<in> set s then Some (length s - 1 - length (takeWhile (\<lambda>x. x \<noteq> c) (rev s))) else None)"

text \<open>\<^verbatim>\<open>net.SplitHostPort\<close>: the port follows the last colon; a bracketed host ends just before it; an
  unbracketed host has no colon, and no bracket may stand anywhere else. The error text is
  not used by the operator.\<close>

definition SplitHostPort :: "string \<Rightarrow> (string \<times> string) option" where
  "SplitHostPort hp =
     (case lastIndexByte hp (CHR '':'') of
        None \<Rightarrow> None
      | Some i \<Rightarrow>
          (let finish = (\<lambda>host j k.
                 if CHR ''['' \<in> set (drop j hp) then None
                 else if CHR '']'' \<in> set (drop k hp) then None
                 else Some (host, drop (i + 1) hp))
           in if hp ! 0 = CHR ''[''
              then (case indexByte hp (CHR '']'') of
                      None \<Rightarrow> None
                    | Some e \<Rightarrow>
                        if e + 1 = length hp then None
                        else if e + 1 = i then finish (drop 1 (take e hp)) 1 (e + 1)
                        else None)
              else if CHR '':'' \<in> set (take i hp) then None
              else finish (take i hp) 0 0))"

definition JoinHostPort :: "string \<Rightarrow> string \<Rightarrow> string" where
  "JoinHostPort host port =
     (if CHR '':'' \<in> set host then ''['' @ host @ '']:'' @ port else host @ '':'' @ port)"

text \<open>The endpoint list \<^verbatim>\<open>checkWanEndpoint\<close> computes: every endpoint without a port gets the default
  one.\<close>

definition withPort :: "string \<Rightarrow> string" where
  "withPort endpoint =
     (case SplitHostPort endpoint of
        None \<Rightarrow> JoinHostPort endpoint (Itoa WanDefaultPort)
      | Some _ \<Rightarrow> endpoint)"

definition checkedEndpoints :: "string \<Rightarrow> string" where
  "checkedEndpoints endpointsStr = joinEndpoints (map withPort (splitEndpoints endpointsStr))"

subsection \<open>The key round trip\<close>

lemma not_prefix_sep:
  assumes "CHR ''_'' \<notin> set hz" and "k < length hz"
  shows "\<not> prefix ''__'' (drop k (hz @ v))"
proof -
  have "drop k (hz @ v) = hz ! k # drop (Suc k) hz @ v"
    using assms(2) by (simp add: Cons_nth_drop_Suc [symmetric])
  moreover have "hz ! k \<noteq> CHR ''_''" using assms nth_mem by metis
  ultimately show ?thesis by simp
qed

lemma splitWanMapKey_key:
  assumes "CHR ''_'' \<notin> set hz"
  shows "splitWanMapKey (wanMapKey hz m) = Some (hz, Split m ''__'' ! 0)"
proof -
  have "Split (wanMapKey hz m) ''__'' = hz # Split m ''__''"
    using splitAt_first [of "''__''" hz m "[]"] not_prefix_sep [OF assms, of _ "''__'' @ m"]
    by (simp add: Split_def wanMapKey_def)
  moreover have "length (Split m ''__'') \<noteq> 0" by (simp del: length_greater_0_conv)
  ultimately show ?thesis
    by (cases "Split m ''__''") (simp_all add: splitWanMapKey_def)
qed

lemma Contains_iff_occurrence: "Contains s sep \<longleftrightarrow> (\<exists>k. prefix sep (drop k s))"
proof
  assume "Contains s sep"
  then obtain p v where "s = p @ sep @ v" by (auto simp: Contains_def sublist_def)
  then have "prefix sep (drop (length p) s)" by simp
  then show "\<exists>k. prefix sep (drop k s)" ..
next
  assume "\<exists>k. prefix sep (drop k s)"
  then obtain k w where "drop k s = sep @ w" by (auto simp: prefix_def)
  then have "s = take k s @ sep @ w" by (metis append_take_drop_id)
  then show "Contains s sep" unfolding Contains_def sublist_def by blast
qed

lemma Split_head_whole:
  assumes "sep \<noteq> []"
  shows "Split s sep ! 0 = s \<longleftrightarrow> \<not> Contains s sep"
proof (cases "\<exists>k. prefix sep (drop k s)")
  case False
  then have "Split s sep ! 0 = s"
    using splitAt_none [of sep s "[]"] assms by (simp add: Split_def)
  with False show ?thesis by (simp add: Contains_iff_occurrence)
next
  case True
  define k where "k = (LEAST k. prefix sep (drop k s))"
  have k: "prefix sep (drop k s)" unfolding k_def by (rule LeastI_ex [OF True])
  have before: "\<not> prefix sep (drop i s)" if "i < k" for i
    using that not_less_Least unfolding k_def by blast
  obtain v where "drop k s = sep @ v" using k by (auto simp: prefix_def)
  then have s: "s = take k s @ sep @ v" by (metis append_take_drop_id)
  then have "splitAt sep [] s = take k s # splitAt sep [] v"
    using splitAt_first [of sep "take k s" v "[]"] assms before by (metis append_Nil length_take
        min_less_iff_conj rev.simps(1))
  moreover have "take k s \<noteq> s"
  proof
    assume "take k s = s"
    then have "drop k s = []" by (metis append_take_drop_id append_self_conv)
    with k assms show False by simp
  qed
  ultimately show ?thesis
    using True assms by (simp add: Split_def Contains_iff_occurrence)
qed

text \<open>C18: the key of a map in the WAN status determines its cluster and its name: splitting the
  key of map \<open>m\<close> on cluster \<open>hz\<close> gives them back, for a cluster name without underscore (the name
  of a Kubernetes object has none), exactly when the map name does not contain the
  separator; a map name that contains it is cut off there.\<close>

theorem wan_key_round_trip:
  assumes "CHR ''_'' \<notin> set hz"
  shows "splitWanMapKey (wanMapKey hz m) = Some (hz, Split m ''__'' ! 0) \<and>
    (splitWanMapKey (wanMapKey hz m) = Some (hz, m) \<longleftrightarrow> \<not> Contains m ''__'')"
  using splitWanMapKey_key [OF assms] Split_head_whole [of "''__''" m] by simp

theorem wan_key_round_trip_witness:
  "splitWanMapKey (wanMapKey ''hz'' ''a__b'') = Some (''hz'', ''a'')"
proof -
  have "Split ''a__b'' ''__'' ! 0 = ''a''"
    using splitAt_first [of "''__''" "''a''" "''b''" "[]"] by (simp add: Split_def)
  then show ?thesis using wan_key_round_trip [of "''hz''" "''a__b''"] by simp
qed

lemma wanMapKey_inj:
  assumes "CHR ''_'' \<notin> set hz" and "CHR ''_'' \<notin> set hz'" and "wanMapKey hz m = wanMapKey hz' m'"
  shows "hz = hz' \<and> m = m'"
proof -
  have "splitWanMapKey (wanMapKey hz m) = splitWanMapKey (wanMapKey hz' m')" using assms(3) by simp
  then have "hz = hz'" using splitWanMapKey_key assms(1,2) by simp
  with assms(3) show ?thesis by (simp add: wanMapKey_def)
qed

lemma splitWanName_wanName [simp]: "splitWanName (wanName m) = m"
  by (simp add: splitWanName_def wanName_def TrimSuffix_def suffix_def)

subsection \<open>Endpoints settle\<close>

text \<open>An endpoint as \<^verbatim>\<open>splitEndpoints\<close> returns it.\<close>

definition endpoint :: "string \<Rightarrow> bool" where
  "endpoint e \<longleftrightarrow> e \<noteq> [] \<and> CHR '','' \<notin> set e \<and> \<not> is_space (hd e) \<and> \<not> is_space (last e)"

abbreviation bracketless :: "string \<Rightarrow> bool" where
  "bracketless e \<equiv> CHR ''['' \<notin> set e \<and> CHR '']'' \<notin> set e"

lemma TrimSpace_id:
  assumes "e = [] \<or> \<not> is_space (hd e) \<and> \<not> is_space (last e)"
  shows "TrimSpace e = e"
proof (cases e)
  case (Cons a t)
  then have "dropWhile is_space e = e" and "dropWhile is_space (rev e) = rev e"
    using assms unfolding dropWhile_eq_self_iff hd_rev rev_is_Nil_conv by blast+
  then show ?thesis by (simp add: TrimSpace_def)
qed (simp add: TrimSpace_def)

lemma TrimSpace_ends:
  assumes "TrimSpace s \<noteq> []"
  shows "\<not> is_space (hd (TrimSpace s)) \<and> \<not> is_space (last (TrimSpace s)) \<and> set (TrimSpace s) \<subseteq> set s"
proof -
  define a where "a = dropWhile is_space s"
  define b where "b = dropWhile is_space (rev a)"
  have t: "TrimSpace s = rev b" by (simp add: TrimSpace_def a_def b_def)
  with assms have b: "b \<noteq> []" by simp
  then have "\<not> is_space (hd b)" unfolding b_def by (rule hd_dropWhile)
  then have "\<not> is_space (last (rev b))" using b by (simp add: last_rev)
  moreover have "a \<noteq> []" using b by (auto simp: b_def)
  moreover from \<open>a \<noteq> []\<close> have "\<not> is_space (hd a)" unfolding a_def by (rule hd_dropWhile)
  moreover have "hd (rev b) = hd a"
  proof -
    obtain p where "rev a = p @ b" unfolding b_def by (metis takeWhile_dropWhile_id)
    then have "a = rev b @ rev p" by (metis rev_append rev_rev_ident)
    with b show ?thesis by simp
  qed
  moreover have "set b \<subseteq> set s"
    unfolding b_def a_def by (auto dest!: set_dropWhileD)
  ultimately show ?thesis by (simp add: t)
qed

lemma splitEndpoints_endpoint: "e \<in> set (splitEndpoints s) \<Longrightarrow> endpoint e"
  using TrimSpace_ends Split_char_parts by (fastforce simp: splitEndpoints_def endpoint_def)

lemma splitEndpoints_join:
  assumes "\<forall>e \<in> set es. endpoint e"
  shows "splitEndpoints (joinEndpoints es) = es"
proof (cases "es = []")
  case True
  then show ?thesis by (simp add: splitEndpoints_def joinEndpoints_def Split_def TrimSpace_def)
next
  case False
  with assms have "Split (joinEndpoints es) '','' = es"
    unfolding joinEndpoints_def by (intro Split_Join_char) (auto simp: endpoint_def)
  moreover have "map TrimSpace es = es"
    using assms by (intro map_idI TrimSpace_id) (auto simp: endpoint_def)
  moreover have "filter (\<lambda>e. length e \<noteq> 0) es = es"
    using assms by (intro filter_True) (auto simp: endpoint_def)
  ultimately show ?thesis by (simp add: splitEndpoints_def)
qed

lemma default_port: "Itoa WanDefaultPort = ''5710''"
  by (simp add: Itoa_def WanDefaultPort_def showNat.simps digit_char_def char_of_def
      bit_Suc_0_iff)

lemma lastIndexByte_app:
  "c \<notin> set p \<Longrightarrow> lastIndexByte (h @ c # p) c = Some (length h)"
proof -
  assume "c \<notin> set p"
  then have "takeWhile (\<lambda>x. x \<noteq> c) (rev (h @ c # p)) = rev p"
    by (simp add: takeWhile_append)
  then show ?thesis by (simp add: lastIndexByte_def)
qed

lemma indexByte_app: "c \<notin> set p \<Longrightarrow> indexByte (p @ c # q) c = Some (length p)"
  by (simp add: indexByte_def takeWhile_append)

lemma SplitHostPort_joined:
  assumes "bracketless e"
  shows "SplitHostPort (JoinHostPort e ''5710'') = Some (e, ''5710'')"
proof (cases "CHR '':'' \<in> set e")
  case False
  then have "SplitHostPort (e @ CHR '':'' # ''5710'') = Some (e, ''5710'')"
    using assms lastIndexByte_app [of "CHR '':''" "''5710''" e]
    by (cases e) (auto simp: SplitHostPort_def Let_def)
  with False show ?thesis by (simp add: JoinHostPort_def)
next
  case True
  let ?hp = "(CHR ''['' # e) @ CHR '']'' # CHR '':'' # ''5710''"
  have "lastIndexByte ?hp (CHR '':'') = Some (length e + 2)"
    using lastIndexByte_app [of "CHR '':''" "''5710''" "CHR ''['' # e @ '']''"] by simp
  moreover have "indexByte ?hp (CHR '']'') = Some (Suc (length e))"
    using indexByte_app [of "CHR '']''" "CHR ''['' # e" "'':5710''"] assms by simp
  ultimately have "SplitHostPort ?hp = Some (e, ''5710'')"
    using assms by (simp add: SplitHostPort_def Let_def)
  with True show ?thesis by (simp add: JoinHostPort_def)
qed

lemma withPort_cases:
  "SplitHostPort e \<noteq> None \<and> withPort e = e \<or>
   SplitHostPort e = None \<and> withPort e = JoinHostPort e ''5710''"
  by (cases "SplitHostPort e") (simp_all add: withPort_def default_port)

lemma withPort_endpoint: "endpoint e \<Longrightarrow> endpoint (withPort e)"
  using withPort_cases [of e]
  by (cases "CHR '':'' \<in> set e") (auto simp: endpoint_def JoinHostPort_def is_space_def)

lemma splitEndpoints_checked: "splitEndpoints (checkedEndpoints s) = map withPort (splitEndpoints s)"
  unfolding checkedEndpoints_def
  by (rule splitEndpoints_join) (auto dest: splitEndpoints_endpoint withPort_endpoint)

text \<open>Filling in the default WAN port settles after one round: if no endpoint without a port
  contains a bracket, then after \<^verbatim>\<open>checkWanEndpoint\<close> every endpoint has a port, the endpoints that
  had one are as they were, and the next reconciliation changes nothing.\<close>

theorem endpoints_settle:
  assumes "\<forall>e \<in> set (splitEndpoints s). SplitHostPort e \<noteq> None \<or> bracketless e"
  shows "checkedEndpoints (checkedEndpoints s) = checkedEndpoints s \<and>
    (\<forall>e \<in> set (splitEndpoints (checkedEndpoints s)). SplitHostPort e \<noteq> None) \<and>
    list_all2 (\<lambda>e e'. SplitHostPort e \<noteq> None \<longrightarrow> e' = e) (splitEndpoints s)
      (splitEndpoints (checkedEndpoints s))"
proof -
  have port: "SplitHostPort (withPort e) \<noteq> None" if "e \<in> set (splitEndpoints s)" for e
    using that assms withPort_cases [of e] SplitHostPort_joined [of e] by auto
  have "withPort (withPort e) = withPort e" if "e \<in> set (splitEndpoints s)" for e
    using port [OF that] withPort_cases [of "withPort e"] by auto
  then have "map withPort (map withPort (splitEndpoints s)) = map withPort (splitEndpoints s)"
    by simp
  then have "checkedEndpoints (checkedEndpoints s) = checkedEndpoints s"
    unfolding checkedEndpoints_def [of "checkedEndpoints s"] splitEndpoints_checked
    by (simp only: checkedEndpoints_def)
  moreover have "list_all2 (\<lambda>e e'. SplitHostPort e \<noteq> None \<longrightarrow> e' = e) es (map withPort es)" for es
    by (auto simp: list_all2_conv_all_nth withPort_def)
  ultimately show ?thesis
    using port unfolding splitEndpoints_checked by simp
qed

theorem endpoints_settle_witness:
  "checkedEndpoints (checkedEndpoints ''a:1,b'') = checkedEndpoints ''a:1,b''"
proof -
  have "splitEndpoints ''a:1,b'' = [''a:1'', ''b'']"
    using splitEndpoints_join [of "[''a:1'', ''b'']"]
    by (simp add: joinEndpoints_def endpoint_def is_space_def)
  then show ?thesis using endpoints_settle [of "''a:1,b''"] by simp
qed

text \<open>A bracketed IPv6 address without a port never settles: \<^verbatim>\<open>JoinHostPort\<close> puts a second pair
  of brackets around it, the result does not parse either, and every further round wraps it
  again, so that each reconciliation writes a longer endpoint list.\<close>

theorem bracketed_ipv6_never_settles:
  assumes "endpoint e" and "CHR '':'' \<in> set e" and "\<not> bracketless e" and "SplitHostPort e = None"
  shows "(checkedEndpoints ^^ n) e \<noteq> (checkedEndpoints ^^ Suc n) e \<and>
    length ((checkedEndpoints ^^ n) e) = length e + 7 * n"
proof -
  let ?P = "\<lambda>e. endpoint e \<and> CHR '':'' \<in> set e \<and> \<not> bracketless e \<and> SplitHostPort e = None"
  have step: "checkedEndpoints e = ''['' @ e @ '']:5710'' \<and> ?P (checkedEndpoints e)" if P: "?P e" for e
  proof -
    have single: "checkedEndpoints e = withPort e"
      using P splitEndpoints_join [of "[e]"] by (simp add: checkedEndpoints_def joinEndpoints_def)
    also have wrapped: "\<dots> = ''['' @ e @ '']:5710''"
      using P withPort_cases [of e] by (simp add: JoinHostPort_def)
    finally have eq: "checkedEndpoints e = ''['' @ e @ '']:5710''" .
    let ?hp = "(CHR ''['' # e) @ CHR '']'' # CHR '':'' # ''5710''"
    have last: "lastIndexByte ?hp (CHR '':'') = Some (length e + 2)"
      using lastIndexByte_app [of "CHR '':''" "''5710''" "CHR ''['' # e @ '']''"] by simp
    have "SplitHostPort ?hp = None"
    proof (cases "CHR '']'' \<in> set e")
      case True
      then obtain p q where e: "e = p @ CHR '']'' # q" "CHR '']'' \<notin> set p"
        by (meson split_list_first)
      then have "indexByte ?hp (CHR '']'') = Some (Suc (length p))"
        using indexByte_app [of "CHR '']''" "CHR ''['' # p" "q @ '']:5710''"] by simp
      then show ?thesis using last e by (auto simp: SplitHostPort_def Let_def)
    next
      case False
      with P have "CHR ''['' \<in> set e" by blast
      then show ?thesis
        using last by (auto simp: SplitHostPort_def Let_def split: option.split)
    qed
    with eq P withPort_endpoint [of e] single show ?thesis by simp
  qed
  have inv: "?P ((checkedEndpoints ^^ n) e) \<and> length ((checkedEndpoints ^^ n) e) = length e + 7 * n" for n
  proof (induction n)
    case 0
    show ?case using assms by simp
  next
    case (Suc n)
    let ?f = "(checkedEndpoints ^^ n) e"
    from Suc step [of ?f] have "?P (checkedEndpoints ?f)"
      and "length (checkedEndpoints ?f) = length ?f + 7" by auto
    with Suc show ?case by simp
  qed
  from inv [of n] inv [of "Suc n"] show ?thesis by auto
qed

theorem bracketed_ipv6_never_settles_witness:
  "(checkedEndpoints ^^ 2) ''[::1]'' \<noteq> (checkedEndpoints ^^ Suc 2) ''[::1]''"
proof -
  have "SplitHostPort ''[::1]'' = None"
    by (simp add: SplitHostPort_def indexByte_def lastIndexByte_def)
  then show ?thesis
    using bracketed_ipv6_never_settles [of "''[::1]''" 2]
    by (simp add: endpoint_def is_space_def del: funpow.simps)
qed

end
