(* ===== verification/Wan_Controller.thy ===== *)
theory Wan_Controller
  imports Status Wan_Names Resource_Validation "HOL-Library.AList"
begin

text \<open>
  The WanReplication controller (\<^verbatim>\<open>wanreplication_controller.go\<close>, \<^verbatim>\<open>wanreplication_status.go\<close>,
  \<^verbatim>\<open>wan_resources.go\<close> under \<^verbatim>\<open>internal/controller/hazelcast\<close>): a reconciliation as a computation over
  the object it holds and the trace of the calls it made.

  Everything outside answers through \<open>wan_env\<close>: the API server, the Hazelcast members and the
  registries. Each answer may depend on all calls made before, so a theorem about every
  \<open>wan_env\<close> holds for every interleaving of failures. A successful write leaves the local
  object as it was written; resource versions are not modelled.
\<close>

subsection \<open>The world of a reconciliation\<close>

datatype ConsistencyCheckStrategy = StrategyNone | StrategyMerkleTrees

record AddBatchPublisherRequest =
  bp_TargetCluster :: string
  bp_Endpoints :: string
  bp_QueueCapacity :: int32
  bp_BatchSize :: int32
  bp_BatchMaxDelayMillis :: int32
  bp_ResponseTimeoutMillis :: int32
  bp_AckType :: AcknowledgementType
  bp_QueueFullBehavior :: FullBehaviorSetting
  bp_ConsistencyCheckStrategy :: ConsistencyCheckStrategy

record BatchPublisherConfig =
  bpc_ClusterName :: string
  bpc_BatchSize :: int32
  bpc_BatchMaxDelayMillis :: int32
  bpc_ResponseTimeoutMillis :: int32
  bpc_AcknowledgementType :: string
  bpc_InitialPublisherState :: string
  bpc_QueueFullBehavior :: string
  bpc_QueueCapacity :: int32
  bpc_TargetEndpoints :: string
  bpc_Sync :: "string option"

text \<open>The calls that change something, and the trace: each call with whether it succeeded.\<close>

datatype wan_call =
    StatusUpdateWan WanReplication
  | UpdateWan WanReplication
  | UpdateMap Map
  | ChangeWanStateStopped string string
  | ClearWanQueue string string
  | AddBatchPublisherConfig string string AddBatchPublisherRequest

type_synonym wan_trace = "(wan_call \<times> bool) list"

record wan_env =
  we_call :: "wan_trace \<Rightarrow> wan_call \<Rightarrow> go_error option"
  we_GetWan :: "NamespacedName \<Rightarrow> go_error + WanReplication"
  we_GetMap :: "wan_trace \<Rightarrow> NamespacedName \<Rightarrow> go_error + Map"
  we_ListMaps :: "wan_trace \<Rightarrow> string \<Rightarrow> string \<Rightarrow> go_error + Map list"
  we_GetOrCreateClient :: "wan_trace \<Rightarrow> NamespacedName \<Rightarrow> go_error + bool"
  we_SetOwnerReference :: "WanReplication \<Rightarrow> Map \<Rightarrow> go_error + Map"
  we_WanConfig :: "wan_trace \<Rightarrow> NamespacedName \<Rightarrow>
      go_error + string + (string \<times> (string \<rightharpoonup> BatchPublisherConfig)) list"
  we_MemberAddresses :: "NamespacedName \<Rightarrow> string list option"
  we_MtlsClient :: "string \<Rightarrow> go_error option"
  we_Dial :: "string \<Rightarrow> string list \<Rightarrow> go_error option"
  we_validation :: validation_env
  we_ErrText :: "validation_error \<Rightarrow> string"
  we_MarshalSpec :: "WanReplicationSpec \<Rightarrow> go_error + string"

record wan_world =
  ww_wan :: WanReplication
  ww_trace :: wan_trace

type_synonym 'a wan_action = "(wan_world, 'a) action"

definition callA :: "wan_env \<Rightarrow> wan_call \<Rightarrow> unit wan_action" where
  "callA env c w =
     (let ans = we_call env (ww_trace w) c;
          w' = w\<lparr> ww_trace := ww_trace w @ [(c, ans = None)] \<rparr>
      in case ans of None \<Rightarrow> (Inr (), w') | Some e \<Rightarrow> (Inl e, w'))"

definition readA :: "(wan_trace \<Rightarrow> go_error + 'a) \<Rightarrow> 'a wan_action" where
  "readA f w = (f (ww_trace w), w)"

definition theWan :: "WanReplication wan_action" where
  "theWan w = (Inr (ww_wan w), w)"

definition setWan :: "(WanReplication \<Rightarrow> WanReplication) \<Rightarrow> unit wan_action" where
  "setWan f w = (Inr (), w\<lparr> ww_wan := f (ww_wan w) \<rparr>)"

definition writeStatus :: "wan_env \<Rightarrow> unit wan_action" where
  "writeStatus env = bindA theWan (\<lambda>wan. callA env (StatusUpdateWan wan))"

subsection \<open>The status of the replicated maps (wanreplication\_status.go)\<close>

datatype WanMapStatusApplier =
    wanMapFailedStatus string
  | wanMapPersistingStatus string string
  | wanMapSuccessStatus
  | wanMapTerminatingStatus

fun WanMapStatusApply :: "WanMapStatusApplier \<Rightarrow> WanReplicationMapStatus \<Rightarrow> WanReplicationMapStatus" where
  "WanMapStatusApply (wanMapFailedStatus t) ms = ms\<lparr> wms_Status := WanStatusFailed, wms_Message := t \<rparr>"
| "WanMapStatusApply (wanMapPersistingStatus publisherId resourceName) ms =
     ms\<lparr> wms_Status := WanStatusPersisting, wms_PublisherId := publisherId, wms_Message := [],
         wms_ResourceName := resourceName \<rparr>"
| "WanMapStatusApply wanMapSuccessStatus ms = ms\<lparr> wms_Status := WanStatusSuccess \<rparr>"
| "WanMapStatusApply wanMapTerminatingStatus ms = ms\<lparr> wms_Status := WanStatusTerminating \<rparr>"

definition wanStatusSet :: "(string \<times> WanReplicationMapStatus) list \<Rightarrow> WanStatus set" where
  "wanStatusSet statusMap = set (map (\<lambda>(k, v). wms_Status v) statusMap)"

definition wanStatusFromMapStatuses :: "(string \<times> WanReplicationMapStatus) list \<Rightarrow> WanStatus" where
  "wanStatusFromMapStatuses statuses =
     (let st = wanStatusSet statuses
      in if WanStatusSuccess \<in> st \<and> card st = 1 then WanStatusSuccess
         else if WanStatusPersisting \<in> st then WanStatusPersisting
         else if WanStatusFailed \<in> st then WanStatusFailed
         else WanStatusPending)"

definition setMapsStatus ::
    "((string \<times> WanReplicationMapStatus) list \<Rightarrow> (string \<times> WanReplicationMapStatus) list) \<Rightarrow>
      WanReplication \<Rightarrow> WanReplication" where
  "setMapsStatus f wan =
     wan\<lparr> w_Status := (w_Status wan)\<lparr> wst_MapsStatus := Some (f (MapsStatus (w_Status wan))) \<rparr> \<rparr>"

definition applyAt :: "string \<Rightarrow> WanMapStatusApplier \<Rightarrow>
    (string \<times> WanReplicationMapStatus) list \<Rightarrow> (string \<times> WanReplicationMapStatus) list" where
  "applyAt key applier l =
     AList.update key (WanMapStatusApply applier
       (case map_of l key of None \<Rightarrow> WanReplicationMapStatusZero | Some st \<Rightarrow> st)) l"

definition patchWanMapStatuses :: "wan_env \<Rightarrow> (string \<times> WanMapStatusApplier) list \<Rightarrow> unit wan_action" where
  "patchWanMapStatuses env options =
     bindA (setWan (setMapsStatus (fold (\<lambda>(key, applier). applyAt key applier) options))) (\<lambda>_.
     bindA (setWan (\<lambda>wan.
        let st = wanStatusFromMapStatuses (MapsStatus (w_Status wan));
            status = (w_Status wan)\<lparr> wst_Status := st \<rparr>
        in wan\<lparr> w_Status := if st = WanStatusSuccess then status\<lparr> wst_Message := [] \<rparr> else status \<rparr>)) (\<lambda>_.
     tryA (writeStatus env) (\<lambda>r.
        case r of Inl e \<Rightarrow> if ErrIsConflict e then returnA () else throwA e | Inr _ \<Rightarrow> returnA ())))"

definition deleteWanMapStatus :: "wan_env \<Rightarrow> string \<Rightarrow> unit wan_action" where
  "deleteWanMapStatus env mapWanKey =
     bindA theWan (\<lambda>wan.
       if wst_MapsStatus (w_Status wan) = None then returnA ()
       else bindA (setWan (setMapsStatus (AList.delete mapWanKey))) (\<lambda>_. writeStatus env))"

definition updateWanMapStatus :: "wan_env \<Rightarrow> string \<Rightarrow> WanMapStatusApplier \<Rightarrow> unit wan_action" where
  "updateWanMapStatus env mapWanKey applier =
     bindA theWan (\<lambda>wan.
       if wst_MapsStatus (w_Status wan) = None then returnA ()
       else bindA (setWan (setMapsStatus (applyAt mapWanKey applier))) (\<lambda>_. writeStatus env))"

text \<open>\<^verbatim>\<open>updateWanStatus\<close> on the object of the reconciliation.\<close>

definition updateWanStatusA ::
    "wan_env \<Rightarrow> ReconcilerOption \<Rightarrow> WanRepStatusApplier list \<Rightarrow> (Result \<times> go_error option) wan_action" where
  "updateWanStatusA env opt options w =
     (let (r, wan') = updateWanStatus (\<lambda>x. we_call env (ww_trace w) (StatusUpdateWan x)) (ww_wan w) opt options
      in (Inr r, w\<lparr> ww_wan := wan', ww_trace := ww_trace w @
            [(StatusUpdateWan wan', we_call env (ww_trace w) (StatusUpdateWan wan') = None)] \<rparr>))"

subsection \<open>Reading maps (wan\_resources.go)\<close>

definition getWanMap :: "wan_env \<Rightarrow> NamespacedName \<Rightarrow> Map wan_action" where
  "getWanMap env lk = tryA (readA (\<lambda>tr. we_GetMap env tr lk)) (\<lambda>r.
     case r of Inl e \<Rightarrow> throwA (wrapErr ''failed to get Map CR from WanReplication: '' e)
     | Inr m \<Rightarrow> returnA m)"

definition getAllMapsInHazelcast :: "wan_env \<Rightarrow> string \<Rightarrow> string \<Rightarrow> Map list wan_action" where
  "getAllMapsInHazelcast env hz ns = tryA (readA (\<lambda>tr. we_ListMaps env tr hz ns)) (\<lambda>r.
     case r of Inl e \<Rightarrow> throwA (wrapErr ''could not get Map resources dependent under given Hazelcast '' e)
     | Inr ms \<Rightarrow> returnA ms)"

definition map_key :: "Map \<Rightarrow> string \<times> string" where
  "map_key m = (om_Name (m_Meta m), om_Namespace (m_Meta m))"

fun removeDuplicateFrom :: "(string \<times> string) set \<Rightarrow> Map list \<Rightarrow> Map list" where
  "removeDuplicateFrom keySet [] = []"
| "removeDuplicateFrom keySet (item # items) =
     (if map_key item \<in> keySet then removeDuplicateFrom keySet items
      else item # removeDuplicateFrom (insert (map_key item) keySet) items)"

definition removeDuplicate :: "Map list \<Rightarrow> Map list" where
  "removeDuplicate mapList = removeDuplicateFrom {} mapList"

definition appendAt :: "string \<Rightarrow> Map list \<Rightarrow> (string \<times> Map list) list \<Rightarrow> (string \<times> Map list) list" where
  "appendAt hz ms l = AList.update hz (case map_of l hz of None \<Rightarrow> ms | Some ms0 \<Rightarrow> ms0 @ ms) l"

fun groupMaps :: "wan_env \<Rightarrow> string \<Rightarrow> ResourceSpec list \<Rightarrow> (string \<times> Map list) list \<Rightarrow>
    (string \<times> Map list) list wan_action" where
  "groupMaps env ns [] acc = returnA acc"
| "groupMaps env ns (r # rs) acc =
     (case wr_Kind r of
        ResourceKindMap \<Rightarrow> bindA (getWanMap env \<lparr> nn_Name = wr_Name r, nn_Namespace = ns \<rparr>) (\<lambda>m.
          groupMaps env ns rs (appendAt (m_HazelcastResourceName m) [m] acc))
      | ResourceKindHZ \<Rightarrow> bindA (getAllMapsInHazelcast env (wr_Name r) ns) (\<lambda>ms.
          groupMaps env ns rs (if ms = [] then acc else appendAt (wr_Name r) ms acc))
      | ResourceKindUnset \<Rightarrow> groupMaps env ns rs acc)"

definition getMapsGroupByHazelcastName :: "wan_env \<Rightarrow> (string \<times> Map list) list wan_action" where
  "getMapsGroupByHazelcastName env =
     bindA theWan (\<lambda>wan.
     bindA (groupMaps env (om_Namespace (w_Meta wan)) (wrs_Resources (w_Spec wan)) []) (\<lambda>hzClientMap.
     returnA (map (\<lambda>(hz, ms). (hz, removeDuplicate ms)) hzClientMap)))"

definition getHazelcastClient :: "wan_env \<Rightarrow> string \<Rightarrow> string \<Rightarrow> unit wan_action" where
  "getHazelcastClient env hzName ns =
     tryA (readA (\<lambda>tr. we_GetOrCreateClient env tr \<lparr> nn_Name = hzName, nn_Namespace = ns \<rparr>)) (\<lambda>r.
       case r of
         Inl e \<Rightarrow> throwA (ErrOther (''Internal error occurred: cannot connect to the cluster for '' @ hzName))
       | Inr running \<Rightarrow> if \<not> running then throwA (ErrOther (''trying to connect to the cluster '' @ hzName))
                       else returnA ())"

subsection \<open>Stopping a replication\<close>

definition removeOwnerReference :: "wan_env \<Rightarrow> Map \<Rightarrow> Map wan_action" where
  "removeOwnerReference env m =
     bindA theWan (\<lambda>wan.
       let newOwnerRef = filter (\<lambda>owner. \<not> (or_Kind owner = w_Kind wan \<and>
             or_Name owner = om_Name (w_Meta wan) \<and> or_UID owner = om_UID (w_Meta wan)))
             (om_OwnerReferences (m_Meta m));
           m' = m\<lparr> m_Meta := (m_Meta m)\<lparr> om_OwnerReferences := newOwnerRef \<rparr> \<rparr>
       in if length newOwnerRef = length (om_OwnerReferences (m_Meta m)) then returnA m
          else bindA (callA env (UpdateMap m')) (\<lambda>_. returnA m'))"

definition removeWanRepFinalizerFromMap :: "wan_env \<Rightarrow> Map \<Rightarrow> unit wan_action" where
  "removeWanRepFinalizerFromMap env m =
     (if \<not> ContainsFinalizer (m_Meta m) WanRepMapFinalizer then returnA ()
      else callA env (UpdateMap (m\<lparr> m_Meta := RemoveFinalizer (m_Meta m) WanRepMapFinalizer \<rparr>)))"

definition stopWanReplicationMap :: "wan_env \<Rightarrow> Map \<Rightarrow> unit wan_action" where
  "stopWanReplicationMap env m =
     (let mapWanKey = wanMapKey (m_HazelcastResourceName m) (MapName m); wn = wanName (MapName m)
      in bindA theWan (\<lambda>wan.
        case map_of (MapsStatus (w_Status wan)) mapWanKey of
          None \<Rightarrow> returnA ()
        | Some mapStatus \<Rightarrow>
            (let publisherId = wms_PublisherId mapStatus
             in if publisherId = [] then deleteWanMapStatus env mapWanKey
                else bindA (callA env (ChangeWanStateStopped wn publisherId)) (\<lambda>_.
                     bindA (callA env (ClearWanQueue wn publisherId)) (\<lambda>_.
                     bindA (removeOwnerReference env m) (\<lambda>m'.
                     bindA (updateWanMapStatus env mapWanKey wanMapTerminatingStatus) (\<lambda>_.
                     bindA (removeWanRepFinalizerFromMap env m') (\<lambda>_.
                     deleteWanMapStatus env mapWanKey))))))))"

fun publishedMaps :: "wan_env \<Rightarrow> string \<Rightarrow> (string \<times> WanReplicationMapStatus) list \<Rightarrow>
    (string \<times> Map) list wan_action" where
  "publishedMaps env ns [] = returnA []"
| "publishedMaps env ns ((mapWanKey, status) # rest) =
     (if wms_PublisherId status = [] then publishedMaps env ns rest
      else bindA (getWanMap env \<lparr> nn_Name = wms_ResourceName status, nn_Namespace = ns \<rparr>) (\<lambda>m.
           bindA (publishedMaps env ns rest) (\<lambda>ms. returnA ((mapWanKey, m) # ms))))"

definition getPublishedMapsFromStatus :: "wan_env \<Rightarrow> (string \<times> Map) list wan_action" where
  "getPublishedMapsFromStatus env =
     bindA theWan (\<lambda>wan. publishedMaps env (om_Namespace (w_Meta wan)) (MapsStatus (w_Status wan)))"

text \<open>\<^verbatim>\<open>range\<close> over the status map, whose entries the body deletes: an entry deleted before it is
  reached is not visited.\<close>

definition visitA :: "string \<Rightarrow> unit wan_action \<Rightarrow> unit wan_action" where
  "visitA key body = bindA theWan (\<lambda>wan.
     if map_of (MapsStatus (w_Status wan)) key = None then returnA () else body)"

definition stopWanReplicationAllMaps :: "wan_env \<Rightarrow> unit wan_action" where
  "stopWanReplicationAllMaps env =
     bindA (getPublishedMapsFromStatus env) (\<lambda>published.
     bindA theWan (\<lambda>wan.
     bindA (forA (map fst (MapsStatus (w_Status wan))) (\<lambda>mapWanKey. visitA mapWanKey
       (case map_of published mapWanKey of
          None \<Rightarrow> deleteWanMapStatus env mapWanKey
        | Some m \<Rightarrow>
            bindA (getHazelcastClient env (m_HazelcastResourceName m) (om_Namespace (m_Meta m))) (\<lambda>_.
            stopWanReplicationMap env m)))) (\<lambda>_.
     bindA theWan (\<lambda>wan'.
       let len = length (MapsStatus (w_Status wan'))
       in if len \<noteq> 0
          then throwA (ErrOther (''Not all maps are finalized, number of left maps is '' @ Itoa (int len)))
          else returnA ()))))"

fun leftoverMaps :: "wan_env \<Rightarrow> string \<Rightarrow> (string \<times> WanReplicationMapStatus) list \<Rightarrow> unit wan_action" where
  "leftoverMaps env ns [] = returnA ()"
| "leftoverMaps env ns ((mapWanKey, mapStatus) # rest) =
     (if wms_PublisherId mapStatus = [] then leftoverMaps env ns rest
      else if wms_Status mapStatus \<noteq> WanStatusTerminating then leftoverMaps env ns rest
      else tryA (getWanMap env \<lparr> nn_Name = wms_ResourceName mapStatus, nn_Namespace = ns \<rparr>) (\<lambda>r.
        case r of
          Inl e \<Rightarrow> if \<not> ErrIsNotFound e then throwA e
                   else bindA (deleteWanMapStatus env mapWanKey) (\<lambda>_. throwA e)
        | Inr m \<Rightarrow> if ContainsFinalizer (m_Meta m) WanRepMapFinalizer then returnA ()
                   else bindA (deleteWanMapStatus env mapWanKey) (\<lambda>_. leftoverMaps env ns rest)))"

definition deleteLeftoverMapsFromStatus :: "wan_env \<Rightarrow> unit wan_action" where
  "deleteLeftoverMapsFromStatus env =
     bindA theWan (\<lambda>wan. leftoverMaps env (om_Namespace (w_Meta wan)) (MapsStatus (w_Status wan)))"

definition stopWanRepForRemovedResources :: "wan_env \<Rightarrow> (string \<times> Map list) list \<Rightarrow> unit wan_action" where
  "stopWanRepForRemovedResources env hzClientMap =
     (let mapsInSpec = concat (map (\<lambda>(hzName, ms). map (\<lambda>m. wanMapKey hzName (MapName m)) ms) hzClientMap)
      in bindA theWan (\<lambda>wan.
         forA (MapsStatus (w_Status wan)) (\<lambda>(mapWanKey, status). visitA mapWanKey
           (if mapWanKey \<in> set mapsInSpec then returnA ()
            else bindA (getWanMap env \<lparr> nn_Name = wms_ResourceName status,
                                       nn_Namespace = om_Namespace (w_Meta wan) \<rparr>) (\<lambda>m.
                 bindA (getHazelcastClient env (m_HazelcastResourceName m) (om_Namespace (m_Meta m))) (\<lambda>_.
                 stopWanReplicationMap env m))))))"

definition cleanupTerminatingMapCRs :: "wan_env \<Rightarrow> (string \<times> Map list) list \<Rightarrow> unit wan_action" where
  "cleanupTerminatingMapCRs env hzClientMap =
     bindA theWan (\<lambda>wan. forA hzClientMap (\<lambda>(hzResourceName, ms).
       bindA (getHazelcastClient env hzResourceName (om_Namespace (w_Meta wan))) (\<lambda>_.
       forA ms (\<lambda>m. if mss_State (m_Status m) \<noteq> MapTerminating then returnA ()
                    else stopWanReplicationMap env m))))"

subsection \<open>Starting replications\<close>

definition batchPublisherRequest :: "WanReplicationSpec \<Rightarrow> AddBatchPublisherRequest" where
  "batchPublisherRequest spec =
     \<lparr> bp_TargetCluster = wrs_TargetClusterName spec, bp_Endpoints = wrs_Endpoints spec,
       bp_QueueCapacity = qs_Capacity (wrs_Queue spec), bp_BatchSize = bs_Size (wrs_Batch spec),
       bp_BatchMaxDelayMillis = bs_MaximumDelay (wrs_Batch spec),
       bp_ResponseTimeoutMillis = ack_Timeout (wrs_Acknowledgement spec),
       bp_AckType = ack_Type (wrs_Acknowledgement spec),
       bp_QueueFullBehavior = qs_FullBehavior (wrs_Queue spec),
       bp_ConsistencyCheckStrategy = (if wrs_SyncConsistencyCheckStrategy spec = ''MERKLE_TREES''
         then StrategyMerkleTrees else StrategyNone) \<rparr>"

definition applyWanReplication :: "wan_env \<Rightarrow> string \<Rightarrow> string \<Rightarrow> string wan_action" where
  "applyWanReplication env mapName mapWanKey =
     bindA theWan (\<lambda>wan.
       let publisherId = om_Name (w_Meta wan) @ ''-'' @ mapWanKey
       in tryA (callA env (AddBatchPublisherConfig (wanName mapName) publisherId
              (batchPublisherRequest (w_Spec wan)))) (\<lambda>r.
            case r of Inl e \<Rightarrow> throwA (wrapErr ''failed to apply WAN configuration: '' e)
            | Inr _ \<Rightarrow> returnA publisherId))"

text \<open>The maps of one cluster, collecting the new map statuses.\<close>

fun startMaps :: "wan_env \<Rightarrow> string \<Rightarrow> Map list \<Rightarrow> (string \<times> WanMapStatusApplier) list \<Rightarrow>
    (string \<times> WanMapStatusApplier) list wan_action" where
  "startMaps env hz [] acc = returnA acc"
| "startMaps env hz (m # ms) acc =
     (let mapWanKey = wanMapKey hz (MapName m)
      in bindA theWan (\<lambda>wan.
        if (case map_of (MapsStatus (w_Status wan)) mapWanKey of None \<Rightarrow> [] | Some st \<Rightarrow> wms_PublisherId st) \<noteq> []
        then startMaps env hz ms acc
        else if mss_State (m_Status m) = MapTerminating then startMaps env hz ms acc
        else if mss_State (m_Status m) \<noteq> MapSuccess then startMaps env hz ms acc
        else tryA (applyWanReplication env (MapName m) mapWanKey) (\<lambda>r.
          case r of
            Inl e \<Rightarrow> startMaps env hz ms (AList.update mapWanKey (wanMapFailedStatus (error_text e)) acc)
          | Inr publisherId \<Rightarrow> startMaps env hz ms (AList.update mapWanKey
              (wanMapPersistingStatus publisherId (om_Name (m_Meta m))) acc))))"

fun startClusters :: "wan_env \<Rightarrow> string \<Rightarrow> (string \<times> Map list) list \<Rightarrow>
    (string \<times> WanMapStatusApplier) list \<Rightarrow> (string \<times> WanMapStatusApplier) list wan_action" where
  "startClusters env ns [] acc = returnA acc"
| "startClusters env ns ((hz, ms) # rest) acc =
     bindA (getHazelcastClient env hz ns) (\<lambda>_.
     bindA (startMaps env hz ms acc) (\<lambda>acc'. startClusters env ns rest acc'))"

definition startWanReplication :: "wan_env \<Rightarrow> (string \<times> Map list) list \<Rightarrow> unit wan_action" where
  "startWanReplication env hzClientMap =
     bindA theWan (\<lambda>wan.
     bindA (startClusters env (om_Namespace (w_Meta wan)) hzClientMap []) (\<lambda>mapWanStatus.
     patchWanMapStatuses env mapWanStatus))"

subsection \<open>Finalizers on the replicated maps\<close>

definition findMapInSlice :: "Map list \<Rightarrow> string \<Rightarrow> Map option" where
  "findMapInSlice mps mapName = find (\<lambda>mp. MapName mp = mapName) mps"

definition addWanRepFinalizerToMap :: "wan_env \<Rightarrow> Map \<Rightarrow> unit wan_action" where
  "addWanRepFinalizerToMap env m =
     (if ContainsFinalizer (m_Meta m) WanRepMapFinalizer then returnA ()
      else callA env (UpdateMap (m\<lparr> m_Meta := AddFinalizer (m_Meta m) WanRepMapFinalizer \<rparr>)))"

definition addWanRepFinalizerToReplicatedMaps :: "wan_env \<Rightarrow> (string \<times> Map list) list \<Rightarrow> unit wan_action" where
  "addWanRepFinalizerToReplicatedMaps env hzClientMap =
     bindA theWan (\<lambda>wan. forA (MapsStatus (w_Status wan)) (\<lambda>(mapWanKey, status).
       if wms_PublisherId status = [] then returnA ()
       else case splitWanMapKey mapWanKey of
         None \<Rightarrow> throwA (ErrPanic ''index out of range'')
       | Some (hzName, mapName) \<Rightarrow>
           (case findMapInSlice (case map_of hzClientMap hzName of None \<Rightarrow> [] | Some ms \<Rightarrow> ms) mapName of
              None \<Rightarrow> throwA (ErrOther (''Map '' @ mapName @ '' is not present in the Hazelcast Client Map''))
            | Some m \<Rightarrow>
                (case we_SetOwnerReference env wan m of
                   Inl e \<Rightarrow> throwA e
                 | Inr m' \<Rightarrow> addWanRepFinalizerToMap env m'))))"

subsection \<open>The persisted configuration\<close>

fun ack_text :: "AcknowledgementType \<Rightarrow> string" where
  "ack_text AckUnset = []"
| "ack_text AckOnReceipt = ''ACK_ON_RECEIPT''"
| "ack_text AckOnOperationComplete = ''ACK_ON_OPERATION_COMPLETE''"

fun full_behavior_text :: "FullBehaviorSetting \<Rightarrow> string" where
  "full_behavior_text FullBehaviorUnset = []"
| "full_behavior_text DiscardAfterMutation = ''DISCARD_AFTER_MUTATION''"
| "full_behavior_text ThrowException = ''THROW_EXCEPTION''"
| "full_behavior_text ThrowExceptionOnlyIfReplicationActive = ''THROW_EXCEPTION_ONLY_IF_REPLICATION_ACTIVE''"

definition createBatchPublisherConfig :: "WanReplication \<Rightarrow> BatchPublisherConfig" where
  "createBatchPublisherConfig wr =
     \<lparr> bpc_ClusterName = wrs_TargetClusterName (w_Spec wr), bpc_BatchSize = bs_Size (wrs_Batch (w_Spec wr)),
       bpc_BatchMaxDelayMillis = bs_MaximumDelay (wrs_Batch (w_Spec wr)),
       bpc_ResponseTimeoutMillis = ack_Timeout (wrs_Acknowledgement (w_Spec wr)),
       bpc_AcknowledgementType = ack_text (ack_Type (wrs_Acknowledgement (w_Spec wr))),
       bpc_InitialPublisherState = [],
       bpc_QueueFullBehavior = full_behavior_text (qs_FullBehavior (wrs_Queue (w_Spec wr))),
       bpc_QueueCapacity = qs_Capacity (wrs_Queue (w_Spec wr)),
       bpc_TargetEndpoints = wrs_Endpoints (w_Spec wr),
       bpc_Sync = (if wrs_SyncConsistencyCheckStrategy (w_Spec wr) \<noteq> []
         then Some (wrs_SyncConsistencyCheckStrategy (w_Spec wr)) else None) \<rparr>"

text \<open>\<open>we_WanConfig\<close> is the Secret read (\<open>Inl\<close> the error), its YAML decoded (\<open>Inr (Inl _)\<close> the
  decoding error), and the WAN part of the configuration.\<close>

fun persistedConfigs :: "wan_env \<Rightarrow> string \<Rightarrow> (string \<times> Map list) list \<Rightarrow>
    (string \<times> (string \<rightharpoonup> BatchPublisherConfig)) list wan_action" where
  "persistedConfigs env ns [] = returnA []"
| "persistedConfigs env ns ((hz, ms) # rest) =
     tryA (readA (\<lambda>tr. we_WanConfig env tr \<lparr> nn_Name = hz, nn_Namespace = ns \<rparr>)) (\<lambda>r.
       case r of
         Inl e \<Rightarrow> throwA (ErrOther ''could not find Secret for wan config persistence'')
       | Inr (Inl e) \<Rightarrow> throwA (ErrOther ''persisted Secret is not formatted correctly'')
       | Inr (Inr configs) \<Rightarrow>
           bindA (persistedConfigs env ns rest) (\<lambda>cms.
           returnA (map (\<lambda>(wn, pubs). (wanMapKey hz (splitWanName wn), pubs)) configs @ cms)))"

definition persistedKeys :: "WanReplication \<Rightarrow> (string \<times> (string \<rightharpoonup> BatchPublisherConfig)) list \<Rightarrow>
    (string \<times> WanMapStatusApplier) list" where
  "persistedKeys wan cmMap =
     map (\<lambda>(k, v). (k, wanMapSuccessStatus))
       (filter (\<lambda>(k, v). wms_Status v = WanStatusPersisting \<and>
          (case map_of (rev cmMap) k of
             None \<Rightarrow> False
           | Some pubs \<Rightarrow> pubs (wms_PublisherId v) = Some (createBatchPublisherConfig wan)))
        (MapsStatus (w_Status wan)))"

definition validateWanConfigPersistence :: "wan_env \<Rightarrow> (string \<times> Map list) list \<Rightarrow> bool wan_action" where
  "validateWanConfigPersistence env hzClientMap =
     bindA theWan (\<lambda>wan.
     bindA (persistedConfigs env (om_Namespace (w_Meta wan)) hzClientMap) (\<lambda>cmMap.
     bindA (patchWanMapStatuses env (persistedKeys wan cmMap)) (\<lambda>_.
     bindA theWan (\<lambda>wan'.
       if wst_Status (w_Status wan') = WanStatusFailed
       then throwA (ErrOther ''WAN replication for some maps failed'')
       else returnA (wst_Status (w_Status wan') = WanStatusSuccess)))))"

subsection \<open>Endpoints, connectivity, the applied specification\<close>

definition checkWanEndpoint :: "wan_env \<Rightarrow> unit wan_action" where
  "checkWanEndpoint env =
     bindA theWan (\<lambda>wan.
       let endpointsStr = checkedEndpoints (wrs_Endpoints (w_Spec wan))
       in if wrs_Endpoints (w_Spec wan) = endpointsStr then returnA ()
          else bindA (setWan (\<lambda>x. x\<lparr> w_Spec := (w_Spec x)\<lparr> wrs_Endpoints := endpointsStr \<rparr> \<rparr>)) (\<lambda>_.
               bindA theWan (\<lambda>wan'. callA env (UpdateWan wan'))))"

definition raiseA :: "go_error option \<Rightarrow> unit wan_action" where
  "raiseA r = (case r of None \<Rightarrow> returnA () | Some e \<Rightarrow> throwA e)"

definition checkConnectivity :: "wan_env \<Rightarrow> string \<Rightarrow> unit wan_action" where
  "checkConnectivity env ns =
     bindA theWan (\<lambda>wan. forA (wrs_Resources (w_Spec wan)) (\<lambda>rr.
       bindA (if wr_Kind rr = ResourceKindMap
              then bindA (readA (\<lambda>tr. we_GetMap env tr \<lparr> nn_Name = wr_Name rr, nn_Namespace = ns \<rparr>))
                     (\<lambda>m. returnA (m_HazelcastResourceName m))
              else returnA (wr_Name rr)) (\<lambda>hzResourceName.
       case we_MemberAddresses env \<lparr> nn_Name = hzResourceName, nn_Namespace = ns \<rparr> of
         None \<Rightarrow> throwA (ErrOther (''get Hazelcast Status Service failed for Hazelcast CR '' @ hzResourceName))
       | Some memberAddresses \<Rightarrow>
           bindA (raiseA (we_MtlsClient env ns)) (\<lambda>_.
           forA memberAddresses (\<lambda>memberAddress.
             raiseA (we_Dial env memberAddress (splitEndpoints (wrs_Endpoints (w_Spec wan)))))))))"

text \<open>\<^verbatim>\<open>util.Update\<close> writes the object only when the annotation changed it.\<close>

definition WanReplicationReconciler_updateLastSuccessfulConfiguration :: "wan_env \<Rightarrow> unit wan_action" where
  "WanReplicationReconciler_updateLastSuccessfulConfiguration env =
     bindA theWan (\<lambda>wan.
       case we_MarshalSpec env (w_Spec wan) of
         Inl e \<Rightarrow> throwA e
       | Inr ms \<Rightarrow>
           (let wan' = wan\<lparr> w_Meta := (w_Meta wan)\<lparr> om_Annotations :=
                  (om_Annotations (w_Meta wan))(LastSuccessfulSpecAnnotation \<mapsto> ms) \<rparr> \<rparr>
            in if wan' = wan then returnA ()
               else bindA (setWan (\<lambda>_. wan')) (\<lambda>_. callA env (UpdateWan wan'))))"

subsection \<open>Reconcile\<close>

text \<open>\<open>failing\<close>: the recurring \<^verbatim>\<open>if err != nil { return updateWanStatus(... recoptions.Error(err), ...) }\<close>.\<close>

definition failing :: "wan_env \<Rightarrow> (go_error \<Rightarrow> WanRepStatusApplier list) \<Rightarrow> 'a wan_action \<Rightarrow>
    ('a \<Rightarrow> (Result \<times> go_error option) wan_action) \<Rightarrow> (Result \<times> go_error option) wan_action" where
  "failing env appliers m k = tryA m (\<lambda>r.
     case r of
       Inl (ErrPanic t) \<Rightarrow> throwA (ErrPanic t)
     | Inl e \<Rightarrow> updateWanStatusA env (ro_error e) (appliers e)
     | Inr x \<Rightarrow> k x)"

definition plainly :: "'a wan_action \<Rightarrow> ('a \<Rightarrow> (Result \<times> go_error option) wan_action) \<Rightarrow>
    (Result \<times> go_error option) wan_action" where
  "plainly m k = tryA m (\<lambda>r.
     case r of
       Inl (ErrPanic t) \<Rightarrow> throwA (ErrPanic t)
     | Inl e \<Rightarrow> returnA (ResultZero, Some e)
     | Inr x \<Rightarrow> k x)"

definition terminatingFailure :: "go_error \<Rightarrow> WanRepStatusApplier list" where
  "terminatingFailure e = [withWanRepState WanStatusTerminating, withWanRepMessage (error_text e)]"

definition failure :: "go_error \<Rightarrow> WanRepStatusApplier list" where
  "failure e = [withWanRepFailedState (error_text e)]"

definition doneA :: "(Result \<times> go_error option) wan_action" where
  "doneA = returnA (ResultZero, None)"

definition updateWanA :: "wan_env \<Rightarrow> (WanReplication \<Rightarrow> WanReplication) \<Rightarrow> unit wan_action" where
  "updateWanA env f = bindA (setWan f) (\<lambda>_. bindA theWan (\<lambda>wan. callA env (UpdateWan wan)))"

definition validateSpecA :: "wan_env \<Rightarrow> unit wan_action" where
  "validateSpecA env = bindA theWan (\<lambda>wan.
     case ValidateWanReplicationSpec (we_validation env) wan of
       None \<Rightarrow> throwA (ErrPanic ''panic'')
     | Some None \<Rightarrow> returnA ()
     | Some (Some err) \<Rightarrow> throwA (ErrOther (we_ErrText env err)))"

definition reconcileDeleted :: "wan_env \<Rightarrow> (Result \<times> go_error option) wan_action" where
  "reconcileDeleted env =
     bindA (updateWanStatusA env ro_empty [withWanRepState WanStatusTerminating]) (\<lambda>_.
     bindA theWan (\<lambda>wan.
       if ContainsFinalizer (w_Meta wan) Finalizer then
         failing env terminatingFailure (deleteLeftoverMapsFromStatus env) (\<lambda>_.
         failing env terminatingFailure (stopWanReplicationAllMaps env) (\<lambda>_.
         plainly (updateWanA env (\<lambda>x. x\<lparr> w_Meta := RemoveFinalizer (w_Meta x) Finalizer \<rparr>)) (\<lambda>_. doneA)))
       else doneA))"

definition reconcileLive :: "wan_env \<Rightarrow> NamespacedName \<Rightarrow> (Result \<times> go_error option) wan_action" where
  "reconcileLive env req =
     failing env failure (deleteLeftoverMapsFromStatus env) (\<lambda>_.
     failing env failure (getMapsGroupByHazelcastName env) (\<lambda>hzClientMap.
     failing env failure (validateSpecA env) (\<lambda>_.
     failing env failure (checkWanEndpoint env) (\<lambda>_.
     failing env failure (stopWanRepForRemovedResources env hzClientMap) (\<lambda>_.
     failing env failure (cleanupTerminatingMapCRs env hzClientMap) (\<lambda>_.
     failing env failure (checkConnectivity env (nn_Namespace req)) (\<lambda>_.
     plainly (startWanReplication env hzClientMap) (\<lambda>_.
     plainly (addWanRepFinalizerToReplicatedMaps env hzClientMap) (\<lambda>_.
     failing env failure (validateWanConfigPersistence env hzClientMap) (\<lambda>persisted.
     if \<not> persisted then returnA (\<lparr> res_Requeue = False, res_RequeueAfter = 5000000000 \<rparr>, None)
     else failing env failure (WanReplicationReconciler_updateLastSuccessfulConfiguration env)
       (\<lambda>_. doneA)))))))))))"

definition WanReplicationReconciler_Reconcile ::
    "wan_env \<Rightarrow> NamespacedName \<Rightarrow> (Result \<times> go_error option) wan_action" where
  "WanReplicationReconciler_Reconcile env req =
     tryA (readA (\<lambda>_. we_GetWan env req)) (\<lambda>r.
       case r of
         Inl e \<Rightarrow> if ErrIsNotFound e then doneA else returnA (ResultZero, Some e)
       | Inr wan \<Rightarrow>
           bindA (setWan (\<lambda>_. wan)) (\<lambda>_.
           if \<not> ContainsFinalizer (w_Meta wan) Finalizer \<and> om_DeletionTimestamp (w_Meta wan) = None
           then plainly (updateWanA env (\<lambda>x. x\<lparr> w_Meta := AddFinalizer (w_Meta x) Finalizer \<rparr>)) (\<lambda>_. doneA)
           else if om_DeletionTimestamp (w_Meta wan) \<noteq> None then reconcileDeleted env
           else reconcileLive env req))"

end
