(* ===== verification/Wan_Safety.thy ===== *)
theory Wan_Safety
  imports Wan_Controller
begin

text \<open>
  What the WanReplication controller guarantees, whatever fails: the order in which a
  replication is taken down, that the protection of a map is given up only after its
  replication was stopped, that a WanReplication disappears only when no map is left in its
  status, what is published, and how the summary status follows from the map statuses.
\<close>

subsection \<open>Computations that follow a plan of calls\<close>

text \<open>\<open>follows cs\<close>: the calls \<open>cs\<close> are made in this order until one fails, which ends the
  computation with its error.\<close>

definition follows :: "wan_call list \<Rightarrow> wan_trace \<Rightarrow> go_error + 'a \<Rightarrow> wan_trace \<Rightarrow> bool" where
  "follows cs tr r tr' \<longleftrightarrow>
     (case r of
        Inr _ \<Rightarrow> tr' = tr @ map (\<lambda>c. (c, True)) cs
      | Inl _ \<Rightarrow> \<exists>pre c suf. cs = pre @ c # suf \<and> tr' = tr @ map (\<lambda>c. (c, True)) pre @ [(c, False)])"

lemma follows_Nil: "follows [] tr (Inr x) tr"
  by (simp add: follows_def)

lemma follows_change:
  "follows cs tr (Inl e) tr' \<Longrightarrow> follows cs tr (Inl e') tr'"
  "follows cs tr (Inr x) tr' \<Longrightarrow> follows cs tr (Inr y) tr'"
  by (simp_all add: follows_def)

lemma follows_callA: "callA env c w = (r, w') \<Longrightarrow> follows [c] (ww_trace w) r (ww_trace w')"
  by (auto simp: callA_def follows_def Let_def split: option.splits)

lemma follows_bindA:
  assumes "bindA m f w = (r, w'')"
    and "\<And>r1 w1. m w = (r1, w1) \<Longrightarrow> follows cs (ww_trace w) r1 (ww_trace w1)"
    and "\<And>x w1. m w = (Inr x, w1) \<Longrightarrow> f x w1 = (r, w'') \<Longrightarrow> follows ds (ww_trace w1) r (ww_trace w'')"
  shows "follows (cs @ ds) (ww_trace w) r (ww_trace w'')"
proof (cases "m w")
  case (Pair r1 w1)
  note first = assms(2) [OF Pair]
  show ?thesis
  proof (cases r1)
    case (Inl e)
    with Pair assms(1) have "r = Inl e" and "w'' = w1" by (auto simp: bindA_def)
    with first Inl show ?thesis by (fastforce simp: follows_def)
  next
    case (Inr x)
    with Pair assms(1) have f: "f x w1 = (r, w'')" by (simp add: bindA_def)
    with Pair Inr assms(3) have second: "follows ds (ww_trace w1) r (ww_trace w'')" by blast
    from first Inr have tr1: "ww_trace w1 = ww_trace w @ map (\<lambda>c. (c, True)) cs" by (simp add: follows_def)
    show ?thesis
    proof (cases r)
      case (Inl e)
      with second obtain pre c suf where "ds = pre @ c # suf"
        and "ww_trace w'' = ww_trace w1 @ map (\<lambda>c. (c, True)) pre @ [(c, False)]"
        by (auto simp: follows_def)
      then have "cs @ ds = (cs @ pre) @ c # suf \<and>
          ww_trace w'' = ww_trace w @ map (\<lambda>c. (c, True)) (cs @ pre) @ [(c, False)]"
        by (simp add: tr1)
      then have "\<exists>p d q. cs @ ds = p @ d # q \<and>
          ww_trace w'' = ww_trace w @ map (\<lambda>c. (c, True)) p @ [(d, False)]" by blast
      with Inl show ?thesis by (simp add: follows_def)
    next
      case (Inr y)
      with second tr1 show ?thesis by (simp add: follows_def)
    qed
  qed
qed

lemma wan_primitives [simp]:
  "theWan w = (Inr (ww_wan w), w)"
  "setWan f w = (Inr (), w\<lparr> ww_wan := f (ww_wan w) \<rparr>)"
  "readA g w = (g (ww_trace w), w)"
  by (simp_all add: theWan_def setWan_def readA_def)

lemma bind_theWan [simp]: "bindA theWan f w = f (ww_wan w) w"
  by (simp add: bindA_def)

lemma bind_setWan [simp]: "bindA (setWan g) f w = f () (w\<lparr> ww_wan := g (ww_wan w) \<rparr>)"
  by (simp add: bindA_def)

lemma writeStatus_call: "writeStatus env w = callA env (StatusUpdateWan (ww_wan w)) w"
  by (simp add: writeStatus_def)

lemma callA_wan [simp]: "callA env c w = (r, w') \<Longrightarrow> ww_wan w' = ww_wan w"
  by (auto simp: callA_def Let_def split: option.splits)

subsection \<open>Taking a replication down\<close>

text \<open>The object with one entry of its map status marked or deleted.\<close>

definition markedTerminating :: "string \<Rightarrow> WanReplication \<Rightarrow> WanReplication" where
  "markedTerminating key = setMapsStatus (applyAt key wanMapTerminatingStatus)"

definition withoutEntry :: "string \<Rightarrow> WanReplication \<Rightarrow> WanReplication" where
  "withoutEntry key = setMapsStatus (AList.delete key)"

definition disowned :: "WanReplication \<Rightarrow> Map \<Rightarrow> Map" where
  "disowned wan m = m\<lparr> m_Meta := (m_Meta m)\<lparr> om_OwnerReferences :=
     filter (\<lambda>owner. \<not> (or_Kind owner = w_Kind wan \<and> or_Name owner = om_Name (w_Meta wan) \<and>
       or_UID owner = om_UID (w_Meta wan))) (om_OwnerReferences (m_Meta m)) \<rparr> \<rparr>"

definition released :: "Map \<Rightarrow> Map" where
  "released m = m\<lparr> m_Meta := RemoveFinalizer (m_Meta m) WanRepMapFinalizer \<rparr>"

text \<open>The plan: stop the publisher, clear its queue, give up the ownership of the map, mark the
  entry as terminating, remove the finalizer from the map, delete the entry.\<close>

definition stopPlan :: "WanReplication \<Rightarrow> Map \<Rightarrow> string \<Rightarrow> wan_call list" where
  "stopPlan wan m pub =
     (let key = wanMapKey (m_HazelcastResourceName m) (MapName m); wn = wanName (MapName m)
      in [ChangeWanStateStopped wn pub, ClearWanQueue wn pub] @
         (if disowned wan m = m then [] else [UpdateMap (disowned wan m)]) @
         [StatusUpdateWan (markedTerminating key wan)] @
         (if ContainsFinalizer (m_Meta m) WanRepMapFinalizer then [UpdateMap (released (disowned wan m))] else []) @
         [StatusUpdateWan (withoutEntry key (markedTerminating key wan))])"

lemma length_filter_same: "length (filter P xs) = length xs \<longleftrightarrow> filter P xs = xs"
  by (metis filter_id_conv length_filter_less linorder_less_linear not_less_iff_gr_or_eq)

lemma disowned_same:
  "disowned wan m = m \<longleftrightarrow> om_OwnerReferences (m_Meta (disowned wan m)) = om_OwnerReferences (m_Meta m)"
proof
  assume "om_OwnerReferences (m_Meta (disowned wan m)) = om_OwnerReferences (m_Meta m)"
  then have "(m_Meta m)\<lparr> om_OwnerReferences := om_OwnerReferences (m_Meta (disowned wan m)) \<rparr> = m_Meta m"
    by simp
  then show "disowned wan m = m" by (simp add: disowned_def)
qed simp

lemma removeOwnerReference_eq:
  "removeOwnerReference env m w =
     (if disowned (ww_wan w) m = m then (Inr m, w)
      else bindA (callA env (UpdateMap (disowned (ww_wan w) m))) (\<lambda>_. returnA (disowned (ww_wan w) m)) w)"
  unfolding disowned_same
  by (simp add: removeOwnerReference_def disowned_def length_filter_same action_simps Let_def split: if_split)

lemma removeOwnerReference_plan:
  assumes "removeOwnerReference env m w = (r, w')"
  shows "follows (if disowned (ww_wan w) m = m then [] else [UpdateMap (disowned (ww_wan w) m)])
      (ww_trace w) r (ww_trace w') \<and> ww_wan w' = ww_wan w \<and> (\<forall>m'. r = Inr m' \<longrightarrow> m' = disowned (ww_wan w) m)"
proof (cases "disowned (ww_wan w) m = m")
  case True
  with assms show ?thesis unfolding removeOwnerReference_eq by (auto simp: follows_def)
next
  case False
  obtain r1 w1 where call: "callA env (UpdateMap (disowned (ww_wan w) m)) w = (r1, w1)" by fastforce
  from follows_callA [OF call] callA_wan [OF call] assms False show ?thesis
    unfolding removeOwnerReference_eq
    by (cases r1) (auto simp: bindA_def call action_simps intro: follows_change)
qed

lemma status_plans:
  assumes "map_of (MapsStatus (w_Status (ww_wan w))) k \<noteq> None"
  shows "updateWanMapStatus env key applier w =
      callA env (StatusUpdateWan (setMapsStatus (applyAt key applier) (ww_wan w)))
        (w\<lparr> ww_wan := setMapsStatus (applyAt key applier) (ww_wan w) \<rparr>)"
    and "deleteWanMapStatus env key w =
      callA env (StatusUpdateWan (withoutEntry key (ww_wan w))) (w\<lparr> ww_wan := withoutEntry key (ww_wan w) \<rparr>)"
  using assms
  by (auto simp: updateWanMapStatus_def deleteWanMapStatus_def writeStatus_call action_simps withoutEntry_def MapsStatus_def)

lemma MapsStatus_set [simp]: "MapsStatus (w_Status (setMapsStatus f wan)) = f (MapsStatus (w_Status wan))"
  by (simp add: setMapsStatus_def MapsStatus_def)

lemma map_of_applyAt [simp]:
  "map_of (applyAt key a l) = (map_of l)(key \<mapsto> WanMapStatusApply a
     (case map_of l key of None \<Rightarrow> WanReplicationMapStatusZero | Some st \<Rightarrow> st))"
  by (simp add: applyAt_def update_conv')

lemma removeFinalizer_plan:
  assumes "removeWanRepFinalizerFromMap env m w = (r, w')"
  shows "follows (if ContainsFinalizer (m_Meta m) WanRepMapFinalizer then [UpdateMap (released m)] else [])
      (ww_trace w) r (ww_trace w')" and "ww_wan w' = ww_wan w"
  using assms follows_callA [of env "UpdateMap (released m)" w r w']
  by (auto simp: removeWanRepFinalizerFromMap_def released_def follows_Nil action_simps split: if_splits)

text \<open>The second half of the plan, from the mark on.\<close>

lemma finish_plan:
  assumes "map_of (MapsStatus (w_Status wan)) k \<noteq> None" and wan: "ww_wan v = wan"
    and run: "bindA (updateWanMapStatus env k wanMapTerminatingStatus) (\<lambda>_.
         bindA (removeWanRepFinalizerFromMap env m) (\<lambda>_. deleteWanMapStatus env k)) v = (r, w')"
  shows "follows ([StatusUpdateWan (markedTerminating k wan)] @
      (if ContainsFinalizer (m_Meta m) WanRepMapFinalizer then [UpdateMap (released m)] else []) @
      [StatusUpdateWan (withoutEntry k (markedTerminating k wan))]) (ww_trace v) r (ww_trace w')"
proof (rule follows_bindA [OF run])
  have upd: "updateWanMapStatus env k wanMapTerminatingStatus v =
      callA env (StatusUpdateWan (markedTerminating k wan)) (v\<lparr> ww_wan := markedTerminating k wan \<rparr>)"
    using status_plans(1) [of v k] assms by (simp add: markedTerminating_def)
  fix r1 v1
  assume u: "updateWanMapStatus env k wanMapTerminatingStatus v = (r1, v1)"
  then show "follows [StatusUpdateWan (markedTerminating k wan)] (ww_trace v) r1 (ww_trace v1)"
    using upd follows_callA by fastforce
next
  fix x v1
  assume u: "updateWanMapStatus env k wanMapTerminatingStatus v = (Inr x, v1)"
    and b: "bindA (removeWanRepFinalizerFromMap env m) (\<lambda>_. deleteWanMapStatus env k) v1 = (r, w')"
  have v1: "ww_wan v1 = markedTerminating k wan"
    using u status_plans(1) [of v k] assms callA_wan by (fastforce simp: markedTerminating_def)
  have last: "follows [StatusUpdateWan (withoutEntry k (markedTerminating k wan))] (ww_trace v2) r (ww_trace w')"
    if "deleteWanMapStatus env k v2 = (r, w')" "ww_wan v2 = markedTerminating k wan" for v2
    using that status_plans(2) [of v2 k env k] follows_callA
    by (fastforce simp: markedTerminating_def)
  show "follows ((if ContainsFinalizer (m_Meta m) WanRepMapFinalizer then [UpdateMap (released m)] else []) @
      [StatusUpdateWan (withoutEntry k (markedTerminating k wan))]) (ww_trace v1) r (ww_trace w')"
    by (rule follows_bindA [OF b]) (use removeFinalizer_plan v1 last in fastforce)+
qed

lemma ContainsFinalizer_disowned [simp]:
  "ContainsFinalizer (m_Meta (disowned wan m)) f = ContainsFinalizer (m_Meta m) f"
  by (simp add: disowned_def ContainsFinalizer_def)

lemma stop_plan:
  assumes "map_of (MapsStatus (w_Status (ww_wan w))) (wanMapKey (m_HazelcastResourceName m) (MapName m)) = Some st"
    and "wms_PublisherId st \<noteq> []"
    and "stopWanReplicationMap env m w = (r, w')"
  shows "follows (stopPlan (ww_wan w) m (wms_PublisherId st)) (ww_trace w) r (ww_trace w')"
proof -
  let ?k = "wanMapKey (m_HazelcastResourceName m) (MapName m)" and ?wn = "wanName (MapName m)"
  let ?p = "wms_PublisherId st" and ?wan = "ww_wan w"
  have stop: "bindA (callA env (ChangeWanStateStopped ?wn ?p)) (\<lambda>_.
      bindA (callA env (ClearWanQueue ?wn ?p)) (\<lambda>_.
      bindA (removeOwnerReference env m) (\<lambda>m'.
      bindA (updateWanMapStatus env ?k wanMapTerminatingStatus) (\<lambda>_.
      bindA (removeWanRepFinalizerFromMap env m') (\<lambda>_. deleteWanMapStatus env ?k))))) w = (r, w')"
    using assms by (simp add: stopWanReplicationMap_def Let_def)
  let ?rest = "\<lambda>m'. bindA (updateWanMapStatus env ?k wanMapTerminatingStatus) (\<lambda>_.
      bindA (removeWanRepFinalizerFromMap env m') (\<lambda>_. deleteWanMapStatus env ?k))"
  have key: "map_of (MapsStatus (w_Status ?wan)) ?k \<noteq> None" using assms(1) by simp
  have owner: "follows ((if disowned ?wan m = m then [] else [UpdateMap (disowned ?wan m)]) @
      [StatusUpdateWan (markedTerminating ?k ?wan)] @
      (if ContainsFinalizer (m_Meta m) WanRepMapFinalizer then [UpdateMap (released (disowned ?wan m))] else []) @
      [StatusUpdateWan (withoutEntry ?k (markedTerminating ?k ?wan))]) (ww_trace v) r (ww_trace w')"
    if run: "bindA (removeOwnerReference env m) ?rest v = (r, w')" and v: "ww_wan v = ?wan" for v
  proof (rule follows_bindA [OF run])
    fix r1 v1
    assume "removeOwnerReference env m v = (r1, v1)"
    from removeOwnerReference_plan [OF this, unfolded v]
    show "follows (if disowned ?wan m = m then [] else [UpdateMap (disowned ?wan m)])
        (ww_trace v) r1 (ww_trace v1)" ..
  next
    fix m' v1
    assume "removeOwnerReference env m v = (Inr m', v1)" and rest: "?rest m' v1 = (r, w')"
    with removeOwnerReference_plan v have "m' = disowned ?wan m" and "ww_wan v1 = ?wan" by metis+
    with rest finish_plan [OF key, of v1 env "disowned ?wan m" r w']
    show "follows ([StatusUpdateWan (markedTerminating ?k ?wan)] @
        (if ContainsFinalizer (m_Meta m) WanRepMapFinalizer then [UpdateMap (released (disowned ?wan m))] else []) @
        [StatusUpdateWan (withoutEntry ?k (markedTerminating ?k ?wan))]) (ww_trace v1) r (ww_trace w')"
      by simp
  qed
  show ?thesis
    unfolding stopPlan_def Let_def append_Cons append_Nil
    apply (rule follows_bindA [OF stop, of "[ChangeWanStateStopped ?wn ?p]", simplified append_Cons append_Nil])
     apply (rule follows_callA, assumption)
    apply (rule follows_bindA [of _ _ _ _ _ "[ClearWanQueue ?wn ?p]", simplified append_Cons append_Nil], assumption)
     apply (rule follows_callA, assumption)
    apply (rule owner [simplified append_Cons append_Nil], assumption)
    apply (simp only: callA_wan)
    done
qed

text \<open>C19: a WAN replication is taken down in a fixed order. For a map with a publisher,
  \<^verbatim>\<open>stopWanReplicationMap\<close> makes the calls of its plan one after the other, whatever the members
  and the API server answer: it stops the publisher and clears its queue, gives up the
  ownership of the map, marks the entry as terminating in the stored status, removes the
  finalizer of the map, and only then deletes the entry. It succeeds exactly when all calls
  were made successfully, and otherwise ends right after the first call that failed.\<close>

theorem stop_follows_plan:
  assumes "map_of (MapsStatus (w_Status (ww_wan w))) (wanMapKey (m_HazelcastResourceName m) (MapName m)) = Some st"
    and "wms_PublisherId st \<noteq> []"
    and "stopWanReplicationMap env m w = (r, w')"
  shows "follows (stopPlan (ww_wan w) m (wms_PublisherId st)) (ww_trace w) r (ww_trace w')"
  by (rule stop_plan [OF assms])

text \<open>The object the API server holds after a trace.\<close>

definition stored :: "WanReplication \<Rightarrow> wan_trace \<Rightarrow> WanReplication" where
  "stored wan tr = fold (\<lambda>e s. case e of (StatusUpdateWan x, True) \<Rightarrow> x | _ \<Rightarrow> s) tr wan"

lemma stored_simps [simp]:
  "stored wan [] = wan"
  "stored wan (tr @ tr') = stored (stored wan tr) tr'"
  "stored wan ((StatusUpdateWan x, True) # tr) = stored x tr"
  "stored wan ((UpdateMap m, b) # tr) = stored wan tr"
  "stored wan ((c, False) # tr) = stored wan tr"
  by (simp_all add: stored_def split: wan_call.split)

lemma follows_prefix:
  assumes "follows cs tr0 r (tr0 @ tr @ rest)"
  shows "\<exists>pre suf. cs = pre @ suf \<and>
    (tr = map (\<lambda>c. (c, True)) pre \<or> (\<exists>c suf'. suf = c # suf' \<and> tr = map (\<lambda>c. (c, True)) pre @ [(c, False)]))"
proof (cases r)
  case (Inr x)
  with assms have "map (\<lambda>c. (c, True)) cs = tr @ rest" by (simp add: follows_def)
  then obtain pre suf where "cs = pre @ suf" "tr = map (\<lambda>c. (c, True)) pre"
    by (auto simp: map_eq_append_conv)
  then show ?thesis by blast
next
  case (Inl e)
  with assms obtain p c q where cs: "cs = p @ c # q"
    and tr: "tr @ rest = map (\<lambda>c. (c, True)) p @ [(c, False)]" by (auto simp: follows_def)
  show ?thesis
  proof (cases rest rule: rev_cases)
    case Nil
    with cs tr show ?thesis by auto
  next
    case (snoc rest' e')
    with tr have "map (\<lambda>c. (c, True)) p = tr @ rest'" by simp
    then obtain pre suf where "p = pre @ suf" "tr = map (\<lambda>c. (c, True)) pre"
      by (auto simp: map_eq_append_conv)
    with cs show ?thesis by auto
  qed
qed

text \<open>C20: taking a replication down is safe against a crash at any moment. Wherever the operator
  stops between two calls, if the map has already lost its finalizer (and may vanish), then
  the stored status of the WanReplication either marks the map's entry as terminating, which
  the next reconciliation cleans up, or no longer has the entry.\<close>

theorem stop_crash_safe:
  assumes "map_of (MapsStatus (w_Status (ww_wan w))) (wanMapKey (m_HazelcastResourceName m) (MapName m)) = Some st"
    and "wms_PublisherId st \<noteq> []"
    and "stopWanReplicationMap env m w = (r, w')"
    and "ContainsFinalizer (m_Meta m) WanRepMapFinalizer"
    and "ww_trace w' = ww_trace w @ tr @ rest"
    and "(UpdateMap m', True) \<in> set tr" and "\<not> ContainsFinalizer (m_Meta m') WanRepMapFinalizer"
  shows "case map_of (MapsStatus (w_Status (stored wan0 tr)))
      (wanMapKey (m_HazelcastResourceName m) (MapName m)) of
    None \<Rightarrow> True | Some st' \<Rightarrow> wms_Status st' = WanStatusTerminating"
proof -
  let ?k = "wanMapKey (m_HazelcastResourceName m) (MapName m)" and ?wan = "ww_wan w"
  let ?s1 = "markedTerminating ?k ?wan" and ?u = "UpdateMap (released (disowned ?wan m))"
  let ?s2 = "withoutEntry ?k ?s1"
  define X where "X = [ChangeWanStateStopped (wanName (MapName m)) (wms_PublisherId st),
      ClearWanQueue (wanName (MapName m)) (wms_PublisherId st)] @
      (if disowned ?wan m = m then [] else [UpdateMap (disowned ?wan m)])"
  have plan: "stopPlan ?wan m (wms_PublisherId st) = X @ [StatusUpdateWan ?s1, ?u, StatusUpdateWan ?s2]"
    using assms(4) by (simp add: stopPlan_def X_def Let_def)
  from follows_prefix [OF stop_plan [OF assms(1-3), unfolded assms(5)]]
  obtain pre suf where pre: "X @ [StatusUpdateWan ?s1, ?u, StatusUpdateWan ?s2] = pre @ suf"
    and tr: "tr = map (\<lambda>c. (c, True)) pre \<or> (\<exists>c. tr = map (\<lambda>c. (c, True)) pre @ [(c, False)])"
    unfolding plan by blast
  have "UpdateMap m' \<in> set pre" using tr assms(6) by auto
  moreover have "UpdateMap m' \<notin> set (X @ [StatusUpdateWan ?s1])"
    using assms(4,7) by (auto simp: X_def split: if_splits)
  ultimately have cases: "pre = X @ [StatusUpdateWan ?s1, ?u] \<or> pre = X @ [StatusUpdateWan ?s1, ?u, StatusUpdateWan ?s2]"
    using pre by (auto simp: append_eq_append_conv2 Cons_eq_append_conv append_eq_Cons_conv)
  have "stored wan0 tr = ?s1 \<or> stored wan0 tr = ?s2"
    using tr cases by auto
  then show ?thesis
    by (auto simp: markedTerminating_def withoutEntry_def delete_conv')
qed

subsection \<open>Invariants of a reconciliation\<close>

text \<open>
  An invariant of the world need only be checked against the elementary effects: a changed
  status, changed endpoints, a new annotation, a harmless call, and the whole of
  \<^verbatim>\<open>stopWanReplicationMap\<close>. The locale carries it through all handlers.
\<close>

fun harmless :: "WanReplication \<Rightarrow> wan_call \<Rightarrow> bool" where
  "harmless wan (UpdateMap m) = ContainsFinalizer (m_Meta m) WanRepMapFinalizer"
| "harmless wan (UpdateWan x) = (x = wan)"
| "harmless wan _ = True"

lemma callA_after:
  "snd (callA env c w) = w\<lparr> ww_trace := ww_trace w @ [(c, we_call env (ww_trace w) c = None)] \<rparr>"
  by (cases "we_call env (ww_trace w) c") (simp_all add: callA_def Let_def)

lemma updateWanStatusA_after:
  "snd (updateWanStatusA env opt as w) =
     (let wan = (ww_wan w)\<lparr> w_Status := fold WanRepStatusApply as (w_Status (ww_wan w)) \<rparr>;
          w1 = w\<lparr> ww_wan := wan \<rparr>
      in w1\<lparr> ww_trace := ww_trace w1 @ [(StatusUpdateWan wan, we_call env (ww_trace w1) (StatusUpdateWan wan) = None)] \<rparr>)"
  by (simp add: updateWanStatusA_def updateWanStatus_def Let_def)

locale wan_invariant =
  fixes env :: wan_env and I :: "wan_world \<Rightarrow> bool"
  assumes keeps_status: "I w \<Longrightarrow> I (w\<lparr> ww_wan := (ww_wan w)\<lparr> w_Status := st \<rparr> \<rparr>)"
    and keeps_spec: "I w \<Longrightarrow> I (w\<lparr> ww_wan := (ww_wan w)\<lparr> w_Spec := sp \<rparr> \<rparr>)"
    and keeps_annotations: "I w \<Longrightarrow> I (w\<lparr> ww_wan := (ww_wan w)\<lparr> w_Meta := (w_Meta (ww_wan w))\<lparr>
          om_Annotations := an \<rparr> \<rparr> \<rparr>)"
    and keeps_call: "I w \<Longrightarrow> harmless (ww_wan w) c \<Longrightarrow> I (w\<lparr> ww_trace := ww_trace w @ [(c, ok)] \<rparr>)"
    and keeps_stop: "preserves I (stopWanReplicationMap env m)"
begin

lemma keeps_reads [kept]: "preserves I theWan" "preserves I (readA f)" "preserves I (raiseA r)"
  by (auto simp: preserves_def raiseA_def action_simps split: option.split)

lemma keeps_callA: "I w \<Longrightarrow> harmless (ww_wan w) c \<Longrightarrow> I (snd (callA env c w))"
  unfolding callA_after by (rule keeps_call)

lemma keeps_harmless [kept]:
  "(\<And>wan. harmless wan c) \<Longrightarrow> preserves I (callA env c)"
  by (simp add: preserves_def keeps_callA)

lemma keeps_writeStatus [kept]: "preserves I (writeStatus env)"
  by (simp add: preserves_def writeStatus_call keeps_callA)

lemma keeps_setMapsStatus [kept]: "preserves I (setWan (setMapsStatus f))"
  by (simp add: preserves_def setMapsStatus_def keeps_status)

lemma keeps_updateWanStatusA [kept]: "preserves I (updateWanStatusA env opt as)"
  unfolding preserves_def updateWanStatusA_after Let_def
  by (intro allI impI keeps_call) (simp_all add: keeps_status)

lemma keeps_map_status [kept]:
  "preserves I (deleteWanMapStatus env k)" "preserves I (updateWanMapStatus env k a)"
  "preserves I (patchWanMapStatuses env options)"
proof -
  have "preserves I (setWan (\<lambda>wan.
      let st = wanStatusFromMapStatuses (MapsStatus (w_Status wan)); status = (w_Status wan)\<lparr> wst_Status := st \<rparr>
      in wan\<lparr> w_Status := if st = WanStatusSuccess then status\<lparr> wst_Message := [] \<rparr> else status \<rparr>))"
    by (simp add: preserves_def keeps_status Let_def)
  then show "preserves I (patchWanMapStatuses env options)"
    by (auto simp: patchWanMapStatuses_def intro!: kept split: sum.split)
qed (auto simp: deleteWanMapStatus_def updateWanMapStatus_def intro!: kept)

lemma keeps_getters [kept]:
  "preserves I (getWanMap env lk)" "preserves I (getAllMapsInHazelcast env hz ns)"
  "preserves I (getHazelcastClient env hz ns)"
  by (auto simp: getWanMap_def getAllMapsInHazelcast_def getHazelcastClient_def intro!: kept split: sum.split)

lemma keeps_groupMaps [kept]: "preserves I (groupMaps env ns rs acc)"
  by (induction rs arbitrary: acc) (auto intro!: kept split: ResourceKind.split)

lemma keeps_publishedMaps [kept]: "preserves I (publishedMaps env ns l)"
  by (induction l) (auto intro!: kept)

lemma keeps_leftoverMaps [kept]: "preserves I (leftoverMaps env ns l)"
  by (induction l) (auto intro!: kept split: sum.split)

lemma keeps_persistedConfigs [kept]: "preserves I (persistedConfigs env ns l)"
  by (induction l) (auto intro!: kept split: sum.split)

lemma keeps_stopping [kept]:
  "preserves I (deleteLeftoverMapsFromStatus env)" "preserves I (stopWanReplicationAllMaps env)"
  "preserves I (stopWanRepForRemovedResources env hzs)" "preserves I (cleanupTerminatingMapCRs env hzs)"
  by (auto simp: deleteLeftoverMapsFromStatus_def stopWanReplicationAllMaps_def visitA_def
      getPublishedMapsFromStatus_def stopWanRepForRemovedResources_def cleanupTerminatingMapCRs_def Let_def
      intro!: kept keeps_stop split: option.split)

lemma keeps_startMaps [kept]: "preserves I (startMaps env hz ms acc)"
  by (induction ms arbitrary: acc)
     (auto simp: Let_def applyWanReplication_def intro!: kept split: sum.split)

lemma keeps_startClusters [kept]: "preserves I (startClusters env ns l acc)"
  by (induction l arbitrary: acc) (auto intro!: kept)

lemma keeps_start [kept]: "preserves I (startWanReplication env hzs)"
  by (auto simp: startWanReplication_def intro!: kept)

lemma keeps_addFinalizer [kept]: "preserves I (addWanRepFinalizerToReplicatedMaps env hzs)"
proof -
  have "preserves I (addWanRepFinalizerToMap env m)" for m
    by (auto simp: addWanRepFinalizerToMap_def intro!: kept)
  then show ?thesis
    by (auto simp: addWanRepFinalizerToReplicatedMaps_def intro!: kept split: option.split sum.split)
qed

lemma keeps_updateWan:
  assumes "\<And>w. I w \<Longrightarrow> I (w\<lparr> ww_wan := f (ww_wan w) \<rparr>)"
  shows "preserves I (updateWanA env f)"
  using assms keeps_callA by (simp add: preserves_def updateWanA_def)

lemma keeps_endpoint [kept]: "preserves I (checkWanEndpoint env)"
  unfolding preserves_def
proof (intro allI impI)
  fix w
  assume "I w"
  define e where "e = checkedEndpoints (wrs_Endpoints (w_Spec (ww_wan w)))"
  have "I (w\<lparr> ww_wan := (ww_wan w)\<lparr> w_Spec := (w_Spec (ww_wan w))\<lparr> wrs_Endpoints := e \<rparr> \<rparr> \<rparr>)"
    using \<open>I w\<close> by (rule keeps_spec)
  from keeps_callA [OF this, of "UpdateWan ((ww_wan w)\<lparr> w_Spec := (w_Spec (ww_wan w))\<lparr> wrs_Endpoints := e \<rparr> \<rparr>)"]
  show "I (snd (checkWanEndpoint env w))"
    using \<open>I w\<close> by (simp add: checkWanEndpoint_def e_def action_simps Let_def)
qed

lemma keeps_applied [kept]:
  "preserves I (WanReplicationReconciler_updateLastSuccessfulConfiguration env)"
  unfolding preserves_def
proof (intro allI impI)
  fix w
  assume I: "I w"
  show "I (snd (WanReplicationReconciler_updateLastSuccessfulConfiguration env w))"
  proof (cases "we_MarshalSpec env (w_Spec (ww_wan w))")
    case (Inl e)
    with I show ?thesis
      by (simp add: WanReplicationReconciler_updateLastSuccessfulConfiguration_def action_simps)
  next
    case (Inr ms)
    define wan' where "wan' = (ww_wan w)\<lparr> w_Meta := (w_Meta (ww_wan w))\<lparr> om_Annotations :=
        (om_Annotations (w_Meta (ww_wan w)))(LastSuccessfulSpecAnnotation \<mapsto> ms) \<rparr> \<rparr>"
    have "I (w\<lparr> ww_wan := wan' \<rparr>)" unfolding wan'_def using I by (rule keeps_annotations)
    from keeps_callA [OF this, of "UpdateWan wan'"] I Inr show ?thesis
      by (simp add: WanReplicationReconciler_updateLastSuccessfulConfiguration_def action_simps Let_def
          wan'_def [symmetric])
  qed
qed

lemma keeps_rest [kept]:
  "preserves I (getMapsGroupByHazelcastName env)" "preserves I (validateSpecA env)"
  "preserves I (checkConnectivity env ns)" "preserves I (validateWanConfigPersistence env hzs)"
  "preserves I doneA"
  by (auto simp: getMapsGroupByHazelcastName_def validateSpecA_def checkConnectivity_def
      validateWanConfigPersistence_def doneA_def intro!: kept split: option.split sum.split)

lemma keeps_failing [kept]:
  "preserves I m \<Longrightarrow> (\<And>x. preserves I (k x)) \<Longrightarrow> preserves I (failing env as m k)"
  "preserves I m \<Longrightarrow> (\<And>x. preserves I (k x)) \<Longrightarrow> preserves I (plainly m k)"
  by (auto simp: failing_def plainly_def intro!: kept split: sum.split go_error.split)

lemma keeps_live: "preserves I (reconcileLive env req)"
  unfolding reconcileLive_def by (auto intro!: kept)

end

subsection \<open>A map is released only after its replication was stopped\<close>

definition stopped_in :: "wan_trace \<Rightarrow> Map \<Rightarrow> bool" where
  "stopped_in tr m \<longleftrightarrow> (\<exists>pub a b c. tr = a @ (ChangeWanStateStopped (wanName (MapName m)) pub, True) # b @
     (ClearWanQueue (wanName (MapName m)) pub, True) # c)"

definition safe_release :: "wan_trace \<Rightarrow> bool" where
  "safe_release tr \<longleftrightarrow> (\<forall>pre m suf. tr = pre @ (UpdateMap m, True) # suf \<longrightarrow>
     \<not> ContainsFinalizer (m_Meta m) WanRepMapFinalizer \<longrightarrow> stopped_in pre m)"

lemma safe_release_Nil [simp]: "safe_release []"
  by (simp add: safe_release_def)

lemma safe_release_snoc:
  "safe_release (tr @ [e]) \<longleftrightarrow> safe_release tr \<and>
     (\<forall>m. e = (UpdateMap m, True) \<longrightarrow> \<not> ContainsFinalizer (m_Meta m) WanRepMapFinalizer \<longrightarrow> stopped_in tr m)"
proof
  assume all: "safe_release (tr @ [e])"
  have "safe_release tr"
    unfolding safe_release_def
  proof (intro allI impI)
    fix pre m suf
    assume "tr = pre @ (UpdateMap m, True) # suf" "\<not> ContainsFinalizer (m_Meta m) WanRepMapFinalizer"
    with all show "stopped_in pre m"
      unfolding safe_release_def by (metis append_Cons append_assoc)
  qed
  with all show "safe_release tr \<and> (\<forall>m. e = (UpdateMap m, True) \<longrightarrow>
      \<not> ContainsFinalizer (m_Meta m) WanRepMapFinalizer \<longrightarrow> stopped_in tr m)"
    unfolding safe_release_def by blast
next
  assume "safe_release tr \<and> (\<forall>m. e = (UpdateMap m, True) \<longrightarrow>
      \<not> ContainsFinalizer (m_Meta m) WanRepMapFinalizer \<longrightarrow> stopped_in tr m)"
  then show "safe_release (tr @ [e])"
    unfolding safe_release_def by (auto simp: append_eq_append_conv2 Cons_eq_append_conv append_eq_Cons_conv)
qed

lemma stopped_in_mono: "stopped_in tr m \<Longrightarrow> MapName m' = MapName m \<Longrightarrow> stopped_in (tr @ tr') m'"
  unfolding stopped_in_def by fastforce

lemma safe_release_block:
  assumes "safe_release tr" and "stopped_in tr m"
    and "\<And>m'. UpdateMap m' \<in> fst ` set es \<Longrightarrow> MapName m' = MapName m"
  shows "safe_release (tr @ es)"
  using assms(3)
proof (induction es rule: rev_induct)
  case Nil
  show ?case using assms(1) by simp
next
  case (snoc e es)
  have "safe_release (tr @ es)" by (rule snoc.IH, rule snoc.prems, simp)
  then have "safe_release ((tr @ es) @ [e])"
    unfolding safe_release_snoc using snoc.prems assms(2) stopped_in_mono by force
  then show ?case by simp
qed

lemma stopPlan_updates: "UpdateMap m' \<in> set (stopPlan wan m pub) \<Longrightarrow> MapName m' = MapName m"
  by (auto simp: stopPlan_def Let_def disowned_def released_def MapName_def RemoveFinalizer_def split: if_splits)

lemma safe_release_call:
  "safe_release tr \<Longrightarrow> (\<And>m. c = UpdateMap m \<Longrightarrow> ContainsFinalizer (m_Meta m) WanRepMapFinalizer) \<Longrightarrow>
   safe_release (tr @ [(c, ok)])"
  by (auto simp: safe_release_snoc)

lemma follows_safe_release:
  assumes "follows (ChangeWanStateStopped (wanName (MapName m)) pub # ClearWanQueue (wanName (MapName m)) pub # cs)
      tr r tr'"
    and upd: "\<And>m'. UpdateMap m' \<in> set cs \<Longrightarrow> MapName m' = MapName m" and safe: "safe_release tr"
  shows "safe_release tr'"
proof -
  let ?a = "(ChangeWanStateStopped (wanName (MapName m)) pub, True)"
    and ?b = "(ClearWanQueue (wanName (MapName m)) pub, True)"
  have two: "safe_release (tr @ [?a, ?b])"
    using safe_release_call [OF safe, of "fst ?a" True] safe_release_snoc [of "tr @ [?a]" ?b] by simp
  have stopped: "stopped_in (tr @ [?a, ?b]) m" unfolding stopped_in_def by fastforce
  have block: "safe_release ((tr @ [?a, ?b]) @ es)"
    if "\<And>m'. UpdateMap m' \<in> fst ` set es \<Longrightarrow> MapName m' = MapName m" for es
    by (rule safe_release_block [OF two stopped that])
  show ?thesis
  proof (cases r)
    case (Inr x)
    have "safe_release ((tr @ [?a, ?b]) @ map (\<lambda>c. (c, True)) cs)"
      by (rule block) (use upd in force)
    with assms(1) Inr show ?thesis by (simp add: follows_def)
  next
    case (Inl e)
    with assms(1) obtain pre c suf where tr': "tr' = tr @ map (\<lambda>c. (c, True)) pre @ [(c, False)]"
      and split: "ChangeWanStateStopped (wanName (MapName m)) pub # ClearWanQueue (wanName (MapName m)) pub # cs
        = pre @ c # suf" by (auto simp: follows_def)
    from split consider "pre = []" | "pre = [fst ?a]" | pre' where "pre = fst ?a # fst ?b # pre'" "cs = pre' @ c # suf"
      by (auto simp: Cons_eq_append_conv)
    then show ?thesis
    proof cases
      case 1
      then show ?thesis using tr' safe by (simp add: safe_release_snoc)
    next
      case 2
      then show ?thesis
        using tr' safe_release_call [OF safe, of "fst ?a" True] safe_release_snoc [of "tr @ [?a]" "(c, False)"]
        by simp
    next
      case 3
      have "safe_release ((tr @ [?a, ?b]) @ map (\<lambda>c. (c, True)) pre' @ [(c, False)])"
        by (rule block) (use 3 upd in force)
      with 3 tr' show ?thesis by simp
    qed
  qed
qed

text \<open>\<open>safe_release\<close> is an invariant of every reconciliation.\<close>

lemma stop_safe_release: "preserves (\<lambda>w. safe_release (ww_trace w)) (stopWanReplicationMap env m)"
  unfolding preserves_def
proof (intro allI impI)
  fix w :: wan_world
  assume safe: "safe_release (ww_trace w)"
  let ?k = "wanMapKey (m_HazelcastResourceName m) (MapName m)"
  obtain r w' where run: "stopWanReplicationMap env m w = (r, w')" by fastforce
  show "safe_release (ww_trace (snd (stopWanReplicationMap env m w)))"
  proof (cases "map_of (MapsStatus (w_Status (ww_wan w))) ?k")
    case None
    then show ?thesis using safe by (simp add: stopWanReplicationMap_def action_simps Let_def)
  next
    case (Some st)
    show ?thesis
    proof (cases "wms_PublisherId st = []")
      case True
      then have "stopWanReplicationMap env m w = deleteWanMapStatus env ?k w"
        using Some by (simp add: stopWanReplicationMap_def Let_def)
      also have "\<dots> = callA env (StatusUpdateWan (withoutEntry ?k (ww_wan w))) (w\<lparr> ww_wan := withoutEntry ?k (ww_wan w) \<rparr>)"
        by (rule status_plans(2) [of w ?k]) (simp add: Some)
      finally show ?thesis using safe by (simp add: callA_after safe_release_snoc)
    next
      case False
      from stop_plan [OF Some False run] have "safe_release (ww_trace w')"
        unfolding stopPlan_def Let_def append_Cons append_Nil
        by (rule follows_safe_release)
           (use safe in \<open>auto simp: disowned_def released_def MapName_def RemoveFinalizer_def split: if_splits\<close>)
      with run show ?thesis by simp
    qed
  qed
qed

interpretation releaseInv: wan_invariant env "\<lambda>w. safe_release (ww_trace w)" for env
  by unfold_locales (auto simp: stop_safe_release intro: safe_release_call)

text \<open>A map is released only after its replication was stopped. In every reconciliation,
  under every sequence of failures, each successful update of a Map resource that leaves it
  without the WAN finalizer comes after the publisher of that map was stopped and its queue
  cleared on the members.\<close>

theorem release_after_stop:
  assumes "WanReplicationReconciler_Reconcile env req \<lparr> ww_wan = wan0, ww_trace = [] \<rparr> = (r, w')"
    and "ww_trace w' = pre @ (UpdateMap m, True) # suf"
    and "\<not> ContainsFinalizer (m_Meta m) WanRepMapFinalizer"
  shows "stopped_in pre m"
proof -
  let ?I = "\<lambda>w. safe_release (ww_trace w)"
  have upd: "preserves ?I (updateWanA env f)" for f
    by (simp add: preserves_def updateWanA_def callA_after safe_release_snoc)
  have set: "preserves ?I (setWan f)" for f by (simp add: preserves_def)
  have "preserves ?I (reconcileDeleted env)"
    unfolding reconcileDeleted_def
    by (auto intro!: upd releaseInv.keeps_stopping releaseInv.keeps_failing releaseInv.keeps_rest
        releaseInv.keeps_updateWanStatusA releaseInv.keeps_reads kept)
  then have "preserves ?I (WanReplicationReconciler_Reconcile env req)"
    unfolding WanReplicationReconciler_Reconcile_def
    by (auto intro!: upd set releaseInv.keeps_live releaseInv.keeps_failing releaseInv.keeps_rest
        releaseInv.keeps_reads kept split: sum.split)
  with assms(1) have "safe_release (ww_trace w')"
    unfolding preserves_def by (metis safe_release_Nil snd_conv wan_world.select_convs(2))
  with assms(2,3) show ?thesis unfolding safe_release_def by blast
qed

subsection \<open>A WanReplication disappears last\<close>

definition owned :: "WanReplication \<Rightarrow> bool" where
  "owned wan = ContainsFinalizer (w_Meta wan) Finalizer"

text \<open>While the object is held, every update of it so far kept the finalizer.\<close>

definition all_owned :: "wan_world \<Rightarrow> bool" where
  "all_owned w \<longleftrightarrow> owned (ww_wan w) \<and> (\<forall>x ok. (UpdateWan x, ok) \<in> set (ww_trace w) \<longrightarrow> owned x)"

definition last_released :: "wan_world \<Rightarrow> bool" where
  "last_released w \<longleftrightarrow> (\<forall>x ok. (UpdateWan x, ok) \<in> set (ww_trace w) \<longrightarrow>
     owned x \<or> MapsStatus (w_Status x) = [])"

lemma all_owned_released: "all_owned w \<Longrightarrow> last_released w"
  by (auto simp: all_owned_def last_released_def)

lemma owned_simps [simp]:
  "owned (setMapsStatus f wan) = owned wan" "owned (wan\<lparr> w_Status := st \<rparr>) = owned wan"
  "owned (wan\<lparr> w_Spec := sp \<rparr>) = owned wan"
  "owned (wan\<lparr> w_Meta := (w_Meta wan)\<lparr> om_Annotations := an \<rparr> \<rparr>) = owned wan"
  by (simp_all add: owned_def setMapsStatus_def ContainsFinalizer_def)

lemma all_owned_callA: "(\<And>x. c \<noteq> UpdateWan x) \<Longrightarrow> preserves all_owned (callA env c)"
  by (auto simp: preserves_def callA_after all_owned_def)

lemma all_owned_stop: "preserves all_owned (stopWanReplicationMap env m)"
proof -
  have reads: "preserves all_owned theWan" "preserves all_owned (setWan (setMapsStatus f))" for f
    by (simp_all add: preserves_def all_owned_def)
  have status: "preserves all_owned (deleteWanMapStatus env k)" "preserves all_owned (updateWanMapStatus env k a)" for k a
    by (auto simp: deleteWanMapStatus_def updateWanMapStatus_def writeStatus_def intro!: kept reads all_owned_callA)
  show ?thesis
    by (auto simp: stopWanReplicationMap_def removeOwnerReference_def removeWanRepFinalizerFromMap_def Let_def
        intro!: kept reads status all_owned_callA split: option.split)
qed

interpretation ownedInv: wan_invariant env all_owned for env
proof unfold_locales
  show "preserves all_owned (stopWanReplicationMap env m)" for m by (rule all_owned_stop)
  show "all_owned w \<Longrightarrow> harmless (ww_wan w) c \<Longrightarrow> all_owned (w\<lparr> ww_trace := ww_trace w @ [(c, ok)] \<rparr>)" for w c ok
    by (cases c) (auto simp: all_owned_def)
qed (simp_all add: all_owned_def)

lemma stopAll_empties:
  assumes "stopWanReplicationAllMaps env w = (Inr x, w')"
  shows "MapsStatus (w_Status (ww_wan w')) = []"
  using assms
  by (auto simp: stopWanReplicationAllMaps_def bindA_Inr_iff action_simps Let_def split: if_splits)

lemma failing_cases:
  assumes "failing env as m k w = (r, w')"
  obtains (panic) t w1 where "m w = (Inl (ErrPanic t), w1)" "w' = w1"
    | (error) e w1 where "m w = (Inl e, w1)" "w' = snd (updateWanStatusA env (ro_error e) (as e) w1)"
    | (ok) x w1 where "m w = (Inr x, w1)" "k x w1 = (r, w')"
proof (cases "m w")
  case (Pair r1 w1)
  show thesis
  proof (cases r1)
    case (Inl e)
    with Pair assms panic error show thesis
      by (cases e) (auto simp: failing_def action_simps)
  next
    case (Inr x)
    with Pair assms ok show thesis by (auto simp: failing_def action_simps)
  qed
qed

lemma plainly_after: "snd (plainly m (\<lambda>_. doneA) w) = snd (m w)"
  by (auto simp: plainly_def doneA_def action_simps split: prod.split sum.split go_error.split)

lemma preservesD: "preserves I m \<Longrightarrow> m w = (r, w') \<Longrightarrow> I w \<Longrightarrow> I w'"
  unfolding preserves_def by (metis snd_conv)

lemma deleted_last_released:
  assumes "all_owned w" and "reconcileDeleted env w = (r, w')"
  shows "last_released w'"
proof -
  let ?u = "updateWanStatusA env ro_empty [withWanRepState WanStatusTerminating]"
  let ?rm = "\<lambda>x :: WanReplication. x\<lparr> w_Meta := RemoveFinalizer (w_Meta x) Finalizer \<rparr>"
  obtain q w0 where u: "?u w = (Inr q, w0)"
    using surj_pair by (simp add: updateWanStatusA_def split_def) metis
  have w0: "all_owned w0" using preservesD [OF ownedInv.keeps_updateWanStatusA u assms(1)] .
  then have "failing env terminatingFailure (deleteLeftoverMapsFromStatus env) (\<lambda>_.
      failing env terminatingFailure (stopWanReplicationAllMaps env) (\<lambda>_.
      plainly (updateWanA env ?rm) (\<lambda>_. doneA))) w0 = (r, w')"
    using assms(2) u by (simp add: reconcileDeleted_def bindA_def all_owned_def owned_def)
  then show ?thesis
  proof (cases rule: failing_cases)
    case (ok x w1)
    have w1: "all_owned w1" using preservesD [OF ownedInv.keeps_stopping(1) ok(1) w0] .
    from ok(2) show ?thesis
    proof (cases rule: failing_cases)
      case (ok y w2)
      have "all_owned w2" using preservesD [OF ownedInv.keeps_stopping(2) ok(1) w1] .
      moreover have "MapsStatus (w_Status (ww_wan w2)) = []" using stopAll_empties ok(1) by blast
      moreover have "w' = snd (updateWanA env ?rm w2)" using ok(2) plainly_after [of "updateWanA env ?rm" w2] by simp
      ultimately show ?thesis
        by (auto simp: updateWanA_def callA_after last_released_def all_owned_def)
    qed (use preservesD [OF ownedInv.keeps_stopping(2)] ownedInv.keeps_updateWanStatusA w1 in
        \<open>auto simp: preserves_def intro!: all_owned_released\<close>)
  qed (use preservesD [OF ownedInv.keeps_stopping(1)] ownedInv.keeps_updateWanStatusA w0 in
      \<open>auto simp: preserves_def intro!: all_owned_released\<close>)
qed

text \<open>A WanReplication disappears last. In every reconciliation, under every sequence of
  failures, an update of the WanReplication that gives up its own finalizer (after which the
  API server deletes it) is attempted only when its status lists no map any more.\<close>

theorem wan_finalizer_last:
  assumes "WanReplicationReconciler_Reconcile env req \<lparr> ww_wan = wan0, ww_trace = [] \<rparr> = (r, w')"
    and "(UpdateWan x, ok) \<in> set (ww_trace w')"
  shows "owned x \<or> MapsStatus (w_Status x) = []"
proof -
  let ?w = "\<lambda>wan. \<lparr> ww_wan = wan, ww_trace = [] \<rparr>"
  let ?add = "\<lambda>x :: WanReplication. x\<lparr> w_Meta := AddFinalizer (w_Meta x) Finalizer \<rparr>"
  have add: "last_released (snd (plainly (updateWanA env ?add) (\<lambda>_. doneA) (?w wan)))" for wan
    by (simp add: plainly_after updateWanA_def callA_after last_released_def owned_def)
  have dead: "last_released (snd (reconcileDeleted env (?w wan)))" for wan
  proof (cases "owned wan")
    case True
    then show ?thesis
      using deleted_last_released [of "?w wan" env "fst (reconcileDeleted env (?w wan))"
          "snd (reconcileDeleted env (?w wan))"] by (simp add: all_owned_def)
  next
    case False
    obtain q w0 where u: "updateWanStatusA env ro_empty [withWanRepState WanStatusTerminating] (?w wan) = (Inr q, w0)"
      using surj_pair by (simp add: updateWanStatusA_def split_def) metis
    have "snd (updateWanStatusA env ro_empty [withWanRepState WanStatusTerminating] (?w wan)) = w0"
      using u by simp
    then have "\<not> owned (ww_wan w0)" and "last_released w0"
      using False by (auto simp: updateWanStatusA_after Let_def last_released_def)
    with u show ?thesis by (simp add: reconcileDeleted_def bindA_def owned_def doneA_def action_simps)
  qed
  have live: "last_released (snd (reconcileLive env req (?w wan)))" if "owned wan" for wan
  proof -
    have "all_owned (?w wan)" using that by (simp add: all_owned_def)
    then have "all_owned (snd (reconcileLive env req (?w wan)))"
      using ownedInv.keeps_live [of env req] unfolding preserves_def by blast
    then show ?thesis by (rule all_owned_released)
  qed
  have "last_released w'"
  proof (cases "we_GetWan env req")
    case (Inl e)
    with assms(1) show ?thesis
      by (auto simp: WanReplicationReconciler_Reconcile_def doneA_def action_simps last_released_def split: if_splits)
  next
    case (Inr wan)
    with assms(1) add [of wan] dead [of wan] live [of wan] show ?thesis
      by (auto simp: WanReplicationReconciler_Reconcile_def action_simps owned_def split: if_splits)
  qed
  with assms(2) show ?thesis by (auto simp: last_released_def)
qed

subsection \<open>The summary status\<close>

text \<open>The summary of the map statuses does not depend on the order in which the map of
  statuses is visited, and it means what it says: Success exactly when there is a map and all
  are successful, Persisting exactly when some map is being persisted, Failed exactly when
  some map failed and none is being persisted.\<close>

theorem wan_status_summary:
  "(wanStatusFromMapStatuses l = WanStatusSuccess \<longleftrightarrow>
      l \<noteq> [] \<and> wms_Status ` snd ` set l \<subseteq> {WanStatusSuccess}) \<and>
   (wanStatusFromMapStatuses l = WanStatusPersisting \<longleftrightarrow> WanStatusPersisting \<in> wms_Status ` snd ` set l) \<and>
   (wanStatusFromMapStatuses l = WanStatusFailed \<longleftrightarrow> WanStatusFailed \<in> wms_Status ` snd ` set l \<and>
      WanStatusPersisting \<notin> wms_Status ` snd ` set l) \<and>
   wanStatusFromMapStatuses (rev l) = wanStatusFromMapStatuses l \<and>
   wanStatusFromMapStatuses (rotate n l) = wanStatusFromMapStatuses l"
proof -
  define S where "S = wms_Status ` snd ` set l"
  have set: "wanStatusSet l = S" by (force simp: wanStatusSet_def S_def)
  have one: "WanStatusSuccess \<in> S \<and> card S = 1 \<longleftrightarrow> S = {WanStatusSuccess}"
    by (auto simp: card_1_singleton_iff)
  have "l \<noteq> [] \<longleftrightarrow> S \<noteq> {}" by (simp add: S_def)
  then have "S = {WanStatusSuccess} \<longleftrightarrow> l \<noteq> [] \<and> S \<subseteq> {WanStatusSuccess}" by blast
  then have "(wanStatusFromMapStatuses l = WanStatusSuccess \<longleftrightarrow> l \<noteq> [] \<and> S \<subseteq> {WanStatusSuccess}) \<and>
     (wanStatusFromMapStatuses l = WanStatusPersisting \<longleftrightarrow> WanStatusPersisting \<in> S) \<and>
     (wanStatusFromMapStatuses l = WanStatusFailed \<longleftrightarrow> WanStatusFailed \<in> S \<and> WanStatusPersisting \<notin> S)"
    unfolding wanStatusFromMapStatuses_def Let_def set one by auto
  moreover have "wanStatusFromMapStatuses (rev l) = wanStatusFromMapStatuses l"
    "wanStatusFromMapStatuses (rotate n l) = wanStatusFromMapStatuses l"
    by (simp_all add: wanStatusFromMapStatuses_def wanStatusSet_def Let_def)
  ultimately show ?thesis unfolding S_def by blast
qed

subsection \<open>What is published\<close>

text \<open>A map is due when it has no publisher yet and its configuration succeeded.\<close>

definition due :: "WanReplication \<Rightarrow> string \<Rightarrow> Map \<Rightarrow> bool" where
  "due wan hz m \<longleftrightarrow> mss_State (m_Status m) = MapSuccess \<and>
     (\<forall>st. map_of (MapsStatus (w_Status wan)) (wanMapKey hz (MapName m)) = Some st \<longrightarrow> wms_PublisherId st = [])"

definition publisher :: "WanReplication \<Rightarrow> string \<Rightarrow> Map \<Rightarrow> string" where
  "publisher wan hz m = om_Name (w_Meta wan) @ ''-'' @ wanMapKey hz (MapName m)"

definition publishCall :: "WanReplication \<Rightarrow> string \<Rightarrow> Map \<Rightarrow> wan_call" where
  "publishCall wan hz m = AddBatchPublisherConfig (wanName (MapName m)) (publisher wan hz m)
     (batchPublisherRequest (w_Spec wan))"

lemma applyWanReplication_run:
  "applyWanReplication env (MapName m) (wanMapKey hz (MapName m)) w =
     (case we_call env (ww_trace w) (publishCall (ww_wan w) hz m) of
        None \<Rightarrow> Inr (publisher (ww_wan w) hz m)
      | Some e \<Rightarrow> Inl (wrapErr ''failed to apply WAN configuration: '' e),
      w\<lparr> ww_trace := ww_trace w @ [(publishCall (ww_wan w) hz m,
           we_call env (ww_trace w) (publishCall (ww_wan w) hz m) = None)] \<rparr>)"
proof -
  define c where "c = publishCall (ww_wan w) hz m"
  have "applyWanReplication env (MapName m) (wanMapKey hz (MapName m)) w =
      tryA (callA env c) (\<lambda>r. case r of Inl e \<Rightarrow> throwA (wrapErr ''failed to apply WAN configuration: '' e)
        | Inr _ \<Rightarrow> returnA (publisher (ww_wan w) hz m)) w"
    by (simp only: applyWanReplication_def c_def publishCall_def publisher_def Let_def bind_theWan)
  then show ?thesis
    unfolding c_def [symmetric]
    by (cases "we_call env (ww_trace w) c") (simp_all add: callA_def action_simps Let_def)
qed

text \<open>Exactly the due maps of a cluster are published, in order and once each, under the
  publisher id made of the resource name and the map's key; a map that has a publisher, or
  whose configuration has not succeeded, is left alone. A map is recorded as persisting, with
  that publisher id, only when a member accepted the publisher; a refusal is recorded as
  failed and does not keep the other maps from being published.\<close>

theorem due_maps_published:
  assumes "startMaps env hz ms acc w = (r, w')"
  shows "\<exists>evs acc'. r = Inr acc' \<and> ww_wan w' = ww_wan w \<and> ww_trace w' = ww_trace w @ evs \<and>
    map fst evs = map (publishCall (ww_wan w) hz) (filter (due (ww_wan w) hz) ms) \<and>
    (\<forall>k a. map_of acc' k = Some a \<longrightarrow> map_of acc k = Some a \<or>
       (\<exists>m \<in> set ms. due (ww_wan w) hz m \<and> k = wanMapKey hz (MapName m) \<and>
          ((\<exists>t. a = wanMapFailedStatus t) \<or>
           a = wanMapPersistingStatus (publisher (ww_wan w) hz m) (om_Name (m_Meta m)) \<and>
             (publishCall (ww_wan w) hz m, True) \<in> set evs)))"
  using assms
proof (induction ms arbitrary: acc w)
  case Nil
  then show ?case by (auto simp: action_simps)
next
  case (Cons m ms)
  let ?wan = "ww_wan w" and ?k = "wanMapKey hz (MapName m)"
  show ?case
  proof (cases "due ?wan hz m")
    case False
    then have "startMaps env hz ms acc w = (r, w')"
      using Cons.prems
      by (auto simp: due_def Let_def split: option.splits if_splits)
    from Cons.IH [OF this] False show ?thesis by auto
  next
    case True
    let ?c = "publishCall ?wan hz m"
    let ?ok = "we_call env (ww_trace w) ?c = None"
    define a where "a = (case we_call env (ww_trace w) ?c of
        None \<Rightarrow> wanMapPersistingStatus (publisher ?wan hz m) (om_Name (m_Meta m))
      | Some e \<Rightarrow> wanMapFailedStatus (error_text (wrapErr ''failed to apply WAN configuration: '' e)))"
    have "startMaps env hz ms (AList.update ?k a acc) (w\<lparr> ww_trace := ww_trace w @ [(?c, ?ok)] \<rparr>) = (r, w')"
      using Cons.prems True
      by (auto simp: due_def Let_def action_simps applyWanReplication_run a_def split: option.splits if_splits)
    from Cons.IH [OF this] obtain evs acc' where IH: "r = Inr acc'" "ww_wan w' = ?wan"
      "ww_trace w' = ww_trace w @ (?c, ?ok) # evs"
      "map fst evs = map (publishCall ?wan hz) (filter (due ?wan hz) ms)"
      "\<forall>k b. map_of acc' k = Some b \<longrightarrow> map_of (AList.update ?k a acc) k = Some b \<or>
       (\<exists>m \<in> set ms. due ?wan hz m \<and> k = wanMapKey hz (MapName m) \<and>
          ((\<exists>t. b = wanMapFailedStatus t) \<or>
           b = wanMapPersistingStatus (publisher ?wan hz m) (om_Name (m_Meta m)) \<and>
             (publishCall ?wan hz m, True) \<in> set evs))"
      by auto
    have a: "(\<exists>t. a = wanMapFailedStatus t) \<or>
        a = wanMapPersistingStatus (publisher ?wan hz m) (om_Name (m_Meta m)) \<and> ?ok"
      by (auto simp: a_def split: option.split)
    have entries: "map_of acc k = Some b \<or>
       (\<exists>n \<in> set (m # ms). due ?wan hz n \<and> k = wanMapKey hz (MapName n) \<and>
          ((\<exists>t. b = wanMapFailedStatus t) \<or>
           b = wanMapPersistingStatus (publisher ?wan hz n) (om_Name (m_Meta n)) \<and>
             (publishCall ?wan hz n, True) \<in> set ((?c, ?ok) # evs)))"
      if "map_of acc' k = Some b" for k b
    proof (cases "map_of (AList.update ?k a acc) k = Some b")
      case here: True
      show ?thesis
      proof (cases "k = ?k")
        case True
        with here have "b = a" by (simp add: update_conv')
        with a \<open>due ?wan hz m\<close> True show ?thesis by (intro disjI2 bexI [of _ m]) auto
      next
        case False
        with here show ?thesis by (simp add: update_conv')
      qed
    next
      case False
      with IH(5) that show ?thesis by fastforce
    qed
    show ?thesis
      by (rule exI [of _ "(?c, ?ok) # evs"], rule exI [of _ acc'])
         (use IH(1-4) True entries in simp)
  qed
qed

end
