(* ===== verification/Wan_Progress.thy ===== *)
theory Wan_Progress
  imports Wan_Safety Samples
begin

text \<open>
  The deletion of a WanReplication makes progress: when the members and the API server answer,
  one reconciliation takes down every replication and releases the resource. The section ends
  with a concrete run, on which the theorems about the controller are evaluated.
\<close>

subsection \<open>Calls that succeed\<close>

text \<open>\<open>calm env\<close>: no call fails and every cluster has a running client.\<close>

definition calm :: "wan_env \<Rightarrow> bool" where
  "calm env \<longleftrightarrow> (\<forall>tr c. we_call env tr c = None) \<and> (\<forall>tr n. we_GetOrCreateClient env tr n = Inr True)"

lemma calm_callA: "calm env \<Longrightarrow> callA env c w = (Inr (), w\<lparr> ww_trace := ww_trace w @ [(c, True)] \<rparr>)"
  by (simp add: calm_def callA_def)

lemma calm_client: "calm env \<Longrightarrow> getHazelcastClient env hz ns w = (Inr (), w)"
  by (simp add: calm_def getHazelcastClient_def action_simps)

text \<open>The entries of the map status of the object at hand.\<close>

abbreviation entries :: "wan_world \<Rightarrow> (string \<times> WanReplicationMapStatus) list" where
  "entries w \<equiv> MapsStatus (w_Status (ww_wan w))"

text \<open>\<open>drops K w w'\<close>: what is left of the object after the entries of \<open>K\<close> were removed.\<close>

definition drops :: "string set \<Rightarrow> wan_world \<Rightarrow> wan_world \<Rightarrow> bool" where
  "drops K w w' \<longleftrightarrow> w_Meta (ww_wan w') = w_Meta (ww_wan w) \<and>
     (\<forall>k. map_of (entries w') k = (if k \<in> K then None else map_of (entries w) k))"

lemma drops_none: "map_of (entries w) k = None \<Longrightarrow> drops {k} w w"
  by (simp add: drops_def)

lemma drops_trans: "drops K w w1 \<Longrightarrow> drops L w1 w2 \<Longrightarrow> drops (K \<union> L) w w2"
  by (simp add: drops_def)

lemma withoutEntry_simps [simp]:
  "w_Meta (withoutEntry k wan) = w_Meta wan"
  "MapsStatus (w_Status (withoutEntry k wan)) = AList.delete k (MapsStatus (w_Status wan))"
  "w_Meta (markedTerminating k wan) = w_Meta wan"
  "MapsStatus (w_Status (markedTerminating k wan)) = applyAt k wanMapTerminatingStatus (MapsStatus (w_Status wan))"
  by (simp_all add: withoutEntry_def markedTerminating_def setMapsStatus_def MapsStatus_def)

lemma applyAt_other: "j \<noteq> k \<Longrightarrow> map_of (applyAt k a l) j = map_of l j"
  by (simp add: applyAt_def update_conv')

lemma present_iff: "map_of l k \<noteq> None \<longleftrightarrow> k \<in> set (map fst l)"
  by (simp add: map_of_eq_None_iff)

lemma map_of_empty: "(\<And>k. map_of l k = None) \<Longrightarrow> l = []"
  by (metis list.exhaust map_of_eq_empty_iff ext)

lemma map_of_delete: "map_of (AList.delete k l) j = (if j = k then None else map_of l j)"
  by (simp add: delete_conv')

lemma calm_delete:
  assumes "calm env" and "map_of (entries w) k \<noteq> None"
  shows "\<exists>w' evs. deleteWanMapStatus env k w = (Inr (), w') \<and> drops {k} w w' \<and> entries w' = AList.delete k (entries w) \<and>
    ww_trace w' = ww_trace w @ evs"
  using status_plans(2) [OF assms(2)]
  by (simp add: calm_callA [OF assms(1)] drops_def map_of_delete)

text \<open>Stopping a map removes its entry, and follows the plan.\<close>

lemma calm_stop:
  assumes "calm env" and k: "k = wanMapKey (m_HazelcastResourceName m) (MapName m)"
    and st: "map_of (entries w) k = Some st"
  shows "\<exists>w' evs. stopWanReplicationMap env m w = (Inr (), w') \<and> drops {k} w w' \<and> ww_trace w' = ww_trace w @ evs \<and>
    (wms_PublisherId st \<noteq> [] \<longrightarrow> evs = map (\<lambda>c. (c, True)) (stopPlan (ww_wan w) m (wms_PublisherId st)))"
proof (cases "wms_PublisherId st = []")
  case True
  with st k have "stopWanReplicationMap env m w = deleteWanMapStatus env k w"
    by (simp add: stopWanReplicationMap_def Let_def)
  with calm_delete [OF assms(1), of w k] True st show ?thesis by auto
next
  case False
  note call = calm_callA [OF assms(1)]
  let ?w = "w\<lparr> ww_trace := ww_trace w @ [(ChangeWanStateStopped (wanName (MapName m)) (wms_PublisherId st), True),
        (ClearWanQueue (wanName (MapName m)) (wms_PublisherId st), True)] \<rparr>"
  obtain m' v where m': "removeOwnerReference env m ?w = (Inr m', v)" and v: "ww_wan v = ww_wan w"
    by (cases "disowned (ww_wan w) m = m") (auto simp: removeOwnerReference_eq call action_simps bindA_def)
  define u where "u = v\<lparr> ww_wan := markedTerminating k (ww_wan v),
    ww_trace := ww_trace v @ [(StatusUpdateWan (markedTerminating k (ww_wan v)), True)] \<rparr>"
  have upd: "updateWanMapStatus env k wanMapTerminatingStatus v = (Inr (), u)"
    using status_plans(1) [of v k] st v by (simp add: markedTerminating_def call u_def)
  obtain u' where u': "removeWanRepFinalizerFromMap env m' u = (Inr (), u')" "ww_wan u' = ww_wan u"
    by (cases "ContainsFinalizer (m_Meta m') WanRepMapFinalizer") (auto simp: removeWanRepFinalizerFromMap_def call action_simps)
  have marked: "map_of (entries u') k \<noteq> None" "\<And>j. j \<noteq> k \<Longrightarrow> map_of (entries u') j = map_of (entries w) j"
    using st v u'(2) by (simp_all add: u_def applyAt_def update_conv')
  obtain w' where w': "deleteWanMapStatus env k u' = (Inr (), w')" "drops {k} u' w'"
    using calm_delete [OF assms(1) marked(1)] by blast
  have stop: "stopWanReplicationMap env m w = (Inr (), w')"
    using st False m' upd u' w' by (simp add: stopWanReplicationMap_def Let_def k [symmetric] call)
  moreover have "drops {k} w w'"
    using w'(2) marked(2) u'(2) v by (auto simp: drops_def u_def)
  moreover have "ww_trace w' = ww_trace w @ map (\<lambda>c. (c, True)) (stopPlan (ww_wan w) m (wms_PublisherId st))"
    using stop_plan [OF st [unfolded k] False stop] by (simp add: follows_def)
  ultimately show ?thesis by blast
qed

text \<open>A loop whose body removes the entry it visits removes all of them; what the body of an entry does
  to the trace is found in the trace of the loop.\<close>

lemma visits_all:
  assumes body: "\<And>k st v. k \<in> set ks \<Longrightarrow> map_of (entries v) k = Some st \<Longrightarrow>
      \<exists>w' evs. body k v = (Inr (), w') \<and> drops {k} v w' \<and> ww_trace w' = ww_trace v @ evs \<and> R k st evs"
  shows "\<exists>w' evs. forA ks (\<lambda>k. visitA k (body k)) w = (Inr (), w') \<and> drops (set ks) w w' \<and> ww_trace w' = ww_trace w @ evs \<and>
      (\<forall>k \<in> set ks. \<forall>st. map_of (entries w) k = Some st \<longrightarrow> (\<exists>pre mid suf. evs = pre @ mid @ suf \<and> R k st mid))"
  using body
proof (induction ks arbitrary: w)
  case Nil
  then show ?case by (simp add: drops_def action_simps)
next
  case (Cons k ks)
  have "\<exists>w1 evs. visitA k (body k) w = (Inr (), w1) \<and> drops {k} w w1 \<and> ww_trace w1 = ww_trace w @ evs \<and>
      (\<forall>st. map_of (entries w) k = Some st \<longrightarrow> R k st evs)"
  proof (cases "map_of (entries w) k")
    case None
    then show ?thesis using drops_none [OF None] by (simp add: visitA_def action_simps)
  next
    case (Some st)
    with Cons.prems [of k w st] show ?thesis by (auto simp: visitA_def action_simps)
  qed
  then obtain w1 e1 where w1: "visitA k (body k) w = (Inr (), w1)" "drops {k} w w1" "ww_trace w1 = ww_trace w @ e1"
      "\<forall>st. map_of (entries w) k = Some st \<longrightarrow> R k st e1"
    by blast
  obtain w2 e2 where w2: "forA ks (\<lambda>k. visitA k (body k)) w1 = (Inr (), w2)" "drops (set ks) w1 w2" "ww_trace w2 = ww_trace w1 @ e2"
      "\<forall>j \<in> set ks. \<forall>st. map_of (entries w1) j = Some st \<longrightarrow> (\<exists>pre mid suf. e2 = pre @ mid @ suf \<and> R j st mid)"
    using Cons.IH [of w1] Cons.prems by auto
  have "\<exists>pre mid suf. e1 @ e2 = pre @ mid @ suf \<and> R j st mid" if "j \<in> set (k # ks)" "map_of (entries w) j = Some st" for j st
  proof (cases "j = k")
    case True
    with that(2) w1(4) have "e1 @ e2 = [] @ e1 @ e2 \<and> R j st e1" by simp
    then show ?thesis by blast
  next
    case False
    with that w1(2) have "j \<in> set ks" "map_of (entries w1) j = Some st" by (auto simp: drops_def)
    with w2(4) obtain pre mid suf where "e2 = pre @ mid @ suf" "R j st mid" by blast
    then have "e1 @ e2 = (e1 @ pre) @ mid @ suf \<and> R j st mid" by simp
    then show ?thesis by blast
  qed
  moreover have "drops (set (k # ks)) w w2" using drops_trans [OF w1(2) w2(2)] by simp
  ultimately show ?case using w1(1,3) w2(1,3) by auto
qed

subsection \<open>The deletion\<close>

text \<open>\<open>resolves env ns l\<close>: the maps of the published entries exist, under the names the entries
  record, and have the keys of their entries.\<close>

definition resolves :: "wan_env \<Rightarrow> string \<Rightarrow> (string \<times> WanReplicationMapStatus) list \<Rightarrow> bool" where
  "resolves env ns l \<longleftrightarrow> (\<forall>(k, st) \<in> set l. wms_PublisherId st \<noteq> [] \<longrightarrow> (\<forall>tr. \<exists>m.
     we_GetMap env tr \<lparr> nn_Name = wms_ResourceName st, nn_Namespace = ns \<rparr> = Inr m \<and>
     k = wanMapKey (m_HazelcastResourceName m) (MapName m)))"

lemma resolves_Cons [simp]:
  "resolves env ns ((k, st) # l) \<longleftrightarrow> resolves env ns l \<and> (wms_PublisherId st \<noteq> [] \<longrightarrow> (\<forall>tr. \<exists>m.
     we_GetMap env tr \<lparr> nn_Name = wms_ResourceName st, nn_Namespace = ns \<rparr> = Inr m \<and>
     k = wanMapKey (m_HazelcastResourceName m) (MapName m)))"
  by (auto simp: resolves_def)

lemma resolves_get:
  assumes "resolves env ns ((k, st) # l)" and "wms_PublisherId st \<noteq> []"
  shows "\<exists>m. getWanMap env \<lparr> nn_Name = wms_ResourceName st, nn_Namespace = ns \<rparr> w = (Inr m, w) \<and>
     k = wanMapKey (m_HazelcastResourceName m) (MapName m)"
proof -
  obtain m where "we_GetMap env (ww_trace w) \<lparr> nn_Name = wms_ResourceName st, nn_Namespace = ns \<rparr> = Inr m"
    "k = wanMapKey (m_HazelcastResourceName m) (MapName m)"
    using assms unfolding resolves_Cons by blast
  then show ?thesis by (simp add: getWanMap_def action_simps)
qed

lemma resolves_published:
  "resolves env ns l \<Longrightarrow> distinct (map fst l) \<Longrightarrow> \<exists>ps. publishedMaps env ns l w = (Inr ps, w) \<and> fst ` set ps \<subseteq> fst ` set l \<and>
     (\<forall>(k, m) \<in> set ps. k = wanMapKey (m_HazelcastResourceName m) (MapName m)) \<and>
     (\<forall>(k, st) \<in> set l. wms_PublisherId st \<noteq> [] \<longrightarrow> (\<exists>m. map_of ps k = Some m \<and>
        we_GetMap env (ww_trace w) \<lparr> nn_Name = wms_ResourceName st, nn_Namespace = ns \<rparr> = Inr m))"
proof (induction l)
  case Nil
  then show ?case by (simp add: action_simps)
next
  case (Cons e l)
  obtain k st where e: "e = (k, st)" by fastforce
  from Cons obtain ps where ps: "publishedMaps env ns l w = (Inr ps, w)" "fst ` set ps \<subseteq> fst ` set l"
      "\<forall>(k, m) \<in> set ps. k = wanMapKey (m_HazelcastResourceName m) (MapName m)"
      "\<forall>(k, st) \<in> set l. wms_PublisherId st \<noteq> [] \<longrightarrow> (\<exists>m. map_of ps k = Some m \<and>
        we_GetMap env (ww_trace w) \<lparr> nn_Name = wms_ResourceName st, nn_Namespace = ns \<rparr> = Inr m)"
    by (auto simp: e)
  have fresh: "k \<notin> fst ` set l" using Cons.prems(2) by (simp add: e)
  show ?case
  proof (cases "wms_PublisherId st = []")
    case True
    with ps show ?thesis by (auto simp: e)
  next
    case False
    then obtain m where "we_GetMap env (ww_trace w) \<lparr> nn_Name = wms_ResourceName st, nn_Namespace = ns \<rparr> = Inr m"
      "k = wanMapKey (m_HazelcastResourceName m) (MapName m)"
      using Cons.prems(1) unfolding e resolves_Cons by blast
    note m = this
    have "publishedMaps env ns (e # l) w = (Inr ((k, m) # ps), w)"
      using False ps(1) m(1) by (simp add: e getWanMap_def action_simps)
    moreover have "\<exists>m'. map_of ((k, m) # ps) j = Some m' \<and>
        we_GetMap env (ww_trace w) \<lparr> nn_Name = wms_ResourceName sj, nn_Namespace = ns \<rparr> = Inr m'"
      if "(j, sj) \<in> set (e # l)" "wms_PublisherId sj \<noteq> []" for j sj
    proof (cases "(j, sj) = e")
      case True
      with m(1) show ?thesis by (simp add: e)
    next
      case neq: False
      with that(1) have "(j, sj) \<in> set l" by simp
      moreover from this fresh have "j \<noteq> k" by force
      ultimately show ?thesis using ps(4) that(2) by auto
    qed
    moreover have "fst ` set ((k, m) # ps) \<subseteq> fst ` set (e # l)" using ps(2) by (auto simp: e)
    moreover have "\<forall>(k, m) \<in> set ((k, m) # ps). k = wanMapKey (m_HazelcastResourceName m) (MapName m)" using ps(3) m(2) by simp
    ultimately show ?thesis by blast
  qed
qed

text \<open>\<open>stoppedIn evs ns l\<close>: for every published entry of \<open>l\<close> the calls of the plan that stops its map are among the
  calls \<open>evs\<close>, in one piece.\<close>

definition stoppedIn :: "wan_env \<Rightarrow> (wan_call \<times> bool) list \<Rightarrow> string \<Rightarrow> (string \<times> WanReplicationMapStatus) \<Rightarrow> bool" where
  "stoppedIn env evs ns = (\<lambda>(k, st). \<exists>t m wan pre suf.
     we_GetMap env t \<lparr> nn_Name = wms_ResourceName st, nn_Namespace = ns \<rparr> = Inr m \<and>
     evs = pre @ map (\<lambda>c. (c, True)) (stopPlan wan m (wms_PublisherId st)) @ suf)"

lemma stoppedIn_grows: "stoppedIn env evs ns e \<Longrightarrow> stoppedIn env (before @ evs @ after) ns e"
  by (auto simp: stoppedIn_def) (metis append.assoc)

text \<open>All maps are stopped.\<close>

lemma calm_stopAll:
  assumes "calm env" and "resolves env (om_Namespace (w_Meta (ww_wan w))) (entries w)" and "distinct (map fst (entries w))"
  shows "\<exists>w' evs. stopWanReplicationAllMaps env w = (Inr (), w') \<and> w_Meta (ww_wan w') = w_Meta (ww_wan w) \<and> entries w' = [] \<and>
    ww_trace w' = ww_trace w @ evs \<and>
    (\<forall>e \<in> set (entries w). wms_PublisherId (snd e) \<noteq> [] \<longrightarrow> stoppedIn env evs (om_Namespace (w_Meta (ww_wan w))) e)"
proof -
  let ?ns = "om_Namespace (w_Meta (ww_wan w))"
  obtain ps where ps: "publishedMaps env ?ns (entries w) w = (Inr ps, w)"
    and keys: "\<forall>(k, m) \<in> set ps. k = wanMapKey (m_HazelcastResourceName m) (MapName m)"
    and published: "\<forall>(k, st) \<in> set (entries w). wms_PublisherId st \<noteq> [] \<longrightarrow> (\<exists>m. map_of ps k = Some m \<and>
        we_GetMap env (ww_trace w) \<lparr> nn_Name = wms_ResourceName st, nn_Namespace = ?ns \<rparr> = Inr m)"
    using resolves_published [OF assms(2,3), of w] by blast
  define body where "body k = (case map_of ps k of
      None \<Rightarrow> deleteWanMapStatus env k
    | Some m \<Rightarrow> bindA (getHazelcastClient env (m_HazelcastResourceName m) (om_Namespace (m_Meta m))) (\<lambda>_.
        stopWanReplicationMap env m))" for k
  define R where "R k st evs \<longleftrightarrow> (\<forall>m. map_of ps k = Some m \<longrightarrow> wms_PublisherId st \<noteq> [] \<longrightarrow>
      (\<exists>wan. evs = map (\<lambda>c. (c, True)) (stopPlan wan m (wms_PublisherId st))))" for k evs and st :: WanReplicationMapStatus
  have "\<exists>w' evs. body k v = (Inr (), w') \<and> drops {k} v w' \<and> ww_trace w' = ww_trace v @ evs \<and> R k st evs"
    if "map_of (entries v) k = Some st" for k st v
  proof (cases "map_of ps k")
    case None
    with calm_delete [OF assms(1), of v k] that show ?thesis by (auto simp: body_def R_def)
  next
    case (Some m)
    then have "k = wanMapKey (m_HazelcastResourceName m) (MapName m)" using keys map_of_SomeD by fastforce
    from calm_stop [OF assms(1) this that] Some show ?thesis by (auto simp: body_def R_def calm_client [OF assms(1)])
  qed
  from visits_all [of "map fst (entries w)" body R w, OF this]
  obtain w' evs where w': "forA (map fst (entries w)) (\<lambda>k. visitA k (body k)) w = (Inr (), w')" "drops (set (map fst (entries w))) w w'"
      "ww_trace w' = ww_trace w @ evs"
    and each: "\<forall>k \<in> set (map fst (entries w)). \<forall>st. map_of (entries w) k = Some st \<longrightarrow> (\<exists>pre mid suf. evs = pre @ mid @ suf \<and> R k st mid)"
    by blast
  have "map_of (entries w') k = None" for k
    using w'(2) present_iff [of "entries w" k] unfolding drops_def by (cases "k \<in> set (map fst (entries w))") simp_all
  then have empty: "entries w' = []" by (rule map_of_empty)
  have "stoppedIn env evs ?ns (k, st)" if entry: "(k, st) \<in> set (entries w)" "wms_PublisherId st \<noteq> []" for k st
  proof -
    have at: "map_of (entries w) k = Some st" using entry(1) assms(3) by simp
    obtain m where m: "map_of ps k = Some m" "we_GetMap env (ww_trace w) \<lparr> nn_Name = wms_ResourceName st, nn_Namespace = ?ns \<rparr> = Inr m"
      using bspec [OF published entry(1)] entry(2) by auto
    have "k \<in> set (map fst (entries w))" using entry(1) by force
    with each at obtain pre mid suf where "evs = pre @ mid @ suf" "R k st mid" by blast
    with m entry(2) show ?thesis unfolding stoppedIn_def R_def by blast
  qed
  moreover have "w_Meta (ww_wan w') = w_Meta (ww_wan w)" using w'(2) by (simp add: drops_def)
  moreover have "stopWanReplicationAllMaps env w = (Inr (), w')"
    by (simp add: stopWanReplicationAllMaps_def getPublishedMapsFromStatus_def ps w'(1) [unfolded body_def] empty action_simps)
  ultimately show ?thesis using empty w'(3) by fastforce
qed

text \<open>The entries left over from an interrupted deletion are removed first: those of maps that were marked as terminating.\<close>

lemma calm_leftover:
  assumes "calm env"
  shows "resolves env ns l \<Longrightarrow> set l \<subseteq> set (entries w) \<Longrightarrow> distinct (map fst (entries w)) \<Longrightarrow> distinct (map fst l) \<Longrightarrow>
    \<exists>w' evs. leftoverMaps env ns l w = (Inr (), w') \<and> w_Meta (ww_wan w') = w_Meta (ww_wan w) \<and> ww_trace w' = ww_trace w @ evs \<and>
      set (entries w') \<subseteq> set (entries w) \<and> distinct (map fst (entries w')) \<and>
      (\<forall>e \<in> set (entries w). wms_Status (snd e) \<noteq> WanStatusTerminating \<longrightarrow> e \<in> set (entries w'))"
proof (induction l arbitrary: w)
  case Nil
  then show ?case by (simp add: action_simps)
next
  case (Cons e l)
  obtain k st where e: "e = (k, st)" by fastforce
  note IH = Cons.IH [of w] Cons.prems
  show ?case
  proof (cases "wms_PublisherId st = [] \<or> wms_Status st \<noteq> WanStatusTerminating")
    case True
    with IH show ?thesis by (auto simp: e)
  next
    case False
    then obtain m where get: "getWanMap env \<lparr> nn_Name = wms_ResourceName st, nn_Namespace = ns \<rparr> w = (Inr m, w)"
      using resolves_get [OF Cons.prems(1) [unfolded e]] by blast
    show ?thesis
    proof (cases "ContainsFinalizer (m_Meta m) WanRepMapFinalizer")
      case True
      with False get Cons.prems show ?thesis by (simp add: e action_simps)
    next
      case gone: False
      have at: "map_of (entries w) k = Some st" using Cons.prems(2,3) by (simp add: e)
      from calm_delete [OF assms, of w k] at obtain w1 e1 where w1: "deleteWanMapStatus env k w = (Inr (), w1)"
        "w_Meta (ww_wan w1) = w_Meta (ww_wan w)" "entries w1 = AList.delete k (entries w)" "ww_trace w1 = ww_trace w @ e1"
        by (auto simp: drops_def)
      have kept: "x \<in> set (entries w1)" if "x \<in> set (entries w)" "x \<noteq> (k, st)" for x
      proof -
        have "fst x \<noteq> k" using that at Cons.prems(3) map_of_is_SomeI [of "entries w" "fst x" "snd x"] by (cases x) auto
        with that(1) show ?thesis by (simp add: w1(3) AList.delete_eq split_def)
      qed
      have "set l \<subseteq> set (entries w1)"
        using Cons.prems(2,4) by (fastforce simp: e w1(3) AList.delete_eq image_iff)
      moreover have "distinct (map fst (entries w1))" using Cons.prems(3) by (simp add: w1(3) distinct_delete)
      ultimately obtain w2 e2 where w2: "leftoverMaps env ns l w1 = (Inr (), w2)"
        "w_Meta (ww_wan w2) = w_Meta (ww_wan w1)" "ww_trace w2 = ww_trace w1 @ e2" "set (entries w2) \<subseteq> set (entries w1)" "distinct (map fst (entries w2))"
        "\<forall>e \<in> set (entries w1). wms_Status (snd e) \<noteq> WanStatusTerminating \<longrightarrow> e \<in> set (entries w2)"
        using Cons.IH [of w1] Cons.prems by (auto simp: e)
      have "set (entries w2) \<subseteq> set (entries w)" using w2(4) w1(3) by (auto simp: AList.delete_eq)
      moreover have "\<forall>e \<in> set (entries w). wms_Status (snd e) \<noteq> WanStatusTerminating \<longrightarrow> e \<in> set (entries w2)"
        using w2(6) kept False by fastforce
      ultimately show ?thesis using False gone get w1(1,2,4) w2(1-3,5) by (simp add: e action_simps)
    qed
  qed
qed

lemma deletion_completes:
  assumes calm: "calm env" and "we_GetWan env req = Inr wan"
    and "om_DeletionTimestamp (w_Meta wan) \<noteq> None" and fin: "ContainsFinalizer (w_Meta wan) Finalizer"
    and dist: "distinct (map fst (MapsStatus (w_Status wan)))"
    and res: "resolves env (om_Namespace (w_Meta wan)) (MapsStatus (w_Status wan))"
  shows "\<exists>w' evs x. WanReplicationReconciler_Reconcile env req w = (Inr (ResultZero, None), w') \<and>
    ww_trace w' = ww_trace w @ evs @ [(UpdateWan x, True)] \<and> \<not> owned x \<and> MapsStatus (w_Status x) = [] \<and>
    (\<forall>e \<in> set (MapsStatus (w_Status wan)). wms_PublisherId (snd e) \<noteq> [] \<and> wms_Status (snd e) \<noteq> WanStatusTerminating \<longrightarrow>
       stoppedIn env evs (om_Namespace (w_Meta wan)) e)"
proof -
  let ?w = "w\<lparr> ww_wan := wan \<rparr>" and ?ns = "om_Namespace (w_Meta wan)"
  let ?rm = "\<lambda>x :: WanReplication. x\<lparr> w_Meta := RemoveFinalizer (w_Meta x) Finalizer \<rparr>"
  have rec: "WanReplicationReconciler_Reconcile env req w = reconcileDeleted env ?w"
    using assms(2-4) by (simp add: WanReplicationReconciler_Reconcile_def action_simps)
  obtain q w0 where u: "updateWanStatusA env ro_empty [withWanRepState WanStatusTerminating] ?w = (Inr q, w0)"
    using surj_pair by (simp add: updateWanStatusA_def split_def) metis
  then have after: "w0 = snd (updateWanStatusA env ro_empty [withWanRepState WanStatusTerminating] ?w)" by simp
  then have w0: "w_Meta (ww_wan w0) = w_Meta wan" "entries w0 = MapsStatus (w_Status wan)"
    by (simp_all add: updateWanStatusA_after Let_def MapsStatus_def)
  obtain e0 where e0: "ww_trace w0 = ww_trace w @ e0"
    using after by (simp add: updateWanStatusA_after Let_def)
  obtain w1 e1 where left: "deleteLeftoverMapsFromStatus env w0 = (Inr (), w1)"
    and w1: "w_Meta (ww_wan w1) = w_Meta wan" "ww_trace w1 = ww_trace w0 @ e1" "set (entries w1) \<subseteq> set (MapsStatus (w_Status wan))"
      "distinct (map fst (entries w1))"
    and kept: "\<forall>e \<in> set (MapsStatus (w_Status wan)). wms_Status (snd e) \<noteq> WanStatusTerminating \<longrightarrow> e \<in> set (entries w1)"
    using calm_leftover [OF calm res, of w0] dist by (auto simp: deleteLeftoverMapsFromStatus_def w0)
  have "resolves env ?ns (entries w1)" using res w1(3) unfolding resolves_def by blast
  then obtain w2 e2 where stop: "stopWanReplicationAllMaps env w1 = (Inr (), w2)"
    and w2: "w_Meta (ww_wan w2) = w_Meta wan" "entries w2 = []" "ww_trace w2 = ww_trace w1 @ e2"
    and stopped: "\<forall>e \<in> set (entries w1). wms_PublisherId (snd e) \<noteq> [] \<longrightarrow> stoppedIn env e2 ?ns e"
    using calm_stopAll [OF calm, of w1] w1(4) by (auto simp: w1(1))
  have run: "reconcileDeleted env ?w = plainly (updateWanA env ?rm) (\<lambda>_. doneA) w2"
    using u fin by (simp add: reconcileDeleted_def w0 failing_def action_simps left stop)
  have "plainly (updateWanA env ?rm) (\<lambda>_. doneA) w2 =
      (Inr (ResultZero, None), w2\<lparr> ww_wan := ?rm (ww_wan w2), ww_trace := ww_trace w2 @ [(UpdateWan (?rm (ww_wan w2)), True)] \<rparr>)"
    by (simp add: plainly_def doneA_def updateWanA_def action_simps calm_callA [OF calm])
  moreover have "\<not> owned (?rm (ww_wan w2))" "MapsStatus (w_Status (?rm (ww_wan w2))) = []"
    using w2 by (simp_all add: owned_def)
  moreover have "stoppedIn env (e0 @ e1 @ e2) ?ns e"
    if "e \<in> set (MapsStatus (w_Status wan))" "wms_PublisherId (snd e) \<noteq> []" "wms_Status (snd e) \<noteq> WanStatusTerminating" for e
    using stoppedIn_grows [of env e2 ?ns e "e0 @ e1" "[]"] stopped kept that by simp
  ultimately show ?thesis unfolding rec run
    by (intro exI [of _ "w2\<lparr> ww_wan := ?rm (ww_wan w2), ww_trace := ww_trace w2 @ [(UpdateWan (?rm (ww_wan w2)), True)] \<rparr>"]
        exI [of _ "e0 @ e1 @ e2"] exI [of _ "?rm (ww_wan w2)"]) (simp add: e0 w1(2) w2(3))
qed

text \<open>C21: a deleted WanReplication goes away. When no call fails, the clusters have running clients
  and the maps recorded in the status exist under their keys, one reconciliation of the
  deleted resource stops all its maps: for each published entry of its status, except those an earlier attempt had
  already marked as terminating, it makes the calls of the plan (stop the publisher, clear its queue, release the map, forget the
  entry), all answered. It ends, without an error and without
  being queued again, by giving up the finalizer of a resource whose map status is empty.\<close>

theorem wan_deletion_completes:
  assumes "calm env" and "we_GetWan env req = Inr wan"
    and "om_DeletionTimestamp (w_Meta wan) \<noteq> None" and "ContainsFinalizer (w_Meta wan) Finalizer"
    and "distinct (map fst (MapsStatus (w_Status wan)))"
    and "resolves env (om_Namespace (w_Meta wan)) (MapsStatus (w_Status wan))"
  shows "\<exists>w' evs x. WanReplicationReconciler_Reconcile env req w = (Inr (ResultZero, None), w') \<and>
    ww_trace w' = ww_trace w @ evs @ [(UpdateWan x, True)] \<and> \<not> owned x \<and> MapsStatus (w_Status x) = [] \<and>
    (\<forall>e \<in> set (MapsStatus (w_Status wan)). wms_PublisherId (snd e) \<noteq> [] \<and> wms_Status (snd e) \<noteq> WanStatusTerminating \<longrightarrow>
       stoppedIn env evs (om_Namespace (w_Meta wan)) e)"
  by (rule deletion_completes [OF assms])

subsection \<open>A run\<close>

text \<open>A WanReplication that is being deleted and replicates one map, and an environment in which
  every call succeeds.\<close>

definition sample_protected_map :: Map where
  "sample_protected_map = sample_map\<lparr> m_Meta := (m_Meta sample_map)\<lparr>
     om_Finalizers := [Finalizer, WanRepMapFinalizer] \<rparr> \<rparr>"

definition sample_map_status :: WanReplicationMapStatus where
  "sample_map_status = \<lparr> wms_ResourceName = ''map'', wms_PublisherId = ''wan-hz__map'',
     wms_Status = WanStatusSuccess, wms_Message = [] \<rparr>"

definition sample_deleted_wan :: WanReplication where
  "sample_deleted_wan = \<lparr> w_Meta = sample_meta\<lparr> om_Name := ''wan'', om_Finalizers := [Finalizer],
       om_DeletionTimestamp := Some 1 \<rparr>, w_Kind = ''WanReplication'', w_Spec = sample_wan_spec,
     w_Status = \<lparr> wst_Status = WanStatusSuccess, wst_Message = [],
       wst_MapsStatus = Some [(''hz__map'', sample_map_status)] \<rparr> \<rparr>"

definition calm_env :: wan_env where
  "calm_env = \<lparr> we_call = (\<lambda>_ _. None), we_GetWan = (\<lambda>_. Inr sample_deleted_wan),
     we_GetMap = (\<lambda>_ _. Inr sample_protected_map), we_ListMaps = (\<lambda>_ _ _. Inr [sample_protected_map]),
     we_GetOrCreateClient = (\<lambda>_ _. Inr True), we_SetOwnerReference = (\<lambda>_ m. Inr m),
     we_WanConfig = (\<lambda>_ _. Inr (Inr [])), we_MemberAddresses = (\<lambda>_. Some []),
     we_MtlsClient = (\<lambda>_. None), we_Dial = (\<lambda>_ _. None), we_validation = sample_env,
     we_ErrText = (\<lambda>_. []), we_MarshalSpec = (\<lambda>_. Inr ''{}'') \<rparr>"

abbreviation sample_request :: NamespacedName where
  "sample_request \<equiv> \<lparr> nn_Name = ''wan'', nn_Namespace = ''default'' \<rparr>"

abbreviation sample_start :: wan_world where
  "sample_start \<equiv> \<lparr> ww_wan = sample_deleted_wan, ww_trace = [] \<rparr>"

lemma calm_calm_env: "calm calm_env"
  by (simp add: calm_def calm_env_def)

lemma sample_map_key:
  "wanMapKey (m_HazelcastResourceName sample_protected_map) (MapName sample_protected_map) = ''hz__map''"
  by (simp add: sample_protected_map_def sample_map_def sample_map_spec_def wanMapKey_def MapName_def sample_meta_def)

lemma sample_map_simps:
  "MapName sample_protected_map = ''map''"
  "ContainsFinalizer (m_Meta sample_protected_map) WanRepMapFinalizer"
  "disowned wan sample_protected_map = sample_protected_map"
  "\<not> ContainsFinalizer (m_Meta (released m)) WanRepMapFinalizer"
  by (simp_all add: sample_protected_map_def sample_map_def sample_map_spec_def MapName_def ContainsFinalizer_def
      sample_meta_def disowned_def released_def RemoveFinalizer_def)

lemma sample_entries: "MapsStatus (w_Status sample_deleted_wan) = [(''hz__map'', sample_map_status)]"
  by (simp add: sample_deleted_wan_def MapsStatus_def)

lemma sample_entry:
  "map_of (entries sample_start) (wanMapKey (m_HazelcastResourceName sample_protected_map)
     (MapName sample_protected_map)) = Some sample_map_status"
  "wms_PublisherId sample_map_status = ''wan-hz__map''"
  by (simp_all add: sample_map_key sample_entries) (simp add: sample_map_status_def)

lemma sample_plan:
  "stopPlan sample_deleted_wan sample_protected_map ''wan-hz__map'' =
     [ChangeWanStateStopped (wanName ''map'') ''wan-hz__map'', ClearWanQueue (wanName ''map'') ''wan-hz__map'',
      StatusUpdateWan (markedTerminating ''hz__map'' sample_deleted_wan), UpdateMap (released sample_protected_map),
      StatusUpdateWan (withoutEntry ''hz__map'' (markedTerminating ''hz__map'' sample_deleted_wan))]"
  by (simp add: stopPlan_def sample_map_key sample_map_simps(2,3) Let_def) (simp add: sample_map_simps(1))

lemma sample_stop:
  obtains w' where "stopWanReplicationMap calm_env sample_protected_map sample_start = (Inr (), w')"
    and "ww_trace w' = map (\<lambda>c. (c, True)) (stopPlan sample_deleted_wan sample_protected_map ''wan-hz__map'')"
proof -
  obtain w' where w': "stopWanReplicationMap calm_env sample_protected_map sample_start = (Inr (), w')"
    using calm_stop [OF calm_calm_env refl, where m = sample_protected_map and w = sample_start and st = sample_map_status]
    by (auto simp: sample_map_key sample_entries)
  from stop_plan [OF sample_entry(1) _ this] have "follows (stopPlan sample_deleted_wan sample_protected_map ''wan-hz__map'')
      [] (Inr ()) (ww_trace w')"
    by (simp add: sample_entry)
  with w' that show thesis by (simp add: follows_def)
qed

theorem stop_follows_plan_witness:
  "\<exists>w'. stopWanReplicationMap calm_env sample_protected_map sample_start = (Inr (), w') \<and>
     follows (stopPlan sample_deleted_wan sample_protected_map ''wan-hz__map'') [] (Inr ()) (ww_trace w')"
proof -
  obtain w' where w': "stopWanReplicationMap calm_env sample_protected_map sample_start = (Inr (), w')"
    using sample_stop by blast
  from stop_follows_plan [OF sample_entry(1) _ this] w' show ?thesis by (simp add: sample_entry)
qed

text \<open>The crash right after the map lost its finalizer.\<close>

theorem stop_crash_safe_witness:
  "\<exists>w' tr rest. stopWanReplicationMap calm_env sample_protected_map sample_start = (Inr (), w') \<and>
     ww_trace w' = tr @ rest \<and> rest \<noteq> [] \<and> (UpdateMap (released sample_protected_map), True) \<in> set tr \<and>
     (case map_of (MapsStatus (w_Status (stored sample_deleted_wan tr))) ''hz__map'' of
        None \<Rightarrow> True | Some st' \<Rightarrow> wms_Status st' = WanStatusTerminating)"
proof -
  obtain w' where w': "stopWanReplicationMap calm_env sample_protected_map sample_start = (Inr (), w')"
    "ww_trace w' = map (\<lambda>c. (c, True)) (stopPlan sample_deleted_wan sample_protected_map ''wan-hz__map'')"
    using sample_stop by blast
  let ?tr = "take 4 (ww_trace w')" and ?rest = "drop 4 (ww_trace w')"
  have tr: "(UpdateMap (released sample_protected_map), True) \<in> set ?tr" "?rest \<noteq> []"
    by (simp_all add: w'(2) sample_plan)
  have "case map_of (MapsStatus (w_Status (stored sample_deleted_wan ?tr)))
      (wanMapKey (m_HazelcastResourceName sample_protected_map) (MapName sample_protected_map)) of
      None \<Rightarrow> True | Some st' \<Rightarrow> wms_Status st' = WanStatusTerminating"
    by (rule stop_crash_safe [OF sample_entry(1) _ w'(1) sample_map_simps(2) _ tr(1) sample_map_simps(4), of ?rest])
       (simp_all add: sample_entry)
  then show ?thesis
    unfolding sample_map_key using w'(1) tr by (intro exI [of _ w'] exI [of _ ?tr] exI [of _ ?rest]) simp
qed

lemma sample_deleted:
  "we_GetWan calm_env req = Inr sample_deleted_wan"
  "om_DeletionTimestamp (w_Meta sample_deleted_wan) \<noteq> None"
  "ContainsFinalizer (w_Meta sample_deleted_wan) Finalizer"
  "distinct (map fst (MapsStatus (w_Status sample_deleted_wan)))"
  "resolves calm_env ns (MapsStatus (w_Status sample_deleted_wan))"
  by (simp_all add: calm_env_def sample_entries resolves_def sample_map_key)
     (simp_all add: sample_deleted_wan_def ContainsFinalizer_def)

lemma sample_reconciled:
  obtains w' tr x where
    "WanReplicationReconciler_Reconcile calm_env sample_request sample_start = (Inr (ResultZero, None), w')"
    "ww_trace w' = tr @ [(UpdateWan x, True)]" "\<not> owned x"
proof -
  from deletion_completes [OF calm_calm_env sample_deleted, of sample_request sample_start] that show thesis
    by (metis append_Nil wan_world.select_convs(2))
qed

theorem wan_finalizer_last_witness:
  "\<exists>w' x. WanReplicationReconciler_Reconcile calm_env sample_request sample_start = (Inr (ResultZero, None), w') \<and>
     (UpdateWan x, True) \<in> set (ww_trace w') \<and> \<not> owned x \<and> MapsStatus (w_Status x) = []"
proof -
  obtain w' tr x where run:
    "WanReplicationReconciler_Reconcile calm_env sample_request sample_start = (Inr (ResultZero, None), w')"
    "ww_trace w' = tr @ [(UpdateWan x, True)]" "\<not> owned x"
    using sample_reconciled by blast
  from wan_finalizer_last [OF run(1), of x True] run show ?thesis by auto
qed

theorem wan_deletion_completes_witness:
  "\<exists>w' evs x. WanReplicationReconciler_Reconcile calm_env sample_request sample_start = (Inr (ResultZero, None), w') \<and>
    ww_trace w' = evs @ [(UpdateWan x, True)] \<and> \<not> owned x \<and> MapsStatus (w_Status x) = [] \<and>
    stoppedIn calm_env evs ''default'' (''hz__map'', sample_map_status)"
proof -
  have "om_Namespace (w_Meta sample_deleted_wan) = ''default''" "wms_PublisherId sample_map_status \<noteq> []"
    "wms_Status sample_map_status \<noteq> WanStatusTerminating"
    by (simp_all add: sample_deleted_wan_def sample_meta_def sample_map_status_def)
  with wan_deletion_completes [OF calm_calm_env sample_deleted, of sample_request sample_start] show ?thesis
    by (auto simp: sample_entries)
qed

text \<open>The same reconciliation, step by step: the replication of the map is stopped after the status
  was set to terminating.\<close>

lemma sample_release:
  "\<exists>w' pre suf. WanReplicationReconciler_Reconcile calm_env sample_request sample_start = (Inr (ResultZero, None), w') \<and>
     ww_trace w' = pre @ (UpdateMap (released sample_protected_map), True) # suf"
proof -
  note calm = calm_calm_env
  define wan1 where "wan1 = sample_deleted_wan\<lparr> w_Status := (w_Status sample_deleted_wan)\<lparr>
      wst_Status := WanStatusTerminating \<rparr> \<rparr>"
  define w0 where "w0 = \<lparr> ww_wan = wan1, ww_trace = [(StatusUpdateWan wan1, True)] \<rparr>"
  have e0: "entries w0 = [(''hz__map'', sample_map_status)]"
    by (simp add: w0_def wan1_def MapsStatus_def) (simp add: sample_deleted_wan_def)
  have rest: "w_Meta wan1 = w_Meta sample_deleted_wan" by (simp add: wan1_def)
  have upd: "\<exists>q. updateWanStatusA calm_env ro_empty [withWanRepState WanStatusTerminating] sample_start = (Inr q, w0)"
    by (simp add: updateWanStatusA_def updateWanStatus_def Let_def w0_def wan1_def calm_env_def)
  have left: "deleteLeftoverMapsFromStatus calm_env w0 = (Inr (), w0)"
    by (simp add: deleteLeftoverMapsFromStatus_def e0 action_simps) (simp add: sample_map_status_def)
  obtain w1 where stop: "stopWanReplicationMap calm_env sample_protected_map w0 = (Inr (), w1)"
    and gone: "drops {''hz__map''} w0 w1"
    using calm_stop [OF calm refl, where w = w0 and m = sample_protected_map and st = sample_map_status] by (auto simp: sample_map_key e0)
  have "map_of (entries w1) k = None" for k using gone by (simp add: drops_def e0)
  then have empty: "entries w1 = []" by (rule map_of_empty)
  have "follows (stopPlan wan1 sample_protected_map ''wan-hz__map'') (ww_trace w0) (Inr ()) (ww_trace w1)"
    using stop_plan [OF _ _ stop, of sample_map_status] e0 by (simp add: sample_map_key sample_entry) (simp add: w0_def)
  then have "UpdateMap (released sample_protected_map) \<in> fst ` set (ww_trace w1) \<and>
      (\<forall>e \<in> set (ww_trace w1). snd e)"
    by (auto simp: follows_def stopPlan_def Let_def sample_map_simps w0_def)
  then have "(UpdateMap (released sample_protected_map), True) \<in> set (ww_trace w1)" by force
  then obtain pre suf where tr: "ww_trace w1 = pre @ (UpdateMap (released sample_protected_map), True) # suf"
    by (metis split_list)
  have get: "getWanMap calm_env n w0 = (Inr sample_protected_map, w0)" for n
    by (simp add: getWanMap_def action_simps calm_env_def)
  have all: "stopWanReplicationAllMaps calm_env w0 = (Inr (), w1)"
    by (simp add: stopWanReplicationAllMaps_def getPublishedMapsFromStatus_def e0 sample_entry get action_simps
        visitA_def calm_client [OF calm] stop empty)
  show ?thesis
    using upd sample_deleted tr
    by (auto simp: WanReplicationReconciler_Reconcile_def reconcileDeleted_def action_simps w0_def rest
        failing_def plainly_def left [unfolded w0_def] all [unfolded w0_def] updateWanA_def calm_callA [OF calm] doneA_def) blast
qed

theorem release_after_stop_witness:
  "\<exists>w' pre suf. WanReplicationReconciler_Reconcile calm_env sample_request sample_start = (Inr (ResultZero, None), w') \<and>
     ww_trace w' = pre @ (UpdateMap (released sample_protected_map), True) # suf \<and>
     stopped_in pre (released sample_protected_map)"
proof -
  obtain w' pre suf where run:
    "WanReplicationReconciler_Reconcile calm_env sample_request sample_start = (Inr (ResultZero, None), w')"
    "ww_trace w' = pre @ (UpdateMap (released sample_protected_map), True) # suf"
    using sample_release by blast
  from release_after_stop [OF run sample_map_simps(4)] run show ?thesis by blast
qed

text \<open>A due map is published.\<close>

theorem due_maps_published_witness:
  "\<exists>evs acc'. fst (startMaps calm_env ''hz2'' [sample_map] [] sample_start) = Inr acc' \<and>
     ww_trace (snd (startMaps calm_env ''hz2'' [sample_map] [] sample_start)) = evs \<and>
     map fst evs = [publishCall sample_deleted_wan ''hz2'' sample_map]"
proof -
  obtain r w' where run: "startMaps calm_env ''hz2'' [sample_map] [] sample_start = (r, w')" by fastforce
  have "due sample_deleted_wan ''hz2'' sample_map"
    by (simp add: due_def sample_entries sample_map_def wanMapKey_def)
  with due_maps_published [OF run] run show ?thesis by auto
qed

end
