(* ===== verification/Calls.thy ===== *)
theory Calls
  imports Reconcile
begin

text \<open>
  Computations of a reconciler that keeps state in memory (schedules, locks, registries) and
  makes calls: to the API server, to the Hazelcast members, to the agent. The calls that change
  something are recorded in a trace, each with whether it succeeded, and the reads are counted.
  Every answer may depend on the calls and reads made before, so a theorem about every answer
  function holds for every sequence of failures and for every change that others make between
  two reads.

  The section also has the library functions the controllers share: \<^verbatim>\<open>retry.RetryOnConflict\<close> of
  client-go, \<^verbatim>\<open>errgroup\<close>, \<^verbatim>\<open>util.AddFinalizer\<close> and \<^verbatim>\<open>util.DeleteObject\<close> of \<^verbatim>\<open>internal/util\<close>.
\<close>

subsection \<open>State and trace\<close>

type_synonym 'c trace = "('c \<times> bool) list"

type_synonym 'c moment = "nat \<times> 'c trace"

record ('s, 'c) world =
  cw_state :: 's
  cw_reads :: nat
  cw_trace :: "'c trace"

definition moment :: "('s, 'c) world \<Rightarrow> 'c moment" where
  "moment w = (cw_reads w, cw_trace w)"

type_synonym ('s, 'c, 'a) proc = "(('s, 'c) world, 'a) action"

definition invokeA :: "('c moment \<Rightarrow> 'c \<Rightarrow> go_error option) \<Rightarrow> 'c \<Rightarrow> ('s, 'c, unit) proc" where
  "invokeA answer c w =
     (case answer (moment w) c of
        None \<Rightarrow> (Inr (), w\<lparr> cw_trace := cw_trace w @ [(c, True)] \<rparr>)
      | Some e \<Rightarrow> (Inl e, w\<lparr> cw_trace := cw_trace w @ [(c, False)] \<rparr>))"

definition observeA :: "('c moment \<Rightarrow> go_error + 'a) \<Rightarrow> ('s, 'c, 'a) proc" where
  "observeA f w = (f (moment w), w\<lparr> cw_reads := Suc (cw_reads w) \<rparr>)"

definition stateA :: "('s \<Rightarrow> 'a) \<Rightarrow> ('s, 'c, 'a) proc" where
  "stateA f w = (Inr (f (cw_state w)), w)"

definition changeA :: "('s \<Rightarrow> 's) \<Rightarrow> ('s, 'c, unit) proc" where
  "changeA f w = (Inr (), w\<lparr> cw_state := f (cw_state w) \<rparr>)"

lemma proc_simps [simp]:
  "observeA g w = (g (moment w), w\<lparr> cw_reads := Suc (cw_reads w) \<rparr>)"
  "stateA h w = (Inr (h (cw_state w)), w)"
  "changeA k w = (Inr (), w\<lparr> cw_state := k (cw_state w) \<rparr>)"
  by (simp_all add: observeA_def stateA_def changeA_def)

lemma bind_state [simp]:
  "bindA (stateA h) f w = f (h (cw_state w)) w"
  "bindA (changeA k) g w = g () (w\<lparr> cw_state := k (cw_state w) \<rparr>)"
  by simp_all

lemma invokeA_after:
  "snd (invokeA answer c w) = w\<lparr> cw_trace := cw_trace w @ [(c, answer (moment w) c = None)] \<rparr>"
  by (simp add: invokeA_def split: option.split)

text \<open>An error that is a panic is not caught by \<^verbatim>\<open>if err != nil\<close>.\<close>

definition catchA :: "('w, 'a) action \<Rightarrow> (go_error \<Rightarrow> ('w, 'b) action) \<Rightarrow> ('a \<Rightarrow> ('w, 'b) action) \<Rightarrow> ('w, 'b) action" where
  "catchA m h k = tryA m (\<lambda>r. case r of
     Inl e \<Rightarrow> (case e of ErrPanic t \<Rightarrow> throwA (ErrPanic t) | _ \<Rightarrow> h e)
   | Inr x \<Rightarrow> k x)"

lemma preserves_catchA [kept]:
  "preserves I m \<Longrightarrow> (\<And>e. preserves I (h e)) \<Longrightarrow> (\<And>x. preserves I (k x)) \<Longrightarrow> preserves I (catchA m h k)"
  unfolding catchA_def by (auto intro!: kept split: sum.split go_error.split)

lemma preserves_if [kept]:
  "(b \<Longrightarrow> preserves I m) \<Longrightarrow> (\<not> b \<Longrightarrow> preserves I n) \<Longrightarrow> preserves I (if b then m else n)"
  by simp

lemma preserves_stateA [kept]: "preserves I (stateA g)"
  by (simp add: preserves_def)

lemma catchA_cases:
  assumes "catchA m h k w = (r, w')"
  obtains (panic) t where "m w = (Inl (ErrPanic t), w')" "r = Inl (ErrPanic t)"
    | (error) e w1 where "m w = (Inl e, w1)" "h e w1 = (r, w')"
    | (ok) x w1 where "m w = (Inr x, w1)" "k x w1 = (r, w')"
proof (cases "m w")
  case (Pair r1 w1)
  show thesis
  proof (cases r1)
    case (Inl e)
    with Pair assms panic error show thesis by (cases e) (auto simp: catchA_def action_simps)
  next
    case (Inr x)
    with Pair assms ok show thesis by (auto simp: catchA_def action_simps)
  qed
qed

subsection \<open>Properties of the state, properties of the trace\<close>

text \<open>A property of the in-memory state is kept by every call; a property of the trace is kept by
  every change of the state.\<close>

lemma state_kept [kept]:
  "preserves (\<lambda>w. P (cw_state w)) (invokeA answer c)" "preserves (\<lambda>w. P (cw_state w)) (observeA f)"
  "preserves (\<lambda>w. Q (cw_trace w)) (observeA f)"
  by (simp_all add: preserves_def invokeA_after)

lemma state_changeA: "(\<And>s. P s \<Longrightarrow> P (f s)) \<Longrightarrow> preserves (\<lambda>w. P (cw_state w)) (changeA f)"
  by (simp add: preserves_def)

lemma trace_changeA [kept]: "preserves (\<lambda>w. P (cw_trace w)) (changeA f)"
  by (simp add: preserves_def)

lemma trace_invokeA:
  "(\<And>tr b. P tr \<Longrightarrow> P (tr @ [(c, b)])) \<Longrightarrow> preserves (\<lambda>w. P (cw_trace w)) (invokeA answer c)"
  by (simp add: preserves_def invokeA_after)

lemma same_state: "(\<And>s. preserves (\<lambda>w. cw_state w = s) m) \<Longrightarrow> cw_state (snd (m w)) = cw_state w"
  unfolding preserves_def by blast

text \<open>The calls a computation makes, started in \<open>w\<close>: everything it adds to the trace satisfies \<open>Q\<close>.\<close>

definition calls_at :: "('c \<Rightarrow> bool) \<Rightarrow> ('s, 'c, 'a) proc \<Rightarrow> ('s, 'c) world \<Rightarrow> bool" where
  "calls_at Q m w \<longleftrightarrow> (\<exists>evs. cw_trace (snd (m w)) = cw_trace w @ evs \<and> (\<forall>e \<in> set evs. Q (fst e)))"

definition only_calls :: "('c \<Rightarrow> bool) \<Rightarrow> ('s, 'c, 'a) proc \<Rightarrow> bool" where
  "only_calls Q m \<longleftrightarrow> (\<forall>w. calls_at Q m w)"

lemma only_callsD:
  assumes "only_calls Q m" and "m w = (r, w')"
  obtains evs where "cw_trace w' = cw_trace w @ evs" and "\<And>c b. (c, b) \<in> set evs \<Longrightarrow> Q c"
proof -
  obtain evs where "cw_trace (snd (m w)) = cw_trace w @ evs" "\<forall>e \<in> set evs. Q (fst e)"
    using assms(1) unfolding only_calls_def calls_at_def by blast
  with assms(2) that show thesis by fastforce
qed

lemma calls_at_only: "only_calls Q m \<Longrightarrow> calls_at Q m w"
  by (simp add: only_calls_def)

lemma calls_at_bindA:
  assumes "calls_at Q m w" and "\<And>x w1. m w = (Inr x, w1) \<Longrightarrow> calls_at Q (f x) w1"
  shows "calls_at Q (bindA m f) w"
proof -
  obtain r w1 where m: "m w = (r, w1)" by fastforce
  with assms(1) obtain evs where evs: "cw_trace w1 = cw_trace w @ evs" "\<forall>e \<in> set evs. Q (fst e)"
    by (auto simp: calls_at_def)
  show ?thesis
  proof (cases r)
    case (Inl e)
    with m evs show ?thesis by (auto simp: calls_at_def bindA_def)
  next
    case (Inr x)
    with assms(2) m obtain evs2 where "cw_trace (snd (f x w1)) = cw_trace w1 @ evs2" "\<forall>e \<in> set evs2. Q (fst e)"
      by (auto simp: calls_at_def)
    with m Inr evs show ?thesis unfolding calls_at_def by (intro exI [of _ "evs @ evs2"]) auto
  qed
qed

lemma calls_at_tryA:
  assumes "calls_at Q m w" and "\<And>r w1. m w = (r, w1) \<Longrightarrow> calls_at Q (k r) w1"
  shows "calls_at Q (tryA m k) w"
proof -
  have "calls_at Q (bindA (\<lambda>w. case m w of (r, w') \<Rightarrow> (Inr r, w')) k) w"
    by (rule calls_at_bindA) (use assms in \<open>auto simp: calls_at_def split_def\<close>)
  then show ?thesis by (cases "m w") (simp add: calls_at_def bindA_def tryA_def)
qed

lemma calls_at_catchA:
  assumes "calls_at Q m w" and "\<And>e w1. m w = (Inl e, w1) \<Longrightarrow> calls_at Q (h e) w1"
    and "\<And>x w1. m w = (Inr x, w1) \<Longrightarrow> calls_at Q (k x) w1"
  shows "calls_at Q (catchA m h k) w"
  unfolding catchA_def
  by (rule calls_at_tryA [OF assms(1)])
    (auto simp: assms(2,3) calls_at_def [of _ "throwA _"] action_simps split: sum.split go_error.split)

lemma calls_at_if: "(b \<Longrightarrow> calls_at Q m w) \<Longrightarrow> (\<not> b \<Longrightarrow> calls_at Q n w) \<Longrightarrow> calls_at Q (if b then m else n) w"
  by simp

lemma only_calls_same: "(\<And>w. cw_trace (snd (m w)) = cw_trace w) \<Longrightarrow> only_calls Q m"
  by (simp add: only_calls_def calls_at_def)

lemma only_calls_basic [kept]:
  "only_calls Q (returnA x)" "only_calls Q (throwA e)" "only_calls Q (observeA f)"
  "only_calls Q (stateA g)" "only_calls Q (changeA h)"
  by (simp_all add: only_calls_def calls_at_def action_simps)

lemma only_calls_invokeA [kept]: "Q c \<Longrightarrow> only_calls Q (invokeA answer c)"
  by (simp add: only_calls_def calls_at_def invokeA_after)

lemma only_calls_bindA [kept]:
  "only_calls Q m \<Longrightarrow> (\<And>x. only_calls Q (f x)) \<Longrightarrow> only_calls Q (bindA m f)"
  by (simp add: only_calls_def calls_at_bindA)

lemma only_calls_tryA [kept]:
  "only_calls Q m \<Longrightarrow> (\<And>r. only_calls Q (k r)) \<Longrightarrow> only_calls Q (tryA m k)"
  by (simp add: only_calls_def calls_at_tryA)

lemma only_calls_catchA [kept]:
  "only_calls Q m \<Longrightarrow> (\<And>e. only_calls Q (h e)) \<Longrightarrow> (\<And>x. only_calls Q (k x)) \<Longrightarrow> only_calls Q (catchA m h k)"
  unfolding catchA_def by (auto intro!: kept split: sum.split go_error.split)

lemma only_calls_if [kept]:
  "(b \<Longrightarrow> only_calls Q m) \<Longrightarrow> (\<not> b \<Longrightarrow> only_calls Q n) \<Longrightarrow> only_calls Q (if b then m else n)"
  by simp

lemma only_calls_forA [kept]:
  "(\<And>x. x \<in> set xs \<Longrightarrow> only_calls Q (f x)) \<Longrightarrow> only_calls Q (forA xs f)"
proof (induction xs)
  case Nil
  then show ?case by (simp add: only_calls_def calls_at_def)
next
  case (Cons x xs)
  have "only_calls Q (bindA (f x) (\<lambda>_. forA xs f))"
    by (rule only_calls_bindA) (use Cons in simp_all)
  then show ?case by (simp add: only_calls_def calls_at_def)
qed

lemma only_calls_weaken: "only_calls Q m \<Longrightarrow> (\<And>c. Q c \<Longrightarrow> R c) \<Longrightarrow> only_calls R m"
  unfolding only_calls_def calls_at_def by meson

subsection \<open>Library functions\<close>

text \<open>\<^verbatim>\<open>RetryOnConflict n fn\<close>: \<^verbatim>\<open>fn\<close> is run again as long as it ends in a conflict, at most \<open>n\<close> more
  times (the steps of \<^verbatim>\<open>retry.DefaultRetry\<close> are a parameter); any other outcome, and the last
  conflict, is the result.\<close>

fun RetryOnConflict :: "nat \<Rightarrow> ('w, 'a) action \<Rightarrow> ('w, 'a) action" where
  "RetryOnConflict 0 fn = fn"
| "RetryOnConflict (Suc n) fn = tryA fn (\<lambda>r.
     case r of Inl e \<Rightarrow> if ErrIsConflict e then RetryOnConflict n fn else throwA e | Inr x \<Rightarrow> returnA x)"

text \<open>\<open>groupA\<close>: the goroutines of an \<^verbatim>\<open>errgroup\<close>, in the order in which they make their calls. All run,
  and the first error is the result; but a panic of any of them ends the program.\<close>

fun groupA :: "('w, unit) action list \<Rightarrow> ('w, unit) action" where
  "groupA [] = returnA ()"
| "groupA (g # gs) = tryA g (\<lambda>r. tryA (groupA gs) (\<lambda>r'.
     case (r, r') of
       (_, Inl (ErrPanic t)) \<Rightarrow> throwA (ErrPanic t)
     | (Inl e, _) \<Rightarrow> throwA e
     | (Inr _, Inl e) \<Rightarrow> throwA e
     | (Inr _, Inr _) \<Rightarrow> returnA ()))"

lemma preserves_RetryOnConflict [kept]: "preserves I fn \<Longrightarrow> preserves I (RetryOnConflict n fn)"
  by (induction n) (auto intro!: kept split: sum.split)

lemma only_calls_RetryOnConflict [kept]: "only_calls Q fn \<Longrightarrow> only_calls Q (RetryOnConflict n fn)"
  by (induction n) (auto intro!: kept split: sum.split)

lemma preserves_groupA [kept]: "(\<And>g. g \<in> set gs \<Longrightarrow> preserves I g) \<Longrightarrow> preserves I (groupA gs)"
  by (induction gs) (auto intro!: kept split: sum.split go_error.split)

lemma only_calls_groupA [kept]: "(\<And>g. g \<in> set gs \<Longrightarrow> only_calls Q g) \<Longrightarrow> only_calls Q (groupA gs)"
  by (induction gs) (auto intro!: kept split: sum.split go_error.split)

text \<open>A group succeeds exactly when all its goroutines do.\<close>

lemma groupA_success:
  "groupA (g # gs) w = (Inr x, w'') \<longleftrightarrow> (\<exists>y w'. g w = (Inr y, w') \<and> groupA gs w' = (Inr x, w''))"
  by (cases "g w"; cases "fst (g w)"; cases "groupA gs (snd (g w))"; cases "fst (groupA gs (snd (g w)))")
    (auto simp: action_simps split: go_error.splits)

text \<open>\<^verbatim>\<open>util.AddFinalizer\<close>: \<open>write\<close> is the update of the object. The object at hand keeps the added
  finalizer even when the update fails.\<close>

definition util_AddFinalizer :: "(ObjectMeta \<Rightarrow> ('w, unit) action) \<Rightarrow> ObjectMeta \<Rightarrow> ('w, ObjectMeta) action" where
  "util_AddFinalizer write ob =
     (if \<not> ContainsFinalizer ob Finalizer \<and> om_DeletionTimestamp ob = None
      then bindA (write (AddFinalizer ob Finalizer)) (\<lambda>_. returnA (AddFinalizer ob Finalizer))
      else returnA ob)"

definition DeleteObject :: "('w, unit) action \<Rightarrow> ('w, unit) action" where
  "DeleteObject del = tryA del (\<lambda>r.
     case r of Inl e \<Rightarrow> if ErrIsNotFound e then returnA () else throwA e | Inr _ \<Rightarrow> returnA ())"

lemma only_calls_util [kept]:
  "only_calls Q d \<Longrightarrow> only_calls Q (DeleteObject d)"
  "(\<And>ob. only_calls Q (write ob)) \<Longrightarrow> only_calls Q (util_AddFinalizer write m)"
  by (auto simp: DeleteObject_def util_AddFinalizer_def intro!: kept split: sum.split)

lemma preserves_util [kept]:
  "preserves I d \<Longrightarrow> preserves I (DeleteObject d)"
  "(\<And>ob. preserves I (write ob)) \<Longrightarrow> preserves I (util_AddFinalizer write m)"
  by (auto simp: DeleteObject_def util_AddFinalizer_def intro!: kept split: sum.split)

end
