(* ===== verification/Cron_Backup.thy ===== *)
theory Cron_Backup
  imports Calls "HOL-Library.Multiset"
begin

text \<open>
  The CronHotBackup controller (\<^verbatim>\<open>cronhotbackup_controller.go\<close>): the schedule of every resource,
  the HotBackups it creates and the retention of the old ones.

  The state is what \<^verbatim>\<open>CronHotBackupReconciler\<close> keeps in memory: the map \<^verbatim>\<open>scheduled\<close> from the resource
  to the entry of the cron library, and the entries of the library with the copy of the
  resource that each job captured. The API server, the cron parser and the clock answer
  through \<open>cron_env\<close>. The trigger of the phone-home report is left out.
\<close>

subsection \<open>State, calls, environment\<close>

type_synonym EntryID = nat

record CronHotBackupReconciler =
  cr_scheduled :: "NamespacedName \<rightharpoonup> EntryID"
  cr_cron :: "EntryID \<rightharpoonup> CronHotBackup"
  cr_started :: bool

datatype cron_call =
    UpdateCron CronHotBackup
  | DeleteHotBackup HotBackup
  | CreateHotBackup HotBackup "string \<rightharpoonup> string"

text \<open>\<open>ce_AddFunc\<close> is the entry the cron library gives a new job (\<open>Inl\<close> when the schedule does not
  parse), \<open>ce_Next\<close> the unix time of the next activation, \<open>ce_order\<close> the order in which the
  goroutines of an \<^verbatim>\<open>errgroup\<close> make their calls, \<open>ce_SortSlice\<close> is \<^verbatim>\<open>sort.Slice\<close> on the creation
  timestamps, \<open>ce_Spare\<close> the elements that the array behind a slice has beyond its length and \<open>ce_retries\<close> the number of repetitions of \<^verbatim>\<open>retry.DefaultRetry\<close>.\<close>

record cron_env =
  ce_call :: "cron_call moment \<Rightarrow> cron_call \<Rightarrow> go_error option"
  ce_GetCron :: "cron_call moment \<Rightarrow> NamespacedName \<Rightarrow> go_error + CronHotBackup"
  ce_ListHotBackups :: "cron_call moment \<Rightarrow> string \<Rightarrow> string \<Rightarrow> go_error + HotBackup list"
  ce_ListHazelcast :: "cron_call moment \<Rightarrow> string \<Rightarrow> go_error + Hazelcast list"
  ce_AddFunc :: "(EntryID \<rightharpoonup> CronHotBackup) \<Rightarrow> string \<Rightarrow> go_error + EntryID"
  ce_Next :: "string \<Rightarrow> go_error + int"
  ce_SetControllerReference :: "CronHotBackup \<Rightarrow> HotBackup \<Rightarrow> go_error + HotBackup"
  ce_order :: "cron_call moment \<Rightarrow> HotBackup list \<Rightarrow> HotBackup list"
  ce_SortSlice :: "HotBackup list \<Rightarrow> HotBackup list"
  ce_Spare :: "HotBackup list \<Rightarrow> HotBackup list"
  ce_MarshalSpec :: "CronHotBackupSpec \<Rightarrow> go_error + string"
  ce_retries :: nat

type_synonym 'a cron_proc = "(CronHotBackupReconciler, cron_call, 'a) proc"

definition cronKey :: "CronHotBackup \<Rightarrow> NamespacedName" where
  "cronKey chb = \<lparr> nn_Name = om_Name (cb_Meta chb), nn_Namespace = om_Namespace (cb_Meta chb) \<rparr>"

subsection \<open>Schedules\<close>

text \<open>\<^verbatim>\<open>LoadAndDelete\<close> followed by \<^verbatim>\<open>cron.Remove\<close>, on the state.\<close>

definition unschedule :: "NamespacedName \<Rightarrow> CronHotBackupReconciler \<Rightarrow> CronHotBackupReconciler" where
  "unschedule key r =
     (case cr_scheduled r key of
        None \<Rightarrow> r
      | Some jobId \<Rightarrow> r\<lparr> cr_scheduled := (cr_scheduled r)(key := None), cr_cron := (cr_cron r)(jobId := None) \<rparr>)"

definition removeSchedule :: "NamespacedName \<Rightarrow> unit cron_proc" where
  "removeSchedule key = changeA (unschedule key)"

text \<open>\<^verbatim>\<open>cron.AddFunc\<close>, then \<^verbatim>\<open>LoadOrStore\<close>: an old entry is removed from the library and replaced.\<close>

definition reschedule :: "NamespacedName \<Rightarrow> EntryID \<Rightarrow> CronHotBackup \<Rightarrow> CronHotBackupReconciler \<Rightarrow> CronHotBackupReconciler" where
  "reschedule key entry chb r =
     (let cron = (cr_cron r)(entry \<mapsto> chb)
      in case cr_scheduled r key of
           None \<Rightarrow> r\<lparr> cr_scheduled := (cr_scheduled r)(key \<mapsto> entry), cr_cron := cron, cr_started := True \<rparr>
         | Some old \<Rightarrow> r\<lparr> cr_scheduled := (cr_scheduled r)(key \<mapsto> entry), cr_cron := cron(old := None), cr_started := True \<rparr>)"

definition updateSchedule :: "cron_env \<Rightarrow> CronHotBackup \<Rightarrow> unit cron_proc" where
  "updateSchedule env chb =
     (let chbKey = cronKey chb
      in if chb_Suspend (cb_Spec chb) then removeSchedule chbKey
         else bindA (stateA cr_cron) (\<lambda>entries.
              case ce_AddFunc env entries (chb_Schedule (cb_Spec chb)) of
                Inl e \<Rightarrow> throwA e
              | Inr entry \<Rightarrow> changeA (reschedule chbKey entry chb)))"

subsection \<open>Creating a backup\<close>

definition generateBackupName :: "cron_env \<Rightarrow> CronHotBackup \<Rightarrow> go_error + string" where
  "generateBackupName env chb =
     (case ce_Next env (chb_Schedule (cb_Spec chb)) of
        Inl e \<Rightarrow> Inl e
      | Inr nextTimeInUnix \<Rightarrow> Inr (om_Name (cb_Meta chb) @ ''-'' @ Itoa nextTimeInUnix))"

definition newHotBackup :: "string \<Rightarrow> CronHotBackup \<Rightarrow> HotBackup" where
  "newHotBackup hbName chb = \<lparr>
     hb_Meta = \<lparr> om_Name = hbName, om_Namespace = om_Namespace (cb_Meta chb), om_UID = [],
       om_Annotations = chb_TemplateAnnotations (cb_Spec chb), om_Finalizers = [], om_OwnerReferences = [],
       om_DeletionTimestamp = None, om_CreationTimestamp = 0 \<rparr>,
     hb_Spec = chb_TemplateSpec (cb_Spec chb),
     hb_Status = \<lparr> hbs_State = HotBackupStateUnset, hbs_Message = [], hbs_BackupUUIDs = [] \<rparr> \<rparr>"

definition createHotBackup :: "cron_env \<Rightarrow> CronHotBackup \<Rightarrow> unit cron_proc" where
  "createHotBackup env chb =
     (case generateBackupName env chb of
        Inl e \<Rightarrow> throwA e
      | Inr hbName \<Rightarrow>
          (case ce_SetControllerReference env chb (newHotBackup hbName chb) of
             Inl e \<Rightarrow> throwA (wrapErr ''failed to set owner reference on HotBackup: '' e)
           | Inr hb \<Rightarrow> invokeA (ce_call env) (CreateHotBackup hb (chb_TemplateLabels (cb_Spec chb)))))"

text \<open>The job of an entry; its error is only logged.\<close>

definition runJob :: "cron_env \<Rightarrow> EntryID \<Rightarrow> unit cron_proc" where
  "runJob env entry = bindA (stateA (\<lambda>r. cr_cron r entry)) (\<lambda>job.
     case job of
       None \<Rightarrow> returnA ()
     | Some chb \<Rightarrow> catchA (createHotBackup env chb) (\<lambda>_. returnA ()) (\<lambda>_. returnA ()))"

subsection \<open>Retention\<close>

definition deleteHB :: "cron_env \<Rightarrow> HotBackup \<Rightarrow> unit cron_proc" where
  "deleteHB env hb = DeleteObject (invokeA (ce_call env) (DeleteHotBackup hb))"

text \<open>The schema excludes negative limits (\<^verbatim>\<open>Minimum=0\<close>); with one, the slice bound exceeds the
  length, and the expression takes what the array has beyond it, or panics at its end. The errors of the deletions are ignored.\<close>

definition deleteHotBackupHistory :: "cron_env \<Rightarrow> int32 \<Rightarrow> HotBackup list \<Rightarrow> unit cron_proc" where
  "deleteHotBackupHistory env limit backups =
     (let diff = int (length backups) - sint limit
      in if diff \<le> 0 then returnA ()
         else if int (length backups + length (ce_Spare env backups)) < diff then throwA (ErrPanic ''slice bounds out of range'')
         else forA (take (nat diff) (ce_SortSlice env backups @ ce_Spare env backups)) (\<lambda>hb.
              tryA (deleteHB env hb) (\<lambda>_. returnA ())))"

definition findRestoreResourceName :: "Hazelcast list \<Rightarrow> string \<Rightarrow> bool" where
  "findRestoreResourceName hazelcastList name \<longleftrightarrow>
     (\<exists>h \<in> set hazelcastList. Persistence_IsRestoreEnabled (hs_Persistence (h_Spec h)) \<and>
        (case hs_Persistence (h_Spec h) of None \<Rightarrow> False
         | Some p \<Rightarrow> rc_HotBackupResourceName (hp_Restore p) = name))"

definition derefLimit :: "int32 option \<Rightarrow> int32 cron_proc" where
  "derefLimit p = (case p of None \<Rightarrow> throwA (ErrPanic ''nil pointer dereference'') | Some l \<Rightarrow> returnA l)"

definition cleanupResources :: "cron_env \<Rightarrow> CronHotBackup \<Rightarrow> unit cron_proc" where
  "cleanupResources env chb =
     (let ns = om_Namespace (cb_Meta chb)
      in tryA (observeA (\<lambda>tr. ce_ListHotBackups env tr (om_Name (cb_Meta chb)) ns)) (\<lambda>r.
         case r of
           Inl e \<Rightarrow> throwA (wrapErr ''Could not get CronHotBackup dependent HotBackup resources '' e)
         | Inr items \<Rightarrow>
             if items = [] then returnA ()
             else (let failed = filter (\<lambda>hb. hbs_State (hb_Status hb) = HotBackupFailure) items;
                       successful = filter (\<lambda>hb. hbs_State (hb_Status hb) = HotBackupSuccess) items
                   in bindA (derefLimit (chb_FailedHotBackupsHistoryLimit (cb_Spec chb))) (\<lambda>failedLimit.
                      bindA (deleteHotBackupHistory env failedLimit failed) (\<lambda>_.
                      bindA (observeA (\<lambda>tr. ce_ListHazelcast env tr ns)) (\<lambda>hazelcastList.
                      let unreferenced = filter (\<lambda>hb. \<not> findRestoreResourceName hazelcastList (om_Name (hb_Meta hb))) successful
                      in bindA (derefLimit (chb_SuccessfulHotBackupsHistoryLimit (cb_Spec chb))) (\<lambda>limit.
                         deleteHotBackupHistory env limit unreferenced)))))))"

subsection \<open>The applied specification\<close>

definition cron_updateLastSuccessfulConfiguration :: "cron_env \<Rightarrow> NamespacedName \<Rightarrow> unit cron_proc" where
  "cron_updateLastSuccessfulConfiguration env name = RetryOnConflict (ce_retries env)
     (bindA (observeA (\<lambda>tr. ce_GetCron env tr name)) (\<lambda>chb.
      case ce_MarshalSpec env (cb_Spec chb) of
        Inl e \<Rightarrow> invokeA (ce_call env) (UpdateCron (chb\<lparr> cb_Meta :=
                   InsertLastSuccessfullyAppliedSpec (\<lambda>_. []) (cb_Spec chb) (cb_Meta chb) \<rparr>))
      | Inr js \<Rightarrow> invokeA (ce_call env) (UpdateCron (chb\<lparr> cb_Meta :=
                   InsertLastSuccessfullyAppliedSpec (\<lambda>_. js) (cb_Spec chb) (cb_Meta chb) \<rparr>))))"

definition isAlreadyApplied :: "cron_env \<Rightarrow> CronHotBackup \<Rightarrow> go_error + bool" where
  "isAlreadyApplied env chb =
     (case ce_MarshalSpec env (cb_Spec chb) of
        Inl e \<Rightarrow> Inl (ErrOther ''Error marshaling the CronHotbackupSpec'')
      | Inr chbs \<Rightarrow> Inr (om_Annotations (cb_Meta chb) LastSuccessfulSpecAnnotation = Some chbs))"

subsection \<open>Deletion\<close>

definition deleteDependentHotBackups :: "cron_env \<Rightarrow> CronHotBackup \<Rightarrow> unit cron_proc" where
  "deleteDependentHotBackups env chb =
     (let list = observeA (\<lambda>tr. ce_ListHotBackups env tr (om_Name (cb_Meta chb)) (om_Namespace (cb_Meta chb)))
      in catchA list
        (\<lambda>e. throwA (wrapErr ''Could not get CronHotBackup dependent HotBackup resources '' e))
        (\<lambda>items. if items = [] then returnA () else
          catchA (bindA (observeA (\<lambda>tr. Inr (ce_order env tr items))) (\<lambda>ordered.
                  groupA (map (\<lambda>hb. if om_DeletionTimestamp (hb_Meta hb) = None then deleteHB env hb else returnA ()) ordered)))
            (\<lambda>e. throwA (wrapErr ''Error deleting HotBackup resources '' e))
            (\<lambda>_. catchA list
               (\<lambda>e. throwA (wrapErr ''CronHotBackup dependent HotBackup resources are not deleted yet '' e))
               (\<lambda>items'. if items' = [] then returnA ()
                 else throwA (ErrOther ''CronHotBackup dependent HotBackup resources are not deleted yet.'')))))"

definition cron_executeFinalizer :: "cron_env \<Rightarrow> CronHotBackup \<Rightarrow> unit cron_proc" where
  "cron_executeFinalizer env chb =
     (if \<not> ContainsFinalizer (cb_Meta chb) Finalizer then returnA ()
      else bindA (removeSchedule (cronKey chb)) (\<lambda>_.
           catchA (deleteDependentHotBackups env chb)
             (\<lambda>e. throwA (wrapErr ''failed to delete dependent HotBackups: '' e))
             (\<lambda>_. catchA (invokeA (ce_call env) (UpdateCron (chb\<lparr> cb_Meta := RemoveFinalizer (cb_Meta chb) Finalizer \<rparr>)))
                (\<lambda>e. throwA (wrapErr ''failed to remove finalizer from custom resource: '' e))
                returnA)))"

subsection \<open>Reconcile\<close>

definition applySchedule :: "cron_env \<Rightarrow> NamespacedName \<Rightarrow> CronHotBackup \<Rightarrow> unit cron_proc" where
  "applySchedule env name chb =
     bindA (updateSchedule env chb) (\<lambda>_. cron_updateLastSuccessfulConfiguration env name)"

text \<open>The result is always \<^verbatim>\<open>ctrl.Result{}\<close>: only the error is modelled.\<close>

definition CronHotBackupReconciler_Reconcile :: "cron_env \<Rightarrow> NamespacedName \<Rightarrow> unit cron_proc" where
  "CronHotBackupReconciler_Reconcile env req =
     bindA (observeA (\<lambda>tr. ce_GetCron env tr req)) (\<lambda>chb0.
     bindA (util_AddFinalizer (\<lambda>m. invokeA (ce_call env) (UpdateCron (chb0\<lparr> cb_Meta := m \<rparr>))) (cb_Meta chb0)) (\<lambda>m.
     let chb = chb0\<lparr> cb_Meta := m \<rparr>
     in if om_DeletionTimestamp m \<noteq> None then cron_executeFinalizer env chb
        else bindA (catchA (cleanupResources env chb) (\<lambda>_. returnA ()) returnA) (\<lambda>_.
        if \<not> IsSuccessfullyApplied m then applySchedule env req chb
        else bindA (stateA (\<lambda>r. cr_scheduled r req)) (\<lambda>job.
             if job = None then applySchedule env req chb
             else case isAlreadyApplied env chb of
                    Inl e \<Rightarrow> throwA e
                  | Inr applied \<Rightarrow> if applied then returnA () else applySchedule env req chb))))"

end
