(* ===== verification/Cron_Safety.thy ===== *)
theory Cron_Safety
  imports Cron_Backup Samples
begin

text \<open>
  What the CronHotBackup controller guarantees: one job per resource, however reconciliations,
  jobs and restarts of the operator follow one another; the retention of old backups; the
  order of a deletion; and an update of the resource that is lost.
\<close>

subsection \<open>One job per resource\<close>

text \<open>The schedule and the entries of the cron library are inverse to each other.\<close>

definition one_job :: "CronHotBackupReconciler \<Rightarrow> bool" where
  "one_job r \<longleftrightarrow> (\<forall>e k. (\<exists>chb. cr_cron r e = Some chb \<and> cronKey chb = k) \<longleftrightarrow> cr_scheduled r k = Some e)"

text \<open>What the cron library promises: a new job gets an unused entry.\<close>

definition fresh_entries :: "cron_env \<Rightarrow> bool" where
  "fresh_entries env \<longleftrightarrow> (\<forall>es s e. ce_AddFunc env es s = Inr e \<longrightarrow> es e = None)"

lemma one_jobD:
  assumes "one_job r"
  shows "cr_scheduled r k = Some e \<Longrightarrow> cr_scheduled r k' = Some e \<Longrightarrow> k = k'"
    and "cr_cron r e = None \<Longrightarrow> cr_scheduled r k \<noteq> Some e"
  using assms unfolding one_job_def by (metis option.sel, metis option.distinct(1))

lemma one_job_unschedule: "one_job r \<Longrightarrow> one_job (unschedule key r)"
  using one_jobD(1) [of r]
  by (cases "cr_scheduled r key") (auto simp: one_job_def unschedule_def)

lemma one_job_reschedule:
  assumes "one_job r" and new: "cr_cron r entry = None"
  shows "one_job (reschedule (cronKey chb) entry chb r)"
proof -
  note inv = assms(1) [unfolded one_job_def, rule_format]
  have unused: "cr_scheduled r k \<noteq> Some entry" for k by (rule one_jobD(2) [OF assms])
  show ?thesis
  proof (cases "cr_scheduled r (cronKey chb)")
    case None
    then show ?thesis by (auto simp: one_job_def reschedule_def inv unused)
  next
    case (Some old)
    then have "old \<noteq> entry" using unused by blast
    moreover have "cr_scheduled r k \<noteq> Some old" if "k \<noteq> cronKey chb" for k
      using one_jobD(1) [OF assms(1) _ Some] that by blast
    ultimately show ?thesis using Some by (auto simp: one_job_def reschedule_def inv unused)
  qed
qed

lemma one_job_change [kept]:
  "preserves (\<lambda>w. one_job (cw_state w)) (changeA (unschedule key))"
  by (rule state_changeA) (rule one_job_unschedule)

lemma one_job_updateSchedule [kept]:
  assumes "fresh_entries env"
  shows "preserves (\<lambda>w. one_job (cw_state w)) (updateSchedule env chb)"
  using assms
  by (auto simp: updateSchedule_def removeSchedule_def Let_def preserves_def fresh_entries_def action_simps
      one_job_unschedule one_job_reschedule split: sum.split)

lemma one_job_getters [kept]:
  "preserves (\<lambda>w. one_job (cw_state w)) (deleteHotBackupHistory env l bs)"
  "preserves (\<lambda>w. one_job (cw_state w)) (derefLimit p)"
  "preserves (\<lambda>w. one_job (cw_state w)) (createHotBackup env chb)"
  by (auto simp: deleteHotBackupHistory_def derefLimit_def createHotBackup_def deleteHB_def Let_def
      intro!: kept split: sum.split option.split)

lemma one_job_Reconcile:
  assumes "fresh_entries env"
  shows "preserves (\<lambda>w. one_job (cw_state w)) (CronHotBackupReconciler_Reconcile env req)"
proof -
  note sched = one_job_updateSchedule [OF assms]
  have "preserves (\<lambda>w. one_job (cw_state w)) (cleanupResources env chb)" for chb
    by (auto simp: cleanupResources_def Let_def intro!: kept split: sum.split)
  moreover have "preserves (\<lambda>w. one_job (cw_state w)) (cron_updateLastSuccessfulConfiguration env req)"
    by (auto simp: cron_updateLastSuccessfulConfiguration_def intro!: kept split: sum.split)
  moreover have "preserves (\<lambda>w. one_job (cw_state w)) (cron_executeFinalizer env chb)" for chb
    by (auto simp: cron_executeFinalizer_def deleteDependentHotBackups_def removeSchedule_def deleteHB_def Let_def
        intro!: kept)
  ultimately show ?thesis
    by (auto simp: CronHotBackupReconciler_Reconcile_def applySchedule_def Let_def intro!: kept sched split: sum.split)
qed

lemma one_job_runJob: "preserves (\<lambda>w. one_job (cw_state w)) (runJob env e)"
  by (auto simp: runJob_def intro!: kept split: option.split)

text \<open>The life of the operator: reconciliations and jobs in any order and in any environment, and
  restarts, which forget everything.\<close>

definition cron_initial :: CronHotBackupReconciler where
  "cron_initial = \<lparr> cr_scheduled = Map.empty, cr_cron = Map.empty, cr_started = False \<rparr>"

inductive cron_reachable :: "CronHotBackupReconciler \<Rightarrow> bool" where
  start: "cron_reachable cron_initial"
| reconcile: "cron_reachable r \<Longrightarrow> fresh_entries env \<Longrightarrow>
    cron_reachable (cw_state (snd (CronHotBackupReconciler_Reconcile env req \<lparr> cw_state = r, cw_reads = n, cw_trace = tr \<rparr>)))"
| job: "cron_reachable r \<Longrightarrow> cron_reachable (cw_state (snd (runJob env e \<lparr> cw_state = r, cw_reads = n, cw_trace = tr \<rparr>)))"

lemma reachable_one_job: "cron_reachable r \<Longrightarrow> one_job r"
proof (induction rule: cron_reachable.induct)
  case start
  then show ?case by (simp add: one_job_def cron_initial_def)
next
  case (reconcile r env req n tr)
  then show ?case using one_job_Reconcile [of env req] unfolding preserves_def by simp
next
  case (job r env e n tr)
  then show ?case using one_job_runJob [of env e] unfolding preserves_def by simp
qed

subsection \<open>Retention\<close>

text \<open>\<^verbatim>\<open>sort.Slice\<close> on the creation timestamps: a permutation, oldest first.\<close>

definition sorts_by_age :: "(HotBackup list \<Rightarrow> HotBackup list) \<Rightarrow> bool" where
  "sorts_by_age srt \<longleftrightarrow> (\<forall>xs. mset (srt xs) = mset xs \<and> sorted (map (\<lambda>hb. om_CreationTimestamp (hb_Meta hb)) (srt xs)))"

text \<open>\<open>pruned limit xs dels\<close>: of the backups \<open>xs\<close>, \<open>dels\<close> are deleted, \<open>limit\<close> are left (all, when there
  are not more), and none of the deleted is younger than one that is left.\<close>

definition pruned :: "nat \<Rightarrow> HotBackup list \<Rightarrow> HotBackup list \<Rightarrow> bool" where
  "pruned limit xs dels \<longleftrightarrow> (\<exists>left. mset xs = mset dels + mset left \<and> length left = min limit (length xs) \<and>
     (\<forall>d \<in> set dels. \<forall>k \<in> set left. om_CreationTimestamp (hb_Meta d) \<le> om_CreationTimestamp (hb_Meta k)))"

lemma pruned_oldest:
  assumes "sorts_by_age srt"
  shows "pruned limit xs (take (length xs - limit) (srt xs))"
proof -
  let ?n = "length xs - limit" and ?age = "\<lambda>hb. om_CreationTimestamp (hb_Meta hb)"
  have s: "mset (srt xs) = mset xs" "sorted (map ?age (srt xs))" using assms by (auto simp: sorts_by_age_def)
  then have len: "length (srt xs) = length xs" by (metis size_mset)
  have "sorted (map ?age (take ?n (srt xs)) @ map ?age (drop ?n (srt xs)))"
    using s(2) by (metis append_take_drop_id map_append)
  then have "\<forall>d \<in> set (take ?n (srt xs)). \<forall>k \<in> set (drop ?n (srt xs)). ?age d \<le> ?age k"
    by (simp add: sorted_append)
  moreover have "mset xs = mset (take ?n (srt xs)) + mset (drop ?n (srt xs))"
    by (metis append_take_drop_id mset_append s(1))
  moreover have "length (drop ?n (srt xs)) = min limit (length xs)" by (simp add: len)
  ultimately show ?thesis unfolding pruned_def by blast
qed

lemma deleteHB_run:
  "\<exists>b. tryA (deleteHB env hb) (\<lambda>_. returnA ()) w = (Inr (), w\<lparr> cw_trace := cw_trace w @ [(DeleteHotBackup hb, b)] \<rparr>)"
  by (auto simp: deleteHB_def DeleteObject_def action_simps invokeA_def split: option.split)

lemma deletes_run:
  "\<exists>evs. forA hbs (\<lambda>hb. tryA (deleteHB env hb) (\<lambda>_. returnA ())) w =
     (Inr (), w\<lparr> cw_trace := cw_trace w @ evs \<rparr>) \<and> map fst evs = map DeleteHotBackup hbs"
proof (induction hbs arbitrary: w)
  case (Cons hb hbs)
  obtain b where b: "tryA (deleteHB env hb) (\<lambda>_. returnA ()) w =
      (Inr (), w\<lparr> cw_trace := cw_trace w @ [(DeleteHotBackup hb, b)] \<rparr>)" using deleteHB_run by blast
  from Cons.IH [of "w\<lparr> cw_trace := cw_trace w @ [(DeleteHotBackup hb, b)] \<rparr>"] obtain evs where
    "forA hbs (\<lambda>hb. tryA (deleteHB env hb) (\<lambda>_. returnA ())) (w\<lparr> cw_trace := cw_trace w @ [(DeleteHotBackup hb, b)] \<rparr>) =
       (Inr (), w\<lparr> cw_trace := cw_trace w @ (DeleteHotBackup hb, b) # evs \<rparr>)"
    "map fst evs = map DeleteHotBackup hbs" by auto
  with b show ?case by (intro exI [of _ "(DeleteHotBackup hb, b) # evs"]) simp
qed auto

lemma history_run:
  assumes "sorts_by_age (ce_SortSlice env)" and "0 \<le> sint limit"
  shows "\<exists>evs dels. deleteHotBackupHistory env limit xs w = (Inr (), w\<lparr> cw_trace := cw_trace w @ evs \<rparr>) \<and>
    map fst evs = map DeleteHotBackup dels \<and> pruned (nat (sint limit)) xs dels"
proof -
  let ?dels = "take (length xs - nat (sint limit)) (ce_SortSlice env xs)"
  have pruned: "pruned (nat (sint limit)) xs ?dels" by (rule pruned_oldest [OF assms(1)])
  show ?thesis
  proof (cases "int (length xs) - sint limit \<le> 0")
    case True
    then have "?dels = []" using assms(2) by simp
    with True pruned show ?thesis
      by (intro exI [of _ "[]"]) (simp add: deleteHotBackupHistory_def action_simps)
  next
    case False
    then have "nat (int (length xs) - sint limit) = length xs - nat (sint limit)" using assms(2) by simp
    moreover have "length (ce_SortSlice env xs) = length xs" using assms(1) unfolding sorts_by_age_def by (metis size_mset)
    ultimately have "deleteHotBackupHistory env limit xs = forA ?dels (\<lambda>hb. tryA (deleteHB env hb) (\<lambda>_. returnA ()))"
      using False assms(2) by (simp add: deleteHotBackupHistory_def Let_def)
    with deletes_run [of ?dels env w] pruned show ?thesis by auto
  qed
qed

lemma cleanup_run:
  assumes sort: "sorts_by_age (ce_SortSlice env)"
    and items: "ce_ListHotBackups env (moment w) (om_Name (cb_Meta chb)) (om_Namespace (cb_Meta chb)) = Inr items"
    and hzs: "\<And>t. ce_ListHazelcast env t (om_Namespace (cb_Meta chb)) = Inr hzs"
    and limits: "chb_FailedHotBackupsHistoryLimit (cb_Spec chb) = Some lf" "0 \<le> sint lf"
      "chb_SuccessfulHotBackupsHistoryLimit (cb_Spec chb) = Some ls" "0 \<le> sint ls"
  shows "\<exists>w' evs dels dels'. cleanupResources env chb w = (Inr (), w') \<and> cw_state w' = cw_state w \<and>
    cw_trace w' = cw_trace w @ evs \<and> map fst evs = map DeleteHotBackup (dels @ dels') \<and>
    pruned (nat (sint lf)) (filter (\<lambda>hb. hbs_State (hb_Status hb) = HotBackupFailure) items) dels \<and>
    pruned (nat (sint ls)) (filter (\<lambda>hb. hbs_State (hb_Status hb) = HotBackupSuccess \<and>
      \<not> findRestoreResourceName hzs (om_Name (hb_Meta hb))) items) dels'"
proof (cases "items = []")
  case True
  have "pruned l [] []" for l by (simp add: pruned_def)
  with True items show ?thesis
    by (intro exI [of _ "w\<lparr> cw_reads := Suc (cw_reads w) \<rparr>"] exI [of _ "[]"])
      (simp add: cleanupResources_def action_simps Let_def)
next
  case False
  let ?w1 = "w\<lparr> cw_reads := Suc (cw_reads w) \<rparr>"
  let ?failed = "filter (\<lambda>hb. hbs_State (hb_Status hb) = HotBackupFailure) items"
  let ?unused = "filter (\<lambda>hb. \<not> findRestoreResourceName hzs (om_Name (hb_Meta hb)))
      (filter (\<lambda>hb. hbs_State (hb_Status hb) = HotBackupSuccess) items)"
  obtain evs dels where f: "deleteHotBackupHistory env lf ?failed ?w1 = (Inr (), ?w1\<lparr> cw_trace := cw_trace w @ evs \<rparr>)"
    "map fst evs = map DeleteHotBackup dels" "pruned (nat (sint lf)) ?failed dels"
    using history_run [OF sort limits(2), of ?failed ?w1] by auto
  let ?w2 = "w\<lparr> cw_trace := cw_trace w @ evs, cw_reads := Suc (Suc (cw_reads w)) \<rparr>"
  obtain evs' dels' where s: "deleteHotBackupHistory env ls ?unused ?w2 =
      (Inr (), ?w2\<lparr> cw_trace := cw_trace w @ evs @ evs' \<rparr>)"
    "map fst evs' = map DeleteHotBackup dels'" "pruned (nat (sint ls)) ?unused dels'"
    using history_run [OF sort limits(4), of ?unused ?w2] by auto
  have "cleanupResources env chb w = (Inr (), ?w2\<lparr> cw_trace := cw_trace w @ evs @ evs' \<rparr>)"
    using False items hzs limits f(1) s(1)
    by (simp add: cleanupResources_def action_simps Let_def derefLimit_def)
  moreover have "?unused = filter (\<lambda>hb. hbs_State (hb_Status hb) = HotBackupSuccess \<and>
      \<not> findRestoreResourceName hzs (om_Name (hb_Meta hb))) items" by (simp add: conj_commute)
  ultimately show ?thesis using f(2,3) s(2,3)
    by (intro exI [of _ "?w2\<lparr> cw_trace := cw_trace w @ evs @ evs' \<rparr>"] exI [of _ "evs @ evs'"] exI [of _ dels] exI [of _ dels']) simp
qed

subsection \<open>Properties\<close>

text \<open>C22: a CronHotBackup has at most one running job, and no job outlives its schedule. In every
  state the operator can reach, through any sequence of reconciliations, activations and
  restarts and under all failures, the jobs in the cron library that belong to a resource are
  exactly the one entry its schedule records.\<close>

theorem one_cron_job:
  assumes "cron_reachable r"
  shows "{e. map_option cronKey (cr_cron r e) = Some key} = set_option (cr_scheduled r key)"
  using reachable_one_job [OF assms] unfolding one_job_def by (auto simp: set_eq_iff)

text \<open>C23: the retention rule. Whatever the deletions answer, a cleanup asks for the deletion of
  exactly as many failed backups as exceed their limit, the oldest ones, and of exactly as
  many successful ones, the oldest ones, where a successful backup from which a Hazelcast
  cluster is restored is neither counted nor deleted.\<close>

theorem cron_retention:
  assumes "sorts_by_age (ce_SortSlice env)"
    and "ce_ListHotBackups env (moment w) (om_Name (cb_Meta chb)) (om_Namespace (cb_Meta chb)) = Inr items"
    and "\<And>t. ce_ListHazelcast env t (om_Namespace (cb_Meta chb)) = Inr hzs"
    and "chb_FailedHotBackupsHistoryLimit (cb_Spec chb) = Some lf" and "0 \<le> sint lf"
    and "chb_SuccessfulHotBackupsHistoryLimit (cb_Spec chb) = Some ls" and "0 \<le> sint ls"
  shows "\<exists>w' evs dels dels'. cleanupResources env chb w = (Inr (), w') \<and> cw_state w' = cw_state w \<and>
    cw_trace w' = cw_trace w @ evs \<and> map fst evs = map DeleteHotBackup (dels @ dels') \<and>
    pruned (nat (sint lf)) (filter (\<lambda>hb. hbs_State (hb_Status hb) = HotBackupFailure) items) dels \<and>
    pruned (nat (sint ls)) (filter (\<lambda>hb. hbs_State (hb_Status hb) = HotBackupSuccess \<and>
      \<not> findRestoreResourceName hzs (om_Name (hb_Meta hb))) items) dels'"
  by (rule cleanup_run [OF assms])

text \<open>The calls of the deletion of the dependent backups, and what its success means.\<close>

lemma dependent_calls: "only_calls (\<lambda>c. \<exists>hb. c = DeleteHotBackup hb) (deleteDependentHotBackups env chb)"
  by (auto simp: deleteDependentHotBackups_def deleteHB_def Let_def intro!: kept)

lemma dependent_gone:
  assumes "deleteDependentHotBackups env chb w = (Inr (), w')"
  shows "\<exists>n. ce_ListHotBackups env (n, cw_trace w') (om_Name (cb_Meta chb)) (om_Namespace (cb_Meta chb)) = Inr []"
  using assms unfolding deleteDependentHotBackups_def Let_def
  by (elim catchA_cases) (auto simp: action_simps moment_def elim!: catchA_cases split: if_splits, blast)

text \<open>A CronHotBackup disappears last. While a deleted CronHotBackup is reconciled, the update
  that gives up its finalizer comes only after its schedule was removed, and immediately
  before it the API server lists no HotBackup of the resource any more.\<close>

theorem cron_finalizer_last:
  assumes "ce_GetCron env (n, []) req = Inr chb" and "om_DeletionTimestamp (cb_Meta chb) \<noteq> None"
    and "CronHotBackupReconciler_Reconcile env req \<lparr> cw_state = st, cw_reads = n, cw_trace = [] \<rparr> = (r, w')"
    and "cw_trace w' = pre @ (UpdateCron x, b) # suf"
  shows "(\<exists>k. ce_ListHotBackups env (k, pre) (om_Name (cb_Meta chb)) (om_Namespace (cb_Meta chb)) = Inr []) \<and>
    cr_scheduled (cw_state w') (cronKey chb) = None \<and> suf = []"
proof -
  let ?start = "\<lparr> cw_state = st, cw_reads = Suc n, cw_trace = [] \<rparr>"
  let ?w = "\<lparr> cw_state = unschedule (cronKey chb) st, cw_reads = Suc n, cw_trace = [] \<rparr>"
  let ?upd = "UpdateCron (chb\<lparr> cb_Meta := RemoveFinalizer (cb_Meta chb) Finalizer \<rparr>)"
  have run: "cron_executeFinalizer env chb ?start = (r, w')"
    using assms(1-3)
    by (auto simp: CronHotBackupReconciler_Reconcile_def util_AddFinalizer_def action_simps moment_def Let_def)
  have fin: "ContainsFinalizer (cb_Meta chb) Finalizer"
  proof (rule ccontr)
    assume "\<not> ?thesis"
    with run assms(4) show False by (auto simp: cron_executeFinalizer_def action_simps)
  qed
  obtain r1 w1 where dep: "deleteDependentHotBackups env chb ?w = (r1, w1)" by fastforce
  obtain evs where evs: "cw_trace w1 = evs" "\<And>c b. (c, b) \<in> set evs \<Longrightarrow> \<exists>hb. c = DeleteHotBackup hb"
    using only_callsD [OF dependent_calls dep] by auto
  have noupd: "(UpdateCron x, b) \<notin> set (cw_trace w1)" using evs by auto
  have st: "cw_state w1 = unschedule (cronKey chb) st"
  proof -
    have "preserves (\<lambda>w. cw_state w = unschedule (cronKey chb) st) (deleteDependentHotBackups env chb)"
      by (auto simp: deleteDependentHotBackups_def deleteHB_def Let_def intro!: kept)
    with dep show ?thesis unfolding preserves_def by (metis snd_conv world.select_convs(1))
  qed
  show ?thesis
  proof (cases r1)
    case (Inl e)
    with run fin dep have "w' = w1"
      by (cases e) (auto simp: cron_executeFinalizer_def removeSchedule_def catchA_def action_simps)
    with noupd assms(4) show ?thesis by simp
  next
    case (Inr u)
    have "w' = snd (invokeA (ce_call env) ?upd w1)"
      using run fin dep Inr
      by (auto simp: cron_executeFinalizer_def removeSchedule_def catchA_def action_simps invokeA_def
          split: option.splits go_error.splits)
    then have w': "w' = w1\<lparr> cw_trace := cw_trace w1 @ [(?upd, ce_call env (moment w1) ?upd = None)] \<rparr>"
      by (simp add: invokeA_after)
    with assms(4) have eq: "cw_trace w1 @ [(?upd, ce_call env (moment w1) ?upd = None)] = pre @ (UpdateCron x, b) # suf"
      by simp
    have "suf = []"
    proof (rule ccontr)
      assume "suf \<noteq> []"
      with eq have "(UpdateCron x, b) \<in> set (cw_trace w1)"
        by (cases suf rule: rev_cases) auto
      with noupd show False by simp
    qed
    with eq have "pre = cw_trace w1" by simp
    with dependent_gone [of env chb ?w w1] dep Inr
    have "\<exists>k. ce_ListHotBackups env (k, pre) (om_Name (cb_Meta chb)) (om_Namespace (cb_Meta chb)) = Inr []" by simp
    moreover have "cr_scheduled (cw_state w') (cronKey chb) = None"
      by (simp add: w' st unschedule_def split: option.split)
    ultimately show ?thesis using \<open>suf = []\<close> by simp
  qed
qed

subsection \<open>A lost update\<close>

text \<open>A scheduled resource that is marked as applied is left alone.\<close>

lemma applied_rests:
  assumes "ce_GetCron env (n, tr) req = Inr x" and "ContainsFinalizer (cb_Meta x) Finalizer"
    and "om_DeletionTimestamp (cb_Meta x) = None" and "isAlreadyApplied env x = Inr True"
    and "cr_scheduled st req \<noteq> None"
  shows "cw_state (snd (CronHotBackupReconciler_Reconcile env req \<lparr> cw_state = st, cw_reads = n, cw_trace = tr \<rparr>)) = st"
proof -
  have ann: "IsSuccessfullyApplied (cb_Meta x)"
    using assms(4) by (auto simp: isAlreadyApplied_def IsSuccessfullyApplied_def split: sum.splits)
  let ?w = "\<lparr> cw_state = st, cw_reads = Suc n, cw_trace = tr \<rparr>"
  let ?c = "catchA (cleanupResources env x) (\<lambda>_. returnA ()) returnA"
  have "preserves (\<lambda>w. cw_state w = st) ?c"
    by (auto simp: cleanupResources_def deleteHotBackupHistory_def derefLimit_def deleteHB_def Let_def
        intro!: kept split: sum.split option.split)
  then have "cw_state (snd (?c ?w)) = st" unfolding preserves_def by simp
  then show ?thesis
    using assms ann
    by (cases "?c ?w"; cases "fst (?c ?w)")
       (auto simp: CronHotBackupReconciler_Reconcile_def util_AddFinalizer_def action_simps moment_def)
qed

lemma update_lost:
  assumes "ce_GetCron env (0, []) req = Inr old" and "req = cronKey old"
    and "ContainsFinalizer (cb_Meta old) Finalizer" and "om_DeletionTimestamp (cb_Meta old) = None"
    and "\<not> IsSuccessfullyApplied (cb_Meta old)" and "\<not> chb_Suspend (cb_Spec old)"
    and "ce_ListHotBackups env (1, []) (om_Name (cb_Meta old)) (om_Namespace (cb_Meta old)) = Inr []"
    and "cr_scheduled st req = None" and "ce_AddFunc env (cr_cron st) (chb_Schedule (cb_Spec old)) = Inr entry"
    and "ce_GetCron env (2, []) req = Inr new" and "ContainsFinalizer (cb_Meta new) Finalizer"
    and "om_DeletionTimestamp (cb_Meta new) = None" and "ce_MarshalSpec env (cb_Spec new) = Inr js"
    and "\<And>c. ce_call env (3, []) c = None"
  shows "\<exists>w' x. CronHotBackupReconciler_Reconcile env req \<lparr> cw_state = st, cw_reads = 0, cw_trace = [] \<rparr> = (Inr (), w') \<and>
    cr_scheduled (cw_state w') req = Some entry \<and> cr_cron (cw_state w') entry = Some old \<and>
    cw_trace w' = [(UpdateCron x, True)] \<and> cb_Spec x = cb_Spec new \<and>
    (\<forall>env' n tr. ce_MarshalSpec env' = ce_MarshalSpec env \<longrightarrow> ce_GetCron env' (n, tr) req = Inr x \<longrightarrow>
       cw_state (snd (CronHotBackupReconciler_Reconcile env' req
         \<lparr> cw_state = cw_state w', cw_reads = n, cw_trace = tr \<rparr>)) = cw_state w')"
proof -
  let ?x = "new\<lparr> cb_Meta := InsertLastSuccessfullyAppliedSpec (\<lambda>_. js) (cb_Spec new) (cb_Meta new) \<rparr>"
  let ?st = "reschedule req entry old st"
  let ?w' = "\<lparr> cw_state = ?st, cw_reads = 3, cw_trace = [(UpdateCron ?x, True)] \<rparr>"
  have upd: "updateSchedule env old w = (Inr (), w\<lparr> cw_state := ?st \<rparr>)" if "cw_state w = st" for w
    using assms that by (simp add: updateSchedule_def Let_def)
  have three: "Suc (Suc 0) = 2" "Suc 2 = 3" by simp_all
  have last: "RetryOnConflict n (bindA (observeA (\<lambda>tr. ce_GetCron env tr req)) (\<lambda>chb.
      case ce_MarshalSpec env (cb_Spec chb) of
        Inl e \<Rightarrow> invokeA (ce_call env) (UpdateCron (chb\<lparr> cb_Meta :=
                   InsertLastSuccessfullyAppliedSpec (\<lambda>_. []) (cb_Spec chb) (cb_Meta chb) \<rparr>))
      | Inr js \<Rightarrow> invokeA (ce_call env) (UpdateCron (chb\<lparr> cb_Meta :=
                   InsertLastSuccessfullyAppliedSpec (\<lambda>_. js) (cb_Spec chb) (cb_Meta chb) \<rparr>))))
      \<lparr> cw_state = ?st, cw_reads = 2, cw_trace = [] \<rparr> = (Inr (), ?w')" for n
    using assms(10,13,14) by (cases n) (simp_all add: moment_def invokeA_def action_simps three)
  have "CronHotBackupReconciler_Reconcile env req \<lparr> cw_state = st, cw_reads = 0, cw_trace = [] \<rparr> = (Inr (), ?w')"
    using assms(1-8) upd last
    by (simp add: CronHotBackupReconciler_Reconcile_def util_AddFinalizer_def action_simps moment_def
        cleanupResources_def catchA_def Let_def applySchedule_def cron_updateLastSuccessfulConfiguration_def three)
  moreover have "isAlreadyApplied env' ?x = Inr True" if "ce_MarshalSpec env' = ce_MarshalSpec env" for env'
    using assms(13) that
    by (simp add: isAlreadyApplied_def InsertLastSuccessfullyAppliedSpec_def insertSpec_def)
  moreover have "cr_scheduled ?st req = Some entry" "cr_cron ?st entry = Some old"
    using assms(8) by (simp_all add: reschedule_def)
  moreover have "ContainsFinalizer (cb_Meta ?x) Finalizer" "om_DeletionTimestamp (cb_Meta ?x) = None"
    using assms(11,12) by (simp_all add: InsertLastSuccessfullyAppliedSpec_def insertSpec_def ContainsFinalizer_def)
  ultimately show ?thesis
    by (intro exI [of _ ?w'] exI [of _ ?x]) (auto intro!: applied_rests)
qed

text \<open>An update of a CronHotBackup that arrives while it is being scheduled is lost. When the
  specification changes between the first read of a reconciliation and the read before the
  annotation is written, the job runs with the old specification, while the resource is marked
  as applied with the new one: no later reconciliation of it changes the schedule.\<close>

theorem cron_update_lost:
  assumes "ce_GetCron env (0, []) req = Inr old" and "req = cronKey old"
    and "ContainsFinalizer (cb_Meta old) Finalizer" and "om_DeletionTimestamp (cb_Meta old) = None"
    and "\<not> IsSuccessfullyApplied (cb_Meta old)" and "\<not> chb_Suspend (cb_Spec old)"
    and "ce_ListHotBackups env (1, []) (om_Name (cb_Meta old)) (om_Namespace (cb_Meta old)) = Inr []"
    and "cr_scheduled st req = None" and "ce_AddFunc env (cr_cron st) (chb_Schedule (cb_Spec old)) = Inr entry"
    and "ce_GetCron env (2, []) req = Inr new" and "ContainsFinalizer (cb_Meta new) Finalizer"
    and "om_DeletionTimestamp (cb_Meta new) = None" and "ce_MarshalSpec env (cb_Spec new) = Inr js"
    and "\<And>c. ce_call env (3, []) c = None"
  shows "\<exists>w' x. CronHotBackupReconciler_Reconcile env req \<lparr> cw_state = st, cw_reads = 0, cw_trace = [] \<rparr> = (Inr (), w') \<and>
    cr_scheduled (cw_state w') req = Some entry \<and> cr_cron (cw_state w') entry = Some old \<and>
    cw_trace w' = [(UpdateCron x, True)] \<and> cb_Spec x = cb_Spec new \<and>
    (\<forall>env' n tr. ce_MarshalSpec env' = ce_MarshalSpec env \<longrightarrow> ce_GetCron env' (n, tr) req = Inr x \<longrightarrow>
       cw_state (snd (CronHotBackupReconciler_Reconcile env' req
         \<lparr> cw_state = cw_state w', cw_reads = n, cw_trace = tr \<rparr>)) = cw_state w')"
  by (rule update_lost [OF assms])

subsection \<open>A run\<close>

text \<open>A CronHotBackup without backups whose specification changes after the first read.\<close>

definition sample_cron_spec :: CronHotBackupSpec where
  "sample_cron_spec = \<lparr> chb_Schedule = ''@daily'', chb_TemplateAnnotations = Map.empty, chb_TemplateLabels = Map.empty,
     chb_TemplateSpec = \<lparr> hbsp_HazelcastResourceName = ''hz'', hbsp_BucketURI = [], hbsp_DeprecatedSecret = [],
       hbsp_SecretName = [] \<rparr>,
     chb_SuccessfulHotBackupsHistoryLimit = Some 5, chb_FailedHotBackupsHistoryLimit = Some 0, chb_Suspend = False \<rparr>"

definition sample_cron :: CronHotBackup where
  "sample_cron = \<lparr> cb_Meta = sample_meta\<lparr> om_Name := ''cron'', om_Finalizers := [Finalizer] \<rparr>, cb_Spec = sample_cron_spec \<rparr>"

definition sample_cron_hourly :: CronHotBackup where
  "sample_cron_hourly = sample_cron\<lparr> cb_Spec := sample_cron_spec\<lparr> chb_Schedule := ''@hourly'' \<rparr> \<rparr>"

definition sample_cron_deleted :: CronHotBackup where
  "sample_cron_deleted = sample_cron\<lparr> cb_Meta := (cb_Meta sample_cron)\<lparr> om_DeletionTimestamp := Some 1 \<rparr> \<rparr>"

definition sample_failed_backup :: HotBackup where
  "sample_failed_backup = \<lparr> hb_Meta = sample_meta\<lparr> om_Name := ''cron-1'' \<rparr>, hb_Spec = chb_TemplateSpec sample_cron_spec,
     hb_Status = \<lparr> hbs_State = HotBackupFailure, hbs_Message = [], hbs_BackupUUIDs = [] \<rparr> \<rparr>"

definition sample_cron_env :: cron_env where
  "sample_cron_env = \<lparr> ce_call = (\<lambda>_ _. None),
     ce_GetCron = (\<lambda>t _. Inr (if fst t = 0 then sample_cron else sample_cron_hourly)),
     ce_ListHotBackups = (\<lambda>_ _ _. Inr []), ce_ListHazelcast = (\<lambda>_ _. Inr [sample_hazelcast]),
     ce_AddFunc = (\<lambda>es _. if es 0 = None then Inr 0 else Inl (ErrOther [])), ce_Next = (\<lambda>_. Inr 1),
     ce_SetControllerReference = (\<lambda>_ hb. Inr hb), ce_order = (\<lambda>_ hbs. hbs),
     ce_SortSlice = sort_key (\<lambda>hb. om_CreationTimestamp (hb_Meta hb)), ce_Spare = (\<lambda>hbs. []),
     ce_MarshalSpec = (\<lambda>s. Inr (chb_Schedule s)), ce_retries = 4 \<rparr>"

lemma sample_cron_fresh: "fresh_entries sample_cron_env"
  by (auto simp: fresh_entries_def sample_cron_env_def split: if_splits)

lemma sample_cron_facts:
  "ce_GetCron sample_cron_env (0, []) req = Inr sample_cron"
  "ContainsFinalizer (cb_Meta sample_cron) Finalizer" "om_DeletionTimestamp (cb_Meta sample_cron) = None"
  "\<not> IsSuccessfullyApplied (cb_Meta sample_cron)" "\<not> chb_Suspend (cb_Spec sample_cron)"
  "ce_ListHotBackups sample_cron_env (1, []) name ns = Inr []"
  "cr_scheduled cron_initial req = None"
  "ce_AddFunc sample_cron_env (cr_cron cron_initial) sched = Inr 0"
  "ce_GetCron sample_cron_env (2, []) req = Inr sample_cron_hourly"
  "ContainsFinalizer (cb_Meta sample_cron_hourly) Finalizer"
  "om_DeletionTimestamp (cb_Meta sample_cron_hourly) = None"
  "ce_MarshalSpec sample_cron_env (cb_Spec sample_cron_hourly) = Inr ''@hourly''"
  "ce_call sample_cron_env (3, []) c = None"
  by (simp_all add: sample_cron_env_def sample_cron_hourly_def sample_cron_def sample_meta_def sample_cron_spec_def
      ContainsFinalizer_def IsSuccessfullyApplied_def cron_initial_def)

lemmas sample_cron_run = update_lost [OF sample_cron_facts(1) refl sample_cron_facts(2-13)]

theorem cron_update_lost_witness:
  "\<exists>w' x. CronHotBackupReconciler_Reconcile sample_cron_env (cronKey sample_cron)
       \<lparr> cw_state = cron_initial, cw_reads = 0, cw_trace = [] \<rparr> = (Inr (), w') \<and>
     cr_cron (cw_state w') 0 = Some sample_cron \<and> cb_Spec x = cb_Spec sample_cron_hourly \<and>
     cw_trace w' = [(UpdateCron x, True)]"
  using cron_update_lost [OF sample_cron_facts(1) refl sample_cron_facts(2-13)] by blast

theorem one_cron_job_witness:
  "\<exists>r :: CronHotBackupReconciler. cr_cron r 0 = Some sample_cron \<and>
     {e. map_option cronKey (cr_cron r e) = Some (cronKey sample_cron)} = set_option (cr_scheduled r (cronKey sample_cron))"
proof -
  let ?r = "cw_state (snd (CronHotBackupReconciler_Reconcile sample_cron_env (cronKey sample_cron)
      \<lparr> cw_state = cron_initial, cw_reads = 0, cw_trace = [] \<rparr>))"
  have reach: "cron_reachable ?r" by (rule cron_reachable.intros(2) [OF cron_reachable.start sample_cron_fresh])
  have job: "cr_cron ?r 0 = Some sample_cron" using sample_cron_run by fastforce
  show ?thesis by (rule exI [of _ ?r], rule conjI [OF job one_cron_job [OF reach]])
qed

theorem cron_retention_witness:
  "\<exists>w' evs dels. cleanupResources (sample_cron_env\<lparr> ce_ListHotBackups := (\<lambda>_ _ _. Inr [sample_failed_backup]) \<rparr>) sample_cron
       \<lparr> cw_state = cron_initial, cw_reads = 0, cw_trace = [] \<rparr> = (Inr (), w') \<and>
     map fst evs = map DeleteHotBackup dels \<and> cw_trace w' = evs \<and> pruned 0 [sample_failed_backup] dels"
proof -
  let ?env = "sample_cron_env\<lparr> ce_ListHotBackups := (\<lambda>_ _ _. Inr [sample_failed_backup]) \<rparr>"
  let ?w = "\<lparr> cw_state = cron_initial, cw_reads = 0, cw_trace = [] \<rparr>"
  have state: "hbs_State (hb_Status sample_failed_backup) = HotBackupFailure" by (simp add: sample_failed_backup_def)
  have env: "sorts_by_age (ce_SortSlice ?env)" "ce_ListHotBackups ?env t n ns = Inr [sample_failed_backup]"
      "ce_ListHazelcast ?env t ns = Inr [sample_hazelcast]" for t n ns
    by (simp_all add: sorts_by_age_def sample_cron_env_def)
  have limits: "chb_FailedHotBackupsHistoryLimit (cb_Spec sample_cron) = Some 0" "0 \<le> sint (0 :: int32)"
      "chb_SuccessfulHotBackupsHistoryLimit (cb_Spec sample_cron) = Some 5" "0 \<le> sint (5 :: int32)"
    by (simp_all add: sample_cron_def sample_cron_spec_def)
  obtain w' evs dels dels' where run: "cleanupResources ?env sample_cron ?w = (Inr (), w')"
    "cw_trace w' = [] @ evs" "map fst evs = map DeleteHotBackup (dels @ dels')"
    "pruned 0 [sample_failed_backup] dels" "pruned (nat (sint (5 :: int32))) [] dels'"
    using cron_retention [OF env(1) env(2) env(3) limits, of ?w] by (auto simp: state)
  then have "dels' = []" by (simp add: pruned_def)
  with run show ?thesis by (intro exI [of _ w'] exI [of _ evs] exI [of _ dels]) simp
qed

theorem cron_finalizer_last_witness:
  "\<exists>w' x k. CronHotBackupReconciler_Reconcile (sample_cron_env\<lparr> ce_GetCron := (\<lambda>_ _. Inr sample_cron_deleted) \<rparr>)
       (cronKey sample_cron_deleted) \<lparr> cw_state = cron_initial, cw_reads = 0, cw_trace = [] \<rparr> = (Inr (), w') \<and>
     cw_trace w' = [(UpdateCron x, True)] \<and> cr_scheduled (cw_state w') (cronKey sample_cron_deleted) = None"
proof -
  let ?env = "sample_cron_env\<lparr> ce_GetCron := (\<lambda>_ _. Inr sample_cron_deleted) \<rparr>"
  let ?x = "sample_cron_deleted\<lparr> cb_Meta := RemoveFinalizer (cb_Meta sample_cron_deleted) Finalizer \<rparr>"
  have del: "om_DeletionTimestamp (cb_Meta sample_cron_deleted) \<noteq> None"
      "ContainsFinalizer (cb_Meta sample_cron_deleted) Finalizer"
    by (simp_all add: sample_cron_deleted_def sample_cron_def ContainsFinalizer_def)
  obtain w' where run: "CronHotBackupReconciler_Reconcile ?env (cronKey sample_cron_deleted)
      \<lparr> cw_state = cron_initial, cw_reads = 0, cw_trace = [] \<rparr> = (Inr (), w')" "cw_trace w' = [(UpdateCron ?x, True)]"
    using del
    by (simp add: CronHotBackupReconciler_Reconcile_def util_AddFinalizer_def action_simps cron_executeFinalizer_def
        removeSchedule_def deleteDependentHotBackups_def catchA_def invokeA_def sample_cron_env_def moment_def Let_def)
  from cron_finalizer_last [of ?env 0 "cronKey sample_cron_deleted" sample_cron_deleted cron_initial "Inr ()" w' "[]" ?x True "[]"]
    run del show ?thesis by auto
qed

end
