(* ===== verification/Member_Backup.thy ===== *)
theory Member_Backup
  imports Calls Wan_Names
begin

text \<open>
  The parts of a hot backup below its controller: the backup of the cluster
  (\<^verbatim>\<open>internal/backup/backup.go\<close>), the upload of a member's backup (\<^verbatim>\<open>internal/upload/upload.go\<close>) and
  the local backups (\<^verbatim>\<open>internal/local_backup/local_backup.go\<close>).

  The two polling loops are \<open>partial_function\<close>s over the sequence of answers: \<open>None\<close> is a loop
  that never ends. \<open>cancelled i\<close> is what \<^verbatim>\<open>select\<close> finds after the i-th poll: the error of a cancelled
  context, or that the second has passed.
\<close>

subsection \<open>Members\<close>

datatype ClusterState = ClusterStateActive | ClusterStateNoMigration | ClusterStateFrozen
  | ClusterStatePassive | ClusterStateInTransition

record MemberBackup =
  mb_UUID :: string
  mb_Address :: string

definition errMemberBackupFailed :: go_error where
  "errMemberBackupFailed = ErrOther ''member backup failed''"

definition errMemberBackupStateFailed :: go_error where
  "errMemberBackupStateFailed = ErrOther ''member backup state update failed''"

definition errMemberBackupNoTask :: go_error where
  "errMemberBackupNoTask = ErrOther ''member backup state indicates no task started''"

partial_function (option) MemberBackup_Wait ::
    "(nat \<Rightarrow> string option) \<Rightarrow> (nat \<Rightarrow> go_error option) \<Rightarrow> nat \<Rightarrow> nat \<Rightarrow> go_error option option" where
  "MemberBackup_Wait state cancelled n i =
     (case state i of
        None \<Rightarrow> Some (Some errMemberBackupStateFailed)
      | Some s \<Rightarrow>
          if s = ''FAILURE'' then Some (Some errMemberBackupFailed)
          else if s = ''SUCCESS'' then Some None
          else if s = ''NO_TASK'' then
            (if n > 10 then Some (Some errMemberBackupNoTask)
             else case cancelled i of Some e \<Rightarrow> Some (Some e) | None \<Rightarrow> MemberBackup_Wait state cancelled (n + 1) (i + 1))
          else if s = ''IN_PROGRESS'' then
            (case cancelled i of Some e \<Rightarrow> Some (Some e) | None \<Rightarrow> MemberBackup_Wait state cancelled n (i + 1))
          else Some (Some (ErrOther (''backup unknown status: '' @ s))))"

subsection \<open>Uploads\<close>

record UploadConfig =
  uc_MemberAddress :: string
  uc_BucketURI :: string
  uc_BackupBaseDir :: string
  uc_HazelcastName :: string
  uc_SecretName :: string
  uc_MemberID :: nat

text \<open>\<open>up_service\<close> is the agent that the requests of the upload go to, the one beside the member.\<close>

record Upload =
  up_service :: string
  up_uploadID :: "string option"
  up_Config :: UploadConfig

definition errUploadNotStarted :: go_error where
  "errUploadNotStarted = ErrOther ''upload not started''"

definition errUploadAlreadyStarted :: go_error where
  "errUploadAlreadyStarted = ErrOther ''upload already started''"

text \<open>\<open>parses\<close> is \<^verbatim>\<open>url.Parse\<close> on the address of the agent.\<close>

definition agentHost :: "(string \<Rightarrow> go_error option) \<Rightarrow> string \<Rightarrow> go_error + string" where
  "agentHost parses memberAddress =
     (case SplitHostPort memberAddress of
        None \<Rightarrow> Inl (ErrOther ''address error'')
      | Some (host, port) \<Rightarrow> (case parses host of Some e \<Rightarrow> Inl e | None \<Rightarrow> Inr host))"

definition NewUpload :: "(string \<Rightarrow> go_error option) \<Rightarrow> UploadConfig \<Rightarrow> go_error + Upload" where
  "NewUpload parses config =
     (case agentHost parses (uc_MemberAddress config) of
        Inl e \<Rightarrow> Inl e
      | Inr host \<Rightarrow> Inr \<lparr> up_service = host, up_uploadID = None, up_Config = config \<rparr>)"

text \<open>An answer to a status poll: the status, the message and the key of the stored backup.\<close>

partial_function (option) Upload_poll ::
    "(nat \<Rightarrow> go_error + string \<times> string \<times> string) \<Rightarrow> (nat \<Rightarrow> go_error option) \<Rightarrow> nat \<Rightarrow> (go_error + string) option" where
  "Upload_poll status cancelled i =
     (case status i of
        Inl e \<Rightarrow> Some (Inl e)
      | Inr (s, msg, key) \<Rightarrow>
          if s = ''CANCELED'' then Some (Inl (ErrOther (''Upload canceled: '' @ msg)))
          else if s = ''FAILURE'' then Some (Inl (ErrOther (''Upload failed: '' @ msg)))
          else if s = ''SUCCESS'' then Some (Inr key)
          else if s = ''IN_PROGRESS'' then
            (case cancelled i of Some e \<Rightarrow> Some (Inl e) | None \<Rightarrow> Upload_poll status cancelled (i + 1))
          else Some (Inl (ErrOther (''Upload unknown status: '' @ s))))"

definition Upload_Wait :: "Upload \<Rightarrow> (nat \<Rightarrow> go_error + string \<times> string \<times> string) \<Rightarrow> (nat \<Rightarrow> go_error option) \<Rightarrow>
    (go_error + string) option" where
  "Upload_Wait u status cancelled =
     (case up_uploadID u of
        None \<Rightarrow> Some (Inl errUploadNotStarted)
      | Some uid \<Rightarrow> Upload_poll status cancelled 0)"

subsection \<open>Local backups\<close>

definition GetLatestLocalBackup :: "go_error + string list \<Rightarrow> go_error + string" where
  "GetLatestLocalBackup answer =
     (case answer of
        Inl e \<Rightarrow> Inl e
      | Inr backups \<Rightarrow> if backups = [] then Inl (ErrOther ''there are no local backups'')
                       else Inr (backups ! (length backups - 1)))"

subsection \<open>When the loops end\<close>

text \<open>The verdict of one poll: \<open>None\<close> is to wait and poll again. \<open>n\<close> is the number of earlier polls that
  found no task.\<close>

definition verdict :: "(nat \<Rightarrow> string option) \<Rightarrow> (nat \<Rightarrow> go_error option) \<Rightarrow> nat \<Rightarrow> nat \<Rightarrow> go_error option option" where
  "verdict state cancelled n i =
     (if state i = Some ''SUCCESS'' then Some None
      else if state i = Some ''IN_PROGRESS'' \<or> state i = Some ''NO_TASK'' \<and> n \<le> 10 then map_option Some (cancelled i)
      else Some (Some (case state i of
        None \<Rightarrow> errMemberBackupStateFailed
      | Some s \<Rightarrow> if s = ''FAILURE'' then errMemberBackupFailed
                  else if s = ''NO_TASK'' then errMemberBackupNoTask
                  else ErrOther (''backup unknown status: '' @ s))))"

definition noTasks :: "(nat \<Rightarrow> string option) \<Rightarrow> nat \<Rightarrow> nat \<Rightarrow> nat" where
  "noTasks state i j = card {k \<in> {i ..< j}. state k = Some ''NO_TASK''}"

lemma range_Suc: "i < j \<Longrightarrow> {i ..< j} = insert i {Suc i ..< j}"
  by auto

lemma noTasks_Suc:
  assumes "i < j"
  shows "noTasks state i j = (if state i = Some ''NO_TASK'' then 1 else 0) + noTasks state (Suc i) j"
proof -
  have "{k \<in> {i ..< j}. state k = Some ''NO_TASK''} =
      (if state i = Some ''NO_TASK'' then insert i else id) {k \<in> {Suc i ..< j}. state k = Some ''NO_TASK''}"
    by (auto simp: range_Suc [OF assms])
  then show ?thesis by (simp add: noTasks_def)
qed

lemma noTasks_empty [simp]: "noTasks state i i = 0"
  by (simp add: noTasks_def)

lemma Wait_step:
  "MemberBackup_Wait state cancelled n i =
     (case verdict state cancelled n i of
        Some y \<Rightarrow> Some y
      | None \<Rightarrow> MemberBackup_Wait state cancelled (n + (if state i = Some ''NO_TASK'' then 1 else 0)) (Suc i))"
  by (subst MemberBackup_Wait.simps) (auto simp: verdict_def split: option.split)

text \<open>\<open>firstVerdict\<close>: the first poll with a verdict, from poll \<open>i\<close> on.\<close>

definition firstVerdict :: "(nat \<Rightarrow> string option) \<Rightarrow> (nat \<Rightarrow> go_error option) \<Rightarrow> nat \<Rightarrow> nat \<Rightarrow> nat \<Rightarrow>
    go_error option \<Rightarrow> bool" where
  "firstVerdict state cancelled n i j y \<longleftrightarrow> i \<le> j \<and> verdict state cancelled (n + noTasks state i j) j = Some y \<and>
     (\<forall>k \<in> {i ..< j}. verdict state cancelled (n + noTasks state i k) k = None)"

lemma firstVerdict_later:
  assumes "verdict state cancelled n i = None"
    and "firstVerdict state cancelled (n + (if state i = Some ''NO_TASK'' then 1 else 0)) (Suc i) j y"
  shows "firstVerdict state cancelled n i j y"
proof -
  from assms(2) have "i < j" by (simp add: firstVerdict_def)
  moreover have "n + noTasks state i k = n + (if state i = Some ''NO_TASK'' then 1 else 0) + noTasks state (Suc i) k"
    if "i < k" for k using noTasks_Suc [OF that] by simp
  ultimately show ?thesis
    using assms unfolding firstVerdict_def by (auto simp: range_Suc)
qed

lemma Wait_sound: "MemberBackup_Wait state cancelled n i = Some y \<Longrightarrow> \<exists>j. firstVerdict state cancelled n i j y"
proof (induction rule: MemberBackup_Wait.raw_induct [rotated, consumes 1, case_names step])
  case (step W state cancelled n i y)
  show ?case
  proof (cases "verdict state cancelled n i")
    case (Some z)
    with step(2) have "z = y" by (auto simp: verdict_def split: option.splits if_splits)
    with Some have "firstVerdict state cancelled n i i y" by (simp add: firstVerdict_def)
    then show ?thesis ..
  next
    case None
    with step(2) have "W state cancelled (n + (if state i = Some ''NO_TASK'' then 1 else 0)) (Suc i) = Some y"
      by (auto simp: verdict_def split: option.splits if_splits)
    from step(1) [OF this] firstVerdict_later [OF None] show ?thesis by blast
  qed
qed

lemma Wait_complete: "firstVerdict state cancelled n i j y \<Longrightarrow> MemberBackup_Wait state cancelled n i = Some y"
proof (induction "j - i" arbitrary: i n)
  case 0
  then have "i = j" by (simp add: firstVerdict_def)
  with 0 show ?case by (subst Wait_step) (simp add: firstVerdict_def)
next
  case (Suc m)
  then have "i < j" by simp
  then have now: "verdict state cancelled n i = None" using Suc.prems by (force simp: firstVerdict_def)
  define d :: nat where "d = (if state i = Some ''NO_TASK'' then 1 else 0)"
  have shift: "n + d + noTasks state (Suc i) k = n + noTasks state i k" if "i < k" for k
    using noTasks_Suc [OF that] by (simp add: d_def)
  have "firstVerdict state cancelled (n + d) (Suc i) j y"
    using Suc.prems \<open>i < j\<close> unfolding firstVerdict_def by (auto simp: shift)
  with Suc.hyps show ?case by (subst Wait_step) (simp add: now d_def)
qed

lemma Wait_iff: "MemberBackup_Wait state cancelled n i = Some y \<longleftrightarrow> (\<exists>j. firstVerdict state cancelled n i j y)"
  using Wait_sound Wait_complete by blast

lemma verdict_success: "verdict state cancelled n i = Some None \<longleftrightarrow> state i = Some ''SUCCESS''"
  by (simp add: verdict_def)

text \<open>\<open>waitsAt\<close>: the poll asks for another one.\<close>

definition waitsAt :: "(nat \<Rightarrow> string option) \<Rightarrow> (nat \<Rightarrow> go_error option) \<Rightarrow> nat \<Rightarrow> bool" where
  "waitsAt state cancelled k \<longleftrightarrow> cancelled k = None \<and>
     (state k = Some ''IN_PROGRESS'' \<or> state k = Some ''NO_TASK'' \<and> noTasks state 0 k \<le> 10)"

lemma verdict_None: "verdict state cancelled (noTasks state 0 k) k = None \<longleftrightarrow> waitsAt state cancelled k"
  by (auto simp: verdict_def waitsAt_def)

text \<open>C24: waiting for the backup of a member. The wait succeeds exactly when some poll reports
  success and every earlier one asked for another poll; it never returns exactly when all
  polls do, and a poll that finds no task may do so only ten times before.\<close>

theorem member_wait:
  "(MemberBackup_Wait state cancelled 0 0 = Some None \<longleftrightarrow>
      (\<exists>j. state j = Some ''SUCCESS'' \<and> (\<forall>k < j. waitsAt state cancelled k))) \<and>
   (MemberBackup_Wait state cancelled 0 0 = None \<longleftrightarrow> (\<forall>k. waitsAt state cancelled k))"
proof
  show "MemberBackup_Wait state cancelled 0 0 = Some None \<longleftrightarrow>
      (\<exists>j. state j = Some ''SUCCESS'' \<and> (\<forall>k < j. waitsAt state cancelled k))"
    by (simp add: Wait_iff firstVerdict_def verdict_success verdict_None Ball_def)
  have "(\<exists>k. \<not> waitsAt state cancelled k) \<longleftrightarrow>
      (\<exists>k. \<not> waitsAt state cancelled k \<and> (\<forall>m < k. waitsAt state cancelled m))"
    using exists_least_iff [of "\<lambda>k. \<not> waitsAt state cancelled k"] by simp
  also have "\<dots> \<longleftrightarrow> (\<exists>j y. firstVerdict state cancelled 0 0 j y)"
    by (auto simp: firstVerdict_def verdict_None Ball_def simp flip: verdict_None)
  also have "\<dots> \<longleftrightarrow> MemberBackup_Wait state cancelled 0 0 \<noteq> None"
    by (metis Wait_iff not_None_eq)
  finally show "MemberBackup_Wait state cancelled 0 0 = None \<longleftrightarrow> (\<forall>k. waitsAt state cancelled k)" by blast
qed

theorem member_wait_witness:
  "MemberBackup_Wait (\<lambda>i. Some (if i = 0 then ''NO_TASK'' else ''SUCCESS'')) (\<lambda>_. None) 0 0 = Some None"
proof -
  let ?s = "\<lambda>i :: nat. Some (if i = 0 then ''NO_TASK'' else ''SUCCESS'')"
  have "?s 1 = Some ''SUCCESS'' \<and> (\<forall>k < 1. waitsAt ?s (\<lambda>_. None) k)" by (simp add: waitsAt_def)
  then show ?thesis using member_wait [of ?s "\<lambda>_. None"] by blast
qed

end
