(* ===== verification/Hot_Backup.thy ===== *)
theory Hot_Backup
  imports Member_Backup Resource_Validation
begin

text \<open>
  The HotBackup controller (\<^verbatim>\<open>hot_backup_controller.go\<close>, \<^verbatim>\<open>hot_backup_status.go\<close>): the
  reconciliation, which decides whether a backup is started, and the backup itself, which runs
  in its own goroutine: the cluster is made passive, every member writes its backup, the
  backups are found or uploaded, and the outcome is stored in the status.

  A goroutine of an \<^verbatim>\<open>errgroup\<close> runs as one step of \<open>groupA\<close>, in an order the environment chooses; a
  loop that never returns ends the computation like a panic.
\<close>

subsection \<open>State, calls, environment\<close>

record HotBackupReconciler =
  hr_cancelMap :: "NamespacedName set"
  hr_backup :: "NamespacedName set"
  hr_started :: "(NamespacedName \<times> bool \<times> NamespacedName) list"

text \<open>\<open>hr_started\<close> records the goroutines \<^verbatim>\<open>startBackup\<close> that were launched, with their arguments; the
  remaining fields are the fields of \<^verbatim>\<open>HotBackupReconciler\<close>.\<close>

datatype hb_call =
    UpdateHotBackup HotBackup
  | StatusUpdateHotBackup HotBackup
  | CancelContext NamespacedName
  | ChangeClusterState ClusterState
  | TriggerHotRestartBackup
  | InterruptHotRestartBackup
  | UploadStart UploadConfig
  | UploadCancel string string
  | UploadDelete string string
  | UploadCleanup string string

record hb_env =
  he_call :: "hb_call moment \<Rightarrow> hb_call \<Rightarrow> go_error option"
  he_GetHotBackup :: "hb_call moment \<Rightarrow> NamespacedName \<Rightarrow> go_error + HotBackup"
  he_GetHazelcast :: "hb_call moment \<Rightarrow> NamespacedName \<Rightarrow> go_error + Hazelcast"
  he_GetOrCreateClient :: "hb_call moment \<Rightarrow> NamespacedName \<Rightarrow> go_error + unit"
  he_StatusService :: "hb_call moment \<Rightarrow> NamespacedName \<Rightarrow> bool"
  he_MemberDataMap :: "hb_call moment \<Rightarrow> MemberBackup list option"
  he_rangeMembers :: "hb_call moment \<Rightarrow> MemberBackup list \<Rightarrow> MemberBackup list"
  he_order :: "hb_call moment \<Rightarrow> nat list \<Rightarrow> nat list"
  he_BackupTaskState :: "hb_call moment \<Rightarrow> MemberBackup \<Rightarrow> nat \<Rightarrow> string option"
  he_ctxDone :: "hb_call moment \<Rightarrow> nat \<Rightarrow> go_error option"
  he_MtlsClient :: "hb_call moment \<Rightarrow> string \<Rightarrow> go_error + unit"
  he_BaseDir :: "hb_call moment \<Rightarrow> NamespacedName \<Rightarrow> go_error + string"
  he_LocalBackups :: "hb_call moment \<Rightarrow> string \<Rightarrow> string \<Rightarrow> nat \<Rightarrow> go_error + string list"
  he_ParseUrl :: "string \<Rightarrow> go_error option"
  he_UploadID :: "hb_call moment \<Rightarrow> UploadConfig \<Rightarrow> string"
  he_UploadStatus :: "hb_call moment \<Rightarrow> string \<Rightarrow> string \<Rightarrow> nat \<Rightarrow> go_error + string \<times> string \<times> string"
  he_IsCanceled :: "go_error \<Rightarrow> bool"
  he_validation :: validation_env
  he_ErrText :: "validation_error \<Rightarrow> string"
  he_MarshalSpec :: "HotBackupSpec \<Rightarrow> go_error + string"
  he_retries :: nat
  he_backoffSteps :: nat

type_synonym 's hb_result = "('s, hb_call, Result \<times> go_error option) proc"

subsection \<open>Status (hot\_backup\_status.go)\<close>

datatype HotBackupStatusApplier =
    withHotBackupState HotBackupState
  | withHotBackupFailedState string
  | withHotBackupMessage string
  | withHotBackupBackupUUIDs "string list"

fun HotBackupStatusApply :: "HotBackupStatusApplier \<Rightarrow> HotBackupStatus \<Rightarrow> HotBackupStatus" where
  "HotBackupStatusApply (withHotBackupState s) ms =
     (let ms' = ms\<lparr> hbs_State := s \<rparr>
      in if s = HotBackupSuccess then ms'\<lparr> hbs_Message := [] \<rparr> else ms')"
| "HotBackupStatusApply (withHotBackupFailedState t) ms = ms\<lparr> hbs_State := HotBackupFailure, hbs_Message := t \<rparr>"
| "HotBackupStatusApply (withHotBackupMessage t) ms = ms\<lparr> hbs_Message := t \<rparr>"
| "HotBackupStatusApply (withHotBackupBackupUUIDs us) ms = ms\<lparr> hbs_BackupUUIDs := us \<rparr>"

definition HotBackupZero :: HotBackup where
  "HotBackupZero = \<lparr> hb_Meta = \<lparr> om_Name = [], om_Namespace = [], om_UID = [], om_Annotations = Map.empty,
       om_Finalizers = [], om_OwnerReferences = [], om_DeletionTimestamp = None, om_CreationTimestamp = 0 \<rparr>,
     hb_Spec = \<lparr> hbsp_HazelcastResourceName = [], hbsp_BucketURI = [], hbsp_DeprecatedSecret = [], hbsp_SecretName = [] \<rparr>,
     hb_Status = \<lparr> hbs_State = HotBackupStateUnset, hbs_Message = [], hbs_BackupUUIDs = [] \<rparr> \<rparr>"

text \<open>The closure of \<^verbatim>\<open>RetryOnConflict\<close> writes the variable \<^verbatim>\<open>hb\<close>, which is read afterwards: the loop
  returns it with the error.\<close>

fun statusLoop :: "hb_env \<Rightarrow> NamespacedName \<Rightarrow> HotBackupStatusApplier list \<Rightarrow> nat \<Rightarrow> HotBackup \<Rightarrow>
    ('s, hb_call, HotBackup \<times> go_error option) proc" where
  "statusLoop env name options n hb =
     tryA (observeA (\<lambda>t. he_GetHotBackup env t name)) (\<lambda>r.
       case r of
         Inl e \<Rightarrow> (case n of Suc k \<Rightarrow> if ErrIsConflict e then statusLoop env name options k hb else returnA (hb, Some e)
                  | 0 \<Rightarrow> returnA (hb, Some e))
       | Inr got \<Rightarrow>
           (let hb' = got\<lparr> hb_Status := fold HotBackupStatusApply options (hb_Status got) \<rparr>
            in tryA (invokeA (he_call env) (StatusUpdateHotBackup hb')) (\<lambda>r.
               case r of
                 Inr _ \<Rightarrow> returnA (hb', None)
               | Inl e \<Rightarrow> (case n of Suc k \<Rightarrow> if ErrIsConflict e then statusLoop env name options k hb' else returnA (hb', Some e)
                          | 0 \<Rightarrow> returnA (hb', Some e)))))"

declare statusLoop.simps [simp del]

definition HotBackup_updateStatus :: "hb_env \<Rightarrow> NamespacedName \<Rightarrow> ReconcilerOption \<Rightarrow> HotBackupStatusApplier list \<Rightarrow>
    's hb_result" where
  "HotBackup_updateStatus env name recOption options =
     bindA (statusLoop env name options (he_retries env) HotBackupZero) (\<lambda>(hb, err).
       case ro_Err recOption of
         Some e \<Rightarrow> returnA (ResultZero, Some e)
       | None \<Rightarrow> if hbs_State (hb_Status hb) = HotBackupPending
                 then returnA (\<lparr> res_Requeue = True, res_RequeueAfter = 1000000000 \<rparr>, None)
                 else returnA (ResultZero, err))"

definition failHB :: "hb_env \<Rightarrow> NamespacedName \<Rightarrow> go_error \<Rightarrow> 's hb_result" where
  "failHB env name e = HotBackup_updateStatus env name (ro_error e) [withHotBackupFailedState (error_text e)]"

subsection \<open>Reconcile\<close>

type_synonym 'a hb_proc = "(HotBackupReconciler, hb_call, 'a) proc"

definition checkBackup :: "NamespacedName \<Rightarrow> HotBackupReconciler \<Rightarrow> bool" where
  "checkBackup name r = (name \<in> hr_backup r)"

definition lockBackup :: "NamespacedName \<Rightarrow> HotBackupReconciler \<Rightarrow> HotBackupReconciler" where
  "lockBackup name r = r\<lparr> hr_backup := insert name (hr_backup r) \<rparr>"

definition unlockBackup :: "NamespacedName \<Rightarrow> HotBackupReconciler \<Rightarrow> HotBackupReconciler" where
  "unlockBackup name r = r\<lparr> hr_backup := hr_backup r - {name} \<rparr>"

definition hb_updateLastSuccessfulConfiguration :: "hb_env \<Rightarrow> NamespacedName \<Rightarrow> unit hb_proc" where
  "hb_updateLastSuccessfulConfiguration env name = RetryOnConflict (he_retries env)
     (bindA (observeA (\<lambda>t. he_GetHotBackup env t name)) (\<lambda>hb.
      invokeA (he_call env) (UpdateHotBackup (hb\<lparr> hb_Meta := InsertLastSuccessfullyAppliedSpec
        (\<lambda>spec. case he_MarshalSpec env spec of Inl _ \<Rightarrow> [] | Inr js \<Rightarrow> js) (hb_Spec hb) (hb_Meta hb) \<rparr>))))"

definition validatedA :: "hb_env \<Rightarrow> validation_error option go \<Rightarrow> unit hb_proc" where
  "validatedA env r = (case r of
     None \<Rightarrow> throwA (ErrPanic ''panic'')
   | Some None \<Rightarrow> returnA ()
   | Some (Some err) \<Rightarrow> throwA (ErrOther (he_ErrText env err)))"

definition hb_executeFinalizer :: "hb_env \<Rightarrow> HotBackup \<Rightarrow> unit hb_proc" where
  "hb_executeFinalizer env hb =
     (let key = \<lparr> nn_Name = om_Name (hb_Meta hb), nn_Namespace = om_Namespace (hb_Meta hb) \<rparr>
      in if \<not> ContainsFinalizer (hb_Meta hb) Finalizer then returnA ()
         else bindA (validatedA env (ValidateHotBackupIsNotReferencedByHazelcast (he_validation env) hb)) (\<lambda>_.
              bindA (stateA (\<lambda>r. key \<in> hr_cancelMap r)) (\<lambda>running.
              bindA (if running
                     then bindA (tryA (invokeA (he_call env) (CancelContext key)) (\<lambda>_. returnA ())) (\<lambda>_.
                          changeA (\<lambda>r. r\<lparr> hr_cancelMap := hr_cancelMap r - {key} \<rparr>))
                     else returnA ()) (\<lambda>_.
              bindA (changeA (unlockBackup key)) (\<lambda>_.
              catchA (invokeA (he_call env) (UpdateHotBackup (hb\<lparr> hb_Meta := RemoveFinalizer (hb_Meta hb) Finalizer \<rparr>)))
                (\<lambda>e. throwA (wrapErr ''failed to remove finalizer from custom resource: '' e)) returnA)))))"

text \<open>The part of \<^verbatim>\<open>Reconcile\<close> that starts the backup.\<close>

definition launch :: "hb_env \<Rightarrow> NamespacedName \<Rightarrow> HotBackup \<Rightarrow> NamespacedName \<Rightarrow> HotBackupReconciler hb_result" where
  "launch env req hb hazelcastName =
     bindA (changeA (\<lambda>r. r\<lparr> hr_cancelMap := insert req (hr_cancelMap r) \<rparr>)) (\<lambda>_.
     bindA (HotBackup_updateStatus env req ro_empty [withHotBackupState HotBackupNotStarted]) (\<lambda>(result, err).
     if err \<noteq> None then returnA (result, err)
     else bindA (changeA (lockBackup req)) (\<lambda>_.
          bindA (changeA (\<lambda>r. r\<lparr> hr_started := hr_started r @ [(req, HotBackupSpec_IsExternal (hb_Spec hb), hazelcastName)] \<rparr>)) (\<lambda>_.
          returnA (result, None)))))"

text \<open>The part of \<^verbatim>\<open>Reconcile\<close> for a backup that was neither started nor finished.\<close>

definition startIfReady :: "hb_env \<Rightarrow> NamespacedName \<Rightarrow> HotBackup \<Rightarrow> HotBackupReconciler hb_result" where
  "startIfReady env req hb =
     (case he_MarshalSpec env (hb_Spec hb) of
        Inl e \<Rightarrow> HotBackup_updateStatus env req (ro_error (wrapErr ''error marshaling Hot Backup as JSON: '' e))
                   [withHotBackupFailedState (error_text e)]
      | Inr hs \<Rightarrow>
          if om_Annotations (hb_Meta hb) LastSuccessfulSpecAnnotation = Some hs then returnA (ResultZero, None)
          else (let hazelcastName = \<lparr> nn_Name = hbsp_HazelcastResourceName (hb_Spec hb), nn_Namespace = nn_Namespace req \<rparr>;
                    pending = HotBackup_updateStatus env req ro_empty [withHotBackupState HotBackupPending]
                in catchA (observeA (\<lambda>t. he_GetHazelcast env t hazelcastName)) (\<lambda>_. pending) (\<lambda>h.
                   if hst_Phase (h_Status h) \<noteq> Running then pending
                   else catchA (validatedA env (ValidateHotBackupPersistence (he_validation env) hb h))
                          (failHB env req) (\<lambda>_.
                        catchA (hb_updateLastSuccessfulConfiguration env req)
                          (\<lambda>e. returnA (ResultZero, Some e)) (\<lambda>_.
                        launch env req hb hazelcastName)))))"

definition HotBackupReconciler_Reconcile :: "hb_env \<Rightarrow> NamespacedName \<Rightarrow> HotBackupReconciler hb_result" where
  "HotBackupReconciler_Reconcile env req =
     catchA (observeA (\<lambda>t. he_GetHotBackup env t req))
       (\<lambda>e. if ErrIsNotFound e then returnA (ResultZero, None) else failHB env req e) (\<lambda>hb0.
     catchA (util_AddFinalizer (\<lambda>m. invokeA (he_call env) (UpdateHotBackup (hb0\<lparr> hb_Meta := m \<rparr>))) (hb_Meta hb0))
       (failHB env req) (\<lambda>m.
     let hb = hb0\<lparr> hb_Meta := m \<rparr>; state = hbs_State (hb_Status hb0)
     in if om_DeletionTimestamp m \<noteq> None
        then catchA (hb_executeFinalizer env hb) (failHB env req) (\<lambda>_. returnA (ResultZero, None))
        else bindA (stateA (checkBackup req)) (\<lambda>locked.
          if HotBackupState_IsRunning state \<or> locked then returnA (ResultZero, None)
          else if HotBackupState_IsFinished state then returnA (ResultZero, None)
          else startIfReady env req hb)))"

subsection \<open>The backup (startBackup)\<close>

text \<open>The variables of one \<^verbatim>\<open>startBackup\<close>: \<^verbatim>\<open>cancelOnce\<close> of the cluster backup, the uploads and the ids of
  the backups.\<close>

record backup_run =
  br_cancelled :: bool
  br_uploads :: "Upload list"
  br_finishedUploads :: "Upload list"
  br_backupUUIDs :: "string list"

type_synonym 'a run_proc = "(backup_run, hb_call, 'a) proc"

text \<open>\<^verbatim>\<open>retry.OnError\<close> with a predicate that always holds: at most \<open>n\<close> repetitions.\<close>

fun retryOnError :: "nat \<Rightarrow> unit run_proc \<Rightarrow> unit run_proc" where
  "retryOnError 0 fn = fn"
| "retryOnError (Suc n) fn = tryA fn (\<lambda>r. case r of Inr x \<Rightarrow> returnA x | Inl e \<Rightarrow> retryOnError n fn)"

text \<open>\<^verbatim>\<open>ClusterBackup.Start\<close>: the deferred activation runs in every outcome, and its error is dropped.\<close>

definition ClusterBackup_Start :: "hb_env \<Rightarrow> unit run_proc" where
  "ClusterBackup_Start env =
     bindA (retryOnError (he_backoffSteps env) (invokeA (he_call env) (ChangeClusterState ClusterStatePassive))) (\<lambda>_.
     tryA (retryOnError (he_backoffSteps env) (invokeA (he_call env) TriggerHotRestartBackup)) (\<lambda>r.
     tryA (retryOnError (he_backoffSteps env) (invokeA (he_call env) (ChangeClusterState ClusterStateActive))) (\<lambda>_.
     case r of Inl e \<Rightarrow> throwA e | Inr x \<Rightarrow> returnA x)))"

definition ClusterBackup_Cancel :: "hb_env \<Rightarrow> unit run_proc" where
  "ClusterBackup_Cancel env = bindA (stateA br_cancelled) (\<lambda>already.
     if already then returnA ()
     else bindA (changeA (\<lambda>s. s\<lparr> br_cancelled := True \<rparr>)) (\<lambda>_.
          invokeA (he_call env) InterruptHotRestartBackup))"

definition returnsA :: "'a option \<Rightarrow> 'a run_proc" where
  "returnsA r = (case r of None \<Rightarrow> throwA (ErrPanic ''never returns'') | Some x \<Rightarrow> returnA x)"

text \<open>The goroutine that waits for one member.\<close>

definition waitMember :: "hb_env \<Rightarrow> MemberBackup \<Rightarrow> unit run_proc" where
  "waitMember env m =
     bindA (bindA (observeA (\<lambda>t. Inr (MemberBackup_Wait (he_BackupTaskState env t m) (he_ctxDone env t) 0 0))) returnsA) (\<lambda>r.
     case r of
       None \<Rightarrow> returnA ()
     | Some e \<Rightarrow> bindA (ClusterBackup_Cancel env) (\<lambda>_.
         throwA (wrapErr (''Backup error for member '' @ mb_UUID m @ '': '') e)))"

text \<open>The goroutine that finds or uploads the backup of member \<open>i\<close>.\<close>

definition setUUID :: "nat \<Rightarrow> string \<Rightarrow> unit run_proc" where
  "setUUID i bk = changeA (\<lambda>s. s\<lparr> br_backupUUIDs := (br_backupUUIDs s)[i := bk] \<rparr>)"

definition localMember :: "hb_env \<Rightarrow> string \<Rightarrow> MemberBackup \<Rightarrow> nat \<Rightarrow> unit run_proc" where
  "localMember env baseDir m i =
     (case agentHost (he_ParseUrl env) (mb_Address m) of
        Inl e \<Rightarrow> throwA e
      | Inr host \<Rightarrow>
          bindA (observeA (\<lambda>t. GetLatestLocalBackup (he_LocalBackups env t host baseDir i))) (setUUID i))"

definition waitUpload :: "hb_env \<Rightarrow> MemberBackup \<Rightarrow> nat \<Rightarrow> Upload \<Rightarrow> unit run_proc" where
  "waitUpload env m i u =
     bindA (bindA (observeA (\<lambda>t. Inr (Upload_Wait u
         (case up_uploadID u of None \<Rightarrow> \<lambda>_. Inl errUploadNotStarted | Some uid \<Rightarrow> he_UploadStatus env t (up_service u) uid)
         (he_ctxDone env t)))) returnsA) (\<lambda>r.
     case r of
       Inr bk \<Rightarrow> bindA (changeA (\<lambda>s. s\<lparr> br_finishedUploads := br_finishedUploads s @ [u] \<rparr>)) (\<lambda>_. setUUID i bk)
     | Inl e \<Rightarrow> if he_IsCanceled env e
               then (case up_uploadID u of
                       None \<Rightarrow> throwA errUploadNotStarted
                     | Some uid \<Rightarrow> bindA (invokeA (he_call env) (UploadCancel (up_service u) uid)) (\<lambda>_.
                         throwA (wrapErr (''upload error for member '' @ mb_UUID m @ '': '') e)))
               else throwA e)"

text \<open>The request to upload the backup of member \<open>i\<close>.\<close>

definition uploadConfig :: "HotBackup \<Rightarrow> string \<Rightarrow> MemberBackup \<Rightarrow> nat \<Rightarrow> UploadConfig" where
  "uploadConfig hb baseDir m i = \<lparr> uc_MemberAddress = mb_Address m, uc_BucketURI = hbsp_BucketURI (hb_Spec hb), uc_BackupBaseDir = baseDir,
     uc_HazelcastName = hbsp_HazelcastResourceName (hb_Spec hb), uc_SecretName = HotBackupSpec_GetSecretName (hb_Spec hb), uc_MemberID = i \<rparr>"

definition externalMember :: "hb_env \<Rightarrow> NamespacedName \<Rightarrow> string \<Rightarrow> MemberBackup \<Rightarrow> nat \<Rightarrow> unit run_proc" where
  "externalMember env backupName baseDir m i =
     bindA (observeA (\<lambda>t. he_GetHotBackup env t backupName)) (\<lambda>hb.
       let config = uploadConfig hb baseDir m i
       in case NewUpload (he_ParseUrl env) config of
            Inl e \<Rightarrow> throwA e
          | Inr u0 \<Rightarrow>
              bindA (observeA (\<lambda>t. Inr (he_UploadID env t config))) (\<lambda>uid.
              tryA (invokeA (he_call env) (UploadStart config)) (\<lambda>r.
                let u = (case r of Inr _ \<Rightarrow> u0\<lparr> up_uploadID := Some uid \<rparr> | Inl _ \<Rightarrow> u0)
                in tryA (case r of Inl e \<Rightarrow> throwA e | Inr _ \<Rightarrow> waitUpload env m i u) (\<lambda>res.
                   bindA (changeA (\<lambda>s. s\<lparr> br_uploads := br_uploads s @ [u] \<rparr>)) (\<lambda>_.
                   case res of Inl e \<Rightarrow> throwA e | Inr x \<Rightarrow> returnA x)))))"

definition storeMember :: "hb_env \<Rightarrow> NamespacedName \<Rightarrow> bool \<Rightarrow> NamespacedName \<Rightarrow> MemberBackup \<Rightarrow> nat \<Rightarrow> unit run_proc" where
  "storeMember env backupName isExternal hz m i =
     bindA (observeA (\<lambda>t. he_BaseDir env t hz)) (\<lambda>baseDir.
       if \<not> isExternal then localMember env baseDir m i else externalMember env backupName baseDir m i)"

text \<open>The requests on a started upload; on one that was not started they only fail.\<close>

definition onUpload :: "hb_env \<Rightarrow> (string \<Rightarrow> string \<Rightarrow> hb_call) \<Rightarrow> Upload \<Rightarrow> unit run_proc" where
  "onUpload env c u = (case up_uploadID u of
     None \<Rightarrow> throwA errUploadNotStarted
   | Some uid \<Rightarrow> invokeA (he_call env) (c (up_service u) uid))"

definition removeUploads :: "hb_env \<Rightarrow> unit run_proc" where
  "removeUploads env = bindA (stateA br_uploads) (\<lambda>us.
     forA us (\<lambda>u. tryA (onUpload env UploadDelete u) (\<lambda>_. returnA ())))"

definition cleanupUploads :: "hb_env \<Rightarrow> unit run_proc" where
  "cleanupUploads env = bindA (stateA br_finishedUploads) (\<lambda>us.
     bindA (observeA (\<lambda>t. Inr (he_order env t [0 ..< length us]))) (\<lambda>is.
     tryA (groupA (map (\<lambda>i. onUpload env UploadCleanup (us ! i)) is)) (\<lambda>_. returnA ())))"

text \<open>The second half, after all members finished their local backups; the deferred removal of the
  uploads runs after the status was written.\<close>

definition storeBackups :: "hb_env \<Rightarrow> NamespacedName \<Rightarrow> bool \<Rightarrow> NamespacedName \<Rightarrow> NamespacedName \<Rightarrow> MemberBackup list \<Rightarrow> backup_run hb_result" where
  "storeBackups env backupName isExternal hazelcastName hz members =
     bindA (observeA (\<lambda>t. Inr (he_rangeMembers env t members))) (\<lambda>ms.
     bindA (changeA (\<lambda>s. s\<lparr> br_backupUUIDs := replicate (length ms) [] \<rparr>)) (\<lambda>_.
     catchA (observeA (\<lambda>t. he_MtlsClient env t (nn_Namespace hazelcastName))) (failHB env backupName) (\<lambda>_.
     bindA (observeA (\<lambda>t. Inr (he_order env t [0 ..< length ms]))) (\<lambda>is.
     bindA (catchA (groupA (map (\<lambda>i. storeMember env backupName isExternal hz (ms ! i) i) is))
       (\<lambda>e. bindA (cleanupUploads env) (\<lambda>_. failHB env backupName e))
       (\<lambda>_. bindA (stateA br_backupUUIDs) (\<lambda>uuids.
            HotBackup_updateStatus env backupName ro_empty
              [withHotBackupState HotBackupSuccess, withHotBackupMessage [], withHotBackupBackupUUIDs uuids])))
     (\<lambda>res. bindA (removeUploads env) (\<lambda>_. returnA res))))))"

definition startBackup :: "hb_env \<Rightarrow> NamespacedName \<Rightarrow> bool \<Rightarrow> NamespacedName \<Rightarrow> backup_run hb_result" where
  "startBackup env backupName isExternal hazelcastName =
     bindA (HotBackup_updateStatus env backupName ro_empty [withHotBackupState HotBackupInProgress]) (\<lambda>(res, err).
     case err of Some e \<Rightarrow> failHB env backupName e | None \<Rightarrow>
     catchA (observeA (\<lambda>t. he_GetHazelcast env t hazelcastName)) (failHB env backupName) (\<lambda>hz.
     catchA (observeA (\<lambda>t. he_GetOrCreateClient env t hazelcastName))
       (\<lambda>e. HotBackup_updateStatus env backupName (ro_error e)
          [withHotBackupState HotBackupFailure, withHotBackupMessage (error_text e)]) (\<lambda>_.
     bindA (observeA (\<lambda>t. Inr (he_StatusService env t hazelcastName))) (\<lambda>ok.
     if \<not> ok then throwA (ErrPanic ''nil pointer dereference'') else
     bindA (observeA (\<lambda>t. Inr (he_MemberDataMap env t))) (\<lambda>status.
     case status of
       None \<Rightarrow> failHB env backupName (ErrOther ''client could not connect to members'')
     | Some members \<Rightarrow>
         catchA (ClusterBackup_Start env) (failHB env backupName) (\<lambda>_.
         bindA (observeA (\<lambda>t. Inr (he_rangeMembers env t members))) (\<lambda>ms.
         bindA (observeA (\<lambda>t. Inr (he_order env t [0 ..< length ms]))) (\<lambda>is.
         catchA (groupA (map (\<lambda>i. waitMember env (ms ! i)) is)) (failHB env backupName) (\<lambda>_.
         storeBackups env backupName isExternal hazelcastName
           \<lparr> nn_Name = om_Name (h_Meta hz), nn_Namespace = om_Namespace (h_Meta hz) \<rparr> members)))))))))"

end
