(* ===== verification/Backup_Safety.thy ===== *)
theory Backup_Safety
  imports Hot_Backup Samples "HOL-Library.Multiset"
begin

text \<open>
  What the HotBackup controller guarantees: a backup is started once and only on a running
  cluster with persistence, the cluster is made active again after every attempt, and a backup
  is reported as successful only when every member finished and stored its part.
\<close>

subsection \<open>Status updates\<close>

lemma statusLoop_state [kept]: "preserves (\<lambda>w. P (cw_state w)) (statusLoop env name options n hb)"
proof (induction n arbitrary: hb)
  case 0
  then show ?case
    by (subst statusLoop.simps) (auto simp: Let_def intro!: kept split: sum.split)
next
  case (Suc n)
  then show ?case
    by (subst statusLoop.simps) (auto simp: Let_def intro!: kept Suc.IH split: sum.split)
qed

lemma updateStatus_state [kept]:
  "preserves (\<lambda>w. P (cw_state w)) (HotBackup_updateStatus env name opt options)"
  "preserves (\<lambda>w. P (cw_state w)) (failHB env name e)"
  by (auto simp: HotBackup_updateStatus_def failHB_def intro!: kept split: option.split prod.split)

text \<open>The calls of a status update: the object it fetched, with the appliers applied.\<close>

definition applied :: "HotBackupStatusApplier list \<Rightarrow> HotBackup \<Rightarrow> HotBackup" where
  "applied options hb = hb\<lparr> hb_Status := fold HotBackupStatusApply options (hb_Status hb) \<rparr>"

definition status_call :: "HotBackupStatusApplier list \<Rightarrow> hb_call \<Rightarrow> bool" where
  "status_call options c \<longleftrightarrow> c \<in> StatusUpdateHotBackup ` range (applied options)"

lemma statusLoop_calls [kept]: "only_calls (status_call options) (statusLoop env name options n hb)"
proof (induction n arbitrary: hb)
  case 0
  then show ?case
    by (subst statusLoop.simps) (auto simp: Let_def status_call_def simp flip: applied_def intro!: kept split: sum.split)
next
  case (Suc n)
  then show ?case
    by (subst statusLoop.simps) (auto simp: Let_def status_call_def simp flip: applied_def intro!: kept Suc.IH split: sum.split)
qed

lemma updateStatus_calls [kept]:
  "only_calls (status_call options) (HotBackup_updateStatus env name opt options)"
  unfolding HotBackup_updateStatus_def by (auto intro!: kept split: option.split prod.split)

text \<open>The outcome of a status update: it always returns; without an error the object was stored, and
  the object at hand is one the appliers were applied to, or still the initial one.\<close>

lemma statusLoop_run:
  "\<exists>hb' err w'. statusLoop env name options n hb w = (Inr (hb', err), w') \<and>
    (hb' = hb \<or> hb' \<in> range (applied options)) \<and>
    (err = None \<longrightarrow> hb' \<in> range (applied options) \<and> (\<exists>tr. cw_trace w' = tr @ [(StatusUpdateHotBackup hb', True)]))"
proof (induction n arbitrary: hb w)
  case 0
  then show ?case
    by (subst statusLoop.simps) (auto simp: action_simps Let_def invokeA_def simp flip: applied_def split: sum.split option.split)
next
  case (Suc n)
  show ?case
  proof (cases "he_GetHotBackup env (moment w) name")
    case (Inl e)
    then show ?thesis
      using Suc.IH [of hb "w\<lparr> cw_reads := Suc (cw_reads w) \<rparr>"]
      by (subst statusLoop.simps) (auto simp: action_simps)
  next
    case (Inr got)
    let ?hb = "applied options got" and ?w = "w\<lparr> cw_reads := Suc (cw_reads w) \<rparr>"
    show ?thesis
    proof (cases "he_call env (moment ?w) (StatusUpdateHotBackup ?hb)")
      case None
      with Inr show ?thesis
        by (subst statusLoop.simps) (auto simp: action_simps Let_def invokeA_def simp flip: applied_def)
    next
      case (Some e)
      with Inr Suc.IH [of ?hb "?w\<lparr> cw_trace := cw_trace w @ [(StatusUpdateHotBackup ?hb, False)] \<rparr>"]
      show ?thesis
        by (subst statusLoop.simps) (fastforce simp: action_simps Let_def invokeA_def simp flip: applied_def)
    qed
  qed
qed

lemma updateStatus_run:
  assumes "s \<noteq> HotBackupPending"
  shows "\<exists>err w'. HotBackup_updateStatus env name ro_empty [withHotBackupState s] w = (Inr (ResultZero, err), w') \<and>
    cw_state w' = cw_state w \<and> (err = None \<longrightarrow>
      (\<exists>tr x. cw_trace w' = tr @ [(StatusUpdateHotBackup x, True)] \<and> hbs_State (hb_Status x) = s))"
proof -
  let ?o = "[withHotBackupState s]"
  obtain hb err w' where run: "statusLoop env name ?o (he_retries env) HotBackupZero w = (Inr (hb, err), w')"
    and hb: "hb = HotBackupZero \<or> hb \<in> range (applied ?o)"
    and ok: "err = None \<longrightarrow> hb \<in> range (applied ?o) \<and> (\<exists>tr. cw_trace w' = tr @ [(StatusUpdateHotBackup hb, True)])"
    using statusLoop_run by blast
  have set: "hbs_State (hb_Status (applied ?o got)) = s" for got by (simp add: applied_def Let_def)
  with hb assms have "hbs_State (hb_Status hb) \<noteq> HotBackupPending" by (auto simp: HotBackupZero_def)
  moreover have "cw_state w' = cw_state w"
    using statusLoop_state [of "\<lambda>x. x = cw_state w" env name ?o "he_retries env" HotBackupZero] run
    unfolding preserves_def by (metis snd_conv)
  ultimately show ?thesis using run ok set
    by (auto simp: HotBackup_updateStatus_def ro_empty_def action_simps)
qed

subsection \<open>Starting a backup\<close>

text \<open>What \<open>launch\<close> does to the state.\<close>

lemma launch_cases:
  assumes "launch env req hb hz w = (r, w')"
  shows "hr_started (cw_state w') = hr_started (cw_state w) \<and> hr_backup (cw_state w') = hr_backup (cw_state w) \<or>
    hr_started (cw_state w') = hr_started (cw_state w) @ [(req, HotBackupSpec_IsExternal (hb_Spec hb), hz)] \<and>
    hr_backup (cw_state w') = insert req (hr_backup (cw_state w)) \<and>
    (\<exists>tr x. cw_trace w' = tr @ [(StatusUpdateHotBackup x, True)] \<and> hbs_State (hb_Status x) = HotBackupNotStarted)"
proof -
  let ?v = "w\<lparr> cw_state := (cw_state w)\<lparr> hr_cancelMap := insert req (hr_cancelMap (cw_state w)) \<rparr> \<rparr>"
  obtain err w1 where upd: "HotBackup_updateStatus env req ro_empty [withHotBackupState HotBackupNotStarted] ?v =
      (Inr (ResultZero, err), w1)" "cw_state w1 = cw_state ?v"
    "err = None \<longrightarrow> (\<exists>tr x. cw_trace w1 = tr @ [(StatusUpdateHotBackup x, True)] \<and>
       hbs_State (hb_Status x) = HotBackupNotStarted)"
    using updateStatus_run [of HotBackupNotStarted env req ?v] by auto
  with assms show ?thesis
    by (cases err) (auto simp: launch_def action_simps lockBackup_def)
qed

lemma quiet_steps [kept]:
  "preserves (\<lambda>w. P (cw_state w)) (validatedA env v)"
  "preserves (\<lambda>w. P (cw_state w)) (hb_updateLastSuccessfulConfiguration env req)"
  by (auto simp: validatedA_def hb_updateLastSuccessfulConfiguration_def intro!: kept split: option.split)

lemma finalizer_cases:
  assumes "hb_executeFinalizer env hb w = (r, w')"
  shows "hr_started (cw_state w') = hr_started (cw_state w) \<and>
    hr_backup (cw_state w) - {\<lparr> nn_Name = om_Name (hb_Meta hb), nn_Namespace = om_Namespace (hb_Meta hb) \<rparr>} \<subseteq>
    hr_backup (cw_state w')"
proof -
  let ?k = "\<lparr> nn_Name = om_Name (hb_Meta hb), nn_Namespace = om_Namespace (hb_Meta hb) \<rparr>"
  let ?P = "\<lambda>s. hr_started s = hr_started (cw_state w) \<and> hr_backup (cw_state w) - {?k} \<subseteq> hr_backup s"
  have "preserves (\<lambda>w. ?P (cw_state w)) (hb_executeFinalizer env hb)"
    by (auto simp: hb_executeFinalizer_def Let_def unlockBackup_def intro!: kept state_changeA)
  with assms show ?thesis unfolding preserves_def by (metis (no_types, lifting) Diff_subset snd_conv)
qed

text \<open>These steps leave the state alone.\<close>

lemma same_states:
  "cw_state (snd (HotBackup_updateStatus env name opt options w)) = cw_state w"
  "cw_state (snd (failHB env name e w)) = cw_state w"
  "cw_state (snd (validatedA env v u)) = cw_state u"
  "cw_state (snd (hb_updateLastSuccessfulConfiguration env req u)) = cw_state u"
  "cw_state (snd (util_AddFinalizer (\<lambda>m. invokeA (he_call env) (UpdateHotBackup (hb\<lparr> hb_Meta := m \<rparr>))) meta u)) = cw_state u"
  by (rule same_state, auto intro!: kept)+

text \<open>When a backup is launched.\<close>

lemma startIfReady_cases:
  assumes "startIfReady env req hb w = (r, w')"
  obtains (quiet) "cw_state w' = cw_state w"
    | (launched) h hz w1 t where "hz = \<lparr> nn_Name = hbsp_HazelcastResourceName (hb_Spec hb), nn_Namespace = nn_Namespace req \<rparr>"
        "he_GetHazelcast env t hz = Inr h" "hst_Phase (h_Status h) = Running"
        "ValidateHotBackupPersistence (he_validation env) hb h = Some None"
        "cw_state w1 = cw_state w" "launch env req hb hz w1 = (r, w')"
proof (cases "he_MarshalSpec env (hb_Spec hb)")
  case (Inl e)
  let ?m = "HotBackup_updateStatus env req (ro_error (wrapErr ''error marshaling Hot Backup as JSON: '' e))
      [withHotBackupFailedState (error_text e)]"
  have "?m w = (r, w')" using assms Inl by (simp add: startIfReady_def)
  then show thesis by (metis quiet same_states(1) snd_conv)
next
  case (Inr hs)
  let ?hz = "\<lparr> nn_Name = hbsp_HazelcastResourceName (hb_Spec hb), nn_Namespace = nn_Namespace req \<rparr>"
  let ?p = "HotBackup_updateStatus env req ro_empty [withHotBackupState HotBackupPending] :: HotBackupReconciler hb_result"
  let ?rest = "\<lambda>h. if hst_Phase (h_Status h) \<noteq> Running then ?p
       else catchA (validatedA env (ValidateHotBackupPersistence (he_validation env) hb h)) (failHB env req) (\<lambda>_.
            catchA (hb_updateLastSuccessfulConfiguration env req) (\<lambda>e. returnA (ResultZero, Some e)) (\<lambda>_.
            launch env req hb ?hz))"
  show thesis
  proof (cases "om_Annotations (hb_Meta hb) LastSuccessfulSpecAnnotation = Some hs")
    case True
    with assms Inr have "w' = w" by (auto simp: startIfReady_def action_simps)
    then show thesis by (auto intro: quiet)
  next
    case False
    with assms Inr have "catchA (observeA (\<lambda>t. he_GetHazelcast env t ?hz)) (\<lambda>_. ?p) ?rest w = (r, w')"
      by (simp add: startIfReady_def Let_def)
    then show thesis
    proof (cases rule: catchA_cases)
      case (error e w1)
      from error(1) have "cw_state w1 = cw_state w" by auto
      with error(2) show thesis by (metis quiet same_states(1) snd_conv)
    next
      case (ok h w1)
      from ok(1) have h: "he_GetHazelcast env (moment w) ?hz = Inr h" and w1: "cw_state w1 = cw_state w" by auto
      show thesis
      proof (cases "hst_Phase (h_Status h) = Running")
        case False
        with ok(2) have "?p w1 = (r, w')" by simp
        with w1 show thesis by (metis quiet same_states(1) snd_conv)
      next
        case True
        with ok(2) have "catchA (validatedA env (ValidateHotBackupPersistence (he_validation env) hb h)) (failHB env req) (\<lambda>_.
            catchA (hb_updateLastSuccessfulConfiguration env req) (\<lambda>e. returnA (ResultZero, Some e)) (\<lambda>_.
            launch env req hb ?hz)) w1 = (r, w')" by simp
        then show thesis
        proof (cases rule: catchA_cases)
          case (panic t)
          with w1 show thesis by (metis quiet same_states(3) snd_conv)
        next
          case (error e w2)
          with w1 show thesis by (metis quiet same_states(2,3) snd_conv)
        next
          case valid: (ok u w2)
          then have v: "ValidateHotBackupPersistence (he_validation env) hb h = Some None" and w2: "w2 = w1"
            by (auto simp: validatedA_def action_simps split: option.splits)
          from valid(2) show thesis
          proof (cases rule: catchA_cases)
            case (panic t)
            with w1 w2 show thesis by (metis quiet same_states(4) snd_conv)
          next
            case (error e w3)
            then have "w' = w3" by (auto simp: action_simps)
            with error(1) w1 w2 show thesis by (metis quiet same_states(4) snd_conv)
          next
            case (ok u w3)
            have "cw_state w3 = cw_state w" using ok(1) w1 w2 by (metis same_states(4) snd_conv)
            with h True v ok(2) show thesis by (intro launched) auto
          qed
        qed
      qed
    qed (auto intro: quiet)
  qed
qed

text \<open>The outcomes of a reconciliation for the in-memory state.\<close>

lemma Reconcile_cases:
  assumes run: "HotBackupReconciler_Reconcile env req w = (r, w')"
  obtains (quiet) "cw_state w' = cw_state w"
    | (deleted) hb where "he_GetHotBackup env (moment w) req = Inr hb" "om_DeletionTimestamp (hb_Meta hb) \<noteq> None"
        "hr_started (cw_state w') = hr_started (cw_state w)"
        "hr_backup (cw_state w) - {\<lparr> nn_Name = om_Name (hb_Meta hb), nn_Namespace = om_Namespace (hb_Meta hb) \<rparr>} \<subseteq>
          hr_backup (cw_state w')"
    | (started) hb m w1 where "he_GetHotBackup env (moment w) req = Inr hb" "om_DeletionTimestamp (hb_Meta hb) = None"
        "\<not> HotBackupState_IsRunning (hbs_State (hb_Status hb))" "\<not> HotBackupState_IsFinished (hbs_State (hb_Status hb))"
        "req \<notin> hr_backup (cw_state w)" "cw_state w1 = cw_state w" "startIfReady env req (hb\<lparr> hb_Meta := m \<rparr>) w1 = (r, w')"
  using run unfolding HotBackupReconciler_Reconcile_def
proof (cases rule: catchA_cases)
  case (error e w1)
  show thesis
  proof (cases "ErrIsNotFound e")
    case True
    with error show thesis by (auto intro!: quiet simp: action_simps)
  next
    case False
    with error(2) have "failHB env req e w1 = (r, w')" by simp
    moreover from error(1) have "cw_state w1 = cw_state w" by auto
    ultimately show thesis by (metis quiet same_states(2) snd_conv)
  qed
next
  case (ok hb w1)
  from ok(1) have hb: "he_GetHotBackup env (moment w) req = Inr hb" and w1: "cw_state w1 = cw_state w" by auto
  from ok(2) show thesis
  proof (cases rule: catchA_cases)
    case (panic t)
    with w1 show thesis by (metis quiet same_states(5) snd_conv)
  next
    case (error e w2)
    with w1 show thesis by (metis quiet same_states(2,5) snd_conv)
  next
    case fin: (ok m w2)
    have w2: "cw_state w2 = cw_state w" using fin(1) w1 by (metis same_states(5) snd_conv)
    have m: "om_DeletionTimestamp m = om_DeletionTimestamp (hb_Meta hb)" "om_Name m = om_Name (hb_Meta hb)"
        "om_Namespace m = om_Namespace (hb_Meta hb)"
      using fin(1) by (auto simp: util_AddFinalizer_def AddFinalizer_def bindA_Inr_iff action_simps split: if_splits)
    show thesis
    proof (cases "om_DeletionTimestamp m = None")
      case False
      with fin(2) have "catchA (hb_executeFinalizer env (hb\<lparr> hb_Meta := m \<rparr>)) (failHB env req)
          (\<lambda>_. returnA (ResultZero, None)) w2 = (r, w')" by (simp add: Let_def)
      then obtain r3 w3 where "hb_executeFinalizer env (hb\<lparr> hb_Meta := m \<rparr>) w2 = (r3, w3)" "cw_state w' = cw_state w3"
      proof (cases rule: catchA_cases)
        case (error e w3)
        from error(2) have "cw_state w' = cw_state w3" by (metis same_states(2) snd_conv)
        with error(1) that show thesis by blast
      qed (auto simp: action_simps intro: that)
      with finalizer_cases [of env "hb\<lparr> hb_Meta := m \<rparr>" w2 r3 w3] w2 m False hb show thesis
        by (intro deleted [of hb]) auto
    next
      case True
      show thesis
      proof (cases "HotBackupState_IsRunning (hbs_State (hb_Status hb)) \<or> req \<in> hr_backup (cw_state w) \<or>
          HotBackupState_IsFinished (hbs_State (hb_Status hb))")
        case over: True
        with fin(2) True w2 have "w' = w2"
          by (auto simp: Let_def checkBackup_def action_simps split: if_splits)
        with w2 show thesis by (auto intro: quiet)
      next
        case False
        with fin(2) True w2 have "startIfReady env req (hb\<lparr> hb_Meta := m \<rparr>) w2 = (r, w')"
          by (auto simp: Let_def checkBackup_def)
        with hb True False w2 m show thesis by (intro started) auto
      qed
    qed
  qed
qed (auto intro: quiet)


text \<open>The life of the operator as far as one HotBackup \<open>name\<close> is concerned: reconciliations of any
  resource, in any environment that returns the resource it is asked for, as long as \<open>name\<close> is
  not being deleted.\<close>

definition hb_initial :: HotBackupReconciler where
  "hb_initial = \<lparr> hr_cancelMap = {}, hr_backup = {}, hr_started = [] \<rparr>"

definition names_match :: "hb_env \<Rightarrow> bool" where
  "names_match env \<longleftrightarrow> (\<forall>t q hb. he_GetHotBackup env t q = Inr hb \<longrightarrow>
     q = \<lparr> nn_Name = om_Name (hb_Meta hb), nn_Namespace = om_Namespace (hb_Meta hb) \<rparr>)"

definition not_deleted :: "hb_env \<Rightarrow> NamespacedName \<Rightarrow> bool" where
  "not_deleted env name \<longleftrightarrow> (\<forall>t hb. he_GetHotBackup env t name = Inr hb \<longrightarrow> om_DeletionTimestamp (hb_Meta hb) = None)"

inductive hb_reachable :: "NamespacedName \<Rightarrow> HotBackupReconciler \<Rightarrow> bool" for name where
  start: "hb_reachable name hb_initial"
| reconcile: "hb_reachable name r \<Longrightarrow> names_match env \<Longrightarrow> not_deleted env name \<Longrightarrow>
    hb_reachable name (cw_state (snd (HotBackupReconciler_Reconcile env req \<lparr> cw_state = r, cw_reads = n, cw_trace = tr \<rparr>)))"

definition starts :: "NamespacedName \<Rightarrow> HotBackupReconciler \<Rightarrow> nat" where
  "starts name r = length (filter (\<lambda>s. fst s = name) (hr_started r))"

lemma starts_locked:
  "hb_reachable name r \<Longrightarrow> starts name r \<le> (if name \<in> hr_backup r then 1 else 0)"
proof (induction rule: hb_reachable.induct)
  case start
  then show ?case by (simp add: starts_def hb_initial_def)
next
  case (reconcile r env req n tr)
  let ?w = "\<lparr> cw_state = r, cw_reads = n, cw_trace = tr \<rparr>"
  obtain q w' where run: "HotBackupReconciler_Reconcile env req ?w = (q, w')" by fastforce
  from run have "starts name (cw_state w') \<le> (if name \<in> hr_backup (cw_state w') then 1 else 0)"
  proof (cases rule: Reconcile_cases)
    case quiet
    with reconcile.IH show ?thesis by simp
  next
    case (deleted hb)
    have "req = \<lparr> nn_Name = om_Name (hb_Meta hb), nn_Namespace = om_Namespace (hb_Meta hb) \<rparr>"
      by (rule reconcile.hyps(2) [unfolded names_match_def, rule_format, OF deleted(1)])
    moreover have "req \<noteq> name"
      using reconcile.hyps(3) [unfolded not_deleted_def, rule_format] deleted(1,2) by metis
    ultimately show ?thesis using deleted(3,4) reconcile.IH by (auto simp: starts_def split: if_splits)
  next
    case (started hb m w1)
    from started(7) show ?thesis
    proof (cases rule: startIfReady_cases)
      case quiet
      with started(6) reconcile.IH show ?thesis by simp
    next
      case (launched h hz w2 t)
      have st: "cw_state w2 = r" using launched(5) started(6) by simp
      have "starts name r = 0" if "name = req" using that started(5) reconcile.IH by simp
      then show ?thesis
        using launch_cases [OF launched(6)] reconcile.IH unfolding st
        by (elim disjE; cases "name = req"; simp add: starts_def split: if_splits)
    qed
  qed
  with run show ?case by simp
qed

text \<open>C25: a HotBackup resource starts at most one backup. As long as the resource is not being
  deleted, no sequence of reconciliations, of this or of other resources, with any failures
  and any state read from the API server, launches its backup twice.\<close>

theorem backup_started_once:
  assumes "hb_reachable name r"
  shows "starts name r \<le> 1"
  using starts_locked [OF assms] by (simp split: if_splits)

lemma started_only_if:
  assumes run: "HotBackupReconciler_Reconcile env req w = (r, w')"
    and new: "hr_started (cw_state w') \<noteq> hr_started (cw_state w)"
  shows "\<exists>hb m h t hz tr x. he_GetHotBackup env (moment w) req = Inr hb \<and> om_DeletionTimestamp (hb_Meta hb) = None \<and>
    hbs_State (hb_Status hb) \<in> {HotBackupStateUnset, HotBackupUnknown, HotBackupPending} \<and>
    hz = \<lparr> nn_Name = hbsp_HazelcastResourceName (hb_Spec hb), nn_Namespace = nn_Namespace req \<rparr> \<and>
    he_GetHazelcast env t hz = Inr h \<and> hst_Phase (h_Status h) = Running \<and>
    ValidateHotBackupPersistence (he_validation env) (hb\<lparr> hb_Meta := m \<rparr>) h = Some None \<and>
    req \<notin> hr_backup (cw_state w) \<and> req \<in> hr_backup (cw_state w') \<and>
    hr_started (cw_state w') = hr_started (cw_state w) @ [(req, HotBackupSpec_IsExternal (hb_Spec hb), hz)] \<and>
    cw_trace w' = tr @ [(StatusUpdateHotBackup x, True)] \<and> hbs_State (hb_Status x) = HotBackupNotStarted"
  using run
proof (cases rule: Reconcile_cases)
  case (started hb m w1)
  from started(7) show ?thesis
  proof (cases rule: startIfReady_cases)
    case (launched h hz w2 t)
    have "hbs_State (hb_Status hb) \<in> {HotBackupStateUnset, HotBackupUnknown, HotBackupPending}"
      using started(3,4)
      by (cases "hbs_State (hb_Status hb)") (auto simp: HotBackupState_IsRunning_def HotBackupState_IsFinished_def)
    moreover obtain tr x where "hr_started (cw_state w') =
          hr_started (cw_state w) @ [(req, HotBackupSpec_IsExternal (hb_Spec hb), hz)]"
        "hr_backup (cw_state w') = insert req (hr_backup (cw_state w))"
        "cw_trace w' = tr @ [(StatusUpdateHotBackup x, True)]" "hbs_State (hb_Status x) = HotBackupNotStarted"
      using launch_cases [OF launched(6)] launched(5) started(6) new by auto
    ultimately show ?thesis using launched(1-4) started(1,2,5)
      by (intro exI [of _ hb] exI [of _ m] exI [of _ h] exI [of _ t] exI [of _ hz] exI [of _ tr] exI [of _ x]) simp
  qed (use started new in simp)
qed (use new in simp_all)

text \<open>When a backup is started. A reconciliation launches a backup only for a resource that is
  not being deleted, whose state is unset, unknown or pending and whose lock is free, when the
  Hazelcast resource it names exists, is running and has persistence; the lock is then taken,
  and the last thing that happened is that the state NotStarted was stored.\<close>

theorem backup_start_conditions:
  assumes "HotBackupReconciler_Reconcile env req w = (r, w')"
    and "hr_started (cw_state w') \<noteq> hr_started (cw_state w)"
  shows "\<exists>hb m h t hz tr x. he_GetHotBackup env (moment w) req = Inr hb \<and> om_DeletionTimestamp (hb_Meta hb) = None \<and>
    hbs_State (hb_Status hb) \<in> {HotBackupStateUnset, HotBackupUnknown, HotBackupPending} \<and>
    hz = \<lparr> nn_Name = hbsp_HazelcastResourceName (hb_Spec hb), nn_Namespace = nn_Namespace req \<rparr> \<and>
    he_GetHazelcast env t hz = Inr h \<and> hst_Phase (h_Status h) = Running \<and>
    ValidateHotBackupPersistence (he_validation env) (hb\<lparr> hb_Meta := m \<rparr>) h = Some None \<and>
    req \<notin> hr_backup (cw_state w) \<and> req \<in> hr_backup (cw_state w') \<and>
    hr_started (cw_state w') = hr_started (cw_state w) @ [(req, HotBackupSpec_IsExternal (hb_Spec hb), hz)] \<and>
    cw_trace w' = tr @ [(StatusUpdateHotBackup x, True)] \<and> hbs_State (hb_Status x) = HotBackupNotStarted"
  by (rule started_only_if [OF assms])

subsection \<open>The state of the cluster\<close>

text \<open>\<open>attempts n c ok evs\<close>: the call \<open>c\<close> was tried until it succeeded, or \<open>n + 1\<close> times in vain.\<close>

definition attempts :: "nat \<Rightarrow> hb_call \<Rightarrow> bool \<Rightarrow> hb_call trace \<Rightarrow> bool" where
  "attempts n c ok evs \<longleftrightarrow> (if ok then \<exists>k \<le> n. evs = replicate k (c, False) @ [(c, True)] else evs = replicate (Suc n) (c, False))"

lemma attempts_now: "attempts n c True [(c, True)]" "attempts 0 c False [(c, False)]"
  by (auto simp: attempts_def)

lemma retryOnError_run:
  "\<exists>evs. cw_trace (snd (retryOnError n (invokeA ans c) w)) = cw_trace w @ evs \<and>
     attempts n c (\<not> isl (fst (retryOnError n (invokeA ans c) w))) evs \<and>
     cw_state (snd (retryOnError n (invokeA ans c) w)) = cw_state w"
proof (induction n arbitrary: w)
  case 0
  then show ?case by (simp add: invokeA_def attempts_now split: option.split)
next
  case (Suc n)
  let ?m = "retryOnError n (invokeA ans c)"
  show ?case
  proof (cases "ans (moment w) c")
    case None
    with attempts_now(1) [of "Suc n" c] show ?thesis by (intro exI [of _ "[(c, True)]"]) (simp add: invokeA_def action_simps)
  next
    case (Some e)
    let ?w = "w\<lparr> cw_trace := cw_trace w @ [(c, False)] \<rparr>"
    obtain evs where evs: "cw_trace (snd (?m ?w)) = cw_trace ?w @ evs" "attempts n c (\<not> isl (fst (?m ?w))) evs"
      "cw_state (snd (?m ?w)) = cw_state ?w" using Suc.IH by blast
    have "retryOnError (Suc n) (invokeA ans c) w = ?m ?w"
      using Some by (simp add: invokeA_def action_simps)
    moreover have "attempts (Suc n) c (\<not> isl (fst (?m ?w))) ((c, False) # evs)"
      using evs(2) unfolding attempts_def by (auto split: if_splits)
    ultimately show ?thesis using evs by (intro exI [of _ "(c, False) # evs"]) simp
  qed
qed

text \<open>The shape of \<^verbatim>\<open>ClusterBackup.Start\<close>.\<close>

lemma Start_run:
  assumes run: "ClusterBackup_Start env w = (r, w')"
  shows "\<exists>e1 e2 e3. cw_trace w' = cw_trace w @ e1 @ e2 @ e3 \<and>
    (attempts (he_backoffSteps env) (ChangeClusterState ClusterStatePassive) False e1 \<and> e2 = [] \<and> e3 = [] \<and> isl r \<or>
     attempts (he_backoffSteps env) (ChangeClusterState ClusterStatePassive) True e1 \<and>
     attempts (he_backoffSteps env) TriggerHotRestartBackup (\<not> isl r) e2 \<and>
     (\<exists>ok. attempts (he_backoffSteps env) (ChangeClusterState ClusterStateActive) ok e3))"
proof -
  let ?n = "he_backoffSteps env" and ?a = "he_call env"
  let ?p = "retryOnError ?n (invokeA ?a (ChangeClusterState ClusterStatePassive))"
  let ?t = "retryOnError ?n (invokeA ?a TriggerHotRestartBackup)"
  let ?x = "retryOnError ?n (invokeA ?a (ChangeClusterState ClusterStateActive))"
  obtain r1 w1 where p: "?p w = (r1, w1)" by fastforce
  obtain e1 where e1: "cw_trace w1 = cw_trace w @ e1" "attempts ?n (ChangeClusterState ClusterStatePassive) (\<not> isl r1) e1"
    using retryOnError_run [of ?n ?a "ChangeClusterState ClusterStatePassive" w] p by auto
  show ?thesis
  proof (cases r1)
    case (Inl e)
    with p run have "r = Inl e" "w' = w1" by (auto simp: ClusterBackup_Start_def)
    with e1 Inl show ?thesis by (intro exI [of _ e1] exI [of _ "[]"]) simp
  next
    case (Inr u)
    obtain r2 w2 where t: "?t w1 = (r2, w2)" by fastforce
    obtain r3 w3 where x: "?x w2 = (r3, w3)" by fastforce
    obtain e2 where e2: "cw_trace w2 = cw_trace w1 @ e2" "attempts ?n TriggerHotRestartBackup (\<not> isl r2) e2"
      using retryOnError_run [of ?n ?a TriggerHotRestartBackup w1] t by auto
    obtain e3 where e3: "cw_trace w3 = cw_trace w2 @ e3" "attempts ?n (ChangeClusterState ClusterStateActive) (\<not> isl r3) e3"
      using retryOnError_run [of ?n ?a "ChangeClusterState ClusterStateActive" w2] x by auto
    have "w' = w3" "isl r \<longleftrightarrow> isl r2"
      using run p Inr t x by (auto simp: ClusterBackup_Start_def action_simps split: sum.splits)
    with e1 e2 e3 Inr show ?thesis by (intro exI [of _ e1] exI [of _ e2] exI [of _ e3]) auto
  qed
qed

text \<open>C26: the cluster is not left passive by a forgotten step. Whatever the members answer, a backup
  that made the cluster passive triggers the backup and then tries to make the cluster active
  again, until that succeeds or the retries are used up; it fails exactly when the trigger
  failed, and a cluster that could not be made passive is left as it is.\<close>

theorem cluster_reactivated:
  assumes "ClusterBackup_Start env w = (r, w')"
  shows "\<exists>e1 e2 e3. cw_trace w' = cw_trace w @ e1 @ e2 @ e3 \<and>
    (attempts (he_backoffSteps env) (ChangeClusterState ClusterStatePassive) False e1 \<and> e2 = [] \<and> e3 = [] \<and> isl r \<or>
     attempts (he_backoffSteps env) (ChangeClusterState ClusterStatePassive) True e1 \<and>
     attempts (he_backoffSteps env) TriggerHotRestartBackup (\<not> isl r) e2 \<and>
     (\<exists>ok. attempts (he_backoffSteps env) (ChangeClusterState ClusterStateActive) ok e3))"
  by (rule Start_run [OF assms])

subsection \<open>Success\<close>

text \<open>What the environment promises: ranging over the members visits each once, and all goroutines
  of a group run.\<close>

definition schedules :: "hb_env \<Rightarrow> bool" where
  "schedules env \<longleftrightarrow> (\<forall>t ms. mset (he_rangeMembers env t ms) = mset ms) \<and>
     (\<forall>t is. mset (he_order env t is) = mset is)"

lemma schedulesD:
  assumes "schedules env"
  shows "mset (he_rangeMembers env t ms) = mset ms" and "mset (he_order env t is) = mset is"
  using assms unfolding schedules_def by blast+

text \<open>\<open>member_done\<close>: the member reported the success of its own backup. \<open>stored_as\<close>: the backup of member
  \<open>i\<close> has this id: the agent beside that member gave it as the latest of its local backups, or accepted the request
  to upload the backup of member \<open>i\<close> to the bucket and, asked for the upload it had started then, reported success under this id.\<close>

definition member_done :: "hb_env \<Rightarrow> MemberBackup \<Rightarrow> bool" where
  "member_done env m \<longleftrightarrow> (\<exists>t. MemberBackup_Wait (he_BackupTaskState env t m) (he_ctxDone env t) 0 0 = Some None)"

definition stored_as :: "hb_env \<Rightarrow> NamespacedName \<Rightarrow> bool \<Rightarrow> MemberBackup \<Rightarrow> nat \<Rightarrow> string \<Rightarrow> bool" where
  "stored_as env backupName isExternal m i uuid \<longleftrightarrow> (\<exists>host baseDir. agentHost (he_ParseUrl env) (mb_Address m) = Inr host \<and>
     (if isExternal
      then \<exists>t0 t1 t2 t3 hb config. he_GetHotBackup env t0 backupName = Inr hb \<and> config = uploadConfig hb baseDir m i \<and>
             he_call env t1 (UploadStart config) = None \<and>
             Upload_Wait \<lparr> up_service = host, up_uploadID = Some (he_UploadID env t2 config), up_Config = config \<rparr>
               (he_UploadStatus env t3 host (he_UploadID env t2 config)) (he_ctxDone env t3) = Some (Inr uuid)
      else \<exists>t. GetLatestLocalBackup (he_LocalBackups env t host baseDir i) = Inr uuid))"

lemma waitMember_ok: "waitMember env m w = (Inr x, w') \<Longrightarrow> member_done env m"
  by (auto simp: waitMember_def bindA_Inr_iff returnsA_def member_done_def action_simps
      simp del: split_paired_Ex split: option.splits)

lemma waits_ok:
  "groupA (map (\<lambda>i. waitMember env (ms ! i)) is) w = (Inr x, w') \<Longrightarrow> i \<in> set is \<Longrightarrow> member_done env (ms ! i)"
proof (induction "is" arbitrary: w)
  case (Cons j js)
  then show ?case by (auto simp: groupA_success simp del: groupA.simps dest: waitMember_ok)
qed simp

text \<open>A goroutine that stores the backup of member \<open>i\<close> writes its id, and nothing else in the list.\<close>

abbreviation uuids :: "(backup_run, hb_call) world \<Rightarrow> string list" where
  "uuids w \<equiv> br_backupUUIDs (cw_state w)"

lemma localMember_ok:
  assumes "localMember env baseDir m i w = (Inr x, w')"
  shows "\<exists>bk. stored_as env backupName False m i bk \<and> uuids w' = (uuids w)[i := bk]"
proof -
  obtain host bk where "agentHost (he_ParseUrl env) (mb_Address m) = Inr host"
    "GetLatestLocalBackup (he_LocalBackups env (moment w) host baseDir i) = Inr bk" "uuids w' = (uuids w)[i := bk]"
    using assms by (cases "agentHost (he_ParseUrl env) (mb_Address m)") (auto simp: localMember_def setUUID_def bindA_Inr_iff action_simps)
  then show ?thesis unfolding stored_as_def if_False by blast
qed

lemma waitUpload_ok:
  assumes "waitUpload env m i u w = (Inr x, w')" and "up_uploadID u = Some uid"
  shows "\<exists>t bk. Upload_Wait u (he_UploadStatus env t (up_service u) uid) (he_ctxDone env t) = Some (Inr bk) \<and> uuids w' = (uuids w)[i := bk]"
proof (cases "Upload_Wait u (he_UploadStatus env (moment w) (up_service u) uid) (he_ctxDone env (moment w))")
  case None
  with assms show ?thesis by (simp add: waitUpload_def returnsA_def action_simps)
next
  case (Some res)
  show ?thesis
  proof (cases res)
    case (Inl e)
    with Some assms show ?thesis
      by (auto simp: waitUpload_def returnsA_def action_simps bindA_Inr_iff split: if_splits)
  next
    case (Inr bk)
    with Some assms have "uuids w' = (uuids w)[i := bk]"
      by (auto simp: waitUpload_def setUUID_def returnsA_def action_simps)
    with Some Inr show ?thesis by blast
  qed
qed

lemma externalMember_ok:
  assumes "externalMember env backupName baseDir m i w = (Inr x, w')"
  shows "\<exists>bk. stored_as env backupName True m i bk \<and> uuids w' = (uuids w)[i := bk]"
proof -
  obtain hb where hb: "he_GetHotBackup env (moment w) backupName = Inr hb"
    using assms by (auto simp: externalMember_def bindA_Inr_iff)
  define config where "config = uploadConfig hb baseDir m i"
  have address: "uc_MemberAddress config = mb_Address m" by (simp add: config_def uploadConfig_def)
  obtain host where host: "agentHost (he_ParseUrl env) (mb_Address m) = Inr host"
    using assms hb by (cases "agentHost (he_ParseUrl env) (mb_Address m)")
      (auto simp: externalMember_def bindA_Inr_iff Let_def NewUpload_def config_def [symmetric] address action_simps)
  define t2 where "t2 = moment (w\<lparr> cw_reads := Suc (cw_reads w) \<rparr>)"
  define v where "v = w\<lparr> cw_reads := Suc (Suc (cw_reads w)) \<rparr>"
  define u where "u = \<lparr> up_service = host, up_uploadID = Some (he_UploadID env t2 config), up_Config = config \<rparr>"
  have start: "he_call env (moment v) (UploadStart config) = None"
    using assms hb host by (cases "he_call env (moment v) (UploadStart config)")
      (auto simp: externalMember_def bindA_Inr_iff Let_def NewUpload_def config_def [symmetric] address action_simps invokeA_def v_def)
  define w1 where "w1 = v\<lparr> cw_trace := cw_trace v @ [(UploadStart config, True)] \<rparr>"
  obtain w2 where wait: "waitUpload env m i u w1 = (Inr x, w2)" and ids': "uuids w' = uuids w2"
    using assms hb host start by (cases "waitUpload env m i u w1")
      (auto simp: externalMember_def bindA_Inr_iff Let_def NewUpload_def config_def [symmetric] address action_simps invokeA_def
        u_def t2_def w1_def v_def split: sum.splits)
  from waitUpload_ok [OF wait] obtain t3 bk where
    "Upload_Wait u (he_UploadStatus env t3 host (he_UploadID env t2 config)) (he_ctxDone env t3) = Some (Inr bk)"
    and ids: "uuids w2 = (uuids w1)[i := bk]" by (auto simp: u_def)
  with hb host start have "stored_as env backupName True m i bk" unfolding stored_as_def if_True config_def u_def by blast
  with ids ids' show ?thesis by (auto simp: w1_def v_def)
qed

lemma storeMember_ok:
  "storeMember env backupName isExternal hz m i w = (Inr x, w') \<Longrightarrow>
     \<exists>bk. stored_as env backupName isExternal m i bk \<and> uuids w' = (uuids w)[i := bk]"
  by (cases isExternal) (auto simp: storeMember_def bindA_Inr_iff dest!: localMember_ok externalMember_ok)

lemma stores_ok:
  assumes "groupA (map (\<lambda>i. storeMember env backupName isExternal hz (ms ! i) i) is) w = (Inr x, w')"
    and "distinct is" and "\<forall>i \<in> set is. i < length (uuids w)"
  shows "length (uuids w') = length (uuids w) \<and> (\<forall>i. i \<notin> set is \<longrightarrow> uuids w' ! i = uuids w ! i) \<and>
    (\<forall>i \<in> set is. stored_as env backupName isExternal (ms ! i) i (uuids w' ! i))"
  using assms
proof (induction "is" arbitrary: w)
  case Nil
  then show ?case by (simp add: action_simps)
next
  case (Cons j js)
  from Cons.prems(1) obtain y w1 where first: "storeMember env backupName isExternal hz (ms ! j) j w = (Inr y, w1)"
    and rest: "groupA (map (\<lambda>i. storeMember env backupName isExternal hz (ms ! i) i) js) w1 = (Inr x, w')"
    unfolding list.map groupA_success by blast
  from storeMember_ok [OF first] obtain bk where bk: "stored_as env backupName isExternal (ms ! j) j bk" "uuids w1 = (uuids w)[j := bk]"
    by blast
  have IH: "length (uuids w') = length (uuids w1)" "\<forall>i. i \<notin> set js \<longrightarrow> uuids w' ! i = uuids w1 ! i"
    "\<forall>i \<in> set js. stored_as env backupName isExternal (ms ! i) i (uuids w' ! i)"
    using Cons.IH [OF rest] Cons.prems(2,3) bk(2) by auto
  then show ?case using bk Cons.prems(2,3) by auto
qed

text \<open>A call that does not report success.\<close>

definition modest :: "hb_call \<Rightarrow> bool" where
  "modest c \<longleftrightarrow> (\<forall>x. c = StatusUpdateHotBackup x \<longrightarrow> hbs_State (hb_Status x) \<noteq> HotBackupSuccess)"

lemma modest_simps [simp]:
  "modest (ChangeClusterState s)" "modest TriggerHotRestartBackup" "modest InterruptHotRestartBackup"
  "modest (UploadStart cfg)" "modest (UploadCancel a i)" "modest (UploadDelete a i)" "modest (UploadCleanup a i)"
  by (simp_all add: modest_def)

lemma modest_failHB [kept]: "only_calls modest (failHB env name e)"
  unfolding failHB_def
  by (rule only_calls_weaken [OF updateStatus_calls]) (auto simp: status_call_def modest_def applied_def)

lemma modest_updateStatus:
  "s \<noteq> HotBackupSuccess \<Longrightarrow> only_calls modest (HotBackup_updateStatus env name opt (withHotBackupState s # [withHotBackupMessage t]))"
  "s \<noteq> HotBackupSuccess \<Longrightarrow> only_calls modest (HotBackup_updateStatus env name opt [withHotBackupState s])"
  by (rule only_calls_weaken [OF updateStatus_calls], auto simp: status_call_def modest_def applied_def Let_def)+

lemma modest_retry [kept]: "modest c \<Longrightarrow> only_calls modest (retryOnError n (invokeA ans c))"
  by (induction n) (auto intro!: kept split: sum.split)

lemma modest_steps [kept]:
  "only_calls modest (returnsA x)" "only_calls modest (setUUID i bk)" "only_calls modest (ClusterBackup_Start env)"
  "only_calls modest (ClusterBackup_Cancel env)" "only_calls modest (onUpload env UploadDelete u)"
  "only_calls modest (onUpload env UploadCleanup u)"
  by (auto simp: returnsA_def setUUID_def ClusterBackup_Start_def ClusterBackup_Cancel_def onUpload_def
      intro!: kept split: option.split sum.split)

lemma modest_members [kept]:
  "only_calls modest (waitMember env m)" "only_calls modest (storeMember env backupName isExternal hz m i)"
  "only_calls modest (removeUploads env)" "only_calls modest (cleanupUploads env)"
  by (auto simp: waitMember_def storeMember_def localMember_def externalMember_def waitUpload_def removeUploads_def
      cleanupUploads_def Let_def intro!: kept split: option.split sum.split)

text \<open>A report of success lists, for every member, the id under which its backup was stored.\<close>

definition justified :: "hb_env \<Rightarrow> NamespacedName \<Rightarrow> bool \<Rightarrow> MemberBackup list \<Rightarrow> hb_call \<Rightarrow> bool" where
  "justified env backupName isExternal members c \<longleftrightarrow> modest c \<or> (\<exists>x ms. c = StatusUpdateHotBackup x \<and> mset ms = mset members \<and>
     length (hbs_BackupUUIDs (hb_Status x)) = length ms \<and>
     (\<forall>i < length ms. stored_as env backupName isExternal (ms ! i) i (hbs_BackupUUIDs (hb_Status x) ! i)))"

lemma justifiedI: "only_calls modest m \<Longrightarrow> calls_at (justified env backupName isExternal members) m w"
  by (rule calls_at_only, erule only_calls_weaken) (simp add: justified_def)

lemma storeBackups_justified:
  assumes "schedules env"
  shows "calls_at (justified env backupName isExternal members) (storeBackups env backupName isExternal hazelcastName hz members) w"
  unfolding storeBackups_def
proof (rule calls_at_bindA)
  fix ms w1
  assume "observeA (\<lambda>t. Inr (he_rangeMembers env t members)) w = (Inr ms, w1)"
  then have ms: "mset ms = mset members" by (auto simp: schedulesD [OF assms])
  show "calls_at (justified env backupName isExternal members)
     (bindA (changeA (\<lambda>s. s\<lparr> br_backupUUIDs := replicate (length ms) [] \<rparr>)) (\<lambda>_.
     catchA (observeA (\<lambda>t. he_MtlsClient env t (nn_Namespace hazelcastName))) (failHB env backupName) (\<lambda>_.
     bindA (observeA (\<lambda>t. Inr (he_order env t [0 ..< length ms]))) (\<lambda>is.
     bindA (catchA (groupA (map (\<lambda>i. storeMember env backupName isExternal hz (ms ! i) i) is))
       (\<lambda>e. bindA (cleanupUploads env) (\<lambda>_. failHB env backupName e))
       (\<lambda>_. bindA (stateA br_backupUUIDs) (\<lambda>uuids.
            HotBackup_updateStatus env backupName ro_empty
              [withHotBackupState HotBackupSuccess, withHotBackupMessage [], withHotBackupBackupUUIDs uuids])))
     (\<lambda>res. bindA (removeUploads env) (\<lambda>_. returnA res)))))) w1"
  proof (intro calls_at_bindA calls_at_catchA; (rule justifiedI, auto intro!: kept; fail)?)
    fix u w2 v w3 "is" w4 y w5 us w6
    assume "changeA (\<lambda>s. s\<lparr> br_backupUUIDs := replicate (length ms) [] \<rparr>) w1 = (Inr u, w2)"
      and "observeA (\<lambda>t. he_MtlsClient env t (nn_Namespace hazelcastName)) w2 = (Inr v, w3)"
      and ord: "observeA (\<lambda>t. Inr (he_order env t [0 ..< length ms])) w3 = (Inr is, w4)"
      and group: "groupA (map (\<lambda>i. storeMember env backupName isExternal hz (ms ! i) i) is) w4 = (Inr y, w5)"
      and us: "stateA br_backupUUIDs w5 = (Inr us, w6)"
    then have len: "length (uuids w4) = length ms" by auto
    from ord have "mset is = mset [0 ..< length ms]" by (auto simp: schedulesD [OF assms])
    then have "set is = {0 ..< length ms}" "distinct is"
      by (metis atLeastLessThan_upt set_mset_mset, metis distinct_upt mset_eq_imp_distinct_iff)
    with stores_ok [OF group] len us have "length us = length ms"
      "\<forall>i < length ms. stored_as env backupName isExternal (ms ! i) i (us ! i)" by auto
    with ms have "status_call [withHotBackupState HotBackupSuccess, withHotBackupMessage [], withHotBackupBackupUUIDs us] c
        \<Longrightarrow> justified env backupName isExternal members c" for c
      by (cases c) (auto simp: justified_def status_call_def applied_def Let_def simp del: split_paired_Ex intro!: disjI2 exI [of _ ms])
    then show "calls_at (justified env backupName isExternal members) (HotBackup_updateStatus env backupName ro_empty
              [withHotBackupState HotBackupSuccess, withHotBackupMessage [], withHotBackupBackupUUIDs us]) w6"
      by (intro calls_at_only only_calls_weaken [OF updateStatus_calls]) blast
  qed
qed (rule justifiedI, auto intro!: kept)

text \<open>A call of \<^verbatim>\<open>startBackup\<close>: not a report of success, or one after all members were done.\<close>

definition earned :: "hb_env \<Rightarrow> NamespacedName \<Rightarrow> bool \<Rightarrow> hb_call \<Rightarrow> bool" where
  "earned env backupName isExternal c \<longleftrightarrow> modest c \<or> (\<exists>t members. he_MemberDataMap env t = Some members \<and>
     (\<forall>m \<in> set members. member_done env m) \<and> justified env backupName isExternal members c)"

lemma earnedI: "only_calls modest m \<Longrightarrow> calls_at (earned env backupName isExternal) m w"
  by (rule calls_at_only, erule only_calls_weaken) (simp add: earned_def)

lemma waits_earned:
  assumes "schedules env" and "he_MemberDataMap env t = Some members"
  shows "calls_at (earned env backupName isExternal)
    (bindA (observeA (\<lambda>t. Inr (he_rangeMembers env t members))) (\<lambda>ms.
     bindA (observeA (\<lambda>t. Inr (he_order env t [0 ..< length ms]))) (\<lambda>is.
     catchA (groupA (map (\<lambda>i. waitMember env (ms ! i)) is)) (failHB env backupName) (\<lambda>_.
     storeBackups env backupName isExternal hazelcastName hz members)))) w"
proof (intro calls_at_bindA calls_at_catchA; (rule earnedI, auto intro!: kept; fail)?)
  fix ms w1 "is" w2 y w3
  assume "observeA (\<lambda>t. Inr (he_rangeMembers env t members)) w = (Inr ms, w1)"
    and "observeA (\<lambda>t. Inr (he_order env t [0 ..< length ms])) w1 = (Inr is, w2)"
    and group: "groupA (map (\<lambda>i. waitMember env (ms ! i)) is) w2 = (Inr y, w3)"
  then have ms: "mset ms = mset members" and "mset is = mset [0 ..< length ms]"
    by (auto simp: schedulesD [OF assms(1)])
  then have "set is = {0 ..< length ms}" by (metis atLeastLessThan_upt set_mset_mset)
  with waits_ok [OF group] have "\<forall>m \<in> set ms. member_done env m" by (auto simp: in_set_conv_nth)
  then have "\<forall>m \<in> set members. member_done env m" using ms by (metis set_mset_mset)
  with assms(2) have "justified env backupName isExternal members c \<Longrightarrow> earned env backupName isExternal c" for c
    by (auto simp: earned_def simp del: split_paired_Ex)
  with storeBackups_justified [OF assms(1), of backupName isExternal members hazelcastName hz w3]
  show "calls_at (earned env backupName isExternal) (storeBackups env backupName isExternal hazelcastName hz members) w3"
    unfolding calls_at_def by blast
qed

lemma startBackup_earned:
  assumes "schedules env"
  shows "calls_at (earned env backupName isExternal) (startBackup env backupName isExternal hazelcastName) w"
proof -
  have members: "calls_at (earned env backupName isExternal) (case status of
         None \<Rightarrow> failHB env backupName (ErrOther ''client could not connect to members'')
       | Some members \<Rightarrow>
           catchA (ClusterBackup_Start env) (failHB env backupName) (\<lambda>_.
           bindA (observeA (\<lambda>t. Inr (he_rangeMembers env t members))) (\<lambda>ms.
           bindA (observeA (\<lambda>t. Inr (he_order env t [0 ..< length ms]))) (\<lambda>is.
           catchA (groupA (map (\<lambda>i. waitMember env (ms ! i)) is)) (failHB env backupName) (\<lambda>_.
           storeBackups env backupName isExternal hazelcastName hz members))))) v1"
    if "observeA (\<lambda>t. Inr (he_MemberDataMap env t)) v = (Inr status, v1)" for v v1 status hz
  proof (cases status)
    case None
    then show ?thesis by (auto intro!: earnedI kept)
  next
    case (Some members)
    with that have "he_MemberDataMap env (moment v) = Some members" by simp
    from waits_earned [OF assms this] show ?thesis
      unfolding Some option.case
      by (rule calls_at_catchA [OF earnedI [OF modest_steps(3)] earnedI [OF modest_failHB]])
  qed
  show ?thesis
    unfolding startBackup_def
  proof (rule calls_at_bindA)
    fix p w1
    show "calls_at (earned env backupName isExternal) (case p of (res, err) \<Rightarrow>
       (case err of Some e \<Rightarrow> failHB env backupName e | None \<Rightarrow>
        catchA (observeA (\<lambda>t. he_GetHazelcast env t hazelcastName)) (failHB env backupName) (\<lambda>hz.
        catchA (observeA (\<lambda>t. he_GetOrCreateClient env t hazelcastName))
          (\<lambda>e. HotBackup_updateStatus env backupName (ro_error e)
             [withHotBackupState HotBackupFailure, withHotBackupMessage (error_text e)]) (\<lambda>_.
        bindA (observeA (\<lambda>t. Inr (he_StatusService env t hazelcastName))) (\<lambda>ok.
        if \<not> ok then throwA (ErrPanic ''nil pointer dereference'') else
        bindA (observeA (\<lambda>t. Inr (he_MemberDataMap env t))) (\<lambda>status.
        case status of
          None \<Rightarrow> failHB env backupName (ErrOther ''client could not connect to members'')
        | Some members \<Rightarrow>
            catchA (ClusterBackup_Start env) (failHB env backupName) (\<lambda>_.
            bindA (observeA (\<lambda>t. Inr (he_rangeMembers env t members))) (\<lambda>ms.
            bindA (observeA (\<lambda>t. Inr (he_order env t [0 ..< length ms]))) (\<lambda>is.
            catchA (groupA (map (\<lambda>i. waitMember env (ms ! i)) is)) (failHB env backupName) (\<lambda>_.
            storeBackups env backupName isExternal hazelcastName
              \<lparr> nn_Name = om_Name (h_Meta hz), nn_Namespace = om_Namespace (h_Meta hz) \<rparr> members)))))))))) w1"
    proof (cases p)
      case (Pair res err)
      show ?thesis
      proof (cases err)
        case None
        show ?thesis
          unfolding Pair None prod.case option.case
          by (intro calls_at_catchA calls_at_bindA calls_at_if; (erule members)?;
              (rule earnedI, auto intro!: kept modest_updateStatus; fail)?)
      next
        case (Some e)
        show ?thesis unfolding Pair Some prod.case option.case by (rule earnedI [OF modest_failHB])
      qed
    qed
  qed (rule earnedI, rule modest_updateStatus, simp)
qed

text \<open>C27: a backup is reported as successful only when it is complete. In every run of a backup, with
  any answers of members, agents and API server, a status with the state Success is written
  only after all members reported the success of their own backup, and its list of ids has
  one entry per member: the id under which the agent beside that member, asked about that member's backup, reported it
  as its latest local backup, or as uploaded after it had accepted the request to upload it to the bucket of the HotBackup.\<close>

theorem backup_success_complete:
  assumes "schedules env" and "startBackup env backupName isExternal hazelcastName w = (r, w')"
    and "cw_trace w' = cw_trace w @ evs"
    and "(StatusUpdateHotBackup x, b) \<in> set evs" and "hbs_State (hb_Status x) = HotBackupSuccess"
  shows "\<exists>t members ms. he_MemberDataMap env t = Some members \<and> mset ms = mset members \<and>
    (\<forall>m \<in> set members. member_done env m) \<and> length (hbs_BackupUUIDs (hb_Status x)) = length ms \<and>
    (\<forall>i < length ms. stored_as env backupName isExternal (ms ! i) i (hbs_BackupUUIDs (hb_Status x) ! i))"
proof -
  have "earned env backupName isExternal (StatusUpdateHotBackup x)"
    using startBackup_earned [OF assms(1), of backupName isExternal hazelcastName w] assms(2-4)
    by (auto simp: calls_at_def)
  with assms(5) show ?thesis
    unfolding earned_def justified_def modest_def by blast
qed

end
