(* ===== verification/Backup_Runs.thy ===== *)
theory Backup_Runs
  imports Backup_Safety
begin

text \<open>
  Runs of the HotBackup controller on concrete resources: a reconciliation that launches a
  backup, and a backup of a cluster of one member that succeeds. They apply the theorems of
  \<open>Backup_Safety\<close>.
\<close>

definition sample_stored_spec :: HazelcastSpec where
  "sample_stored_spec = sample_hazelcast_spec\<lparr> hs_Persistence := Some \<lparr> hp_DeprecatedBaseDir = [],
     hp_ClusterDataRecoveryPolicy = FullRecovery, hp_StartupAction = StartupActionUnset, hp_DataRecoveryTimeout = 0,
     hp_PVC = None, hp_Restore = RestoreConfigurationZero \<rparr> \<rparr>"

definition sample_stored :: Hazelcast where
  "sample_stored = sample_hazelcast\<lparr> h_Spec := sample_stored_spec,
     h_Meta := sample_meta\<lparr> om_Annotations := [LastSuccessfulSpecAnnotation \<mapsto> ''spec''] \<rparr> \<rparr>"

definition sample_backup :: HotBackup where
  "sample_backup = \<lparr> hb_Meta = sample_meta\<lparr> om_Name := ''backup'', om_Finalizers := [Finalizer] \<rparr>,
     hb_Spec = \<lparr> hbsp_HazelcastResourceName = ''hz'', hbsp_BucketURI = [], hbsp_DeprecatedSecret = [], hbsp_SecretName = [] \<rparr>,
     hb_Status = \<lparr> hbs_State = HotBackupStateUnset, hbs_Message = [], hbs_BackupUUIDs = [] \<rparr> \<rparr>"

definition sample_name :: NamespacedName where
  "sample_name = \<lparr> nn_Name = ''backup'', nn_Namespace = ''default'' \<rparr>"

definition sample_cluster :: NamespacedName where
  "sample_cluster = \<lparr> nn_Name = ''hz'', nn_Namespace = ''default'' \<rparr>"

definition sample_member :: MemberBackup where
  "sample_member = \<lparr> mb_UUID = ''m0'', mb_Address = ''10.0.0.1:5701'' \<rparr>"

definition sample_hb_env :: hb_env where
  "sample_hb_env = \<lparr> he_call = (\<lambda>_ _. None),
     he_GetHotBackup = (\<lambda>_ q. if q = sample_name then Inr sample_backup else Inl (ErrNotFound [])),
     he_GetHazelcast = (\<lambda>_ _. Inr sample_stored), he_GetOrCreateClient = (\<lambda>_ _. Inr ()), he_StatusService = (\<lambda>_ _. True),
     he_MemberDataMap = (\<lambda>_. Some [sample_member]), he_rangeMembers = (\<lambda>_ ms. ms), he_order = (\<lambda>_ is. is),
     he_BackupTaskState = (\<lambda>_ _ _. Some ''SUCCESS''), he_ctxDone = (\<lambda>_ _. None), he_MtlsClient = (\<lambda>_ _. Inr ()),
     he_BaseDir = (\<lambda>_ _. Inr ''/data''), he_LocalBackups = (\<lambda>_ _ _ _. Inr [''backup-1'']), he_ParseUrl = (\<lambda>_. None),
     he_UploadID = (\<lambda>_ _. ''u''), he_UploadStatus = (\<lambda>_ _ _ _. Inl (ErrOther [])), he_IsCanceled = (\<lambda>_. False),
     he_validation = sample_env\<lparr> env_UnmarshalHazelcastSpec := \<lambda>_. Inr sample_stored_spec \<rparr>,
     he_ErrText = (\<lambda>_. []), he_MarshalSpec = (\<lambda>_. Inr ''spec''), he_retries = 4, he_backoffSteps = 7 \<rparr>"

lemma sample_persistence: "ValidateHotBackupPersistence (he_validation sample_hb_env) hb sample_stored = Some None"
  by (simp add: ValidateHotBackupPersistence_def validateHotBackupPersistence_def sample_stored_def
      sample_hb_env_def withHzSpec_def outcome_def check_def sample_stored_spec_def Persistence_IsEnabled_def
      NewFieldValidator_def)

lemma sample_env_simps:
  "he_call sample_hb_env t c = None" "he_GetHotBackup sample_hb_env t sample_name = Inr sample_backup"
  "he_GetHazelcast sample_hb_env t q = Inr sample_stored" "he_MarshalSpec sample_hb_env spec = Inr ''spec''"
  "he_GetOrCreateClient sample_hb_env t q = Inr ()" "he_StatusService sample_hb_env t q"
  "he_MemberDataMap sample_hb_env t = Some [sample_member]" "he_rangeMembers sample_hb_env t ms = ms"
  "he_order sample_hb_env t is = is" "he_MtlsClient sample_hb_env t ns = Inr ()"
  "he_BaseDir sample_hb_env t q = Inr ''/data''" "he_LocalBackups sample_hb_env t a d i = Inr [''backup-1'']"
  "he_ParseUrl sample_hb_env a = None" "he_backoffSteps sample_hb_env = 7"
  by (simp_all add: sample_hb_env_def)

lemma sample_invoke: "invokeA (he_call sample_hb_env) c w = (Inr (), w\<lparr> cw_trace := cw_trace w @ [(c, True)] \<rparr>)"
  by (simp add: invokeA_def sample_env_simps)

text \<open>A status update in this environment succeeds at once.\<close>

lemma sample_status:
  "HotBackup_updateStatus sample_hb_env sample_name ro_empty options w =
     (Inr (if hbs_State (hb_Status (applied options sample_backup)) = HotBackupPending
           then \<lparr> res_Requeue = True, res_RequeueAfter = 1000000000 \<rparr> else ResultZero, None),
      w\<lparr> cw_reads := Suc (cw_reads w),
         cw_trace := cw_trace w @ [(StatusUpdateHotBackup (applied options sample_backup), True)] \<rparr>)"
  unfolding HotBackup_updateStatus_def
  by (subst statusLoop.simps) (simp add: action_simps sample_env_simps sample_invoke applied_def ro_empty_def Let_def)

lemma retryOnError_first: "fn w = (Inr x, w') \<Longrightarrow> retryOnError n fn w = (Inr x, w')"
  by (cases n) (simp_all add: action_simps)

lemma RetryOnConflict_first: "fn w = (Inr x, w') \<Longrightarrow> RetryOnConflict n fn w = (Inr x, w')"
  by (cases n) (simp_all add: action_simps)

lemma sample_annotate:
  "\<exists>w'. hb_updateLastSuccessfulConfiguration sample_hb_env sample_name w = (Inr (), w') \<and> cw_state w' = cw_state w"
proof -
  define fn :: "unit hb_proc" where "fn = bindA (observeA (\<lambda>t. he_GetHotBackup sample_hb_env t sample_name)) (\<lambda>hb.
      invokeA (he_call sample_hb_env) (UpdateHotBackup (hb\<lparr> hb_Meta := InsertLastSuccessfullyAppliedSpec
        (\<lambda>spec. case he_MarshalSpec sample_hb_env spec of Inl _ \<Rightarrow> [] | Inr js \<Rightarrow> js) (hb_Spec hb) (hb_Meta hb) \<rparr>)))"
  then have "\<exists>w'. fn w = (Inr (), w') \<and> cw_state w' = cw_state w" by (simp add: action_simps sample_env_simps sample_invoke)
  then show ?thesis
    unfolding hb_updateLastSuccessfulConfiguration_def fn_def [symmetric] using RetryOnConflict_first by metis
qed

lemma sample_facts:
  "ContainsFinalizer (hb_Meta sample_backup) Finalizer" "om_DeletionTimestamp (hb_Meta sample_backup) = None"
  "hbs_State (hb_Status sample_backup) = HotBackupStateUnset" "om_Annotations (hb_Meta sample_backup) = Map.empty"
  "\<not> HotBackupSpec_IsExternal (hb_Spec sample_backup)" "hst_Phase (h_Status sample_stored) = Running"
  "\<lparr> nn_Name = hbsp_HazelcastResourceName (hb_Spec sample_backup), nn_Namespace = nn_Namespace sample_name \<rparr> = sample_cluster"
  by (simp_all add: sample_backup_def sample_meta_def ContainsFinalizer_def HotBackupSpec_IsExternal_def sample_stored_def
      sample_hazelcast_def sample_hazelcast_status_def sample_name_def sample_cluster_def)

lemma sample_launch:
  "\<exists>w'. HotBackupReconciler_Reconcile sample_hb_env sample_name \<lparr> cw_state = hb_initial, cw_reads = 0, cw_trace = [] \<rparr> =
     (Inr (ResultZero, None), w') \<and> hr_started (cw_state w') = [(sample_name, False, sample_cluster)]"
proof -
  let ?w = "\<lparr> cw_state = hb_initial, cw_reads = Suc (Suc 0), cw_trace = [] \<rparr>"
  obtain w1 where w1: "hb_updateLastSuccessfulConfiguration sample_hb_env sample_name ?w = (Inr (), w1)" "cw_state w1 = hb_initial"
    using sample_annotate [of ?w] by auto
  then have "startIfReady sample_hb_env sample_name sample_backup \<lparr> cw_state = hb_initial, cw_reads = Suc 0, cw_trace = [] \<rparr> =
      launch sample_hb_env sample_name sample_backup sample_cluster w1"
    by (simp add: startIfReady_def sample_facts sample_env_simps catchA_def action_simps Let_def validatedA_def sample_persistence)
  then show ?thesis using w1(2)
    by (simp add: HotBackupReconciler_Reconcile_def catchA_def action_simps util_AddFinalizer_def sample_facts sample_env_simps
        Let_def checkBackup_def hb_initial_def HotBackupState_IsRunning_def HotBackupState_IsFinished_def
        launch_def sample_status lockBackup_def applied_def)
qed

theorem backup_start_conditions_witness:
  "\<exists>w' :: (HotBackupReconciler, hb_call) world. hr_started (cw_state w') = [(sample_name, False, sample_cluster)] \<and>
     sample_name \<in> hr_backup (cw_state w') \<and> (\<exists>tr x. cw_trace w' = tr @ [(StatusUpdateHotBackup x, True)] \<and>
       hbs_State (hb_Status x) = HotBackupNotStarted)"
proof -
  obtain w' where run: "HotBackupReconciler_Reconcile sample_hb_env sample_name
      \<lparr> cw_state = hb_initial, cw_reads = 0, cw_trace = [] \<rparr> = (Inr (ResultZero, None), w')"
    "hr_started (cw_state w') = [(sample_name, False, sample_cluster)]" using sample_launch by blast
  then show ?thesis using backup_start_conditions [OF run(1)]
    by (intro exI [of _ w']) (auto simp: hb_initial_def)
qed

theorem backup_started_once_witness:
  "\<exists>r. hb_reachable sample_name r \<and> hr_started r = [(sample_name, False, sample_cluster)] \<and> starts sample_name r \<le> 1"
proof -
  let ?w = "\<lparr> cw_state = hb_initial, cw_reads = 0, cw_trace = [] \<rparr>"
  let ?r = "cw_state (snd (HotBackupReconciler_Reconcile sample_hb_env sample_name ?w))"
  have "names_match sample_hb_env" "not_deleted sample_hb_env sample_name"
    by (auto simp: names_match_def not_deleted_def sample_hb_env_def sample_backup_def sample_meta_def sample_name_def
        split: if_splits)
  then have reach: "hb_reachable sample_name ?r" by (rule hb_reachable.reconcile [OF hb_reachable.start])
  have "hr_started ?r = [(sample_name, False, sample_cluster)]" using sample_launch by auto
  with reach backup_started_once [OF reach] show ?thesis by blast
qed

subsection \<open>A successful backup\<close>

definition fresh_run :: "(backup_run, hb_call) world" where
  "fresh_run = \<lparr> cw_state = \<lparr> br_cancelled = False, br_uploads = [], br_finishedUploads = [], br_backupUUIDs = [] \<rparr>,
     cw_reads = 0, cw_trace = [] \<rparr>"

lemma sample_start:
  "ClusterBackup_Start sample_hb_env w = (Inr (), w\<lparr> cw_trace := cw_trace w @ [(ChangeClusterState ClusterStatePassive, True),
     (TriggerHotRestartBackup, True), (ChangeClusterState ClusterStateActive, True)] \<rparr>)"
  by (simp add: ClusterBackup_Start_def action_simps retryOnError_first [OF sample_invoke])

theorem cluster_reactivated_witness:
  "\<exists>w' :: (backup_run, hb_call) world. \<exists>e1 e2 e3. ClusterBackup_Start sample_hb_env fresh_run = (Inr (), w') \<and>
     cw_trace w' = e1 @ e2 @ e3 \<and>
     attempts 7 (ChangeClusterState ClusterStatePassive) True e1 \<and> attempts 7 TriggerHotRestartBackup True e2 \<and>
     (\<exists>ok. attempts 7 (ChangeClusterState ClusterStateActive) ok e3)"
  using cluster_reactivated [OF sample_start [of fresh_run]]
  by (auto simp: sample_start sample_env_simps fresh_run_def)

lemma sample_schedules: "schedules sample_hb_env"
  by (simp add: schedules_def sample_env_simps)

lemma sample_wait: "waitMember sample_hb_env sample_member w = (Inr (), w\<lparr> cw_reads := Suc (cw_reads w) \<rparr>)"
  by (simp add: waitMember_def action_simps sample_hb_env_def MemberBackup_Wait.simps returnsA_def)

lemma sample_host: "agentHost (he_ParseUrl sample_hb_env) (mb_Address sample_member) = Inr ''10.0.0.1''"
  unfolding sample_member_def by (simp add: sample_env_simps agentHost_def) code_simp

lemma sample_store:
  "storeMember sample_hb_env name False hz sample_member 0 w =
     (Inr (), w\<lparr> cw_reads := Suc (Suc (cw_reads w)),
        cw_state := (cw_state w)\<lparr> br_backupUUIDs := (br_backupUUIDs (cw_state w))[0 := ''backup-1''] \<rparr> \<rparr>)"
  by (simp add: storeMember_def localMember_def action_simps sample_env_simps sample_host GetLatestLocalBackup_def setUUID_def)

lemma sample_success:
  "\<exists>w'. startBackup sample_hb_env sample_name False sample_cluster fresh_run = (Inr (ResultZero, None), w') \<and>
     (StatusUpdateHotBackup (applied [withHotBackupState HotBackupSuccess, withHotBackupMessage [],
        withHotBackupBackupUUIDs [''backup-1'']] sample_backup), True) \<in> set (cw_trace w')"
  by (simp add: startBackup_def action_simps sample_status sample_env_simps catchA_def sample_start sample_wait storeBackups_def
      sample_store removeUploads_def fresh_run_def applied_def Let_def)

theorem backup_success_complete_witness:
  "\<exists>w'. startBackup sample_hb_env sample_name False sample_cluster fresh_run = (Inr (ResultZero, None), w') \<and>
     member_done sample_hb_env sample_member \<and> stored_as sample_hb_env sample_name False sample_member 0 ''backup-1''"
proof -
  let ?x = "applied [withHotBackupState HotBackupSuccess, withHotBackupMessage [],
        withHotBackupBackupUUIDs [''backup-1'']] sample_backup"
  obtain w' where run: "startBackup sample_hb_env sample_name False sample_cluster fresh_run = (Inr (ResultZero, None), w')"
    "(StatusUpdateHotBackup ?x, True) \<in> set (cw_trace w')" using sample_success by blast
  have x: "hbs_State (hb_Status ?x) = HotBackupSuccess" "hbs_BackupUUIDs (hb_Status ?x) = [''backup-1'']"
    by (simp_all add: applied_def Let_def)
  have trace: "cw_trace w' = cw_trace fresh_run @ cw_trace w'" by (simp add: fresh_run_def)
  show ?thesis
    using backup_success_complete [OF sample_schedules run(1) trace run(2) x(1)] run(1) x(2)
    by (auto simp: sample_env_simps)
qed

end
