(* ===== verification/Config_Types.thy ===== *)
theory Config_Types
  imports Resource_Validation
begin

text \<open>
  The configuration a cluster is started with (\<^verbatim>\<open>internal/config/hazelcast.go\<close>), as far as it
  describes data structures, executors, serialization and user code, and the messages by which
  the same structures are added to a running cluster (\<^verbatim>\<open>internal/protocol/types\<close>).

  A type of \<^verbatim>\<open>internal/config\<close> whose name the API uses too has the suffix \<open>_cfg\<close>. A field of type
  \<^verbatim>\<open>Data\<close> of the Go client is a byte string that may be nil.
\<close>

subsection \<open>Texts of the enumerations\<close>

text \<open>\<^verbatim>\<open>string(x)\<close> of a value of an enumeration type.\<close>

fun InMemoryFormat_text :: "InMemoryFormatType \<Rightarrow> string" where
  "InMemoryFormat_text InMemoryFormatUnset = []"
| "InMemoryFormat_text InMemoryFormatBinary = ''BINARY''"
| "InMemoryFormat_text InMemoryFormatObject = ''OBJECT''"
| "InMemoryFormat_text InMemoryFormatNative = ''NATIVE''"

fun EvictionPolicy_text :: "EvictionPolicyType \<Rightarrow> string" where
  "EvictionPolicy_text EvictionPolicyUnset = []"
| "EvictionPolicy_text EvictionPolicyLRU = ''LRU''"
| "EvictionPolicy_text EvictionPolicyLFU = ''LFU''"
| "EvictionPolicy_text EvictionPolicyNone = ''NONE''"
| "EvictionPolicy_text EvictionPolicyRandom = ''RANDOM''"

fun MaxSizePolicy_text :: "MaxSizePolicyType \<Rightarrow> string" where
  "MaxSizePolicy_text MaxSizePolicyUnset = []"
| "MaxSizePolicy_text MaxSizePolicyPerNode = ''PER_NODE''"
| "MaxSizePolicy_text MaxSizePolicyPerPartition = ''PER_PARTITION''"
| "MaxSizePolicy_text MaxSizePolicyUsedHeapPercentage = ''USED_HEAP_PERCENTAGE''"
| "MaxSizePolicy_text MaxSizePolicyUsedHeapSize = ''USED_HEAP_SIZE''"
| "MaxSizePolicy_text MaxSizePolicyFreeHeapPercentage = ''FREE_HEAP_PERCENTAGE''"
| "MaxSizePolicy_text MaxSizePolicyFreeHeapSize = ''FREE_HEAP_SIZE''"
| "MaxSizePolicy_text MaxSizePolicyUsedNativeMemorySize = ''USED_NATIVE_MEMORY_SIZE''"
| "MaxSizePolicy_text MaxSizePolicyUsedNativeMemoryPercentage = ''USED_NATIVE_MEMORY_PERCENTAGE''"
| "MaxSizePolicy_text MaxSizePolicyFreeNativeMemorySize = ''FREE_NATIVE_MEMORY_SIZE''"
| "MaxSizePolicy_text MaxSizePolicyFreeNativeMemoryPercentage = ''FREE_NATIVE_MEMORY_PERCENTAGE''"
| "MaxSizePolicy_text MaxSizePolicyEntryCount = ''ENTRY_COUNT''"

fun IndexType_text :: "IndexType \<Rightarrow> string" where
  "IndexType_text IndexTypeUnset = []"
| "IndexType_text IndexTypeSorted = ''SORTED''"
| "IndexType_text IndexTypeHash = ''HASH''"
| "IndexType_text IndexTypeBitmap = ''BITMAP''"

fun UniqueKeyTransition_text :: "UniqueKeyTransition \<Rightarrow> string" where
  "UniqueKeyTransition_text UniqueKeyTransitionUnset = []"
| "UniqueKeyTransition_text UniqueKeyTransitionObject = ''OBJECT''"
| "UniqueKeyTransition_text UniqueKeyTransitionLong = ''LONG''"
| "UniqueKeyTransition_text UniqueKeyTransitionRAW = ''RAW''"

fun InitialMode_text :: "InitialModeType \<Rightarrow> string" where
  "InitialMode_text InitialModeUnset = []"
| "InitialMode_text InitialModeLazy = ''LAZY''"
| "InitialMode_text InitialModeEager = ''EAGER''"

fun CollectionType_text :: "CollectionType \<Rightarrow> string" where
  "CollectionType_text CollectionTypeUnset = []"
| "CollectionType_text CollectionTypeSet = ''SET''"
| "CollectionType_text CollectionTypeList = ''LIST''"

fun RMInMemoryFormat_text :: "RMInMemoryFormatType \<Rightarrow> string" where
  "RMInMemoryFormat_text RMInMemoryFormatUnset = []"
| "RMInMemoryFormat_text RMInMemoryFormatBinary = ''BINARY''"
| "RMInMemoryFormat_text RMInMemoryFormatObject = ''OBJECT''"

subsection \<open>Configuration of the cluster\<close>

record MapEviction =
  me_Size :: int32
  me_MaxSizePolicy :: string
  me_EvictionPolicy :: string

record BitmapIndexOptions_cfg =
  bi_UniqueKey :: string
  bi_UniqueKeyTransformation :: string

record MapIndex =
  mi_Name :: string
  mi_Type :: string
  mi_Attributes :: "string list option"
  mi_BitmapIndexOptions :: BitmapIndexOptions_cfg

record Attribute_cfg =
  ac_Name :: string
  ac_ExtractorClassName :: string

record DataPersistence =
  dp_Enabled :: bool
  dp_Fsync :: bool

record WanReplicationReference =
  wrr_MergePolicyClassName :: string
  wrr_RepublishingEnabled :: bool
  wrr_Filters :: "string list"

record MapStoreConfig_cfg =
  msc_Enabled :: bool
  msc_WriteCoalescing :: "bool option"
  msc_WriteDelaySeconds :: int32
  msc_WriteBatchSize :: int32
  msc_ClassName :: string
  msc_Properties :: "(string \<rightharpoonup> string) option"
  msc_InitialLoadMode :: string

record EntryListener_cfg =
  elc_ClassName :: string
  elc_IncludeValue :: bool
  elc_Local :: bool

record NearCacheEviction_cfg =
  ncec_Size :: uint32
  ncec_MaxSizePolicy :: string
  ncec_EvictionPolicy :: string

record NearCacheConfig_cfg =
  ncc_InMemoryFormat :: string
  ncc_InvalidateOnChange :: bool
  ncc_TimeToLiveSeconds :: uint
  ncc_MaxIdleSeconds :: uint
  ncc_CacheLocalEntries :: bool
  ncc_Eviction :: NearCacheEviction_cfg

record EventJournal_cfg =
  ejc_Enabled :: bool
  ejc_Capacity :: int32
  ejc_TimeToLiveSeconds :: int32

record Size_cfg =
  sz_Value :: int64
  sz_Unit :: string

record TieredStore_cfg =
  tsc_Enabled :: bool
  tsc_Capacity :: Size_cfg
  tsc_DiskEnabled :: bool
  tsc_DeviceName :: string

record MerkleTree_cfg =
  mtc_Enabled :: bool
  mtc_Depth :: int32

record Map_cfg =
  mc_BackupCount :: int32
  mc_AsyncBackupCount :: int32
  mc_TimeToLiveSeconds :: int32
  mc_MaxIdleSeconds :: int32
  mc_Eviction :: MapEviction
  mc_ReadBackupData :: bool
  mc_InMemoryFormat :: string
  mc_StatisticsEnabled :: bool
  mc_Indexes :: "MapIndex list option"
  mc_Attributes :: "Attribute_cfg list"
  mc_DataPersistence :: DataPersistence
  mc_WanReplicationReference :: "string \<rightharpoonup> WanReplicationReference"
  mc_MapStoreConfig :: MapStoreConfig_cfg
  mc_EntryListeners :: "EntryListener_cfg list"
  mc_NearCache :: NearCacheConfig_cfg
  mc_EventJournal :: EventJournal_cfg
  mc_TieredStore :: TieredStore_cfg
  mc_MerkleTree :: MerkleTree_cfg
  mc_UserCodeNamespace :: string

record MergePolicy_cfg =
  mp_ClassName :: string
  mp_BatchSize :: int32

record MultiMap_cfg =
  mmc_BackupCount :: int32
  mmc_AsyncBackupCount :: int32
  mmc_Binary :: bool
  mmc_CollectionType :: string
  mmc_StatisticsEnabled :: bool
  mmc_MergePolicy :: MergePolicy_cfg
  mmc_UserCodeNamespace :: string

record Queue_cfg =
  qc_BackupCount :: int32
  qc_AsyncBackupCount :: int32
  qc_EmptyQueueTtl :: int32
  qc_MaxSize :: int32
  qc_StatisticsEnabled :: bool
  qc_MergePolicy :: MergePolicy_cfg
  qc_PriorityComparatorClass :: string
  qc_UserCodeNamespace :: string

record Cache_cfg =
  cc_BackupCount :: int32
  cc_AsyncBackupCount :: int32
  cc_StatisticsEnabled :: bool
  cc_ManagementEnabled :: bool
  cc_ReadThrough :: bool
  cc_WriteThrough :: bool
  cc_MergePolicy :: MergePolicy_cfg
  cc_KeyType :: string
  cc_ValueType :: string
  cc_InMemoryFormat :: string
  cc_DataPersistence :: DataPersistence
  cc_EventJournal :: EventJournal_cfg
  cc_UserCodeNamespace :: string

record Topic_cfg =
  tc_GlobalOrderingEnabled :: bool
  tc_MultiThreadingEnabled :: bool
  tc_StatisticsEnabled :: bool
  tc_MessageListeners :: "string list"
  tc_UserCodeNamespace :: string

record ReplicatedMap_cfg =
  rmc_InMemoryFormat :: string
  rmc_AsyncFillup :: bool
  rmc_StatisticsEnabled :: bool
  rmc_MergePolicy :: MergePolicy_cfg
  rmc_UserCodeNamespace :: string

record ExecutorService_cfg =
  esc_PoolSize :: int32
  esc_QueueCapacity :: int32
  esc_UserCodeNamespace :: string

record DurableExecutorService_cfg =
  dec_PoolSize :: int32
  dec_Durability :: int32
  dec_Capacity :: int32
  dec_UserCodeNamespace :: string

record ScheduledExecutorService_cfg =
  sec_PoolSize :: int32
  sec_Durability :: int32
  sec_Capacity :: int32
  sec_CapacityPolicy :: string
  sec_UserCodeNamespace :: string

end
