(* ===== verification/Codec_Inputs.thy ===== *)
theory Codec_Inputs
  imports Config_Types
begin

text \<open>
  The arguments of the messages that add a data structure to a running cluster
  (\<^verbatim>\<open>internal/protocol/types\<close>), their default values, and the functions of the controllers that
  fill them from a specification. A field of type \<^verbatim>\<open>Data\<close> of the Go client is a byte string that
  may be nil. Reading through a nil pointer is a panic, \<open>None\<close>.
\<close>

type_synonym Data = "byte list option"

subsection \<open>Constants\<close>

definition DefaultMergePolicyClassName :: string where
  "DefaultMergePolicyClassName = ''com.hazelcast.spi.merge.PassThroughMergePolicy''"

definition PutIfAbsentMergePolicy :: string where
  "PutIfAbsentMergePolicy = ''com.hazelcast.spi.merge.PutIfAbsentMergePolicy''"

subsection \<open>Parts shared by the messages\<close>

record EvictionConfigHolder =
  ech_Size :: int32
  ech_MaxSizePolicy :: string
  ech_EvictionPolicy :: string
  ech_ComparatorClassName :: string
  ech_Comparator :: Data

definition EvictionConfigHolderZero :: EvictionConfigHolder where
  "EvictionConfigHolderZero = \<lparr> ech_Size = 0, ech_MaxSizePolicy = [], ech_EvictionPolicy = [],
     ech_ComparatorClassName = [], ech_Comparator = None \<rparr>"

record ListenerConfigHolder =
  lch_ListenerType :: int32
  lch_ListenerImplementation :: Data
  lch_ClassName :: string
  lch_IncludeValue :: bool
  lch_Local :: bool

record MapStoreConfigHolder =
  msh_Enabled :: bool
  msh_WriteCoalescing :: bool
  msh_WriteDelaySeconds :: int32
  msh_WriteBatchSize :: int32
  msh_ClassName :: string
  msh_Implementation :: Data
  msh_FactoryClassName :: string
  msh_FactoryImplementation :: Data
  msh_Properties :: "(string \<rightharpoonup> string) option"
  msh_InitialLoadMode :: string

definition MapStoreConfigHolderZero :: MapStoreConfigHolder where
  "MapStoreConfigHolderZero = \<lparr> msh_Enabled = False, msh_WriteCoalescing = False, msh_WriteDelaySeconds = 0,
     msh_WriteBatchSize = 0, msh_ClassName = [], msh_Implementation = None, msh_FactoryClassName = [],
     msh_FactoryImplementation = None, msh_Properties = None, msh_InitialLoadMode = [] \<rparr>"

record NearCachePreloaderConfig =
  npc_Enabled :: bool
  npc_Directory :: string
  npc_StoreInitialDelaySeconds :: int32
  npc_StoreIntervalSeconds :: int32

record NearCacheConfigHolder =
  nch_Name :: string
  nch_InMemoryFormat :: string
  nch_SerializeKeys :: bool
  nch_InvalidateOnChange :: bool
  nch_TimeToLiveSeconds :: int32
  nch_MaxIdleSeconds :: int32
  nch_EvictionConfigHolder :: EvictionConfigHolder
  nch_CacheLocalEntries :: bool
  nch_LocalUpdatePolicy :: string
  nch_PreloaderConfig :: NearCachePreloaderConfig

definition NearCacheConfigHolderZero :: NearCacheConfigHolder where
  "NearCacheConfigHolderZero = \<lparr> nch_Name = [], nch_InMemoryFormat = [], nch_SerializeKeys = False,
     nch_InvalidateOnChange = False, nch_TimeToLiveSeconds = 0, nch_MaxIdleSeconds = 0,
     nch_EvictionConfigHolder = EvictionConfigHolderZero, nch_CacheLocalEntries = False, nch_LocalUpdatePolicy = [],
     nch_PreloaderConfig = \<lparr> npc_Enabled = False, npc_Directory = [], npc_StoreInitialDelaySeconds = 0,
       npc_StoreIntervalSeconds = 0 \<rparr> \<rparr>"

record WanReplicationRef =
  wref_Name :: string
  wref_MergePolicyClassName :: string
  wref_Filters :: "string list option"
  wref_RepublishingEnabled :: bool

definition WanReplicationRefZero :: WanReplicationRef where
  "WanReplicationRefZero = \<lparr> wref_Name = [], wref_MergePolicyClassName = [], wref_Filters = None,
     wref_RepublishingEnabled = False \<rparr>"

record BitmapIndexOptions_codec =
  bo_UniqueKey :: string
  bo_UniqueKeyTransformation :: int32

definition BitmapIndexOptionsZero :: BitmapIndexOptions_codec where
  "BitmapIndexOptionsZero = \<lparr> bo_UniqueKey = [], bo_UniqueKeyTransformation = 0 \<rparr>"

record IndexConfig_codec =
  ixc_Name :: string
  ixc_Type :: int32
  ixc_Attributes :: "string list"
  ixc_BitmapIndexOptions :: BitmapIndexOptions_codec

record HotRestartConfig =
  hrc_Enabled :: bool
  hrc_Fsync :: bool

record MerkleTreeConfig_codec =
  mtk_Enabled :: bool
  mtk_Depth :: int32
  mtk_EnabledSet :: bool

record DataPersistenceConfig =
  dpc_Enabled :: bool
  dpc_Fsync :: bool

record MemoryTierConfig =
  mtc_Capacity :: Size_cfg

record DiskTierConfig =
  dtc_Enabled :: bool
  dtc_DeviceName :: string

record TieredStoreConfig_codec =
  tsk_Enabled :: bool
  tsk_MemoryTierConfig :: MemoryTierConfig
  tsk_DiskTierConfig :: DiskTierConfig

record PredicateConfigHolder =
  pch_ClassName :: string
  pch_Sql :: string
  pch_Implementation :: Data

record QueryCacheConfigHolder =
  qch_BatchSize :: int32
  qch_BufferSize :: int32
  qch_DelaySeconds :: int32
  qch_IncludeValue :: bool
  qch_Populate :: bool
  qch_Coalesce :: bool
  qch_InMemoryFormat :: string
  qch_Name :: string
  qch_PredicateConfigHolder :: PredicateConfigHolder
  qch_EvictionConfigHolder :: EvictionConfigHolder
  qch_ListenerConfigs :: "ListenerConfigHolder list option"
  qch_IndexConfigs :: "IndexConfig_codec list option"

record QueueStoreConfigHolder =
  qsc_ClassName :: string
  qsc_FactoryClassName :: string
  qsc_Implementation :: Data
  qsc_FactoryImplementation :: Data
  qsc_Properties :: "(string \<rightharpoonup> string) option"
  qsc_Enabled :: bool

definition QueueStoreConfigHolderZero :: QueueStoreConfigHolder where
  "QueueStoreConfigHolderZero = \<lparr> qsc_ClassName = [], qsc_FactoryClassName = [], qsc_Implementation = None,
     qsc_FactoryImplementation = None, qsc_Properties = None, qsc_Enabled = False \<rparr>"

record DurationConfig =
  duc_DurationAmount :: int64
  duc_TimeUnit :: int32

record TimedExpiryPolicyFactoryConfig =
  tep_ExpiryPolicyType :: int32
  tep_DurationConfig :: DurationConfig

definition TimedExpiryPolicyFactoryConfigZero :: TimedExpiryPolicyFactoryConfig where
  "TimedExpiryPolicyFactoryConfigZero = \<lparr> tep_ExpiryPolicyType = 0, tep_DurationConfig = \<lparr> duc_DurationAmount = 0, duc_TimeUnit = 0 \<rparr> \<rparr>"

subsection \<open>Map (request\_add\_map\_config.go, map\_controller.go)\<close>

text \<open>A slice or map that may be nil is an option, since the encoders tell nil from empty.\<close>

record AddMapConfigInput =
  am_Name :: string
  am_BackupCount :: int32
  am_AsyncBackupCount :: int32
  am_TimeToLiveSeconds :: int32
  am_MaxIdleSeconds :: int32
  am_EvictionConfig :: EvictionConfigHolder
  am_ReadBackupData :: bool
  am_CacheDeserializedValues :: string
  am_MergePolicy :: string
  am_MergeBatchSize :: int32
  am_InMemoryFormat :: string
  am_ListenerConfigs :: "ListenerConfigHolder list option"
  am_PartitionLostListenerConfigs :: "ListenerConfigHolder list option"
  am_StatisticsEnabled :: bool
  am_SplitBrainProtectionName :: string
  am_MapStoreConfig :: MapStoreConfigHolder
  am_NearCacheConfig :: NearCacheConfigHolder
  am_WanReplicationRef :: WanReplicationRef
  am_IndexConfigs :: "IndexConfig_codec list option"
  am_AttributeConfigs :: "AttributeConfig list option"
  am_QueryCacheConfigs :: "QueryCacheConfigHolder list option"
  am_PartitioningStrategyClassName :: string
  am_PartitioningStrategyImplementation :: Data
  am_HotRestartConfig :: HotRestartConfig
  am_EventJournalConfig :: EventJournal_cfg
  am_MerkleTreeConfig :: MerkleTreeConfig_codec
  am_MetadataPolicy :: int32
  am_PerEntryStatsEnabled :: bool
  am_TieredStoreConfig :: TieredStoreConfig_codec
  am_DataPersistenceConfig :: DataPersistenceConfig
  am_UserCodeNamespace :: string

definition DefaultAddMapConfigInput :: AddMapConfigInput where
  "DefaultAddMapConfigInput = \<lparr> am_Name = [], am_BackupCount = 1, am_AsyncBackupCount = 0, am_TimeToLiveSeconds = 0,
     am_MaxIdleSeconds = 0,
     am_EvictionConfig = EvictionConfigHolderZero\<lparr> ech_EvictionPolicy := ''NONE'', ech_MaxSizePolicy := ''PER_NODE'' \<rparr>,
     am_ReadBackupData = False, am_CacheDeserializedValues = ''INDEX_ONLY'', am_MergePolicy = PutIfAbsentMergePolicy,
     am_MergeBatchSize = 100, am_InMemoryFormat = ''BINARY'', am_ListenerConfigs = None, am_PartitionLostListenerConfigs = None, am_StatisticsEnabled = True,
     am_SplitBrainProtectionName = [],
     am_MapStoreConfig = MapStoreConfigHolderZero, am_NearCacheConfig = NearCacheConfigHolderZero,
     am_WanReplicationRef = WanReplicationRefZero, am_IndexConfigs = None, am_AttributeConfigs = None,
     am_QueryCacheConfigs = None, am_PartitioningStrategyClassName = [], am_PartitioningStrategyImplementation = None,
     am_HotRestartConfig = \<lparr> hrc_Enabled = False, hrc_Fsync = False \<rparr>,
     am_EventJournalConfig = \<lparr> ejc_Enabled = False, ejc_Capacity = 0, ejc_TimeToLiveSeconds = 0 \<rparr>,
     am_MerkleTreeConfig = \<lparr> mtk_Enabled = False, mtk_Depth = 0, mtk_EnabledSet = False \<rparr>,
     am_MetadataPolicy = 0, am_PerEntryStatsEnabled = False,
     am_TieredStoreConfig = \<lparr> tsk_Enabled = False,
       tsk_MemoryTierConfig = \<lparr> mtc_Capacity = \<lparr> sz_Value = 256, sz_Unit = ''MEGABYTES'' \<rparr> \<rparr>,
       tsk_DiskTierConfig = \<lparr> dtc_Enabled = False, dtc_DeviceName = ''default-tiered-store-device'' \<rparr> \<rparr>,
     am_DataPersistenceConfig = \<lparr> dpc_Enabled = False, dpc_Fsync = False \<rparr>,
     am_UserCodeNamespace = [] \<rparr>"

definition defaultWanReplicationRefName :: "Map \<Rightarrow> string" where
  "defaultWanReplicationRefName m = MapName m @ ''-default''"

definition defaultWanReplicationRefCodec :: "Map \<Rightarrow> WanReplicationRef" where
  "defaultWanReplicationRefCodec m = \<lparr> wref_Name = defaultWanReplicationRefName m,
     wref_MergePolicyClassName = DefaultMergePolicyClassName, wref_Filters = Some [], wref_RepublishingEnabled = True \<rparr>"

definition copyIndexes :: "IndexConfig list option \<Rightarrow> IndexConfig_codec list" where
  "copyIndexes idx = map (\<lambda>index. \<lparr> ixc_Name = ix_Name index,
     ixc_Type = (if ix_Type index \<noteq> IndexTypeUnset then EncodeIndexType (ix_Type index) else 0),
     ixc_Attributes = elems (ix_Attributes index),
     ixc_BitmapIndexOptions = (case ix_BitmapIndexOptions index of None \<Rightarrow> BitmapIndexOptionsZero
        | Some b \<Rightarrow> \<lparr> bo_UniqueKey = bio_UniqueKey b, bo_UniqueKeyTransformation =
            (if bio_UniqueKeyTransition b \<noteq> UniqueKeyTransitionUnset
             then EncodeUniqueKeyTransition (bio_UniqueKeyTransition b) else 0) \<rparr>) \<rparr>) (elems idx)"

definition copyAttributes :: "AttributeConfig list \<Rightarrow> AttributeConfig list option" where
  "copyAttributes attributes = (if attributes = [] then None
     else Some (map (\<lambda>a. \<lparr> at_Name = at_Name a, at_ExtractorClassName = at_ExtractorClassName a \<rparr>) attributes))"

text \<open>The steps of \<^verbatim>\<open>fillAddMapConfigInput\<close> after the fields every map has. \<open>props\<close> are the properties of
  the map store; a map store without properties gets one that stands for none.\<close>

definition fillMapStore :: "MapStoreConfig \<Rightarrow> (string \<rightharpoonup> string) \<Rightarrow> AddMapConfigInput \<Rightarrow> AddMapConfigInput" where
  "fillMapStore st props mi = mi\<lparr> am_MapStoreConfig := (am_MapStoreConfig mi)\<lparr> msh_Enabled := True, msh_ClassName := mst_ClassName st,
     msh_WriteCoalescing := (case mst_WriteCoealescing st of None \<Rightarrow> True | Some b \<Rightarrow> b),
     msh_WriteDelaySeconds := mst_WriteDelaySeconds st, msh_WriteBatchSize := mst_WriteBatchSize st,
     msh_Properties := Some (if props = Map.empty then [''no_empty_props_allowed'' \<mapsto> []] else props),
     msh_InitialLoadMode := InitialMode_text (mst_InitialMode st) \<rparr> \<rparr>"

definition fillListeners :: "EntryListenerConfiguration list \<Rightarrow> AddMapConfigInput \<Rightarrow> AddMapConfigInput" where
  "fillListeners els mi = (if els = [] then mi else mi\<lparr> am_ListenerConfigs := Some (map (\<lambda>el.
     \<lparr> lch_ListenerType = 2, lch_ListenerImplementation = None, lch_ClassName = el_ClassName el,
       lch_IncludeValue = EntryListener_GetIncludedValue el, lch_Local = el_Local el \<rparr>) els) \<rparr>)"

definition fillNearCache :: "NearCache \<Rightarrow> AddMapConfigInput \<Rightarrow> AddMapConfigInput go" where
  "fillNearCache nc mi =
     (case (nc_InvalidateOnChange nc, nc_CacheLocalEntries nc) of
        (Some invalidate, Some loc) \<Rightarrow> Some (mi\<lparr> am_NearCacheConfig := (am_NearCacheConfig mi)\<lparr> nch_Name := nc_Name nc,
          nch_InMemoryFormat := InMemoryFormat_text (nc_InMemoryFormat nc), nch_InvalidateOnChange := invalidate,
          nch_TimeToLiveSeconds := ucast (nc_TimeToLiveSeconds nc), nch_MaxIdleSeconds := ucast (nc_MaxIdleSeconds nc),
          nch_CacheLocalEntries := loc, nch_LocalUpdatePolicy := ''INVALIDATE'',
          nch_PreloaderConfig := \<lparr> npc_Enabled = False, npc_Directory = [], npc_StoreInitialDelaySeconds = 600,
            npc_StoreIntervalSeconds = 600 \<rparr>,
          nch_EvictionConfigHolder := EvictionConfigHolderZero\<lparr>
            ech_EvictionPolicy := EvictionPolicy_text (nce_EvictionPolicy (nc_NearCacheEviction nc)),
            ech_MaxSizePolicy := MaxSizePolicy_text (nce_MaxSizePolicy (nc_NearCacheEviction nc)),
            ech_Size := nce_Size (nc_NearCacheEviction nc) \<rparr> \<rparr> \<rparr>)
      | _ \<Rightarrow> None)"

definition fillTieredStore :: "(Quantity option \<Rightarrow> int64 go) \<Rightarrow> TieredStore \<Rightarrow> AddMapConfigInput \<Rightarrow> AddMapConfigInput go" where
  "fillTieredStore quantity ts mi = map_option (\<lambda>v. mi\<lparr> am_TieredStoreConfig := (am_TieredStoreConfig mi)\<lparr> tsk_Enabled := True,
     tsk_MemoryTierConfig := \<lparr> mtc_Capacity = \<lparr> sz_Value = v, sz_Unit = ''BYTES'' \<rparr> \<rparr>,
     tsk_DiskTierConfig := \<lparr> dtc_Enabled = True, dtc_DeviceName = ts_DiskDeviceName ts \<rparr> \<rparr> \<rparr>) (quantity (ts_MemoryCapacity ts))"

text \<open>\<open>props\<close> is the answer of \<^verbatim>\<open>getMapStoreProperties\<close>; the other steps cannot fail except by a panic.\<close>

definition fillAddMapConfigInput :: "(Quantity option \<Rightarrow> int64 go) \<Rightarrow> 'e + (string \<rightharpoonup> string) \<Rightarrow> AddMapConfigInput \<Rightarrow> Map \<Rightarrow>
    ('e + AddMapConfigInput) go" where
  "fillAddMapConfigInput quantity props mi0 m =
     (let ms = m_Spec m; ds = ms_DataStructureSpec ms in
      case ds_BackupCount ds of
        None \<Rightarrow> None
      | Some bc \<Rightarrow>
          (let mi = mi0\<lparr> am_Name := MapName m, am_BackupCount := bc, am_AsyncBackupCount := ds_AsyncBackupCount ds,
                 am_TimeToLiveSeconds := ms_TimeToLiveSeconds ms, am_MaxIdleSeconds := ms_MaxIdleSeconds ms,
                 am_EvictionConfig := (am_EvictionConfig mi0)\<lparr> ech_EvictionPolicy := EvictionPolicy_text (ev_EvictionPolicy (ms_Eviction ms)),
                   ech_Size := ev_MaxSize (ms_Eviction ms),
                   ech_MaxSizePolicy := MaxSizePolicy_text (ev_MaxSizePolicy (ms_Eviction ms)) \<rparr>,
                 am_IndexConfigs := Some (copyIndexes (ms_Indexes ms)), am_AttributeConfigs := copyAttributes (ms_Attributes ms),
                 am_HotRestartConfig := (am_HotRestartConfig mi0)\<lparr> hrc_Enabled := ms_PersistenceEnabled ms \<rparr>,
                 am_WanReplicationRef := defaultWanReplicationRefCodec m,
                 am_InMemoryFormat := InMemoryFormat_text (ms_InMemoryFormat ms),
                 am_UserCodeNamespace := ds_UserCodeNamespace ds,
                 am_MerkleTreeConfig := (case ms_MerkleTree ms of None \<Rightarrow> am_MerkleTreeConfig mi0
                   | Some t \<Rightarrow> \<lparr> mtk_Enabled = True, mtk_Depth = mt_Depth t, mtk_EnabledSet = True \<rparr>) \<rparr>
           in case (case ms_MapStore ms of None \<Rightarrow> Inr mi
                    | Some st \<Rightarrow> (case props of Inl e \<Rightarrow> Inl e | Inr ps \<Rightarrow> Inr (fillMapStore st ps mi))) of
                Inl e \<Rightarrow> Some (Inl e)
              | Inr mi1 \<Rightarrow>
                  Option.bind (case ms_NearCache ms of None \<Rightarrow> Some (fillListeners (ms_EntryListeners ms) mi1)
                    | Some nc \<Rightarrow> fillNearCache nc (fillListeners (ms_EntryListeners ms) mi1)) (\<lambda>mi2.
                  let mi3 = (case ms_EventJournal ms of None \<Rightarrow> mi2
                    | Some ej \<Rightarrow> mi2\<lparr> am_EventJournalConfig := \<lparr> ejc_Enabled = True, ejc_Capacity = ej_Capacity ej,
                        ejc_TimeToLiveSeconds = ej_TimeToLiveSeconds ej \<rparr> \<rparr>)
                  in map_option Inr (case ms_TieredStore ms of None \<Rightarrow> Some mi3
                    | Some ts \<Rightarrow> fillTieredStore quantity ts mi3))))"

subsection \<open>The other data structures\<close>

record QueueConfigInput =
  qi_Name :: string
  qi_ListenerConfigs :: "ListenerConfigHolder list option"
  qi_BackupCount :: int32
  qi_AsyncBackupCount :: int32
  qi_MaxSize :: int32
  qi_EmptyQueueTtl :: int32
  qi_StatisticsEnabled :: bool
  qi_SplitBrainProtectionName :: string
  qi_QueueStoreConfig :: QueueStoreConfigHolder
  qi_MergePolicy :: string
  qi_MergeBatchSize :: int32
  qi_PriorityComparatorClassName :: string
  qi_UserCodeNamespace :: string

definition DefaultQueueConfigInput :: QueueConfigInput where
  "DefaultQueueConfigInput = \<lparr> qi_Name = [], qi_ListenerConfigs = None, qi_BackupCount = 1, qi_AsyncBackupCount = 0, qi_MaxSize = 0,
     qi_EmptyQueueTtl = -1, qi_StatisticsEnabled = True, qi_SplitBrainProtectionName = [],
     qi_QueueStoreConfig = QueueStoreConfigHolderZero, qi_MergePolicy = PutIfAbsentMergePolicy, qi_MergeBatchSize = 100,
     qi_PriorityComparatorClassName = [], qi_UserCodeNamespace = [] \<rparr>"

record TopicConfig =
  ti_Name :: string
  ti_GlobalOrderingEnabled :: bool
  ti_MultiThreadingEnabled :: bool
  ti_StatisticsEnabled :: bool
  ti_ListenerConfigs :: "ListenerConfigHolder list option"
  ti_UserCodeNamespace :: string

definition DefaultTopicConfigInput :: TopicConfig where
  "DefaultTopicConfigInput = \<lparr> ti_Name = [], ti_GlobalOrderingEnabled = False, ti_MultiThreadingEnabled = False,
     ti_StatisticsEnabled = True, ti_ListenerConfigs = None, ti_UserCodeNamespace = [] \<rparr>"

record MultiMapConfig =
  mmi_Name :: string
  mmi_CollectionType :: string
  mmi_BackupCount :: int32
  mmi_AsyncBackupCount :: int32
  mmi_Binary :: bool
  mmi_MergePolicy :: string
  mmi_MergeBatchSize :: int32
  mmi_StatisticsEnabled :: bool
  mmi_ListenerConfigs :: "ListenerConfigHolder list option"
  mmi_SplitBrainProtectionName :: string
  mmi_UserCodeNamespace :: string

text \<open>The default of the collection type is, by a slip, the default name of a cluster; it is
  always overwritten.\<close>

definition DefaultMultiMapConfigInput :: MultiMapConfig where
  "DefaultMultiMapConfigInput = \<lparr> mmi_Name = [], mmi_CollectionType = ''dev'', mmi_BackupCount = 1,
     mmi_AsyncBackupCount = 0, mmi_Binary = False, mmi_MergePolicy = PutIfAbsentMergePolicy, mmi_MergeBatchSize = 100,
     mmi_StatisticsEnabled = True, mmi_ListenerConfigs = None, mmi_SplitBrainProtectionName = [], mmi_UserCodeNamespace = [] \<rparr>"

record ReplicatedMapConfig =
  rmi_Name :: string
  rmi_InMemoryFormat :: string
  rmi_AsyncFillup :: bool
  rmi_MergePolicy :: string
  rmi_MergeBatchSize :: int32
  rmi_StatisticsEnabled :: bool
  rmi_ListenerConfigs :: "ListenerConfigHolder list option"
  rmi_SplitBrainProtectionName :: string
  rmi_UserCodeNamespace :: string

definition DefaultReplicatedMapConfigInput :: ReplicatedMapConfig where
  "DefaultReplicatedMapConfigInput = \<lparr> rmi_Name = [], rmi_InMemoryFormat = ''OBJECT'', rmi_AsyncFillup = True,
     rmi_MergePolicy = PutIfAbsentMergePolicy, rmi_MergeBatchSize = 100, rmi_StatisticsEnabled = True,
     rmi_ListenerConfigs = None, rmi_SplitBrainProtectionName = [], rmi_UserCodeNamespace = [] \<rparr>"

record CacheConfigInput =
  ci_Name :: string
  ci_BackupCount :: int32
  ci_AsyncBackupCount :: int32
  ci_StatisticsEnabled :: bool
  ci_ManagementEnabled :: bool
  ci_ReadThrough :: bool
  ci_WriteThrough :: bool
  ci_MergePolicy :: string
  ci_MergeBatchSize :: int32
  ci_DisablePerEntryInvalidationEvents :: bool
  ci_KeyType :: string
  ci_ValueType :: string
  ci_CacheLoaderFactory :: string
  ci_CacheWriterFactory :: string
  ci_CacheLoader :: string
  ci_CacheWriter :: string
  ci_InMemoryFormat :: string
  ci_SplitBrainProtectionName :: string
  ci_PartitionLostListenerConfigs :: "ListenerConfigHolder list option"
  ci_ExpiryPolicyFactoryClassName :: string
  ci_TimedExpiryPolicyFactoryConfig :: TimedExpiryPolicyFactoryConfig
  ci_CacheEntryListeners :: "ListenerConfigHolder list option"
  ci_EvictionConfig :: EvictionConfigHolder
  ci_WanReplicationRef :: WanReplicationRef
  ci_EventJournalConfig :: EventJournal_cfg
  ci_HotRestartConfig :: HotRestartConfig
  ci_MerkleTreeConfig :: MerkleTreeConfig_codec
  ci_DataPersistenceConfig :: DataPersistenceConfig
  ci_UserCodeNamespace :: string

definition DefaultCacheConfigInput :: CacheConfigInput where
  "DefaultCacheConfigInput = \<lparr> ci_Name = [], ci_BackupCount = 1, ci_AsyncBackupCount = 0, ci_StatisticsEnabled = False,
     ci_ManagementEnabled = False, ci_ReadThrough = False, ci_WriteThrough = False, ci_MergePolicy = PutIfAbsentMergePolicy,
     ci_MergeBatchSize = 100, ci_DisablePerEntryInvalidationEvents = False, ci_KeyType = [], ci_ValueType = [],
     ci_CacheLoaderFactory = [], ci_CacheWriterFactory = [], ci_CacheLoader = [], ci_CacheWriter = [],
     ci_InMemoryFormat = ''BINARY'', ci_SplitBrainProtectionName = [], ci_PartitionLostListenerConfigs = None,
     ci_ExpiryPolicyFactoryClassName = [], ci_TimedExpiryPolicyFactoryConfig = TimedExpiryPolicyFactoryConfigZero, ci_CacheEntryListeners = None,
     ci_EvictionConfig = EvictionConfigHolderZero\<lparr> ech_Size := 10000, ech_MaxSizePolicy := ''ENTRY_COUNT'',
       ech_EvictionPolicy := ''LRU'' \<rparr>,
     ci_WanReplicationRef = WanReplicationRefZero,
     ci_EventJournalConfig = \<lparr> ejc_Enabled = False, ejc_Capacity = 0, ejc_TimeToLiveSeconds = 0 \<rparr>,
     ci_HotRestartConfig = \<lparr> hrc_Enabled = False, hrc_Fsync = False \<rparr>,
     ci_MerkleTreeConfig = \<lparr> mtk_Enabled = False, mtk_Depth = 0, mtk_EnabledSet = False \<rparr>,
     ci_DataPersistenceConfig = \<lparr> dpc_Enabled = False, dpc_Fsync = False \<rparr>, ci_UserCodeNamespace = [] \<rparr>"

text \<open>\<^verbatim>\<open>GetDSName\<close> of the five resources: the name in the specification or else that of the resource.\<close>

definition GetDSName :: "('s \<Rightarrow> string) \<Rightarrow> 's data_structure \<Rightarrow> string" where
  "GetDSName name ob = (if name (do_Spec ob) \<noteq> [] then name (do_Spec ob) else om_Name (do_Meta ob))"

abbreviation Queue_name :: "QueueSpec \<Rightarrow> string" where "Queue_name s \<equiv> ds_Name (qu_DataStructureSpec s)"

abbreviation Cache_name :: "CacheSpec \<Rightarrow> string" where "Cache_name s \<equiv> ds_Name (cs_DataStructureSpec s)"

abbreviation MultiMap_name :: "MultiMapSpec \<Rightarrow> string" where "MultiMap_name s \<equiv> ds_Name (mm_DataStructureSpec s)"

definition fillQueueConfigInput :: "QueueConfigInput \<Rightarrow> Queue \<Rightarrow> QueueConfigInput go" where
  "fillQueueConfigInput qi q =
     (let qs = do_Spec q; ds = qu_DataStructureSpec qs in
      case (ds_BackupCount ds, qu_EmptyQueueTtlSeconds qs) of
        (Some bc, Some ttl) \<Rightarrow> Some (qi\<lparr> qi_Name := GetDSName Queue_name q, qi_BackupCount := bc,
          qi_AsyncBackupCount := ds_AsyncBackupCount ds, qi_EmptyQueueTtl := ttl, qi_MaxSize := qu_MaxSize qs,
          qi_PriorityComparatorClassName := qu_PriorityComparatorClassName qs,
          qi_UserCodeNamespace := ds_UserCodeNamespace ds \<rparr>)
      | _ \<Rightarrow> None)"

definition fillTopicConfigInput :: "TopicConfig \<Rightarrow> Topic \<Rightarrow> TopicConfig go" where
  "fillTopicConfigInput ti t =
     (let ts = do_Spec t
      in Some (ti\<lparr> ti_Name := GetDSName tp_Name t, ti_GlobalOrderingEnabled := tp_GlobalOrderingEnabled ts,
           ti_MultiThreadingEnabled := tp_MultiThreadingEnabled ts, ti_UserCodeNamespace := tp_UserCodeNamespace ts \<rparr>))"

definition fillMultiMapConfigInput :: "MultiMapConfig \<Rightarrow> MultiMap \<Rightarrow> MultiMapConfig go" where
  "fillMultiMapConfigInput mmi mm =
     (let ms = do_Spec mm; ds = mm_DataStructureSpec ms
      in map_option (\<lambda>bc. mmi\<lparr> mmi_Name := GetDSName MultiMap_name mm, mmi_BackupCount := bc,
           mmi_AsyncBackupCount := ds_AsyncBackupCount ds, mmi_Binary := mm_Binary ms,
           mmi_CollectionType := CollectionType_text (mm_CollectionType ms),
           mmi_UserCodeNamespace := ds_UserCodeNamespace ds \<rparr>) (ds_BackupCount ds))"

definition fillReplicatedConfigInput :: "ReplicatedMapConfig \<Rightarrow> ReplicatedMap \<Rightarrow> ReplicatedMapConfig go" where
  "fillReplicatedConfigInput rmi rm =
     (let rs = do_Spec rm
      in map_option (\<lambda>af. rmi\<lparr> rmi_Name := GetDSName rm_Name rm,
           rmi_InMemoryFormat := RMInMemoryFormat_text (rm_InMemoryFormat rs), rmi_AsyncFillup := af,
           rmi_UserCodeNamespace := rm_UserCodeNamespace rs \<rparr>) (rm_AsyncFillup rs))"

definition fillCacheConfigInput :: "CacheConfigInput \<Rightarrow> Cache \<Rightarrow> CacheConfigInput go" where
  "fillCacheConfigInput ci c =
     (let cs = do_Spec c; ds = cs_DataStructureSpec cs
      in map_option (\<lambda>bc. ci\<lparr> ci_Name := GetDSName Cache_name c, ci_BackupCount := bc,
           ci_AsyncBackupCount := ds_AsyncBackupCount ds, ci_KeyType := cs_KeyType cs, ci_ValueType := cs_ValueType cs,
           ci_HotRestartConfig := (ci_HotRestartConfig ci)\<lparr> hrc_Enabled := cs_PersistenceEnabled cs \<rparr>,
           ci_InMemoryFormat := InMemoryFormat_text (cs_InMemoryFormat cs),
           ci_EventJournalConfig := (case cs_EventJournal cs of None \<Rightarrow> ci_EventJournalConfig ci
             | Some ej \<Rightarrow> \<lparr> ejc_Enabled = True, ejc_Capacity = ej_Capacity ej, ejc_TimeToLiveSeconds = ej_TimeToLiveSeconds ej \<rparr>),
           ci_UserCodeNamespace := ds_UserCodeNamespace ds \<rparr>) (ds_BackupCount ds))"

end
