(* ===== verification/Config_Generation.thy ===== *)
theory Config_Generation
  imports Codec_Inputs Wan_Controller
begin

text \<open>
  The configuration the Hazelcast controller writes for a cluster
  (\<^verbatim>\<open>internal/controller/hazelcast/hazelcast_resources.go\<close>): the basic part from the specification,
  and the parts for the resources that live on the cluster (\<^verbatim>\<open>create...Config\<close>,
  \<^verbatim>\<open>fillHazelcastConfigWith...\<close>, \<^verbatim>\<open>filterPersisted...\<close>).

  The answers of the API server, JSON and YAML are parameters. Reading through a nil pointer is
  a panic, \<open>None\<close>.
\<close>

subsection \<open>Paths\<close>

text \<open>\<^verbatim>\<open>path.Clean\<close> on the parts between slashes, and \<^verbatim>\<open>path.Join\<close> of two elements.\<close>

fun cleanParts :: "bool \<Rightarrow> string list \<Rightarrow> string list \<Rightarrow> string list" where
  "cleanParts rooted acc [] = rev acc"
| "cleanParts rooted acc (p # ps) =
     (if p = [] \<or> p = ''.'' then cleanParts rooted acc ps
      else if p = ''..'' then
        (case acc of
           [] \<Rightarrow> if rooted then cleanParts rooted [] ps else cleanParts rooted [p] ps
         | q # qs \<Rightarrow> if q = ''..'' then cleanParts rooted (p # acc) ps else cleanParts rooted qs ps)
      else cleanParts rooted (p # acc) ps)"

definition path_Clean :: "string \<Rightarrow> string" where
  "path_Clean p =
     (let rooted = HasPrefix p ''/''; parts = cleanParts rooted [] (Split p ''/'')
      in if rooted then ''/'' @ Join parts ''/'' else if parts = [] then ''.'' else Join parts ''/'')"

definition path_Join :: "string \<Rightarrow> string \<Rightarrow> string" where
  "path_Join a b = (if a = [] \<and> b = [] then [] else if a = [] then path_Clean b else if b = [] then path_Clean a
     else path_Clean (a @ ''/'' @ b))"

subsection \<open>Maps\<close>

definition attributes :: "AttributeConfig list \<Rightarrow> Attribute_cfg list" where
  "attributes as = map (\<lambda>a. \<lparr> ac_Name = at_Name a, ac_ExtractorClassName = at_ExtractorClassName a \<rparr>) as"

text \<open>Nil indexes stay nil; an empty slice becomes an empty slice.\<close>

definition copyMapIndexes :: "IndexConfig list option \<Rightarrow> MapIndex list option" where
  "copyMapIndexes idx = map_option (map (\<lambda>index. \<lparr> mi_Name = ix_Name index, mi_Type = IndexType_text (ix_Type index),
     mi_Attributes = ix_Attributes index,
     mi_BitmapIndexOptions = (case ix_BitmapIndexOptions index of
        None \<Rightarrow> \<lparr> bi_UniqueKey = [], bi_UniqueKeyTransformation = [] \<rparr>
      | Some b \<Rightarrow> \<lparr> bi_UniqueKey = bio_UniqueKey b,
          bi_UniqueKeyTransformation = UniqueKeyTransition_text (bio_UniqueKeyTransition b) \<rparr>) \<rparr>)) idx"

definition wanReplicationRef :: "WanReplicationRef \<Rightarrow> string \<rightharpoonup> WanReplicationReference" where
  "wanReplicationRef ref = [wref_Name ref \<mapsto> \<lparr> wrr_MergePolicyClassName = wref_MergePolicyClassName ref,
     wrr_RepublishingEnabled = wref_RepublishingEnabled ref, wrr_Filters = (case wref_Filters ref of None \<Rightarrow> [] | Some fs \<Rightarrow> fs) \<rparr>]"

text \<open>\<open>secret\<close> is the read of the Secret with the properties; the result is nil without a Secret.\<close>

definition getMapStoreProperties :: "(NamespacedName \<Rightarrow> 'e + (string \<rightharpoonup> string)) \<Rightarrow> string \<Rightarrow> string \<Rightarrow>
    'e + (string \<rightharpoonup> string) option" where
  "getMapStoreProperties secret sn ns =
     (if sn = [] then Inr None
      else case secret \<lparr> nn_Name = sn, nn_Namespace = ns \<rparr> of Inl e \<Rightarrow> Inl e | Inr d \<Rightarrow> Inr (Some d))"

definition MapStoreConfigZero :: MapStoreConfig_cfg where
  "MapStoreConfigZero = \<lparr> msc_Enabled = False, msc_WriteCoalescing = None, msc_WriteDelaySeconds = 0, msc_WriteBatchSize = 0,
     msc_ClassName = [], msc_Properties = None, msc_InitialLoadMode = [] \<rparr>"

definition NearCacheConfigZero :: NearCacheConfig_cfg where
  "NearCacheConfigZero = \<lparr> ncc_InMemoryFormat = [], ncc_InvalidateOnChange = False, ncc_TimeToLiveSeconds = 0,
     ncc_MaxIdleSeconds = 0, ncc_CacheLocalEntries = False,
     ncc_Eviction = \<lparr> ncec_Size = 0, ncec_MaxSizePolicy = [], ncec_EvictionPolicy = [] \<rparr> \<rparr>"

definition nearCacheConfig :: "NearCache \<Rightarrow> NearCacheConfig_cfg go" where
  "nearCacheConfig nc =
     (case (nc_InvalidateOnChange nc, nc_CacheLocalEntries nc) of
        (Some invalidate, Some loc) \<Rightarrow> Some \<lparr> ncc_InMemoryFormat = InMemoryFormat_text (nc_InMemoryFormat nc),
          ncc_InvalidateOnChange = invalidate, ncc_TimeToLiveSeconds = nc_TimeToLiveSeconds nc,
          ncc_MaxIdleSeconds = nc_MaxIdleSeconds nc, ncc_CacheLocalEntries = loc,
          ncc_Eviction = \<lparr> ncec_Size = nce_Size (nc_NearCacheEviction nc),
            ncec_MaxSizePolicy = MaxSizePolicy_text (nce_MaxSizePolicy (nc_NearCacheEviction nc)),
            ncec_EvictionPolicy = EvictionPolicy_text (nce_EvictionPolicy (nc_NearCacheEviction nc)) \<rparr> \<rparr>
      | _ \<Rightarrow> None)"

definition tieredStoreConfig :: "(Quantity option \<Rightarrow> int64 go) \<Rightarrow> TieredStore \<Rightarrow> TieredStore_cfg go" where
  "tieredStoreConfig quantity ts = map_option (\<lambda>v. \<lparr> tsc_Enabled = True, tsc_Capacity = \<lparr> sz_Value = v, sz_Unit = ''BYTES'' \<rparr>,
     tsc_DiskEnabled = True, tsc_DeviceName = ts_DiskDeviceName ts \<rparr>) (quantity (ts_MemoryCapacity ts))"

text \<open>The configuration of a map. As in the source, \<^verbatim>\<open>MaxIdleSeconds\<close> is not among the fields it sets.\<close>

definition createMapConfig :: "(Quantity option \<Rightarrow> int64 go) \<Rightarrow> (NamespacedName \<Rightarrow> 'e + (string \<rightharpoonup> string)) \<Rightarrow> Hazelcast \<Rightarrow> Map \<Rightarrow>
    ('e + Map_cfg) go" where
  "createMapConfig quantity secret hz m =
     (let ms = m_Spec m; ds = ms_DataStructureSpec ms in
      case ds_BackupCount ds of
        None \<Rightarrow> None
      | Some bc \<Rightarrow>
          (case (case ms_MapStore ms of
                   None \<Rightarrow> Inr MapStoreConfigZero
                 | Some st \<Rightarrow>
                     (case getMapStoreProperties secret (mst_PropertiesSecretName st) (om_Namespace (h_Meta hz)) of
                        Inl e \<Rightarrow> Inl e
                      | Inr msp \<Rightarrow> Inr \<lparr> msc_Enabled = True, msc_WriteCoalescing = mst_WriteCoealescing st,
                          msc_WriteDelaySeconds = mst_WriteDelaySeconds st, msc_WriteBatchSize = mst_WriteBatchSize st,
                          msc_ClassName = mst_ClassName st, msc_Properties = msp,
                          msc_InitialLoadMode = InitialMode_text (mst_InitialMode st) \<rparr>)) of
             Inl e \<Rightarrow> Some (Inl e)
           | Inr store \<Rightarrow>
               (case (case ms_NearCache ms of None \<Rightarrow> Some NearCacheConfigZero | Some nc \<Rightarrow> nearCacheConfig nc,
                      case ms_TieredStore ms of
                        None \<Rightarrow> Some \<lparr> tsc_Enabled = False, tsc_Capacity = \<lparr> sz_Value = 0, sz_Unit = [] \<rparr>,
                          tsc_DiskEnabled = False, tsc_DeviceName = [] \<rparr>
                      | Some ts \<Rightarrow> tieredStoreConfig quantity ts) of
                  (Some near, Some tiered) \<Rightarrow> Some (Inr
                    \<lparr> mc_BackupCount = bc, mc_AsyncBackupCount = ds_AsyncBackupCount ds,
                      mc_TimeToLiveSeconds = ms_TimeToLiveSeconds ms, mc_MaxIdleSeconds = 0,
                      mc_Eviction = \<lparr> me_Size = ev_MaxSize (ms_Eviction ms),
                        me_MaxSizePolicy = MaxSizePolicy_text (ev_MaxSizePolicy (ms_Eviction ms)),
                        me_EvictionPolicy = EvictionPolicy_text (ev_EvictionPolicy (ms_Eviction ms)) \<rparr>,
                      mc_ReadBackupData = False, mc_InMemoryFormat = InMemoryFormat_text (ms_InMemoryFormat ms),
                      mc_StatisticsEnabled = True, mc_Indexes = copyMapIndexes (ms_Indexes ms),
                      mc_Attributes = attributes (ms_Attributes ms),
                      mc_DataPersistence = \<lparr> dp_Enabled = ms_PersistenceEnabled ms, dp_Fsync = False \<rparr>,
                      mc_WanReplicationReference = wanReplicationRef (defaultWanReplicationRefCodec m),
                      mc_MapStoreConfig = store,
                      mc_EntryListeners = map (\<lambda>el. \<lparr> elc_ClassName = el_ClassName el,
                        elc_IncludeValue = EntryListener_GetIncludedValue el, elc_Local = el_Local el \<rparr>) (ms_EntryListeners ms),
                      mc_NearCache = near,
                      mc_EventJournal = (case ms_EventJournal ms of
                         None \<Rightarrow> \<lparr> ejc_Enabled = False, ejc_Capacity = 0, ejc_TimeToLiveSeconds = 0 \<rparr>
                       | Some ej \<Rightarrow> \<lparr> ejc_Enabled = True, ejc_Capacity = ej_Capacity ej,
                           ejc_TimeToLiveSeconds = ej_TimeToLiveSeconds ej \<rparr>),
                      mc_TieredStore = tiered,
                      mc_MerkleTree = (case ms_MerkleTree ms of
                         None \<Rightarrow> \<lparr> mtc_Enabled = False, mtc_Depth = 0 \<rparr>
                       | Some t \<Rightarrow> \<lparr> mtc_Enabled = True, mtc_Depth = mt_Depth t \<rparr>),
                      mc_UserCodeNamespace = ds_UserCodeNamespace ds \<rparr>)
                | _ \<Rightarrow> None)))"

subsection \<open>The other data structures\<close>

definition createMultiMapConfig :: "MultiMap \<Rightarrow> MultiMap_cfg go" where
  "createMultiMapConfig mm =
     (let ms = do_Spec mm; ds = mm_DataStructureSpec ms
      in map_option (\<lambda>bc. \<lparr> mmc_BackupCount = bc, mmc_AsyncBackupCount = ds_AsyncBackupCount ds, mmc_Binary = mm_Binary ms,
           mmc_CollectionType = CollectionType_text (mm_CollectionType ms), mmc_StatisticsEnabled = True,
           mmc_MergePolicy = \<lparr> mp_ClassName = PutIfAbsentMergePolicy, mp_BatchSize = 100 \<rparr>,
           mmc_UserCodeNamespace = ds_UserCodeNamespace ds \<rparr>) (ds_BackupCount ds))"

definition createQueueConfig :: "Queue \<Rightarrow> Queue_cfg go" where
  "createQueueConfig q =
     (let qs = do_Spec q; ds = qu_DataStructureSpec qs in
      case (ds_BackupCount ds, qu_EmptyQueueTtlSeconds qs) of
        (Some bc, Some ttl) \<Rightarrow> Some \<lparr> qc_BackupCount = bc, qc_AsyncBackupCount = ds_AsyncBackupCount ds, qc_EmptyQueueTtl = ttl,
           qc_MaxSize = qu_MaxSize qs, qc_StatisticsEnabled = True,
           qc_MergePolicy = \<lparr> mp_ClassName = PutIfAbsentMergePolicy, mp_BatchSize = 100 \<rparr>,
           qc_PriorityComparatorClass = qu_PriorityComparatorClassName qs, qc_UserCodeNamespace = ds_UserCodeNamespace ds \<rparr>
      | _ \<Rightarrow> None)"

definition createCacheConfig :: "Cache \<Rightarrow> Cache_cfg go" where
  "createCacheConfig c =
     (let cs = do_Spec c; ds = cs_DataStructureSpec cs
      in map_option (\<lambda>bc. \<lparr> cc_BackupCount = bc, cc_AsyncBackupCount = ds_AsyncBackupCount ds, cc_StatisticsEnabled = False,
           cc_ManagementEnabled = False, cc_ReadThrough = False, cc_WriteThrough = False,
           cc_MergePolicy = \<lparr> mp_ClassName = PutIfAbsentMergePolicy, mp_BatchSize = 100 \<rparr>,
           cc_KeyType = cs_KeyType cs, cc_ValueType = cs_ValueType cs,
           cc_InMemoryFormat = InMemoryFormat_text (cs_InMemoryFormat cs),
           cc_DataPersistence = \<lparr> dp_Enabled = cs_PersistenceEnabled cs, dp_Fsync = False \<rparr>,
           cc_EventJournal = (case cs_EventJournal cs of
              None \<Rightarrow> \<lparr> ejc_Enabled = False, ejc_Capacity = 0, ejc_TimeToLiveSeconds = 0 \<rparr>
            | Some ej \<Rightarrow> \<lparr> ejc_Enabled = True, ejc_Capacity = ej_Capacity ej, ejc_TimeToLiveSeconds = ej_TimeToLiveSeconds ej \<rparr>),
           cc_UserCodeNamespace = ds_UserCodeNamespace ds \<rparr>) (ds_BackupCount ds))"

definition createTopicConfig :: "Topic \<Rightarrow> Topic_cfg go" where
  "createTopicConfig t =
     (let ts = do_Spec t
      in Some \<lparr> tc_GlobalOrderingEnabled = tp_GlobalOrderingEnabled ts, tc_MultiThreadingEnabled = tp_MultiThreadingEnabled ts,
           tc_StatisticsEnabled = True, tc_MessageListeners = [], tc_UserCodeNamespace = tp_UserCodeNamespace ts \<rparr>)"

definition createReplicatedMapConfig :: "ReplicatedMap \<Rightarrow> ReplicatedMap_cfg go" where
  "createReplicatedMapConfig rm =
     (let rs = do_Spec rm
      in map_option (\<lambda>af. \<lparr> rmc_InMemoryFormat = RMInMemoryFormat_text (rm_InMemoryFormat rs), rmc_AsyncFillup = af,
           rmc_StatisticsEnabled = True, rmc_MergePolicy = \<lparr> mp_ClassName = PutIfAbsentMergePolicy, mp_BatchSize = 100 \<rparr>,
           rmc_UserCodeNamespace = rm_UserCodeNamespace rs \<rparr>) (rm_AsyncFillup rs))"

definition createExecutorServiceConfig :: "ExecutorServiceConfiguration \<Rightarrow> ExecutorService_cfg" where
  "createExecutorServiceConfig es = \<lparr> esc_PoolSize = es_PoolSize es, esc_QueueCapacity = es_QueueCapacity es,
     esc_UserCodeNamespace = es_UserCodeNamespace es \<rparr>"

definition createDurableExecutorServiceConfig :: "DurableExecutorServiceConfiguration \<Rightarrow> DurableExecutorService_cfg" where
  "createDurableExecutorServiceConfig des = \<lparr> dec_PoolSize = des_PoolSize des, dec_Durability = des_Durability des,
     dec_Capacity = des_Capacity des, dec_UserCodeNamespace = des_UserCodeNamespace des \<rparr>"

definition createScheduledExecutorServiceConfig :: "ScheduledExecutorServiceConfiguration \<Rightarrow> ScheduledExecutorService_cfg" where
  "createScheduledExecutorServiceConfig ses = \<lparr> sec_PoolSize = ses_PoolSize ses, sec_Durability = ses_Durability ses,
     sec_Capacity = ses_Capacity ses, sec_CapacityPolicy = ses_CapacityPolicy ses,
     sec_UserCodeNamespace = ses_UserCodeNamespace ses \<rparr>"

subsection \<open>Which resources are persisted\<close>

text \<open>A resource that is being applied keeps the specification it was last applied with; \<open>unmarshal\<close>
  is \<^verbatim>\<open>json.Unmarshal\<close> into a new specification. A resource that is being deleted, or that was never
  applied, is left out.\<close>

definition filterPersistedMaps :: "(string \<Rightarrow> 'e + MapSpec) \<Rightarrow> Map list \<Rightarrow> Map list" where
  "filterPersistedMaps unmarshal items = List.map_filter (\<lambda>mp.
     case mss_State (m_Status mp) of
       MapPersisting \<Rightarrow> Some mp
     | MapSuccess \<Rightarrow> Some mp
     | MapFailed \<Rightarrow> Option.bind (om_Annotations (m_Meta mp) LastSuccessfulSpecAnnotation) (\<lambda>js.
         case unmarshal js of Inl _ \<Rightarrow> None | Inr ms \<Rightarrow> Some (mp\<lparr> m_Spec := ms \<rparr>))
     | MapPending \<Rightarrow> Option.bind (om_Annotations (m_Meta mp) LastSuccessfulSpecAnnotation) (\<lambda>js.
         case unmarshal js of Inl _ \<Rightarrow> None | Inr ms \<Rightarrow> Some (mp\<lparr> m_Spec := ms \<rparr>))
     | _ \<Rightarrow> None) items"

text \<open>\<open>SetSpec js s\<close> decodes \<open>js\<close> into the specification \<open>s\<close>, which keeps the fields \<open>js\<close> does not have.\<close>

definition isDSPersisted :: "(string \<Rightarrow> 's \<Rightarrow> 'e + 's) \<Rightarrow> 's data_structure \<Rightarrow> 's data_structure option" where
  "isDSPersisted SetSpec ob =
     (let last = Option.bind (om_Annotations (do_Meta ob) LastSuccessfulSpecAnnotation) (\<lambda>js.
            case SetSpec js (do_Spec ob) of Inl _ \<Rightarrow> None | Inr s \<Rightarrow> Some (ob\<lparr> do_Spec := s \<rparr>))
      in case dss_State (do_Status ob) of
           DataStructurePersisting \<Rightarrow> Some ob
         | DataStructureSuccess \<Rightarrow> Some ob
         | DataStructureFailed \<Rightarrow> last
         | DataStructurePending \<Rightarrow> last
         | _ \<Rightarrow> None)"

definition filterPersistedDS :: "(string \<Rightarrow> 's \<Rightarrow> 'e + 's) \<Rightarrow> 's data_structure list \<Rightarrow> 's data_structure list" where
  "filterPersistedDS SetSpec items = List.map_filter (isDSPersisted SetSpec) items"

text \<open>The WAN replications of a cluster, by the key of the map. A key without a separator is a
  panic.\<close>

fun addWanEntries :: "string \<Rightarrow> WanReplication \<Rightarrow> (string \<times> WanReplicationMapStatus) list \<Rightarrow>
    (string \<times> WanReplication list) list \<Rightarrow> (string \<times> WanReplication list) list go" where
  "addWanEntries hzName wr [] l = Some l"
| "addWanEntries hzName wr ((wanKey, st) # rest) l =
     Option.bind (splitWanMapKey wanKey) (\<lambda>(hz, _). addWanEntries hzName wr rest
       (if hz = hzName \<and> (wms_Status st = WanStatusPersisting \<or> wms_Status st = WanStatusSuccess)
        then AList.update wanKey ((case map_of l wanKey of None \<Rightarrow> [] | Some ws \<Rightarrow> ws) @ [wr]) l else l))"

definition filterPersistedWanReplications :: "string \<Rightarrow> WanReplication list \<Rightarrow> (string \<times> WanReplication list) list go" where
  "filterPersistedWanReplications hzName items =
     foldl (\<lambda>acc wr. Option.bind acc (addWanEntries hzName wr (MapsStatus (w_Status wr)))) (Some []) items"

datatype UserCodeNamespaceState = UserCodeNamespaceUnset | UserCodeNamespacePending | UserCodeNamespaceFailure
  | UserCodeNamespaceSuccess

record UserCodeNamespaceSpec =
  ucns_BucketConfiguration :: "BucketConfiguration option"
  ucns_HazelcastResourceName :: string

record UserCodeNamespaceStatus =
  ucnst_State :: UserCodeNamespaceState
  ucnst_Message :: string

record UserCodeNamespace =
  ucn_Meta :: ObjectMeta
  ucn_Spec :: UserCodeNamespaceSpec
  ucn_Status :: UserCodeNamespaceStatus

definition filterUserCodeNamespaces :: "(string \<Rightarrow> 'e + UserCodeNamespaceSpec) \<Rightarrow> UserCodeNamespace list \<Rightarrow> UserCodeNamespace list" where
  "filterUserCodeNamespaces unmarshal items = List.map_filter (\<lambda>u.
     (let last = Option.bind (om_Annotations (ucn_Meta u) LastSuccessfulSpecAnnotation) (\<lambda>js.
            case unmarshal js of Inl _ \<Rightarrow> None | Inr s \<Rightarrow> Some (u\<lparr> ucn_Spec := s \<rparr>))
      in case ucnst_State (ucn_Status u) of
           UserCodeNamespaceSuccess \<Rightarrow> Some u
         | UserCodeNamespaceFailure \<Rightarrow> last
         | UserCodeNamespacePending \<Rightarrow> last
         | UserCodeNamespaceUnset \<Rightarrow> None)) items"

subsection \<open>The parts of the configuration\<close>

text \<open>The part of \<^verbatim>\<open>config.Hazelcast\<close> that is filled from the resources on the cluster. A later resource
  with the same name overwrites an earlier one.\<close>

fun entriesOf :: "('a \<Rightarrow> string) \<Rightarrow> ('a \<Rightarrow> 'b go) \<Rightarrow> 'a list \<Rightarrow> (string \<rightharpoonup> 'b) go" where
  "entriesOf name create [] = Some Map.empty"
| "entriesOf name create (x # xs) =
     Option.bind (create x) (\<lambda>c. Option.bind (entriesOf name create xs) (\<lambda>rest.
       Some ([name x \<mapsto> c] ++ rest)))"

text \<open>Maps can fail on their map store; the loop stops at the first error.\<close>

fun fillHazelcastConfigWithMaps :: "(Map \<Rightarrow> ('e + Map_cfg) go) \<Rightarrow> Map list \<Rightarrow> ('e + (string \<rightharpoonup> Map_cfg)) go" where
  "fillHazelcastConfigWithMaps create [] = Some (Inr Map.empty)"
| "fillHazelcastConfigWithMaps create (m # ml) =
     Option.bind (create m) (\<lambda>r. case r of
       Inl e \<Rightarrow> Some (Inl e)
     | Inr c \<Rightarrow> map_option (\<lambda>rest. case rest of Inl e \<Rightarrow> Inl e | Inr f \<Rightarrow> Inr ([MapName m \<mapsto> c] ++ f))
         (fillHazelcastConfigWithMaps create ml))"

definition fillHazelcastConfigWithMultiMaps :: "MultiMap list \<Rightarrow> (string \<rightharpoonup> MultiMap_cfg) go" where
  "fillHazelcastConfigWithMultiMaps = entriesOf (GetDSName MultiMap_name) createMultiMapConfig"

definition fillHazelcastConfigWithTopics :: "Topic list \<Rightarrow> (string \<rightharpoonup> Topic_cfg) go" where
  "fillHazelcastConfigWithTopics = entriesOf (GetDSName tp_Name) createTopicConfig"

definition fillHazelcastConfigWithQueues :: "Queue list \<Rightarrow> (string \<rightharpoonup> Queue_cfg) go" where
  "fillHazelcastConfigWithQueues = entriesOf (GetDSName Queue_name) createQueueConfig"

definition fillHazelcastConfigWithCaches :: "Cache list \<Rightarrow> (string \<rightharpoonup> Cache_cfg) go" where
  "fillHazelcastConfigWithCaches = entriesOf (GetDSName Cache_name) createCacheConfig"

definition fillHazelcastConfigWithReplicatedMaps :: "ReplicatedMap list \<Rightarrow> (string \<rightharpoonup> ReplicatedMap_cfg) go" where
  "fillHazelcastConfigWithReplicatedMaps = entriesOf (GetDSName rm_Name) createReplicatedMapConfig"

text \<open>The publishers of one key: a later replication with the same publisher id overwrites.\<close>

definition createWanReplicationConfig :: "string \<Rightarrow> WanReplication list \<Rightarrow> string \<rightharpoonup> BatchPublisherConfig" where
  "createWanReplicationConfig wanKey wrs = fold (\<lambda>wr cfg.
     cfg((case map_of (MapsStatus (w_Status wr)) wanKey of None \<Rightarrow> [] | Some st \<Rightarrow> wms_PublisherId st) \<mapsto>
         createBatchPublisherConfig wr)) wrs Map.empty"

definition fillHazelcastConfigWithWanReplications :: "(string \<times> WanReplication list) list \<Rightarrow>
    (string \<rightharpoonup> (string \<rightharpoonup> BatchPublisherConfig)) go" where
  "fillHazelcastConfigWithWanReplications wrl =
     foldl (\<lambda>acc (wanKey, wan). Option.bind acc (\<lambda>cfg. map_option (\<lambda>(_, mapName).
       cfg(wanName mapName \<mapsto> createWanReplicationConfig wanKey wan)) (splitWanMapKey wanKey))) (Some Map.empty) wrl"

definition fillHazelcastConfigWithExecutorServices :: "HazelcastSpec \<Rightarrow>
    (string \<rightharpoonup> ExecutorService_cfg) \<times> (string \<rightharpoonup> DurableExecutorService_cfg) \<times> (string \<rightharpoonup> ScheduledExecutorService_cfg)" where
  "fillHazelcastConfigWithExecutorServices s =
     (fold (\<lambda>e f. f(es_Name e \<mapsto> createExecutorServiceConfig e)) (hs_ExecutorServices s) Map.empty,
      fold (\<lambda>e f. f(des_Name e \<mapsto> createDurableExecutorServiceConfig e)) (hs_DurableExecutorServices s) Map.empty,
      fold (\<lambda>e f. f(ses_Name e \<mapsto> createScheduledExecutorServiceConfig e)) (hs_ScheduledExecutorServices s) Map.empty)"

subsection \<open>Serialization\<close>

record FilterList =
  fl_Classes :: "string list"
  fl_Packages :: "string list"
  fl_Prefixes :: "string list"

record JavaFilterConfig_cfg =
  jfc_DefaultsDisable :: bool
  jfc_Blacklist :: "FilterList option"
  jfc_Whitelist :: "FilterList option"

record ClassFactories =
  cf_FactoryId :: int32
  cf_ClassName :: string

record Serialization =
  sz_PortableVersion :: int32
  sz_UseNativeByteOrder :: bool
  sz_EnableCompression :: bool
  sz_EnableSharedObject :: bool
  sz_OverrideDefaultSerializers :: bool
  sz_AllowUnsafe :: bool
  sz_ByteOrder :: string
  sz_DataSerializableFactories :: "ClassFactories list"
  sz_PortableFactories :: "ClassFactories list"
  sz_GlobalSerializer :: "GlobalSerializer option"
  sz_Serializers :: "Serializer list"
  sz_JavaSerializationFilter :: "JavaFilterConfig_cfg option"
  sz_CompactSerialization :: "CompactSerializationConfig option"

definition filterList :: "SerializationFilterList option \<Rightarrow> FilterList option" where
  "filterList = map_option (\<lambda>jsf. \<lparr> fl_Classes = sfl_Classes jsf, fl_Packages = sfl_Packages jsf, fl_Prefixes = sfl_Prefixes jsf \<rparr>)"

definition serializers :: "Serializer list \<Rightarrow> Serializer list" where
  "serializers srs = map (\<lambda>sr. \<lparr> ser_TypeClass = ser_TypeClass sr, ser_ClassName = ser_ClassName sr \<rparr>) srs"

definition factories :: "string list \<Rightarrow> ClassFactories list" where
  "factories fs = map (\<lambda>(i, f). \<lparr> cf_FactoryId = word_of_nat i, cf_ClassName = f \<rparr>) (enumerate 0 fs)"

definition fillHazelcastConfigWithSerialization :: "HazelcastSpec \<Rightarrow> Serialization option" where
  "fillHazelcastConfigWithSerialization hs = map_option (\<lambda>s.
     \<lparr> sz_PortableVersion = 0, sz_UseNativeByteOrder = (sc_ByteOrder s = NativeByteOrder),
       sz_EnableCompression = sc_EnableCompression s, sz_EnableSharedObject = sc_EnableSharedObject s,
       sz_OverrideDefaultSerializers = sc_OverrideDefaultSerializers s, sz_AllowUnsafe = sc_AllowUnsafe s,
       sz_ByteOrder = (if sc_ByteOrder s = LittleEndian then ''LITTLE_ENDIAN'' else ''BIG_ENDIAN''),
       sz_DataSerializableFactories = factories (sc_DataSerializableFactories s),
       sz_PortableFactories = factories (sc_PortableFactories s),
       sz_GlobalSerializer = map_option (\<lambda>g. \<lparr> gs_OverrideJavaSerialization = gs_OverrideJavaSerialization g,
         gs_ClassName = gs_ClassName g \<rparr>) (sc_GlobalSerializer s),
       sz_Serializers = serializers (sc_Serializers s),
       sz_JavaSerializationFilter = map_option (\<lambda>f. \<lparr> jfc_DefaultsDisable = False, jfc_Blacklist = filterList (jf_Blacklist f),
         jfc_Whitelist = filterList (jf_Whitelist f) \<rparr>) (sc_JavaSerializationFilter s),
       sz_CompactSerialization = map_option (\<lambda>c. \<lparr> csc_Serializers = map (\<lambda>x. ''serializer: '' @ x) (csc_Serializers c),
         csc_Classes = map (\<lambda>x. ''class: '' @ x) (csc_Classes c) \<rparr>) (sc_CompactSerialization s) \<rparr>) (hs_Serialization hs)"

subsection \<open>User code, properties\<close>

record UserCodeNamespaceResource =
  ucr_ID :: string
  ucr_ResourceType :: string
  ucr_URL :: string

definition UCNBucketPath :: string where
  "UCNBucketPath = ''/opt/hazelcast/ucn/bucket''"

definition fillHazelcastConfigWithUserCodeNamespaces :: "HazelcastSpec \<Rightarrow> UserCodeNamespace list \<Rightarrow>
    (JavaFilterConfig_cfg option \<times> (string \<rightharpoonup> UserCodeNamespaceResource list)) option" where
  "fillHazelcastConfigWithUserCodeNamespaces hs ucn = map_option (\<lambda>conf.
     (map_option (\<lambda>f. \<lparr> jfc_DefaultsDisable = False, jfc_Blacklist = filterList (jf_Blacklist f),
        jfc_Whitelist = filterList (jf_Whitelist f) \<rparr>) (ucnc_ClassFilter conf),
      fold (\<lambda>u f. f(om_Name (ucn_Meta u) \<mapsto> [\<lparr> ucr_ID = ''bundle'', ucr_ResourceType = ''JARS_IN_ZIP'',
        ucr_URL = ''file://'' @ path_Join UCNBucketPath (om_Name (ucn_Meta u) @ ''.zip'') \<rparr>])) ucn Map.empty))
     (hs_UserCodeNamespaces hs)"

definition DefaultProperties :: "string \<rightharpoonup> string" where
  "DefaultProperties = [''hazelcast.cluster.version.auto.upgrade.enabled'' \<mapsto> ''true'',
     ''hazelcast.persistence.auto.cluster.state'' \<mapsto> ''true'']"

text \<open>The defaults cannot be overridden.\<close>

definition mergeProperties :: "(string \<rightharpoonup> string) \<Rightarrow> string \<rightharpoonup> string" where
  "mergeProperties inputProps = inputProps ++ DefaultProperties"

end
