(* ===== verification/Ds_Controller.thy ===== *)
theory Ds_Controller
  imports Calls Config_Generation
begin

text \<open>
  The controllers of Queue, Topic, MultiMap, ReplicatedMap and Cache
  (\<^verbatim>\<open>data_structure_controller.go\<close> and one file each, under \<^verbatim>\<open>internal/controller/hazelcast\<close>). They
  share their steps, which work on the interface \<^verbatim>\<open>DataStructure\<close>: the record of its methods.

  A successful update of an object leaves the object that was sent; the reads of the cluster and
  of the API server may answer anything at any moment.
\<close>

subsection \<open>Interface, calls, environment\<close>

record 's DataStructure =
  dsi_GetDSName :: "'s data_structure \<Rightarrow> string"
  dsi_GetHZResourceName :: "'s data_structure \<Rightarrow> string"
  dsi_GetSpec :: "'s data_structure \<Rightarrow> go_error + string"
  dsi_ValidateSpecCurrent :: "'s data_structure \<Rightarrow> Hazelcast \<Rightarrow> validation_error option go"
  dsi_ValidateSpecUpdate :: "'s data_structure \<Rightarrow> validation_error option go"

datatype ('s, 'q) ds_call =
    UpdateDS "'s data_structure"
  | StatusUpdateDS "'s data_structure"
  | InvokeOnMember string 'q
  | TriggerPhoneHome

text \<open>\<open>de_Config\<close> reads the Secret with the configuration of the cluster and decodes it; the second
  error is that of the decoder, the value the part for this kind of structure.\<close>

record ('s, 'q, 'cfg) ds_env =
  de_call :: "('s, 'q) ds_call moment \<Rightarrow> ('s, 'q) ds_call \<Rightarrow> go_error option"
  de_Get :: "('s, 'q) ds_call moment \<Rightarrow> NamespacedName \<Rightarrow> go_error + 's data_structure"
  de_GetHazelcast :: "('s, 'q) ds_call moment \<Rightarrow> NamespacedName \<Rightarrow> go_error + Hazelcast"
  de_GetOrCreateClient :: "('s, 'q) ds_call moment \<Rightarrow> NamespacedName \<Rightarrow> go_error + bool"
  de_OrderedMembers :: "('s, 'q) ds_call moment \<Rightarrow> string list"
  de_Config :: "('s, 'q) ds_call moment \<Rightarrow> NamespacedName \<Rightarrow> go_error + go_error + (string \<rightharpoonup> 'cfg)"
  de_ErrText :: "validation_error \<Rightarrow> string"
  de_PhoneHomeEnabled :: bool

type_synonym ('s, 'q, 'a) ds_proc = "(unit, ('s, 'q) ds_call, 'a) proc"

subsection \<open>Status\<close>

definition updateDSStatusA :: "('s, 'q, 'cfg) ds_env \<Rightarrow> 's data_structure \<Rightarrow> ReconcilerOption \<Rightarrow> DSStatusApplier list \<Rightarrow>
    ('s, 'q, (Result \<times> go_error option) \<times> 's data_structure) ds_proc" where
  "updateDSStatusA env ob opt as =
     (let ob' = ob\<lparr> do_Status := fold DSStatusApply as (do_Status ob) \<rparr>
      in tryA (invokeA (de_call env) (StatusUpdateDS ob')) (\<lambda>r.
           returnA (fst (updateDSStatus (\<lambda>_. case r of Inl e \<Rightarrow> Some e | Inr _ \<Rightarrow> None) (do_Status ob) opt as), ob')))"

text \<open>A setup step ends with a result when there is no client to go on with (\<open>Inl\<close>).\<close>

definition stopWith :: "Result \<times> go_error option \<Rightarrow> ('w, (Result \<times> go_error option) + 'a) action" where
  "stopWith r = returnA (Inl r)"

definition failDS :: "('s, 'q, 'cfg) ds_env \<Rightarrow> 's data_structure \<Rightarrow> go_error \<Rightarrow> string \<Rightarrow>
    ('s, 'q, (Result \<times> go_error option) + 'a) ds_proc" where
  "failDS env ob e t = bindA (updateDSStatusA env ob (ro_error e) [withDSFailedState t]) (\<lambda>(r, _). stopWith r)"

text \<open>The verdict of a validation as an error; a panic of it is a panic.\<close>

definition validA :: "(validation_error \<Rightarrow> string) \<Rightarrow> validation_error option go \<Rightarrow> ('w, unit) action" where
  "validA errText r = (case r of
     None \<Rightarrow> throwA (ErrPanic ''panic'')
   | Some None \<Rightarrow> returnA ()
   | Some (Some err) \<Rightarrow> throwA (ErrOther (errText err)))"

definition orPanic :: "'a go \<Rightarrow> ('w, 'a) action" where
  "orPanic r = (case r of None \<Rightarrow> throwA (ErrPanic ''nil pointer dereference'') | Some x \<Rightarrow> returnA x)"

lemma bind_orPanic [simp]:
  "bindA (orPanic r) f w = (case r of None \<Rightarrow> (Inl (ErrPanic ''nil pointer dereference''), w) | Some x \<Rightarrow> f x w)"
  by (simp add: orPanic_def action_simps split: option.split)

subsection \<open>The shared steps (data\_structure\_controller.go)\<close>

definition ds_executeFinalizer :: "('s, 'q, 'cfg) ds_env \<Rightarrow> 's data_structure \<Rightarrow> ('s, 'q, unit) ds_proc" where
  "ds_executeFinalizer env ob =
     (if \<not> ContainsFinalizer (do_Meta ob) Finalizer then returnA ()
      else catchA (invokeA (de_call env) (UpdateDS (ob\<lparr> do_Meta := RemoveFinalizer (do_Meta ob) Finalizer \<rparr>)))
             (\<lambda>e. throwA (wrapErr ''failed to remove finalizer from custom resource: '' e)) returnA)"

text \<open>The error of the first status update is dropped.\<close>

definition startDelete :: "('s, 'q, 'cfg) ds_env \<Rightarrow> 's data_structure \<Rightarrow> ('s, 'q, (Result \<times> go_error option) + 'a) ds_proc" where
  "startDelete env ob =
     bindA (updateDSStatusA env ob ro_empty [withDSState DataStructureTerminating]) (\<lambda>(_, ob1).
     catchA (ds_executeFinalizer env ob1)
       (\<lambda>e. bindA (updateDSStatusA env (ob1\<lparr> do_Meta := RemoveFinalizer (do_Meta ob1) Finalizer \<rparr>) (ro_error e)
                [withDSState DataStructureTerminating, withDSMessage (error_text e)]) (\<lambda>(r, _). stopWith r))
       (\<lambda>_. stopWith (ResultZero, None)))"

definition handleCreatedBefore :: "('s, 'q, 'cfg) ds_env \<Rightarrow> 's DataStructure \<Rightarrow> 's data_structure \<Rightarrow>
    ('s, 'q, (Result \<times> go_error option) + unit) ds_proc" where
  "handleCreatedBefore env ifc ob =
     (case om_Annotations (do_Meta ob) LastSuccessfulSpecAnnotation of
        None \<Rightarrow> returnA (Inr ())
      | Some s \<Rightarrow>
          (case dsi_GetSpec ifc ob of
             Inl e \<Rightarrow> failDS env ob e (error_text e)
           | Inr mms \<Rightarrow>
               if s = mms
               then bindA (updateDSStatusA env ob ro_empty [withDSState DataStructureSuccess]) (\<lambda>(r, _). stopWith r)
               else returnA (Inr ())))"

definition getHZClient :: "('s, 'q, 'cfg) ds_env \<Rightarrow> 's data_structure \<Rightarrow> Hazelcast \<Rightarrow>
    ('s, 'q, (Result \<times> go_error option) + unit) ds_proc" where
  "getHZClient env ob h =
     (if hst_Phase (h_Status h) \<noteq> Running
      then failDS env ob (ErrOther ''Hazelcast CR is not ready'') ''Hazelcast CR is not ready''
      else tryA (observeA (\<lambda>t. de_GetOrCreateClient env t
               \<lparr> nn_Name = om_Name (h_Meta h), nn_Namespace = om_Namespace (h_Meta h) \<rparr>)) (\<lambda>r.
           case r of
             Inl e \<Rightarrow> (let t = ''Internal error occurred: cannot connect to the cluster for '' @ om_Name (h_Meta h)
                      in failDS env ob (ErrOther t) t)
           | Inr running \<Rightarrow>
               if \<not> running
               then bindA (updateDSStatusA env ob (ro_retryAfter 5000000000) [withDSState DataStructurePending,
                      withDSMessage (''trying to connect to the cluster '' @ om_Name (h_Meta h))]) (\<lambda>(r, _). stopWith r)
               else returnA (Inr ())))"

text \<open>\<open>andThen\<close>: the next step of a setup that did not end.\<close>

definition andThen :: "('w, 'r + 'a) action \<Rightarrow> ('a \<Rightarrow> ('w, 'r + 'b) action) \<Rightarrow> ('w, 'r + 'b) action" where
  "andThen m f = bindA m (\<lambda>r. case r of Inl x \<Rightarrow> returnA (Inl x) | Inr y \<Rightarrow> f y)"

text \<open>\<open>setupValidated\<close> is the part of \<^verbatim>\<open>initialSetupDS\<close> after the check for an unchanged object.\<close>

definition setupValidated :: "('s, 'q, 'cfg) ds_env \<Rightarrow> 's DataStructure \<Rightarrow> 's data_structure \<Rightarrow> Hazelcast \<Rightarrow>
    ('s, 'q, (Result \<times> go_error option) + 's data_structure) ds_proc" where
  "setupValidated env ifc ob h =
     catchA (validA (de_ErrText env) (dsi_ValidateSpecCurrent ifc ob h))
       (\<lambda>e. failDS env ob e (''could not validate current spec: '' @ error_text e)) (\<lambda>_.
     catchA (validA (de_ErrText env) (dsi_ValidateSpecUpdate ifc ob))
       (\<lambda>e. failDS env ob e (''could not validate update in spec: '' @ error_text e)) (\<lambda>_.
     andThen (getHZClient env ob h) (\<lambda>_.
     if dss_State (do_Status ob) \<noteq> DataStructurePersisting
     then bindA (updateDSStatusA env ob ro_empty [withDSState DataStructurePending,
            withDSMessage (''Applying new '' @ do_Kind ob @ '' configuration.'')]) (\<lambda>((res, err), ob').
          if err \<noteq> None then stopWith (res, err) else returnA (Inr ob'))
     else returnA (Inr ob))))"

definition initialSetupDS :: "('s, 'q, 'cfg) ds_env \<Rightarrow> 's DataStructure \<Rightarrow> NamespacedName \<Rightarrow>
    ('s, 'q, (Result \<times> go_error option) + 's data_structure) ds_proc" where
  "initialSetupDS env ifc nn =
     catchA (observeA (\<lambda>t. de_Get env t nn))
       (\<lambda>e. stopWith (ResultZero, Some (if ErrIsNotFound e then e else wrapErr ''failed to get resource: '' e))) (\<lambda>ob0.
     catchA (util_AddFinalizer (\<lambda>m. invokeA (de_call env) (UpdateDS (ob0\<lparr> do_Meta := m \<rparr>))) (do_Meta ob0))
       (\<lambda>e. failDS env (ob0\<lparr> do_Meta := AddFinalizer (do_Meta ob0) Finalizer \<rparr>) e (error_text e)) (\<lambda>m.
     let ob = ob0\<lparr> do_Meta := m \<rparr>
     in if om_DeletionTimestamp m \<noteq> None then startDelete env ob
        else catchA (observeA (\<lambda>t. de_GetHazelcast env t
                 \<lparr> nn_Name = dsi_GetHZResourceName ifc ob, nn_Namespace = nn_Namespace nn \<rparr>))
               (\<lambda>e. let err = wrapErr (''could not create/update '' @ do_Kind ob @ '' config: Hazelcast resource not found: '') e
                   in failDS env ob err (error_text err)) (\<lambda>h.
             andThen (handleCreatedBefore env ifc ob) (\<lambda>_. setupValidated env ifc ob h))))"

text \<open>The request goes to every member that is not recorded as successful. A failure does not stop
  the loop.\<close>

fun sendToMembers :: "('c moment \<Rightarrow> 'c \<Rightarrow> go_error option) \<Rightarrow> (string \<Rightarrow> 'c) \<Rightarrow> 'st \<Rightarrow> 'st \<Rightarrow> (string \<rightharpoonup> 'st) \<Rightarrow>
    string list \<Rightarrow> (string \<rightharpoonup> 'st) \<Rightarrow> string list \<Rightarrow> ('s, 'c, (string \<rightharpoonup> 'st) \<times> string list) proc" where
  "sendToMembers ans mk ok bad old [] ms failed = returnA (ms, failed)"
| "sendToMembers ans mk ok bad old (u # us) ms failed =
     (if old u = Some ok then sendToMembers ans mk ok bad old us (ms(u \<mapsto> ok)) failed
      else tryA (invokeA ans (mk u)) (\<lambda>r. case r of
             Inl e \<Rightarrow> sendToMembers ans mk ok bad old us (ms(u \<mapsto> bad)) (failed @ [u])
           | Inr _ \<Rightarrow> sendToMembers ans mk ok bad old us (ms(u \<mapsto> ok)) failed))"

definition sendCodecRequest :: "('s, 'q, 'cfg) ds_env \<Rightarrow> 's DataStructure \<Rightarrow> 's data_structure \<Rightarrow> 'q \<Rightarrow>
    ('s, 'q, (string \<rightharpoonup> DataStructureConfigState) \<times> go_error option) ds_proc" where
  "sendCodecRequest env ifc ob req =
     bindA (observeA (\<lambda>t. Inr (de_OrderedMembers env t))) (\<lambda>members.
     bindA (sendToMembers (de_call env) (\<lambda>u. InvokeOnMember u req) DataStructureSuccess DataStructureFailed
              (dss_MemberStatuses (do_Status ob)) members Map.empty []) (\<lambda>(ms, failed).
     returnA (ms, if failed = [] then None
       else Some (ErrOther (''error creating/updating the MultiMap config '' @ dsi_GetDSName ifc ob @ '' for members '' @
              Join failed '', '')))))"

definition getHazelcastConfig :: "('s, 'q, 'cfg) ds_env \<Rightarrow> NamespacedName \<Rightarrow> ('s, 'q, string \<rightharpoonup> 'cfg) ds_proc" where
  "getHazelcastConfig env nn =
     tryA (observeA (\<lambda>t. de_Config env t nn)) (\<lambda>r. case r of
       Inl e \<Rightarrow> throwA (ErrOther (''could not find Secret for config persistence for '' @ nn_Namespace nn @ ''/'' @ nn_Name nn))
     | Inr (Inl e) \<Rightarrow> throwA (ErrOther ''persisted Secret is not formatted correctly'')
     | Inr (Inr cfg) \<Rightarrow> returnA cfg)"

text \<open>\<^verbatim>\<open>validate...ConfigPersistence\<close> of the five controllers: the stored configuration is the one that would
  be generated now.\<close>

definition validateConfigPersistence :: "('s, 'q, 'cfg) ds_env \<Rightarrow> 's DataStructure \<Rightarrow> ('s data_structure \<Rightarrow> 'cfg go) \<Rightarrow>
    's data_structure \<Rightarrow> ('s, 'q, bool) ds_proc" where
  "validateConfigPersistence env ifc create ob =
     bindA (getHazelcastConfig env \<lparr> nn_Name = dsi_GetHZResourceName ifc ob, nn_Namespace = om_Namespace (do_Meta ob) \<rparr>) (\<lambda>cfgs.
     case cfgs (dsi_GetDSName ifc ob) of
       None \<Rightarrow> returnA False
     | Some cfg \<Rightarrow> bindA (orPanic (create ob)) (\<lambda>current. returnA (cfg = current)))"

text \<open>\<^verbatim>\<open>updateLastSuccessfulConfigurationDS\<close>: the object is written only when the annotation changes it.\<close>

definition updateLastSuccessfulConfigurationDS :: "('s, 'q, 'cfg) ds_env \<Rightarrow> 's DataStructure \<Rightarrow> 's data_structure \<Rightarrow>
    ('s, 'q, 's data_structure) ds_proc" where
  "updateLastSuccessfulConfigurationDS env ifc ob =
     (case dsi_GetSpec ifc ob of
        Inl e \<Rightarrow> returnA ob
      | Inr js \<Rightarrow>
          (let ob' = ob\<lparr> do_Meta := (do_Meta ob)\<lparr> om_Annotations := (om_Annotations (do_Meta ob))(LastSuccessfulSpecAnnotation \<mapsto> js) \<rparr> \<rparr>
           in if om_Annotations (do_Meta ob) LastSuccessfulSpecAnnotation = Some js then returnA ob'
              else tryA (invokeA (de_call env) (UpdateDS ob')) (\<lambda>_. returnA ob')))"

definition finalSetupDS :: "('s, 'q, 'cfg) ds_env \<Rightarrow> 's DataStructure \<Rightarrow> 's data_structure \<Rightarrow>
    ('s, 'q, Result \<times> go_error option) ds_proc" where
  "finalSetupDS env ifc ob =
     bindA (if de_PhoneHomeEnabled env \<and> \<not> IsSuccessfullyApplied (do_Meta ob)
            then tryA (invokeA (de_call env) TriggerPhoneHome) (\<lambda>_. returnA ()) else returnA ()) (\<lambda>_.
     bindA (updateLastSuccessfulConfigurationDS env ifc ob) (\<lambda>ob'.
     bindA (updateDSStatusA env ob' ro_empty [withDSState DataStructureSuccess, withDSMessage [],
              withDSMemberStatuses Map.empty]) (\<lambda>(r, _). returnA r)))"

subsection \<open>The controllers\<close>

text \<open>The body of \<^verbatim>\<open>Reconcile\<close>, which the five controllers repeat: the request they send, the
  configuration they compare with and two messages differ. The error of the setup is dropped.\<close>

definition reconcileDS :: "('s, 'q, 'cfg) ds_env \<Rightarrow> 's DataStructure \<Rightarrow> ('s data_structure \<Rightarrow> 'q go) \<Rightarrow> ('s data_structure \<Rightarrow> 'cfg go) \<Rightarrow>
    string \<Rightarrow> string \<Rightarrow> NamespacedName \<Rightarrow> ('s, 'q, Result \<times> go_error option) ds_proc" where
  "reconcileDS env ifc request create persisting waiting nn =
     bindA (initialSetupDS env ifc nn) (\<lambda>r.
     case r of
       Inl (res, err) \<Rightarrow>
         (case err of Some e \<Rightarrow> if ErrIsNotFound e then returnA (ResultZero, None) else returnA (res, None)
          | None \<Rightarrow> returnA (res, None))
     | Inr ob \<Rightarrow>
         bindA (orPanic (request ob)) (\<lambda>req.
         bindA (sendCodecRequest env ifc ob req) (\<lambda>(ms, err).
         case err of
           Some e \<Rightarrow> bindA (updateDSStatusA env ob (ro_retryAfter 5000000000) [withDSState DataStructurePending,
                       withDSMessage (error_text e), withDSMemberStatuses ms]) (\<lambda>(r, _). returnA r)
         | None \<Rightarrow>
             bindA (updateDSStatusA env ob (ro_retryAfter 1000000000) [withDSState DataStructurePersisting,
               withDSMessage persisting, withDSMemberStatuses ms]) (\<lambda>((requeue, err), ob1).
             if err \<noteq> None then returnA (requeue, err)
             else catchA (validateConfigPersistence env ifc create ob1)
                    (\<lambda>e. bindA (updateDSStatusA env ob1 (ro_error e) [withDSFailedState (error_text e)]) (\<lambda>(r, _). returnA r))
                    (\<lambda>persisted.
                      if \<not> persisted
                      then bindA (updateDSStatusA env ob1 (ro_retryAfter 1000000000) [withDSState DataStructurePersisting,
                             withDSMessage waiting, withDSMemberStatuses ms]) (\<lambda>(r, _). returnA r)
                      else finalSetupDS env ifc ob1)))))"

definition Queue_interface where
  "Queue_interface GetSpec =
     \<lparr> dsi_GetDSName = GetDSName Queue_name, dsi_GetHZResourceName = (\<lambda>q. ds_HazelcastResourceName (qu_DataStructureSpec (do_Spec q))),
       dsi_GetSpec = (\<lambda>q. map_sum ErrOther id (GetSpec (do_Spec q))), dsi_ValidateSpecCurrent = (\<lambda>_ _. Some None),
       dsi_ValidateSpecUpdate = validateQueueSpecUpdate GetSpec \<rparr>"

definition QueueReconciler_Reconcile where
  "QueueReconciler_Reconcile env GetSpec = reconcileDS env (Queue_interface GetSpec)
     (fillQueueConfigInput DefaultQueueConfigInput) createQueueConfig
     ''Persisting the applied multiMap config.'' ''Waiting for Queue Config to be persisted.''"

definition Topic_interface where
  "Topic_interface GetSpec =
     \<lparr> dsi_GetDSName = GetDSName tp_Name, dsi_GetHZResourceName = (\<lambda>t. tp_HazelcastResourceName (do_Spec t)),
       dsi_GetSpec = (\<lambda>t. map_sum ErrOther id (GetSpec (do_Spec t))), dsi_ValidateSpecCurrent = (\<lambda>t _. validateTopicSpecCurrent t),
       dsi_ValidateSpecUpdate = validateTopicSpecUpdate GetSpec \<rparr>"

definition TopicReconciler_Reconcile where
  "TopicReconciler_Reconcile env GetSpec = reconcileDS env (Topic_interface GetSpec)
     (fillTopicConfigInput DefaultTopicConfigInput) createTopicConfig
     ''Persisting the applied multiMap config.'' ''Waiting for Cache Config to be persisted.''"

definition MultiMap_interface where
  "MultiMap_interface GetSpec =
     \<lparr> dsi_GetDSName = GetDSName MultiMap_name, dsi_GetHZResourceName = (\<lambda>m. ds_HazelcastResourceName (mm_DataStructureSpec (do_Spec m))),
       dsi_GetSpec = (\<lambda>m. map_sum ErrOther id (GetSpec (do_Spec m))), dsi_ValidateSpecCurrent = (\<lambda>_ _. Some None),
       dsi_ValidateSpecUpdate = validateMultiMapSpecUpdate GetSpec \<rparr>"

definition MultiMapReconciler_Reconcile where
  "MultiMapReconciler_Reconcile env GetSpec = reconcileDS env (MultiMap_interface GetSpec)
     (fillMultiMapConfigInput DefaultMultiMapConfigInput) createMultiMapConfig
     ''Persisting the applied MultiMap config.'' ''Waiting for MultiMap Config to be persisted.''"

definition ReplicatedMap_interface where
  "ReplicatedMap_interface GetSpec =
     \<lparr> dsi_GetDSName = GetDSName rm_Name, dsi_GetHZResourceName = (\<lambda>m. rm_HazelcastResourceName (do_Spec m)),
       dsi_GetSpec = (\<lambda>m. map_sum ErrOther id (GetSpec (do_Spec m))), dsi_ValidateSpecCurrent = (\<lambda>_ _. Some None),
       dsi_ValidateSpecUpdate = validateReplicatedMapSpecUpdate GetSpec \<rparr>"

definition ReplicatedMapReconciler_Reconcile where
  "ReplicatedMapReconciler_Reconcile env GetSpec = reconcileDS env (ReplicatedMap_interface GetSpec)
     (fillReplicatedConfigInput DefaultReplicatedMapConfigInput) createReplicatedMapConfig
     ''Persisting the applied multiMap config.'' ''Waiting for ReplicatedMap Config to be persisted.''"

definition Cache_interface where
  "Cache_interface venv GetSpec =
     \<lparr> dsi_GetDSName = GetDSName Cache_name, dsi_GetHZResourceName = (\<lambda>c. ds_HazelcastResourceName (cs_DataStructureSpec (do_Spec c))),
       dsi_GetSpec = (\<lambda>c. map_sum ErrOther id (GetSpec (do_Spec c))), dsi_ValidateSpecCurrent = ValidateCacheSpecCurrent venv,
       dsi_ValidateSpecUpdate = validateCacheSpecUpdate GetSpec \<rparr>"

definition CacheReconciler_Reconcile where
  "CacheReconciler_Reconcile venv env GetSpec = reconcileDS env (Cache_interface venv GetSpec)
     (fillCacheConfigInput DefaultCacheConfigInput) createCacheConfig
     ''Persisting the applied cache config.'' ''Waiting for Cache Config to be persisted.''"

end
