(* ===== verification/Map_Controller.thy ===== *)
theory Map_Controller
  imports Ds_Controller
begin

text \<open>
  The Map controller (\<^verbatim>\<open>internal/controller/hazelcast/map_controller.go\<close>). Unlike the other data
  structures a map can be changed after it was created: the first time its whole configuration
  is sent to the members, later an update of the fields that can change.
\<close>

subsection \<open>Calls and environment\<close>

text \<open>The two messages the controller sends, before they are encoded.\<close>

datatype map_request =
    AddMapConfig AddMapConfigInput
  | UpdateMapConfig string int32 int32 int32 bool int32 int32 WanReplicationRef

datatype map_call =
    UpdateMap Map
  | StatusUpdateMap Map
  | InvokeMapRequest string map_request
  | MapPhoneHome

record map_env =
  me_call :: "map_call moment \<Rightarrow> map_call \<Rightarrow> go_error option"
  me_GetMap :: "map_call moment \<Rightarrow> NamespacedName \<Rightarrow> go_error + Map"
  me_GetHazelcast :: "map_call moment \<Rightarrow> NamespacedName \<Rightarrow> go_error + Hazelcast"
  me_GetOrCreateClient :: "map_call moment \<Rightarrow> NamespacedName \<Rightarrow> go_error + bool"
  me_OrderedMembers :: "map_call moment \<Rightarrow> string list"
  me_GetSecret :: "map_call moment \<Rightarrow> NamespacedName \<Rightarrow> go_error + (string \<rightharpoonup> string)"
  me_Config :: "map_call moment \<Rightarrow> NamespacedName \<Rightarrow> go_error + go_error + (string \<rightharpoonup> Map_cfg)"
  me_MarshalSpec :: "MapSpec \<Rightarrow> go_error + string"
  me_validation :: validation_env
  me_ErrText :: "validation_error \<Rightarrow> string"
  me_PhoneHomeEnabled :: bool

type_synonym 'a map_proc = "(unit, map_call, 'a) proc"

abbreviation me_quantity :: "map_env \<Rightarrow> Quantity option \<Rightarrow> int64 go" where
  "me_quantity env \<equiv> env_QuantityValue (me_validation env)"

subsection \<open>Steps\<close>

definition updateMapStatusA :: "map_env \<Rightarrow> Map \<Rightarrow> ReconcilerOption \<Rightarrow> MapStatusApplier list \<Rightarrow>
    ((Result \<times> go_error option) \<times> Map) map_proc" where
  "updateMapStatusA env m opt as =
     (let m' = m\<lparr> m_Status := fold MapStatusApply as (m_Status m) \<rparr>
      in tryA (invokeA (me_call env) (StatusUpdateMap m')) (\<lambda>r.
           returnA (fst (updateMapStatus (\<lambda>_. case r of Inl e \<Rightarrow> Some e | Inr _ \<Rightarrow> None) m opt as), m')))"

definition finishMap :: "map_env \<Rightarrow> Map \<Rightarrow> ReconcilerOption \<Rightarrow> MapStatusApplier list \<Rightarrow> (Result \<times> go_error option) map_proc" where
  "finishMap env m opt as = bindA (updateMapStatusA env m opt as) (\<lambda>(r, _). returnA r)"

definition failMap :: "map_env \<Rightarrow> Map \<Rightarrow> go_error \<Rightarrow> (Result \<times> go_error option) map_proc" where
  "failMap env m e = finishMap env m (ro_error e) [withMapFailedState (error_text e)]"

definition map_executeFinalizer :: "map_env \<Rightarrow> Map \<Rightarrow> unit map_proc" where
  "map_executeFinalizer env m =
     (if \<not> ContainsFinalizer (m_Meta m) Finalizer then returnA ()
      else catchA (invokeA (me_call env) (UpdateMap (m\<lparr> m_Meta := RemoveFinalizer (m_Meta m) Finalizer \<rparr>)))
             (\<lambda>e. throwA (wrapErr ''failed to remove finalizer from custom resource: '' e)) returnA)"

definition map_getHazelcastClient :: "map_env \<Rightarrow> string \<Rightarrow> string \<Rightarrow> unit map_proc" where
  "map_getHazelcastClient env hzName hzNamespace =
     tryA (observeA (\<lambda>t. me_GetOrCreateClient env t \<lparr> nn_Name = hzName, nn_Namespace = hzNamespace \<rparr>)) (\<lambda>r. case r of
       Inl e \<Rightarrow> throwA (ErrOther (''Internal error occurred: cannot connect to the cluster for '' @ hzName))
     | Inr running \<Rightarrow> if \<not> running then throwA (ErrOther (''trying to connect to the cluster '' @ hzName)) else returnA ())"

definition updateRequest :: "Map \<Rightarrow> map_request" where
  "updateRequest m = UpdateMapConfig (MapName m) (ms_TimeToLiveSeconds (m_Spec m)) (ms_MaxIdleSeconds (m_Spec m))
     (EncodeEvictionPolicyType (ev_EvictionPolicy (ms_Eviction (m_Spec m)))) False (ev_MaxSize (ms_Eviction (m_Spec m)))
     (EncodeMaxSizePolicy (ev_MaxSizePolicy (ms_Eviction (m_Spec m)))) (defaultWanReplicationRefCodec m)"

text \<open>\<^verbatim>\<open>getMapStoreProperties\<close> reads a Secret only when one is named.\<close>

definition mapStoreProperties :: "map_env \<Rightarrow> Hazelcast \<Rightarrow> Map \<Rightarrow> (go_error + (string \<rightharpoonup> string) option) map_proc" where
  "mapStoreProperties env hz m =
     observeA (\<lambda>t. Inr (case ms_MapStore (m_Spec m) of
       None \<Rightarrow> Inr None
     | Some st \<Rightarrow> getMapStoreProperties (me_GetSecret env t) (mst_PropertiesSecretName st) (om_Namespace (h_Meta hz))))"

definition configRequest :: "map_env \<Rightarrow> Map \<Rightarrow> Hazelcast \<Rightarrow> bool \<Rightarrow> map_request map_proc" where
  "configRequest env m hz createdBefore =
     (if createdBefore then returnA (updateRequest m)
      else bindA (mapStoreProperties env hz m) (\<lambda>props.
           bindA (orPanic (fillAddMapConfigInput (me_quantity env)
              (map_sum id (\<lambda>p. case p of None \<Rightarrow> Map.empty | Some d \<Rightarrow> d) props) DefaultAddMapConfigInput m)) (\<lambda>r.
           case r of Inl e \<Rightarrow> throwA e | Inr mi \<Rightarrow> returnA (AddMapConfig mi))))"

text \<open>The result: the states of the members (nil when the request could not be built) and the error.\<close>

definition ReconcileMapConfig :: "map_env \<Rightarrow> Map \<Rightarrow> Hazelcast \<Rightarrow> bool \<Rightarrow>
    ((string \<rightharpoonup> MapConfigState) \<times> go_error option) map_proc" where
  "ReconcileMapConfig env m hz createdBefore =
     catchA (configRequest env m hz createdBefore) (\<lambda>e. returnA (Map.empty, Some e)) (\<lambda>req.
     bindA (observeA (\<lambda>t. Inr (me_OrderedMembers env t))) (\<lambda>members.
     bindA (sendToMembers (me_call env) (\<lambda>u. InvokeMapRequest u req) MapSuccess MapFailed
              (mss_MemberStatuses (m_Status m)) members Map.empty []) (\<lambda>(ms, failed).
     returnA (ms, if failed = [] then None
       else Some (ErrOther (''error creating/updating the Map config '' @ MapName m @ '' for members '' @ Join failed '', ''))))))"

text \<open>The annotation is written only when it changes.\<close>

definition map_updateLastSuccessfulConfiguration :: "map_env \<Rightarrow> Map \<Rightarrow> Map map_proc" where
  "map_updateLastSuccessfulConfiguration env m =
     (case me_MarshalSpec env (m_Spec m) of
        Inl e \<Rightarrow> returnA m
      | Inr js \<Rightarrow>
          (let m' = m\<lparr> m_Meta := (m_Meta m)\<lparr> om_Annotations := (om_Annotations (m_Meta m))(LastSuccessfulSpecAnnotation \<mapsto> js) \<rparr> \<rparr>
           in if om_Annotations (m_Meta m) LastSuccessfulSpecAnnotation = Some js then returnA m'
              else tryA (invokeA (me_call env) (UpdateMap m')) (\<lambda>_. returnA m')))"

definition validateMapConfigPersistence :: "map_env \<Rightarrow> Hazelcast \<Rightarrow> Map \<Rightarrow> bool map_proc" where
  "validateMapConfigPersistence env h m =
     tryA (observeA (\<lambda>t. me_Config env t \<lparr> nn_Name = m_HazelcastResourceName m, nn_Namespace = om_Namespace (m_Meta m) \<rparr>)) (\<lambda>r.
     case r of
       Inl e \<Rightarrow> throwA (ErrOther ''could not find Secret for map config persistence'')
     | Inr (Inl e) \<Rightarrow> throwA (ErrOther ''persisted Secret is not formatted correctly'')
     | Inr (Inr cfgs) \<Rightarrow>
         (case cfgs (MapName m) of
            None \<Rightarrow> returnA False
          | Some mcfg \<Rightarrow>
              bindA (observeA (\<lambda>t. Inr (createMapConfig (me_quantity env) (me_GetSecret env t) h m))) (\<lambda>c.
              bindA (orPanic c) (\<lambda>r. case r of
                Inl e \<Rightarrow> throwA e
              | Inr currentMcfg \<Rightarrow> returnA (mcfg = currentMcfg)))))"

subsection \<open>Reconcile\<close>

text \<open>After the configuration was sent to all members.\<close>

definition persistMap :: "map_env \<Rightarrow> Hazelcast \<Rightarrow> Map \<Rightarrow> (Result \<times> go_error option) map_proc" where
  "persistMap env h m =
     bindA (updateMapStatusA env m (ro_retryAfter 1000000000) [withMapState MapPersisting,
              withMapMessage ''Persisting the applied map config.'']) (\<lambda>((requeue, err), m1).
     if err \<noteq> None then returnA (requeue, err)
     else catchA (validateMapConfigPersistence env h m1) (failMap env m1) (\<lambda>persisted.
          if \<not> persisted
          then finishMap env m1 (ro_retryAfter 1000000000) [withMapState MapPersisting,
                 withMapMessage ''Waiting for Map Config to be persisted.'']
          else bindA (if me_PhoneHomeEnabled env \<and> \<not> IsSuccessfullyApplied (m_Meta m1)
                      then tryA (invokeA (me_call env) MapPhoneHome) (\<lambda>_. returnA ()) else returnA ()) (\<lambda>_.
               bindA (map_updateLastSuccessfulConfiguration env m1) (\<lambda>m2.
               finishMap env m2 ro_empty [withMapState MapSuccess, withMapMessage [], withMapMemberStatuses Map.empty]))))"

definition applyMap :: "map_env \<Rightarrow> Hazelcast \<Rightarrow> Map \<Rightarrow> bool \<Rightarrow> (Result \<times> go_error option) map_proc" where
  "applyMap env h m createdBefore =
     catchA (map_getHazelcastClient env (m_HazelcastResourceName m) (om_Namespace (m_Meta m))) (failMap env m) (\<lambda>_.
     bindA (if mss_State (m_Status m) = MapStateUnset
            then updateMapStatusA env m ro_empty [withMapState MapPending, withMapMessage ''Applying new map configuration.'']
            else returnA ((ResultZero, None), m)) (\<lambda>((requeue, err), m1).
     if err \<noteq> None then returnA (requeue, err)
     else bindA (ReconcileMapConfig env m1 h createdBefore) (\<lambda>(ms, err).
          case err of
            Some e \<Rightarrow> finishMap env m1 (ro_error e) [withMapState MapFailed, withMapMessage (error_text e),
                        withMapMemberStatuses ms]
          | None \<Rightarrow> persistMap env h m1)))"

definition reconcileMapSpec :: "map_env \<Rightarrow> NamespacedName \<Rightarrow> Map \<Rightarrow> (Result \<times> go_error option) map_proc" where
  "reconcileMapSpec env req m =
     catchA (observeA (\<lambda>t. me_GetHazelcast env t \<lparr> nn_Name = m_HazelcastResourceName m, nn_Namespace = nn_Namespace req \<rparr>))
       (\<lambda>e. failMap env m (wrapErr ''could not create/update Map config: Hazelcast resource not found: '' e)) (\<lambda>h.
     if hst_Phase (h_Status h) \<noteq> Running then failMap env m (ErrOther ''Hazelcast CR is not ready'')
     else catchA (validA (me_ErrText env) (ValidateMapSpec (me_validation env) m h))
            (\<lambda>e. finishMap env m (ro_error e) [withMapFailedState (''error validating new Spec: '' @ error_text e)]) (\<lambda>_.
     case om_Annotations (m_Meta m) LastSuccessfulSpecAnnotation of
       None \<Rightarrow> applyMap env h m False
     | Some s \<Rightarrow>
         (case me_MarshalSpec env (m_Spec m) of
            Inl e \<Rightarrow> failMap env m (wrapErr ''error marshaling Map as JSON: '' e)
          | Inr ms \<Rightarrow> if s = ms then finishMap env m ro_empty [withMapState MapSuccess]
                     else applyMap env h m True)))"

definition MapReconciler_Reconcile :: "map_env \<Rightarrow> NamespacedName \<Rightarrow> (Result \<times> go_error option) map_proc" where
  "MapReconciler_Reconcile env req =
     catchA (observeA (\<lambda>t. me_GetMap env t req))
       (\<lambda>e. if ErrIsNotFound e then returnA (ResultZero, None)
            else returnA (ResultZero, Some (wrapErr ''failed to get Map: '' e))) (\<lambda>m0.
     catchA (util_AddFinalizer (\<lambda>mt. invokeA (me_call env) (UpdateMap (m0\<lparr> m_Meta := mt \<rparr>))) (m_Meta m0))
       (failMap env (m0\<lparr> m_Meta := AddFinalizer (m_Meta m0) Finalizer \<rparr>)) (\<lambda>mt.
     let m = m0\<lparr> m_Meta := mt \<rparr>
     in if om_DeletionTimestamp mt \<noteq> None
        then bindA (updateMapStatusA env m ro_empty [withMapState MapTerminating]) (\<lambda>(_, m1).
             catchA (map_executeFinalizer env m1)
               (\<lambda>e. finishMap env (m1\<lparr> m_Meta := RemoveFinalizer (m_Meta m1) Finalizer \<rparr>) (ro_error e)
                     [withMapState MapTerminating, withMapMessage (error_text e)])
               (\<lambda>_. returnA (ResultZero, None)))
        else reconcileMapSpec env req m))"

end
