(* ===== verification/Traced.thy ===== *)
theory Traced
  imports Calls
begin

text \<open>
  Calls in their order. \<open>traced Q m w\<close>: every call the computation \<open>m\<close> makes, started in \<open>w\<close>, satisfies
  \<open>Q\<close> together with the trace at that moment. The rules follow the computation; a bound on the
  calls alone (\<open>only_calls\<close>) is the special case in which \<open>Q\<close> ignores the trace.
\<close>

definition traced :: "('c trace \<Rightarrow> 'c \<Rightarrow> bool) \<Rightarrow> ('s, 'c, 'a) proc \<Rightarrow> ('s, 'c) world \<Rightarrow> bool" where
  "traced Q m w \<longleftrightarrow> (\<exists>evs. cw_trace (snd (m w)) = cw_trace w @ evs \<and>
     (\<forall>pre c b post. evs = pre @ (c, b) # post \<longrightarrow> Q (cw_trace w @ pre) c))"

lemma tracedD:
  assumes "traced Q m w" and "m w = (r, w')" and "cw_trace w' = cw_trace w @ pre @ (c, b) # post"
  shows "Q (cw_trace w @ pre) c"
  using assms by (auto simp: traced_def)

lemma only_calls_grows: "only_calls R m \<Longrightarrow> \<exists>evs. cw_trace (snd (m w)) = cw_trace w @ evs"
  unfolding only_calls_def calls_at_def by blast

lemma traced_only:
  assumes "only_calls R m" and "\<And>tr c. R c \<Longrightarrow> Q tr c"
  shows "traced Q m w"
proof -
  obtain evs where "cw_trace (snd (m w)) = cw_trace w @ evs" "\<forall>e \<in> set evs. R (fst e)"
    using assms(1) unfolding only_calls_def calls_at_def by blast
  then show ?thesis using assms(2) unfolding traced_def by (intro exI [of _ evs]) auto
qed

text \<open>When \<open>Q\<close> holds from now on, only that the trace grows is left to show.\<close>

lemma traced_free:
  assumes "only_calls (\<lambda>_. True) m" and "\<And>evs c. Q (cw_trace w @ evs) c"
  shows "traced Q m w"
  using assms unfolding only_calls_def calls_at_def traced_def by blast

lemma traced_append:
  assumes "cw_trace w1 = cw_trace w @ evs1"
    and "\<forall>pre c b post. evs1 = pre @ (c, b) # post \<longrightarrow> Q (cw_trace w @ pre) c"
    and "\<forall>pre c b post. evs2 = pre @ (c, b) # post \<longrightarrow> Q (cw_trace w1 @ pre) c"
    and "evs1 @ evs2 = pre @ (c, b) # post"
  shows "Q (cw_trace w @ pre) c"
proof -
  from assms(4) consider us where "evs1 = pre @ (c, b) # us" | us where "pre = evs1 @ us" "evs2 = us @ (c, b) # post"
    by (auto simp: append_eq_append_conv2 append_eq_Cons_conv)
  then show ?thesis
  proof cases
    case 1
    with assms(2) show ?thesis by blast
  next
    case 2
    with assms(1,3) show ?thesis by simp
  qed
qed

lemma traced_bindA:
  assumes "traced Q m w" and "\<And>x w1. m w = (Inr x, w1) \<Longrightarrow> traced Q (f x) w1"
  shows "traced Q (bindA m f) w"
proof -
  obtain r w1 where m: "m w = (r, w1)" by fastforce
  with assms(1) obtain evs where evs: "cw_trace w1 = cw_trace w @ evs"
      "\<forall>pre c b post. evs = pre @ (c, b) # post \<longrightarrow> Q (cw_trace w @ pre) c"
    by (auto simp: traced_def)
  show ?thesis
  proof (cases r)
    case (Inl e)
    with m evs show ?thesis unfolding traced_def by (intro exI [of _ evs]) simp
  next
    case (Inr x)
    with assms(2) m obtain evs2 where "cw_trace (snd (f x w1)) = cw_trace w1 @ evs2"
        "\<forall>pre c b post. evs2 = pre @ (c, b) # post \<longrightarrow> Q (cw_trace w1 @ pre) c"
      by (auto simp: traced_def)
    with traced_append [OF evs this(2)] m Inr evs(1) show ?thesis
      unfolding traced_def by (intro exI [of _ "evs @ evs2"]) auto
  qed
qed

lemma traced_tryA:
  assumes "traced Q m w" and "\<And>r w1. m w = (r, w1) \<Longrightarrow> traced Q (k r) w1"
  shows "traced Q (tryA m k) w"
proof -
  have "traced Q (bindA (\<lambda>w. case m w of (r, w') \<Rightarrow> (Inr r, w')) k) w"
    by (rule traced_bindA) (use assms in \<open>auto simp: traced_def split_def\<close>)
  then show ?thesis by (cases "m w") (simp add: traced_def bindA_def tryA_def)
qed

lemma traced_catchA:
  assumes "traced Q m w" and "\<And>e w1. m w = (Inl e, w1) \<Longrightarrow> traced Q (h e) w1"
    and "\<And>x w1. m w = (Inr x, w1) \<Longrightarrow> traced Q (k x) w1"
  shows "traced Q (catchA m h k) w"
  unfolding catchA_def
  by (rule traced_tryA [OF assms(1)])
    (auto simp: assms(2,3) traced_def [of _ "throwA _"] action_simps split: sum.split go_error.split)

lemma traced_if: "(b \<Longrightarrow> traced Q m w) \<Longrightarrow> (\<not> b \<Longrightarrow> traced Q n w) \<Longrightarrow> traced Q (if b then m else n) w"
  by simp

lemma traced_invokeA: "Q (cw_trace w) c \<Longrightarrow> traced Q (invokeA ans c) w"
  unfolding traced_def by (intro exI [of _ "[(c, ans (moment w) c = None)]"]) (auto simp: invokeA_after Cons_eq_append_conv)

lemmas traced_rules = traced_bindA traced_tryA traced_catchA traced_if

lemma traced_basic [intro]:
  "traced Q (returnA x) v" "traced Q (throwA e) v" "traced Q (observeA f) v" "traced Q (stateA g) v" "traced Q (changeA k) v"
  by (simp_all add: traced_def action_simps)

text \<open>A body that is tried again: \<open>I\<close> holds whenever it starts.\<close>

lemma traced_RetryOnConflict:
  "(\<And>v. I v \<Longrightarrow> traced Q fn v) \<Longrightarrow> (\<And>v r v'. I v \<Longrightarrow> fn v = (r, v') \<Longrightarrow> I v') \<Longrightarrow> I v \<Longrightarrow> traced Q (RetryOnConflict n fn) v"
proof (induction n arbitrary: v)
  case (Suc n)
  from Suc.prems(1) [OF Suc.prems(3)] show ?case unfolding RetryOnConflict.simps
    by (rule traced_tryA) (use Suc in \<open>auto split: sum.split\<close>)
qed simp

lemma traced_Retry: "(\<And>v. traced Q fn v) \<Longrightarrow> traced Q (RetryOnConflict n fn) v"
  by (rule traced_RetryOnConflict [where I = "\<lambda>_. True"]) simp_all

text \<open>\<open>returns P m\<close>: whenever \<open>m\<close> ends without an error, \<open>P\<close> holds of its result.\<close>

definition returns :: "('a \<Rightarrow> bool) \<Rightarrow> ('w, 'a) action \<Rightarrow> bool" where
  "returns P m \<longleftrightarrow> (\<forall>w x w'. m w = (Inr x, w') \<longrightarrow> P x)"

lemma returnsD: "returns P m \<Longrightarrow> m w = (Inr x, w') \<Longrightarrow> P x"
  unfolding returns_def by blast

lemma returns_basic [simp]: "returns P (returnA x) \<longleftrightarrow> P x" "returns P (throwA e)" "returns (\<lambda>_. True) m"
  by (simp_all add: returns_def action_simps)

lemma returns_bindA:
  "returns R m \<Longrightarrow> (\<And>x. R x \<Longrightarrow> returns P (f x)) \<Longrightarrow> returns P (bindA m f)"
  unfolding returns_def bindA_Inr_iff by metis

lemma returns_catchA:
  assumes "returns R m" and "\<And>e. returns P (h e)" and "\<And>x. R x \<Longrightarrow> returns P (k x)"
  shows "returns P (catchA m h k)"
  unfolding returns_def
proof (intro allI impI)
  fix w x w'
  assume "catchA m h k w = (Inr x, w')"
  then show "P x"
  proof (cases rule: catchA_cases)
    case (error e w1)
    show ?thesis by (rule returnsD [OF assms(2) error(2)])
  next
    case (ok y w1)
    have "R y" by (rule returnsD [OF assms(1) ok(1)])
    show ?thesis by (rule returnsD [OF assms(3) [OF \<open>R y\<close>] ok(2)])
  qed simp
qed

lemma returns_tryA: "(\<And>r. returns P (k r)) \<Longrightarrow> returns P (tryA m k)"
  by (auto simp: returns_def tryA_def split: prod.splits)

lemma returns_if: "(b \<Longrightarrow> returns P m) \<Longrightarrow> (\<not> b \<Longrightarrow> returns P n) \<Longrightarrow> returns P (if b then m else n)"
  by simp

end
