(* ===== verification/Ds_Safety.thy ===== *)
theory Ds_Safety
  imports Ds_Controller Traced
begin

text \<open>
  What the controllers of Queue, Topic, MultiMap, ReplicatedMap and Cache guarantee: success is
  reported only when all members have the configuration and it is stored in the cluster's
  Secret. The proof is done once, for every kind of data structure whose methods look only at
  the specification, the name and the annotations of the object (the locale \<open>ds_kind\<close>), and the
  five kinds are its instances.
\<close>

subsection \<open>Sending to the members\<close>

lemma sendToMembers_calls:
  "only_calls (\<lambda>c. \<exists>u. c = mk u \<and> old u \<noteq> Some ok) (sendToMembers ans mk ok bad old us ms failed)"
  by (induction us arbitrary: ms failed) (auto intro!: kept split: sum.split)

lemma sendToMembers_run:
  "\<exists>ms' failed' w'. sendToMembers ans mk ok bad old us ms failed w = (Inr (ms', failed'), w') \<and>
     set (cw_trace w) \<subseteq> set (cw_trace w') \<and> (failed' = [] \<longrightarrow> failed = [] \<and>
       (\<forall>u \<in> set us. old u = Some ok \<or> (mk u, True) \<in> set (cw_trace w')))"
proof (induction us arbitrary: ms failed w)
  case Nil
  then show ?case by (simp add: action_simps)
next
  case (Cons u us)
  show ?case
  proof (cases "old u = Some ok")
    case True
    obtain ms' failed' w' where "sendToMembers ans mk ok bad old us (ms(u \<mapsto> ok)) failed w = (Inr (ms', failed'), w')"
      "set (cw_trace w) \<subseteq> set (cw_trace w')" "failed' = [] \<longrightarrow> failed = [] \<and>
       (\<forall>u \<in> set us. old u = Some ok \<or> (mk u, True) \<in> set (cw_trace w'))" using Cons.IH by blast
    with True show ?thesis by (simp del: fun_upd_apply)
  next
    case False
    define x where "x = (if ans (moment w) (mk u) = None then ok else bad)"
    define f where "f = (if ans (moment w) (mk u) = None then failed else failed @ [u])"
    let ?w = "w\<lparr> cw_trace := cw_trace w @ [(mk u, ans (moment w) (mk u) = None)] \<rparr>"
    obtain ms' failed' w' where IH: "sendToMembers ans mk ok bad old us (ms(u \<mapsto> x)) f ?w = (Inr (ms', failed'), w')"
      "set (cw_trace ?w) \<subseteq> set (cw_trace w')" "failed' = [] \<longrightarrow> f = [] \<and>
       (\<forall>u \<in> set us. old u = Some ok \<or> (mk u, True) \<in> set (cw_trace w'))" using Cons.IH by blast
    have "sendToMembers ans mk ok bad old (u # us) ms failed w = (Inr (ms', failed'), w')"
      using False IH(1) by (auto simp: action_simps invokeA_def x_def f_def simp del: fun_upd_apply split: option.splits)
    moreover have "set (cw_trace w) \<subseteq> set (cw_trace w')" using IH(2) by simp
    moreover have "failed = [] \<and> (mk u, True) \<in> set (cw_trace w')" if "failed' = []"
      using IH(2,3) that by (auto simp: f_def split: if_splits)
    ultimately show ?thesis using IH(3) by auto
  qed
qed

subsection \<open>Kinds of data structures\<close>

definition sameDS :: "'s data_structure \<Rightarrow> 's data_structure \<Rightarrow> bool" where
  "sameDS ob ob0 \<longleftrightarrow> do_Spec ob = do_Spec ob0 \<and> om_Name (do_Meta ob) = om_Name (do_Meta ob0) \<and>
     om_Namespace (do_Meta ob) = om_Namespace (do_Meta ob0) \<and> om_Annotations (do_Meta ob) = om_Annotations (do_Meta ob0)"

text \<open>\<open>ds_sent\<close>: every member is recorded as successful or was sent the request for the object with
  success. \<open>ds_stored\<close>: the stored configuration has the one of this object under its name.\<close>

definition ds_sent :: "('s, 'q, 'cfg) ds_env \<Rightarrow> ('s data_structure \<Rightarrow> 'q go) \<Rightarrow> 's data_structure \<Rightarrow> ('s, 'q) ds_call trace \<Rightarrow> bool" where
  "ds_sent env request ob tr \<longleftrightarrow> (\<exists>t q. request ob = Some q \<and> (\<forall>u \<in> set (de_OrderedMembers env t).
     dss_MemberStatuses (do_Status ob) u = Some DataStructureSuccess \<or> (InvokeOnMember u q, True) \<in> set tr))"

definition ds_stored :: "('s, 'q, 'cfg) ds_env \<Rightarrow> 's DataStructure \<Rightarrow> ('s data_structure \<Rightarrow> 'cfg go) \<Rightarrow> 's data_structure \<Rightarrow> bool" where
  "ds_stored env ifc create ob \<longleftrightarrow> (\<exists>t cfgs c.
     de_Config env t \<lparr> nn_Name = dsi_GetHZResourceName ifc ob, nn_Namespace = om_Namespace (do_Meta ob) \<rparr> = Inr (Inr cfgs) \<and>
     cfgs (dsi_GetDSName ifc ob) = Some c \<and> create ob = Some c)"

definition ds_applied :: "'s DataStructure \<Rightarrow> 's data_structure \<Rightarrow> bool" where
  "ds_applied ifc ob \<longleftrightarrow> (\<exists>s. om_Annotations (do_Meta ob) LastSuccessfulSpecAnnotation = Some s \<and> dsi_GetSpec ifc ob = Inr s)"

definition ds_modest :: "('s, 'q) ds_call \<Rightarrow> bool" where
  "ds_modest c \<longleftrightarrow> (\<forall>x. c = StatusUpdateDS x \<longrightarrow> dss_State (do_Status x) \<noteq> DataStructureSuccess)"

definition ds_honest where
  "ds_honest env ifc request create ob0 tr c \<longleftrightarrow>
     ds_modest c \<or> ds_applied ifc ob0 \<or> ds_sent env request ob0 tr \<and> ds_stored env ifc create ob0"

lemma ds_honestI: "only_calls ds_modest m \<Longrightarrow> traced (ds_honest env ifc request create ob0) m w"
  by (erule traced_only) (simp add: ds_honest_def)

lemma ds_sent_grows: "ds_sent env request ob tr \<Longrightarrow> ds_sent env request ob (tr @ evs)"
  unfolding ds_sent_def set_append by blast

lemma ds_modest_simps [simp]:
  "ds_modest (UpdateDS x)" "ds_modest (InvokeOnMember u q)" "ds_modest TriggerPhoneHome"
  by (simp_all add: ds_modest_def)

lemma updateDSStatusA_calls:
  "Q (StatusUpdateDS (ob\<lparr> do_Status := fold DSStatusApply as (do_Status ob) \<rparr>)) \<Longrightarrow> only_calls Q (updateDSStatusA env ob opt as)"
  by (auto simp: updateDSStatusA_def Let_def intro!: kept)

lemma updateDSStatusA_modest:
  "dss_State (fold DSStatusApply as (do_Status ob)) \<noteq> DataStructureSuccess \<Longrightarrow> only_calls ds_modest (updateDSStatusA env ob opt as)"
  by (rule updateDSStatusA_calls) (simp add: ds_modest_def)

lemma updateDSStatusA_returns:
  "returns (\<lambda>p. snd p = ob\<lparr> do_Status := fold DSStatusApply as (do_Status ob) \<rparr>) (updateDSStatusA env ob opt as)"
  by (auto simp: updateDSStatusA_def Let_def intro!: returns_tryA)

lemma ds_fails [kept]:
  "only_calls ds_modest (failDS env ob e t)" "only_calls ds_modest (stopWith r)" "only_calls ds_modest (validA f v)"
  "only_calls ds_modest (orPanic x)" "only_calls ds_modest (getHazelcastConfig env nn)"
  "only_calls ds_modest (updateLastSuccessfulConfigurationDS env ifc ob)" "only_calls ds_modest (ds_executeFinalizer env ob)"
  by (auto simp: failDS_def stopWith_def validA_def orPanic_def getHazelcastConfig_def updateLastSuccessfulConfigurationDS_def
      ds_executeFinalizer_def Let_def intro!: kept updateDSStatusA_modest split: option.split sum.split)

lemma ds_steps [kept]:
  "only_calls ds_modest (startDelete env ob)" "only_calls ds_modest (getHZClient env ob h)"
  "only_calls ds_modest (validateConfigPersistence env ifc create ob)"
  unfolding startDelete_def getHZClient_def validateConfigPersistence_def Let_def
  by (auto intro!: kept updateDSStatusA_modest split: sum.split option.split)

lemma sendCodecRequest_modest [kept]: "only_calls ds_modest (sendCodecRequest env ifc ob req)"
  unfolding sendCodecRequest_def
  by (intro kept only_calls_weaken [OF sendToMembers_calls]) (auto intro!: kept)

lemma finalSetupDS_calls: "only_calls (\<lambda>_. True) (finalSetupDS env ifc ob)"
  unfolding finalSetupDS_def updateLastSuccessfulConfigurationDS_def Let_def
  by (auto intro!: kept updateDSStatusA_calls split: sum.split)

lemma sendCodecRequest_sent:
  assumes "request ob = Some q" and "sendCodecRequest env ifc ob q w = (Inr (ms, None), w')"
  shows "ds_sent env request ob (cw_trace w')"
proof -
  let ?w = "w\<lparr> cw_reads := Suc (cw_reads w) \<rparr>"
  obtain ms' failed' w2 where sent: "sendToMembers (de_call env) (\<lambda>u. InvokeOnMember u q) DataStructureSuccess DataStructureFailed
        (dss_MemberStatuses (do_Status ob)) (de_OrderedMembers env (moment w)) Map.empty [] ?w = (Inr (ms', failed'), w2)"
      "failed' = [] \<longrightarrow> (\<forall>u \<in> set (de_OrderedMembers env (moment w)).
         dss_MemberStatuses (do_Status ob) u = Some DataStructureSuccess \<or> (InvokeOnMember u q, True) \<in> set (cw_trace w2))"
    using sendToMembers_run [of "de_call env" "\<lambda>u. InvokeOnMember u q"] by metis
  have "failed' = []" "w2 = w'"
    using assms(2) sent(1) by (simp_all add: sendCodecRequest_def action_simps split: if_splits)
  with sent(2) assms(1) show ?thesis unfolding ds_sent_def by blast
qed

lemma getHazelcastConfig_read:
  "getHazelcastConfig env nn w = (Inr cfgs, w') \<Longrightarrow> de_Config env (moment w) nn = Inr (Inr cfgs)"
  by (auto simp: getHazelcastConfig_def action_simps split: sum.splits)

lemma validateConfigPersistence_stored:
  "validateConfigPersistence env ifc create ob w = (Inr True, w') \<Longrightarrow> ds_stored env ifc create ob"
  unfolding validateConfigPersistence_def ds_stored_def bindA_Inr_iff
  by (auto simp: action_simps simp del: split_paired_Ex split: option.splits dest!: getHazelcastConfig_read)

text \<open>The last part of \<^verbatim>\<open>Reconcile\<close>, after the members have the configuration.\<close>

definition ds_tail where
  "ds_tail env ifc create waiting ms ob1 =
     catchA (validateConfigPersistence env ifc create ob1)
       (\<lambda>e. bindA (updateDSStatusA env ob1 (ro_error e) [withDSFailedState (error_text e)]) (\<lambda>(r, _). returnA r))
       (\<lambda>persisted.
          if \<not> persisted
          then bindA (updateDSStatusA env ob1 (ro_retryAfter 1000000000) [withDSState DataStructurePersisting,
                 withDSMessage waiting, withDSMemberStatuses ms]) (\<lambda>(r, _). returnA r)
          else finalSetupDS env ifc ob1)"

text \<open>The object the setup returns.\<close>

definition set_up :: "'s data_structure \<Rightarrow> (Result \<times> go_error option) + 's data_structure \<Rightarrow> bool" where
  "set_up ob0 r \<longleftrightarrow> (\<forall>ob. r = Inr ob \<longrightarrow> sameDS ob ob0 \<and> dss_MemberStatuses (do_Status ob) = dss_MemberStatuses (do_Status ob0))"

lemma returns_andThen: "(\<And>x. returns (set_up ob0) (f x)) \<Longrightarrow> returns (set_up ob0) (andThen m f)"
  unfolding andThen_def
  by (rule returns_bindA [of "\<lambda>_. True"]) (auto simp: set_up_def split: sum.split)

lemma returns_stop: "returns (set_up ob0) (stopWith r)" "returns (set_up ob0) (failDS env ob e t)"
    "returns (set_up ob0) (startDelete env ob)"
  unfolding stopWith_def failDS_def startDelete_def
  by (auto intro!: returns_bindA [of "\<lambda>_. True"] returns_catchA [of "\<lambda>_. True"] simp: set_up_def)

lemma pending_set_up:
  assumes "set_up ob0 (Inr ob)"
  shows "returns (set_up ob0) (bindA (updateDSStatusA env ob ro_empty [withDSState DataStructurePending, withDSMessage t])
     (\<lambda>((res, err), ob'). if err \<noteq> None then stopWith (res, err) else returnA (Inr ob')))"
  by (rule returns_bindA [OF updateDSStatusA_returns])
    (use assms in \<open>auto simp: set_up_def sameDS_def returns_stop\<close>)

lemma traced_orPanic: "(\<And>x. r = Some x \<Longrightarrow> traced Q (f x) w) \<Longrightarrow> traced Q (bindA (orPanic r) f) w"
  by (cases r) (simp_all add: traced_def)

lemma only_calls_andThen [kept]:
  "only_calls Q m \<Longrightarrow> (\<And>x. only_calls Q (f x)) \<Longrightarrow> only_calls Q (andThen m f)"
  unfolding andThen_def by (auto intro!: kept split: sum.split)

lemma setupValidated_returns: "set_up ob0 (Inr ob) \<Longrightarrow> returns (set_up ob0) (setupValidated env ifc ob h)"
  unfolding setupValidated_def
  by (intro returns_catchA [of "\<lambda>_. True"] returns_if returns_andThen pending_set_up) (simp_all add: returns_stop)

lemma setupValidated_modest [kept]: "only_calls ds_modest (setupValidated env ifc ob h)"
  unfolding setupValidated_def by (auto intro!: kept updateDSStatusA_modest)

lemma initialSetupDS_returns:
  assumes "de_Get env (moment w) nn = Inr ob0" and "initialSetupDS env ifc nn w = (Inr r, w')"
  shows "set_up ob0 r"
proof -
  have added: "returns (\<lambda>mt. om_Name mt = om_Name (do_Meta ob0) \<and> om_Namespace mt = om_Namespace (do_Meta ob0) \<and>
      om_Annotations mt = om_Annotations (do_Meta ob0))
    (util_AddFinalizer (\<lambda>m. invokeA (de_call env) (UpdateDS (ob0\<lparr> do_Meta := m \<rparr>))) (do_Meta ob0))"
    unfolding util_AddFinalizer_def by (auto intro!: returns_bindA [of "\<lambda>_. True"] simp: AddFinalizer_def)
  show ?thesis
    using assms(2) unfolding initialSetupDS_def
  proof (cases rule: catchA_cases)
    case (ok ob w1)
    with assms(1) have "ob = ob0" by simp
    show ?thesis using ok(2) unfolding \<open>ob = ob0\<close> Let_def
      by (rule returnsD [rotated])
        (auto intro!: returns_catchA [OF added] returns_catchA [of "\<lambda>_. True"] returns_andThen setupValidated_returns
          simp: returns_stop, auto simp: set_up_def sameDS_def)
  qed (use assms(1) in \<open>auto simp: returns_stop\<close>)
qed

lemma handleCreatedBefore_honest:
  assumes "sameDS ob ob0" and "ds_applied ifc ob \<longleftrightarrow> ds_applied ifc ob0"
  shows "traced (ds_honest env ifc request create ob0) (handleCreatedBefore env ifc ob) w"
proof (cases "ds_applied ifc ob")
  case True
  have "only_calls (\<lambda>_. True) (handleCreatedBefore env ifc ob)"
    unfolding handleCreatedBefore_def failDS_def stopWith_def
    by (auto intro!: kept updateDSStatusA_calls split: option.split sum.split)
  with True assms(2) show ?thesis by (intro traced_free) (simp_all add: ds_honest_def)
next
  case False
  then have "only_calls ds_modest (handleCreatedBefore env ifc ob)"
    unfolding handleCreatedBefore_def ds_applied_def
    by (auto intro!: kept updateDSStatusA_modest split: option.split sum.split)
  then show ?thesis by (rule ds_honestI)
qed

lemma traced_andThen:
  assumes "traced Q m w" and "\<And>x w1. traced Q (f x) w1"
  shows "traced Q (andThen m f) w"
  unfolding andThen_def
  by (rule traced_bindA [OF assms(1)]) (auto split: sum.split intro: assms(2) traced_only kept)

subsection \<open>Every kind\<close>

text \<open>The contract of a kind of data structure: the methods of the interface, the request and the
  configuration depend on the specification, the name, the namespace and the annotations only.\<close>

locale ds_kind =
  fixes ifc :: "'s DataStructure" and request :: "'s data_structure \<Rightarrow> 'q go" and create :: "'s data_structure \<Rightarrow> 'cfg go"
  assumes same_name: "sameDS ob ob0 \<Longrightarrow> dsi_GetDSName ifc ob = dsi_GetDSName ifc ob0"
    and same_cluster: "sameDS ob ob0 \<Longrightarrow> dsi_GetHZResourceName ifc ob = dsi_GetHZResourceName ifc ob0"
    and same_spec: "sameDS ob ob0 \<Longrightarrow> dsi_GetSpec ifc ob = dsi_GetSpec ifc ob0"
    and same_request: "sameDS ob ob0 \<Longrightarrow> request ob = request ob0"
    and same_create: "sameDS ob ob0 \<Longrightarrow> create ob = create ob0"
begin

lemma same_applied: "sameDS ob ob0 \<Longrightarrow> ds_applied ifc ob \<longleftrightarrow> ds_applied ifc ob0"
  using same_spec [of ob ob0] by (simp add: ds_applied_def sameDS_def)

lemma same_stored: "sameDS ob ob0 \<Longrightarrow> ds_stored env ifc create ob \<longleftrightarrow> ds_stored env ifc create ob0"
  using same_name [of ob ob0] same_cluster [of ob ob0] same_create [of ob ob0] by (simp add: ds_stored_def sameDS_def)

lemma same_sent:
  "set_up ob0 (Inr ob) \<Longrightarrow> ds_sent env request ob tr \<longleftrightarrow> ds_sent env request ob0 tr"
  using same_request [of ob ob0] by (simp add: ds_sent_def set_up_def)

lemma initialSetupDS_honest:
  assumes "de_Get env (moment w) nn = Inr ob0"
  shows "traced (ds_honest env ifc request create ob0) (initialSetupDS env ifc nn) w"
proof -
  have same: "sameDS (ob0\<lparr> do_Meta := mt \<rparr>) ob0"
    if "util_AddFinalizer (\<lambda>m. invokeA (de_call env) (UpdateDS (ob0\<lparr> do_Meta := m \<rparr>))) (do_Meta ob0) w1 = (Inr mt, w2)" for mt w1 w2
    using that by (auto simp: util_AddFinalizer_def AddFinalizer_def sameDS_def action_simps bindA_def invokeA_def
        split: if_splits option.splits)
  have handled: "traced (ds_honest env ifc request create ob0) (handleCreatedBefore env ifc ob) w1"
    if "sameDS ob ob0" for ob w1
    using handleCreatedBefore_honest [OF that same_applied [OF that]] .
  have meta: "only_calls ds_modest (util_AddFinalizer (\<lambda>m. invokeA (de_call env) (UpdateDS (ob0\<lparr> do_Meta := m \<rparr>))) mt)" for mt
    by (intro kept) simp
  show ?thesis unfolding initialSetupDS_def Let_def
    by (rule traced_catchA, simp_all add: assms ds_honestI kept,
        rule traced_catchA [OF ds_honestI [OF meta] ds_honestI], auto intro: kept,
        rule ds_honestI, rule kept, rule traced_catchA, simp_all add: ds_honestI kept,
        rule traced_andThen [OF handled [OF same]])
      (auto intro: ds_honestI kept)
qed

lemma ds_tail_honest:
  assumes "ds_sent env request ob0 (cw_trace w)" and "sameDS ob1 ob0"
  shows "traced (ds_honest env ifc request create ob0) (ds_tail env ifc create waiting ms ob1) w"
  unfolding ds_tail_def
proof (rule traced_catchA)
  fix persisted w1
  assume valid: "validateConfigPersistence env ifc create ob1 w = (Inr persisted, w1)"
  show "traced (ds_honest env ifc request create ob0) (if \<not> persisted
          then bindA (updateDSStatusA env ob1 (ro_retryAfter 1000000000) [withDSState DataStructurePersisting,
                 withDSMessage waiting, withDSMemberStatuses ms]) (\<lambda>(r, _). returnA r)
          else finalSetupDS env ifc ob1) w1"
  proof (cases persisted)
    case True
    obtain evs where "cw_trace w1 = cw_trace w @ evs" using only_calls_grows [OF ds_steps(3)] valid by (metis snd_conv)
    then have "ds_sent env request ob0 (cw_trace w1 @ more)" for more using assms(1) ds_sent_grows by fastforce
    moreover have "ds_stored env ifc create ob0"
      using validateConfigPersistence_stored valid True same_stored [OF assms(2)] by metis
    ultimately have "ds_honest env ifc request create ob0 (cw_trace w1 @ more) c" for more c by (simp add: ds_honest_def)
    with True show ?thesis by (auto intro: traced_free finalSetupDS_calls)
  qed (auto intro!: ds_honestI kept updateDSStatusA_modest)
qed (auto intro!: ds_honestI kept updateDSStatusA_modest)

lemma sent_honest:
  assumes "set_up ob0 (Inr ob)" and "request ob = Some q"
  shows "traced (ds_honest env ifc request create ob0) (bindA (sendCodecRequest env ifc ob q) (\<lambda>(ms, err).
         case err of
           Some e \<Rightarrow> bindA (updateDSStatusA env ob (ro_retryAfter 5000000000) [withDSState DataStructurePending,
                       withDSMessage (error_text e), withDSMemberStatuses ms]) (\<lambda>(r, _). returnA r)
         | None \<Rightarrow>
             bindA (updateDSStatusA env ob (ro_retryAfter 1000000000) [withDSState DataStructurePersisting,
               withDSMessage persisting, withDSMemberStatuses ms]) (\<lambda>((requeue, err), ob1).
             if err \<noteq> None then returnA (requeue, err) else ds_tail env ifc create waiting ms ob1))) w"
proof (rule traced_bindA [OF ds_honestI [OF sendCodecRequest_modest]])
  fix p w1
  assume run: "sendCodecRequest env ifc ob q w = (Inr p, w1)"
  obtain ms err where p: "p = (ms, err)" by (cases p)
  let ?u = "updateDSStatusA env ob (ro_retryAfter 1000000000) [withDSState DataStructurePersisting,
               withDSMessage persisting, withDSMemberStatuses ms]"
  have first: "only_calls ds_modest ?u" by (rule updateDSStatusA_modest) simp
  have rest: "traced (ds_honest env ifc request create ob0) ((\<lambda>((requeue, err), ob1).
      if err \<noteq> None then returnA (requeue, err) else ds_tail env ifc create waiting ms ob1) x) w2"
    if "?u w1 = (Inr x, w2)" "err = None" for x w2
  proof -
    obtain requeue err' ob1 where x: "x = ((requeue, err'), ob1)" by (cases x) auto
    have "sameDS ob1 ob0"
      using returnsD [OF updateDSStatusA_returns that(1)] assms(1) x by (auto simp: set_up_def sameDS_def)
    moreover have "ds_sent env request ob0 (cw_trace w2)"
      using sendCodecRequest_sent [of request ob q env ifc w ms w1] assms same_sent [OF assms(1)] run p that
        only_calls_grows [OF first, of w1] ds_sent_grows by fastforce
    ultimately show ?thesis using x by (auto intro: ds_tail_honest ds_honestI kept)
  qed
  show "traced (ds_honest env ifc request create ob0) ((\<lambda>(ms, err). case err of
           Some e \<Rightarrow> bindA (updateDSStatusA env ob (ro_retryAfter 5000000000) [withDSState DataStructurePending,
                       withDSMessage (error_text e), withDSMemberStatuses ms]) (\<lambda>(r, _). returnA r)
         | None \<Rightarrow>
             bindA (updateDSStatusA env ob (ro_retryAfter 1000000000) [withDSState DataStructurePersisting,
               withDSMessage persisting, withDSMemberStatuses ms]) (\<lambda>((requeue, err), ob1).
             if err \<noteq> None then returnA (requeue, err) else ds_tail env ifc create waiting ms ob1)) p) w1"
  proof (cases err)
    case None
    with p show ?thesis using traced_bindA [OF ds_honestI [OF first] rest] by simp
  qed (use p in \<open>auto intro!: ds_honestI kept updateDSStatusA_modest\<close>)
qed

lemma reconcileDS_honest:
  assumes "de_Get env (moment w) nn = Inr ob0"
  shows "traced (ds_honest env ifc request create ob0) (reconcileDS env ifc request create persisting waiting nn) w"
  unfolding reconcileDS_def ds_tail_def [symmetric]
proof (rule traced_bindA [OF initialSetupDS_honest [OF assms]])
  fix r w1
  assume "initialSetupDS env ifc nn w = (Inr r, w1)"
  then have "set_up ob0 r" using initialSetupDS_returns [OF assms] by blast
  then show "traced (ds_honest env ifc request create ob0) (case r of
       Inl (res, err) \<Rightarrow>
         (case err of Some e \<Rightarrow> if ErrIsNotFound e then returnA (ResultZero, None) else returnA (res, None)
          | None \<Rightarrow> returnA (res, None))
     | Inr ob \<Rightarrow>
         bindA (orPanic (request ob)) (\<lambda>req.
         bindA (sendCodecRequest env ifc ob req) (\<lambda>(ms, err).
         case err of
           Some e \<Rightarrow> bindA (updateDSStatusA env ob (ro_retryAfter 5000000000) [withDSState DataStructurePending,
                       withDSMessage (error_text e), withDSMemberStatuses ms]) (\<lambda>(r, _). returnA r)
         | None \<Rightarrow>
             bindA (updateDSStatusA env ob (ro_retryAfter 1000000000) [withDSState DataStructurePersisting,
               withDSMessage persisting, withDSMemberStatuses ms]) (\<lambda>((requeue, err), ob1).
             if err \<noteq> None then returnA (requeue, err) else ds_tail env ifc create waiting ms ob1)))) w1"
  proof (cases r)
    case (Inl p)
    then show ?thesis by (cases p) (simp add: ds_honestI kept split: option.split)
  next
    case (Inr ob)
    show ?thesis unfolding Inr sum.case
      by (intro traced_orPanic sent_honest) (use \<open>set_up ob0 r\<close> Inr in simp_all)
  qed
qed

end

subsection \<open>The five kinds\<close>

text \<open>\<open>reports_success_rightly\<close>: in every reconciliation of an object that starts with an empty trace,
  whatever the calls answer, a status update with the state Success is preceded by what it claims.\<close>

definition reports_success_rightly where
  "reports_success_rightly env ifc request create reconcile \<longleftrightarrow> (\<forall>nn w r w' ob0 pre x b post.
     cw_trace w = [] \<longrightarrow> de_Get env (moment w) nn = Inr ob0 \<longrightarrow> reconcile nn w = (r, w') \<longrightarrow>
     cw_trace w' = pre @ (StatusUpdateDS x, b) # post \<longrightarrow> dss_State (do_Status x) = DataStructureSuccess \<longrightarrow>
     ds_applied ifc ob0 \<or> ds_sent env request ob0 pre \<and> ds_stored env ifc create ob0)"

context ds_kind
begin

lemma success_rightly:
  "reports_success_rightly env ifc request create (reconcileDS env ifc request create persisting waiting)"
  unfolding reports_success_rightly_def
proof (intro allI impI)
  fix nn w r w' ob0 pre x b post
  assume "cw_trace w = []" "de_Get env (moment w) nn = Inr ob0"
    "reconcileDS env ifc request create persisting waiting nn w = (r, w')"
    "cw_trace w' = pre @ (StatusUpdateDS x, b) # post" "dss_State (do_Status x) = DataStructureSuccess"
  then show "ds_applied ifc ob0 \<or> ds_sent env request ob0 pre \<and> ds_stored env ifc create ob0"
    using tracedD [OF reconcileDS_honest, of env w nn ob0 persisting waiting r w' pre "StatusUpdateDS x" b post]
    by (auto simp: ds_honest_def ds_modest_def)
qed

end

interpretation queue: ds_kind "Queue_interface GetSpec" "fillQueueConfigInput DefaultQueueConfigInput" createQueueConfig
  by unfold_locales (auto simp: Queue_interface_def sameDS_def GetDSName_def fillQueueConfigInput_def createQueueConfig_def Let_def split: option.split)

interpretation topic: ds_kind "Topic_interface GetSpec" "fillTopicConfigInput DefaultTopicConfigInput" createTopicConfig
  by unfold_locales (auto simp: Topic_interface_def sameDS_def GetDSName_def fillTopicConfigInput_def createTopicConfig_def Let_def split: option.split)

interpretation multimap: ds_kind "MultiMap_interface GetSpec" "fillMultiMapConfigInput DefaultMultiMapConfigInput" createMultiMapConfig
  by unfold_locales (auto simp: MultiMap_interface_def sameDS_def GetDSName_def fillMultiMapConfigInput_def createMultiMapConfig_def Let_def split: option.split)

interpretation replicatedmap: ds_kind "ReplicatedMap_interface GetSpec" "fillReplicatedConfigInput DefaultReplicatedMapConfigInput"
    createReplicatedMapConfig
  by unfold_locales (auto simp: ReplicatedMap_interface_def sameDS_def GetDSName_def fillReplicatedConfigInput_def
      createReplicatedMapConfig_def Let_def split: option.split)

interpretation cache: ds_kind "Cache_interface venv GetSpec" "fillCacheConfigInput DefaultCacheConfigInput" createCacheConfig
  by unfold_locales (auto simp: Cache_interface_def sameDS_def GetDSName_def fillCacheConfigInput_def createCacheConfig_def Let_def split: option.split)

text \<open>C30: A data structure is reported as successful only when it is. In every reconciliation of a Queue,
  Topic, MultiMap, ReplicatedMap or Cache, whatever the API server and the members answer, each
  status update with the state Success is made either because the last applied specification is
  the current one, or after every member of the cluster was recorded as successful or was sent
  the configuration with success, and the configuration stored in the cluster's Secret has under
  the structure's name exactly what would be generated for it.\<close>

theorem ds_success_sound:
  "reports_success_rightly qenv (Queue_interface qs) (fillQueueConfigInput DefaultQueueConfigInput) createQueueConfig
     (QueueReconciler_Reconcile qenv qs) \<and>
   reports_success_rightly tenv (Topic_interface ts) (fillTopicConfigInput DefaultTopicConfigInput) createTopicConfig
     (TopicReconciler_Reconcile tenv ts) \<and>
   reports_success_rightly menv (MultiMap_interface ms) (fillMultiMapConfigInput DefaultMultiMapConfigInput) createMultiMapConfig
     (MultiMapReconciler_Reconcile menv ms) \<and>
   reports_success_rightly renv (ReplicatedMap_interface rs) (fillReplicatedConfigInput DefaultReplicatedMapConfigInput)
     createReplicatedMapConfig (ReplicatedMapReconciler_Reconcile renv rs) \<and>
   reports_success_rightly cenv (Cache_interface venv cs) (fillCacheConfigInput DefaultCacheConfigInput) createCacheConfig
     (CacheReconciler_Reconcile venv cenv cs)"
  unfolding QueueReconciler_Reconcile_def TopicReconciler_Reconcile_def MultiMapReconciler_Reconcile_def
    ReplicatedMapReconciler_Reconcile_def CacheReconciler_Reconcile_def
  by (intro conjI) (rule queue.success_rightly topic.success_rightly multimap.success_rightly replicatedmap.success_rightly
      cache.success_rightly)+

subsection \<open>Errors of the setup\<close>

definition no_requeue :: "(Result \<times> go_error option) + 'a \<Rightarrow> bool" where
  "no_requeue r \<longleftrightarrow> (\<forall>res e. r = Inl (res, Some e) \<longrightarrow> res = ResultZero)"

lemma updateDSStatusA_error: "returns (\<lambda>((res, err), _). err \<noteq> None \<longrightarrow> res = ResultZero) (updateDSStatusA env ob opt as)"
  unfolding updateDSStatusA_def Let_def
  by (rule returns_tryA) (auto simp: updateDSStatus_def Let_def split: option.splits)

lemma status_stop: "returns no_requeue (bindA (updateDSStatusA env ob opt as) (\<lambda>(r, _). stopWith r))"
  by (rule returns_bindA [OF updateDSStatusA_error]) (auto simp: no_requeue_def stopWith_def)

lemma setup_parts_no_requeue:
  shows "returns no_requeue (failDS env ob e t)" and "returns no_requeue (stopWith (ResultZero, x))"
    and "returns no_requeue (startDelete env ob)" and "returns no_requeue (getHZClient env ob h)"
    and "returns no_requeue (handleCreatedBefore env ifc ob)"
proof -
  show fail: "returns no_requeue (failDS env ob e t)" for e t unfolding failDS_def by (rule status_stop)
  show stop: "returns no_requeue (stopWith (ResultZero, x))" for x by (simp add: stopWith_def no_requeue_def)
  show "returns no_requeue (startDelete env ob)" unfolding startDelete_def
    by (rule returns_bindA [of "\<lambda>_. True"], simp, clarify, rule returns_catchA [of "\<lambda>_. True"])
      (simp_all add: status_stop stop)
  show "returns no_requeue (getHZClient env ob h)" unfolding getHZClient_def Let_def
    by (intro returns_if returns_tryA) (simp_all add: fail status_stop no_requeue_def split: sum.split)
  show "returns no_requeue (handleCreatedBefore env ifc ob)" unfolding handleCreatedBefore_def
    by (simp add: fail status_stop no_requeue_def split: option.split sum.split)
qed

lemma andThen_no_requeue:
  "returns no_requeue m \<Longrightarrow> (\<And>x. returns no_requeue (f x)) \<Longrightarrow> returns no_requeue (andThen m f)"
  unfolding andThen_def by (rule returns_bindA [of no_requeue]) (auto simp: no_requeue_def split: sum.split)

lemma initialSetupDS_no_requeue: "returns no_requeue (initialSetupDS env ifc nn)"
proof -
  have pending: "returns no_requeue (bindA (updateDSStatusA env ob ro_empty as)
      (\<lambda>((res, err), ob'). if err \<noteq> None then stopWith (res, err) else returnA (Inr ob')))" for ob as
    by (rule returns_bindA [OF updateDSStatusA_error]) (auto simp: no_requeue_def stopWith_def)
  have "returns no_requeue (setupValidated env ifc ob h)" for ob h
    unfolding setupValidated_def
    by (intro returns_catchA [of "\<lambda>_. True"] andThen_no_requeue returns_if pending)
      (simp_all add: setup_parts_no_requeue no_requeue_def)
  then show ?thesis
    unfolding initialSetupDS_def Let_def
    by (intro returns_catchA [of "\<lambda>_. True"] andThen_no_requeue returns_if) (simp_all add: setup_parts_no_requeue)
qed

text \<open>The error of the setup of a data structure is lost. When the setup of a Queue, Topic, MultiMap,
  ReplicatedMap or Cache ends with an error (the Hazelcast resource does not exist or is not
  running, a specification is invalid, the finalizer cannot be added), the reconciliation returns
  no error and asks for no requeue, so nothing brings the object back when the cause goes away.\<close>

theorem ds_setup_error_dropped:
  assumes "initialSetupDS env ifc nn w = (Inr (Inl (res, Some e)), w')"
  shows "reconcileDS env ifc request create persisting waiting nn w = (Inr (ResultZero, None), w')"
proof -
  have "res = ResultZero" using returnsD [OF initialSetupDS_no_requeue assms] by (simp add: no_requeue_def)
  with assms show ?thesis by (simp add: reconcileDS_def action_simps)
qed

end
