(* ===== verification/Map_Safety.thy ===== *)
theory Map_Safety
  imports Map_Controller Ds_Safety
begin

text \<open>
  What the Map controller guarantees: a map is reported as successful only when all members have
  its configuration and the configuration is stored; and the two places where it does not do
  what its users expect.
\<close>

subsection \<open>Success\<close>

text \<open>Two objects that agree in all the Map controller reads of them.\<close>

definition sameMap :: "Map \<Rightarrow> Map \<Rightarrow> bool" where
  "sameMap m m0 \<longleftrightarrow> m_Spec m = m_Spec m0 \<and> om_Name (m_Meta m) = om_Name (m_Meta m0) \<and>
     om_Namespace (m_Meta m) = om_Namespace (m_Meta m0) \<and> om_Annotations (m_Meta m) = om_Annotations (m_Meta m0) \<and>
     mss_MemberStatuses (m_Status m) = mss_MemberStatuses (m_Status m0)"

lemma sameMap_eqs:
  assumes "sameMap m m0"
  shows "MapName m = MapName m0" "updateRequest m = updateRequest m0" "createMapConfig q s h m = createMapConfig q s h m0"
    "fillAddMapConfigInput q p mi m = fillAddMapConfigInput q p mi m0"
proof -
  show name: "MapName m = MapName m0" using assms by (simp add: MapName_def sameMap_def)
  have ref: "defaultWanReplicationRefCodec m = defaultWanReplicationRefCodec m0"
    by (simp add: defaultWanReplicationRefCodec_def defaultWanReplicationRefName_def name)
  have spec: "m_Spec m = m_Spec m0" using assms by (simp add: sameMap_def)
  show "updateRequest m = updateRequest m0" by (simp only: updateRequest_def name ref spec)
  show "createMapConfig q s h m = createMapConfig q s h m0" by (simp only: createMapConfig_def ref spec)
  show "fillAddMapConfigInput q p mi m = fillAddMapConfigInput q p mi m0"
    by (simp only: fillAddMapConfigInput_def name ref spec)
qed

text \<open>The properties of the map store, read at a moment from the Secret the map names.\<close>

definition storeProps :: "map_env \<Rightarrow> map_call moment \<Rightarrow> string \<Rightarrow> Map \<Rightarrow> go_error + (string \<rightharpoonup> string)" where
  "storeProps env t ns m = map_sum id (\<lambda>p. case p of None \<Rightarrow> Map.empty | Some d \<Rightarrow> d) (case ms_MapStore (m_Spec m) of
     None \<Rightarrow> Inr None | Some st \<Rightarrow> getMapStoreProperties (me_GetSecret env t) (mst_PropertiesSecretName st) ns)"

text \<open>The request for a map: an update when it was applied before, its whole configuration
  otherwise.\<close>

definition requestFor :: "map_env \<Rightarrow> Map \<Rightarrow> map_request \<Rightarrow> bool" where
  "requestFor env m q \<longleftrightarrow>
     (if om_Annotations (m_Meta m) LastSuccessfulSpecAnnotation \<noteq> None then q = updateRequest m
      else \<exists>t ns mi. q = AddMapConfig mi \<and> fillAddMapConfigInput (me_quantity env) (storeProps env t ns m) DefaultAddMapConfigInput m =
             Some (Inr mi))"

text \<open>\<open>sentTo\<close>: all members have the configuration, as far as the status and the trace tell.
  \<open>storedAs\<close>: the stored configuration of the cluster has the map with this specification.\<close>

definition sentTo :: "map_env \<Rightarrow> Map \<Rightarrow> map_call trace \<Rightarrow> bool" where
  "sentTo env m tr \<longleftrightarrow> (\<exists>t q. requestFor env m q \<and> (\<forall>u \<in> set (me_OrderedMembers env t).
     mss_MemberStatuses (m_Status m) u = Some MapSuccess \<or> (InvokeMapRequest u q, True) \<in> set tr))"

definition storedAs :: "map_env \<Rightarrow> Map \<Rightarrow> bool" where
  "storedAs env m \<longleftrightarrow> (\<exists>t h t' cfgs c. me_Config env t \<lparr> nn_Name = m_HazelcastResourceName m, nn_Namespace = om_Namespace (m_Meta m) \<rparr> =
       Inr (Inr cfgs) \<and> cfgs (MapName m) = Some c \<and>
     createMapConfig (me_quantity env) (me_GetSecret env t') h m = Some (Inr c))"

definition appliedBefore :: "map_env \<Rightarrow> Map \<Rightarrow> bool" where
  "appliedBefore env m \<longleftrightarrow> (\<exists>s. om_Annotations (m_Meta m) LastSuccessfulSpecAnnotation = Some s \<and>
     me_MarshalSpec env (m_Spec m) = Inr s)"

lemma sameMap_facts:
  assumes "sameMap m m0"
  shows "requestFor env m q \<longleftrightarrow> requestFor env m0 q" "sentTo env m tr \<longleftrightarrow> sentTo env m0 tr"
    "storedAs env m \<longleftrightarrow> storedAs env m0" "appliedBefore env m \<longleftrightarrow> appliedBefore env m0"
proof -
  note eqs = sameMap_eqs [OF assms]
  have fields: "m_Spec m = m_Spec m0" "om_Annotations (m_Meta m) = om_Annotations (m_Meta m0)"
    "om_Namespace (m_Meta m) = om_Namespace (m_Meta m0)" "mss_MemberStatuses (m_Status m) = mss_MemberStatuses (m_Status m0)"
    using assms by (simp_all add: sameMap_def)
  show req: "requestFor env m q \<longleftrightarrow> requestFor env m0 q" for q by (simp only: requestFor_def storeProps_def fields eqs)
  show "sentTo env m tr \<longleftrightarrow> sentTo env m0 tr" by (simp only: sentTo_def fields req)
  show "storedAs env m \<longleftrightarrow> storedAs env m0" by (simp only: storedAs_def fields eqs)
  show "appliedBefore env m \<longleftrightarrow> appliedBefore env m0" by (simp only: appliedBefore_def fields)
qed

text \<open>A call that does not report success, or reports it rightly.\<close>

definition map_modest :: "map_call \<Rightarrow> bool" where
  "map_modest c \<longleftrightarrow> (\<forall>x. c = StatusUpdateMap x \<longrightarrow> mss_State (m_Status x) \<noteq> MapSuccess)"

definition map_honest :: "map_env \<Rightarrow> Map \<Rightarrow> map_call trace \<Rightarrow> map_call \<Rightarrow> bool" where
  "map_honest env m tr c \<longleftrightarrow> map_modest c \<or> appliedBefore env m \<or> sentTo env m tr \<and> storedAs env m"

lemma map_honestI: "only_calls map_modest m \<Longrightarrow> traced (map_honest env m0) m w"
  by (erule traced_only) (simp add: map_honest_def)

lemma map_modest_simps [simp]:
  "map_modest (UpdateMap x)" "map_modest (InvokeMapRequest u q)" "map_modest MapPhoneHome"
  by (simp_all add: map_modest_def)

lemma updateMapStatusA_calls:
  "Q (StatusUpdateMap (m\<lparr> m_Status := fold MapStatusApply as (m_Status m) \<rparr>)) \<Longrightarrow> only_calls Q (updateMapStatusA env m opt as)"
  "Q (StatusUpdateMap (m\<lparr> m_Status := fold MapStatusApply as (m_Status m) \<rparr>)) \<Longrightarrow> only_calls Q (finishMap env m opt as)"
  by (auto simp: updateMapStatusA_def finishMap_def Let_def intro!: kept)

lemma failMap_modest [kept]: "only_calls map_modest (failMap env m e)"
  unfolding failMap_def by (rule updateMapStatusA_calls) (simp add: map_modest_def)

lemma map_steps_modest [kept]:
  "only_calls map_modest (validA f v)" "only_calls map_modest (orPanic x)" "only_calls map_modest (map_getHazelcastClient env n ns)"
  "only_calls map_modest (map_executeFinalizer env m)" "only_calls map_modest (configRequest env m hz b)"
  "only_calls map_modest (validateMapConfigPersistence env h m)" "only_calls map_modest (map_updateLastSuccessfulConfiguration env m)"
  by (auto simp: validA_def orPanic_def map_getHazelcastClient_def map_executeFinalizer_def configRequest_def mapStoreProperties_def
      validateMapConfigPersistence_def map_updateLastSuccessfulConfiguration_def Let_def intro!: kept split: option.split sum.split)

lemma updateMapStatusA_result:
  "updateMapStatusA env m opt as w = (Inr (r, m'), w') \<Longrightarrow> m' = m\<lparr> m_Status := fold MapStatusApply as (m_Status m) \<rparr>"
  by (auto simp: updateMapStatusA_def Let_def action_simps split: prod.splits)

lemma validateMapConfigPersistence_stored:
  assumes "validateMapConfigPersistence env h m w = (Inr True, w')"
  shows "storedAs env m"
proof -
  obtain cfgs c t' where "me_Config env (moment w) \<lparr> nn_Name = m_HazelcastResourceName m, nn_Namespace = om_Namespace (m_Meta m) \<rparr> =
       Inr (Inr cfgs)" "cfgs (MapName m) = Some c" "createMapConfig (me_quantity env) (me_GetSecret env t') h m = Some (Inr c)"
    using assms
    by (auto simp: validateMapConfigPersistence_def action_simps split: sum.splits option.splits)
  then show ?thesis unfolding storedAs_def by blast
qed

lemma sentTo_grows: "sentTo env m tr \<Longrightarrow> sentTo env m (tr @ evs)"
  unfolding sentTo_def set_append by blast

text \<open>After the members have the configuration.\<close>

definition persistTail :: "map_env \<Rightarrow> Map \<Rightarrow> bool \<Rightarrow> (Result \<times> go_error option) map_proc" where
  "persistTail env m1 persisted =
     (if \<not> persisted
      then finishMap env m1 (ro_retryAfter 1000000000) [withMapState MapPersisting,
             withMapMessage ''Waiting for Map Config to be persisted.'']
      else bindA (if me_PhoneHomeEnabled env \<and> \<not> IsSuccessfullyApplied (m_Meta m1)
                  then tryA (invokeA (me_call env) MapPhoneHome) (\<lambda>_. returnA ()) else returnA ()) (\<lambda>_.
           bindA (map_updateLastSuccessfulConfiguration env m1) (\<lambda>m2.
           finishMap env m2 ro_empty [withMapState MapSuccess, withMapMessage [], withMapMemberStatuses Map.empty])))"

lemma persistTail_calls: "only_calls (\<lambda>_. True) (persistTail env m1 persisted)" "only_calls map_modest (persistTail env m1 False)"
  by (auto simp: persistTail_def map_updateLastSuccessfulConfiguration_def Let_def map_modest_def
      intro!: kept updateMapStatusA_calls split: sum.split)

lemma persisted_honest:
  assumes "sentTo env m (cw_trace w)" and "sameMap m1 m"
  shows "traced (map_honest env m) (catchA (validateMapConfigPersistence env h m1) (failMap env m1) (persistTail env m1)) w"
proof (rule traced_catchA)
  fix persisted w1
  assume valid: "validateMapConfigPersistence env h m1 w = (Inr persisted, w1)"
  show "traced (map_honest env m) (persistTail env m1 persisted) w1"
  proof (cases persisted)
    case True
    obtain evs where "cw_trace w1 = cw_trace w @ evs" using only_calls_grows [OF map_steps_modest(6)] valid by (metis snd_conv)
    then have "sentTo env m (cw_trace w1 @ more)" for more using assms(1) sentTo_grows by auto
    moreover have "storedAs env m"
      using validateMapConfigPersistence_stored valid True sameMap_facts(3) [OF assms(2)] by metis
    ultimately have "map_honest env m (cw_trace w1 @ more) c" for more c by (simp add: map_honest_def)
    then show ?thesis by (intro traced_free persistTail_calls)
  next
    case False
    with persistTail_calls(2) show ?thesis by (auto intro: map_honestI)
  qed
qed (rule map_honestI, auto intro!: kept)+

lemma persistMap_honest:
  assumes "sentTo env m (cw_trace w)" and "sameMap m m0"
  shows "traced (map_honest env m0) (persistMap env h m) w"
proof -
  let ?as = "[withMapState MapPersisting, withMapMessage ''Persisting the applied map config.'']"
  let ?u = "updateMapStatusA env m (ro_retryAfter 1000000000) ?as"
  have first: "only_calls map_modest ?u" by (rule updateMapStatusA_calls) (simp add: map_modest_def)
  have rest: "traced (map_honest env m0) ((\<lambda>((requeue, err), m1). if err \<noteq> None then returnA (requeue, err)
      else catchA (validateMapConfigPersistence env h m1) (failMap env m1) (persistTail env m1)) p) w1"
    if run: "?u w = (Inr p, w1)" for p w1
  proof -
    obtain requeue err m1 where p: "p = ((requeue, err), m1)" by (cases p) auto
    with run have "sameMap m1 m0" using assms(2) by (auto simp: sameMap_def dest!: updateMapStatusA_result)
    moreover have "sentTo env m0 (cw_trace w1)"
      using only_calls_grows [OF first, of w] run sentTo_grows [OF assms(1)] sameMap_facts(2) [OF assms(2)] by auto
    ultimately show ?thesis unfolding p prod.case
      by (intro traced_if persisted_honest map_honestI kept)
  qed
  show ?thesis
    unfolding persistMap_def persistTail_def [symmetric]
    by (rule traced_bindA [OF map_honestI [OF first] rest])
qed

lemma configRequest_requestFor:
  assumes "configRequest env m hz (om_Annotations (m_Meta m) LastSuccessfulSpecAnnotation \<noteq> None) w = (Inr q, w')"
  shows "requestFor env m q"
proof (cases "om_Annotations (m_Meta m) LastSuccessfulSpecAnnotation = None")
  case True
  with assms obtain mi where "fillAddMapConfigInput (me_quantity env) (storeProps env (moment w) (om_Namespace (h_Meta hz)) m)
        DefaultAddMapConfigInput m = Some (Inr mi)" "q = AddMapConfig mi"
    by (auto simp: configRequest_def mapStoreProperties_def storeProps_def [symmetric] orPanic_def action_simps
        split: option.splits sum.splits)
  with True show ?thesis by (simp add: requestFor_def del: split_paired_Ex) blast
next
  case False
  with assms show ?thesis by (auto simp: configRequest_def requestFor_def action_simps)
qed

lemma ReconcileMapConfig_sent:
  assumes "ReconcileMapConfig env m hz (om_Annotations (m_Meta m) LastSuccessfulSpecAnnotation \<noteq> None) w = (Inr (ms, None), w')"
  shows "sentTo env m (cw_trace w')"
  using assms unfolding ReconcileMapConfig_def
proof (cases rule: catchA_cases)
  case (ok q w1)
  let ?w = "w1\<lparr> cw_reads := Suc (cw_reads w1) \<rparr>"
  obtain ms' failed' w2 where "sendToMembers (me_call env) (\<lambda>u. InvokeMapRequest u q) MapSuccess MapFailed
        (mss_MemberStatuses (m_Status m)) (me_OrderedMembers env (moment w1)) Map.empty [] ?w = (Inr (ms', failed'), w2)"
      "failed' = [] \<longrightarrow> (\<forall>u \<in> set (me_OrderedMembers env (moment w1)).
         mss_MemberStatuses (m_Status m) u = Some MapSuccess \<or> (InvokeMapRequest u q, True) \<in> set (cw_trace w2))"
    using sendToMembers_run [of "me_call env" "\<lambda>u. InvokeMapRequest u q"] by metis
  note sent = this
  have "failed' = []" "w2 = w'" using ok(2) sent(1) by (simp_all add: action_simps split: if_splits)
  with sent(2) configRequest_requestFor [OF ok(1)] show ?thesis unfolding sentTo_def by blast
qed (auto simp: action_simps)

lemma ReconcileMapConfig_modest [kept]: "only_calls map_modest (ReconcileMapConfig env m hz b)"
  unfolding ReconcileMapConfig_def
  by (intro kept only_calls_weaken [OF sendToMembers_calls]) (auto intro!: kept)

text \<open>The steps of the whole reconciliation. \<open>m\<close> is the object the controller works on, \<open>m0\<close> the one it read.\<close>

lemma sameMap_status:
  "sameMap m m0 \<Longrightarrow> updateMapStatusA env m opt [withMapState st, withMapMessage t] w = (Inr (r, m1), w1) \<Longrightarrow> sameMap m1 m0"
  by (auto simp: sameMap_def Let_def dest!: updateMapStatusA_result)

lemma configured_honest:
  assumes "sameMap m m0"
  shows "traced (map_honest env m0) (bindA (ReconcileMapConfig env m h (om_Annotations (m_Meta m) LastSuccessfulSpecAnnotation \<noteq> None))
     (\<lambda>(ms, err). case err of
        Some e \<Rightarrow> finishMap env m (ro_error e) [withMapState MapFailed, withMapMessage (error_text e), withMapMemberStatuses ms]
      | None \<Rightarrow> persistMap env h m)) w"
proof (rule traced_bindA)
  fix p w1
  assume run: "ReconcileMapConfig env m h (om_Annotations (m_Meta m) LastSuccessfulSpecAnnotation \<noteq> None) w = (Inr p, w1)"
  obtain ms err where p: "p = (ms, err)" by (cases p)
  show "traced (map_honest env m0) ((\<lambda>(ms, err). case err of
        Some e \<Rightarrow> finishMap env m (ro_error e) [withMapState MapFailed, withMapMessage (error_text e), withMapMemberStatuses ms]
      | None \<Rightarrow> persistMap env h m) p) w1"
  proof (cases err)
    case None
    with run p have "sentTo env m (cw_trace w1)" by (simp add: ReconcileMapConfig_sent)
    with assms p None show ?thesis by (simp add: persistMap_honest)
  next
    case (Some e)
    have "only_calls map_modest (finishMap env m (ro_error e)
        [withMapState MapFailed, withMapMessage (error_text e), withMapMemberStatuses ms])"
      by (rule updateMapStatusA_calls) (simp add: map_modest_def)
    with p Some show ?thesis by (simp add: map_honestI)
  qed
qed (rule map_honestI, rule kept)

lemma applyMap_honest:
  assumes "sameMap m m0"
  shows "traced (map_honest env m0) (applyMap env h m (om_Annotations (m_Meta m) LastSuccessfulSpecAnnotation \<noteq> None)) w"
proof -
  let ?u = "if mss_State (m_Status m) = MapStateUnset
      then updateMapStatusA env m ro_empty [withMapState MapPending, withMapMessage ''Applying new map configuration.'']
      else returnA ((ResultZero, None), m)"
  have first: "only_calls map_modest ?u" by (intro kept updateMapStatusA_calls) (simp add: map_modest_def)
  have rest: "traced (map_honest env m0) ((\<lambda>((requeue, err), m1). if err \<noteq> None then returnA (requeue, err)
      else bindA (ReconcileMapConfig env m1 h (om_Annotations (m_Meta m) LastSuccessfulSpecAnnotation \<noteq> None)) (\<lambda>(ms, err). case err of
        Some e \<Rightarrow> finishMap env m1 (ro_error e) [withMapState MapFailed, withMapMessage (error_text e), withMapMemberStatuses ms]
      | None \<Rightarrow> persistMap env h m1)) p) w1" if run: "?u w = (Inr p, w1)" for p w w1
  proof -
    obtain requeue err m1 where p: "p = ((requeue, err), m1)" by (cases p) auto
    with run have "sameMap m1 m0 \<and> om_Annotations (m_Meta m1) = om_Annotations (m_Meta m)"
      using assms sameMap_status [OF assms]
      by (auto simp: action_simps sameMap_def split: if_splits dest: updateMapStatusA_result)
    then show ?thesis unfolding p prod.case
      using configured_honest [of m1 m0] by (intro traced_if) (simp_all add: map_honestI kept)
  qed
  show ?thesis unfolding applyMap_def
    by (rule traced_catchA [OF _ _ traced_bindA [OF map_honestI [OF first] rest]])
      (auto intro!: map_honestI kept)
qed

lemma reconcileMapSpec_honest:
  assumes "sameMap m m0"
  shows "traced (map_honest env m0) (reconcileMapSpec env req m) w"
proof -
  have invalid: "only_calls map_modest (finishMap env m (ro_error e) [withMapFailedState t])" for e t
    by (rule updateMapStatusA_calls) (simp add: map_modest_def)
  have again: "traced (map_honest env m0) (finishMap env m ro_empty [withMapState MapSuccess]) w1" if "appliedBefore env m" for w1
    using that sameMap_facts(4) [OF assms]
    by (intro traced_free updateMapStatusA_calls) (auto simp: map_honest_def)
  have apply': "traced (map_honest env m0) (applyMap env h m b) w1"
    if "b = (om_Annotations (m_Meta m) LastSuccessfulSpecAnnotation \<noteq> None)" for h b w1
    using applyMap_honest [OF assms] that by simp
  have rest: "traced (map_honest env m0) (case om_Annotations (m_Meta m) LastSuccessfulSpecAnnotation of
       None \<Rightarrow> applyMap env h m False
     | Some s \<Rightarrow>
         (case me_MarshalSpec env (m_Spec m) of
            Inl e \<Rightarrow> failMap env m (wrapErr ''error marshaling Map as JSON: '' e)
          | Inr ms \<Rightarrow> if s = ms then finishMap env m ro_empty [withMapState MapSuccess]
                     else applyMap env h m True)) w1" for h w1
    by (simp add: again apply' appliedBefore_def map_honestI kept split: option.split sum.split)
  show ?thesis unfolding reconcileMapSpec_def
    by (intro traced_catchA traced_if rest) (rule map_honestI, auto intro!: kept invalid)+
qed

lemma Reconcile_honest:
  assumes "me_GetMap env (moment w) req = Inr m0"
  shows "traced (map_honest env m0) (MapReconciler_Reconcile env req) w"
proof -
  have terminating: "only_calls map_modest (updateMapStatusA env m opt [withMapState MapTerminating])"
      "only_calls map_modest (finishMap env m opt [withMapState MapTerminating, withMapMessage t])" for m opt t
    by (rule updateMapStatusA_calls, simp add: map_modest_def)+
  have same: "sameMap (m0\<lparr> m_Meta := mt \<rparr>) m0"
    if "util_AddFinalizer (\<lambda>mt. invokeA (me_call env) (UpdateMap (m0\<lparr> m_Meta := mt \<rparr>))) (m_Meta m0) w1 = (Inr mt, w2)" for mt w1 w2
    using that by (auto simp: util_AddFinalizer_def AddFinalizer_def sameMap_def action_simps bindA_def invokeA_def
        split: if_splits option.splits)
  have added: "only_calls map_modest (util_AddFinalizer (\<lambda>mt. invokeA (me_call env) (UpdateMap (m0\<lparr> m_Meta := mt \<rparr>))) ob)" for ob
    by (intro kept) simp
  show ?thesis unfolding MapReconciler_Reconcile_def Let_def
    by (rule traced_catchA, simp_all add: assms map_honestI kept, rule traced_catchA)
      (auto intro!: map_honestI kept added terminating traced_if reconcileMapSpec_honest same)
qed

text \<open>C28: A map is reported as successful only when it is. In every reconciliation, whatever the API server
  and the members answer, each status update with the state Success is made either because the
  last applied specification of the map is the current one, or after every member of the cluster
  was recorded as successful or was sent the request for this map with success, and the stored
  configuration of the cluster has under the map's name exactly what would be generated for it.\<close>

theorem map_success_sound:
  assumes "me_GetMap env (moment w) req = Inr m" and "cw_trace w = []"
    and "MapReconciler_Reconcile env req w = (r, w')" and "cw_trace w' = pre @ (StatusUpdateMap x, b) # post"
    and "mss_State (m_Status x) = MapSuccess"
  shows "appliedBefore env m \<or> sentTo env m pre \<and> storedAs env m"
  using tracedD [OF Reconcile_honest [OF assms(1)] assms(3), of pre "StatusUpdateMap x" b post] assms
  by (auto simp: map_honest_def map_modest_def)

subsection \<open>The configuration of the cluster and the controller\<close>

lemma find_append: "find P (xs @ ys) = (case find P xs of None \<Rightarrow> find P ys | Some x \<Rightarrow> Some x)"
  by (induction xs) simp_all

lemma find_found: "find P xs = Some x \<Longrightarrow> x \<in> set xs \<and> P x"
  by (induction xs) (auto split: if_splits)

text \<open>What the generated configuration has under a name: the configuration of the last map of that name.\<close>

lemma fillHazelcastConfigWithMaps_lookup:
  assumes "fillHazelcastConfigWithMaps create ms = Some (Inr cfgs)"
  shows "map_option (\<lambda>c. Some (Inr c)) (cfgs n) = map_option create (find (\<lambda>x. MapName x = n) (rev ms))"
  using assms
proof (induction ms arbitrary: cfgs)
  case (Cons m ms)
  then obtain c f where parts: "create m = Some (Inr c)" "fillHazelcastConfigWithMaps create ms = Some (Inr f)"
      "cfgs = [MapName m \<mapsto> c] ++ f"
    by (auto split: Option.bind_splits sum.splits) (metis sumE)
  from Cons.IH [OF parts(2)] parts(1,3) show ?case
    by (cases "f n"; cases "find (\<lambda>x. MapName x = n) (rev ms)")
      (auto simp: find_append map_add_def split: option.splits)
qed simp

lemma filterPersistedMaps_keeps:
  "m \<in> set items \<Longrightarrow> mss_State (m_Status m) = MapPersisting \<Longrightarrow> m \<in> set (filterPersistedMaps unmarshal items)"
  by (force simp: filterPersistedMaps_def List.map_filter_def)

text \<open>C29: The controller of the map and the generation of the cluster's configuration agree. When the stored
  configuration is the one generated from the maps of the cluster, a map that waits for its
  configuration to be persisted finds an entry under its name, which is that of the last map with
  the same name; the wait ends exactly when that map has the same configuration, and it always
  ends when no two maps of the cluster share a name.\<close>

theorem config_handshake:
  assumes "m \<in> set items" and "mss_State (m_Status m) = MapPersisting"
    and "fillHazelcastConfigWithMaps (createMapConfig (me_quantity env) secret h) (filterPersistedMaps unmarshal items) = Some (Inr cfgs)"
    and "me_Config env (moment w) \<lparr> nn_Name = m_HazelcastResourceName m, nn_Namespace = om_Namespace (m_Meta m) \<rparr> = Inr (Inr cfgs)"
    and "\<And>t. me_GetSecret env t = secret"
  shows "\<exists>x. find (\<lambda>x. MapName x = MapName m) (rev (filterPersistedMaps unmarshal items)) = Some x \<and>
      fst (validateMapConfigPersistence env h m w) =
        (case createMapConfig (me_quantity env) secret h m of
           None \<Rightarrow> Inl (ErrPanic ''nil pointer dereference'')
         | Some (Inl e) \<Rightarrow> Inl e
         | Some (Inr c) \<Rightarrow> Inr (createMapConfig (me_quantity env) secret h x = Some (Inr c))) \<and>
      (distinct (map MapName (filterPersistedMaps unmarshal items)) \<longrightarrow> fst (validateMapConfigPersistence env h m w) = Inr True)"
proof -
  let ?create = "createMapConfig (me_quantity env) secret h" and ?ms = "filterPersistedMaps unmarshal items"
  have m: "m \<in> set ?ms" using assms(1,2) by (rule filterPersistedMaps_keeps)
  then obtain x where x: "find (\<lambda>x. MapName x = MapName m) (rev ?ms) = Some x"
    by (cases "find (\<lambda>x. MapName x = MapName m) (rev ?ms)") (auto simp: find_None_iff)
  with fillHazelcastConfigWithMaps_lookup [OF assms(3), of "MapName m"]
  obtain c where c: "cfgs (MapName m) = Some c" "?create x = Some (Inr c)" by auto
  have valid: "fst (validateMapConfigPersistence env h m w) =
      (case ?create m of None \<Rightarrow> Inl (ErrPanic ''nil pointer dereference'') | Some (Inl e) \<Rightarrow> Inl e
       | Some (Inr d) \<Rightarrow> Inr (?create x = Some (Inr d)))"
    using assms(4,5) c by (auto simp: validateMapConfigPersistence_def action_simps split: option.splits sum.splits)
  moreover have "x = m" if "distinct (map MapName ?ms)"
  proof -
    have "x \<in> set (rev ?ms)" "MapName x = MapName m" using find_found [OF x] by simp_all
    with that m show ?thesis by (auto simp: distinct_map dest: inj_onD)
  qed
  ultimately show ?thesis using x c(2) by auto
qed

subsection \<open>The members that are recorded as successful\<close>

text \<open>\<open>not_resent\<close>: no request goes to a member that the status of the object records as successful.\<close>

definition not_resent :: "Map \<Rightarrow> map_call \<Rightarrow> bool" where
  "not_resent m0 c \<longleftrightarrow> (\<forall>u q. c = InvokeMapRequest u q \<longrightarrow> mss_MemberStatuses (m_Status m0) u \<noteq> Some MapSuccess)"

lemma not_resent_simps [simp]:
  "not_resent m0 (UpdateMap x)" "not_resent m0 (StatusUpdateMap x)" "not_resent m0 MapPhoneHome"
  by (simp_all add: not_resent_def)

lemma not_resent_steps [kept]:
  "only_calls (not_resent m0) (updateMapStatusA env m opt as)" "only_calls (not_resent m0) (finishMap env m opt as)"
  "only_calls (not_resent m0) (failMap env m e)" "only_calls (not_resent m0) (validA f v)"
  "only_calls (not_resent m0) (map_getHazelcastClient env n ns)" "only_calls (not_resent m0) (map_executeFinalizer env m)"
  "only_calls (not_resent m0) (configRequest env m hz b)" "only_calls (not_resent m0) (validateMapConfigPersistence env h m)"
  "only_calls (not_resent m0) (map_updateLastSuccessfulConfiguration env m)"
  by (auto simp: failMap_def validA_def orPanic_def map_getHazelcastClient_def map_executeFinalizer_def configRequest_def
      mapStoreProperties_def validateMapConfigPersistence_def map_updateLastSuccessfulConfiguration_def Let_def
      intro!: kept updateMapStatusA_calls split: option.split sum.split)

lemma persistMap_not_resent [kept]: "only_calls (not_resent m0) (persistMap env h m)"
  unfolding persistMap_def by (auto intro!: kept)

lemma ReconcileMapConfig_not_resent:
  "mss_MemberStatuses (m_Status m) = mss_MemberStatuses (m_Status m0) \<Longrightarrow>
   only_calls (not_resent m0) (ReconcileMapConfig env m h b)"
  unfolding ReconcileMapConfig_def
  by (intro kept only_calls_weaken [OF sendToMembers_calls]) (auto intro!: kept simp: not_resent_def)

lemma not_resentI: "only_calls (not_resent m0) m \<Longrightarrow> traced (\<lambda>_. not_resent m0) m w"
  by (erule traced_only)

lemma updateMapStatusA_members:
  "returns (\<lambda>(_, m1). mss_MemberStatuses (m_Status m1) = mss_MemberStatuses (m_Status m))
     (updateMapStatusA env m opt [withMapState st, withMapMessage t])"
  unfolding returns_def by (auto simp: Let_def dest!: updateMapStatusA_result)

lemma applyMap_not_resent:
  assumes "mss_MemberStatuses (m_Status m) = mss_MemberStatuses (m_Status m0)"
  shows "traced (\<lambda>_. not_resent m0) (applyMap env h m b) w"
proof -
  let ?u = "if mss_State (m_Status m) = MapStateUnset
      then updateMapStatusA env m ro_empty [withMapState MapPending, withMapMessage ''Applying new map configuration.'']
      else returnA ((ResultZero, None), m)"
  have kept_members: "returns (\<lambda>(_, m1). mss_MemberStatuses (m_Status m1) = mss_MemberStatuses (m_Status m0)) ?u"
    using updateMapStatusA_members [of m] assms by simp
  have rest: "traced (\<lambda>_. not_resent m0) ((\<lambda>((requeue, err), m1). if err \<noteq> None then returnA (requeue, err)
      else bindA (ReconcileMapConfig env m1 h b) (\<lambda>(ms, err). case err of
        Some e \<Rightarrow> finishMap env m1 (ro_error e) [withMapState MapFailed, withMapMessage (error_text e), withMapMemberStatuses ms]
      | None \<Rightarrow> persistMap env h m1)) p) w1" if "?u w = (Inr p, w1)" for p w w1
    using returnsD [OF kept_members that]
    by (auto intro!: not_resentI kept ReconcileMapConfig_not_resent split: option.split)
  show ?thesis unfolding applyMap_def
    by (rule traced_catchA [OF _ _ traced_bindA [OF _ rest]]) (auto intro!: not_resentI kept)
qed

lemma reconcileMapSpec_not_resent:
  assumes "mss_MemberStatuses (m_Status m) = mss_MemberStatuses (m_Status m0)"
  shows "traced (\<lambda>_. not_resent m0) (reconcileMapSpec env req m) w"
proof -
  have rest: "traced (\<lambda>_. not_resent m0) (case om_Annotations (m_Meta m) LastSuccessfulSpecAnnotation of
       None \<Rightarrow> applyMap env h m False
     | Some s \<Rightarrow>
         (case me_MarshalSpec env (m_Spec m) of
            Inl e \<Rightarrow> failMap env m (wrapErr ''error marshaling Map as JSON: '' e)
          | Inr ms \<Rightarrow> if s = ms then finishMap env m ro_empty [withMapState MapSuccess]
                     else applyMap env h m True)) w1" for h w1
    by (simp add: applyMap_not_resent [OF assms] not_resentI kept split: option.split sum.split)
  show ?thesis unfolding reconcileMapSpec_def
    by (intro traced_catchA traced_if rest) (rule not_resentI, auto intro!: kept)+
qed

lemma Reconcile_not_resent:
  assumes "me_GetMap env (moment w) req = Inr m0"
  shows "traced (\<lambda>_. not_resent m0) (MapReconciler_Reconcile env req) w"
proof -
  have added: "only_calls (not_resent m0) (util_AddFinalizer (\<lambda>mt. invokeA (me_call env) (UpdateMap (m0\<lparr> m_Meta := mt \<rparr>))) ob)" for ob
    by (intro kept) simp
  show ?thesis unfolding MapReconciler_Reconcile_def Let_def
    by (rule traced_catchA, simp_all add: assms not_resentI kept, rule traced_catchA)
      (auto intro!: not_resentI kept added traced_if reconcileMapSpec_not_resent)
qed

text \<open>A member that the status of a map records as successful is never sent the map's configuration
  again. The record is made when the configuration reached some members but not all, and the
  specification may change before the next attempt; the records stay, the new configuration goes
  to the other members only, and the map is reported as successful although the recorded members
  have the old configuration.\<close>

theorem recorded_members_skipped:
  assumes "me_GetMap env (moment w) req = Inr m" and "mss_MemberStatuses (m_Status m) u = Some MapSuccess"
    and "MapReconciler_Reconcile env req w = (r, w')" and "cw_trace w' = cw_trace w @ evs"
  shows "(InvokeMapRequest u q, b) \<notin> set evs"
  using tracedD [OF Reconcile_not_resent [OF assms(1)] assms(3)] assms(2,4)
  by (fastforce simp: not_resent_def in_set_conv_decomp)

end
