(* ===== verification/Map_Runs.thy ===== *)
theory Map_Runs
  imports Map_Safety Samples
begin

text \<open>
  A run of the Map controller on a concrete map, to which the theorems of \<open>Map_Safety\<close> and
  \<open>Ds_Safety\<close> apply: a map whose configuration reached one of two members, is now sent to the
  other, and is reported as successful.
\<close>

definition sample_retry_map :: Map where
  "sample_retry_map = sample_map\<lparr> m_Meta := sample_meta\<lparr> om_Name := ''map'', om_Finalizers := [Finalizer] \<rparr>,
     m_Status := \<lparr> mss_State = MapFailed, mss_Message = [], mss_MemberStatuses = [''u1'' \<mapsto> MapSuccess] \<rparr> \<rparr>"

definition sample_map_cfg :: Map_cfg where
  "sample_map_cfg = (case createMapConfig (env_QuantityValue sample_env) (\<lambda>_. Inl (ErrNotFound [])) sample_hazelcast sample_retry_map of
     Some (Inr c) \<Rightarrow> c)"

definition sample_map_env :: map_env where
  "sample_map_env = \<lparr> me_call = (\<lambda>_ _. None), me_GetMap = (\<lambda>_ _. Inr sample_retry_map),
     me_GetHazelcast = (\<lambda>_ _. Inr sample_hazelcast), me_GetOrCreateClient = (\<lambda>_ _. Inr True),
     me_OrderedMembers = (\<lambda>_. [''u1'', ''u2'']), me_GetSecret = (\<lambda>_ _. Inl (ErrNotFound [])),
     me_Config = (\<lambda>_ _. Inr (Inr [''map'' \<mapsto> sample_map_cfg])), me_MarshalSpec = (\<lambda>_. Inr ''spec''),
     me_validation = sample_env, me_ErrText = (\<lambda>_. []), me_PhoneHomeEnabled = False \<rparr>"

definition retry_request :: map_request where
  "retry_request = (case fillAddMapConfigInput (me_quantity sample_map_env) (Inr Map.empty :: go_error + _)
       DefaultAddMapConfigInput sample_retry_map of Some (Inr mi) \<Rightarrow> AddMapConfig mi)"

definition sample_map_name :: NamespacedName where
  "sample_map_name = \<lparr> nn_Name = ''map'', nn_Namespace = ''default'' \<rparr>"

definition retry_start :: "(unit, map_call) world" where
  "retry_start = \<lparr> cw_state = (), cw_reads = 0, cw_trace = [] \<rparr>"

lemma sample_map_env_simps:
  "me_call sample_map_env t c = None" "me_GetMap sample_map_env t q = Inr sample_retry_map"
  "me_GetHazelcast sample_map_env t q = Inr sample_hazelcast" "me_GetOrCreateClient sample_map_env t q = Inr True"
  "me_OrderedMembers sample_map_env t = [''u1'', ''u2'']" "me_GetSecret sample_map_env t = (\<lambda>_. Inl (ErrNotFound []))"
  "me_Config sample_map_env t q = Inr (Inr [''map'' \<mapsto> sample_map_cfg])" "me_MarshalSpec sample_map_env spec = Inr ''spec''"
  "me_validation sample_map_env = sample_env" "\<not> me_PhoneHomeEnabled sample_map_env"
  by (simp_all add: sample_map_env_def)

lemma sample_map_valid: "ValidateMapSpec sample_env sample_retry_map sample_hazelcast = Some None"
  by code_simp

lemma sample_retry_map_simps:
  "m_Spec sample_retry_map = sample_map_spec" "MapName sample_retry_map = ''map''" "mss_State (m_Status sample_retry_map) = MapFailed"
  "mss_MemberStatuses (m_Status sample_retry_map) = [''u1'' \<mapsto> MapSuccess]" "om_Annotations (m_Meta sample_retry_map) = Map.empty"
  "om_DeletionTimestamp (m_Meta sample_retry_map) = None" "om_Finalizers (m_Meta sample_retry_map) = [Finalizer]"
  "ms_MapStore sample_map_spec = None"
  by (simp_all add: sample_retry_map_def sample_defs MapName_def)

lemma sample_createMapConfig:
  "createMapConfig (env_QuantityValue sample_env) (\<lambda>_. Inl (ErrNotFound [])) sample_hazelcast sample_retry_map = Some (Inr sample_map_cfg)"
proof -
  have "\<exists>c. createMapConfig (env_QuantityValue sample_env) (\<lambda>_. Inl (ErrNotFound [])) sample_hazelcast sample_retry_map = Some (Inr c)"
    by (simp add: createMapConfig_def sample_retry_map_simps Let_def) (simp add: sample_defs)
  then show ?thesis by (auto simp: sample_map_cfg_def)
qed

lemma sample_fill:
  "\<exists>mi. fillAddMapConfigInput (env_QuantityValue sample_env) (Inr Map.empty :: go_error + _) DefaultAddMapConfigInput sample_retry_map =
     Some (Inr mi) \<and> retry_request = AddMapConfig mi"
proof -
  have "\<exists>mi. fillAddMapConfigInput (env_QuantityValue sample_env) (Inr Map.empty :: go_error + _) DefaultAddMapConfigInput
      sample_retry_map = Some (Inr mi)"
    by (simp add: fillAddMapConfigInput_def sample_retry_map_simps Let_def) (simp add: sample_defs)
  then show ?thesis by (auto simp: retry_request_def sample_map_env_simps)
qed

text \<open>The statuses the run writes.\<close>

definition sample_persisting :: Map where
  "sample_persisting = sample_retry_map\<lparr> m_Status := (m_Status sample_retry_map)\<lparr> mss_State := MapPersisting,
     mss_Message := ''Persisting the applied map config.'' \<rparr> \<rparr>"

definition sample_annotated :: Map where
  "sample_annotated = sample_persisting\<lparr> m_Meta := (m_Meta sample_persisting)\<lparr> om_Annotations := [LastSuccessfulSpecAnnotation \<mapsto> ''spec''] \<rparr> \<rparr>"

definition sample_succeeded :: Map where
  "sample_succeeded = sample_annotated\<lparr> m_Status := \<lparr> mss_State = MapSuccess, mss_Message = [], mss_MemberStatuses = Map.empty \<rparr> \<rparr>"

lemma retry_invoke:
  "invokeA (me_call sample_map_env) c w = (Inr (), w\<lparr> cw_trace := cw_trace w @ [(c, True)] \<rparr>)"
  by (simp add: invokeA_def sample_map_env_simps)

lemma retry_status:
  "updateMapStatusA sample_map_env m opt as w =
     (Inr (fst (updateMapStatus (\<lambda>_. None) m opt as), m\<lparr> m_Status := fold MapStatusApply as (m_Status m) \<rparr>),
      w\<lparr> cw_trace := cw_trace w @ [(StatusUpdateMap (m\<lparr> m_Status := fold MapStatusApply as (m_Status m) \<rparr>), True)] \<rparr>)"
  by (simp add: updateMapStatusA_def Let_def action_simps retry_invoke)

lemma sample_sends:
  "ReconcileMapConfig sample_map_env sample_retry_map sample_hazelcast False w =
     (Inr ([''u1'' \<mapsto> MapSuccess, ''u2'' \<mapsto> MapSuccess], None),
      w\<lparr> cw_reads := cw_reads w + 2, cw_trace := cw_trace w @ [(InvokeMapRequest ''u2'' retry_request, True)] \<rparr>)"
  using sample_fill
  by (auto simp: ReconcileMapConfig_def configRequest_def mapStoreProperties_def action_simps catchA_def sample_map_env_simps
      sample_retry_map_simps retry_invoke)

lemma sample_validates:
  "validateMapConfigPersistence sample_map_env sample_hazelcast sample_persisting w = (Inr True, w\<lparr> cw_reads := cw_reads w + 2 \<rparr>)"
proof -
  have "sameMap sample_persisting sample_retry_map" by (simp add: sameMap_def sample_persisting_def)
  then show ?thesis
    using sample_createMapConfig
    by (simp add: validateMapConfigPersistence_def action_simps sample_map_env_simps sameMap_eqs sample_retry_map_simps
        orPanic_def eta_contract_eq)
qed

lemma retry_run:
  "MapReconciler_Reconcile sample_map_env sample_map_name retry_start =
     (Inr (ResultZero, None), retry_start\<lparr> cw_reads := 7, cw_trace :=
        [(InvokeMapRequest ''u2'' retry_request, True), (StatusUpdateMap sample_persisting, True),
         (UpdateMap sample_annotated, True), (StatusUpdateMap sample_succeeded, True)] \<rparr>)"
proof -
  have meta: "sample_retry_map\<lparr> m_Meta := m_Meta sample_retry_map \<rparr> = sample_retry_map" by simp
  have persist: "sample_retry_map\<lparr> m_Status := m_Status sample_retry_map\<lparr> mss_State := MapPersisting,
      mss_Message := ''Persisting the applied map config.'' \<rparr> \<rparr> = sample_persisting"
    by (simp add: sample_persisting_def)
  have success: "sample_annotated\<lparr> m_Status := m_Status sample_annotated\<lparr> mss_State := MapSuccess, mss_Message := [],
      mss_MemberStatuses := \<lambda>_. None \<rparr> \<rparr> = sample_succeeded"
    by (simp add: sample_succeeded_def)
  have updated: "map_updateLastSuccessfulConfiguration sample_map_env sample_persisting w =
      (Inr sample_annotated, w\<lparr> cw_trace := cw_trace w @ [(UpdateMap sample_annotated, True)] \<rparr>)" for w
    by (simp add: map_updateLastSuccessfulConfiguration_def sample_map_env_simps Let_def action_simps retry_invoke
        sample_annotated_def) (simp add: sample_persisting_def sample_retry_map_simps action_simps)
  have states: "mss_State (m_Status sample_persisting) = MapPersisting" "mss_State (m_Status sample_succeeded) = MapSuccess"
    by (simp_all add: sample_persisting_def sample_succeeded_def)
  have running: "hst_Phase (h_Status sample_hazelcast) = Running" by (simp add: sample_defs)
  show ?thesis
    unfolding MapReconciler_Reconcile_def reconcileMapSpec_def applyMap_def persistMap_def finishMap_def
    by (simp add: catchA_def action_simps sample_map_env_simps sample_retry_map_simps util_AddFinalizer_def ContainsFinalizer_def
        meta running validA_def sample_map_valid map_getHazelcastClient_def sample_sends retry_status persist success
        sample_validates updated updateMapStatus_def retry_start_def Let_def ro_retryAfter_def ro_empty_def states)
qed

theorem map_success_sound_witness:
  "sentTo sample_map_env sample_retry_map [(InvokeMapRequest ''u2'' retry_request, True), (StatusUpdateMap sample_persisting, True),
     (UpdateMap sample_annotated, True)] \<and> storedAs sample_map_env sample_retry_map"
proof -
  have "\<not> appliedBefore sample_map_env sample_retry_map" by (simp add: appliedBefore_def sample_retry_map_simps)
  moreover have "mss_State (m_Status sample_succeeded) = MapSuccess" by (simp add: sample_succeeded_def)
  ultimately show ?thesis
    using map_success_sound [OF _ _ retry_run, of sample_retry_map _ sample_succeeded True "[]"]
    by (simp add: sample_map_env_simps retry_start_def)
qed

theorem recorded_members_skipped_witness:
  "mss_MemberStatuses (m_Status sample_retry_map) ''u1'' = Some MapSuccess \<and> mss_State (m_Status sample_succeeded) = MapSuccess \<and>
   (InvokeMapRequest ''u1'' retry_request, True) \<notin> {(InvokeMapRequest ''u2'' retry_request, True), (StatusUpdateMap sample_persisting, True),
     (UpdateMap sample_annotated, True), (StatusUpdateMap sample_succeeded, True)}"
  using recorded_members_skipped [OF _ _ retry_run, of sample_retry_map "''u1''"
      "[(InvokeMapRequest ''u2'' retry_request, True), (StatusUpdateMap sample_persisting, True),
        (UpdateMap sample_annotated, True), (StatusUpdateMap sample_succeeded, True)]" retry_request True]
  by (simp add: sample_map_env_simps sample_retry_map_simps retry_start_def sample_succeeded_def)

theorem config_handshake_witness:
  "fst (validateMapConfigPersistence sample_map_env sample_hazelcast sample_persisting retry_start) = Inr True"
proof -
  have same: "sameMap sample_persisting sample_retry_map" by (simp add: sameMap_def sample_persisting_def)
  have persisting: "mss_State (m_Status sample_persisting) = MapPersisting" by (simp add: sample_persisting_def)
  have kept: "filterPersistedMaps (env_UnmarshalMapSpec sample_env) [sample_persisting] = [sample_persisting]"
    by (simp add: filterPersistedMaps_def List.map_filter_def persisting)
  have name: "MapName sample_persisting = ''map''" by (simp add: sameMap_eqs [OF same] sample_retry_map_simps)
  have filled: "fillHazelcastConfigWithMaps (createMapConfig (me_quantity sample_map_env) (\<lambda>_. Inl (ErrNotFound [])) sample_hazelcast)
      (filterPersistedMaps (env_UnmarshalMapSpec sample_env) [sample_persisting]) = Some (Inr [''map'' \<mapsto> sample_map_cfg])"
    using sample_createMapConfig by (simp add: kept name sample_map_env_simps sameMap_eqs [OF same])
  have "distinct (map MapName (filterPersistedMaps (env_UnmarshalMapSpec sample_env) [sample_persisting]))"
    by (simp add: kept)
  with config_handshake [OF list.set_intros(1) persisting filled sample_map_env_simps(7,6)] show ?thesis by blast
qed

subsection \<open>A queue on a cluster that is not running\<close>

definition sample_queue :: Queue where
  "sample_queue = \<lparr> do_Kind = ''Queue'', do_Meta = sample_meta\<lparr> om_Name := ''queue'', om_Finalizers := [Finalizer] \<rparr>,
     do_Spec = \<lparr> qu_DataStructureSpec = \<lparr> ds_Name = [], ds_HazelcastResourceName = ''hz'', ds_BackupCount = Some 1,
         ds_AsyncBackupCount = 0, ds_UserCodeNamespace = [] \<rparr>,
       qu_MaxSize = 0, qu_EmptyQueueTtlSeconds = Some 0, qu_PriorityComparatorClassName = [] \<rparr>,
     do_Status = \<lparr> dss_State = DataStructureUnset, dss_Message = [], dss_MemberStatuses = Map.empty \<rparr> \<rparr>"

definition sample_queue_env :: "(QueueSpec, QueueConfigInput, Queue_cfg) ds_env" where
  "sample_queue_env = \<lparr> de_call = (\<lambda>_ _. None), de_Get = (\<lambda>_ _. Inr sample_queue),
     de_GetHazelcast = (\<lambda>_ _. Inr (sample_hazelcast\<lparr> h_Status := sample_hazelcast_status\<lparr> hst_Phase := Pending \<rparr> \<rparr>)),
     de_GetOrCreateClient = (\<lambda>_ _. Inr True), de_OrderedMembers = (\<lambda>_. []), de_Config = (\<lambda>_ _. Inr (Inr Map.empty)),
     de_ErrText = (\<lambda>_. []), de_PhoneHomeEnabled = False \<rparr>"

definition sample_queue_failed :: Queue where
  "sample_queue_failed = sample_queue\<lparr> do_Status := \<lparr> dss_State = DataStructureFailed, dss_Message = ''Hazelcast CR is not ready'',
     dss_MemberStatuses = Map.empty \<rparr> \<rparr>"

lemma sample_queue_valid: "validateQueueSpecUpdate (\<lambda>_. Inr []) sample_queue = Some None"
  by code_simp

lemma sample_queue_setup:
  "initialSetupDS sample_queue_env (Queue_interface (\<lambda>_. Inr [])) sample_map_name \<lparr> cw_state = (), cw_reads = 0, cw_trace = [] \<rparr> =
     (Inr (Inl (ResultZero, Some (ErrOther ''Hazelcast CR is not ready''))),
      \<lparr> cw_state = (), cw_reads = 2, cw_trace = [(StatusUpdateDS sample_queue_failed, True)] \<rparr>)"
proof -
  have simps: "do_Meta sample_queue = sample_meta\<lparr> om_Name := ''queue'', om_Finalizers := [Finalizer] \<rparr>"
      "do_Status sample_queue = \<lparr> dss_State = DataStructureUnset, dss_Message = [], dss_MemberStatuses = Map.empty \<rparr>"
      "sample_queue\<lparr> do_Meta := sample_meta\<lparr> om_Name := ''queue'', om_Finalizers := [Finalizer] \<rparr> \<rparr> = sample_queue"
      "om_DeletionTimestamp sample_meta = None" "om_Annotations sample_meta = Map.empty"
    by (simp_all add: sample_queue_def sample_meta_def)
  show ?thesis
    by (simp add: initialSetupDS_def catchA_def action_simps sample_queue_env_def util_AddFinalizer_def ContainsFinalizer_def
      simps sample_queue_failed_def andThen_def handleCreatedBefore_def setupValidated_def validA_def sample_queue_valid
      Queue_interface_def getHZClient_def failDS_def updateDSStatusA_def invokeA_def moment_def
      updateDSStatus_def ro_error_def stopWith_def Let_def)
qed

theorem ds_setup_error_dropped_witness:
  "reconcileDS sample_queue_env (Queue_interface (\<lambda>_. Inr [])) (fillQueueConfigInput DefaultQueueConfigInput) createQueueConfig
     [] [] sample_map_name \<lparr> cw_state = (), cw_reads = 0, cw_trace = [] \<rparr> =
   (Inr (ResultZero, None), \<lparr> cw_state = (), cw_reads = 2, cw_trace = [(StatusUpdateDS sample_queue_failed, True)] \<rparr>)"
  by (rule ds_setup_error_dropped [OF sample_queue_setup])

end
