(* ===== verification/Client_Frames.thy ===== *)
theory Client_Frames
  imports Codec_Inputs
begin

text \<open>
  Frames of the client protocol: the encoders and decoders of \<^verbatim>\<open>internal/protocol/codec/builtin.go\<close>.

  A message is a list of frames; an encoder appends frames to it, so it is modelled by the frames
  it appends. A decoder takes the frames that are left in the iterator. The frames themselves are
  those of the Hazelcast Go client, which is not part of the repository: its operations are the
  fields of \<open>frame_api\<close>, and what the code relies on is the locale \<open>client_frames\<close>. What its iterator does
  past the last frame is left open: such a run ends as \<open>Exhausted\<close>. An index out of range panics,
  and a loop whose body leaves the iterator where it was does not end.
\<close>

subsection \<open>Fixed-size values\<close>

text \<open>\<^verbatim>\<open>binary.LittleEndian\<close>: the bytes of a word, the lowest first.\<close>

definition leBytes :: "nat \<Rightarrow> 'a :: len word \<Rightarrow> byte list" where
  "leBytes n v = map (\<lambda>i. ucast (drop_bit (8 * i) v)) [0..<n]"

fun leValue :: "byte list \<Rightarrow> 'a :: len word" where
  "leValue [] = 0"
| "leValue (b # bs) = or (ucast b) (push_bit 8 (leValue bs))"

definition putBytes :: "byte list \<Rightarrow> nat \<Rightarrow> byte list \<Rightarrow> byte list go" where
  "putBytes buffer offset bs =
     (if offset + length bs \<le> length buffer then Some (take offset buffer @ bs @ drop (offset + length bs) buffer) else None)"

definition getBytes :: "byte list \<Rightarrow> nat \<Rightarrow> nat \<Rightarrow> byte list go" where
  "getBytes buffer offset n = (if offset + n \<le> length buffer then Some (take n (drop offset buffer)) else None)"

definition EncodeBoolean :: "byte list \<Rightarrow> nat \<Rightarrow> bool \<Rightarrow> byte list go" where
  "EncodeBoolean buffer offset v = putBytes buffer offset [if v then 1 else 0]"

definition DecodeBoolean :: "byte list \<Rightarrow> nat \<Rightarrow> bool go" where
  "DecodeBoolean buffer offset = map_option (\<lambda>bs. hd bs = 1) (getBytes buffer offset 1)"

definition EncodeByte :: "byte list \<Rightarrow> nat \<Rightarrow> byte \<Rightarrow> byte list go" where
  "EncodeByte buffer offset v = putBytes buffer offset [v]"

definition DecodeByte :: "byte list \<Rightarrow> nat \<Rightarrow> byte go" where
  "DecodeByte buffer offset = map_option hd (getBytes buffer offset 1)"

definition EncodeShort :: "byte list \<Rightarrow> nat \<Rightarrow> int32 \<Rightarrow> byte list go" where
  "EncodeShort buffer offset v = putBytes buffer offset (leBytes 2 (ucast v :: 16 word))"

definition DecodeShort :: "byte list \<Rightarrow> nat \<Rightarrow> 16 word go" where
  "DecodeShort buffer offset = map_option leValue (getBytes buffer offset 2)"

definition EncodeInt :: "byte list \<Rightarrow> nat \<Rightarrow> int32 \<Rightarrow> byte list go" where
  "EncodeInt buffer offset v = putBytes buffer offset (leBytes 4 v)"

definition DecodeInt :: "byte list \<Rightarrow> nat \<Rightarrow> int32 go" where
  "DecodeInt buffer offset = map_option leValue (getBytes buffer offset 4)"

definition EncodeLong :: "byte list \<Rightarrow> nat \<Rightarrow> int64 \<Rightarrow> byte list go" where
  "EncodeLong buffer offset v = putBytes buffer offset (leBytes 8 v)"

definition DecodeLong :: "byte list \<Rightarrow> nat \<Rightarrow> int64 go" where
  "DecodeLong buffer offset = map_option leValue (getBytes buffer offset 8)"

text \<open>Go strings are sequences of bytes.\<close>

definition stringBytes :: "string \<Rightarrow> byte list" where
  "stringBytes s = map (\<lambda>c. of_nat (of_char c)) s"

definition bytesString :: "byte list \<Rightarrow> string" where
  "bytesString bs = map (\<lambda>b. char_of (unat b)) bs"

subsection \<open>Frames\<close>

text \<open>The part of the Go client the codecs use. \<open>fa_range\<close> is the order in which a map is visited.\<close>

record 'f frame_api =
  fa_NewFrame :: "byte list \<Rightarrow> 'f"
  fa_NullFrame :: 'f
  fa_BeginFrame :: 'f
  fa_EndFrame :: 'f
  fa_Content :: "'f \<Rightarrow> byte list"
  fa_IsNullFrame :: "'f \<Rightarrow> bool"
  fa_IsBeginFrame :: "'f \<Rightarrow> bool"
  fa_IsEndFrame :: "'f \<Rightarrow> bool"
  fa_BooleanSize :: nat
  fa_ByteSize :: nat
  fa_IntSize :: nat
  fa_LongSize :: nat
  fa_range :: "(string \<rightharpoonup> string) \<Rightarrow> (string \<times> string) list"

definition addFrames :: "'f list go list \<Rightarrow> 'f list go" where
  "addFrames fs = map_option concat (those fs)"

definition beginFrame :: "('f, 'x) frame_api_scheme \<Rightarrow> 'f list go" where
  "beginFrame api = Some [fa_BeginFrame api]"

definition endFrame :: "('f, 'x) frame_api_scheme \<Rightarrow> 'f list go" where
  "endFrame api = Some [fa_EndFrame api]"

definition nullFrame :: "('f, 'x) frame_api_scheme \<Rightarrow> 'f list go" where
  "nullFrame api = Some [fa_NullFrame api]"

text \<open>The first frame of a structure: a zeroed buffer of the given size with values written into it.\<close>

definition initialFrame :: "('f, 'x) frame_api_scheme \<Rightarrow> nat \<Rightarrow> (byte list \<Rightarrow> byte list go) list \<Rightarrow> 'f list go" where
  "initialFrame api n ws = map_option (\<lambda>b. [fa_NewFrame api b]) (fold (\<lambda>w b. Option.bind b w) ws (Some (replicate n 0)))"

subsection \<open>Encoders\<close>

definition EncodeString :: "('f, 'x) frame_api_scheme \<Rightarrow> string \<Rightarrow> 'f list go" where
  "EncodeString api v = Some [fa_NewFrame api (stringBytes v)]"

definition EncodeNullableForString :: "('f, 'x) frame_api_scheme \<Rightarrow> string \<Rightarrow> 'f list go" where
  "EncodeNullableForString api v = (if TrimSpace v = [] then nullFrame api else EncodeString api v)"

text \<open>\<^verbatim>\<open>value.(iserialization.Data).ToByteArray()\<close> of nil data is an empty slice.\<close>

definition EncodeData :: "('f, 'x) frame_api_scheme \<Rightarrow> Data \<Rightarrow> 'f list go" where
  "EncodeData api d = Some [fa_NewFrame api (case d of None \<Rightarrow> [] | Some bs \<Rightarrow> bs)]"

text \<open>The argument of \<^verbatim>\<open>EncodeData\<close> is an \<^verbatim>\<open>interface{}\<close>: the type assertion panics unless it holds data. Most
  callers pass data; \<open>EncodeAny\<close> is the call with a key or value that is itself an interface.\<close>

datatype goAny = DataValue Data | OtherValue

definition EncodeAny :: "('f, 'x) frame_api_scheme \<Rightarrow> goAny \<Rightarrow> 'f list go" where
  "EncodeAny api v = (case v of DataValue d \<Rightarrow> EncodeData api d | OtherValue \<Rightarrow> None)"

definition EncodeNullableForData :: "('f, 'x) frame_api_scheme \<Rightarrow> Data \<Rightarrow> 'f list go" where
  "EncodeNullableForData api d = (case d of None \<Rightarrow> nullFrame api | Some bs \<Rightarrow> EncodeData api d)"

definition EncodeNullableData :: "('f, 'x) frame_api_scheme \<Rightarrow> Data \<Rightarrow> 'f list go" where
  "EncodeNullableData api d = (case d of None \<Rightarrow> nullFrame api | Some bs \<Rightarrow> Some [fa_NewFrame api bs])"

definition EncodeByteArray :: "('f, 'x) frame_api_scheme \<Rightarrow> byte list \<Rightarrow> 'f list go" where
  "EncodeByteArray api bs = Some [fa_NewFrame api bs]"

definition EncodeNullableForByteArray :: "('f, 'x) frame_api_scheme \<Rightarrow> byte list \<Rightarrow> 'f list go" where
  "EncodeNullableForByteArray api bs = (if bs = [] then nullFrame api else EncodeByteArray api bs)"

definition EncodeMapForStringAndString :: "('f, 'x) frame_api_scheme \<Rightarrow> (string \<rightharpoonup> string) \<Rightarrow> 'f list go" where
  "EncodeMapForStringAndString api m =
     addFrames ([beginFrame api] @ concat (map (\<lambda>(k, v). [EncodeString api k, EncodeString api v]) (fa_range api m)) @ [endFrame api])"

definition EncodeNullableMapForStringAndString :: "('f, 'x) frame_api_scheme \<Rightarrow> (string \<rightharpoonup> string) option \<Rightarrow> 'f list go" where
  "EncodeNullableMapForStringAndString api m = (case m of None \<Rightarrow> nullFrame api | Some m \<Rightarrow> EncodeMapForStringAndString api m)"

text \<open>A list between a begin and an end frame; the loops differ in the encoder of an item only.\<close>

definition encodeList :: "('f, 'x) frame_api_scheme \<Rightarrow> ('a \<Rightarrow> 'f list go) \<Rightarrow> 'a list \<Rightarrow> 'f list go" where
  "encodeList api enc xs = addFrames ([beginFrame api] @ map enc xs @ [endFrame api])"

definition encodeNullableList :: "('f, 'x) frame_api_scheme \<Rightarrow> ('a \<Rightarrow> 'f list go) \<Rightarrow> 'a list option \<Rightarrow> 'f list go" where
  "encodeNullableList api enc xs = (case xs of None \<Rightarrow> nullFrame api | Some xs \<Rightarrow> encodeList api enc xs)"

definition EncodeListMultiFrameForString :: "('f, 'x) frame_api_scheme \<Rightarrow> string list \<Rightarrow> 'f list go" where
  "EncodeListMultiFrameForString api = encodeList api (EncodeString api)"

definition EncodeNullableListMultiFrameForString :: "('f, 'x) frame_api_scheme \<Rightarrow> string list option \<Rightarrow> 'f list go" where
  "EncodeNullableListMultiFrameForString api = encodeNullableList api (EncodeString api)"

definition EncodeListMultiFrameForData :: "('f, 'x) frame_api_scheme \<Rightarrow> Data list \<Rightarrow> 'f list go" where
  "EncodeListMultiFrameForData api = encodeList api (EncodeData api)"

definition EncodeEntryListForDataAndData :: "('f, 'x) frame_api_scheme \<Rightarrow> (goAny \<times> goAny) list \<Rightarrow> 'f list go" where
  "EncodeEntryListForDataAndData api = encodeList api (\<lambda>(k, v). addFrames [EncodeAny api k, EncodeAny api v])"

subsection \<open>Decoders\<close>

datatype ('f, 'a) decoded = Decoded 'a "'f list" | Panics | Exhausted | Loops

type_synonym ('f, 'a) decoder = "'f list \<Rightarrow> ('f, 'a) decoded"

definition returnD :: "'a \<Rightarrow> ('f, 'a) decoder" where
  "returnD x fs = Decoded x fs"

definition bindD :: "('f, 'a) decoder \<Rightarrow> ('a \<Rightarrow> ('f, 'b) decoder) \<Rightarrow> ('f, 'b) decoder" where
  "bindD d k fs = (case d fs of Decoded x fs' \<Rightarrow> k x fs' | Panics \<Rightarrow> Panics | Exhausted \<Rightarrow> Exhausted | Loops \<Rightarrow> Loops)"

definition liftD :: "'a go \<Rightarrow> ('f, 'a) decoder" where
  "liftD g fs = (case g of None \<Rightarrow> Panics | Some x \<Rightarrow> Decoded x fs)"

definition NextD :: "('f, 'f) decoder" where
  "NextD fs = (case fs of [] \<Rightarrow> Exhausted | f # fs' \<Rightarrow> Decoded f fs')"

definition PeekNextD :: "('f, 'f) decoder" where
  "PeekNextD fs = (case fs of [] \<Rightarrow> Exhausted | f # _ \<Rightarrow> Decoded f fs)"

definition skipD :: "('f, unit) decoder" where
  "skipD = bindD NextD (\<lambda>_. returnD ())"

fun FastForwardToEndFrame :: "('f, 'x) frame_api_scheme \<Rightarrow> nat \<Rightarrow> ('f, unit) decoder" where
  "FastForwardToEndFrame api 0 fs = Decoded () fs"
| "FastForwardToEndFrame api (Suc n) [] = Exhausted"
| "FastForwardToEndFrame api (Suc n) (f # fs) =
     (if fa_IsEndFrame api f then FastForwardToEndFrame api n fs
      else if fa_IsBeginFrame api f then FastForwardToEndFrame api (Suc (Suc n)) fs
      else FastForwardToEndFrame api (Suc n) fs)"

definition NextFrameIsNullFrame :: "('f, 'x) frame_api_scheme \<Rightarrow> ('f, bool) decoder" where
  "NextFrameIsNullFrame api =
     bindD PeekNextD (\<lambda>f. if fa_IsNullFrame api f then bindD skipD (\<lambda>_. returnD True) else returnD False)"

definition NextFrameIsDataStructureEndFrame :: "('f, 'x) frame_api_scheme \<Rightarrow> ('f, bool) decoder" where
  "NextFrameIsDataStructureEndFrame api = bindD PeekNextD (\<lambda>f. returnD (fa_IsEndFrame api f))"

definition nullOr :: "('f, 'x) frame_api_scheme \<Rightarrow> 'a \<Rightarrow> ('f, 'a) decoder \<Rightarrow> ('f, 'a) decoder" where
  "nullOr api null dec = bindD (NextFrameIsNullFrame api) (\<lambda>isNull. if isNull then returnD null else dec)"

definition DecodeString :: "('f, 'x) frame_api_scheme \<Rightarrow> ('f, string) decoder" where
  "DecodeString api = bindD NextD (\<lambda>f. returnD (bytesString (fa_Content api f)))"

definition DecodeNullableForString :: "('f, 'x) frame_api_scheme \<Rightarrow> ('f, string) decoder" where
  "DecodeNullableForString api = nullOr api [] (DecodeString api)"

definition DecodeData :: "('f, 'x) frame_api_scheme \<Rightarrow> ('f, Data) decoder" where
  "DecodeData api = bindD NextD (\<lambda>f. returnD (Some (fa_Content api f)))"

text \<open>Null data is decoded as empty data, not as nil.\<close>

definition DecodeNullableForData :: "('f, 'x) frame_api_scheme \<Rightarrow> ('f, Data) decoder" where
  "DecodeNullableForData api = nullOr api (Some []) (DecodeData api)"

definition DecodeNullableData :: "('f, 'x) frame_api_scheme \<Rightarrow> ('f, Data) decoder" where
  "DecodeNullableData api = nullOr api (Some []) (DecodeData api)"

text \<open>\<open>untilEnd\<close>: the loop \<^verbatim>\<open>for !NextFrameIsDataStructureEndFrame(it) { ... }\<close>. \<open>whileEnd\<close>: the same
  loop with the condition inverted, as two decoders have it.\<close>

function untilEnd :: "('f, 'x) frame_api_scheme \<Rightarrow> ('f, 'a) decoder \<Rightarrow> ('f, 'a list) decoder" where
  "untilEnd api dec fs = (case fs of
     [] \<Rightarrow> Exhausted
   | f # _ \<Rightarrow> if fa_IsEndFrame api f then Decoded [] fs
       else (case dec fs of
          Decoded x fs' \<Rightarrow> if length fs' < length fs
             then (case untilEnd api dec fs' of Decoded xs fs'' \<Rightarrow> Decoded (x # xs) fs'' | Panics \<Rightarrow> Panics | Exhausted \<Rightarrow> Exhausted | Loops \<Rightarrow> Loops)
             else Loops
        | Panics \<Rightarrow> Panics | Exhausted \<Rightarrow> Exhausted | Loops \<Rightarrow> Loops))"
  by pat_completeness auto
termination by (relation "measure (\<lambda>(_, _, fs). length fs)") auto

function whileEnd :: "('f, 'x) frame_api_scheme \<Rightarrow> ('f, 'a) decoder \<Rightarrow> ('f, 'a list) decoder" where
  "whileEnd api dec fs = (case fs of
     [] \<Rightarrow> Exhausted
   | f # _ \<Rightarrow> if \<not> fa_IsEndFrame api f then Decoded [] fs
       else (case dec fs of
          Decoded x fs' \<Rightarrow> if length fs' < length fs
             then (case whileEnd api dec fs' of Decoded xs fs'' \<Rightarrow> Decoded (x # xs) fs'' | Panics \<Rightarrow> Panics | Exhausted \<Rightarrow> Exhausted | Loops \<Rightarrow> Loops)
             else Loops
        | Panics \<Rightarrow> Panics | Exhausted \<Rightarrow> Exhausted | Loops \<Rightarrow> Loops))"
  by pat_completeness auto
termination by (relation "measure (\<lambda>(_, _, fs). length fs)") auto

declare untilEnd.simps [simp del] whileEnd.simps [simp del]

definition DecodeListMultiFrame :: "('f, 'x) frame_api_scheme \<Rightarrow> ('f, 'a) decoder \<Rightarrow> ('f, 'a list) decoder" where
  "DecodeListMultiFrame api dec = bindD skipD (\<lambda>_. bindD (untilEnd api dec) (\<lambda>xs. bindD skipD (\<lambda>_. returnD xs)))"

definition DecodeListMultiFrameForString :: "('f, 'x) frame_api_scheme \<Rightarrow> ('f, string list) decoder" where
  "DecodeListMultiFrameForString api = DecodeListMultiFrame api (DecodeString api)"

definition DecodeNullableListMultiFrameForString :: "('f, 'x) frame_api_scheme \<Rightarrow> ('f, string list option) decoder" where
  "DecodeNullableListMultiFrameForString api =
     nullOr api None (bindD (DecodeListMultiFrameForString api) (\<lambda>xs. returnD (Some xs)))"

definition decodeEntry :: "('f, 'x) frame_api_scheme \<Rightarrow> ('f, string \<times> string) decoder" where
  "decodeEntry api = bindD (DecodeString api) (\<lambda>k. bindD (DecodeString api) (\<lambda>v. returnD (k, v)))"

definition DecodeMapForStringAndString :: "('f, 'x) frame_api_scheme \<Rightarrow> ('f, string \<rightharpoonup> string) decoder" where
  "DecodeMapForStringAndString api =
     bindD (DecodeListMultiFrame api (decodeEntry api)) (\<lambda>kvs. returnD (map_of (rev kvs)))"

definition DecodeNullableMapForStringAndString :: "('f, 'x) frame_api_scheme \<Rightarrow> ('f, (string \<rightharpoonup> string) option) decoder" where
  "DecodeNullableMapForStringAndString api =
     nullOr api None (bindD (DecodeMapForStringAndString api) (\<lambda>m. returnD (Some m)))"

definition DecodeEntryListForDataAndData :: "('f, 'x) frame_api_scheme \<Rightarrow> ('f, (goAny \<times> goAny) list) decoder" where
  "DecodeEntryListForDataAndData api =
     bindD skipD (\<lambda>_. bindD (whileEnd api (bindD (DecodeData api) (\<lambda>k. bindD (DecodeData api) (\<lambda>v. returnD (DataValue k, DataValue v))))) (\<lambda>xs.
     bindD skipD (\<lambda>_. returnD xs)))"

definition DecodeListMultiFrameForDataContainsNullable :: "('f, 'x) frame_api_scheme \<Rightarrow> ('f, Data list) decoder" where
  "DecodeListMultiFrameForDataContainsNullable api =
     bindD skipD (\<lambda>_. bindD (whileEnd api (nullOr api None (DecodeData api))) (\<lambda>xs. bindD skipD (\<lambda>_. returnD xs)))"

definition longsOf :: "nat \<Rightarrow> byte list \<Rightarrow> int64 list go" where
  "longsOf width content = those (map (\<lambda>i. DecodeLong content (i * width)) [0..<length content div width])"

definition DecodeLongArray :: "('f, 'x) frame_api_scheme \<Rightarrow> ('f, int64 list) decoder" where
  "DecodeLongArray api = bindD NextD (\<lambda>f. liftD (longsOf (fa_LongSize api) (fa_Content api f)))"

end
