(* ===== verification/Config_Codecs.thy ===== *)
theory Config_Codecs
  imports Client_Frames
begin

text \<open>
  The codecs of the structures that configuration messages consist of
  (\<^verbatim>\<open>internal/protocol/codec/*_config_codec.go\<close>, \<^verbatim>\<open>*_holder_codec.go\<close> and their neighbours). A structure is a
  begin frame, a frame with the fields of fixed size at the offsets the constants give, the other
  fields in order, and an end frame.
\<close>

subsection \<open>Fields of fixed size\<close>

definition intAt :: "('f, 'x) frame_api_scheme \<Rightarrow> 'f \<Rightarrow> nat \<Rightarrow> ('f, int32) decoder" where
  "intAt api f offset = liftD (DecodeInt (fa_Content api f) offset)"

definition longAt :: "('f, 'x) frame_api_scheme \<Rightarrow> 'f \<Rightarrow> nat \<Rightarrow> ('f, int64) decoder" where
  "longAt api f offset = liftD (DecodeLong (fa_Content api f) offset)"

definition boolAt :: "('f, 'x) frame_api_scheme \<Rightarrow> 'f \<Rightarrow> nat \<Rightarrow> ('f, bool) decoder" where
  "boolAt api f offset = liftD (DecodeBoolean (fa_Content api f) offset)"

text \<open>\<open>structD\<close>: the begin frame and the first frame; \<open>finishD\<close>: the way to the end frame.\<close>

definition structD :: "('f \<Rightarrow> ('f, 'a) decoder) \<Rightarrow> ('f, 'a) decoder" where
  "structD k = bindD skipD (\<lambda>_. bindD NextD k)"

definition finishD :: "('f, 'x) frame_api_scheme \<Rightarrow> 'a \<Rightarrow> ('f, 'a) decoder" where
  "finishD api x = bindD (FastForwardToEndFrame api 1) (\<lambda>_. returnD x)"

subsection \<open>Small structures\<close>

definition EncodeAttributeConfig :: "('f, 'x) frame_api_scheme \<Rightarrow> AttributeConfig \<Rightarrow> 'f list go" where
  "EncodeAttributeConfig api a =
     addFrames [beginFrame api, EncodeString api (at_Name a), EncodeString api (at_ExtractorClassName a), endFrame api]"

definition DecodeAttributeConfig :: "('f, 'x) frame_api_scheme \<Rightarrow> ('f, AttributeConfig) decoder" where
  "DecodeAttributeConfig api = bindD skipD (\<lambda>_. bindD (DecodeString api) (\<lambda>name. bindD (DecodeString api) (\<lambda>extractor.
     finishD api \<lparr> at_Name = name, at_ExtractorClassName = extractor \<rparr>)))"

definition EncodeListMultiFrameAttributeConfig :: "('f, 'x) frame_api_scheme \<Rightarrow> AttributeConfig list \<Rightarrow> 'f list go" where
  "EncodeListMultiFrameAttributeConfig api = encodeList api (EncodeAttributeConfig api)"

definition EncodeNullableListMultiFrameForAttributeConfig :: "('f, 'x) frame_api_scheme \<Rightarrow> AttributeConfig list option \<Rightarrow> 'f list go" where
  "EncodeNullableListMultiFrameForAttributeConfig api = encodeNullableList api (EncodeAttributeConfig api)"

definition EncodeBitmapIndexOptions :: "('f, 'x) frame_api_scheme \<Rightarrow> BitmapIndexOptions_codec \<Rightarrow> 'f list go" where
  "EncodeBitmapIndexOptions api b =
     addFrames [beginFrame api,
       initialFrame api (fa_IntSize api) [\<lambda>buf. EncodeInt buf 0 (bo_UniqueKeyTransformation b)],
       EncodeString api (bo_UniqueKey b), endFrame api]"

definition EncodeNullableForBitmapIndexOptions :: "('f, 'x) frame_api_scheme \<Rightarrow> BitmapIndexOptions_codec \<Rightarrow> 'f list go" where
  "EncodeNullableForBitmapIndexOptions api b = (if b = BitmapIndexOptionsZero then nullFrame api else EncodeBitmapIndexOptions api b)"

definition DecodeBitmapIndexOptions :: "('f, 'x) frame_api_scheme \<Rightarrow> ('f, BitmapIndexOptions_codec) decoder" where
  "DecodeBitmapIndexOptions api = structD (\<lambda>f. bindD (intAt api f 0) (\<lambda>transformation. bindD (DecodeString api) (\<lambda>key.
     finishD api \<lparr> bo_UniqueKey = key, bo_UniqueKeyTransformation = transformation \<rparr>)))"

definition DecodeNullableForBitmapIndexOptions :: "('f, 'x) frame_api_scheme \<Rightarrow> ('f, BitmapIndexOptions_codec) decoder" where
  "DecodeNullableForBitmapIndexOptions api = nullOr api BitmapIndexOptionsZero (DecodeBitmapIndexOptions api)"

definition EncodeIndexConfig :: "('f, 'x) frame_api_scheme \<Rightarrow> IndexConfig_codec \<Rightarrow> 'f list go" where
  "EncodeIndexConfig api ic =
     addFrames [beginFrame api, initialFrame api (fa_IntSize api) [\<lambda>buf. EncodeInt buf 0 (ixc_Type ic)],
       EncodeNullableForString api (ixc_Name ic), EncodeListMultiFrameForString api (ixc_Attributes ic),
       EncodeNullableForBitmapIndexOptions api (ixc_BitmapIndexOptions ic), endFrame api]"

definition DecodeIndexConfig :: "('f, 'x) frame_api_scheme \<Rightarrow> ('f, IndexConfig_codec) decoder" where
  "DecodeIndexConfig api = structD (\<lambda>f. bindD (intAt api f 0) (\<lambda>typ'.
     bindD (DecodeNullableForString api) (\<lambda>name. bindD (DecodeListMultiFrameForString api) (\<lambda>attributes.
     bindD (DecodeNullableForBitmapIndexOptions api) (\<lambda>options.
     finishD api \<lparr> ixc_Name = name, ixc_Type = typ', ixc_Attributes = attributes, ixc_BitmapIndexOptions = options \<rparr>)))))"

definition EncodeListMultiFrameIndexConfig :: "('f, 'x) frame_api_scheme \<Rightarrow> IndexConfig_codec list \<Rightarrow> 'f list go" where
  "EncodeListMultiFrameIndexConfig api = encodeList api (EncodeIndexConfig api)"

definition EncodeNullableListMultiFrameForIndexConfig :: "('f, 'x) frame_api_scheme \<Rightarrow> IndexConfig_codec list option \<Rightarrow> 'f list go" where
  "EncodeNullableListMultiFrameForIndexConfig api = encodeNullableList api (EncodeIndexConfig api)"

text \<open>The slice that is decoded into starts as nil: an empty list comes back as nil.\<close>

definition nilIfEmpty :: "'a list \<Rightarrow> 'a list option" where
  "nilIfEmpty xs = (if xs = [] then None else Some xs)"

definition DecodeNullableListMultiFrameForIndexConfig :: "('f, 'x) frame_api_scheme \<Rightarrow> ('f, IndexConfig_codec list option) decoder" where
  "DecodeNullableListMultiFrameForIndexConfig api =
     nullOr api None (bindD (DecodeListMultiFrame api (DecodeIndexConfig api)) (\<lambda>xs. returnD (nilIfEmpty xs)))"

definition EncodeEventJournalConfig :: "('f, 'x) frame_api_scheme \<Rightarrow> EventJournal_cfg \<Rightarrow> 'f list go" where
  "EncodeEventJournalConfig api e =
     addFrames [beginFrame api,
       initialFrame api (fa_BooleanSize api + fa_IntSize api + fa_IntSize api)
         [\<lambda>buf. EncodeBoolean buf 0 (ejc_Enabled e), \<lambda>buf. EncodeInt buf (fa_BooleanSize api) (ejc_Capacity e),
          \<lambda>buf. EncodeInt buf (fa_BooleanSize api + fa_IntSize api) (ejc_TimeToLiveSeconds e)],
       endFrame api]"

definition EventJournalZero :: EventJournal_cfg where
  "EventJournalZero = \<lparr> ejc_Enabled = False, ejc_Capacity = 0, ejc_TimeToLiveSeconds = 0 \<rparr>"

definition EncodeNullableForEventJournalConfig :: "('f, 'x) frame_api_scheme \<Rightarrow> EventJournal_cfg \<Rightarrow> 'f list go" where
  "EncodeNullableForEventJournalConfig api e = (if e = EventJournalZero then nullFrame api else EncodeEventJournalConfig api e)"

definition DecodeEventJournalConfig :: "('f, 'x) frame_api_scheme \<Rightarrow> ('f, EventJournal_cfg) decoder" where
  "DecodeEventJournalConfig api = structD (\<lambda>f. bindD (boolAt api f 0) (\<lambda>enabled. bindD (intAt api f (fa_BooleanSize api)) (\<lambda>capacity.
     bindD (intAt api f (fa_BooleanSize api + fa_IntSize api)) (\<lambda>ttl.
     finishD api \<lparr> ejc_Enabled = enabled, ejc_Capacity = capacity, ejc_TimeToLiveSeconds = ttl \<rparr>))))"

definition twoBooleans :: "('f, 'x) frame_api_scheme \<Rightarrow> bool \<Rightarrow> bool \<Rightarrow> 'f list go" where
  "twoBooleans api a b = initialFrame api (fa_BooleanSize api + fa_BooleanSize api)
     [\<lambda>buf. EncodeBoolean buf 0 a, \<lambda>buf. EncodeBoolean buf (fa_BooleanSize api) b]"

definition EncodeHotRestartConfig :: "('f, 'x) frame_api_scheme \<Rightarrow> HotRestartConfig \<Rightarrow> 'f list go" where
  "EncodeHotRestartConfig api h = addFrames [beginFrame api, twoBooleans api (hrc_Enabled h) (hrc_Fsync h), endFrame api]"

definition HotRestartZero :: HotRestartConfig where
  "HotRestartZero = \<lparr> hrc_Enabled = False, hrc_Fsync = False \<rparr>"

definition EncodeNullableForHotRestartConfig :: "('f, 'x) frame_api_scheme \<Rightarrow> HotRestartConfig \<Rightarrow> 'f list go" where
  "EncodeNullableForHotRestartConfig api h = (if h = HotRestartZero then nullFrame api else EncodeHotRestartConfig api h)"

definition DecodeHotRestartConfig :: "('f, 'x) frame_api_scheme \<Rightarrow> ('f, HotRestartConfig) decoder" where
  "DecodeHotRestartConfig api = structD (\<lambda>f. bindD (boolAt api f 0) (\<lambda>enabled. bindD (boolAt api f (fa_BooleanSize api)) (\<lambda>fsync.
     finishD api \<lparr> hrc_Enabled = enabled, hrc_Fsync = fsync \<rparr>)))"

definition EncodeDataPersistenceConfig :: "('f, 'x) frame_api_scheme \<Rightarrow> DataPersistenceConfig \<Rightarrow> 'f list go" where
  "EncodeDataPersistenceConfig api d = addFrames [beginFrame api, twoBooleans api (dpc_Enabled d) (dpc_Fsync d), endFrame api]"

definition DecodeDataPersistenceConfig :: "('f, 'x) frame_api_scheme \<Rightarrow> ('f, DataPersistenceConfig) decoder" where
  "DecodeDataPersistenceConfig api = structD (\<lambda>f. bindD (boolAt api f 0) (\<lambda>enabled. bindD (boolAt api f (fa_BooleanSize api)) (\<lambda>fsync.
     finishD api \<lparr> dpc_Enabled = enabled, dpc_Fsync = fsync \<rparr>)))"

definition EncodeMerkleTreeConfig :: "('f, 'x) frame_api_scheme \<Rightarrow> MerkleTreeConfig_codec \<Rightarrow> 'f list go" where
  "EncodeMerkleTreeConfig api m =
     addFrames [beginFrame api,
       initialFrame api (fa_BooleanSize api + fa_IntSize api + fa_BooleanSize api)
         [\<lambda>buf. EncodeBoolean buf 0 (mtk_Enabled m), \<lambda>buf. EncodeInt buf (fa_BooleanSize api) (mtk_Depth m),
          \<lambda>buf. EncodeBoolean buf (fa_BooleanSize api + fa_IntSize api) (mtk_EnabledSet m)],
       endFrame api]"

definition MerkleTreeZero :: MerkleTreeConfig_codec where
  "MerkleTreeZero = \<lparr> mtk_Enabled = False, mtk_Depth = 0, mtk_EnabledSet = False \<rparr>"

definition EncodeNullableForMerkleTreeConfig :: "('f, 'x) frame_api_scheme \<Rightarrow> MerkleTreeConfig_codec \<Rightarrow> 'f list go" where
  "EncodeNullableForMerkleTreeConfig api m = (if m = MerkleTreeZero then nullFrame api else EncodeMerkleTreeConfig api m)"

text \<open>The last field is read only from a frame that is long enough.\<close>

definition DecodeMerkleTreeConfig :: "('f, 'x) frame_api_scheme \<Rightarrow> ('f, MerkleTreeConfig_codec) decoder" where
  "DecodeMerkleTreeConfig api = structD (\<lambda>f. bindD (boolAt api f 0) (\<lambda>enabled. bindD (intAt api f (fa_BooleanSize api)) (\<lambda>depth.
     bindD (if fa_BooleanSize api + fa_IntSize api + fa_BooleanSize api \<le> length (fa_Content api f)
            then boolAt api f (fa_BooleanSize api + fa_IntSize api) else returnD False) (\<lambda>enabledSet.
     finishD api \<lparr> mtk_Enabled = enabled, mtk_Depth = depth, mtk_EnabledSet = enabledSet \<rparr>))))"

definition EncodeDiskTierConfig :: "('f, 'x) frame_api_scheme \<Rightarrow> DiskTierConfig \<Rightarrow> 'f list go" where
  "EncodeDiskTierConfig api d =
     addFrames [beginFrame api, initialFrame api (fa_BooleanSize api) [\<lambda>buf. EncodeBoolean buf 0 (dtc_Enabled d)],
       EncodeString api (dtc_DeviceName d), endFrame api]"

definition DecodeDiskTierConfig :: "('f, 'x) frame_api_scheme \<Rightarrow> ('f, DiskTierConfig) decoder" where
  "DecodeDiskTierConfig api = structD (\<lambda>f. bindD (boolAt api f 0) (\<lambda>enabled. bindD (DecodeString api) (\<lambda>device.
     finishD api \<lparr> dtc_Enabled = enabled, dtc_DeviceName = device \<rparr>)))"

text \<open>A map lookup of an unknown key gives the zero value.\<close>

definition EncodeUnit :: "string \<Rightarrow> int32" where
  "EncodeUnit u = (if u = ''KILOBYTES'' then 1 else if u = ''MEGABYTES'' then 2 else if u = ''GIGABYTES'' then 3 else 0)"

definition DecodeUnit :: "int32 \<Rightarrow> string" where
  "DecodeUnit i = (if i = 0 then ''BYTES'' else if i = 1 then ''KILOBYTES'' else if i = 2 then ''MEGABYTES''
     else if i = 3 then ''GIGABYTES'' else [])"

definition EncodeCapacity :: "('f, 'x) frame_api_scheme \<Rightarrow> Size_cfg \<Rightarrow> 'f list go" where
  "EncodeCapacity api c =
     addFrames [beginFrame api,
       initialFrame api (fa_LongSize api + fa_IntSize api)
         [\<lambda>buf. EncodeLong buf 0 (sz_Value c), \<lambda>buf. EncodeInt buf (fa_LongSize api) (EncodeUnit (sz_Unit c))],
       endFrame api]"

definition DecodeCapacity :: "('f, 'x) frame_api_scheme \<Rightarrow> ('f, Size_cfg) decoder" where
  "DecodeCapacity api = structD (\<lambda>f. bindD (longAt api f 0) (\<lambda>v. bindD (intAt api f (fa_LongSize api)) (\<lambda>unit.
     finishD api \<lparr> sz_Value = v, sz_Unit = DecodeUnit unit \<rparr>)))"

definition EncodeMemoryTierConfig :: "('f, 'x) frame_api_scheme \<Rightarrow> MemoryTierConfig \<Rightarrow> 'f list go" where
  "EncodeMemoryTierConfig api m = addFrames [beginFrame api, EncodeCapacity api (mtc_Capacity m), endFrame api]"

definition DecodeMemoryTierConfig :: "('f, 'x) frame_api_scheme \<Rightarrow> ('f, MemoryTierConfig) decoder" where
  "DecodeMemoryTierConfig api = bindD skipD (\<lambda>_. bindD (DecodeCapacity api) (\<lambda>c. finishD api \<lparr> mtc_Capacity = c \<rparr>))"

definition EncodeTieredStoreConfig :: "('f, 'x) frame_api_scheme \<Rightarrow> TieredStoreConfig_codec \<Rightarrow> 'f list go" where
  "EncodeTieredStoreConfig api t =
     addFrames [beginFrame api, initialFrame api (fa_BooleanSize api) [\<lambda>buf. EncodeBoolean buf 0 (tsk_Enabled t)],
       EncodeMemoryTierConfig api (tsk_MemoryTierConfig t), EncodeDiskTierConfig api (tsk_DiskTierConfig t), endFrame api]"

definition DecodeTieredStoreConfig :: "('f, 'x) frame_api_scheme \<Rightarrow> ('f, TieredStoreConfig_codec) decoder" where
  "DecodeTieredStoreConfig api = structD (\<lambda>f. bindD (boolAt api f 0) (\<lambda>enabled.
     bindD (DecodeMemoryTierConfig api) (\<lambda>memory. bindD (DecodeDiskTierConfig api) (\<lambda>disk.
     finishD api \<lparr> tsk_Enabled = enabled, tsk_MemoryTierConfig = memory, tsk_DiskTierConfig = disk \<rparr>))))"

definition EncodeDurationConfig :: "('f, 'x) frame_api_scheme \<Rightarrow> DurationConfig \<Rightarrow> 'f list go" where
  "EncodeDurationConfig api d =
     addFrames [beginFrame api,
       initialFrame api (fa_LongSize api + fa_IntSize api)
         [\<lambda>buf. EncodeLong buf 0 (duc_DurationAmount d), \<lambda>buf. EncodeInt buf (fa_LongSize api) (duc_TimeUnit d)],
       endFrame api]"

definition DecodeDurationConfig :: "('f, 'x) frame_api_scheme \<Rightarrow> ('f, DurationConfig) decoder" where
  "DecodeDurationConfig api = structD (\<lambda>f. bindD (longAt api f 0) (\<lambda>amount. bindD (intAt api f (fa_LongSize api)) (\<lambda>unit.
     finishD api \<lparr> duc_DurationAmount = amount, duc_TimeUnit = unit \<rparr>)))"

definition EncodeTimedExpiryPolicyFactoryConfig :: "('f, 'x) frame_api_scheme \<Rightarrow> TimedExpiryPolicyFactoryConfig \<Rightarrow> 'f list go" where
  "EncodeTimedExpiryPolicyFactoryConfig api t =
     addFrames [beginFrame api, initialFrame api (fa_IntSize api) [\<lambda>buf. EncodeInt buf 0 (tep_ExpiryPolicyType t)],
       EncodeDurationConfig api (tep_DurationConfig t), endFrame api]"

definition EncodeNullableForEncodeTimedExpiryPolicyFactoryConfig :: "('f, 'x) frame_api_scheme \<Rightarrow> TimedExpiryPolicyFactoryConfig \<Rightarrow> 'f list go" where
  "EncodeNullableForEncodeTimedExpiryPolicyFactoryConfig api t =
     (if t = TimedExpiryPolicyFactoryConfigZero then nullFrame api else EncodeTimedExpiryPolicyFactoryConfig api t)"

definition DecodeTimedExpiryPolicyFactoryConfig :: "('f, 'x) frame_api_scheme \<Rightarrow> ('f, TimedExpiryPolicyFactoryConfig) decoder" where
  "DecodeTimedExpiryPolicyFactoryConfig api = structD (\<lambda>f. bindD (intAt api f 0) (\<lambda>policy. bindD (DecodeDurationConfig api) (\<lambda>duration.
     finishD api \<lparr> tep_ExpiryPolicyType = policy, tep_DurationConfig = duration \<rparr>)))"

subsection \<open>Holders\<close>

definition EncodeEvictionConfigHolder :: "('f, 'x) frame_api_scheme \<Rightarrow> EvictionConfigHolder \<Rightarrow> 'f list go" where
  "EncodeEvictionConfigHolder api e =
     addFrames [beginFrame api, initialFrame api (fa_IntSize api) [\<lambda>buf. EncodeInt buf 0 (ech_Size e)],
       EncodeString api (ech_MaxSizePolicy e), EncodeString api (ech_EvictionPolicy e),
       EncodeNullableForString api (ech_ComparatorClassName e), EncodeNullableForData api (ech_Comparator e), endFrame api]"

definition EncodeNullableForEvictionConfigHolder :: "('f, 'x) frame_api_scheme \<Rightarrow> EvictionConfigHolder \<Rightarrow> 'f list go" where
  "EncodeNullableForEvictionConfigHolder api e = (if e = EvictionConfigHolderZero then nullFrame api else EncodeEvictionConfigHolder api e)"

definition DecodeEvictionConfigHolder :: "('f, 'x) frame_api_scheme \<Rightarrow> ('f, EvictionConfigHolder) decoder" where
  "DecodeEvictionConfigHolder api = structD (\<lambda>f. bindD (intAt api f 0) (\<lambda>size'.
     bindD (DecodeString api) (\<lambda>maxSizePolicy. bindD (DecodeString api) (\<lambda>evictionPolicy.
     bindD (DecodeNullableForString api) (\<lambda>comparatorClass. bindD (DecodeNullableForData api) (\<lambda>comparator.
     finishD api \<lparr> ech_Size = size', ech_MaxSizePolicy = maxSizePolicy, ech_EvictionPolicy = evictionPolicy,
       ech_ComparatorClassName = comparatorClass, ech_Comparator = comparator \<rparr>))))))"

definition EncodeListenerConfigHolder :: "('f, 'x) frame_api_scheme \<Rightarrow> ListenerConfigHolder \<Rightarrow> 'f list go" where
  "EncodeListenerConfigHolder api l =
     addFrames [beginFrame api,
       initialFrame api (fa_IntSize api + fa_BooleanSize api + fa_BooleanSize api)
         [\<lambda>buf. EncodeInt buf 0 (lch_ListenerType l), \<lambda>buf. EncodeBoolean buf (fa_IntSize api) (lch_IncludeValue l),
          \<lambda>buf. EncodeBoolean buf (fa_IntSize api + fa_BooleanSize api) (lch_Local l)],
       EncodeNullableForData api (lch_ListenerImplementation l), EncodeNullableForString api (lch_ClassName l), endFrame api]"

definition DecodeListenerConfigHolder :: "('f, 'x) frame_api_scheme \<Rightarrow> ('f, ListenerConfigHolder) decoder" where
  "DecodeListenerConfigHolder api = structD (\<lambda>f. bindD (intAt api f 0) (\<lambda>listenerType.
     bindD (boolAt api f (fa_IntSize api)) (\<lambda>includeValue. bindD (boolAt api f (fa_IntSize api + fa_BooleanSize api)) (\<lambda>loc.
     bindD (DecodeNullableForData api) (\<lambda>implementation. bindD (DecodeNullableForString api) (\<lambda>className.
     finishD api \<lparr> lch_ListenerType = listenerType, lch_ListenerImplementation = implementation, lch_ClassName = className,
       lch_IncludeValue = includeValue, lch_Local = loc \<rparr>))))))"

definition EncodeListMultiFrameListenerConfigHolder :: "('f, 'x) frame_api_scheme \<Rightarrow> ListenerConfigHolder list \<Rightarrow> 'f list go" where
  "EncodeListMultiFrameListenerConfigHolder api = encodeList api (EncodeListenerConfigHolder api)"

definition EncodeNullableListMultiFrameForListenerConfigHolder :: "('f, 'x) frame_api_scheme \<Rightarrow> ListenerConfigHolder list option \<Rightarrow> 'f list go" where
  "EncodeNullableListMultiFrameForListenerConfigHolder api = encodeNullableList api (EncodeListenerConfigHolder api)"

definition DecodeNullableListMultiFrameForListenerConfigHolder :: "('f, 'x) frame_api_scheme \<Rightarrow> ('f, ListenerConfigHolder list option) decoder" where
  "DecodeNullableListMultiFrameForListenerConfigHolder api =
     nullOr api None (bindD (DecodeListMultiFrame api (DecodeListenerConfigHolder api)) (\<lambda>xs. returnD (nilIfEmpty xs)))"

definition EncodeMapStoreConfigHolder :: "('f, 'x) frame_api_scheme \<Rightarrow> MapStoreConfigHolder \<Rightarrow> 'f list go" where
  "EncodeMapStoreConfigHolder api m =
     addFrames [beginFrame api,
       initialFrame api (fa_BooleanSize api + fa_BooleanSize api + fa_IntSize api + fa_IntSize api)
         [\<lambda>buf. EncodeBoolean buf 0 (msh_Enabled m), \<lambda>buf. EncodeBoolean buf (fa_BooleanSize api) (msh_WriteCoalescing m),
          \<lambda>buf. EncodeInt buf (fa_BooleanSize api + fa_BooleanSize api) (msh_WriteDelaySeconds m),
          \<lambda>buf. EncodeInt buf (fa_BooleanSize api + fa_BooleanSize api + fa_IntSize api) (msh_WriteBatchSize m)],
       EncodeNullableForString api (msh_ClassName m), EncodeNullableForData api (msh_Implementation m),
       EncodeNullableForString api (msh_FactoryClassName m), EncodeNullableForData api (msh_FactoryImplementation m),
       EncodeNullableMapForStringAndString api (msh_Properties m), EncodeString api (msh_InitialLoadMode m), endFrame api]"

definition EncodeNullableForMapStoreConfigHolder :: "('f, 'x) frame_api_scheme \<Rightarrow> MapStoreConfigHolder \<Rightarrow> 'f list go" where
  "EncodeNullableForMapStoreConfigHolder api m = (if m = MapStoreConfigHolderZero then nullFrame api else EncodeMapStoreConfigHolder api m)"

definition DecodeMapStoreConfigHolder :: "('f, 'x) frame_api_scheme \<Rightarrow> ('f, MapStoreConfigHolder) decoder" where
  "DecodeMapStoreConfigHolder api = structD (\<lambda>f. bindD (boolAt api f 0) (\<lambda>enabled. bindD (boolAt api f (fa_BooleanSize api)) (\<lambda>coalescing.
     bindD (intAt api f (fa_BooleanSize api + fa_BooleanSize api)) (\<lambda>delay.
     bindD (intAt api f (fa_BooleanSize api + fa_BooleanSize api + fa_IntSize api)) (\<lambda>batch.
     bindD (DecodeNullableForString api) (\<lambda>className. bindD (DecodeNullableForData api) (\<lambda>implementation.
     bindD (DecodeNullableForString api) (\<lambda>factory. bindD (DecodeNullableForData api) (\<lambda>factoryImplementation.
     bindD (DecodeNullableMapForStringAndString api) (\<lambda>properties. bindD (DecodeString api) (\<lambda>mode.
     finishD api \<lparr> msh_Enabled = enabled, msh_WriteCoalescing = coalescing, msh_WriteDelaySeconds = delay,
       msh_WriteBatchSize = batch, msh_ClassName = className, msh_Implementation = implementation, msh_FactoryClassName = factory,
       msh_FactoryImplementation = factoryImplementation, msh_Properties = properties, msh_InitialLoadMode = mode \<rparr>)))))))))))"

definition EncodeNearCachePreloaderConfig :: "('f, 'x) frame_api_scheme \<Rightarrow> NearCachePreloaderConfig \<Rightarrow> 'f list go" where
  "EncodeNearCachePreloaderConfig api p =
     addFrames [beginFrame api,
       initialFrame api (fa_BooleanSize api + fa_IntSize api + fa_IntSize api)
         [\<lambda>buf. EncodeBoolean buf 0 (npc_Enabled p), \<lambda>buf. EncodeInt buf (fa_BooleanSize api) (npc_StoreInitialDelaySeconds p),
          \<lambda>buf. EncodeInt buf (fa_BooleanSize api + fa_IntSize api) (npc_StoreIntervalSeconds p)],
       EncodeString api (npc_Directory p), endFrame api]"

definition NearCachePreloaderZero :: NearCachePreloaderConfig where
  "NearCachePreloaderZero = \<lparr> npc_Enabled = False, npc_Directory = [], npc_StoreInitialDelaySeconds = 0, npc_StoreIntervalSeconds = 0 \<rparr>"

definition EncodeNullableForNearCachePreloaderConfig :: "('f, 'x) frame_api_scheme \<Rightarrow> NearCachePreloaderConfig \<Rightarrow> 'f list go" where
  "EncodeNullableForNearCachePreloaderConfig api p = (if p = NearCachePreloaderZero then nullFrame api else EncodeNearCachePreloaderConfig api p)"

definition DecodeNearCachePreloaderConfig :: "('f, 'x) frame_api_scheme \<Rightarrow> ('f, NearCachePreloaderConfig) decoder" where
  "DecodeNearCachePreloaderConfig api = structD (\<lambda>f. bindD (boolAt api f 0) (\<lambda>enabled. bindD (intAt api f (fa_BooleanSize api)) (\<lambda>delay.
     bindD (intAt api f (fa_BooleanSize api + fa_IntSize api)) (\<lambda>interval. bindD (DecodeString api) (\<lambda>directory.
     finishD api \<lparr> npc_Enabled = enabled, npc_Directory = directory, npc_StoreInitialDelaySeconds = delay, npc_StoreIntervalSeconds = interval \<rparr>)))))"

definition DecodeNullableForNearCachePreloaderConfig :: "('f, 'x) frame_api_scheme \<Rightarrow> ('f, NearCachePreloaderConfig) decoder" where
  "DecodeNullableForNearCachePreloaderConfig api = nullOr api NearCachePreloaderZero (DecodeNearCachePreloaderConfig api)"

definition EncodeNearCacheConfigHolder :: "('f, 'x) frame_api_scheme \<Rightarrow> NearCacheConfigHolder \<Rightarrow> 'f list go" where
  "EncodeNearCacheConfigHolder api n =
     addFrames [beginFrame api,
       initialFrame api (fa_BooleanSize api + fa_BooleanSize api + fa_IntSize api + fa_IntSize api + fa_BooleanSize api)
         [\<lambda>buf. EncodeBoolean buf 0 (nch_SerializeKeys n), \<lambda>buf. EncodeBoolean buf (fa_BooleanSize api) (nch_InvalidateOnChange n),
          \<lambda>buf. EncodeInt buf (fa_BooleanSize api + fa_BooleanSize api) (nch_TimeToLiveSeconds n),
          \<lambda>buf. EncodeInt buf (fa_BooleanSize api + fa_BooleanSize api + fa_IntSize api) (nch_MaxIdleSeconds n),
          \<lambda>buf. EncodeBoolean buf (fa_BooleanSize api + fa_BooleanSize api + fa_IntSize api + fa_IntSize api) (nch_CacheLocalEntries n)],
       EncodeString api (nch_Name n), EncodeString api (nch_InMemoryFormat n),
       EncodeEvictionConfigHolder api (nch_EvictionConfigHolder n), EncodeString api (nch_LocalUpdatePolicy n),
       EncodeNullableForNearCachePreloaderConfig api (nch_PreloaderConfig n), endFrame api]"

definition EncodeNullableForNearCacheConfigHolder :: "('f, 'x) frame_api_scheme \<Rightarrow> NearCacheConfigHolder \<Rightarrow> 'f list go" where
  "EncodeNullableForNearCacheConfigHolder api n = (if n = NearCacheConfigHolderZero then nullFrame api else EncodeNearCacheConfigHolder api n)"

definition DecodeNearCacheConfigHolder :: "('f, 'x) frame_api_scheme \<Rightarrow> ('f, NearCacheConfigHolder) decoder" where
  "DecodeNearCacheConfigHolder api = structD (\<lambda>f. bindD (boolAt api f 0) (\<lambda>serializeKeys. bindD (boolAt api f (fa_BooleanSize api)) (\<lambda>invalidate.
     bindD (intAt api f (fa_BooleanSize api + fa_BooleanSize api)) (\<lambda>ttl.
     bindD (intAt api f (fa_BooleanSize api + fa_BooleanSize api + fa_IntSize api)) (\<lambda>idle.
     bindD (boolAt api f (fa_BooleanSize api + fa_BooleanSize api + fa_IntSize api + fa_IntSize api)) (\<lambda>cacheLocal.
     bindD (DecodeString api) (\<lambda>name. bindD (DecodeString api) (\<lambda>inMemoryFormat. bindD (DecodeEvictionConfigHolder api) (\<lambda>eviction.
     bindD (DecodeString api) (\<lambda>policy. bindD (DecodeNullableForNearCachePreloaderConfig api) (\<lambda>preloader.
     finishD api \<lparr> nch_Name = name, nch_InMemoryFormat = inMemoryFormat, nch_SerializeKeys = serializeKeys,
       nch_InvalidateOnChange = invalidate, nch_TimeToLiveSeconds = ttl, nch_MaxIdleSeconds = idle, nch_EvictionConfigHolder = eviction,
       nch_CacheLocalEntries = cacheLocal, nch_LocalUpdatePolicy = policy, nch_PreloaderConfig = preloader \<rparr>)))))))))))"

definition EncodeWanReplicationRef :: "('f, 'x) frame_api_scheme \<Rightarrow> WanReplicationRef \<Rightarrow> 'f list go" where
  "EncodeWanReplicationRef api r =
     addFrames [beginFrame api, initialFrame api (fa_BooleanSize api) [\<lambda>buf. EncodeBoolean buf 0 (wref_RepublishingEnabled r)],
       EncodeString api (wref_Name r), EncodeString api (wref_MergePolicyClassName r),
       EncodeNullableListMultiFrameForString api (wref_Filters r), endFrame api]"

definition EncodeNullableForWanReplicationRef :: "('f, 'x) frame_api_scheme \<Rightarrow> WanReplicationRef \<Rightarrow> 'f list go" where
  "EncodeNullableForWanReplicationRef api r = (if r = WanReplicationRefZero then nullFrame api else EncodeWanReplicationRef api r)"

definition DecodeWanReplicationRef :: "('f, 'x) frame_api_scheme \<Rightarrow> ('f, WanReplicationRef) decoder" where
  "DecodeWanReplicationRef api = structD (\<lambda>f. bindD (boolAt api f 0) (\<lambda>republishing. bindD (DecodeString api) (\<lambda>name.
     bindD (DecodeString api) (\<lambda>policy. bindD (DecodeNullableListMultiFrameForString api) (\<lambda>filters.
     finishD api \<lparr> wref_Name = name, wref_MergePolicyClassName = policy, wref_Filters = filters, wref_RepublishingEnabled = republishing \<rparr>)))))"

definition EncodePredicateConfigHolder :: "('f, 'x) frame_api_scheme \<Rightarrow> PredicateConfigHolder \<Rightarrow> 'f list go" where
  "EncodePredicateConfigHolder api p =
     addFrames [beginFrame api, EncodeNullableForString api (pch_ClassName p), EncodeNullableForString api (pch_Sql p),
       EncodeNullableForData api (pch_Implementation p), endFrame api]"

definition DecodePredicateConfigHolder :: "('f, 'x) frame_api_scheme \<Rightarrow> ('f, PredicateConfigHolder) decoder" where
  "DecodePredicateConfigHolder api = bindD skipD (\<lambda>_. bindD (DecodeNullableForString api) (\<lambda>className.
     bindD (DecodeNullableForString api) (\<lambda>sql. bindD (DecodeNullableForData api) (\<lambda>implementation.
     finishD api \<lparr> pch_ClassName = className, pch_Sql = sql, pch_Implementation = implementation \<rparr>))))"

definition EncodeQueryCacheConfigHolder :: "('f, 'x) frame_api_scheme \<Rightarrow> QueryCacheConfigHolder \<Rightarrow> 'f list go" where
  "EncodeQueryCacheConfigHolder api q =
     (let i = fa_IntSize api; b = fa_BooleanSize api in
      addFrames [beginFrame api,
       initialFrame api (i + i + i + b + b + b)
         [\<lambda>buf. EncodeInt buf 0 (qch_BatchSize q), \<lambda>buf. EncodeInt buf i (qch_BufferSize q), \<lambda>buf. EncodeInt buf (i + i) (qch_DelaySeconds q),
          \<lambda>buf. EncodeBoolean buf (i + i + i) (qch_IncludeValue q), \<lambda>buf. EncodeBoolean buf (i + i + i + b) (qch_Populate q),
          \<lambda>buf. EncodeBoolean buf (i + i + i + b + b) (qch_Coalesce q)],
       EncodeString api (qch_InMemoryFormat q), EncodeString api (qch_Name q),
       EncodePredicateConfigHolder api (qch_PredicateConfigHolder q), EncodeEvictionConfigHolder api (qch_EvictionConfigHolder q),
       EncodeNullableListMultiFrameForListenerConfigHolder api (qch_ListenerConfigs q),
       EncodeNullableListMultiFrameForIndexConfig api (qch_IndexConfigs q), endFrame api])"

definition EncodeListMultiFrameQueryCacheConfigHolder :: "('f, 'x) frame_api_scheme \<Rightarrow> QueryCacheConfigHolder list \<Rightarrow> 'f list go" where
  "EncodeListMultiFrameQueryCacheConfigHolder api = encodeList api (EncodeQueryCacheConfigHolder api)"

definition EncodeNullableListMultiFrameForQueryCacheConfigHolder :: "('f, 'x) frame_api_scheme \<Rightarrow> QueryCacheConfigHolder list option \<Rightarrow> 'f list go" where
  "EncodeNullableListMultiFrameForQueryCacheConfigHolder api = encodeNullableList api (EncodeQueryCacheConfigHolder api)"

definition DecodeQueryCacheConfigHolder :: "('f, 'x) frame_api_scheme \<Rightarrow> ('f, QueryCacheConfigHolder) decoder" where
  "DecodeQueryCacheConfigHolder api = (let i = fa_IntSize api; b = fa_BooleanSize api in
     structD (\<lambda>f. bindD (intAt api f 0) (\<lambda>batch. bindD (intAt api f i) (\<lambda>buffer. bindD (intAt api f (i + i)) (\<lambda>delay.
     bindD (boolAt api f (i + i + i)) (\<lambda>includeValue. bindD (boolAt api f (i + i + i + b)) (\<lambda>populate.
     bindD (boolAt api f (i + i + i + b + b)) (\<lambda>coalesce.
     bindD (DecodeString api) (\<lambda>inMemoryFormat. bindD (DecodeString api) (\<lambda>name. bindD (DecodePredicateConfigHolder api) (\<lambda>predicate.
     bindD (DecodeEvictionConfigHolder api) (\<lambda>eviction. bindD (DecodeNullableListMultiFrameForListenerConfigHolder api) (\<lambda>listeners.
     bindD (DecodeNullableListMultiFrameForIndexConfig api) (\<lambda>indexes.
     finishD api \<lparr> qch_BatchSize = batch, qch_BufferSize = buffer, qch_DelaySeconds = delay, qch_IncludeValue = includeValue,
       qch_Populate = populate, qch_Coalesce = coalesce, qch_InMemoryFormat = inMemoryFormat, qch_Name = name,
       qch_PredicateConfigHolder = predicate, qch_EvictionConfigHolder = eviction, qch_ListenerConfigs = listeners,
       qch_IndexConfigs = indexes \<rparr>))))))))))))))"

end
