(* ===== verification/Request_Codecs.thy ===== *)
theory Request_Codecs
  imports Config_Codecs
begin

text \<open>
  The requests of the operator and the responses it reads (\<^verbatim>\<open>internal/protocol/codec\<close>: \<^verbatim>\<open>dynamic_config_add_*\<close>,
  \<^verbatim>\<open>mc_*\<close> and \<^verbatim>\<open>jet_*\<close>). A request starts with a frame that has room for the message type and the
  partition, which the Go client fills in, and for the fields of fixed size.
\<close>

text \<open>What else the codecs use of the Go client: messages and UUIDs. The message type and the partition are
  written into the buffer of the first frame; without room for them the write panics.\<close>

record ('f, 'u) message_api = "'f frame_api" +
  ma_UnfragmentedFrame :: "byte list \<Rightarrow> 'f"
  ma_SetMessageType :: "int32 \<Rightarrow> 'f \<Rightarrow> 'f go"
  ma_SetPartitionId :: "int32 \<Rightarrow> 'f \<Rightarrow> 'f go"
  ma_PartitionIDOffset :: nat
  ma_ResponseBackupAcksOffset :: nat
  ma_UuidSize :: nat
  ma_MostSignificantBits :: "'u \<Rightarrow> uint64"
  ma_LeastSignificantBits :: "'u \<Rightarrow> uint64"
  ma_UUIDDefault :: "'u \<Rightarrow> bool"
  ma_NewUUIDWith :: "uint64 \<Rightarrow> uint64 \<Rightarrow> 'u"
  ma_ZeroUUID :: 'u

record 'f ClientMessage =
  cm_Retryable :: bool
  cm_Frames :: "'f list"

definition EncodeUUID :: "('f, 'u) message_api \<Rightarrow> byte list \<Rightarrow> nat \<Rightarrow> 'u \<Rightarrow> byte list go" where
  "EncodeUUID api buffer offset uuid =
     Option.bind (EncodeBoolean buffer offset (ma_UUIDDefault api uuid)) (\<lambda>b.
     if ma_UUIDDefault api uuid then Some b
     else Option.bind (EncodeLong b (offset + fa_BooleanSize api) (ma_MostSignificantBits api uuid)) (\<lambda>b.
          EncodeLong b (offset + fa_BooleanSize api + fa_LongSize api) (ma_LeastSignificantBits api uuid)))"

definition DecodeUUID :: "('f, 'u) message_api \<Rightarrow> byte list \<Rightarrow> nat \<Rightarrow> 'u go" where
  "DecodeUUID api buffer offset =
     Option.bind (DecodeBoolean buffer offset) (\<lambda>isNull.
     if isNull then Some (ma_ZeroUUID api)
     else Option.bind (DecodeLong buffer (offset + fa_BooleanSize api)) (\<lambda>most.
          map_option (ma_NewUUIDWith api most) (DecodeLong buffer (offset + fa_BooleanSize api + fa_LongSize api))))"

text \<open>\<open>requestOf\<close>: the parts every encoder of a request has; \<open>header\<close> is the offset after the header.\<close>

definition header :: "('f, 'u) message_api \<Rightarrow> nat" where
  "header api = ma_PartitionIDOffset api + fa_IntSize api"

definition requestAt :: "int32 \<Rightarrow> ('f, 'u) message_api \<Rightarrow> bool \<Rightarrow> int32 \<Rightarrow> nat \<Rightarrow> (byte list \<Rightarrow> byte list go) list \<Rightarrow> 'f list go list \<Rightarrow>
    'f ClientMessage go" where
  "requestAt pid api retryable msgType n ws parts =
     Option.bind (fold (\<lambda>w b. Option.bind b w) ws (Some (replicate n 0))) (\<lambda>content.
     Option.bind (ma_SetMessageType api msgType (ma_UnfragmentedFrame api content)) (\<lambda>typed.
     Option.bind (ma_SetPartitionId api pid typed) (\<lambda>initial.
     map_option (\<lambda>fs. \<lparr> cm_Retryable = retryable, cm_Frames = initial # fs \<rparr>) (addFrames parts))))"

definition requestOf :: "('f, 'u) message_api \<Rightarrow> bool \<Rightarrow> int32 \<Rightarrow> nat \<Rightarrow> (byte list \<Rightarrow> byte list go) list \<Rightarrow> 'f list go list \<Rightarrow>
    'f ClientMessage go" where
  "requestOf = requestAt (-1)"

subsection \<open>Configuration of a running cluster\<close>

definition EncodeDynamicConfigAddMapConfigRequest :: "('f, 'u) message_api \<Rightarrow> AddMapConfigInput \<Rightarrow> 'f ClientMessage go" where
  "EncodeDynamicConfigAddMapConfigRequest api c =
     (let i = fa_IntSize api; b = fa_BooleanSize api; h = header api in
      requestOf api False 0x1B0C00 (h + i + i + i + i + b + i + b + i + b)
       [\<lambda>buf. EncodeInt buf h (am_BackupCount c), \<lambda>buf. EncodeInt buf (h + i) (am_AsyncBackupCount c),
        \<lambda>buf. EncodeInt buf (h + i + i) (am_TimeToLiveSeconds c), \<lambda>buf. EncodeInt buf (h + i + i + i) (am_MaxIdleSeconds c),
        \<lambda>buf. EncodeBoolean buf (h + i + i + i + i) (am_ReadBackupData c),
        \<lambda>buf. EncodeInt buf (h + i + i + i + i + b) (am_MergeBatchSize c),
        \<lambda>buf. EncodeBoolean buf (h + i + i + i + i + b + i) (am_StatisticsEnabled c),
        \<lambda>buf. EncodeInt buf (h + i + i + i + i + b + i + b) (am_MetadataPolicy c),
        \<lambda>buf. EncodeBoolean buf (h + i + i + i + i + b + i + b + i) (am_PerEntryStatsEnabled c)]
       [EncodeString api (am_Name c), EncodeNullableForEvictionConfigHolder api (am_EvictionConfig c),
        EncodeString api (am_CacheDeserializedValues c), EncodeString api (am_MergePolicy c), EncodeString api (am_InMemoryFormat c),
        EncodeNullableListMultiFrameForListenerConfigHolder api (am_ListenerConfigs c),
        EncodeNullableListMultiFrameForListenerConfigHolder api (am_PartitionLostListenerConfigs c),
        EncodeNullableForString api (am_SplitBrainProtectionName c),
        EncodeNullableForMapStoreConfigHolder api (am_MapStoreConfig c), EncodeNullableForNearCacheConfigHolder api (am_NearCacheConfig c),
        EncodeNullableForWanReplicationRef api (am_WanReplicationRef c),
        EncodeNullableListMultiFrameForIndexConfig api (am_IndexConfigs c),
        EncodeNullableListMultiFrameForAttributeConfig api (am_AttributeConfigs c),
        EncodeNullableListMultiFrameForQueryCacheConfigHolder api (am_QueryCacheConfigs c),
        EncodeNullableForString api (am_PartitioningStrategyClassName c),
        EncodeNullableData api (am_PartitioningStrategyImplementation c),
        EncodeNullableForHotRestartConfig api (am_HotRestartConfig c), EncodeNullableForEventJournalConfig api (am_EventJournalConfig c),
        EncodeNullableForMerkleTreeConfig api (am_MerkleTreeConfig c), EncodeDataPersistenceConfig api (am_DataPersistenceConfig c),
        EncodeTieredStoreConfig api (am_TieredStoreConfig c), nullFrame api, EncodeNullableForString api (am_UserCodeNamespace c)])"

text \<open>The store of a queue is never sent.\<close>

definition EncodeNullableForQueueStoreConfigHolder :: "('f, 'x) frame_api_scheme \<Rightarrow> QueueStoreConfigHolder \<Rightarrow> 'f list go" where
  "EncodeNullableForQueueStoreConfigHolder api _ = nullFrame api"

definition EncodeDynamicConfigAddQueueConfigRequest :: "('f, 'u) message_api \<Rightarrow> QueueConfigInput \<Rightarrow> 'f ClientMessage go" where
  "EncodeDynamicConfigAddQueueConfigRequest api q =
     (let i = fa_IntSize api; b = fa_BooleanSize api; h = header api in
      requestOf api False 0x1B0B00 (h + i + i + i + i + b + i)
       [\<lambda>buf. EncodeInt buf h (qi_BackupCount q), \<lambda>buf. EncodeInt buf (h + i) (qi_AsyncBackupCount q),
        \<lambda>buf. EncodeInt buf (h + i + i) (qi_MaxSize q), \<lambda>buf. EncodeInt buf (h + i + i + i) (qi_EmptyQueueTtl q),
        \<lambda>buf. EncodeBoolean buf (h + i + i + i + i) (qi_StatisticsEnabled q),
        \<lambda>buf. EncodeInt buf (h + i + i + i + i + b) (qi_MergeBatchSize q)]
       [EncodeString api (qi_Name q), EncodeNullableListMultiFrameForListenerConfigHolder api (qi_ListenerConfigs q),
        EncodeNullableForString api (qi_SplitBrainProtectionName q), EncodeNullableForQueueStoreConfigHolder api (qi_QueueStoreConfig q),
        EncodeString api (qi_MergePolicy q), EncodeNullableForString api (qi_PriorityComparatorClassName q),
        EncodeNullableForString api (qi_UserCodeNamespace q)])"

definition EncodeDynamicConfigAddTopicConfigRequest :: "('f, 'u) message_api \<Rightarrow> TopicConfig \<Rightarrow> 'f ClientMessage go" where
  "EncodeDynamicConfigAddTopicConfigRequest api t =
     (let b = fa_BooleanSize api; h = header api in
      requestOf api False 0x1B0700 (h + b + b + b)
       [\<lambda>buf. EncodeBoolean buf h (ti_GlobalOrderingEnabled t), \<lambda>buf. EncodeBoolean buf (h + b) (ti_StatisticsEnabled t),
        \<lambda>buf. EncodeBoolean buf (h + b + b) (ti_MultiThreadingEnabled t)]
       [EncodeString api (ti_Name t), EncodeNullableListMultiFrameForListenerConfigHolder api (ti_ListenerConfigs t),
        EncodeNullableForString api (ti_UserCodeNamespace t)])"

definition EncodeDynamicConfigAddMultiMapConfigRequest :: "('f, 'u) message_api \<Rightarrow> MultiMapConfig \<Rightarrow> 'f ClientMessage go" where
  "EncodeDynamicConfigAddMultiMapConfigRequest api m =
     (let i = fa_IntSize api; b = fa_BooleanSize api; h = header api in
      requestOf api False 0x1B0100 (h + b + i + i + b + i)
       [\<lambda>buf. EncodeBoolean buf h (mmi_Binary m), \<lambda>buf. EncodeInt buf (h + b) (mmi_BackupCount m),
        \<lambda>buf. EncodeInt buf (h + b + i) (mmi_AsyncBackupCount m), \<lambda>buf. EncodeBoolean buf (h + b + i + i) (mmi_StatisticsEnabled m),
        \<lambda>buf. EncodeInt buf (h + b + i + i + b) (mmi_MergeBatchSize m)]
       [EncodeString api (mmi_Name m), EncodeString api (mmi_CollectionType m),
        EncodeNullableListMultiFrameForListenerConfigHolder api (mmi_ListenerConfigs m),
        EncodeNullableForString api (mmi_SplitBrainProtectionName m), EncodeString api (mmi_MergePolicy m),
        EncodeNullableForString api (mmi_UserCodeNamespace m)])"

definition EncodeDynamicConfigAddReplicatedMapConfigRequest :: "('f, 'u) message_api \<Rightarrow> ReplicatedMapConfig \<Rightarrow> 'f ClientMessage go" where
  "EncodeDynamicConfigAddReplicatedMapConfigRequest api r =
     (let i = fa_IntSize api; b = fa_BooleanSize api; h = header api in
      requestOf api False 0x1B0600 (h + b + b + i)
       [\<lambda>buf. EncodeBoolean buf h (rmi_AsyncFillup r), \<lambda>buf. EncodeBoolean buf (h + b) (rmi_StatisticsEnabled r),
        \<lambda>buf. EncodeInt buf (h + b + b) (rmi_MergeBatchSize r)]
       [EncodeString api (rmi_Name r), EncodeString api (rmi_InMemoryFormat r), EncodeString api (rmi_MergePolicy r),
        EncodeNullableListMultiFrameForListenerConfigHolder api (rmi_ListenerConfigs r),
        EncodeNullableForString api (rmi_SplitBrainProtectionName r), EncodeNullableForString api (rmi_UserCodeNamespace r)])"

definition EncodeDynamicConfigAddCacheConfigRequest :: "('f, 'u) message_api \<Rightarrow> CacheConfigInput \<Rightarrow> 'f ClientMessage go" where
  "EncodeDynamicConfigAddCacheConfigRequest api c =
     (let i = fa_IntSize api; b = fa_BooleanSize api; h = header api in
      requestOf api False 0x1B0E00 (h + b + b + b + b + i + i + i + b)
       [\<lambda>buf. EncodeBoolean buf h (ci_StatisticsEnabled c), \<lambda>buf. EncodeBoolean buf (h + b) (ci_ManagementEnabled c),
        \<lambda>buf. EncodeBoolean buf (h + b + b) (ci_ReadThrough c), \<lambda>buf. EncodeBoolean buf (h + b + b + b) (ci_WriteThrough c),
        \<lambda>buf. EncodeInt buf (h + b + b + b + b) (ci_BackupCount c), \<lambda>buf. EncodeInt buf (h + b + b + b + b + i) (ci_AsyncBackupCount c),
        \<lambda>buf. EncodeInt buf (h + b + b + b + b + i + i) (ci_MergeBatchSize c),
        \<lambda>buf. EncodeBoolean buf (h + b + b + b + b + i + i + i) (ci_DisablePerEntryInvalidationEvents c)]
       [EncodeString api (ci_Name c), EncodeNullableForString api (ci_KeyType c), EncodeNullableForString api (ci_ValueType c),
        EncodeNullableForString api (ci_CacheLoaderFactory c), EncodeNullableForString api (ci_CacheWriterFactory c),
        EncodeNullableForString api (ci_CacheLoader c), EncodeNullableForString api (ci_CacheWriter c),
        EncodeString api (ci_InMemoryFormat c), EncodeNullableForString api (ci_SplitBrainProtectionName c),
        EncodeNullableForString api (ci_MergePolicy c),
        EncodeNullableListMultiFrameForListenerConfigHolder api (ci_PartitionLostListenerConfigs c),
        EncodeNullableForString api (ci_ExpiryPolicyFactoryClassName c),
        EncodeNullableForEncodeTimedExpiryPolicyFactoryConfig api (ci_TimedExpiryPolicyFactoryConfig c),
        EncodeNullableListMultiFrameForListenerConfigHolder api (ci_CacheEntryListeners c),
        EncodeNullableForEvictionConfigHolder api (ci_EvictionConfig c), EncodeNullableForWanReplicationRef api (ci_WanReplicationRef c),
        EncodeNullableForEventJournalConfig api (ci_EventJournalConfig c), EncodeNullableForHotRestartConfig api (ci_HotRestartConfig c),
        EncodeNullableForMerkleTreeConfig api (ci_MerkleTreeConfig c), EncodeDataPersistenceConfig api (ci_DataPersistenceConfig c),
        EncodeNullableForString api (ci_UserCodeNamespace c)])"

subsection \<open>Executor services and user code namespaces\<close>

record ExecutorServiceConfig =
  esi_Name :: string
  esi_PoolSize :: int32
  esi_QueueCapacity :: int32
  esi_StatisticsEnabled :: bool
  esi_SplitBrainProtectionName :: string
  esi_UserCodeNamespace :: string

record DurableExecutorServiceConfig =
  dei_Name :: string
  dei_PoolSize :: int32
  dei_Durability :: int32
  dei_Capacity :: int32
  dei_StatisticsEnabled :: bool
  dei_SplitBrainProtectionName :: string
  dei_UserCodeNamespace :: string

record ScheduledExecutorServiceConfig =
  sei_Name :: string
  sei_PoolSize :: int32
  sei_Durability :: int32
  sei_Capacity :: int32
  sei_CapacityPolicy :: string
  sei_StatisticsEnabled :: bool
  sei_MergePolicy :: string
  sei_MergeBatchSize :: int32
  sei_SplitBrainProtectionName :: string
  sei_UserCodeNamespace :: string

definition EncodeDynamicConfigAddExecutorConfigRequest :: "('f, 'u) message_api \<Rightarrow> ExecutorServiceConfig \<Rightarrow> 'f ClientMessage go" where
  "EncodeDynamicConfigAddExecutorConfigRequest api es =
     (let i = fa_IntSize api; b = fa_BooleanSize api; h = header api in
      requestOf api False 0x1B0800 (h + i + i + b)
       [\<lambda>buf. EncodeInt buf h (esi_PoolSize es), \<lambda>buf. EncodeInt buf (h + i) (esi_QueueCapacity es),
        \<lambda>buf. EncodeBoolean buf (h + i + i) (esi_StatisticsEnabled es)]
       [EncodeString api (esi_Name es), EncodeNullableForString api (esi_SplitBrainProtectionName es),
        EncodeNullableForString api (esi_UserCodeNamespace es)])"

definition EncodeDynamicConfigAddDurableExecutorConfigRequest :: "('f, 'u) message_api \<Rightarrow> DurableExecutorServiceConfig \<Rightarrow> 'f ClientMessage go" where
  "EncodeDynamicConfigAddDurableExecutorConfigRequest api es =
     (let i = fa_IntSize api; b = fa_BooleanSize api; h = header api in
      requestOf api False 0x1B0900 (h + i + i + i + b)
       [\<lambda>buf. EncodeInt buf h (dei_PoolSize es), \<lambda>buf. EncodeInt buf (h + i) (dei_Durability es),
        \<lambda>buf. EncodeInt buf (h + i + i) (dei_Capacity es), \<lambda>buf. EncodeBoolean buf (h + i + i + i) (dei_StatisticsEnabled es)]
       [EncodeString api (dei_Name es), EncodeNullableForString api (dei_SplitBrainProtectionName es),
        EncodeNullableForString api (dei_UserCodeNamespace es)])"

text \<open>The capacity policy has no place in the message.\<close>

definition EncodeDynamicConfigAddScheduledExecutorConfigRequest :: "('f, 'u) message_api \<Rightarrow> ScheduledExecutorServiceConfig \<Rightarrow> 'f ClientMessage go" where
  "EncodeDynamicConfigAddScheduledExecutorConfigRequest api es =
     (let i = fa_IntSize api; b = fa_BooleanSize api; h = header api in
      requestOf api False 0x1B0A00 (h + i + i + i + i + b)
       [\<lambda>buf. EncodeInt buf h (sei_PoolSize es), \<lambda>buf. EncodeInt buf (h + i) (sei_Durability es),
        \<lambda>buf. EncodeInt buf (h + i + i) (sei_Capacity es), \<lambda>buf. EncodeInt buf (h + i + i + i) (sei_MergeBatchSize es),
        \<lambda>buf. EncodeBoolean buf (h + i + i + i + i) (sei_StatisticsEnabled es)]
       [EncodeString api (sei_Name es), EncodeNullableForString api (sei_SplitBrainProtectionName es),
        EncodeString api (sei_MergePolicy es), EncodeNullableForString api (sei_UserCodeNamespace es)])"

record ResourceDefinition =
  rdf_ID :: string
  rdf_ResourceType :: int32
  rdf_Payload :: "byte list"
  rdf_ResourceURL :: string

record UserCodeNamespaceConfig =
  unc_Name :: string
  unc_Resources :: "ResourceDefinition list"

text \<open>The size of the first frame is that of a listener.\<close>

definition EncodeResourceDefinition :: "('f, 'x) frame_api_scheme \<Rightarrow> ResourceDefinition \<Rightarrow> 'f list go" where
  "EncodeResourceDefinition api r =
     addFrames [beginFrame api,
       initialFrame api (fa_IntSize api + fa_BooleanSize api + fa_BooleanSize api) [\<lambda>buf. EncodeInt buf 0 (rdf_ResourceType r)],
       EncodeString api (rdf_ID r), EncodeNullableForByteArray api (rdf_Payload r), EncodeNullableForString api (rdf_ResourceURL r),
       endFrame api]"

definition EncodeListMultiFrameResourceDefinition :: "('f, 'x) frame_api_scheme \<Rightarrow> ResourceDefinition list \<Rightarrow> 'f list go" where
  "EncodeListMultiFrameResourceDefinition api = encodeList api (EncodeResourceDefinition api)"

definition EncodeDynamicConfigAddUserCodeNamespaceConfigRequest :: "('f, 'u) message_api \<Rightarrow> UserCodeNamespaceConfig \<Rightarrow> 'f ClientMessage go" where
  "EncodeDynamicConfigAddUserCodeNamespaceConfigRequest api c =
     requestOf api False 0x1b1300 (header api) []
       [EncodeString api (unc_Name c), EncodeListMultiFrameResourceDefinition api (unc_Resources c)]"

subsection \<open>Management requests\<close>

definition EncodeMCGetMapConfigRequest :: "('f, 'u) message_api \<Rightarrow> string \<Rightarrow> 'f ClientMessage go" where
  "EncodeMCGetMapConfigRequest api mapName = requestOf api True 0x200300 (header api) [] [EncodeString api mapName]"

record MapConfig =
  mco_InMemoryFormat :: int32
  mco_BackupCount :: int32
  mco_AsyncBackupCount :: int32
  mco_TimeToLiveSeconds :: int32
  mco_MaxIdleSeconds :: int32
  mco_MaxSize :: int32
  mco_MaxSizePolicy :: int32
  mco_ReadBackupData :: bool
  mco_EvictionPolicy :: int32
  mco_MergePolicy :: string
  mco_Indexes :: "IndexConfig_codec list"

text \<open>The index list of older members is missing: then there is no further frame.\<close>

definition DecodeListMultiFrameForIndexConfig :: "('f, 'x) frame_api_scheme \<Rightarrow> ('f, IndexConfig_codec list) decoder" where
  "DecodeListMultiFrameForIndexConfig api fs = (if fs = [] then Decoded [] fs else DecodeListMultiFrame api (DecodeIndexConfig api) fs)"

definition DecodeMCGetMapConfigResponse :: "('f, 'u) message_api \<Rightarrow> ('f, MapConfig) decoder" where
  "DecodeMCGetMapConfigResponse api =
     (let i = fa_IntSize api; o' = ma_ResponseBackupAcksOffset api + fa_ByteSize api in
      bindD NextD (\<lambda>f. bindD (intAt api f o') (\<lambda>inMemoryFormat. bindD (intAt api f (o' + i)) (\<lambda>backupCount.
      bindD (intAt api f (o' + i + i)) (\<lambda>asyncBackupCount. bindD (intAt api f (o' + i + i + i)) (\<lambda>ttl.
      bindD (intAt api f (o' + i + i + i + i)) (\<lambda>maxIdle. bindD (intAt api f (o' + i + i + i + i + i)) (\<lambda>maxSize.
      bindD (intAt api f (o' + i + i + i + i + i + i)) (\<lambda>maxSizePolicy.
      bindD (boolAt api f (o' + i + i + i + i + i + i + i)) (\<lambda>readBackupData.
      bindD (intAt api f (o' + i + i + i + i + i + i + i + fa_BooleanSize api)) (\<lambda>evictionPolicy.
      bindD (DecodeString api) (\<lambda>mergePolicy. bindD (DecodeListMultiFrameForIndexConfig api) (\<lambda>indexes.
      returnD \<lparr> mco_InMemoryFormat = inMemoryFormat, mco_BackupCount = backupCount, mco_AsyncBackupCount = asyncBackupCount,
        mco_TimeToLiveSeconds = ttl, mco_MaxIdleSeconds = maxIdle, mco_MaxSize = maxSize, mco_MaxSizePolicy = maxSizePolicy,
        mco_ReadBackupData = readBackupData, mco_EvictionPolicy = evictionPolicy, mco_MergePolicy = mergePolicy,
        mco_Indexes = indexes \<rparr>)))))))))))))"

definition EncodeMCUpdateMapConfigRequest :: "('f, 'u) message_api \<Rightarrow> string \<Rightarrow> int32 \<Rightarrow> int32 \<Rightarrow> int32 \<Rightarrow> bool \<Rightarrow> int32 \<Rightarrow> int32 \<Rightarrow>
    WanReplicationRef \<Rightarrow> 'f ClientMessage go" where
  "EncodeMCUpdateMapConfigRequest api mapName ttl maxIdle evictionPolicy readBackupData maxSize maxSizePolicy wrr =
     (let i = fa_IntSize api; b = fa_BooleanSize api; h = header api in
      requestOf api False 0x200400 (h + i + i + i + b + i + i)
       [\<lambda>buf. EncodeInt buf h ttl, \<lambda>buf. EncodeInt buf (h + i) maxIdle, \<lambda>buf. EncodeInt buf (h + i + i) evictionPolicy,
        \<lambda>buf. EncodeBoolean buf (h + i + i + i) readBackupData, \<lambda>buf. EncodeInt buf (h + i + i + i + b) maxSize,
        \<lambda>buf. EncodeInt buf (h + i + i + i + b + i) maxSizePolicy]
       [EncodeString api mapName, EncodeNullableForWanReplicationRef api wrr])"

definition EncodeMCAddWanBatchPublisherConfigRequest :: "('f, 'u) message_api \<Rightarrow> string \<Rightarrow> string \<Rightarrow> string \<Rightarrow> string \<Rightarrow> int32 \<Rightarrow> int32 \<Rightarrow>
    int32 \<Rightarrow> int32 \<Rightarrow> int32 \<Rightarrow> int32 \<Rightarrow> byte \<Rightarrow> 'f ClientMessage go" where
  "EncodeMCAddWanBatchPublisherConfigRequest api name targetCluster publisherId endpoints queueCapacity batchSize maxDelay timeout ackType
     queueFullBehavior consistencyCheck =
     (let i = fa_IntSize api; h = header api in
      requestOf api False 0x201500 (h + i + i + i + i + i + i + fa_ByteSize api)
       [\<lambda>buf. EncodeInt buf h queueCapacity, \<lambda>buf. EncodeInt buf (h + i) batchSize, \<lambda>buf. EncodeInt buf (h + i + i) maxDelay,
        \<lambda>buf. EncodeInt buf (h + i + i + i) timeout, \<lambda>buf. EncodeInt buf (h + i + i + i + i) ackType,
        \<lambda>buf. EncodeInt buf (h + i + i + i + i + i) queueFullBehavior,
        \<lambda>buf. EncodeByte buf (h + i + i + i + i + i + i) consistencyCheck]
       [EncodeString api name, EncodeString api targetCluster, EncodeNullableForString api publisherId, EncodeString api endpoints])"

definition DecodeMCAddWanBatchPublisherConfigResponse :: "('f, 'x) frame_api_scheme \<Rightarrow> ('f, string list \<times> string list) decoder" where
  "DecodeMCAddWanBatchPublisherConfigResponse api =
     bindD skipD (\<lambda>_. bindD (DecodeListMultiFrameForString api) (\<lambda>added. bindD (DecodeListMultiFrameForString api) (\<lambda>ignored.
     returnD (added, ignored))))"

definition EncodeMCChangeClusterStateRequest :: "('f, 'u) message_api \<Rightarrow> int32 \<Rightarrow> 'f ClientMessage go" where
  "EncodeMCChangeClusterStateRequest api newState =
     requestOf api False 0x200200 (header api + fa_IntSize api) [\<lambda>buf. EncodeInt buf (header api) newState] []"

definition DecodeMCChangeClusterStateRequest :: "('f, 'u) message_api \<Rightarrow> ('f, byte) decoder" where
  "DecodeMCChangeClusterStateRequest api = bindD NextD (\<lambda>f. liftD (DecodeByte (fa_Content api f) (header api)))"

definition EncodeMCChangeWanReplicationStateRequest :: "('f, 'u) message_api \<Rightarrow> string \<Rightarrow> string \<Rightarrow> byte \<Rightarrow> 'f ClientMessage go" where
  "EncodeMCChangeWanReplicationStateRequest api name publisherId newState =
     requestOf api False 0x201300 (header api + fa_ByteSize api) [\<lambda>buf. EncodeByte buf (header api) newState]
       [EncodeString api name, EncodeString api publisherId]"

definition EncodeMCClearWanQueuesRequest :: "('f, 'u) message_api \<Rightarrow> string \<Rightarrow> string \<Rightarrow> 'f ClientMessage go" where
  "EncodeMCClearWanQueuesRequest api name publisherId =
     requestOf api False 0x201400 (header api) [] [EncodeString api name, EncodeString api publisherId]"

record WanSyncRef =
  wsr_WanReplicationName :: string
  wsr_WanPublisherId :: string
  wsr_Type :: "8 word"
  wsr_MapName :: string

text \<open>The type is an \<^verbatim>\<open>int8\<close>, which the conversion sign-extends.\<close>

definition EncodeMCWanSyncMapRequest :: "('f, 'u) message_api \<Rightarrow> WanSyncRef \<Rightarrow> 'f ClientMessage go" where
  "EncodeMCWanSyncMapRequest api s =
     requestOf api False 0x201600 (header api + fa_IntSize api) [\<lambda>buf. EncodeInt buf (header api) (scast (wsr_Type s))]
       [EncodeString api (wsr_WanReplicationName s), EncodeString api (wsr_WanPublisherId s), EncodeNullableForString api (wsr_MapName s)]"

definition DecodeMCWanSyncMapResponse :: "('f, 'u) message_api \<Rightarrow> ('f, 'u) decoder" where
  "DecodeMCWanSyncMapResponse api =
     bindD NextD (\<lambda>f. liftD (DecodeUUID api (fa_Content api f) (ma_ResponseBackupAcksOffset api + fa_ByteSize api)))"

record ClusterMetadata =
  cmd_CurrentState :: byte
  cmd_MemberVersion :: string
  cmd_JetVersion :: string
  cmd_ClusterTime :: int64

definition EncodeMCGetClusterMetadataRequest :: "('f, 'u) message_api \<Rightarrow> 'f ClientMessage go" where
  "EncodeMCGetClusterMetadataRequest api = requestOf api True 0x200E00 (header api) [] []"

definition DecodeMCGetClusterMetadataResponse :: "('f, 'u) message_api \<Rightarrow> ('f, ClusterMetadata) decoder" where
  "DecodeMCGetClusterMetadataResponse api =
     (let o' = ma_ResponseBackupAcksOffset api + fa_ByteSize api in
      bindD NextD (\<lambda>f. bindD (liftD (DecodeByte (fa_Content api f) o')) (\<lambda>state. bindD (longAt api f (o' + fa_ByteSize api)) (\<lambda>clusterTime.
      bindD (DecodeString api) (\<lambda>memberVersion. bindD (DecodeNullableForString api) (\<lambda>jetVersion.
      returnD \<lparr> cmd_CurrentState = state, cmd_MemberVersion = memberVersion, cmd_JetVersion = jetVersion, cmd_ClusterTime = clusterTime \<rparr>))))))"

definition EncodeMCGetClusterMetadataResponse :: "('f, 'u) message_api \<Rightarrow> ClusterMetadata \<Rightarrow> 'f ClientMessage go" where
  "EncodeMCGetClusterMetadataResponse api c =
     (let o' = ma_ResponseBackupAcksOffset api + fa_ByteSize api in
      requestOf api True 0x200E01 (o' + fa_ByteSize api + fa_LongSize api)
        [\<lambda>buf. EncodeByte buf o' (cmd_CurrentState c), \<lambda>buf. EncodeLong buf (o' + fa_ByteSize api) (cmd_ClusterTime c)]
        [EncodeString api (cmd_MemberVersion c), EncodeString api (cmd_JetVersion c)])"

definition EncodeMCGetMemberConfigRequest :: "('f, 'u) message_api \<Rightarrow> 'f ClientMessage go" where
  "EncodeMCGetMemberConfigRequest api = requestOf api True 0x200500 (header api) [] []"

definition DecodeMCGetMemberConfigResponse :: "('f, 'x) frame_api_scheme \<Rightarrow> ('f, string) decoder" where
  "DecodeMCGetMemberConfigResponse api = bindD skipD (\<lambda>_. DecodeString api)"

definition EncodeMCGetTimedMemberStateRequest :: "('f, 'u) message_api \<Rightarrow> 'f ClientMessage go" where
  "EncodeMCGetTimedMemberStateRequest api = requestOf api True 0x200B00 (header api) [] []"

definition DecodeMCGetTimedMemberStateResponse :: "('f, 'x) frame_api_scheme \<Rightarrow> ('f, string) decoder" where
  "DecodeMCGetTimedMemberStateResponse api = bindD skipD (\<lambda>_. DecodeNullableForString api)"

definition EncodeMCTriggerHotRestartBackupRequest :: "('f, 'u) message_api \<Rightarrow> 'f ClientMessage go" where
  "EncodeMCTriggerHotRestartBackupRequest api = requestOf api False 0x201F00 (header api) [] []"

definition EncodeMCInterruptHotRestartBackupRequest :: "('f, 'u) message_api \<Rightarrow> 'f ClientMessage go" where
  "EncodeMCInterruptHotRestartBackupRequest api = requestOf api False 0x202000 (header api) [] []"

definition EncodeMCPollMCEventsRequest :: "('f, 'u) message_api \<Rightarrow> 'f ClientMessage go" where
  "EncodeMCPollMCEventsRequest api = requestOf api False 0x201800 (header api) [] []"

subsection \<open>Jet\<close>

record SqlSummary =
  sqs_Query :: string
  sqs_Unbounded :: bool

record JobAndSqlSummary =
  jss_LightJob :: bool
  jss_JobId :: int64
  jss_ExecutionId :: int64
  jss_NameOrId :: string
  jss_Status :: int32
  jss_SubmissionTime :: int64
  jss_CompletionTime :: int64
  jss_FailureText :: string
  jss_SqlSummary :: SqlSummary
  jss_SuspensionCause :: string

definition DecodeSqlSummary :: "('f, 'x) frame_api_scheme \<Rightarrow> ('f, SqlSummary) decoder" where
  "DecodeSqlSummary api = structD (\<lambda>f. bindD (boolAt api f 0) (\<lambda>unbounded. bindD (DecodeString api) (\<lambda>query.
     finishD api \<lparr> sqs_Query = query, sqs_Unbounded = unbounded \<rparr>)))"

text \<open>The flag that says whether there was a summary is ignored by its only caller.\<close>

definition DecodeNullableForSqlSummary :: "('f, 'x) frame_api_scheme \<Rightarrow> ('f, SqlSummary \<times> bool) decoder" where
  "DecodeNullableForSqlSummary api =
     nullOr api (\<lparr> sqs_Query = [], sqs_Unbounded = False \<rparr>, False) (bindD (DecodeSqlSummary api) (\<lambda>s. returnD (s, True)))"

definition DecodeJobAndSqlSummary :: "('f, 'x) frame_api_scheme \<Rightarrow> ('f, JobAndSqlSummary) decoder" where
  "DecodeJobAndSqlSummary api = (let b = fa_BooleanSize api; i = fa_IntSize api; l = fa_LongSize api in
     structD (\<lambda>f. bindD (boolAt api f 0) (\<lambda>light. bindD (longAt api f b) (\<lambda>jobId. bindD (longAt api f (b + l)) (\<lambda>executionId.
     bindD (intAt api f (b + l + l)) (\<lambda>status. bindD (longAt api f (b + l + l + i)) (\<lambda>submission.
     bindD (longAt api f (b + l + l + i + l)) (\<lambda>completion.
     bindD (DecodeString api) (\<lambda>nameOrId. bindD (DecodeNullableForString api) (\<lambda>failureText.
     bindD (DecodeNullableForSqlSummary api) (\<lambda>(sql, _).
     bindD (bindD PeekNextD (\<lambda>f. if fa_IsEndFrame api f then returnD [] else DecodeNullableForString api)) (\<lambda>cause.
     finishD api \<lparr> jss_LightJob = light, jss_JobId = jobId, jss_ExecutionId = executionId, jss_NameOrId = nameOrId, jss_Status = status,
       jss_SubmissionTime = submission, jss_CompletionTime = completion, jss_FailureText = failureText, jss_SqlSummary = sql,
       jss_SuspensionCause = cause \<rparr>))))))))))))"

definition DecodeListMultiFrameForJobAndSqlSummary :: "('f, 'x) frame_api_scheme \<Rightarrow> ('f, JobAndSqlSummary list) decoder" where
  "DecodeListMultiFrameForJobAndSqlSummary api = DecodeListMultiFrame api (DecodeJobAndSqlSummary api)"

definition EncodeJetGetJobAndSqlSummaryListRequest :: "('f, 'u) message_api \<Rightarrow> 'f ClientMessage go" where
  "EncodeJetGetJobAndSqlSummaryListRequest api = requestOf api True 0xFE0F00 (header api) [] []"

definition DecodeJetGetJobAndSqlSummaryListResponse :: "('f, 'x) frame_api_scheme \<Rightarrow> ('f, JobAndSqlSummary list) decoder" where
  "DecodeJetGetJobAndSqlSummaryListResponse api = bindD skipD (\<lambda>_. DecodeListMultiFrameForJobAndSqlSummary api)"

definition EncodeJetResumeJobRequest :: "('f, 'u) message_api \<Rightarrow> int64 \<Rightarrow> 'f ClientMessage go" where
  "EncodeJetResumeJobRequest api jobId =
     requestOf api False 0xFE0900 (header api + fa_LongSize api) [\<lambda>buf. EncodeLong buf (header api) jobId] []"

definition EncodeJetExportSnapshotRequest :: "('f, 'u) message_api \<Rightarrow> int64 \<Rightarrow> string \<Rightarrow> bool \<Rightarrow> 'f ClientMessage go" where
  "EncodeJetExportSnapshotRequest api jobId name cancelJob =
     requestOf api False 0xFE0A00 (header api + fa_LongSize api + fa_BooleanSize api)
       [\<lambda>buf. EncodeLong buf (header api) jobId, \<lambda>buf. EncodeBoolean buf (header api + fa_LongSize api) cancelJob]
       [EncodeString api name]"

record 'u JetTerminateJob =
  jtj_JobId :: int64
  jtj_TerminateMode :: int32
  jtj_LightJobCoordinator :: 'u

definition EncodeJetTerminateJobRequest :: "('f, 'u) message_api \<Rightarrow> 'u JetTerminateJob \<Rightarrow> 'f ClientMessage go" where
  "EncodeJetTerminateJobRequest api job =
     (let h = header api; l = fa_LongSize api; i = fa_IntSize api in
      requestOf api False 0xFE0200 (h + l + i + ma_UuidSize api)
        [\<lambda>buf. EncodeLong buf h (jtj_JobId job), \<lambda>buf. EncodeInt buf (h + l) (jtj_TerminateMode job),
         \<lambda>buf. EncodeUUID api buf (h + l + i) (jtj_LightJobCoordinator job)] [])"

record 'u JobMetaData =
  jmd_SessionId :: 'u
  jmd_JarOnMember :: bool
  jmd_FileName :: string
  jmd_Sha256Hex :: string
  jmd_SnapshotName :: string
  jmd_JobName :: string
  jmd_MainClass :: string
  jmd_JobParameters :: "string list"

definition EncodeJetUploadJobMetaDataRequest :: "('f, 'u) message_api \<Rightarrow> 'u JobMetaData \<Rightarrow> 'f ClientMessage go" where
  "EncodeJetUploadJobMetaDataRequest api j =
     (let h = header api; u = ma_UuidSize api in
      requestOf api True 0xFE1100 (h + u + fa_BooleanSize api)
        [\<lambda>buf. EncodeUUID api buf h (jmd_SessionId j), \<lambda>buf. EncodeBoolean buf (h + u) (jmd_JarOnMember j)]
        [EncodeString api (jmd_FileName j), EncodeString api (jmd_Sha256Hex j), EncodeNullableForString api (jmd_SnapshotName j),
         EncodeNullableForString api (jmd_JobName j), EncodeNullableForString api (jmd_MainClass j),
         EncodeListMultiFrameForString api (jmd_JobParameters j)])"

definition EncodeJetUploadJobMultipartRequest :: "('f, 'u) message_api \<Rightarrow> 'u \<Rightarrow> int32 \<Rightarrow> int32 \<Rightarrow> byte list \<Rightarrow> int32 \<Rightarrow> 'f ClientMessage go" where
  "EncodeJetUploadJobMultipartRequest api sessionId current totalParts partData partSize =
     (let h = header api; u = ma_UuidSize api; i = fa_IntSize api in
      requestOf api True 0xFE1100 (h + u + i + i + i)
        [\<lambda>buf. EncodeUUID api buf h sessionId, \<lambda>buf. EncodeInt buf (h + u) current, \<lambda>buf. EncodeInt buf (h + u + i) totalParts,
         \<lambda>buf. EncodeInt buf (h + u + i + i) partSize] [EncodeByteArray api partData])"

definition DecodeJetUploadJobMultipartResponse :: "('f, 'u) message_api \<Rightarrow> ('f, bool) decoder" where
  "DecodeJetUploadJobMultipartResponse api = bindD NextD (\<lambda>f. boolAt api f (ma_ResponseBackupAcksOffset api + fa_ByteSize api))"

end
