(* ===== verification/Jet_Controller.thy ===== *)
theory Jet_Controller
  imports Ds_Controller Wan_Names Request_Codecs
begin

text \<open>
  The JetJob controller (\<^verbatim>\<open>jetjob_controller.go\<close>, \<^verbatim>\<open>jetjob_status.go\<close>): a job is started, suspended, resumed,
  restarted or cancelled on the cluster, and a checker per cluster copies the state of its jobs into
  the resources every ten seconds.

  The state is what \<^verbatim>\<open>JetJobReconciler\<close> keeps in memory, the checker of every cluster, and the goroutines
  that wait to run a job. Such a goroutine either runs at once, while the reconciliation that started
  it goes on, or after it: \<open>je_eager\<close> decides. A tick of a checker is an operation of its own.
\<close>

subsection \<open>State, calls, environment\<close>

type_synonym UUID = "uint64 \<times> uint64"

record jetJobStatusChecker =
  sc_jobs :: "string \<rightharpoonup> NamespacedName"
  sc_checkInProgress :: bool

definition newJetJobStatusChecker :: jetJobStatusChecker where
  "newJetJobStatusChecker = \<lparr> sc_jobs = Map.empty, sc_checkInProgress = False \<rparr>"

record jetRun =
  jn_Job :: NamespacedName
  jn_Cluster :: NamespacedName
  jn_MetaData :: "UUID JobMetaData"

record JetJobReconciler =
  jr_clusterStatusChecker :: "NamespacedName \<rightharpoonup> jetJobStatusChecker"
  jr_waiting :: "jetRun list"

record DownloadFileReq =
  dfr_FileName :: string
  dfr_DestDir :: string
  dfr_Bucket :: "bool option"
  dfr_URL :: string
  dfr_SecretName :: string

datatype jet_call =
    UpdateJetJob JetJob
  | StatusUpdateJetJob JetJob
  | UpdateJobState NamespacedName "UUID JetTerminateJob"
  | ResumeJob NamespacedName int64
  | RunJob jetRun
  | Download string DownloadFileReq
  | TriggerPhoneHomeJet

text \<open>\<open>je_SnapshotCreated\<close> reads the creation time of a JetJobSnapshot together with its snapshot name;
  \<open>je_DownloadService\<close> is the outcome of \<^verbatim>\<open>rest.NewFileDownloadService\<close> for the host of a member.\<close>

record jet_env =
  je_call :: "jet_call moment \<Rightarrow> jet_call \<Rightarrow> go_error option"
  je_Get :: "jet_call moment \<Rightarrow> NamespacedName \<Rightarrow> go_error + JetJob"
  je_List :: "jet_call moment \<Rightarrow> string \<Rightarrow> go_error + JetJob list"
  je_GetHazelcast :: "jet_call moment \<Rightarrow> NamespacedName \<Rightarrow> go_error + Hazelcast"
  je_SnapshotCreated :: "jet_call moment \<Rightarrow> NamespacedName \<Rightarrow> go_error + int option \<times> string"
  je_GetOrCreateClient :: "jet_call moment \<Rightarrow> NamespacedName \<Rightarrow> go_error + unit"
  je_MtlsClient :: "jet_call moment \<Rightarrow> string \<Rightarrow> go_error + unit"
  je_OrderedMembers :: "jet_call moment \<Rightarrow> NamespacedName \<Rightarrow> string list"
  je_order :: "jet_call moment \<Rightarrow> string list \<Rightarrow> string list"
  je_DownloadService :: "string \<Rightarrow> go_error option"
  je_JobSummaries :: "jet_call moment \<Rightarrow> NamespacedName \<Rightarrow> go_error + JobAndSqlSummary list"
  je_eager :: "jet_call moment \<Rightarrow> bool"
  je_validation :: validation_env
  je_ErrText :: "validation_error \<Rightarrow> string"
  je_ConflictText :: "conflict \<Rightarrow> string"
  je_MarshalSpec :: "JetJobSpec \<Rightarrow> go_error + string"
  je_PhoneHomeEnabled :: bool
  je_retries :: nat

type_synonym 'a jet_proc = "(JetJobReconciler, jet_call, 'a) proc"

type_synonym jet_result = "(Result \<times> go_error option) jet_proc"

definition jobKey :: "JetJob \<Rightarrow> NamespacedName" where
  "jobKey job = \<lparr> nn_Name = om_Name (jo_Meta job), nn_Namespace = om_Namespace (jo_Meta job) \<rparr>"

definition clusterOf :: "JetJob \<Rightarrow> NamespacedName" where
  "clusterOf job = \<lparr> nn_Name = jj_HazelcastResourceName (jo_Spec job), nn_Namespace = om_Namespace (jo_Meta job) \<rparr>"

subsection \<open>Checkers\<close>

definition storeJob :: "string \<Rightarrow> NamespacedName \<Rightarrow> jetJobStatusChecker \<Rightarrow> jetJobStatusChecker" where
  "storeJob jobName nn sc = sc\<lparr> sc_jobs := (sc_jobs sc)(jobName \<mapsto> nn) \<rparr>"

definition deleteJob :: "string \<Rightarrow> jetJobStatusChecker \<Rightarrow> jetJobStatusChecker" where
  "deleteJob jobName sc = sc\<lparr> sc_jobs := (sc_jobs sc)(jobName := None) \<rparr>"

definition loadJob :: "string \<Rightarrow> jetJobStatusChecker \<Rightarrow> NamespacedName option" where
  "loadJob jobName sc = sc_jobs sc jobName"

text \<open>\<open>onChecker\<close> changes the checker of a cluster, if there is one.\<close>

definition onChecker :: "NamespacedName \<Rightarrow> (jetJobStatusChecker \<Rightarrow> jetJobStatusChecker) \<Rightarrow> JetJobReconciler \<Rightarrow> JetJobReconciler" where
  "onChecker hz f r = (case jr_clusterStatusChecker r hz of
     None \<Rightarrow> r | Some sc \<Rightarrow> r\<lparr> jr_clusterStatusChecker := (jr_clusterStatusChecker r)(hz \<mapsto> f sc) \<rparr>)"

definition LoadOrStoreChecker :: "NamespacedName \<Rightarrow> JetJobReconciler \<Rightarrow> JetJobReconciler" where
  "LoadOrStoreChecker hz r = (case jr_clusterStatusChecker r hz of
     None \<Rightarrow> r\<lparr> jr_clusterStatusChecker := (jr_clusterStatusChecker r)(hz \<mapsto> newJetJobStatusChecker) \<rparr>
   | Some _ \<Rightarrow> r)"

definition removeJobFromChecker :: "JetJob \<Rightarrow> unit jet_proc" where
  "removeJobFromChecker job = changeA (onChecker (clusterOf job) (deleteJob (JobName job)))"

text \<open>\<^verbatim>\<open>runChecker\<close> starts the goroutine unless it runs already; its first tick comes at once, but after
  this call.\<close>

definition runChecker :: "NamespacedName \<Rightarrow> unit jet_proc" where
  "runChecker hz = changeA (onChecker hz (\<lambda>sc. sc\<lparr> sc_checkInProgress := True \<rparr>))"

subsection \<open>Status\<close>

record jetJobStatusBuilder =
  jb_status :: JetJobStatusPhase
  jb_err :: "go_error option"

definition jetJobWithStatus :: "JetJobStatusPhase \<Rightarrow> jetJobStatusBuilder" where
  "jetJobWithStatus s = \<lparr> jb_status = s, jb_err = None \<rparr>"

definition failedJetJobStatus :: "go_error \<Rightarrow> jetJobStatusBuilder" where
  "failedJetJobStatus err = \<lparr> jb_status = JetJobFailed, jb_err = Some err \<rparr>"

definition jet_statusOnce :: "jet_env \<Rightarrow> NamespacedName \<Rightarrow> jetJobStatusBuilder \<Rightarrow> unit jet_proc" where
  "jet_statusOnce env name options =
     bindA (observeA (\<lambda>t. je_Get env t name)) (\<lambda>jj.
     let st = (jo_Status jj)\<lparr> jjs_Phase := jb_status options \<rparr>;
         st' = (case jb_err options of None \<Rightarrow> st | Some e \<Rightarrow> st\<lparr> jjs_FailureText := error_text e \<rparr>)
     in invokeA (je_call env) (StatusUpdateJetJob (jj\<lparr> jo_Status := st' \<rparr>)))"

definition jet_updateStatus :: "jet_env \<Rightarrow> NamespacedName \<Rightarrow> jetJobStatusBuilder \<Rightarrow> jet_result" where
  "jet_updateStatus env name options =
     tryA (RetryOnConflict (je_retries env) (jet_statusOnce env name options)) (\<lambda>r.
       if jb_status options = JetJobFailed then returnA (ResultZero, jb_err options)
       else if jb_status options = JetJobNotRunning
         then returnA (\<lparr> res_Requeue = True, res_RequeueAfter = 1000000000 \<rparr>, None)
       else returnA (ResultZero, case r of Inl e \<Rightarrow> Some e | Inr _ \<Rightarrow> None))"

definition jobStatusPhase :: "int32 \<Rightarrow> JetJobStatusPhase" where
  "jobStatusPhase readStatus =
     (if readStatus = 0 then JetJobNotRunning else if readStatus = 1 then JetJobStarting
      else if readStatus = 2 then JetJobRunning else if readStatus = 3 then JetJobSuspended
      else if readStatus = 4 then JetJobSuspendedExportingSnapshot else if readStatus = 5 then JetJobCompleting
      else if readStatus = 6 then JetJobExecutionFailed else if readStatus = 7 then JetJobCompleted
      else JetJobNotRunning)"

text \<open>Milliseconds since the epoch as nanoseconds; the product wraps around.\<close>

definition unixMilli :: "int64 \<Rightarrow> int" where
  "unixMilli ms = sint (ms * 1000000)"

definition summaryStatus :: "JobAndSqlSummary \<Rightarrow> JetJobStatus \<Rightarrow> JetJobStatus" where
  "summaryStatus s st = st\<lparr> jjs_Phase := jobStatusPhase (jss_Status s), jjs_Id := jss_JobId s,
     jjs_SubmissionTime := Some (unixMilli (jss_SubmissionTime s)),
     jjs_CompletionTime := (if jss_CompletionTime s \<noteq> 0 then Some (unixMilli (jss_CompletionTime s)) else jjs_CompletionTime st),
     jjs_SuspensionCause := jss_SuspensionCause s, jjs_FailureText := jss_FailureText s \<rparr>"

definition updateJob :: "jet_env \<Rightarrow> JobAndSqlSummary \<Rightarrow> NamespacedName \<Rightarrow> unit jet_proc" where
  "updateJob env summary name =
     catchA (observeA (\<lambda>t. je_Get env t name)) (\<lambda>_. returnA ()) (\<lambda>job.
     bindA (if JetPhase_IsFinished (jjs_Phase (jo_Status job)) then removeJobFromChecker job else returnA ()) (\<lambda>_.
     catchA (invokeA (je_call env) (StatusUpdateJetJob (job\<lparr> jo_Status := summaryStatus summary (jo_Status job) \<rparr>)))
       (\<lambda>_. returnA ()) returnA))"

text \<open>One turn of the loop of the checker's goroutine.\<close>

definition checkerTick :: "jet_env \<Rightarrow> NamespacedName \<Rightarrow> unit jet_proc" where
  "checkerTick env hz = bindA (stateA (\<lambda>r. jr_clusterStatusChecker r hz)) (\<lambda>checker.
     case checker of
       None \<Rightarrow> returnA ()
     | Some sc \<Rightarrow>
         if \<not> sc_checkInProgress sc then returnA ()
         else if dom (sc_jobs sc) = {} then changeA (onChecker hz (\<lambda>sc. sc\<lparr> sc_checkInProgress := False \<rparr>))
         else catchA (observeA (\<lambda>t. je_JobSummaries env t hz)) (\<lambda>_. returnA ()) (\<lambda>summaries.
              forA summaries (\<lambda>summary.
                bindA (stateA (\<lambda>r. Option.bind (jr_clusterStatusChecker r hz) (loadJob (jss_NameOrId summary)))) (\<lambda>job.
                case job of None \<Rightarrow> returnA () | Some jobNn \<Rightarrow> updateJob env summary jobNn))))"

subsection \<open>Starting a job\<close>

text \<open>The goroutine of \<^verbatim>\<open>applyJetJob\<close>.\<close>

definition runJobGo :: "jet_env \<Rightarrow> jetRun \<Rightarrow> unit jet_proc" where
  "runJobGo env run =
     catchA (invokeA (je_call env) (RunJob run))
       (\<lambda>e. bindA (jet_updateStatus env (jn_Job run) (failedJetJobStatus e)) (\<lambda>_. returnA ())) returnA"

definition launchRun :: "jet_env \<Rightarrow> jetRun \<Rightarrow> unit jet_proc" where
  "launchRun env run = bindA (observeA (\<lambda>t. Inr (je_eager env t))) (\<lambda>now.
     if now then runJobGo env run else changeA (\<lambda>r. r\<lparr> jr_waiting := jr_waiting r @ [run] \<rparr>))"

text \<open>A waiting goroutine runs.\<close>

definition runWaiting :: "jet_env \<Rightarrow> nat \<Rightarrow> unit jet_proc" where
  "runWaiting env i = bindA (stateA jr_waiting) (\<lambda>runs.
     if i < length runs
     then bindA (changeA (\<lambda>r. r\<lparr> jr_waiting := take i runs @ drop (Suc i) runs \<rparr>)) (\<lambda>_. runJobGo env (runs ! i))
     else returnA ())"

definition jetJobTerminateMode :: "JetJobState \<Rightarrow> int32" where
  "jetJobTerminateMode s = (case s of SuspendedJobState \<Rightarrow> 2 | CanceledJobState \<Rightarrow> 4 | RestartedJobState \<Rightarrow> 0 | _ \<Rightarrow> 4)"

definition changeJobState :: "jet_env \<Rightarrow> JetJob \<Rightarrow> unit jet_proc" where
  "changeJobState env jj = invokeA (je_call env) (UpdateJobState (clusterOf jj)
     \<lparr> jtj_JobId = jjs_Id (jo_Status jj), jtj_TerminateMode = jetJobTerminateMode (jj_State (jo_Spec jj)), jtj_LightJobCoordinator = (0, 0) \<rparr>)"

definition JetJobJarsPath :: string where
  "JetJobJarsPath = ''/opt/hazelcast/jetJobJars''"

text \<open>The download type is \<open>Some True\<close> for a bucket, \<open>Some False\<close> for a URL and otherwise unset.\<close>

definition fileDownloadReq :: "JetJob \<Rightarrow> DownloadFileReq" where
  "fileDownloadReq job = (let jrfc = jj_RemoteFile (jo_Spec job); req = \<lparr> dfr_FileName = jj_JarName (jo_Spec job),
       dfr_DestDir = JetJobJarsPath, dfr_Bucket = None, dfr_URL = [], dfr_SecretName = [] \<rparr>
     in case jrf_BucketConfiguration jrfc of
          Some b \<Rightarrow> req\<lparr> dfr_Bucket := Some True, dfr_URL := bc_BucketURI b, dfr_SecretName := BucketConfiguration_GetSecretName b \<rparr>
        | None \<Rightarrow> if JetJobSpec_IsRemoteURLsEnabled (jo_Spec job)
            then req\<lparr> dfr_Bucket := Some False, dfr_URL := jrf_RemoteURL jrfc \<rparr> else req)"

definition downloadTo :: "jet_env \<Rightarrow> JetJob \<Rightarrow> string \<Rightarrow> unit jet_proc" where
  "downloadTo env job address = (case SplitHostPort address of
     None \<Rightarrow> throwA (ErrOther address)
   | Some (host, _) \<Rightarrow>
       (case je_DownloadService env host of
          Some e \<Rightarrow> throwA e
        | None \<Rightarrow> invokeA (je_call env) (Download host (fileDownloadReq job))))"

text \<open>When there is no TLS client the status is written here and once more by the caller.\<close>

definition downloadFile :: "jet_env \<Rightarrow> JetJob \<Rightarrow> NamespacedName \<Rightarrow> NamespacedName \<Rightarrow> unit jet_proc" where
  "downloadFile env job hazelcastName jjnn =
     catchA (observeA (\<lambda>t. je_MtlsClient env t (nn_Namespace hazelcastName)))
       (\<lambda>e. bindA (jet_updateStatus env jjnn (failedJetJobStatus e)) (\<lambda>(_, err).
            case err of None \<Rightarrow> returnA () | Some e' \<Rightarrow> throwA e'))
       (\<lambda>_. bindA (observeA (\<lambda>t. Inr (je_order env t (je_OrderedMembers env t hazelcastName)))) (\<lambda>members.
            groupA (map (downloadTo env job) members)))"

text \<open>\<^verbatim>\<open>url[strings.LastIndex(url, "/")+1:]\<close>.\<close>

definition jarOf :: "JetJobSpec \<Rightarrow> string" where
  "jarOf spec =
     (if JetJobSpec_IsRemoteURLsEnabled spec \<and> jj_JarName spec = []
      then rev (takeWhile (\<lambda>c. c \<noteq> CHR ''/'') (rev (jrf_RemoteURL (jj_RemoteFile spec)))) else jj_JarName spec)"

definition jobMetaData :: "JetJob \<Rightarrow> string \<Rightarrow> UUID JobMetaData" where
  "jobMetaData job snapshot = \<lparr> jmd_SessionId = (0, 0), jmd_JarOnMember = True,
     jmd_FileName = path_Join JetJobJarsPath (jarOf (jo_Spec job)), jmd_Sha256Hex = [], jmd_SnapshotName = snapshot,
     jmd_JobName = JobName job, jmd_MainClass = jj_MainClass (jo_Spec job), jmd_JobParameters = [] \<rparr>"

text \<open>The snapshot the job starts from: \<open>Inl\<close> is the error for the status.\<close>

definition initialSnapshot :: "jet_env \<Rightarrow> JetJob \<Rightarrow> string jet_proc" where
  "initialSnapshot env job =
     (let name = jj_InitialSnapshotResourceName (jo_Spec job)
      in if name = [] then returnA []
         else bindA (observeA (\<lambda>t. je_SnapshotCreated env t \<lparr> nn_Name = name, nn_Namespace = om_Namespace (jo_Meta job) \<rparr>))
           (\<lambda>(created, snapshot).
              if created = None then throwA (ErrOther (''JetJobSnapshot '' @ [CHR 0x27] @ name @ [CHR 0x27] @ '' is not exported''))
              else returnA snapshot))"

text \<open>The end of \<^verbatim>\<open>applyJetJob\<close>, after the goroutine was started.\<close>

definition announceJob :: "jet_env \<Rightarrow> JetJob \<Rightarrow> NamespacedName \<Rightarrow> jet_result" where
  "announceJob env job hazelcastName =
     bindA (runChecker hazelcastName) (\<lambda>_.
     bindA (if je_PhoneHomeEnabled env \<and> \<not> IsSuccessfullyApplied (jo_Meta job)
            then tryA (invokeA (je_call env) TriggerPhoneHomeJet) (\<lambda>_. returnA ()) else returnA ()) (\<lambda>_.
     jet_updateStatus env (jobKey job) (jetJobWithStatus JetJobStarting)))"

definition startJob :: "jet_env \<Rightarrow> JetJob \<Rightarrow> NamespacedName \<Rightarrow> jet_result" where
  "startJob env job hazelcastName =
     (let jjnn = jobKey job; fails = (\<lambda>e. jet_updateStatus env jjnn (failedJetJobStatus e))
      in bindA (changeA (onChecker hazelcastName (storeJob (JobName job) jjnn))) (\<lambda>_.
         catchA (initialSnapshot env job) fails (\<lambda>snapshot.
         catchA (if JetJobSpec_IsDownloadEnabled (jo_Spec job) then downloadFile env job hazelcastName jjnn else returnA ()) fails (\<lambda>_.
         bindA (launchRun env \<lparr> jn_Job = jjnn, jn_Cluster = hazelcastName, jn_MetaData = jobMetaData job snapshot \<rparr>) (\<lambda>_.
         announceJob env job hazelcastName)))))"

definition resultOf :: "unit jet_proc \<Rightarrow> jet_result" where
  "resultOf m = catchA m (\<lambda>e. returnA (ResultZero, Some e)) (\<lambda>_. returnA (ResultZero, None))"

definition applyJetJob :: "jet_env \<Rightarrow> JetJob \<Rightarrow> NamespacedName \<Rightarrow> jet_result" where
  "applyJetJob env job hazelcastName =
     catchA (observeA (\<lambda>t. je_GetOrCreateClient env t hazelcastName))
       (\<lambda>e. jet_updateStatus env (jobKey job) (failedJetJobStatus e)) (\<lambda>_.
     bindA (changeA (LoadOrStoreChecker hazelcastName)) (\<lambda>_.
     if jj_State (jo_Spec job) \<noteq> RunningJobState then resultOf (changeJobState env job)
     else if JetPhase_IsSuspended (jjs_Phase (jo_Status job))
       then resultOf (invokeA (je_call env) (ResumeJob hazelcastName (jjs_Id (jo_Status job))))
     else startJob env job hazelcastName))"

subsection \<open>Deletion\<close>

definition stopJetExecution :: "jet_env \<Rightarrow> JetJob \<Rightarrow> NamespacedName \<Rightarrow> unit jet_proc" where
  "stopJetExecution env jj hzNn =
     (if jjs_Id (jo_Status jj) = 0 then returnA ()
      else bindA (observeA (\<lambda>t. je_GetOrCreateClient env t hzNn)) (\<lambda>_.
           invokeA (je_call env) (UpdateJobState hzNn
             \<lparr> jtj_JobId = jjs_Id (jo_Status jj), jtj_TerminateMode = 5, jtj_LightJobCoordinator = (0, 0) \<rparr>)))"

definition removeCheckerAndFinalizer :: "jet_env \<Rightarrow> JetJob \<Rightarrow> unit jet_proc" where
  "removeCheckerAndFinalizer env jj =
     bindA (removeJobFromChecker jj) (\<lambda>_.
     catchA (invokeA (je_call env) (UpdateJetJob (jj\<lparr> jo_Meta := RemoveFinalizer (jo_Meta jj) Finalizer \<rparr>)))
       (\<lambda>e. throwA (wrapErr ''failed to remove finalizer from custom resource: '' e)) returnA)"

definition jet_executeFinalizer :: "jet_env \<Rightarrow> JetJob \<Rightarrow> unit jet_proc" where
  "jet_executeFinalizer env jj =
     (if \<not> ContainsFinalizer (jo_Meta jj) Finalizer then returnA ()
      else catchA (observeA (\<lambda>t. je_GetHazelcast env t (clusterOf jj)))
        (\<lambda>e. if ErrIsNotFound e then removeCheckerAndFinalizer env jj else throwA e)
        (\<lambda>hz. bindA (if om_DeletionTimestamp (h_Meta hz) = None
              then catchA (stopJetExecution env jj (clusterOf jj)) (\<lambda>e. throwA (wrapErr ''failed to remove finalizer: '' e)) returnA
              else returnA ()) (\<lambda>_.
            removeCheckerAndFinalizer env jj)))"

subsection \<open>Reconcile\<close>

definition jet_updateLastSuccessfulConfiguration :: "jet_env \<Rightarrow> NamespacedName \<Rightarrow> unit jet_proc" where
  "jet_updateLastSuccessfulConfiguration env name = RetryOnConflict (je_retries env)
     (bindA (observeA (\<lambda>t. je_Get env t name)) (\<lambda>jj.
      let js = (case je_MarshalSpec env (jo_Spec jj) of Inl _ \<Rightarrow> [] | Inr js \<Rightarrow> js)
      in invokeA (je_call env) (UpdateJetJob (jj\<lparr> jo_Meta :=
           InsertLastSuccessfullyAppliedSpec (\<lambda>_. js) (jo_Spec jj) (jo_Meta jj) \<rparr>))))"

text \<open>The part of \<^verbatim>\<open>Reconcile\<close> from the cluster on. The error of the last annotation is returned.\<close>

definition reconcileOnCluster :: "jet_env \<Rightarrow> NamespacedName \<Rightarrow> JetJob \<Rightarrow> jet_result" where
  "reconcileOnCluster env req jj =
     (let hazelcastName = \<lparr> nn_Name = jj_HazelcastResourceName (jo_Spec jj), nn_Namespace = nn_Namespace req \<rparr>;
          fails = (\<lambda>e. jet_updateStatus env req (failedJetJobStatus e))
      in catchA (observeA (\<lambda>t. je_GetHazelcast env t hazelcastName))
           (\<lambda>_. jet_updateStatus env req (jetJobWithStatus JetJobNotRunning)) (\<lambda>h.
         if hst_Phase (h_Status h) \<noteq> Running
         then fails (ErrOther (''hazelcast cluster '' @ om_Name (h_Meta h) @ '' cluster is not ready''))
         else catchA (validA (je_ErrText env) (ValidateJetConfiguration h)) fails (\<lambda>_.
         bindA (applyJetJob env jj hazelcastName) (\<lambda>(result, err).
         if err \<noteq> None then returnA (result, err)
         else catchA (jet_updateLastSuccessfulConfiguration env req)
                (\<lambda>e. returnA (result, Some e)) (\<lambda>_. returnA (result, None))))))"

text \<open>A list of the jobs that fails is taken for an empty one.\<close>

definition validateJob :: "jet_env \<Rightarrow> NamespacedName \<Rightarrow> JetJob \<Rightarrow> unit jet_proc" where
  "validateJob env req jj =
     (if om_Annotations (jo_Meta jj) LastSuccessfulSpecAnnotation \<noteq> None
      then validA (je_ErrText env) (ValidateJetJobUpdateSpec (je_validation env) jj)
      else bindA (observeA (\<lambda>t. Inr (case je_List env t (nn_Namespace req) of Inl _ \<Rightarrow> [] | Inr jobs \<Rightarrow> jobs))) (\<lambda>jjList.
           case ValidateExistingJobName jj jjList of
             None \<Rightarrow> returnA () | Some c \<Rightarrow> throwA (ErrConflict (je_ConflictText env c))))"

definition JetJobReconciler_Reconcile :: "jet_env \<Rightarrow> NamespacedName \<Rightarrow> jet_result" where
  "JetJobReconciler_Reconcile env req =
     (let fails = (\<lambda>e. jet_updateStatus env req (failedJetJobStatus e))
      in catchA (observeA (\<lambda>t. je_Get env t req))
           (\<lambda>e. if ErrIsNotFound e then returnA (ResultZero, None) else fails e) (\<lambda>jj0.
         catchA (util_AddFinalizer (\<lambda>m. invokeA (je_call env) (UpdateJetJob (jj0\<lparr> jo_Meta := m \<rparr>))) (jo_Meta jj0)) fails (\<lambda>m.
         let jj = jj0\<lparr> jo_Meta := m \<rparr>; phase = jjs_Phase (jo_Status jj)
         in if om_DeletionTimestamp m \<noteq> None
            then catchA (jet_executeFinalizer env jj) fails (\<lambda>_. returnA (ResultZero, None))
            else if JetPhase_IsRunning phase \<and> jj_State (jo_Spec jj) = RunningJobState then returnA (ResultZero, None)
            else if JetPhase_IsFinished phase then bindA (removeJobFromChecker jj) (\<lambda>_. returnA (ResultZero, None))
            else (case je_MarshalSpec env (jo_Spec jj) of
                    Inl e \<Rightarrow> fails (wrapErr ''error marshaling JetJob as JSON: '' e)
                  | Inr jjs \<Rightarrow>
                      if om_Annotations m LastSuccessfulSpecAnnotation = Some jjs then returnA (ResultZero, None)
                      else catchA (validateJob env req jj) fails (\<lambda>_. reconcileOnCluster env req jj)))))"

end
