(* ===== verification/Jet_Safety.thy ===== *)
theory Jet_Safety
  imports Jet_Controller Traced Samples "HOL-Library.Multiset"
begin

text \<open>
  What the JetJob controller guarantees: the conditions under which a job is started and that a
  started job is watched, the order of a deletion, when the watch over the jobs of a cluster ends; and
  two ways in which the state of a job is lost.
\<close>

subsection \<open>Deletion\<close>

definition stopped :: "jet_env \<Rightarrow> JetJob \<Rightarrow> jet_call moment \<Rightarrow> jet_call trace \<Rightarrow> bool" where
  "stopped env jj t tr \<longleftrightarrow> (case je_GetHazelcast env t (clusterOf jj) of
     Inl e \<Rightarrow> ErrIsNotFound e
   | Inr hz \<Rightarrow> om_DeletionTimestamp (h_Meta hz) \<noteq> None \<or> jjs_Id (jo_Status jj) = 0 \<or>
       (UpdateJobState (clusterOf jj) \<lparr> jtj_JobId = jjs_Id (jo_Status jj), jtj_TerminateMode = 5, jtj_LightJobCoordinator = (0, 0) \<rparr>, True) \<in> set tr)"

text \<open>\<open>noUpdate\<close>: the calls that leave the resource itself alone.\<close>

definition noUpdate :: "jet_call \<Rightarrow> bool" where
  "noUpdate c \<longleftrightarrow> (\<forall>x. c \<noteq> UpdateJetJob x)"

lemma noUpdate_simps [simp]:
  "noUpdate (StatusUpdateJetJob j)" "noUpdate (UpdateJobState hz t)" "noUpdate (ResumeJob hz i)" "noUpdate (RunJob r)"
  "noUpdate (Download h q)" "noUpdate TriggerPhoneHomeJet" "\<not> noUpdate (UpdateJetJob x)"
  by (simp_all add: noUpdate_def)

lemma updateStatus_noUpdate [kept]: "only_calls noUpdate (jet_updateStatus env name b)"
  unfolding jet_updateStatus_def jet_statusOnce_def Let_def by (auto intro!: kept)

lemma jet_updateStatus_state [kept]: "preserves (\<lambda>w. P (cw_state w)) (jet_updateStatus env name b)"
  unfolding jet_updateStatus_def jet_statusOnce_def Let_def by (auto intro!: kept)

lemma removed_from_checker:
  "jr_clusterStatusChecker (onChecker hz (deleteJob n) r) hz = Some sc \<Longrightarrow> sc_jobs sc n = None"
  by (auto simp: onChecker_def deleteJob_def split: option.splits)

lemma removeCheckerAndFinalizer_run:
  assumes "removeCheckerAndFinalizer env jj w = (r, w')"
  shows "\<exists>b. cw_trace w' = cw_trace w @ [(UpdateJetJob (jj\<lparr> jo_Meta := RemoveFinalizer (jo_Meta jj) Finalizer \<rparr>), b)] \<and>
    cw_state w' = onChecker (clusterOf jj) (deleteJob (JobName jj)) (cw_state w)"
  using assms
  by (auto simp: removeCheckerAndFinalizer_def removeJobFromChecker_def catchA_def invokeA_def action_simps
      split: option.splits go_error.splits)

text \<open>\<open>jobReleased\<close>: how the resource is let go, as the last call of a computation.\<close>

definition jobReleased :: "jet_env \<Rightarrow> JetJob \<Rightarrow> jet_call moment \<Rightarrow> (JetJobReconciler, jet_call) world \<Rightarrow> (JetJobReconciler, jet_call) world \<Rightarrow> bool" where
  "jobReleased env jj t w w' \<longleftrightarrow>
     (\<exists>evs b. cw_trace w' = cw_trace w @ evs @ [(UpdateJetJob (jj\<lparr> jo_Meta := RemoveFinalizer (jo_Meta jj) Finalizer \<rparr>), b)] \<and>
        stopped env jj t evs \<and> (\<forall>e \<in> set evs. noUpdate (fst e)) \<and>
        cw_state w' = onChecker (clusterOf jj) (deleteJob (JobName jj)) (cw_state w))"

lemma stopJetExecution_run:
  assumes "stopJetExecution env jj hz w = (r, w')"
  shows "\<exists>evs. cw_trace w' = cw_trace w @ evs \<and> (\<forall>e \<in> set evs. noUpdate (fst e)) \<and> cw_state w' = cw_state w \<and>
    (r = Inr () \<longrightarrow> jjs_Id (jo_Status jj) = 0 \<or>
      (UpdateJobState hz \<lparr> jtj_JobId = jjs_Id (jo_Status jj), jtj_TerminateMode = 5, jtj_LightJobCoordinator = (0, 0) \<rparr>, True) \<in> set evs)"
  using assms by (auto simp: stopJetExecution_def invokeA_def action_simps bindA_def split: if_splits sum.splits option.splits)

lemma released_after:
  assumes "removeCheckerAndFinalizer env jj w1 = (r, w')" and "cw_trace w1 = cw_trace w @ evs" and "cw_state w1 = cw_state w"
    and "\<forall>e \<in> set evs. noUpdate (fst e)" and "stopped env jj t evs"
  shows "jobReleased env jj t w w'"
  using removeCheckerAndFinalizer_run [OF assms(1)] assms(2-) unfolding jobReleased_def by fastforce

lemma jet_executeFinalizer_last:
  assumes "jet_executeFinalizer env jj w = (r, w')"
  shows "jobReleased env jj (moment w) w w' \<or> (\<exists>evs. cw_trace w' = cw_trace w @ evs \<and> (\<forall>e \<in> set evs. noUpdate (fst e)))"
proof (cases "ContainsFinalizer (jo_Meta jj) Finalizer")
  case False
  then show ?thesis using assms by (simp add: jet_executeFinalizer_def action_simps)
next
  case fin: True
  note after = released_after [where w = w and t = "moment w" and evs = "[]"]
  let ?w1 = "w\<lparr> cw_reads := Suc (cw_reads w) \<rparr>"
  show ?thesis
  proof (cases "je_GetHazelcast env (moment w) (clusterOf jj)")
    case (Inl e)
    with fin assms after [of env jj ?w1] show ?thesis
      by (auto simp: jet_executeFinalizer_def catchA_def action_simps stopped_def ErrIsNotFound_def split: go_error.splits)
  next
    case (Inr hz)
    show ?thesis
    proof (cases "om_DeletionTimestamp (h_Meta hz) = None")
      case False
      with Inr fin assms after [of env jj ?w1] show ?thesis
        by (auto simp: jet_executeFinalizer_def catchA_def action_simps stopped_def)
    next
      case True
      obtain s w2 where stop: "stopJetExecution env jj (clusterOf jj) ?w1 = (s, w2)" by fastforce
      obtain evs where evs: "cw_trace w2 = cw_trace w @ evs" "\<forall>e \<in> set evs. noUpdate (fst e)" "cw_state w2 = cw_state w"
          "s = Inr () \<longrightarrow> stopped env jj (moment w) evs"
        using stopJetExecution_run [OF stop] Inr by (auto simp: stopped_def)
      have "jobReleased env jj (moment w) w w'" if "s = Inr ()"
        using released_after [of env jj w2 r w' w evs "moment w"] evs that Inr fin True assms stop
        by (auto simp: jet_executeFinalizer_def catchA_def action_simps)
      moreover have "w' = w2" if "s \<noteq> Inr ()"
        using that Inr fin True assms stop
        by (cases s) (auto simp: jet_executeFinalizer_def catchA_def action_simps bindA_def split: go_error.splits)
      ultimately show ?thesis using evs by (cases "s = Inr ()") auto
    qed
  qed
qed

lemma deleted_run:
  assumes "JetJobReconciler_Reconcile env req w = (r, w')" and "je_Get env (moment w) req = Inr jj" and "om_DeletionTimestamp (jo_Meta jj) \<noteq> None"
  obtains r1 w2 evs where "jet_executeFinalizer env jj (w\<lparr> cw_reads := Suc (cw_reads w) \<rparr>) = (r1, w2)"
    "cw_trace w' = cw_trace w2 @ evs" "\<forall>e \<in> set evs. noUpdate (fst e)" "cw_state w' = cw_state w2"
proof -
  let ?w1 = "w\<lparr> cw_reads := Suc (cw_reads w) \<rparr>"
  obtain r1 w2 where fin: "jet_executeFinalizer env jj ?w1 = (r1, w2)" by fastforce
  have upd: "\<exists>evs. cw_trace w'' = cw_trace w2 @ evs \<and> (\<forall>e \<in> set evs. noUpdate (fst e)) \<and> cw_state w'' = cw_state w2"
    if "jet_updateStatus env req b w2 = (x, w'')" for b x w''
    using updateStatus_noUpdate [of env req b] that same_state [OF jet_updateStatus_state, of env req b w2]
    unfolding only_calls_def calls_at_def by (metis snd_conv)
  have "w' = w2 \<or> (\<exists>b x. jet_updateStatus env req b w2 = (x, w'))"
    using assms fin by (auto simp: JetJobReconciler_Reconcile_def catchA_def util_AddFinalizer_def action_simps Let_def
        split: sum.splits go_error.splits)
  with upd that [OF fin] show thesis by fastforce
qed

text \<open>C31: a JetJob that is being deleted is let go only when its job no longer runs under the operator's eyes: its
  cluster is gone or is being deleted itself, the job was never seen on the cluster, or the cluster has
  accepted to cancel it by force before the finalizer is removed; nothing else of the resource is changed,
  and the checker of the cluster no longer has the job.\<close>

theorem jet_finalizer_last:
  assumes "JetJobReconciler_Reconcile env req w = (r, w')" and "je_Get env (moment w) req = Inr jj"
    and "om_DeletionTimestamp (jo_Meta jj) \<noteq> None" and "cw_trace w' = cw_trace w @ pre @ (UpdateJetJob x, b) # post"
  shows "x = jj\<lparr> jo_Meta := RemoveFinalizer (jo_Meta jj) Finalizer \<rparr> \<and> stopped env jj (Suc (cw_reads w), cw_trace w) pre \<and>
    (\<forall>sc. jr_clusterStatusChecker (cw_state w') (clusterOf jj) = Some sc \<longrightarrow> sc_jobs sc (JobName jj) = None)"
proof -
  let ?w1 = "w\<lparr> cw_reads := Suc (cw_reads w) \<rparr>"
  obtain r1 w2 evs where fin: "jet_executeFinalizer env jj ?w1 = (r1, w2)"
      and evs: "cw_trace w' = cw_trace w2 @ evs" "\<forall>e \<in> set evs. noUpdate (fst e)" "cw_state w' = cw_state w2"
    by (rule deleted_run [OF assms(1-3)])
  have quiet: "us @ (UpdateJetJob y, c) # vs = us' @ [(UpdateJetJob z, c')] @ evs \<Longrightarrow> \<forall>e \<in> set us'. noUpdate (fst e) \<Longrightarrow> us = us' \<and> y = z"
    for us us' vs y z c c'
    using evs(2) by (auto simp: append_eq_append_conv2 Cons_eq_append_conv append_eq_Cons_conv)
  have "jobReleased env jj (Suc (cw_reads w), cw_trace w) ?w1 w2"
    using jet_executeFinalizer_last [OF fin] assms(4) evs(1,2)
    by (auto simp: moment_def) (metis append.assoc append_same_eq in_set_conv_decomp noUpdate_simps(7) fst_conv same_append_eq UnE set_append)
  then obtain us c where us: "cw_trace w2 = cw_trace w @ us @ [(UpdateJetJob (jj\<lparr> jo_Meta := RemoveFinalizer (jo_Meta jj) Finalizer \<rparr>), c)]"
      "stopped env jj (Suc (cw_reads w), cw_trace w) us" "\<forall>e \<in> set us. noUpdate (fst e)"
      "cw_state w2 = onChecker (clusterOf jj) (deleteJob (JobName jj)) (cw_state w)"
    by (auto simp: jobReleased_def)
  have "pre @ (UpdateJetJob x, b) # post = us @ [(UpdateJetJob (jj\<lparr> jo_Meta := RemoveFinalizer (jo_Meta jj) Finalizer \<rparr>), c)] @ evs"
    using assms(4) evs(1) us(1) by simp
  from quiet [OF this us(3)] us evs(3) show ?thesis by (auto dest: removed_from_checker)
qed

subsection \<open>Starting a job\<close>

text \<open>The runs that were launched, whether they wait or have made their call.\<close>

fun runCall :: "jet_call \<times> bool \<Rightarrow> jetRun list" where
  "runCall (RunJob run, _) = [run]"
| "runCall _ = []"

definition launchedRuns :: "(JetJobReconciler, jet_call) world \<Rightarrow> jetRun multiset" where
  "launchedRuns w = mset (concat (map runCall (cw_trace w))) + mset (jr_waiting (cw_state w))"

lemma launched_simps [simp]:
  "launchedRuns (w\<lparr> cw_reads := n \<rparr>) = launchedRuns w"
  "launchedRuns (w\<lparr> cw_trace := cw_trace w @ [e] \<rparr>) = mset (runCall e) + launchedRuns w"
  by (simp_all add: launchedRuns_def)

lemma launched_invokeA [kept]:
  "(\<forall>run. c \<noteq> RunJob run) \<Longrightarrow> preserves (\<lambda>w. launchedRuns w = X) (invokeA ans c)"
  by (cases c) (auto simp: preserves_def invokeA_after)

lemma launched_basic [kept]:
  "preserves (\<lambda>w. launchedRuns w = X) (observeA f)"
  "preserves (\<lambda>w. launchedRuns w = X) (changeA (onChecker hz g))" "preserves (\<lambda>w. launchedRuns w = X) (changeA (LoadOrStoreChecker hz))"
  by (auto simp: preserves_def launchedRuns_def onChecker_def LoadOrStoreChecker_def split: option.splits)

lemma launched_steps [kept]:
  "preserves (\<lambda>w. launchedRuns w = X) (jet_updateStatus env name b)" "preserves (\<lambda>w. launchedRuns w = X) (removeJobFromChecker job)"
  "preserves (\<lambda>w. launchedRuns w = X) (runChecker hz)" "preserves (\<lambda>w. launchedRuns w = X) (changeJobState env jj)"
  "preserves (\<lambda>w. launchedRuns w = X) (initialSnapshot env jj)" "preserves (\<lambda>w. launchedRuns w = X) (downloadTo env jj a)"
  "preserves (\<lambda>w. launchedRuns w = X) (validA et v)" "preserves (\<lambda>w. launchedRuns w = X) (stopJetExecution env jj hz)"
  by (auto simp: jet_updateStatus_def jet_statusOnce_def removeJobFromChecker_def runChecker_def changeJobState_def initialSnapshot_def
      downloadTo_def validA_def stopJetExecution_def Let_def intro!: kept split: option.split prod.split)

lemma launched_more [kept]:
  "preserves (\<lambda>w. launchedRuns w = X) (downloadFile env jj hz nn)" "preserves (\<lambda>w. launchedRuns w = X) (jet_executeFinalizer env jj)"
  "preserves (\<lambda>w. launchedRuns w = X) (jet_updateLastSuccessfulConfiguration env name)" "preserves (\<lambda>w. launchedRuns w = X) (validateJob env req jj)"
  by (auto simp: downloadFile_def jet_executeFinalizer_def removeCheckerAndFinalizer_def jet_updateLastSuccessfulConfiguration_def
      validateJob_def Let_def intro!: kept split: option.split prod.split)

text \<open>\<open>launchesAtMost C m w\<close>: \<open>m\<close> launches nothing, or one run that satisfies \<open>C\<close> together with the world after
  it. A panic ends the operator and is left out.\<close>

definition launchesAtMost :: "(jetRun \<Rightarrow> (JetJobReconciler, jet_call) world \<Rightarrow> bool) \<Rightarrow> 'a jet_proc \<Rightarrow> (JetJobReconciler, jet_call) world \<Rightarrow> bool" where
  "launchesAtMost C m w \<longleftrightarrow> (\<forall>x w'. m w = (Inr x, w') \<longrightarrow>
     launchedRuns w' = launchedRuns w \<or> (\<exists>run. launchedRuns w' = add_mset run (launchedRuns w) \<and> C run w'))"

lemma launchedD: "(\<And>X. preserves (\<lambda>w. launchedRuns w = X) m) \<Longrightarrow> m w = (r, w') \<Longrightarrow> launchedRuns w' = launchedRuns w"
  unfolding preserves_def by (metis snd_conv)

lemma launches_none:
  assumes "\<And>X. preserves (\<lambda>w. launchedRuns w = X) m"
  shows "launchesAtMost C m w"
  using launchedD [OF assms] by (simp add: launchesAtMost_def)

lemma launches_bindA:
  assumes "\<And>X. preserves (\<lambda>w. launchedRuns w = X) m" and "\<And>x w1. m w = (Inr x, w1) \<Longrightarrow> launchesAtMost C (f x) w1"
  shows "launchesAtMost C (bindA m f) w"
proof -
  have "launchesAtMost C (\<lambda>_. f x w1) w" if "m w = (Inr x, w1)" for x w1
    using assms(2) [OF that] launchedD [OF assms(1) that] by (simp add: launchesAtMost_def)
  then show ?thesis by (auto simp: launchesAtMost_def bindA_Inr_iff)
qed

lemma launches_catchA:
  assumes "\<And>X. preserves (\<lambda>w. launchedRuns w = X) m" and "\<And>e X. preserves (\<lambda>w. launchedRuns w = X) (h e)"
    and "\<And>x w1. m w = (Inr x, w1) \<Longrightarrow> launchesAtMost C (k x) w1"
  shows "launchesAtMost C (catchA m h k) w"
  unfolding launchesAtMost_def
proof (intro allI impI)
  fix x w'
  assume "catchA m h k w = (Inr x, w')"
  then show "launchedRuns w' = launchedRuns w \<or> (\<exists>run. launchedRuns w' = add_mset run (launchedRuns w) \<and> C run w')"
  proof (cases rule: catchA_cases)
    case (error e w1)
    then show ?thesis using launchedD [OF assms(1) error(1)] launchedD [OF assms(2) error(2)] by simp
  next
    case (ok y w1)
    then show ?thesis using launchedD [OF assms(1) ok(1)] assms(3) [OF ok(1)] by (simp add: launchesAtMost_def)
  qed simp
qed

definition watched :: "JetJob \<Rightarrow> NamespacedName \<Rightarrow> JetJobReconciler \<Rightarrow> bool" where
  "watched job hz r \<longleftrightarrow> (\<exists>sc. jr_clusterStatusChecker r hz = Some sc \<and> sc_jobs sc (JobName job) = Some (jobKey job) \<and> sc_checkInProgress sc)"

definition snapshotReady :: "jet_env \<Rightarrow> JetJob \<Rightarrow> string \<Rightarrow> bool" where
  "snapshotReady env job snapshot \<longleftrightarrow> (let name = jj_InitialSnapshotResourceName (jo_Spec job)
     in if name = [] then snapshot = []
        else \<exists>t created. je_SnapshotCreated env t \<lparr> nn_Name = name, nn_Namespace = om_Namespace (jo_Meta job) \<rparr> = Inr (Some created, snapshot))"

definition downloaded :: "jet_env \<Rightarrow> JetJob \<Rightarrow> NamespacedName \<Rightarrow> jet_call trace \<Rightarrow> bool" where
  "downloaded env job hz tr \<longleftrightarrow> (\<exists>t. \<forall>address \<in> set (je_order env t (je_OrderedMembers env t hz)).
     \<exists>host port. SplitHostPort address = Some (host, port) \<and> (Download host (fileDownloadReq job), True) \<in> set tr)"

lemma downloads_done:
  "groupA (map (downloadTo env job) ms) w = (Inr u, w') \<Longrightarrow> a \<in> set ms \<Longrightarrow>
     \<exists>host port. SplitHostPort a = Some (host, port) \<and> (Download host (fileDownloadReq job), True) \<in> set (cw_trace w')"
proof (induction ms arbitrary: w)
  case (Cons m ms)
  then obtain y w1 where run: "downloadTo env job m w = (Inr y, w1)" "groupA (map (downloadTo env job) ms) w1 = (Inr u, w')"
    by (auto simp only: list.map groupA_success)
  have "only_calls (\<lambda>_. True) (groupA (map (downloadTo env job) ms))"
    by (auto simp: downloadTo_def intro!: kept split: option.split)
  from only_calls_grows [OF this, of w1] run(2) obtain evs where grow: "cw_trace w' = cw_trace w1 @ evs" by auto
  show ?case
  proof (cases "a = m")
    case True
    with run(1) grow show ?thesis by (auto simp: downloadTo_def invokeA_def action_simps split: option.splits)
  next
    case False
    with Cons run(2) show ?thesis by auto
  qed
qed simp

lemma failed_result: "\<exists>v'. jet_updateStatus env nn (failedJetJobStatus e) v = (Inr (ResultZero, Some e), v')"
  by (simp add: jet_updateStatus_def failedJetJobStatus_def action_simps split: prod.split)

lemma downloadFile_done:
  assumes "downloadFile env job hz nn w = (Inr u, w')"
  shows "downloaded env job hz (cw_trace w')"
proof (cases "je_MtlsClient env (moment w) (nn_Namespace hz)")
  case (Inl e)
  obtain v' where "jet_updateStatus env nn (failedJetJobStatus e) (w\<lparr> cw_reads := Suc (cw_reads w) \<rparr>) = (Inr (ResultZero, Some e), v')"
    using failed_result by blast
  with Inl assms show ?thesis by (auto simp: downloadFile_def catchA_def action_simps split: go_error.splits)
next
  case (Inr x)
  let ?t = "moment (w\<lparr> cw_reads := Suc (cw_reads w) \<rparr>)"
  have "groupA (map (downloadTo env job) (je_order env ?t (je_OrderedMembers env ?t hz))) (w\<lparr> cw_reads := Suc (Suc (cw_reads w)) \<rparr>) = (Inr u, w')"
    using Inr assms by (simp add: downloadFile_def catchA_def action_simps)
  then show ?thesis unfolding downloaded_def using downloads_done by blast
qed

text \<open>\<open>soundRun\<close>: what holds of a run that was launched for a job.\<close>

definition soundRun :: "jet_env \<Rightarrow> JetJob \<Rightarrow> NamespacedName \<Rightarrow> jetRun \<Rightarrow> (JetJobReconciler, jet_call) world \<Rightarrow> bool" where
  "soundRun env job hz run w' \<longleftrightarrow>
     (\<exists>snapshot. run = \<lparr> jn_Job = jobKey job, jn_Cluster = hz, jn_MetaData = jobMetaData job snapshot \<rparr> \<and> snapshotReady env job snapshot) \<and>
     (JetJobSpec_IsDownloadEnabled (jo_Spec job) \<longrightarrow> downloaded env job hz (cw_trace w')) \<and>
     watched job hz (cw_state w')"

lemma initialSnapshot_ready:
  "initialSnapshot env job w = (Inr snapshot, w') \<Longrightarrow> snapshotReady env job snapshot"
  by (auto simp: initialSnapshot_def snapshotReady_def Let_def bindA_Inr_iff action_simps simp del: split_paired_Ex split: if_splits) blast

lemma same_checkers [kept]:
  "preserves (\<lambda>w. P (cw_state w)) (initialSnapshot env job)" "preserves (\<lambda>w. P (cw_state w)) (downloadFile env job hz nn)"
  "preserves (\<lambda>w. P (cw_state w)) (runJobGo env run)"
  by (auto simp: initialSnapshot_def downloadFile_def downloadTo_def runJobGo_def Let_def intro!: kept split: option.split prod.split)

lemma downloaded_grows: "downloaded env job hz tr \<Longrightarrow> downloaded env job hz (tr @ evs)"
  unfolding downloaded_def by fastforce

text \<open>The end of \<^verbatim>\<open>applyJetJob\<close>: the run is launched, the checker runs, the status is written.\<close>

lemma runJobGo_calls: "only_calls (\<lambda>_. True) (runJobGo env run)"
  by (auto simp: runJobGo_def intro!: only_calls_weaken [OF updateStatus_noUpdate] kept)

lemma launched_catchA:
  assumes "\<And>e X. preserves (\<lambda>w. launchedRuns w = X) (h e)" and "\<And>x X. preserves (\<lambda>w. launchedRuns w = X) (k x)"
  shows "launchedRuns (snd (catchA m h k w)) = launchedRuns (snd (m w))"
proof -
  have "launchedRuns (snd (h e v)) = launchedRuns v" "launchedRuns (snd (k x v)) = launchedRuns v" for e x v
    using assms unfolding preserves_def by blast+
  then show ?thesis by (cases "m w"; cases "fst (m w)") (auto simp: catchA_def action_simps split: go_error.split)
qed

lemma runJobGo_launched: "launchedRuns (snd (runJobGo env run w)) = add_mset run (launchedRuns w)"
  unfolding runJobGo_def by (subst launched_catchA) (auto simp: invokeA_after intro!: kept)

lemma launchRun_run:
  assumes "launchRun env run w = (Inr u, w')"
  shows "launchedRuns w' = add_mset run (launchedRuns w)" "jr_clusterStatusChecker (cw_state w') = jr_clusterStatusChecker (cw_state w)"
    "\<exists>evs. cw_trace w' = cw_trace w @ evs"
proof -
  let ?w1 = "w\<lparr> cw_reads := Suc (cw_reads w) \<rparr>"
  have go: "launchedRuns (snd (runJobGo env run ?w1)) = add_mset run (launchedRuns w)"
    "cw_state (snd (runJobGo env run ?w1)) = cw_state w" "\<exists>evs. cw_trace (snd (runJobGo env run ?w1)) = cw_trace w @ evs"
    using runJobGo_launched [of env run ?w1] same_state [OF same_checkers(3), of env run ?w1] only_calls_grows [OF runJobGo_calls, of env run ?w1]
    by simp_all
  have "je_eager env (moment w) \<Longrightarrow> w' = snd (runJobGo env run ?w1)"
    "\<not> je_eager env (moment w) \<Longrightarrow> w' = ?w1\<lparr> cw_state := (cw_state w)\<lparr> jr_waiting := jr_waiting (cw_state w) @ [run] \<rparr> \<rparr>"
    using assms by (simp_all add: launchRun_def)
  with go show "launchedRuns w' = add_mset run (launchedRuns w)" "jr_clusterStatusChecker (cw_state w') = jr_clusterStatusChecker (cw_state w)"
    "\<exists>evs. cw_trace w' = cw_trace w @ evs"
    by (cases "je_eager env (moment w)"; simp add: launchedRuns_def)+
qed

lemma announceJob_run:
  assumes "announceJob env job hz w = (r, w')"
  shows "launchedRuns w' = launchedRuns w" "cw_state w' = onChecker hz (\<lambda>sc. sc\<lparr> sc_checkInProgress := True \<rparr>) (cw_state w)"
    "\<exists>evs. cw_trace w' = cw_trace w @ evs"
proof -
  have "preserves (\<lambda>w. launchedRuns w = X) (announceJob env job hz)" for X
    unfolding announceJob_def by (auto intro!: kept)
  from launchedD [OF this assms] show "launchedRuns w' = launchedRuns w" .
  let ?tail = "bindA (if je_PhoneHomeEnabled env \<and> \<not> IsSuccessfullyApplied (jo_Meta job)
      then tryA (invokeA (je_call env) TriggerPhoneHomeJet) (\<lambda>_. returnA ()) else returnA ())
      (\<lambda>_. jet_updateStatus env (jobKey job) (jetJobWithStatus JetJobStarting))"
  have "preserves (\<lambda>w. cw_state w = s) ?tail" for s by (auto intro!: kept)
  from same_state [OF this, of "w\<lparr> cw_state := onChecker hz (\<lambda>sc. sc\<lparr> sc_checkInProgress := True \<rparr>) (cw_state w) \<rparr>"] assms
  show "cw_state w' = onChecker hz (\<lambda>sc. sc\<lparr> sc_checkInProgress := True \<rparr>) (cw_state w)"
    by (simp add: announceJob_def runChecker_def)
  have "only_calls (\<lambda>_. True) (announceJob env job hz)"
    unfolding announceJob_def runChecker_def by (auto intro!: only_calls_weaken [OF updateStatus_noUpdate] kept)
  from only_calls_grows [OF this, of w] assms show "\<exists>evs. cw_trace w' = cw_trace w @ evs" by simp
qed

lemma startJob_sound:
  assumes "jr_clusterStatusChecker (cw_state w) hz \<noteq> None"
  shows "launchesAtMost (soundRun env job hz) (startJob env job hz) w"
  unfolding startJob_def Let_def
proof (rule launches_bindA, blast intro: kept, rule launches_catchA, blast intro: kept, blast intro: kept,
    rule launches_catchA, rule preserves_if, blast intro: kept, blast intro: kept, blast intro: kept)
  fix u w1 snapshot w2 v w3
  assume w1: "changeA (onChecker hz (storeJob (JobName job) (jobKey job))) w = (Inr u, w1)" and w2: "initialSnapshot env job w1 = (Inr snapshot, w2)"
    and w3: "(if JetJobSpec_IsDownloadEnabled (jo_Spec job) then downloadFile env job hz (jobKey job) else returnA ()) w2 = (Inr v, w3)"
  obtain sc where sc: "jr_clusterStatusChecker (cw_state w1) hz = Some sc" "sc_jobs sc (JobName job) = Some (jobKey job)"
    using assms w1 by (auto simp: onChecker_def storeJob_def)
  have st: "cw_state w2 = cw_state w1" "cw_state w3 = cw_state w2"
    using same_state [OF same_checkers(1), of env job w1] same_state [OF same_checkers(2), of env job hz "jobKey job" w2] w2 w3
    by (auto simp: action_simps split: if_splits)
  have down: "JetJobSpec_IsDownloadEnabled (jo_Spec job) \<longrightarrow> downloaded env job hz (cw_trace w3)"
    using w3 downloadFile_done by (auto split: if_splits)
  note ready = initialSnapshot_ready [OF w2]
  show "launchesAtMost (soundRun env job hz) (bindA (launchRun env \<lparr> jn_Job = jobKey job, jn_Cluster = hz, jn_MetaData = jobMetaData job snapshot \<rparr>)
      (\<lambda>_. announceJob env job hz)) w3"
    unfolding launchesAtMost_def bindA_Inr_iff
  proof (intro allI impI disjI2, elim exE conjE)
    fix x w' y w4
    let ?run = "\<lparr> jn_Job = jobKey job, jn_Cluster = hz, jn_MetaData = jobMetaData job snapshot \<rparr>"
    assume launch: "launchRun env ?run w3 = (Inr y, w4)" and rest: "announceJob env job hz w4 = (Inr x, w')"
    have "watched job hz (cw_state w')"
      using announceJob_run(2) [OF rest] launchRun_run(2) [OF launch] st sc by (auto simp: watched_def onChecker_def)
    moreover have "JetJobSpec_IsDownloadEnabled (jo_Spec job) \<longrightarrow> downloaded env job hz (cw_trace w')"
      using down launchRun_run(3) [OF launch] announceJob_run(3) [OF rest] downloaded_grows by metis
    ultimately show "\<exists>run. launchedRuns w' = add_mset run (launchedRuns w3) \<and> soundRun env job hz run w'"
      using launchRun_run(1) [OF launch] announceJob_run(1) [OF rest] ready by (auto simp: soundRun_def)
  qed
qed

lemma launches_then:
  assumes "launchesAtMost C m w" and "\<And>x X. preserves (\<lambda>w. launchedRuns w = X) (f x)"
    and "\<And>run x w1 y w2. C run w1 \<Longrightarrow> f x w1 = (Inr y, w2) \<Longrightarrow> C run w2"
  shows "launchesAtMost C (bindA m f) w"
  unfolding launchesAtMost_def bindA_Inr_iff
proof (intro allI impI, elim exE conjE)
  fix y w2 x w1
  assume m: "m w = (Inr x, w1)" and f: "f x w1 = (Inr y, w2)"
  have "launchedRuns w2 = launchedRuns w1" by (rule launchedD [OF assms(2) f])
  with assms(1) m assms(3) [OF _ f] show "launchedRuns w2 = launchedRuns w \<or> (\<exists>run. launchedRuns w2 = add_mset run (launchedRuns w) \<and> C run w2)"
    unfolding launchesAtMost_def by metis
qed

lemma launches_if: "(b \<Longrightarrow> launchesAtMost C m w) \<Longrightarrow> (\<not> b \<Longrightarrow> launchesAtMost C n w) \<Longrightarrow> launchesAtMost C (if b then m else n) w"
  by simp

lemma launches_weaken: "launchesAtMost C m w \<Longrightarrow> (\<And>run w'. C run w' \<Longrightarrow> D run w') \<Longrightarrow> launchesAtMost D m w"
  unfolding launchesAtMost_def by blast

lemma applyJetJob_sound:
  "launchesAtMost (\<lambda>run w'. jj_State (jo_Spec job) = RunningJobState \<and> \<not> JetPhase_IsSuspended (jjs_Phase (jo_Status job)) \<and>
     soundRun env job hz run w') (applyJetJob env job hz) w"
proof -
  have stored: "\<exists>sc. jr_clusterStatusChecker (LoadOrStoreChecker hz r) hz = Some sc" for r
    by (auto simp: LoadOrStoreChecker_def split: option.split)
  show ?thesis unfolding applyJetJob_def resultOf_def
    by (intro launches_catchA launches_bindA launches_if kept; (intro launches_none kept; simp; fail)?)
      (auto intro!: launches_weaken [OF startJob_sound] simp: stored)
qed

text \<open>\<open>clusterReady\<close>: the cluster was seen running, with a Jet engine that accepts uploads.\<close>

definition clusterReady :: "jet_env \<Rightarrow> NamespacedName \<Rightarrow> bool" where
  "clusterReady env hz \<longleftrightarrow> (\<exists>t h. je_GetHazelcast env t hz = Inr h \<and> hst_Phase (h_Status h) = Running \<and>
     (\<exists>j. hs_JetEngineConfiguration (h_Spec h) = Some j \<and> Jet_IsEnabled (Some j) \<and> je_ResourceUploadEnabled j))"

lemma ValidateJetConfiguration_ok:
  assumes "ValidateJetConfiguration h = Some None"
  shows "\<exists>j. hs_JetEngineConfiguration (h_Spec h) = Some j \<and> Jet_IsEnabled (Some j) \<and> je_ResourceUploadEnabled j"
  using assms unfolding ValidateJetConfiguration_def
  by (cases "hs_JetEngineConfiguration (h_Spec h)") (simp_all add: outcome_None_iff)

lemma validA_ok: "validA et v w = (Inr u, w') \<Longrightarrow> v = Some None \<and> w' = w"
  by (auto simp: validA_def action_simps split: option.splits)

lemma soundRun_grows:
  "soundRun env job hz run w1 \<Longrightarrow> cw_state w2 = cw_state w1 \<Longrightarrow> cw_trace w2 = cw_trace w1 @ evs \<Longrightarrow> soundRun env job hz run w2"
  by (auto simp: soundRun_def downloaded_grows)

lemma lastSuccessful_kept [kept]:
  "preserves (\<lambda>w. P (cw_state w)) (jet_updateLastSuccessfulConfiguration env name)" "only_calls (\<lambda>_. True) (jet_updateLastSuccessfulConfiguration env name)"
  by (auto simp: jet_updateLastSuccessfulConfiguration_def Let_def intro!: kept)

lemma reconcileOnCluster_sound:
  fixes jj :: JetJob and req :: NamespacedName
  defines "hz \<equiv> \<lparr> nn_Name = jj_HazelcastResourceName (jo_Spec jj), nn_Namespace = nn_Namespace req \<rparr>"
  shows "launchesAtMost (\<lambda>run w'. clusterReady env hz \<and> jj_State (jo_Spec jj) = RunningJobState \<and>
     \<not> JetPhase_IsSuspended (jjs_Phase (jo_Status jj)) \<and> soundRun env jj hz run w') (reconcileOnCluster env req jj) w"
proof -
  let ?C = "\<lambda>run w'. clusterReady env hz \<and> jj_State (jo_Spec jj) = RunningJobState \<and>
     \<not> JetPhase_IsSuspended (jjs_Phase (jo_Status jj)) \<and> soundRun env jj hz run w'"
  let ?tail = "\<lambda>(result, err). if err \<noteq> None then returnA (result, err)
     else catchA (jet_updateLastSuccessfulConfiguration env req) (\<lambda>e. returnA (result, Some e)) (\<lambda>_. returnA (result, None))"
  have tail: "preserves (\<lambda>w. P (cw_state w)) (?tail x)" "only_calls (\<lambda>_. True) (?tail x)" "preserves (\<lambda>w. launchedRuns w = X) (?tail x)" for P x X
    by (auto simp: split_def intro!: kept)
  have after: "soundRun env jj hz run w2" if "soundRun env jj hz run w1" "?tail x w1 = (Inr y, w2)" for run w1 x y w2
    using soundRun_grows [OF that(1)] same_state [OF tail(1), of x w1] only_calls_grows [OF tail(2), of x w1] that(2) by auto
  have applied: "launchesAtMost ?C (bindA (applyJetJob env jj hz) ?tail) w1" if "clusterReady env hz" for w1
    by (rule launches_then [OF _ tail(3)], rule launches_weaken [OF applyJetJob_sound]) (use that after in blast)+
  have ready: "clusterReady env hz" if "observeA (\<lambda>t. je_GetHazelcast env t hz) w1 = (Inr h, w2)" "\<not> hst_Phase (h_Status h) \<noteq> Running"
      "validA (je_ErrText env) (ValidateJetConfiguration h) w3 = (Inr u, w4)" for h u and w1 w2 w3 w4 :: "(JetJobReconciler, jet_call) world"
    using that validA_ok [OF that(3)] ValidateJetConfiguration_ok [of h] unfolding clusterReady_def by (auto simp del: split_paired_Ex)
  show ?thesis unfolding reconcileOnCluster_def Let_def hz_def [symmetric]
    by (intro launches_catchA launches_if kept; (intro launches_none kept; simp; fail)?) (rule applied, rule ready; assumption)
qed

text \<open>\<open>named\<close>: the API server answers a request for an object with the object of that name.\<close>

definition named :: "jet_env \<Rightarrow> bool" where
  "named env \<longleftrightarrow> (\<forall>t nn jj. je_Get env t nn = Inr jj \<longrightarrow> jobKey jj = nn)"

text \<open>\<open>jobDue\<close>: a job that is to be started; \<open>nameFree\<close>: no other job of the cluster was seen under its name.\<close>

definition jobDue :: "jet_env \<Rightarrow> JetJob \<Rightarrow> bool" where
  "jobDue env jj \<longleftrightarrow> om_DeletionTimestamp (jo_Meta jj) = None \<and> jj_State (jo_Spec jj) = RunningJobState \<and>
     jjs_Phase (jo_Status jj) \<in> {JetJobPhaseUnset, JetJobFailed, JetJobNotRunning, JetJobCompleting} \<and>
     (\<forall>s. je_MarshalSpec env (jo_Spec jj) = Inr s \<longrightarrow> om_Annotations (jo_Meta jj) LastSuccessfulSpecAnnotation \<noteq> Some s)"

definition nameFree :: "jet_env \<Rightarrow> JetJob \<Rightarrow> bool" where
  "nameFree env jj \<longleftrightarrow> om_Annotations (jo_Meta jj) LastSuccessfulSpecAnnotation \<noteq> None \<or>
     (\<exists>t. case je_List env t (om_Namespace (jo_Meta jj)) of Inl _ \<Rightarrow> True
        | Inr jobs \<Rightarrow> \<forall>job \<in> set jobs. om_Name (jo_Meta job) \<noteq> om_Name (jo_Meta jj) \<longrightarrow>
            JobName job \<noteq> JobName jj \<or> jj_HazelcastResourceName (jo_Spec job) \<noteq> jj_HazelcastResourceName (jo_Spec jj))"

lemma ExistingJobName_free:
  "ValidateExistingJobName jj jobs = None \<Longrightarrow> job \<in> set jobs \<Longrightarrow> om_Name (jo_Meta job) \<noteq> om_Name (jo_Meta jj) \<Longrightarrow>
     JobName job \<noteq> JobName jj \<or> jj_HazelcastResourceName (jo_Spec job) \<noteq> jj_HazelcastResourceName (jo_Spec jj)"
  by (induction jj jobs rule: ValidateExistingJobName.induct) (auto split: if_splits)

lemma validateJob_free:
  assumes "validateJob env req jj w = (Inr u, w')" and "nn_Namespace req = om_Namespace (jo_Meta jj)"
  shows "nameFree env jj"
proof (cases "om_Annotations (jo_Meta jj) LastSuccessfulSpecAnnotation")
  case None
  then have "ValidateExistingJobName jj (case je_List env (moment w) (nn_Namespace req) of Inl _ \<Rightarrow> [] | Inr jobs \<Rightarrow> jobs) = None"
    using assms(1) by (auto simp: validateJob_def action_simps split: option.splits)
  then show ?thesis unfolding nameFree_def assms(2) [symmetric]
    by (intro disjI2 exI [of _ "moment w"]) (auto split: sum.split dest: ExistingJobName_free)
qed (simp add: nameFree_def)

lemma AddFinalizer_same [simp]:
  "om_Namespace (AddFinalizer ob f) = om_Namespace ob" "om_Annotations (AddFinalizer ob f) = om_Annotations ob"
  "om_DeletionTimestamp (AddFinalizer ob f) = om_DeletionTimestamp ob"
  by (simp_all add: AddFinalizer_def)

lemma finalizer_same:
  fixes jj :: JetJob
  assumes "util_AddFinalizer wr (jo_Meta jj) w = (Inr m, w')"
  shows "jobKey (jj\<lparr> jo_Meta := m \<rparr>) = jobKey jj" "soundRun env (jj\<lparr> jo_Meta := m \<rparr>) = soundRun env jj"
    "nameFree env (jj\<lparr> jo_Meta := m \<rparr>) = nameFree env jj" "jobDue env (jj\<lparr> jo_Meta := m \<rparr>) = jobDue env jj"
proof -
  have m: "om_Name m = om_Name (jo_Meta jj)" "om_Namespace m = om_Namespace (jo_Meta jj)" "om_Annotations m = om_Annotations (jo_Meta jj)"
      "om_DeletionTimestamp m = om_DeletionTimestamp (jo_Meta jj)"
    using assms by (auto simp: util_AddFinalizer_def action_simps bindA_Inr_iff split: if_splits)
  then show key: "jobKey (jj\<lparr> jo_Meta := m \<rparr>) = jobKey jj" by (simp add: jobKey_def)
  have name: "JobName (jj\<lparr> jo_Meta := m \<rparr>) = JobName jj" using m by (simp add: JobName_def)
  have "fileDownloadReq (jj\<lparr> jo_Meta := m \<rparr>) = fileDownloadReq jj" by (simp add: fileDownloadReq_def Let_def split: option.split)
  then have "snapshotReady env (jj\<lparr> jo_Meta := m \<rparr>) = snapshotReady env jj" "downloaded env (jj\<lparr> jo_Meta := m \<rparr>) = downloaded env jj"
    "watched (jj\<lparr> jo_Meta := m \<rparr>) = watched jj" "jobMetaData (jj\<lparr> jo_Meta := m \<rparr>) = jobMetaData jj"
    using m key name by (simp_all add: fun_eq_iff snapshotReady_def downloaded_def watched_def jobMetaData_def)
  then show "soundRun env (jj\<lparr> jo_Meta := m \<rparr>) = soundRun env jj" using key by (simp add: soundRun_def fun_eq_iff)
  show "nameFree env (jj\<lparr> jo_Meta := m \<rparr>) = nameFree env jj" "jobDue env (jj\<lparr> jo_Meta := m \<rparr>) = jobDue env jj"
    using m name by (simp_all add: nameFree_def jobDue_def cong: sum.case_cong)
qed

text \<open>A reconciliation starts at most one job, and only the one it is called for: one that is not being
  deleted, whose specification is new and asks for a running job, and that is neither running,
  suspended nor finished; its cluster was seen running with a Jet engine that accepts uploads, no other
  job of the cluster was seen under its name, a snapshot it starts from has been exported and its
  archive is on every member. From then on the checker of the cluster runs and has the job.\<close>

theorem jet_start_conditions:
  assumes "JetJobReconciler_Reconcile env req w = (Inr r, w')" and "named env"
  shows "launchedRuns w' = launchedRuns w \<or>
    (\<exists>run jj. launchedRuns w' = add_mset run (launchedRuns w) \<and> je_Get env (moment w) req = Inr jj \<and> jobDue env jj \<and> nameFree env jj \<and>
       clusterReady env (clusterOf jj) \<and> soundRun env jj (clusterOf jj) run w')"
proof -
  let ?C = "\<lambda>run w'. \<exists>jj. je_Get env (moment w) req = Inr jj \<and> jobDue env jj \<and> nameFree env jj \<and>
       clusterReady env (clusterOf jj) \<and> soundRun env jj (clusterOf jj) run w'"
  have "launchesAtMost ?C (JetJobReconciler_Reconcile env req) w"
    unfolding JetJobReconciler_Reconcile_def Let_def
  proof (rule launches_catchA, blast intro: kept, (intro kept; simp), rule launches_catchA, (intro kept; simp), blast intro: kept)
    fix jj0 w1 m w2
    assume get: "observeA (\<lambda>t. je_Get env t req) w = (Inr jj0, w1)"
      and fin: "util_AddFinalizer (\<lambda>m. invokeA (je_call env) (UpdateJetJob (jj0\<lparr> jo_Meta := m \<rparr>))) (jo_Meta jj0) w1 = (Inr m, w2)"
    let ?jj = "jj0\<lparr> jo_Meta := m \<rparr>"
    have "je_Get env (moment w) req = Inr jj0" using get by simp
    then have key: "jobKey ?jj = req" using assms(2) finalizer_same(1) [OF fin] unfolding named_def by metis
    have hz: "\<lparr> nn_Name = jj_HazelcastResourceName (jo_Spec ?jj), nn_Namespace = nn_Namespace req \<rparr> = clusterOf jj0"
      using key finalizer_same(1) [OF fin] by (auto simp: clusterOf_def jobKey_def)
    have go: "launchesAtMost ?C (reconcileOnCluster env req ?jj) w4"
      if "validateJob env req ?jj w3 = (Inr u, w4)" "om_DeletionTimestamp m = None" "\<not> (JetPhase_IsRunning (jjs_Phase (jo_Status ?jj)) \<and> jj_State (jo_Spec ?jj) = RunningJobState)"
        "\<not> JetPhase_IsFinished (jjs_Phase (jo_Status ?jj))" "je_MarshalSpec env (jo_Spec ?jj) = Inr js" "om_Annotations m LastSuccessfulSpecAnnotation \<noteq> Some js"
      for u w3 w4 js
    proof -
      have "nameFree env ?jj" using validateJob_free [OF that(1)] key by (auto simp: jobKey_def)
      moreover have "jobDue env ?jj" if "jj_State (jo_Spec ?jj) = RunningJobState" "\<not> JetPhase_IsSuspended (jjs_Phase (jo_Status ?jj))"
        using that \<open>om_DeletionTimestamp m = None\<close> \<open>je_MarshalSpec env (jo_Spec ?jj) = Inr js\<close> \<open>om_Annotations m LastSuccessfulSpecAnnotation \<noteq> Some js\<close>
          \<open>\<not> JetPhase_IsFinished _\<close> \<open>\<not> (JetPhase_IsRunning _ \<and> _)\<close>
        by (cases "jjs_Phase (jo_Status jj0)") (auto simp: jobDue_def JetPhase_IsRunning_def JetPhase_IsFinished_def JetPhase_IsSuspended_def)
      ultimately show ?thesis using get finalizer_same(2-) [OF fin, of env]
        by (intro launches_weaken [OF reconcileOnCluster_sound [of env ?jj req w4, unfolded hz]]) auto
    qed
    show "launchesAtMost ?C (if om_DeletionTimestamp m \<noteq> None
        then catchA (jet_executeFinalizer env ?jj) (\<lambda>e. jet_updateStatus env req (failedJetJobStatus e)) (\<lambda>_. returnA (ResultZero, None))
        else if JetPhase_IsRunning (jjs_Phase (jo_Status ?jj)) \<and> jj_State (jo_Spec ?jj) = RunningJobState then returnA (ResultZero, None)
        else if JetPhase_IsFinished (jjs_Phase (jo_Status ?jj)) then bindA (removeJobFromChecker ?jj) (\<lambda>_. returnA (ResultZero, None))
        else (case je_MarshalSpec env (jo_Spec ?jj) of
                Inl e \<Rightarrow> jet_updateStatus env req (failedJetJobStatus (wrapErr ''error marshaling JetJob as JSON: '' e))
              | Inr jjs \<Rightarrow>
                  if om_Annotations m LastSuccessfulSpecAnnotation = Some jjs then returnA (ResultZero, None)
                  else catchA (validateJob env req ?jj) (\<lambda>e. jet_updateStatus env req (failedJetJobStatus e)) (\<lambda>_. reconcileOnCluster env req ?jj))) w2"
    proof (cases "je_MarshalSpec env (jo_Spec ?jj)")
      case (Inl e)
      then show ?thesis by (simp only: sum.case) (intro launches_none kept)
    next
      case (Inr js)
      then show ?thesis by (simp only: sum.case)
        (intro launches_if launches_catchA kept; (intro launches_none kept; simp; fail)?; rule go; simp; fail)
    qed
  qed
  with assms(1) show ?thesis unfolding launchesAtMost_def by blast
qed

subsection \<open>A running job is left alone\<close>

lemma running_left_alone:
  assumes "je_Get env (moment w) req = Inr jj" and "ContainsFinalizer (jo_Meta jj) Finalizer" and "om_DeletionTimestamp (jo_Meta jj) = None"
    and "JetPhase_IsRunning (jjs_Phase (jo_Status jj))" and "jj_State (jo_Spec jj) = RunningJobState"
  shows "JetJobReconciler_Reconcile env req w = (Inr (ResultZero, None), w\<lparr> cw_reads := Suc (cw_reads w) \<rparr>)"
  using assms by (simp add: JetJobReconciler_Reconcile_def catchA_def util_AddFinalizer_def action_simps Let_def)

definition jet_initial :: JetJobReconciler where
  "jet_initial = \<lparr> jr_clusterStatusChecker = Map.empty, jr_waiting = [] \<rparr>"

text \<open>What happens in the operator while a job runs: its resource is reconciled, or a checker ticks.\<close>

inductive unattended :: "NamespacedName \<Rightarrow> JetJobReconciler \<Rightarrow> JetJobReconciler \<Rightarrow> bool" for req where
  rest: "unattended req r r"
| reconciled: "unattended req r (cw_state w) \<Longrightarrow> je_Get env (moment w) req = Inr jj \<Longrightarrow> ContainsFinalizer (jo_Meta jj) Finalizer \<Longrightarrow>
    om_DeletionTimestamp (jo_Meta jj) = None \<Longrightarrow> JetPhase_IsRunning (jjs_Phase (jo_Status jj)) \<Longrightarrow>
    jj_State (jo_Spec jj) = RunningJobState \<Longrightarrow> unattended req r (cw_state (snd (JetJobReconciler_Reconcile env req w)))"
| ticked: "unattended req r (cw_state w) \<Longrightarrow> unattended req r (cw_state (snd (checkerTick env hz w)))"

lemma unattended_initial: "unattended req r r' \<Longrightarrow> r = jet_initial \<Longrightarrow> r' = jet_initial"
proof (induction rule: unattended.induct)
  case (reconciled r w env jj)
  then show ?case using running_left_alone [of env w req jj] by simp
next
  case (ticked r w env hz)
  then show ?case by (simp add: checkerTick_def jet_initial_def action_simps)
qed simp

text \<open>After a restart of the operator nobody watches a job that runs: as long as its status says that it
  runs, no reconciliation and no tick gives its cluster a checker, so the status stays as it is.\<close>

theorem jet_restart_unwatched:
  assumes "unattended req jet_initial r"
  shows "jr_clusterStatusChecker r hz = None"
  using unattended_initial [OF assms] by (simp add: jet_initial_def)

subsection \<open>A failure that is overwritten\<close>

fun statusCall :: "jet_call \<times> bool \<Rightarrow> JetJob list" where
  "statusCall (StatusUpdateJetJob j, True) = [j]"
| "statusCall _ = []"

definition statuses :: "jet_call trace \<Rightarrow> JetJob list" where
  "statuses tr = concat (map statusCall tr)"

lemma statuses_simps [simp]: "statuses [] = []" "statuses (tr @ tr') = statuses tr @ statuses tr'" "statuses (e # tr) = statusCall e @ statuses tr"
  by (simp_all add: statuses_def)

definition endsStarting :: "jet_call trace \<Rightarrow> bool" where
  "endsStarting evs \<longleftrightarrow> (\<forall>run. (RunJob run, False) \<in> set evs \<longrightarrow>
     statuses evs \<noteq> [] \<and> jjs_Phase (jo_Status (last (statuses evs))) = JetJobStarting)"

definition noRun :: "jet_call \<Rightarrow> bool" where
  "noRun c \<longleftrightarrow> (\<forall>run. c \<noteq> RunJob run)"

lemma noRun_simps [simp]:
  "noRun (StatusUpdateJetJob j)" "noRun (UpdateJobState hz t)" "noRun (ResumeJob hz i)" "\<not> noRun (RunJob r)"
  "noRun (Download h q)" "noRun TriggerPhoneHomeJet" "noRun (UpdateJetJob x)"
  by (simp_all add: noRun_def)

lemma noRun_steps [kept]:
  "only_calls noRun (jet_updateStatus env name b)" "only_calls noRun (removeJobFromChecker job)"
  "only_calls noRun (runChecker hz)" "only_calls noRun (changeJobState env jj)"
  "only_calls noRun (initialSnapshot env jj)" "only_calls noRun (downloadTo env jj a)"
  "only_calls noRun (validA et v)" "only_calls noRun (stopJetExecution env jj hz)"
  by (auto simp: jet_updateStatus_def jet_statusOnce_def removeJobFromChecker_def runChecker_def changeJobState_def initialSnapshot_def
      downloadTo_def validA_def stopJetExecution_def Let_def intro!: kept split: option.split prod.split)

lemma noRun_more [kept]:
  "only_calls noRun (downloadFile env jj hz nn)" "only_calls noRun (jet_executeFinalizer env jj)"
  "only_calls noRun (validateJob env req jj)"
  by (auto simp: downloadFile_def jet_executeFinalizer_def removeCheckerAndFinalizer_def validateJob_def Let_def
      intro!: kept split: option.split prod.split)

text \<open>\<open>overwrites m w\<close>: if \<open>m\<close> ends without an error, a failed start in it is not the last word.\<close>

definition overwrites :: "jet_result \<Rightarrow> (JetJobReconciler, jet_call) world \<Rightarrow> bool" where
  "overwrites m w \<longleftrightarrow> (\<forall>res w'. m w = (Inr (res, None), w') \<longrightarrow> (\<exists>evs. cw_trace w' = cw_trace w @ evs \<and> endsStarting evs))"

lemma noRun_events: "only_calls noRun m \<Longrightarrow> \<exists>evs. cw_trace (snd (m w)) = cw_trace w @ evs \<and> (\<forall>e \<in> set evs. noRun (fst e))"
  unfolding only_calls_def calls_at_def by blast

lemma endsStarting_noRun: "\<forall>e \<in> set evs. noRun (fst e) \<Longrightarrow> endsStarting evs"
  "\<forall>e \<in> set evs. noRun (fst e) \<Longrightarrow> endsStarting evs' \<Longrightarrow> endsStarting (evs @ evs')"
  by (force simp: endsStarting_def)+

lemma overwrites_none: "only_calls noRun m \<Longrightarrow> overwrites m w"
  unfolding overwrites_def using noRun_events [of m w] endsStarting_noRun(1) by fastforce

lemma overwrites_bindA:
  assumes "only_calls noRun m" and "\<And>x w1. m w = (Inr x, w1) \<Longrightarrow> overwrites (f x) w1"
  shows "overwrites (bindA m f) w"
  unfolding overwrites_def bindA_Inr_iff
proof (intro allI impI, elim exE conjE)
  fix res w' x w1
  assume m: "m w = (Inr x, w1)" and f: "f x w1 = (Inr (res, None), w')"
  obtain evs where "cw_trace w1 = cw_trace w @ evs" "\<forall>e \<in> set evs. noRun (fst e)" using noRun_events [OF assms(1), of w] m by auto
  moreover obtain evs' where "cw_trace w' = cw_trace w1 @ evs'" "endsStarting evs'"
    using assms(2) [OF m] f unfolding overwrites_def by blast
  ultimately show "\<exists>evs. cw_trace w' = cw_trace w @ evs \<and> endsStarting evs" using endsStarting_noRun(2) by fastforce
qed

lemma overwrites_catchA:
  assumes "only_calls noRun m" and "\<And>e. only_calls noRun (h e)" and "\<And>x w1. m w = (Inr x, w1) \<Longrightarrow> overwrites (k x) w1"
  shows "overwrites (catchA m h k) w"
proof -
  have "overwrites (bindA m k) w" by (rule overwrites_bindA [OF assms(1,3)])
  moreover have "overwrites (catchA m h (\<lambda>_. throwA (ErrOther []))) w"
    by (intro overwrites_none kept assms(1,2))
  ultimately show ?thesis unfolding overwrites_def catchA_def
    by (cases "m w"; cases "fst (m w)") (auto simp: action_simps split: go_error.splits)
qed

lemma overwrites_if: "(b \<Longrightarrow> overwrites m w) \<Longrightarrow> (\<not> b \<Longrightarrow> overwrites n w) \<Longrightarrow> overwrites (if b then m else n) w"
  by simp

text \<open>A status update that succeeds ends with the write.\<close>

lemma statusOnce_written:
  "jet_statusOnce env name b w = (Inr u, w') \<Longrightarrow> \<exists>j. cw_trace w' = cw_trace w @ [(StatusUpdateJetJob j, True)] \<and> jjs_Phase (jo_Status j) = jb_status b"
  by (auto simp: jet_statusOnce_def Let_def invokeA_def bindA_Inr_iff split: option.splits)

lemma retry_last:
  assumes "RetryOnConflict n fn w = (Inr u, w')" and "only_calls Q fn" and "\<And>v v'. fn v = (Inr u, v') \<Longrightarrow> \<exists>e. cw_trace v' = cw_trace v @ [e] \<and> R e"
  shows "\<exists>evs e. cw_trace w' = cw_trace w @ evs @ [e] \<and> R e"
  using assms(1)
proof (induction n arbitrary: w)
  case 0
  then show ?case using assms(3) [of w w'] by auto
next
  case (Suc n)
  obtain r w1 where fn: "fn w = (r, w1)" by fastforce
  obtain evs where evs: "cw_trace w1 = cw_trace w @ evs" using only_calls_grows [OF assms(2), of w] fn by auto
  show ?case
  proof (cases r)
    case (Inl e)
    with Suc.prems fn have "RetryOnConflict n fn w1 = (Inr u, w')" by (auto simp: action_simps split: if_splits)
    from Suc.IH [OF this] evs show ?thesis by auto
  next
    case (Inr x)
    with Suc.prems fn assms(3) [of w w'] show ?thesis by (auto simp: action_simps)
  qed
qed

lemma starting_written:
  assumes "jet_updateStatus env name (jetJobWithStatus JetJobStarting) w = (Inr (res, None), w')"
  shows "\<exists>evs j. cw_trace w' = cw_trace w @ evs @ [(StatusUpdateJetJob j, True)] \<and> jjs_Phase (jo_Status j) = JetJobStarting"
proof -
  let ?fn = "jet_statusOnce env name (jetJobWithStatus JetJobStarting)"
  have "RetryOnConflict (je_retries env) ?fn w = (Inr (), w')"
    using assms by (auto simp: jet_updateStatus_def jetJobWithStatus_def action_simps split: sum.splits prod.splits)
  moreover have "only_calls noRun ?fn" by (auto simp: jet_statusOnce_def Let_def intro!: kept)
  moreover have "\<exists>e. cw_trace v' = cw_trace v @ [e] \<and> (\<exists>j. e = (StatusUpdateJetJob j, True) \<and> jjs_Phase (jo_Status j) = JetJobStarting)"
    if "?fn v = (Inr (), v')" for v v' using statusOnce_written [OF that] by (auto simp: jetJobWithStatus_def)
  ultimately obtain evs e where "cw_trace w' = cw_trace w @ evs @ [e]" "\<exists>j. e = (StatusUpdateJetJob j, True) \<and> jjs_Phase (jo_Status j) = JetJobStarting"
    using retry_last [where R = "\<lambda>e. \<exists>j. e = (StatusUpdateJetJob j, True) \<and> jjs_Phase (jo_Status j) = JetJobStarting", of "je_retries env" ?fn w "()" w' noRun]
    by metis
  then show ?thesis by blast
qed

lemma announceJob_starting:
  assumes "announceJob env job hz w = (Inr (res, None), w')"
  shows "\<exists>evs j. cw_trace w' = cw_trace w @ evs @ [(StatusUpdateJetJob j, True)] \<and> jjs_Phase (jo_Status j) = JetJobStarting"
proof -
  let ?w1 = "w\<lparr> cw_state := onChecker hz (\<lambda>sc. sc\<lparr> sc_checkInProgress := True \<rparr>) (cw_state w) \<rparr>"
  let ?ph = "if je_PhoneHomeEnabled env \<and> \<not> IsSuccessfullyApplied (jo_Meta job)
     then tryA (invokeA (je_call env) TriggerPhoneHomeJet) (\<lambda>_. returnA ()) else returnA ()"
  obtain w2 where ph: "?ph ?w1 = (Inr (), w2)" and upd: "jet_updateStatus env (jobKey job) (jetJobWithStatus JetJobStarting) w2 = (Inr (res, None), w')"
    using assms by (auto simp: announceJob_def runChecker_def bindA_Inr_iff)
  have "only_calls noRun ?ph" by (auto intro!: kept)
  from only_calls_grows [OF this, of ?w1] ph obtain evs where "cw_trace w2 = cw_trace w @ evs" by auto
  with starting_written [OF upd] show ?thesis by auto
qed

lemma startJob_overwrites: "overwrites (startJob env job hz) w"
proof -
  have leaf: "overwrites (bindA (launchRun env run) (\<lambda>_. announceJob env job hz)) v" for run v
    unfolding overwrites_def bindA_Inr_iff
  proof (intro allI impI, elim exE conjE)
    fix res w' u w1
    assume l: "launchRun env run v = (Inr u, w1)" and a: "announceJob env job hz w1 = (Inr (res, None), w')"
    from launchRun_run(3) [OF l] announceJob_starting [OF a] obtain evs evs' j where
      "cw_trace w' = cw_trace v @ (evs @ evs' @ [(StatusUpdateJetJob j, True)])" "jjs_Phase (jo_Status j) = JetJobStarting" by auto
    then show "\<exists>evs. cw_trace w' = cw_trace v @ evs \<and> endsStarting evs"
      by (intro exI [of _ "evs @ evs' @ [(StatusUpdateJetJob j, True)]"]) (simp add: endsStarting_def)
  qed
  show ?thesis unfolding startJob_def Let_def
    by (intro leaf overwrites_bindA overwrites_catchA kept)
qed

lemma applyJetJob_overwrites: "overwrites (applyJetJob env job hz) w"
  unfolding applyJetJob_def resultOf_def
  by (intro overwrites_bindA overwrites_catchA overwrites_if startJob_overwrites kept; (intro overwrites_none kept)?; simp)

lemma reconcileOnCluster_overwrites: "overwrites (reconcileOnCluster env req jj) w"
proof -
  let ?tail = "\<lambda>(result, err). if err \<noteq> None then returnA (result, err)
     else catchA (jet_updateLastSuccessfulConfiguration env req) (\<lambda>e. returnA (result, Some e)) (\<lambda>_. returnA (result, None))"
  have upd: "only_calls (\<lambda>c. \<exists>x. c = UpdateJetJob x) (jet_updateLastSuccessfulConfiguration env req)"
    by (auto simp: jet_updateLastSuccessfulConfiguration_def Let_def intro!: kept)
  have applied: "overwrites (bindA (applyJetJob env jj hz) ?tail) v" for v hz
    unfolding overwrites_def bindA_Inr_iff
  proof (intro allI impI, elim exE conjE)
    fix res w' x w1
    assume a: "applyJetJob env jj hz v = (Inr x, w1)" and t: "?tail x w1 = (Inr (res, None), w')"
    obtain res1 err where x: "x = (res1, err)" by fastforce
    with t have err: "err = None" by (auto simp: action_simps split: if_splits)
    from a x err applyJetJob_overwrites [of env jj hz v] obtain evs where evs: "cw_trace w1 = cw_trace v @ evs" "endsStarting evs"
      unfolding overwrites_def by blast
    have w': "w' = snd (jet_updateLastSuccessfulConfiguration env req w1)"
      using t x err by (cases "jet_updateLastSuccessfulConfiguration env req w1"; cases "fst (jet_updateLastSuccessfulConfiguration env req w1)")
        (auto simp: catchA_def action_simps split: go_error.splits)
    obtain evs' where evs': "cw_trace w' = cw_trace w1 @ evs'" "\<forall>e \<in> set evs'. \<exists>x. fst e = UpdateJetJob x"
      using upd w' unfolding only_calls_def calls_at_def by blast
    have "statusCall e = []" if "\<exists>x. fst e = UpdateJetJob x" for e using that by (cases e) auto
    then have "statuses evs' = []" using evs'(2) by (simp add: statuses_def)
    with evs evs' show "\<exists>evs. cw_trace w' = cw_trace v @ evs \<and> endsStarting evs"
      by (intro exI [of _ "evs @ evs'"]) (force simp: endsStarting_def)
  qed
  show ?thesis unfolding reconcileOnCluster_def Let_def
    by (intro overwrites_catchA overwrites_if applied kept; (intro overwrites_none kept; simp; fail)?)
qed

lemma Reconcile_overwrites: "overwrites (JetJobReconciler_Reconcile env req) w"
  unfolding JetJobReconciler_Reconcile_def Let_def
proof (rule overwrites_catchA, intro kept, (intro kept; simp), rule overwrites_catchA, (intro kept; simp), intro kept)
  fix jj0 :: JetJob and m w2
  let ?jj = "jj0\<lparr> jo_Meta := m \<rparr>"
  show "overwrites (if om_DeletionTimestamp m \<noteq> None
      then catchA (jet_executeFinalizer env ?jj) (\<lambda>e. jet_updateStatus env req (failedJetJobStatus e)) (\<lambda>_. returnA (ResultZero, None))
      else if JetPhase_IsRunning (jjs_Phase (jo_Status ?jj)) \<and> jj_State (jo_Spec ?jj) = RunningJobState then returnA (ResultZero, None)
      else if JetPhase_IsFinished (jjs_Phase (jo_Status ?jj)) then bindA (removeJobFromChecker ?jj) (\<lambda>_. returnA (ResultZero, None))
      else (case je_MarshalSpec env (jo_Spec ?jj) of
              Inl e \<Rightarrow> jet_updateStatus env req (failedJetJobStatus (wrapErr ''error marshaling JetJob as JSON: '' e))
            | Inr jjs \<Rightarrow>
                if om_Annotations m LastSuccessfulSpecAnnotation = Some jjs then returnA (ResultZero, None)
                else catchA (validateJob env req ?jj) (\<lambda>e. jet_updateStatus env req (failedJetJobStatus e)) (\<lambda>_. reconcileOnCluster env req ?jj))) w2"
  proof (cases "je_MarshalSpec env (jo_Spec ?jj)")
    case (Inl e)
    then show ?thesis by (simp only: sum.case) (intro overwrites_none kept)
  next
    case (Inr js)
    then show ?thesis by (simp only: sum.case)
      (intro overwrites_if overwrites_catchA kept; (intro overwrites_none kept; simp; fail)?; rule reconcileOnCluster_overwrites)
  qed
qed

text \<open>When the goroutine that runs a job fails while the reconciliation that started it still goes on, the
  failure is lost: if the reconciliation ends without an error, the last status it has written says
  that the job is starting, and a later reconciliation that finds this status does nothing.\<close>

theorem jet_failure_overwritten:
  assumes "JetJobReconciler_Reconcile env req w = (Inr (res, None), w')" and "cw_trace w' = cw_trace w @ evs" and "(RunJob run, False) \<in> set evs"
  shows "statuses evs \<noteq> [] \<and> jjs_Phase (jo_Status (last (statuses evs))) = JetJobStarting \<and>
    (\<forall>env' v jj. je_Get env' (moment v) req = Inr jj \<and> jo_Status jj = jo_Status (last (statuses evs)) \<and>
       jj_State (jo_Spec jj) = RunningJobState \<and> ContainsFinalizer (jo_Meta jj) Finalizer \<and> om_DeletionTimestamp (jo_Meta jj) = None \<longrightarrow>
       JetJobReconciler_Reconcile env' req v = (Inr (ResultZero, None), v\<lparr> cw_reads := Suc (cw_reads v) \<rparr>))"
proof -
  from Reconcile_overwrites [of env req w] assms have "endsStarting evs" unfolding overwrites_def by fastforce
  with assms(3) have "statuses evs \<noteq> [] \<and> jjs_Phase (jo_Status (last (statuses evs))) = JetJobStarting"
    unfolding endsStarting_def by blast
  then show ?thesis by (auto intro!: running_left_alone simp: JetPhase_IsRunning_def)
qed

subsection \<open>The end of a watch\<close>

text \<open>\<open>finishedAt env hz name nn\<close>: the resource that a checker has under a name belongs to a job of the
  cluster that is finished.\<close>

definition finishedAt :: "jet_env \<Rightarrow> NamespacedName \<Rightarrow> string \<Rightarrow> NamespacedName \<Rightarrow> bool" where
  "finishedAt env hz name nn \<longleftrightarrow> (\<forall>t. \<exists>job. je_Get env t nn = Inr job \<and> JetPhase_IsFinished (jjs_Phase (jo_Status job)) \<and>
     clusterOf job = hz \<and> JobName job = name)"

definition calmCalls :: "jet_env \<Rightarrow> bool" where
  "calmCalls env \<longleftrightarrow> (\<forall>t c x. je_call env t c \<noteq> Some (ErrPanic x))"

lemma updateJob_finished:
  assumes "finishedAt env hz name nn" and "calmCalls env"
  shows "\<exists>w'. updateJob env summary nn w = (Inr (), w') \<and> cw_state w' = onChecker hz (deleteJob name) (cw_state w)"
proof -
  obtain job where job: "je_Get env (moment w) nn = Inr job" "JetPhase_IsFinished (jjs_Phase (jo_Status job))" "clusterOf job = hz" "JobName job = name"
    using assms(1) unfolding finishedAt_def by blast
  have "je_call env t c \<noteq> Some (ErrPanic x)" for t c x using assms(2) unfolding calmCalls_def by blast
  then show ?thesis using job
    by (auto simp: updateJob_def catchA_def removeJobFromChecker_def action_simps invokeA_def split: option.split go_error.split)
qed

definition tickStep :: "jet_env \<Rightarrow> NamespacedName \<Rightarrow> JobAndSqlSummary \<Rightarrow> unit jet_proc" where
  "tickStep env hz summary =
     bindA (stateA (\<lambda>r. Option.bind (jr_clusterStatusChecker r hz) (loadJob (jss_NameOrId summary)))) (\<lambda>job.
     case job of None \<Rightarrow> returnA () | Some jobNn \<Rightarrow> updateJob env summary jobNn)"

lemma tick_removes:
  assumes "jr_clusterStatusChecker (cw_state w) hz = Some sc" and "\<And>name nn. sc_jobs sc name = Some nn \<Longrightarrow> finishedAt env hz name nn" and "calmCalls env"
  shows "\<exists>w' sc'. forA summaries (tickStep env hz) w = (Inr (), w') \<and> jr_clusterStatusChecker (cw_state w') hz = Some sc' \<and>
    sc_jobs sc' = sc_jobs sc |` (- jss_NameOrId ` set summaries) \<and> sc_checkInProgress sc' = sc_checkInProgress sc"
  using assms(1,2)
proof (induction summaries arbitrary: w sc)
  case Nil
  then show ?case by (auto simp: restrict_map_def)
next
  case (Cons s ss)
  show ?case
  proof (cases "sc_jobs sc (jss_NameOrId s)")
    case None
    have same: "sc_jobs sc |` (- insert (jss_NameOrId s) X) = sc_jobs sc |` (- X)" for X
      using None by (auto simp: restrict_map_def fun_eq_iff)
    have step: "tickStep env hz s w = (Inr (), w)" using Cons.prems(1) None by (simp add: tickStep_def loadJob_def action_simps)
    show ?thesis using Cons.IH [OF Cons.prems] step same by simp
  next
    case (Some nn)
    obtain w1 where w1: "updateJob env s nn w = (Inr (), w1)" "cw_state w1 = onChecker hz (deleteJob (jss_NameOrId s)) (cw_state w)"
      using updateJob_finished [OF Cons.prems(2) [OF Some] assms(3), of s w] by blast
    let ?sc = "deleteJob (jss_NameOrId s) sc"
    have sc: "jr_clusterStatusChecker (cw_state w1) hz = Some ?sc" using w1(2) Cons.prems(1) by (simp add: onChecker_def)
    have "sc_jobs ?sc name = Some nn' \<Longrightarrow> finishedAt env hz name nn'" for name nn'
      using Cons.prems(2) by (auto simp: deleteJob_def split: if_splits)
    from Cons.IH [OF sc this] obtain w' sc' where IH: "forA ss (tickStep env hz) w1 = (Inr (), w')" "jr_clusterStatusChecker (cw_state w') hz = Some sc'"
      "sc_jobs sc' = sc_jobs ?sc |` (- jss_NameOrId ` set ss)" "sc_checkInProgress sc' = sc_checkInProgress ?sc" by blast
    have "sc_jobs ?sc |` (- X) = sc_jobs sc |` (- insert (jss_NameOrId s) X)" for X
      by (auto simp: deleteJob_def restrict_map_def fun_eq_iff)
    moreover have "tickStep env hz s w = (Inr (), w1)" using Cons.prems(1) Some w1(1) by (simp add: tickStep_def loadJob_def)
    ultimately show ?thesis using IH by (auto simp: deleteJob_def)
  qed
qed

text \<open>C32: the watch over a cluster ends: once all jobs of a checker are finished and the cluster still
  reports them, the next tick forgets them and the one after it ends the goroutine, so that nothing
  runs for a cluster without active jobs.\<close>

theorem jet_watch_ends:
  assumes "jr_clusterStatusChecker (cw_state w) hz = Some sc" and "sc_checkInProgress sc" and "sc_jobs sc \<noteq> Map.empty"
    and "\<And>name nn. sc_jobs sc name = Some nn \<Longrightarrow> finishedAt env hz name nn \<and> name \<in> jss_NameOrId ` set summaries"
    and "je_JobSummaries env (moment w) hz = Inr summaries" and "calmCalls env"
    and "checkerTick env hz w = (r, w1)" and "checkerTick env hz (w1\<lparr> cw_reads := n \<rparr>) = (r', w2)"
  shows "r = Inr () \<and> r' = Inr () \<and> jr_clusterStatusChecker (cw_state w2) hz = Some \<lparr> sc_jobs = Map.empty, sc_checkInProgress = False \<rparr>"
proof -
  obtain w' sc' where run: "forA summaries (tickStep env hz) (w\<lparr> cw_reads := Suc (cw_reads w) \<rparr>) = (Inr (), w')"
      "jr_clusterStatusChecker (cw_state w') hz = Some sc'" "sc_jobs sc' = sc_jobs sc |` (- jss_NameOrId ` set summaries)" "sc_checkInProgress sc' = sc_checkInProgress sc"
    using tick_removes [of "w\<lparr> cw_reads := Suc (cw_reads w) \<rparr>" hz sc env summaries] assms(1,4,6) by auto
  have "sc_jobs sc' = Map.empty" using run(3) assms(4) by (auto simp: restrict_map_def fun_eq_iff) (metis option.exhaust)
  moreover have "(r, w1) = (Inr (), w')"
    using assms(1,2,3,5,7) run(1) by (simp add: checkerTick_def catchA_def action_simps tickStep_def [abs_def])
  ultimately show ?thesis using run(2,4) assms(2,8) by (cases sc') (auto simp: checkerTick_def onChecker_def)
qed

end
