(* ===== verification/Jet_Runs.thy ===== *)
theory Jet_Runs
  imports Jet_Safety
begin

text \<open>
  Runs of the JetJob controller on a concrete job: the witnesses of its theorems.
\<close>

definition sample_jet_cluster :: Hazelcast where
  "sample_jet_cluster = sample_hazelcast\<lparr> h_Spec := sample_hazelcast_spec\<lparr> hs_JetEngineConfiguration := Some
     \<lparr> je_Enabled = Some True, je_ResourceUploadEnabled = True,
       je_RemoteFileConfiguration = \<lparr> rfc_BucketConfiguration = None, rfc_ConfigMaps = [], rfc_RemoteURLs = [] \<rparr>,
       je_Instance = None, je_EdgeDefaults = None \<rparr> \<rparr> \<rparr>"

definition sample_watched_job :: JetJob where
  "sample_watched_job = \<lparr> jo_Meta = sample_meta\<lparr> om_Name := ''job'', om_Finalizers := [Finalizer] \<rparr>, jo_Spec = sample_jet_job_spec,
     jo_Status = \<lparr> jjs_Id = 0, jjs_Phase = JetJobPhaseUnset, jjs_SubmissionTime = None, jjs_CompletionTime = None,
       jjs_FailureText = [], jjs_SuspensionCause = [] \<rparr> \<rparr>"

definition sample_job_key :: NamespacedName where
  "sample_job_key = \<lparr> nn_Name = ''job'', nn_Namespace = ''default'' \<rparr>"

text \<open>The resource is \<open>job\<close>; the goroutines run at once, and running the job fails.\<close>

definition sample_jet_env :: "JetJob \<Rightarrow> JobAndSqlSummary list \<Rightarrow> jet_env" where
  "sample_jet_env job summaries = \<lparr>
     je_call = (\<lambda>t c. case c of RunJob _ \<Rightarrow> Some (ErrOther ''no such class'') | _ \<Rightarrow> None),
     je_Get = (\<lambda>t nn. if nn = sample_job_key then Inr job else Inl (ErrNotFound [])),
     je_List = (\<lambda>t ns. Inr [job]), je_GetHazelcast = (\<lambda>t nn. Inr sample_jet_cluster),
     je_SnapshotCreated = (\<lambda>t nn. Inl (ErrNotFound [])), je_GetOrCreateClient = (\<lambda>t nn. Inr ()), je_MtlsClient = (\<lambda>t ns. Inr ()),
     je_OrderedMembers = (\<lambda>t nn. [''10.0.0.1:5701'']), je_order = (\<lambda>t ms. ms), je_DownloadService = (\<lambda>h. None),
     je_JobSummaries = (\<lambda>t nn. Inr summaries), je_eager = (\<lambda>t. True), je_validation = sample_env, je_ErrText = (\<lambda>e. []),
     je_ConflictText = (\<lambda>c. []), je_MarshalSpec = (\<lambda>s. Inr ''{}''), je_PhoneHomeEnabled = False, je_retries = 0 \<rparr>"

definition jet_start :: "(JetJobReconciler, jet_call) world" where
  "jet_start = \<lparr> cw_state = jet_initial, cw_reads = 0, cw_trace = [] \<rparr>"

lemmas jet_run_simps = sample_jet_env_def sample_watched_job_def sample_job_key_def sample_defs sample_jet_cluster_def
  jet_start_def action_simps catchA_def invokeA_def Let_def

lemma sample_named: "jobKey job = sample_job_key \<Longrightarrow> named (sample_jet_env job ss)"
  by (simp add: named_def sample_jet_env_def)

lemma sample_valid: "ValidateJetConfiguration sample_jet_cluster = Some None"
  by (simp add: ValidateJetConfiguration_def outcome_None_iff sample_jet_cluster_def Jet_IsEnabled_def)

lemma sample_free: "validateJob (sample_jet_env sample_watched_job ss) req sample_watched_job w = (Inr (), w\<lparr> cw_reads := Suc (cw_reads w) \<rparr>)"
  by (simp add: validateJob_def jet_run_simps)

lemma sample_jet_status:
  "jet_updateStatus (sample_jet_env job ss) sample_job_key b w =
     (Inr (if jb_status b = JetJobFailed then (ResultZero, jb_err b)
        else if jb_status b = JetJobNotRunning then (\<lparr> res_Requeue = True, res_RequeueAfter = 1000000000 \<rparr>, None) else (ResultZero, None)),
      w\<lparr> cw_reads := Suc (cw_reads w), cw_trace := cw_trace w @ [(StatusUpdateJetJob (job\<lparr> jo_Status := case jb_err b of
          None \<Rightarrow> (jo_Status job)\<lparr> jjs_Phase := jb_status b \<rparr>
        | Some e \<Rightarrow> (jo_Status job)\<lparr> jjs_Phase := jb_status b, jjs_FailureText := error_text e \<rparr> \<rparr>), True)] \<rparr>)"
  by (simp add: jet_updateStatus_def jet_statusOnce_def sample_jet_env_def action_simps Let_def invokeA_def)

lemma sample_key: "jobKey sample_watched_job = sample_job_key" "clusterOf sample_watched_job = \<lparr> nn_Name = ''hz'', nn_Namespace = ''default'' \<rparr>"
  by (simp_all add: jobKey_def clusterOf_def jet_run_simps)

text \<open>The start of the job: the run fails at once, and the status is overwritten.\<close>

lemma sample_jet_start:
  fixes w :: "(JetJobReconciler, jet_call) world"
  defines "env \<equiv> sample_jet_env sample_watched_job []" and "hz \<equiv> \<lparr> nn_Name = ''hz'', nn_Namespace = ''default'' \<rparr>"
  shows "\<exists>w' run a b. startJob env sample_watched_job hz w = (Inr (ResultZero, None), w') \<and>
    cw_trace w' = cw_trace w @ [(RunJob run, False), (StatusUpdateJetJob a, True), (StatusUpdateJetJob b, True)] \<and>
    jr_waiting (cw_state w') = jr_waiting (cw_state w)"
proof -
  have call: "je_call env t (RunJob run) = Some (ErrOther ''no such class'')" "je_eager env t" "\<not> je_PhoneHomeEnabled env" for t run
    by (simp_all add: env_def sample_jet_env_def)
  have plain: "initialSnapshot env sample_watched_job v = (Inr [], v)" "\<not> JetJobSpec_IsDownloadEnabled (jo_Spec sample_watched_job)" for v
    by (simp_all add: initialSnapshot_def jet_run_simps JetJobSpec_IsDownloadEnabled_def JetJobSpec_IsBucketEnabled_def JetJobSpec_IsRemoteURLsEnabled_def)
  note status = sample_jet_status [of sample_watched_job "[]", folded env_def]
  have go: "\<exists>w' a. launchRun env run v = (Inr (), w') \<and> cw_trace w' = cw_trace v @ [(RunJob run, False), (StatusUpdateJetJob a, True)] \<and> cw_state w' = cw_state v"
    if "jn_Job run = sample_job_key" for run v
    using that by (simp add: launchRun_def call runJobGo_def catchA_def invokeA_def action_simps status failedJetJobStatus_def)
  have say: "\<exists>w' b. announceJob env sample_watched_job hz v = (Inr (ResultZero, None), w') \<and> cw_trace w' = cw_trace v @ [(StatusUpdateJetJob b, True)] \<and>
      jr_waiting (cw_state w') = jr_waiting (cw_state v)" for v
    by (simp add: announceJob_def runChecker_def call action_simps sample_key status jetJobWithStatus_def onChecker_def split: option.split)
  let ?w1 = "w\<lparr> cw_state := onChecker hz (storeJob (JobName sample_watched_job) sample_job_key) (cw_state w) \<rparr>"
  let ?run = "\<lparr> jn_Job = sample_job_key, jn_Cluster = hz, jn_MetaData = jobMetaData sample_watched_job [] \<rparr>"
  obtain w2 a where w2: "launchRun env ?run ?w1 = (Inr (), w2)" "cw_trace w2 = cw_trace w @ [(RunJob ?run, False), (StatusUpdateJetJob a, True)]" "cw_state w2 = cw_state ?w1"
    using go [of ?run ?w1] by auto
  obtain w3 b where w3: "announceJob env sample_watched_job hz w2 = (Inr (ResultZero, None), w3)" "cw_trace w3 = cw_trace w2 @ [(StatusUpdateJetJob b, True)]"
      "jr_waiting (cw_state w3) = jr_waiting (cw_state w2)" using say by blast
  have "startJob env sample_watched_job hz w = (Inr (ResultZero, None), w3)"
    using w2(1) w3(1) by (simp add: startJob_def Let_def sample_key catchA_def action_simps plain)
  moreover have "jr_waiting (cw_state w3) = jr_waiting (cw_state w)" using w2(3) w3(3) by (simp add: onChecker_def split: option.split)
  ultimately show ?thesis using w2(2) w3(2) by auto
qed

lemma sample_job_started:
  defines "env \<equiv> sample_jet_env sample_watched_job []"
  shows "\<exists>w' run a b c. JetJobReconciler_Reconcile env sample_job_key jet_start = (Inr (ResultZero, None), w') \<and>
    cw_trace w' = [(RunJob run, False), (StatusUpdateJetJob a, True), (StatusUpdateJetJob b, True), (UpdateJetJob c, True)] \<and> jr_waiting (cw_state w') = []"
proof -
  let ?hz = "\<lparr> nn_Name = ''hz'', nn_Namespace = ''default'' \<rparr>"
  have get: "je_Get env t sample_job_key = Inr sample_watched_job" "je_GetHazelcast env t nn = Inr sample_jet_cluster" "je_GetOrCreateClient env t nn = Inr ()"
      "je_MarshalSpec env sp = Inr ''{}''" "je_call env t (UpdateJetJob x) = None" "je_retries env = 0" for t nn sp x
    by (simp_all add: env_def sample_jet_env_def)
  have job: "ContainsFinalizer (jo_Meta sample_watched_job) Finalizer" "om_DeletionTimestamp (jo_Meta sample_watched_job) = None"
      "om_Annotations (jo_Meta sample_watched_job) = Map.empty" "jjs_Phase (jo_Status sample_watched_job) = JetJobPhaseUnset"
      "jj_State (jo_Spec sample_watched_job) = RunningJobState" "jj_HazelcastResourceName (jo_Spec sample_watched_job) = ''hz''"
      "hst_Phase (h_Status sample_jet_cluster) = Running" "nn_Namespace sample_job_key = ''default''"
    by (simp_all add: jet_run_simps ContainsFinalizer_def)
  let ?w1 = "jet_start\<lparr> cw_reads := 4, cw_state := LoadOrStoreChecker ?hz jet_initial \<rparr>"
  obtain w2 run a b where w2: "startJob env sample_watched_job ?hz ?w1 = (Inr (ResultZero, None), w2)"
      "cw_trace w2 = [(RunJob run, False), (StatusUpdateJetJob a, True), (StatusUpdateJetJob b, True)]" "jr_waiting (cw_state w2) = []"
    using sample_jet_start [of ?w1] by (auto simp: env_def jet_start_def jet_initial_def LoadOrStoreChecker_def)
  have "applyJetJob env sample_watched_job ?hz (jet_start\<lparr> cw_reads := 3 \<rparr>) = (Inr (ResultZero, None), w2)"
    using w2(1) by (simp add: applyJetJob_def catchA_def action_simps get job JetPhase_IsSuspended_def jet_start_def)
  then have "\<exists>w' c. reconcileOnCluster env sample_job_key sample_watched_job (jet_start\<lparr> cw_reads := 2 \<rparr>) = (Inr (ResultZero, None), w') \<and>
      cw_trace w' = cw_trace w2 @ [(UpdateJetJob c, True)] \<and> jr_waiting (cw_state w') = []"
    using w2(3) by (simp add: reconcileOnCluster_def catchA_def action_simps get job validA_def sample_valid Let_def numeral_eq_Suc
        jet_updateLastSuccessfulConfiguration_def invokeA_def)
  moreover have "JetJobReconciler_Reconcile env sample_job_key jet_start = reconcileOnCluster env sample_job_key sample_watched_job (jet_start\<lparr> cw_reads := 2 \<rparr>)"
    using sample_free [of "[]" sample_job_key "jet_start\<lparr> cw_reads := 1 \<rparr>", folded env_def]
    by (simp add: JetJobReconciler_Reconcile_def catchA_def action_simps get job util_AddFinalizer_def Let_def JetPhase_IsRunning_def
        JetPhase_IsFinished_def jet_start_def numeral_eq_Suc)
  ultimately show ?thesis using w2(2) by auto
qed

theorem jet_start_conditions_witness:
  "\<exists>w' run. JetJobReconciler_Reconcile (sample_jet_env sample_watched_job []) sample_job_key jet_start = (Inr (ResultZero, None), w') \<and>
     launchedRuns w' = {#run#} \<and> jobDue (sample_jet_env sample_watched_job []) sample_watched_job \<and>
     clusterReady (sample_jet_env sample_watched_job []) (clusterOf sample_watched_job) \<and>
     soundRun (sample_jet_env sample_watched_job []) sample_watched_job (clusterOf sample_watched_job) run w'"
proof -
  let ?env = "sample_jet_env sample_watched_job []"
  obtain w' run a b c where run: "JetJobReconciler_Reconcile ?env sample_job_key jet_start = (Inr (ResultZero, None), w')"
      "cw_trace w' = [(RunJob run, False), (StatusUpdateJetJob a, True), (StatusUpdateJetJob b, True), (UpdateJetJob c, True)]" "jr_waiting (cw_state w') = []"
    using sample_job_started by blast
  have "launchedRuns w' = {#run#}" "launchedRuns jet_start = {#}" using run(2,3) by (simp_all add: launchedRuns_def jet_start_def jet_initial_def)
  moreover have "je_Get ?env (moment jet_start) sample_job_key = Inr sample_watched_job" by (simp add: sample_jet_env_def)
  ultimately show ?thesis
    using jet_start_conditions [OF run(1) sample_named [OF sample_key(1)]] run(1) by auto
qed

theorem jet_failure_overwritten_witness:
  "\<exists>w' run. JetJobReconciler_Reconcile (sample_jet_env sample_watched_job []) sample_job_key jet_start = (Inr (ResultZero, None), w') \<and>
     (RunJob run, False) \<in> set (cw_trace w') \<and> jjs_Phase (jo_Status (last (statuses (cw_trace w')))) = JetJobStarting"
proof -
  let ?env = "sample_jet_env sample_watched_job []"
  obtain w' run a b c where run: "JetJobReconciler_Reconcile ?env sample_job_key jet_start = (Inr (ResultZero, None), w')"
      "cw_trace w' = [(RunJob run, False), (StatusUpdateJetJob a, True), (StatusUpdateJetJob b, True), (UpdateJetJob c, True)]" "jr_waiting (cw_state w') = []"
    using sample_job_started by blast
  then have "(RunJob run, False) \<in> set (cw_trace w')" "cw_trace w' = cw_trace jet_start @ cw_trace w'" by (simp_all add: jet_start_def)
  from jet_failure_overwritten [OF run(1) this(2,1)] run(1) this(1) show ?thesis by blast
qed

definition sample_deleted_job :: JetJob where
  "sample_deleted_job = sample_watched_job\<lparr> jo_Meta := (jo_Meta sample_watched_job)\<lparr> om_DeletionTimestamp := Some 5 \<rparr>,
     jo_Status := (jo_Status sample_watched_job)\<lparr> jjs_Id := 7, jjs_Phase := JetJobRunning \<rparr> \<rparr>"

theorem jet_finalizer_last_witness:
  "\<exists>w' pre x. JetJobReconciler_Reconcile (sample_jet_env sample_deleted_job []) sample_job_key jet_start = (Inr (ResultZero, None), w') \<and>
     cw_trace w' = pre @ [(UpdateJetJob x, True)] \<and> \<not> ContainsFinalizer (jo_Meta x) Finalizer \<and>
     stopped (sample_jet_env sample_deleted_job []) sample_deleted_job (1, []) pre \<and> pre \<noteq> []"
proof -
  let ?env = "sample_jet_env sample_deleted_job []" and ?x = "sample_deleted_job\<lparr> jo_Meta := RemoveFinalizer (jo_Meta sample_deleted_job) Finalizer \<rparr>"
  have job: "ContainsFinalizer (jo_Meta sample_deleted_job) Finalizer" "om_DeletionTimestamp (jo_Meta sample_deleted_job) = Some 5"
      "jjs_Id (jo_Status sample_deleted_job) = 7" "om_DeletionTimestamp (h_Meta sample_jet_cluster) = None"
    by (simp_all add: jet_run_simps sample_deleted_job_def ContainsFinalizer_def)
  have get: "je_Get ?env t sample_job_key = Inr sample_deleted_job" "je_GetHazelcast ?env t nn = Inr sample_jet_cluster"
      "je_GetOrCreateClient ?env t nn = Inr ()" "je_call ?env t (UpdateJetJob x) = None" "je_call ?env t (UpdateJobState nn q) = None" for t nn x q
    by (simp_all add: sample_jet_env_def)
  have "\<exists>w' c. JetJobReconciler_Reconcile ?env sample_job_key jet_start = (Inr (ResultZero, None), w') \<and> cw_trace w' = [(c, True), (UpdateJetJob ?x, True)]"
    by (simp add: JetJobReconciler_Reconcile_def catchA_def action_simps get job util_AddFinalizer_def Let_def jet_executeFinalizer_def
        stopJetExecution_def removeCheckerAndFinalizer_def removeJobFromChecker_def invokeA_def jet_start_def)
  then obtain w' e where run: "JetJobReconciler_Reconcile ?env sample_job_key jet_start = (Inr (ResultZero, None), w')" "cw_trace w' = [e] @ [(UpdateJetJob ?x, True)]"
    by auto
  have "stopped ?env sample_deleted_job (1, []) [e]"
    using jet_finalizer_last [OF run(1), of sample_deleted_job "[e]" ?x True "[]"] get(1) job(2) run(2) by (simp add: jet_start_def)
  with run show ?thesis by (intro exI [of _ w'] exI [of _ "[e]"] exI [of _ ?x]) simp
qed

definition sample_running_job :: JetJob where
  "sample_running_job = sample_watched_job\<lparr> jo_Status := (jo_Status sample_watched_job)\<lparr> jjs_Id := 7, jjs_Phase := JetJobRunning \<rparr> \<rparr>"

theorem jet_restart_unwatched_witness:
  "jr_clusterStatusChecker (cw_state (snd (JetJobReconciler_Reconcile (sample_jet_env sample_running_job []) sample_job_key jet_start)))
     (clusterOf sample_running_job) = None"
proof (rule jet_restart_unwatched [OF unattended.reconciled])
  show "unattended sample_job_key jet_initial (cw_state jet_start)" by (simp add: jet_start_def unattended.rest)
  show "je_Get (sample_jet_env sample_running_job []) (moment jet_start) sample_job_key = Inr sample_running_job" by (simp add: sample_jet_env_def)
qed (simp_all add: jet_run_simps sample_running_job_def ContainsFinalizer_def JetPhase_IsRunning_def)

definition sample_finished_job :: JetJob where
  "sample_finished_job = sample_watched_job\<lparr> jo_Status := (jo_Status sample_watched_job)\<lparr> jjs_Id := 7, jjs_Phase := JetJobCompleted \<rparr> \<rparr>"

definition sample_summary :: JobAndSqlSummary where
  "sample_summary = \<lparr> jss_LightJob = False, jss_JobId = 7, jss_ExecutionId = 8, jss_NameOrId = ''job'', jss_Status = 7, jss_SubmissionTime = 1,
     jss_CompletionTime = 2, jss_FailureText = [], jss_SqlSummary = \<lparr> sqs_Query = [], sqs_Unbounded = False \<rparr>, jss_SuspensionCause = [] \<rparr>"

theorem jet_watch_ends_witness:
  "\<exists>w r w1 r' w2. jr_clusterStatusChecker (cw_state w) (clusterOf sample_finished_job) =
       Some \<lparr> sc_jobs = [''job'' \<mapsto> sample_job_key], sc_checkInProgress = True \<rparr> \<and>
     checkerTick (sample_jet_env sample_finished_job [sample_summary]) (clusterOf sample_finished_job) w = (r, w1) \<and>
     checkerTick (sample_jet_env sample_finished_job [sample_summary]) (clusterOf sample_finished_job) w1 = (r', w2) \<and>
     jr_clusterStatusChecker (cw_state w2) (clusterOf sample_finished_job) = Some \<lparr> sc_jobs = Map.empty, sc_checkInProgress = False \<rparr>"
proof -
  let ?env = "sample_jet_env sample_finished_job [sample_summary]" and ?hz = "clusterOf sample_finished_job"
  let ?sc = "\<lparr> sc_jobs = [''job'' \<mapsto> sample_job_key], sc_checkInProgress = True \<rparr>"
  let ?w = "jet_start\<lparr> cw_state := jet_initial\<lparr> jr_clusterStatusChecker := [?hz \<mapsto> ?sc] \<rparr> \<rparr>"
  obtain r w1 where t1: "checkerTick ?env ?hz ?w = (r, w1)" by fastforce
  obtain r' w2 where t2: "checkerTick ?env ?hz w1 = (r', w2)" by fastforce
  have "finishedAt ?env ?hz ''job'' sample_job_key"
    by (simp add: finishedAt_def jet_run_simps sample_finished_job_def JetPhase_IsFinished_def JobName_def)
  moreover have "calmCalls ?env" by (auto simp: calmCalls_def sample_jet_env_def split: jet_call.split)
  moreover have "jss_NameOrId ` set [sample_summary] = {''job''}" by (simp add: sample_summary_def)
  moreover have "je_JobSummaries ?env (moment ?w) ?hz = Inr [sample_summary]" by (simp add: sample_jet_env_def)
  ultimately have "r = Inr () \<and> r' = Inr () \<and> jr_clusterStatusChecker (cw_state w2) ?hz = Some \<lparr> sc_jobs = Map.empty, sc_checkInProgress = False \<rparr>"
    using t1 t2
    by (intro jet_watch_ends [of ?w ?hz ?sc ?env "[sample_summary]" r w1 "cw_reads w1" r' w2])
      (simp_all split: if_splits)
  moreover have "jr_clusterStatusChecker (cw_state ?w) ?hz = Some ?sc" by simp
  ultimately show ?thesis using t1 t2 by blast
qed

end
