(* ===== verification/Jet_Snapshot.thy ===== *)
theory Jet_Snapshot
  imports Ds_Controller
begin

text \<open>
  The JetJobSnapshot controller (\<^verbatim>\<open>jetjobsnapshot_controller.go\<close>, \<^verbatim>\<open>jetjobsnapshot_status.go\<close>,
  \<^verbatim>\<open>jetjobsnapshot_types.go\<close>, \<^verbatim>\<open>jetjobsnapshot_validation.go\<close>): a snapshot of a running job is exported once.

  The state is the set of the resources whose export was started (\<^verbatim>\<open>exportingSnapshotMap\<close>) and the
  goroutines that wait to export.
\<close>

subsection \<open>The resource\<close>

datatype JetJobSnapshotState = JetJobSnapshotStateUnset | JetJobSnapshotWaiting | JetJobSnapshotExporting
  | JetJobSnapshotExported | JetJobSnapshotFailed

record JetJobSnapshotSpec =
  jsp_Name :: string
  jsp_CancelJob :: bool
  jsp_JetJobResourceName :: string

record JetJobSnapshotStatus =
  jst_State :: JetJobSnapshotState
  jst_Message :: string
  jst_CreationTime :: "int option"

record JetJobSnapshot =
  js_Meta :: ObjectMeta
  js_Spec :: JetJobSnapshotSpec
  js_Status :: JetJobSnapshotStatus

definition SnapshotName :: "JetJobSnapshot \<Rightarrow> string" where
  "SnapshotName j = (if jsp_Name (js_Spec j) \<noteq> [] then jsp_Name (js_Spec j) else om_Name (js_Meta j))"

subsection \<open>State, calls, environment\<close>

record snapshotRun =
  sr_Name :: NamespacedName
  sr_Cluster :: NamespacedName
  sr_JobId :: int64
  sr_SnapshotName :: string
  sr_CancelJob :: bool

record JetJobSnapshotReconciler =
  jsr_exportingSnapshotMap :: "NamespacedName set"
  jsr_waiting :: "snapshotRun list"

datatype snapshot_call =
    UpdateSnapshot JetJobSnapshot
  | StatusUpdateSnapshot JetJobSnapshot
  | ExportSnapshot snapshotRun
  | TriggerPhoneHomeSnapshot

record snapshot_env =
  sx_call :: "snapshot_call moment \<Rightarrow> snapshot_call \<Rightarrow> go_error option"
  sx_Get :: "snapshot_call moment \<Rightarrow> NamespacedName \<Rightarrow> go_error + JetJobSnapshot"
  sx_GetJob :: "snapshot_call moment \<Rightarrow> NamespacedName \<Rightarrow> go_error + JetJob"
  sx_GetHazelcast :: "snapshot_call moment \<Rightarrow> NamespacedName \<Rightarrow> go_error + Hazelcast"
  sx_GetOrCreateClient :: "snapshot_call moment \<Rightarrow> NamespacedName \<Rightarrow> go_error + unit"
  sx_SetOwnerReference :: "Hazelcast \<Rightarrow> JetJobSnapshot \<Rightarrow> go_error + JetJobSnapshot"
  sx_Kind :: "Hazelcast \<Rightarrow> string"
  sx_Now :: "snapshot_call moment \<Rightarrow> int64"
  sx_UnmarshalSpec :: "string \<Rightarrow> go_error + JetJobSnapshotSpec"
  sx_MarshalSpec :: "JetJobSnapshotSpec \<Rightarrow> go_error + string"
  sx_ErrText :: "validation_error \<Rightarrow> string"
  sx_retries :: nat

type_synonym 'a snapshot_proc = "(JetJobSnapshotReconciler, snapshot_call, 'a) proc"

definition snapshotKey :: "JetJobSnapshot \<Rightarrow> NamespacedName" where
  "snapshotKey j = \<lparr> nn_Name = om_Name (js_Meta j), nn_Namespace = om_Namespace (js_Meta j) \<rparr>"

subsection \<open>Validation\<close>

definition validateJetJobSnapshotNonUpdatableFields :: "JetJobSnapshotSpec \<Rightarrow> JetJobSnapshotSpec \<Rightarrow> vstep" where
  "validateJetJobSnapshotNonUpdatableFields j old = check (j \<noteq> old) (Forbidden [''spec''] ''field cannot be updated'')"

definition validateJetJobSnapshotUpdateSpec :: "snapshot_env \<Rightarrow> JetJobSnapshot \<Rightarrow> vstep" where
  "validateJetJobSnapshotUpdateSpec env j =
     (case om_Annotations (js_Meta j) LastSuccessfulSpecAnnotation of
        None \<Rightarrow> Some
      | Some prev \<Rightarrow>
          (case sx_UnmarshalSpec env prev of
             Inl err \<Rightarrow> check True (InternalError [''spec'']
               (''error parsing last JetJobSnapshot spec for update errors: '' @ error_text err))
           | Inr parsed \<Rightarrow> validateJetJobSnapshotNonUpdatableFields (js_Spec j) parsed))"

definition ValidateJetJobSnapshotSpecUpdate :: "snapshot_env \<Rightarrow> JetJobSnapshot \<Rightarrow> validation_error option go" where
  "ValidateJetJobSnapshotSpecUpdate env j =
     outcome (validateJetJobSnapshotUpdateSpec env j) \<lparr> vo_Kind = ''JetJobSnapshot'', vo_Name = om_Name (js_Meta j) \<rparr>"

definition ValidateHazelcastLicenseKey :: "Hazelcast \<Rightarrow> validation_error option go" where
  "ValidateHazelcastLicenseKey h =
     outcome (check (HazelcastSpec_GetLicenseKeySecretName (h_Spec h) = [])
       (Required [''spec'', ''licenseKeySecretName''] ''license key must be set''))
     \<lparr> vo_Kind = ''Hazelcast'', vo_Name = om_Name (h_Meta h) \<rparr>"

subsection \<open>Status\<close>

datatype JetJobSnapshotStatusApplier =
    withJetJobSnapshotState JetJobSnapshotState
  | withJetJobSnapshotFailedState string

fun JetJobSnapshotStatusApply :: "JetJobSnapshotStatusApplier \<Rightarrow> JetJobSnapshotStatus \<Rightarrow> JetJobSnapshotStatus" where
  "JetJobSnapshotStatusApply (withJetJobSnapshotState s) st = st\<lparr> jst_State := s \<rparr>"
| "JetJobSnapshotStatusApply (withJetJobSnapshotFailedState t) st = st\<lparr> jst_State := JetJobSnapshotFailed, jst_Message := t \<rparr>"

definition updateJetJobSnapshotStatus :: "(JetJobSnapshot \<Rightarrow> go_error option) \<Rightarrow> JetJobSnapshot \<Rightarrow> ReconcilerOption \<Rightarrow>
    JetJobSnapshotStatusApplier list \<Rightarrow> (Result \<times> go_error option) \<times> JetJobSnapshot" where
  "updateJetJobSnapshotStatus answer j opt as =
     (let j' = j\<lparr> js_Status := fold JetJobSnapshotStatusApply as (js_Status j) \<rparr>
      in (case answer j' of
            Some e \<Rightarrow> if ErrIsConflict e then (ResultZero, None) else (ResultZero, Some e)
          | None \<Rightarrow> (ResultZero, ro_Err opt), j'))"

definition failSnapshot :: "snapshot_env \<Rightarrow> JetJobSnapshot \<Rightarrow> go_error \<Rightarrow> (Result \<times> go_error option) snapshot_proc" where
  "failSnapshot env j e =
     (let as = [withJetJobSnapshotFailedState (error_text e)]
      in tryA (invokeA (sx_call env) (StatusUpdateSnapshot (j\<lparr> js_Status := fold JetJobSnapshotStatusApply as (js_Status j) \<rparr>))) (\<lambda>r.
         returnA (fst (updateJetJobSnapshotStatus (\<lambda>_. case r of Inl e \<Rightarrow> Some e | Inr _ \<Rightarrow> None) j (ro_error e) as))))"

definition updateJetJobSnapshotStatusRetry :: "snapshot_env \<Rightarrow> NamespacedName \<Rightarrow> JetJobSnapshotStatusApplier list \<Rightarrow> unit snapshot_proc" where
  "updateJetJobSnapshotStatusRetry env nn as = RetryOnConflict (sx_retries env)
     (bindA (observeA (\<lambda>t. sx_Get env t nn)) (\<lambda>j.
      invokeA (sx_call env) (StatusUpdateSnapshot (j\<lparr> js_Status := fold JetJobSnapshotStatusApply as (js_Status j) \<rparr>))))"

definition setCreationTime :: "snapshot_env \<Rightarrow> NamespacedName \<Rightarrow> int64 \<Rightarrow> unit snapshot_proc" where
  "setCreationTime env nn timeMillis = RetryOnConflict (sx_retries env)
     (bindA (observeA (\<lambda>t. sx_Get env t nn)) (\<lambda>j.
      invokeA (sx_call env) (StatusUpdateSnapshot
        (j\<lparr> js_Status := (js_Status j)\<lparr> jst_CreationTime := Some (sint (timeMillis * 1000000)) \<rparr> \<rparr>))))"

subsection \<open>Exporting\<close>

text \<open>The goroutine of \<^verbatim>\<open>exportSnapshot\<close>; the errors of the status updates are ignored.\<close>

definition ignoring :: "unit snapshot_proc \<Rightarrow> unit snapshot_proc" where
  "ignoring m = catchA m (\<lambda>_. returnA ()) returnA"

definition exportGo :: "snapshot_env \<Rightarrow> snapshotRun \<Rightarrow> unit snapshot_proc" where
  "exportGo env run = (let setState = (\<lambda>s. ignoring (updateJetJobSnapshotStatusRetry env (sr_Name run) [withJetJobSnapshotState s]))
     in bindA (setState JetJobSnapshotExporting) (\<lambda>_.
        catchA (bindA (invokeA (sx_call env) (ExportSnapshot run)) (\<lambda>_. observeA (\<lambda>t. Inr (sx_Now env t))))
          (\<lambda>_. setState JetJobSnapshotFailed) (\<lambda>t.
        bindA (ignoring (setCreationTime env (sr_Name run) t)) (\<lambda>_. setState JetJobSnapshotExported))))"

definition runWaitingExport :: "snapshot_env \<Rightarrow> nat \<Rightarrow> unit snapshot_proc" where
  "runWaitingExport env i = bindA (stateA jsr_waiting) (\<lambda>runs.
     if i < length runs
     then bindA (changeA (\<lambda>r. r\<lparr> jsr_waiting := take i runs @ drop (Suc i) runs \<rparr>)) (\<lambda>_. exportGo env (runs ! i))
     else returnA ())"

definition exportSnapshot :: "JetJobSnapshot \<Rightarrow> int64 \<Rightarrow> NamespacedName \<Rightarrow> unit snapshot_proc" where
  "exportSnapshot j jetJobId hzNn =
     (if jst_CreationTime (js_Status j) \<noteq> None then returnA ()
      else let k = snapshotKey j
        in bindA (stateA jsr_exportingSnapshotMap) (\<lambda>loaded.
           if k \<in> loaded then returnA ()
           else changeA (\<lambda>r. r\<lparr> jsr_exportingSnapshotMap := insert k loaded,
             jsr_waiting := jsr_waiting r @ [\<lparr> sr_Name = k, sr_Cluster = hzNn, sr_JobId = jetJobId,
               sr_SnapshotName = SnapshotName j, sr_CancelJob = jsp_CancelJob (js_Spec j) \<rparr>] \<rparr>)))"

subsection \<open>Reconcile\<close>

text \<open>The object carries the new reference even when its update fails.\<close>

definition snapshot_reconcileOwnerReferences :: "snapshot_env \<Rightarrow> JetJobSnapshot \<Rightarrow> Hazelcast \<Rightarrow> (go_error option \<times> JetJobSnapshot) snapshot_proc" where
  "snapshot_reconcileOwnerReferences env j h =
     (if \<exists>ref \<in> set (om_OwnerReferences (js_Meta j)).
           or_Kind ref = sx_Kind env h \<and> or_Name ref = om_Name (h_Meta h) \<and> or_UID ref = om_UID (h_Meta h)
      then returnA (None, j)
      else (case sx_SetOwnerReference env h j of
              Inl e \<Rightarrow> returnA (Some e, j)
            | Inr j' \<Rightarrow> catchA (invokeA (sx_call env) (UpdateSnapshot j')) (\<lambda>e. returnA (Some e, j')) (\<lambda>_. returnA (None, j'))))"

definition snapshot_updateLastSuccessfulConfiguration :: "snapshot_env \<Rightarrow> NamespacedName \<Rightarrow> unit snapshot_proc" where
  "snapshot_updateLastSuccessfulConfiguration env name = RetryOnConflict (sx_retries env)
     (bindA (observeA (\<lambda>t. sx_Get env t name)) (\<lambda>j.
      let js = (case sx_MarshalSpec env (js_Spec j) of Inl _ \<Rightarrow> [] | Inr js \<Rightarrow> js)
      in invokeA (sx_call env) (UpdateSnapshot (j\<lparr> js_Meta :=
           InsertLastSuccessfullyAppliedSpec (\<lambda>_. js) (js_Spec j) (js_Meta j) \<rparr>))))"

definition snapshot_executeFinalizer :: "snapshot_env \<Rightarrow> JetJobSnapshot \<Rightarrow> unit snapshot_proc" where
  "snapshot_executeFinalizer env j =
     (if \<not> ContainsFinalizer (js_Meta j) Finalizer then returnA ()
      else bindA (changeA (\<lambda>r. r\<lparr> jsr_exportingSnapshotMap := jsr_exportingSnapshotMap r - {snapshotKey j} \<rparr>)) (\<lambda>_.
           catchA (invokeA (sx_call env) (UpdateSnapshot (j\<lparr> js_Meta := RemoveFinalizer (js_Meta j) Finalizer \<rparr>)))
             (\<lambda>e. throwA (wrapErr ''failed to remove finalizer from custom resource: '' e)) returnA))"

text \<open>The part of \<^verbatim>\<open>Reconcile\<close> for a resource that was applied before.\<close>

definition reconcileExported :: "snapshot_env \<Rightarrow> JetJobSnapshot \<Rightarrow> string \<Rightarrow> (Result \<times> go_error option) snapshot_proc" where
  "reconcileExported env j s =
     (case sx_UnmarshalSpec env s of
        Inl e \<Rightarrow> failSnapshot env j (wrapErr ''error unmarshaling Last JetJobSnapshot Spec: '' e)
      | Inr _ \<Rightarrow> catchA (validA (sx_ErrText env) (ValidateJetJobSnapshotSpecUpdate env j)) (failSnapshot env j)
          (\<lambda>_. returnA (ResultZero, None)))"

text \<open>The part from the owner reference on.\<close>

definition exportOn :: "snapshot_env \<Rightarrow> NamespacedName \<Rightarrow> JetJobSnapshot \<Rightarrow> JetJob \<Rightarrow> Hazelcast \<Rightarrow> NamespacedName \<Rightarrow>
    (Result \<times> go_error option) snapshot_proc" where
  "exportOn env req j0 job hz hzNn =
     bindA (snapshot_reconcileOwnerReferences env j0 hz) (\<lambda>(owned, j).
     if owned \<noteq> None then failSnapshot env j (the owned)
     else if jjs_Id (jo_Status job) = 0 then returnA (\<lparr> res_Requeue = False, res_RequeueAfter = 1000000000 \<rparr>, None)
     else if jjs_Phase (jo_Status job) \<noteq> JetJobRunning
     then failSnapshot env j (ErrOther (''JetJob status must be equal to '' @ [CHR 0x27] @ ''Running'' @ [CHR 0x27] @ '' to be able to export snapshot''))
     else catchA (validA (sx_ErrText env) (ValidateHazelcastLicenseKey hz)) (failSnapshot env j) (\<lambda>_.
     catchA (observeA (\<lambda>t. sx_GetOrCreateClient env t hzNn)) (failSnapshot env j) (\<lambda>_.
     bindA (exportSnapshot j (jjs_Id (jo_Status job)) hzNn) (\<lambda>_.
     bindA (if \<not> IsSuccessfullyApplied (js_Meta j) then tryA (invokeA (sx_call env) TriggerPhoneHomeSnapshot) (\<lambda>_. returnA ()) else returnA ()) (\<lambda>_.
     bindA (ignoring (snapshot_updateLastSuccessfulConfiguration env req)) (\<lambda>_. returnA (ResultZero, None)))))))"

definition JetJobSnapshotReconciler_Reconcile :: "snapshot_env \<Rightarrow> NamespacedName \<Rightarrow> (Result \<times> go_error option) snapshot_proc" where
  "JetJobSnapshotReconciler_Reconcile env req =
     catchA (observeA (\<lambda>t. sx_Get env t req))
       (\<lambda>e. returnA (ResultZero, if ErrIsNotFound e then None else Some (wrapErr ''failed to get JetJobSnapshot: '' e))) (\<lambda>j0.
     catchA (util_AddFinalizer (\<lambda>m. invokeA (sx_call env) (UpdateSnapshot (j0\<lparr> js_Meta := m \<rparr>))) (js_Meta j0))
       (failSnapshot env (j0\<lparr> js_Meta := AddFinalizer (js_Meta j0) Finalizer \<rparr>)) (\<lambda>m.
     let j = j0\<lparr> js_Meta := m \<rparr>
     in if om_DeletionTimestamp m \<noteq> None
        then catchA (snapshot_executeFinalizer env j) (failSnapshot env (j\<lparr> js_Meta := RemoveFinalizer m Finalizer \<rparr>))
               (\<lambda>_. returnA (ResultZero, None))
        else (case om_Annotations m LastSuccessfulSpecAnnotation of
                Some s \<Rightarrow> reconcileExported env j s
              | None \<Rightarrow>
                  catchA (observeA (\<lambda>t. sx_GetJob env t
                      \<lparr> nn_Name = jsp_JetJobResourceName (js_Spec j), nn_Namespace = om_Namespace m \<rparr>)) (failSnapshot env j) (\<lambda>job.
                  let hzNn = \<lparr> nn_Name = jj_HazelcastResourceName (jo_Spec job), nn_Namespace = om_Namespace (jo_Meta job) \<rparr>
                  in catchA (observeA (\<lambda>t. sx_GetHazelcast env t hzNn)) (failSnapshot env j) (\<lambda>hz.
                     exportOn env req j job hz hzNn)))))"

end
