(* ===== verification/Snapshot_Safety.thy ===== *)
theory Snapshot_Safety
  imports Jet_Snapshot Traced Samples "HOL-Library.Multiset"
begin

text \<open>
  What the JetJobSnapshot controller guarantees: a snapshot is exported at most once as long as its
  resource lives, and its creation time is set only when the cluster has exported it.
\<close>

subsection \<open>Exported once\<close>

fun exportCall :: "snapshot_call \<times> bool \<Rightarrow> NamespacedName list" where
  "exportCall (ExportSnapshot run, _) = [sr_Name run]"
| "exportCall _ = []"

definition exportsOf :: "(JetJobSnapshotReconciler, snapshot_call) world \<Rightarrow> NamespacedName multiset" where
  "exportsOf w = mset (concat (map exportCall (cw_trace w))) + mset (map sr_Name (jsr_waiting (cw_state w)))"

text \<open>\<open>onceFor k d\<close>: at most one export of \<open>k\<close> was launched, and then \<open>k\<close> is marked as exporting; \<open>d\<close> more
  are about to make their call.\<close>

definition onceFor :: "NamespacedName \<Rightarrow> nat \<Rightarrow> (JetJobSnapshotReconciler, snapshot_call) world \<Rightarrow> bool" where
  "onceFor k d w \<longleftrightarrow> count (exportsOf w) k + d \<le> (if k \<in> jsr_exportingSnapshotMap (cw_state w) then 1 else 0)"

lemma once_invokeA [kept]: "(\<forall>run. c \<noteq> ExportSnapshot run) \<Longrightarrow> preserves (onceFor k d) (invokeA ans c)"
  by (cases c) (auto simp: preserves_def invokeA_after onceFor_def exportsOf_def)

lemma once_observeA [kept]: "preserves (onceFor k d) (observeA f)"
  by (simp add: preserves_def onceFor_def exportsOf_def)

lemma once_steps [kept]:
  "preserves (onceFor k d) (failSnapshot env j e)" "preserves (onceFor k d) (updateJetJobSnapshotStatusRetry env nn as)"
  "preserves (onceFor k d) (setCreationTime env nn t)" "preserves (onceFor k d) (snapshot_updateLastSuccessfulConfiguration env nn)"
  "preserves (onceFor k d) (snapshot_reconcileOwnerReferences env j h)" "preserves (onceFor k d) (validA et v)"
  by (auto simp: failSnapshot_def updateJetJobSnapshotStatusRetry_def setCreationTime_def snapshot_updateLastSuccessfulConfiguration_def
      snapshot_reconcileOwnerReferences_def validA_def Let_def intro!: kept split: sum.split option.split)

lemma once_ignoring [kept]: "preserves (onceFor k d) m \<Longrightarrow> preserves (onceFor k d) (ignoring m)"
  unfolding ignoring_def by (intro kept)

lemma once_exportSnapshot [kept]: "preserves (onceFor k d) (exportSnapshot j i hz)"
  by (auto simp: preserves_def exportSnapshot_def Let_def action_simps onceFor_def exportsOf_def split: if_splits)

lemma once_finalizer:
  "k \<noteq> snapshotKey j \<Longrightarrow> preserves (onceFor k d) (snapshot_executeFinalizer env j)"
proof -
  assume "k \<noteq> snapshotKey j"
  then have "preserves (onceFor k d) (changeA (\<lambda>r. r\<lparr> jsr_exportingSnapshotMap := jsr_exportingSnapshotMap r - {snapshotKey j} \<rparr>))"
    by (simp add: preserves_def onceFor_def exportsOf_def)
  then show ?thesis unfolding snapshot_executeFinalizer_def by (auto intro!: kept)
qed

text \<open>\<open>alive k env\<close>: whenever the resource is read it is not being deleted; and reads are by name.\<close>

definition alive :: "NamespacedName \<Rightarrow> snapshot_env \<Rightarrow> bool" where
  "alive k env \<longleftrightarrow> (\<forall>t nn j. sx_Get env t nn = Inr j \<longrightarrow> snapshotKey j = nn \<and> (nn = k \<longrightarrow> om_DeletionTimestamp (js_Meta j) = None))"

lemma once_exportOn [kept]: "preserves (onceFor k d) (exportOn env req j job hz nn)"
  unfolding exportOn_def by (auto intro!: kept split: prod.split)

lemma once_Reconcile:
  assumes "alive k env"
  shows "preserves (onceFor k d) (JetJobSnapshotReconciler_Reconcile env req)"
  unfolding preserves_def
proof (intro allI impI)
  fix w assume once: "onceFor k d w"
  let ?w1 = "w\<lparr> cw_reads := Suc (cw_reads w) \<rparr>"
  have once1: "onceFor k d ?w1" using once by (simp add: onceFor_def exportsOf_def)
  show "onceFor k d (snd (JetJobSnapshotReconciler_Reconcile env req w))"
  proof (cases "sx_Get env (moment w) req")
    case (Inl e)
    with once1 show ?thesis by (simp add: JetJobSnapshotReconciler_Reconcile_def catchA_def action_simps split: go_error.split)
  next
    case (Inr j0)
    define rest where "rest = (\<lambda>m. let j = j0\<lparr> js_Meta := m \<rparr>
     in if om_DeletionTimestamp m \<noteq> None
        then catchA (snapshot_executeFinalizer env j) (failSnapshot env (j\<lparr> js_Meta := RemoveFinalizer m Finalizer \<rparr>))
               (\<lambda>_. returnA (ResultZero, None))
        else (case om_Annotations m LastSuccessfulSpecAnnotation of
                Some s \<Rightarrow> reconcileExported env j s
              | None \<Rightarrow>
                  catchA (observeA (\<lambda>t. sx_GetJob env t
                      \<lparr> nn_Name = jsp_JetJobResourceName (js_Spec j), nn_Namespace = om_Namespace m \<rparr>)) (failSnapshot env j) (\<lambda>job.
                  let hzNn = \<lparr> nn_Name = jj_HazelcastResourceName (jo_Spec job), nn_Namespace = om_Namespace (jo_Meta job) \<rparr>
                  in catchA (observeA (\<lambda>t. sx_GetHazelcast env t hzNn)) (failSnapshot env j) (\<lambda>hz.
                     exportOn env req j job hz hzNn))))"
    have key: "snapshotKey j0 = req" "req = k \<Longrightarrow> om_DeletionTimestamp (js_Meta j0) = None"
      using assms Inr unfolding alive_def by blast+
    have keptRest: "preserves (onceFor k d) (rest m)" if "om_Name m = om_Name (js_Meta j0)" "om_Namespace m = om_Namespace (js_Meta j0)"
        "om_DeletionTimestamp m = om_DeletionTimestamp (js_Meta j0)" for m
    proof -
      have "snapshotKey (j0\<lparr> js_Meta := m \<rparr>) = req" using key(1) that by (simp add: snapshotKey_def)
      then have "preserves (onceFor k d) (snapshot_executeFinalizer env (j0\<lparr> js_Meta := m \<rparr>))" if "om_DeletionTimestamp m \<noteq> None"
        using key(2) that \<open>om_DeletionTimestamp m = _\<close> by (intro once_finalizer) auto
      then show ?thesis unfolding rest_def Let_def reconcileExported_def by (auto intro!: kept split: option.split sum.split)
    qed
    let ?w = "\<lambda>m. invokeA (sx_call env) (UpdateSnapshot (j0\<lparr> js_Meta := m \<rparr>))"
    have run: "JetJobSnapshotReconciler_Reconcile env req w =
        catchA (util_AddFinalizer ?w (js_Meta j0)) (failSnapshot env (j0\<lparr> js_Meta := AddFinalizer (js_Meta j0) Finalizer \<rparr>)) rest ?w1"
      using Inr by (simp add: JetJobSnapshotReconciler_Reconcile_def catchA_def [of "observeA _"] action_simps rest_def)
    obtain r w' where end': "catchA (util_AddFinalizer ?w (js_Meta j0)) (failSnapshot env (j0\<lparr> js_Meta := AddFinalizer (js_Meta j0) Finalizer \<rparr>)) rest ?w1 = (r, w')"
      by fastforce
    have fin: "preserves (onceFor k d) (util_AddFinalizer ?w (js_Meta j0))" by (auto intro!: kept)
    from end' have "onceFor k d w'"
    proof (cases rule: catchA_cases)
      case (panic t)
      then show ?thesis using fin once1 unfolding preserves_def by (metis snd_conv)
    next
      case (error e v)
      then have "onceFor k d v" using fin once1 unfolding preserves_def by (metis snd_conv)
      with error(2) once_steps(1) show ?thesis unfolding preserves_def by (metis snd_conv)
    next
      case (ok m v)
      then have "onceFor k d v" using fin once1 unfolding preserves_def by (metis snd_conv)
      moreover have "preserves (onceFor k d) (rest m)"
        using ok(1) by (intro keptRest) (auto simp: util_AddFinalizer_def AddFinalizer_def action_simps bindA_Inr_iff split: if_splits)
      ultimately show ?thesis using ok(2) unfolding preserves_def by (metis snd_conv)
    qed
    with run end' show ?thesis by simp
  qed
qed

lemma once_exportGo:
  assumes "onceFor k (if sr_Name run = k then 1 else 0) w"
  shows "onceFor k 0 (snd (exportGo env run w))"
proof -
  let ?d = "if sr_Name run = k then 1 else (0 :: nat)"
  have call: "onceFor k 0 (snd (invokeA (sx_call env) (ExportSnapshot run) v))" if "onceFor k ?d v" for v
    using that by (auto simp: invokeA_after onceFor_def exportsOf_def split: if_splits)
  let ?set = "\<lambda>s. ignoring (updateJetJobSnapshotStatusRetry env (sr_Name run) [withJetJobSnapshotState s])"
  let ?export = "bindA (invokeA (sx_call env) (ExportSnapshot run)) (\<lambda>_. observeA (\<lambda>t. Inr (sx_Now env t)))"
  have set: "preserves (onceFor k d) (?set s)" for s d by (intro kept)
  have export: "onceFor k 0 (snd (?export v))" if "onceFor k ?d v" for v
    using call [OF that] by (cases "invokeA (sx_call env) (ExportSnapshot run) v"; cases "fst (invokeA (sx_call env) (ExportSnapshot run) v)")
      (auto simp: bindA_def onceFor_def exportsOf_def)
  have rest: "preserves (onceFor k 0) (bindA (ignoring (setCreationTime env (sr_Name run) t)) (\<lambda>_. ?set JetJobSnapshotExported))" for t
    by (intro kept)
  obtain r1 w1 where s1: "?set JetJobSnapshotExporting w = (r1, w1)" by fastforce
  have w1: "onceFor k ?d w1" using set assms s1 unfolding preserves_def by (metis snd_conv)
  obtain r2 w2 where s2: "?export w1 = (r2, w2)" by fastforce
  have w2: "onceFor k 0 w2" using export [OF w1] s2 by simp
  have zero: "onceFor k 0 v" if "onceFor k ?d v" for v using that by (simp add: onceFor_def split: if_splits)
  show ?thesis
  proof (cases r1)
    case (Inl e)
    then show ?thesis using s1 zero [OF w1] by (simp add: exportGo_def Let_def)
  next
    case (Inr u)
    then have "exportGo env run w = catchA ?export (\<lambda>_. ?set JetJobSnapshotFailed) (\<lambda>t.
        bindA (ignoring (setCreationTime env (sr_Name run) t)) (\<lambda>_. ?set JetJobSnapshotExported)) w1"
      using s1 by (simp add: exportGo_def Let_def)
    moreover have "onceFor k 0 (snd (catchA ?export (\<lambda>_. ?set JetJobSnapshotFailed) (\<lambda>t.
        bindA (ignoring (setCreationTime env (sr_Name run) t)) (\<lambda>_. ?set JetJobSnapshotExported)) w1))"
      using s2 w2 set [of 0 JetJobSnapshotFailed] rest unfolding preserves_def
      by (cases r2) (auto simp: catchA_def action_simps split: go_error.split)
    ultimately show ?thesis by simp
  qed
qed

lemma once_runWaiting: "preserves (onceFor k 0) (runWaitingExport env i)"
  unfolding preserves_def
proof (intro allI impI)
  fix w assume once: "onceFor k 0 w"
  let ?runs = "jsr_waiting (cw_state w)"
  show "onceFor k 0 (snd (runWaitingExport env i w))"
  proof (cases "i < length ?runs")
    case True
    let ?w1 = "w\<lparr> cw_state := (cw_state w)\<lparr> jsr_waiting := take i ?runs @ drop (Suc i) ?runs \<rparr> \<rparr>"
    have "mset ?runs = add_mset (?runs ! i) (mset (take i ?runs @ drop (Suc i) ?runs))"
      using True by (metis id_take_nth_drop mset_append mset.simps(2) union_mset_add_mset_right)
    then have "mset (map sr_Name ?runs) = add_mset (sr_Name (?runs ! i)) (mset (map sr_Name (take i ?runs @ drop (Suc i) ?runs)))"
      unfolding mset_map by simp
    with once have "onceFor k (if sr_Name (?runs ! i) = k then 1 else 0) ?w1" by (auto simp: onceFor_def exportsOf_def split: if_splits)
    from once_exportGo [OF this] True show ?thesis by (simp add: runWaitingExport_def)
  next
    case False
    with once show ?thesis by (simp add: runWaitingExport_def action_simps)
  qed
qed

text \<open>The life of a resource: reconciliations of any resource and goroutines, in any order and environment.\<close>

inductive snapshot_life :: "NamespacedName \<Rightarrow> (JetJobSnapshotReconciler, snapshot_call) world \<Rightarrow> bool" for k where
  start: "snapshot_life k \<lparr> cw_state = \<lparr> jsr_exportingSnapshotMap = {}, jsr_waiting = [] \<rparr>, cw_reads = 0, cw_trace = [] \<rparr>"
| reconcile: "snapshot_life k w \<Longrightarrow> alive k env \<Longrightarrow> snapshot_life k (snd (JetJobSnapshotReconciler_Reconcile env req w))"
| export: "snapshot_life k w \<Longrightarrow> snapshot_life k (snd (runWaitingExport env i w))"

lemma snapshot_life_once: "snapshot_life k w \<Longrightarrow> onceFor k 0 w"
proof (induction rule: snapshot_life.induct)
  case start
  then show ?case by (simp add: onceFor_def exportsOf_def)
next
  case (reconcile w env req)
  then show ?case using once_Reconcile [of k env 0 req] unfolding preserves_def by blast
next
  case (export w env i)
  then show ?case using once_runWaiting [of k env i] unfolding preserves_def by blast
qed

text \<open>C33: however reconciliations and goroutines follow one another, the snapshot of a resource that is not
  being deleted is exported at most once: there is never more than one export of it that waits or has
  made its call.\<close>

theorem snapshot_exported_once:
  assumes "snapshot_life k w"
  shows "count (exportsOf w) k \<le> 1"
  using snapshot_life_once [OF assms] by (simp add: onceFor_def split: if_splits)

subsection \<open>The creation time\<close>

text \<open>\<open>timed\<close>: a status with a creation time is written after the export, or the resource was read with one
  before the export.\<close>

definition hadTime :: "snapshot_env \<Rightarrow> snapshotRun \<Rightarrow> bool" where
  "hadTime env run \<longleftrightarrow> (\<exists>n tr j. (ExportSnapshot run, True) \<notin> set tr \<and> sx_Get env (n, tr) (sr_Name run) = Inr j \<and>
     jst_CreationTime (js_Status j) \<noteq> None)"

definition timed :: "snapshot_env \<Rightarrow> snapshotRun \<Rightarrow> snapshot_call trace \<Rightarrow> snapshot_call \<Rightarrow> bool" where
  "timed env run tr c \<longleftrightarrow> (\<forall>j. c = StatusUpdateSnapshot j \<longrightarrow>
     jst_CreationTime (js_Status j) = None \<or> (ExportSnapshot run, True) \<in> set tr \<or> hadTime env run)"

lemma read_timed:
  assumes "sx_Get env (moment u) (sr_Name run) = Inr j" and "jst_CreationTime (js_Status j) = Some t"
  shows "(ExportSnapshot run, True) \<in> set (cw_trace u) \<or> hadTime env run"
  using assms unfolding hadTime_def moment_def by (cases "(ExportSnapshot run, True) \<in> set (cw_trace u)") (force+)

lemma setState_timed: "traced (timed env run) (ignoring (updateJetJobSnapshotStatusRetry env (sr_Name run) [withJetJobSnapshotState s])) v"
proof -
  have "traced (timed env run) (bindA (observeA (\<lambda>t. sx_Get env t (sr_Name run))) (\<lambda>j.
      invokeA (sx_call env) (StatusUpdateSnapshot (j\<lparr> js_Status := fold JetJobSnapshotStatusApply [withJetJobSnapshotState s] (js_Status j) \<rparr>)))) u" for u
    by (intro traced_bindA traced_invokeA traced_only [OF only_calls_basic(3) [where Q = "\<lambda>_. False"]])
      (auto simp: timed_def dest: read_timed)
  then show ?thesis unfolding ignoring_def updateJetJobSnapshotStatusRetry_def
    by (intro traced_catchA traced_Retry traced_basic(1))
qed

lemma exportGo_timed: "traced (timed env run) (exportGo env run) w"
proof -
  let ?set = "\<lambda>s. ignoring (updateJetJobSnapshotStatusRetry env (sr_Name run) [withJetJobSnapshotState s])"
  have free: "only_calls (\<lambda>_. True) (bindA (ignoring (setCreationTime env nn t)) (\<lambda>_. ?set JetJobSnapshotExported))" for nn t
    by (auto simp: ignoring_def setCreationTime_def updateJetJobSnapshotStatusRetry_def intro!: kept)
  show ?thesis unfolding exportGo_def Let_def
  proof (rule traced_bindA [OF setState_timed], rule traced_catchA)
    fix v :: "(JetJobSnapshotReconciler, snapshot_call) world"
    show "traced (timed env run) (bindA (invokeA (sx_call env) (ExportSnapshot run)) (\<lambda>_. observeA (\<lambda>t. Inr (sx_Now env t)))) v"
      by (rule traced_only [where R = "\<lambda>c. c = ExportSnapshot run"]) (auto simp: timed_def intro!: kept)
  next
    fix v v' :: "(JetJobSnapshotReconciler, snapshot_call) world" and t
    assume "bindA (invokeA (sx_call env) (ExportSnapshot run)) (\<lambda>_. observeA (\<lambda>t. Inr (sx_Now env t))) v = (Inr t, v')"
    then have "(ExportSnapshot run, True) \<in> set (cw_trace v')" by (auto simp: bindA_Inr_iff invokeA_def split: option.splits)
    then show "traced (timed env run) (bindA (ignoring (setCreationTime env (sr_Name run) t)) (\<lambda>_. ?set JetJobSnapshotExported)) v'"
      by (intro traced_free [OF free]) (simp add: timed_def)
  qed (rule setState_timed)
qed

text \<open>C34: the goroutine gives a snapshot its creation time only after the cluster has exported it, unless the
  resource had one already when it was read before.\<close>

theorem snapshot_time_sound:
  assumes "exportGo env run w = (r, w')" and "cw_trace w' = cw_trace w @ pre @ (StatusUpdateSnapshot j, b) # post"
    and "jst_CreationTime (js_Status j) \<noteq> None" and "\<not> hadTime env run"
  shows "(ExportSnapshot run, True) \<in> set (cw_trace w @ pre)"
  using tracedD [OF exportGo_timed assms(1,2)] assms(3,4) by (auto simp: timed_def)

subsection \<open>Witnesses\<close>

definition sample_snapshot :: JetJobSnapshot where
  "sample_snapshot = \<lparr> js_Meta = sample_meta\<lparr> om_Name := ''snap'', om_Finalizers := [Finalizer] \<rparr>,
     js_Spec = \<lparr> jsp_Name = [], jsp_CancelJob = False, jsp_JetJobResourceName = ''job'' \<rparr>,
     js_Status = \<lparr> jst_State = JetJobSnapshotWaiting, jst_Message = [], jst_CreationTime = None \<rparr> \<rparr>"

definition sample_snapshot_key :: NamespacedName where
  "sample_snapshot_key = \<lparr> nn_Name = ''snap'', nn_Namespace = ''default'' \<rparr>"

definition sample_exported_job :: JetJob where
  "sample_exported_job = \<lparr> jo_Meta = sample_meta\<lparr> om_Name := ''job'' \<rparr>, jo_Spec = sample_jet_job_spec,
     jo_Status = \<lparr> jjs_Id = 7, jjs_Phase = JetJobRunning, jjs_SubmissionTime = None, jjs_CompletionTime = None,
       jjs_FailureText = [], jjs_SuspensionCause = [] \<rparr> \<rparr>"

definition sample_export :: snapshotRun where
  "sample_export = \<lparr> sr_Name = sample_snapshot_key, sr_Cluster = \<lparr> nn_Name = ''hz'', nn_Namespace = ''default'' \<rparr>, sr_JobId = 7,
     sr_SnapshotName = ''snap'', sr_CancelJob = False \<rparr>"

text \<open>The resource is read with a creation time once the cluster has exported the snapshot.\<close>

definition sample_snapshot_env :: snapshot_env where
  "sample_snapshot_env = \<lparr> sx_call = (\<lambda>t c. None),
     sx_Get = (\<lambda>t nn. if nn \<noteq> sample_snapshot_key then Inl (ErrNotFound [])
       else Inr (if (ExportSnapshot sample_export, True) \<in> set (snd t)
         then sample_snapshot\<lparr> js_Status := (js_Status sample_snapshot)\<lparr> jst_CreationTime := Some 5 \<rparr> \<rparr> else sample_snapshot)),
     sx_GetJob = (\<lambda>t nn. Inr sample_exported_job), sx_GetHazelcast = (\<lambda>t nn. Inr sample_hazelcast),
     sx_GetOrCreateClient = (\<lambda>t nn. Inr ()), sx_SetOwnerReference = (\<lambda>h j. Inr j), sx_Kind = (\<lambda>h. ''Hazelcast''),
     sx_Now = (\<lambda>t. 5), sx_UnmarshalSpec = (\<lambda>s. Inr (js_Spec sample_snapshot)), sx_MarshalSpec = (\<lambda>s. Inr ''{}''),
     sx_ErrText = (\<lambda>e. []), sx_retries = 0 \<rparr>"

definition snapshot_start :: "(JetJobSnapshotReconciler, snapshot_call) world" where
  "snapshot_start = \<lparr> cw_state = \<lparr> jsr_exportingSnapshotMap = {}, jsr_waiting = [] \<rparr>, cw_reads = 0, cw_trace = [] \<rparr>"

lemma sample_alive: "alive sample_snapshot_key sample_snapshot_env"
  by (auto simp: alive_def sample_snapshot_env_def sample_snapshot_def sample_snapshot_key_def snapshotKey_def sample_meta_def split: if_splits)

theorem snapshot_exported_once_witness:
  "snapshot_life sample_snapshot_key (snd (runWaitingExport sample_snapshot_env 0
      (snd (JetJobSnapshotReconciler_Reconcile sample_snapshot_env sample_snapshot_key snapshot_start)))) \<and>
   count (exportsOf (snd (runWaitingExport sample_snapshot_env 0
      (snd (JetJobSnapshotReconciler_Reconcile sample_snapshot_env sample_snapshot_key snapshot_start))))) sample_snapshot_key \<le> 1"
proof -
  have "snapshot_life sample_snapshot_key snapshot_start" unfolding snapshot_start_def by (rule snapshot_life.start)
  note life = snapshot_life.export [OF snapshot_life.reconcile [OF this sample_alive]]
  show ?thesis using life snapshot_exported_once [OF life] by blast
qed

lemma sample_exports:
  "exportGo sample_snapshot_env sample_export snapshot_start = (Inr (), snd (exportGo sample_snapshot_env sample_export snapshot_start))"
  "cw_trace (snd (exportGo sample_snapshot_env sample_export snapshot_start)) =
     cw_trace snapshot_start @ [(StatusUpdateSnapshot (sample_snapshot\<lparr> js_Status := (js_Status sample_snapshot)\<lparr> jst_State := JetJobSnapshotExporting \<rparr> \<rparr>), True),
       (ExportSnapshot sample_export, True)] @
     (StatusUpdateSnapshot (sample_snapshot\<lparr> js_Status := (js_Status sample_snapshot)\<lparr> jst_CreationTime := Some 5000000 \<rparr> \<rparr>), True) #
     [(StatusUpdateSnapshot (sample_snapshot\<lparr> js_Status := (js_Status sample_snapshot)\<lparr> jst_State := JetJobSnapshotExported, jst_CreationTime := Some 5 \<rparr> \<rparr>), True)]"
  by (simp_all add: exportGo_def ignoring_def updateJetJobSnapshotStatusRetry_def setCreationTime_def sample_snapshot_env_def snapshot_start_def
      action_simps invokeA_def catchA_def tryA_def moment_def sample_export_def sample_snapshot_def)

theorem snapshot_time_sound_witness:
  "\<not> hadTime sample_snapshot_env sample_export \<and> (ExportSnapshot sample_export, True) \<in>
     set (cw_trace snapshot_start @ [(StatusUpdateSnapshot (sample_snapshot\<lparr> js_Status := (js_Status sample_snapshot)\<lparr> jst_State := JetJobSnapshotExporting \<rparr> \<rparr>), True),
       (ExportSnapshot sample_export, True)])"
proof -
  have fresh: "\<not> hadTime sample_snapshot_env sample_export"
    by (auto simp: hadTime_def sample_snapshot_env_def sample_snapshot_def split: if_splits)
  show ?thesis using fresh snapshot_time_sound [OF sample_exports _ fresh] by simp
qed

end
