(* ===== verification/Ucn_Controller.thy ===== *)
theory Ucn_Controller
  imports Ds_Controller Wan_Names Request_Codecs
begin

text \<open>
  The UserCodeNamespace controller (\<^verbatim>\<open>usercodenamespace_controller.go\<close>, \<^verbatim>\<open>usercodenamespace_status.go\<close> under
  \<^verbatim>\<open>internal/controller/hazelcast\<close>; \<^verbatim>\<open>usercodenamespace_service.go\<close>, \<^verbatim>\<open>usercodenamespace_validation.go\<close>): the
  bundle with the code is downloaded by the agent of every member, then every member is told
  about it. The controller keeps no state of its own.
\<close>

subsection \<open>Calls and environment\<close>

definition LastAppliedSpecAnnotation :: string where
  "LastAppliedSpecAnnotation = ''hazelcast.com/last-applied-spec''"

definition InsertLastAppliedSpec :: "('s \<Rightarrow> string) \<Rightarrow> 's \<Rightarrow> ObjectMeta \<Rightarrow> ObjectMeta" where
  "InsertLastAppliedSpec marshal spec ob = insertSpec marshal spec LastAppliedSpecAnnotation ob"

definition IsApplied :: "ObjectMeta \<Rightarrow> bool" where
  "IsApplied ob = (om_Annotations ob LastAppliedSpecAnnotation \<noteq> None)"

record BundleReq =
  br_URL :: string
  br_SecretName :: string
  br_DestDir :: string

datatype ucn_call =
    UpdateUcn UserCodeNamespace
  | StatusUpdateUcn UserCodeNamespace
  | DownloadBundle string BundleReq
  | AddNamespaceConfig "uint64 \<times> uint64" UserCodeNamespaceConfig
  | TriggerPhoneHomeUcn

text \<open>A member is its UUID and its address; \<open>ux_order\<close> is the order in which the goroutines of a group
  make their calls, \<open>ux_BundleService\<close> the outcome of \<^verbatim>\<open>rest.NewBundleService\<close> for the host of a member.\<close>

record ucn_env =
  ux_call :: "ucn_call moment \<Rightarrow> ucn_call \<Rightarrow> go_error option"
  ux_Get :: "ucn_call moment \<Rightarrow> NamespacedName \<Rightarrow> go_error + UserCodeNamespace"
  ux_List :: "ucn_call moment \<Rightarrow> string \<Rightarrow> string \<Rightarrow> go_error + UserCodeNamespace list"
  ux_GetHazelcast :: "ucn_call moment \<Rightarrow> NamespacedName \<Rightarrow> go_error + Hazelcast"
  ux_GetOrCreateClient :: "ucn_call moment \<Rightarrow> NamespacedName \<Rightarrow> go_error + unit"
  ux_MtlsClient :: "ucn_call moment \<Rightarrow> string \<Rightarrow> go_error + unit"
  ux_OrderedMembers :: "ucn_call moment \<Rightarrow> NamespacedName \<Rightarrow> ((uint64 \<times> uint64) \<times> string) list"
  ux_order :: "ucn_call moment \<Rightarrow> ((uint64 \<times> uint64) \<times> string) list \<Rightarrow> ((uint64 \<times> uint64) \<times> string) list"
  ux_BundleService :: "string \<Rightarrow> go_error option"
  ux_ErrText :: "validation_error \<Rightarrow> string"
  ux_MarshalSpec :: "UserCodeNamespaceSpec \<Rightarrow> string"
  ux_PhoneHomeEnabled :: bool

type_synonym 'a ucn_proc = "(unit, ucn_call, 'a) proc"

type_synonym ucn_result = "(Result \<times> go_error option) ucn_proc"

subsection \<open>Validation\<close>

definition UserCodeNamespacesConfig_IsEnabled :: "UserCodeNamespacesConfig option \<Rightarrow> bool" where
  "UserCodeNamespacesConfig_IsEnabled c = (c \<noteq> None)"

definition validateUCNEnabled :: "Hazelcast \<Rightarrow> vstep" where
  "validateUCNEnabled h = check (\<not> UserCodeNamespacesConfig_IsEnabled (hs_UserCodeNamespaces (h_Spec h)))
     (Required [''spec'', ''userCodeNamespace''] ''should be enabled in Hazelcast'')"

definition ValidateUCNSpec :: "UserCodeNamespace \<Rightarrow> Hazelcast \<Rightarrow> validation_error option go" where
  "ValidateUCNSpec u h = outcome (validateUCNEnabled h) \<lparr> vo_Kind = ''UserCodeNamespace'', vo_Name = om_Name (ucn_Meta u) \<rparr>"

subsection \<open>Status\<close>

record userCodeNamepsaceOptionsBuilder =
  uo_state :: UserCodeNamespaceState
  uo_message :: string

definition userCodeNamepsaceFailedStatus :: "go_error \<Rightarrow> userCodeNamepsaceOptionsBuilder" where
  "userCodeNamepsaceFailedStatus e = \<lparr> uo_state = UserCodeNamespaceFailure, uo_message = error_text e \<rparr>"

definition userCodeNamepsacePendingStatus :: userCodeNamepsaceOptionsBuilder where
  "userCodeNamepsacePendingStatus = \<lparr> uo_state = UserCodeNamespacePending, uo_message = [] \<rparr>"

definition userCodeNamespaceSuccessStatus :: userCodeNamepsaceOptionsBuilder where
  "userCodeNamespaceSuccessStatus = \<lparr> uo_state = UserCodeNamespaceSuccess, uo_message = [] \<rparr>"

text \<open>Only a failed update to the state success is returned; the other two states decide the result
  themselves.\<close>

definition updateUserCodeNamespaceStatus :: "ucn_env \<Rightarrow> UserCodeNamespace \<Rightarrow> userCodeNamepsaceOptionsBuilder \<Rightarrow> ucn_result" where
  "updateUserCodeNamespaceStatus env u options =
     tryA (invokeA (ux_call env) (StatusUpdateUcn (u\<lparr> ucn_Status := \<lparr> ucnst_State = uo_state options, ucnst_Message = uo_message options \<rparr> \<rparr>)))
       (\<lambda>r. returnA (if uo_state options = UserCodeNamespacePending then (\<lparr> res_Requeue = True, res_RequeueAfter = 0 \<rparr>, None)
          else if uo_state options = UserCodeNamespaceFailure then (ResultZero, Some (ErrOther (uo_message options)))
          else (ResultZero, case r of Inl e \<Rightarrow> Some e | Inr _ \<Rightarrow> None)))"

definition failUcn :: "ucn_env \<Rightarrow> UserCodeNamespace \<Rightarrow> go_error \<Rightarrow> ucn_result" where
  "failUcn env u e = updateUserCodeNamespaceStatus env u (userCodeNamepsaceFailedStatus e)"

subsection \<open>Bundle and configuration\<close>

text \<open>A bucket configuration that is not set is dereferenced in a goroutine: the operator ends.\<close>

definition bundleReq :: "UserCodeNamespace \<Rightarrow> BundleReq go" where
  "bundleReq u = map_option (\<lambda>b. \<lparr> br_URL = bc_BucketURI b, br_SecretName = bc_SecretName b,
     br_DestDir = path_Join UCNBucketPath (om_Name (ucn_Meta u) @ ''.zip'') \<rparr>) (ucns_BucketConfiguration (ucn_Spec u))"

definition downloadOn :: "ucn_env \<Rightarrow> UserCodeNamespace \<Rightarrow> string \<Rightarrow> unit ucn_proc" where
  "downloadOn env u address = (case SplitHostPort address of
     None \<Rightarrow> throwA (ErrOther address)
   | Some (host, _) \<Rightarrow>
       (case ux_BundleService env host of
          Some e \<Rightarrow> throwA e
        | None \<Rightarrow> bindA (orPanic (bundleReq u)) (\<lambda>req. invokeA (ux_call env) (DownloadBundle host req))))"

definition downloadBundle :: "ucn_env \<Rightarrow> UserCodeNamespace \<Rightarrow> NamespacedName \<Rightarrow> unit ucn_proc" where
  "downloadBundle env u hz =
     bindA (observeA (\<lambda>t. ux_MtlsClient env t (om_Namespace (ucn_Meta u)))) (\<lambda>_.
     bindA (observeA (\<lambda>t. Inr (ux_order env t (ux_OrderedMembers env t hz)))) (\<lambda>members.
     groupA (map (\<lambda>m. downloadOn env u (snd m)) members)))"

definition jarsInZip :: int32 where
  "jarsInZip = 5"

definition ucnConfig :: "string \<Rightarrow> UserCodeNamespaceConfig" where
  "ucnConfig name = \<lparr> unc_Name = name, unc_Resources = [\<lparr> rdf_ID = name @ ''.zip'', rdf_ResourceType = jarsInZip,
     rdf_Payload = [], rdf_ResourceURL = ''file://'' @ path_Join UCNBucketPath (name @ ''.zip'') \<rparr>] \<rparr>"

definition UsercodeNamespaceService_Apply :: "ucn_env \<Rightarrow> NamespacedName \<Rightarrow> string \<Rightarrow> unit ucn_proc" where
  "UsercodeNamespaceService_Apply env hz name =
     bindA (observeA (\<lambda>t. Inr (ux_OrderedMembers env t hz))) (\<lambda>members.
     forA members (\<lambda>m. invokeA (ux_call env) (AddNamespaceConfig (fst m) (ucnConfig name))))"

definition applyConfig :: "ucn_env \<Rightarrow> UserCodeNamespace \<Rightarrow> NamespacedName \<Rightarrow> unit ucn_proc" where
  "applyConfig env u hz = UsercodeNamespaceService_Apply env hz (om_Name (ucn_Meta u))"

subsection \<open>Reconcile\<close>

definition ucn_executeFinalizer :: "ucn_env \<Rightarrow> UserCodeNamespace \<Rightarrow> unit ucn_proc" where
  "ucn_executeFinalizer env u =
     (if \<not> ContainsFinalizer (ucn_Meta u) Finalizer then returnA ()
      else catchA (invokeA (ux_call env) (UpdateUcn (u\<lparr> ucn_Meta := RemoveFinalizer (ucn_Meta u) Finalizer \<rparr>)))
        (\<lambda>e. throwA (wrapErr ''failed to remove finalizer from custom resource: '' e)) returnA)"

text \<open>The parts of \<^verbatim>\<open>Reconcile\<close> after the configuration was applied, and from the download on.\<close>

definition ucn_report :: "ucn_env \<Rightarrow> UserCodeNamespace \<Rightarrow> ucn_result" where
  "ucn_report env u =
     bindA (if ux_PhoneHomeEnabled env \<and> \<not> IsSuccessfullyApplied (ucn_Meta u)
            then tryA (invokeA (ux_call env) TriggerPhoneHomeUcn) (\<lambda>_. returnA ()) else returnA ()) (\<lambda>_.
     let u' = u\<lparr> ucn_Meta := InsertLastSuccessfullyAppliedSpec (ux_MarshalSpec env) (ucn_Spec u) (ucn_Meta u) \<rparr>
     in catchA (invokeA (ux_call env) (UpdateUcn u')) (failUcn env u') (\<lambda>_.
        updateUserCodeNamespaceStatus env u' userCodeNamespaceSuccessStatus))"

definition ucn_apply :: "ucn_env \<Rightarrow> UserCodeNamespace \<Rightarrow> NamespacedName \<Rightarrow> ucn_result" where
  "ucn_apply env u hz =
     catchA (downloadBundle env u hz) (failUcn env u) (\<lambda>_.
     catchA (applyConfig env u hz) (failUcn env u) (\<lambda>_. ucn_report env u))"

text \<open>The part from the cluster on.\<close>

definition ucn_onCluster :: "ucn_env \<Rightarrow> NamespacedName \<Rightarrow> UserCodeNamespace \<Rightarrow> ucn_result" where
  "ucn_onCluster env req u =
     catchA (observeA (\<lambda>t. ux_GetHazelcast env t
         \<lparr> nn_Name = ucns_HazelcastResourceName (ucn_Spec u), nn_Namespace = nn_Namespace req \<rparr>))
       (\<lambda>e. failUcn env u (wrapErr ''could not create/update User Code Deployemnt config: Hazelcast resource not found: '' e)) (\<lambda>h.
     if hst_Phase (h_Status h) \<noteq> Running then failUcn env u (ErrOther ''Hazelcast CR is not ready'')
     else catchA (validA (ux_ErrText env) (ValidateUCNSpec u h)) (failUcn env u) (\<lambda>_.
     let hz = \<lparr> nn_Name = om_Name (h_Meta h), nn_Namespace = om_Namespace (h_Meta h) \<rparr>
     in catchA (observeA (\<lambda>t. ux_GetOrCreateClient env t hz)) (failUcn env u) (\<lambda>_. ucn_apply env u hz)))"

definition UserCodeNamespaceZero :: UserCodeNamespace where
  "UserCodeNamespaceZero = \<lparr> ucn_Meta = \<lparr> om_Name = [], om_Namespace = [], om_UID = [], om_Annotations = Map.empty,
       om_Finalizers = [], om_OwnerReferences = [], om_DeletionTimestamp = None, om_CreationTimestamp = 0 \<rparr>,
     ucn_Spec = \<lparr> ucns_BucketConfiguration = None, ucns_HazelcastResourceName = [] \<rparr>,
     ucn_Status = \<lparr> ucnst_State = UserCodeNamespaceUnset, ucnst_Message = [] \<rparr> \<rparr>"

definition UserCodeNamespaceReconciler_Reconcile :: "ucn_env \<Rightarrow> NamespacedName \<Rightarrow> ucn_result" where
  "UserCodeNamespaceReconciler_Reconcile env req =
     catchA (observeA (\<lambda>t. ux_Get env t req))
       (\<lambda>e. if ErrIsNotFound e then returnA (ResultZero, None)
            else failUcn env UserCodeNamespaceZero (wrapErr ''could not get UserCodeNamespace: '' e)) (\<lambda>u.
     let m = ucn_Meta u
     in if \<not> ContainsFinalizer m Finalizer \<and> om_DeletionTimestamp m = None
        then catchA (invokeA (ux_call env) (UpdateUcn (u\<lparr> ucn_Meta := AddFinalizer m Finalizer \<rparr>)))
          (\<lambda>e. returnA (ResultZero, Some e)) (\<lambda>_. returnA (ResultZero, None))
        else if om_DeletionTimestamp m \<noteq> None
        then catchA (ucn_executeFinalizer env u) (failUcn env (u\<lparr> ucn_Meta := RemoveFinalizer m Finalizer \<rparr>)) (\<lambda>_. returnA (ResultZero, None))
        else if \<not> IsApplied m
        then let u' = u\<lparr> ucn_Meta := InsertLastAppliedSpec (ux_MarshalSpec env) (ucn_Spec u) m \<rparr>
          in catchA (invokeA (ux_call env) (UpdateUcn u')) (failUcn env u') (\<lambda>_.
             updateUserCodeNamespaceStatus env u' userCodeNamepsacePendingStatus)
        else ucn_onCluster env req u)"

subsection \<open>Events of the cluster\<close>

definition ucn_hzUpdates :: "ucn_env \<Rightarrow> ucn_call moment \<Rightarrow> Hazelcast \<Rightarrow> NamespacedName list" where
  "ucn_hzUpdates env t h =
     (if hst_Phase (h_Status h) \<noteq> Running then []
      else case ux_List env t (om_Name (h_Meta h)) (om_Namespace (h_Meta h)) of
             Inl _ \<Rightarrow> []
           | Inr items \<Rightarrow> map (\<lambda>u. \<lparr> nn_Name = om_Name (ucn_Meta u), nn_Namespace = om_Namespace (ucn_Meta u) \<rparr>)
               (filter (\<lambda>u. ucnst_State (ucn_Status u) \<noteq> UserCodeNamespaceSuccess) items))"

end
