(* ===== verification/Ucn_Safety.thy ===== *)
theory Ucn_Safety
  imports Ucn_Controller Traced Samples
begin

text \<open>
  What the UserCodeNamespace controller guarantees: success is reported only when every member has
  the bundle and its configuration. And what happens to a resource without a bucket.
\<close>

subsection \<open>Success\<close>

definition bundled :: "ucn_env \<Rightarrow> UserCodeNamespace \<Rightarrow> NamespacedName \<Rightarrow> ucn_call trace \<Rightarrow> bool" where
  "bundled env u hz tr \<longleftrightarrow> (\<exists>t. \<forall>m \<in> set (ux_OrderedMembers env t hz). \<exists>host port req.
     SplitHostPort (snd m) = Some (host, port) \<and> bundleReq u = Some req \<and> (DownloadBundle host req, True) \<in> set tr)"

definition configured :: "ucn_env \<Rightarrow> UserCodeNamespace \<Rightarrow> NamespacedName \<Rightarrow> ucn_call trace \<Rightarrow> bool" where
  "configured env u hz tr \<longleftrightarrow> (\<exists>t. \<forall>m \<in> set (ux_OrderedMembers env t hz).
     (AddNamespaceConfig (fst m) (ucnConfig (om_Name (ucn_Meta u))), True) \<in> set tr)"

definition ucnCluster :: "ucn_env \<Rightarrow> NamespacedName \<Rightarrow> UserCodeNamespace \<Rightarrow> NamespacedName \<Rightarrow> bool" where
  "ucnCluster env req u hz \<longleftrightarrow> (\<exists>t h. ux_GetHazelcast env t
       \<lparr> nn_Name = ucns_HazelcastResourceName (ucn_Spec u), nn_Namespace = nn_Namespace req \<rparr> = Inr h \<and>
     hst_Phase (h_Status h) = Running \<and> hs_UserCodeNamespaces (h_Spec h) \<noteq> None \<and>
     hz = \<lparr> nn_Name = om_Name (h_Meta h), nn_Namespace = om_Namespace (h_Meta h) \<rparr>)"

definition successOf :: "ucn_call \<Rightarrow> UserCodeNamespace option" where
  "successOf c = (case c of StatusUpdateUcn u \<Rightarrow> if ucnst_State (ucn_Status u) = UserCodeNamespaceSuccess then Some u else None | _ \<Rightarrow> None)"

definition ucnEarned :: "ucn_env \<Rightarrow> NamespacedName \<Rightarrow> ucn_call trace \<Rightarrow> ucn_call \<Rightarrow> bool" where
  "ucnEarned env req tr c \<longleftrightarrow> (\<forall>u. successOf c = Some u \<longrightarrow>
     (\<exists>hz. ucnCluster env req u hz \<and> bundled env u hz tr \<and> configured env u hz tr))"

abbreviation unsuccessful :: "ucn_call \<Rightarrow> bool" where
  "unsuccessful c \<equiv> successOf c = None"

lemma successOf_simps [simp]:
  "successOf (UpdateUcn u) = None" "successOf (DownloadBundle h r) = None" "successOf (AddNamespaceConfig m c) = None"
  "successOf TriggerPhoneHomeUcn = None"
  "successOf (StatusUpdateUcn v) = (if ucnst_State (ucn_Status v) = UserCodeNamespaceSuccess then Some v else None)"
  by (simp_all add: successOf_def)

lemma unsuccessful_steps [kept]:
  "only_calls unsuccessful (failUcn env u e)"
  "only_calls unsuccessful (updateUserCodeNamespaceStatus env u userCodeNamepsacePendingStatus)"
  "only_calls unsuccessful (ucn_executeFinalizer env u)" "only_calls unsuccessful (validA et v)"
  "only_calls unsuccessful (downloadOn env u a)" "only_calls unsuccessful (applyConfig env u hz)"
  by (auto simp: failUcn_def updateUserCodeNamespaceStatus_def userCodeNamepsaceFailedStatus_def userCodeNamepsacePendingStatus_def
      ucn_executeFinalizer_def validA_def downloadOn_def orPanic_def applyConfig_def UsercodeNamespaceService_Apply_def
      intro!: kept split: option.split)

lemma unsuccessful_download [kept]: "only_calls unsuccessful (downloadBundle env u hz)"
  unfolding downloadBundle_def by (auto intro!: kept)

lemma unsuccessful_earned: "only_calls unsuccessful m \<Longrightarrow> traced (ucnEarned env req) m w"
  by (erule traced_only) (simp add: ucnEarned_def)

lemma download_done:
  "groupA (map (\<lambda>m. downloadOn env u (snd m)) ms) w = (Inr x, w') \<Longrightarrow> m \<in> set ms \<Longrightarrow> \<exists>host port req.
     SplitHostPort (snd m) = Some (host, port) \<and> bundleReq u = Some req \<and> (DownloadBundle host req, True) \<in> set (cw_trace w')"
proof (induction ms arbitrary: w)
  case (Cons a ms)
  then obtain y w1 where one: "downloadOn env u (snd a) w = (Inr y, w1)"
    and rest: "groupA (map (\<lambda>m. downloadOn env u (snd m)) ms) w1 = (Inr x, w')"
    by (auto simp: groupA_success simp del: groupA.simps)
  have "only_calls unsuccessful (groupA (map (\<lambda>m. downloadOn env u (snd m)) ms))" by (auto intro!: kept)
  from only_calls_grows [OF this, of w1] rest obtain evs where evs: "cw_trace w' = cw_trace w1 @ evs" by auto
  show ?case
  proof (cases "m = a")
    case True
    with one evs show ?thesis
      by (auto simp: downloadOn_def orPanic_def bindA_Inr_iff action_simps invokeA_def split: option.splits)
  qed (use Cons rest in auto)
qed simp

lemma downloadBundle_done:
  assumes "downloadBundle env u hz w = (Inr x, w')" and "\<forall>t ms. set (ux_order env t ms) = set ms"
  shows "bundled env u hz (cw_trace w')"
proof -
  let ?t = "moment (w\<lparr> cw_reads := Suc (cw_reads w) \<rparr>)"
  have "groupA (map (\<lambda>m. downloadOn env u (snd m)) (ux_order env ?t (ux_OrderedMembers env ?t hz)))
      (w\<lparr> cw_reads := Suc (Suc (cw_reads w)) \<rparr>) = (Inr x, w')"
    using assms(1) by (auto simp: downloadBundle_def bindA_Inr_iff)
  from download_done [OF this] show ?thesis unfolding bundled_def using assms(2) by blast
qed

lemma forA_invoked:
  "forA ms (\<lambda>m. invokeA ans (f m)) w = (Inr x, w') \<Longrightarrow> m \<in> set ms \<Longrightarrow> (f m, True) \<in> set (cw_trace w')"
proof (induction ms arbitrary: w)
  case (Cons a ms)
  then obtain w1 where one: "invokeA ans (f a) w = (Inr (), w1)" and rest: "forA ms (\<lambda>m. invokeA ans (f m)) w1 = (Inr x, w')"
    by (auto simp: bindA_Inr_iff)
  have "only_calls (\<lambda>_. True) (forA ms (\<lambda>m. invokeA ans (f m)))" by (auto intro!: kept)
  from only_calls_grows [OF this, of w1] rest obtain evs where evs: "cw_trace w' = cw_trace w1 @ evs" by auto
  show ?case
  proof (cases "m = a")
    case True
    with one evs show ?thesis by (auto simp: invokeA_def split: option.splits)
  qed (use Cons rest in auto)
qed simp

lemma applyConfig_done: "applyConfig env u hz w = (Inr x, w') \<Longrightarrow> configured env u hz (cw_trace w')"
  unfolding applyConfig_def UsercodeNamespaceService_Apply_def configured_def
  by (rule exI [of _ "moment w"]) (auto simp: bindA_Inr_iff dest: forA_invoked)

lemma grown [intro]: "bundled env u hz tr \<Longrightarrow> bundled env u hz (tr @ evs)" "configured env u hz tr \<Longrightarrow> configured env u hz (tr @ evs)"
  unfolding bundled_def configured_def by fastforce+

text \<open>The last part of \<open>ucn_apply\<close> writes the status of the resource itself.\<close>

definition reportsOn :: "UserCodeNamespace \<Rightarrow> ucn_call \<Rightarrow> bool" where
  "reportsOn u c \<longleftrightarrow> (\<forall>v. successOf c = Some v \<longrightarrow> ucn_Spec v = ucn_Spec u \<and> om_Name (ucn_Meta v) = om_Name (ucn_Meta u))"

lemma report_calls: "only_calls (reportsOn u) (ucn_report env u)"
  by (auto simp: ucn_report_def reportsOn_def Let_def failUcn_def updateUserCodeNamespaceStatus_def userCodeNamepsaceFailedStatus_def
      userCodeNamespaceSuccessStatus_def InsertLastSuccessfullyAppliedSpec_def insertSpec_def intro!: kept)

lemma apply_earned:
  assumes "\<forall>t ms. set (ux_order env t ms) = set ms" and "ucnCluster env req u hz"
  shows "traced (ucnEarned env req) (ucn_apply env u hz) w"
  unfolding ucn_apply_def
proof (rule traced_catchA, goal_cases)
  case (3 x w1)
  have b: "bundled env u hz (cw_trace w1)" by (rule downloadBundle_done [OF 3 assms(1)])
  show ?case
  proof (rule traced_catchA, goal_cases)
    case (3 y w2)
    obtain evs where "cw_trace w2 = cw_trace w1 @ evs"
      using only_calls_grows [OF unsuccessful_steps(6), of env u hz w1] 3 by auto
    with b have b2: "bundled env u hz (cw_trace w2)" by auto
    have c2: "configured env u hz (cw_trace w2)" by (rule applyConfig_done [OF 3])
    have earned: "ucnEarned env req (cw_trace w2 @ evs) c"
      if "\<And>v. successOf c = Some v \<Longrightarrow> ucn_Spec v = ucn_Spec u \<and> om_Name (ucn_Meta v) = om_Name (ucn_Meta u)" for evs c
      unfolding ucnEarned_def
    proof (intro allI impI)
      fix v assume "successOf c = Some v"
      from that [OF this] have "bundled env v hz = bundled env u hz" "configured env v hz = configured env u hz" "ucnCluster env req v hz = ucnCluster env req u hz"
        by (auto simp: bundled_def configured_def ucnCluster_def bundleReq_def fun_eq_iff)
      with b2 c2 assms(2) show "\<exists>hz. ucnCluster env req v hz \<and> bundled env v hz (cw_trace w2 @ evs) \<and> configured env v hz (cw_trace w2 @ evs)"
        by (intro exI [of _ hz]) (simp add: grown)
    qed
    obtain evs' where "cw_trace (snd (ucn_report env u w2)) = cw_trace w2 @ evs'" "\<forall>e \<in> set evs'. reportsOn u (fst e)"
      using report_calls [of u env] unfolding only_calls_def calls_at_def by blast
    then show ?case unfolding traced_def reportsOn_def by (intro exI [of _ evs']) (auto intro!: earned)
  qed (auto intro!: unsuccessful_earned kept)
qed (auto intro!: unsuccessful_earned kept)

lemma onCluster_earned:
  assumes "\<forall>t ms. set (ux_order env t ms) = set ms"
  shows "traced (ucnEarned env req) (ucn_onCluster env req u) w"
  unfolding ucn_onCluster_def
proof (rule traced_catchA, goal_cases)
  case (3 h w1)
  then have h: "ux_GetHazelcast env (moment w) \<lparr> nn_Name = ucns_HazelcastResourceName (ucn_Spec u), nn_Namespace = nn_Namespace req \<rparr> = Inr h"
    by simp
  show ?case
  proof (rule traced_if, goal_cases)
    case 2
    show ?case
    proof (rule traced_catchA, goal_cases)
      case (3 x w2)
      then have "hs_UserCodeNamespaces (h_Spec h) \<noteq> None"
        by (auto simp: validA_def ValidateUCNSpec_def validateUCNEnabled_def UserCodeNamespacesConfig_IsEnabled_def outcome_def
            check_def action_simps Required_def addErr_def split: option.splits if_splits)
      with h 2 have "ucnCluster env req u \<lparr> nn_Name = om_Name (h_Meta h), nn_Namespace = om_Namespace (h_Meta h) \<rparr>"
        unfolding ucnCluster_def by (intro exI [of _ "moment w"] exI [of _ h]) auto
      then show ?case unfolding Let_def
        by (intro traced_catchA apply_earned assms) (auto intro!: unsuccessful_earned kept)
    qed (auto intro!: unsuccessful_earned kept)
  qed (auto intro!: unsuccessful_earned kept)
qed (auto intro!: unsuccessful_earned kept)

lemma Reconcile_earned:
  assumes "\<forall>t ms. set (ux_order env t ms) = set ms"
  shows "traced (ucnEarned env req) (UserCodeNamespaceReconciler_Reconcile env req) w"
  unfolding UserCodeNamespaceReconciler_Reconcile_def Let_def
  by (intro traced_catchA traced_if onCluster_earned [OF assms]; rule unsuccessful_earned) (auto intro!: kept)

text \<open>C35: a UserCodeNamespace is reported as successful only when the agents of all members of its running
  cluster have downloaded the bundle from the bucket of the resource and all members have got the
  configuration that names it.\<close>

theorem ucn_success_sound:
  assumes "UserCodeNamespaceReconciler_Reconcile env req w = (r, w')"
    and "cw_trace w' = cw_trace w @ pre @ (StatusUpdateUcn u, b) # post"
    and "ucnst_State (ucn_Status u) = UserCodeNamespaceSuccess"
    and "\<forall>t ms. set (ux_order env t ms) = set ms"
  shows "\<exists>hz. ucnCluster env req u hz \<and> bundled env u hz (cw_trace w @ pre) \<and> configured env u hz (cw_trace w @ pre)"
  using tracedD [OF Reconcile_earned [OF assms(4)] assms(1,2)] assms(3) by (simp add: ucnEarned_def)

subsection \<open>A resource without a bucket\<close>

lemma groupA_panics:
  assumes "g \<in> set gs" and "\<And>w. \<exists>t w'. g w = (Inl (ErrPanic t), w')"
  shows "\<exists>t w'. groupA gs w = (Inl (ErrPanic t), w')"
  using assms(1)
proof (induction gs arbitrary: w)
  case (Cons a gs)
  obtain r w1 where one: "a w = (r, w1)" by fastforce
  obtain r' w2 where rest: "groupA gs w1 = (r', w2)" by fastforce
  show ?case
  proof (cases "g = a")
    case True
    with assms(2) [of w] one obtain t where "r = Inl (ErrPanic t)" by auto
    with one rest show ?thesis by (cases r'; cases "projl r'") (auto simp: action_simps)
  next
    case False
    with Cons obtain t v where "groupA gs w1 = (Inl (ErrPanic t), v)" by fastforce
    with one show ?thesis by (simp add: action_simps split: prod.split sum.split)
  qed
qed simp

text \<open>\<open>reachesMembers\<close>: everything up to the download works, and a member has an address.\<close>

definition reachesMembers :: "ucn_env \<Rightarrow> NamespacedName \<Rightarrow> UserCodeNamespace \<Rightarrow> Hazelcast \<Rightarrow> bool" where
  "reachesMembers env req u h \<longleftrightarrow> (\<forall>t. ux_Get env t req = Inr u \<and> (\<forall>nn. ux_GetHazelcast env t nn = Inr h) \<and>
     (\<forall>nn. ux_GetOrCreateClient env t nn = Inr ()) \<and> (\<forall>ns. ux_MtlsClient env t ns = Inr ()) \<and>
     (\<forall>nn. \<exists>m \<in> set (ux_order env t (ux_OrderedMembers env t nn)). \<exists>host port. SplitHostPort (snd m) = Some (host, port))) \<and>
     (\<forall>host. ux_BundleService env host = None) \<and>
     hst_Phase (h_Status h) = Running \<and> hs_UserCodeNamespaces (h_Spec h) \<noteq> None \<and>
     ContainsFinalizer (ucn_Meta u) Finalizer \<and> om_DeletionTimestamp (ucn_Meta u) = None \<and> IsApplied (ucn_Meta u)"

lemma downloadBundle_panics:
  assumes "reachesMembers env req u h" and "ucns_BucketConfiguration (ucn_Spec u) = None"
  shows "\<exists>t w'. downloadBundle env u hz w = (Inl (ErrPanic t), w')"
proof -
  let ?t = "moment (w\<lparr> cw_reads := Suc (cw_reads w) \<rparr>)"
  let ?ms = "ux_order env ?t (ux_OrderedMembers env ?t hz)"
  obtain m host port where m: "m \<in> set ?ms" "SplitHostPort (snd m) = Some (host, port)"
    using assms(1) unfolding reachesMembers_def by blast
  have "\<exists>t w'. groupA (map (\<lambda>m. downloadOn env u (snd m)) ?ms) v = (Inl (ErrPanic t), w')" for v
  proof (rule groupA_panics)
    show "downloadOn env u (snd m) \<in> set (map (\<lambda>m. downloadOn env u (snd m)) ?ms)" using m(1) by simp
    show "\<exists>t w'. downloadOn env u (snd m) v = (Inl (ErrPanic t), w')" for v
      using m(2) assms by (simp add: downloadOn_def reachesMembers_def bundleReq_def orPanic_def action_simps)
  qed
  moreover have "\<And>t ns. ux_MtlsClient env t ns = Inr ()" using assms(1) unfolding reachesMembers_def by blast
  ultimately show ?thesis by (simp add: downloadBundle_def)
qed

lemma catchA_goes_on: "m w = (Inr x, w') \<Longrightarrow> catchA m h k w = k x w'"
  by (simp add: catchA_def action_simps)

text \<open>The bucket is optional in a UserCodeNamespace and no check asks for it, but the goroutine that
  downloads the bundle dereferences it: the reconciliation of an applied resource without a
  bucket ends in a panic, whatever the cluster answers.\<close>

theorem ucn_without_bucket_panics:
  assumes "reachesMembers env req u h" and "ucns_BucketConfiguration (ucn_Spec u) = None"
  shows "\<exists>t. fst (UserCodeNamespaceReconciler_Reconcile env req w) = Inl (ErrPanic t)"
proof -
  note R = assms(1) [unfolded reachesMembers_def]
  have valid: "validA et (ValidateUCNSpec u h) v = (Inr (), v)" for et and v :: "(unit, ucn_call) world"
    using R by (simp add: validA_def ValidateUCNSpec_def validateUCNEnabled_def UserCodeNamespacesConfig_IsEnabled_def outcome_def
        check_def action_simps Err_def NewFieldValidator_def)
  have applied: "\<exists>t v. ucn_apply env u hz x = (Inl (ErrPanic t), v)" for hz x
  proof -
    obtain t v where "downloadBundle env u hz x = (Inl (ErrPanic t), v)" using downloadBundle_panics [OF assms] by blast
    then show ?thesis by (simp add: ucn_apply_def catchA_def action_simps)
  qed
  have get: "ux_Get env s req = Inr u" "ux_GetHazelcast env s nn = Inr h" "ux_GetOrCreateClient env s nn = Inr ()" for s nn
    using R by blast+
  have state: "hst_Phase (h_Status h) = Running" "ContainsFinalizer (ucn_Meta u) Finalizer"
      "om_DeletionTimestamp (ucn_Meta u) = None" "IsApplied (ucn_Meta u)"
    using R by blast+
  have "\<exists>t v. ucn_onCluster env req u x = (Inl (ErrPanic t), v)" for x
    unfolding ucn_onCluster_def using applied by (simp add: catchA_goes_on valid get state Let_def)
  then have "\<exists>t v. UserCodeNamespaceReconciler_Reconcile env req w = (Inl (ErrPanic t), v)"
    unfolding UserCodeNamespaceReconciler_Reconcile_def by (simp add: catchA_goes_on get state Let_def)
  then show ?thesis by auto
qed

subsection \<open>Witnesses\<close>

definition sample_ucn :: "BucketConfiguration option \<Rightarrow> UserCodeNamespace" where
  "sample_ucn bucket = \<lparr> ucn_Meta = sample_meta\<lparr> om_Name := ''code'', om_Finalizers := [Finalizer],
       om_Annotations := [LastAppliedSpecAnnotation \<mapsto> ''{}''] \<rparr>,
     ucn_Spec = \<lparr> ucns_BucketConfiguration = bucket, ucns_HazelcastResourceName = ''hz'' \<rparr>,
     ucn_Status = \<lparr> ucnst_State = UserCodeNamespacePending, ucnst_Message = [] \<rparr> \<rparr>"

definition sample_bucket :: BucketConfiguration where
  "sample_bucket = \<lparr> bc_DeprecatedSecret = [], bc_SecretName = ''secret'', bc_BucketURI = ''s3://code'' \<rparr>"

definition sample_ucn_cluster :: Hazelcast where
  "sample_ucn_cluster = sample_hazelcast\<lparr> h_Spec := sample_hazelcast_spec\<lparr> hs_UserCodeNamespaces := Some \<lparr> ucnc_ClassFilter = None \<rparr> \<rparr>,
     h_Status := sample_hazelcast_status\<lparr> hst_Phase := Running \<rparr> \<rparr>"

definition sample_ucn_env :: "BucketConfiguration option \<Rightarrow> ucn_env" where
  "sample_ucn_env bucket = \<lparr> ux_call = (\<lambda>t c. None), ux_Get = (\<lambda>t nn. Inr (sample_ucn bucket)), ux_List = (\<lambda>t n ns. Inr []),
     ux_GetHazelcast = (\<lambda>t nn. Inr sample_ucn_cluster), ux_GetOrCreateClient = (\<lambda>t nn. Inr ()), ux_MtlsClient = (\<lambda>t ns. Inr ()),
     ux_OrderedMembers = (\<lambda>t nn. [((1, 2), ''10.0.0.1:5701'')]), ux_order = (\<lambda>t ms. ms), ux_BundleService = (\<lambda>h. None),
     ux_ErrText = (\<lambda>e. []), ux_MarshalSpec = (\<lambda>s. ''{}''), ux_PhoneHomeEnabled = False \<rparr>"

definition ucn_start :: "(unit, ucn_call) world" where
  "ucn_start = \<lparr> cw_state = (), cw_reads = 0, cw_trace = [] \<rparr>"

definition sample_ucn_done :: UserCodeNamespace where
  "sample_ucn_done = (sample_ucn (Some sample_bucket))\<lparr> ucn_Meta := InsertLastSuccessfullyAppliedSpec (\<lambda>s. ''{}'')
      (ucn_Spec (sample_ucn (Some sample_bucket))) (ucn_Meta (sample_ucn (Some sample_bucket))),
    ucn_Status := \<lparr> ucnst_State = UserCodeNamespaceSuccess, ucnst_Message = [] \<rparr> \<rparr>"

lemma sample_split: "SplitHostPort ''10.0.0.1:5701'' = Some (''10.0.0.1'', ''5701'')" by code_simp
lemma sample_join: "path_Join UCNBucketPath ''code.zip'' = ''/opt/hazelcast/ucn/bucket/code.zip''" by code_simp
lemma sample_ucn_valid: "ValidateUCNSpec u sample_ucn_cluster = Some None"
  by (simp add: ValidateUCNSpec_def validateUCNEnabled_def UserCodeNamespacesConfig_IsEnabled_def outcome_def check_def Err_def NewFieldValidator_def sample_ucn_cluster_def)
lemma sample_ucn_trace:
  "cw_trace (snd (UserCodeNamespaceReconciler_Reconcile (sample_ucn_env (Some sample_bucket)) \<lparr> nn_Name = ''code'', nn_Namespace = ''default'' \<rparr> ucn_start)) =
     [(DownloadBundle ''10.0.0.1'' \<lparr> br_URL = ''s3://code'', br_SecretName = ''secret'', br_DestDir = ''/opt/hazelcast/ucn/bucket/code.zip'' \<rparr>, True),
      (AddNamespaceConfig (1, 2) (ucnConfig ''code''), True),
      (UpdateUcn (sample_ucn_done\<lparr> ucn_Status := ucn_Status (sample_ucn (Some sample_bucket)) \<rparr>), True),
      (StatusUpdateUcn sample_ucn_done, True)]"
proof -
  have phase: "hst_Phase (h_Status sample_ucn_cluster) = Running" by (simp add: sample_ucn_cluster_def)
  have meta: "ContainsFinalizer (ucn_Meta (sample_ucn b)) Finalizer" "om_DeletionTimestamp (ucn_Meta (sample_ucn b)) = None"
      "IsApplied (ucn_Meta (sample_ucn b))" "om_Name (ucn_Meta (sample_ucn b)) = ''code''" "ucns_BucketConfiguration (ucn_Spec (sample_ucn b)) = b" for b
    by (simp_all add: sample_ucn_def sample_meta_def ContainsFinalizer_def IsApplied_def)
  show ?thesis
    by (simp add: UserCodeNamespaceReconciler_Reconcile_def ucn_onCluster_def ucn_apply_def ucn_report_def catchA_def action_simps Let_def meta phase sample_ucn_valid
        sample_ucn_env_def downloadBundle_def downloadOn_def sample_split sample_join [simplified] bundleReq_def sample_bucket_def ucn_start_def invokeA_def orPanic_def validA_def
        applyConfig_def UsercodeNamespaceService_Apply_def updateUserCodeNamespaceStatus_def userCodeNamespaceSuccessStatus_def sample_ucn_done_def)
qed

theorem ucn_success_sound_witness:
  "\<exists>hz pre. ucnCluster (sample_ucn_env (Some sample_bucket)) \<lparr> nn_Name = ''code'', nn_Namespace = ''default'' \<rparr> sample_ucn_done hz \<and>
     length pre = 3 \<and> bundled (sample_ucn_env (Some sample_bucket)) sample_ucn_done hz pre \<and>
     configured (sample_ucn_env (Some sample_bucket)) sample_ucn_done hz pre"
proof -
  let ?env = "sample_ucn_env (Some sample_bucket)"
  let ?req = "\<lparr> nn_Name = ''code'', nn_Namespace = ''default'' \<rparr>"
  let ?run = "UserCodeNamespaceReconciler_Reconcile ?env ?req ucn_start"
  let ?pre = "take 3 (cw_trace (snd ?run))"
  have start: "cw_trace ucn_start = []" by (simp add: ucn_start_def)
  have split: "cw_trace (snd ?run) = cw_trace ucn_start @ ?pre @ (StatusUpdateUcn sample_ucn_done, True) # []"
    by (simp add: sample_ucn_trace start)
  have "\<forall>t ms. set (ux_order ?env t ms) = set ms" "ucnst_State (ucn_Status sample_ucn_done) = UserCodeNamespaceSuccess"
    by (simp_all add: sample_ucn_env_def sample_ucn_done_def)
  from ucn_success_sound [OF surjective_pairing split this(2,1)] obtain hz where
      "ucnCluster ?env ?req sample_ucn_done hz" "bundled ?env sample_ucn_done hz ?pre" "configured ?env sample_ucn_done hz ?pre"
    unfolding start by auto
  moreover have "length ?pre = 3" by (simp add: sample_ucn_trace)
  ultimately show ?thesis by blast
qed

theorem ucn_without_bucket_panics_witness:
  "\<exists>t. fst (UserCodeNamespaceReconciler_Reconcile (sample_ucn_env None) \<lparr> nn_Name = ''code'', nn_Namespace = ''default'' \<rparr> ucn_start) = Inl (ErrPanic t)"
proof (rule ucn_without_bucket_panics)
  show "ucns_BucketConfiguration (ucn_Spec (sample_ucn None)) = None" by (simp add: sample_ucn_def)
  show "reachesMembers (sample_ucn_env None) \<lparr> nn_Name = ''code'', nn_Namespace = ''default'' \<rparr> (sample_ucn None) sample_ucn_cluster"
    by (simp add: reachesMembers_def sample_ucn_env_def sample_ucn_def sample_ucn_cluster_def sample_meta_def ContainsFinalizer_def
        IsApplied_def sample_split)
qed

end
