(* ===== verification/Data_Codecs.thy ===== *)
theory Data_Codecs
  imports Request_Codecs
begin

text \<open>
  The codecs of caches, CP maps, events and authentication (\<^verbatim>\<open>internal/protocol/codec\<close>: \<^verbatim>\<open>cache_*\<close>, \<^verbatim>\<open>cp_*\<close>,
  \<^verbatim>\<open>mc_event\<close>, \<^verbatim>\<open>mc_poll_mc_events\<close>, \<^verbatim>\<open>client_authentication\<close>).
\<close>

subsection \<open>Caches\<close>

record MergePolicyConfig =
  mpc_Policy :: string
  mpc_BatchSize :: int32

definition EncodeMergePolicyConfig :: "('f, 'x) frame_api_scheme \<Rightarrow> MergePolicyConfig \<Rightarrow> 'f list go" where
  "EncodeMergePolicyConfig api m =
     addFrames [beginFrame api, initialFrame api (fa_IntSize api) [\<lambda>buf. EncodeInt buf 0 (mpc_BatchSize m)],
       EncodeString api (mpc_Policy m), endFrame api]"

definition DecodeMergePolicyConfig :: "('f, 'x) frame_api_scheme \<Rightarrow> ('f, MergePolicyConfig) decoder" where
  "DecodeMergePolicyConfig api = structD (\<lambda>f. bindD (intAt api f 0) (\<lambda>batchSize. bindD (DecodeString api) (\<lambda>policy.
     finishD api \<lparr> mpc_Policy = policy, mpc_BatchSize = batchSize \<rparr>)))"

record CacheConfigHolder =
  cch_Name :: string
  cch_ManagerPrefix :: string
  cch_UriString :: string
  cch_BackupCount :: int32
  cch_AsyncBackupCount :: int32
  cch_InMemoryFormat :: string
  cch_EvictionConfigHolder :: EvictionConfigHolder
  cch_WanReplicationRef :: WanReplicationRef
  cch_KeyClassName :: string
  cch_ValueClassName :: string
  cch_CacheLoaderFactory :: Data
  cch_CacheWriterFactory :: Data
  cch_ExpiryPolicyFactory :: Data
  cch_ReadThrough :: bool
  cch_WriteThrough :: bool
  cch_StoreByValue :: bool
  cch_ManagementEnabled :: bool
  cch_StatisticsEnabled :: bool
  cch_HotRestartConfig :: HotRestartConfig
  cch_EventJournalConfig :: EventJournal_cfg
  cch_SplitBrainProtectionName :: string
  cch_ListenerConfigurations :: "Data list"
  cch_MergePolicyConfig :: MergePolicyConfig
  cch_DisablePerEntryInvalidationEvents :: bool
  cch_CachePartitionLostListenerConfigs :: "ListenerConfigHolder list option"
  cch_MerkleTreeConfig :: MerkleTreeConfig_codec
  cch_DataPersistenceConfig :: DataPersistenceConfig
  cch_UserCodeNamespace :: string

definition EncodeCacheConfigHolder :: "('f, 'x) frame_api_scheme \<Rightarrow> CacheConfigHolder \<Rightarrow> 'f list go" where
  "EncodeCacheConfigHolder api c = (let i = fa_IntSize api; b = fa_BooleanSize api in
     addFrames [beginFrame api,
       initialFrame api (i + i + b + b + b + b + b + b)
         [\<lambda>buf. EncodeInt buf 0 (cch_BackupCount c), \<lambda>buf. EncodeInt buf i (cch_AsyncBackupCount c),
          \<lambda>buf. EncodeBoolean buf (i + i) (cch_ReadThrough c), \<lambda>buf. EncodeBoolean buf (i + i + b) (cch_WriteThrough c),
          \<lambda>buf. EncodeBoolean buf (i + i + b + b) (cch_StoreByValue c),
          \<lambda>buf. EncodeBoolean buf (i + i + b + b + b) (cch_ManagementEnabled c),
          \<lambda>buf. EncodeBoolean buf (i + i + b + b + b + b) (cch_StatisticsEnabled c),
          \<lambda>buf. EncodeBoolean buf (i + i + b + b + b + b + b) (cch_DisablePerEntryInvalidationEvents c)],
       EncodeString api (cch_Name c), EncodeNullableForString api (cch_ManagerPrefix c), EncodeNullableForString api (cch_UriString c),
       EncodeString api (cch_InMemoryFormat c), EncodeEvictionConfigHolder api (cch_EvictionConfigHolder c),
       EncodeNullableForWanReplicationRef api (cch_WanReplicationRef c), EncodeString api (cch_KeyClassName c),
       EncodeString api (cch_ValueClassName c), EncodeNullableForData api (cch_CacheLoaderFactory c),
       EncodeNullableForData api (cch_CacheWriterFactory c), EncodeData api (cch_ExpiryPolicyFactory c),
       EncodeNullableForHotRestartConfig api (cch_HotRestartConfig c), EncodeNullableForEventJournalConfig api (cch_EventJournalConfig c),
       EncodeNullableForString api (cch_SplitBrainProtectionName c), EncodeListMultiFrameForData api (cch_ListenerConfigurations c),
       EncodeMergePolicyConfig api (cch_MergePolicyConfig c),
       EncodeNullableListMultiFrameForListenerConfigHolder api (cch_CachePartitionLostListenerConfigs c),
       EncodeNullableForMerkleTreeConfig api (cch_MerkleTreeConfig c), EncodeDataPersistenceConfig api (cch_DataPersistenceConfig c),
       EncodeNullableForString api (cch_UserCodeNamespace c), endFrame api])"

text \<open>\<^verbatim>\<open>if !frameIterator.PeekNext().IsEndFrame() { ... }\<close>: a field that older members do not send.\<close>

definition unlessEnd :: "('f, 'x) frame_api_scheme \<Rightarrow> 'a \<Rightarrow> ('f, 'a) decoder \<Rightarrow> ('f, 'a) decoder" where
  "unlessEnd api absent dec = bindD PeekNextD (\<lambda>f. if fa_IsEndFrame api f then returnD absent else dec)"

definition DecodeCacheConfigHolder :: "('f, 'x) frame_api_scheme \<Rightarrow> ('f, CacheConfigHolder) decoder" where
  "DecodeCacheConfigHolder api = (let i = fa_IntSize api; b = fa_BooleanSize api in
     structD (\<lambda>f. bindD (intAt api f 0) (\<lambda>backupCount. bindD (intAt api f i) (\<lambda>asyncBackupCount.
     bindD (boolAt api f (i + i)) (\<lambda>readThrough. bindD (boolAt api f (i + i + b)) (\<lambda>writeThrough.
     bindD (boolAt api f (i + i + b + b)) (\<lambda>storeByValue. bindD (boolAt api f (i + i + b + b + b)) (\<lambda>management.
     bindD (boolAt api f (i + i + b + b + b + b)) (\<lambda>statistics. bindD (boolAt api f (i + i + b + b + b + b + b)) (\<lambda>disable.
     bindD (DecodeString api) (\<lambda>name. bindD (DecodeNullableForString api) (\<lambda>manager. bindD (DecodeNullableForString api) (\<lambda>uri.
     bindD (DecodeString api) (\<lambda>inMemoryFormat. bindD (DecodeEvictionConfigHolder api) (\<lambda>eviction.
     bindD (DecodeWanReplicationRef api) (\<lambda>wan. bindD (DecodeString api) (\<lambda>keyClass. bindD (DecodeString api) (\<lambda>valueClass.
     bindD (DecodeNullableForData api) (\<lambda>loader. bindD (DecodeNullableForData api) (\<lambda>writer. bindD (DecodeData api) (\<lambda>expiry.
     bindD (DecodeHotRestartConfig api) (\<lambda>hotRestart. bindD (DecodeEventJournalConfig api) (\<lambda>journal.
     bindD (DecodeNullableForString api) (\<lambda>splitBrain. bindD (DecodeListMultiFrameForDataContainsNullable api) (\<lambda>listeners.
     bindD (DecodeMergePolicyConfig api) (\<lambda>merge.
     bindD (DecodeNullableListMultiFrameForListenerConfigHolder api) (\<lambda>partitionLost.
     bindD (unlessEnd api MerkleTreeZero (DecodeMerkleTreeConfig api)) (\<lambda>merkle.
     bindD (unlessEnd api \<lparr> dpc_Enabled = False, dpc_Fsync = False \<rparr> (DecodeDataPersistenceConfig api)) (\<lambda>persistence.
     finishD api \<lparr> cch_Name = name, cch_ManagerPrefix = manager, cch_UriString = uri, cch_BackupCount = backupCount,
       cch_AsyncBackupCount = asyncBackupCount, cch_InMemoryFormat = inMemoryFormat, cch_EvictionConfigHolder = eviction,
       cch_WanReplicationRef = wan, cch_KeyClassName = keyClass, cch_ValueClassName = valueClass, cch_CacheLoaderFactory = loader,
       cch_CacheWriterFactory = writer, cch_ExpiryPolicyFactory = expiry, cch_ReadThrough = readThrough, cch_WriteThrough = writeThrough,
       cch_StoreByValue = storeByValue, cch_ManagementEnabled = management, cch_StatisticsEnabled = statistics,
       cch_HotRestartConfig = hotRestart, cch_EventJournalConfig = journal, cch_SplitBrainProtectionName = splitBrain,
       cch_ListenerConfigurations = listeners, cch_MergePolicyConfig = merge, cch_DisablePerEntryInvalidationEvents = disable,
       cch_CachePartitionLostListenerConfigs = partitionLost, cch_MerkleTreeConfig = merkle, cch_DataPersistenceConfig = persistence,
       cch_UserCodeNamespace = [] \<rparr>)))))))))))))))))))))))))))))"

definition CacheConfigHolderZero :: CacheConfigHolder where
  "CacheConfigHolderZero = \<lparr> cch_Name = [], cch_ManagerPrefix = [], cch_UriString = [], cch_BackupCount = 0,
     cch_AsyncBackupCount = 0, cch_InMemoryFormat = [], cch_EvictionConfigHolder = EvictionConfigHolderZero,
     cch_WanReplicationRef = WanReplicationRefZero, cch_KeyClassName = [], cch_ValueClassName = [], cch_CacheLoaderFactory = None,
     cch_CacheWriterFactory = None, cch_ExpiryPolicyFactory = None, cch_ReadThrough = False, cch_WriteThrough = False,
     cch_StoreByValue = False, cch_ManagementEnabled = False, cch_StatisticsEnabled = False,
     cch_HotRestartConfig = HotRestartZero, cch_EventJournalConfig = EventJournalZero, cch_SplitBrainProtectionName = [],
     cch_ListenerConfigurations = [], cch_MergePolicyConfig = \<lparr> mpc_Policy = [], mpc_BatchSize = 0 \<rparr>,
     cch_DisablePerEntryInvalidationEvents = False, cch_CachePartitionLostListenerConfigs = None,
     cch_MerkleTreeConfig = MerkleTreeZero, cch_DataPersistenceConfig = \<lparr> dpc_Enabled = False, dpc_Fsync = False \<rparr>, cch_UserCodeNamespace = [] \<rparr>"

definition DecodeNullableForCacheConfigHolder :: "('f, 'x) frame_api_scheme \<Rightarrow> ('f, CacheConfigHolder) decoder" where
  "DecodeNullableForCacheConfigHolder api = nullOr api CacheConfigHolderZero (DecodeCacheConfigHolder api)"

definition EncodeCacheCreateConfigRequest :: "('f, 'u) message_api \<Rightarrow> CacheConfigHolder \<Rightarrow> bool \<Rightarrow> 'f ClientMessage go" where
  "EncodeCacheCreateConfigRequest api c others =
     requestOf api True 0x130600 (header api + fa_BooleanSize api) [\<lambda>buf. EncodeBoolean buf (header api) others]
       [EncodeCacheConfigHolder api c]"

definition DecodeCacheCreateConfigResponse :: "('f, 'x) frame_api_scheme \<Rightarrow> ('f, CacheConfigHolder) decoder" where
  "DecodeCacheCreateConfigResponse api = bindD skipD (\<lambda>_. DecodeCacheConfigHolder api)"

definition EncodeCacheGetConfigRequest :: "('f, 'u) message_api \<Rightarrow> string \<Rightarrow> string \<Rightarrow> 'f ClientMessage go" where
  "EncodeCacheGetConfigRequest api name simpleName =
     requestOf api True 0x130C00 (header api) [] [EncodeString api name, EncodeString api simpleName]"

definition DecodeCacheGetConfigResponse :: "('f, 'x) frame_api_scheme \<Rightarrow> ('f, CacheConfigHolder) decoder" where
  "DecodeCacheGetConfigResponse api = bindD skipD (\<lambda>_. DecodeNullableForCacheConfigHolder api)"

text \<open>\<^verbatim>\<open>EncodeNullable(message, data, EncodeData)\<close>: the argument is an interface, which holds a typed nil and
  so is never nil itself; nil data is sent as an empty frame.\<close>

definition EncodeNullable_data :: "('f, 'x) frame_api_scheme \<Rightarrow> Data \<Rightarrow> 'f list go" where
  "EncodeNullable_data api d = EncodeData api d"

definition EncodeCacheGetRequest :: "('f, 'u) message_api \<Rightarrow> string \<Rightarrow> Data \<Rightarrow> Data \<Rightarrow> 'f ClientMessage go" where
  "EncodeCacheGetRequest api name key expiryPolicy =
     requestOf api True 0x130D00 (header api) [] [EncodeString api name, EncodeData api key, EncodeNullable_data api expiryPolicy]"

definition DecodeCacheGetResponse :: "('f, 'x) frame_api_scheme \<Rightarrow> ('f, Data) decoder" where
  "DecodeCacheGetResponse api = bindD skipD (\<lambda>_. DecodeNullableForData api)"

definition EncodeCacheGetAllRequest :: "('f, 'u) message_api \<Rightarrow> string \<Rightarrow> Data list \<Rightarrow> Data \<Rightarrow> 'f ClientMessage go" where
  "EncodeCacheGetAllRequest api name keys expiryPolicy =
     requestOf api False 0x130900 (header api) []
       [EncodeString api name, EncodeListMultiFrameForData api keys, EncodeNullable_data api expiryPolicy]"

definition DecodeCacheGetAllResponse :: "('f, 'x) frame_api_scheme \<Rightarrow> ('f, (goAny \<times> goAny) list) decoder" where
  "DecodeCacheGetAllResponse api = bindD skipD (\<lambda>_. DecodeEntryListForDataAndData api)"

definition EncodeCachePutAllRequest :: "('f, 'u) message_api \<Rightarrow> string \<Rightarrow> (goAny \<times> goAny) list \<Rightarrow> Data \<Rightarrow> int32 \<Rightarrow> 'f ClientMessage go" where
  "EncodeCachePutAllRequest api name entries expiryPolicy completionId =
     requestOf api False 0x131B00 (header api + fa_IntSize api) [\<lambda>buf. EncodeInt buf (header api) completionId]
       [EncodeString api name, EncodeEntryListForDataAndData api entries, EncodeNullable_data api expiryPolicy]"

text \<open>A put is sent to partition 1, whatever its key is.\<close>

definition EncodeCachePutRequest :: "('f, 'u) message_api \<Rightarrow> string \<Rightarrow> goAny \<Rightarrow> goAny \<Rightarrow> Data \<Rightarrow> bool \<Rightarrow> int32 \<Rightarrow> 'f ClientMessage go" where
  "EncodeCachePutRequest api name key v expiryPolicy get completionId =
     requestAt 1 api False 0x131300 (header api + fa_BooleanSize api + fa_IntSize api)
       [\<lambda>buf. EncodeBoolean buf (header api) get, \<lambda>buf. EncodeInt buf (header api + fa_BooleanSize api) completionId]
       [EncodeString api name, EncodeAny api key, EncodeAny api v, EncodeNullable_data api expiryPolicy]"

definition DecodeCachePutResponse :: "('f, 'x) frame_api_scheme \<Rightarrow> ('f, Data) decoder" where
  "DecodeCachePutResponse api = bindD skipD (\<lambda>_. DecodeNullableForData api)"

subsection \<open>CP maps\<close>

record RaftGroupId =
  rgi_Name :: string
  rgi_Seed :: int64
  rgi_Id :: int64

definition EncodeRaftGroupId :: "('f, 'x) frame_api_scheme \<Rightarrow> RaftGroupId \<Rightarrow> 'f list go" where
  "EncodeRaftGroupId api g =
     addFrames [beginFrame api,
       initialFrame api (fa_LongSize api + fa_LongSize api)
         [\<lambda>buf. EncodeLong buf 0 (rgi_Seed g), \<lambda>buf. EncodeLong buf (fa_LongSize api) (rgi_Id g)],
       EncodeString api (rgi_Name g), endFrame api]"

definition DecodeRaftGroupId :: "('f, 'x) frame_api_scheme \<Rightarrow> ('f, RaftGroupId) decoder" where
  "DecodeRaftGroupId api = structD (\<lambda>f. bindD (longAt api f 0) (\<lambda>seed. bindD (longAt api f (fa_LongSize api)) (\<lambda>i.
     bindD (DecodeString api) (\<lambda>name. finishD api \<lparr> rgi_Name = name, rgi_Seed = seed, rgi_Id = i \<rparr>))))"

definition EncodeCPGroupCreateCPGroupRequest :: "('f, 'u) message_api \<Rightarrow> string \<Rightarrow> 'f ClientMessage go" where
  "EncodeCPGroupCreateCPGroupRequest api proxyName = requestOf api True 0x1E0100 (header api) [] [EncodeString api proxyName]"

definition DecodeCPGroupCreateCPGroupResponse :: "('f, 'x) frame_api_scheme \<Rightarrow> ('f, RaftGroupId) decoder" where
  "DecodeCPGroupCreateCPGroupResponse api = bindD skipD (\<lambda>_. DecodeRaftGroupId api)"

definition EncodeCPGroupDestroyCPObjectRequest :: "('f, 'u) message_api \<Rightarrow> RaftGroupId \<Rightarrow> string \<Rightarrow> string \<Rightarrow> 'f ClientMessage go" where
  "EncodeCPGroupDestroyCPObjectRequest api g service object =
     requestOf api True 0x1E0200 (header api) [] [EncodeRaftGroupId api g, EncodeString api service, EncodeString api object]"

definition EncodeCPMapCompareAndSetRequest :: "('f, 'u) message_api \<Rightarrow> RaftGroupId \<Rightarrow> string \<Rightarrow> Data \<Rightarrow> Data \<Rightarrow> Data \<Rightarrow> 'f ClientMessage go" where
  "EncodeCPMapCompareAndSetRequest api g name key expected v =
     requestOf api False 0x230600 (header api) []
       [EncodeRaftGroupId api g, EncodeString api name, EncodeData api key, EncodeData api expected, EncodeData api v]"

definition DecodeCPMapCompareAndSetResponse :: "('f, 'u) message_api \<Rightarrow> ('f, bool) decoder" where
  "DecodeCPMapCompareAndSetResponse api = bindD NextD (\<lambda>f. boolAt api f (ma_ResponseBackupAcksOffset api + fa_ByteSize api))"

definition EncodeCPMapDeleteRequest :: "('f, 'u) message_api \<Rightarrow> RaftGroupId \<Rightarrow> string \<Rightarrow> Data \<Rightarrow> 'f ClientMessage go" where
  "EncodeCPMapDeleteRequest api g name key =
     requestOf api False 0x230500 (header api) [] [EncodeRaftGroupId api g, EncodeString api name, EncodeData api key]"

definition DecodeCPMapDeleteResponse :: "('f, 'x) frame_api_scheme \<Rightarrow> ('f, Data) decoder" where
  "DecodeCPMapDeleteResponse api = bindD skipD (\<lambda>_. DecodeNullableForData api)"

definition EncodeCPMapGetRequest :: "('f, 'u) message_api \<Rightarrow> RaftGroupId \<Rightarrow> string \<Rightarrow> Data \<Rightarrow> 'f ClientMessage go" where
  "EncodeCPMapGetRequest api g name key =
     requestOf api False 0x230100 (header api) [] [EncodeRaftGroupId api g, EncodeString api name, EncodeData api key]"

definition DecodeCPMapGetResponse :: "('f, 'x) frame_api_scheme \<Rightarrow> ('f, Data) decoder" where
  "DecodeCPMapGetResponse api = bindD skipD (\<lambda>_. DecodeNullableForData api)"

definition EncodeCPMapPutRequest :: "('f, 'u) message_api \<Rightarrow> RaftGroupId \<Rightarrow> string \<Rightarrow> Data \<Rightarrow> Data \<Rightarrow> 'f ClientMessage go" where
  "EncodeCPMapPutRequest api g name key v =
     requestOf api False 0x230200 (header api) [] [EncodeRaftGroupId api g, EncodeString api name, EncodeData api key, EncodeData api v]"

definition DecodeCPMapPutResponse :: "('f, 'x) frame_api_scheme \<Rightarrow> ('f, Data) decoder" where
  "DecodeCPMapPutResponse api = bindD skipD (\<lambda>_. DecodeNullableForData api)"

definition EncodeCPMapRemoveRequest :: "('f, 'u) message_api \<Rightarrow> RaftGroupId \<Rightarrow> string \<Rightarrow> Data \<Rightarrow> 'f ClientMessage go" where
  "EncodeCPMapRemoveRequest api g name key =
     requestOf api False 0x230400 (header api) [] [EncodeRaftGroupId api g, EncodeString api name, EncodeData api key]"

definition DecodeCPMapRemoveResponse :: "('f, 'x) frame_api_scheme \<Rightarrow> ('f, Data) decoder" where
  "DecodeCPMapRemoveResponse api = bindD skipD (\<lambda>_. DecodeNullableForData api)"

definition EncodeCPMapSetRequest :: "('f, 'u) message_api \<Rightarrow> RaftGroupId \<Rightarrow> string \<Rightarrow> Data \<Rightarrow> Data \<Rightarrow> 'f ClientMessage go" where
  "EncodeCPMapSetRequest api g name key v =
     requestOf api False 0x230300 (header api) [] [EncodeRaftGroupId api g, EncodeString api name, EncodeData api key, EncodeData api v]"

definition DecodeCPMapSetResponse :: "('f, 'x) frame_api_scheme \<Rightarrow> ('f, Data) decoder" where
  "DecodeCPMapSetResponse api = bindD skipD (\<lambda>_. DecodeNullableForData api)"

subsection \<open>Events\<close>

text \<open>\<^verbatim>\<open>types.MCEvent\<close>; a value of the JSON object is a string or something else, which no operation reads.
  What \<^verbatim>\<open>json.Unmarshal\<close> makes of the text is an argument.\<close>

datatype 'j jsonValue = JString string | JOther 'j

record 'j MCEvent =
  mce_Timestamp :: int64
  mce_Type :: int32
  mce_DataJson :: string
  mce_Data :: "(string \<rightharpoonup> 'j jsonValue) option"

definition NewMCEvent :: "(string \<Rightarrow> (string \<rightharpoonup> 'j jsonValue) option) \<Rightarrow> int64 \<Rightarrow> int32 \<Rightarrow> string \<Rightarrow> 'j MCEvent" where
  "NewMCEvent unmarshal timestamp eventType dataJson =
     \<lparr> mce_Timestamp = timestamp, mce_Type = eventType, mce_DataJson = dataJson, mce_Data = unmarshal dataJson \<rparr>"

definition stringProperty :: "'j MCEvent \<Rightarrow> string \<Rightarrow> string" where
  "stringProperty d property = (case mce_Data d of None \<Rightarrow> []
     | Some m \<Rightarrow> (case m property of Some (JString s) \<Rightarrow> s | _ \<Rightarrow> []))"

definition setProperty :: "'j MCEvent \<Rightarrow> string \<Rightarrow> string \<Rightarrow> 'j MCEvent" where
  "setProperty d property v =
     d\<lparr> mce_Data := Some ((case mce_Data d of None \<Rightarrow> Map.empty | Some m \<Rightarrow> m)(property \<mapsto> JString v)) \<rparr>"

definition MCEvent_WithReason :: "'j MCEvent \<Rightarrow> string \<Rightarrow> 'j MCEvent" where
  "MCEvent_WithReason d r = setProperty d ''reason'' r"

definition MCEvent_WithMapName :: "'j MCEvent \<Rightarrow> string \<Rightarrow> 'j MCEvent" where
  "MCEvent_WithMapName d m = setProperty d ''mapName'' m"

definition MCEvent_Reason :: "'j MCEvent \<Rightarrow> string" where
  "MCEvent_Reason d = stringProperty d ''reason''"

definition MCEvent_MapName :: "'j MCEvent \<Rightarrow> string" where
  "MCEvent_MapName d = stringProperty d ''mapName''"

definition MCEvent_UUID :: "'j MCEvent \<Rightarrow> string" where
  "MCEvent_UUID d = stringProperty d ''uuid''"

definition MCEvent_PublisherId :: "'j MCEvent \<Rightarrow> string" where
  "MCEvent_PublisherId d = stringProperty d ''wanPublisherId''"

text \<open>The event types, from 1 in the order of the constants.\<close>

definition WanConsistencyCheckStarted :: int32 where
  "WanConsistencyCheckStarted = 1"

definition WanConsistencyCheckFinished :: int32 where
  "WanConsistencyCheckFinished = 2"

definition WanSyncStarted :: int32 where
  "WanSyncStarted = 3"

definition WanSyncFinishedFull :: int32 where
  "WanSyncFinishedFull = 4"

definition WanConsistencyCheckIgnored :: int32 where
  "WanConsistencyCheckIgnored = 5"

definition WanSyncProgressUpdate :: int32 where
  "WanSyncProgressUpdate = 6"

definition WanSyncFinishedMerkle :: int32 where
  "WanSyncFinishedMerkle = 7"

definition WanConfigurationAdded :: int32 where
  "WanConfigurationAdded = 8"

definition AddWanConfigurationIgnored :: int32 where
  "AddWanConfigurationIgnored = 9"

definition WanSyncIgnored :: int32 where
  "WanSyncIgnored = 10"

definition WanConfigurationExtended :: int32 where
  "WanConfigurationExtended = 11"

definition IsWanSync :: "int32 \<Rightarrow> bool" where
  "IsWanSync e \<longleftrightarrow> e = WanSyncIgnored \<or> e = WanSyncFinishedFull \<or> e = WanSyncStarted \<or> e = WanSyncFinishedMerkle \<or> e = WanSyncProgressUpdate"

definition MCEventType_IsInProgress :: "int32 \<Rightarrow> bool" where
  "MCEventType_IsInProgress e \<longleftrightarrow> e = WanConsistencyCheckStarted \<or> e = WanSyncStarted \<or> e = WanSyncProgressUpdate"

definition MCEventType_IsDone :: "int32 \<Rightarrow> bool" where
  "MCEventType_IsDone e \<longleftrightarrow> e = WanConsistencyCheckFinished \<or> e = WanSyncFinishedFull \<or> e = WanSyncFinishedMerkle \<or>
     e = WanConfigurationAdded \<or> e = WanConfigurationExtended"

definition MCEventType_IsError :: "int32 \<Rightarrow> bool" where
  "MCEventType_IsError e \<longleftrightarrow> e = WanSyncIgnored \<or> e = AddWanConfigurationIgnored \<or> e = WanConsistencyCheckIgnored"

definition EncodeMCEvent :: "('f, 'x) frame_api_scheme \<Rightarrow> 'j MCEvent \<Rightarrow> 'f list go" where
  "EncodeMCEvent api e =
     addFrames [beginFrame api,
       initialFrame api (fa_LongSize api + fa_IntSize api)
         [\<lambda>buf. EncodeLong buf 0 (mce_Timestamp e), \<lambda>buf. EncodeInt buf (fa_LongSize api) (mce_Type e)],
       EncodeString api (mce_DataJson e), endFrame api]"

definition DecodeMCEvent :: "('f, 'x) frame_api_scheme \<Rightarrow> (string \<Rightarrow> (string \<rightharpoonup> 'j jsonValue) option) \<Rightarrow> ('f, 'j MCEvent) decoder" where
  "DecodeMCEvent api unmarshal = structD (\<lambda>f. bindD (longAt api f 0) (\<lambda>timestamp. bindD (intAt api f (fa_LongSize api)) (\<lambda>t.
     bindD (DecodeString api) (\<lambda>dataJson. finishD api (NewMCEvent unmarshal timestamp t dataJson)))))"

definition DecodeListMultiFrameForMCEvent :: "('f, 'x) frame_api_scheme \<Rightarrow> (string \<Rightarrow> (string \<rightharpoonup> 'j jsonValue) option) \<Rightarrow>
    ('f, 'j MCEvent list) decoder" where
  "DecodeListMultiFrameForMCEvent api unmarshal = DecodeListMultiFrame api (DecodeMCEvent api unmarshal)"

definition DecodeMCPollMCEventsResponse :: "('f, 'x) frame_api_scheme \<Rightarrow> (string \<Rightarrow> (string \<rightharpoonup> 'j jsonValue) option) \<Rightarrow>
    ('f, 'j MCEvent list) decoder" where
  "DecodeMCPollMCEventsResponse api unmarshal = bindD skipD (\<lambda>_. DecodeListMultiFrameForMCEvent api unmarshal)"

subsection \<open>Authentication\<close>

definition DecodeNullableForLongArray :: "('f, 'x) frame_api_scheme \<Rightarrow> ('f, int64 list option) decoder" where
  "DecodeNullableForLongArray api = nullOr api None (bindD (DecodeLongArray api) (\<lambda>xs. returnD (Some xs)))"

record 'u ClientAuthentication =
  cau_status :: byte
  cau_address :: "(string \<times> int32) option"
  cau_memberUuid :: 'u
  cau_serializationVersion :: byte
  cau_serverHazelcastVersion :: string
  cau_partitionCount :: int32
  cau_clusterId :: 'u
  cau_failoverSupported :: bool

definition DecodeAddress :: "('f, 'x) frame_api_scheme \<Rightarrow> ('f, string \<times> int32) decoder" where
  "DecodeAddress api = structD (\<lambda>f. bindD (intAt api f 0) (\<lambda>port. bindD (DecodeString api) (\<lambda>host. finishD api (host, port))))"

definition DecodeNullableForAddress :: "('f, 'x) frame_api_scheme \<Rightarrow> ('f, (string \<times> int32) option) decoder" where
  "DecodeNullableForAddress api = nullOr api None (bindD (DecodeAddress api) (\<lambda>a. returnD (Some a)))"

definition EncodeClientAuthenticationRequest :: "('f, 'u) message_api \<Rightarrow> string \<Rightarrow> string \<Rightarrow> string \<Rightarrow> 'u \<Rightarrow> string \<Rightarrow> byte \<Rightarrow> string \<Rightarrow> string \<Rightarrow>
    string list \<Rightarrow> 'f ClientMessage go" where
  "EncodeClientAuthenticationRequest api clusterName username password uuid clientType serializationVersion clientVersion clientName labels =
     (let h = header api; u = ma_UuidSize api in
      requestOf api True 256 (h + u + fa_ByteSize api)
        [\<lambda>buf. EncodeUUID api buf h uuid, \<lambda>buf. EncodeByte buf (h + u) serializationVersion]
        [EncodeString api clusterName, EncodeNullableForString api username, EncodeNullableForString api password,
         EncodeString api clientType, EncodeString api clientVersion, EncodeString api clientName,
         EncodeListMultiFrameForString api labels])"

definition DecodeClientAuthenticationResponse :: "('f, 'u) message_api \<Rightarrow> ('f, 'u ClientAuthentication) decoder" where
  "DecodeClientAuthenticationResponse api =
     (let y = fa_ByteSize api; u = ma_UuidSize api; o' = ma_ResponseBackupAcksOffset api + y in
      bindD NextD (\<lambda>f. bindD (liftD (DecodeByte (fa_Content api f) o')) (\<lambda>status.
      bindD (liftD (DecodeUUID api (fa_Content api f) (o' + y))) (\<lambda>memberUuid.
      bindD (liftD (DecodeByte (fa_Content api f) (o' + y + u))) (\<lambda>version.
      bindD (intAt api f (o' + y + u + y)) (\<lambda>partitions.
      bindD (liftD (DecodeUUID api (fa_Content api f) (o' + y + u + y + fa_IntSize api))) (\<lambda>clusterId.
      bindD (boolAt api f (o' + y + u + y + fa_IntSize api + u)) (\<lambda>failover.
      bindD (DecodeNullableForAddress api) (\<lambda>address. bindD (DecodeString api) (\<lambda>serverVersion.
      returnD \<lparr> cau_status = status, cau_address = address, cau_memberUuid = memberUuid, cau_serializationVersion = version,
        cau_serverHazelcastVersion = serverVersion, cau_partitionCount = partitions, cau_clusterId = clusterId,
        cau_failoverSupported = failover \<rparr>))))))))))"

end
