(* ===== verification/Wan_Sync.thy ===== *)
theory Wan_Sync
  imports Wan_Controller Ds_Controller Ucn_Controller Data_Codecs
begin

text \<open>
  The WanSync controller (\<^verbatim>\<open>wansync_controller.go\<close>, \<^verbatim>\<open>wansync_status.go\<close> under \<^verbatim>\<open>internal/controller/hazelcast\<close>,
  \<^verbatim>\<open>wansync_validation.go\<close>) and the service that runs the synchronisations
  (\<^verbatim>\<open>internal/hazelcast-client/wan_sync_service.go\<close>).

  The state is that of the service: the requests that wait, by the name of their resource, and
  the goroutines that were started and wait for the mutex. A goroutine is known by the resource
  it was started for, whose status its callback writes.
\<close>

subsection \<open>The resource\<close>

record WanSyncSpec =
  wsp_WanReplicationResourceName :: string

record WanSync =
  ws_Meta :: ObjectMeta
  ws_Spec :: WanSyncSpec
  ws_Status :: WanSyncStatus

definition WanSync_PublisherId :: "WanSync \<Rightarrow> string \<Rightarrow> string" where
  "WanSync_PublisherId w mapName = (case map_of (wss_MapsStatus (ws_Status w)) mapName of None \<Rightarrow> [] | Some ms \<Rightarrow> wsm_PublisherId ms)"

definition WanSyncZero :: WanSync where
  "WanSyncZero = \<lparr> ws_Meta = ucn_Meta UserCodeNamespaceZero, ws_Spec = \<lparr> wsp_WanReplicationResourceName = [] \<rparr>,
     ws_Status = \<lparr> wss_Status = WanSyncUnset, wss_Message = [], wss_MapsStatus = [] \<rparr> \<rparr>"

subsection \<open>State, calls, environment\<close>

record WanSyncMapRequest =
  wq_hzResource :: NamespacedName
  wq_wanSync :: string
  wq_mapName :: string
  wq_wanName :: string
  wq_publisherId :: string

type_synonym mc_event = "string MCEvent"

type_synonym member_id = "uint64 \<times> uint64"

record WanSyncMapResponse =
  wp_MapName :: NamespacedName
  wp_HazelcastName :: NamespacedName
  wp_Event :: mc_event

record WanSyncService =
  sv_wanSyncs :: "NamespacedName \<rightharpoonup> WanSyncMapRequest list"
  sv_waiting :: "NamespacedName list"

datatype sync_call =
    UpdateSync WanSync
  | StatusUpdateSync WanSync
  | SyncMap NamespacedName WanSyncRef
  | TriggerPhoneHomeSync

text \<open>\<open>sy_Poll\<close> is the answer of a member to the i-th poll of a wait that began at a moment; \<open>sy_wan\<close> answers the
  reads of \<^verbatim>\<open>getMapsGroupByHazelcastName\<close>. The fields \<open>sy_range*\<close> are the orders in which Go ranges over maps,
  \<open>sy_arrival\<close> the order in which the members report.\<close>

record sync_env =
  sy_call :: "sync_call moment \<Rightarrow> sync_call \<Rightarrow> go_error option"
  sy_Get :: "sync_call moment \<Rightarrow> NamespacedName \<Rightarrow> go_error + WanSync"
  sy_GetWan :: "sync_call moment \<Rightarrow> NamespacedName \<Rightarrow> go_error + WanReplication"
  sy_wan :: "sync_call moment \<Rightarrow> wan_env"
  sy_GetHazelcast :: "sync_call moment \<Rightarrow> NamespacedName \<Rightarrow> go_error + Hazelcast"
  sy_GetOrCreateClient :: "sync_call moment \<Rightarrow> NamespacedName \<Rightarrow> go_error + unit"
  sy_OrderedMembers :: "sync_call moment \<Rightarrow> NamespacedName \<Rightarrow> member_id list"
  sy_SyncUUID :: "sync_call moment \<Rightarrow> string"
  sy_Poll :: "sync_call moment \<Rightarrow> NamespacedName \<Rightarrow> member_id \<Rightarrow> nat \<Rightarrow> go_error + mc_event list"
  sy_arrival :: "sync_call moment \<Rightarrow> member_id list \<Rightarrow> member_id list"
  sy_rangeMaps :: "sync_call moment \<Rightarrow> (string \<times> Map list) list \<Rightarrow> (string \<times> Map list) list"
  sy_rangeKeys :: "sync_call moment \<Rightarrow> (NamespacedName \<rightharpoonup> WanSyncMapRequest list) \<Rightarrow> NamespacedName list"
  sy_rangeStatus :: "sync_call moment \<Rightarrow> (string \<times> WanSyncMapStatus) list \<Rightarrow> (string \<times> WanSyncMapStatus) list"
  sy_UnmarshalSpec :: "string \<Rightarrow> go_error + WanSyncSpec"
  sy_MarshalSpec :: "WanSyncSpec \<Rightarrow> string"
  sy_ErrText :: "validation_error \<Rightarrow> string"
  sy_PhoneHomeEnabled :: bool
  sy_retries :: nat
  sy_steps :: nat

type_synonym 'a sync_proc = "(WanSyncService, sync_call, 'a) proc"

type_synonym sync_result = "(Result \<times> go_error option) sync_proc"

definition syncKey :: "WanSync \<Rightarrow> NamespacedName" where
  "syncKey w = \<lparr> nn_Name = om_Name (ws_Meta w), nn_Namespace = om_Namespace (ws_Meta w) \<rparr>"

subsection \<open>Validation\<close>

definition validateNonUpdatableWanSyncFields :: "sync_env \<Rightarrow> WanSync \<Rightarrow> vstep" where
  "validateNonUpdatableWanSyncFields env w =
     (case om_Annotations (ws_Meta w) LastSuccessfulSpecAnnotation of
        None \<Rightarrow> Some
      | Some prev \<Rightarrow>
          (case sy_UnmarshalSpec env prev of
             Inl err \<Rightarrow> check True (InternalError [''spec''] (''error parsing last WanSync spec for update errors: '' @ error_text err))
           | Inr lastSpec \<Rightarrow> check (wsp_WanReplicationResourceName (ws_Spec w) \<noteq> wsp_WanReplicationResourceName lastSpec)
               (Forbidden [''spec'', ''wanReplicationResourceName''] ''field cannot be updated'')))"

definition ValidateWanSyncSpec :: "sync_env \<Rightarrow> WanSync \<Rightarrow> validation_error option go" where
  "ValidateWanSyncSpec env w =
     outcome (validateNonUpdatableWanSyncFields env w) \<lparr> vo_Kind = ''WanSync'', vo_Name = om_Name (ws_Meta w) \<rparr>"

subsection \<open>Status (wansync\_status.go)\<close>

record wanSyncMapStatus =
  sms_phase :: WanSyncPhase
  sms_message :: string
  sms_publisherId :: string
  sms_resourceName :: string

record wanSyncOptionsBuilder =
  so_phase :: WanSyncPhase
  so_message :: string
  so_mapsStatuses :: "(string \<times> wanSyncMapStatus) list"

definition phaseOnly :: "WanSyncPhase \<Rightarrow> wanSyncMapStatus" where
  "phaseOnly p = \<lparr> sms_phase = p, sms_message = [], sms_publisherId = [], sms_resourceName = [] \<rparr>"

definition wanSyncStatus :: "(string \<times> Map list) list \<Rightarrow> wanSyncOptionsBuilder" where
  "wanSyncStatus hzMaps = \<lparr> so_phase = WanSyncNotStarted, so_message = [],
     so_mapsStatuses = fold (\<lambda>(hz, ms). fold (\<lambda>m. AList.update (wanMapKey hz (MapName m)) (phaseOnly WanSyncNotStarted)) ms) hzMaps [] \<rparr>"

definition wanSyncFailedStatus :: "go_error \<Rightarrow> wanSyncOptionsBuilder" where
  "wanSyncFailedStatus e = \<lparr> so_phase = WanSyncFailed, so_message = error_text e, so_mapsStatuses = [] \<rparr>"

definition wanSyncPendingStatus :: wanSyncOptionsBuilder where
  "wanSyncPendingStatus = \<lparr> so_phase = WanSyncPending, so_message = [], so_mapsStatuses = [] \<rparr>"

definition mapEntry :: "wanSyncMapStatus \<Rightarrow> WanSyncMapStatus" where
  "mapEntry ms = \<lparr> wsm_ResourceName = sms_resourceName ms, wsm_PublisherId = sms_publisherId ms, wsm_Phase = sms_phase ms,
     wsm_Message = sms_message ms \<rparr>"

text \<open>The phase and message of the whole, from the entries in the order in which they are visited.\<close>

definition overall :: "(string \<times> WanSyncMapStatus) list \<Rightarrow> WanSyncPhase \<times> string" where
  "overall entries = foldl (\<lambda>acc (k, ms). if wsm_Phase ms \<noteq> WanSyncCompleted then (wsm_Phase ms, wsm_Message ms) else acc)
     (WanSyncCompleted, []) entries"

definition withMapStatus :: "((string \<times> WanSyncMapStatus) list \<Rightarrow> (string \<times> WanSyncMapStatus) list) \<Rightarrow> string \<Rightarrow> wanSyncMapStatus \<Rightarrow>
    WanSyncStatus \<Rightarrow> WanSyncStatus" where
  "withMapStatus visit key ms st =
     (let entries = AList.update key (mapEntry ms) (wss_MapsStatus st);
          (phase, msg) = (if sms_phase ms \<noteq> WanSyncCompleted then (sms_phase ms, sms_message ms) else overall (visit entries))
      in \<lparr> wss_Status = phase, wss_Message = msg, wss_MapsStatus = entries \<rparr>)"

definition updateWanSyncMapStatus :: "sync_env \<Rightarrow> NamespacedName \<Rightarrow> string \<Rightarrow> wanSyncMapStatus \<Rightarrow> unit sync_proc" where
  "updateWanSyncMapStatus env name key ms = RetryOnConflict (sy_retries env)
     (bindA (observeA (\<lambda>t. sy_Get env t name)) (\<lambda>wan.
      bindA (observeA (\<lambda>t. Inr (withMapStatus (sy_rangeStatus env t) key ms (ws_Status wan)))) (\<lambda>st.
      invokeA (sy_call env) (StatusUpdateSync (wan\<lparr> ws_Status := st \<rparr>)))))"

definition appliedOptions :: "wanSyncOptionsBuilder \<Rightarrow> WanSyncStatus \<Rightarrow> WanSyncStatus" where
  "appliedOptions options st = \<lparr> wss_Status = so_phase options, wss_Message = so_message options,
     wss_MapsStatus = fold (\<lambda>(k, ms). AList.update k (mapEntry ms)) (so_mapsStatuses options) (wss_MapsStatus st) \<rparr>"

text \<open>The error that led to a failure is not returned, only that of writing the status.\<close>

definition updateWanSyncStatus :: "sync_env \<Rightarrow> WanSync \<Rightarrow> wanSyncOptionsBuilder \<Rightarrow> sync_result" where
  "updateWanSyncStatus env wan options =
     tryA (invokeA (sy_call env) (StatusUpdateSync (wan\<lparr> ws_Status := appliedOptions options (ws_Status wan) \<rparr>))) (\<lambda>r.
     returnA (if so_phase options = WanSyncPending then (\<lparr> res_Requeue = True, res_RequeueAfter = 0 \<rparr>, None)
              else (ResultZero, case r of Inl e \<Rightarrow> Some e | Inr _ \<Rightarrow> None)))"

definition failSync :: "sync_env \<Rightarrow> WanSync \<Rightarrow> go_error \<Rightarrow> sync_result" where
  "failSync env wan e = updateWanSyncStatus env wan (wanSyncFailedStatus e)"

subsection \<open>Waiting for the members\<close>

definition filterWanSyncEvents :: "mc_event list \<Rightarrow> string \<Rightarrow> mc_event list" where
  "filterWanSyncEvents events uuid = filter (\<lambda>e. IsWanSync (mce_Type e) \<and> MCEvent_UUID e = uuid) events"

text \<open>The loop of \<^verbatim>\<open>waitMemberFinishEvent\<close> over the answers of a member; \<open>None\<close> is a loop that never ends. After
  an error it polls again at once. The second component is the number of polls made. An answer of a member is one that
  \<^verbatim>\<open>DecodeMCPollMCEventsResponse\<close> can read.\<close>

partial_function (option) waitMemberFinishEvent ::
    "(nat \<Rightarrow> go_error + mc_event list) \<Rightarrow> string \<Rightarrow> nat \<Rightarrow> nat \<Rightarrow> nat \<Rightarrow> ((go_error + mc_event) \<times> nat) option" where
  "waitMemberFinishEvent poll uuid i errorCount noEventsCount =
     (case poll i of
        Inl e \<Rightarrow> if errorCount + 1 > 3 then Some (Inl e, i + 1)
                 else waitMemberFinishEvent poll uuid (i + 1) (errorCount + 1) noEventsCount
      | Inr all \<Rightarrow>
          (let events = filterWanSyncEvents all uuid
           in if events = [] then
                (if noEventsCount + 1 > 24 then Some (Inl (ErrOther (''could not find MC events for UUID '' @ uuid)), i + 1)
                 else waitMemberFinishEvent poll uuid (i + 1) 0 (noEventsCount + 1))
              else case find (\<lambda>e. \<not> MCEventType_IsInProgress (mce_Type e)) events of
                     Some e \<Rightarrow> Some (Inr e, i + 1)
                   | None \<Rightarrow> waitMemberFinishEvent poll uuid (i + 1) 0 0))"

definition MCEventZero :: mc_event where
  "MCEventZero = \<lparr> mce_Timestamp = 0, mce_Type = 0, mce_DataJson = [], mce_Data = None \<rparr>"

definition ignoredEvent :: "go_error \<Rightarrow> string \<Rightarrow> mc_event" where
  "ignoredEvent e mapName = MCEvent_WithMapName (MCEvent_WithReason (MCEventZero\<lparr> mce_Type := WanSyncIgnored \<rparr>) (error_text e)) mapName"

text \<open>The events of the channel, in the order in which the members reported. A wait that never ends keeps
  the goroutine, which then makes no further call.\<close>

fun collectEvents :: "sync_env \<Rightarrow> NamespacedName \<Rightarrow> string \<Rightarrow> string \<Rightarrow> member_id list \<Rightarrow> mc_event list sync_proc" where
  "collectEvents env hz uuid mapName [] = returnA []"
| "collectEvents env hz uuid mapName (m # ms) =
     bindA (observeA (\<lambda>t. Inr (waitMemberFinishEvent (sy_Poll env t hz m) uuid 0 0 0))) (\<lambda>r.
     case r of
       None \<Rightarrow> throwA (ErrPanic ''never returns'')
     | Some (ev, _) \<Rightarrow>
         bindA (collectEvents env hz uuid mapName ms) (\<lambda>evs.
         returnA ((case ev of Inl e \<Rightarrow> ignoredEvent e mapName | Inr e \<Rightarrow> e) # evs)))"

definition finishEvent :: "mc_event list \<Rightarrow> mc_event" where
  "finishEvent events = (case find (\<lambda>e. MCEventType_IsError (mce_Type e)) events of
     Some e \<Rightarrow> e | None \<Rightarrow> if events = [] then MCEventZero else List.last events)"

definition waitWanSyncToFinish :: "sync_env \<Rightarrow> NamespacedName \<Rightarrow> string \<Rightarrow> string \<Rightarrow> mc_event sync_proc" where
  "waitWanSyncToFinish env hz uuid mapName =
     bindA (observeA (\<lambda>t. Inr (sy_arrival env t (sy_OrderedMembers env t hz)))) (\<lambda>members.
     bindA (collectEvents env hz uuid mapName members) (\<lambda>events. returnA (finishEvent events)))"

subsection \<open>The synchronisation service\<close>

text \<open>\<^verbatim>\<open>retry.OnError\<close> with every error retried.\<close>

fun OnError :: "nat \<Rightarrow> unit sync_proc \<Rightarrow> unit sync_proc" where
  "OnError 0 fn = fn"
| "OnError (Suc n) fn = catchA fn (\<lambda>_. OnError n fn) returnA"

definition syncRef :: "WanSyncMapRequest \<Rightarrow> WanSyncRef" where
  "syncRef r = \<lparr> wsr_WanReplicationName = wq_wanName r, wsr_WanPublisherId = wq_publisherId r, wsr_Type = 1, wsr_MapName = wq_mapName r \<rparr>"

definition wanSyncMap :: "sync_env \<Rightarrow> WanSyncMapRequest \<Rightarrow> string sync_proc" where
  "wanSyncMap env r =
     bindA (OnError (sy_steps env) (invokeA (sy_call env) (SyncMap (wq_hzResource r) (syncRef r)))) (\<lambda>_.
     observeA (\<lambda>t. Inr (sy_SyncUUID env t)))"

definition AddWanSyncRequests :: "NamespacedName \<Rightarrow> WanSyncMapRequest list \<Rightarrow> unit sync_proc" where
  "AddWanSyncRequests ws wsrs = changeA (\<lambda>s. s\<lparr> sv_wanSyncs :=
     (case sv_wanSyncs s ws of None \<Rightarrow> (sv_wanSyncs s)(ws \<mapsto> wsrs) | Some _ \<Rightarrow> sv_wanSyncs s) \<rparr>)"

text \<open>The callback \<^verbatim>\<open>stateEventUpdate\<close>; an error of the update is logged only.\<close>

definition eventStatus :: "mc_event \<Rightarrow> wanSyncMapStatus" where
  "eventStatus ev =
     (if MCEventType_IsDone (mce_Type ev)
      then (phaseOnly WanSyncCompleted)\<lparr> sms_publisherId := MCEvent_PublisherId ev \<rparr>
      else if MCEventType_IsError (mce_Type ev)
      then (phaseOnly WanSyncFailed)\<lparr> sms_message := MCEvent_Reason ev, sms_publisherId := MCEvent_PublisherId ev \<rparr>
      else phaseOnly WanSyncPending)"

definition stateEventUpdate :: "sync_env \<Rightarrow> NamespacedName \<Rightarrow> WanSyncMapResponse \<Rightarrow> unit sync_proc" where
  "stateEventUpdate env ws ev =
     (if \<not> IsWanSync (mce_Type (wp_Event ev)) then returnA ()
      else catchA (updateWanSyncMapStatus env ws
             (wanMapKey (nn_Name (wp_HazelcastName ev)) (MCEvent_MapName (wp_Event ev))) (eventStatus (wp_Event ev)))
             (\<lambda>_. returnA ()) returnA)"

definition responseTo :: "WanSyncMapRequest \<Rightarrow> mc_event \<Rightarrow> WanSyncMapResponse" where
  "responseTo r ev = \<lparr> wp_MapName = \<lparr> nn_Name = wq_mapName r, nn_Namespace = nn_Namespace (wq_hzResource r) \<rparr>,
     wp_HazelcastName = wq_hzResource r, wp_Event = ev \<rparr>"

definition startedEvent :: "string \<Rightarrow> mc_event" where
  "startedEvent mapName = MCEvent_WithMapName (MCEventZero\<lparr> mce_Type := WanSyncStarted \<rparr>) mapName"

text \<open>One request: started, sent, waited for, reported to the callback \<open>f\<close>.\<close>

definition syncRequest :: "sync_env \<Rightarrow> (WanSyncMapResponse \<Rightarrow> unit sync_proc) \<Rightarrow> WanSyncMapRequest \<Rightarrow> unit sync_proc" where
  "syncRequest env f r =
     (let ignored = (\<lambda>e. f (responseTo r (ignoredEvent e (wq_mapName r))))
      in bindA (f (responseTo r (startedEvent (wq_mapName r)))) (\<lambda>_.
         catchA (observeA (\<lambda>t. sy_GetOrCreateClient env t (wq_hzResource r))) ignored (\<lambda>_.
         catchA (wanSyncMap env r) ignored (\<lambda>uuid.
         bindA (waitWanSyncToFinish env (wq_hzResource r) uuid (wq_mapName r)) (\<lambda>ev. f (responseTo r ev))))))"

definition doStartSyncJob :: "sync_env \<Rightarrow> (WanSyncMapResponse \<Rightarrow> unit sync_proc) \<Rightarrow> WanSyncMapRequest list \<Rightarrow> unit sync_proc" where
  "doStartSyncJob env f wsrs = forA wsrs (syncRequest env f)"

text \<open>\<^verbatim>\<open>StartSyncJob\<close> starts a goroutine; \<open>syncJobGo\<close> is what it does under the mutex,
  \<open>syncKeyGo\<close> for one key.\<close>

definition StartSyncJob :: "NamespacedName \<Rightarrow> unit sync_proc" where
  "StartSyncJob ws = changeA (\<lambda>s. s\<lparr> sv_waiting := sv_waiting s @ [ws] \<rparr>)"

definition syncKeyGo :: "sync_env \<Rightarrow> NamespacedName \<Rightarrow> NamespacedName \<Rightarrow> unit sync_proc" where
  "syncKeyGo env ws k = bindA (stateA (\<lambda>s. sv_wanSyncs s k)) (\<lambda>v. case v of
     None \<Rightarrow> returnA ()
   | Some wsrs \<Rightarrow> bindA (doStartSyncJob env (stateEventUpdate env ws) wsrs) (\<lambda>_.
       changeA (\<lambda>s. s\<lparr> sv_wanSyncs := (sv_wanSyncs s)(k := None) \<rparr>)))"

definition syncJobGo :: "sync_env \<Rightarrow> NamespacedName \<Rightarrow> unit sync_proc" where
  "syncJobGo env ws =
     bindA (stateA sv_wanSyncs) (\<lambda>wanSyncs.
     bindA (observeA (\<lambda>t. Inr (sy_rangeKeys env t wanSyncs))) (\<lambda>keys. forA keys (syncKeyGo env ws)))"

definition runWaitingSync :: "sync_env \<Rightarrow> nat \<Rightarrow> unit sync_proc" where
  "runWaitingSync env i = bindA (stateA sv_waiting) (\<lambda>jobs.
     if i < length jobs
     then bindA (changeA (\<lambda>s. s\<lparr> sv_waiting := take i jobs @ drop (Suc i) jobs \<rparr>)) (\<lambda>_. syncJobGo env (jobs ! i))
     else returnA ())"

subsection \<open>Reconcile\<close>

definition getWanReplication :: "sync_env \<Rightarrow> WanSync \<Rightarrow> WanReplication sync_proc" where
  "getWanReplication env w =
     (if wsp_WanReplicationResourceName (ws_Spec w) \<noteq> []
      then observeA (\<lambda>t. sy_GetWan env t \<lparr> nn_Name = wsp_WanReplicationResourceName (ws_Spec w), nn_Namespace = om_Namespace (ws_Meta w) \<rparr>)
      else observeA (\<lambda>t. sy_GetWan env t (syncKey w)))"

definition groupedMaps :: "sync_env \<Rightarrow> WanReplication \<Rightarrow> (string \<times> Map list) list sync_proc" where
  "groupedMaps env wr = observeA (\<lambda>t. fst (getMapsGroupByHazelcastName (sy_wan env t) \<lparr> ww_wan = wr, ww_trace = [] \<rparr>))"

definition dueSync :: "WanSync \<Rightarrow> string \<Rightarrow> Map \<Rightarrow> bool" where
  "dueSync wan hz m \<longleftrightarrow> mss_State (m_Status m) = MapSuccess \<and>
     (case map_of (wss_MapsStatus (ws_Status wan)) (wanMapKey hz (MapName m)) of
        None \<Rightarrow> True | Some ms \<Rightarrow> wsm_Phase ms = WanSyncNotStarted)"

definition NewWanSyncMapRequest :: "WanSync \<Rightarrow> WanReplication \<Rightarrow> string \<Rightarrow> Map \<Rightarrow> WanSyncMapRequest" where
  "NewWanSyncMapRequest wan wr hz m = \<lparr> wq_hzResource = \<lparr> nn_Name = hz, nn_Namespace = om_Namespace (ws_Meta wan) \<rparr>,
     wq_wanSync = om_Name (ws_Meta wan), wq_mapName = MapName m, wq_wanName = wanName (MapName m),
     wq_publisherId = WanReplication_PublisherId wr (om_Name (m_Meta m)) \<rparr>"

fun syncRequests :: "sync_env \<Rightarrow> WanSync \<Rightarrow> WanReplication \<Rightarrow> (string \<times> Map list) list \<Rightarrow> WanSyncMapRequest list sync_proc" where
  "syncRequests env wan wr [] = returnA []"
| "syncRequests env wan wr ((hz, ms) # groups) =
     catchA (observeA (\<lambda>t. sy_GetHazelcast env t \<lparr> nn_Name = hz, nn_Namespace = om_Namespace (ws_Meta wan) \<rparr>))
       (\<lambda>e. throwA (wrapErr ''failed to get Hazelcast CR for WAN Sync: '' e)) (\<lambda>_.
     bindA (syncRequests env wan wr groups) (\<lambda>rest.
     returnA (map (NewWanSyncMapRequest wan wr hz) (filter (dueSync wan hz) ms) @ rest)))"

definition runWanSyncJobs :: "sync_env \<Rightarrow> (string \<times> Map list) list \<Rightarrow> WanSync \<Rightarrow> WanReplication \<Rightarrow> unit sync_proc" where
  "runWanSyncJobs env maps wan wr =
     bindA (observeA (\<lambda>t. Inr (sy_rangeMaps env t maps))) (\<lambda>groups.
     bindA (syncRequests env wan wr groups) (\<lambda>wsrs.
     if wsrs = [] then returnA ()
     else bindA (AddWanSyncRequests (syncKey wan) wsrs) (\<lambda>_. StartSyncJob (syncKey wan))))"

definition sync_executeFinalizer :: "sync_env \<Rightarrow> WanSync \<Rightarrow> unit sync_proc" where
  "sync_executeFinalizer env w =
     (if \<not> ContainsFinalizer (ws_Meta w) Finalizer then returnA ()
      else catchA (invokeA (sy_call env) (UpdateSync (w\<lparr> ws_Meta := RemoveFinalizer (ws_Meta w) Finalizer \<rparr>)))
        (\<lambda>e. throwA (wrapErr ''failed to remove finalizer from custom resource: '' e)) returnA)"

text \<open>The part of \<^verbatim>\<open>Reconcile\<close> after the maps were found.\<close>

definition syncMaps :: "sync_env \<Rightarrow> WanSync \<Rightarrow> WanReplication \<Rightarrow> (string \<times> Map list) list \<Rightarrow> sync_result" where
  "syncMaps env wan wr maps =
     (if \<not> IsApplied (ws_Meta wan)
      then let wan' = wan\<lparr> ws_Meta := InsertLastAppliedSpec (sy_MarshalSpec env) (ws_Spec wan) (ws_Meta wan) \<rparr>
        in catchA (invokeA (sy_call env) (UpdateSync wan')) (failSync env wan') (\<lambda>_. updateWanSyncStatus env wan' (wanSyncStatus maps))
      else catchA (runWanSyncJobs env maps wan wr) (failSync env wan) (\<lambda>_.
        bindA (if sy_PhoneHomeEnabled env \<and> \<not> IsSuccessfullyApplied (ws_Meta wan)
               then tryA (invokeA (sy_call env) TriggerPhoneHomeSync) (\<lambda>_. returnA ()) else returnA ()) (\<lambda>_.
        let wan' = wan\<lparr> ws_Meta := InsertLastSuccessfullyAppliedSpec (sy_MarshalSpec env) (ws_Spec wan) (ws_Meta wan) \<rparr>
        in catchA (invokeA (sy_call env) (UpdateSync wan')) (failSync env wan') (\<lambda>_. returnA (ResultZero, None)))))"

definition WanSyncReconciler_Reconcile :: "sync_env \<Rightarrow> NamespacedName \<Rightarrow> sync_result" where
  "WanSyncReconciler_Reconcile env req =
     catchA (observeA (\<lambda>t. sy_Get env t req))
       (\<lambda>e. if ErrIsNotFound e then returnA (ResultZero, None)
            else failSync env WanSyncZero (wrapErr ''could not get WanSync: '' e)) (\<lambda>wan.
     let m = ws_Meta wan
     in if \<not> ContainsFinalizer m Finalizer \<and> om_DeletionTimestamp m = None
        then catchA (invokeA (sy_call env) (UpdateSync (wan\<lparr> ws_Meta := AddFinalizer m Finalizer \<rparr>)))
          (\<lambda>e. returnA (ResultZero, Some e)) (\<lambda>_. returnA (ResultZero, None))
        else if om_DeletionTimestamp m \<noteq> None
        then catchA (sync_executeFinalizer env wan) (failSync env (wan\<lparr> ws_Meta := RemoveFinalizer m Finalizer \<rparr>)) (\<lambda>_. returnA (ResultZero, None))
        else catchA (validA (sy_ErrText env) (ValidateWanSyncSpec env wan)) (failSync env wan) (\<lambda>_.
          catchA (getWanReplication env wan) (failSync env wan) (\<lambda>wr.
          if wst_Status (w_Status wr) \<noteq> WanStatusSuccess then updateWanSyncStatus env wan wanSyncPendingStatus
          else catchA (groupedMaps env wr) (\<lambda>e. failSync env wan (wrapErr ''could not get WanSync maps: '' e)) (\<lambda>maps.
            syncMaps env wan wr maps))))"

end
