(* ===== verification/Sync_Safety.thy ===== *)
theory Sync_Safety
  imports Wan_Sync Traced Samples
begin

text \<open>
  What the WAN synchronisation guarantees: the wait for a member is bounded by the progress the
  member reports, a map is reported as completed only when all members said so, and the status of
  the whole is completed exactly when that of all maps is. And what goes wrong when two resources
  synchronise at the same time.
\<close>

subsection \<open>The wait for a member\<close>

text \<open>A poll that keeps the wait going without counting: it brings events, all of them of progress.\<close>

definition progresses :: "(nat \<Rightarrow> go_error + mc_event list) \<Rightarrow> string \<Rightarrow> nat \<Rightarrow> bool" where
  "progresses poll uuid i \<longleftrightarrow> (\<exists>all. poll i = Inr all \<and> filterWanSyncEvents all uuid \<noteq> [] \<and>
     (\<forall>e \<in> set (filterWanSyncEvents all uuid). MCEventType_IsInProgress (mce_Type e)))"

definition progressFrom :: "(nat \<Rightarrow> go_error + mc_event list) \<Rightarrow> string \<Rightarrow> nat \<Rightarrow> nat" where
  "progressFrom poll uuid i = card {j. i \<le> j \<and> progresses poll uuid j}"

lemma progressFrom_Suc:
  assumes "finite {j. progresses poll uuid j}"
  shows "progressFrom poll uuid i = (if progresses poll uuid i then 1 else 0) + progressFrom poll uuid (Suc i)"
proof -
  have split: "{j. i \<le> j \<and> progresses poll uuid j} =
      (if progresses poll uuid i then {i} else {}) \<union> {j. Suc i \<le> j \<and> progresses poll uuid j}"
    by (auto simp: Suc_le_eq le_less)
  have "finite {j. Suc i \<le> j \<and> progresses poll uuid j}" using assms by (rule rev_finite_subset) auto
  then show ?thesis unfolding progressFrom_def split by (auto simp: card_insert_if)
qed

lemma wait_ends:
  assumes "finite {j. progresses poll uuid j}" and "errs \<le> 3" and "none \<le> 24"
    and "bound = 100 * progressFrom poll uuid i + (100 - 4 * none) - errs"
  shows "\<exists>r n. waitMemberFinishEvent poll uuid i errs none = Some (r, n) \<and> n \<le> i + bound"
  using assms(2-)
proof (induction bound arbitrary: i errs none rule: less_induct)
  case (less bound)
  note step = progressFrom_Suc [OF assms(1), of i]
  have onwards: "\<exists>r n. waitMemberFinishEvent poll uuid (i + 1) errs' none' = Some (r, n) \<and> n \<le> i + bound"
    if "errs' \<le> 3" "none' \<le> 24" "100 * progressFrom poll uuid (Suc i) + (100 - 4 * none') - errs' < bound" for errs' none'
  proof -
    from less.IH [OF that(3,1,2)] obtain r n where "waitMemberFinishEvent poll uuid (Suc i) errs' none' = Some (r, n)"
      "n \<le> Suc i + (100 * progressFrom poll uuid (Suc i) + (100 - 4 * none') - errs')" by blast
    with that(3) show ?thesis by auto
  qed
  have pos: "i + 1 \<le> i + bound" using less.prems by simp
  show ?case
  proof (cases "poll i")
    case (Inl e)
    then have "\<not> progresses poll uuid i" by (simp add: progresses_def)
    with step less.prems have "errs + 1 \<le> 3 \<Longrightarrow> 100 * progressFrom poll uuid (Suc i) + (100 - 4 * none) - (errs + 1) < bound" by simp
    with onwards [of "errs + 1" none] less.prems Inl pos show ?thesis
      by (subst waitMemberFinishEvent.simps) auto
  next
    case (Inr all)
    let ?evs = "filterWanSyncEvents all uuid"
    consider (empty) "?evs = []" | (finished) e where "?evs \<noteq> []" "find (\<lambda>e. \<not> MCEventType_IsInProgress (mce_Type e)) ?evs = Some e"
      | (going) "?evs \<noteq> []" "find (\<lambda>e. \<not> MCEventType_IsInProgress (mce_Type e)) ?evs = None" by (metis option.exhaust)
    then show ?thesis
    proof cases
      case empty
      with Inr have "\<not> progresses poll uuid i" by (simp add: progresses_def)
      with step less.prems have "none + 1 \<le> 24 \<Longrightarrow> 100 * progressFrom poll uuid (Suc i) + (100 - 4 * (none + 1)) - 0 < bound" by simp
      with onwards [of 0 "none + 1"] empty Inr pos show ?thesis
        by (subst waitMemberFinishEvent.simps) auto
    next
      case finished
      with Inr pos show ?thesis by (subst waitMemberFinishEvent.simps) (simp add: Let_def)
    next
      case going
      with Inr have "progresses poll uuid i" by (auto simp: progresses_def find_None_iff)
      with step less.prems have "100 * progressFrom poll uuid (Suc i) + (100 - 4 * 0) - 0 < bound" by simp
      with onwards [of 0 0] going Inr show ?thesis
        by (subst waitMemberFinishEvent.simps) (simp add: Let_def)
    qed
  qed
qed

text \<open>What decides a wait, read off the answers alone: after \<open>n\<close> polls the last answer ends it with \<open>r\<close> when it
  holds an event that is not of progress, when it is the last of four errors in a row, or when it is
  empty and at least twenty-five answers since the last one of progress were.\<close>

definition failedAt :: "(nat \<Rightarrow> go_error + mc_event list) \<Rightarrow> nat \<Rightarrow> bool" where
  "failedAt poll i \<longleftrightarrow> (\<exists>e. poll i = Inl e)"

definition emptyAt :: "(nat \<Rightarrow> go_error + mc_event list) \<Rightarrow> string \<Rightarrow> nat \<Rightarrow> bool" where
  "emptyAt poll uuid i \<longleftrightarrow> (\<exists>all. poll i = Inr all \<and> filterWanSyncEvents all uuid = [])"

definition firstFinish :: "mc_event list \<Rightarrow> string \<Rightarrow> mc_event option" where
  "firstFinish all uuid = find (\<lambda>e. \<not> MCEventType_IsInProgress (mce_Type e)) (filterWanSyncEvents all uuid)"

inductive decided :: "(nat \<Rightarrow> go_error + mc_event list) \<Rightarrow> string \<Rightarrow> nat \<Rightarrow> go_error + mc_event \<Rightarrow> bool" for poll uuid where
  finished: "poll i = Inr all \<Longrightarrow> firstFinish all uuid = Some ev \<Longrightarrow> decided poll uuid (Suc i) (Inr ev)"
| failed: "poll i = Inl e \<Longrightarrow> 3 \<le> i \<Longrightarrow> \<forall>j \<in> {i - 3..i}. failedAt poll j \<Longrightarrow> decided poll uuid (Suc i) (Inl e)"
| quiet: "emptyAt poll uuid i \<Longrightarrow> k \<le> i \<Longrightarrow> \<forall>j \<in> {k..i}. \<not> progresses poll uuid j \<Longrightarrow> 25 \<le> card {j \<in> {k..i}. emptyAt poll uuid j} \<Longrightarrow>
    decided poll uuid (Suc i) (Inl (ErrOther (''could not find MC events for UUID '' @ uuid)))"

inductive_cases decided_cases: "decided poll uuid n r"

text \<open>The counters of the loop, before the \<open>n\<close>-th poll.\<close>

primrec errorsBefore :: "(nat \<Rightarrow> go_error + mc_event list) \<Rightarrow> nat \<Rightarrow> nat" where
  "errorsBefore poll 0 = 0"
| "errorsBefore poll (Suc n) = (if failedAt poll n then errorsBefore poll n + 1 else 0)"

primrec emptiesBefore :: "(nat \<Rightarrow> go_error + mc_event list) \<Rightarrow> string \<Rightarrow> nat \<Rightarrow> nat" where
  "emptiesBefore poll uuid 0 = 0"
| "emptiesBefore poll uuid (Suc n) =
     (if progresses poll uuid n then 0 else emptiesBefore poll uuid n + (if emptyAt poll uuid n then 1 else 0))"

lemma errorsBefore_run: "c \<le> errorsBefore poll n \<longleftrightarrow> c \<le> n \<and> (\<forall>j \<in> {n - c..<n}. failedAt poll j)"
proof (induction n arbitrary: c)
  case (Suc n)
  show ?case
  proof (cases c)
    case (Suc d)
    have "{n - d..<Suc n} = insert n {n - d..<n}" by auto
    with Suc Suc.IH [of d] show ?thesis by auto
  qed simp
qed simp

definition emptiesIn :: "(nat \<Rightarrow> go_error + mc_event list) \<Rightarrow> string \<Rightarrow> nat \<Rightarrow> nat \<Rightarrow> nat" where
  "emptiesIn poll uuid k n = card {j \<in> {k..<n}. emptyAt poll uuid j}"

definition noProgressIn :: "(nat \<Rightarrow> go_error + mc_event list) \<Rightarrow> string \<Rightarrow> nat \<Rightarrow> nat \<Rightarrow> bool" where
  "noProgressIn poll uuid k n \<longleftrightarrow> (\<forall>j \<in> {k..<n}. \<not> progresses poll uuid j)"

lemma emptiesIn_Suc: "k \<le> n \<Longrightarrow> emptiesIn poll uuid k (Suc n) = emptiesIn poll uuid k n + (if emptyAt poll uuid n then 1 else 0)"
proof -
  assume "k \<le> n"
  then have "{j \<in> {k..<Suc n}. emptyAt poll uuid j} = (if emptyAt poll uuid n then insert n else id) {j \<in> {k..<n}. emptyAt poll uuid j}"
    by (auto simp: less_Suc_eq)
  then show ?thesis by (simp add: emptiesIn_def)
qed

lemma noProgressIn_Suc: "k \<le> n \<Longrightarrow> noProgressIn poll uuid k (Suc n) \<longleftrightarrow> \<not> progresses poll uuid n \<and> noProgressIn poll uuid k n"
  by (auto simp: noProgressIn_def less_Suc_eq)

lemma window_empty [simp]: "emptiesIn poll uuid n n = 0" "noProgressIn poll uuid n n"
  by (simp_all add: emptiesIn_def noProgressIn_def)

lemma emptiesBefore_run: "c \<le> emptiesBefore poll uuid n \<longleftrightarrow> (\<exists>k \<le> n. noProgressIn poll uuid k n \<and> c \<le> emptiesIn poll uuid k n)"
proof (induction n arbitrary: c)
  case (Suc n)
  have "(\<exists>k \<le> Suc n. noProgressIn poll uuid k (Suc n) \<and> c \<le> emptiesIn poll uuid k (Suc n)) \<longleftrightarrow>
      c = 0 \<or> \<not> progresses poll uuid n \<and>
        (\<exists>k \<le> n. noProgressIn poll uuid k n \<and> c - (if emptyAt poll uuid n then 1 else 0) \<le> emptiesIn poll uuid k n)"
    by (auto simp: le_Suc_eq conj_disj_distribR ex_disj_distrib emptiesIn_Suc noProgressIn_Suc le_diff_conv cong: conj_cong)
  also have "\<dots> \<longleftrightarrow> c = 0 \<or> \<not> progresses poll uuid n \<and> c - (if emptyAt poll uuid n then 1 else 0) \<le> emptiesBefore poll uuid n"
    unfolding Suc.IH by blast
  also have "\<dots> \<longleftrightarrow> c \<le> emptiesBefore poll uuid (Suc n)" by (auto simp: le_diff_conv)
  finally show ?case by blast
qed auto

lemma decided_Suc:
  "decided poll uuid (Suc i) r \<longleftrightarrow> (case poll i of
     Inl e \<Rightarrow> 3 \<le> errorsBefore poll i \<and> r = Inl e
   | Inr all \<Rightarrow> if filterWanSyncEvents all uuid = []
       then 24 \<le> emptiesBefore poll uuid i \<and> r = Inl (ErrOther (''could not find MC events for UUID '' @ uuid))
       else \<exists>ev. firstFinish all uuid = Some ev \<and> r = Inr ev)"
proof (cases "poll i")
  case (Inl e)
  then have now: "failedAt poll i" "\<not> emptyAt poll uuid i" by (simp_all add: failedAt_def emptyAt_def)
  have "3 \<le> errorsBefore poll i \<longleftrightarrow> 3 \<le> i \<and> (\<forall>j \<in> {i - 3..i}. failedAt poll j)"
    unfolding errorsBefore_run using now(1) by (auto simp: le_less)
  with Inl now show ?thesis by (auto intro: decided.failed elim!: decided_cases)
next
  case (Inr all)
  then have now: "\<not> failedAt poll i" by (simp add: failedAt_def)
  show ?thesis
  proof (cases "filterWanSyncEvents all uuid = []")
    case True
    with Inr have empty: "emptyAt poll uuid i" "\<not> progresses poll uuid i" "firstFinish all uuid = None"
      by (simp_all add: emptyAt_def progresses_def firstFinish_def)
    have "24 \<le> emptiesBefore poll uuid i \<longleftrightarrow> 25 \<le> emptiesBefore poll uuid (Suc i)" using empty by simp
    also have "\<dots> \<longleftrightarrow> (\<exists>k \<le> i. (\<forall>j \<in> {k..i}. \<not> progresses poll uuid j) \<and> 25 \<le> card {j \<in> {k..i}. emptyAt poll uuid j})"
      unfolding emptiesBefore_run le_Suc_eq
      by (auto simp: conj_disj_distribR ex_disj_distrib) (auto simp: noProgressIn_def emptiesIn_def atLeastLessThanSuc_atLeastAtMost)
    finally have count: "24 \<le> emptiesBefore poll uuid i \<longleftrightarrow>
      (\<exists>k \<le> i. (\<forall>j \<in> {k..i}. \<not> progresses poll uuid j) \<and> 25 \<le> card {j \<in> {k..i}. emptyAt poll uuid j})" .
    have "decided poll uuid (Suc i) r \<longleftrightarrow> 24 \<le> emptiesBefore poll uuid i \<and> r = Inl (ErrOther (''could not find MC events for UUID '' @ uuid))"
      unfolding count
    proof
      assume "decided poll uuid (Suc i) r"
      then show "(\<exists>k \<le> i. (\<forall>j \<in> {k..i}. \<not> progresses poll uuid j) \<and> 25 \<le> card {j \<in> {k..i}. emptyAt poll uuid j}) \<and>
          r = Inl (ErrOther (''could not find MC events for UUID '' @ uuid))"
      proof (cases rule: decided.cases)
        case (quiet k)
        then show ?thesis by auto
      qed (use Inr empty(3) in simp_all)
    qed (use decided.quiet [OF empty(1)] in blast)
    then show ?thesis using Inr True by simp
  next
    case False
    with Inr have "\<not> emptyAt poll uuid i" by (simp add: emptyAt_def)
    with Inr False show ?thesis by (auto intro: decided.finished elim!: decided_cases)
  qed
qed

lemma decided_0: "\<not> decided poll uuid 0 r"
  by (auto elim: decided_cases)

definition firstDecided :: "(nat \<Rightarrow> go_error + mc_event list) \<Rightarrow> string \<Rightarrow> (go_error + mc_event) \<times> nat \<Rightarrow> bool" where
  "firstDecided poll uuid y \<longleftrightarrow> decided poll uuid (snd y) (fst y) \<and> (\<forall>m < snd y. \<forall>r. \<not> decided poll uuid m r)"

lemma wait_decides:
  "waitMemberFinishEvent poll uuid i errs none = Some y \<Longrightarrow>
     errs = errorsBefore poll i \<longrightarrow> none = emptiesBefore poll uuid i \<longrightarrow> (\<forall>m \<le> i. \<forall>r. \<not> decided poll uuid m r) \<longrightarrow> firstDecided poll uuid y"
proof (erule waitMemberFinishEvent.raw_induct [where P = "\<lambda>poll uuid i errs none y. errs = errorsBefore poll i \<longrightarrow>
    none = emptiesBefore poll uuid i \<longrightarrow> (\<forall>m \<le> i. \<forall>r. \<not> decided poll uuid m r) \<longrightarrow> firstDecided poll uuid y", rotated], goal_cases)
  case (1 f poll uuid i errs none y)
  note go = 1(2) and onwards = 1(1)
  show ?case
  proof (intro impI)
    assume at: "errs = errorsBefore poll i" "none = emptiesBefore poll uuid i" and before: "\<forall>m \<le> i. \<forall>r. \<not> decided poll uuid m r"
    have ends: "firstDecided poll uuid (r, Suc i)" if "decided poll uuid (Suc i) r" for r
      using that before by (simp add: firstDecided_def less_Suc_eq_le)
    have goes: "firstDecided poll uuid y" if "f poll uuid (i + 1) e n = Some y" "e = errorsBefore poll (Suc i)" "n = emptiesBefore poll uuid (Suc i)"
        "\<And>r. \<not> decided poll uuid (Suc i) r" for e n
      using onwards [OF that(1)] that(2-) before by (auto simp: le_Suc_eq)
    show "firstDecided poll uuid y"
    proof (cases "poll i")
      case (Inl e)
      then have now: "failedAt poll i" "\<not> emptyAt poll uuid i" "\<not> progresses poll uuid i"
        by (simp_all add: failedAt_def emptyAt_def progresses_def)
      from go Inl at show ?thesis
        by (cases "3 \<le> errorsBefore poll i") (auto simp: now decided_Suc intro: ends goes)
    next
      case (Inr all)
      then have now: "\<not> failedAt poll i" "emptyAt poll uuid i \<longleftrightarrow> filterWanSyncEvents all uuid = []"
          "progresses poll uuid i \<longleftrightarrow> filterWanSyncEvents all uuid \<noteq> [] \<and> firstFinish all uuid = None"
        by (auto simp: failedAt_def emptyAt_def progresses_def firstFinish_def find_None_iff)
      consider (empty) "filterWanSyncEvents all uuid = []" | (finish) ev where "filterWanSyncEvents all uuid \<noteq> []" "firstFinish all uuid = Some ev"
        | (going) "filterWanSyncEvents all uuid \<noteq> []" "firstFinish all uuid = None" by (metis option.exhaust)
      then show ?thesis
      proof cases
        case empty
        with go Inr at show ?thesis
          by (cases "24 \<le> emptiesBefore poll uuid i") (auto simp: now decided_Suc intro: ends goes)
      next
        case finish
        with go Inr have "y = (Inr ev, Suc i)" by (simp add: Let_def firstFinish_def)
        with finish Inr show ?thesis by (auto simp: decided_Suc intro: ends)
      next
        case going
        with go Inr have "f poll uuid (i + 1) 0 0 = Some y" by (simp add: Let_def firstFinish_def)
        with going Inr show ?thesis by (intro goes) (auto simp: now decided_Suc)
      qed
    qed
  qed
qed

text \<open>C36: the wait for a member ends, whatever the member answers, as long as it reports progress finitely
  often: after at most a hundred polls, and a hundred more for every poll of progress. It ends at
  the first poll that decides it, and with what this poll says: the first event under the id that is not
  of progress; the error, when it is the fourth in a row; that no events were found, when it is
  the twenty-fifth empty answer since the last one of progress (errors in between do not count).\<close>

theorem sync_wait_bounded:
  assumes "finite {i. progresses poll uuid i}"
  shows "\<exists>r n. waitMemberFinishEvent poll uuid 0 0 0 = Some (r, n) \<and> n \<le> 100 * (card {i. progresses poll uuid i} + 1) \<and>
    decided poll uuid n r \<and> (\<forall>m < n. \<forall>r'. \<not> decided poll uuid m r')"
proof -
  from wait_ends [OF assms, of 0 0 _ 0] obtain r n where ended: "waitMemberFinishEvent poll uuid 0 0 0 = Some (r, n)"
      "n \<le> 100 * (card {i. progresses poll uuid i} + 1)"
    by (auto simp: progressFrom_def add.commute)
  with wait_decides [OF ended(1)] show ?thesis by (auto simp: decided_0 firstDecided_def)
qed

subsection \<open>The verdict of the members\<close>

definition saidFinished :: "(nat \<Rightarrow> go_error + mc_event list) \<Rightarrow> string \<Rightarrow> (go_error + mc_event) \<times> nat \<Rightarrow> bool" where
  "saidFinished poll uuid y \<longleftrightarrow> (\<forall>ev. fst y = Inr ev \<longrightarrow> (\<exists>j all. poll j = Inr all \<and> ev \<in> set (filterWanSyncEvents all uuid) \<and>
     \<not> MCEventType_IsInProgress (mce_Type ev)))"

lemma wait_result: "waitMemberFinishEvent poll uuid i errs none = Some y \<Longrightarrow> saidFinished poll uuid y"
proof (erule waitMemberFinishEvent.raw_induct [where P = "\<lambda>poll uuid i errs none y. saidFinished poll uuid y", rotated], goal_cases)
  case (1 f poll uuid i errs none y)
  show ?case
  proof (cases "poll i")
    case (Inl e)
    with 1(2) show ?thesis by (auto simp: saidFinished_def split: if_splits dest: 1(1))
  next
    case (Inr all)
    show ?thesis
    proof (cases "find (\<lambda>e. \<not> MCEventType_IsInProgress (mce_Type e)) (filterWanSyncEvents all uuid)")
      case None
      with Inr 1(2) show ?thesis by (auto simp: Let_def saidFinished_def [of _ _ "(Inl _, _)"] split: if_splits dest: 1(1))
    next
      case (Some e)
      then have "e \<in> set (filterWanSyncEvents all uuid)" "\<not> MCEventType_IsInProgress (mce_Type e)" by (auto simp: find_Some_iff)
      with Some Inr 1(2) show ?thesis by (fastforce simp: Let_def saidFinished_def split: if_splits)
    qed
  qed
qed

text \<open>What a member said during a wait for \<open>uuid\<close> that began after the calls \<open>tr\<close>.\<close>

definition reported :: "sync_env \<Rightarrow> NamespacedName \<Rightarrow> string \<Rightarrow> sync_call trace \<Rightarrow> member_id \<Rightarrow> mc_event \<Rightarrow> bool" where
  "reported env hz uuid tr m e \<longleftrightarrow> (\<exists>n i all. sy_Poll env (n, tr) hz m i = Inr all \<and> e \<in> set all \<and> IsWanSync (mce_Type e) \<and> MCEvent_UUID e = uuid)"

definition finishedOn :: "sync_env \<Rightarrow> NamespacedName \<Rightarrow> string \<Rightarrow> sync_call trace \<Rightarrow> member_id \<Rightarrow> bool" where
  "finishedOn env hz uuid tr m \<longleftrightarrow> (\<exists>e. reported env hz uuid tr m e \<and>
     (mce_Type e = WanSyncFinishedFull \<or> mce_Type e = WanSyncFinishedMerkle))"

text \<open>An event that ends a wait is one of three.\<close>

lemma ends_wait: "IsWanSync t \<Longrightarrow> \<not> MCEventType_IsInProgress t \<Longrightarrow> \<not> MCEventType_IsError t \<Longrightarrow>
    t = WanSyncFinishedFull \<or> t = WanSyncFinishedMerkle"
  by (auto simp: IsWanSync_def MCEventType_IsInProgress_def MCEventType_IsError_def)

lemma ignored_is_error: "MCEventType_IsError (mce_Type (ignoredEvent e m))"
  by (simp add: ignoredEvent_def MCEvent_WithMapName_def MCEvent_WithReason_def setProperty_def MCEventType_IsError_def)

lemma collected:
  assumes "collectEvents env hz uuid mapName ms w = (Inr evs, w')"
  shows "(\<forall>e \<in> set evs. (\<exists>x. e = ignoredEvent x mapName) \<or> (\<exists>m \<in> set ms. reported env hz uuid (cw_trace w) m e)) \<and>
    ((\<forall>e \<in> set evs. \<not> MCEventType_IsError (mce_Type e)) \<longrightarrow> (\<forall>m \<in> set ms. finishedOn env hz uuid (cw_trace w) m))"
  using assms
proof (induction ms arbitrary: w evs)
  case (Cons a ms)
  from Cons.prems obtain ev n evs' where one: "waitMemberFinishEvent (sy_Poll env (moment w) hz a) uuid 0 0 0 = Some (ev, n)"
    and rest: "collectEvents env hz uuid mapName ms (w\<lparr> cw_reads := Suc (cw_reads w) \<rparr>) = (Inr evs', w')"
    and evs: "evs = (case ev of Inl e \<Rightarrow> ignoredEvent e mapName | Inr e \<Rightarrow> e) # evs'"
    by (auto simp: bindA_Inr_iff action_simps split: option.splits)
  have heard: "reported env hz uuid (cw_trace w) a e \<and> \<not> MCEventType_IsInProgress (mce_Type e)" if "ev = Inr e" for e
    using wait_result [OF one] that unfolding saidFinished_def reported_def filterWanSyncEvents_def moment_def by fastforce
  have "finishedOn env hz uuid (cw_trace w) a" if none: "\<forall>e \<in> set evs. \<not> MCEventType_IsError (mce_Type e)"
  proof -
    from evs none ignored_is_error obtain e where e: "ev = Inr e" "\<not> MCEventType_IsError (mce_Type e)" by (cases ev) auto
    from heard [OF e(1)] have "IsWanSync (mce_Type e)" by (auto simp: reported_def)
    with heard [OF e(1)] e(2) ends_wait [of "mce_Type e"] show ?thesis unfolding finishedOn_def by blast
  qed
  with Cons.IH [OF rest] evs heard show ?case by (auto split: sum.split)
qed (simp add: action_simps)

lemma finish_done:
  assumes "MCEventType_IsDone (mce_Type (finishEvent evs))"
  shows "\<forall>e \<in> set evs. \<not> MCEventType_IsError (mce_Type e)"
proof (cases "find (\<lambda>e. MCEventType_IsError (mce_Type e)) evs")
  case None
  then show ?thesis by (auto simp: find_None_iff)
next
  case (Some e)
  then have "MCEventType_IsError (mce_Type e)" by (auto simp: find_Some_iff)
  with assms Some show ?thesis
    by (auto simp: finishEvent_def MCEventType_IsDone_def MCEventType_IsError_def WanSyncIgnored_def AddWanConfigurationIgnored_def
        WanConsistencyCheckIgnored_def WanConsistencyCheckFinished_def WanSyncFinishedFull_def WanSyncFinishedMerkle_def
        WanConfigurationAdded_def WanConfigurationExtended_def)
qed

lemma finish_from: "finishEvent evs \<in> insert MCEventZero (set evs)"
proof (cases "find (\<lambda>e. MCEventType_IsError (mce_Type e)) evs")
  case (Some e)
  then have "e \<in> set evs" by (auto simp: find_Some_iff)
  with Some show ?thesis by (simp add: finishEvent_def)
qed (simp add: finishEvent_def)

text \<open>The id a request was given: what the cluster answered to it, directly after it took it.\<close>

definition answeredWith :: "sync_env \<Rightarrow> WanSyncMapRequest \<Rightarrow> sync_call trace \<Rightarrow> string \<Rightarrow> bool" where
  "answeredWith env r tr uuid \<longleftrightarrow> (\<exists>earlier n. tr = earlier @ [(SyncMap (wq_hzResource r) (syncRef r), True)] \<and> uuid = sy_SyncUUID env (n, tr))"

definition syncedOn :: "sync_env \<Rightarrow> WanSyncMapRequest \<Rightarrow> sync_call trace \<Rightarrow> bool" where
  "syncedOn env r tr \<longleftrightarrow> (\<exists>sent later uuid n. tr = sent @ later \<and> answeredWith env r sent uuid \<and>
     (\<forall>m \<in> set (sy_OrderedMembers env (n, sent) (wq_hzResource r)). finishedOn env (wq_hzResource r) uuid sent m))"

text \<open>The events that the members report under the id of a request name the map that was requested.\<close>

definition eventsNameMap :: "sync_env \<Rightarrow> bool" where
  "eventsNameMap env \<longleftrightarrow> (\<forall>r tr uuid m e. answeredWith env r tr uuid \<longrightarrow> reported env (wq_hzResource r) uuid tr m e \<longrightarrow>
     MCEvent_MapName e = wq_mapName r)"

lemma ignored_map [simp]: "MCEvent_MapName (ignoredEvent e m) = m" "MCEvent_MapName (startedEvent m) = m"
  by (simp_all add: ignoredEvent_def startedEvent_def MCEvent_WithMapName_def MCEvent_WithReason_def setProperty_def MCEvent_MapName_def
      stringProperty_def MCEventZero_def)

lemma zero_event: "\<not> IsWanSync (mce_Type MCEventZero)"
  by (simp add: MCEventZero_def IsWanSync_def WanSyncIgnored_def WanSyncFinishedFull_def WanSyncStarted_def WanSyncFinishedMerkle_def
      WanSyncProgressUpdate_def)

lemma wait_outcome:
  assumes "waitWanSyncToFinish env (wq_hzResource r) uuid (wq_mapName r) w = (Inr ev, w')" and "answeredWith env r (cw_trace w) uuid"
    and "\<forall>t ms. set (sy_arrival env t ms) = set ms" and "eventsNameMap env"
  shows "(IsWanSync (mce_Type ev) \<longrightarrow> MCEvent_MapName ev = wq_mapName r) \<and> (MCEventType_IsDone (mce_Type ev) \<longrightarrow> syncedOn env r (cw_trace w))"
proof -
  let ?hz = "wq_hzResource r"
  let ?ms = "sy_OrderedMembers env (moment w) ?hz"
  from assms(1) obtain evs where got: "collectEvents env ?hz uuid (wq_mapName r) (sy_arrival env (moment w) ?ms)
      (w\<lparr> cw_reads := Suc (cw_reads w) \<rparr>) = (Inr evs, w')" and ev: "ev = finishEvent evs"
    by (auto simp: waitWanSyncToFinish_def bindA_Inr_iff action_simps)
  note said = collected [OF got]
  have named: "MCEvent_MapName e = wq_mapName r" if "e \<in> set evs" for e
    using said that assms(2,4) unfolding eventsNameMap_def by fastforce
  have "syncedOn env r (cw_trace w)" if "MCEventType_IsDone (mce_Type ev)"
  proof -
    from said finish_done [of evs] that ev assms(3) have "\<forall>m \<in> set ?ms. finishedOn env ?hz uuid (cw_trace w) m" by auto
    with assms(2) show ?thesis unfolding syncedOn_def moment_def
      by (intro exI [of _ "cw_trace w"] exI [of _ "[]"] exI [of _ uuid] exI [of _ "cw_reads w"]) simp
  qed
  moreover have "MCEvent_MapName ev = wq_mapName r" if "IsWanSync (mce_Type ev)"
    using finish_from [of evs] that named zero_event unfolding ev by auto
  ultimately show ?thesis by blast
qed

text \<open>A status the callback writes: the resource as it was read, with the entry of the map of the request.\<close>

definition writtenFor :: "sync_env \<Rightarrow> NamespacedName \<Rightarrow> WanSyncMapRequest \<Rightarrow> sync_call trace \<Rightarrow> sync_call \<Rightarrow> bool" where
  "writtenFor env ws r tr c \<longleftrightarrow> (\<forall>s. c = StatusUpdateSync s \<longrightarrow>
     (\<exists>t visit s0 ms. sy_Get env t ws = Inr s0 \<and>
        s = s0\<lparr> ws_Status := withMapStatus visit (wanMapKey (nn_Name (wq_hzResource r)) (wq_mapName r)) ms (ws_Status s0) \<rparr> \<and>
        (sms_phase ms = WanSyncCompleted \<longrightarrow> syncedOn env r tr)))"

lemma completes_iff: "sms_phase (eventStatus ev) = WanSyncCompleted \<longleftrightarrow> MCEventType_IsDone (mce_Type ev)"
  by (simp add: eventStatus_def phaseOnly_def)

lemma syncedOn_grows [intro]: "syncedOn env r tr \<Longrightarrow> syncedOn env r (tr @ evs)"
  unfolding syncedOn_def by (metis append.assoc)

lemma update_written:
  assumes "MCEventType_IsDone (mce_Type ev) \<Longrightarrow> syncedOn env r (cw_trace w)"
    and "IsWanSync (mce_Type ev) \<Longrightarrow> MCEvent_MapName ev = wq_mapName r"
  shows "traced (writtenFor env ws r) (stateEventUpdate env ws (responseTo r ev)) w"
proof (cases "IsWanSync (mce_Type ev)")
  case True
  let ?I = "\<lambda>v. MCEventType_IsDone (mce_Type ev) \<longrightarrow> syncedOn env r (cw_trace v)"
  let ?key = "wanMapKey (nn_Name (wq_hzResource r)) (wq_mapName r)"
  let ?fn = "bindA (observeA (\<lambda>t. sy_Get env t ws)) (\<lambda>wan.
      bindA (observeA (\<lambda>t. Inr (withMapStatus (sy_rangeStatus env t) ?key (eventStatus ev) (ws_Status wan)))) (\<lambda>st.
      invokeA (sy_call env) (StatusUpdateSync (wan\<lparr> ws_Status := st \<rparr>))))"
  have once: "traced (writtenFor env ws r) ?fn v" if "?I v" for v
  proof (intro traced_bindA traced_invokeA traced_basic)
    fix s0 v1 st v2
    assume "observeA (\<lambda>t. sy_Get env t ws) v = (Inr s0, v1)"
      "observeA (\<lambda>t. Inr (withMapStatus (sy_rangeStatus env t) ?key (eventStatus ev) (ws_Status s0))) v1 = (Inr st, v2)"
    then have "sy_Get env (moment v) ws = Inr s0" "cw_trace v2 = cw_trace v"
        "st = withMapStatus (sy_rangeStatus env (moment v1)) ?key (eventStatus ev) (ws_Status s0)"
      by auto
    with that show "writtenFor env ws r (cw_trace v2) (StatusUpdateSync (s0\<lparr> ws_Status := st \<rparr>))"
      unfolding writtenFor_def
      by (auto simp del: split_paired_Ex simp: completes_iff
          intro!: exI [of _ "moment v"] exI [of _ "sy_rangeStatus env (moment v1)"] exI [of _ s0] exI [of _ "eventStatus ev"])
  qed
  have keeps: "?I v'" if "?I v" "?fn v = (x, v')" for v x v'
  proof -
    have "only_calls (\<lambda>_. True) ?fn" by (intro kept) simp_all
    from only_calls_grows [OF this, of v] that show ?thesis by auto
  qed
  show ?thesis unfolding stateEventUpdate_def updateWanSyncMapStatus_def responseTo_def WanSyncMapResponse.simps assms(2) [OF True]
    by (intro traced_if traced_catchA traced_basic traced_RetryOnConflict [where I = ?I] once) (use assms(1) keeps in blast)+
qed (simp add: stateEventUpdate_def responseTo_def traced_basic)

lemma OnError_done: "OnError n (invokeA ans c) w = (Inr (), w') \<Longrightarrow> \<exists>earlier. cw_trace w' = earlier @ [(c, True)]"
proof (induction n arbitrary: w)
  case 0
  then show ?case by (auto simp: invokeA_def split: option.splits)
next
  case (Suc n)
  from Suc.prems have "catchA (invokeA ans c) (\<lambda>_. OnError n (invokeA ans c)) returnA w = (Inr (), w')" by simp
  then show ?case
    by (cases rule: catchA_cases) (auto simp: action_simps invokeA_def split: option.splits dest: Suc.IH)
qed

lemma OnError_calls [kept]: "only_calls Q fn \<Longrightarrow> only_calls Q (OnError n fn)"
  by (induction n) (auto intro!: kept)

lemma collect_calls [kept]: "only_calls Q (collectEvents env hz uuid mapName ms)"
proof (induction ms)
  case (Cons m ms)
  then show ?case unfolding collectEvents.simps by (intro kept) (auto intro!: kept split: option.split)
qed (auto intro!: kept)

lemma wait_calls [kept]: "only_calls Q (waitWanSyncToFinish env hz uuid mapName)"
  unfolding waitWanSyncToFinish_def by (auto intro!: kept)

lemma wanSyncMap_calls [kept]: "only_calls (\<lambda>c. c = SyncMap (wq_hzResource r) (syncRef r)) (wanSyncMap env r)"
  unfolding wanSyncMap_def by (auto intro!: kept)

lemma wanSyncMap_answer: "wanSyncMap env r w = (Inr uuid, w') \<Longrightarrow> answeredWith env r (cw_trace w') uuid"
  unfolding wanSyncMap_def answeredWith_def
  by (auto simp: bindA_Inr_iff action_simps moment_def dest!: OnError_done)

lemma request_written:
  assumes "\<forall>t ms. set (sy_arrival env t ms) = set ms" and "eventsNameMap env"
  shows "traced (writtenFor env ws r) (syncRequest env (stateEventUpdate env ws) r) w"
proof -
  have started: "\<not> MCEventType_IsDone (mce_Type (startedEvent m))" for m
    by (simp add: startedEvent_def MCEvent_WithMapName_def setProperty_def MCEventType_IsDone_def WanSyncStarted_def WanConsistencyCheckFinished_def
        WanSyncFinishedFull_def WanSyncFinishedMerkle_def WanConfigurationAdded_def WanConfigurationExtended_def)
  have ignored: "\<not> MCEventType_IsDone (mce_Type (ignoredEvent e m))" for e m
    by (simp add: ignoredEvent_def MCEvent_WithMapName_def MCEvent_WithReason_def setProperty_def MCEventType_IsDone_def WanSyncIgnored_def
        WanConsistencyCheckFinished_def WanSyncFinishedFull_def WanSyncFinishedMerkle_def WanConfigurationAdded_def WanConfigurationExtended_def)
  have quiet: "traced (writtenFor env ws r) (wanSyncMap env r) v" "traced (writtenFor env ws r) (waitWanSyncToFinish env hz uuid m) v" for v hz uuid m
    by (rule traced_only [OF wanSyncMap_calls], simp add: writtenFor_def, rule traced_only [OF wait_calls [of "\<lambda>_. False"]], simp)
  show ?thesis unfolding syncRequest_def Let_def
  proof (intro traced_bindA traced_catchA traced_basic quiet)
    fix y w1 z w2 uuid w3 ev w4
    assume sent: "wanSyncMap env r w2 = (Inr uuid, w3)" and waited: "waitWanSyncToFinish env (wq_hzResource r) uuid (wq_mapName r) w3 = (Inr ev, w4)"
    have "cw_trace w4 = cw_trace w3"
      using only_callsD [OF wait_calls waited, of "\<lambda>_. False"] by (metis append_Nil2 list.set_intros(1) list.exhaust surj_pair)
    with wait_outcome [OF waited wanSyncMap_answer [OF sent] assms]
    show "traced (writtenFor env ws r) (stateEventUpdate env ws (responseTo r ev)) w4"
      by (intro update_written) simp_all
  qed (use started ignored in \<open>auto intro!: update_written\<close>)
qed

text \<open>C37: a synchronisation writes only the status of its resource, with an entry for the map of the
  request, and the entry says completed only after the cluster took the request for that map and
  every member reported, under the id the cluster gave to this request, that it has finished.
  (Two things are assumed of the members: that all of them report, in any order, and that what
  they report under the id of a request names its map; the code takes the name from the event.)\<close>

theorem sync_completed_sound:
  assumes "syncRequest env (stateEventUpdate env ws) r w = (x, w')"
    and "cw_trace w' = cw_trace w @ pre @ (StatusUpdateSync s, b) # post"
    and "\<forall>t ms. set (sy_arrival env t ms) = set ms" and "eventsNameMap env"
  shows "\<exists>t visit s0 ms. sy_Get env t ws = Inr s0 \<and>
    s = s0\<lparr> ws_Status := withMapStatus visit (wanMapKey (nn_Name (wq_hzResource r)) (wq_mapName r)) ms (ws_Status s0) \<rparr> \<and>
    (sms_phase ms = WanSyncCompleted \<longrightarrow> syncedOn env r (cw_trace w @ pre))"
  using tracedD [OF request_written [OF assms(3,4)] assms(1,2)] unfolding writtenFor_def by blast

subsection \<open>The status of the whole\<close>

lemma foldl_completed:
  "fst (foldl (\<lambda>acc (k, ms). if wsm_Phase ms \<noteq> WanSyncCompleted then (wsm_Phase ms, wsm_Message ms) else acc) a entries) = WanSyncCompleted \<longleftrightarrow>
     (\<forall>e \<in> set entries. wsm_Phase (snd e) = WanSyncCompleted) \<and> fst a = WanSyncCompleted"
  by (induction entries arbitrary: a) (auto split: if_splits)

lemma overall_completed: "fst (overall entries) = WanSyncCompleted \<longleftrightarrow> (\<forall>e \<in> set entries. wsm_Phase (snd e) = WanSyncCompleted)"
  unfolding overall_def foldl_completed by simp

lemma update_in_set: "(k, v) \<in> set (AList.update k v l)"
  by (induction l) auto

text \<open>After the entry of a map was written, the synchronisation as a whole is completed exactly when all
  its maps are, in whatever order they are visited.\<close>

theorem sync_completed_iff:
  assumes "set (visit (AList.update key (mapEntry ms) (wss_MapsStatus st))) = set (AList.update key (mapEntry ms) (wss_MapsStatus st))"
  shows "wss_Status (withMapStatus visit key ms st) = WanSyncCompleted \<longleftrightarrow>
    (\<forall>e \<in> set (wss_MapsStatus (withMapStatus visit key ms st)). wsm_Phase (snd e) = WanSyncCompleted)"
proof (cases "sms_phase ms = WanSyncCompleted")
  case True
  then show ?thesis using assms by (simp add: withMapStatus_def Let_def case_prod_beta' overall_completed)
next
  case False
  have "wsm_Phase (mapEntry ms) = sms_phase ms" by (simp add: mapEntry_def)
  with False update_in_set [of key "mapEntry ms" "wss_MapsStatus st"] show ?thesis
    by (auto simp: withMapStatus_def Let_def intro!: bexI [of _ "(key, mapEntry ms)"])
qed

subsection \<open>Two resources at once\<close>

definition toResource :: "NamespacedName \<Rightarrow> sync_call \<Rightarrow> bool" where
  "toResource ws c \<longleftrightarrow> (\<forall>s. c = StatusUpdateSync s \<longrightarrow> syncKey s = ws)"

definition readsByName :: "sync_env \<Rightarrow> bool" where
  "readsByName env \<longleftrightarrow> (\<forall>t nn s. sy_Get env t nn = Inr s \<longrightarrow> syncKey s = nn)"

lemma callback_target:
  assumes "readsByName env"
  shows "only_calls (toResource ws) (stateEventUpdate env ws ev)"
proof -
  have "calls_at (toResource ws) (bindA (observeA (\<lambda>t. sy_Get env t ws)) (\<lambda>wan.
      bindA (observeA (\<lambda>t. Inr (withMapStatus (sy_rangeStatus env t) key ms (ws_Status wan)))) (\<lambda>st.
      invokeA (sy_call env) (StatusUpdateSync (wan\<lparr> ws_Status := st \<rparr>))))) w" for key ms w
  proof (rule calls_at_bindA)
    fix s v assume "observeA (\<lambda>t. sy_Get env t ws) w = (Inr s, v)"
    then have "syncKey s = ws" using assms unfolding readsByName_def by (simp del: split_paired_All) blast
    then show "calls_at (toResource ws) (bindA (observeA (\<lambda>t. Inr (withMapStatus (sy_rangeStatus env t) key ms (ws_Status s)))) (\<lambda>st.
        invokeA (sy_call env) (StatusUpdateSync (s\<lparr> ws_Status := st \<rparr>)))) v"
      by (simp add: calls_at_def invokeA_after toResource_def syncKey_def)
  qed (simp add: calls_at_def)
  then have "only_calls (toResource ws) (bindA (observeA (\<lambda>t. sy_Get env t ws)) (\<lambda>wan.
      bindA (observeA (\<lambda>t. Inr (withMapStatus (sy_rangeStatus env t) key ms (ws_Status wan)))) (\<lambda>st.
      invokeA (sy_call env) (StatusUpdateSync (wan\<lparr> ws_Status := st \<rparr>)))))" for key ms unfolding only_calls_def by blast
  then show ?thesis unfolding stateEventUpdate_def updateWanSyncMapStatus_def
    by (intro only_calls_if only_calls_catchA only_calls_RetryOnConflict only_calls_basic)
qed

lemma request_target:
  assumes "readsByName env"
  shows "only_calls (toResource ws) (syncRequest env (stateEventUpdate env ws) r)"
  unfolding syncRequest_def Let_def wanSyncMap_def
  by (intro kept callback_target [OF assms]) (simp_all add: toResource_def)

lemma request_state [kept]: "preserves (\<lambda>w. P (cw_state w)) (syncRequest env (stateEventUpdate env ws) r)"
proof -
  have "preserves (\<lambda>w. P (cw_state w)) (OnError n (invokeA ans c))" for n ans c
    by (induction n) (auto intro!: kept)
  moreover have "preserves (\<lambda>w. P (cw_state w)) (collectEvents env hz uuid m ms)" for hz uuid m ms
  proof (induction ms)
    case (Cons a ms)
    then show ?case unfolding collectEvents.simps by (intro kept) (auto intro!: kept split: option.split)
  qed (auto intro!: kept)
  ultimately show ?thesis
    unfolding syncRequest_def Let_def wanSyncMap_def waitWanSyncToFinish_def stateEventUpdate_def updateWanSyncMapStatus_def
    by (intro kept) auto
qed

lemma doStartSyncJob_state: "cw_state (snd (doStartSyncJob env (stateEventUpdate env ws) wsrs w)) = cw_state w"
  unfolding doStartSyncJob_def by (rule same_state) (auto intro!: kept)

lemma syncKeyGo_gone:
  assumes "syncKeyGo env ws a w = (Inr x, w')"
  shows "sv_wanSyncs (cw_state w') = (sv_wanSyncs (cw_state w))(a := None)"
proof (cases "sv_wanSyncs (cw_state w) a")
  case None
  with assms show ?thesis by (auto simp: syncKeyGo_def action_simps fun_upd_idem)
next
  case (Some wsrs)
  with assms obtain v where "snd (doStartSyncJob env (stateEventUpdate env ws) wsrs w) = v"
      "w' = v\<lparr> cw_state := (cw_state v)\<lparr> sv_wanSyncs := (sv_wanSyncs (cw_state v))(a := None) \<rparr> \<rparr>"
    by (auto simp: syncKeyGo_def bindA_Inr_iff)
  with doStartSyncJob_state [of env ws wsrs w] show ?thesis by simp
qed

lemma ranged_gone:
  "forA keys (syncKeyGo env ws) w = (Inr x, w') \<Longrightarrow> sv_wanSyncs (cw_state w') k = (if k \<in> set keys then None else sv_wanSyncs (cw_state w) k)"
  by (induction keys arbitrary: w) (auto simp: bindA_Inr_iff action_simps dest!: syncKeyGo_gone)

text \<open>C38: the goroutine that is started for one WanSync takes the waiting requests of all of them, but its
  callback writes the status of its own resource only: the requests of the others are gone, and
  their status is not written.\<close>

theorem sync_requests_misattributed:
  assumes "syncJobGo env ws w = (Inr x, w')" and "readsByName env"
    and "set (sy_rangeKeys env (moment w) (sv_wanSyncs (cw_state w))) = dom (sv_wanSyncs (cw_state w))"
  shows "(\<forall>k. sv_wanSyncs (cw_state w') k = None) \<and>
    (\<exists>evs. cw_trace w' = cw_trace w @ evs \<and> (\<forall>s b. (StatusUpdateSync s, b) \<in> set evs \<longrightarrow> syncKey s = ws))"
proof
  show "\<forall>k. sv_wanSyncs (cw_state w') k = None"
  proof
    fix k
    let ?keys = "sy_rangeKeys env (moment w) (sv_wanSyncs (cw_state w))"
    from assms(1) have "sv_wanSyncs (cw_state w') k = (if k \<in> set ?keys then None else sv_wanSyncs (cw_state w) k)"
      by (auto simp: syncJobGo_def dest!: ranged_gone [where k = k])
    with assms(3) show "sv_wanSyncs (cw_state w') k = None" by (auto simp: dom_def)
  qed
  have "only_calls (toResource ws) (syncJobGo env ws)"
    unfolding syncJobGo_def syncKeyGo_def doStartSyncJob_def by (auto intro!: kept request_target [OF assms(2)] split: option.split)
  from only_callsD [OF this assms(1)] show "\<exists>evs. cw_trace w' = cw_trace w @ evs \<and> (\<forall>s b. (StatusUpdateSync s, b) \<in> set evs \<longrightarrow> syncKey s = ws)"
    unfolding toResource_def by metis
qed

subsection \<open>Witnesses\<close>

definition sample_event :: "int32 \<Rightarrow> mc_event" where
  "sample_event t = \<lparr> mce_Timestamp = 0, mce_Type = t, mce_DataJson = [],
     mce_Data = Some [''uuid'' \<mapsto> JString ''u'', ''mapName'' \<mapsto> JString ''orders''] \<rparr>"

definition sample_poll :: "nat \<Rightarrow> go_error + mc_event list" where
  "sample_poll i = Inr (if i = 0 then [sample_event WanSyncProgressUpdate] else [sample_event WanSyncFinishedFull])"

definition sample_sync :: WanSync where
  "sample_sync = \<lparr> ws_Meta = sample_meta\<lparr> om_Name := ''sync'' \<rparr>, ws_Spec = \<lparr> wsp_WanReplicationResourceName = ''wan'' \<rparr>,
     ws_Status = \<lparr> wss_Status = WanSyncNotStarted, wss_Message = [], wss_MapsStatus = [] \<rparr> \<rparr>"

definition sample_sync_request :: WanSyncMapRequest where
  "sample_sync_request = \<lparr> wq_hzResource = \<lparr> nn_Name = ''hz'', nn_Namespace = ''default'' \<rparr>, wq_wanSync = ''other'', wq_mapName = ''orders'',
     wq_wanName = ''orders-default'', wq_publisherId = ''p'' \<rparr>"

text \<open>The id of the request that was made last.\<close>

definition sample_uuid :: "sync_call trace \<Rightarrow> string" where
  "sample_uuid tr = (case rev tr of (SyncMap hz ref, b) # _ \<Rightarrow> if wsr_MapName ref = ''orders'' then ''u'' else ''v'' | _ \<Rightarrow> ''v'')"

definition sample_sync_env :: "wan_env \<Rightarrow> sync_env" where
  "sample_sync_env we = \<lparr> sy_call = (\<lambda>t c. None),
     sy_Get = (\<lambda>t nn. Inr (sample_sync\<lparr> ws_Meta := sample_meta\<lparr> om_Name := nn_Name nn, om_Namespace := nn_Namespace nn \<rparr> \<rparr>)),
     sy_GetWan = (\<lambda>t nn. Inl (ErrNotFound [])), sy_wan = (\<lambda>t. we), sy_GetHazelcast = (\<lambda>t nn. Inr sample_hazelcast),
     sy_GetOrCreateClient = (\<lambda>t nn. Inr ()), sy_OrderedMembers = (\<lambda>t nn. [(1, 2)]), sy_SyncUUID = (\<lambda>t. sample_uuid (snd t)),
     sy_Poll = (\<lambda>t nn m. sample_poll), sy_arrival = (\<lambda>t ms. ms), sy_rangeMaps = (\<lambda>t ms. ms),
     sy_rangeKeys = (\<lambda>t m. filter (\<lambda>k. m k \<noteq> None) [\<lparr> nn_Name = ''sync'', nn_Namespace = ''default'' \<rparr>, \<lparr> nn_Name = ''other'', nn_Namespace = ''default'' \<rparr>]),
     sy_rangeStatus = (\<lambda>t es. es), sy_UnmarshalSpec = (\<lambda>s. Inr (ws_Spec sample_sync)), sy_MarshalSpec = (\<lambda>s. []), sy_ErrText = (\<lambda>e. []),
     sy_PhoneHomeEnabled = False, sy_retries = 0, sy_steps = 0 \<rparr>"

definition sync_start :: "(WanSyncService, sync_call) world" where
  "sync_start = \<lparr> cw_state = \<lparr> sv_wanSyncs = [\<lparr> nn_Name = ''other'', nn_Namespace = ''default'' \<rparr> \<mapsto> [sample_sync_request]], sv_waiting = [] \<rparr>,
     cw_reads = 0, cw_trace = [] \<rparr>"

lemmas event_types = WanSyncStarted_def WanSyncProgressUpdate_def WanSyncFinishedFull_def WanSyncFinishedMerkle_def WanSyncIgnored_def
  WanConsistencyCheckStarted_def WanConsistencyCheckFinished_def WanConsistencyCheckIgnored_def AddWanConfigurationIgnored_def
  WanConfigurationAdded_def WanConfigurationExtended_def

lemma sample_filtered:
  "filterWanSyncEvents [sample_event WanSyncProgressUpdate] ''u'' = [sample_event WanSyncProgressUpdate]"
  "filterWanSyncEvents [sample_event WanSyncFinishedFull] ''u'' = [sample_event WanSyncFinishedFull]"
  by (simp_all add: filterWanSyncEvents_def sample_event_def MCEvent_UUID_def stringProperty_def IsWanSync_def)

lemma sample_types [simp]:
  "MCEventType_IsInProgress (mce_Type (sample_event WanSyncProgressUpdate))" "\<not> MCEventType_IsInProgress (mce_Type (sample_event WanSyncFinishedFull))"
  "\<not> MCEventType_IsError (mce_Type (sample_event WanSyncFinishedFull))" "MCEventType_IsDone (mce_Type (sample_event WanSyncFinishedFull))"
  "IsWanSync (mce_Type (sample_event WanSyncFinishedFull))"
  by (simp_all add: sample_event_def MCEventType_IsInProgress_def MCEventType_IsError_def MCEventType_IsDone_def IsWanSync_def event_types)

lemma sample_waited: "waitMemberFinishEvent sample_poll ''u'' 0 0 0 = Some (Inr (sample_event WanSyncFinishedFull), 2)"
  by (subst waitMemberFinishEvent.simps, subst (2) waitMemberFinishEvent.simps)
    (simp add: sample_poll_def sample_filtered Let_def)

theorem sync_wait_bounded_witness:
  "\<exists>r n. waitMemberFinishEvent sample_poll ''u'' 0 0 0 = Some (r, n) \<and> n \<le> 100 * (card {i. progresses sample_poll ''u'' i} + 1) \<and>
    decided sample_poll ''u'' n r \<and> (\<forall>m < n. \<forall>r'. \<not> decided sample_poll ''u'' m r')"
proof (rule sync_wait_bounded)
  have "{i. progresses sample_poll ''u'' i} \<subseteq> {0}"
    by (auto simp: progresses_def sample_poll_def sample_filtered split: if_splits)
  then show "finite {i. progresses sample_poll ''u'' i}" by (rule finite_subset) simp
qed

theorem sync_completed_iff_witness:
  "wss_Status (withMapStatus (\<lambda>l. l) ''hz__orders'' (phaseOnly WanSyncCompleted) (ws_Status sample_sync)) = WanSyncCompleted"
  using sync_completed_iff [of "\<lambda>l. l" "''hz__orders''" "phaseOnly WanSyncCompleted" "ws_Status sample_sync"]
  by (simp add: withMapStatus_def sample_sync_def phaseOnly_def mapEntry_def overall_def)

abbreviation sample_sync_key :: NamespacedName where
  "sample_sync_key \<equiv> \<lparr> nn_Name = ''sync'', nn_Namespace = ''default'' \<rparr>"

abbreviation sample_sync_run :: "(go_error + unit) \<times> (WanSyncService, sync_call) world" where
  "sample_sync_run \<equiv> syncRequest (sample_sync_env undefined) (stateEventUpdate (sample_sync_env undefined) sample_sync_key) sample_sync_request sync_start"

lemma sample_callback:
  assumes "IsWanSync (mce_Type ev)"
  shows "stateEventUpdate (sample_sync_env we) sample_sync_key (responseTo sample_sync_request ev) w =
    (Inr (), w\<lparr> cw_reads := Suc (Suc (cw_reads w)), cw_trace := cw_trace w @ [(StatusUpdateSync (sample_sync\<lparr> ws_Status :=
      withMapStatus (\<lambda>es. es) (wanMapKey ''hz'' (MCEvent_MapName ev)) (eventStatus ev) (ws_Status sample_sync) \<rparr>), True)] \<rparr>)"
  using assms by (simp add: stateEventUpdate_def responseTo_def updateWanSyncMapStatus_def sample_sync_env_def sample_sync_request_def
      catchA_def action_simps invokeA_def sample_sync_def sample_meta_def)

lemma sample_started: "IsWanSync (mce_Type (startedEvent m))" "MCEvent_MapName (startedEvent m) = m" "eventStatus (startedEvent m) = phaseOnly WanSyncPending"
  by (simp_all add: startedEvent_def MCEvent_WithMapName_def setProperty_def MCEvent_MapName_def stringProperty_def IsWanSync_def
      eventStatus_def MCEventType_IsDone_def MCEventType_IsError_def event_types MCEventZero_def)

lemma sample_finished: "MCEvent_MapName (sample_event WanSyncFinishedFull) = ''orders''"
    "eventStatus (sample_event WanSyncFinishedFull) = phaseOnly WanSyncCompleted"
  by (simp_all add: eventStatus_def) (simp_all add: sample_event_def MCEvent_MapName_def stringProperty_def MCEvent_PublisherId_def phaseOnly_def)

lemma sample_steps:
  "waitWanSyncToFinish (sample_sync_env we) hz ''u'' m w = (Inr (sample_event WanSyncFinishedFull), w\<lparr> cw_reads := Suc (Suc (cw_reads w)) \<rparr>)"
  "wq_mapName r = ''orders'' \<Longrightarrow> wanSyncMap (sample_sync_env we) r w = (Inr ''u'', w\<lparr> cw_reads := Suc (cw_reads w),
     cw_trace := cw_trace w @ [(SyncMap (wq_hzResource r) (syncRef r), True)] \<rparr>)"
  "sy_GetOrCreateClient (sample_sync_env we) t nn = Inr ()" "wq_mapName sample_sync_request = ''orders''"
  by (simp_all add: waitWanSyncToFinish_def wanSyncMap_def sample_sync_env_def sample_sync_request_def sample_waited action_simps
      finishEvent_def invokeA_def sample_uuid_def syncRef_def moment_def)

lemma sample_names: "eventsNameMap (sample_sync_env we)"
  unfolding eventsNameMap_def
proof (intro allI impI)
  fix r tr uuid m e
  assume "answeredWith (sample_sync_env we) r tr uuid" and said: "reported (sample_sync_env we) (wq_hzResource r) uuid tr m e"
  then have uuid: "uuid = (if wq_mapName r = ''orders'' then ''u'' else ''v'')"
    by (auto simp: answeredWith_def sample_sync_env_def sample_uuid_def syncRef_def)
  from said have "MCEvent_UUID e = uuid" "e = sample_event WanSyncProgressUpdate \<or> e = sample_event WanSyncFinishedFull"
    by (auto simp: reported_def sample_sync_env_def sample_poll_def split: if_splits)
  then show "MCEvent_MapName e = wq_mapName r" using uuid
    by (auto simp: sample_event_def MCEvent_MapName_def MCEvent_UUID_def stringProperty_def split: if_splits)
qed

lemmas sample_runs = syncRequest_def sample_callback sample_started sample_finished sample_steps catchA_def action_simps wanMapKey_def

lemma sample_run:
  "fst sample_sync_run = Inr ()" "cw_state (snd sample_sync_run) = cw_state sync_start"
  "cw_trace (snd sample_sync_run) =
     [(StatusUpdateSync (sample_sync\<lparr> ws_Status := withMapStatus (\<lambda>es. es) ''hz__orders'' (phaseOnly WanSyncPending) (ws_Status sample_sync) \<rparr>), True),
      (SyncMap (wq_hzResource sample_sync_request) (syncRef sample_sync_request), True),
      (StatusUpdateSync (sample_sync\<lparr> ws_Status := withMapStatus (\<lambda>es. es) ''hz__orders'' (phaseOnly WanSyncCompleted) (ws_Status sample_sync) \<rparr>), True)]"
  by (simp_all add: sample_runs) (simp_all add: sync_start_def)

lemma sample_run_any: "fst (syncRequest (sample_sync_env we) (stateEventUpdate (sample_sync_env we) sample_sync_key) sample_sync_request w) = Inr ()"
  by (simp add: sample_runs)

theorem sync_completed_sound_witness:
  "syncedOn (sample_sync_env undefined) sample_sync_request (cw_trace sync_start @ take 2 (cw_trace (snd sample_sync_run)))"
proof -
  let ?env = "sample_sync_env undefined"
  let ?s = "sample_sync\<lparr> ws_Status := withMapStatus (\<lambda>es. es) ''hz__orders'' (phaseOnly WanSyncCompleted) (ws_Status sample_sync) \<rparr>"
  have split: "cw_trace (snd sample_sync_run) = cw_trace sync_start @ take 2 (cw_trace (snd sample_sync_run)) @ (StatusUpdateSync ?s, True) # []"
    by (subst sample_run(3), subst sample_run(3)) (simp add: sync_start_def)
  have arrival: "\<forall>t ms. set (sy_arrival ?env t ms) = set ms" by (simp add: sample_sync_env_def)
  from sync_completed_sound [OF surjective_pairing split arrival sample_names] obtain t visit s0 ms where
      s: "sy_Get ?env t sample_sync_key = Inr s0"
        "?s = s0\<lparr> ws_Status := withMapStatus visit (wanMapKey (nn_Name (wq_hzResource sample_sync_request)) (wq_mapName sample_sync_request)) ms (ws_Status s0) \<rparr>"
      and sound: "sms_phase ms = WanSyncCompleted \<longrightarrow>
        syncedOn ?env sample_sync_request (cw_trace sync_start @ take 2 (cw_trace (snd sample_sync_run)))"
    by blast
  have "wss_MapsStatus (ws_Status s0) = []" using s(1) by (auto simp: sample_sync_env_def sample_sync_def)
  with arg_cong [OF s(2), of "\<lambda>s. wss_MapsStatus (ws_Status s)"] have "sms_phase ms = WanSyncCompleted"
    by (simp add: withMapStatus_def case_prod_beta' sample_sync_def mapEntry_def phaseOnly_def Let_def)
  with sound show ?thesis by blast
qed

theorem sync_requests_misattributed_witness:
  "\<exists>w'. syncJobGo (sample_sync_env undefined) sample_sync_key sync_start = (Inr (), w') \<and>
     sv_wanSyncs (cw_state w') \<lparr> nn_Name = ''other'', nn_Namespace = ''default'' \<rparr> = None"
proof -
  let ?env = "sample_sync_env undefined"
  have keys: "sy_rangeKeys ?env t (sv_wanSyncs (cw_state sync_start)) = [\<lparr> nn_Name = ''other'', nn_Namespace = ''default'' \<rparr>]" for t
    by (simp add: sample_sync_env_def sync_start_def)
  have ran: "fst (syncJobGo ?env sample_sync_key sync_start) = Inr ()"
    by (simp add: syncJobGo_def keys syncKeyGo_def doStartSyncJob_def bindA_def [of "syncRequest _ _ _"] sample_run_any split_def)
      (simp add: sync_start_def doStartSyncJob_def bindA_def sample_run_any split_def)
  have names: "readsByName ?env" by (auto simp: readsByName_def sample_sync_env_def syncKey_def)
  have "set (sy_rangeKeys ?env (moment sync_start) (sv_wanSyncs (cw_state sync_start))) = dom (sv_wanSyncs (cw_state sync_start))"
    unfolding keys by (simp add: sync_start_def)
  with ran names show ?thesis
    using sync_requests_misattributed [of ?env sample_sync_key sync_start "()" "snd (syncJobGo ?env sample_sync_key sync_start)"]
    by (metis prod.collapse)
qed

end
