(* ===== verification/Pod_Types.thy ===== *)
theory Pod_Types
  imports Field_Validation
begin

text \<open>
  The types of Kubernetes that a StatefulSet of members is made of, with the fields the operator
  sets or reads. What it only copies from the resource is kept as the text the user gave.
\<close>

record KMeta =
  km_Name :: string
  km_Namespace :: string
  km_UID :: string
  km_Labels :: "string \<rightharpoonup> string"
  km_Annotations :: "string \<rightharpoonup> string"
  km_Owners :: "OwnerReference list"

text \<open>\<^verbatim>\<open>intstr.IntOrString\<close>.\<close>

datatype IntOrString = FromInt int32 | FromString string

record ContainerPort =
  cpo_ContainerPort :: int32
  cpo_Name :: string
  cpo_Protocol :: string

text \<open>An environment variable has a value, a field of the pod, a key of a Secret, or is one the user gave.\<close>

datatype EnvVar = EnvValue string string | EnvFieldRef string string | EnvSecretKeyRef string string string | EnvRaw k8s_raw

record Probe =
  prb_Path :: string
  prb_Port :: IntOrString
  prb_InitialDelaySeconds :: int32
  prb_TimeoutSeconds :: int32
  prb_PeriodSeconds :: int32
  prb_SuccessThreshold :: int32
  prb_FailureThreshold :: int32

record SecurityContext =
  scx_RunAsNonRoot :: "bool option"
  scx_Privileged :: "bool option"
  scx_ReadOnlyRootFilesystem :: "bool option"
  scx_AllowPrivilegeEscalation :: "bool option"
  scx_Drop :: "string list"

record PodSecurityContext =
  psc_FSGroup :: "int64 option"
  psc_RunAsNonRoot :: "bool option"
  psc_RunAsUser :: "int64 option"

record VolumeMount =
  vm_Name :: string
  vm_MountPath :: string

datatype VolumeSource = SecretSource string int32 | ConfigMapSource string int32 | EmptyDirSource

record Volume =
  vol_Name :: string
  vol_Source :: VolumeSource

record Container =
  ct_Name :: string
  ct_Image :: string
  ct_Args :: "string list"
  ct_Ports :: "ContainerPort list"
  ct_Env :: "EnvVar list"
  ct_LivenessProbe :: "Probe option"
  ct_ReadinessProbe :: "Probe option"
  ct_VolumeMounts :: "VolumeMount list"
  ct_SecurityContext :: "SecurityContext option"
  ct_Resources :: "k8s_raw option"
  ct_ImagePullPolicy :: string
  ct_TerminationMessagePath :: string
  ct_TerminationMessagePolicy :: string

record PersistentVolumeClaim =
  pv_Meta :: KMeta
  pv_AccessModes :: "string list option"
  pv_Storage :: Quantity
  pv_StorageClassName :: "string option"

text \<open>A constraint is one of the user, or the key of the topology with the labels of the pods to spread.\<close>

datatype TopologySpreadConstraint = SpreadRaw k8s_raw | SpreadAnyway string "string \<rightharpoonup> string"

record PodSpec =
  ps_ServiceAccountName :: string
  ps_SecurityContext :: PodSecurityContext
  ps_ImagePullSecrets :: "string list"
  ps_InitContainers :: "Container list"
  ps_Containers :: "Container list"
  ps_Volumes :: "Volume list"
  ps_Affinity :: "k8s_raw option"
  ps_Tolerations :: "k8s_raw list"
  ps_NodeSelector :: "string \<rightharpoonup> string"
  ps_TopologySpreadConstraints :: "TopologySpreadConstraint list"
  ps_TerminationGracePeriodSeconds :: "int64 option"

record StatefulSetStatus =
  sts_Replicas :: int32
  sts_ReadyReplicas :: int32
  sts_UpdatedReplicas :: int32
  sts_ObservedGeneration :: int64

record StatefulSet =
  sfs_Meta :: KMeta
  sfs_Generation :: int64
  sfs_Selector :: "string \<rightharpoonup> string"
  sfs_ServiceName :: string
  sfs_PodManagementPolicy :: string
  sfs_Replicas :: "int32 option"
  sfs_TemplateLabels :: "string \<rightharpoonup> string"
  sfs_TemplateAnnotations :: "string \<rightharpoonup> string"
  sfs_Pod :: PodSpec
  sfs_VolumeClaimTemplates :: "PersistentVolumeClaim list"
  sfs_Status :: StatefulSetStatus

record Secret =
  sct_Meta :: KMeta
  sct_Data :: "string \<rightharpoonup> string"

record ConfigMapObject =
  cmo_Meta :: KMeta
  cmo_Data :: "string \<rightharpoonup> string"

end
