(* ===== verification/Kube_Objects.thy ===== *)
theory Kube_Objects
  imports Calls Pod_Types
begin

text \<open>
  The Kubernetes objects the Hazelcast controller owns, and the ways it writes them
  (\<^verbatim>\<open>internal/util/util.go\<close>). Only the fields the controller sets or reads are kept.

  \<^verbatim>\<open>controllerutil.CreateOrUpdate\<close> of controller-runtime is modelled by its documentation: the object is
  read; when it does not exist, the mutate function is applied to the object at hand, which is
  then created; otherwise it is applied to the stored object, which is written back when that
  changed it. So what the object at hand holds besides is written only at its creation.
\<close>

subsection \<open>Objects\<close>

record ServicePort =
  sp_Name :: string
  sp_Protocol :: string
  sp_AppProtocol :: string
  sp_Port :: int32
  sp_TargetPort :: IntOrString
  sp_NodePort :: int32

record LoadBalancerIngress =
  lbi_IP :: string
  lbi_Hostname :: string

record Service =
  svc_Meta :: KMeta
  svc_Selector :: "string \<rightharpoonup> string"
  svc_ClusterIP :: string
  svc_Type :: ServiceType
  svc_Ports :: "ServicePort list"
  svc_PublishNotReadyAddresses :: bool
  svc_Ingress :: "LoadBalancerIngress list"

record PolicyRule =
  pr_APIGroups :: "string list"
  pr_Resources :: "string list"
  pr_Verbs :: "string list"

record Role =
  rl_Meta :: KMeta
  rl_Rules :: "PolicyRule list"

record Subject =
  sj_Kind :: string
  sj_Name :: string
  sj_Namespace :: string

record RoleRef =
  rr_APIGroup :: string
  rr_Kind :: string
  rr_Name :: string

record RoleBinding =
  rb_Meta :: KMeta
  rb_Subjects :: "Subject list"
  rb_RoleRef :: RoleRef

datatype HazelcastEndpointType = HazelcastEndpointTypeDiscovery | HazelcastEndpointTypeMember | HazelcastEndpointTypeWAN

record HazelcastEndpointSpec =
  hes_Type :: HazelcastEndpointType
  hes_Port :: int32
  hes_HazelcastResourceName :: string

record HazelcastEndpoint =
  hep_Meta :: KMeta
  hep_Spec :: HazelcastEndpointSpec
  hep_Address :: string

definition HazelcastEndpoint_SetAddress :: "string \<Rightarrow> HazelcastEndpoint \<Rightarrow> HazelcastEndpoint" where
  "HazelcastEndpoint_SetAddress address e = e\<lparr> hep_Address :=
     (if address = [] then [] else address @ '':'' @ Itoa (sint (hes_Port (hep_Spec e)))) \<rparr>"

datatype kube_object =
    KServiceAccount KMeta
  | KRole Role
  | KRoleBinding RoleBinding
  | KClusterRole Role
  | KClusterRoleBinding RoleBinding
  | KService Service
  | KEndpoint HazelcastEndpoint
  | KSecret Secret
  | KConfigMap ConfigMapObject
  | KStatefulSet StatefulSet

text \<open>The kind of an object and its key; objects of one kind are told apart by name and namespace.\<close>

datatype kube_kind = ServiceAccountKind | RoleKind | RoleBindingKind | ClusterRoleKind | ClusterRoleBindingKind
  | ServiceKind | EndpointKind | SecretKind | ConfigMapKind | StatefulSetKind

fun object_kind :: "kube_object \<Rightarrow> kube_kind" where
  "object_kind (KServiceAccount _) = ServiceAccountKind"
| "object_kind (KRole _) = RoleKind"
| "object_kind (KRoleBinding _) = RoleBindingKind"
| "object_kind (KClusterRole _) = ClusterRoleKind"
| "object_kind (KClusterRoleBinding _) = ClusterRoleBindingKind"
| "object_kind (KService _) = ServiceKind"
| "object_kind (KEndpoint _) = EndpointKind"
| "object_kind (KSecret _) = SecretKind"
| "object_kind (KConfigMap _) = ConfigMapKind"
| "object_kind (KStatefulSet _) = StatefulSetKind"

fun object_meta :: "kube_object \<Rightarrow> KMeta" where
  "object_meta (KServiceAccount m) = m"
| "object_meta (KRole r) = rl_Meta r"
| "object_meta (KRoleBinding b) = rb_Meta b"
| "object_meta (KClusterRole r) = rl_Meta r"
| "object_meta (KClusterRoleBinding b) = rb_Meta b"
| "object_meta (KService s) = svc_Meta s"
| "object_meta (KEndpoint e) = hep_Meta e"
| "object_meta (KSecret s) = sct_Meta s"
| "object_meta (KConfigMap c) = cmo_Meta c"
| "object_meta (KStatefulSet s) = sfs_Meta s"

definition object_key :: "kube_object \<Rightarrow> NamespacedName" where
  "object_key ob = \<lparr> nn_Name = km_Name (object_meta ob), nn_Namespace = km_Namespace (object_meta ob) \<rparr>"

subsection \<open>Calls\<close>

text \<open>The kinds of custom resources that live on a cluster.\<close>

datatype dependent_kind = DepMap | DepMultiMap | DepTopic | DepReplicatedMap | DepQueue | DepCache | DepJetJob
  | DepUserCodeNamespace

datatype hz_call =
    CreateObject kube_object
  | UpdateObject kube_object
  | DeleteKube kube_kind NamespacedName
  | StatusUpdateObject kube_object
  | UpdateHz Hazelcast
  | StatusUpdateHz Hazelcast
  | DeleteDependent dependent_kind NamespacedName
  | StopStatusService NamespacedName
  | ShutdownClient NamespacedName
  | StartStatusService NamespacedName
  | CreateClient NamespacedName
  | CreateMtlsClient string
  | StartupActionCall PersistenceStartupAction
  | ChangeClusterStateHz
  | AddExecutorConfig string ExecutorServiceConfiguration
  | AddDurableExecutorConfig string DurableExecutorServiceConfiguration
  | AddScheduledExecutorConfig string ScheduledExecutorServiceConfiguration
  | TriggerPhoneHomeHz

text \<open>The registries of \<^verbatim>\<open>HazelcastReconciler\<close>: the clusters with a client and with a status service, and
  the namespaces with a client for the agents.\<close>

record HazelcastReconciler =
  hzr_clients :: "NamespacedName set"
  hzr_statusServices :: "NamespacedName set"
  hzr_mtlsClients :: "string set"

type_synonym 'a hz_proc = "(HazelcastReconciler, hz_call, 'a) proc"

text \<open>\<open>hz_Get\<close> reads one object (it answers with an object of the kind and key asked for), the
  lists are reads too. \<open>hz_rangeKinds\<close> is the order in which a map over the dependent kinds is
  visited, \<open>hz_rangeObjects\<close> the order in which goroutines run.\<close>

record hz_env =
  hz_call :: "hz_call moment \<Rightarrow> hz_call \<Rightarrow> go_error option"
  hz_GetHazelcast :: "hz_call moment \<Rightarrow> NamespacedName \<Rightarrow> go_error + Hazelcast"
  hz_Get :: "hz_call moment \<Rightarrow> kube_kind \<Rightarrow> NamespacedName \<Rightarrow> go_error + kube_object"
  hz_ListDependents :: "hz_call moment \<Rightarrow> dependent_kind \<Rightarrow> NamespacedName \<Rightarrow> go_error + ObjectMeta list"
  hz_ListServices :: "hz_call moment \<Rightarrow> string \<Rightarrow> (string \<rightharpoonup> string) \<Rightarrow> go_error + Service list"
  hz_ListEndpoints :: "hz_call moment \<Rightarrow> string \<Rightarrow> (string \<rightharpoonup> string) \<Rightarrow> go_error + HazelcastEndpoint list"
  hz_ListNodes :: "hz_call moment \<Rightarrow> go_error + (string \<times> (string \<times> string) list) list"
  hz_ListPodNodes :: "hz_call moment \<Rightarrow> (string \<rightharpoonup> string) \<Rightarrow> go_error + string list"
  hz_ServicePerPodCount :: "hz_call moment \<Rightarrow> NamespacedName \<Rightarrow> go_error + string"
  hz_LookupHost :: "hz_call moment \<Rightarrow> string \<Rightarrow> go_error option"
  hz_rangeKinds :: "hz_call moment \<Rightarrow> dependent_kind list"
  hz_rangeObjects :: "hz_call moment \<Rightarrow> ObjectMeta list \<Rightarrow> ObjectMeta list"
  hz_LookupEnv :: "string \<Rightarrow> string option"

subsection \<open>Writing objects (util.go)\<close>

text \<open>\<open>writtenA\<close>: a write of the object at hand, with the object kept whatever the answer.\<close>

definition writtenA :: "hz_env \<Rightarrow> hz_call \<Rightarrow> 'o \<Rightarrow> ('o \<times> go_error option) hz_proc" where
  "writtenA env c ob = tryA (invokeA (hz_call env) c) (\<lambda>r. returnA (ob, case r of Inl e \<Rightarrow> Some e | Inr _ \<Rightarrow> None))"

definition CreateOrUpdate_kube :: "hz_env \<Rightarrow> kube_object \<Rightarrow> (kube_object \<Rightarrow> kube_object hz_proc) \<Rightarrow>
    (kube_object \<times> go_error option) hz_proc" where
  "CreateOrUpdate_kube env ob mutate =
     tryA (observeA (\<lambda>t. hz_Get env t (object_kind ob) (object_key ob))) (\<lambda>r. case r of
       Inl e \<Rightarrow> if ErrIsNotFound e
               then catchA (mutate ob) (\<lambda>e. returnA (ob, Some e)) (\<lambda>ob'. writtenA env (CreateObject ob') ob')
               else returnA (ob, Some e)
     | Inr old \<Rightarrow> catchA (mutate old) (\<lambda>e. returnA (old, Some e)) (\<lambda>ob'.
         if ob' = old then returnA (ob', None) else writtenA env (UpdateObject ob') ob'))"
text \<open>The result is the object at hand afterwards.\<close>

definition util_CreateOrUpdate :: "hz_env \<Rightarrow> kube_object \<Rightarrow> (kube_object \<Rightarrow> kube_object hz_proc) \<Rightarrow> kube_object hz_proc" where
  "util_CreateOrUpdate env ob mutate =
     bindA (CreateOrUpdate_kube env ob mutate) (\<lambda>(ob', err). case err of
       None \<Rightarrow> returnA ob'
     | Some e \<Rightarrow> if ErrIsAlreadyExists e then returnA ob' else throwA e)"

definition CreateOrUpdateForce :: "hz_env \<Rightarrow> kube_object \<Rightarrow> (kube_object \<Rightarrow> kube_object hz_proc) \<Rightarrow> kube_object hz_proc" where
  "CreateOrUpdateForce env ob mutate =
     bindA (CreateOrUpdate_kube env ob mutate) (\<lambda>(ob', err). case err of
       None \<Rightarrow> returnA ob'
     | Some e \<Rightarrow>
         if ErrIsAlreadyExists e then returnA ob'
         else if ErrIsInvalid e
         then bindA (invokeA (hz_call env) (DeleteKube (object_kind ob') (object_key ob'))) (\<lambda>_.
              bindA (CreateOrUpdate_kube env ob' mutate) (\<lambda>(ob'', err). case err of
                None \<Rightarrow> returnA ob'' | Some e \<Rightarrow> throwA e))
         else throwA e)"

text \<open>\<^verbatim>\<open>NodeDiscoveryEnabled\<close> reads the environment of the operator.\<close>

definition NodeDiscoveryEnabled :: "hz_env \<Rightarrow> bool" where
  "NodeDiscoveryEnabled env = (case hz_LookupEnv env HazelcastNodeDiscoveryEnabledEnv of
     None \<Rightarrow> True | Some watching \<Rightarrow> watching = ''true'')"

fun lookupPort :: "ServicePort list \<Rightarrow> string \<Rightarrow> ServicePort option" where
  "lookupPort [] name = None"
| "lookupPort (p # ps) name =
     (case lookupPort ps name of Some q \<Rightarrow> Some q | None \<Rightarrow> if sp_Name p = name then Some p else None)"

definition EnrichServiceNodePorts :: "ServicePort list \<Rightarrow> ServicePort list \<Rightarrow> ServicePort list" where
  "EnrichServiceNodePorts newPorts existing = map (\<lambda>p.
     case lookupPort existing (sp_Name p) of Some q \<Rightarrow> p\<lparr> sp_NodePort := sp_NodePort q \<rparr> | None \<Rightarrow> p) newPorts"

fun GetLoadBalancerAddress :: "LoadBalancerIngress \<Rightarrow> string" where
  "GetLoadBalancerAddress lb = (if lbi_IP lb \<noteq> [] then lbi_IP lb else lbi_Hostname lb)"

definition GetExternalAddress :: "Service \<Rightarrow> string" where
  "GetExternalAddress svc = (case filter (\<lambda>a. a \<noteq> []) (map GetLoadBalancerAddress (svc_Ingress svc)) of [] \<Rightarrow> [] | a # _ \<Rightarrow> a)"

end
