(* ===== verification/Cluster_Services.thy ===== *)
theory Cluster_Services
  imports Kube_Objects
begin

text \<open>
  The accounts, roles, services and endpoints of a cluster
  (\<^verbatim>\<open>internal/controller/hazelcast/hazelcast_resources.go\<close>, \<^verbatim>\<open>reconcileRole\<close> to \<^verbatim>\<open>isServicePerPodReady\<close>).
  \<^verbatim>\<open>SetControllerReference\<close> on an object at hand that has no owner yet and lives in the namespace of the
  cluster does not fail.
\<close>

subsection \<open>Names, labels, ports\<close>

definition ApplicationNameLabel :: string where "ApplicationNameLabel = ''app.kubernetes.io/name''"

definition ApplicationInstanceNameLabel :: string where "ApplicationInstanceNameLabel = ''app.kubernetes.io/instance''"

definition ApplicationManagedByLabel :: string where "ApplicationManagedByLabel = ''app.kubernetes.io/managed-by''"

definition PodNameLabel :: string where "PodNameLabel = ''statefulset.kubernetes.io/pod-name''"

definition ServicePerPodLabelName :: string where "ServicePerPodLabelName = ''hazelcast.com/service-per-pod''"

definition ServiceEndpointTypeLabelName :: string where
  "ServiceEndpointTypeLabelName = ''hazelcast.com/hazelcast-service-endpoint-type''"

definition util_Labels :: "Hazelcast \<Rightarrow> string \<rightharpoonup> string" where
  "util_Labels h = [ApplicationNameLabel \<mapsto> ''hazelcast'', ApplicationInstanceNameLabel \<mapsto> om_Name (h_Meta h),
     ApplicationManagedByLabel \<mapsto> ''hazelcast-platform-operator'']"

definition labels :: "Hazelcast \<Rightarrow> string \<rightharpoonup> string" where
  "labels h = (hs_Labels (h_Spec h))(ApplicationNameLabel \<mapsto> ''hazelcast'', ApplicationInstanceNameLabel \<mapsto> om_Name (h_Meta h),
     ApplicationManagedByLabel \<mapsto> ''hazelcast-platform-operator'')"

definition ownedBy :: "Hazelcast \<Rightarrow> OwnerReference" where
  "ownedBy h = \<lparr> or_Kind = ''Hazelcast'', or_Name = om_Name (h_Meta h), or_UID = om_UID (h_Meta h) \<rparr>"

definition namedMeta :: "Hazelcast \<Rightarrow> string \<Rightarrow> KMeta" where
  "namedMeta h name = \<lparr> km_Name = name, km_Namespace = om_Namespace (h_Meta h), km_UID = [], km_Labels = labels h,
     km_Annotations = hs_Annotations (h_Spec h), km_Owners = [ownedBy h] \<rparr>"

definition metadata :: "Hazelcast \<Rightarrow> KMeta" where
  "metadata h = namedMeta h (om_Name (h_Meta h))"

definition serviceAccountName :: "Hazelcast \<Rightarrow> string" where
  "serviceAccountName h =
     (if hs_ServiceAccountName (h_Spec h) \<noteq> [] then hs_ServiceAccountName (h_Spec h) else om_Name (h_Meta h))"

definition servicePerPodName :: "nat \<Rightarrow> Hazelcast \<Rightarrow> string" where
  "servicePerPodName i h = om_Name (h_Meta h) @ ''-'' @ Itoa (int i)"

definition servicePerPodSelector :: "nat \<Rightarrow> Hazelcast \<Rightarrow> string \<rightharpoonup> string" where
  "servicePerPodSelector i h = (util_Labels h)(PodNameLabel \<mapsto> servicePerPodName i h)"

definition servicePerPodLabels :: "Hazelcast \<Rightarrow> string \<rightharpoonup> string" where
  "servicePerPodLabels h = (labels h)(ServicePerPodLabelName \<mapsto> ''true'')"

definition tcpPort :: "string \<Rightarrow> int32 \<Rightarrow> IntOrString \<Rightarrow> ServicePort" where
  "tcpPort name port target = \<lparr> sp_Name = name, sp_Protocol = ''TCP'', sp_AppProtocol = ''tcp'', sp_Port = port,
     sp_TargetPort = target, sp_NodePort = 0 \<rparr>"

definition clientPort :: ServicePort where
  "clientPort = tcpPort ''hazelcast'' 5701 (FromString ''hazelcast'')"

definition defaultWANPort :: ServicePort where
  "defaultWANPort = tcpPort ''wan-port'' (word_of_int WanDefaultPort) (FromInt (word_of_int WanDefaultPort))"

definition hazelcastPort :: "bool \<Rightarrow> ServicePort list" where
  "hazelcastPort isAddWANPort =
     [clientPort, tcpPort ''member-port'' (ucast MemberServerSocketPort) (FromInt (ucast MemberServerSocketPort)),
      tcpPort ''rest-port'' (ucast RestServerSocketPort) (FromInt (ucast RestServerSocketPort))] @
     (if isAddWANPort then [defaultWANPort] else [])"

definition serviceType :: "Hazelcast \<Rightarrow> ServiceType" where
  "serviceType h =
     (if Expose_IsEnabled (hs_ExposeExternally (h_Spec h))
      then Expose_DiscoveryK8ServiceType (hs_ExposeExternally (h_Spec h)) else ServiceTypeClusterIP)"

subsection \<open>Accounts and roles\<close>

definition keepObject :: "kube_object \<Rightarrow> kube_object hz_proc" where
  "keepObject ob = returnA ob"

definition reconcileServiceAccount :: "hz_env \<Rightarrow> Hazelcast \<Rightarrow> unit hz_proc" where
  "reconcileServiceAccount env h =
     (if hs_ServiceAccountName (h_Spec h) \<noteq> [] then returnA ()
      else bindA (CreateOrUpdateForce env (KServiceAccount (namedMeta h (serviceAccountName h))) keepObject) (\<lambda>_. returnA ()))"

definition clusterMeta :: "Hazelcast \<Rightarrow> KMeta" where
  "clusterMeta h = \<lparr> km_Name = Hazelcast_ClusterScopedName h, km_Namespace = [], km_UID = [], km_Labels = labels h,
     km_Annotations = hs_Annotations (h_Spec h), km_Owners = [] \<rparr>"

definition setRules :: "PolicyRule list \<Rightarrow> kube_object \<Rightarrow> kube_object" where
  "setRules rules ob = (case ob of KRole r \<Rightarrow> KRole (r\<lparr> rl_Rules := rules \<rparr>) | KClusterRole r \<Rightarrow> KClusterRole (r\<lparr> rl_Rules := rules \<rparr>)
     | _ \<Rightarrow> ob)"

definition setBinding :: "Subject list \<Rightarrow> RoleRef \<Rightarrow> kube_object \<Rightarrow> kube_object" where
  "setBinding subjects ref ob = (case ob of
       KRoleBinding b \<Rightarrow> KRoleBinding (b\<lparr> rb_Subjects := subjects, rb_RoleRef := ref \<rparr>)
     | KClusterRoleBinding b \<Rightarrow> KClusterRoleBinding (b\<lparr> rb_Subjects := subjects, rb_RoleRef := ref \<rparr>)
     | _ \<Rightarrow> ob)"

definition reconcileClusterRole :: "hz_env \<Rightarrow> Hazelcast \<Rightarrow> unit hz_proc" where
  "reconcileClusterRole env h =
     bindA (CreateOrUpdateForce env (KClusterRole \<lparr> rl_Meta = clusterMeta h, rl_Rules = [] \<rparr>) (\<lambda>ob.
       returnA (setRules [\<lparr> pr_APIGroups = [[]], pr_Resources = [''nodes''], pr_Verbs = [''get''] \<rparr>] ob))) (\<lambda>_. returnA ())"

definition roleRules :: "Hazelcast \<Rightarrow> PolicyRule list" where
  "roleRules h =
     [\<lparr> pr_APIGroups = [[]], pr_Resources = [''secrets''], pr_Verbs = [''get''] \<rparr>,
      \<lparr> pr_APIGroups = [[]], pr_Resources = [''endpoints'', ''pods'', ''services''], pr_Verbs = [''get'', ''list''] \<rparr>] @
     (if Persistence_IsEnabled (hs_Persistence (h_Spec h))
      then [\<lparr> pr_APIGroups = [''apps''], pr_Resources = [''statefulsets''], pr_Verbs = [''watch'', ''list''] \<rparr>] else [])"

definition reconcileRole :: "hz_env \<Rightarrow> Hazelcast \<Rightarrow> unit hz_proc" where
  "reconcileRole env h =
     bindA (CreateOrUpdateForce env (KRole \<lparr> rl_Meta = metadata h, rl_Rules = [] \<rparr>) (\<lambda>ob. returnA (setRules (roleRules h) ob))) (\<lambda>_.
     returnA ())"

definition accountSubjects :: "Hazelcast \<Rightarrow> Subject list" where
  "accountSubjects h = [\<lparr> sj_Kind = ''ServiceAccount'', sj_Name = serviceAccountName h, sj_Namespace = om_Namespace (h_Meta h) \<rparr>]"

definition RoleRefZero :: RoleRef where
  "RoleRefZero = \<lparr> rr_APIGroup = [], rr_Kind = [], rr_Name = [] \<rparr>"

definition reconcileClusterRoleBinding :: "hz_env \<Rightarrow> Hazelcast \<Rightarrow> unit hz_proc" where
  "reconcileClusterRoleBinding env h =
     bindA (CreateOrUpdateForce env (KClusterRoleBinding \<lparr> rb_Meta = clusterMeta h, rb_Subjects = [], rb_RoleRef = RoleRefZero \<rparr>) (\<lambda>ob.
       returnA (setBinding (accountSubjects h) \<lparr> rr_APIGroup = ''rbac.authorization.k8s.io'', rr_Kind = ''ClusterRole'',
         rr_Name = Hazelcast_ClusterScopedName h \<rparr> ob))) (\<lambda>_. returnA ())"

definition reconcileRoleBinding :: "hz_env \<Rightarrow> Hazelcast \<Rightarrow> unit hz_proc" where
  "reconcileRoleBinding env h =
     bindA (CreateOrUpdateForce env (KRoleBinding \<lparr> rb_Meta = metadata h, rb_Subjects = [], rb_RoleRef = RoleRefZero \<rparr>) (\<lambda>ob.
       returnA (setBinding (accountSubjects h) \<lparr> rr_APIGroup = ''rbac.authorization.k8s.io'', rr_Kind = ''Role'',
         rr_Name = om_Name (h_Meta h) \<rparr> ob))) (\<lambda>_. returnA ())"

text \<open>The answer of the first read matters only when it is a not-found error: after another error the
  object at hand is empty, and so is the name in the deletion.\<close>

definition removeCluster :: "hz_env \<Rightarrow> kube_kind \<Rightarrow> string \<Rightarrow> Hazelcast \<Rightarrow> unit hz_proc" where
  "removeCluster env kind what h =
     tryA (observeA (\<lambda>t. hz_Get env t kind \<lparr> nn_Name = Hazelcast_ClusterScopedName h, nn_Namespace = [] \<rparr>)) (\<lambda>r.
     let remove = (\<lambda>name. catchA (invokeA (hz_call env) (DeleteKube kind \<lparr> nn_Name = name, nn_Namespace = [] \<rparr>))
           (\<lambda>e. throwA (wrapErr what e)) returnA)
     in case r of
          Inl e \<Rightarrow> if ErrIsNotFound e then returnA () else remove []
        | Inr _ \<Rightarrow> remove (Hazelcast_ClusterScopedName h))"

definition removeClusterRole :: "hz_env \<Rightarrow> Hazelcast \<Rightarrow> unit hz_proc" where
  "removeClusterRole env h = removeCluster env ClusterRoleKind ''failed to clean up ClusterRole: '' h"

definition removeClusterRoleBinding :: "hz_env \<Rightarrow> Hazelcast \<Rightarrow> unit hz_proc" where
  "removeClusterRoleBinding env h = removeCluster env ClusterRoleBindingKind ''failed to clean up ClusterRoleBinding: '' h"

subsection \<open>Services\<close>

definition onService :: "(Service \<Rightarrow> Service) \<Rightarrow> kube_object \<Rightarrow> kube_object hz_proc" where
  "onService f ob = returnA (case ob of KService s \<Rightarrow> KService (f s) | _ \<Rightarrow> ob)"

definition setServiceLabel :: "string option \<Rightarrow> Service \<Rightarrow> Service" where
  "setServiceLabel v s = s\<lparr> svc_Meta := (svc_Meta s)\<lparr> km_Labels := (km_Labels (svc_Meta s))(ServiceEndpointTypeLabelName := v) \<rparr> \<rparr>"

definition newService :: "KMeta \<Rightarrow> (string \<rightharpoonup> string) \<Rightarrow> Service" where
  "newService m sel = \<lparr> svc_Meta = m, svc_Selector = sel, svc_ClusterIP = [], svc_Type = [], svc_Ports = [],
     svc_PublishNotReadyAddresses = False, svc_Ingress = [] \<rparr>"

definition discoveryLabel :: "Hazelcast \<Rightarrow> string option" where
  "discoveryLabel h =
     (if Expose_IsEnabled (hs_ExposeExternally (h_Spec h)) \<and>
         Expose_DiscoveryK8ServiceType (hs_ExposeExternally (h_Spec h)) \<in> {ServiceTypeLoadBalancer, ServiceTypeNodePort}
      then Some ''discovery'' else None)"

definition isAddWANPort :: "Hazelcast \<Rightarrow> bool" where
  "isAddWANPort h = (case hs_AdvancedNetwork (h_Spec h) of None \<Rightarrow> True | Some a \<Rightarrow> an_WAN a = [])"

text \<open>The label is set on the labels of the stored object, which the operator gives to every service it creates.\<close>

definition mutateService :: "Hazelcast \<Rightarrow> Service \<Rightarrow> Service" where
  "mutateService h s = (setServiceLabel (discoveryLabel h) s)\<lparr> svc_Type := serviceType h,
     svc_Ports := EnrichServiceNodePorts (hazelcastPort (isAddWANPort h)) (svc_Ports s) \<rparr>"

definition reconcileService :: "hz_env \<Rightarrow> Hazelcast \<Rightarrow> unit hz_proc" where
  "reconcileService env h =
     bindA (CreateOrUpdateForce env (KService ((newService (metadata h) (util_Labels h))\<lparr> svc_ClusterIP :=
        (if serviceType h = ServiceTypeClusterIP then ''None'' else []) \<rparr>)) (onService (mutateService h))) (\<lambda>_. returnA ())"

text \<open>The ports of one WAN configuration, in the arithmetic of \<^verbatim>\<open>uint\<close>.\<close>

definition wanServicePorts :: "WANConfig \<Rightarrow> ServicePort list" where
  "wanServicePorts w = map (\<lambda>i. tcpPort (''wan-'' @ wc_Name w @ ''-'' @ Itoa (int i)) (ucast (wc_Port w + of_nat i))
     (FromInt (ucast (wc_Port w + of_nat i)))) [0..<unat (wc_PortCount w)]"

definition mutateWANService :: "WANConfig \<Rightarrow> Service \<Rightarrow> Service" where
  "mutateWANService w s =
     (if wc_ServiceType w = ServiceTypeLoadBalancer \<or> wc_ServiceType w = ServiceTypeNodePort then setServiceLabel (Some ''wan'') s
      else if wc_ServiceType w = ServiceTypeClusterIP then setServiceLabel None s else s)
     \<lparr> svc_Ports := EnrichServiceNodePorts (wanServicePorts w) (svc_Ports s),
       svc_Type := (if wc_ServiceType w = [] then ServiceTypeLoadBalancer else wc_ServiceType w) \<rparr>"

definition reconcileWANService :: "hz_env \<Rightarrow> Hazelcast \<Rightarrow> WANConfig \<Rightarrow> unit hz_proc" where
  "reconcileWANService env h w =
     bindA (util_CreateOrUpdate env (KService (newService (namedMeta h (om_Name (h_Meta h) @ ''-'' @ wc_Name w)) (util_Labels h)))
       (onService (mutateWANService w))) (\<lambda>_. returnA ())"

definition reconcileWANServices :: "hz_env \<Rightarrow> Hazelcast \<Rightarrow> unit hz_proc" where
  "reconcileWANServices env h =
     (case hs_AdvancedNetwork (h_Spec h) of None \<Rightarrow> returnA () | Some a \<Rightarrow> forA (an_WAN a) (reconcileWANService env h))"

definition mutateServicePerPod :: "Hazelcast \<Rightarrow> Service \<Rightarrow> Service" where
  "mutateServicePerPod h s =
     (let typ = Expose_MemberAccessServiceType (hs_ExposeExternally (h_Spec h))
      in (setServiceLabel (if typ \<in> {ServiceTypeLoadBalancer, ServiceTypeNodePort} then Some ''member'' else None) s)
         \<lparr> svc_Ports := EnrichServiceNodePorts [clientPort] (svc_Ports s), svc_Type := typ \<rparr>)"

text \<open>The number of members, which the loops over the services dereference.\<close>

text \<open>The bound of the loops over the members: they count up from 0, so that a negative size is one of no members.\<close>

definition memberCount :: "Hazelcast \<Rightarrow> nat hz_proc" where
  "memberCount h = (case hs_ClusterSize (h_Spec h) of
     None \<Rightarrow> throwA (ErrPanic ''nil pointer dereference'') | Some n \<Rightarrow> returnA (nat (sint n)))"

definition reconcileMemberService :: "hz_env \<Rightarrow> Hazelcast \<Rightarrow> nat \<Rightarrow> unit hz_proc" where
  "reconcileMemberService env h i =
     bindA (CreateOrUpdateForce env (KService ((newService ((namedMeta h (servicePerPodName i h))\<lparr> km_Labels := servicePerPodLabels h \<rparr>)
       (servicePerPodSelector i h))\<lparr> svc_PublishNotReadyAddresses := True \<rparr>)) (onService (mutateServicePerPod h))) (\<lambda>_. returnA ())"

definition reconcileServicePerPod :: "hz_env \<Rightarrow> Hazelcast \<Rightarrow> unit hz_proc" where
  "reconcileServicePerPod env h =
     (if \<not> Expose_IsSmart (hs_ExposeExternally (h_Spec h)) then returnA ()
      else bindA (memberCount h) (\<lambda>n. forA [0..<n] (reconcileMemberService env h)))"

subsection \<open>Endpoints\<close>

text \<open>The address of a node: an external address, the first one listed, else the last internal one.\<close>

fun nodePublicAddressFrom :: "string \<Rightarrow> (string \<times> string) list \<Rightarrow> string" where
  "nodePublicAddressFrom fallback [] = fallback"
| "nodePublicAddressFrom fallback ((typ, address) # as) =
     (if typ = ''ExternalIP'' then address
      else if typ = ''InternalIP'' then nodePublicAddressFrom address as else nodePublicAddressFrom fallback as)"

definition nodePublicAddress :: "(string \<times> string) list \<Rightarrow> string" where
  "nodePublicAddress = nodePublicAddressFrom []"

definition hazelcastEndpointFromService :: "string \<Rightarrow> string \<Rightarrow> Hazelcast \<Rightarrow> HazelcastEndpointType \<Rightarrow> int32 \<Rightarrow> HazelcastEndpoint" where
  "hazelcastEndpointFromService name ns hz typ port =
     \<lparr> hep_Meta = \<lparr> km_Name = name, km_Namespace = ns, km_UID = [], km_Labels = labels hz, km_Annotations = hs_Annotations (h_Spec hz), km_Owners = [] \<rparr>,
       hep_Spec = \<lparr> hes_Type = typ, hes_Port = port, hes_HazelcastResourceName = om_Name (h_Meta hz) \<rparr>, hep_Address = [] \<rparr>"

text \<open>The endpoints of a service, by its label; \<open>None\<close> for a service without the label.\<close>

definition serviceEndpoints :: "Hazelcast \<Rightarrow> Service \<Rightarrow> (go_error + HazelcastEndpoint list) option" where
  "serviceEndpoints h svc = map_option (\<lambda>endpointType.
     let name = km_Name (svc_Meta svc); ns = km_Namespace (svc_Meta svc) in
     if endpointType = ''discovery'' then Inr (List.map_filter (\<lambda>port.
          if sp_Name port = ''wan-port''
          then Some (hazelcastEndpointFromService (name @ ''-wan'') ns h HazelcastEndpointTypeWAN (sp_Port port))
          else if sp_Name port = ''hazelcast''
          then Some (hazelcastEndpointFromService name ns h HazelcastEndpointTypeDiscovery (sp_Port port))
          else None) (svc_Ports svc))
     else if endpointType = ''member''
     then Inr [hazelcastEndpointFromService name ns h HazelcastEndpointTypeMember (sp_Port clientPort)]
     else if endpointType = ''wan'' then Inr (map (\<lambda>(i, port).
          hazelcastEndpointFromService (if length (svc_Ports svc) > 1 then name @ ''-'' @ Itoa (int i) else name) ns h
            HazelcastEndpointTypeWAN (sp_Port port)) (List.enumerate 0 (svc_Ports svc)))
     else Inl (ErrOther (''service endpoint type label values '' @ [CHR 0x27] @ endpointType @ [CHR 0x27] @ '' is not matched'')))
     (km_Labels (svc_Meta svc) ServiceEndpointTypeLabelName)"

text \<open>The status of an endpoint, from the type of its service.\<close>

definition endpointPortName :: "HazelcastEndpointType \<Rightarrow> string" where
  "endpointPortName typ = (case typ of HazelcastEndpointTypeWAN \<Rightarrow> ''wan-port'' | _ \<Rightarrow> ''hazelcast'')"

definition withAddress :: "hz_env \<Rightarrow> (string \<rightharpoonup> string) \<Rightarrow> Service \<Rightarrow> HazelcastEndpoint \<Rightarrow> HazelcastEndpoint hz_proc" where
  "withAddress env nodeAddress svc e =
     (if svc_Type svc = ServiceTypeNodePort
      then bindA (observeA (\<lambda>t. hz_ListPodNodes env t (svc_Selector svc))) (\<lambda>pods.
           let address = (case pods of [] \<Rightarrow> ''*'' | p # _ \<Rightarrow> (case nodeAddress p of None \<Rightarrow> [] | Some a \<Rightarrow> a))
           in returnA (case filter (\<lambda>p. sp_Name p = endpointPortName (hes_Type (hep_Spec e))) (svc_Ports svc) of
                [] \<Rightarrow> e
              | port # _ \<Rightarrow> e\<lparr> hep_Address := address @ '':'' @ Itoa (sint (sp_NodePort port)) \<rparr>))
      else if svc_Type svc = ServiceTypeLoadBalancer
      then returnA (HazelcastEndpoint_SetAddress (GetExternalAddress svc) e)
      else returnA e)"

definition serviceOwner :: "Service \<Rightarrow> OwnerReference" where
  "serviceOwner svc = \<lparr> or_Kind = ''Service'', or_Name = km_Name (svc_Meta svc), or_UID = km_UID (svc_Meta svc) \<rparr>"

definition reconcileEndpoint :: "hz_env \<Rightarrow> (string \<rightharpoonup> string) \<Rightarrow> Service \<Rightarrow> HazelcastEndpoint \<Rightarrow> unit hz_proc" where
  "reconcileEndpoint env nodeAddress svc e =
     bindA (CreateOrUpdateForce env (KEndpoint (e\<lparr> hep_Meta := (hep_Meta e)\<lparr> km_Owners := [serviceOwner svc] \<rparr> \<rparr>)) keepObject) (\<lambda>ob.
     case ob of
       KEndpoint e1 \<Rightarrow> bindA (withAddress env nodeAddress svc e1) (\<lambda>e2. invokeA (hz_call env) (StatusUpdateObject (KEndpoint e2)))
     | _ \<Rightarrow> returnA ())"

definition reconcileServiceEndpoints :: "hz_env \<Rightarrow> Hazelcast \<Rightarrow> (string \<rightharpoonup> string) \<Rightarrow> Service \<Rightarrow> unit hz_proc" where
  "reconcileServiceEndpoints env h nodeAddress svc =
     (case serviceEndpoints h svc of
        None \<Rightarrow> returnA ()
      | Some (Inl e) \<Rightarrow> throwA e
      | Some (Inr es) \<Rightarrow> forA es (reconcileEndpoint env nodeAddress svc))"

text \<open>The names of the endpoints that belong to the services of the cluster; the others are deleted.\<close>

definition endpointNames :: "Hazelcast \<Rightarrow> Service list \<Rightarrow> string list" where
  "endpointNames h svcs = concat (map (\<lambda>svc. case serviceEndpoints h svc of
     Some (Inr es) \<Rightarrow> map (\<lambda>e. km_Name (hep_Meta e)) es | _ \<Rightarrow> []) svcs)"

definition reconcileHazelcastEndpoints :: "hz_env \<Rightarrow> Hazelcast \<Rightarrow> unit hz_proc" where
  "reconcileHazelcastEndpoints env h =
     bindA (if NodeDiscoveryEnabled env
            then bindA (observeA (hz_ListNodes env)) (\<lambda>nodes. returnA (map_of (rev (map (\<lambda>(n, as). (n, nodePublicAddress as)) nodes))))
            else returnA Map.empty) (\<lambda>nodeAddress.
     bindA (observeA (\<lambda>t. hz_ListServices env t (om_Namespace (h_Meta h)) (util_Labels h))) (\<lambda>svcs.
     bindA (forA svcs (reconcileServiceEndpoints env h nodeAddress)) (\<lambda>_.
     bindA (observeA (\<lambda>t. hz_ListEndpoints env t (om_Namespace (h_Meta h)) (util_Labels h))) (\<lambda>es.
     forA (filter (\<lambda>e. km_Name (hep_Meta e) \<notin> set (endpointNames h svcs)) es) (\<lambda>e.
       invokeA (hz_call env) (DeleteKube EndpointKind (object_key (KEndpoint e))))))))"

subsection \<open>Services of members that are gone\<close>

text \<open>\<^verbatim>\<open>strconv.Atoi\<close>: an optional sign and decimal digits, in the range of \<^verbatim>\<open>int\<close>.\<close>

fun digitsValue :: "nat \<Rightarrow> string \<Rightarrow> nat option" where
  "digitsValue acc [] = Some acc"
| "digitsValue acc (c # cs) =
     (if of_char c \<ge> (48 :: nat) \<and> of_char c \<le> (57 :: nat) then digitsValue (10 * acc + (of_char c - 48)) cs else None)"

definition Atoi :: "string \<Rightarrow> int option" where
  "Atoi s =
     (let (neg, ds) = (case s of c # cs \<Rightarrow> if c = CHR ''-'' then (True, cs) else if c = CHR ''+'' then (False, cs) else (False, s)
                       | [] \<Rightarrow> (False, []))
      in if ds = [] then None
         else Option.bind (digitsValue 0 ds) (\<lambda>v. let i = (if neg then - int v else int v)
              in if - (2 ^ 63) \<le> i \<and> i < 2 ^ 63 then Some i else None))"

definition removeServicePerPod :: "hz_env \<Rightarrow> Hazelcast \<Rightarrow> nat \<Rightarrow> unit hz_proc" where
  "removeServicePerPod env h i =
     (let key = \<lparr> nn_Name = servicePerPodName i h, nn_Namespace = om_Namespace (h_Meta h) \<rparr>
      in catchA (observeA (\<lambda>t. hz_Get env t ServiceKind key)) (\<lambda>e. if ErrIsNotFound e then returnA () else throwA e) (\<lambda>_.
         catchA (invokeA (hz_call env) (DeleteKube ServiceKind key)) (\<lambda>e. if ErrIsNotFound e then returnA () else throwA e) returnA))"

definition reconcileUnusedServicePerPod :: "hz_env \<Rightarrow> Hazelcast \<Rightarrow> unit hz_proc" where
  "reconcileUnusedServicePerPod env h =
     bindA (if Expose_IsSmart (hs_ExposeExternally (h_Spec h)) then memberCount h else returnA 0) (\<lambda>s.
     catchA (observeA (\<lambda>t. hz_ServicePerPodCount env t \<lparr> nn_Name = om_Name (h_Meta h), nn_Namespace = om_Namespace (h_Meta h) \<rparr>))
       (\<lambda>e. if ErrIsNotFound e then returnA () else throwA e) (\<lambda>annotation.
     case Atoi annotation of
       None \<Rightarrow> returnA ()
     | Some p \<Rightarrow> forA [s..<nat p] (removeServicePerPod env h)))"

text \<open>Whether the services of all members are ready: nested loops that stop at the first one that is not.\<close>

fun hostsResolve :: "hz_env \<Rightarrow> LoadBalancerIngress list \<Rightarrow> bool hz_proc" where
  "hostsResolve env [] = returnA True"
| "hostsResolve env (ing # is) =
     (if lbi_Hostname ing = [] then hostsResolve env is
      else bindA (observeA (\<lambda>t. Inr (hz_LookupHost env t (lbi_Hostname ing)))) (\<lambda>err.
           if err \<noteq> None then returnA False else hostsResolve env is))"

fun servicesReady :: "hz_env \<Rightarrow> Hazelcast \<Rightarrow> nat list \<Rightarrow> bool hz_proc" where
  "servicesReady env h [] = returnA True"
| "servicesReady env h (i # is) =
     tryA (observeA (\<lambda>t. hz_Get env t ServiceKind \<lparr> nn_Name = servicePerPodName i h, nn_Namespace = om_Namespace (h_Meta h) \<rparr>)) (\<lambda>r.
     case r of
       Inr (KService s) \<Rightarrow>
         if svc_Type s = ServiceTypeLoadBalancer
         then if svc_Ingress s = [] then returnA False
              else bindA (hostsResolve env (svc_Ingress s)) (\<lambda>ok. if ok then servicesReady env h is else returnA False)
         else servicesReady env h is
     | _ \<Rightarrow> returnA False)"

definition isServicePerPodReady :: "hz_env \<Rightarrow> Hazelcast \<Rightarrow> bool hz_proc" where
  "isServicePerPodReady env h =
     (if \<not> Expose_IsSmart (hs_ExposeExternally (h_Spec h)) then returnA True
      else bindA (memberCount h) (\<lambda>n. servicesReady env h [0..<n]))"

end
