(* ===== verification/Hazelcast_Deletion.thy ===== *)
theory Hazelcast_Deletion
  imports Cluster_Services Status
begin

text \<open>
  The deletion of a Hazelcast resource (\<^verbatim>\<open>executeFinalizer\<close>, \<^verbatim>\<open>deleteDependentCRs\<close> in
  \<^verbatim>\<open>hazelcast_resources.go\<close>, and the branch of \<^verbatim>\<open>Reconcile\<close> in \<^verbatim>\<open>hazelcast_controller.go\<close>): the structures that
  live on the cluster are deleted first, then the cluster-wide roles, the connections of the
  operator, and last the finalizer.
\<close>

subsection \<open>Dependents\<close>

text \<open>\<^verbatim>\<open>GetItems\<close> of the lists. The module is compiled as go 1.21, where the variable of a \<^verbatim>\<open>range\<close> loop is
  one variable for all iterations: \<^verbatim>\<open>&item\<close> points to the last item in every position. The other
  lists take the address of the element.\<close>

definition GetItems :: "dependent_kind \<Rightarrow> 'a list \<Rightarrow> 'a list" where
  "GetItems kind items =
     (if kind \<in> {DepMap, DepJetJob, DepUserCodeNamespace} then map (\<lambda>_. last items) items else items)"

fun kindText :: "dependent_kind \<Rightarrow> string" where
  "kindText DepMap = ''Map''"
| "kindText DepMultiMap = ''MultiMap''"
| "kindText DepTopic = ''Topic''"
| "kindText DepReplicatedMap = ''ReplicatedMap''"
| "kindText DepQueue = ''Queue''"
| "kindText DepCache = ''Cache''"
| "kindText DepJetJob = ''JetJob''"
| "kindText DepUserCodeNamespace = ''UserCodeNamespace''"

definition metaKey :: "ObjectMeta \<Rightarrow> NamespacedName" where
  "metaKey m = \<lparr> nn_Name = om_Name m, nn_Namespace = om_Namespace m \<rparr>"

definition deleteDependentCR :: "hz_env \<Rightarrow> Hazelcast \<Rightarrow> dependent_kind \<Rightarrow> unit hz_proc" where
  "deleteDependentCR env h kind =
     catchA (observeA (\<lambda>t. hz_ListDependents env t kind (metaKey (h_Meta h))))
       (\<lambda>e. throwA (wrapErr (''could not get Hazelcast dependent '' @ kindText kind @ '' resources '') e)) (\<lambda>items.
     if GetItems kind items = [] then returnA ()
     else bindA (observeA (\<lambda>t. Inr (hz_rangeObjects env t (GetItems kind items)))) (\<lambda>dsItems.
          catchA (groupA (map (\<lambda>m.
              if om_DeletionTimestamp m = None then DeleteObject (invokeA (hz_call env) (DeleteDependent kind (metaKey m)))
              else returnA ()) dsItems))
            (\<lambda>e. throwA (wrapErr (''error deleting '' @ kindText kind @ '' resources '') e)) (\<lambda>_.
          catchA (observeA (\<lambda>t. hz_ListDependents env t kind (metaKey (h_Meta h))))
            (\<lambda>e. throwA (wrapErr (''hazelcast dependent '' @ kindText kind @ '' resources are not deleted yet '') e)) (\<lambda>items'.
          if GetItems kind items' \<noteq> []
          then throwA (ErrOther (''hazelcast dependent '' @ kindText kind @ '' resources are not deleted yet''))
          else returnA ()))))"

definition deleteDependentCRs :: "hz_env \<Rightarrow> Hazelcast \<Rightarrow> unit hz_proc" where
  "deleteDependentCRs env h = bindA (observeA (\<lambda>t. Inr (hz_rangeKinds env t))) (\<lambda>kinds. forA kinds (deleteDependentCR env h))"

subsection \<open>Registries\<close>

text \<open>\<^verbatim>\<open>Delete\<close> of the three registries (\<^verbatim>\<open>client_registry.go\<close>, \<^verbatim>\<open>status_service_registry.go\<close>, \<^verbatim>\<open>mtls/client_registry.go\<close>).
  Stopping a status service does not fail.\<close>

definition statusServiceRegistry_Delete :: "hz_env \<Rightarrow> NamespacedName \<Rightarrow> unit hz_proc" where
  "statusServiceRegistry_Delete env nn =
     bindA (stateA (\<lambda>s. nn \<in> hzr_statusServices s)) (\<lambda>found.
     bindA (changeA (\<lambda>s. s\<lparr> hzr_statusServices := hzr_statusServices s - {nn} \<rparr>)) (\<lambda>_.
     if found then tryA (invokeA (hz_call env) (StopStatusService nn)) (\<lambda>_. returnA ()) else returnA ()))"

definition mtlsClientRegistry_Delete :: "string \<Rightarrow> unit hz_proc" where
  "mtlsClientRegistry_Delete ns = changeA (\<lambda>s. s\<lparr> hzr_mtlsClients := hzr_mtlsClients s - {ns} \<rparr>)"

definition clientRegistry_Delete :: "hz_env \<Rightarrow> NamespacedName \<Rightarrow> unit hz_proc" where
  "clientRegistry_Delete env nn =
     bindA (stateA (\<lambda>s. nn \<in> hzr_clients s)) (\<lambda>found.
     bindA (changeA (\<lambda>s. s\<lparr> hzr_clients := hzr_clients s - {nn} \<rparr>)) (\<lambda>_.
     if found then invokeA (hz_call env) (ShutdownClient nn) else returnA ()))"

subsection \<open>Finalizer\<close>

text \<open>The work before the finalizer is removed.\<close>

definition cleanupHz :: "hz_env \<Rightarrow> Hazelcast \<Rightarrow> unit hz_proc" where
  "cleanupHz env h =
     catchA (deleteDependentCRs env h) (\<lambda>e. throwA (wrapErr ''Could not delete all dependent CRs: '' e)) (\<lambda>_.
     bindA (if NodeDiscoveryEnabled env
            then catchA (removeClusterRole env h) (\<lambda>e. throwA (wrapErr ''ClusterRole could not be removed: '' e)) (\<lambda>_.
                 catchA (removeClusterRoleBinding env h) (\<lambda>e. throwA (wrapErr ''ClusterRoleBinding could not be removed: '' e)) returnA)
            else returnA ()) (\<lambda>_.
     bindA (statusServiceRegistry_Delete env (metaKey (h_Meta h))) (\<lambda>_.
     bindA (mtlsClientRegistry_Delete (om_Namespace (h_Meta h))) (\<lambda>_.
     catchA (clientRegistry_Delete env (metaKey (h_Meta h)))
       (\<lambda>e. throwA (wrapErr ''Hazelcast client could not be deleted:  '' e)) returnA))))"

text \<open>The result has the object at hand: the finalizer is gone from it when only the last update failed.\<close>

definition hz_executeFinalizer :: "hz_env \<Rightarrow> Hazelcast \<Rightarrow> (Hazelcast \<times> go_error option) hz_proc" where
  "hz_executeFinalizer env h =
     (if \<not> ContainsFinalizer (h_Meta h) Finalizer then returnA (h, None)
      else catchA (cleanupHz env h) (\<lambda>e. returnA (h, Some e)) (\<lambda>_.
           let h' = h\<lparr> h_Meta := RemoveFinalizer (h_Meta h) Finalizer \<rparr>
           in catchA (invokeA (hz_call env) (UpdateHz h'))
                (\<lambda>e. returnA (h', Some (wrapErr ''failed to remove finalizer from custom resource: '' e))) (\<lambda>_. returnA (h', None))))"

definition hz_updateA :: "hz_env \<Rightarrow> Hazelcast \<Rightarrow> ReconcilerOption \<Rightarrow> HzStatusApplier list \<Rightarrow>
    ((Result \<times> go_error option) \<times> Hazelcast) hz_proc" where
  "hz_updateA env h opt as =
     (let h' = h\<lparr> h_Status := fold HzStatusApply as (h_Status h) \<rparr>
      in tryA (invokeA (hz_call env) (StatusUpdateHz h')) (\<lambda>r.
           returnA (fst (HazelcastReconciler_update (\<lambda>_. case r of Inl e \<Rightarrow> Some e | Inr _ \<Rightarrow> None) h opt as), h')))"

text \<open>The branch of \<^verbatim>\<open>Reconcile\<close> for a resource that is being deleted. The error of the first status
  update is dropped.\<close>

definition reconcileDeletion :: "hz_env \<Rightarrow> Hazelcast \<Rightarrow> (Result \<times> go_error option) hz_proc" where
  "reconcileDeletion env h =
     bindA (hz_updateA env h ro_empty [withHzPhase Terminating]) (\<lambda>(_, h1).
     bindA (hz_executeFinalizer env h1) (\<lambda>(h2, err). case err of
       Some e \<Rightarrow> bindA (hz_updateA env h2 (ro_error e) [withHzPhase Terminating, withHzMessage (error_text e)]) (\<lambda>(r, _). returnA r)
     | None \<Rightarrow> returnA (ResultZero, None)))"

end
