(* ===== verification/Deletion_Safety.thy ===== *)
theory Deletion_Safety
  imports Hazelcast_Deletion Traced Samples
begin

text \<open>
  What the deletion of a Hazelcast resource guarantees: the finalizer is given up last, after
  everything that lives on the cluster is gone. And how many dependents one pass deletes.
\<close>

subsection \<open>Helpers\<close>

lemma catch_throw_Inr:
  "catchA m (\<lambda>e. throwA (g e)) k w = (Inr y, w'') \<longleftrightarrow> (\<exists>x w'. m w = (Inr x, w') \<and> k x w' = (Inr y, w''))"
  by (cases "m w"; cases "fst (m w)") (auto simp: catchA_def action_simps split: go_error.splits)

lemma forA_success:
  assumes "forA xs f w = (Inr u, w')" and "x \<in> set xs" and "\<And>x. only_calls Q (f x)"
  shows "\<exists>w1 v w2 evs. f x w1 = (Inr v, w2) \<and> cw_trace w' = cw_trace w2 @ evs"
  using assms(1,2)
proof (induction xs arbitrary: w)
  case (Cons y ys)
  then obtain v w1 where run: "f y w = (Inr v, w1)" "forA ys f w1 = (Inr u, w')" by (auto simp: bindA_Inr_iff)
  have "only_calls Q (forA ys f)" by (intro kept assms(3))
  from only_calls_grows [OF this, of w1] run(2) have "\<exists>evs. cw_trace w' = cw_trace w1 @ evs" by simp
  with Cons run show ?case by auto
qed simp

definition quiet :: "hz_call \<Rightarrow> bool" where
  "quiet c \<longleftrightarrow> (\<forall>x. c \<noteq> UpdateHz x)"

lemma quiet_simps [simp]:
  "quiet (CreateObject ob)" "quiet (UpdateObject ob)" "quiet (DeleteKube k q)" "quiet (StatusUpdateObject ob)" "quiet (StatusUpdateHz h)"
  "quiet (DeleteDependent d q)" "quiet (StopStatusService q)" "quiet (ShutdownClient q)"
  by (simp_all add: quiet_def)

lemma deletion_quiet [kept]:
  "only_calls quiet (deleteDependentCR env h kind)" "only_calls quiet (removeClusterRole env h)"
  "only_calls quiet (removeClusterRoleBinding env h)" "only_calls quiet (statusServiceRegistry_Delete env nn)"
  "only_calls quiet (mtlsClientRegistry_Delete ns)" "only_calls quiet (clientRegistry_Delete env nn)"
  "only_calls quiet (hz_updateA env h opt as)"
  by (auto simp: deleteDependentCR_def removeClusterRole_def removeClusterRoleBinding_def removeCluster_def
      statusServiceRegistry_Delete_def mtlsClientRegistry_Delete_def clientRegistry_Delete_def hz_updateA_def Let_def
      intro!: kept split: sum.split)

lemma cleanupHz_quiet [kept]: "only_calls quiet (cleanupHz env h)"
  unfolding cleanupHz_def deleteDependentCRs_def by (auto intro!: kept)

subsection \<open>What the clean-up leaves\<close>

text \<open>\<open>during\<close>: something was observed at a moment of the run that left the trace.\<close>

definition during :: "hz_call trace \<Rightarrow> (hz_call moment \<Rightarrow> bool) \<Rightarrow> bool" where
  "during tr P \<longleftrightarrow> (\<exists>n pre post. tr = pre @ post \<and> P (n, pre))"

lemma during_grows: "during tr P \<Longrightarrow> during (tr @ evs) P"
  unfolding during_def by force

lemma during_now: "P (moment v) \<Longrightarrow> cw_trace v = tr \<Longrightarrow> during tr P"
  unfolding during_def moment_def by (metis append_Nil2)

definition dependentsGone :: "hz_env \<Rightarrow> Hazelcast \<Rightarrow> dependent_kind \<Rightarrow> hz_call trace \<Rightarrow> bool" where
  "dependentsGone env h kind tr \<longleftrightarrow> during tr (\<lambda>t. hz_ListDependents env t kind (metaKey (h_Meta h)) = Inr [])"

lemma dependentsGone_grows: "dependentsGone env h kind tr \<Longrightarrow> dependentsGone env h kind (tr @ evs)"
  by (simp add: dependentsGone_def during_grows)

lemma deleteDependentCR_gone:
  assumes "deleteDependentCR env h kind w = (Inr u, w')"
  shows "dependentsGone env h kind (cw_trace w')"
proof -
  have empty: "GetItems kind items = [] \<longleftrightarrow> items = []" for items :: "ObjectMeta list" by (simp add: GetItems_def)
  have seen: "dependentsGone env h kind (cw_trace w1)" if "hz_ListDependents env (moment v) kind (metaKey (h_Meta h)) = Inr []" "cw_trace v = cw_trace w1"
    for v w1 :: "(HazelcastReconciler, hz_call) world"
    unfolding dependentsGone_def using that by (intro during_now)
  show ?thesis
    using assms unfolding deleteDependentCR_def catch_throw_Inr
    by (auto simp: action_simps empty bindA_Inr_iff catch_throw_Inr intro: seen simp del: split_paired_Ex split: if_splits)
qed

text \<open>\<open>roleGone\<close>: the cluster-wide object was deleted, or was not there. The API server refuses a
  deletion without a name, which \<open>refusesNameless\<close> states.\<close>

definition roleGone :: "hz_env \<Rightarrow> Hazelcast \<Rightarrow> kube_kind \<Rightarrow> hz_call trace \<Rightarrow> bool" where
  "roleGone env h kind tr \<longleftrightarrow>
     during tr (\<lambda>t. \<exists>e. hz_Get env t kind \<lparr> nn_Name = Hazelcast_ClusterScopedName h, nn_Namespace = [] \<rparr> = Inl e \<and> ErrIsNotFound e) \<or>
     (DeleteKube kind \<lparr> nn_Name = Hazelcast_ClusterScopedName h, nn_Namespace = [] \<rparr>, True) \<in> set tr"

definition refusesNameless :: "hz_env \<Rightarrow> bool" where
  "refusesNameless env \<longleftrightarrow> (\<forall>t kind ns. hz_call env t (DeleteKube kind \<lparr> nn_Name = [], nn_Namespace = ns \<rparr>) \<noteq> None)"

lemma removeCluster_gone:
  assumes "removeCluster env kind p h w = (Inr u, w')" and "refusesNameless env"
  shows "roleGone env h kind (cw_trace w')"
proof -
  have named: "hz_call env t (DeleteKube kind \<lparr> nn_Name = [], nn_Namespace = [] \<rparr>) = None \<Longrightarrow> False" for t
    using assms(2) unfolding refusesNameless_def by blast
  have seen: "roleGone env h kind (cw_trace w)"
    if "hz_Get env (moment w) kind \<lparr> nn_Name = Hazelcast_ClusterScopedName h, nn_Namespace = [] \<rparr> = Inl e" "ErrIsNotFound e" for e
    unfolding roleGone_def using that by (intro disjI1 during_now [of _ w]) simp_all
  have deleted: "roleGone env h kind (tr @ [(DeleteKube kind \<lparr> nn_Name = Hazelcast_ClusterScopedName h, nn_Namespace = [] \<rparr>, True)])" for tr
    by (simp add: roleGone_def)
  show ?thesis
    using assms(1) unfolding removeCluster_def Let_def
    by (auto simp: action_simps catch_throw_Inr invokeA_def dest: named intro: seen deleted
        simp del: split_paired_Ex split: sum.splits if_splits option.splits)
qed

text \<open>The state of the world when the finalizer may go.\<close>

definition cleanedUp :: "hz_env \<Rightarrow> Hazelcast \<Rightarrow> HazelcastReconciler \<Rightarrow> hz_call trace \<Rightarrow> bool" where
  "cleanedUp env h s tr \<longleftrightarrow>
     (\<forall>kind. dependentsGone env h kind tr) \<and>
     (NodeDiscoveryEnabled env \<longrightarrow> roleGone env h ClusterRoleKind tr \<and> roleGone env h ClusterRoleBindingKind tr) \<and>
     (metaKey (h_Meta h) \<in> hzr_statusServices s \<longrightarrow> StopStatusService (metaKey (h_Meta h)) \<in> fst ` set tr) \<and>
     (metaKey (h_Meta h) \<in> hzr_clients s \<longrightarrow> (ShutdownClient (metaKey (h_Meta h)), True) \<in> set tr)"

lemma roleGone_grows: "roleGone env h kind tr \<Longrightarrow> roleGone env h kind (tr @ evs)"
  unfolding roleGone_def by (auto intro: during_grows)

lemma registries_closed:
  assumes "statusServiceRegistry_Delete env nn w = (Inr u, w1)" and "mtlsClientRegistry_Delete ns w1 = (Inr v, w2)"
    and "clientRegistry_Delete env nn w2 = (Inr x, w3)"
  shows "(nn \<in> hzr_statusServices (cw_state w) \<longrightarrow> StopStatusService nn \<in> fst ` set (cw_trace w3)) \<and>
    (nn \<in> hzr_clients (cw_state w) \<longrightarrow> (ShutdownClient nn, True) \<in> set (cw_trace w3)) \<and>
    (\<exists>evs. cw_trace w3 = cw_trace w @ evs)"
  using assms
  by (auto simp: statusServiceRegistry_Delete_def mtlsClientRegistry_Delete_def clientRegistry_Delete_def action_simps
      invokeA_def image_iff split: if_splits option.splits)

lemma deletes_keep [kept]:
  "preserves (\<lambda>w. P (cw_state w)) (deleteDependentCR env h kind)"
  "preserves (\<lambda>w. P (cw_state w)) (removeClusterRole env h)" "preserves (\<lambda>w. P (cw_state w)) (removeClusterRoleBinding env h)"
  unfolding deleteDependentCR_def removeClusterRole_def removeClusterRoleBinding_def removeCluster_def Let_def
  by (auto intro!: kept split: sum.split)

lemma deleteDependentCRs_keeps [kept]: "preserves (\<lambda>w. P (cw_state w)) (deleteDependentCRs env h)"
  unfolding deleteDependentCRs_def by (intro kept)

lemma deletes_keep_state:
  "cw_state (snd (deleteDependentCRs env h w)) = cw_state w"
  "cw_state (snd (removeClusterRole env h w)) = cw_state w" "cw_state (snd (removeClusterRoleBinding env h w)) = cw_state w"
  by (rule same_state, rule kept)+

lemma deleteDependentCRs_gone:
  assumes "deleteDependentCRs env h w = (Inr u, w')" and "\<And>t. set (hz_rangeKinds env t) = UNIV"
  shows "dependentsGone env h kind (cw_trace w')"
proof -
  have "forA (hz_rangeKinds env (moment w)) (deleteDependentCR env h) (w\<lparr> cw_reads := Suc (cw_reads w) \<rparr>) = (Inr u, w')"
    using assms(1) by (simp add: deleteDependentCRs_def action_simps)
  from forA_success [OF this, of kind] assms(2) deletion_quiet(1)
  obtain w1 v w2 evs where "deleteDependentCR env h kind w1 = (Inr v, w2)" "cw_trace w' = cw_trace w2 @ evs" by blast
  with deleteDependentCR_gone dependentsGone_grows show ?thesis by metis
qed

lemma rolesRemoved:
  assumes "(if NodeDiscoveryEnabled env
            then catchA (removeClusterRole env h) (\<lambda>e. throwA (wrapErr ''ClusterRole could not be removed: '' e)) (\<lambda>_.
                 catchA (removeClusterRoleBinding env h) (\<lambda>e. throwA (wrapErr ''ClusterRoleBinding could not be removed: '' e)) returnA)
            else returnA ()) w = (Inr u, w')"
    and "refusesNameless env"
  shows "cw_state w' = cw_state w \<and> (\<exists>evs. cw_trace w' = cw_trace w @ evs) \<and>
    (NodeDiscoveryEnabled env \<longrightarrow> roleGone env h ClusterRoleKind (cw_trace w') \<and> roleGone env h ClusterRoleBindingKind (cw_trace w'))"
proof (cases "NodeDiscoveryEnabled env")
  case True
  with assms(1) obtain v w1 x where run: "removeClusterRole env h w = (Inr v, w1)" "removeClusterRoleBinding env h w1 = (Inr x, w')"
    by (auto simp: catch_throw_Inr action_simps)
  have "cw_state w' = cw_state w" using deletes_keep_state(2,3) run by (metis snd_conv)
  moreover have "roleGone env h ClusterRoleKind (cw_trace w1)" "roleGone env h ClusterRoleBindingKind (cw_trace w')"
    using run assms(2) by (auto simp: removeClusterRole_def removeClusterRoleBinding_def intro: removeCluster_gone)
  moreover obtain evs where "cw_trace w' = cw_trace w1 @ evs"
    using only_calls_grows [OF deletion_quiet(3)] run(2) by (metis snd_conv)
  moreover obtain evs' where "cw_trace w1 = cw_trace w @ evs'"
    using only_calls_grows [OF deletion_quiet(2)] run(1) by (metis snd_conv)
  ultimately show ?thesis using roleGone_grows by (metis append.assoc)
qed (use assms(1) in \<open>auto simp: action_simps\<close>)

lemma cleanupHz_cleans:
  assumes "cleanupHz env h w = (Inr u, w')" and "\<And>t. set (hz_rangeKinds env t) = UNIV" and "refusesNameless env"
  shows "cleanedUp env h (cw_state w) (cw_trace w')"
proof -
  let ?nn = "metaKey (h_Meta h)"
  from assms(1) obtain u1 u2 u3 u4 u5 w1 w2 w3 w4 where
    deps: "deleteDependentCRs env h w = (Inr u1, w1)" and
    roles: "(if NodeDiscoveryEnabled env
            then catchA (removeClusterRole env h) (\<lambda>e. throwA (wrapErr ''ClusterRole could not be removed: '' e)) (\<lambda>_.
                 catchA (removeClusterRoleBinding env h) (\<lambda>e. throwA (wrapErr ''ClusterRoleBinding could not be removed: '' e)) returnA)
            else returnA ()) w1 = (Inr u2, w2)" and
    regs: "statusServiceRegistry_Delete env ?nn w2 = (Inr u3, w3)" "mtlsClientRegistry_Delete (om_Namespace (h_Meta h)) w3 = (Inr u4, w4)"
      "clientRegistry_Delete env ?nn w4 = (Inr u5, w')"
    unfolding cleanupHz_def catch_throw_Inr bindA_Inr_iff by (fastforce simp: action_simps)
  note gone = deleteDependentCRs_gone [OF deps assms(2)] and rolesGone = rolesRemoved [OF roles assms(3)] and
    closed = registries_closed [OF regs]
  have "cw_state w1 = cw_state w" using deletes_keep_state(1) deps by (metis snd_conv)
  with gone rolesGone closed roleGone_grows dependentsGone_grows show ?thesis unfolding cleanedUp_def by metis
qed

lemma hz_updateA_run:
  assumes "hz_updateA env h opt as w = (Inr (r, h1), w1)"
  shows "h_Meta h1 = h_Meta h \<and> cw_state w1 = cw_state w"
  using assms by (auto simp: hz_updateA_def Let_def action_simps tryA_def invokeA_def split: option.splits)

lemma cleanedUp_meta: "h_Meta h1 = h_Meta h \<Longrightarrow> cleanedUp env h1 s tr \<longleftrightarrow> cleanedUp env h s tr"
  by (simp add: cleanedUp_def roleGone_def dependentsGone_def Hazelcast_ClusterScopedName_def)

lemma quietI: "only_calls quiet m \<Longrightarrow> traced (\<lambda>tr c. quiet c \<or> P tr) m w"
  by (erule traced_only) simp

lemma hz_executeFinalizer_last:
  assumes "\<And>t. set (hz_rangeKinds env t) = UNIV" and "refusesNameless env"
  shows "traced (\<lambda>tr c. quiet c \<or> cleanedUp env h (cw_state w) tr) (hz_executeFinalizer env h) w"
proof -
  have cleaned: "cleanedUp env h (cw_state w) (cw_trace w1)" if "cleanupHz env h w = (Inr u, w1)" for u w1
    using cleanupHz_cleans [OF that] assms by blast
  show ?thesis unfolding hz_executeFinalizer_def Let_def
    by (rule traced_if, rule quietI, rule kept, rule traced_catchA [OF quietI [OF cleanupHz_quiet] quietI], rule kept,
        rule traced_catchA [OF traced_invokeA quietI quietI]) (auto dest: cleaned intro: kept)
qed

lemma reconcileDeletion_last:
  assumes "\<And>t. set (hz_rangeKinds env t) = UNIV" and "refusesNameless env"
  shows "traced (\<lambda>tr c. quiet c \<or> cleanedUp env h (cw_state w) tr) (reconcileDeletion env h) w"
  unfolding reconcileDeletion_def
proof (rule traced_bindA [OF traced_only [OF deletion_quiet(7)]])
  fix p w1
  assume run: "hz_updateA env h ro_empty [withHzPhase Terminating] w = (Inr p, w1)"
  obtain r h1 where p: "p = (r, h1)" by (cases p)
  with run have same: "h_Meta h1 = h_Meta h" "cw_state w1 = cw_state w" using hz_updateA_run by blast+
  have "traced (\<lambda>tr c. quiet c \<or> cleanedUp env h (cw_state w) tr) (bindA (hz_executeFinalizer env h1) k) w1"
    if "\<And>x. only_calls quiet (k x)" for k :: "Hazelcast \<times> go_error option \<Rightarrow> (Result \<times> go_error option) hz_proc"
  proof (rule traced_bindA)
    show "traced (\<lambda>tr c. quiet c \<or> cleanedUp env h (cw_state w) tr) (hz_executeFinalizer env h1) w1"
      using hz_executeFinalizer_last [OF assms, of h1 w1] same cleanedUp_meta [OF same(1)] by simp
  qed (rule quietI, rule that)
  then show "traced (\<lambda>tr c. quiet c \<or> cleanedUp env h (cw_state w) tr) ((\<lambda>(_, h1). bindA (hz_executeFinalizer env h1) (\<lambda>(h2, err).
      case err of
       Some e \<Rightarrow> bindA (hz_updateA env h2 (ro_error e) [withHzPhase Terminating, withHzMessage (error_text e)]) (\<lambda>(r, _). returnA r)
     | None \<Rightarrow> returnA (ResultZero, None))) p) w1"
    unfolding p prod.case by this (auto intro!: kept split: option.split)
qed simp

text \<open>C12: A cluster disappears last. While a deleted Hazelcast resource is reconciled, the update that gives up
  its finalizer comes only after every kind of dependent resource was seen to be gone, the
  cluster-wide roles were removed or not there, and the status service and the client of the
  cluster were stopped, whatever fails on the way.\<close>

theorem hazelcast_finalizer_last:
  assumes "reconcileDeletion env h w = (r, w')" and "cw_trace w = []" and "cw_trace w' = pre @ (UpdateHz x, b) # post"
    and "\<And>t. set (hz_rangeKinds env t) = UNIV" and "refusesNameless env"
  shows "cleanedUp env h (cw_state w) pre"
  using tracedD [OF reconcileDeletion_last [OF assms(4,5)] assms(1), of pre "UpdateHz x" b post] assms(2,3)
  by (simp add: quiet_def)

subsection \<open>One dependent per pass\<close>

lemma deleteDependentCR_last:
  assumes "kind \<in> {DepMap, DepJetJob, DepUserCodeNamespace}"
    and "hz_ListDependents env (moment w) kind (metaKey (h_Meta h)) = Inr items"
    and "\<And>t xs. set (hz_rangeObjects env t xs) \<subseteq> set xs"
  shows "calls_at (\<lambda>c. c = DeleteDependent kind (metaKey (last items))) (deleteDependentCR env h kind) w"
proof -
  have same: "m = last items" if "m \<in> set (hz_rangeObjects env t (GetItems kind items))" for m t
    using assms(1,3) that by (fastforce simp: GetItems_def)
  have group: "only_calls (\<lambda>c. c = DeleteDependent kind (metaKey (last items))) (groupA (map (\<lambda>m.
      if om_DeletionTimestamp m = None then DeleteObject (invokeA (hz_call env) (DeleteDependent kind (metaKey m))) else returnA ())
        (hz_rangeObjects env t (GetItems kind items))))" for t
    by (auto intro!: kept dest: same)
  show ?thesis unfolding deleteDependentCR_def
  proof (rule calls_at_catchA)
    fix its w1
    assume "observeA (\<lambda>t. hz_ListDependents env t kind (metaKey (h_Meta h))) w = (Inr its, w1)"
    with assms(2) have [simp]: "its = items" by simp
    show "calls_at (\<lambda>c. c = DeleteDependent kind (metaKey (last items)))
       (if GetItems kind its = [] then returnA ()
        else bindA (observeA (\<lambda>t. Inr (hz_rangeObjects env t (GetItems kind its)))) (\<lambda>dsItems.
          catchA (groupA (map (\<lambda>m.
              if om_DeletionTimestamp m = None then DeleteObject (invokeA (hz_call env) (DeleteDependent kind (metaKey m)))
              else returnA ()) dsItems))
            (\<lambda>e. throwA (wrapErr (''error deleting '' @ kindText kind @ '' resources '') e)) (\<lambda>_.
          catchA (observeA (\<lambda>t. hz_ListDependents env t kind (metaKey (h_Meta h))))
            (\<lambda>e. throwA (wrapErr (''hazelcast dependent '' @ kindText kind @ '' resources are not deleted yet '') e)) (\<lambda>items'.
          if GetItems kind items' \<noteq> []
          then throwA (ErrOther (''hazelcast dependent '' @ kindText kind @ '' resources are not deleted yet''))
          else returnA ())))) w1"
    proof (cases "GetItems kind items = []")
      case True
      then show ?thesis by (simp add: calls_at_only only_calls_basic)
    next
      case False
      then have nonempty: "(if GetItems kind its = [] then m else n) = n" for m n :: "unit hz_proc" by simp
      show ?thesis unfolding nonempty
      proof (rule calls_at_bindA [OF calls_at_only [OF only_calls_basic(3)] calls_at_only])
        fix dsItems w2
        assume "observeA (\<lambda>t. Inr (hz_rangeObjects env t (GetItems kind its))) w1 = (Inr dsItems, w2)"
        then have ds: "dsItems = hz_rangeObjects env (moment w1) (GetItems kind items)" by simp
        show "only_calls (\<lambda>c. c = DeleteDependent kind (metaKey (last items)))
          (catchA (groupA (map (\<lambda>m.
              if om_DeletionTimestamp m = None then DeleteObject (invokeA (hz_call env) (DeleteDependent kind (metaKey m)))
              else returnA ()) dsItems))
            (\<lambda>e. throwA (wrapErr (''error deleting '' @ kindText kind @ '' resources '') e)) (\<lambda>_.
          catchA (observeA (\<lambda>t. hz_ListDependents env t kind (metaKey (h_Meta h))))
            (\<lambda>e. throwA (wrapErr (''hazelcast dependent '' @ kindText kind @ '' resources are not deleted yet '') e)) (\<lambda>items'.
          if GetItems kind items' \<noteq> []
          then throwA (ErrOther (''hazelcast dependent '' @ kindText kind @ '' resources are not deleted yet''))
          else returnA ())))"
          unfolding ds by (rule only_calls_catchA [OF group]) (auto intro!: kept)
      qed
    qed
  qed (rule calls_at_only, rule kept)+
qed

text \<open>One pass of the clean-up asks for the deletion of one map only. The list of the maps of a cluster (and
  those of its jobs and of its user code namespaces) is turned into a list of pointers to the
  loop variable, so every position holds the last item: however many maps there are, a pass asks
  for the deletion of the last one and leaves the others alone.\<close>

theorem one_dependent_per_pass:
  assumes "kind \<in> {DepMap, DepJetJob, DepUserCodeNamespace}"
    and "hz_ListDependents env (moment w) kind (metaKey (h_Meta h)) = Inr items"
    and "\<And>t xs. set (hz_rangeObjects env t xs) \<subseteq> set xs"
    and "deleteDependentCR env h kind w = (r, w')" and "cw_trace w' = cw_trace w @ evs"
  shows "fst ` set evs \<subseteq> {DeleteDependent kind (metaKey (last items))}"
  using deleteDependentCR_last [OF assms(1-3)] assms(4,5) by (auto simp: calls_at_def)

subsection \<open>Witnesses\<close>

text \<open>A quiet cluster: every call succeeds and every list is empty. \<open>twoMaps\<close>: two maps live on it.\<close>

definition kube_ok :: hz_env where
  "kube_ok = \<lparr> hz_call = (\<lambda>_ c. case c of DeleteKube _ n \<Rightarrow> if nn_Name n = [] then Some (ErrOther ''name'') else None | _ \<Rightarrow> None), hz_GetHazelcast = (\<lambda>_ _. Inr sample_hazelcast), hz_Get = (\<lambda>_ _ _. Inl (ErrNotFound ''missing'')),
     hz_ListDependents = (\<lambda>_ _ _. Inr []), hz_ListServices = (\<lambda>_ _ _. Inr []), hz_ListEndpoints = (\<lambda>_ _ _. Inr []),
     hz_ListNodes = (\<lambda>_. Inr []), hz_ListPodNodes = (\<lambda>_ _. Inr []), hz_ServicePerPodCount = (\<lambda>_ _. Inr ''3''),
     hz_LookupHost = (\<lambda>_ _. None), hz_rangeKinds = (\<lambda>_. [DepMap, DepMultiMap, DepTopic, DepReplicatedMap, DepQueue, DepCache,
       DepJetJob, DepUserCodeNamespace]), hz_rangeObjects = (\<lambda>_ xs. xs), hz_LookupEnv = (\<lambda>_. Some ''false'') \<rparr>"

definition twoMaps :: hz_env where
  "twoMaps = kube_ok\<lparr> hz_ListDependents := (\<lambda>_ _ _. Inr [sample_meta\<lparr> om_Name := ''m1'' \<rparr>, sample_meta\<lparr> om_Name := ''m2'' \<rparr>]) \<rparr>"

definition deletedHz :: Hazelcast where
  "deletedHz = sample_hazelcast\<lparr> h_Meta := sample_meta\<lparr> om_Finalizers := [Finalizer], om_DeletionTimestamp := Some 1 \<rparr> \<rparr>"

definition registered :: "(HazelcastReconciler, hz_call) world" where
  "registered = \<lparr> cw_state = \<lparr> hzr_clients = {metaKey sample_meta}, hzr_statusServices = {metaKey sample_meta}, hzr_mtlsClients = {} \<rparr>,
     cw_reads = 0, cw_trace = [] \<rparr>"

lemma kinds_all: "set (hz_rangeKinds kube_ok t) = UNIV"
  by (auto simp: kube_ok_def intro: dependent_kind.exhaust)

theorem one_dependent_per_pass_witness:
  "fst ` set (cw_trace (snd (deleteDependentCR twoMaps sample_hazelcast DepMap registered)))
     \<subseteq> {DeleteDependent DepMap \<lparr> nn_Name = ''m2'', nn_Namespace = ''default'' \<rparr>} \<and>
   length (cw_trace (snd (deleteDependentCR twoMaps sample_hazelcast DepMap registered))) = 2"
  using one_dependent_per_pass [of DepMap twoMaps registered sample_hazelcast
      "[sample_meta\<lparr> om_Name := ''m1'' \<rparr>, sample_meta\<lparr> om_Name := ''m2'' \<rparr>]"
      "fst (deleteDependentCR twoMaps sample_hazelcast DepMap registered)" "snd (deleteDependentCR twoMaps sample_hazelcast DepMap registered)"
      "cw_trace (snd (deleteDependentCR twoMaps sample_hazelcast DepMap registered))"]
  by (simp add: twoMaps_def kube_ok_def registered_def sample_defs metaKey_def GetItems_def deleteDependentCR_def catchA_def action_simps
      DeleteObject_def invokeA_def moment_def)

lemma deletion_run:
  "\<exists>x pre. cw_trace (snd (reconcileDeletion kube_ok deletedHz registered)) = pre @ [(UpdateHz x, True)]"
  by (simp add: kube_ok_def registered_def deletedHz_def sample_meta_def metaKey_def GetItems_def NodeDiscoveryEnabled_def
      reconcileDeletion_def hz_updateA_def hz_executeFinalizer_def cleanupHz_def deleteDependentCRs_def deleteDependentCR_def
      statusServiceRegistry_Delete_def mtlsClientRegistry_Delete_def clientRegistry_Delete_def ContainsFinalizer_def
      catchA_def action_simps Let_def invokeA_def moment_def)

theorem hazelcast_finalizer_last_witness:
  "\<exists>x pre. cw_trace (snd (reconcileDeletion kube_ok deletedHz registered)) = pre @ [(UpdateHz x, True)] \<and>
     cleanedUp kube_ok deletedHz (cw_state registered) pre"
proof -
  obtain x pre where "cw_trace (snd (reconcileDeletion kube_ok deletedHz registered)) = pre @ (UpdateHz x, True) # []"
    using deletion_run by blast
  moreover have "refusesNameless kube_ok" "cw_trace registered = []"
    by (simp_all add: refusesNameless_def kube_ok_def registered_def)
  ultimately show ?thesis
    using hazelcast_finalizer_last [OF surjective_pairing _ _ kinds_all] by blast
qed

end
