(* ===== verification/Services_Safety.thy ===== *)
theory Services_Safety
  imports Deletion_Safety
begin

text \<open>
  What the services of a cluster guarantee: a service that is as wanted is left alone, one that is
  not is brought there by one update that keeps what the API server allocated; the services that
  are removed are those of members that are gone.
\<close>

subsection \<open>Numerals\<close>

text \<open>\<^verbatim>\<open>strconv.Atoi\<close> reads what \<^verbatim>\<open>strconv.Itoa\<close> writes.\<close>

lemma digitsValue_append: "digitsValue acc (xs @ ys) = Option.bind (digitsValue acc xs) (\<lambda>v. digitsValue v ys)"
  by (induction acc xs rule: digitsValue.induct) simp_all

lemma digitsValue_digit: "d < 10 \<Longrightarrow> digitsValue acc [digit_char d] = Some (10 * acc + d)"
  by (simp add: digit_char_def of_char_of take_bit_eq_mod)

lemma digitsValue_showNat: "digitsValue 0 (showNat n) = Some n"
proof (induction n rule: showNat.induct)
  case (1 n)
  show ?case
  proof (cases "n < 10")
    case True
    then show ?thesis unfolding showNat.simps [of n] if_P [OF True] by (simp only: digitsValue_digit mult_0_right add_0)
  next
    case False
    have "digitsValue 0 (showNat (n div 10) @ [digit_char (n mod 10)]) = Some (10 * (n div 10) + n mod 10)"
      unfolding digitsValue_append 1 [OF False] Option.bind.simps by (rule digitsValue_digit) simp
    with False show ?thesis by (simp only: showNat.simps [of n] if_not_P) simp
  qed
qed

lemma showNat_head: "\<exists>d cs. d < 10 \<and> showNat n = digit_char d # cs"
proof (induction n rule: showNat.induct)
  case (1 n)
  then show ?case by (cases "n < 10") (auto simp: showNat.simps [of n])
qed

lemma Atoi_Itoa: "int n < 2 ^ 63 \<Longrightarrow> Atoi (Itoa (int n)) = Some (int n)"
proof -
  obtain d cs where d: "d < 10" "showNat n = digit_char d # cs" using showNat_head by blast
  have "of_char (digit_char d) = (48 + d :: nat)" using d(1) by (simp add: digit_char_def of_char_of take_bit_eq_mod)
  then have "digit_char d \<noteq> CHR ''-''" "digit_char d \<noteq> CHR ''+''" by auto
  moreover assume "int n < 2 ^ 63"
  ultimately show ?thesis
    using d(2) digitsValue_showNat [of n] by (simp add: Atoi_def Itoa_def Let_def)
qed

lemma Itoa_inj [simp]: "Itoa (int m) = Itoa (int n) \<longleftrightarrow> m = n"
  using digitsValue_showNat by (auto simp: Itoa_def) (metis option.inject)

lemma servicePerPodName_inj [simp]: "servicePerPodName i h = servicePerPodName j h \<longleftrightarrow> i = j"
  by (simp add: servicePerPodName_def)

subsection \<open>Services that are as wanted\<close>

text \<open>\<open>unallocated\<close>: a port without what the API server fills in.\<close>

definition unallocated :: "ServicePort \<Rightarrow> ServicePort" where
  "unallocated p = p\<lparr> sp_NodePort := 0 \<rparr>"

text \<open>\<open>wantedAs\<close>: type, labels and ports of a service are the wanted ones, with any node ports.
  \<open>sameAllocation\<close>: an update keeps everything the API server and others decided: name, identity and
  owners, selector, cluster address, ingress, and the node port of every port that stays.\<close>

definition wantedAs :: "ServiceType \<Rightarrow> ServicePort list \<Rightarrow> ((string \<rightharpoonup> string) \<Rightarrow> string \<rightharpoonup> string) \<Rightarrow> Service \<Rightarrow> bool" where
  "wantedAs stype wanted relabel s \<longleftrightarrow> svc_Type s = stype \<and> map unallocated (svc_Ports s) = map unallocated wanted \<and>
     relabel (km_Labels (svc_Meta s)) = km_Labels (svc_Meta s)"

definition sameAllocation :: "Service \<Rightarrow> Service \<Rightarrow> bool" where
  "sameAllocation s s' \<longleftrightarrow>
     (svc_Meta s')\<lparr> km_Labels := Map.empty \<rparr> = (svc_Meta s)\<lparr> km_Labels := Map.empty \<rparr> \<and>
     svc_Selector s' = svc_Selector s \<and> svc_ClusterIP s' = svc_ClusterIP s \<and> svc_Ingress s' = svc_Ingress s \<and>
     svc_PublishNotReadyAddresses s' = svc_PublishNotReadyAddresses s \<and>
     (\<forall>p' \<in> set (svc_Ports s'). \<forall>p. lookupPort (svc_Ports s) (sp_Name p') = Some p \<longrightarrow> sp_NodePort p' = sp_NodePort p)"

lemma lookupPort_Some: "lookupPort ps n = Some p \<Longrightarrow> p \<in> set ps \<and> sp_Name p = n"
  by (induction ps) (auto split: option.splits if_splits)

lemma lookupPort_None: "lookupPort ps n = None \<longleftrightarrow> n \<notin> sp_Name ` set ps"
  by (induction ps) (auto split: option.splits)

lemma lookupPort_distinct: "distinct (map sp_Name ps) \<Longrightarrow> p \<in> set ps \<Longrightarrow> lookupPort ps (sp_Name p) = Some p"
  by (cases "lookupPort ps (sp_Name p)") (auto simp: lookupPort_None distinct_map dest!: lookupPort_Some dest: inj_onD)

lemma Enrich_unallocated:
  "(\<And>p. p \<in> set wanted \<Longrightarrow> sp_NodePort p = 0) \<Longrightarrow> map unallocated (EnrichServiceNodePorts wanted old) = wanted"
  by (auto simp: EnrichServiceNodePorts_def unallocated_def intro!: map_idI split: option.split)

lemma Enrich_port: "unallocated p = unallocated q \<Longrightarrow> p\<lparr> sp_NodePort := sp_NodePort q \<rparr> = q"
  by (cases p, cases q) (simp add: unallocated_def)

lemma Enrich_fixed:
  assumes "distinct (map sp_Name wanted)" and "map unallocated ps = map unallocated wanted"
  shows "EnrichServiceNodePorts wanted ps = ps"
proof -
  have names: "map sp_Name ps = map sp_Name wanted"
    using arg_cong [OF assms(2), of "map sp_Name"] by (simp add: o_def unallocated_def)
  have "length ps = length wanted" using names map_eq_imp_length_eq by blast
  moreover have "EnrichServiceNodePorts wanted ps ! i = ps ! i" if "i < length wanted" for i
  proof -
    from that assms(2) names have "unallocated (ps ! i) = unallocated (wanted ! i)" "sp_Name (ps ! i) = sp_Name (wanted ! i)"
      by (metis \<open>length ps = length wanted\<close> nth_map)+
    moreover have "lookupPort ps (sp_Name (ps ! i)) = Some (ps ! i)"
      using assms(1) that \<open>length ps = length wanted\<close> by (intro lookupPort_distinct) (simp_all add: names)
    ultimately show ?thesis using that Enrich_port [of "wanted ! i" "ps ! i"] by (simp add: EnrichServiceNodePorts_def)
  qed
  ultimately show ?thesis by (intro nth_equalityI) (simp_all add: EnrichServiceNodePorts_def)
qed

locale service_writer =
  fixes mutate :: "Service \<Rightarrow> Service" and stype :: ServiceType and wanted :: "ServicePort list"
    and relabel :: "(string \<rightharpoonup> string) \<Rightarrow> string \<rightharpoonup> string"
  assumes mutates: "mutate s = s\<lparr> svc_Meta := (svc_Meta s)\<lparr> km_Labels := relabel (km_Labels (svc_Meta s)) \<rparr>,
      svc_Type := stype, svc_Ports := EnrichServiceNodePorts wanted (svc_Ports s) \<rparr>"
    and relabels: "relabel (relabel l) = relabel l"
    and names: "distinct (map sp_Name wanted)"
    and fresh: "p \<in> set wanted \<Longrightarrow> sp_NodePort p = 0"
begin

lemma unallocated_wanted: "map unallocated wanted = wanted"
  using fresh by (auto simp: unallocated_def intro!: map_idI)

lemma delivers: "wantedAs stype wanted relabel (mutate s)"
  by (simp add: wantedAs_def mutates relabels Enrich_unallocated fresh unallocated_wanted)

lemma settled: "mutate s = s \<longleftrightarrow> wantedAs stype wanted relabel s"
proof
  assume "wantedAs stype wanted relabel s"
  then show "mutate s = s" unfolding wantedAs_def mutates by (simp add: Enrich_fixed names)
qed (metis delivers)

lemma allocations: "sameAllocation s (mutate s)"
proof -
  have "sp_NodePort p' = sp_NodePort p"
    if "p' \<in> set (EnrichServiceNodePorts wanted (svc_Ports s))" "lookupPort (svc_Ports s) (sp_Name p') = Some p" for p p'
    using that by (auto simp: EnrichServiceNodePorts_def split: option.splits)
  then show ?thesis unfolding sameAllocation_def mutates by simp
qed

end

interpretation cluster_service: service_writer "mutateService h" "serviceType h" "hazelcastPort (isAddWANPort h)"
  "\<lambda>l. l(ServiceEndpointTypeLabelName := discoveryLabel h)"
proof unfold_locales
  show "mutateService h s = s\<lparr> svc_Meta := (svc_Meta s)\<lparr> km_Labels := (km_Labels (svc_Meta s))(ServiceEndpointTypeLabelName := discoveryLabel h) \<rparr>,
      svc_Type := serviceType h, svc_Ports := EnrichServiceNodePorts (hazelcastPort (isAddWANPort h)) (svc_Ports s) \<rparr>" for s
    by (simp add: mutateService_def setServiceLabel_def)
qed (auto simp: hazelcastPort_def clientPort_def defaultWANPort_def tcpPort_def)

definition wanRelabel :: "WANConfig \<Rightarrow> (string \<rightharpoonup> string) \<Rightarrow> string \<rightharpoonup> string" where
  "wanRelabel w l =
     (if wc_ServiceType w = ServiceTypeLoadBalancer \<or> wc_ServiceType w = ServiceTypeNodePort
      then l(ServiceEndpointTypeLabelName := Some ''wan'')
      else if wc_ServiceType w = ServiceTypeClusterIP then l(ServiceEndpointTypeLabelName := None) else l)"

interpretation wan_service: service_writer "mutateWANService w"
  "if wc_ServiceType w = [] then ServiceTypeLoadBalancer else wc_ServiceType w" "wanServicePorts w" "wanRelabel w"
proof unfold_locales
  show "mutateWANService w s = s\<lparr> svc_Meta := (svc_Meta s)\<lparr> km_Labels := wanRelabel w (km_Labels (svc_Meta s)) \<rparr>,
      svc_Type := (if wc_ServiceType w = [] then ServiceTypeLoadBalancer else wc_ServiceType w),
      svc_Ports := EnrichServiceNodePorts (wanServicePorts w) (svc_Ports s) \<rparr>" for s
    by (simp add: mutateWANService_def setServiceLabel_def wanRelabel_def)
  show "distinct (map sp_Name (wanServicePorts w))"
    by (simp add: wanServicePorts_def tcpPort_def o_def distinct_map inj_on_def)
qed (auto simp: wanRelabel_def wanServicePorts_def tcpPort_def)

interpretation member_service: service_writer "mutateServicePerPod h" "Expose_MemberAccessServiceType (hs_ExposeExternally (h_Spec h))"
  "[clientPort]" "\<lambda>l. l(ServiceEndpointTypeLabelName :=
     (if Expose_MemberAccessServiceType (hs_ExposeExternally (h_Spec h)) \<in> {ServiceTypeLoadBalancer, ServiceTypeNodePort} then Some ''member'' else None))"
proof unfold_locales
  show "mutateServicePerPod h s = s\<lparr> svc_Meta := (svc_Meta s)\<lparr> km_Labels := (km_Labels (svc_Meta s))(ServiceEndpointTypeLabelName :=
       (if Expose_MemberAccessServiceType (hs_ExposeExternally (h_Spec h)) \<in> {ServiceTypeLoadBalancer, ServiceTypeNodePort} then Some ''member'' else None)) \<rparr>,
      svc_Type := Expose_MemberAccessServiceType (hs_ExposeExternally (h_Spec h)),
      svc_Ports := EnrichServiceNodePorts [clientPort] (svc_Ports s) \<rparr>" for s
    by (simp add: mutateServicePerPod_def setServiceLabel_def Let_def)
qed (auto simp: clientPort_def tcpPort_def)

subsection \<open>One pass over a service\<close>

text \<open>A pass over a stored service \<open>s\<close>: no call when it is as wanted, else one update, in \<open>t\<close>. Its answer is that of the pass; only
  when the API server calls the update invalid do other calls follow.\<close>

definition broughtTo :: "hz_env \<Rightarrow> (Service \<Rightarrow> bool) \<Rightarrow> Service \<Rightarrow> unit hz_proc \<Rightarrow> (HazelcastReconciler, hz_call) world \<Rightarrow> bool" where
  "broughtTo env ok s m w \<longleftrightarrow>
     (if ok s then m w = (Inr (), w\<lparr> cw_reads := Suc (cw_reads w) \<rparr>)
      else \<exists>s'. ok s' \<and> sameAllocation s s' \<and>
        (let w1 = w\<lparr> cw_reads := Suc (cw_reads w) \<rparr>; upd = UpdateObject (KService s'); answer = hz_call env (moment w1) upd;
             w2 = w1\<lparr> cw_trace := cw_trace w @ [(upd, answer = None)] \<rparr>
         in case answer of
              None \<Rightarrow> m w = (Inr (), w2)
            | Some e \<Rightarrow> if ErrIsAlreadyExists e then m w = (Inr (), w2)
                else if ErrIsInvalid e then \<exists>evs. cw_trace (snd (m w)) = cw_trace w2 @ evs
                else m w = (Inl e, w2)))"

lemma broughtToI:
  assumes "ok s \<Longrightarrow> m w = (Inr (), w\<lparr> cw_reads := Suc (cw_reads w) \<rparr>)" and "ok s' \<and> sameAllocation s s'"
    and "\<not> ok s \<Longrightarrow> (let w1 = w\<lparr> cw_reads := Suc (cw_reads w) \<rparr>; upd = UpdateObject (KService s'); answer = hz_call env (moment w1) upd;
             w2 = w1\<lparr> cw_trace := cw_trace w @ [(upd, answer = None)] \<rparr>
         in case answer of
              None \<Rightarrow> m w = (Inr (), w2)
            | Some e \<Rightarrow> if ErrIsAlreadyExists e then m w = (Inr (), w2)
                else if ErrIsInvalid e then \<exists>evs. cw_trace (snd (m w)) = cw_trace w2 @ evs
                else m w = (Inl e, w2))"
  shows "broughtTo env ok s m w"
proof (cases "ok s")
  case True
  with assms(1) show ?thesis by (simp add: broughtTo_def)
next
  case False
  with assms(2,3) show ?thesis unfolding broughtTo_def if_not_P [OF False] by blast
qed

lemma CreateOrUpdate_stored:
  assumes "hz_Get env (moment w) (object_kind ob) (object_key ob) = Inr (KService s)"
  shows "CreateOrUpdate_kube env ob (onService f) w =
    (let w1 = w\<lparr> cw_reads := Suc (cw_reads w) \<rparr>; upd = UpdateObject (KService (f s)); answer = hz_call env (moment w1) upd
     in (Inr (KService (f s), if f s = s then None else answer),
         if f s = s then w1 else w1\<lparr> cw_trace := cw_trace w @ [(upd, answer = None)] \<rparr>))"
  using assms
  by (auto simp: CreateOrUpdate_kube_def onService_def catchA_def action_simps writtenA_def invokeA_def Let_def split: option.split)

lemma CreateOrUpdate_grows: "only_calls (\<lambda>_. True) (CreateOrUpdate_kube env ob (onService f))"
  unfolding CreateOrUpdate_kube_def onService_def writtenA_def by (auto intro!: kept split: kube_object.split sum.split)

context service_writer
begin

lemma pass:
  assumes "hz_Get env (moment w) (object_kind ob) (object_key ob) = Inr (KService s)"
  shows "broughtTo env (wantedAs stype wanted relabel) s (bindA (CreateOrUpdateForce env ob (onService mutate)) (\<lambda>_. returnA ())) w"
    and "broughtTo env (wantedAs stype wanted relabel) s (bindA (util_CreateOrUpdate env ob (onService mutate)) (\<lambda>_. returnA ())) w"
proof -
  let ?w1 = "w\<lparr> cw_reads := Suc (cw_reads w) \<rparr>" and ?upd = "UpdateObject (KService (mutate s))"
  have grows: "\<exists>evs. cw_trace (snd (bindA (bindA (invokeA (hz_call env) c) (\<lambda>_.
      bindA (CreateOrUpdate_kube env ob' (onService mutate)) (\<lambda>(ob'', err). case err of None \<Rightarrow> returnA ob'' | Some e \<Rightarrow> throwA e))) (\<lambda>_. returnA ()) w'))
      = tr @ e # evs" if "cw_trace w' = tr @ [e]" for c ob' tr e and w' :: "(HazelcastReconciler, hz_call) world"
  proof -
    have "\<exists>evs. cw_trace (snd (bindA (bindA (invokeA (hz_call env) c) (\<lambda>_.
        bindA (CreateOrUpdate_kube env ob' (onService mutate)) (\<lambda>(ob'', err). case err of None \<Rightarrow> returnA ob'' | Some e \<Rightarrow> throwA e))) (\<lambda>_. returnA ()) w'))
        = cw_trace w' @ evs"
      by (rule only_calls_grows [where R = "\<lambda>_. True"]) (auto intro!: kept CreateOrUpdate_grows split: option.split)
    then show ?thesis unfolding that by simp
  qed
  have start: "bindA (bindA (CreateOrUpdate_kube env ob (onService mutate)) k) (\<lambda>_. returnA ()) w =
      bindA (k (KService (mutate s), if mutate s = s then None else hz_call env (moment ?w1) ?upd)) (\<lambda>_. returnA ())
        (if mutate s = s then ?w1 else ?w1\<lparr> cw_trace := cw_trace w @ [(?upd, hz_call env (moment ?w1) ?upd = None)] \<rparr>)"
    for k :: "kube_object \<times> go_error option \<Rightarrow> kube_object hz_proc"
    by (simp add: bindA_def CreateOrUpdate_stored [OF assms] Let_def)
  show "broughtTo env (wantedAs stype wanted relabel) s (bindA (CreateOrUpdateForce env ob (onService mutate)) (\<lambda>_. returnA ())) w"
    by (rule broughtToI [of "wantedAs stype wanted relabel" s _ w "mutate s"])
      (use settled [of s] delivers [of s] allocations [of s] in
        \<open>auto simp: CreateOrUpdateForce_def start action_simps Let_def intro!: grows split: option.split\<close>)
  show "broughtTo env (wantedAs stype wanted relabel) s (bindA (util_CreateOrUpdate env ob (onService mutate)) (\<lambda>_. returnA ())) w"
    by (rule broughtToI [of "wantedAs stype wanted relabel" s _ w "mutate s"])
      (use settled [of s] delivers [of s] allocations [of s] in \<open>auto simp: util_CreateOrUpdate_def start action_simps Let_def split: option.split\<close>)
qed

end

text \<open>C13: The services of a cluster settle and keep what was allocated. For the service of the cluster, of a
  WAN configuration and of a member that exists already: when its type, ports and endpoint label are the wanted
  ones, a pass makes no call; otherwise it asks for one update, to a service for which they are, and which
  keeps identity, owners, selector, cluster address, ingress and the node port of every port that
  stays. That is its only call, and the pass ends with the answer to it, unless the API server calls the update
  invalid; only then are other calls made (a service is deleted and made again, without what was allocated).\<close>

theorem services_settle:
  assumes "\<And>k. hz_Get env (moment w) ServiceKind k = Inr (KService (stored k))"
  shows "broughtTo env (wantedAs (serviceType h) (hazelcastPort (isAddWANPort h)) (\<lambda>l. l(ServiceEndpointTypeLabelName := discoveryLabel h)))
      (stored (metaKey (h_Meta h))) (reconcileService env h) w \<and>
    broughtTo env (wantedAs (if wc_ServiceType c = [] then ServiceTypeLoadBalancer else wc_ServiceType c) (wanServicePorts c) (wanRelabel c))
      (stored \<lparr> nn_Name = om_Name (h_Meta h) @ ''-'' @ wc_Name c, nn_Namespace = om_Namespace (h_Meta h) \<rparr>) (reconcileWANService env h c) w \<and>
    broughtTo env (wantedAs (Expose_MemberAccessServiceType (hs_ExposeExternally (h_Spec h))) [clientPort] (\<lambda>l. l(ServiceEndpointTypeLabelName :=
        (if Expose_MemberAccessServiceType (hs_ExposeExternally (h_Spec h)) \<in> {ServiceTypeLoadBalancer, ServiceTypeNodePort} then Some ''member'' else None))))
      (stored \<lparr> nn_Name = servicePerPodName i h, nn_Namespace = om_Namespace (h_Meta h) \<rparr>) (reconcileMemberService env h i) w"
  unfolding reconcileService_def reconcileWANService_def reconcileMemberService_def
  by (intro conjI cluster_service.pass(1) wan_service.pass(2) member_service.pass(1))
    (simp_all add: assms object_key_def newService_def metadata_def namedMeta_def metaKey_def)

subsection \<open>Services of members that are gone\<close>

text \<open>\<open>serviceGone\<close>: the service of a member was found missing, or its deletion was answered.\<close>

definition memberKey :: "Hazelcast \<Rightarrow> nat \<Rightarrow> NamespacedName" where
  "memberKey h i = \<lparr> nn_Name = servicePerPodName i h, nn_Namespace = om_Namespace (h_Meta h) \<rparr>"

lemma memberKey_inj [simp]: "memberKey h i = memberKey h j \<longleftrightarrow> i = j"
  by (simp add: memberKey_def)

definition liveMembers :: "Hazelcast \<Rightarrow> nat" where
  "liveMembers h = (if Expose_IsSmart (hs_ExposeExternally (h_Spec h)) then
     (case hs_ClusterSize (h_Spec h) of None \<Rightarrow> 0 | Some n \<Rightarrow> nat (sint n)) else 0)"

definition serviceGone :: "hz_env \<Rightarrow> Hazelcast \<Rightarrow> hz_call trace \<Rightarrow> nat \<Rightarrow> bool" where
  "serviceGone env h tr i \<longleftrightarrow>
     during tr (\<lambda>t. \<exists>e. hz_Get env t ServiceKind (memberKey h i) = Inl e \<and> ErrIsNotFound e) \<or>
     DeleteKube ServiceKind (memberKey h i) \<in> fst ` set tr"

lemma serviceGone_grows: "serviceGone env h tr i \<Longrightarrow> serviceGone env h (tr @ evs) i"
  unfolding serviceGone_def by (auto intro: during_grows)

lemma removeServicePerPod_calls [kept]:
  "only_calls (\<lambda>c. c = DeleteKube ServiceKind (memberKey h i)) (removeServicePerPod env h i)"
  unfolding removeServicePerPod_def memberKey_def Let_def by (auto intro!: kept)

lemma removeServicePerPod_gone:
  assumes "removeServicePerPod env h i w = (Inr u, w')"
  shows "serviceGone env h (cw_trace w') i"
proof -
  have seen: "serviceGone env h (cw_trace w) i" if "hz_Get env (moment w) ServiceKind (memberKey h i) = Inl e" "ErrIsNotFound e" for e
    unfolding serviceGone_def using that by (intro disjI1 during_now [of _ w]) simp_all
  have deleted: "serviceGone env h (tr @ [(DeleteKube ServiceKind (memberKey h i), b)]) i" for tr b
    by (simp add: serviceGone_def)
  show ?thesis
    using assms unfolding removeServicePerPod_def Let_def memberKey_def [symmetric]
    by (elim catchA_cases) (auto simp: action_simps invokeA_def intro: seen deleted split: if_splits option.splits)
qed

lemma forA_removed:
  assumes "forA is (removeServicePerPod env h) w = (Inr u, w')"
  shows "\<forall>i \<in> set is. serviceGone env h (cw_trace w') i"
proof
  fix i assume i: "i \<in> set is"
  have "only_calls (\<lambda>_. True) (removeServicePerPod env h i)" for i
    by (rule only_calls_weaken [OF removeServicePerPod_calls]) simp
  from forA_success [OF assms i this] removeServicePerPod_gone serviceGone_grows
  show "serviceGone env h (cw_trace w') i" by metis
qed

lemma unusedServices_run:
  assumes "hz_ServicePerPodCount env (moment w) (metaKey (h_Meta h)) = Inr (Itoa (int p))" and "int p < 2 ^ 63"
    and "hs_ClusterSize (h_Spec h) \<noteq> None"
  shows "reconcileUnusedServicePerPod env h w = forA [liveMembers h..<p] (removeServicePerPod env h) (w\<lparr> cw_reads := Suc (cw_reads w) \<rparr>)"
  using assms
  by (auto simp: reconcileUnusedServicePerPod_def liveMembers_def memberCount_def metaKey_def catchA_def action_simps Atoi_Itoa
      split: option.split)

text \<open>C14: Scaling down removes the services of the members that are gone, and no other. With the number of
  services that the StatefulSet records, a pass asks for the deletion of services only, and only of
  members beyond the size of the cluster; and when it succeeds, the service of every such member was
  found missing or its deletion was requested. A cluster that no longer exposes its members has none
  left.\<close>

theorem scale_down_services:
  assumes "hz_ServicePerPodCount env (moment w) (metaKey (h_Meta h)) = Inr (Itoa (int p))" and "int p < 2 ^ 63"
    and "hs_ClusterSize (h_Spec h) \<noteq> None" and "reconcileUnusedServicePerPod env h w = (r, w')" and "cw_trace w' = cw_trace w @ evs"
  shows "fst ` set evs \<subseteq> (\<lambda>i. DeleteKube ServiceKind (memberKey h i)) ` {liveMembers h..<p} \<and>
    (\<forall>i < liveMembers h. DeleteKube ServiceKind (memberKey h i) \<notin> fst ` set evs) \<and>
    (r = Inr () \<longrightarrow> (\<forall>i \<in> {liveMembers h..<p}. serviceGone env h (cw_trace w') i))"
proof -
  let ?w = "w\<lparr> cw_reads := Suc (cw_reads w) \<rparr>" and ?loop = "forA [liveMembers h..<p] (removeServicePerPod env h)"
  note run = unusedServices_run [OF assms(1-3)]
  have "only_calls (\<lambda>c. c \<in> (\<lambda>i. DeleteKube ServiceKind (memberKey h i)) ` {liveMembers h..<p}) ?loop"
    by (rule kept, rule only_calls_weaken [OF removeServicePerPod_calls]) auto
  from calls_at_only [OF this, of ?w] assms(4,5) run
  have calls: "fst ` set evs \<subseteq> (\<lambda>i. DeleteKube ServiceKind (memberKey h i)) ` {liveMembers h..<p}" by (auto simp: calls_at_def)
  moreover have "r = Inr () \<longrightarrow> (\<forall>i \<in> {liveMembers h..<p}. serviceGone env h (cw_trace w') i)"
    using forA_removed [of "[liveMembers h..<p]" env h ?w "()" w'] assms(4) run by auto
  ultimately show ?thesis by auto
qed

subsection \<open>Addresses of WAN endpoints\<close>

lemma wanServicePorts_name: "p \<in> set (wanServicePorts c) \<Longrightarrow> \<exists>i. sp_Name p = ''wan-'' @ wc_Name c @ ''-'' @ Itoa (int i)"
  by (auto simp: wanServicePorts_def tcpPort_def)

lemma Itoa_last: "\<exists>d. d < 10 \<and> last (Itoa (int i)) = digit_char d \<and> Itoa (int i) \<noteq> []"
proof -
  have "\<exists>d. d < 10 \<and> last (showNat n) = digit_char d \<and> showNat n \<noteq> []" for n
    by (cases "n < 10") (auto simp: showNat.simps [of n] intro: exI [of _ "n mod 10"])
  then show ?thesis by (simp add: Itoa_def)
qed

lemma not_wan_port: "''wan-'' @ name @ ''-'' @ Itoa (int i) \<noteq> ''wan-port''"
proof
  assume eq: "''wan-'' @ name @ ''-'' @ Itoa (int i) = ''wan-port''"
  obtain d where d: "d < 10" "last (Itoa (int i)) = digit_char d" "Itoa (int i) \<noteq> []" using Itoa_last by blast
  have "last (''wan-'' @ name @ ''-'' @ Itoa (int i)) = digit_char d" using d by simp
  then have "digit_char d = CHR ''t''" unfolding eq by simp
  moreover have "of_char (digit_char d) = (48 + d :: nat)" using d(1) by (simp add: digit_char_def of_char_of take_bit_eq_mod)
  ultimately show False using d(1) by simp
qed

text \<open>A WAN service of type NodePort gets no address. The endpoints made for its ports look for a
  port called wan-port, while its ports are called after the configuration: whatever nodes and
  pods there are, the status that is written for such an endpoint has the address it had before.\<close>

theorem nodeport_wan_address_never_set:
  assumes "svc_Type svc = ServiceTypeNodePort" and "map unallocated (svc_Ports svc) = map unallocated (wanServicePorts c)"
    and "hes_Type (hep_Spec e) = HazelcastEndpointTypeWAN" and "hz_ListPodNodes env (moment w) (svc_Selector svc) = Inr pods"
  shows "withAddress env nodeAddress svc e w = (Inr e, w\<lparr> cw_reads := Suc (cw_reads w) \<rparr>)"
proof -
  have names: "sp_Name ` set (svc_Ports svc) = sp_Name ` set (wanServicePorts c)"
    using arg_cong [OF assms(2), of "\<lambda>ps. set (map sp_Name ps)"] by (simp add: unallocated_def image_image)
  have "''wan-port'' \<notin> sp_Name ` set (svc_Ports svc)" unfolding names using wanServicePorts_name not_wan_port by fastforce
  then have "filter (\<lambda>p. sp_Name p = ''wan-port'') (svc_Ports svc) = []" by (intro filter_False ballI) (metis image_eqI)
  with assms show ?thesis by (simp add: withAddress_def endpointPortName_def action_simps Let_def)
qed

subsection \<open>Witnesses\<close>

definition nodePortWan :: WANConfig where
  "nodePortWan = \<lparr> wc_Port = 5710, wc_PortCount = 2, wc_ServiceType = ServiceTypeNodePort, wc_Name = ''tokyo'' \<rparr>"

definition storedService :: Service where
  "storedService = (newService (namedMeta sample_hazelcast ''hz'') (util_Labels sample_hazelcast))\<lparr> svc_Type := ServiceTypeNodePort,
     svc_Ports := [clientPort\<lparr> sp_NodePort := 30123 \<rparr>] \<rparr>"

definition withServices :: hz_env where
  "withServices = kube_ok\<lparr> hz_Get := (\<lambda>_ _ _. Inr (KService storedService)) \<rparr>"

theorem services_settle_witness:
  "broughtTo withServices (wantedAs (serviceType sample_hazelcast) (hazelcastPort (isAddWANPort sample_hazelcast))
      (\<lambda>l. l(ServiceEndpointTypeLabelName := discoveryLabel sample_hazelcast)))
     storedService (reconcileService withServices sample_hazelcast) registered \<and>
   serviceType sample_hazelcast \<noteq> svc_Type storedService"
proof
  show "serviceType sample_hazelcast \<noteq> svc_Type storedService"
    by (simp add: storedService_def serviceType_def Expose_IsEnabled_def sample_hazelcast_def sample_hazelcast_spec_def
        ServiceTypeClusterIP_def ServiceTypeNodePort_def)
qed (use services_settle [of withServices registered "\<lambda>_. storedService" sample_hazelcast] in
    \<open>simp add: withServices_def kube_ok_def\<close>)

lemma threeServices: "Itoa (int 3) = ''3''"
  by (simp add: Itoa_def showNat.simps [of 3] digit_char_def char_of_def bit_Suc_0_iff)

theorem scale_down_services_witness:
  "fst ` set (cw_trace (snd (reconcileUnusedServicePerPod withServices sample_hazelcast registered)))
     \<subseteq> (\<lambda>i. DeleteKube ServiceKind (memberKey sample_hazelcast i)) ` {0..<3} \<and>
   length (cw_trace (snd (reconcileUnusedServicePerPod withServices sample_hazelcast registered))) = 3"
proof -
  let ?run = "reconcileUnusedServicePerPod withServices sample_hazelcast registered"
  have annotated: "hz_ServicePerPodCount withServices (moment registered) (metaKey (h_Meta sample_hazelcast)) = Inr (Itoa (int 3))"
    unfolding threeServices by (simp add: withServices_def kube_ok_def)
  have sized: "hs_ClusterSize (h_Spec sample_hazelcast) \<noteq> None" and plain: "liveMembers sample_hazelcast = 0"
    by (simp_all add: sample_defs liveMembers_def Expose_IsSmart_def)
  have "?run = forA [liveMembers sample_hazelcast..<3] (removeServicePerPod withServices sample_hazelcast) (registered\<lparr> cw_reads := 1 \<rparr>)"
    using unusedServices_run [OF annotated _ sized] by (simp add: registered_def)
  then have "length (cw_trace (snd ?run)) = 3"
    by (simp add: plain numeral_3_eq_3 upt_rec removeServicePerPod_def withServices_def kube_ok_def registered_def
        catchA_def action_simps Let_def invokeA_def servicePerPodName_def)
  moreover have "fst ` set (cw_trace (snd ?run)) \<subseteq> (\<lambda>i. DeleteKube ServiceKind (memberKey sample_hazelcast i)) ` {liveMembers sample_hazelcast..<3}"
    using scale_down_services [OF annotated _ sized surjective_pairing, of "cw_trace (snd ?run)"] by (simp add: registered_def)
  ultimately show ?thesis by (simp add: plain)
qed

theorem nodeport_wan_address_never_set_witness:
  "withAddress kube_ok Map.empty (storedService\<lparr> svc_Ports := wanServicePorts nodePortWan \<rparr>)
     (hazelcastEndpointFromService ''hz-tokyo-0'' ''default'' sample_hazelcast HazelcastEndpointTypeWAN 5710) registered =
   (Inr (hazelcastEndpointFromService ''hz-tokyo-0'' ''default'' sample_hazelcast HazelcastEndpointTypeWAN 5710), registered\<lparr> cw_reads := 1 \<rparr>)"
  using nodeport_wan_address_never_set [of "storedService\<lparr> svc_Ports := wanServicePorts nodePortWan \<rparr>" nodePortWan
      "hazelcastEndpointFromService ''hz-tokyo-0'' ''default'' sample_hazelcast HazelcastEndpointTypeWAN 5710" kube_ok registered "[]" Map.empty]
  by (simp add: storedService_def hazelcastEndpointFromService_def kube_ok_def registered_def)

end
