(* ===== verification/Cluster_Config.thy ===== *)
theory Cluster_Config
  imports Config_Generation Cluster_Services
begin

text \<open>
  The configuration file of a cluster: the rest of the types of \<^verbatim>\<open>internal/config/hazelcast.go\<close>, the
  part that follows from the specification alone (\<^verbatim>\<open>hazelcastBasicConfig\<close>), the whole
  (\<^verbatim>\<open>hazelcastConfig\<close>), the merge with a configuration of the user (\<^verbatim>\<open>mergeConfig\<close>, \<^verbatim>\<open>deepMerge\<close>), and the part
  whose change restarts the members (\<^verbatim>\<open>configForcingRestart\<close>, \<^verbatim>\<open>podAnnotations\<close>); all of
  \<^verbatim>\<open>hazelcast_resources.go\<close>.

  A map or slice that is nil is written to YAML as one that is empty, so both are the empty map or
  list here. YAML, JSON and the answers of the API server are fields of \<open>cfg_env\<close>.
\<close>

subsection \<open>Types (hazelcast.go)\<close>

record ManagementCenterConfig_cfg =
  mcg_ScriptingEnabled :: bool
  mcg_ConsoleEnabled :: bool
  mcg_DataAccessEnabled :: bool

record PortAndPortCount =
  pp_Port :: uint
  pp_PortCount :: uint

record Interfaces =
  if_Enabled :: bool
  if_Interfaces :: "string list"

record SSLProperties =
  ssp_Protocol :: string
  ssp_MutualAuthentication :: string
  ssp_KeyStore :: string
  ssp_KeyStorePassword :: string
  ssp_KeyStoreType :: string
  ssp_TrustStore :: string
  ssp_TrustStorePassword :: string
  ssp_TrustStoreType :: string

record SSL =
  ssl_Enabled :: "bool option"
  ssl_FactoryClassName :: string
  ssl_Properties :: SSLProperties

record EndpointGroups =
  eg_HealthCheck :: "bool option"
  eg_ClusterWrite :: "bool option"
  eg_Persistence :: "bool option"

text \<open>\<^verbatim>\<open>MemberServerSocketEndpointConfig\<close> and \<^verbatim>\<open>ClientServerSocketEndpointConfig\<close> have the same fields.\<close>

record SocketEndpointConfig =
  sec_Port :: PortAndPortCount
  sec_Interfaces :: Interfaces
  sec_SSL :: SSL

record RestServerSocketEndpointConfig =
  rsc_Port :: PortAndPortCount
  rsc_EndpointGroups :: EndpointGroups
  rsc_SSL :: SSL

record Kubernetes =
  kub_Enabled :: "bool option"
  kub_Namespace :: string
  kub_ServiceName :: string
  kub_UseNodeNameAsExternalAddress :: "bool option"
  kub_ServicePerPodLabelName :: string
  kub_ServicePerPodLabelValue :: string
  kub_ServicePort :: uint

record AdvancedNetwork_cfg =
  ann_Enabled :: bool
  ann_Join :: Kubernetes
  ann_Member :: SocketEndpointConfig
  ann_Client :: SocketEndpointConfig
  ann_Rest :: RestServerSocketEndpointConfig
  ann_Wan :: "string \<rightharpoonup> PortAndPortCount"

record PartitionGroup =
  pg_Enabled :: "bool option"
  pg_GroupType :: string

record JetInstance_cfg =
  jic_CooperativeThreadCount :: "int32 option"
  jic_FlowControlPeriodMillis :: "int32 option"
  jic_BackupCount :: "int32 option"
  jic_ScaleUpDelayMillis :: "int32 option"
  jic_LosslessRestartEnabled :: "bool option"
  jic_MaxProcessorAccumulatedRecords :: "int64 option"

record EdgeDefaults =
  ed_QueueSize :: "int32 option"
  ed_PacketSizeLimit :: "int32 option"
  ed_ReceiveWindowMultiplier :: "8 word option"

record Jet =
  jt_Enabled :: "bool option"
  jt_ResourceUploadEnabled :: "bool option"
  jt_Instance :: JetInstance_cfg
  jt_EdgeDefaults :: EdgeDefaults

record Persistence =
  pe_Enabled :: "bool option"
  pe_BaseDir :: string
  pe_BackupDir :: string
  pe_Parallelism :: int32
  pe_ValidationTimeoutSec :: int32
  pe_ClusterDataRecoveryPolicy :: string
  pe_AutoRemoveStaleData :: "bool option"

record NativeMemory =
  nat_Enabled :: bool
  nat_AllocatorType :: string
  nat_Size :: Size_cfg
  nat_MinBlockSize :: int32
  nat_PageSize :: int32
  nat_MetadataSpacePercentage :: int32

record UserCodeDeployment =
  ud_Enabled :: "bool option"
  ud_ClassCacheMode :: string
  ud_ProviderMode :: string
  ud_BlacklistPrefixes :: string
  ud_WhitelistPrefixes :: string
  ud_ProviderFilter :: string

record SQL_cfg =
  sqc_StatementTimeout :: int32
  sqc_CatalogPersistence :: bool

record LocalDevice =
  lod_BaseDir :: string
  lod_Capacity :: Size_cfg
  lod_BlockSize :: "int32 option"
  lod_ReadIOThreadCount :: "int32 option"
  lod_WriteIOThreadCount :: "int32 option"

record CPSubsystem_cfg =
  cps_CPMemberCount :: int32
  cps_PersistenceEnabled :: bool
  cps_BaseDir :: string
  cps_GroupSize :: "int32 option"
  cps_SessionTimeToLiveSeconds :: "int32 option"
  cps_SessionHeartbeatIntervalSeconds :: "int32 option"
  cps_MissingCpMemberAutoRemovalSeconds :: "int32 option"
  cps_FailOnIndeterminateOperationState :: "bool option"
  cps_DataLoadTimeoutSeconds :: "int32 option"

text \<open>\<^verbatim>\<open>config.Hazelcast\<close>. The zero values of \<^verbatim>\<open>Serialization\<close> and \<^verbatim>\<open>UserCodeNamespaces\<close> are \<open>None\<close>.\<close>

record Hazelcast_cfg =
  cfg_Jet :: Jet
  cfg_ClusterName :: string
  cfg_Persistence :: Persistence
  cfg_Map :: "string \<rightharpoonup> Map_cfg"
  cfg_ExecutorService :: "string \<rightharpoonup> ExecutorService_cfg"
  cfg_DurableExecutorService :: "string \<rightharpoonup> DurableExecutorService_cfg"
  cfg_ScheduledExecutorService :: "string \<rightharpoonup> ScheduledExecutorService_cfg"
  cfg_UserCodeDeployment :: UserCodeDeployment
  cfg_WanReplication :: "string \<rightharpoonup> (string \<rightharpoonup> BatchPublisherConfig)"
  cfg_Properties :: "string \<rightharpoonup> string"
  cfg_MultiMap :: "string \<rightharpoonup> MultiMap_cfg"
  cfg_Topic :: "string \<rightharpoonup> Topic_cfg"
  cfg_ReplicatedMap :: "string \<rightharpoonup> ReplicatedMap_cfg"
  cfg_Queue :: "string \<rightharpoonup> Queue_cfg"
  cfg_Cache :: "string \<rightharpoonup> Cache_cfg"
  cfg_PartitionGroup :: PartitionGroup
  cfg_NativeMemory :: NativeMemory
  cfg_AdvancedNetwork :: AdvancedNetwork_cfg
  cfg_ManagementCenter :: ManagementCenterConfig_cfg
  cfg_Serialization :: "Serialization option"
  cfg_SQL :: SQL_cfg
  cfg_LocalDevice :: "string \<rightharpoonup> LocalDevice"
  cfg_CPSubsystem :: CPSubsystem_cfg
  cfg_UserCodeNamespaces :: "(JavaFilterConfig_cfg option \<times> (string \<rightharpoonup> UserCodeNamespaceResource list)) option"

subsection \<open>Zero values\<close>

definition SSLPropertiesZero :: SSLProperties where
  "SSLPropertiesZero = \<lparr> ssp_Protocol = [], ssp_MutualAuthentication = [], ssp_KeyStore = [], ssp_KeyStorePassword = [],
     ssp_KeyStoreType = [], ssp_TrustStore = [], ssp_TrustStorePassword = [], ssp_TrustStoreType = [] \<rparr>"

definition SSLZero :: SSL where
  "SSLZero = \<lparr> ssl_Enabled = None, ssl_FactoryClassName = [], ssl_Properties = SSLPropertiesZero \<rparr>"

definition SocketEndpointZero :: SocketEndpointConfig where
  "SocketEndpointZero = \<lparr> sec_Port = \<lparr> pp_Port = 0, pp_PortCount = 0 \<rparr>, sec_Interfaces = \<lparr> if_Enabled = False, if_Interfaces = [] \<rparr>,
     sec_SSL = SSLZero \<rparr>"

definition RestEndpointZero :: RestServerSocketEndpointConfig where
  "RestEndpointZero = \<lparr> rsc_Port = \<lparr> pp_Port = 0, pp_PortCount = 0 \<rparr>,
     rsc_EndpointGroups = \<lparr> eg_HealthCheck = None, eg_ClusterWrite = None, eg_Persistence = None \<rparr>, rsc_SSL = SSLZero \<rparr>"

definition KubernetesZero :: Kubernetes where
  "KubernetesZero = \<lparr> kub_Enabled = None, kub_Namespace = [], kub_ServiceName = [], kub_UseNodeNameAsExternalAddress = None,
     kub_ServicePerPodLabelName = [], kub_ServicePerPodLabelValue = [], kub_ServicePort = 0 \<rparr>"

definition AdvancedNetworkZero :: AdvancedNetwork_cfg where
  "AdvancedNetworkZero = \<lparr> ann_Enabled = False, ann_Join = KubernetesZero, ann_Member = SocketEndpointZero,
     ann_Client = SocketEndpointZero, ann_Rest = RestEndpointZero, ann_Wan = Map.empty \<rparr>"

definition JetInstance_cfgZero :: JetInstance_cfg where
  "JetInstance_cfgZero = \<lparr> jic_CooperativeThreadCount = None, jic_FlowControlPeriodMillis = None, jic_BackupCount = None,
     jic_ScaleUpDelayMillis = None, jic_LosslessRestartEnabled = None, jic_MaxProcessorAccumulatedRecords = None \<rparr>"

definition EdgeDefaultsZero :: EdgeDefaults where
  "EdgeDefaultsZero = \<lparr> ed_QueueSize = None, ed_PacketSizeLimit = None, ed_ReceiveWindowMultiplier = None \<rparr>"

definition JetZero :: Jet where
  "JetZero = \<lparr> jt_Enabled = None, jt_ResourceUploadEnabled = None, jt_Instance = JetInstance_cfgZero, jt_EdgeDefaults = EdgeDefaultsZero \<rparr>"

definition PersistenceZero :: Persistence where
  "PersistenceZero = \<lparr> pe_Enabled = None, pe_BaseDir = [], pe_BackupDir = [], pe_Parallelism = 0, pe_ValidationTimeoutSec = 0,
     pe_ClusterDataRecoveryPolicy = [], pe_AutoRemoveStaleData = None \<rparr>"

definition NativeMemory_cfgZero :: NativeMemory where
  "NativeMemory_cfgZero = \<lparr> nat_Enabled = False, nat_AllocatorType = [], nat_Size = \<lparr> sz_Value = 0, sz_Unit = [] \<rparr>,
     nat_MinBlockSize = 0, nat_PageSize = 0, nat_MetadataSpacePercentage = 0 \<rparr>"

definition UserCodeDeploymentZero :: UserCodeDeployment where
  "UserCodeDeploymentZero = \<lparr> ud_Enabled = None, ud_ClassCacheMode = [], ud_ProviderMode = [], ud_BlacklistPrefixes = [],
     ud_WhitelistPrefixes = [], ud_ProviderFilter = [] \<rparr>"

definition CPSubsystem_cfgZero :: CPSubsystem_cfg where
  "CPSubsystem_cfgZero = \<lparr> cps_CPMemberCount = 0, cps_PersistenceEnabled = False, cps_BaseDir = [], cps_GroupSize = None,
     cps_SessionTimeToLiveSeconds = None, cps_SessionHeartbeatIntervalSeconds = None, cps_MissingCpMemberAutoRemovalSeconds = None,
     cps_FailOnIndeterminateOperationState = None, cps_DataLoadTimeoutSeconds = None \<rparr>"

definition Hazelcast_cfgZero :: Hazelcast_cfg where
  "Hazelcast_cfgZero = \<lparr> cfg_Jet = JetZero, cfg_ClusterName = [], cfg_Persistence = PersistenceZero, cfg_Map = Map.empty,
     cfg_ExecutorService = Map.empty, cfg_DurableExecutorService = Map.empty, cfg_ScheduledExecutorService = Map.empty,
     cfg_UserCodeDeployment = UserCodeDeploymentZero, cfg_WanReplication = Map.empty, cfg_Properties = Map.empty,
     cfg_MultiMap = Map.empty, cfg_Topic = Map.empty, cfg_ReplicatedMap = Map.empty, cfg_Queue = Map.empty, cfg_Cache = Map.empty,
     cfg_PartitionGroup = \<lparr> pg_Enabled = None, pg_GroupType = [] \<rparr>, cfg_NativeMemory = NativeMemory_cfgZero,
     cfg_AdvancedNetwork = AdvancedNetworkZero,
     cfg_ManagementCenter = \<lparr> mcg_ScriptingEnabled = False, mcg_ConsoleEnabled = False, mcg_DataAccessEnabled = False \<rparr>,
     cfg_Serialization = None, cfg_SQL = \<lparr> sqc_StatementTimeout = 0, sqc_CatalogPersistence = False \<rparr>,
     cfg_LocalDevice = Map.empty, cfg_CPSubsystem = CPSubsystem_cfgZero, cfg_UserCodeNamespaces = None \<rparr>"

subsection \<open>The basic configuration\<close>

definition PersistenceMountPath :: string where "PersistenceMountPath = ''/data/persistence''"

definition BaseDir :: string where "BaseDir = PersistenceMountPath @ ''/base-dir''"

definition HazelcastMountPath :: string where "HazelcastMountPath = ''/data/hazelcast''"

definition TieredStorageBaseDir :: string where "TieredStorageBaseDir = ''/data/tiered-storage''"

definition CPDirSuffix :: string where "CPDirSuffix = ''/cp-data''"

definition CPBaseDir :: string where "CPBaseDir = ''/data'' @ CPDirSuffix"

definition clusterDataRecoveryPolicy :: "DataRecoveryPolicyType \<Rightarrow> string" where
  "clusterDataRecoveryPolicy policy = (case policy of
     FullRecovery \<Rightarrow> ''FULL_RECOVERY_ONLY''
   | MostRecent \<Rightarrow> ''PARTIAL_RECOVERY_MOST_RECENT''
   | MostComplete \<Rightarrow> ''PARTIAL_RECOVERY_MOST_COMPLETE''
   | DataRecoveryUnset \<Rightarrow> ''FULL_RECOVERY_ONLY'')"

definition NewSSLProperties :: "string \<Rightarrow> string \<Rightarrow> string \<Rightarrow> MutualAuthentication \<Rightarrow> SSLProperties" where
  "NewSSLProperties p password protocol auth =
     (let server = SSLPropertiesZero\<lparr> ssp_Protocol := protocol, ssp_KeyStoreType := ''JKS'', ssp_KeyStore := p,
            ssp_KeyStorePassword := password \<rparr>;
          trusted = server\<lparr> ssp_TrustStoreType := ''JKS'', ssp_TrustStore := p, ssp_TrustStorePassword := password \<rparr>
      in case auth of
           MutualAuthenticationRequired \<Rightarrow> trusted\<lparr> ssp_MutualAuthentication := ''REQUIRED'' \<rparr>
         | MutualAuthenticationOptional \<Rightarrow> trusted\<lparr> ssp_MutualAuthentication := ''OPTIONAL'' \<rparr>
         | _ \<Rightarrow> server)"

definition tlsSSL :: "MutualAuthentication \<Rightarrow> SSL" where
  "tlsSSL auth = \<lparr> ssl_Enabled = Some True, ssl_FactoryClassName = ''com.hazelcast.nio.ssl.BasicSSLContextFactory'',
     ssl_Properties = NewSSLProperties (path_Join HazelcastMountPath ''hazelcast.jks'') ''hazelcast'' ''TLS'' auth \<rparr>"

definition TLS_enabled :: "TLS option \<Rightarrow> bool" where
  "TLS_enabled tls = (case tls of None \<Rightarrow> False | Some t \<Rightarrow> tls_SecretName t \<noteq> [])"

text \<open>\<open>quantity\<close> is \<^verbatim>\<open>Value\<close> of a quantity, a panic for nil; \<open>mega\<close> is \<^verbatim>\<open>ScaledValue(resource.Mega)\<close>.\<close>

definition createLocalDeviceConfig :: "(Quantity option \<Rightarrow> int64 go) \<Rightarrow> LocalDeviceConfig \<Rightarrow> LocalDevice go" where
  "createLocalDeviceConfig quantity ld =
     Option.bind (ld_PVC ld) (\<lambda>pvc. map_option (\<lambda>v.
       \<lparr> lod_BaseDir = path_Join TieredStorageBaseDir (ld_Name ld), lod_Capacity = \<lparr> sz_Value = v, sz_Unit = ''BYTES'' \<rparr>,
         lod_BlockSize = ld_BlockSize ld, lod_ReadIOThreadCount = ld_ReadIOThreadCount ld,
         lod_WriteIOThreadCount = ld_WriteIOThreadCount ld \<rparr>) (quantity (pvc_RequestStorage pvc)))"

definition basicJet :: "HazelcastSpec \<Rightarrow> Jet" where
  "basicJet s = (case hs_JetEngineConfiguration s of
     None \<Rightarrow> JetZero
   | Some j \<Rightarrow> \<lparr> jt_Enabled = je_Enabled j, jt_ResourceUploadEnabled = Some (je_ResourceUploadEnabled j),
       jt_Instance = (case je_Instance j of
          None \<Rightarrow> JetInstance_cfgZero
        | Some i \<Rightarrow> if \<not> JetInstance_IsConfigured (Some i) then JetInstance_cfgZero
            else \<lparr> jic_CooperativeThreadCount = ji_CooperativeThreadCount i,
              jic_FlowControlPeriodMillis = Some (ji_FlowControlPeriodMillis i), jic_BackupCount = Some (ji_BackupCount i),
              jic_ScaleUpDelayMillis = Some (ji_ScaleUpDelayMillis i), jic_LosslessRestartEnabled = Some (ji_LosslessRestartEnabled i),
              jic_MaxProcessorAccumulatedRecords = ji_MaxProcessorAccumulatedRecords i \<rparr>),
       jt_EdgeDefaults = (case je_EdgeDefaults j of
          None \<Rightarrow> EdgeDefaultsZero
        | Some e \<Rightarrow> if \<not> JetEdgeDefaults_IsConfigured (Some e) then EdgeDefaultsZero
            else \<lparr> ed_QueueSize = jed_QueueSize e, ed_PacketSizeLimit = jed_PacketSizeLimit e,
              ed_ReceiveWindowMultiplier = jed_ReceiveWindowMultiplier e \<rparr>) \<rparr>)"

definition basicPersistence :: "HazelcastSpec \<Rightarrow> Persistence" where
  "basicPersistence s = (case hs_Persistence s of
     None \<Rightarrow> PersistenceZero
   | Some p \<Rightarrow> \<lparr> pe_Enabled = Some True, pe_BaseDir = BaseDir, pe_BackupDir = path_Join BaseDir ''hot-backup'',
       pe_Parallelism = 1, pe_ValidationTimeoutSec = (if hp_DataRecoveryTimeout p \<noteq> 0 then hp_DataRecoveryTimeout p else 120),
       pe_ClusterDataRecoveryPolicy = clusterDataRecoveryPolicy (hp_ClusterDataRecoveryPolicy p),
       pe_AutoRemoveStaleData = Some (Persistence_AutoRemoveStaleData p) \<rparr>)"

definition basicPartitionGroup :: "HazelcastSpec \<Rightarrow> PartitionGroup" where
  "basicPartitionGroup s = (case hs_HighAvailabilityMode s of
     HighAvailabilityNodeMode \<Rightarrow> \<lparr> pg_Enabled = Some True, pg_GroupType = ''NODE_AWARE'' \<rparr>
   | HighAvailabilityZoneMode \<Rightarrow> \<lparr> pg_Enabled = Some True, pg_GroupType = ''ZONE_AWARE'' \<rparr>
   | HighAvailabilityUnset \<Rightarrow> \<lparr> pg_Enabled = None, pg_GroupType = [] \<rparr>)"

fun AllocatorType_text :: "NativeMemoryAllocatorType \<Rightarrow> string" where
  "AllocatorType_text NativeMemoryUnset = []"
| "AllocatorType_text NativeMemoryStandard = ''STANDARD''"
| "AllocatorType_text NativeMemoryPooled = ''POOLED''"

definition basicNativeMemory :: "(Quantity \<Rightarrow> int64) \<Rightarrow> HazelcastSpec \<Rightarrow> NativeMemory" where
  "basicNativeMemory mega s = (case hs_NativeMemory s of
     None \<Rightarrow> NativeMemory_cfgZero
   | Some m \<Rightarrow> if \<not> NativeMemory_IsEnabled (Some m) then NativeMemory_cfgZero
       else \<lparr> nat_Enabled = True, nat_AllocatorType = AllocatorType_text (nm_AllocatorType m),
         nat_Size = \<lparr> sz_Value = mega (nm_Size m), sz_Unit = ''MEGABYTES'' \<rparr>, nat_MinBlockSize = nm_MinBlockSize m,
         nat_PageSize = nm_PageSize m, nat_MetadataSpacePercentage = nm_MetadataSpacePercentage m \<rparr>)"

definition socketEndpoint :: "uint \<Rightarrow> string list \<Rightarrow> SSL \<Rightarrow> SocketEndpointConfig" where
  "socketEndpoint port interfaces ssl = \<lparr> sec_Port = \<lparr> pp_Port = port, pp_PortCount = 1 \<rparr>,
     sec_Interfaces = (if interfaces \<noteq> [] then \<lparr> if_Enabled = True, if_Interfaces = interfaces \<rparr> else \<lparr> if_Enabled = False, if_Interfaces = [] \<rparr>),
     sec_SSL = ssl \<rparr>"

text \<open>A WAN port set with the name of an earlier one overwrites it.\<close>

definition basicWan :: "AdvancedNetwork option \<Rightarrow> string \<rightharpoonup> PortAndPortCount" where
  "basicWan an = (case an of
     Some a \<Rightarrow> if an_WAN a \<noteq> []
       then fold (\<lambda>w m. m(wc_Name w \<mapsto> \<lparr> pp_Port = wc_Port w, pp_PortCount = wc_PortCount w \<rparr>)) (an_WAN a) Map.empty
       else [''default'' \<mapsto> \<lparr> pp_Port = word_of_int WanDefaultPort, pp_PortCount = 1 \<rparr>]
   | None \<Rightarrow> [''default'' \<mapsto> \<lparr> pp_Port = word_of_int WanDefaultPort, pp_PortCount = 1 \<rparr>])"

definition basicNetwork :: "Hazelcast \<Rightarrow> AdvancedNetwork_cfg" where
  "basicNetwork h =
     (let s = h_Spec h; an = hs_AdvancedNetwork s; tls = hs_TLS s
      in \<lparr> ann_Enabled = True,
           ann_Join = \<lparr> kub_Enabled = Some True, kub_Namespace = [], kub_ServiceName = om_Name (h_Meta h),
             kub_UseNodeNameAsExternalAddress = (if Expose_UsesNodeName (hs_ExposeExternally s) then Some True else None),
             kub_ServicePerPodLabelName = ServicePerPodLabelName, kub_ServicePerPodLabelValue = ''true'',
             kub_ServicePort = MemberServerSocketPort \<rparr>,
           ann_Member = socketEndpoint MemberServerSocketPort
             (case an of None \<Rightarrow> [] | Some a \<Rightarrow> sse_Interfaces (an_MemberServerSocketEndpointConfig a))
             (if TLS_enabled tls then tlsSSL MutualAuthenticationRequired else SSLZero),
           ann_Client = socketEndpoint ClientServerSocketPort
             (case an of None \<Rightarrow> [] | Some a \<Rightarrow> sse_Interfaces (an_ClientServerSocketEndpointConfig a))
             (case tls of Some t \<Rightarrow> if tls_SecretName t \<noteq> [] then tlsSSL (tls_MutualAuthentication t) else SSLZero | None \<Rightarrow> SSLZero),
           ann_Rest = \<lparr> rsc_Port = \<lparr> pp_Port = RestServerSocketPort, pp_PortCount = 1 \<rparr>,
             rsc_EndpointGroups = \<lparr> eg_HealthCheck = Some True, eg_ClusterWrite = Some True, eg_Persistence = Some True \<rparr>,
             rsc_SSL = SSLZero \<rparr>,
           ann_Wan = basicWan an \<rparr>)"

text \<open>The size of the cluster is dereferenced when the CP Subsystem is on.\<close>

definition basicCPSubsystem :: "HazelcastSpec \<Rightarrow> CPSubsystem_cfg go" where
  "basicCPSubsystem s = (case hs_CPSubsystem s of
     None \<Rightarrow> Some CPSubsystem_cfgZero
   | Some cp \<Rightarrow> map_option (\<lambda>size. \<lparr> cps_CPMemberCount = size, cps_PersistenceEnabled = True,
       cps_BaseDir = (if Persistence_IsEnabled (hs_Persistence s) \<and> \<not> CP_IsPVC (Some cp)
         then PersistenceMountPath @ CPDirSuffix else CPBaseDir),
       cps_GroupSize = Some size, cps_SessionTimeToLiveSeconds = cp_SessionTTLSeconds cp,
       cps_SessionHeartbeatIntervalSeconds = cp_SessionHeartbeatIntervalSeconds cp,
       cps_MissingCpMemberAutoRemovalSeconds = cp_MissingCpMemberAutoRemovalSeconds cp,
       cps_FailOnIndeterminateOperationState = cp_FailOnIndeterminateOperationState cp,
       cps_DataLoadTimeoutSeconds = cp_DataLoadTimeoutSeconds cp \<rparr>) (hs_ClusterSize s))"

definition basicLocalDevices :: "(Quantity option \<Rightarrow> int64 go) \<Rightarrow> HazelcastSpec \<Rightarrow> (string \<rightharpoonup> LocalDevice) go" where
  "basicLocalDevices quantity s = entriesOf ld_Name (createLocalDeviceConfig quantity) (hs_LocalDevices s)"

definition hazelcastBasicConfig :: "(Quantity option \<Rightarrow> int64 go) \<Rightarrow> (Quantity \<Rightarrow> int64) \<Rightarrow> Hazelcast \<Rightarrow> Hazelcast_cfg go" where
  "hazelcastBasicConfig quantity mega h =
     (let s = h_Spec h in
      Option.bind (basicLocalDevices quantity s) (\<lambda>devices.
      Option.bind (basicCPSubsystem s) (\<lambda>cp.
      Some (Hazelcast_cfgZero\<lparr>
        cfg_AdvancedNetwork := basicNetwork h,
        cfg_UserCodeDeployment := (case hs_DeprecatedUserCodeDeployment s of
           None \<Rightarrow> UserCodeDeploymentZero | Some u \<Rightarrow> UserCodeDeploymentZero\<lparr> ud_Enabled := ucd_ClientEnabled u \<rparr>),
        cfg_Jet := basicJet s, cfg_ClusterName := hs_ClusterName s, cfg_Persistence := basicPersistence s,
        cfg_PartitionGroup := basicPartitionGroup s, cfg_NativeMemory := basicNativeMemory mega s,
        cfg_ManagementCenter := (case hs_ManagementCenterConfig s of
           None \<Rightarrow> \<lparr> mcg_ScriptingEnabled = False, mcg_ConsoleEnabled = False, mcg_DataAccessEnabled = False \<rparr>
         | Some m \<Rightarrow> \<lparr> mcg_ScriptingEnabled = mcc_ScriptingEnabled m, mcg_ConsoleEnabled = mcc_ConsoleEnabled m,
             mcg_DataAccessEnabled = mcc_DataAccessEnabled m \<rparr>),
        cfg_SQL := (case hs_SQL s of
           None \<Rightarrow> \<lparr> sqc_StatementTimeout = 0, sqc_CatalogPersistence = False \<rparr>
         | Some q \<Rightarrow> \<lparr> sqc_StatementTimeout = sql_StatementTimeout q, sqc_CatalogPersistence = sql_CatalogPersistenceEnabled q \<rparr>),
        cfg_LocalDevice := devices, cfg_CPSubsystem := cp \<rparr>))))"

subsection \<open>What restarts the members\<close>

definition configForcingRestart :: "Hazelcast_cfg \<Rightarrow> Hazelcast_cfg" where
  "configForcingRestart hz = Hazelcast_cfgZero\<lparr> cfg_ClusterName := cfg_ClusterName hz, cfg_Jet := cfg_Jet hz,
     cfg_UserCodeDeployment := cfg_UserCodeDeployment hz, cfg_Properties := cfg_Properties hz,
     cfg_AdvancedNetwork := AdvancedNetworkZero\<lparr>
       ann_Client := SocketEndpointZero\<lparr> sec_SSL := sec_SSL (ann_Client (cfg_AdvancedNetwork hz)) \<rparr>,
       ann_Member := SocketEndpointZero\<lparr> sec_SSL := sec_SSL (ann_Member (cfg_AdvancedNetwork hz)) \<rparr> \<rparr>,
     cfg_CPSubsystem := cfg_CPSubsystem hz \<rparr>"

definition ExposeExternallyAnnotation :: string where
  "ExposeExternallyAnnotation = ''hazelcast.com/expose-externally-member-access''"

definition CurrentHazelcastConfigForcingRestartChecksum :: string where
  "CurrentHazelcastConfigForcingRestartChecksum = ''hazelcast.com/current-hazelcast-config-forcing-restart-checksum''"

fun MemberAccess_text :: "MemberAccess \<Rightarrow> string" where
  "MemberAccess_text MemberAccessUnset = []"
| "MemberAccess_text MemberAccessNodePortExternalIP = ''NodePortExternalIP''"
| "MemberAccess_text MemberAccessNodePortNodeName = ''NodePortNodeName''"
| "MemberAccess_text MemberAccessLoadBalancer = ''LoadBalancer''"

text \<open>\<open>checksum\<close>: the text of the CRC-32 of the YAML of a configuration, or the error of writing it.\<close>

definition podAnnotations :: "(Quantity option \<Rightarrow> int64 go) \<Rightarrow> (Quantity \<Rightarrow> int64) \<Rightarrow> (Hazelcast_cfg \<Rightarrow> go_error + string) \<Rightarrow>
    (string \<rightharpoonup> string) \<Rightarrow> Hazelcast \<Rightarrow> (go_error + (string \<rightharpoonup> string)) go" where
  "podAnnotations quantity mega checksum annotations h =
     (let ee = hs_ExposeExternally (h_Spec h);
          as = (if Expose_IsSmart ee then annotations(ExposeExternallyAnnotation \<mapsto> MemberAccess_text (Expose_MemberAccessType ee))
                else annotations(ExposeExternallyAnnotation := None))
      in map_option (\<lambda>cfg. case checksum (configForcingRestart cfg) of
           Inl e \<Rightarrow> Inl e | Inr c \<Rightarrow> Inr (as(CurrentHazelcastConfigForcingRestartChecksum \<mapsto> c))) (hazelcastBasicConfig quantity mega h))"

subsection \<open>The configuration of the user\<close>

text \<open>A document of \<^verbatim>\<open>yaml.v3\<close> as \<^verbatim>\<open>map[string]interface{}\<close>: the entries in the order in which Go visits them, no
  key twice. What is not a map with string keys is a leaf.\<close>

datatype yval = YMap "(string \<times> yval) list" | YLeaf string

function deepMerge :: "(string \<times> yval) list \<Rightarrow> (string \<times> yval) list \<Rightarrow> (string \<times> yval) list" where
  "deepMerge dst [] = dst"
| "deepMerge dst ((k, v) # src) = deepMerge
     (case map_of dst k of
        None \<Rightarrow> AList.update k v dst
      | Some d \<Rightarrow>
          (case v of
             YMap src2 \<Rightarrow> (case d of YMap dst2 \<Rightarrow> AList.update k (YMap (deepMerge dst2 src2)) dst | YLeaf _ \<Rightarrow> AList.update k v dst)
           | YLeaf _ \<Rightarrow> AList.update k v dst)) src"
  by pat_completeness auto

termination
  by (relation "measure (\<lambda>(dst, src). size_list (size_prod (\<lambda>_. 0) size) src)") auto

text \<open>\<open>crCfg\<close> is the generated configuration read back as a map. Without the annotation its sections
  replace those of the user.\<close>

definition mergeMaps :: "bool \<Rightarrow> (string \<times> yval) list \<Rightarrow> (string \<times> yval) list \<Rightarrow> (string \<times> yval) list" where
  "mergeMaps overwrite cstCfg crCfg =
     (if overwrite then deepMerge crCfg cstCfg else fold (\<lambda>(k, v) m. AList.update k v m) crCfg cstCfg)"

subsection \<open>The whole configuration\<close>

record ConfigMap =
  cm_Annotations :: "string \<rightharpoonup> string"
  cm_Data :: "string \<rightharpoonup> string"

text \<open>What \<^verbatim>\<open>hazelcastConfig\<close> reads. \<open>ce_Config\<close> is \<^verbatim>\<open>getHazelcastConfig\<close>: the stored configuration of the cluster.\<close>

record cfg_env =
  ce_Config :: "NamespacedName \<Rightarrow> go_error + Hazelcast_cfg"
  ce_ListMaps :: "string \<Rightarrow> string \<Rightarrow> go_error + Map list"
  ce_ListWan :: "string \<Rightarrow> string \<Rightarrow> go_error + WanReplication list"
  ce_ListUcn :: "string \<Rightarrow> string \<Rightarrow> go_error + UserCodeNamespace list"
  ce_ListMultiMaps :: "string \<Rightarrow> string \<Rightarrow> go_error + MultiMap list"
  ce_ListTopics :: "string \<Rightarrow> string \<Rightarrow> go_error + Topic list"
  ce_ListReplicatedMaps :: "string \<Rightarrow> string \<Rightarrow> go_error + ReplicatedMap list"
  ce_ListQueues :: "string \<Rightarrow> string \<Rightarrow> go_error + Queue list"
  ce_ListCaches :: "string \<Rightarrow> string \<Rightarrow> go_error + Cache list"
  ce_Secret :: "NamespacedName \<Rightarrow> go_error + (string \<rightharpoonup> string)"
  ce_ConfigMap :: "NamespacedName \<Rightarrow> go_error + ConfigMap"
  ce_MapSpec :: "string \<Rightarrow> go_error + MapSpec"
  ce_UcnSpec :: "string \<Rightarrow> go_error + UserCodeNamespaceSpec"
  ce_SetMultiMap :: "string \<Rightarrow> MultiMapSpec \<Rightarrow> go_error + MultiMapSpec"
  ce_SetTopic :: "string \<Rightarrow> TopicSpec \<Rightarrow> go_error + TopicSpec"
  ce_SetReplicatedMap :: "string \<Rightarrow> ReplicatedMapSpec \<Rightarrow> go_error + ReplicatedMapSpec"
  ce_SetQueue :: "string \<Rightarrow> QueueSpec \<Rightarrow> go_error + QueueSpec"
  ce_SetCache :: "string \<Rightarrow> CacheSpec \<Rightarrow> go_error + CacheSpec"
  ce_Value :: "Quantity option \<Rightarrow> int64 go"
  ce_Mega :: "Quantity \<Rightarrow> int64"
  ce_MarshalCfg :: "Hazelcast_cfg \<Rightarrow> go_error + string"
  ce_UnmarshalMap :: "string \<Rightarrow> go_error + (string \<times> yval) list"
  ce_MarshalMap :: "(string \<times> yval) list \<Rightarrow> go_error + string"
  ce_MarshalWrapper :: "Hazelcast_cfg \<Rightarrow> go_error + string"

definition bindE :: "'e + 'a \<Rightarrow> ('a \<Rightarrow> ('e + 'b) go) \<Rightarrow> ('e + 'b) go" where
  "bindE r k = (case r of Inl e \<Rightarrow> Some (Inl e) | Inr x \<Rightarrow> k x)"

lemma bindE_simps [simp]: "bindE (Inl e) k = Some (Inl e)" "bindE (Inr x) k = k x"
  by (simp_all add: bindE_def)

definition mergeConfig :: "cfg_env \<Rightarrow> (string \<times> yval) list \<Rightarrow> Hazelcast_cfg \<Rightarrow> bool \<Rightarrow> (go_error + (string \<times> yval) list) go" where
  "mergeConfig env cstCfg cfg overwrite =
     bindE (ce_MarshalCfg env cfg) (\<lambda>out. bindE (ce_UnmarshalMap env out) (\<lambda>crCfg. Some (Inr (mergeMaps overwrite cstCfg crCfg))))"

definition HazelcastCustomConfigOverwriteAnnotation :: string where
  "HazelcastCustomConfigOverwriteAnnotation = ''hazelcast.com/custom-config-overwrite''"

text \<open>The properties are written into the resource at hand. A map of the user that is nil is treated as
  an empty one, which \<^verbatim>\<open>mergeProperties\<close> fills with the defaults.\<close>

definition withProperties :: "Hazelcast \<Rightarrow> Hazelcast" where
  "withProperties h =
     (let s = h_Spec h; ps = mergeProperties (hs_Properties s);
          ps' = (if HazelcastSpec_IsTieredStorageEnabled s then ps(''hazelcast.tiered.store.force.enabled'' \<mapsto> ''true'') else ps)
      in h\<lparr> h_Spec := s\<lparr> hs_Properties := ps' \<rparr> \<rparr>)"

text \<open>The base directory of older versions is kept. An error of reading the stored configuration is
  only logged.\<close>

definition keepBaseDir :: "cfg_env \<Rightarrow> Hazelcast \<Rightarrow> Hazelcast_cfg \<Rightarrow> Hazelcast_cfg" where
  "keepBaseDir env h cfg =
     (if Persistence_IsEnabled (hs_Persistence (h_Spec h))
      then case ce_Config env \<lparr> nn_Name = om_Name (h_Meta h), nn_Namespace = om_Namespace (h_Meta h) \<rparr> of
             Inl _ \<Rightarrow> cfg
           | Inr existing \<Rightarrow>
               if pe_BaseDir (cfg_Persistence existing) \<noteq> BaseDir
               then cfg\<lparr> cfg_Persistence := (cfg_Persistence cfg)\<lparr> pe_BaseDir := PersistenceMountPath,
                      pe_BackupDir := path_Join PersistenceMountPath ''hot-backup'' \<rparr> \<rparr>
               else cfg
      else cfg)"

text \<open>The parts of the resources on the cluster, in the order of the source.\<close>

definition fillStructures :: "cfg_env \<Rightarrow> Hazelcast \<Rightarrow> Hazelcast_cfg \<Rightarrow> (go_error + Hazelcast_cfg) go" where
  "fillStructures env h cfg =
     (let name = om_Name (h_Meta h); ns = om_Namespace (h_Meta h) in
      bindE (ce_ListMaps env name ns) (\<lambda>maps.
      Option.bind (fillHazelcastConfigWithMaps (createMapConfig (ce_Value env) (ce_Secret env) h)
                     (filterPersistedMaps (ce_MapSpec env) maps)) (\<lambda>r. bindE r (\<lambda>mapCfg.
      bindE (ce_ListWan env name ns) (\<lambda>wans.
      Option.bind (filterPersistedWanReplications name wans) (\<lambda>wrl.
      Option.bind (fillHazelcastConfigWithWanReplications wrl) (\<lambda>wanCfg.
      bindE (ce_ListUcn env name ns) (\<lambda>ucns.
      bindE (ce_ListMultiMaps env name ns) (\<lambda>mms.
      Option.bind (fillHazelcastConfigWithMultiMaps (filterPersistedDS (ce_SetMultiMap env) mms)) (\<lambda>mmCfg.
      bindE (ce_ListTopics env name ns) (\<lambda>ts.
      Option.bind (fillHazelcastConfigWithTopics (filterPersistedDS (ce_SetTopic env) ts)) (\<lambda>tCfg.
      bindE (ce_ListReplicatedMaps env name ns) (\<lambda>rms.
      Option.bind (fillHazelcastConfigWithReplicatedMaps (filterPersistedDS (ce_SetReplicatedMap env) rms)) (\<lambda>rmCfg.
      bindE (ce_ListQueues env name ns) (\<lambda>qs.
      Option.bind (fillHazelcastConfigWithQueues (filterPersistedDS (ce_SetQueue env) qs)) (\<lambda>qCfg.
      bindE (ce_ListCaches env name ns) (\<lambda>cs.
      Option.bind (fillHazelcastConfigWithCaches (filterPersistedDS (ce_SetCache env) cs)) (\<lambda>cCfg.
      Some (Inr (cfg\<lparr> cfg_Map := mapCfg, cfg_WanReplication := wanCfg,
        cfg_UserCodeNamespaces := fillHazelcastConfigWithUserCodeNamespaces (h_Spec h) (filterUserCodeNamespaces (ce_UcnSpec env) ucns),
        cfg_MultiMap := mmCfg, cfg_Topic := tCfg, cfg_ReplicatedMap := rmCfg, cfg_Queue := qCfg, cfg_Cache := cCfg \<rparr>))))))))))))))))))))"

definition fillSpec :: "HazelcastSpec \<Rightarrow> Hazelcast_cfg \<Rightarrow> Hazelcast_cfg" where
  "fillSpec s cfg = (case fillHazelcastConfigWithExecutorServices s of (es, des, ses) \<Rightarrow>
     cfg\<lparr> cfg_Properties := hs_Properties s, cfg_ExecutorService := es, cfg_DurableExecutorService := des,
       cfg_ScheduledExecutorService := ses, cfg_Serialization := fillHazelcastConfigWithSerialization s \<rparr>)"

definition withCustomConfig :: "cfg_env \<Rightarrow> Hazelcast \<Rightarrow> Hazelcast_cfg \<Rightarrow> (go_error + string) go" where
  "withCustomConfig env h cfg =
     (let cm = hs_CustomConfigCmName (h_Spec h) in
      if cm \<noteq> []
      then bindE (ce_ConfigMap env \<lparr> nn_Name = cm, nn_Namespace = om_Namespace (h_Meta h) \<rparr>) (\<lambda>cfgCm.
           bindE (ce_UnmarshalMap env (case cm_Data cfgCm HazelcastCustomConfigKey of None \<Rightarrow> [] | Some d \<Rightarrow> d)) (\<lambda>cfgMap.
           Option.bind (mergeConfig env cfgMap cfg (cm_Annotations cfgCm HazelcastCustomConfigOverwriteAnnotation = Some ''true'')) (\<lambda>r.
           bindE r (\<lambda>merged. Some (ce_MarshalMap env [(''hazelcast'', YMap merged)])))))
      else Some (ce_MarshalWrapper env cfg))"

text \<open>The configuration before a custom one is merged into it, and the file with the resource at hand
  afterwards.\<close>

definition generatedConfig :: "cfg_env \<Rightarrow> Hazelcast \<Rightarrow> (go_error + Hazelcast_cfg) go" where
  "generatedConfig env h =
     Option.bind (hazelcastBasicConfig (ce_Value env) (ce_Mega env) h) (\<lambda>cfg.
     let h' = withProperties h
     in fillStructures env h' (fillSpec (h_Spec h') (keepBaseDir env h cfg)))"

definition hazelcastConfig :: "cfg_env \<Rightarrow> Hazelcast \<Rightarrow> (go_error + string) go \<times> Hazelcast" where
  "hazelcastConfig env h =
     (Option.bind (generatedConfig env h) (\<lambda>r. bindE r (withCustomConfig env (withProperties h))), withProperties h)"

end
