(* ===== verification/Config_Safety.thy ===== *)
theory Config_Safety
  imports Cluster_Config Samples
begin

text \<open>
  Properties of the configuration file: the merge with a configuration of the user against a
  reference that knows no order of keys, the directory of the persisted data across
  reconciliations, and what does not restart the members.
\<close>

subsection \<open>The merge against a reference\<close>

text \<open>The meaning of a document: a finite tree of partial maps. \<open>overlay s d\<close> is \<open>d\<close> with \<open>s\<close> laid over it: a key
  of only one side is kept, maps of both sides are overlaid, and otherwise \<open>s\<close> wins.\<close>

datatype ynode = Node "string \<Rightarrow> ynode option" | Leaf string

fun denote :: "yval \<Rightarrow> ynode" where
  "denote (YLeaf s) = Leaf s"
| "denote (YMap es) = Node (map_of (map (\<lambda>(k, v). (k, denote v)) es))"

primrec overlay :: "ynode \<Rightarrow> ynode \<Rightarrow> ynode" where
  "overlay (Leaf s) d = Leaf s"
| "overlay (Node sm) d = (case d of
     Leaf _ \<Rightarrow> Node sm
   | Node dm \<Rightarrow> Node (\<lambda>k. case dm k of
       None \<Rightarrow> sm k
     | Some x \<Rightarrow> (case (map_option overlay \<circ> sm) k of None \<Rightarrow> Some x | Some f \<Rightarrow> Some (f x))))"

fun ywf :: "yval \<Rightarrow> bool" where
  "ywf (YLeaf s) = True"
| "ywf (YMap es) = (distinct (map fst es) \<and> (\<forall>(k, v) \<in> set es. ywf v))"

abbreviation meaning :: "(string \<times> yval) list \<Rightarrow> string \<Rightarrow> ynode option" where
  "meaning es \<equiv> map_option denote \<circ> map_of es"

lemma denote_map [simp]: "denote (YMap es) = Node (meaning es)"
  by (simp add: map_of_map)

declare denote.simps(2) [simp del]

lemma meaning_update [simp]: "meaning (AList.update k v es) = (meaning es)(k \<mapsto> denote v)"
  by (auto simp: update_conv')

lemma meaning_deepMerge:
  "ywf (YMap src) \<Longrightarrow> meaning (deepMerge dst src) k = (case meaning dst k of
     None \<Rightarrow> meaning src k
   | Some x \<Rightarrow> (case meaning src k of None \<Rightarrow> Some x | Some s \<Rightarrow> Some (overlay s x)))"
proof (induction dst src arbitrary: k rule: deepMerge.induct)
  case (1 dst)
  then show ?case by (simp split: option.split)
next
  case (2 dst key v src)
  define dst' where "dst' = (case map_of dst key of
        None \<Rightarrow> AList.update key v dst
      | Some d \<Rightarrow>
          (case v of
             YMap src2 \<Rightarrow> (case d of YMap dst2 \<Rightarrow> AList.update key (YMap (deepMerge dst2 src2)) dst | YLeaf _ \<Rightarrow> AList.update key v dst)
           | YLeaf _ \<Rightarrow> AList.update key v dst))"
  have rest: "ywf (YMap src)" "ywf v" "map_of src key = None"
    using "2.prems" by (auto simp: map_of_eq_None_iff)
  have nested: "denote (YMap (deepMerge dst2 src2)) = overlay (denote (YMap src2)) (denote (YMap dst2))"
    if "map_of dst key = Some (YMap dst2)" "v = YMap src2" for dst2 src2
  proof -
    have "meaning (deepMerge dst2 src2) j = (case meaning dst2 j of
        None \<Rightarrow> meaning src2 j | Some x \<Rightarrow> (case meaning src2 j of None \<Rightarrow> Some x | Some s \<Rightarrow> Some (overlay s x)))" for j
      using "2.IH"(1) [OF that] rest(2) that by simp
    then show ?thesis by (auto split: option.split intro!: ext)
  qed
  have step: "meaning dst' = (meaning dst)(key \<mapsto> (case meaning dst key of None \<Rightarrow> denote v | Some x \<Rightarrow> overlay (denote v) x))"
  proof (cases "map_of dst key")
    case None
    then show ?thesis by (simp add: dst'_def)
  next
    case (Some d)
    then show ?thesis using nested by (cases v; cases d) (simp_all add: dst'_def)
  qed
  have "meaning (deepMerge dst' src) k = (case meaning dst' k of
     None \<Rightarrow> meaning src k
   | Some x \<Rightarrow> (case meaning src k of None \<Rightarrow> Some x | Some s \<Rightarrow> Some (overlay s x)))"
    using "2.IH"(2) [OF rest(1), folded dst'_def] .
  then show ?case unfolding deepMerge.simps dst'_def [symmetric] step using rest(3) by (auto split: option.split)
qed

lemma meaning_sections: "distinct (map fst cr) \<Longrightarrow> meaning (fold (\<lambda>(k, v) m. AList.update k v m) cr cst) = meaning cst ++ meaning cr"
proof (induction cr arbitrary: cst)
  case Nil
  then show ?case by (simp add: map_add_def fun_eq_iff)
next
  case (Cons e cr)
  obtain k v where e: "e = (k, v)" by fastforce
  with Cons have "map_of cr k = None" by (auto simp: map_of_eq_None_iff)
  with Cons e show ?case by (auto simp: map_add_def fun_eq_iff update_conv' split: option.split)
qed

lemma mergeMaps_meaning:
  assumes "ywf (YMap cstCfg)" and "ywf (YMap crCfg)"
  shows "denote (YMap (mergeMaps overwrite cstCfg crCfg)) =
    (if overwrite then overlay (denote (YMap cstCfg)) (denote (YMap crCfg)) else Node (meaning cstCfg ++ meaning crCfg))"
proof (cases overwrite)
  case True
  have "meaning (deepMerge crCfg cstCfg) k = (case meaning crCfg k of None \<Rightarrow> meaning cstCfg k
     | Some x \<Rightarrow> (case meaning cstCfg k of None \<Rightarrow> Some x | Some s \<Rightarrow> Some (overlay s x)))" for k
    by (rule meaning_deepMerge [OF assms(1)])
  with True show ?thesis by (auto simp: mergeMaps_def split: option.split intro!: ext)
next
  case False
  with assms(2) show ?thesis by (simp add: mergeMaps_def meaning_sections)
qed

lemma bindE_eq: "bindE r k = Some (Inr y) \<longleftrightarrow> (\<exists>x. r = Inr x \<and> k x = Some (Inr y))"
  by (cases r) auto

definition customText :: "ConfigMap \<Rightarrow> string" where
  "customText cm = (case cm_Data cm HazelcastCustomConfigKey of None \<Rightarrow> [] | Some d \<Rightarrow> d)"

abbreviation customKey :: "Hazelcast \<Rightarrow> NamespacedName" where
  "customKey h \<equiv> \<lparr> nn_Name = hs_CustomConfigCmName (h_Spec h), nn_Namespace = om_Namespace (h_Meta h) \<rparr>"

lemma withProperties_simps [simp]:
  "h_Meta (withProperties h) = h_Meta h" "hs_CustomConfigCmName (h_Spec (withProperties h)) = hs_CustomConfigCmName (h_Spec h)"
  "hs_Persistence (h_Spec (withProperties h)) = hs_Persistence (h_Spec h)"
  by (simp_all add: withProperties_def Let_def)

lemma hazelcastConfig_cases:
  assumes "fst (hazelcastConfig env h) = Some (Inr file)"
  obtains (plain) cfg where "generatedConfig env h = Some (Inr cfg)" "hs_CustomConfigCmName (h_Spec h) = []"
      "ce_MarshalWrapper env cfg = Inr file"
    | (custom) cfg cm cst out cr where "generatedConfig env h = Some (Inr cfg)" "hs_CustomConfigCmName (h_Spec h) \<noteq> []"
      "ce_ConfigMap env (customKey h) = Inr cm" "ce_UnmarshalMap env (customText cm) = Inr cst"
      "ce_MarshalCfg env cfg = Inr out" "ce_UnmarshalMap env out = Inr cr"
      "ce_MarshalMap env [(''hazelcast'',
         YMap (mergeMaps (cm_Annotations cm HazelcastCustomConfigOverwriteAnnotation = Some ''true'') cst cr))] = Inr file"
proof -
  from assms obtain cfg where cfg: "generatedConfig env h = Some (Inr cfg)" "withCustomConfig env (withProperties h) cfg = Some (Inr file)"
    by (auto simp: hazelcastConfig_def Option.bind_eq_Some_conv bindE_eq)
  show thesis
  proof (cases "hs_CustomConfigCmName (h_Spec h) = []")
    case True
    with cfg plain show thesis by (simp add: withCustomConfig_def)
  next
    case False
    with cfg custom show thesis
      by (auto simp: withCustomConfig_def Let_def bindE_eq mergeConfig_def Option.bind_eq_Some_conv customText_def)
  qed
qed

text \<open>C4: a file that is written for a cluster with a custom configuration holds, under its single section, the
  generated configuration and that of the ConfigMap, merged as documented, whatever order Go visits the keys in:
  when the ConfigMap has the annotation \<^verbatim>\<open>hazelcast.com/custom-config-overwrite\<close> with the value \<^verbatim>\<open>true\<close>, the custom configuration is
  laid over the generated one, down to the single values; otherwise the sections of the generated configuration replace
  those of the user. (A document that is read has no key twice.)\<close>

theorem custom_config_merged:
  assumes "fst (hazelcastConfig env h) = Some (Inr file)" and "hs_CustomConfigCmName (h_Spec h) \<noteq> []"
    and "\<And>t es. ce_UnmarshalMap env t = Inr es \<Longrightarrow> ywf (YMap es)"
  shows "\<exists>cfg out crCfg cm cstCfg merged. generatedConfig env h = Some (Inr cfg) \<and>
    ce_MarshalCfg env cfg = Inr out \<and> ce_UnmarshalMap env out = Inr crCfg \<and>
    ce_ConfigMap env (customKey h) = Inr cm \<and> ce_UnmarshalMap env (customText cm) = Inr cstCfg \<and>
    ce_MarshalMap env [(''hazelcast'', YMap merged)] = Inr file \<and>
    denote (YMap merged) =
      (if cm_Annotations cm ''hazelcast.com/custom-config-overwrite'' = Some ''true''
       then overlay (denote (YMap cstCfg)) (denote (YMap crCfg)) else Node (meaning cstCfg ++ meaning crCfg))"
  using assms(1)
proof (cases rule: hazelcastConfig_cases)
  case (custom cfg cm cst out cr)
  have merged: "denote (YMap (mergeMaps (cm_Annotations cm HazelcastCustomConfigOverwriteAnnotation = Some ''true'') cst cr)) =
      (if cm_Annotations cm ''hazelcast.com/custom-config-overwrite'' = Some ''true''
       then overlay (denote (YMap cst)) (denote (YMap cr)) else Node (meaning cst ++ meaning cr))"
    using mergeMaps_meaning [OF assms(3) [OF custom(4)] assms(3) [OF custom(6)]]
    by (simp add: HazelcastCustomConfigOverwriteAnnotation_def)
  show ?thesis
    by (rule exI [of _ cfg], rule exI [of _ out], rule exI [of _ cr], rule exI [of _ cm], rule exI [of _ cst], rule exI)
      (use custom merged in blast)
qed (use assms(2) in simp)

subsection \<open>The directory of the persisted data\<close>

definition clusterKey :: "Hazelcast \<Rightarrow> NamespacedName" where
  "clusterKey h = \<lparr> nn_Name = om_Name (h_Meta h), nn_Namespace = om_Namespace (h_Meta h) \<rparr>"

definition dataDirs :: "Hazelcast_cfg \<Rightarrow> string \<times> string" where
  "dataDirs cfg = (pe_BaseDir (cfg_Persistence cfg), pe_BackupDir (cfg_Persistence cfg))"

text \<open>The directories of a new cluster, and those of a cluster that an older operator has set up.\<close>

definition currentDirs :: "string \<times> string" where
  "currentDirs = (BaseDir, path_Join BaseDir ''hot-backup'')"

definition legacyDirs :: "string \<times> string" where
  "legacyDirs = (PersistenceMountPath, path_Join PersistenceMountPath ''hot-backup'')"

lemma fillStructures_keeps:
  "fillStructures env h cfg = Some (Inr cfg') \<Longrightarrow> cfg_Persistence cfg' = cfg_Persistence cfg \<and> cfg_Properties cfg' = cfg_Properties cfg"
  by (auto simp: fillStructures_def Let_def bindE_eq Option.bind_eq_Some_conv)

lemma fillSpec_keeps [simp]: "cfg_Persistence (fillSpec s cfg) = cfg_Persistence cfg" "cfg_Properties (fillSpec s cfg) = hs_Properties s"
  by (simp_all add: fillSpec_def split: prod.split)

lemma basicConfig_persistence:
  "hazelcastBasicConfig quantity mega h = Some cfg \<Longrightarrow> cfg_Persistence cfg = basicPersistence (h_Spec h)"
  by (auto simp: hazelcastBasicConfig_def Let_def Option.bind_eq_Some_conv)

lemma generated_persistence:
  assumes "generatedConfig env h = Some (Inr cfg)"
  shows "cfg_Persistence cfg = cfg_Persistence (keepBaseDir env h (Hazelcast_cfgZero\<lparr> cfg_Persistence := basicPersistence (h_Spec h) \<rparr>))"
  using assms
  by (auto simp: generatedConfig_def Let_def Option.bind_eq_Some_conv keepBaseDir_def
      dest!: fillStructures_keeps basicConfig_persistence split: sum.splits)

lemma generated_dirs:
  assumes "generatedConfig env h = Some (Inr cfg)" and "hs_Persistence (h_Spec h) \<noteq> None"
  shows "dataDirs cfg = (case ce_Config env (clusterKey h) of
     Inl _ \<Rightarrow> currentDirs | Inr stored \<Rightarrow> if fst (dataDirs stored) = BaseDir then currentDirs else legacyDirs)"
  using assms(2) generated_persistence [OF assms(1)]
  by (auto simp: keepBaseDir_def dataDirs_def basicPersistence_def Persistence_IsEnabled_def currentDirs_def legacyDirs_def clusterKey_def
      split: sum.splits)

lemma dirs_differ: "fst legacyDirs \<noteq> BaseDir" "currentDirs \<noteq> legacyDirs" "fst currentDirs = BaseDir"
  by (simp_all add: currentDirs_def legacyDirs_def BaseDir_def)

text \<open>What reading a file back (\<^verbatim>\<open>getHazelcastConfig\<close>) has to do with writing it, as far as the two directories are concerned: the
  configuration that was written has them, and a merged document has them when its section
  \<^verbatim>\<open>persistence\<close> is that of the generated one, which a configuration with persistence has.\<close>

definition yaml_dirs :: "cfg_env \<Rightarrow> (string \<Rightarrow> go_error + Hazelcast_cfg) \<Rightarrow> bool" where
  "yaml_dirs env parse \<longleftrightarrow>
     (\<forall>cfg file. ce_MarshalWrapper env cfg = Inr file \<longrightarrow> (\<exists>c. parse file = Inr c \<and> dataDirs c = dataDirs cfg)) \<and>
     (\<forall>cfg out cr. ce_MarshalCfg env cfg = Inr out \<and> ce_UnmarshalMap env out = Inr cr \<and> pe_Enabled (cfg_Persistence cfg) = Some True \<longrightarrow>
        meaning cr ''persistence'' \<noteq> None \<and>
        (\<forall>merged file. ce_MarshalMap env [(''hazelcast'', YMap merged)] = Inr file \<and>
           meaning merged ''persistence'' = meaning cr ''persistence'' \<longrightarrow> (\<exists>c. parse file = Inr c \<and> dataDirs c = dataDirs cfg))) \<and>
     (\<forall>t es. ce_UnmarshalMap env t = Inr es \<longrightarrow> ywf (YMap es))"

text \<open>The custom configuration, if there is one, does not overwrite the section \<^verbatim>\<open>persistence\<close>.\<close>

definition customKeepsPersistence :: "cfg_env \<Rightarrow> Hazelcast \<Rightarrow> bool" where
  "customKeepsPersistence env h \<longleftrightarrow> (\<forall>cm cst. hs_CustomConfigCmName (h_Spec h) \<noteq> [] \<and> ce_ConfigMap env (customKey h) = Inr cm \<and>
     ce_UnmarshalMap env (customText cm) = Inr cst \<longrightarrow>
     cm_Annotations cm HazelcastCustomConfigOverwriteAnnotation \<noteq> Some ''true'' \<or> map_of cst ''persistence'' = None)"

lemma generated_enabled:
  assumes "generatedConfig env h = Some (Inr cfg)" and "hs_Persistence (h_Spec h) \<noteq> None"
  shows "pe_Enabled (cfg_Persistence cfg) = Some True"
  using assms(2) generated_persistence [OF assms(1)]
  by (auto simp: keepBaseDir_def basicPersistence_def split: sum.splits)

lemma node_meaning: "denote (YMap es) = Node m \<Longrightarrow> meaning es = m"
  by simp

lemma file_dirs:
  assumes "fst (hazelcastConfig env h) = Some (Inr file)" and "yaml_dirs env parse" and "customKeepsPersistence env h"
    and "hs_Persistence (h_Spec h) \<noteq> None"
  shows "\<exists>cfg c. generatedConfig env h = Some (Inr cfg) \<and> parse file = Inr c \<and> dataDirs c = dataDirs cfg"
  using assms(1)
proof (cases rule: hazelcastConfig_cases)
  case (plain cfg)
  with assms(2) show ?thesis unfolding yaml_dirs_def by blast
next
  case (custom cfg cm cst out cr)
  let ?over = "cm_Annotations cm HazelcastCustomConfigOverwriteAnnotation = Some ''true''"
  from assms(2) custom(4,6) have "ywf (YMap cst)" "ywf (YMap cr)" unfolding yaml_dirs_def by blast+
  note merged = mergeMaps_meaning [OF this, of ?over]
  from assms(2) custom(5,6) generated_enabled [OF custom(1) assms(4)] have present: "meaning cr ''persistence'' \<noteq> None"
    unfolding yaml_dirs_def by blast
  from assms(3) custom(2-4) have "\<not> ?over \<or> map_of cst ''persistence'' = None" unfolding customKeepsPersistence_def by metis
  with present have "meaning (mergeMaps ?over cst cr) ''persistence'' = meaning cr ''persistence''"
    using node_meaning [of "mergeMaps ?over cst cr"] merged by (cases ?over) (auto simp: map_add_def split: option.splits)
  with assms(2) custom(1,5-7) generated_enabled [OF custom(1) assms(4)] show ?thesis unfolding yaml_dirs_def by blast
qed


text \<open>But an error of reading the stored configuration is only logged: then the directories of a new
  cluster are written, and a cluster that keeps its data in the old directory starts without it.\<close>

theorem data_directory_lost:
  assumes "ce_Config env (clusterKey h) = Inl e" and "hs_Persistence (h_Spec h) \<noteq> None"
    and "generatedConfig env h = Some (Inr cfg)"
  shows "dataDirs cfg = currentDirs \<and> dataDirs cfg \<noteq> legacyDirs"
  using generated_dirs [OF assms(3,2)] assms(1) dirs_differ by simp

subsection \<open>Properties\<close>

lemma generated_properties:
  assumes "generatedConfig env h = Some (Inr cfg)"
  shows "cfg_Properties cfg = hs_Properties (h_Spec (withProperties h))"
  using assms
  by (auto simp: generatedConfig_def Let_def Option.bind_eq_Some_conv dest!: fillStructures_keeps)

lemma basic_without_properties [simp]:
  "basicLocalDevices q (s\<lparr> hs_Properties := ps \<rparr>) = basicLocalDevices q s" "basicCPSubsystem (s\<lparr> hs_Properties := ps \<rparr>) = basicCPSubsystem s"
  "basicNetwork (h\<lparr> h_Spec := (h_Spec h)\<lparr> hs_Properties := ps \<rparr> \<rparr>) = basicNetwork h" "basicJet (s\<lparr> hs_Properties := ps \<rparr>) = basicJet s"
  "basicPersistence (s\<lparr> hs_Properties := ps \<rparr>) = basicPersistence s" "basicPartitionGroup (s\<lparr> hs_Properties := ps \<rparr>) = basicPartitionGroup s"
  "basicNativeMemory m (s\<lparr> hs_Properties := ps \<rparr>) = basicNativeMemory m s"
  by (simp_all add: basicLocalDevices_def basicCPSubsystem_def basicNetwork_def basicJet_def basicPersistence_def
      basicPartitionGroup_def basicNativeMemory_def Let_def cong: option.case_cong)

text \<open>C6: a change of the properties of a cluster never restarts its members, although the properties are
  among the settings that are meant to: the checksum that restarts them is taken of the basic
  configuration, which has no properties, while the file has them.\<close>

theorem properties_never_restart:
  assumes "generatedConfig env h = Some (Inr cfg)"
    and "h' = h\<lparr> h_Spec := (h_Spec h)\<lparr> hs_Properties := props \<rparr> \<rparr>"
  shows "podAnnotations (ce_Value env) (ce_Mega env) checksum annotations h' =
      podAnnotations (ce_Value env) (ce_Mega env) checksum annotations h \<and>
    cfg_Properties (configForcingRestart cfg) = hs_Properties (h_Spec (withProperties h))"
proof
  have "hazelcastBasicConfig q m h' = hazelcastBasicConfig q m h" for q m
    by (simp add: assms(2) hazelcastBasicConfig_def Let_def)
  then show "podAnnotations (ce_Value env) (ce_Mega env) checksum annotations h' =
      podAnnotations (ce_Value env) (ce_Mega env) checksum annotations h"
    by (simp add: podAnnotations_def assms(2) Let_def)
  show "cfg_Properties (configForcingRestart cfg) = hs_Properties (h_Spec (withProperties h))"
    using generated_properties [OF assms(1)] by (simp add: configForcingRestart_def)
qed

subsection \<open>A cluster with persistence\<close>

definition sample_kept :: Hazelcast where
  "sample_kept = sample_hazelcast\<lparr> h_Spec := sample_hazelcast_spec\<lparr> hs_Persistence := Some
     \<lparr> hp_DeprecatedBaseDir = [], hp_ClusterDataRecoveryPolicy = FullRecovery, hp_StartupAction = StartupActionUnset,
       hp_DataRecoveryTimeout = 0, hp_PVC = Some \<lparr> pvc_AccessModes = Some [''ReadWriteOnce''],
         pvc_RequestStorage = Some (QuantityOf ''8Gi''), pvc_StorageClassName = None \<rparr>,
       hp_Restore = RestoreConfigurationZero \<rparr> \<rparr> \<rparr>"

definition sample_cfg_env :: "go_error + Hazelcast_cfg \<Rightarrow> cfg_env" where
  "sample_cfg_env stored = \<lparr> ce_Config = (\<lambda>_. stored), ce_ListMaps = (\<lambda>_ _. Inr []), ce_ListWan = (\<lambda>_ _. Inr []),
     ce_ListUcn = (\<lambda>_ _. Inr []), ce_ListMultiMaps = (\<lambda>_ _. Inr []), ce_ListTopics = (\<lambda>_ _. Inr []),
     ce_ListReplicatedMaps = (\<lambda>_ _. Inr []), ce_ListQueues = (\<lambda>_ _. Inr []), ce_ListCaches = (\<lambda>_ _. Inr []),
     ce_Secret = (\<lambda>_. Inr Map.empty), ce_ConfigMap = (\<lambda>_. Inl (ErrOther ''none'')), ce_MapSpec = (\<lambda>_. Inr sample_map_spec),
     ce_UcnSpec = (\<lambda>_. Inl (ErrOther ''none'')), ce_SetMultiMap = (\<lambda>_ s. Inr s), ce_SetTopic = (\<lambda>_ s. Inr s),
     ce_SetReplicatedMap = (\<lambda>_ s. Inr s), ce_SetQueue = (\<lambda>_ s. Inr s), ce_SetCache = (\<lambda>_ s. Inr s),
     ce_Value = map_option (\<lambda>_. 1), ce_Mega = (\<lambda>_. 1), ce_MarshalCfg = (\<lambda>_. Inr ''yaml''), ce_UnmarshalMap = (\<lambda>_. Inr []),
     ce_MarshalMap = (\<lambda>_. Inr ''yaml''), ce_MarshalWrapper = (\<lambda>_. Inr ''yaml'') \<rparr>"

lemmas sample_generation = generatedConfig_def hazelcastBasicConfig_def basicLocalDevices_def basicCPSubsystem_def fillStructures_def
  sample_kept_def sample_defs sample_cfg_env_def withProperties_def filterPersistedMaps_def filterPersistedDS_def
  map_filter_simps filterPersistedWanReplications_def fillHazelcastConfigWithWanReplications_def fillHazelcastConfigWithMultiMaps_def
  fillHazelcastConfigWithTopics_def fillHazelcastConfigWithReplicatedMaps_def fillHazelcastConfigWithQueues_def
  fillHazelcastConfigWithCaches_def Let_def

lemma sample_generated: "\<exists>cfg. generatedConfig (sample_cfg_env stored) sample_kept = Some (Inr cfg)"
  by (simp add: sample_generation)

lemma sample_kept_persistent: "hs_Persistence (h_Spec sample_kept) \<noteq> None"
  by (simp add: sample_kept_def)

text \<open>A codec that knows the two pairs of directories, and a cluster set up by an older operator.\<close>

definition sample_codec :: "Hazelcast_cfg \<Rightarrow> go_error + string" where
  "sample_codec cfg = (if dataDirs cfg = currentDirs then Inr ''current'' else if dataDirs cfg = legacyDirs then Inr ''legacy'' else Inl (ErrOther ''yaml''))"

definition sample_parse :: "string \<Rightarrow> go_error + Hazelcast_cfg" where
  "sample_parse file = (case (if file = ''current'' then currentDirs else legacyDirs) of (base, backup) \<Rightarrow>
     Inr (Hazelcast_cfgZero\<lparr> cfg_Persistence := PersistenceZero\<lparr> pe_BaseDir := base, pe_BackupDir := backup \<rparr> \<rparr>))"

definition sample_yaml_env :: "go_error + Hazelcast_cfg \<Rightarrow> cfg_env" where
  "sample_yaml_env stored = (sample_cfg_env stored)\<lparr> ce_MarshalWrapper := sample_codec, ce_MarshalCfg := \<lambda>_. Inl (ErrOther ''yaml'') \<rparr>"

lemma sample_yaml_dirs: "yaml_dirs (sample_yaml_env stored) sample_parse"
  by (auto simp: yaml_dirs_def sample_yaml_env_def sample_cfg_env_def sample_codec_def sample_parse_def dataDirs_def currentDirs_def
      legacyDirs_def split: if_splits)

lemma sample_no_custom: "hs_CustomConfigCmName (h_Spec sample_kept) = []" "customKeepsPersistence env sample_kept"
  by (simp_all add: customKeepsPersistence_def sample_kept_def sample_hazelcast_spec_def)

lemma sample_file:
  "fst (hazelcastConfig (sample_yaml_env stored) sample_kept) = Some (Inr (case stored of
     Inl _ \<Rightarrow> ''current'' | Inr c \<Rightarrow> if fst (dataDirs c) = BaseDir then ''current'' else ''legacy''))"
proof -
  obtain cfg where g: "generatedConfig (sample_yaml_env stored) sample_kept = Some (Inr cfg)"
    by (auto simp: sample_generation sample_yaml_env_def)
  from generated_dirs [OF this sample_kept_persistent]
  have "dataDirs cfg = (case stored of Inl _ \<Rightarrow> currentDirs | Inr c \<Rightarrow> if fst (dataDirs c) = BaseDir then currentDirs else legacyDirs)"
    by (simp add: sample_yaml_env_def sample_cfg_env_def)
  with g sample_no_custom(1) dirs_differ show ?thesis
    by (auto simp: hazelcastConfig_def withCustomConfig_def sample_yaml_env_def sample_codec_def split: sum.split)
qed


text \<open>A ConfigMap that overwrites one value of the generated configuration.\<close>

definition sample_custom :: Hazelcast where
  "sample_custom = sample_kept\<lparr> h_Spec := (h_Spec sample_kept)\<lparr> hs_CustomConfigCmName := ''cm'' \<rparr> \<rparr>"

definition sample_custom_env :: cfg_env where
  "sample_custom_env = (sample_cfg_env (Inl (ErrOther ''none'')))\<lparr> ce_MarshalCfg := \<lambda>_. Inr ''cr'',
     ce_ConfigMap := \<lambda>_. Inr \<lparr> cm_Annotations = [''hazelcast.com/custom-config-overwrite'' \<mapsto> ''true''], cm_Data = [HazelcastCustomConfigKey \<mapsto> ''cst''] \<rparr>,
     ce_UnmarshalMap := \<lambda>t. Inr (if t = ''cr'' then [(''a'', YMap [(''y'', YLeaf ''4''), (''x'', YLeaf ''1'')])]
       else [(''a'', YMap [(''x'', YLeaf ''2'')]), (''b'', YLeaf ''3'')]),
     ce_MarshalMap := \<lambda>doc. Inr (if doc = [(''hazelcast'', YMap [(''a'', YMap [(''y'', YLeaf ''4''), (''x'', YLeaf ''2'')]), (''b'', YLeaf ''3'')])]
       then ''merged'' else ''other'') \<rparr>"

theorem custom_config_merged_witness:
  "fst (hazelcastConfig sample_custom_env sample_custom) = Some (Inr ''merged'') \<and>
   (\<exists>merged. ce_MarshalMap sample_custom_env [(''hazelcast'', YMap merged)] = Inr ''merged'' \<and>
     denote (YMap merged) = overlay (denote (YMap [(''a'', YMap [(''x'', YLeaf ''2'')]), (''b'', YLeaf ''3'')]))
      (denote (YMap [(''a'', YMap [(''y'', YLeaf ''4''), (''x'', YLeaf ''1'')])])))"
proof -
  obtain cfg where g: "generatedConfig sample_custom_env sample_custom = Some (Inr cfg)"
    by (auto simp: sample_generation sample_custom_env_def sample_custom_def)
  have custom: "hs_CustomConfigCmName (h_Spec sample_custom) \<noteq> []" by (simp add: sample_custom_def)
  with g have written: "fst (hazelcastConfig sample_custom_env sample_custom) = Some (Inr ''merged'')"
    by (simp add: hazelcastConfig_def withCustomConfig_def mergeConfig_def mergeMaps_def sample_custom_env_def
        HazelcastCustomConfigOverwriteAnnotation_def)
  from custom_config_merged [OF this custom] written show ?thesis
    by (fastforce simp: sample_custom_env_def customText_def split: if_splits)
qed

theorem data_directory_lost_witness:
  "\<exists>cfg. generatedConfig (sample_cfg_env (Inl (ErrOther ''timeout''))) sample_kept = Some (Inr cfg) \<and> dataDirs cfg \<noteq> legacyDirs"
proof -
  obtain cfg where g: "generatedConfig (sample_cfg_env (Inl (ErrOther ''timeout''))) sample_kept = Some (Inr cfg)"
    using sample_generated by blast
  have "ce_Config (sample_cfg_env (Inl (ErrOther ''timeout''))) (clusterKey sample_kept) = Inl (ErrOther ''timeout'')"
    by (simp add: sample_cfg_env_def)
  from data_directory_lost [OF this sample_kept_persistent g] g show ?thesis by blast
qed

theorem properties_never_restart_witness:
  "\<exists>cfg. generatedConfig (sample_cfg_env (Inl (ErrOther ''none''))) sample_kept = Some (Inr cfg) \<and>
     podAnnotations (map_option (\<lambda>_. 1)) (\<lambda>_. 1) (\<lambda>_. Inr ''1'') Map.empty
       (sample_kept\<lparr> h_Spec := (h_Spec sample_kept)\<lparr> hs_Properties := [''a'' \<mapsto> ''b''] \<rparr> \<rparr>) =
     podAnnotations (map_option (\<lambda>_. 1)) (\<lambda>_. 1) (\<lambda>_. Inr ''1'') Map.empty sample_kept"
proof -
  obtain cfg where g: "generatedConfig (sample_cfg_env (Inl (ErrOther ''none''))) sample_kept = Some (Inr cfg)"
    using sample_generated by blast
  from properties_never_restart [OF g refl, of "\<lambda>_. Inr ''1''" Map.empty "[''a'' \<mapsto> ''b'']"] g show ?thesis
    by (auto simp: sample_cfg_env_def)
qed

end
