(* ===== verification/Cluster_Pods.thy ===== *)
theory Cluster_Pods
  imports Cluster_Config Ucn_Controller
begin

text \<open>
  The pods of a cluster: containers, ports, volumes and mounts of the StatefulSet
  (\<^verbatim>\<open>reconcileStatefulset\<close> to \<^verbatim>\<open>hazelcastContainerPorts\<close> in \<^verbatim>\<open>hazelcast_resources.go\<close>), and the commands the
  init container runs (\<^verbatim>\<open>initContainerConfig\<close>).
\<close>

subsection \<open>Names and paths\<close>

definition HazelcastStorageName :: string where "HazelcastStorageName = ''hazelcast-storage''"
definition TmpDirVolName :: string where "TmpDirVolName = ''tmp-vol''"
definition PVCName :: string where "PVCName = ''persistence''"
definition CPPersistenceVolumeName :: string where "CPPersistenceVolumeName = ''cp-subsystem-persistence''"
definition UserCodeBucketVolumeName :: string where "UserCodeBucketVolumeName = ''user-code-bucket''"
definition UCNVolumeName :: string where "UCNVolumeName = ''user-code-namespace''"
definition JetJobJarsVolumeName :: string where "JetJobJarsVolumeName = ''jet-job-jars-bucket''"
definition UserCodeURLVolumeName :: string where "UserCodeURLVolumeName = ''user-code-url''"
definition InitConfigMap :: string where "InitConfigMap = ''agent-config-volume''"
definition MTLSCertSecretName :: string where "MTLSCertSecretName = ''hazelcast-agent-cert''"
definition MTLSCertPath :: string where "MTLSCertPath = ''/var/run/secrets/hazelcast''"
definition UserCodeBucketPath :: string where "UserCodeBucketPath = ''/opt/hazelcast/userCode/bucket''"
definition UserCodeURLPath :: string where "UserCodeURLPath = ''/opt/hazelcast/userCode/urls''"
definition UserCodeConfigMapPath :: string where "UserCodeConfigMapPath = ''/opt/hazelcast/userCode/cm''"
definition JetJobJarsPath :: string where "JetJobJarsPath = ''/opt/hazelcast/jetJobJars''"
definition InitConfigDir :: string where "InitConfigDir = ''/opt/data/config/''"
definition InitConfigFile :: string where "InitConfigFile = ''config.yaml''"
definition InitSuffix :: string where "InitSuffix = ''-init''"
definition BackupDir :: string where "BackupDir = ''/hot-backup''"
definition SidecarAgent :: string where "SidecarAgent = ''sidecar-agent''"

lemmas volume_names = HazelcastStorageName_def TmpDirVolName_def PVCName_def CPPersistenceVolumeName_def
  UserCodeBucketVolumeName_def UCNVolumeName_def JetJobJarsVolumeName_def UserCodeURLVolumeName_def InitConfigMap_def
  MTLSCertSecretName_def

subsection \<open>User code\<close>

definition UCD_IsBucketEnabled :: "UserCodeDeploymentConfig option \<Rightarrow> bool" where
  "UCD_IsBucketEnabled c = (case c of None \<Rightarrow> False | Some u \<Rightarrow> rfc_BucketConfiguration (ucd_RemoteFileConfiguration u) \<noteq> None)"

definition UCD_IsConfigMapEnabled :: "UserCodeDeploymentConfig option \<Rightarrow> bool" where
  "UCD_IsConfigMapEnabled c = (case c of None \<Rightarrow> False | Some u \<Rightarrow> rfc_ConfigMaps (ucd_RemoteFileConfiguration u) \<noteq> [])"

definition UCD_IsRemoteURLsEnabled :: "UserCodeDeploymentConfig option \<Rightarrow> bool" where
  "UCD_IsRemoteURLsEnabled c = (case c of None \<Rightarrow> False | Some u \<Rightarrow> rfc_RemoteURLs (ucd_RemoteFileConfiguration u) \<noteq> [])"

subsection \<open>Environment of the members\<close>

definition DefaultJavaOptions :: "(string \<times> string) list" where
  "DefaultJavaOptions = [(''-Dhazelcast.stale.join.prevention.duration.seconds'', ''5'')]"

definition mergeJVMArgs :: "string list \<Rightarrow> string list" where
  "mergeJVMArgs args =
     (let configured = set (map (\<lambda>a. TrimSpace (Split a ''='' ! 0)) args)
      in args @ map (\<lambda>(k, v). k @ ''='' @ v) (filter (\<lambda>(k, v). k \<notin> configured) DefaultJavaOptions))"

definition javaOPTS :: "Hazelcast \<Rightarrow> string" where
  "javaOPTS h =
     (let jvm = hs_JVM (h_Spec h); memory = JVM_GetMemory jvm; args = JVM_GetArgs jvm; gc = JVM_GCConfig jvm;
          given = (\<lambda>t v. if v \<noteq> [] then t @ v else [])
      in ''-Dhazelcast.config='' @ path_Join HazelcastMountPath ''hazelcast.yaml'' @ '' -XX:+UseContainerSupport'' @
         given '' -XX:InitialRAMPercentage='' (JVMMemory_GetInitialRAMPercentage memory) @
         given '' -XX:MinRAMPercentage='' (JVMMemory_GetMinRAMPercentage memory) @
         given '' -XX:MaxRAMPercentage='' (JVMMemory_GetMaxRAMPercentage memory) @
         concat (map (\<lambda>a. '' '' @ a)
           (if args \<noteq> [] then mergeJVMArgs args else map (\<lambda>(k, v). k @ ''='' @ v) DefaultJavaOptions)) @
         (if JVMGC_IsLoggingEnabled gc then '' -verbose:gc'' else []) @
         (case JVMGC_GetCollector gc of
            GCTypeSerial \<Rightarrow> '' -XX:+UseSerialGC''
          | GCTypeParallel \<Rightarrow> '' -XX:+UseParallelGC''
          | GCTypeG1 \<Rightarrow> '' -XX:+UseG1GC''
          | GCTypeUnset \<Rightarrow> []))"

definition javaClassPath :: "Hazelcast \<Rightarrow> string" where
  "javaClassPath h = Join
     ([path_Join UserCodeBucketPath ''*'', path_Join UserCodeURLPath ''*''] @
      (case hs_DeprecatedUserCodeDeployment (h_Spec h) of
         None \<Rightarrow> []
       | Some u \<Rightarrow> map (\<lambda>cm. path_Join (path_Join UserCodeConfigMapPath cm) ''*'') (rfc_ConfigMaps (ucd_RemoteFileConfiguration u)))) '':''"

fun LoggingLevel_text :: "LoggingLevel \<Rightarrow> string" where
  "LoggingLevel_text LoggingLevelUnset = []"
| "LoggingLevel_text LoggingLevelOff = ''OFF''"
| "LoggingLevel_text LoggingLevelFatal = ''FATAL''"
| "LoggingLevel_text LoggingLevelError = ''ERROR''"
| "LoggingLevel_text LoggingLevelWarn = ''WARN''"
| "LoggingLevel_text LoggingLevelInfo = ''INFO''"
| "LoggingLevel_text LoggingLevelDebug = ''DEBUG''"
| "LoggingLevel_text LoggingLevelTrace = ''TRACE''"
| "LoggingLevel_text LoggingLevelAll = ''ALL''"

definition LoggingPattern :: string where
  "LoggingPattern = ''{'' @ [CHR 0x22] @ ''time'' @ [CHR 0x22] @ '':'' @ [CHR 0x22] @ ''%date{ISO8601}'' @ [CHR 0x22] @ '', '' @ [CHR 0x22] @
     ''level'' @ [CHR 0x22] @ '': '' @ [CHR 0x22] @ ''%level'' @ [CHR 0x22] @ '', '' @ [CHR 0x22] @ ''threadName'' @ [CHR 0x22] @ '': '' @
     [CHR 0x22] @ ''%threadName'' @ [CHR 0x22] @ '', '' @ [CHR 0x22] @ ''logger'' @ [CHR 0x22] @ '': '' @ [CHR 0x22] @ ''%logger{36}'' @
     [CHR 0x22] @ '', '' @ [CHR 0x22] @ ''msg'' @ [CHR 0x22] @ '': '' @ [CHR 0x22] @ ''%enc{%m %xEx}{JSON}'' @ [CHR 0x22] @ ''}%n''"

definition containerEnv :: "bool \<Rightarrow> Hazelcast \<Rightarrow> EnvVar list" where
  "containerEnv phoneHome h =
     [EnvValue ''JAVA_OPTS'' (javaOPTS h), EnvValue ''HZ_PARDOT_ID'' ''operator'',
      EnvValue ''HZ_PHONE_HOME_ENABLED'' (if phoneHome then ''true'' else ''false''),
      EnvValue ''LOGGING_PATTERN'' LoggingPattern,
      EnvValue ''LOGGING_LEVEL'' (LoggingLevel_text (hs_LoggingLevel (h_Spec h))), EnvValue ''CLASSPATH'' (javaClassPath h)] @
     (if HazelcastSpec_GetLicenseKeySecretName (h_Spec h) \<noteq> []
      then [EnvSecretKeyRef ''HZ_LICENSEKEY'' (HazelcastSpec_GetLicenseKeySecretName (h_Spec h)) ''license-key''] else []) @
     map EnvRaw (hs_Env (h_Spec h))"

subsection \<open>Ports\<close>

text \<open>\<^verbatim>\<open>int\<close> has 64 bits, the port of a container 32.\<close>

definition hazelcastContainerWanRepPorts :: "Hazelcast \<Rightarrow> ContainerPort list" where
  "hazelcastContainerWanRepPorts h =
     (case hs_AdvancedNetwork (h_Spec h) of
        Some an \<Rightarrow>
          if an_WAN an \<noteq> [] then
            concat (map (\<lambda>w. map (\<lambda>i. \<lparr> cpo_ContainerPort = ucast (wc_Port w + word_of_nat i),
              cpo_Name = ''wan-'' @ wc_Name w @ ''-'' @ Itoa (int i), cpo_Protocol = ''TCP'' \<rparr>) [0..<nat (sint (wc_PortCount w))]) (an_WAN an))
          else [\<lparr> cpo_ContainerPort = word_of_int WanDefaultPort, cpo_Name = ''wan-port'', cpo_Protocol = ''TCP'' \<rparr>]
      | None \<Rightarrow> [\<lparr> cpo_ContainerPort = word_of_int WanDefaultPort, cpo_Name = ''wan-port'', cpo_Protocol = ''TCP'' \<rparr>])"

definition hazelcastContainerPorts :: "Hazelcast \<Rightarrow> ContainerPort list" where
  "hazelcastContainerPorts h =
     [\<lparr> cpo_ContainerPort = 5701, cpo_Name = ''hazelcast'', cpo_Protocol = ''TCP'' \<rparr>,
      \<lparr> cpo_ContainerPort = ucast MemberServerSocketPort, cpo_Name = ''member-port'', cpo_Protocol = ''TCP'' \<rparr>,
      \<lparr> cpo_ContainerPort = ucast RestServerSocketPort, cpo_Name = ''rest-port'', cpo_Protocol = ''TCP'' \<rparr>] @
     hazelcastContainerWanRepPorts h"

subsection \<open>Volumes and mounts\<close>

definition persistenceVolumeMount :: "string \<Rightarrow> VolumeMount" where
  "persistenceVolumeMount pvcName = \<lparr> vm_Name = pvcName, vm_MountPath = PersistenceMountPath \<rparr>"

definition ucnBucketVolumeMount :: VolumeMount where
  "ucnBucketVolumeMount = \<lparr> vm_Name = UCNVolumeName, vm_MountPath = UCNBucketPath \<rparr>"

definition ucdBucketAgentVolumeMount :: VolumeMount where
  "ucdBucketAgentVolumeMount = \<lparr> vm_Name = UserCodeBucketVolumeName, vm_MountPath = UserCodeBucketPath \<rparr>"

definition jetJobJarsVolumeMount :: VolumeMount where
  "jetJobJarsVolumeMount = \<lparr> vm_Name = JetJobJarsVolumeName, vm_MountPath = JetJobJarsPath \<rparr>"

definition tmpDirVolumeMount :: VolumeMount where
  "tmpDirVolumeMount = \<lparr> vm_Name = TmpDirVolName, vm_MountPath = ''/tmp'' \<rparr>"

definition ucdURLAgentVolumeMount :: VolumeMount where
  "ucdURLAgentVolumeMount = \<lparr> vm_Name = UserCodeURLVolumeName, vm_MountPath = UserCodeURLPath \<rparr>"

definition emptyDirVolume :: "string \<Rightarrow> Volume" where
  "emptyDirVolume name = \<lparr> vol_Name = name, vol_Source = EmptyDirSource \<rparr>"

definition tlsVolume :: Volume where
  "tlsVolume = \<lparr> vol_Name = MTLSCertSecretName, vol_Source = SecretSource MTLSCertSecretName 420 \<rparr>"

definition jetConfigMapName :: "string \<Rightarrow> string" where
  "jetConfigMapName cm = ''jet-cm-'' @ cm"

definition ucdConfigMapName :: "UserCodeDeploymentConfig \<Rightarrow> string \<Rightarrow> string" where
  "ucdConfigMapName u cm = ''user-code-cm-'' @ cm @ ucd_TriggerSequence u"

definition configMapVolumes :: "(string \<Rightarrow> string) \<Rightarrow> RemoteFileConfiguration \<Rightarrow> Volume list" where
  "configMapVolumes nameFn rfc = map (\<lambda>cm. \<lparr> vol_Name = nameFn cm, vol_Source = ConfigMapSource cm 420 \<rparr>) (rfc_ConfigMaps rfc)"

definition configMapVolumeMounts :: "(string \<Rightarrow> string) \<Rightarrow> RemoteFileConfiguration \<Rightarrow> string \<Rightarrow> VolumeMount list" where
  "configMapVolumeMounts nameFn rfc mountPath =
     map (\<lambda>cm. \<lparr> vm_Name = nameFn cm, vm_MountPath = path_Join mountPath cm \<rparr>) (rfc_ConfigMaps rfc)"

definition localDeviceVolumeMounts :: "Hazelcast \<Rightarrow> VolumeMount list" where
  "localDeviceVolumeMounts h =
     map (\<lambda>ld. \<lparr> vm_Name = ld_Name ld, vm_MountPath = path_Join TieredStorageBaseDir (ld_Name ld) \<rparr>) (hs_LocalDevices (h_Spec h))"

text \<open>The volumes, and the mounts, for the ConfigMaps with user code and with jars of Jet jobs.\<close>

definition codeVolumes :: "HazelcastSpec \<Rightarrow> Volume list" where
  "codeVolumes s =
     (case hs_DeprecatedUserCodeDeployment s of
        None \<Rightarrow> [] | Some u \<Rightarrow> configMapVolumes (ucdConfigMapName u) (ucd_RemoteFileConfiguration u)) @
     (case hs_JetEngineConfiguration s of None \<Rightarrow> [] | Some j \<Rightarrow> configMapVolumes jetConfigMapName (je_RemoteFileConfiguration j))"

definition codeVolumeMounts :: "HazelcastSpec \<Rightarrow> VolumeMount list" where
  "codeVolumeMounts s =
     (case hs_DeprecatedUserCodeDeployment s of
        None \<Rightarrow> [] | Some u \<Rightarrow> configMapVolumeMounts (ucdConfigMapName u) (ucd_RemoteFileConfiguration u) UserCodeConfigMapPath) @
     (case hs_JetEngineConfiguration s of
        None \<Rightarrow> [] | Some j \<Rightarrow> configMapVolumeMounts jetConfigMapName (je_RemoteFileConfiguration j) JetJobJarsPath)"

definition volumes :: "Hazelcast \<Rightarrow> Volume list" where
  "volumes h =
     [\<lparr> vol_Name = HazelcastStorageName, vol_Source = SecretSource (om_Name (h_Meta h)) 420 \<rparr>,
      \<lparr> vol_Name = InitConfigMap, vol_Source = ConfigMapSource (om_Name (h_Meta h) @ InitSuffix) 420 \<rparr>,
      emptyDirVolume UserCodeBucketVolumeName, emptyDirVolume UserCodeURLVolumeName, emptyDirVolume JetJobJarsVolumeName,
      emptyDirVolume TmpDirVolName, tlsVolume] @
     (if UserCodeNamespacesConfig_IsEnabled (hs_UserCodeNamespaces (h_Spec h)) then [emptyDirVolume UCNVolumeName] else []) @
     codeVolumes (h_Spec h)"

definition sidecarVolumeMounts :: "Hazelcast \<Rightarrow> string \<Rightarrow> VolumeMount list" where
  "sidecarVolumeMounts h pvcName =
     [\<lparr> vm_Name = MTLSCertSecretName, vm_MountPath = MTLSCertPath \<rparr>, jetJobJarsVolumeMount, ucdBucketAgentVolumeMount] @
     (if UserCodeNamespacesConfig_IsEnabled (hs_UserCodeNamespaces (h_Spec h)) then [ucnBucketVolumeMount] else []) @
     (if Persistence_IsEnabled (hs_Persistence (h_Spec h)) then [persistenceVolumeMount pvcName] else [])"

definition hzContainerVolumeMounts :: "Hazelcast \<Rightarrow> string \<Rightarrow> VolumeMount list" where
  "hzContainerVolumeMounts h pvcName =
     [\<lparr> vm_Name = HazelcastStorageName, vm_MountPath = HazelcastMountPath \<rparr>, ucdBucketAgentVolumeMount, ucdURLAgentVolumeMount,
      jetJobJarsVolumeMount, tmpDirVolumeMount] @
     (if Persistence_IsEnabled (hs_Persistence (h_Spec h)) then [persistenceVolumeMount pvcName] else []) @
     (if UserCodeNamespacesConfig_IsEnabled (hs_UserCodeNamespaces (h_Spec h)) then [ucnBucketVolumeMount] else []) @
     (if CP_IsEnabled (hs_CPSubsystem (h_Spec h)) \<and> CP_IsPVC (hs_CPSubsystem (h_Spec h))
      then [\<lparr> vm_Name = CPPersistenceVolumeName, vm_MountPath = CPBaseDir \<rparr>] else []) @
     localDeviceVolumeMounts h @ codeVolumeMounts (h_Spec h)"

subsection \<open>Volume claims\<close>

text \<open>A volume claim that is not set, or that asks for no storage, is dereferenced.\<close>

definition volumeClaim :: "KMeta \<Rightarrow> PvcConfiguration option \<Rightarrow> PersistentVolumeClaim go" where
  "volumeClaim meta pvc = Option.bind pvc (\<lambda>p. map_option (\<lambda>q. \<lparr> pv_Meta = meta, pv_AccessModes = pvc_AccessModes p, pv_Storage = q,
     pv_StorageClassName = pvc_StorageClassName p \<rparr>) (pvc_RequestStorage p))"

definition claimMeta :: "Hazelcast \<Rightarrow> string \<Rightarrow> (string \<rightharpoonup> string) \<Rightarrow> KMeta" where
  "claimMeta h name annotations = \<lparr> km_Name = name, km_Namespace = om_Namespace (h_Meta h), km_UID = [], km_Labels = labels h,
     km_Annotations = annotations, km_Owners = [] \<rparr>"

fun allGo :: "'a go list \<Rightarrow> 'a list go" where
  "allGo [] = Some []"
| "allGo (x # xs) = Option.bind x (\<lambda>y. map_option (\<lambda>ys. y # ys) (allGo xs))"

definition persistentVolumeClaims :: "Hazelcast \<Rightarrow> string \<Rightarrow> PersistentVolumeClaim list go" where
  "persistentVolumeClaims h pvcName = allGo
     ((case hs_Persistence (h_Spec h) of
         None \<Rightarrow> [] | Some p \<Rightarrow> [volumeClaim (claimMeta h pvcName (hs_Annotations (h_Spec h))) (hp_PVC p)]) @
      (case hs_CPSubsystem (h_Spec h) of
         None \<Rightarrow> []
       | Some cp \<Rightarrow> if CP_IsPVC (Some cp)
           then [volumeClaim (claimMeta h CPPersistenceVolumeName (hs_Annotations (h_Spec h))) (cp_PVC cp)] else []))"

definition localDevicePersistentVolumeClaim :: "Hazelcast \<Rightarrow> PersistentVolumeClaim list go" where
  "localDevicePersistentVolumeClaim h =
     allGo (map (\<lambda>ld. volumeClaim (claimMeta h (ld_Name ld) Map.empty) (ld_PVC ld)) (hs_LocalDevices (h_Spec h)))"

subsection \<open>Containers\<close>

definition podSecurityContext :: "bool \<Rightarrow> PodSecurityContext" where
  "podSecurityContext openShift =
     (if openShift then \<lparr> psc_FSGroup = None, psc_RunAsNonRoot = Some True, psc_RunAsUser = None \<rparr>
      else \<lparr> psc_FSGroup = Some 65534, psc_RunAsNonRoot = Some True, psc_RunAsUser = Some 65534 \<rparr>)"

definition containerSecurityContext :: SecurityContext where
  "containerSecurityContext = \<lparr> scx_RunAsNonRoot = Some True, scx_Privileged = Some False, scx_ReadOnlyRootFilesystem = Some True,
     scx_AllowPrivilegeEscalation = Some False, scx_Drop = [''ALL''] \<rparr>"

definition httpProbe :: "string \<Rightarrow> int32 \<Rightarrow> Probe" where
  "httpProbe p port = \<lparr> prb_Path = p, prb_Port = FromInt port, prb_InitialDelaySeconds = 0, prb_TimeoutSeconds = 10,
     prb_PeriodSeconds = 10, prb_SuccessThreshold = 1, prb_FailureThreshold = 10 \<rparr>"

definition ContainerZero :: Container where
  "ContainerZero = \<lparr> ct_Name = [], ct_Image = [], ct_Args = [], ct_Ports = [], ct_Env = [], ct_LivenessProbe = None,
     ct_ReadinessProbe = None, ct_VolumeMounts = [], ct_SecurityContext = None, ct_Resources = None, ct_ImagePullPolicy = [],
     ct_TerminationMessagePath = [], ct_TerminationMessagePolicy = [] \<rparr>"

definition sidecarContainer :: "Hazelcast \<Rightarrow> Container" where
  "sidecarContainer h = ContainerZero\<lparr> ct_Name := SidecarAgent, ct_Image := Hazelcast_AgentDockerImage h,
     ct_Ports := [\<lparr> cpo_ContainerPort = 8080, cpo_Name = SidecarAgent, cpo_Protocol = ''TCP'' \<rparr>], ct_Args := [''sidecar''],
     ct_LivenessProbe := Some (httpProbe ''/health'' 8080), ct_ReadinessProbe := Some (httpProbe ''/health'' 8080),
     ct_Env := [EnvValue ''BACKUP_CA'' (path_Join MTLSCertPath ''ca.crt''), EnvValue ''BACKUP_CERT'' (path_Join MTLSCertPath ''tls.crt''),
       EnvValue ''BACKUP_KEY'' (path_Join MTLSCertPath ''tls.key'')],
     ct_SecurityContext := Some containerSecurityContext \<rparr>"

definition initContainer :: "Hazelcast \<Rightarrow> string \<Rightarrow> Container" where
  "initContainer h pvcName =
     (let s = h_Spec h; ucd = hs_DeprecatedUserCodeDeployment s; jet = hs_JetEngineConfiguration s
      in ContainerZero\<lparr> ct_Name := ''init-container'', ct_Image := Hazelcast_AgentDockerImage h, ct_Args := [''execute-multiple-commands''],
           ct_Env := [EnvValue ''CONFIG_FILE'' (InitConfigDir @ InitConfigFile), EnvFieldRef ''HOSTNAME'' ''metadata.name''],
           ct_TerminationMessagePath := ''/dev/termination-log'', ct_TerminationMessagePolicy := ''File'',
           ct_SecurityContext := Some containerSecurityContext, ct_ImagePullPolicy := ''IfNotPresent'',
           ct_VolumeMounts := [\<lparr> vm_Name = InitConfigMap, vm_MountPath = InitConfigDir \<rparr>] @
             (if UCD_IsBucketEnabled ucd \<or> UCD_IsRemoteURLsEnabled ucd then [ucdBucketAgentVolumeMount] else []) @
             (if Jet_IsBucketEnabled jet \<or> Jet_IsRemoteURLsEnabled jet then [jetJobJarsVolumeMount] else []) @
             (if UserCodeNamespacesConfig_IsEnabled (hs_UserCodeNamespaces s) then [ucnBucketVolumeMount] else []) @
             (if Persistence_IsEnabled (hs_Persistence s) then [persistenceVolumeMount pvcName] else []) \<rparr>)"

definition appendHAModeTopologySpreadConstraints :: "Hazelcast \<Rightarrow> TopologySpreadConstraint list" where
  "appendHAModeTopologySpreadConstraints h =
     (case hs_Scheduling (h_Spec h) of None \<Rightarrow> [] | Some sch \<Rightarrow> map SpreadRaw (sch_TopologySpreadConstraints sch)) @
     (case hs_HighAvailabilityMode (h_Spec h) of
        HighAvailabilityNodeMode \<Rightarrow> [SpreadAnyway ''kubernetes.io/hostname'' (util_Labels h)]
      | HighAvailabilityZoneMode \<Rightarrow> [SpreadAnyway ''topology.kubernetes.io/zone'' (util_Labels h)]
      | HighAvailabilityUnset \<Rightarrow> [])"

subsection \<open>The StatefulSet\<close>

definition ServicePerPodCountAnnotation :: string where
  "ServicePerPodCountAnnotation = ''hazelcast.com/service-per-pod-count''"

definition statefulSetAnnotations :: "(string \<rightharpoonup> string) \<Rightarrow> Hazelcast \<Rightarrow> (string \<rightharpoonup> string) go" where
  "statefulSetAnnotations old h =
     (let annotations = old ++ hs_Annotations (h_Spec h)
      in if \<not> Expose_IsSmart (hs_ExposeExternally (h_Spec h)) then Some annotations
         else map_option (\<lambda>size. annotations(ServicePerPodCountAnnotation \<mapsto> Itoa (sint size))) (hs_ClusterSize (h_Spec h)))"

text \<open>What the construction of a StatefulSet takes from outside: the size of quantities, the checksum of a
  configuration, the platform and the settings of the operator, and \<^verbatim>\<open>semver.Compare(v, "v5.2.0") == 1\<close>.\<close>

record pod_env =
  po_Value :: "Quantity option \<Rightarrow> int64 go"
  po_Mega :: "Quantity \<Rightarrow> int64"
  po_checksum :: "Hazelcast_cfg \<Rightarrow> go_error + string"
  po_openShift :: bool
  po_phoneHome :: bool
  po_after520 :: "string \<Rightarrow> bool"

definition pvcNameOf :: "Hazelcast \<Rightarrow> string" where
  "pvcNameOf h = (if Persistence_RestoreFromLocalBackup (hs_Persistence (h_Spec h))
     then case hs_Persistence (h_Spec h) of
            Some p \<Rightarrow> (case rc_LocalConfiguration (hp_Restore p) of Some l \<Rightarrow> rl_PVCNamePrefix l | None \<Rightarrow> [])
          | None \<Rightarrow> []
     else PVCName)"

text \<open>The object that is created when there is none. Its metadata and those of the pods share the map of the
  user's annotations in the source; the mutate function replaces the one of the metadata before it writes the one of
  the pods, and what it thereby writes into the specification is in \<open>mutateSts\<close>.\<close>

definition newStatefulSet :: "pod_env \<Rightarrow> Hazelcast \<Rightarrow> StatefulSet go" where
  "newStatefulSet env h =
     Option.bind (persistentVolumeClaims h (pvcNameOf h)) (\<lambda>claims.
     Option.bind (localDevicePersistentVolumeClaim h) (\<lambda>devices.
     let health = Some (httpProbe ''/hazelcast/health/node-state'' (ucast RestServerSocketPort))
     in Some \<lparr> sfs_Meta = metadata h, sfs_Generation = 0, sfs_Selector = util_Labels h, sfs_ServiceName = om_Name (h_Meta h),
       sfs_PodManagementPolicy = ''Parallel'', sfs_Replicas = None, sfs_TemplateLabels = labels h,
       sfs_TemplateAnnotations = hs_Annotations (h_Spec h),
       sfs_Pod = \<lparr> ps_ServiceAccountName = serviceAccountName h, ps_SecurityContext = podSecurityContext (po_openShift env),
         ps_ImagePullSecrets = [], ps_InitContainers = [],
         ps_Containers = [ContainerZero\<lparr> ct_Name := ''hazelcast'', ct_LivenessProbe := health, ct_ReadinessProbe := health,
             ct_SecurityContext := Some containerSecurityContext \<rparr>, sidecarContainer h],
         ps_Volumes = [], ps_Affinity = None, ps_Tolerations = [], ps_NodeSelector = Map.empty, ps_TopologySpreadConstraints = [],
         ps_TerminationGracePeriodSeconds = Some 600 \<rparr>,
       sfs_VolumeClaimTemplates = claims @ devices,
       sfs_Status = \<lparr> sts_Replicas = 0, sts_ReadyReplicas = 0, sts_UpdatedReplicas = 0, sts_ObservedGeneration = 0 \<rparr> \<rparr>))"

text \<open>The mutate function, on the new object or on the stored one. The containers are accessed by index, and
  the readiness probe of newer versions through its pointer.\<close>

definition readinessPath :: "pod_env \<Rightarrow> Hazelcast \<Rightarrow> Probe option \<Rightarrow> Probe option go" where
  "readinessPath env h probe =
     (if po_after520 env (''v'' @ hs_Version (h_Spec h))
      then map_option (\<lambda>p. Some (p\<lparr> prb_Path := ''/hazelcast/health/ready'' \<rparr>)) probe else Some probe)"

definition memberContainer :: "pod_env \<Rightarrow> Hazelcast \<Rightarrow> string \<Rightarrow> Container \<Rightarrow> Container go" where
  "memberContainer env h pvcName c = map_option (\<lambda>probe.
     c\<lparr> ct_Image := Hazelcast_DockerImage h, ct_Env := containerEnv (po_phoneHome env) h,
       ct_ImagePullPolicy := hs_ImagePullPolicy (h_Spec h),
       ct_Resources := (case hs_Resources (h_Spec h) of None \<Rightarrow> ct_Resources c | Some r \<Rightarrow> Some r),
       ct_Ports := hazelcastContainerPorts h, ct_ReadinessProbe := probe, ct_VolumeMounts := hzContainerVolumeMounts h pvcName \<rparr>)
     (readinessPath env h (ct_ReadinessProbe c))"

definition agentContainer :: "Hazelcast \<Rightarrow> string \<Rightarrow> Container \<Rightarrow> Container" where
  "agentContainer h pvcName c = c\<lparr> ct_VolumeMounts := sidecarVolumeMounts h pvcName,
     ct_Resources := (case ag_Resources (hs_Agent (h_Spec h)) of None \<Rightarrow> ct_Resources c | Some r \<Rightarrow> Some r) \<rparr>"

definition mutatePod :: "pod_env \<Rightarrow> Hazelcast \<Rightarrow> string \<Rightarrow> PodSpec \<Rightarrow> PodSpec go" where
  "mutatePod env h pvcName pod =
     (case ps_Containers pod of
        c0 # c1 # rest \<Rightarrow> map_option (\<lambda>member.
          (let pod1 = pod\<lparr> ps_ServiceAccountName := serviceAccountName h, ps_ImagePullSecrets := hs_ImagePullSecrets (h_Spec h),
                 ps_Containers := member # agentContainer h pvcName c1 # rest,
                 ps_TopologySpreadConstraints := appendHAModeTopologySpreadConstraints h,
                 ps_InitContainers := [initContainer h pvcName], ps_Volumes := volumes h \<rparr>
           in case hs_Scheduling (h_Spec h) of
                None \<Rightarrow> pod1
              | Some sch \<Rightarrow> pod1\<lparr> ps_Affinity := sch_Affinity sch, ps_Tolerations := sch_Tolerations sch,
                  ps_NodeSelector := sch_NodeSelector sch \<rparr>)) (memberContainer env h pvcName c0)
      | _ \<Rightarrow> None)"

definition mutateStatefulSet :: "pod_env \<Rightarrow> Hazelcast \<Rightarrow> StatefulSet \<Rightarrow> (go_error + StatefulSet) go" where
  "mutateStatefulSet env h sts =
     (let pvcName = (case sfs_VolumeClaimTemplates sts of [] \<Rightarrow> pvcNameOf h | c # _ \<Rightarrow> km_Name (pv_Meta c)) in
      Option.bind (statefulSetAnnotations (km_Annotations (sfs_Meta sts)) h) (\<lambda>annotations.
      Option.bind (podAnnotations (po_Value env) (po_Mega env) (po_checksum env) (sfs_TemplateAnnotations sts) h) (\<lambda>r.
      bindE r (\<lambda>templateAnnotations.
      map_option (\<lambda>pod. Inr (sts\<lparr> sfs_Replicas := hs_ClusterSize (h_Spec h),
        sfs_Meta := (sfs_Meta sts)\<lparr> km_Annotations := annotations \<rparr>, sfs_TemplateAnnotations := templateAnnotations,
        sfs_Pod := pod \<rparr>)) (mutatePod env h pvcName (sfs_Pod sts))))))"

end
