(* ===== verification/Pods_Safety.thy ===== *)
theory Pods_Safety
  imports Cluster_Pods Config_Safety Hazelcast_Admission
begin

text \<open>
  Properties of the pods of a cluster: an admitted resource has a StatefulSet, its containers mount
  only volumes that exist, and the directories of its configuration lie on claimed volumes.
\<close>

subsection \<open>Well-formed pods\<close>

definition claimNames :: "StatefulSet \<Rightarrow> string set" where
  "claimNames sts = (\<lambda>c. km_Name (pv_Meta c)) ` set (sfs_VolumeClaimTemplates sts)"

definition mountsResolved :: "StatefulSet \<Rightarrow> bool" where
  "mountsResolved sts \<longleftrightarrow> (\<forall>c \<in> set (ps_InitContainers (sfs_Pod sts) @ ps_Containers (sfs_Pod sts)).
     \<forall>m \<in> set (ct_VolumeMounts c). vm_Name m \<in> vol_Name ` set (ps_Volumes (sfs_Pod sts)) \<union> claimNames sts)"

text \<open>The API server fills in a size where the user gives none.\<close>

definition storageRequested :: "HazelcastSpec \<Rightarrow> bool" where
  "storageRequested s \<longleftrightarrow> (\<forall>pvc. (\<exists>p. hs_Persistence s = Some p \<and> hp_PVC p = Some pvc) \<or>
     (\<exists>cp. hs_CPSubsystem s = Some cp \<and> cp_PVC cp = Some pvc) \<or> (\<exists>ld \<in> set (hs_LocalDevices s). ld_PVC ld = Some pvc) \<longrightarrow>
     pvc_RequestStorage pvc \<noteq> None)"

text \<open>The operations on quantities and the checksum do not fail.\<close>

definition pod_env_total :: "pod_env \<Rightarrow> bool" where
  "pod_env_total env \<longleftrightarrow> (\<forall>q. po_Value env (Some q) \<noteq> None) \<and> (\<forall>c. \<exists>t. po_checksum env c = Inr t)"

lemma allGo_total: "\<forall>x \<in> set xs. x \<noteq> None \<Longrightarrow> allGo xs \<noteq> None"
  by (induction xs) auto

lemma allGo_map: "allGo (map f xs) = Some ys \<Longrightarrow> (\<And>x y. f x = Some y \<Longrightarrow> g y = k x) \<Longrightarrow> map g ys = map k xs"
  by (induction xs arbitrary: ys) (auto simp: Option.bind_eq_Some_conv)

lemma allGo_append: "allGo (xs @ ys) = Option.bind (allGo xs) (\<lambda>as. map_option (\<lambda>bs. as @ bs) (allGo ys))"
  by (cases "allGo ys"; induction xs) (auto split: Option.bind_split)

lemma volumeClaim_name: "volumeClaim meta pvc = Some c \<Longrightarrow> pv_Meta c = meta"
  by (auto simp: volumeClaim_def Option.bind_eq_Some_conv)

lemma device_claim_names:
  "localDevicePersistentVolumeClaim h = Some cs \<Longrightarrow> map (\<lambda>c. km_Name (pv_Meta c)) cs = map ld_Name (hs_LocalDevices (h_Spec h))"
  unfolding localDevicePersistentVolumeClaim_def
  by (erule allGo_map) (auto dest!: volumeClaim_name simp: claimMeta_def)

lemma claim_names:
  "persistentVolumeClaims h name = Some cs \<Longrightarrow> map (\<lambda>c. km_Name (pv_Meta c)) cs =
     (if hs_Persistence (h_Spec h) = None then [] else [name]) @ (if CP_IsPVC (hs_CPSubsystem (h_Spec h)) then [CPPersistenceVolumeName] else [])"
  by (auto simp: persistentVolumeClaims_def allGo_append Option.bind_eq_Some_conv claimMeta_def CP_IsPVC_def
      dest!: volumeClaim_name split: option.splits if_splits)

lemma template_names:
  assumes "newStatefulSet env h = Some sts"
  shows "map (\<lambda>c. km_Name (pv_Meta c)) (sfs_VolumeClaimTemplates sts) =
    (if hs_Persistence (h_Spec h) = None then [] else [pvcNameOf h]) @
    (if CP_IsPVC (hs_CPSubsystem (h_Spec h)) then [CPPersistenceVolumeName] else []) @ map ld_Name (hs_LocalDevices (h_Spec h))"
  using assms by (auto simp: newStatefulSet_def Let_def Option.bind_eq_Some_conv dest!: claim_names device_claim_names)

text \<open>The names that the containers mount.\<close>

lemma codeVolumes_names: "vm_Name ` set (codeVolumeMounts s) = vol_Name ` set (codeVolumes s)"
proof -
  have "map vm_Name (codeVolumeMounts s) = map vol_Name (codeVolumes s)"
    by (simp add: codeVolumeMounts_def codeVolumes_def configMapVolumeMounts_def configMapVolumes_def split: option.split)
  then show ?thesis by (metis set_map)
qed

lemma volumes_have:
  "{HazelcastStorageName, InitConfigMap, UserCodeBucketVolumeName, UserCodeURLVolumeName, JetJobJarsVolumeName, TmpDirVolName,
    MTLSCertSecretName} \<union> (if hs_UserCodeNamespaces (h_Spec h) = None then {} else {UCNVolumeName}) \<union>
    vol_Name ` set (codeVolumes (h_Spec h)) = vol_Name ` set (volumes h)"
  by (auto simp: volumes_def emptyDirVolume_def tlsVolume_def UserCodeNamespacesConfig_IsEnabled_def)

lemmas mount_defs = persistenceVolumeMount_def ucnBucketVolumeMount_def ucdBucketAgentVolumeMount_def jetJobJarsVolumeMount_def
  tmpDirVolumeMount_def ucdURLAgentVolumeMount_def Persistence_IsEnabled_def UserCodeNamespacesConfig_IsEnabled_def

definition claimed :: "Hazelcast \<Rightarrow> string \<Rightarrow> string set" where
  "claimed h pvcName = (if hs_Persistence (h_Spec h) = None then {} else {pvcName}) \<union>
     (if CP_IsPVC (hs_CPSubsystem (h_Spec h)) then {CPPersistenceVolumeName} else {}) \<union> ld_Name ` set (hs_LocalDevices (h_Spec h))"

lemma member_mounts: "vm_Name ` set (hzContainerVolumeMounts h pvcName) \<subseteq> vol_Name ` set (volumes h) \<union> claimed h pvcName"
  unfolding volumes_have [symmetric] claimed_def
  using codeVolumes_names [of "h_Spec h"]
  by (auto simp: hzContainerVolumeMounts_def mount_defs localDeviceVolumeMounts_def image_Un image_image)

lemma agent_mounts: "vm_Name ` set (sidecarVolumeMounts h pvcName) \<subseteq> vol_Name ` set (volumes h) \<union> claimed h pvcName"
  unfolding volumes_have [symmetric] claimed_def by (auto simp: sidecarVolumeMounts_def mount_defs)

lemma init_mounts: "vm_Name ` set (ct_VolumeMounts (initContainer h pvcName)) \<subseteq> vol_Name ` set (volumes h) \<union> claimed h pvcName"
  unfolding volumes_have [symmetric] claimed_def by (auto simp: initContainer_def Let_def mount_defs)

lemma device_mount:
  "ld \<in> set (hs_LocalDevices (h_Spec h)) \<Longrightarrow>
     \<lparr> vm_Name = ld_Name ld, vm_MountPath = path_Join TieredStorageBaseDir (ld_Name ld) \<rparr> \<in> set (hzContainerVolumeMounts h pvcName)"
  by (auto simp: hzContainerVolumeMounts_def localDeviceVolumeMounts_def)

lemma mutated:
  assumes "mutateStatefulSet env h sts = Some (Inr sts')"
  obtains pvcName member agent rest where "ps_InitContainers (sfs_Pod sts') = [initContainer h pvcName]"
    and "ps_Containers (sfs_Pod sts') = member # agent # rest" and "ct_VolumeMounts member = hzContainerVolumeMounts h pvcName"
    and "ct_VolumeMounts agent = sidecarVolumeMounts h pvcName" and "ps_Volumes (sfs_Pod sts') = volumes h"
    and "sfs_VolumeClaimTemplates sts' = sfs_VolumeClaimTemplates sts" and "rest = drop 2 (ps_Containers (sfs_Pod sts))"
    and "pvcName = (case sfs_VolumeClaimTemplates sts of [] \<Rightarrow> pvcNameOf h | c # _ \<Rightarrow> km_Name (pv_Meta c))"
    and "sfs_Replicas sts' = hs_ClusterSize (h_Spec h)"
proof -
  let ?name = "case sfs_VolumeClaimTemplates sts of [] \<Rightarrow> pvcNameOf h | c # _ \<Rightarrow> km_Name (pv_Meta c)"
  from assms obtain pod where pod: "mutatePod env h ?name (sfs_Pod sts) = Some pod"
    and sts': "sfs_Pod sts' = pod" "sfs_VolumeClaimTemplates sts' = sfs_VolumeClaimTemplates sts"
      "sfs_Replicas sts' = hs_ClusterSize (h_Spec h)"
    by (auto simp: mutateStatefulSet_def Let_def Option.bind_eq_Some_conv bindE_eq)
  from pod obtain c0 c1 rest member where "ps_Containers (sfs_Pod sts) = c0 # c1 # rest"
    and "memberContainer env h ?name c0 = Some member" "ps_Containers pod = member # agentContainer h ?name c1 # rest"
    and "ps_InitContainers pod = [initContainer h ?name]" "ps_Volumes pod = volumes h"
    by (auto simp: mutatePod_def Let_def split: list.splits option.splits)
  moreover from this(2) have "ct_VolumeMounts member = hzContainerVolumeMounts h ?name"
    by (auto simp: memberContainer_def)
  ultimately show thesis using sts' by (intro that [of ?name member "agentContainer h ?name c1" rest]) (auto simp: agentContainer_def)
qed

lemma mutated_resolved:
  assumes "mutateStatefulSet env h sts = Some (Inr sts')" and "length (ps_Containers (sfs_Pod sts)) \<le> 2"
    and "claimed h (case sfs_VolumeClaimTemplates sts of [] \<Rightarrow> pvcNameOf h | c # _ \<Rightarrow> km_Name (pv_Meta c)) \<subseteq> claimNames sts"
  shows "mountsResolved sts'"
  using assms(1)
proof (rule mutated, goal_cases)
  case (1 pvcName member agent rest)
  with assms(2,3) have "claimed h pvcName \<subseteq> claimNames sts'" "rest = []" by (simp_all add: claimNames_def)
  with 1 show ?case
    using member_mounts [of h pvcName] agent_mounts [of h pvcName] init_mounts [of h pvcName]
    unfolding mountsResolved_def by (fastforce simp: image_subset_iff)
qed

lemma new_claimed:
  assumes "newStatefulSet env h = Some sts"
  shows "claimed h (case sfs_VolumeClaimTemplates sts of [] \<Rightarrow> pvcNameOf h | c # _ \<Rightarrow> km_Name (pv_Meta c)) \<subseteq> claimNames sts"
proof -
  have names: "claimNames sts = set (map (\<lambda>c. km_Name (pv_Meta c)) (sfs_VolumeClaimTemplates sts))" by (simp add: claimNames_def)
  have "hs_Persistence (h_Spec h) \<noteq> None \<Longrightarrow>
      (case sfs_VolumeClaimTemplates sts of [] \<Rightarrow> pvcNameOf h | c # _ \<Rightarrow> km_Name (pv_Meta c)) = pvcNameOf h"
    using template_names [OF assms] by (auto split: list.split)
  then show ?thesis unfolding names template_names [OF assms] claimed_def by auto
qed

subsection \<open>Admitted resources have pods\<close>

lemma admitted_facts:
  assumes "ValidateHazelcastSpec venv h = Some None"
  shows "hs_ClusterSize (h_Spec h) \<noteq> None" "\<And>p. hs_Persistence (h_Spec h) = Some p \<Longrightarrow> hp_PVC p \<noteq> None"
    "\<And>ld. ld \<in> set (hs_LocalDevices (h_Spec h)) \<Longrightarrow> ld_PVC ld \<noteq> None"
    "\<And>cp. hs_CPSubsystem (h_Spec h) = Some cp \<Longrightarrow> cp_PVC cp \<noteq> None \<or> hs_Persistence (h_Spec h) \<noteq> None"
proof -
  note adm = assms [unfolded admits_iff hazelcast_admissible_def current_admissible_def, THEN conjunct1]
  show "hs_ClusterSize (h_Spec h) \<noteq> None" using adm by (auto simp: size_admissible_def)
  show "hp_PVC p \<noteq> None" if "hs_Persistence (h_Spec h) = Some p" for p
    using adm that by (auto simp: persistence_admissible_def)
  show "ld_PVC ld \<noteq> None" if "ld \<in> set (hs_LocalDevices (h_Spec h))" for ld
    using adm that by (auto simp: tiered_admissible_def)
  show "cp_PVC cp \<noteq> None \<or> hs_Persistence (h_Spec h) \<noteq> None" if "hs_CPSubsystem (h_Spec h) = Some cp" for cp
    using adm that by (auto simp: cp_admissible_def)
qed

lemma volumeClaim_total: "pvc \<noteq> None \<Longrightarrow> (\<And>p. pvc = Some p \<Longrightarrow> pvc_RequestStorage p \<noteq> None) \<Longrightarrow> volumeClaim meta pvc \<noteq> None"
  by (auto simp: volumeClaim_def)

lemma new_total:
  assumes "ValidateHazelcastSpec venv h = Some None" and "storageRequested (h_Spec h)"
  shows "newStatefulSet env h \<noteq> None"
proof -
  note A = admitted_facts [OF assms(1)]
  have "volumeClaim meta (ld_PVC ld) \<noteq> None" if "ld \<in> set (hs_LocalDevices (h_Spec h))" for meta ld
    using A(3) [OF that] assms(2) that by (intro volumeClaim_total) (auto simp: storageRequested_def)
  then have devices: "localDevicePersistentVolumeClaim h \<noteq> None"
    unfolding localDevicePersistentVolumeClaim_def by (intro allGo_total) auto
  have "volumeClaim meta (hp_PVC p) \<noteq> None" if "hs_Persistence (h_Spec h) = Some p" for meta p
    using A(2) [OF that] assms(2) that by (intro volumeClaim_total) (auto simp: storageRequested_def)
  moreover have "volumeClaim meta (cp_PVC cp) \<noteq> None" if "hs_CPSubsystem (h_Spec h) = Some cp" "cp_PVC cp \<noteq> None" for meta cp
    using assms(2) that by (intro volumeClaim_total) (auto simp: storageRequested_def)
  ultimately have "persistentVolumeClaims h name \<noteq> None" for name
    unfolding persistentVolumeClaims_def
    by (cases "hs_Persistence (h_Spec h)"; cases "hs_CPSubsystem (h_Spec h)"; intro allGo_total) (simp_all add: CP_IsPVC_def)
  then obtain claims where "persistentVolumeClaims h (pvcNameOf h) = Some claims" by blast
  with devices show ?thesis by (auto simp: newStatefulSet_def Let_def)
qed

lemma entriesOf_total: "\<forall>x \<in> set xs. create x \<noteq> None \<Longrightarrow> entriesOf name create xs \<noteq> None"
  by (induction xs) auto

lemma basicConfig_total:
  assumes "ValidateHazelcastSpec venv h = Some None" and "storageRequested (h_Spec h)" and "\<forall>q. quantity (Some q) \<noteq> None"
  shows "hazelcastBasicConfig quantity mega h \<noteq> None"
proof -
  note A = admitted_facts [OF assms(1)]
  have "createLocalDeviceConfig quantity ld \<noteq> None" if ld: "ld \<in> set (hs_LocalDevices (h_Spec h))" for ld
  proof -
    obtain pvc q where "ld_PVC ld = Some pvc" "pvc_RequestStorage pvc = Some q"
      using A(3) [OF ld] assms(2) ld unfolding storageRequested_def by blast
    with assms(3) show ?thesis by (auto simp: createLocalDeviceConfig_def)
  qed
  then have "basicLocalDevices quantity (h_Spec h) \<noteq> None" unfolding basicLocalDevices_def by (intro entriesOf_total) blast
  moreover have "basicCPSubsystem (h_Spec h) \<noteq> None" using A(1) by (auto simp: basicCPSubsystem_def split: option.split)
  ultimately show ?thesis by (auto simp: hazelcastBasicConfig_def Let_def)
qed

lemma new_containers:
  "newStatefulSet env h = Some sts \<Longrightarrow> \<exists>c0 c1. ps_Containers (sfs_Pod sts) = [c0, c1] \<and> ct_ReadinessProbe c0 \<noteq> None"
  by (auto simp: newStatefulSet_def Let_def Option.bind_eq_Some_conv)

lemma mutate_defined:
  assumes "hs_ClusterSize (h_Spec h) \<noteq> None" and "hazelcastBasicConfig (po_Value env) (po_Mega env) h \<noteq> None" and "pod_env_total env"
    and "newStatefulSet env h0 = Some sts"
  shows "\<exists>sts'. mutateStatefulSet env h sts = Some (Inr sts')"
proof -
  have annotations: "\<exists>a. statefulSetAnnotations old h = Some a" for old
    using assms(1) by (auto simp: statefulSetAnnotations_def Let_def)
  obtain cfg where "hazelcastBasicConfig (po_Value env) (po_Mega env) h = Some cfg" using assms(2) by blast
  moreover obtain t where "po_checksum env (configForcingRestart cfg) = Inr t" using assms(3) by (auto simp: pod_env_total_def)
  ultimately have pods: "\<exists>a. podAnnotations (po_Value env) (po_Mega env) (po_checksum env) old h = Some (Inr a)" for old
    by (auto simp: podAnnotations_def Let_def)
  obtain c0 c1 where c: "ps_Containers (sfs_Pod sts) = [c0, c1]" "ct_ReadinessProbe c0 \<noteq> None"
    using new_containers [OF assms(4)] by blast
  then have "memberContainer env h name c0 \<noteq> None" for name by (auto simp: memberContainer_def readinessPath_def)
  with c have "mutatePod env h name (sfs_Pod sts) \<noteq> None" for name by (auto simp: mutatePod_def)
  with annotations [of "km_Annotations (sfs_Meta sts)"] pods [of "sfs_TemplateAnnotations sts"] show ?thesis
    by (auto simp: mutateStatefulSet_def Let_def)
qed

lemma mutate_total:
  assumes "ValidateHazelcastSpec venv h = Some None" and "storageRequested (h_Spec h)" and "pod_env_total env"
    and "newStatefulSet env h = Some sts"
  shows "\<exists>sts'. mutateStatefulSet env h sts = Some (Inr sts')"
proof (rule mutate_defined [OF _ _ assms(3,4)])
  show "hs_ClusterSize (h_Spec h) \<noteq> None" by (rule admitted_facts(1) [OF assms(1)])
  show "hazelcastBasicConfig (po_Value env) (po_Mega env) h \<noteq> None"
    using assms(3) by (intro basicConfig_total [OF assms(1,2)]) (simp add: pod_env_total_def)
qed

text \<open>C7: an admitted resource whose volume claims ask for storage has a StatefulSet: nothing is
  dereferenced that is not there, the set has the members that were asked for, and every
  container mounts only volumes of the pod and claimed volumes.\<close>

theorem statefulset_well_formed:
  assumes "ValidateHazelcastSpec venv h = Some None" and "storageRequested (h_Spec h)" and "pod_env_total env"
  shows "\<exists>sts sts'. newStatefulSet env h = Some sts \<and> mutateStatefulSet env h sts = Some (Inr sts') \<and>
    sfs_Replicas sts' = hs_ClusterSize (h_Spec h) \<and> mountsResolved sts'"
proof -
  obtain sts where sts: "newStatefulSet env h = Some sts" using new_total [OF assms(1,2)] by blast
  obtain sts' where sts': "mutateStatefulSet env h sts = Some (Inr sts')" using mutate_total [OF assms sts] by blast
  have "mountsResolved sts'"
    using mutated_resolved [OF sts' _ new_claimed [OF sts]] new_containers [OF sts] by force
  moreover have "sfs_Replicas sts' = hs_ClusterSize (h_Spec h)" using sts' by (rule mutated) simp
  ultimately show ?thesis using sts sts' by blast
qed

text \<open>C9: the claim templates of a stored StatefulSet are not touched: when a local device is added to a
  running cluster, which admission allows, the members mount a volume that nothing claims.\<close>

theorem added_device_unclaimed:
  assumes "mutateStatefulSet env h sts = Some (Inr sts')" and "ld \<in> set (hs_LocalDevices (h_Spec h))"
    and "ld_Name ld \<notin> claimNames sts" and "ld_Name ld \<notin> vol_Name ` set (volumes h)"
  shows "\<not> mountsResolved sts'"
  using assms(1)
proof (rule mutated, goal_cases)
  case (1 pvcName member agent rest)
  obtain m where m: "m \<in> set (hzContainerVolumeMounts h pvcName)" "vm_Name m = ld_Name ld"
    using device_mount [OF assms(2)] by fastforce
  have "vm_Name m \<notin> vol_Name ` set (ps_Volumes (sfs_Pod sts')) \<union> claimNames sts'"
    using 1(5,6) m(2) assms(3,4) by (simp add: claimNames_def)
  moreover have "m \<in> set (ct_VolumeMounts member)" "member \<in> set (ps_InitContainers (sfs_Pod sts') @ ps_Containers (sfs_Pod sts'))"
    using 1(2,3) m(1) by simp_all
  ultimately show ?case unfolding mountsResolved_def by blast
qed

subsection \<open>The directories of the configuration\<close>

definition onClaim :: "StatefulSet \<Rightarrow> string \<Rightarrow> bool" where
  "onClaim sts dir \<longleftrightarrow> (\<exists>m \<in> set (ct_VolumeMounts (hd (ps_Containers (sfs_Pod sts)))). prefix (vm_MountPath m) dir \<and> vm_Name m \<in> claimNames sts)"

text \<open>The StatefulSet \<open>sts\<close> has claims for what the cluster needs: it was made for a resource with the same storage
  that had the local devices.\<close>

definition madeFor :: "StatefulSet \<Rightarrow> Hazelcast \<Rightarrow> bool" where
  "madeFor sts h \<longleftrightarrow> (\<exists>env0 h0 sts0. newStatefulSet env0 h0 = Some sts0 \<and>
     sfs_VolumeClaimTemplates sts = sfs_VolumeClaimTemplates sts0 \<and> storage (h_Spec h0) = storage (h_Spec h) \<and>
     ld_Name ` set (hs_LocalDevices (h_Spec h)) \<subseteq> ld_Name ` set (hs_LocalDevices (h_Spec h0)))"

lemma madeFor_claims:
  assumes "madeFor sts h" and "name \<in> claimed h (case sfs_VolumeClaimTemplates sts of [] \<Rightarrow> pvcNameOf h | c # _ \<Rightarrow> km_Name (pv_Meta c))"
  shows "name \<in> claimNames sts"
proof -
  obtain env0 h0 sts0 where made: "newStatefulSet env0 h0 = Some sts0" and templates: "sfs_VolumeClaimTemplates sts = sfs_VolumeClaimTemplates sts0"
    and storage: "storage (h_Spec h0) = storage (h_Spec h)"
    and devices: "ld_Name ` set (hs_LocalDevices (h_Spec h)) \<subseteq> ld_Name ` set (hs_LocalDevices (h_Spec h0))"
    using assms(1) unfolding madeFor_def by blast
  have claims: "claimNames sts = set (map (\<lambda>c. km_Name (pv_Meta c)) (sfs_VolumeClaimTemplates sts0))"
    by (simp add: claimNames_def templates)
  have persistence: "(hs_Persistence (h_Spec h0) = None) = (hs_Persistence (h_Spec h) = None)"
    and cp: "CP_IsPVC (hs_CPSubsystem (h_Spec h0)) = CP_IsPVC (hs_CPSubsystem (h_Spec h))"
    using storage by (cases "hs_CPSubsystem (h_Spec h)"; cases "hs_CPSubsystem (h_Spec h0)"; auto simp: storage_def CP_IsPVC_def)+
  have "hs_Persistence (h_Spec h) \<noteq> None \<Longrightarrow>
      (case sfs_VolumeClaimTemplates sts0 of [] \<Rightarrow> pvcNameOf h | c # _ \<Rightarrow> km_Name (pv_Meta c)) = pvcNameOf h0"
    using template_names [OF made] persistence by (auto split: list.split)
  then show ?thesis
    using assms(2) devices persistence cp unfolding templates claims template_names [OF made] claimed_def by (auto split: if_splits)
qed

lemma mounted:
  assumes "mutateStatefulSet env h sts = Some (Inr sts')" and "madeFor sts h"
    and "\<And>pvcName. m pvcName \<in> set (hzContainerVolumeMounts h pvcName) \<and> vm_Name (m pvcName) \<in> claimed h pvcName \<and> prefix (vm_MountPath (m pvcName)) dir"
  shows "onClaim sts' dir"
  using assms(1)
proof (rule mutated, goal_cases)
  case (1 pvcName member agent rest)
  have "vm_Name (m pvcName) \<in> claimNames sts'"
    using madeFor_claims [OF assms(2), of "vm_Name (m pvcName)"] assms(3) [of pvcName] 1(6,8) by (simp add: claimNames_def)
  then show ?case using 1(2,3) assms(3) [of pvcName] unfolding onClaim_def by (auto intro!: bexI [of _ "m pvcName"])
qed

lemma persistence_mounted:
  assumes "mutateStatefulSet env h sts = Some (Inr sts')" and "madeFor sts h"
    and "hs_Persistence (h_Spec h) \<noteq> None" and "prefix PersistenceMountPath dir"
  shows "onClaim sts' dir"
  by (rule mounted [OF assms(1,2), of persistenceVolumeMount])
    (use assms(3,4) in \<open>auto simp: hzContainerVolumeMounts_def Persistence_IsEnabled_def persistenceVolumeMount_def claimed_def\<close>)

lemma cp_mounted:
  assumes "mutateStatefulSet env h sts = Some (Inr sts')" and "madeFor sts h" and "CP_IsPVC (hs_CPSubsystem (h_Spec h))"
  shows "onClaim sts' CPBaseDir"
  by (rule mounted [OF assms(1,2), of "\<lambda>_. \<lparr> vm_Name = CPPersistenceVolumeName, vm_MountPath = CPBaseDir \<rparr>"])
    (use assms(3) in \<open>auto simp: hzContainerVolumeMounts_def CP_IsEnabled_def CP_IsPVC_def claimed_def split: option.splits\<close>)

lemma device_mounted:
  assumes "mutateStatefulSet env h sts = Some (Inr sts')" and "madeFor sts h" and "ld \<in> set (hs_LocalDevices (h_Spec h))"
  shows "onClaim sts' (path_Join TieredStorageBaseDir (ld_Name ld))"
  by (rule mounted [OF assms(1,2),
        of "\<lambda>_. \<lparr> vm_Name = ld_Name ld, vm_MountPath = path_Join TieredStorageBaseDir (ld_Name ld) \<rparr>"])
    (use device_mount [OF assms(3)] assms(3) in \<open>auto simp: claimed_def\<close>)

lemma entriesOf_range: "entriesOf name create xs = Some f \<Longrightarrow> f k = Some y \<Longrightarrow> \<exists>x \<in> set xs. create x = Some y"
  by (induction xs arbitrary: f) (auto simp: Option.bind_eq_Some_conv map_add_Some_iff split: if_splits)

lemma basicCP_dir:
  "basicCPSubsystem s = Some c \<Longrightarrow> cps_PersistenceEnabled c \<Longrightarrow> \<exists>cp. hs_CPSubsystem s = Some cp \<and>
     cps_BaseDir c = (if Persistence_IsEnabled (hs_Persistence s) \<and> \<not> CP_IsPVC (Some cp) then PersistenceMountPath @ CPDirSuffix else CPBaseDir)"
  by (auto simp: basicCPSubsystem_def CPSubsystem_cfgZero_def split: option.splits)

lemma fillStructures_rest:
  "fillStructures env h cfg = Some (Inr cfg') \<Longrightarrow> cfg_CPSubsystem cfg' = cfg_CPSubsystem cfg \<and> cfg_LocalDevice cfg' = cfg_LocalDevice cfg"
  by (auto simp: fillStructures_def Let_def bindE_eq Option.bind_eq_Some_conv)

lemma fillSpec_rest:
  "cfg_CPSubsystem (fillSpec s (keepBaseDir env h cfg)) = cfg_CPSubsystem cfg" "cfg_LocalDevice (fillSpec s (keepBaseDir env h cfg)) = cfg_LocalDevice cfg"
  by (auto simp: fillSpec_def keepBaseDir_def split: prod.split sum.split)

lemma generated_basic:
  assumes "generatedConfig env h = Some (Inr cfg)"
  obtains basic where "hazelcastBasicConfig (ce_Value env) (ce_Mega env) h = Some basic"
    and "cfg_CPSubsystem cfg = cfg_CPSubsystem basic" and "cfg_LocalDevice cfg = cfg_LocalDevice basic"
  using assms by (auto simp: generatedConfig_def Let_def Option.bind_eq_Some_conv fillSpec_rest dest!: fillStructures_rest)

text \<open>C8: the generated configuration and the pods agree on the directories: what an admitted cluster persists, in the
  directory of the members, of the CP Subsystem or of a local device, is on a volume that is
  claimed for the member and mounted there. The StatefulSet is a new one, or a stored one whose claim templates were
  made for the same storage (which admitted updates do not change) and for all the local devices of the resource.\<close>

theorem data_on_claimed_volumes:
  assumes "ValidateHazelcastSpec venv h = Some None" and "generatedConfig cenv h = Some (Inr cfg)"
    and "mutateStatefulSet env h sts = Some (Inr sts')" and "madeFor sts h"
  shows "(pe_Enabled (cfg_Persistence cfg) = Some True \<longrightarrow> onClaim sts' (pe_BaseDir (cfg_Persistence cfg))) \<and>
    (cps_PersistenceEnabled (cfg_CPSubsystem cfg) \<longrightarrow> onClaim sts' (cps_BaseDir (cfg_CPSubsystem cfg))) \<and>
    (\<forall>name dev. cfg_LocalDevice cfg name = Some dev \<longrightarrow> onClaim sts' (lod_BaseDir dev))"
proof (intro conjI allI impI)
  note mounts = persistence_mounted [OF assms(3,4)] cp_mounted [OF assms(3,4)] device_mounted [OF assms(3,4)]
  obtain basic where "hazelcastBasicConfig (ce_Value cenv) (ce_Mega cenv) h = Some basic"
    and same: "cfg_CPSubsystem cfg = cfg_CPSubsystem basic" "cfg_LocalDevice cfg = cfg_LocalDevice basic"
    using generated_basic [OF assms(2)] .
  then have cp: "basicCPSubsystem (h_Spec h) = Some (cfg_CPSubsystem cfg)"
    and devices: "basicLocalDevices (ce_Value cenv) (h_Spec h) = Some (cfg_LocalDevice cfg)"
    by (auto simp: hazelcastBasicConfig_def Let_def Option.bind_eq_Some_conv)
  show "onClaim sts' (pe_BaseDir (cfg_Persistence cfg))" if enabled: "pe_Enabled (cfg_Persistence cfg) = Some True"
  proof -
    have persistent: "hs_Persistence (h_Spec h) \<noteq> None"
      using enabled generated_persistence [OF assms(2)]
      by (cases "hs_Persistence (h_Spec h)") (simp_all add: keepBaseDir_def basicPersistence_def PersistenceZero_def Persistence_IsEnabled_def)
    have "pe_BaseDir (cfg_Persistence cfg) \<in> {BaseDir, PersistenceMountPath}"
      using generated_dirs [OF assms(2) persistent] by (auto simp: dataDirs_def currentDirs_def legacyDirs_def split: sum.splits if_splits)
    with mounts(1) [OF persistent] show ?thesis by (auto simp: BaseDir_def)
  qed
  show "onClaim sts' (cps_BaseDir (cfg_CPSubsystem cfg))" if enabled: "cps_PersistenceEnabled (cfg_CPSubsystem cfg)"
  proof -
    from basicCP_dir [OF cp enabled] obtain cps where cps: "hs_CPSubsystem (h_Spec h) = Some cps"
      and dir: "cps_BaseDir (cfg_CPSubsystem cfg) = (if Persistence_IsEnabled (hs_Persistence (h_Spec h)) \<and> \<not> CP_IsPVC (Some cps)
         then PersistenceMountPath @ CPDirSuffix else CPBaseDir)" by blast
    show ?thesis
    proof (cases "CP_IsPVC (Some cps)")
      case True
      with dir cps mounts(2) show ?thesis by simp
    next
      case False
      with admitted_facts(4) [OF assms(1) cps] have "hs_Persistence (h_Spec h) \<noteq> None" by (simp add: CP_IsPVC_def)
      with False dir mounts(1) [OF this] show ?thesis by (simp add: Persistence_IsEnabled_def)
    qed
  qed
  show "onClaim sts' (lod_BaseDir dev)" if "cfg_LocalDevice cfg name = Some dev" for name dev
  proof -
    from entriesOf_range [OF devices [unfolded basicLocalDevices_def] that] obtain ld
      where "ld \<in> set (hs_LocalDevices (h_Spec h))" "createLocalDeviceConfig (ce_Value cenv) ld = Some dev" by blast
    with mounts(3) show ?thesis by (auto simp: createLocalDeviceConfig_def Option.bind_eq_Some_conv)
  qed
qed

subsection \<open>Concrete pods\<close>

definition sample_pod_env :: pod_env where
  "sample_pod_env = \<lparr> po_Value = map_option (\<lambda>_. 1), po_Mega = (\<lambda>_. 1), po_checksum = (\<lambda>_. Inr ''1''), po_openShift = False,
     po_phoneHome = True, po_after520 = (\<lambda>_. True) \<rparr>"

lemma sample_kept_admitted: "ValidateHazelcastSpec sample_env sample_kept = Some None"
proof -
  have "label_ok ''hz''" by (simp add: label_ok_def is_alpha_def is_alnum_dash_def is_alnum_def)
  moreover have "Split ''hz'' ''.'' = [''hz'']" by code_simp
  ultimately show ?thesis unfolding admits_iff
    by (simp add: hazelcast_admissible_def current_admissible_def
        secrets_admissible_def expose_admissible_def config_admissible_def persistence_admissible_def
        jet_bucket_admissible_def wan_admissible_def jvm_admissible_def tiered_admissible_def
        size_admissible_def cp_admissible_def exists_secret_def sample_kept_def sample_defs
        HazelcastSpec_GetLicenseKeySecretName_def RestoreConfigurationZero_def ClusterSizeLimit_def Let_def)
qed

lemma sample_kept_stored: "storageRequested (h_Spec sample_kept)" "pod_env_total sample_pod_env"
  by (simp_all add: storageRequested_def sample_kept_def sample_hazelcast_spec_def pod_env_total_def sample_pod_env_def)

theorem statefulset_well_formed_witness:
  "\<exists>sts sts'. newStatefulSet sample_pod_env sample_kept = Some sts \<and> mutateStatefulSet sample_pod_env sample_kept sts = Some (Inr sts') \<and>
     sfs_Replicas sts' = Some 3 \<and> mountsResolved sts'"
  using statefulset_well_formed [OF sample_kept_admitted sample_kept_stored]
  by (simp add: sample_kept_def sample_hazelcast_spec_def)

lemma madeFor_new: "newStatefulSet env h = Some sts \<Longrightarrow> madeFor sts h"
  unfolding madeFor_def by blast

theorem data_on_claimed_volumes_witness:
  "\<exists>cfg sts sts'. generatedConfig (sample_cfg_env (Inl (ErrOther ''none''))) sample_kept = Some (Inr cfg) \<and>
     newStatefulSet sample_pod_env sample_kept = Some sts \<and> mutateStatefulSet sample_pod_env sample_kept sts = Some (Inr sts') \<and>
     pe_BaseDir (cfg_Persistence cfg) = ''/data/persistence/base-dir'' \<and> onClaim sts' ''/data/persistence/base-dir''"
proof -
  obtain cfg where cfg: "generatedConfig (sample_cfg_env (Inl (ErrOther ''none''))) sample_kept = Some (Inr cfg)"
    using sample_generated by blast
  obtain sts where sts: "newStatefulSet sample_pod_env sample_kept = Some sts"
    using new_total [OF sample_kept_admitted sample_kept_stored(1)] by blast
  obtain sts' where sts': "mutateStatefulSet sample_pod_env sample_kept sts = Some (Inr sts')"
    using mutate_total [OF sample_kept_admitted sample_kept_stored sts] by blast
  have dir: "pe_BaseDir (cfg_Persistence cfg) = ''/data/persistence/base-dir''"
    using generated_dirs [OF cfg sample_kept_persistent]
    by (simp add: sample_cfg_env_def dataDirs_def currentDirs_def BaseDir_def PersistenceMountPath_def)
  from data_on_claimed_volumes [OF sample_kept_admitted cfg sts' madeFor_new [OF sts]] dir generated_enabled [OF cfg sample_kept_persistent]
    cfg sts sts' show ?thesis by auto
qed

text \<open>The same cluster with a local device that it did not have when its StatefulSet was made.\<close>

definition sample_device :: LocalDeviceConfig where
  "sample_device = \<lparr> ld_Name = ''disk'', ld_BlockSize = None, ld_ReadIOThreadCount = None, ld_WriteIOThreadCount = None,
     ld_PVC = Some \<lparr> pvc_AccessModes = Some [''ReadWriteOnce''], pvc_RequestStorage = Some (QuantityOf ''1Gi''), pvc_StorageClassName = None \<rparr> \<rparr>"

definition sample_tiered :: Hazelcast where
  "sample_tiered = sample_kept\<lparr> h_Meta := sample_meta\<lparr> om_Annotations := [LastSuccessfulSpecAnnotation \<mapsto> ''spec''] \<rparr>, h_Spec := (h_Spec sample_kept)\<lparr> hs_LocalDevices := [sample_device],
     hs_NativeMemory := Some \<lparr> nm_AllocatorType = NativeMemoryPooled, nm_Size = QuantityOf ''1Gi'', nm_MinBlockSize = 0, nm_PageSize = 0,
       nm_MetadataSpacePercentage = 0 \<rparr> \<rparr> \<rparr>"

lemma sample_device_admitted:
  "ValidateHazelcastSpec (sample_env\<lparr> env_UnmarshalHazelcastSpec := \<lambda>_. Inr (h_Spec sample_kept) \<rparr>) sample_tiered = Some None"
proof -
  have "label_ok ''hz''" by (simp add: label_ok_def is_alpha_def is_alnum_dash_def is_alnum_def)
  moreover have "Split ''hz'' ''.'' = [''hz'']" by code_simp
  ultimately show ?thesis unfolding admits_iff
    by (simp add: hazelcast_admissible_def current_admissible_def update_admissible_def
        secrets_admissible_def expose_admissible_def config_admissible_def persistence_admissible_def
        jet_bucket_admissible_def wan_admissible_def jvm_admissible_def tiered_admissible_def
        size_admissible_def cp_admissible_def exists_secret_def sample_tiered_def sample_kept_def sample_defs sample_device_def
        HazelcastSpec_GetLicenseKeySecretName_def RestoreConfigurationZero_def ClusterSizeLimit_def Let_def
        NativeMemory_IsEnabled_def NativeMemoryZero_def)
qed

theorem added_device_unclaimed_witness:
  "ValidateHazelcastSpec (sample_env\<lparr> env_UnmarshalHazelcastSpec := \<lambda>_. Inr (h_Spec sample_kept) \<rparr>) sample_tiered = Some None \<and>
   (\<exists>sts sts'. newStatefulSet sample_pod_env sample_kept = Some sts \<and> mutateStatefulSet sample_pod_env sample_tiered sts = Some (Inr sts') \<and>
     \<not> mountsResolved sts')"
proof -
  obtain sts where sts: "newStatefulSet sample_pod_env sample_kept = Some sts"
    using new_total [OF sample_kept_admitted sample_kept_stored(1)] by blast
  have "hazelcastBasicConfig (po_Value sample_pod_env) (po_Mega sample_pod_env) sample_tiered \<noteq> None"
    by (simp add: hazelcastBasicConfig_def basicLocalDevices_def basicCPSubsystem_def createLocalDeviceConfig_def sample_tiered_def
        sample_kept_def sample_defs sample_device_def sample_pod_env_def Let_def)
  then obtain sts' where sts': "mutateStatefulSet sample_pod_env sample_tiered sts = Some (Inr sts')"
    using mutate_defined [OF _ _ sample_kept_stored(2) sts, of sample_tiered] by (auto simp: sample_tiered_def sample_kept_def sample_defs)
  have "claimNames sts = {''persistence''}"
    using arg_cong [OF template_names [OF sts], of set]
    by (simp add: claimNames_def sample_kept_def sample_defs CP_IsPVC_def pvcNameOf_def PVCName_def Persistence_RestoreFromLocalBackup_def
        Persistence_IsRestoreEnabled_def)
  moreover have "''disk'' \<notin> vol_Name ` set (volumes sample_tiered)"
    by (simp add: volumes_have [symmetric] volume_names sample_tiered_def sample_kept_def sample_defs codeVolumes_def)
  ultimately have "\<not> mountsResolved sts'"
    using added_device_unclaimed [OF sts', of sample_device] by (simp add: sample_tiered_def sample_device_def)
  with sts sts' sample_device_admitted show ?thesis by blast
qed

end
