(* ===== verification/Init_Config.thy ===== *)
theory Init_Config
  imports Cluster_Pods
begin

text \<open>
  The commands of the init container of a member (\<^verbatim>\<open>initContainerConfig\<close>, \<^verbatim>\<open>restoreCmdForHBResource\<close>,
  \<^verbatim>\<open>restoreInitContainer\<close>, \<^verbatim>\<open>restoreLocalInitContainer\<close> in \<^verbatim>\<open>hazelcast_resources.go\<close>): downloads of code, and the
  restore of a backup. The types of the commands are those of the agent (\<^verbatim>\<open>platform-operator-agent\<close>), with the
  fields the operator sets.
\<close>

subsection \<open>Commands\<close>

record DownloadBucketCmd =
  db_BucketURI :: string
  db_SecretName :: string
  db_Destination :: string

record DownloadURLCmd =
  du_URLs :: string
  du_Destination :: string

record Download =
  dl_Buckets :: "DownloadBucketCmd list"
  dl_URLs :: "DownloadURLCmd list"
  dl_Bundle :: "DownloadBucketCmd list option"

record BucketToPVCCmd =
  bp_Bucket :: string
  bp_Destination :: string
  bp_SecretName :: string
  bp_RestoreID :: string

record LocalInPVCCmd =
  lp_BackupSequenceFolderName :: string
  lp_BackupSourceBaseDir :: string
  lp_BackupDestinationBaseDir :: string
  lp_BackupDir :: string
  lp_RestoreID :: string

datatype Restore = RestoreBucket BucketToPVCCmd | RestorePVC LocalInPVCCmd

record InitConfig =
  ini_Download :: "Download option"
  ini_Restore :: "Restore option"

definition InitConfigZero :: InitConfig where
  "InitConfigZero = \<lparr> ini_Download = None, ini_Restore = None \<rparr>"

definition bucketDownload :: "string \<Rightarrow> BucketConfiguration \<Rightarrow> Download" where
  "bucketDownload dest b = \<lparr> dl_Buckets = [\<lparr> db_BucketURI = bc_BucketURI b, db_SecretName = BucketConfiguration_GetSecretName b,
     db_Destination = dest \<rparr>], dl_URLs = [], dl_Bundle = None \<rparr>"

definition urlDownload :: "string \<Rightarrow> string list \<Rightarrow> Download" where
  "urlDownload dest urls = \<lparr> dl_Buckets = [], dl_URLs = [\<lparr> du_URLs = Join urls '','', du_Destination = dest \<rparr>], dl_Bundle = None \<rparr>"

subsection \<open>The source of a restore\<close>

text \<open>What the construction reads; \<open>ie_Hash\<close> is the JSON of a restore configuration that is hashed,
  \<open>ie_Prefix\<close> the prefix in the query of a bucket URI, \<open>ie_SetPrefix\<close> the URI with another prefix.\<close>

record init_env =
  ie_ListUcn :: "string \<Rightarrow> string \<Rightarrow> go_error + UserCodeNamespace list"
  ie_UcnSpec :: "string \<Rightarrow> go_error + UserCodeNamespaceSpec"
  ie_Config :: "NamespacedName \<Rightarrow> go_error + Hazelcast_cfg"
  ie_GetHotBackup :: "NamespacedName \<Rightarrow> go_error + HotBackup"
  ie_Json :: "RestoreConfiguration \<Rightarrow> string"
  ie_Prefix :: "string \<Rightarrow> string option"
  ie_SetPrefix :: "string \<Rightarrow> string \<Rightarrow> string option"
  ie_Marshal :: "InitConfig \<Rightarrow> go_error + string"

definition RestoreConfiguration_Hash :: "init_env \<Rightarrow> RestoreConfiguration \<Rightarrow> string" where
  "RestoreConfiguration_Hash env rc = Itoa (uint (FNV32a (ie_Json env rc)))"

definition path_Dir :: "string \<Rightarrow> string" where
  "path_Dir p = path_Clean (rev (dropWhile (\<lambda>c. c \<noteq> CHR ''/'') (rev p)))"

definition HotBackupStatus_GetBackupFolder :: "HotBackupStatus \<Rightarrow> string" where
  "HotBackupStatus_GetBackupFolder st = (case hbs_BackupUUIDs st of [] \<Rightarrow> [] | u # _ \<Rightarrow> path_Dir u)"

definition HotBackupStatus_GetBucketURI :: "init_env \<Rightarrow> HotBackupStatus \<Rightarrow> string" where
  "HotBackupStatus_GetBucketURI env st = (case hbs_BackupUUIDs st of
     [] \<Rightarrow> []
   | u # _ \<Rightarrow>
       (case ie_Prefix env u of
          None \<Rightarrow> []
        | Some pre \<Rightarrow>
            (let dir = path_Dir pre; dir' = (if last dir \<noteq> CHR ''/'' then dir @ ''/'' else dir)
             in case ie_SetPrefix env u dir' of None \<Rightarrow> [] | Some uri \<Rightarrow> uri)))"

definition restoreInitContainer :: "init_env \<Rightarrow> RestoreConfiguration \<Rightarrow> string \<Rightarrow> string \<Rightarrow> string \<Rightarrow> Restore" where
  "restoreInitContainer env rc secretName bucket baseDir = RestoreBucket \<lparr> bp_Bucket = bucket, bp_Destination = baseDir,
     bp_SecretName = secretName, bp_RestoreID = RestoreConfiguration_Hash env rc \<rparr>"

definition restoreLocalInitContainer :: "init_env \<Rightarrow> RestoreConfiguration \<Rightarrow> RestoreFromLocalConfiguration \<Rightarrow> string \<Rightarrow> Restore" where
  "restoreLocalInitContainer env rc conf destBaseDir = RestorePVC
     \<lparr> lp_BackupSequenceFolderName = rl_BackupFolder conf,
       lp_BackupSourceBaseDir = (if rl_BaseDir conf \<noteq> [] then rl_BaseDir conf else destBaseDir),
       lp_BackupDestinationBaseDir = destBaseDir,
       lp_BackupDir = (if rl_BackupDir conf \<noteq> [] then rl_BackupDir conf else BackupDir),
       lp_RestoreID = RestoreConfiguration_Hash env rc \<rparr>"

definition restoreCmdForHBResource :: "init_env \<Rightarrow> RestoreConfiguration \<Rightarrow> NamespacedName \<Rightarrow> string \<Rightarrow> go_error + Restore" where
  "restoreCmdForHBResource env rc key baseDir =
     (case ie_GetHotBackup env key of
        Inl e \<Rightarrow> Inl e
      | Inr hb \<Rightarrow>
          if hbs_State (hb_Status hb) \<noteq> HotBackupSuccess
          then Inl (ErrOther (''restore hotbackup '' @ [CHR 0x27] @ om_Name (hb_Meta hb) @ [CHR 0x27] @ '' status is not Success''))
          else if HotBackupSpec_IsExternal (hb_Spec hb)
          then Inr (restoreInitContainer env rc (HotBackupSpec_GetSecretName (hb_Spec hb)) (HotBackupStatus_GetBucketURI env (hb_Status hb)) baseDir)
          else Inr (restoreLocalInitContainer env rc \<lparr> rl_PVCNamePrefix = [], rl_BaseDir = [], rl_BackupDir = [],
                 rl_BackupFolder = HotBackupStatus_GetBackupFolder (hb_Status hb) \<rparr> baseDir))"

subsection \<open>Downloads\<close>

text \<open>The commands for the namespaces; a namespace without a bucket is dereferenced.\<close>

definition bundleDownload :: "UserCodeNamespace list \<Rightarrow> InitConfig go" where
  "bundleDownload ns =
     (if ns = [] then Some InitConfigZero
      else map_option (\<lambda>buckets. InitConfigZero\<lparr> ini_Download := Some \<lparr> dl_Buckets = [], dl_URLs = [], dl_Bundle = Some buckets \<rparr> \<rparr>)
        (allGo (map (\<lambda>u. map_option (\<lambda>b. \<lparr> db_BucketURI = bc_BucketURI b, db_SecretName = bc_SecretName b,
           db_Destination = path_Join UCNBucketPath (om_Name (ucn_Meta u) @ ''.zip'') \<rparr>) (ucns_BucketConfiguration (ucn_Spec u))) ns)))"

text \<open>The four assignments to \<^verbatim>\<open>cfgW.InitContainer.Download\<close>, in the order of the source.\<close>

definition downloadOf :: "string \<Rightarrow> RemoteFileConfiguration \<Rightarrow> InitConfig \<Rightarrow> InitConfig" where
  "downloadOf dest rfc c =
     (let c1 = (case rfc_BucketConfiguration rfc of None \<Rightarrow> c | Some b \<Rightarrow> c\<lparr> ini_Download := Some (bucketDownload dest b) \<rparr>)
      in if rfc_RemoteURLs rfc \<noteq> [] then c1\<lparr> ini_Download := Some (urlDownload dest (rfc_RemoteURLs rfc)) \<rparr> else c1)"

definition withDownloads :: "HazelcastSpec \<Rightarrow> InitConfig \<Rightarrow> InitConfig" where
  "withDownloads s c =
     (let c1 = (case hs_DeprecatedUserCodeDeployment s of None \<Rightarrow> c | Some u \<Rightarrow> downloadOf UserCodeBucketPath (ucd_RemoteFileConfiguration u) c)
      in case hs_JetEngineConfiguration s of None \<Rightarrow> c1 | Some j \<Rightarrow> downloadOf JetJobJarsPath (je_RemoteFileConfiguration j) c1)"

definition initDownloads :: "init_env \<Rightarrow> Hazelcast \<Rightarrow> (go_error + InitConfig) go" where
  "initDownloads env h =
     (if UserCodeNamespacesConfig_IsEnabled (hs_UserCodeNamespaces (h_Spec h))
      then bindE (ie_ListUcn env (om_Name (h_Meta h)) (om_Namespace (h_Meta h))) (\<lambda>items.
           map_option (\<lambda>c. Inr (withDownloads (h_Spec h) c)) (bundleDownload (filterUserCodeNamespaces (ie_UcnSpec env) items)))
      else Some (Inr (withDownloads (h_Spec h) InitConfigZero)))"

text \<open>The command that restores; a bucket that is not set is dereferenced.\<close>

definition restoreOf :: "init_env \<Rightarrow> Hazelcast \<Rightarrow> RestoreConfiguration \<Rightarrow> string \<Rightarrow> (go_error + Restore) go" where
  "restoreOf env h rc baseDir =
     (if Persistence_RestoreFromHotBackupResourceName (hs_Persistence (h_Spec h))
      then Some (restoreCmdForHBResource env rc
        \<lparr> nn_Name = rc_HotBackupResourceName rc, nn_Namespace = om_Namespace (h_Meta h) \<rparr> baseDir)
      else if Persistence_RestoreFromLocalBackup (hs_Persistence (h_Spec h))
      then map_option (\<lambda>l. Inr (restoreLocalInitContainer env rc l baseDir)) (rc_LocalConfiguration rc)
      else map_option (\<lambda>b. Inr (restoreInitContainer env rc (BucketConfiguration_GetSecretName b) (bc_BucketURI b) baseDir))
        (rc_BucketConfiguration rc))"

definition initRestore :: "init_env \<Rightarrow> Hazelcast \<Rightarrow> InitConfig \<Rightarrow> (go_error + string) go" where
  "initRestore env h c =
     (if \<not> Persistence_IsRestoreEnabled (hs_Persistence (h_Spec h)) then Some (ie_Marshal env c)
      else case hs_Persistence (h_Spec h) of
        None \<Rightarrow> None
      | Some p \<Rightarrow>
          (case ie_Config env \<lparr> nn_Name = om_Name (h_Meta h), nn_Namespace = om_Namespace (h_Meta h) \<rparr> of
             Inl e \<Rightarrow> Some (Inl (wrapErr ''unable to fetch existing HZ config: '' e))
           | Inr hzConf \<Rightarrow> Option.bind (restoreOf env h (hp_Restore p) (pe_BaseDir (cfg_Persistence hzConf))) (\<lambda>r.
               bindE r (\<lambda>restore. Some (ie_Marshal env (c\<lparr> ini_Restore := Some restore \<rparr>))))))"

definition initContainerConfig :: "init_env \<Rightarrow> Hazelcast \<Rightarrow> (go_error + string) go" where
  "initContainerConfig env h = Option.bind (initDownloads env h) (\<lambda>r. bindE r (initRestore env h))"

end
