(* ===== verification/Init_Safety.thy ===== *)
theory Init_Safety
  imports Init_Config Pods_Safety
begin

text \<open>
  Properties of the init container: when its configuration cannot be computed, and which downloads it
  does not run.
\<close>

lemma allGo_None: "allGo xs = None \<longleftrightarrow> None \<in> set xs"
  by (induction xs) (auto split: Option.bind_split)

lemma bundleDownload_None: "bundleDownload ns = None \<longleftrightarrow> (\<exists>u \<in> set ns. ucns_BucketConfiguration (ucn_Spec u) = None)"
  by (auto simp: bundleDownload_def allGo_None)

lemma restoreOf_defined:
  assumes "Persistence_IsRestoreEnabled (Some p)" and "hs_Persistence (h_Spec h) = Some p"
  shows "restoreOf env h (hp_Restore p) baseDir \<noteq> None"
proof -
  have "rc_BucketConfiguration (hp_Restore p) \<noteq> None \<or> rc_HotBackupResourceName (hp_Restore p) \<noteq> [] \<or>
      rc_LocalConfiguration (hp_Restore p) \<noteq> None"
    using assms(1) by (cases "hp_Restore p") (auto simp: Persistence_IsRestoreEnabled_def RestoreConfigurationZero_def)
  with assms show ?thesis
    by (auto simp: restoreOf_def Persistence_RestoreFromHotBackupResourceName_def Persistence_RestoreFromLocalBackup_def)
qed

lemma initRestore_defined: "initRestore env h c \<noteq> None"
proof (cases "hs_Persistence (h_Spec h)")
  case None
  then show ?thesis by (simp add: initRestore_def Persistence_IsRestoreEnabled_def)
next
  case (Some p)
  show ?thesis
  proof (cases "Persistence_IsRestoreEnabled (Some p)")
    case True
    then have "restoreOf env h (hp_Restore p) dir \<noteq> None" for dir by (rule restoreOf_defined [OF _ Some])
    then have "\<exists>r. restoreOf env h (hp_Restore p) dir = Some r" for dir by blast
    then have "Option.bind (restoreOf env h (hp_Restore p) dir) (\<lambda>r. bindE r (\<lambda>restore. Some (k restore))) \<noteq> None" for dir k
      by (metis bindE_def bind.bind_lunit option.discI old.sum.simps(5,6) sum.exhaust)
    note run = this [of _ "\<lambda>restore. ie_Marshal env (c\<lparr> ini_Restore := Some restore \<rparr>)"]
    show ?thesis unfolding initRestore_def using Some True run by (simp split: sum.split)
  qed (simp add: initRestore_def Some)
qed

text \<open>C10: the configuration of the init container ends in a panic exactly when a UserCodeNamespace of the
  cluster that was applied once has no bucket; the restore that a resource asks for, whatever its
  source, is always computed or refused with an error.\<close>

theorem init_config_panics_iff:
  "initContainerConfig env h = None \<longleftrightarrow> hs_UserCodeNamespaces (h_Spec h) \<noteq> None \<and>
     (\<exists>items. ie_ListUcn env (om_Name (h_Meta h)) (om_Namespace (h_Meta h)) = Inr items \<and>
        (\<exists>u \<in> set (filterUserCodeNamespaces (ie_UcnSpec env) items). ucns_BucketConfiguration (ucn_Spec u) = None))"
proof -
  have "initContainerConfig env h = None \<longleftrightarrow> initDownloads env h = None"
    using initRestore_defined [of env h] unfolding initContainerConfig_def
    by (auto simp: bindE_def split: Option.bind_split sum.splits)
  also have "\<dots> \<longleftrightarrow> hs_UserCodeNamespaces (h_Spec h) \<noteq> None \<and>
     (\<exists>items. ie_ListUcn env (om_Name (h_Meta h)) (om_Namespace (h_Meta h)) = Inr items \<and>
        (\<exists>u \<in> set (filterUserCodeNamespaces (ie_UcnSpec env) items). ucns_BucketConfiguration (ucn_Spec u) = None))"
    by (auto simp: initDownloads_def UserCodeNamespacesConfig_IsEnabled_def bundleDownload_None bindE_def split: sum.splits)
  finally show ?thesis .
qed

text \<open>The directories the init container downloads to.\<close>

definition destinations :: "InitConfig \<Rightarrow> string set" where
  "destinations c = (case ini_Download c of
     None \<Rightarrow> {}
   | Some d \<Rightarrow> db_Destination ` set (dl_Buckets d) \<union> du_Destination ` set (dl_URLs d) \<union>
       (case dl_Bundle d of None \<Rightarrow> {} | Some bs \<Rightarrow> db_Destination ` set bs))"

definition downloads :: "RemoteFileConfiguration \<Rightarrow> bool" where
  "downloads rfc \<longleftrightarrow> rfc_BucketConfiguration rfc \<noteq> None \<or> rfc_RemoteURLs rfc \<noteq> []"

lemma downloadOf_destinations: "downloads rfc \<Longrightarrow> destinations (downloadOf dest rfc c) = {dest}"
  by (auto simp: downloads_def downloadOf_def Let_def destinations_def bucketDownload_def urlDownload_def split: option.split)

text \<open>C11: the downloads of the init container replace one another: when a cluster has both user code and
  jars of Jet jobs to download, only the jars are downloaded, although the directory of the user
  code is mounted for it; the bundles of the UserCodeNamespaces are lost in the same way.\<close>

theorem init_downloads_lost:
  assumes "initDownloads env h = Some (Inr c)"
    and "hs_DeprecatedUserCodeDeployment (h_Spec h) = Some u" and "downloads (ucd_RemoteFileConfiguration u)"
    and "hs_JetEngineConfiguration (h_Spec h) = Some j" and "downloads (je_RemoteFileConfiguration j)"
  shows "destinations c = {JetJobJarsPath} \<and> ucdBucketAgentVolumeMount \<in> set (ct_VolumeMounts (initContainer h pvcName))"
proof
  from assms(1) obtain c0 where "c = withDownloads (h_Spec h) c0"
    by (auto simp: initDownloads_def bindE_eq split: if_splits)
  with assms(4,5) show "destinations c = {JetJobJarsPath}" by (simp add: withDownloads_def downloadOf_destinations)
  show "ucdBucketAgentVolumeMount \<in> set (ct_VolumeMounts (initContainer h pvcName))"
    using assms(2,3) by (auto simp: initContainer_def Let_def UCD_IsBucketEnabled_def UCD_IsRemoteURLsEnabled_def downloads_def)
qed

definition sample_code :: Hazelcast where
  "sample_code = sample_jet_hazelcast\<lparr> h_Spec := (h_Spec sample_jet_hazelcast)\<lparr> hs_DeprecatedUserCodeDeployment := Some
     \<lparr> ucd_ClientEnabled = None, ucd_TriggerSequence = [], ucd_RemoteFileConfiguration =
         \<lparr> rfc_BucketConfiguration = None, rfc_ConfigMaps = [], rfc_RemoteURLs = [''http://host/code.jar''] \<rparr> \<rparr> \<rparr> \<rparr>"

theorem init_downloads_lost_witness:
  "destinations (withDownloads (h_Spec sample_code) InitConfigZero) = {JetJobJarsPath} \<and>
   ucdBucketAgentVolumeMount \<in> set (ct_VolumeMounts (initContainer sample_code ''persistence''))"
proof -
  let ?env = "\<lparr> ie_ListUcn = \<lambda>_ _. Inr [], ie_UcnSpec = \<lambda>_. Inl (ErrOther ''none''), ie_Config = \<lambda>_. Inl (ErrOther ''none''),
    ie_GetHotBackup = \<lambda>_. Inl (ErrOther ''none''), ie_Json = \<lambda>_. [], ie_Prefix = \<lambda>_. None, ie_SetPrefix = \<lambda>_ _. None,
    ie_Marshal = \<lambda>_. Inr [] \<rparr>"
  have "initDownloads ?env sample_code = Some (Inr (withDownloads (h_Spec sample_code) InitConfigZero))"
    by (simp add: initDownloads_def UserCodeNamespacesConfig_IsEnabled_def sample_code_def sample_jet_hazelcast_def sample_defs)
  from init_downloads_lost [OF this, of _ sample_jet] show ?thesis
    by (simp add: sample_code_def sample_jet_hazelcast_def sample_jet_def downloads_def)
qed

end
