(* ===== verification/Hazelcast_Controller.thy ===== *)
theory Hazelcast_Controller
  imports Hazelcast_Deletion Init_Config Hazelcast_Validation
begin

text \<open>
  The Hazelcast controller as a whole (\<^verbatim>\<open>hazelcast_controller.go\<close>): the Secret with the configuration and the
  key store, the configuration of the init container, the StatefulSet, the wait for the members and the
  work on the running cluster; with the registries of clients and status services
  (\<^verbatim>\<open>internal/hazelcast-client\<close>, \<^verbatim>\<open>internal/mtls\<close>) and the parts of \<^verbatim>\<open>internal/util/util.go\<close> it uses.

  The resource at hand is changed on the way (properties and annotations are filled in), so the
  steps return it.
\<close>

subsection \<open>Environment\<close>

record PodStatus =
  pst_Pod :: Pod
  pst_Namespace :: string
  pst_Phase :: string
  pst_Waiting :: "(string \<times> int32) list"

text \<open>What a cluster reports about itself.\<close>

record ClusterStatus =
  cst_MemberData :: "(string \<times> MemberData) list"
  cst_HotRestart :: ClusterHotRestartStatus

text \<open>\<open>hc_decodePEM\<close> is the first block of \<^verbatim>\<open>pem.Decode\<close>, \<open>hc_Store\<close> the bytes of a key store with the given entry.
  \<open>hc_Selector\<close> prints a label selector.\<close>

record hc_env =
  hc_hz :: hz_env
  hc_cfg :: "hz_call moment \<Rightarrow> cfg_env"
  hc_init :: "hz_call moment \<Rightarrow> init_env"
  hc_pod :: pod_env
  hc_validation :: validation_env
  hc_ErrText :: "validation_error \<Rightarrow> string"
  hc_MarshalSpec :: "HazelcastSpec \<Rightarrow> string"
  hc_UnmarshalSpec :: "string \<Rightarrow> go_error + HazelcastSpec"
  hc_decodePEM :: "string \<Rightarrow> (string \<times> string) option"
  hc_Store :: "hz_call moment \<Rightarrow> (string \<times> string) option \<Rightarrow> go_error + string"
  hc_AppendCertsFromPEM :: "string \<Rightarrow> bool"
  hc_X509KeyPair :: "string \<Rightarrow> string \<Rightarrow> go_error option"
  hc_ListPods :: "hz_call moment \<Rightarrow> string \<Rightarrow> (string \<rightharpoonup> string) \<Rightarrow> go_error + PodStatus list"
  hc_Enterprise :: "hz_call moment \<Rightarrow> NamespacedName \<Rightarrow> go_error + bool"
  hc_Connected :: "hz_call moment \<Rightarrow> NamespacedName \<Rightarrow> bool"
  hc_AllAccessible :: "hz_call moment \<Rightarrow> NamespacedName \<Rightarrow> bool"
  hc_Members :: "hz_call moment \<Rightarrow> NamespacedName \<Rightarrow> string list"
  hc_ClusterActive :: "hz_call moment \<Rightarrow> NamespacedName \<Rightarrow> go_error + bool"
  hc_Status :: "hz_call moment \<Rightarrow> NamespacedName \<Rightarrow> ClusterStatus"
  hc_Selector :: "(string \<rightharpoonup> string) \<Rightarrow> string option"
  hc_PhoneHome :: bool
  hc_retries :: nat

abbreviation hz_callA :: "hc_env \<Rightarrow> hz_call \<Rightarrow> unit hz_proc" where
  "hz_callA env c \<equiv> invokeA (hz_call (hc_hz env)) c"

definition ignoreA :: "unit hz_proc \<Rightarrow> unit hz_proc" where
  "ignoreA m = tryA m (\<lambda>_. returnA ())"

subsection \<open>Writing an object that depends on the resource at hand\<close>

text \<open>\<^verbatim>\<open>controllerutil.CreateOrUpdate\<close> with a mutate function that changes the resource too. It is told whether the
  object is the one made here.\<close>

type_synonym hz_mutate = "bool \<Rightarrow> kube_object \<Rightarrow> Hazelcast \<Rightarrow> ((go_error + kube_object) \<times> Hazelcast) hz_proc"

definition createOrUpdateH :: "hz_env \<Rightarrow> bool \<Rightarrow> kube_object \<Rightarrow> hz_mutate \<Rightarrow> Hazelcast \<Rightarrow>
    (bool \<times> kube_object \<times> go_error option \<times> Hazelcast) hz_proc" where
  "createOrUpdateH env own ob mutate h =
     tryA (observeA (\<lambda>t. hz_Get env t (object_kind ob) (object_key ob))) (\<lambda>r. case r of
       Inl e \<Rightarrow>
         if ErrIsNotFound e
         then bindA (mutate own ob h) (\<lambda>(m, h'). case m of
                Inl e \<Rightarrow> returnA (own, ob, Some e, h')
              | Inr ob' \<Rightarrow> bindA (writtenA env (CreateObject ob') ob') (\<lambda>(ob2, err). returnA (own, ob2, err, h')))
         else returnA (own, ob, Some e, h)
     | Inr old \<Rightarrow> bindA (mutate False old h) (\<lambda>(m, h'). case m of
         Inl e \<Rightarrow> returnA (False, old, Some e, h')
       | Inr ob' \<Rightarrow> if ob' = old then returnA (False, ob', None, h')
           else bindA (writtenA env (UpdateObject ob') ob') (\<lambda>(ob2, err). returnA (False, ob2, err, h'))))"

definition createOrUpdateForceH :: "hz_env \<Rightarrow> kube_object \<Rightarrow> hz_mutate \<Rightarrow> Hazelcast \<Rightarrow> (go_error option \<times> Hazelcast) hz_proc" where
  "createOrUpdateForceH env ob mutate h =
     bindA (createOrUpdateH env True ob mutate h) (\<lambda>(own, ob', err, h'). case err of
       None \<Rightarrow> returnA (None, h')
     | Some e \<Rightarrow>
         if ErrIsAlreadyExists e then returnA (None, h')
         else if ErrIsInvalid e
         then catchA (invokeA (hz_call env) (DeleteKube (object_kind ob') (object_key ob'))) (\<lambda>e. returnA (Some e, h')) (\<lambda>_.
              bindA (createOrUpdateH env own ob' mutate h') (\<lambda>(_, _, err, h''). returnA (err, h'')))
         else returnA (Some e, h'))"

text \<open>\<^verbatim>\<open>retry.RetryOnConflict\<close> around it.\<close>

fun retryH :: "nat \<Rightarrow> hz_env \<Rightarrow> bool \<Rightarrow> kube_object \<Rightarrow> hz_mutate \<Rightarrow> Hazelcast \<Rightarrow> (go_error option \<times> Hazelcast) hz_proc" where
  "retryH n env own ob mutate h =
     bindA (createOrUpdateH env own ob mutate h) (\<lambda>(own', ob', err, h').
       case (n, err) of
         (Suc k, Some e) \<Rightarrow> if ErrIsConflict e then retryH k env own' ob' mutate h' else returnA (err, h')
       | _ \<Rightarrow> returnA (err, h'))"

declare retryH.simps [simp del]

subsection \<open>Secret and ConfigMap\<close>

definition decodePEM :: "hc_env \<Rightarrow> string \<Rightarrow> string \<Rightarrow> go_error + string" where
  "decodePEM env data typ = (case hc_decodePEM env data of
     None \<Rightarrow> Inl (ErrOther ''expected at least one pem block'')
   | Some (t, bytes) \<Rightarrow> if t \<noteq> typ then Inl (ErrOther (''expected type '' @ typ @ '', got '' @ t)) else Inr bytes)"

definition secretValue :: "Secret \<Rightarrow> string \<Rightarrow> string" where
  "secretValue s k = (case sct_Data s k of None \<Rightarrow> [] | Some v \<Rightarrow> v)"

definition getSecret :: "hz_env \<Rightarrow> NamespacedName \<Rightarrow> Secret hz_proc" where
  "getSecret env nn = bindA (observeA (\<lambda>t. hz_Get env t SecretKind nn)) (\<lambda>ob. case ob of
     KSecret s \<Rightarrow> returnA s | _ \<Rightarrow> throwA (ErrOther ''no secret''))"

definition loadTLSKeyPair :: "hc_env \<Rightarrow> Hazelcast \<Rightarrow> TLS \<Rightarrow> (string \<times> string) hz_proc" where
  "loadTLSKeyPair env h tls =
     bindA (getSecret (hc_hz env) \<lparr> nn_Name = tls_SecretName tls, nn_Namespace = om_Namespace (h_Meta h) \<rparr>) (\<lambda>s.
     case decodePEM env (secretValue s ''tls.crt'') ''CERTIFICATE'' of
       Inl e \<Rightarrow> throwA e
     | Inr cert \<Rightarrow> (case decodePEM env (secretValue s ''tls.key'') ''PRIVATE KEY'' of Inl e \<Rightarrow> throwA e | Inr key \<Rightarrow> returnA (cert, key)))"

definition hazelcastKeystore :: "hc_env \<Rightarrow> Hazelcast \<Rightarrow> string hz_proc" where
  "hazelcastKeystore env h =
     bindA (case hs_TLS (h_Spec h) of
              Some tls \<Rightarrow> if tls_SecretName tls \<noteq> [] then bindA (loadTLSKeyPair env h tls) (\<lambda>p. returnA (Some p)) else returnA None
            | None \<Rightarrow> returnA None) (\<lambda>entry.
     observeA (\<lambda>t. hc_Store env t entry))"

text \<open>The mutate function of the Secret. A panic ends the reconciliation.\<close>

definition mutateSecret :: "hc_env \<Rightarrow> hz_mutate" where
  "mutateSecret env own ob h =
     bindA (observeA (\<lambda>t. Inr (hazelcastConfig (hc_cfg env t) h))) (\<lambda>(r, h').
     bindA (orPanic r) (\<lambda>cfg. case (cfg, ob) of
       (Inr yaml, KSecret s) \<Rightarrow>
         let s1 = s\<lparr> sct_Data := (sct_Data s)(''hazelcast.yaml'' \<mapsto> yaml) \<rparr>
         in if sct_Data s ''hazelcast.jks'' \<noteq> None then returnA (Inr (KSecret s1), h')
            else catchA (hazelcastKeystore env h') (\<lambda>e. returnA (Inl e, h')) (\<lambda>jks.
                 returnA (Inr (KSecret (s1\<lparr> sct_Data := (sct_Data s1)(''hazelcast.jks'' \<mapsto> jks) \<rparr>)), h'))
     | (Inl e, _) \<Rightarrow> returnA (Inl e, h')
     | (Inr _, _) \<Rightarrow> returnA (Inr ob, h')))"

definition reconcileSecret :: "hc_env \<Rightarrow> Hazelcast \<Rightarrow> (go_error option \<times> Hazelcast) hz_proc" where
  "reconcileSecret env h =
     retryH (hc_retries env) (hc_hz env) True (KSecret \<lparr> sct_Meta = metadata h, sct_Data = Map.empty \<rparr>) (mutateSecret env) h"

definition mutateInitConfig :: "hc_env \<Rightarrow> hz_mutate" where
  "mutateInitConfig env own ob h =
     bindA (observeA (\<lambda>t. Inr (initContainerConfig (hc_init env t) h))) (\<lambda>r.
     bindA (orPanic r) (\<lambda>cfg. returnA (case (cfg, ob) of
       (Inl e, _) \<Rightarrow> Inl e
     | (Inr yaml, KConfigMap c) \<Rightarrow> Inr (KConfigMap (c\<lparr> cmo_Data := (cmo_Data c)(InitConfigFile \<mapsto> yaml) \<rparr>))
     | (Inr _, _) \<Rightarrow> Inr ob, h)))"

definition reconcileInitContainerConfig :: "hc_env \<Rightarrow> Hazelcast \<Rightarrow> (go_error option \<times> Hazelcast) hz_proc" where
  "reconcileInitContainerConfig env h =
     retryH (hc_retries env) (hc_hz env) True
       (KConfigMap \<lparr> cmo_Meta = namedMeta h (om_Name (h_Meta h) @ InitSuffix), cmo_Data = Map.empty \<rparr>) (mutateInitConfig env) h"

text \<open>\<^verbatim>\<open>mtlsClientRegistry.Create\<close>: the Secret with the certificates is made by the client when it is missing.\<close>

definition mtlsClientRegistry_Create :: "hc_env \<Rightarrow> string \<Rightarrow> unit hz_proc" where
  "mtlsClientRegistry_Create env ns =
     bindA (stateA (\<lambda>s. ns \<in> hzr_mtlsClients s)) (\<lambda>found.
     if found then returnA ()
     else bindA (hz_callA env (CreateMtlsClient ns)) (\<lambda>_.
          changeA (\<lambda>s. s\<lparr> hzr_mtlsClients := insert ns (hzr_mtlsClients s) \<rparr>)))"

text \<open>\<^verbatim>\<open>SetControllerReference\<close> refuses an object that another controller owns.\<close>

definition reconcileMTLSSecret :: "hc_env \<Rightarrow> Hazelcast \<Rightarrow> unit hz_proc" where
  "reconcileMTLSSecret env h =
     bindA (mtlsClientRegistry_Create env (om_Namespace (h_Meta h))) (\<lambda>_.
     bindA (getSecret (hc_hz env) \<lparr> nn_Name = MTLSCertSecretName, nn_Namespace = om_Namespace (h_Meta h) \<rparr>) (\<lambda>s.
     if \<exists>ref \<in> set (km_Owners (sct_Meta s)). ref \<noteq> ownedBy h then throwA (ErrOther ''already owned by another controller'')
     else bindA (CreateOrUpdateForce (hc_hz env) (KSecret (s\<lparr> sct_Meta := (sct_Meta s)\<lparr> km_Owners := [ownedBy h] \<rparr> \<rparr>)) keepObject) (\<lambda>_. returnA ())))"

subsection \<open>StatefulSet\<close>

text \<open>The annotations of the new object, of its claim templates and of the resource are one map, when the
  user gave one: what \<^verbatim>\<open>podAnnotations\<close> writes into it appears in all of them.\<close>

definition sharedAnnotations :: "bool \<Rightarrow> Hazelcast \<Rightarrow> StatefulSet \<Rightarrow> bool" where
  "sharedAnnotations own h sts \<longleftrightarrow> own \<and> hs_Annotations (h_Spec h) \<noteq> Map.empty"

definition shareClaims :: "Hazelcast \<Rightarrow> StatefulSet \<Rightarrow> StatefulSet" where
  "shareClaims h sts = sts\<lparr> sfs_VolumeClaimTemplates := map (\<lambda>c.
     if km_Annotations (pv_Meta c) = hs_Annotations (h_Spec h) \<and> km_Name (pv_Meta c) \<notin> ld_Name ` set (hs_LocalDevices (h_Spec h))
     then c\<lparr> pv_Meta := (pv_Meta c)\<lparr> km_Annotations := sfs_TemplateAnnotations sts \<rparr> \<rparr> else c) (sfs_VolumeClaimTemplates sts) \<rparr>"

definition mutateSts :: "hc_env \<Rightarrow> hz_mutate" where
  "mutateSts env own ob h = (case ob of
     KStatefulSet sts \<Rightarrow>
       bindA (orPanic (mutateStatefulSet (hc_pod env) h sts)) (\<lambda>r. case r of
         Inl e \<Rightarrow> returnA (Inl e, h)
       | Inr sts' \<Rightarrow> returnA (if sharedAnnotations own h sts
           then (Inr (KStatefulSet (shareClaims h sts')), h\<lparr> h_Spec := (h_Spec h)\<lparr> hs_Annotations := sfs_TemplateAnnotations sts' \<rparr> \<rparr>)
           else (Inr (KStatefulSet sts'), h)))
   | _ \<Rightarrow> returnA (Inr ob, h))"

definition reconcileStatefulset :: "hc_env \<Rightarrow> Hazelcast \<Rightarrow> (go_error option \<times> Hazelcast) hz_proc" where
  "reconcileStatefulset env h =
     bindA (orPanic (newStatefulSet (hc_pod env) h)) (\<lambda>sts. createOrUpdateForceH (hc_hz env) (KStatefulSet sts) (mutateSts env) h)"

subsection \<open>Failing pods (util.go, pod\_error.go)\<close>

definition isStatefulSetReady :: "StatefulSet \<Rightarrow> int32 \<Rightarrow> bool" where
  "isStatefulSetReady sts expectedReplicas \<longleftrightarrow> expectedReplicas = sts_UpdatedReplicas (sfs_Status sts) \<and>
     expectedReplicas = sts_ReadyReplicas (sfs_Status sts) \<and> sfs_Generation sts = sts_ObservedGeneration (sfs_Status sts)"

definition NewPodError :: "PodStatus \<Rightarrow> PodError" where
  "NewPodError p = \<lparr> pe_Name = pod_Name (pst_Pod p), pe_Namespace = pst_Namespace p, pe_Message = pod_Message (pst_Pod p),
     pe_Reason = [], pe_PodIp = pod_PodIP (pst_Pod p), pe_RestartCount = 0 \<rparr>"

definition badWaiting :: "string \<Rightarrow> bool" where
  "badWaiting reason \<longleftrightarrow> reason \<notin> {''ContainerCreating'', ''PodInitializing'', []}"

definition hasPodFailedWhileWaiting :: "PodStatus \<Rightarrow> bool" where
  "hasPodFailedWhileWaiting p \<longleftrightarrow> (\<exists>(reason, _) \<in> set (pst_Waiting p). badWaiting reason)"

definition errorsFromPendingPod :: "PodStatus \<Rightarrow> PodError list" where
  "errorsFromPendingPod p = map (\<lambda>(reason, restarts). (NewPodError p)\<lparr> pe_RestartCount := restarts, pe_Reason := reason \<rparr>)
     (filter (\<lambda>(reason, _). badWaiting reason) (pst_Waiting p))"

definition podErrors :: "PodStatus list \<Rightarrow> PodError list" where
  "podErrors pods = concat (map (\<lambda>p.
     if pst_Phase p = ''Failed'' \<or> pst_Phase p = ''Unknown'' then [NewPodError p]
     else if hasPodFailedWhileWaiting p then errorsFromPendingPod p else []) pods)"

definition PodError_text :: "PodError \<Rightarrow> string" where
  "PodError_text e = ''pod '' @ pe_Name e @ '' in namespace '' @ pe_Namespace e @ '' failed for '' @ pe_Message e @ '': '' @ pe_Reason e"

definition PodErrors_text :: "PodError list \<Rightarrow> string" where
  "PodErrors_text es = (case es of [] \<Rightarrow> [] | e # _ \<Rightarrow> ''multiple ('' @ Itoa (int (length es)) @ '') errors: '' @ PodError_text e)"

text \<open>The error is that of the list, or the failing pods.\<close>

definition CheckIfRunning :: "hc_env \<Rightarrow> StatefulSet \<Rightarrow> int32 \<Rightarrow> (bool \<times> (go_error \<times> PodError list) option) hz_proc" where
  "CheckIfRunning env sts expectedReplicas =
     (if isStatefulSetReady sts expectedReplicas then returnA (True, None)
      else tryA (observeA (\<lambda>t. hc_ListPods env t (km_Namespace (sfs_Meta sts)) (sfs_TemplateLabels sts))) (\<lambda>r. returnA (False, case r of
        Inl e \<Rightarrow> Some (e, [])
      | Inr pods \<Rightarrow> (let es = podErrors pods in if es = [] then None else Some (ErrOther (PodErrors_text es), es)))))"

subsection \<open>Registries\<close>

text \<open>A certificate that cannot be parsed ends \<^verbatim>\<open>GetOrCreate\<close> with the error variable that is nil there: neither a
  client nor an error, here \<open>False\<close>.\<close>

definition clientCertificate :: "hc_env \<Rightarrow> Hazelcast \<Rightarrow> bool hz_proc" where
  "clientCertificate env h = (case hs_TLS (h_Spec h) of
     Some tls \<Rightarrow>
       if tls_SecretName tls \<noteq> []
       then bindA (getSecret (hc_hz env) \<lparr> nn_Name = tls_SecretName tls, nn_Namespace = om_Namespace (h_Meta h) \<rparr>) (\<lambda>s.
            if \<not> hc_AppendCertsFromPEM env (secretValue s ''tls.crt'') then returnA False
            else if tls_MutualAuthentication tls \<noteq> MutualAuthenticationNone
            then (case hc_X509KeyPair env (secretValue s ''tls.crt'') (secretValue s ''tls.key'') of Some e \<Rightarrow> throwA e | None \<Rightarrow> returnA True)
            else returnA True)
       else returnA True
   | None \<Rightarrow> returnA True)"

definition clientRegistry_GetOrCreate :: "hc_env \<Rightarrow> NamespacedName \<Rightarrow> bool hz_proc" where
  "clientRegistry_GetOrCreate env nn =
     bindA (observeA (\<lambda>t. hz_GetHazelcast (hc_hz env) t nn)) (\<lambda>h.
     bindA (stateA (\<lambda>s. nn \<in> hzr_clients s)) (\<lambda>found.
     if found then returnA True
     else bindA (clientCertificate env h) (\<lambda>ok.
          if \<not> ok then returnA False
          else bindA (hz_callA env (CreateClient nn)) (\<lambda>_.
               bindA (changeA (\<lambda>s. s\<lparr> hzr_clients := insert nn (hzr_clients s) \<rparr>)) (\<lambda>_. returnA True)))))"

definition statusServiceRegistry_Create :: "hc_env \<Rightarrow> NamespacedName \<Rightarrow> unit hz_proc" where
  "statusServiceRegistry_Create env nn =
     bindA (stateA (\<lambda>s. nn \<in> hzr_statusServices s)) (\<lambda>found.
     if found then returnA ()
     else bindA (changeA (\<lambda>s. s\<lparr> hzr_statusServices := insert nn (hzr_statusServices s) \<rparr>)) (\<lambda>_.
          ignoreA (hz_callA env (StartStatusService nn))))"

definition memberStatusesZero :: memberStatuses where
  "memberStatusesZero = \<lparr> mbs_readyMembers = [], mbs_readyMembersMap = [], mbs_restoreState = ClusterHotRestartStatusZero,
     mbs_memberPods = [], mbs_podErrors = [] \<rparr>"

definition memberStatusesOf :: "hc_env \<Rightarrow> Hazelcast \<Rightarrow> PodError list \<Rightarrow> HzStatusApplier hz_proc" where
  "memberStatusesOf env h podErrs =
     (let nn = metaKey (h_Meta h) in
      bindA (stateA (\<lambda>s. (nn \<in> hzr_statusServices s, nn \<in> hzr_clients s))) (\<lambda>(watched, client).
      if \<not> watched then returnA (withMemberStatuses memberStatusesZero)
      else bindA (observeA (\<lambda>t. Inr (hc_Status env t nn))) (\<lambda>status.
           bindA (observeA (\<lambda>t. Inr (hc_Connected env t nn))) (\<lambda>connected.
           bindA (if client \<and> connected
                  then bindA (orPanic (hs_ClusterSize (h_Spec h))) (\<lambda>size.
                       returnA (Itoa (int (length (cst_MemberData status))) @ ''/'' @ Itoa (sint size)))
                  else returnA ''N/A'') (\<lambda>ready.
           bindA (observeA (\<lambda>t. Inr (hc_ListPods env t (om_Namespace (h_Meta h)) (util_Labels h)))) (\<lambda>pods.
           returnA (withMemberStatuses \<lparr> mbs_readyMembers = ready, mbs_readyMembersMap = cst_MemberData status,
             mbs_restoreState = (if Persistence_IsEnabled (hs_Persistence (h_Spec h)) \<and>
                 ClusterHotRestartStatus_RestoreState (cst_HotRestart status) \<noteq> RestoreUnknown
               then cst_HotRestart status else ClusterHotRestartStatusZero),
             mbs_memberPods = (case pods of Inl _ \<Rightarrow> [] | Inr ps \<Rightarrow> map pst_Pod ps), mbs_podErrors = podErrs \<rparr>)))))))"

subsection \<open>The running cluster\<close>

definition persistenceStartupAction :: "hc_env \<Rightarrow> Hazelcast \<Rightarrow> unit hz_proc" where
  "persistenceStartupAction env h = (case hs_Persistence (h_Spec h) of
     None \<Rightarrow> returnA ()
   | Some p \<Rightarrow> if hp_StartupAction p = StartupActionUnset \<or> hst_Phase (h_Status h) = Running then returnA ()
       else hz_callA env (StartupActionCall (hp_StartupAction p)))"

definition RestoreStatusZero :: RestoreStatus where
  "RestoreStatusZero = \<lparr> rs_State = RestoreStateUnset, rs_RemainingValidationTime = 0, rs_RemainingDataLoadTime = 0 \<rparr>"

definition ensureClusterActive :: "hc_env \<Rightarrow> NamespacedName \<Rightarrow> Hazelcast \<Rightarrow> unit hz_proc" where
  "ensureClusterActive env nn h =
     (if \<not> Persistence_IsRestoreEnabled (hs_Persistence (h_Spec h)) \<or> hst_Restore (h_Status h) = RestoreStatusZero \<or>
         rs_State (hst_Restore (h_Status h)) \<noteq> RestoreSucceeded \<or> hst_Phase (h_Status h) = Pending \<or>
         (\<exists>m \<in> set (hst_Members (h_Status h)). hm_State m \<noteq> ''PASSIVE'')
      then returnA ()
      else bindA (observeA (\<lambda>t. hc_ClusterActive env t nn)) (\<lambda>active.
           if active then returnA () else hz_callA env ChangeClusterStateHz))"

definition illegalClusterType :: go_error where
  "illegalClusterType = ErrOther ''only enterprise clusters are supported''"

definition newByName :: "('a \<Rightarrow> string) \<Rightarrow> 'a list \<Rightarrow> 'a list \<Rightarrow> 'a list" where
  "newByName name prev cur = filter (\<lambda>e. name e \<notin> name ` set prev) cur"

type_synonym executors = "ExecutorServiceConfiguration list \<times> DurableExecutorServiceConfiguration list \<times> ScheduledExecutorServiceConfiguration list"

definition detectNewExecutorServices :: "HazelcastSpec \<Rightarrow> HazelcastSpec \<Rightarrow> executors" where
  "detectNewExecutorServices cur prev =
     (newByName es_Name (hs_ExecutorServices prev) (hs_ExecutorServices cur),
      newByName des_Name (hs_DurableExecutorServices prev) (hs_DurableExecutorServices cur),
      newByName ses_Name (hs_ScheduledExecutorServices prev) (hs_ScheduledExecutorServices cur))"

definition onMembers :: "hc_env \<Rightarrow> NamespacedName \<Rightarrow> (string \<Rightarrow> hz_call) \<Rightarrow> unit hz_proc" where
  "onMembers env nn mk = bindA (observeA (\<lambda>t. Inr (hc_Members env t nn))) (\<lambda>members.
     forA members (\<lambda>m. ignoreA (hz_callA env (mk m))))"

definition addExecutorServices :: "hc_env \<Rightarrow> NamespacedName \<Rightarrow> executors \<Rightarrow> unit hz_proc" where
  "addExecutorServices env nn ex = (case ex of (es, des, ses) \<Rightarrow>
     bindA (forA es (\<lambda>e. onMembers env nn (\<lambda>m. AddExecutorConfig m e))) (\<lambda>_.
     bindA (forA des (\<lambda>e. onMembers env nn (\<lambda>m. AddDurableExecutorConfig m e))) (\<lambda>_.
     forA ses (\<lambda>e. onMembers env nn (\<lambda>m. AddScheduledExecutorConfig m e)))))"

definition unmarshalHazelcastSpec :: "hc_env \<Rightarrow> Hazelcast \<Rightarrow> string \<Rightarrow> go_error + HazelcastSpec" where
  "unmarshalHazelcastSpec env h raw =
     (if raw = hc_MarshalSpec env (h_Spec h) then Inr (h_Spec h)
      else case hc_UnmarshalSpec env raw of Inl e \<Rightarrow> Inl (wrapErr ''error unmarshaling Last HZ Spec: '' e) | Inr s \<Rightarrow> Inr s)"

definition clientConnectionMessage :: "hc_env \<Rightarrow> NamespacedName \<Rightarrow> string hz_proc" where
  "clientConnectionMessage env nn =
     catchA (clientRegistry_GetOrCreate env nn)
       (\<lambda>_. returnA ''Operator failed to create connection to cluster, some features might be unavailable.'') (\<lambda>cl.
     if \<not> cl then throwA (ErrPanic ''nil client'')
     else bindA (observeA (\<lambda>t. Inr (hc_Connected env t nn))) (\<lambda>connected.
          if \<not> connected then returnA ''Operator could not connect to the cluster. Some features might be unavailable.''
          else bindA (observeA (\<lambda>t. Inr (hc_AllAccessible env t nn))) (\<lambda>accessible.
               returnA (if \<not> accessible then ''Operator could not connect to all cluster members. Some features might be unavailable.'' else []))))"

subsection \<open>Defaults\<close>

definition ResourceRequirementsZero :: k8s_raw where
  "ResourceRequirementsZero = ''{}''"

definition notZero :: "'a \<Rightarrow> 'a option \<Rightarrow> 'a option" where
  "notZero z x = (if x = Some z then None else x)"

definition defaultOptionalToNil :: "HazelcastSpec \<Rightarrow> HazelcastSpec" where
  "defaultOptionalToNil s = s\<lparr>
     hs_TLS := notZero \<lparr> tls_SecretName = [], tls_MutualAuthentication = MutualAuthenticationNone \<rparr> (hs_TLS s),
     hs_Scheduling := notZero \<lparr> sch_Affinity = None, sch_Tolerations = [], sch_NodeSelector = Map.empty, sch_TopologySpreadConstraints = [] \<rparr> (hs_Scheduling s),
     hs_Resources := notZero ResourceRequirementsZero (hs_Resources s),
     hs_Agent := (hs_Agent s)\<lparr> ag_Resources := notZero ResourceRequirementsZero (ag_Resources (hs_Agent s)) \<rparr>,
     hs_DeprecatedUserCodeDeployment := notZero \<lparr> ucd_ClientEnabled = None, ucd_TriggerSequence = [],
       ucd_RemoteFileConfiguration = \<lparr> rfc_BucketConfiguration = None, rfc_ConfigMaps = [], rfc_RemoteURLs = [] \<rparr> \<rparr> (hs_DeprecatedUserCodeDeployment s),
     hs_AdvancedNetwork := notZero \<lparr> an_MemberServerSocketEndpointConfig = \<lparr> sse_Interfaces = [] \<rparr>,
       an_ClientServerSocketEndpointConfig = \<lparr> sse_Interfaces = [] \<rparr>, an_WAN = [] \<rparr> (hs_AdvancedNetwork s),
     hs_ManagementCenterConfig := notZero \<lparr> mcc_ScriptingEnabled = False, mcc_ConsoleEnabled = False, mcc_DataAccessEnabled = False \<rparr>
       (hs_ManagementCenterConfig s) \<rparr>"

definition Hazelcast_Default :: "HazelcastSpec \<Rightarrow> HazelcastSpec" where
  "Hazelcast_Default s = defaultOptionalToNil
     (if hs_LicenseKeySecretName s = [] \<and> hs_DeprecatedLicenseKeySecret s \<noteq> []
      then s\<lparr> hs_LicenseKeySecretName := hs_DeprecatedLicenseKeySecret s, hs_DeprecatedLicenseKeySecret := [] \<rparr> else s)"

definition HazelcastRepo :: string where "HazelcastRepo = ''docker.io/hazelcast/hazelcast''"

definition HazelcastEERepo :: string where "HazelcastEERepo = ''docker.io/hazelcast/hazelcast-enterprise''"

text \<open>\<^verbatim>\<open>oldHz := &h\<close> is a pointer to the same variable, so a change by \<^verbatim>\<open>Default\<close> is never noticed.\<close>

definition mutate_HazelcastSpec :: "HazelcastSpec \<Rightarrow> HazelcastSpec \<times> bool" where
  "mutate_HazelcastSpec s =
     (let ee = HazelcastSpec_GetLicenseKeySecretName s \<noteq> [] \<and> hs_Repository s = HazelcastRepo
      in (Hazelcast_Default (if ee then s\<lparr> hs_Repository := HazelcastEERepo \<rparr> else s), ee))"

subsection \<open>Reconcile\<close>

type_synonym hz_result = "(Result \<times> go_error option) hz_proc"

definition hzRetryAfter :: int64 where
  "hzRetryAfter = 10000000000"

definition hzUpdate :: "hc_env \<Rightarrow> Hazelcast \<Rightarrow> ReconcilerOption \<Rightarrow> HzStatusApplier list \<Rightarrow> hz_result" where
  "hzUpdate env h opt as = bindA (hz_updateA (hc_hz env) h opt as) (\<lambda>(r, _). returnA r)"

definition hzFail :: "hc_env \<Rightarrow> Hazelcast \<Rightarrow> go_error \<Rightarrow> hz_result" where
  "hzFail env h e = hzUpdate env h (ro_error e) [withHzFailedPhase (error_text e)]"

definition stsApplier :: "hc_env \<Rightarrow> StatefulSet \<Rightarrow> HzStatusApplier" where
  "stsApplier env sts = withHzStatefulSet (sts_Replicas (sfs_Status sts)) (hc_Selector env (sfs_Selector sts))"

text \<open>Pending, with a message and the state of the members.\<close>

definition hzWait :: "hc_env \<Rightarrow> Hazelcast \<Rightarrow> HzStatusApplier list \<Rightarrow> HzStatusApplier \<Rightarrow> hz_result" where
  "hzWait env h msg sts = bindA (memberStatusesOf env h []) (\<lambda>ms.
     hzUpdate env h (ro_retryAfter hzRetryAfter) ([withHzPhase Pending] @ msg @ [ms, sts]))"

text \<open>The last part: the cluster runs and is connected.\<close>

definition hzSettled :: "hc_env \<Rightarrow> NamespacedName \<Rightarrow> Hazelcast \<Rightarrow> StatefulSet \<Rightarrow> hz_result" where
  "hzSettled env nn h sts =
     bindA (if hc_PhoneHome env \<and> \<not> IsSuccessfullyApplied (h_Meta h) then ignoreA (hz_callA env TriggerPhoneHomeHz) else returnA ()) (\<lambda>_.
     let h' = h\<lparr> h_Meta := InsertLastSuccessfullyAppliedSpec (hc_MarshalSpec env) (h_Spec h) (h_Meta h) \<rparr>
     in bindA (if h' = h then returnA () else ignoreA (hz_callA env (UpdateHz h'))) (\<lambda>_.
        bindA (clientConnectionMessage env nn) (\<lambda>msg.
        bindA (memberStatusesOf env h' []) (\<lambda>ms.
        hzUpdate env h' ro_empty [withHzPhase Running, withHzMessage msg, ms, stsApplier env sts]))))"

definition hzConnected :: "hc_env \<Rightarrow> NamespacedName \<Rightarrow> Hazelcast \<Rightarrow> StatefulSet \<Rightarrow> executors option \<Rightarrow> hz_result" where
  "hzConnected env nn h sts newExecutorServices = (case newExecutorServices of
     None \<Rightarrow> hzSettled env nn h sts
   | Some ex \<Rightarrow>
       bindA (observeA (\<lambda>t. Inr (hc_AllAccessible env t nn))) (\<lambda>accessible.
       if \<not> accessible then hzWait env h [withHzMessage ''Not all Hazelcast members are accessible!''] (stsApplier env sts)
       else bindA (addExecutorServices env nn ex) (\<lambda>_. hzSettled env nn h sts)))"

text \<open>The work with a client; a nil client is dereferenced.\<close>

definition hzWithClient :: "hc_env \<Rightarrow> NamespacedName \<Rightarrow> Hazelcast \<Rightarrow> StatefulSet \<Rightarrow> executors option \<Rightarrow> hz_result" where
  "hzWithClient env nn h sts newExecutorServices =
     catchA (observeA (\<lambda>t. hc_Enterprise env t nn)) (hzFail env h) (\<lambda>enterprise.
     if \<not> enterprise
     then catchA (hz_callA env (DeleteKube StatefulSetKind (object_key (KStatefulSet sts)))) (\<lambda>e. returnA (ResultZero, Some e)) (\<lambda>_.
          hzFail env h illegalClusterType)
     else catchA (ensureClusterActive env nn h) (\<lambda>_. hzWait env h [] (stsApplier env sts)) (\<lambda>_.
          bindA (observeA (\<lambda>t. Inr (hc_Connected env t nn))) (\<lambda>connected.
          if connected then hzConnected env nn h sts newExecutorServices
          else bindA (statusServiceRegistry_Delete (hc_hz env) nn) (\<lambda>_.
               catchA (clientRegistry_Delete (hc_hz env) nn) (\<lambda>e. hzWait env h [withHzMessage (error_text e)] (stsApplier env sts)) (\<lambda>_.
               hzWait env h [withHzMessage ''Client is not connected to the cluster!''] (stsApplier env sts))))))"

definition hzOnRunning :: "hc_env \<Rightarrow> NamespacedName \<Rightarrow> Hazelcast \<Rightarrow> StatefulSet \<Rightarrow> executors option \<Rightarrow> hz_result" where
  "hzOnRunning env nn h sts newExecutorServices =
     catchA (clientRegistry_GetOrCreate env nn) (\<lambda>e. hzWait env h [withHzMessage (error_text e)] (stsApplier env sts)) (\<lambda>cl.
     bindA (statusServiceRegistry_Create env nn) (\<lambda>_.
     if \<not> cl then throwA (ErrPanic ''nil client'') else hzWithClient env nn h sts newExecutorServices))"

text \<open>The wait for the members of the StatefulSet.\<close>

definition hzFailPods :: "hc_env \<Rightarrow> Hazelcast \<Rightarrow> go_error \<Rightarrow> PodError list \<Rightarrow> HzStatusApplier \<Rightarrow> hz_result" where
  "hzFailPods env h e podErrs sts = bindA (memberStatusesOf env h podErrs) (\<lambda>ms.
     hzUpdate env h (ro_error e) [withHzFailedPhase (error_text e), ms, sts])"

definition hzMembers :: "hc_env \<Rightarrow> NamespacedName \<Rightarrow> Hazelcast \<Rightarrow> executors option \<Rightarrow> hz_result" where
  "hzMembers env nn h newExecutorServices =
     catchA (observeA (\<lambda>t. hz_Get (hc_hz env) t StatefulSetKind nn))
       (\<lambda>e. if ErrIsNotFound e then hzWait env h [withHzMessage []] (withHzStatefulSet 0 (Some []))
            else hzFailPods env h e [] (withHzStatefulSet 0 (Some []))) (\<lambda>ob.
     case ob of
       KStatefulSet sts \<Rightarrow>
         bindA (orPanic (hs_ClusterSize (h_Spec h))) (\<lambda>size.
         bindA (CheckIfRunning env sts size) (\<lambda>(ok, err).
         if ok then hzOnRunning env nn h sts newExecutorServices
         else case err of
                None \<Rightarrow> hzWait env h [withHzMessage []] (stsApplier env sts)
              | Some (e, podErrs) \<Rightarrow> hzFailPods env h e podErrs (stsApplier env sts)))
     | _ \<Rightarrow> throwA (ErrPanic ''no StatefulSet''))"

text \<open>Configuration and StatefulSet.\<close>

definition hzPods :: "hc_env \<Rightarrow> NamespacedName \<Rightarrow> Hazelcast \<Rightarrow> executors option \<Rightarrow> hz_result" where
  "hzPods env nn h newExecutorServices =
     bindA (reconcileSecret env h) (\<lambda>(err, h1). case err of Some e \<Rightarrow> hzFail env h1 e | None \<Rightarrow>
     bindA (reconcileInitContainerConfig env h1) (\<lambda>(err, h2). case err of Some e \<Rightarrow> hzFail env h2 e | None \<Rightarrow>
     catchA (reconcileMTLSSecret env h2) (hzFail env h2) (\<lambda>_.
     bindA (reconcileStatefulset env h2) (\<lambda>(err, h3). case err of
       Some e \<Rightarrow> if ErrIsConflict e then returnA (ResultZero, None) else hzFail env h3 e
     | None \<Rightarrow> catchA (persistenceStartupAction env h3)
         (\<lambda>_. hzUpdate env h3 (ro_retryAfter hzRetryAfter) [withHzPhase Pending]) (\<lambda>_. hzMembers env nn h3 newExecutorServices)))))"

text \<open>The executor services that were added since the last successful reconciliation.\<close>

definition hzExecutors :: "hc_env \<Rightarrow> Hazelcast \<Rightarrow> go_error + executors option" where
  "hzExecutors env h = (case om_Annotations (h_Meta h) LastSuccessfulSpecAnnotation of
     None \<Rightarrow> Inr None
   | Some raw \<Rightarrow> (case unmarshalHazelcastSpec env h raw of Inl e \<Rightarrow> Inl e | Inr prev \<Rightarrow> Inr (Some (detectNewExecutorServices (h_Spec h) prev))))"

definition hzObjects :: "hc_env \<Rightarrow> Hazelcast \<Rightarrow> unit hz_proc" where
  "hzObjects env h =
     bindA (reconcileServiceAccount (hc_hz env) h) (\<lambda>_.
     bindA (reconcileRole (hc_hz env) h) (\<lambda>_.
     bindA (reconcileRoleBinding (hc_hz env) h) (\<lambda>_.
     bindA (if Kube_Objects.NodeDiscoveryEnabled (hc_hz env)
            then bindA (reconcileClusterRole (hc_hz env) h) (\<lambda>_. reconcileClusterRoleBinding (hc_hz env) h) else returnA ()) (\<lambda>_.
     bindA (reconcileService (hc_hz env) h) (\<lambda>_.
     bindA (reconcileWANServices (hc_hz env) h) (\<lambda>_.
     bindA (reconcileServicePerPod (hc_hz env) h) (\<lambda>_.
     bindA (reconcileHazelcastEndpoints (hc_hz env) h) (\<lambda>_.
     reconcileUnusedServicePerPod (hc_hz env) h))))))))"

definition hzReconcileCluster :: "hc_env \<Rightarrow> NamespacedName \<Rightarrow> Hazelcast \<Rightarrow> hz_result" where
  "hzReconcileCluster env nn h =
     catchA (hzObjects env h) (hzFail env h) (\<lambda>_.
     bindA (isServicePerPodReady (hc_hz env) h) (\<lambda>ready.
     if \<not> ready then hzUpdate env h (ro_retryAfter hzRetryAfter) [withHzPhase Pending]
     else case hzExecutors env h of Inl e \<Rightarrow> hzFail env h e | Inr newExecutorServices \<Rightarrow> hzPods env nn h newExecutorServices))"

definition isSpecChanged :: "hc_env \<Rightarrow> Hazelcast \<Rightarrow> bool" where
  "isSpecChanged env h = (om_Annotations (h_Meta h) LastAppliedSpecAnnotation \<noteq> Some (hc_MarshalSpec env (h_Spec h)))"

text \<open>The error of validation is printed behind a prefix.\<close>

definition hzReconcileSpec :: "hc_env \<Rightarrow> NamespacedName \<Rightarrow> Hazelcast \<Rightarrow> hz_result" where
  "hzReconcileSpec env nn h =
     (let (spec, mutated) = mutate_HazelcastSpec (h_Spec h); h' = h\<lparr> h_Spec := spec \<rparr>
      in catchA (if mutated then hz_callA env (UpdateHz h') else returnA ())
           (\<lambda>e. hzUpdate env h' (ro_error e) [withHzFailedPhase (''error mutating new Spec: '' @ error_text e)]) (\<lambda>_.
         catchA (validA (hc_ErrText env) (ValidateHazelcastSpec (hc_validation env) h'))
           (\<lambda>e. hzUpdate env h' (ro_error e) [withHzFailedPhase (''error validating Spec: '' @ error_text e)]) (\<lambda>_.
         hzReconcileCluster env nn h')))"

definition HazelcastZero :: Hazelcast where
  "HazelcastZero = \<lparr> h_Meta = ucn_Meta UserCodeNamespaceZero, h_Spec = \<lparr> hs_ClusterSize = None, hs_Repository = [], hs_Version = [],
     hs_ImagePullPolicy = [], hs_ImagePullSecrets = [], hs_DeprecatedLicenseKeySecret = [], hs_LicenseKeySecretName = [],
     hs_ExposeExternally = None, hs_ClusterName = [], hs_Scheduling = None, hs_Resources = None, hs_Persistence = None,
     hs_Agent = \<lparr> ag_Repository = [], ag_Version = [], ag_Resources = None \<rparr>, hs_JetEngineConfiguration = None,
     hs_DeprecatedUserCodeDeployment = None, hs_ExecutorServices = [], hs_DurableExecutorServices = [], hs_ScheduledExecutorServices = [],
     hs_Properties = Map.empty, hs_LoggingLevel = LoggingLevelUnset, hs_HighAvailabilityMode = HighAvailabilityUnset, hs_JVM = None,
     hs_NativeMemory = None, hs_AdvancedNetwork = None, hs_ManagementCenterConfig = None, hs_TLS = None, hs_Serialization = None,
     hs_CustomConfigCmName = [], hs_SQL = None, hs_LocalDevices = [], hs_Annotations = Map.empty, hs_Labels = Map.empty,
     hs_ServiceAccountName = [], hs_CPSubsystem = None, hs_UserCodeNamespaces = None, hs_Env = [] \<rparr>,
     h_Status = \<lparr> hst_ClusterSize = 0, hst_Selector = [], hst_Phase = PhaseUnset, hst_Cluster = \<lparr> hcs_ReadyMembers = [] \<rparr>,
       hst_Message = [], hst_Members = [], hst_Restore = RestoreStatusZero \<rparr> \<rparr>"

definition HazelcastReconciler_Reconcile :: "hc_env \<Rightarrow> NamespacedName \<Rightarrow> hz_result" where
  "HazelcastReconciler_Reconcile env nn =
     catchA (observeA (\<lambda>t. hz_GetHazelcast (hc_hz env) t nn))
       (\<lambda>e. if ErrIsNotFound e then returnA (ResultZero, None) else hzFail env HazelcastZero e) (\<lambda>h0.
     let m = h_Meta h0; add = \<not> ContainsFinalizer m Finalizer \<and> om_DeletionTimestamp m = None;
         h = (if add then h0\<lparr> h_Meta := AddFinalizer m Finalizer \<rparr> else h0)
     in catchA (if add then hz_callA env (UpdateHz h) else returnA ()) (hzFail env h) (\<lambda>_.
        if om_DeletionTimestamp m \<noteq> None then reconcileDeletion (hc_hz env) h
        else if \<not> isSpecChanged env h
        then if hst_Message (h_Status h) = error_text illegalClusterType then returnA (ResultZero, None) else hzReconcileSpec env nn h
        else let h1 = h\<lparr> h_Meta := InsertLastAppliedSpec (hc_MarshalSpec env) (h_Spec h) (h_Meta h) \<rparr>
             in catchA (if h1 = h then returnA () else hz_callA env (UpdateHz h1)) (hzFail env h1) (\<lambda>_. hzReconcileSpec env nn h1)))"

end
