(* ===== verification/Codec_Roundtrip.thy ===== *)
theory Codec_Roundtrip
  imports Config_Codecs
begin

text \<open>
  What is encoded can be read back. The locale \<open>client_frames\<close> states what the codecs rely on of the Go
  client; \<open>structured\<close> is the contract of the codec of a structure, which is proved once for lists and
  nullable values of structures and then for each structure in turn.
\<close>

subsection \<open>Bytes\<close>

lemma length_leBytes [simp]: "length (leBytes n v) = n"
  by (simp add: leBytes_def)

lemma bit_leValue:
  "bit (leValue bs :: 'a :: len word) i \<longleftrightarrow> i < LENGTH('a) \<and> i < 8 * length bs \<and> bit (bs ! (i div 8)) (i mod 8)"
proof (induction bs arbitrary: i)
  case (Cons b bs)
  show ?case
  proof (cases "i < 8")
    case True
    then show ?thesis by (auto simp: bit_or_iff bit_push_bit_iff bit_ucast_iff)
  next
    case False
    have "bit (b :: 8 word) i = False" using False bit_imp_le_length [of b i] by auto
    moreover have "i div 8 = Suc ((i - 8) div 8)" "i mod 8 = (i - 8) mod 8" using False by (simp_all add: div_if mod_if)
    ultimately show ?thesis using False Cons.IH [of "i - 8"]
      by (auto simp: bit_or_iff bit_push_bit_iff bit_ucast_iff)
  qed
qed simp

lemma leValue_leBytes: "LENGTH('a) = 8 * n \<Longrightarrow> leValue (leBytes n (v :: 'a :: len word)) = v"
proof (rule bit_word_eqI)
  fix i assume "LENGTH('a) = 8 * n" "i < LENGTH('a)"
  moreover from this have "leBytes n v ! (i div 8) = ucast (drop_bit (8 * (i div 8)) v)"
    by (simp add: leBytes_def less_mult_imp_div_less mult.commute)
  moreover have "8 * (i div 8) + i mod 8 = i" by simp
  ultimately show "bit (leValue (leBytes n v) :: 'a word) i = bit v i"
    by (simp add: bit_leValue bit_ucast_iff bit_drop_bit_eq)
qed

lemma string_bytes [simp]: "bytesString (stringBytes s) = s"
proof -
  have "char_of (unat (of_nat (of_char c) :: 8 word)) = c" for c
    by (simp add: unat_of_nat of_char_mod_256)
  then show ?thesis by (simp add: bytesString_def stringBytes_def o_def)
qed

text \<open>A buffer that is filled from its start; \<open>boolByte\<close> is the byte of a boolean.\<close>

definition filled :: "byte list \<Rightarrow> nat \<Rightarrow> byte list" where
  "filled bs n = bs @ replicate n 0"

definition boolByte :: "bool \<Rightarrow> byte list" where
  "boolByte v = [if v then 1 else 0]"

lemma putBytes_filled:
  "length pre = offset \<Longrightarrow> length bs \<le> n \<Longrightarrow> putBytes (filled pre n) offset bs = Some (filled (pre @ bs) (n - length bs))"
  by (auto simp: putBytes_def filled_def drop_replicate)

lemma encode_filled:
  "length pre = offset \<Longrightarrow> 4 \<le> n \<Longrightarrow> EncodeInt (filled pre n) offset i = Some (filled (pre @ leBytes 4 i) (n - 4))"
  "length pre = offset \<Longrightarrow> 8 \<le> n \<Longrightarrow> EncodeLong (filled pre n) offset l = Some (filled (pre @ leBytes 8 l) (n - 8))"
  "length pre = offset \<Longrightarrow> 1 \<le> n \<Longrightarrow> EncodeBoolean (filled pre n) offset b = Some (filled (pre @ boolByte b) (n - 1))"
  by (simp_all add: EncodeInt_def EncodeLong_def EncodeBoolean_def putBytes_filled boolByte_def)

lemma filled_full: "filled bs 0 = bs"
  by (simp add: filled_def)

lemma initialFrame_filled:
  "initialFrame api n ws = map_option (\<lambda>b. [fa_NewFrame api b]) (fold (\<lambda>w b. Option.bind b w) ws (Some (filled [] n)))"
  by (simp add: initialFrame_def filled_def)

lemma getBytes_skip: "length a \<le> offset \<Longrightarrow> getBytes (a @ b) offset n = getBytes b (offset - length a) n"
  by (auto simp: getBytes_def)

lemma getBytes_here: "n = length a \<Longrightarrow> getBytes (a @ b) 0 n = Some a" "n = length a \<Longrightarrow> getBytes a 0 n = Some a"
  by (simp_all add: getBytes_def)

lemma length_boolByte [simp]: "length (boolByte b) = 1"
  by (simp add: boolByte_def)

lemma hd_boolByte [simp]: "hd (boolByte b) = 1 \<longleftrightarrow> b"
  by (simp add: boolByte_def)

lemma word_bytes [simp]: "leValue (leBytes 4 i) = (i :: int32)" "leValue (leBytes 8 l) = (l :: int64)"
  by (simp_all add: leValue_leBytes)

subsection \<open>Decoding step by step\<close>

lemma bindD_liftD: "bindD (liftD (Some x)) k = k x"
  by (simp add: bindD_def liftD_def fun_eq_iff)

lemmas field_simps' = encode_filled filled_full initialFrame_filled getBytes_skip getBytes_here
  DecodeInt_def DecodeLong_def DecodeBoolean_def intAt_def longAt_def boolAt_def bindD_liftD


lemma bindD_Decoded: "d fs = Decoded x fs' \<Longrightarrow> bindD d k fs = k x fs'"
  by (simp add: bindD_def)

lemma decoder_simps [simp]:
  "returnD x fs = Decoded x fs" "bindD (returnD x) k = k x" "bindD NextD g (f # fs) = g f fs" "bindD skipD h (f # fs) = h () fs"
  "bindD PeekNextD p (f # fs) = p f (f # fs)"
  by (auto simp: returnD_def bindD_def NextD_def PeekNextD_def skipD_def fun_eq_iff)

lemma structD_simp [simp]: "structD k (b # f # fs) = k f fs"
  by (simp add: structD_def)

lemma bindD_assoc [simp]: "bindD (bindD d k) l = bindD d (\<lambda>x. bindD (k x) l)"
  by (auto simp: bindD_def fun_eq_iff split: decoded.split)

lemma addFrames_simps [simp]:
  "addFrames [] = Some []" "addFrames (Some fs # r) = map_option ((@) fs) (addFrames r)" "addFrames (None # r) = None"
  by (auto simp: addFrames_def option.map_comp o_def)

lemma frame_simps:
  "beginFrame api = Some [fa_BeginFrame api]" "endFrame api = Some [fa_EndFrame api]" "nullFrame api = Some [fa_NullFrame api]"
  by (simp_all add: beginFrame_def endFrame_def nullFrame_def)

text \<open>\<open>levels\<close>: the nesting depth after some frames, if no end frame comes too early.\<close>

fun levels :: "('f, 'x) frame_api_scheme \<Rightarrow> nat \<Rightarrow> 'f list \<Rightarrow> nat option" where
  "levels api n [] = Some n"
| "levels api n (f # fs) =
     (if fa_IsEndFrame api f then (case n of 0 \<Rightarrow> None | Suc m \<Rightarrow> levels api m fs)
      else if fa_IsBeginFrame api f then levels api (Suc n) fs else levels api n fs)"

definition balanced :: "('f, 'x) frame_api_scheme \<Rightarrow> 'f list \<Rightarrow> bool" where
  "balanced api fs \<longleftrightarrow> levels api 0 fs = Some 0"

lemma FastForward_levels:
  "levels api n xs = Some m \<Longrightarrow> FastForwardToEndFrame api (Suc n) (xs @ rest) = FastForwardToEndFrame api (Suc m) rest"
  by (induction api n xs rule: levels.induct) (auto split: if_splits nat.splits)

lemma balanced_Nil [simp]: "balanced api []"
  by (simp add: balanced_def)

subsection \<open>The contract\<close>

locale client_frames =
  fixes api :: "('f, 'x) frame_api_scheme"
  assumes content [simp]: "fa_Content api (fa_NewFrame api bs) = bs"
    and plain [simp]: "\<not> fa_IsNullFrame api (fa_NewFrame api bs)" "\<not> fa_IsBeginFrame api (fa_NewFrame api bs)" "\<not> fa_IsEndFrame api (fa_NewFrame api bs)"
    and null_frame [simp]: "fa_IsNullFrame api (fa_NullFrame api)" "\<not> fa_IsBeginFrame api (fa_NullFrame api)" "\<not> fa_IsEndFrame api (fa_NullFrame api)"
    and begin_frame [simp]: "fa_IsBeginFrame api (fa_BeginFrame api)" "\<not> fa_IsNullFrame api (fa_BeginFrame api)" "\<not> fa_IsEndFrame api (fa_BeginFrame api)"
    and end_frame [simp]: "fa_IsEndFrame api (fa_EndFrame api)" "\<not> fa_IsNullFrame api (fa_EndFrame api)"
    and sizes [simp]: "fa_BooleanSize api = 1" "fa_ByteSize api = 1" "fa_IntSize api = 4" "fa_LongSize api = 8"
    and ranges: "finite (dom m) \<Longrightarrow> map_of (fa_range api m) = m \<and> distinct (map fst (fa_range api m))"

text \<open>\<open>readsBack\<close>: a value is encoded in at least one frame, and decoding gives \<open>y\<close> and leaves the rest.
  \<open>structured\<close>: the same for a structure, also when a newer member adds fields before its end frame.\<close>

definition readsBack :: "('f, 'x) frame_api_scheme \<Rightarrow> 'f list go \<Rightarrow> ('f, 'b) decoder \<Rightarrow> 'b \<Rightarrow> bool" where
  "readsBack api enc dec y \<longleftrightarrow>
     (\<exists>f fs. enc = Some (f # fs) \<and> \<not> fa_IsEndFrame api f \<and> (\<forall>rest. dec (f # fs @ rest) = Decoded y rest))"

definition structured :: "('f, 'x) frame_api_scheme \<Rightarrow> 'f list go \<Rightarrow> ('f, 'b) decoder \<Rightarrow> 'b \<Rightarrow> bool" where
  "structured api enc dec y \<longleftrightarrow>
     (\<exists>body. enc = Some (fa_BeginFrame api # body @ [fa_EndFrame api]) \<and>
        (\<forall>extra rest. balanced api extra \<longrightarrow> dec (fa_BeginFrame api # body @ extra @ fa_EndFrame api # rest) = Decoded y rest))"

text \<open>\<open>bodyReads\<close>: the fields of a structure up to its end frame, and what is left of its decoder.\<close>

definition bodyReads :: "('f, 'x) frame_api_scheme \<Rightarrow> 'f list go list \<Rightarrow> ('f, 'b) decoder \<Rightarrow> 'b \<Rightarrow> bool" where
  "bodyReads api es dec y \<longleftrightarrow>
     (\<exists>body. addFrames es = Some (body @ [fa_EndFrame api]) \<and>
        (\<forall>extra rest. balanced api extra \<longrightarrow> dec (body @ extra @ fa_EndFrame api # rest) = Decoded y rest))"

lemma reads_field:
  assumes "readsBack api e d x" and "bodyReads api es (k x) y"
  shows "bodyReads api (e # es) (bindD d k) y"
proof -
  obtain f fs where fs: "e = Some (f # fs)" "\<And>rest. d (f # fs @ rest) = Decoded x rest"
    using assms(1) unfolding readsBack_def by blast
  obtain body where "addFrames es = Some (body @ [fa_EndFrame api])"
      "\<And>extra rest. balanced api extra \<Longrightarrow> k x (body @ extra @ fa_EndFrame api # rest) = Decoded y rest"
    using assms(2) unfolding bodyReads_def by blast
  with fs show ?thesis unfolding bodyReads_def by (intro exI [of _ "f # fs @ body"]) (simp add: bindD_Decoded)
qed

lemma reads_struct:
  assumes "bodyReads api es k y"
  shows "structured api (addFrames (beginFrame api # es)) (bindD skipD (\<lambda>_. k)) y"
  using assms by (auto simp: structured_def bodyReads_def frame_simps)

lemma reads_structD:
  assumes "e = Some [hd (the e)]" and "bodyReads api es (k (hd (the e))) y"
  shows "structured api (addFrames (beginFrame api # e # es)) (structD k) y"
proof -
  obtain f where e: "e = Some [f]" using assms(1) by auto
  with assms(2) obtain body where "addFrames es = Some (body @ [fa_EndFrame api])"
      "\<And>extra rest. balanced api extra \<Longrightarrow> k f (body @ extra @ fa_EndFrame api # rest) = Decoded y rest"
    unfolding bodyReads_def by auto
  with e show ?thesis unfolding structured_def by (intro exI [of _ "f # body"]) (simp add: frame_simps)
qed

text \<open>What an encoded value is read back as: blank strings come back empty, nil data as empty data.\<close>

definition blankToEmpty :: "string \<Rightarrow> string" where
  "blankToEmpty s = (if TrimSpace s = [] then [] else s)"

definition nilToEmpty :: "Data \<Rightarrow> Data" where
  "nilToEmpty d = Some (case d of None \<Rightarrow> [] | Some bs \<Rightarrow> bs)"

definition indexBack :: "IndexConfig_codec \<Rightarrow> IndexConfig_codec" where
  "indexBack ic = ic\<lparr> ixc_Name := blankToEmpty (ixc_Name ic) \<rparr>"

text \<open>A unit that is none of the known ones, the empty one included, becomes bytes.\<close>

definition capacityBack :: "Size_cfg \<Rightarrow> Size_cfg" where
  "capacityBack c = (if sz_Unit c \<in> {''KILOBYTES'', ''MEGABYTES'', ''GIGABYTES''} then c else c\<lparr> sz_Unit := ''BYTES'' \<rparr>)"

lemma unit_back: "DecodeUnit (EncodeUnit u) = (if u \<in> {''KILOBYTES'', ''MEGABYTES'', ''GIGABYTES''} then u else ''BYTES'')"
  by (simp add: DecodeUnit_def EncodeUnit_def)

definition memoryTierBack :: "MemoryTierConfig \<Rightarrow> MemoryTierConfig" where
  "memoryTierBack m = m\<lparr> mtc_Capacity := capacityBack (mtc_Capacity m) \<rparr>"

definition tieredStoreBack :: "TieredStoreConfig_codec \<Rightarrow> TieredStoreConfig_codec" where
  "tieredStoreBack t = t\<lparr> tsk_MemoryTierConfig := memoryTierBack (tsk_MemoryTierConfig t) \<rparr>"

definition evictionBack :: "EvictionConfigHolder \<Rightarrow> EvictionConfigHolder" where
  "evictionBack e = e\<lparr> ech_ComparatorClassName := blankToEmpty (ech_ComparatorClassName e), ech_Comparator := nilToEmpty (ech_Comparator e) \<rparr>"

definition listenerBack :: "ListenerConfigHolder \<Rightarrow> ListenerConfigHolder" where
  "listenerBack l = l\<lparr> lch_ListenerImplementation := nilToEmpty (lch_ListenerImplementation l), lch_ClassName := blankToEmpty (lch_ClassName l) \<rparr>"

definition mapStoreBack :: "MapStoreConfigHolder \<Rightarrow> MapStoreConfigHolder" where
  "mapStoreBack m = m\<lparr> msh_ClassName := blankToEmpty (msh_ClassName m), msh_Implementation := nilToEmpty (msh_Implementation m),
     msh_FactoryClassName := blankToEmpty (msh_FactoryClassName m), msh_FactoryImplementation := nilToEmpty (msh_FactoryImplementation m) \<rparr>"

definition nearCacheBack :: "NearCacheConfigHolder \<Rightarrow> NearCacheConfigHolder" where
  "nearCacheBack n = n\<lparr> nch_EvictionConfigHolder := evictionBack (nch_EvictionConfigHolder n) \<rparr>"

definition predicateBack :: "PredicateConfigHolder \<Rightarrow> PredicateConfigHolder" where
  "predicateBack p = p\<lparr> pch_ClassName := blankToEmpty (pch_ClassName p), pch_Sql := blankToEmpty (pch_Sql p),
     pch_Implementation := nilToEmpty (pch_Implementation p) \<rparr>"

definition listBack :: "('a \<Rightarrow> 'a) \<Rightarrow> 'a list option \<Rightarrow> 'a list option" where
  "listBack g v = (case v of None \<Rightarrow> None | Some xs \<Rightarrow> nilIfEmpty (map g xs))"

definition queryCacheBack :: "QueryCacheConfigHolder \<Rightarrow> QueryCacheConfigHolder" where
  "queryCacheBack q = q\<lparr> qch_PredicateConfigHolder := predicateBack (qch_PredicateConfigHolder q),
     qch_EvictionConfigHolder := evictionBack (qch_EvictionConfigHolder q), qch_ListenerConfigs := listBack listenerBack (qch_ListenerConfigs q),
     qch_IndexConfigs := listBack indexBack (qch_IndexConfigs q) \<rparr>"

context client_frames
begin

lemma finish: "x = y \<Longrightarrow> bodyReads api [endFrame api] (finishD api x) y"
proof -
  have "finishD api x (extra @ fa_EndFrame api # rest) = Decoded x rest" if "balanced api extra" for extra rest
    using FastForward_levels [of api 0 extra 0] that by (simp add: finishD_def bindD_def balanced_def)
  then show "x = y \<Longrightarrow> ?thesis" by (simp add: bodyReads_def frame_simps)
qed

lemma structured_reads: "structured api enc dec y \<Longrightarrow> readsBack api enc dec y"
  unfolding structured_def readsBack_def
  by (metis (no_types, lifting) append.assoc append_Cons append_Nil balanced_Nil begin_frame(3))

lemma nullOr_null: "nullOr api z dec (fa_NullFrame api # rest) = Decoded z rest"
  by (simp add: nullOr_def NextFrameIsNullFrame_def)

lemma nullOr_other: "\<not> fa_IsNullFrame api f \<Longrightarrow> nullOr api z dec (f # fs) = dec (f # fs)"
  by (simp add: nullOr_def NextFrameIsNullFrame_def)

lemma structured_nullOr:
  assumes "structured api enc dec y"
  shows "readsBack api (if b then nullFrame api else enc) (nullOr api z dec) (if b then z else y)"
proof (cases b)
  case True
  then show ?thesis by (simp add: readsBack_def nullOr_null frame_simps)
next
  case False
  with structured_reads [OF assms] assms show ?thesis
    by (auto simp: readsBack_def structured_def nullOr_other)
qed

lemma string_back: "readsBack api (EncodeString api s) (DecodeString api) s"
  by (simp add: readsBack_def EncodeString_def DecodeString_def)

lemma nullable_string_back: "readsBack api (EncodeNullableForString api s) (DecodeNullableForString api) (blankToEmpty s)"
  by (simp add: readsBack_def EncodeNullableForString_def DecodeNullableForString_def blankToEmpty_def EncodeString_def
      DecodeString_def nullOr_null nullOr_other frame_simps)

lemma data_back: "readsBack api (EncodeData api d) (DecodeData api) (nilToEmpty d)"
  by (simp add: readsBack_def EncodeData_def DecodeData_def nilToEmpty_def)

lemma nullable_data_back: "readsBack api (EncodeNullableForData api d) (DecodeNullableForData api) (nilToEmpty d)"
  by (cases d) (simp_all add: readsBack_def EncodeNullableForData_def DecodeNullableForData_def EncodeData_def DecodeData_def
      nilToEmpty_def nullOr_null nullOr_other frame_simps)

lemma untilEnd_items:
  assumes "\<And>x. x \<in> set xs \<Longrightarrow> readsBack api (enc x) dec (g x)"
  shows "\<exists>fs. addFrames (map enc xs) = Some fs \<and> (\<forall>rest. untilEnd api dec (fs @ fa_EndFrame api # rest) = Decoded (map g xs) (fa_EndFrame api # rest))"
  using assms
proof (induction xs)
  case Nil
  show ?case by (simp add: untilEnd.simps)
next
  case (Cons x xs)
  have "readsBack api (enc x) dec (g x)" using Cons.prems by simp
  then obtain f fs where x: "enc x = Some (f # fs)" "\<not> fa_IsEndFrame api f" "\<And>rest. dec (f # fs @ rest) = Decoded (g x) rest"
    unfolding readsBack_def by blast
  from Cons obtain gs where "addFrames (map enc xs) = Some gs"
      "\<And>rest. untilEnd api dec (gs @ fa_EndFrame api # rest) = Decoded (map g xs) (fa_EndFrame api # rest)"
    using Cons.IH [OF Cons.prems] by auto
  with x show ?case by (auto simp: untilEnd.simps [of _ _ "f # _"])
qed

lemma addFrames_append: "addFrames (es @ es') = Option.bind (addFrames es) (\<lambda>fs. map_option ((@) fs) (addFrames es'))"
proof (induction es)
  case (Cons e es)
  then show ?case by (cases e; cases "addFrames es"; cases "addFrames es'") (auto simp: option.map_comp o_def)
qed (cases "addFrames es'", simp_all)

lemma list_back:
  assumes "\<And>x. x \<in> set xs \<Longrightarrow> readsBack api (enc x) dec (g x)"
  shows "readsBack api (encodeList api enc xs) (DecodeListMultiFrame api dec) (map g xs)"
proof -
  obtain fs where fs: "addFrames (map enc xs) = Some fs"
      "\<And>rest. untilEnd api dec (fs @ fa_EndFrame api # rest) = Decoded (map g xs) (fa_EndFrame api # rest)"
    using untilEnd_items [of xs enc dec g] assms by blast
  have "DecodeListMultiFrame api dec (fa_BeginFrame api # fs @ fa_EndFrame api # rest) = Decoded (map g xs) rest" for rest
    using fs(2) [of rest] by (simp add: DecodeListMultiFrame_def bindD_Decoded)
  with fs(1) show ?thesis by (simp add: readsBack_def encodeList_def addFrames_append frame_simps)
qed

lemma nullable_list_back:
  assumes "\<And>x. readsBack api (enc x) dec (g x)"
  shows "readsBack api (encodeNullableList api enc v) (nullOr api None (bindD (DecodeListMultiFrame api dec) (\<lambda>xs. returnD (h xs))))
    (case v of None \<Rightarrow> None | Some xs \<Rightarrow> h (map g xs))"
proof (cases v)
  case None
  then show ?thesis by (simp add: encodeNullableList_def readsBack_def nullOr_null frame_simps)
next
  case (Some xs)
  obtain fs where fs: "encodeList api enc xs = Some (fa_BeginFrame api # fs)"
    using untilEnd_items [of xs enc dec g] assms by (auto simp: encodeList_def addFrames_append frame_simps)
  with list_back [of xs enc dec g] assms have "DecodeListMultiFrame api dec (fa_BeginFrame api # fs @ rest) = Decoded (map g xs) rest" for rest
    by (simp add: readsBack_def)
  with Some fs show ?thesis by (simp add: encodeNullableList_def readsBack_def nullOr_other bindD_Decoded)
qed

lemma addFrames_concat: "addFrames (concat (map F ps)) = addFrames (map (\<lambda>p. addFrames (F p)) ps)"
proof (induction ps)
  case (Cons p ps)
  then show ?case by (cases "addFrames (F p)") (simp_all add: addFrames_append)
qed simp

lemma entry_back: "readsBack api (case p of (k, v) \<Rightarrow> addFrames [EncodeString api k, EncodeString api v]) (decodeEntry api) p"
  by (cases p) (simp add: readsBack_def EncodeString_def decodeEntry_def DecodeString_def)

lemma map_back:
  assumes "finite (dom m)"
  shows "readsBack api (EncodeMapForStringAndString api m) (DecodeMapForStringAndString api) m"
proof -
  have enc: "EncodeMapForStringAndString api m =
      encodeList api (\<lambda>(k, v). addFrames [EncodeString api k, EncodeString api v]) (fa_range api m)"
    unfolding EncodeMapForStringAndString_def encodeList_def addFrames_append addFrames_concat by (simp add: split_def)
  have "map_of (rev (fa_range api m)) = map_of (fa_range api m)"
    using ranges [OF assms] by (subst map_of_inject_set) (simp_all add: rev_map [symmetric])
  then have "map_of (rev (fa_range api m)) = m" using ranges [OF assms] by simp
  moreover have "readsBack api (encodeList api (\<lambda>(k, v). addFrames [EncodeString api k, EncodeString api v]) (fa_range api m))
      (DecodeListMultiFrame api (decodeEntry api)) (fa_range api m)"
    using list_back [of "fa_range api m" "\<lambda>(k, v). addFrames [EncodeString api k, EncodeString api v]" "decodeEntry api" "\<lambda>p. p"] entry_back
    by simp
  ultimately show ?thesis
    unfolding enc by (auto simp: readsBack_def DecodeMapForStringAndString_def bindD_Decoded)
qed

lemma nullable_map_back:
  assumes "\<And>m'. m = Some m' \<Longrightarrow> finite (dom m')"
  shows "readsBack api (EncodeNullableMapForStringAndString api m) (DecodeNullableMapForStringAndString api) m"
proof (cases m)
  case None
  then show ?thesis by (simp add: readsBack_def EncodeNullableMapForStringAndString_def DecodeNullableMapForStringAndString_def nullOr_null frame_simps)
next
  case (Some m')
  obtain f fs where enc: "EncodeMapForStringAndString api m' = Some (f # fs)" and dec: "\<And>rest. DecodeMapForStringAndString api (f # fs @ rest) = Decoded m' rest"
    using map_back [of m'] assms Some unfolding readsBack_def by blast
  have "f = fa_BeginFrame api" using enc by (auto simp: EncodeMapForStringAndString_def addFrames_append frame_simps split: bind_splits)
  with Some enc dec show ?thesis
    by (simp add: readsBack_def EncodeNullableMapForStringAndString_def DecodeNullableMapForStringAndString_def nullOr_other bindD_Decoded)
qed

lemma strings_back: "readsBack api (EncodeListMultiFrameForString api xs) (DecodeListMultiFrameForString api) xs"
  using list_back [of xs "EncodeString api" "DecodeString api" id] string_back
  by (simp add: EncodeListMultiFrameForString_def DecodeListMultiFrameForString_def)

lemma nullable_strings_back:
  "readsBack api (EncodeNullableListMultiFrameForString api v) (DecodeNullableListMultiFrameForString api) v"
  using nullable_list_back [of "EncodeString api" "DecodeString api" id v Some] string_back
  by (cases v) (simp_all add: EncodeNullableListMultiFrameForString_def DecodeNullableListMultiFrameForString_def DecodeListMultiFrameForString_def)

lemmas reads = reads_field string_back nullable_string_back data_back nullable_data_back strings_back nullable_strings_back finish

text \<open>The structures, those they are made of first.\<close>

lemma AttributeConfig_back: "structured api (EncodeAttributeConfig api a) (DecodeAttributeConfig api) a"
  unfolding EncodeAttributeConfig_def DecodeAttributeConfig_def by (rule reads_struct, (rule reads)+) simp

lemma BitmapIndexOptions_back: "structured api (EncodeBitmapIndexOptions api b) (DecodeBitmapIndexOptions api) b"
  unfolding EncodeBitmapIndexOptions_def DecodeBitmapIndexOptions_def
  by (rule reads_structD, simp add: field_simps', simp add: field_simps', (rule reads)+) simp

lemma nullable_back:
  assumes "structured api (enc x) dec (g x)" and "z = g z"
  shows "readsBack api (if x = z then nullFrame api else enc x) (nullOr api z dec) (g x)"
  using structured_nullOr [OF assms(1), of "x = z" z] assms(2) by (auto split: if_splits)

lemma NullableBitmapIndexOptions_back:
  "readsBack api (EncodeNullableForBitmapIndexOptions api b) (DecodeNullableForBitmapIndexOptions api) b"
  unfolding EncodeNullableForBitmapIndexOptions_def DecodeNullableForBitmapIndexOptions_def
  by (rule nullable_back [where g = "\<lambda>x. x"]) (simp_all add: BitmapIndexOptions_back)

lemma IndexConfig_back: "structured api (EncodeIndexConfig api ic) (DecodeIndexConfig api) (indexBack ic)"
  unfolding EncodeIndexConfig_def DecodeIndexConfig_def
  by (rule reads_structD, simp add: field_simps', simp add: field_simps', (rule reads NullableBitmapIndexOptions_back)+) (simp add: indexBack_def)

lemma indexes_back:
  "readsBack api (EncodeNullableListMultiFrameForIndexConfig api v) (DecodeNullableListMultiFrameForIndexConfig api) (listBack indexBack v)"
  unfolding EncodeNullableListMultiFrameForIndexConfig_def DecodeNullableListMultiFrameForIndexConfig_def listBack_def
  by (rule nullable_list_back) (rule structured_reads, rule IndexConfig_back)

lemma EventJournalConfig_back: "structured api (EncodeEventJournalConfig api e) (DecodeEventJournalConfig api) e"
  unfolding EncodeEventJournalConfig_def DecodeEventJournalConfig_def
  by (rule reads_structD, simp add: field_simps', simp add: field_simps', (rule reads)+) simp

lemma HotRestartConfig_back: "structured api (EncodeHotRestartConfig api h) (DecodeHotRestartConfig api) h"
  unfolding EncodeHotRestartConfig_def DecodeHotRestartConfig_def twoBooleans_def
  by (rule reads_structD, simp add: field_simps', simp add: field_simps', (rule reads)+) simp

lemma DataPersistenceConfig_back: "structured api (EncodeDataPersistenceConfig api d) (DecodeDataPersistenceConfig api) d"
  unfolding EncodeDataPersistenceConfig_def DecodeDataPersistenceConfig_def twoBooleans_def
  by (rule reads_structD, simp add: field_simps', simp add: field_simps', (rule reads)+) simp

lemma MerkleTreeConfig_back: "structured api (EncodeMerkleTreeConfig api m) (DecodeMerkleTreeConfig api) m"
  unfolding EncodeMerkleTreeConfig_def DecodeMerkleTreeConfig_def
  by (rule reads_structD, simp add: field_simps', simp add: field_simps', (rule reads)+) simp

lemma DiskTierConfig_back: "structured api (EncodeDiskTierConfig api d) (DecodeDiskTierConfig api) d"
  unfolding EncodeDiskTierConfig_def DecodeDiskTierConfig_def
  by (rule reads_structD, simp add: field_simps', simp add: field_simps', (rule reads)+) simp

lemma Capacity_back: "structured api (EncodeCapacity api c) (DecodeCapacity api) (capacityBack c)"
  unfolding EncodeCapacity_def DecodeCapacity_def
  by (rule reads_structD, simp add: field_simps', simp add: field_simps', (rule reads)+) (simp add: capacityBack_def unit_back)

lemma MemoryTierConfig_back: "structured api (EncodeMemoryTierConfig api m) (DecodeMemoryTierConfig api) (memoryTierBack m)"
  unfolding EncodeMemoryTierConfig_def DecodeMemoryTierConfig_def
  by (rule reads_struct, (rule reads structured_reads [OF Capacity_back])+) (simp add: memoryTierBack_def)

lemma TieredStoreConfig_back: "structured api (EncodeTieredStoreConfig api t) (DecodeTieredStoreConfig api) (tieredStoreBack t)"
  unfolding EncodeTieredStoreConfig_def DecodeTieredStoreConfig_def
  by (rule reads_structD, simp add: field_simps', simp add: field_simps',
      (rule reads structured_reads [OF MemoryTierConfig_back] structured_reads [OF DiskTierConfig_back])+) (simp add: tieredStoreBack_def)

lemma DurationConfig_back: "structured api (EncodeDurationConfig api d) (DecodeDurationConfig api) d"
  unfolding EncodeDurationConfig_def DecodeDurationConfig_def
  by (rule reads_structD, simp add: field_simps', simp add: field_simps', (rule reads)+) simp

lemma TimedExpiryPolicyFactoryConfig_back:
  "structured api (EncodeTimedExpiryPolicyFactoryConfig api t) (DecodeTimedExpiryPolicyFactoryConfig api) t"
  unfolding EncodeTimedExpiryPolicyFactoryConfig_def DecodeTimedExpiryPolicyFactoryConfig_def
  by (rule reads_structD, simp add: field_simps', simp add: field_simps', (rule reads structured_reads [OF DurationConfig_back])+) simp

lemma EvictionConfigHolder_back: "structured api (EncodeEvictionConfigHolder api e) (DecodeEvictionConfigHolder api) (evictionBack e)"
  unfolding EncodeEvictionConfigHolder_def DecodeEvictionConfigHolder_def
  by (rule reads_structD, simp add: field_simps', simp add: field_simps', (rule reads)+) (simp add: evictionBack_def)

lemma ListenerConfigHolder_back: "structured api (EncodeListenerConfigHolder api l) (DecodeListenerConfigHolder api) (listenerBack l)"
  unfolding EncodeListenerConfigHolder_def DecodeListenerConfigHolder_def
  by (rule reads_structD, simp add: field_simps', simp add: field_simps', (rule reads)+) (simp add: listenerBack_def)

lemma listeners_back:
  "readsBack api (EncodeNullableListMultiFrameForListenerConfigHolder api v) (DecodeNullableListMultiFrameForListenerConfigHolder api)
     (listBack listenerBack v)"
  unfolding EncodeNullableListMultiFrameForListenerConfigHolder_def DecodeNullableListMultiFrameForListenerConfigHolder_def listBack_def
  by (rule nullable_list_back) (rule structured_reads, rule ListenerConfigHolder_back)

lemma MapStoreConfigHolder_back:
  assumes "\<And>props. msh_Properties m = Some props \<Longrightarrow> finite (dom props)"
  shows "structured api (EncodeMapStoreConfigHolder api m) (DecodeMapStoreConfigHolder api) (mapStoreBack m)"
proof -
  have props: "readsBack api (EncodeNullableMapForStringAndString api (msh_Properties m)) (DecodeNullableMapForStringAndString api) (msh_Properties m)"
    using assms by (rule nullable_map_back)
  show ?thesis unfolding EncodeMapStoreConfigHolder_def DecodeMapStoreConfigHolder_def
    by (rule reads_structD, simp add: field_simps', simp add: field_simps', (rule reads props)+) (simp add: mapStoreBack_def)
qed

lemma NearCachePreloaderConfig_back: "structured api (EncodeNearCachePreloaderConfig api p) (DecodeNearCachePreloaderConfig api) p"
  unfolding EncodeNearCachePreloaderConfig_def DecodeNearCachePreloaderConfig_def
  by (rule reads_structD, simp add: field_simps', simp add: field_simps', (rule reads)+) simp

lemma NullableNearCachePreloaderConfig_back:
  "readsBack api (EncodeNullableForNearCachePreloaderConfig api p) (DecodeNullableForNearCachePreloaderConfig api) p"
  unfolding EncodeNullableForNearCachePreloaderConfig_def DecodeNullableForNearCachePreloaderConfig_def
  by (rule nullable_back [where g = "\<lambda>x. x"]) (simp_all add: NearCachePreloaderConfig_back)

lemma NearCacheConfigHolder_back: "structured api (EncodeNearCacheConfigHolder api n) (DecodeNearCacheConfigHolder api) (nearCacheBack n)"
  unfolding EncodeNearCacheConfigHolder_def DecodeNearCacheConfigHolder_def
  by (rule reads_structD, simp add: field_simps', simp add: field_simps',
      (rule reads structured_reads [OF EvictionConfigHolder_back] NullableNearCachePreloaderConfig_back)+) (simp add: nearCacheBack_def)

lemma WanReplicationRef_back: "structured api (EncodeWanReplicationRef api r) (DecodeWanReplicationRef api) r"
  unfolding EncodeWanReplicationRef_def DecodeWanReplicationRef_def
  by (rule reads_structD, simp add: field_simps', simp add: field_simps', (rule reads)+) simp

lemma PredicateConfigHolder_back: "structured api (EncodePredicateConfigHolder api p) (DecodePredicateConfigHolder api) (predicateBack p)"
  unfolding EncodePredicateConfigHolder_def DecodePredicateConfigHolder_def
  by (rule reads_struct, (rule reads)+) (simp add: predicateBack_def)

lemma QueryCacheConfigHolder_back: "structured api (EncodeQueryCacheConfigHolder api q) (DecodeQueryCacheConfigHolder api) (queryCacheBack q)"
  unfolding EncodeQueryCacheConfigHolder_def DecodeQueryCacheConfigHolder_def Let_def
  by (rule reads_structD, simp add: field_simps', simp add: field_simps',
      (rule reads structured_reads [OF PredicateConfigHolder_back] structured_reads [OF EvictionConfigHolder_back] listeners_back indexes_back)+)
    (simp add: queryCacheBack_def)

end

end
