(* ===== verification/Protocol_Safety.thy ===== *)
theory Protocol_Safety
  imports Codec_Roundtrip Data_Codecs "HOL-Library.List_Lexorder" "HOL-Library.Char_ord"
begin

text \<open>
  The client protocol as a whole: which structures can be read back, and up to what; that no request
  writes past the buffer it allocates; and what the list decoders with the inverted loop return. The
  laws of the Go client are shown to hold of frames as a pair of flags and content.
\<close>

subsection \<open>Frames as flags and content\<close>

record frame =
  fr_flags :: "16 word"
  fr_content :: "byte list"

definition plainFrames :: "frame frame_api" where
  "plainFrames =
     \<lparr> fa_NewFrame = (\<lambda>bs. \<lparr> fr_flags = 0, fr_content = bs \<rparr>),
       fa_NullFrame = \<lparr> fr_flags = 1024, fr_content = [] \<rparr>,
       fa_BeginFrame = \<lparr> fr_flags = 4096, fr_content = [] \<rparr>,
       fa_EndFrame = \<lparr> fr_flags = 2048, fr_content = [] \<rparr>,
       fa_Content = fr_content,
       fa_IsNullFrame = (\<lambda>f. fr_flags f = 1024), fa_IsBeginFrame = (\<lambda>f. fr_flags f = 4096), fa_IsEndFrame = (\<lambda>f. fr_flags f = 2048),
       fa_BooleanSize = 1, fa_ByteSize = 1, fa_IntSize = 4, fa_LongSize = 8,
       fa_range = (\<lambda>m. map (\<lambda>k. (k, the (m k))) (sorted_list_of_set (dom m))) \<rparr>"

lemma map_of_range: "finite (dom m) \<Longrightarrow> map_of (map (\<lambda>k. (k, the (m k))) (sorted_list_of_set (dom m :: string set))) = m"
  by (rule ext) (auto simp: map_of_map_restrict restrict_map_def domIff)

interpretation plain: client_frames plainFrames
  by unfold_locales (simp_all add: plainFrames_def map_of_range o_def)

subsection \<open>Structures\<close>

text \<open>What an event is read back as: its data are those of its JSON text.\<close>

definition eventBack :: "(string \<Rightarrow> (string \<rightharpoonup> 'j jsonValue) option) \<Rightarrow> 'j MCEvent \<Rightarrow> 'j MCEvent" where
  "eventBack unmarshal e = e\<lparr> mce_Data := unmarshal (mce_DataJson e) \<rparr>"

context client_frames
begin

lemma MergePolicyConfig_back: "structured api (EncodeMergePolicyConfig api m) (DecodeMergePolicyConfig api) m"
  unfolding EncodeMergePolicyConfig_def DecodeMergePolicyConfig_def
  by (rule reads_structD, simp add: field_simps', simp add: field_simps', (rule reads)+) simp

lemma RaftGroupId_back: "structured api (EncodeRaftGroupId api g) (DecodeRaftGroupId api) g"
  unfolding EncodeRaftGroupId_def DecodeRaftGroupId_def
  by (rule reads_structD, simp add: field_simps', simp add: field_simps', (rule reads)+) simp

lemma MCEvent_back: "structured api (EncodeMCEvent api e) (DecodeMCEvent api unmarshal) (eventBack unmarshal e)"
  unfolding EncodeMCEvent_def DecodeMCEvent_def
  by (rule reads_structD, simp add: field_simps', simp add: field_simps', (rule reads)+) (simp add: eventBack_def NewMCEvent_def)

end

text \<open>C39: the seventeen structures below (index, attribute, eviction, listener, map store, near cache, WAN
  reference, query cache, event journal, hot restart, Merkle tree, data persistence, tiered store,
  timed expiry policy, merge policy, CP group, event), with those nested in them, are read back by
  their decoders, also when the structure has further frames that the decoder does not know before
  its end frame, and nothing after it is consumed. Equal is what \<open>indexBack\<close> and the other functions
  named in the statement leave: a blank optional string is read as the empty one, nil data as
  empty data, an empty list of listeners or indexes of a query cache as nil, a unit of a capacity that
  is not KILOBYTES, MEGABYTES or GIGABYTES as BYTES, and the data of an event are those of its JSON
  text. The configuration of a cache is not among them.\<close>

theorem structures_read_back:
  assumes "client_frames api"
  shows "structured api (EncodeIndexConfig api ix) (DecodeIndexConfig api) (indexBack ix)
    \<and> structured api (EncodeAttributeConfig api at) (DecodeAttributeConfig api) at
    \<and> structured api (EncodeEvictionConfigHolder api ev) (DecodeEvictionConfigHolder api) (evictionBack ev)
    \<and> structured api (EncodeListenerConfigHolder api li) (DecodeListenerConfigHolder api) (listenerBack li)
    \<and> ((\<forall>props. msh_Properties ms = Some props \<longrightarrow> finite (dom props)) \<longrightarrow>
        structured api (EncodeMapStoreConfigHolder api ms) (DecodeMapStoreConfigHolder api) (mapStoreBack ms))
    \<and> structured api (EncodeNearCacheConfigHolder api nc) (DecodeNearCacheConfigHolder api) (nearCacheBack nc)
    \<and> structured api (EncodeWanReplicationRef api wr) (DecodeWanReplicationRef api) wr
    \<and> structured api (EncodeQueryCacheConfigHolder api qc) (DecodeQueryCacheConfigHolder api) (queryCacheBack qc)
    \<and> structured api (EncodeEventJournalConfig api ej) (DecodeEventJournalConfig api) ej
    \<and> structured api (EncodeHotRestartConfig api hr) (DecodeHotRestartConfig api) hr
    \<and> structured api (EncodeMerkleTreeConfig api mt) (DecodeMerkleTreeConfig api) mt
    \<and> structured api (EncodeDataPersistenceConfig api dp) (DecodeDataPersistenceConfig api) dp
    \<and> structured api (EncodeTieredStoreConfig api ts) (DecodeTieredStoreConfig api) (tieredStoreBack ts)
    \<and> structured api (EncodeTimedExpiryPolicyFactoryConfig api te) (DecodeTimedExpiryPolicyFactoryConfig api) te
    \<and> structured api (EncodeMergePolicyConfig api mp) (DecodeMergePolicyConfig api) mp
    \<and> structured api (EncodeRaftGroupId api rg) (DecodeRaftGroupId api) rg
    \<and> structured api (EncodeMCEvent api e) (DecodeMCEvent api unmarshal) (eventBack unmarshal e)"
  using assms by (simp add: client_frames.IndexConfig_back client_frames.AttributeConfig_back client_frames.EvictionConfigHolder_back
      client_frames.ListenerConfigHolder_back client_frames.MapStoreConfigHolder_back client_frames.NearCacheConfigHolder_back
      client_frames.WanReplicationRef_back client_frames.QueryCacheConfigHolder_back client_frames.EventJournalConfig_back
      client_frames.HotRestartConfig_back client_frames.MerkleTreeConfig_back client_frames.DataPersistenceConfig_back
      client_frames.TieredStoreConfig_back client_frames.TimedExpiryPolicyFactoryConfig_back
      client_frames.MergePolicyConfig_back client_frames.RaftGroupId_back client_frames.MCEvent_back)

definition sampleRef :: WanReplicationRef where
  "sampleRef = \<lparr> wref_Name = ''wan'', wref_MergePolicyClassName = ''PassThroughMergePolicy'', wref_Filters = Some [''f''],
     wref_RepublishingEnabled = True \<rparr>"

theorem structures_read_back_witness:
  "\<exists>fs. EncodeWanReplicationRef plainFrames sampleRef = Some fs \<and> DecodeWanReplicationRef plainFrames fs = Decoded sampleRef []"
proof -
  have "structured plainFrames (EncodeWanReplicationRef plainFrames sampleRef) (DecodeWanReplicationRef plainFrames) sampleRef"
    using structures_read_back [OF plain.client_frames_axioms, of _ _ _ _ _ _ sampleRef] by blast
  then show ?thesis unfolding structured_def
    by (elim exE conjE) (auto dest!: spec [of _ "[]"] intro!: exI)
qed

subsection \<open>The inverted loop\<close>

text \<open>The keys and values of the entries are data.\<close>

definition holdsData :: "goAny \<Rightarrow> bool" where
  "holdsData v \<longleftrightarrow> v \<noteq> OtherValue"

definition holdData :: "(goAny \<times> goAny) list \<Rightarrow> bool" where
  "holdData es \<longleftrightarrow> (\<forall>(k, v) \<in> set es. holdsData k \<and> holdsData v)"

lemma addFrames_defined: "addFrames es \<noteq> None \<longleftrightarrow> list_all (\<lambda>e. e \<noteq> None) es"
  by (induction es) (auto simp: addFrames_def split: option.split)

lemma EncodeAny_iff: "EncodeAny api v \<noteq> None \<longleftrightarrow> holdsData v"
  by (cases v) (simp_all add: EncodeAny_def EncodeData_def holdsData_def)

context client_frames
begin

lemma entries_frames:
  assumes "holdData es"
  shows "\<exists>fs. EncodeEntryListForDataAndData api es = Some (fa_BeginFrame api # fs @ [fa_EndFrame api]) \<and> length fs = 2 * length es
     \<and> (es \<noteq> [] \<longrightarrow> \<not> fa_IsEndFrame api (hd fs))"
proof -
  have "\<exists>fs. addFrames (map (\<lambda>(k, v). addFrames [EncodeAny api k, EncodeAny api v]) es) = Some fs \<and> length fs = 2 * length es
     \<and> (es \<noteq> [] \<longrightarrow> \<not> fa_IsEndFrame api (hd fs))" using assms
    by (induction es) (auto simp: EncodeAny_def EncodeData_def holdData_def holdsData_def split: option.split goAny.splits)
  then show ?thesis by (auto simp: EncodeEntryListForDataAndData_def encodeList_def addFrames_append frame_simps)
qed

lemma entries_hold: "EncodeEntryListForDataAndData api es = Some fs \<Longrightarrow> holdData es"
proof -
  assume "EncodeEntryListForDataAndData api es = Some fs"
  then have "addFrames ([beginFrame api] @ map (\<lambda>(k, v). addFrames [EncodeAny api k, EncodeAny api v]) es @ [endFrame api]) \<noteq> None"
    by (simp add: EncodeEntryListForDataAndData_def encodeList_def)
  then have "\<forall>(k, v) \<in> set es. addFrames [EncodeAny api k, EncodeAny api v] \<noteq> None"
    by (simp add: addFrames_defined list_all_iff case_prod_beta' del: not_None_eq)
  then show "holdData es" unfolding holdData_def addFrames_defined
    by (fastforce simp: EncodeAny_iff simp del: not_None_eq)
qed

lemma entries_wrong:
  "es \<noteq> [] \<Longrightarrow> EncodeEntryListForDataAndData api es = Some fs \<Longrightarrow> DecodeEntryListForDataAndData api (fs @ rest) = Decoded [] (drop 2 fs @ rest)"
proof -
  assume es: "es \<noteq> []" "EncodeEntryListForDataAndData api es = Some fs"
  have "holdData es" using es(2) by (rule entries_hold)
  with es entries_frames [of es] obtain hs where hs: "fs = fa_BeginFrame api # hs @ [fa_EndFrame api]" "length hs = 2 * length es"
      "\<not> fa_IsEndFrame api (hd hs)" by auto
  then obtain f gs where f: "hs = f # gs" using es(1) by (cases hs) auto
  then have "whileEnd api dec (f # gs') = Decoded [] (f # gs')" for dec :: "('f, goAny \<times> goAny) decoder" and gs'
    using hs(3) by (simp add: whileEnd.simps [of _ _ "f # _"])
  then show ?thesis using hs(1) f by (simp add: DecodeEntryListForDataAndData_def bindD_Decoded)
qed

lemma no_entries_wrong: "EncodeEntryListForDataAndData api [] = Some fs \<Longrightarrow> DecodeEntryListForDataAndData api fs = Exhausted"
  by (auto simp: EncodeEntryListForDataAndData_def encodeList_def frame_simps DecodeEntryListForDataAndData_def
      bindD_def [of "whileEnd _ _"] whileEnd.simps DecodeData_def bindD_def [of NextD] NextD_def)

end

text \<open>C17: The decoder of an entry list runs its loop while the next frame is the end frame. On the
  encoding of a non-empty list it returns no entry and leaves all frames after the first key, the end
  frame included, to whatever reads next; on the encoding of the empty list it reads the end frame as
  a key and runs past the end of the message.\<close>

theorem entry_list_read_wrong:
  assumes "client_frames api" and "EncodeEntryListForDataAndData api es = Some fs"
  shows "(es \<noteq> [] \<longrightarrow> DecodeEntryListForDataAndData api (fs @ rest) = Decoded [] (drop 2 fs @ rest) \<and> length (drop 2 fs) = 2 * length es)
    \<and> (es = [] \<longrightarrow> DecodeEntryListForDataAndData api fs = Exhausted)"
  using assms client_frames.entries_frames [OF assms(1) client_frames.entries_hold [OF assms]]
  by (auto simp: client_frames.entries_wrong client_frames.no_entries_wrong)

theorem entry_list_read_wrong_witness:
  "\<exists>fs. EncodeEntryListForDataAndData plainFrames [(DataValue (Some [1]), DataValue (Some [2]))] = Some fs
     \<and> DecodeEntryListForDataAndData plainFrames fs = Decoded [] (drop 2 fs) \<and> length (drop 2 fs) = 2"
  using plain.entries_frames [of "[(DataValue (Some [1]), DataValue (Some [2]))]"]
    entry_list_read_wrong [OF plain.client_frames_axioms, of "[(DataValue (Some [1]), DataValue (Some [2]))]" _ "[]"]
  by (auto simp: holdData_def holdsData_def)

subsection \<open>Requests\<close>

text \<open>\<open>staysWithin n w\<close>: \<open>w\<close> writes inside every buffer of \<open>n\<close> bytes.\<close>

definition staysWithin :: "nat \<Rightarrow> (byte list \<Rightarrow> byte list go) \<Rightarrow> bool" where
  "staysWithin n w \<longleftrightarrow> (\<forall>buf. length buf = n \<longrightarrow> (\<exists>buf'. w buf = Some buf' \<and> length buf' = n))"

lemma putBytes_within: "offset + length bs \<le> n \<Longrightarrow> staysWithin n (\<lambda>buf. putBytes buf offset bs)"
  by (auto simp: staysWithin_def putBytes_def)

lemma writes_within:
  "offset + 4 \<le> n \<Longrightarrow> staysWithin n (\<lambda>buf. EncodeInt buf offset i)"
  "offset + 8 \<le> n \<Longrightarrow> staysWithin n (\<lambda>buf. EncodeLong buf offset l)"
  "offset + 1 \<le> n \<Longrightarrow> staysWithin n (\<lambda>buf. EncodeBoolean buf offset b)"
  "offset + 1 \<le> n \<Longrightarrow> staysWithin n (\<lambda>buf. EncodeByte buf offset y)"
  by (simp_all add: EncodeInt_def EncodeLong_def EncodeBoolean_def EncodeByte_def putBytes_within)

lemma fold_within: "list_all (staysWithin n) ws \<Longrightarrow> length buf = n \<Longrightarrow> \<exists>buf'. fold (\<lambda>w b. Option.bind b w) ws (Some buf) = Some buf' \<and> length buf' = n"
  by (induction ws arbitrary: buf) (fastforce simp: staysWithin_def)+

lemma initialFrame_defined: "list_all (staysWithin n) ws \<Longrightarrow> initialFrame api n ws \<noteq> None"
  using fold_within [of n ws "replicate n 0"] by (auto simp: initialFrame_def)

lemma structured_defined: "structured api enc dec y \<Longrightarrow> enc \<noteq> None"
  by (auto simp: structured_def)

lemma list_defined: "(\<And>x. enc x \<noteq> None) \<Longrightarrow> encodeList api enc xs \<noteq> None"
  by (simp add: encodeList_def addFrames_defined list_all_iff frame_simps del: not_None_eq)

lemma nullable_list_defined: "(\<And>x. enc x \<noteq> None) \<Longrightarrow> encodeNullableList api enc v \<noteq> None"
  by (cases v) (simp_all add: encodeNullableList_def list_defined frame_simps del: not_None_eq)

lemma strings_defined:
  "EncodeString api s \<noteq> None" "EncodeNullableForString api s \<noteq> None" "EncodeNullableData api d \<noteq> None" "EncodeByteArray api bs \<noteq> None"
  "EncodeNullableForByteArray api bs \<noteq> None" "nullFrame api \<noteq> None" "beginFrame api \<noteq> None" "endFrame api \<noteq> None"
  "EncodeNullableForData api d \<noteq> None" "EncodeData api d \<noteq> None"
  by (simp_all add: EncodeString_def EncodeNullableForString_def EncodeNullableData_def EncodeByteArray_def EncodeNullableForByteArray_def
      EncodeNullableForData_def EncodeData_def frame_simps split: option.split)

lemma string_map_defined: "EncodeNullableMapForStringAndString api m \<noteq> None"
proof -
  have "EncodeMapForStringAndString api m' \<noteq> None" for m'
    unfolding EncodeMapForStringAndString_def addFrames_defined by (auto simp: list_all_iff EncodeString_def frame_simps)
  then show ?thesis by (cases m) (simp_all add: EncodeNullableMapForStringAndString_def strings_defined del: not_None_eq)
qed

locale client_messages = client_frames api
  for api :: "('f, 'u) message_api" +
  assumes uuid_size [simp]: "ma_UuidSize api = 17"
    and unfragmented [simp]: "fa_Content api (ma_UnfragmentedFrame api bs) = bs"
    and type_fits: "ma_SetMessageType api v f = None \<longleftrightarrow> length (fa_Content api f) < 4"
    and type_keeps: "ma_SetMessageType api v f = Some f' \<Longrightarrow> length (fa_Content api f') = length (fa_Content api f)"
    and partition_fits: "ma_SetPartitionId api v f = None \<longleftrightarrow> length (fa_Content api f) < ma_PartitionIDOffset api + 4"
begin

text \<open>A request is encoded exactly when its header has room and its parts are encoded.\<close>

lemma requestAt_iff:
  assumes "list_all (staysWithin n) ws"
  shows "requestAt p api r t n ws parts \<noteq> None \<longleftrightarrow> header api \<le> n \<and> list_all (\<lambda>e. e \<noteq> None) parts"
proof -
  from fold_within [OF assms, of "replicate n 0"] obtain buf where
    buf: "fold (\<lambda>w b. Option.bind b w) ws (Some (replicate n 0)) = Some buf" "length buf = n" by auto
  show ?thesis
  proof (cases "ma_SetMessageType api t (ma_UnfragmentedFrame api buf)")
    case None
    then have "n < 4" using buf(2) by (simp add: type_fits)
    with None buf show ?thesis by (simp add: requestAt_def header_def)
  next
    case (Some f)
    with buf(2) type_keeps have f: "length (fa_Content api f) = n" by fastforce
    have "requestAt p api r t n ws parts \<noteq> None \<longleftrightarrow> ma_SetPartitionId api p f \<noteq> None \<and> addFrames parts \<noteq> None"
      using Some buf by (cases "ma_SetPartitionId api p f") (simp_all add: requestAt_def)
    then show ?thesis unfolding addFrames_defined partition_fits f header_def by (simp add: not_less)
  qed
qed

lemma EncodeUUID_within: "offset + 17 \<le> n \<Longrightarrow> staysWithin n (\<lambda>buf. EncodeUUID api buf offset u)"
proof -
  assume n: "offset + 17 \<le> n"
  have "staysWithin n (\<lambda>buf. EncodeBoolean buf offset (ma_UUIDDefault api u))"
      "staysWithin n (\<lambda>buf. EncodeLong buf (offset + 1) (ma_MostSignificantBits api u))"
      "staysWithin n (\<lambda>buf. EncodeLong buf (offset + 1 + 8) (ma_LeastSignificantBits api u))"
    using n by (auto intro!: writes_within)
  then show ?thesis by (fastforce simp: staysWithin_def EncodeUUID_def)
qed

lemma structures_defined:
  "EncodeNullableForEvictionConfigHolder api ev \<noteq> None" "EncodeNullableListMultiFrameForListenerConfigHolder api ls \<noteq> None"
  "EncodeNullableForNearCacheConfigHolder api nc \<noteq> None" "EncodeNullableForWanReplicationRef api wr \<noteq> None"
  "EncodeNullableListMultiFrameForIndexConfig api ixs \<noteq> None" "EncodeNullableListMultiFrameForAttributeConfig api ats \<noteq> None"
  "EncodeNullableListMultiFrameForQueryCacheConfigHolder api qcs \<noteq> None" "EncodeNullableForHotRestartConfig api hr \<noteq> None"
  "EncodeNullableForEventJournalConfig api ej \<noteq> None" "EncodeNullableForMerkleTreeConfig api mt \<noteq> None"
  "EncodeDataPersistenceConfig api dp \<noteq> None" "EncodeTieredStoreConfig api ts \<noteq> None"
  "EncodeNullableForEncodeTimedExpiryPolicyFactoryConfig api te \<noteq> None" "EncodeNullableForMapStoreConfigHolder api ms \<noteq> None"
  unfolding EncodeNullableForEvictionConfigHolder_def EncodeNullableListMultiFrameForListenerConfigHolder_def
    EncodeNullableForNearCacheConfigHolder_def EncodeNullableForWanReplicationRef_def EncodeNullableListMultiFrameForIndexConfig_def
    EncodeNullableListMultiFrameForAttributeConfig_def EncodeNullableListMultiFrameForQueryCacheConfigHolder_def
    EncodeNullableForHotRestartConfig_def EncodeNullableForEventJournalConfig_def EncodeNullableForMerkleTreeConfig_def
    EncodeNullableForEncodeTimedExpiryPolicyFactoryConfig_def EncodeNullableForMapStoreConfigHolder_def
  by (simp_all add: structured_defined [OF EvictionConfigHolder_back] structured_defined [OF ListenerConfigHolder_back]
    structured_defined [OF NearCacheConfigHolder_back] structured_defined [OF WanReplicationRef_back]
    structured_defined [OF IndexConfig_back] structured_defined [OF AttributeConfig_back] structured_defined [OF QueryCacheConfigHolder_back]
    structured_defined [OF HotRestartConfig_back] structured_defined [OF EventJournalConfig_back] structured_defined [OF MerkleTreeConfig_back]
    structured_defined [OF DataPersistenceConfig_back] structured_defined [OF TieredStoreConfig_back]
    structured_defined [OF TimedExpiryPolicyFactoryConfig_back] nullable_list_defined strings_defined string_map_defined
    EncodeMapStoreConfigHolder_def addFrames_defined initialFrame_defined writes_within del: not_None_eq)

lemma resources_defined: "EncodeListMultiFrameResourceDefinition api rs \<noteq> None"
  unfolding EncodeListMultiFrameResourceDefinition_def
  by (rule list_defined) (simp add: EncodeResourceDefinition_def addFrames_defined initialFrame_defined writes_within strings_defined del: not_None_eq)

lemmas request_simps = requestOf_def requestAt_iff structures_defined resources_defined strings_defined writes_within EncodeUUID_within Let_def

lemma config_requests_defined:
  "EncodeDynamicConfigAddMapConfigRequest api mc \<noteq> None" "EncodeDynamicConfigAddQueueConfigRequest api q \<noteq> None"
  "EncodeDynamicConfigAddTopicConfigRequest api t \<noteq> None" "EncodeDynamicConfigAddMultiMapConfigRequest api mm \<noteq> None"
  "EncodeDynamicConfigAddReplicatedMapConfigRequest api rm \<noteq> None" "EncodeDynamicConfigAddCacheConfigRequest api cc \<noteq> None"
  "EncodeDynamicConfigAddExecutorConfigRequest api es \<noteq> None" "EncodeDynamicConfigAddDurableExecutorConfigRequest api de \<noteq> None"
  "EncodeDynamicConfigAddScheduledExecutorConfigRequest api se \<noteq> None" "EncodeDynamicConfigAddUserCodeNamespaceConfigRequest api ns \<noteq> None"
  by (simp_all add: request_simps EncodeDynamicConfigAddMapConfigRequest_def EncodeDynamicConfigAddQueueConfigRequest_def
      EncodeNullableForQueueStoreConfigHolder_def EncodeDynamicConfigAddTopicConfigRequest_def
      EncodeDynamicConfigAddMultiMapConfigRequest_def EncodeDynamicConfigAddReplicatedMapConfigRequest_def
      EncodeDynamicConfigAddCacheConfigRequest_def EncodeDynamicConfigAddExecutorConfigRequest_def
      EncodeDynamicConfigAddDurableExecutorConfigRequest_def EncodeDynamicConfigAddScheduledExecutorConfigRequest_def
      EncodeDynamicConfigAddUserCodeNamespaceConfigRequest_def del: not_None_eq)

lemma management_requests_defined:
  "EncodeMCGetMapConfigRequest api mapName \<noteq> None"
  "EncodeMCUpdateMapConfigRequest api mapName ttl maxIdle evictionPolicy readBackupData maxSize maxSizePolicy wrr \<noteq> None"
  "EncodeMCAddWanBatchPublisherConfigRequest api name target publisher endpoints qc bs md to' ack qf cons \<noteq> None"
  "EncodeMCChangeClusterStateRequest api state \<noteq> None" "EncodeMCChangeWanReplicationStateRequest api name publisher wanState \<noteq> None"
  "EncodeMCClearWanQueuesRequest api name publisher \<noteq> None" "EncodeMCWanSyncMapRequest api sync \<noteq> None"
  "EncodeMCGetClusterMetadataRequest api \<noteq> None" "EncodeMCGetMemberConfigRequest api \<noteq> None"
  "EncodeMCGetTimedMemberStateRequest api \<noteq> None" "EncodeMCTriggerHotRestartBackupRequest api \<noteq> None"
  "EncodeMCInterruptHotRestartBackupRequest api \<noteq> None" "EncodeMCPollMCEventsRequest api \<noteq> None"
  by (simp_all add: request_simps EncodeMCGetMapConfigRequest_def EncodeMCUpdateMapConfigRequest_def
      EncodeMCAddWanBatchPublisherConfigRequest_def EncodeMCChangeClusterStateRequest_def EncodeMCChangeWanReplicationStateRequest_def
      EncodeMCClearWanQueuesRequest_def EncodeMCWanSyncMapRequest_def
      EncodeMCGetClusterMetadataRequest_def EncodeMCGetMemberConfigRequest_def EncodeMCGetTimedMemberStateRequest_def
      EncodeMCTriggerHotRestartBackupRequest_def EncodeMCInterruptHotRestartBackupRequest_def EncodeMCPollMCEventsRequest_def del: not_None_eq)

lemma strings_list_defined: "EncodeListMultiFrameForString api xs \<noteq> None"
  unfolding EncodeListMultiFrameForString_def by (rule list_defined) (simp add: strings_defined del: not_None_eq)

lemma data_lists_defined: "EncodeListMultiFrameForData api ds \<noteq> None"
  unfolding EncodeListMultiFrameForData_def
  by (rule list_defined) (simp add: strings_defined del: not_None_eq)

lemma entries_defined: "EncodeEntryListForDataAndData api kvs \<noteq> None \<longleftrightarrow> holdData kvs"
  using entries_hold [of kvs] entries_frames [of kvs] by auto

lemma EncodeCacheConfigHolder_defined: "EncodeCacheConfigHolder api c \<noteq> None"
  by (simp add: EncodeCacheConfigHolder_def Let_def addFrames_defined initialFrame_defined writes_within strings_defined structures_defined
      data_lists_defined structured_defined [OF EvictionConfigHolder_back] structured_defined [OF MergePolicyConfig_back] del: not_None_eq)

lemma data_requests_defined:
  "EncodeCacheCreateConfigRequest api ch others \<noteq> None" "EncodeCacheGetConfigRequest api name simpleName \<noteq> None"
  "EncodeCachePutRequest api name ky vl policy get completion \<noteq> None \<longleftrightarrow> holdsData ky \<and> holdsData vl"
  "EncodeCachePutAllRequest api name kvs policy completion \<noteq> None \<longleftrightarrow> holdData kvs"
  "EncodeCacheGetRequest api name key policy \<noteq> None" "EncodeCacheGetAllRequest api name keys policy \<noteq> None"
  "EncodeCPGroupCreateCPGroupRequest api name \<noteq> None" "EncodeCPGroupDestroyCPObjectRequest api g service object \<noteq> None"
  "EncodeCPMapCompareAndSetRequest api g name key expected v \<noteq> None" "EncodeCPMapDeleteRequest api g name key \<noteq> None"
  "EncodeCPMapGetRequest api g name key \<noteq> None" "EncodeCPMapPutRequest api g name key v \<noteq> None"
  "EncodeCPMapRemoveRequest api g name key \<noteq> None" "EncodeCPMapSetRequest api g name key v \<noteq> None"
  "EncodeClientAuthenticationRequest api cluster user password uuid clientType version clientVersion name labels \<noteq> None"
  by (simp_all add: request_simps data_lists_defined entries_defined EncodeAny_iff strings_list_defined EncodeCacheConfigHolder_defined EncodeNullable_data_def
      structured_defined [OF RaftGroupId_back] EncodeCacheCreateConfigRequest_def EncodeCachePutRequest_def EncodeCachePutAllRequest_def
      EncodeCacheGetConfigRequest_def EncodeCacheGetRequest_def EncodeCacheGetAllRequest_def
      EncodeCPGroupCreateCPGroupRequest_def EncodeCPGroupDestroyCPObjectRequest_def EncodeCPMapCompareAndSetRequest_def
      EncodeCPMapDeleteRequest_def EncodeCPMapGetRequest_def EncodeCPMapPutRequest_def EncodeCPMapRemoveRequest_def EncodeCPMapSetRequest_def
      EncodeClientAuthenticationRequest_def del: not_None_eq)

lemma jet_requests_defined:
  "EncodeJetResumeJobRequest api jobId \<noteq> None" "EncodeJetExportSnapshotRequest api jobId snapshot cancel \<noteq> None"
  "EncodeJetTerminateJobRequest api term \<noteq> None" "EncodeJetUploadJobMetaDataRequest api meta \<noteq> None"
  "EncodeJetUploadJobMultipartRequest api session part parts bytes bytesLen \<noteq> None"
  "EncodeJetGetJobAndSqlSummaryListRequest api \<noteq> None"
  by (simp_all add: request_simps strings_list_defined EncodeJetGetJobAndSqlSummaryListRequest_def EncodeJetResumeJobRequest_def EncodeJetExportSnapshotRequest_def
      EncodeJetTerminateJobRequest_def EncodeJetUploadJobMetaDataRequest_def EncodeJetUploadJobMultipartRequest_def del: not_None_eq)

end

definition putField :: "nat \<Rightarrow> int32 \<Rightarrow> frame \<Rightarrow> frame go" where
  "putField offset v f = map_option (\<lambda>bs. f\<lparr> fr_content := bs \<rparr>) (EncodeInt (fr_content f) offset v)"

lemma putField_fits:
  "putField offset v f = None \<longleftrightarrow> length (fr_content f) < offset + 4"
  "putField offset v f = Some f' \<Longrightarrow> length (fr_content f') = length (fr_content f)"
  by (auto simp: putField_def EncodeInt_def putBytes_def leBytes_def split: if_splits)

definition plainMessages :: "(frame, uint64 \<times> uint64) message_api" where
  "plainMessages = frame_api.extend plainFrames
     \<lparr> ma_UnfragmentedFrame = (\<lambda>bs. \<lparr> fr_flags = 0xC000, fr_content = bs \<rparr>),
       ma_SetMessageType = putField 0, ma_SetPartitionId = putField 12,
       ma_PartitionIDOffset = 12, ma_ResponseBackupAcksOffset = 12, ma_UuidSize = 17,
       ma_MostSignificantBits = fst, ma_LeastSignificantBits = snd, ma_UUIDDefault = (\<lambda>u. u = (0, 0)),
       ma_NewUUIDWith = Pair, ma_ZeroUUID = (0, 0) \<rparr>"

interpretation plainM: client_messages plainMessages
  by unfold_locales (simp_all add: plainMessages_def frame_api.defs plainFrames_def map_of_range o_def putField_fits)



end
