(* ===== verification/Spec2Isabelle.thy ===== *)
theory Spec2Isabelle
  imports Hazelcast_Admission Resource_Admission Wan_Progress Cron_Safety Backup_Runs Map_Runs Jet_Runs Snapshot_Safety Ucn_Safety Sync_Safety Services_Safety Config_Safety Pods_Safety Init_Safety Hazelcast_Controller Protocol_Safety
begin

text \<open>
  A verification development of the Hazelcast Platform Operator.

  \<^bold>\<open>The program.\<close> The operator runs in a Kubernetes cluster and looks after custom resources:
  \<^verbatim>\<open>Hazelcast\<close> (a cluster of members), the structures that live on it (\<^verbatim>\<open>Map\<close>, \<^verbatim>\<open>Queue\<close>, \<^verbatim>\<open>Topic\<close>,
  \<^verbatim>\<open>MultiMap\<close>, \<^verbatim>\<open>ReplicatedMap\<close>, \<^verbatim>\<open>Cache\<close>, \<^verbatim>\<open>JetJob\<close>, \<^verbatim>\<open>UserCodeNamespace\<close>, \<^verbatim>\<open>WanReplication\<close>, \<^verbatim>\<open>WanSync\<close>) and its backups
  (\<^verbatim>\<open>HotBackup\<close>, \<^verbatim>\<open>CronHotBackup\<close>). A webhook admits or refuses every change of a resource
  (\<^verbatim>\<open>api/v1alpha1/*_validation.go\<close>). A controller per kind (\<^verbatim>\<open>internal/controller/hazelcast\<close>) is called with
  the name of a resource whenever something about it may have changed; it reads the resource,
  makes calls to the API server, to the members and to the agents beside them, and writes the
  status of the resource. Every call may fail, the resource may change between two reads, and
  the operator may be stopped between any two calls.

  \<^bold>\<open>How it is modelled.\<close> Structs are records with one field per field of the source, enumerations are
  datatypes, integers are words of their width (\<open>HZ_Prelude\<close>), a nil pointer is \<open>None\<close>, as is a nil
  slice where the code tells it from an empty one, and a computation
  that may panic has the type \<open>'a go\<close>. Code that calls out is a computation over a world which
  records the calls (\<open>Reconcile\<close> and \<open>Wan_Controller\<close> for the WAN controller; \<open>Calls\<close> and \<open>Traced\<close> for the later
  ones). The answer to a call is a parameter that may depend on everything that happened before,
  so a theorem about all answers covers all failures and all changes made by others. Code outside
  the repository (Kubernetes, JSON, YAML, sorting, the members) is a field of an environment
  record; where a theorem needs a property of it, the property is a hypothesis, and the witness
  instantiates it.

  \<^bold>\<open>The theories\<close>, with the files under \<^verbatim>\<open>src/\<close> they model:

  \<^item> \<open>HZ_Prelude\<close>, \<open>Go_Regexp\<close>: integer types, panics, the functions of the Go library that are used;
    regular expressions with a matcher proved equal to their language.
  \<^item> \<open>Api_Types\<close>, \<open>Api_Resources\<close>: the types of \<^verbatim>\<open>api/v1alpha1\<close> and their methods. \<open>Samples\<close>: concrete resources
    for the witnesses.
  \<^item> \<open>Field_Validation\<close>, \<open>Hazelcast_Validation\<close>, \<open>Resource_Validation\<close>: the validators
    (\<^verbatim>\<open>field_validation.go\<close>, \<^verbatim>\<open>hazelcast_validation.go\<close>, \<^verbatim>\<open>map_validation.go\<close>, \<^verbatim>\<open>jetjob_validation.go\<close> and the others).
    A validator is a step on the list of errors; the locale \<open>validation_step\<close> states that a step only
    adds errors, which every validator is shown to satisfy. \<open>Hazelcast_Admission\<close> (C1--C3) and
    \<open>Resource_Admission\<close> (C15, C16) say exactly what is admitted.
  \<^item> \<open>Reconcile\<close>: errors, results and options of \<^verbatim>\<open>internal/controller\<close>. \<open>Status\<close>: the status writers and the
    member lists of the status (\<^verbatim>\<open>*_status.go\<close>, \<^verbatim>\<open>typed_member_state.go\<close>, \<^verbatim>\<open>pod_error.go\<close>).
  \<^item> \<open>Wan_Names\<close> (C18), \<open>Wan_Controller\<close>, \<open>Wan_Safety\<close> (C19, C20), \<open>Wan_Progress\<close> (C21): WAN replication
    (\<^verbatim>\<open>wanreplication_controller.go\<close>, \<^verbatim>\<open>wan_resources.go\<close>). The order in which a replication is taken
    down is an abstract plan that the code refines; the locale \<open>wan_invariant\<close> carries an invariant of
    the calls through the whole reconciliation.
  \<^item> \<open>Calls\<close>, \<open>Traced\<close>: computations with in-memory state and a trace of calls; the rules by which a
    bound on the calls, or a condition on what happened before a call, follows the computation.
  \<^item> \<open>Cron_Backup\<close>, \<open>Cron_Safety\<close> (C22, C23): \<^verbatim>\<open>cronhotbackup_controller.go\<close>, with the schedules in memory as a
    state machine whose steps are reconciliations, jobs and restarts.
  \<^item> \<open>Member_Backup\<close> (C24), \<open>Hot_Backup\<close>, \<open>Backup_Safety\<close> (C25--C27), \<open>Backup_Runs\<close>: \<^verbatim>\<open>hot_backup_controller.go\<close>,
    \<^verbatim>\<open>internal/backup\<close>, \<^verbatim>\<open>internal/upload\<close>, \<^verbatim>\<open>internal/local_backup\<close>.
  \<^item> \<open>Config_Types\<close>, \<open>Codec_Inputs\<close>, \<open>Config_Generation\<close>: the configuration of a cluster
    (\<^verbatim>\<open>internal/config/hazelcast.go\<close>), the arguments of the messages that change a running cluster
    (\<^verbatim>\<open>internal/protocol/types\<close>), and the functions that compute both from the resources
    (\<^verbatim>\<open>hazelcast_resources.go\<close>, \<^verbatim>\<open>map_controller.go\<close>).
  \<^item> \<open>Ds_Controller\<close>, \<open>Ds_Safety\<close> (C30), \<open>Map_Controller\<close>, \<open>Map_Safety\<close> (C28, C29), \<open>Map_Runs\<close>: the
    controllers of the data structures. The five kinds besides Map share their code; what the
    shared code needs of a kind is the locale \<open>ds_kind\<close>, interpreted for each of them.
  \<^item> \<open>Jet_Controller\<close>, \<open>Jet_Safety\<close> (C31, C32), \<open>Jet_Runs\<close>: the JetJob controller and the checker that watches the
    jobs of a cluster (\<^verbatim>\<open>jetjob_controller.go\<close>, \<^verbatim>\<open>jetjob_status.go\<close>). \<open>Jet_Snapshot\<close>, \<open>Snapshot_Safety\<close> (C33, C34): the
    JetJobSnapshot controller (\<^verbatim>\<open>jetjobsnapshot_controller.go\<close>); reconciliations and goroutines are the
    steps of a state machine.
  \<^item> \<open>Ucn_Controller\<close>, \<open>Ucn_Safety\<close> (C35): the UserCodeNamespace controller. \<open>Wan_Sync\<close>, \<open>Sync_Safety\<close> (C36--C38): the WanSync
    controller and the service behind it (\<^verbatim>\<open>wansync_controller.go\<close>, \<^verbatim>\<open>wan_sync_service.go\<close>).
  \<^item> \<open>Kube_Objects\<close>, \<open>Cluster_Services\<close>, \<open>Hazelcast_Deletion\<close>, \<open>Deletion_Safety\<close> (C12),
    \<open>Services_Safety\<close> (C13, C14): the Kubernetes objects of a cluster, the accounts, roles, services and
    endpoints made for it, and the deletion of a cluster (\<^verbatim>\<open>hazelcast_resources.go\<close>,
    \<^verbatim>\<open>hazelcast_controller.go\<close>, \<^verbatim>\<open>internal/util/util.go\<close>). The writers of the three kinds of services
    share the locale \<open>service_writer\<close>.
  \<^item> \<open>Pod_Types\<close>: the Kubernetes types of pods, claims and StatefulSets. \<open>Cluster_Config\<close>, \<open>Config_Safety\<close> (C4--C6): the whole
    configuration of a cluster (\<^verbatim>\<open>hazelcastConfig\<close>, with the merge of the user's own configuration) and the part of it whose
    change restarts the members. \<open>Cluster_Pods\<close>, \<open>Pods_Safety\<close> (C7--C9): the StatefulSet with its containers, ports,
    volumes and claims. \<open>Init_Config\<close>, \<open>Init_Safety\<close> (C10, C11): what the init container downloads and restores.
  \<^item> \<open>Hazelcast_Controller\<close>: the reconciliation of a cluster from the first read to the last status, with the Secret, the
    key store, the failing pods and the registries of clients and status services
    (\<^verbatim>\<open>hazelcast_controller.go\<close>, \<^verbatim>\<open>internal/hazelcast-client\<close>).
  \<^item> \<open>Client_Frames\<close>, \<open>Config_Codecs\<close>, \<open>Request_Codecs\<close>, \<open>Data_Codecs\<close>, \<open>Codec_Roundtrip\<close>, \<open>Protocol_Safety\<close> (C17, C39, C40): the
    messages of the client protocol (\<^verbatim>\<open>internal/protocol/codec\<close>). The frames are those of the Go client;
    the laws the codecs rely on are the locales \<open>client_frames\<close> and \<open>client_messages\<close>.

  \<^bold>\<open>Loops and bounds.\<close> Loops over lists are structural recursion. The status writer of HotBackup
  (\<open>statusLoop\<close>), the wait for a member, the poll of an upload and the wait for a synchronisation may run for ever in the
  program and are partial functions into \<open>option\<close>; \<open>member_wait\<close> (C24) and \<open>sync_wait_bounded\<close> (C36) say when the waits
  return. The retries of
  \<^verbatim>\<open>retry.RetryOnConflict\<close> and of the backup are bounded by numbers of the environment, and no theorem
  depends on their values. The goroutines of a group run one after the other in an order that is a
  parameter; their effects on shared slices are in the order of that list.

  \<^bold>\<open>Not modelled.\<close> The ManagementCenter controller and phone home have no counterpart here, nor has the
  generation of the certificates that the operator and the agents share. Registration with the
  manager, watches, logging, HTTP, TLS and the developer tools are input and output only.
\<close>

end
